(* ===== verification/Prelude.thy ===== *)
theory Prelude
  imports Main "HOL-Library.Word"
begin

text \<open>
  Shared vocabulary of the development: the machine-integer types of the C code, the
  big-endian readers and writers the codecs use, fixed-buffer writes, bounded C strings and
  first-match searches over fixed arrays. The lemmas here are the only place where words are
  taken apart into bits.
\<close>

unbundle bit_operations_syntax

type_synonym u8 = "8 word"
type_synonym u16 = "16 word"
type_synonym u32 = "32 word"
type_synonym u64 = "64 word"

named_theorems wire_simps \<open>lengths and round trips of the byte-level readers and writers\<close>
named_theorems fifo_simps \<open>facts about the circular queues\<close>

section \<open>Big-endian integers in byte buffers\<close>

definition read_u16_be :: "u8 list \<Rightarrow> nat \<Rightarrow> u16" where
  "read_u16_be src off = (push_bit 8 (ucast (src ! off)) OR ucast (src ! (off + 1)))"

definition read_u32_be :: "u8 list \<Rightarrow> nat \<Rightarrow> u32" where
  "read_u32_be src off =
     (push_bit 24 (ucast (src ! off)) OR push_bit 16 (ucast (src ! (off + 1))) OR
      push_bit 8 (ucast (src ! (off + 2))) OR ucast (src ! (off + 3)))"

definition read_u64_be :: "u8 list \<Rightarrow> nat \<Rightarrow> u64" where
  "read_u64_be src off =
     (push_bit 56 (ucast (src ! off)) OR push_bit 48 (ucast (src ! (off + 1))) OR
      push_bit 40 (ucast (src ! (off + 2))) OR push_bit 32 (ucast (src ! (off + 3))) OR
      push_bit 24 (ucast (src ! (off + 4))) OR push_bit 16 (ucast (src ! (off + 5))) OR
      push_bit 8 (ucast (src ! (off + 6))) OR ucast (src ! (off + 7)))"

text \<open>The writers return the bytes that the C code stores at consecutive addresses.\<close>

definition write_u16_be :: "u16 \<Rightarrow> u8 list" where
  "write_u16_be v = [ucast (drop_bit 8 v AND 0xff), ucast (v AND 0xff)]"

definition write_u32_be :: "u32 \<Rightarrow> u8 list" where
  "write_u32_be v =
     [ucast (drop_bit 24 v AND 0xff), ucast (drop_bit 16 v AND 0xff),
      ucast (drop_bit 8 v AND 0xff), ucast (v AND 0xff)]"

definition write_u64_be :: "u64 \<Rightarrow> u8 list" where
  "write_u64_be v =
     [ucast (drop_bit 56 v AND 0xff), ucast (drop_bit 48 v AND 0xff),
      ucast (drop_bit 40 v AND 0xff), ucast (drop_bit 32 v AND 0xff),
      ucast (drop_bit 24 v AND 0xff), ucast (drop_bit 16 v AND 0xff),
      ucast (drop_bit 8 v AND 0xff), ucast (v AND 0xff)]"

lemma length_write_be [simp, wire_simps]:
  "length (write_u16_be v) = 2" "length (write_u32_be w) = 4" "length (write_u64_be x) = 8"
  by (simp_all add: write_u16_be_def write_u32_be_def write_u64_be_def)

text \<open>Bit \<open>n\<close> of the byte cut out at bit \<open>k\<close> and put back there.\<close>

lemma bit_byte_at:
  fixes v :: "'a::len word"
  shows "bit (push_bit k (ucast (ucast (drop_bit k v AND 0xff) :: u8)) :: 'a word) n \<longleftrightarrow>
    k \<le> n \<and> n < k + 8 \<and> bit v n"
proof -
  have "(drop_bit k v AND 0xff) = take_bit 8 (drop_bit k v)"
    by (simp add: take_bit_eq_mask mask_eq_exp_minus_1)
  then show ?thesis
    by (auto simp: bit_simps dest: bit_imp_le_length)
qed

lemma bit_byte_0:
  fixes v :: "'a::len word"
  shows "bit (ucast (ucast (v AND 0xff) :: u8) :: 'a word) n \<longleftrightarrow> n < 8 \<and> bit v n"
  using bit_byte_at [of 0 v n] by simp

lemma read_write_u16_bytes: "read_u16_be (write_u16_be v) 0 = v"
proof (rule bit_word_eqI)
  fix n assume "n < LENGTH(16)"
  then show "bit (read_u16_be (write_u16_be v) 0) n \<longleftrightarrow> bit v n"
    by (simp add: read_u16_be_def write_u16_be_def bit_or_iff bit_byte_at bit_byte_0
        del: bit_push_bit_iff) arith
qed

lemma read_write_u32_bytes: "read_u32_be (write_u32_be v) 0 = v"
proof (rule bit_word_eqI)
  fix n assume "n < LENGTH(32)"
  then show "bit (read_u32_be (write_u32_be v) 0) n \<longleftrightarrow> bit v n"
    by (simp add: read_u32_be_def write_u32_be_def bit_or_iff bit_byte_at bit_byte_0
        numeral_2_eq_2 [symmetric] numeral_3_eq_3 [symmetric] del: bit_push_bit_iff) arith
qed

lemma read_write_u64_bytes: "read_u64_be (write_u64_be v) 0 = v"
proof (rule bit_word_eqI)
  fix n assume "n < LENGTH(64)"
  then show "bit (read_u64_be (write_u64_be v) 0) n \<longleftrightarrow> bit v n"
    by (simp add: read_u64_be_def write_u64_be_def bit_or_iff bit_byte_at bit_byte_0
       del: bit_push_bit_iff) arith
qed

lemma read_u16_skip [wire_simps]:
  "length xs \<le> off \<Longrightarrow> read_u16_be (xs @ ys) off = read_u16_be ys (off - length xs)"
  by (simp add: read_u16_be_def nth_append Suc_diff_le)

lemma read_u32_skip [wire_simps]:
  "length xs \<le> off \<Longrightarrow> read_u32_be (xs @ ys) off = read_u32_be ys (off - length xs)"
  by (simp add: read_u32_be_def nth_append Suc_diff_le)

lemma read_u64_skip [wire_simps]:
  "length xs \<le> off \<Longrightarrow> read_u64_be (xs @ ys) off = read_u64_be ys (off - length xs)"
  by (simp add: read_u64_be_def nth_append Suc_diff_le)

lemma read_be_Cons [wire_simps]:
  "0 < off \<Longrightarrow> read_u16_be (x # xs) off = read_u16_be xs (off - 1)"
  "0 < off \<Longrightarrow> read_u32_be (x # xs) off = read_u32_be xs (off - 1)"
  "0 < off \<Longrightarrow> read_u64_be (x # xs) off = read_u64_be xs (off - 1)"
  using read_u16_skip [of "[x]" off xs] read_u32_skip [of "[x]" off xs] read_u64_skip [of "[x]" off xs]
  by simp_all

lemma read_u16_prefix: "off + 2 \<le> length xs \<Longrightarrow> read_u16_be (xs @ ys) off = read_u16_be xs off"
  by (simp add: read_u16_be_def nth_append)

lemma read_u32_prefix: "off + 4 \<le> length xs \<Longrightarrow> read_u32_be (xs @ ys) off = read_u32_be xs off"
  by (simp add: read_u32_be_def nth_append)

lemma read_u64_prefix: "off + 8 \<le> length xs \<Longrightarrow> read_u64_be (xs @ ys) off = read_u64_be xs off"
  by (simp add: read_u64_be_def nth_append)

lemma read_write_be [simp, wire_simps]:
  "read_u16_be (write_u16_be v @ ys) 0 = v"
  "read_u32_be (write_u32_be w @ ys) 0 = w"
  "read_u64_be (write_u64_be x @ ys) 0 = x"
  by (simp_all add: read_u16_prefix read_u32_prefix read_u64_prefix
      read_write_u16_bytes read_write_u32_bytes read_write_u64_bytes)

lemma read_write_be_Nil [simp, wire_simps]:
  "read_u16_be (write_u16_be v) 0 = v"
  "read_u32_be (write_u32_be w) 0 = w"
  "read_u64_be (write_u64_be x) 0 = x"
  by (simp_all add: read_write_u16_bytes read_write_u32_bytes read_write_u64_bytes)

section \<open>Copies between buffers\<close>

text \<open>\<open>memcpy(dst, src + off, n)\<close> reads a slice; \<open>memcpy(dst + off, src, n)\<close> overwrites one.\<close>

definition slice :: "nat \<Rightarrow> nat \<Rightarrow> 'a list \<Rightarrow> 'a list" where
  "slice off n xs = take n (drop off xs)"

definition write_at :: "nat \<Rightarrow> 'a list \<Rightarrow> 'a list \<Rightarrow> 'a list" where
  "write_at off bs buf = take off buf @ bs @ drop (off + length bs) buf"

lemma length_slice [simp, wire_simps]:
  "off + n \<le> length xs \<Longrightarrow> length (slice off n xs) = n"
  by (simp add: slice_def)

lemma length_write_at [simp, wire_simps]:
  "off + length bs \<le> length buf \<Longrightarrow> length (write_at off bs buf) = length buf"
  by (simp add: write_at_def)

lemma slice_skip [wire_simps]:
  "length xs \<le> off \<Longrightarrow> slice off n (xs @ ys) = slice (off - length xs) n ys"
  by (simp add: slice_def)

lemma slice_Cons [wire_simps]: "0 < off \<Longrightarrow> slice off n (x # xs) = slice (off - 1) n xs"
  using slice_skip [of "[x]" off n xs] by simp

lemma slice_exact [simp, wire_simps]: "n = length xs \<Longrightarrow> slice 0 n (xs @ ys) = xs"
  by (simp add: slice_def)

lemma slice_all [simp, wire_simps]: "n = length xs \<Longrightarrow> slice 0 n xs = xs"
  by (simp add: slice_def)

text \<open>Filling a zeroed buffer from left to right is concatenation.\<close>

lemma write_at_append:
  "off = length xs \<Longrightarrow> write_at off bs (xs @ ys) = xs @ bs @ drop (length bs) ys"
  by (simp add: write_at_def)

section \<open>Bounded C strings\<close>

text \<open>
  A \<open>char[64]\<close> field is modelled by the C string it holds. Copying into it with
  \<open>memcpy\<close> and forcing the last byte to NUL, or with \<open>strncpy(dst, src, 63)\<close> on a
  zeroed buffer, keeps at most the first 63 characters.
\<close>

definition cstr63 :: "string \<Rightarrow> string" where
  "cstr63 s = take 63 s"

lemma cstr63_id [simp]: "length s \<le> 63 \<Longrightarrow> cstr63 s = s"
  by (simp add: cstr63_def)

lemma length_cstr63 [simp]: "length (cstr63 s) \<le> 63"
  by (simp add: cstr63_def)

lemma cstr63_idem [simp]: "cstr63 (cstr63 s) = cstr63 s"
  by (simp add: cstr63_def)

section \<open>First match in a fixed array\<close>

text \<open>
  \<open>for (i = 0; i < N; ++i) if (P(a[i])) return i;\<close> over an array of length \<open>N\<close>.
\<close>

fun find_idx :: "('a \<Rightarrow> bool) \<Rightarrow> 'a list \<Rightarrow> nat option" where
  "find_idx P [] = None"
| "find_idx P (x # xs) = (if P x then Some 0 else map_option Suc (find_idx P xs))"

lemma find_idx_None: "find_idx P xs = None \<longleftrightarrow> (\<forall>x \<in> set xs. \<not> P x)"
  by (induction xs) auto

lemma find_idx_Some:
  "find_idx P xs = Some i \<longleftrightarrow> i < length xs \<and> P (xs ! i) \<and> (\<forall>j < i. \<not> P (xs ! j))"
proof (induction xs arbitrary: i)
  case Nil
  then show ?case by simp
next
  case (Cons x xs)
  show ?case
    by (cases i) (auto simp: Cons.IH nth_Cons' less_Suc_eq_0_disj)
qed

lemma find_idx_SomeD:
  assumes "find_idx P xs = Some i"
  shows "i < length xs" "P (xs ! i)" "\<And>j. j < i \<Longrightarrow> \<not> P (xs ! j)" "xs ! i \<in> set xs"
  using assms by (auto simp: find_idx_Some)

lemma find_idx_cong: "(\<And>x. x \<in> set xs \<Longrightarrow> P x = Q x) \<Longrightarrow> find_idx P xs = find_idx Q xs"
  by (induction xs) auto

lemma find_idx_ex: "\<exists>x \<in> set xs. P x \<Longrightarrow> \<exists>i. find_idx P xs = Some i"
  by (meson find_idx_None option.exhaust)

section \<open>Counting slots of an array\<close>

definition count_if :: "('a \<Rightarrow> bool) \<Rightarrow> 'a list \<Rightarrow> nat" where
  "count_if P xs = length (filter P xs)"

lemma count_if_le: "count_if P xs \<le> length xs"
  by (simp add: count_if_def)

lemma count_if_Nil [simp]: "count_if P [] = 0"
  by (simp add: count_if_def)

lemma count_if_Cons [simp]: "count_if P (x # xs) = (if P x then 1 else 0) + count_if P xs"
  by (simp add: count_if_def)

lemma count_if_update:
  "i < length xs \<Longrightarrow>
   count_if P (xs[i := x]) + (if P (xs ! i) then 1 else 0) = count_if P xs + (if P x then 1 else 0)"
proof (induction xs arbitrary: i)
  case Nil
  then show ?case by simp
next
  case (Cons y ys)
  show ?case
  proof (cases i)
    case 0
    then show ?thesis by simp
  next
    case (Suc j)
    with Cons.prems Cons.IH [of j] show ?thesis by simp
  qed
qed

lemma count_if_pos: "i < length xs \<Longrightarrow> P (xs ! i) \<Longrightarrow> 0 < count_if P xs"
  by (auto simp: count_if_def filter_empty_conv intro: nth_mem)

lemma count_if_replicate [simp]: "count_if P (replicate n x) = (if P x then n else 0)"
  by (simp add: count_if_def)

lemma count_if_full: "count_if P xs = length xs \<longleftrightarrow> (\<forall>x \<in> set xs. P x)"
proof (induction xs)
  case Nil
  then show ?case by simp
next
  case (Cons x xs)
  have "count_if P xs \<le> length xs" by (rule count_if_le)
  with Cons.IH show ?case by auto
qed

lemma count_if_zero: "count_if P xs = 0 \<longleftrightarrow> (\<forall>x \<in> set xs. \<not> P x)"
  by (auto simp: count_if_def filter_empty_conv)

section \<open>Increments that do not wrap\<close>

lemma word_less_inc:
  fixes x :: "'a::len word"
  assumes "x < - 1"
  shows "x < x + 1 \<and> x + 1 \<noteq> 0"
proof -
  from assms have "1 + x \<noteq> 0" using max_word_wrap [of x] by (auto simp: add.commute)
  then show ?thesis using unatSuc [of x] by (simp add: word_less_nat_alt add.commute)
qed

end
