(* ===== verification/Ring_Queue.thy ===== *)
theory Ring_Queue
  imports Prelude
begin

text \<open>
  Circular queues. The program has three of them, written out separately:
  \<open>m7mux/ingress\<close>, \<open>m7mux/egress\<close> and \<open>siglatch/app/daemon/job.c\<close>. This theory
  holds what they share: the arithmetic of a ring of slots with head, tail and count, and the
  contract of a bounded FIFO queue as a locale, whose client lemma says that any sequence of
  pushes and pops returns what a bounded list would.
\<close>

section \<open>The arithmetic of a ring\<close>

definition ring_items :: "'a list \<Rightarrow> nat \<Rightarrow> nat \<Rightarrow> 'a list" where
  "ring_items slots h c = map (\<lambda>k. slots ! ((h + k) mod length slots)) [0..<c]"

definition ring_ok :: "nat \<Rightarrow> 'a list \<Rightarrow> nat \<Rightarrow> nat \<Rightarrow> nat \<Rightarrow> bool" where
  "ring_ok n slots h t c \<longleftrightarrow>
     length slots = n \<and> h < n \<and> c \<le> n \<and> t = (h + c) mod n"

lemma length_ring_items [simp]: "length (ring_items slots h c) = c"
  by (simp add: ring_items_def)

lemma ring_ok_init: "0 < n \<Longrightarrow> ring_ok n (replicate n z) 0 0 0"
  by (simp add: ring_ok_def)

lemma ring_items_0 [simp]: "ring_items slots h 0 = []"
  by (simp add: ring_items_def)

lemma mod_add_inj:
  fixes h j k n :: nat
  assumes "(h + j) mod n = (h + k) mod n" "j < n" "k < n"
  shows "j = k"
proof -
  have aux: "a = b" if "(h + a) mod n = (h + b) mod n" "b < n" "a \<le> b" for a b
  proof -
    have "n dvd b - a"
      using that(1,3) mod_eq_dvd_iff_nat [of "h + a" "h + b" n] by simp
    then show ?thesis
      using that(2,3) nat_dvd_not_less [of "b - a" n] by (cases "b - a = 0") auto
  qed
  show ?thesis
    using assms aux [of j k] aux [of k j] by (cases "j \<le> k") auto
qed

lemma ring_push_ok:
  assumes "ring_ok n slots h t c" "c < n"
  shows "ring_ok n (slots[t := x]) h ((t + 1) mod n) (c + 1)"
  using assms by (simp add: ring_ok_def mod_add_left_eq mod_Suc_eq)

lemma ring_push_items:
  assumes ok: "ring_ok n slots h t c" and lt: "c < n"
  shows "ring_items (slots[t := x]) h (c + 1) = ring_items slots h c @ [x]"
proof -
  have n: "length slots = n" and t: "t = (h + c) mod n" and "0 < n"
    using ok lt by (auto simp: ring_ok_def)
  have "t \<noteq> (h + k) mod n" if "k < c" for k
    using that lt mod_add_inj [of h c n k] t by auto
  then show ?thesis
    using \<open>0 < n\<close> by (simp add: ring_items_def n t)
qed

lemma ring_pop_ok:
  assumes "ring_ok n slots h t c" "0 < c"
  shows "ring_ok n (slots[h := z]) ((h + 1) mod n) t (c - 1)"
proof -
  obtain d where "c = Suc d" using assms(2) by (cases c) auto
  then have "((h + 1) mod n + (c - 1)) mod n = (h + c) mod n"
    using mod_add_left_eq [of "h + 1" n d] by simp
  with assms show ?thesis by (auto simp: ring_ok_def)
qed

lemma ring_pop_items:
  assumes ok: "ring_ok n slots h t c" and pos: "0 < c"
  shows "ring_items slots h c =
    slots ! h # ring_items (slots[h := z]) ((h + 1) mod n) (c - 1)"
proof -
  have n: "length slots = n" and h: "h < n" and cn: "c \<le> n"
    using ok by (auto simp: ring_ok_def)
  obtain d where c: "c = Suc d" using pos by (cases c) auto
  have "h \<noteq> (h + Suc k) mod n" if "k < d" for k
    using that cn c h mod_add_inj [of h 0 n "Suc k"] by auto
  then have *: "slots[h := z] ! (((h + 1) mod n + k) mod n) = slots ! ((h + Suc k) mod n)" if "k < d" for k
    using that h by (simp add: mod_add_left_eq n)
  have "[0..<c] = 0 # map Suc [0..<d]"
    by (simp add: c upt_conv_Cons map_Suc_upt)
  then show ?thesis
    using h * by (simp add: ring_items_def n c o_def)
qed

lemma ring_nonempty: "ring_ok n slots h t c \<Longrightarrow> ring_items slots h c = [] \<longleftrightarrow> c = 0"
  by (metis length_0_conv length_ring_items)

section \<open>The contract of a bounded FIFO queue\<close>

datatype 'a queue_op = Push 'a | Pop

datatype 'a queue_result = Pushed bool | Popped "'a option"

text \<open>Running operations against a concrete queue, and against the specification: a list.\<close>

fun queue_run ::
  "('q \<Rightarrow> 'a \<Rightarrow> bool \<times> 'q) \<Rightarrow> ('q \<Rightarrow> 'b option \<times> 'q) \<Rightarrow> 'q \<Rightarrow> 'a queue_op list \<Rightarrow>
   'b queue_result list \<times> 'q" where
  "queue_run push pop q [] = ([], q)"
| "queue_run push pop q (Push x # xs) =
     (let (b, q') = push q x; (rs, q'') = queue_run push pop q' xs in (Pushed b # rs, q''))"
| "queue_run push pop q (Pop # xs) =
     (let (r, q') = pop q; (rs, q'') = queue_run push pop q' xs in (Popped r # rs, q''))"

fun list_run ::
  "nat \<Rightarrow> ('a \<Rightarrow> bool) \<Rightarrow> ('a \<Rightarrow> 'b) \<Rightarrow> 'b list \<Rightarrow> 'a queue_op list \<Rightarrow>
   'b queue_result list \<times> 'b list" where
  "list_run cap acc norm l [] = ([], l)"
| "list_run cap acc norm l (Push x # xs) =
     (let ok = (length l < cap \<and> acc x);
          (rs, l') = list_run cap acc norm (if ok then l @ [norm x] else l) xs
      in (Pushed ok # rs, l'))"
| "list_run cap acc norm l (Pop # xs) =
     (case l of
        [] \<Rightarrow> let (rs, l') = list_run cap acc norm [] xs in (Popped None # rs, l')
      | y # ys \<Rightarrow> let (rs, l') = list_run cap acc norm ys xs in (Popped (Some y) # rs, l'))"

locale bounded_fifo =
  fixes push :: "'q \<Rightarrow> 'a \<Rightarrow> bool \<times> 'q"
    and pop :: "'q \<Rightarrow> 'b option \<times> 'q"
    and items :: "'q \<Rightarrow> 'b list"
    and ok :: "'q \<Rightarrow> bool"
    and cap :: nat
    and acc :: "'a \<Rightarrow> bool"
    and norm :: "'a \<Rightarrow> 'b"
  assumes push_refused: "ok q \<Longrightarrow> \<not> (length (items q) < cap \<and> acc x) \<Longrightarrow> \<not> fst (push q x)"
    and push_refused_items: "ok q \<Longrightarrow> \<not> (length (items q) < cap \<and> acc x) \<Longrightarrow>
        items (snd (push q x)) = items q"
    and push_refused_ok: "ok q \<Longrightarrow> \<not> (length (items q) < cap \<and> acc x) \<Longrightarrow> ok (snd (push q x))"
    and push_taken: "ok q \<Longrightarrow> length (items q) < cap \<Longrightarrow> acc x \<Longrightarrow> fst (push q x)"
    and push_items: "ok q \<Longrightarrow> length (items q) < cap \<Longrightarrow> acc x \<Longrightarrow>
        items (snd (push q x)) = items q @ [norm x]"
    and push_ok: "ok q \<Longrightarrow> length (items q) < cap \<Longrightarrow> acc x \<Longrightarrow> ok (snd (push q x))"
    and pop_empty: "ok q \<Longrightarrow> items q = [] \<Longrightarrow> fst (pop q) = None"
    and pop_empty_items: "ok q \<Longrightarrow> items q = [] \<Longrightarrow> items (snd (pop q)) = []"
    and pop_head: "ok q \<Longrightarrow> items q = y # ys \<Longrightarrow> fst (pop q) = Some y"
    and pop_items: "ok q \<Longrightarrow> items q = y # ys \<Longrightarrow> items (snd (pop q)) = ys"
    and pop_ok: "ok q \<Longrightarrow> ok (snd (pop q))"
    and bounded: "ok q \<Longrightarrow> length (items q) \<le> cap"
begin

lemma push_any_ok: "ok q \<Longrightarrow> ok (snd (push q x))"
  using push_refused_ok [of q x] push_ok [of q x] by (cases "length (items q) < cap \<and> acc x") auto

lemma push_result: "ok q \<Longrightarrow> fst (push q x) \<longleftrightarrow> length (items q) < cap \<and> acc x"
  using push_refused [of q x] push_taken [of q x] by blast

text \<open>Every run is a run of the bounded list: same results, same contents at the end.\<close>

lemma run_refines:
  assumes "ok q"
  shows "fst (queue_run push pop q xs) = fst (list_run cap acc norm (items q) xs)
    \<and> items (snd (queue_run push pop q xs)) = snd (list_run cap acc norm (items q) xs)
    \<and> ok (snd (queue_run push pop q xs))"
  using assms
proof (induction xs arbitrary: q)
  case Nil
  then show ?case by simp
next
  case (Cons a xs)
  show ?case
  proof (cases a)
    case (Push x)
    obtain b q' where p: "push q x = (b, q')" by fastforce
    have ok': "ok q'" using push_any_ok [OF Cons.prems, of x] p by simp
    show ?thesis
    proof (cases "length (items q) < cap \<and> acc x")
      case True
      with push_taken [OF Cons.prems] push_items [OF Cons.prems] p
      have "b" "items q' = items q @ [norm x]" by fastforce+
      with True Push p Cons.IH [OF ok'] show ?thesis
        by (auto simp: Let_def split: prod.splits)
    next
      case False
      with push_refused [OF Cons.prems, of x] push_refused_items [OF Cons.prems, of x] p
      have "\<not> b" "items q' = items q" by auto
      with False Push p Cons.IH [OF ok'] show ?thesis
        by (auto simp: Let_def split: prod.splits)
    qed
  next
    case Pop
    obtain r q' where p: "pop q = (r, q')" by fastforce
    have ok': "ok q'" using pop_ok [OF Cons.prems] p by simp
    show ?thesis
    proof (cases "items q")
      case Nil
      with pop_empty [OF Cons.prems] pop_empty_items [OF Cons.prems] p
      have "r = None" "items q' = []" by auto
      with Nil Pop p Cons.IH [OF ok'] show ?thesis
        by (auto simp: Let_def split: prod.splits)
    next
      case (Cons y ys)
      with pop_head [OF Cons.prems] pop_items [OF Cons.prems] p
      have "r = Some y" "items q' = ys" by fastforce+
      with Cons Pop p Cons.IH [OF ok'] show ?thesis
        by (auto simp: Let_def split: prod.splits)
    qed
  qed
qed

end

end
