(* ===== verification/Wire_Types.thy ===== *)
theory Wire_Types
  imports Prelude
begin

text \<open>
  The data that crosses module boundaries: the structs of
  \<open>stdlib/protocol/udp/m7mux/normalize/normalize.h\<close>, \<open>ingress/ingress.h\<close>,
  \<open>outbox/outbox.h\<close> and of \<open>shared/knock/codec/{normalized,user}.h\<close>, with the
  heap of user blocks that \<open>calloc\<close> and \<open>free\<close> manage for received packets.

  Conventions. A C buffer with its length field is one byte list (\<open>in_buffer\<close> is
  \<open>buffer[0 .. len - 1]\<close>); a \<open>char[64]\<close> is the string it holds; an \<open>int\<close> used
  as a flag is a \<open>bool\<close>; ids, counters and times keep their width.
\<close>

section \<open>Buffer sizes\<close>

definition M7MUX_NORMALIZED_PACKET_BUFFER_SIZE :: nat where
  "M7MUX_NORMALIZED_PACKET_BUFFER_SIZE = 1024"

definition SHARED_KNOCK_NORMALIZED_PAYLOAD_MAX :: nat where
  "SHARED_KNOCK_NORMALIZED_PAYLOAD_MAX = 1024"

definition M7MUX_USER_DATA_PAYLOAD_MAX :: nat where
  "M7MUX_USER_DATA_PAYLOAD_MAX = 199"

lemmas buffer_sizes =
  M7MUX_NORMALIZED_PACKET_BUFFER_SIZE_def SHARED_KNOCK_NORMALIZED_PAYLOAD_MAX_def
  M7MUX_USER_DATA_PAYLOAD_MAX_def

section \<open>The context of the mux\<close>

text \<open>
  \<open>M7MuxContext\<close> of \<open>m7mux.h\<close>, as the submodules read it: whether the socket, UDP and
  internal libraries are installed, and \<open>codec_context->server_secure\<close> when a codec context
  is. Each submodule keeps a copy of it in a static variable, which is an argument of its
  operations here.
\<close>

record M7MuxContext =
  mx_socket :: bool
  mx_udp :: bool
  mx_server_secure :: "bool option"
  mx_enforce_wire_decode :: bool
  mx_enforce_wire_auth :: bool
  mx_internal :: bool

definition zero_context :: M7MuxContext where
  "zero_context = \<lparr>mx_socket = False, mx_udp = False, mx_server_secure = None,
     mx_enforce_wire_decode = False, mx_enforce_wire_auth = False, mx_internal = False\<rparr>"

section \<open>Packets\<close>

record SharedKnockNormalizedUnit =
  nu_complete :: bool
  nu_wire_version :: u32
  nu_wire_form :: u8
  nu_session_id :: u64
  nu_message_id :: u64
  nu_stream_id :: u32
  nu_fragment_index :: u32
  nu_fragment_count :: u32
  nu_timestamp :: u32
  nu_user_id :: u16
  nu_action_id :: u8
  nu_challenge :: u32
  nu_hmac :: "u8 list"
  nu_ip :: string
  nu_client_port :: u16
  nu_encrypted :: bool
  nu_wire_decode :: bool
  nu_wire_auth :: bool
  nu_payload :: "u8 list"

definition zero_unit :: SharedKnockNormalizedUnit where
  "zero_unit = \<lparr>nu_complete = False, nu_wire_version = 0, nu_wire_form = 0, nu_session_id = 0,
     nu_message_id = 0, nu_stream_id = 0, nu_fragment_index = 0, nu_fragment_count = 0,
     nu_timestamp = 0, nu_user_id = 0, nu_action_id = 0, nu_challenge = 0,
     nu_hmac = replicate 32 0, nu_ip = '''', nu_client_port = 0, nu_encrypted = False,
     nu_wire_decode = False, nu_wire_auth = False, nu_payload = []\<rparr>"

record M7MuxUserSendData =
  us_user_id :: u16
  us_action_id :: u8
  us_challenge :: u32
  us_hmac :: "u8 list"
  us_payload :: "u8 list"

record M7MuxUserRecvData =
  ud_user_id :: u16
  ud_action_id :: u8
  ud_challenge :: u32
  ud_hmac :: "u8 list"
  ud_payload :: "u8 list"

definition zero_user :: M7MuxUserRecvData where
  "zero_user = \<lparr>ud_user_id = 0, ud_action_id = 0, ud_challenge = 0, ud_hmac = replicate 32 0,
     ud_payload = []\<rparr>"

record M7MuxIngressIdentity =
  id_encrypted :: bool
  id_form :: u8
  id_magic :: u32
  id_version :: u32

definition zero_identity :: M7MuxIngressIdentity where
  "zero_identity = \<lparr>id_encrypted = False, id_form = 0, id_magic = 0, id_version = 0\<rparr>"

record M7MuxIngress =
  in_buffer :: "u8 list"
  in_received_ms :: u64
  in_ip :: string
  in_client_port :: u16
  in_encrypted :: bool
  in_magic :: u32
  in_version :: u32
  in_form :: u8

definition zero_ingress :: M7MuxIngress where
  "zero_ingress = \<lparr>in_buffer = [], in_received_ms = 0, in_ip = '''', in_client_port = 0,
     in_encrypted = False, in_magic = 0, in_version = 0, in_form = 0\<rparr>"

record M7MuxControl =
  ct_stream_type :: u8
  ct_session_by_client :: u8

definition zero_control :: M7MuxControl where
  "zero_control = \<lparr>ct_stream_type = 0, ct_session_by_client = 0\<rparr>"

text \<open>The \<open>user\<close> pointer of a received packet is an address in the heap below.\<close>

type_synonym uaddr = nat

record M7MuxRecvPacket =
  rp_complete :: bool
  rp_should_reply :: bool
  rp_synthetic_session :: bool
  rp_wire_version :: u32
  rp_wire_form :: u8
  rp_received_ms :: u64
  rp_session_id :: u64
  rp_message_id :: u64
  rp_stream_id :: u32
  rp_fragment_index :: u32
  rp_fragment_count :: u32
  rp_timestamp :: u32
  rp_label :: string
  rp_ip :: string
  rp_client_port :: u16
  rp_encrypted :: bool
  rp_wire_decode :: bool
  rp_wire_auth :: bool
  rp_raw_bytes :: "u8 list"
  rp_user :: "uaddr option"

definition zero_recv :: M7MuxRecvPacket where
  "zero_recv = \<lparr>rp_complete = False, rp_should_reply = False, rp_synthetic_session = False,
     rp_wire_version = 0, rp_wire_form = 0, rp_received_ms = 0, rp_session_id = 0,
     rp_message_id = 0, rp_stream_id = 0, rp_fragment_index = 0, rp_fragment_count = 0,
     rp_timestamp = 0, rp_label = '''', rp_ip = '''', rp_client_port = 0, rp_encrypted = False,
     rp_wire_decode = False, rp_wire_auth = False, rp_raw_bytes = [], rp_user = None\<rparr>"

record M7MuxSendPacket =
  sp_trace_id :: u64
  sp_label :: string
  sp_wire_version :: u32
  sp_wire_form :: u8
  sp_received_ms :: u64
  sp_session_id :: u64
  sp_message_id :: u64
  sp_stream_id :: u32
  sp_fragment_index :: u32
  sp_fragment_count :: u32
  sp_timestamp :: u32
  sp_ip :: string
  sp_client_port :: u16
  sp_encrypted :: bool
  sp_wire_auth :: bool
  sp_user :: "M7MuxUserSendData option"

record M7MuxEgressData =
  eg_trace_id :: u64
  eg_label :: string
  eg_wire_version :: u32
  eg_wire_form :: u8
  eg_received_ms :: u64
  eg_session_id :: u64
  eg_message_id :: u64
  eg_stream_id :: u32
  eg_fragment_index :: u32
  eg_fragment_count :: u32
  eg_timestamp :: u32
  eg_ip :: string
  eg_client_port :: u16
  eg_encrypted :: bool
  eg_wire_auth :: bool
  eg_egress_buffer :: "u8 list"

definition zero_egress :: M7MuxEgressData where
  "zero_egress = \<lparr>eg_trace_id = 0, eg_label = '''', eg_wire_version = 0, eg_wire_form = 0,
     eg_received_ms = 0, eg_session_id = 0, eg_message_id = 0, eg_stream_id = 0,
     eg_fragment_index = 0, eg_fragment_count = 0, eg_timestamp = 0, eg_ip = '''',
     eg_client_port = 0, eg_encrypted = False, eg_wire_auth = False, eg_egress_buffer = []\<rparr>"

text \<open>\<open>bytes\<close> is a pointer that may be NULL, with a length of its own.\<close>

record M7MuxSendBytesPacket =
  sb_trace_id :: u64
  sb_label :: string
  sb_ip :: string
  sb_client_port :: u16
  sb_received_ms :: u64
  sb_bytes :: "u8 list option"
  sb_bytes_len :: nat

section \<open>The heap of user blocks\<close>

text \<open>
  \<open>calloc\<close> hands out fresh addresses; whether call number \<open>n\<close> succeeds is the
  oracle \<open>uh_oom\<close>. \<open>uh_fault\<close> records a \<open>free\<close> of, or a read through, an address
  that is not allocated (a double free or a use after free).
\<close>

record user_heap =
  uh_cell :: "uaddr \<Rightarrow> M7MuxUserRecvData option"
  uh_next :: nat
  uh_oom :: "nat \<Rightarrow> bool"
  uh_fault :: bool

definition empty_heap :: "(nat \<Rightarrow> bool) \<Rightarrow> user_heap" where
  "empty_heap oom = \<lparr>uh_cell = (\<lambda>_. None), uh_next = 0, uh_oom = oom, uh_fault = False\<rparr>"

definition alloc_user :: "user_heap \<Rightarrow> uaddr option \<times> user_heap" where
  "alloc_user h =
     (if uh_oom h (uh_next h) then (None, h\<lparr>uh_next := Suc (uh_next h)\<rparr>)
      else (Some (uh_next h),
            h\<lparr>uh_cell := (uh_cell h)(uh_next h \<mapsto> zero_user), uh_next := Suc (uh_next h)\<rparr>))"

definition free_user :: "uaddr \<Rightarrow> user_heap \<Rightarrow> user_heap" where
  "free_user a h =
     (case uh_cell h a of
        None \<Rightarrow> h\<lparr>uh_fault := True\<rparr>
      | Some _ \<Rightarrow> h\<lparr>uh_cell := (uh_cell h)(a := None)\<rparr>)"

definition store_user :: "uaddr \<Rightarrow> M7MuxUserRecvData \<Rightarrow> user_heap \<Rightarrow> user_heap" where
  "store_user a u h =
     (case uh_cell h a of
        None \<Rightarrow> h\<lparr>uh_fault := True\<rparr>
      | Some _ \<Rightarrow> h\<lparr>uh_cell := (uh_cell h)(a \<mapsto> u)\<rparr>)"

text \<open>The heap is well formed when every allocated address is older than the next one.\<close>

definition heap_ok :: "user_heap \<Rightarrow> bool" where
  "heap_ok h \<longleftrightarrow> (\<forall>a. uh_next h \<le> a \<longrightarrow> uh_cell h a = None) \<and> \<not> uh_fault h"

definition live :: "user_heap \<Rightarrow> uaddr set" where
  "live h = dom (uh_cell h)"

lemma heap_ok_empty: "heap_ok (empty_heap oom)" "live (empty_heap oom) = {}"
  by (simp_all add: heap_ok_def empty_heap_def live_def)

lemma live_lt_next: "heap_ok h \<Longrightarrow> a \<in> live h \<Longrightarrow> a < uh_next h"
  by (auto simp: heap_ok_def live_def domD) (metis not_le option.distinct(1))

lemma alloc_user_None:
  "alloc_user h = (None, h') \<Longrightarrow> heap_ok h \<Longrightarrow> heap_ok h' \<and> live h' = live h"
  by (auto simp: alloc_user_def heap_ok_def live_def split: if_splits)

lemma alloc_user_Some:
  "alloc_user h = (Some a, h') \<Longrightarrow> heap_ok h \<Longrightarrow>
   heap_ok h' \<and> live h' = insert a (live h) \<and> a \<notin> live h"
  by (auto simp: alloc_user_def heap_ok_def live_def split: if_splits)

lemma free_user_live:
  "heap_ok h \<Longrightarrow> a \<in> live h \<Longrightarrow> heap_ok (free_user a h) \<and> live (free_user a h) = live h - {a}"
  by (auto simp: free_user_def heap_ok_def live_def split: option.splits)

lemma store_user_live:
  "heap_ok h \<Longrightarrow> a \<in> live h \<Longrightarrow> heap_ok (store_user a u h) \<and> live (store_user a u h) = live h"
  by (auto simp: store_user_def heap_ok_def live_def split: option.splits)

lemma store_user_cell: "a \<in> live h \<Longrightarrow> uh_cell (store_user a u h) = (uh_cell h)(a \<mapsto> u)"
  by (auto simp: store_user_def live_def split: option.splits)

lemma store_user_next [simp]: "uh_next (store_user a u h) = uh_next h"
  by (simp add: store_user_def split: option.splits)

end
