(* ===== verification/Ingress.thy ===== *)
theory Ingress
  imports Ring_Queue Wire_Types
begin

text \<open>
  \<open>m7mux/ingress/ingress.c\<close>: the queue of raw datagrams and the pump that fills it from the
  socket. What the socket delivers is a script: the result of the blocking wait and the list of
  what each following poll and receive returns.
\<close>

section \<open>State\<close>

definition M7MUX_INGRESS_QUEUE_CAPACITY :: nat where
  "M7MUX_INGRESS_QUEUE_CAPACITY = 64"

record M7MuxIngressState =
  is_socket_fd :: int
  is_queue :: "M7MuxIngress list"
  is_queue_head :: nat
  is_queue_tail :: nat
  is_queue_count :: nat

definition m7mux_ingress_state_init :: M7MuxIngressState where
  "m7mux_ingress_state_init = \<lparr>is_socket_fd = -1,
     is_queue = replicate M7MUX_INGRESS_QUEUE_CAPACITY zero_ingress,
     is_queue_head = 0, is_queue_tail = 0, is_queue_count = 0\<rparr>"

definition m7mux_ingress_state_reset :: "M7MuxIngressState \<Rightarrow> M7MuxIngressState" where
  "m7mux_ingress_state_reset st = \<lparr>is_socket_fd = -1,
     is_queue = replicate M7MUX_INGRESS_QUEUE_CAPACITY zero_ingress,
     is_queue_head = 0, is_queue_tail = 0, is_queue_count = 0\<rparr>"

definition m7mux_ingress_apply_context ::
  "M7MuxContext option \<Rightarrow> M7MuxContext \<Rightarrow> bool \<times> M7MuxContext" where
  "m7mux_ingress_apply_context ctx g_ctx =
     (case ctx of None \<Rightarrow> (False, g_ctx) | Some c \<Rightarrow> (True, c))"

definition m7mux_ingress_shutdown :: M7MuxContext where
  "m7mux_ingress_shutdown = zero_context"

definition m7mux_ingress_has_pending :: "M7MuxIngressState \<Rightarrow> bool" where
  "m7mux_ingress_has_pending st \<longleftrightarrow> is_queue_count st > 0"

section \<open>The queue\<close>

definition m7mux_ingress_queue_push ::
  "M7MuxIngressState \<Rightarrow> M7MuxIngress \<Rightarrow> bool \<times> M7MuxIngressState" where
  "m7mux_ingress_queue_push st ingress =
     (if is_queue_count st \<ge> M7MUX_INGRESS_QUEUE_CAPACITY then (False, st)
      else (True, st\<lparr>is_queue := (is_queue st)[is_queue_tail st := ingress],
                     is_queue_tail := (is_queue_tail st + 1) mod M7MUX_INGRESS_QUEUE_CAPACITY,
                     is_queue_count := is_queue_count st + 1\<rparr>))"

text \<open>\<open>None\<close> is the return value 0, with the out parameter zeroed.\<close>

definition m7mux_ingress_queue_pop ::
  "M7MuxIngressState \<Rightarrow> M7MuxIngress option \<times> M7MuxIngressState" where
  "m7mux_ingress_queue_pop st =
     (if is_queue_count st = 0 then (None, st)
      else (Some (is_queue st ! is_queue_head st),
            st\<lparr>is_queue := (is_queue st)[is_queue_head st := zero_ingress],
               is_queue_head := (is_queue_head st + 1) mod M7MUX_INGRESS_QUEUE_CAPACITY,
               is_queue_count := is_queue_count st - 1\<rparr>))"

definition m7mux_ingress_drain ::
  "M7MuxIngressState \<Rightarrow> M7MuxIngress option \<times> M7MuxIngressState" where
  "m7mux_ingress_drain st = m7mux_ingress_queue_pop st"

definition ingress_items :: "M7MuxIngressState \<Rightarrow> M7MuxIngress list" where
  "ingress_items st = ring_items (is_queue st) (is_queue_head st) (is_queue_count st)"

definition ingress_ok :: "M7MuxIngressState \<Rightarrow> bool" where
  "ingress_ok st \<longleftrightarrow> ring_ok M7MUX_INGRESS_QUEUE_CAPACITY (is_queue st) (is_queue_head st)
     (is_queue_tail st) (is_queue_count st)"

lemma length_ingress_items [simp]: "length (ingress_items st) = is_queue_count st"
  by (simp add: ingress_items_def)

lemma ingress_ok_init [simp]:
  "ingress_ok m7mux_ingress_state_init" "ingress_ok (m7mux_ingress_state_reset st)"
  "ingress_items m7mux_ingress_state_init = []" "ingress_items (m7mux_ingress_state_reset st) = []"
  by (simp_all add: ingress_ok_def m7mux_ingress_state_init_def m7mux_ingress_state_reset_def
      ring_ok_init M7MUX_INGRESS_QUEUE_CAPACITY_def ingress_items_def)

interpretation ingress_fifo: bounded_fifo m7mux_ingress_queue_push m7mux_ingress_queue_pop
  ingress_items ingress_ok M7MUX_INGRESS_QUEUE_CAPACITY "\<lambda>_. True" "\<lambda>x. x"
proof
  fix st :: M7MuxIngressState and x
  assume ok: "ingress_ok st"
  {
    assume "\<not> (length (ingress_items st) < M7MUX_INGRESS_QUEUE_CAPACITY \<and> True)"
    then have "m7mux_ingress_queue_push st x = (False, st)"
      by (simp add: m7mux_ingress_queue_push_def)
    then show "\<not> fst (m7mux_ingress_queue_push st x)"
      "ingress_items (snd (m7mux_ingress_queue_push st x)) = ingress_items st"
      "ingress_ok (snd (m7mux_ingress_queue_push st x))"
      using ok by simp_all
  }
  {
    assume lt: "length (ingress_items st) < M7MUX_INGRESS_QUEUE_CAPACITY"
    then show "fst (m7mux_ingress_queue_push st x)"
      by (simp add: m7mux_ingress_queue_push_def)
    show "ingress_items (snd (m7mux_ingress_queue_push st x)) = ingress_items st @ [x]"
      using lt ok ring_push_items [of M7MUX_INGRESS_QUEUE_CAPACITY "is_queue st"]
      by (simp add: m7mux_ingress_queue_push_def ingress_items_def ingress_ok_def)
    show "ingress_ok (snd (m7mux_ingress_queue_push st x))"
      using lt ok ring_push_ok [of M7MUX_INGRESS_QUEUE_CAPACITY "is_queue st"]
      by (simp add: m7mux_ingress_queue_push_def ingress_ok_def)
  }
  {
    assume "ingress_items st = []"
    then have "m7mux_ingress_queue_pop st = (None, st)"
      by (simp add: m7mux_ingress_queue_pop_def flip: length_0_conv)
    then show "fst (m7mux_ingress_queue_pop st) = None"
      "ingress_items (snd (m7mux_ingress_queue_pop st)) = []"
      using \<open>ingress_items st = []\<close> by simp_all
  }
  {
    fix y ys
    assume items: "ingress_items st = y # ys"
    then have pos: "0 < is_queue_count st"
      by (metis length_ingress_items length_greater_0_conv list.discI)
    have *: "y # ys = is_queue st ! is_queue_head st #
        ingress_items (snd (m7mux_ingress_queue_pop st))"
      using ok pos items
        ring_pop_items [of M7MUX_INGRESS_QUEUE_CAPACITY "is_queue st" _ _ _ zero_ingress]
      by (simp add: ingress_ok_def ingress_items_def m7mux_ingress_queue_pop_def)
    then show "fst (m7mux_ingress_queue_pop st) = Some y"
      "ingress_items (snd (m7mux_ingress_queue_pop st)) = ys"
      using pos by (simp_all add: m7mux_ingress_queue_pop_def)
  }
  show "ingress_ok (snd (m7mux_ingress_queue_pop st))"
    using ok ring_pop_ok [of M7MUX_INGRESS_QUEUE_CAPACITY "is_queue st" _ _ _ zero_ingress]
    by (cases "is_queue_count st = 0") (simp_all add: ingress_ok_def m7mux_ingress_queue_pop_def)
  show "length (ingress_items st) \<le> M7MUX_INGRESS_QUEUE_CAPACITY"
    using ok by (simp add: ingress_ok_def ring_ok_def)
qed

section \<open>The pump\<close>

text \<open>
  \<open>struct sockaddr_storage\<close> with the address bytes and the port in host order.
  \<open>inet_ntop\<close> is a parameter: \<open>None\<close> is its NULL.
\<close>

datatype sockaddr =
    Sockaddr_In "u8 list" u16
  | Sockaddr_In6 "u8 list" u16
  | Sockaddr_Other nat

definition m7mux_ingress_peer_to_ip ::
  "(sockaddr \<Rightarrow> string option) \<Rightarrow> sockaddr \<Rightarrow> (string \<times> u16) option" where
  "m7mux_ingress_peer_to_ip inet_ntop peer =
     (case peer of
        Sockaddr_In a port \<Rightarrow> (case inet_ntop peer of None \<Rightarrow> None | Some s \<Rightarrow> Some (cstr63 s, port))
      | Sockaddr_In6 a port \<Rightarrow> (case inet_ntop peer of None \<Rightarrow> None | Some s \<Rightarrow> Some (cstr63 s, port))
      | Sockaddr_Other n \<Rightarrow> None)"

text \<open>
  What one poll of the socket with timeout 0 and the receive after it give: nothing readable,
  a failing \<open>recvfrom\<close>, or a datagram with its sender and the clock at its arrival.
\<close>

datatype socket_event =
    Not_Readable
  | Recv_Fail
  | Datagram "u8 list" sockaddr u64

record socket_script =
  ss_wait :: "int \<Rightarrow> int"
  ss_events :: "socket_event list"

definition ingress_of_datagram :: "u8 list \<Rightarrow> u64 \<Rightarrow> string \<Rightarrow> u16 \<Rightarrow> M7MuxIngress" where
  "ingress_of_datagram bytes now ip port = zero_ingress
     \<lparr>in_buffer := take M7MUX_NORMALIZED_PACKET_BUFFER_SIZE bytes, in_received_ms := now,
      in_ip := ip, in_client_port := port, in_encrypted := False\<rparr>"

text \<open>The receive loop: returns \<open>queued\<close>, the state, and the events left unread.\<close>

fun m7mux_ingress_pump_loop ::
  "(sockaddr \<Rightarrow> string option) \<Rightarrow> M7MuxIngressState \<Rightarrow> int \<Rightarrow> socket_event list \<Rightarrow>
   int \<times> M7MuxIngressState \<times> socket_event list" where
  "m7mux_ingress_pump_loop ntop st queued [] = (queued, st, [])"
| "m7mux_ingress_pump_loop ntop st queued (ev # evs) =
     (if is_queue_count st \<ge> M7MUX_INGRESS_QUEUE_CAPACITY then (queued, st, ev # evs)
      else case ev of
        Not_Readable \<Rightarrow> (queued, st, evs)
      | Recv_Fail \<Rightarrow> (queued, st, evs)
      | Datagram bytes peer now \<Rightarrow>
          (case m7mux_ingress_peer_to_ip ntop peer of
             None \<Rightarrow> (queued, st, evs)
           | Some (ip, port) \<Rightarrow>
               (case m7mux_ingress_queue_push st (ingress_of_datagram bytes now ip port) of
                  (False, st') \<Rightarrow> (queued, st', evs)
                | (True, st') \<Rightarrow> m7mux_ingress_pump_loop ntop st' 1 evs)))"

definition INT_MAX :: int where "INT_MAX = 2147483647"

definition m7mux_ingress_pump ::
  "M7MuxContext \<Rightarrow> (sockaddr \<Rightarrow> string option) \<Rightarrow> M7MuxIngressState \<Rightarrow> u64 \<Rightarrow> socket_script \<Rightarrow>
   int \<times> M7MuxIngressState \<times> socket_event list" where
  "m7mux_ingress_pump g_ctx ntop st timeout_ms script =
     (if is_socket_fd st < 0 \<or> \<not> mx_socket g_ctx \<or> \<not> mx_udp g_ctx then (0, st, ss_events script)
      else if is_queue_count st > 0 then (1, st, ss_events script)
      else
        let timeout = (if uint timeout_ms > INT_MAX then INT_MAX else uint timeout_ms);
            wait_rc = ss_wait script timeout
        in if wait_rc \<le> 0 then (wait_rc, st, ss_events script)
           else m7mux_ingress_pump_loop ntop st 0 (ss_events script))"

text \<open>The datagrams that one pump takes: up to the first poll, receive or peer that fails.\<close>

fun receivable :: "(sockaddr \<Rightarrow> string option) \<Rightarrow> socket_event list \<Rightarrow> M7MuxIngress list" where
  "receivable ntop (Datagram bytes peer now # evs) =
     (case m7mux_ingress_peer_to_ip ntop peer of
        None \<Rightarrow> []
      | Some (ip, port) \<Rightarrow> ingress_of_datagram bytes now ip port # receivable ntop evs)"
| "receivable ntop (Not_Readable # evs) = []"
| "receivable ntop (Recv_Fail # evs) = []"
| "receivable ntop [] = []"

lemma ingress_pump_loop_items:
  assumes "ingress_ok st"
  shows "case m7mux_ingress_pump_loop ntop st q evs of (rc, st', evs') \<Rightarrow>
    ingress_ok st' \<and> is_socket_fd st' = is_socket_fd st \<and>
    ingress_items st' = ingress_items st @
      take (M7MUX_INGRESS_QUEUE_CAPACITY - is_queue_count st) (receivable ntop evs) \<and>
    (rc = (if ingress_items st' = ingress_items st then q else 1))"
  using assms
proof (induction ntop st q evs rule: m7mux_ingress_pump_loop.induct)
  case (1 ntop st queued)
  then show ?case by simp
next
  case (2 ntop st queued ev evs)
  show ?case
  proof (cases "is_queue_count st < M7MUX_INGRESS_QUEUE_CAPACITY")
    case False
    with "2.prems" show ?thesis by simp
  next
    case room: True
    show ?thesis
    proof (cases "\<exists>bytes peer now ip port. ev = Datagram bytes peer now \<and>
        m7mux_ingress_peer_to_ip ntop peer = Some (ip, port)")
      case False
      with "2.prems" room show ?thesis
        by (auto split: socket_event.splits option.splits)
    next
      case True
      then obtain bytes peer now ip port where ev: "ev = Datagram bytes peer now"
        and ip: "m7mux_ingress_peer_to_ip ntop peer = Some (ip, port)" by blast
      let ?x = "ingress_of_datagram bytes now ip port"
      obtain b st1 where p: "m7mux_ingress_queue_push st ?x = (b, st1)" by fastforce
      have b: b and ok1: "ingress_ok st1" and items1: "ingress_items st1 = ingress_items st @ [?x]"
        using ingress_fifo.push_taken [of st ?x] ingress_fifo.push_items [of st ?x]
          ingress_fifo.push_ok [of st ?x] "2.prems" room p by auto
      have fd: "is_socket_fd st1 = is_socket_fd st"
        using p by (auto simp: m7mux_ingress_queue_push_def split: if_splits)
      have c1: "is_queue_count st1 = Suc (is_queue_count st)"
        using arg_cong [OF items1, of length] by simp
      have IH: "case m7mux_ingress_pump_loop ntop st1 1 evs of (rc, st', evs') \<Rightarrow>
        ingress_ok st' \<and> is_socket_fd st' = is_socket_fd st1 \<and>
        ingress_items st' = ingress_items st1 @
          take (M7MUX_INGRESS_QUEUE_CAPACITY - is_queue_count st1) (receivable ntop evs) \<and>
        (rc = (if ingress_items st' = ingress_items st1 then 1 else 1))"
        using "2.IH" room ev ip p b ok1 by simp
      have "M7MUX_INGRESS_QUEUE_CAPACITY - is_queue_count st =
          Suc (M7MUX_INGRESS_QUEUE_CAPACITY - is_queue_count st1)"
        using room c1 by simp
      with IH room ev ip p b items1 fd show ?thesis
        by (auto split: prod.splits)
    qed
  qed
qed

lemma m7mux_ingress_pump_items:
  assumes "ingress_ok st"
    and "m7mux_ingress_pump g_ctx ntop st timeout_ms script = (rc, st', evs')"
  shows "ingress_ok st'" "is_socket_fd st' = is_socket_fd st"
    "ingress_items st' = ingress_items st \<or>
     ingress_items st = [] \<and>
     ingress_items st' = take M7MUX_INGRESS_QUEUE_CAPACITY (receivable ntop (ss_events script))"
  using assms ingress_pump_loop_items [where st = st and ntop = ntop and q = 0 and evs = "ss_events script"]
  by (auto simp: m7mux_ingress_pump_def Let_def simp flip: length_0_conv split: if_splits prod.splits)

lemma receivable_wf: "x \<in> set (receivable ntop evs) \<Longrightarrow>
    length (in_buffer x) \<le> M7MUX_NORMALIZED_PACKET_BUFFER_SIZE \<and> length (in_ip x) \<le> 63 \<and>
    \<not> in_encrypted x"
  by (induction ntop evs rule: receivable.induct)
    (auto simp: ingress_of_datagram_def zero_ingress_def m7mux_ingress_peer_to_ip_def
      split: option.splits sockaddr.splits)

end
