(* ===== verification/Egress.thy ===== *)
theory Egress
  imports Ring_Queue Wire_Types
begin

text \<open>
  \<open>m7mux/egress/egress.c\<close>: the queue of serialized datagrams and the flush that sends
  them. The results of \<open>udp->send\<close> are a script, one boolean per call; the datagrams handed
  to the socket are a trace of the model.
\<close>

section \<open>State\<close>

definition M7MUX_EGRESS_QUEUE_CAPACITY :: nat where
  "M7MUX_EGRESS_QUEUE_CAPACITY = 64"

record M7MuxEgressState =
  es_queue :: "M7MuxEgressData list"
  es_head :: nat
  es_tail :: nat
  es_count :: nat

definition m7mux_egress_state_init :: M7MuxEgressState where
  "m7mux_egress_state_init =
     \<lparr>es_queue = replicate M7MUX_EGRESS_QUEUE_CAPACITY zero_egress, es_head = 0, es_tail = 0,
      es_count = 0\<rparr>"

definition m7mux_egress_state_reset :: "M7MuxEgressState \<Rightarrow> M7MuxEgressState" where
  "m7mux_egress_state_reset st =
     \<lparr>es_queue = replicate M7MUX_EGRESS_QUEUE_CAPACITY zero_egress, es_head = 0, es_tail = 0,
      es_count = 0\<rparr>"

definition m7mux_egress_set_context ::
  "M7MuxContext option \<Rightarrow> M7MuxContext \<Rightarrow> bool \<times> M7MuxContext" where
  "m7mux_egress_set_context ctx g_ctx =
     (case ctx of None \<Rightarrow> (False, g_ctx) | Some c \<Rightarrow> (True, c))"

definition egress_ready :: "M7MuxEgressState \<Rightarrow> bool" where
  "egress_ready st \<longleftrightarrow> es_count st > 0"

section \<open>Staging\<close>

definition enqueue_egress :: "M7MuxEgressState \<Rightarrow> M7MuxEgressData \<Rightarrow> bool \<times> M7MuxEgressState" where
  "enqueue_egress st egress =
     (if length (eg_egress_buffer egress) > M7MUX_NORMALIZED_PACKET_BUFFER_SIZE then (False, st)
      else if es_count st \<ge> M7MUX_EGRESS_QUEUE_CAPACITY then (False, st)
      else (True, st\<lparr>es_queue := (es_queue st)[es_tail st := egress\<lparr>eg_ip := cstr63 (eg_ip egress)\<rparr>],
                     es_tail := (es_tail st + 1) mod M7MUX_EGRESS_QUEUE_CAPACITY,
                     es_count := es_count st + 1\<rparr>))"

definition stage_egress :: "M7MuxEgressState \<Rightarrow> M7MuxEgressData \<Rightarrow> bool \<times> M7MuxEgressState" where
  "stage_egress st packet =
     (if length (eg_egress_buffer packet) > M7MUX_NORMALIZED_PACKET_BUFFER_SIZE then (False, st)
      else enqueue_egress st packet)"

section \<open>Flushing\<close>

definition egress_drop_head :: "M7MuxEgressState \<Rightarrow> M7MuxEgressState" where
  "egress_drop_head st =
     st\<lparr>es_queue := (es_queue st)[es_head st := zero_egress],
        es_head := (es_head st + 1) mod M7MUX_EGRESS_QUEUE_CAPACITY,
        es_count := es_count st - 1\<rparr>"

definition egress_pop :: "M7MuxEgressState \<Rightarrow> M7MuxEgressData option \<times> M7MuxEgressState" where
  "egress_pop st =
     (if es_count st = 0 then (None, st)
      else (Some (es_queue st ! es_head st), egress_drop_head st))"

type_synonym datagram = "string \<times> u16 \<times> u8 list"

text \<open>
  The loop returns \<open>flushed\<close>, the state, the sends not yet scripted and the datagrams that the
  socket accepted. A script that has run out is a send that fails.
\<close>

function flush_egress_loop ::
  "bool \<Rightarrow> nat \<Rightarrow> datagram list \<Rightarrow> M7MuxEgressState \<Rightarrow> bool list \<Rightarrow>
   nat \<times> M7MuxEgressState \<times> bool list \<times> datagram list" where
  "flush_egress_loop can_send flushed sent st sends =
     (if es_count st = 0 then (flushed, st, sends, sent)
      else
        let egress = es_queue st ! es_head st in
        if \<not> can_send then (flushed, st, sends, sent)
        else if eg_egress_buffer egress = [] then
          flush_egress_loop can_send flushed sent (egress_drop_head st) sends
        else
          (case sends of
             True # sends' \<Rightarrow>
               flush_egress_loop can_send (flushed + 1)
                 (sent @ [(eg_ip egress, eg_client_port egress, eg_egress_buffer egress)])
                 (egress_drop_head st) sends'
           | False # sends' \<Rightarrow> (flushed, st, sends', sent)
           | [] \<Rightarrow> (flushed, st, [], sent)))"
  by pat_completeness auto
termination
  by (relation "measure (\<lambda>(_, _, _, st, _). es_count st)") (auto simp: egress_drop_head_def)

declare flush_egress_loop.simps [simp del]

definition flush_egress ::
  "M7MuxContext \<Rightarrow> M7MuxEgressState \<Rightarrow> int \<Rightarrow> u64 \<Rightarrow> bool list \<Rightarrow>
   nat \<times> M7MuxEgressState \<times> bool list \<times> datagram list" where
  "flush_egress g_ctx st sock now_ms sends =
     flush_egress_loop (0 \<le> sock \<and> mx_udp g_ctx) 0 [] st sends"

section \<open>The queue is a bounded FIFO\<close>

definition egress_items :: "M7MuxEgressState \<Rightarrow> M7MuxEgressData list" where
  "egress_items st = ring_items (es_queue st) (es_head st) (es_count st)"

definition egress_ok :: "M7MuxEgressState \<Rightarrow> bool" where
  "egress_ok st \<longleftrightarrow>
     ring_ok M7MUX_EGRESS_QUEUE_CAPACITY (es_queue st) (es_head st) (es_tail st) (es_count st)"

definition egress_fits :: "M7MuxEgressData \<Rightarrow> bool" where
  "egress_fits e \<longleftrightarrow> length (eg_egress_buffer e) \<le> M7MUX_NORMALIZED_PACKET_BUFFER_SIZE"

definition egress_stored :: "M7MuxEgressData \<Rightarrow> M7MuxEgressData" where
  "egress_stored e = e\<lparr>eg_ip := cstr63 (eg_ip e)\<rparr>"

lemma length_egress_items [simp]: "length (egress_items st) = es_count st"
  by (simp add: egress_items_def)

lemma egress_ok_init [simp]:
  "egress_ok m7mux_egress_state_init" "egress_ok (m7mux_egress_state_reset st)"
  "egress_items m7mux_egress_state_init = []" "egress_items (m7mux_egress_state_reset st) = []"
  by (simp_all add: egress_ok_def m7mux_egress_state_init_def m7mux_egress_state_reset_def
      ring_ok_init M7MUX_EGRESS_QUEUE_CAPACITY_def egress_items_def)

lemma egress_items_Nil: "egress_items st = [] \<longleftrightarrow> es_count st = 0"
  by (metis length_0_conv length_egress_items)

lemma egress_drop_head_items:
  assumes "egress_ok st" "0 < es_count st"
  shows "egress_items st = es_queue st ! es_head st # egress_items (egress_drop_head st)"
    and "egress_ok (egress_drop_head st)"
  using assms ring_pop_items [of M7MUX_EGRESS_QUEUE_CAPACITY "es_queue st" _ _ _ zero_egress]
    ring_pop_ok [of M7MUX_EGRESS_QUEUE_CAPACITY "es_queue st" _ _ _ zero_egress]
  by (simp_all add: egress_ok_def egress_items_def egress_drop_head_def)

interpretation egress_fifo: bounded_fifo stage_egress egress_pop egress_items egress_ok
  M7MUX_EGRESS_QUEUE_CAPACITY egress_fits egress_stored
proof
  fix st :: M7MuxEgressState and x
  assume ok: "egress_ok st"
  {
    assume "\<not> (length (egress_items st) < M7MUX_EGRESS_QUEUE_CAPACITY \<and> egress_fits x)"
    then have "stage_egress st x = (False, st)"
      by (auto simp: stage_egress_def enqueue_egress_def egress_fits_def)
    then show "\<not> fst (stage_egress st x)"
      "egress_items (snd (stage_egress st x)) = egress_items st"
      "egress_ok (snd (stage_egress st x))"
      using ok by simp_all
  }
  {
    assume lt: "length (egress_items st) < M7MUX_EGRESS_QUEUE_CAPACITY" and fits: "egress_fits x"
    then show "fst (stage_egress st x)"
      by (simp add: stage_egress_def enqueue_egress_def egress_fits_def)
    show "egress_items (snd (stage_egress st x)) = egress_items st @ [egress_stored x]"
      using lt fits ok ring_push_items [of M7MUX_EGRESS_QUEUE_CAPACITY "es_queue st"]
      by (simp add: stage_egress_def enqueue_egress_def egress_fits_def egress_items_def
          egress_ok_def egress_stored_def)
    show "egress_ok (snd (stage_egress st x))"
      using lt fits ok ring_push_ok [of M7MUX_EGRESS_QUEUE_CAPACITY "es_queue st"]
      by (simp add: stage_egress_def enqueue_egress_def egress_fits_def egress_ok_def)
  }
  {
    assume "egress_items st = []"
    then have "egress_pop st = (None, st)"
      by (simp add: egress_pop_def egress_items_Nil)
    then show "fst (egress_pop st) = None" "egress_items (snd (egress_pop st)) = []"
      using \<open>egress_items st = []\<close> by simp_all
  }
  {
    fix y ys
    assume items: "egress_items st = y # ys"
    then have pos: "0 < es_count st" using egress_items_Nil [of st] by simp
    show "fst (egress_pop st) = Some y" "egress_items (snd (egress_pop st)) = ys"
      using egress_drop_head_items(1) [OF ok pos] items pos by (simp_all add: egress_pop_def)
  }
  show "egress_ok (snd (egress_pop st))"
    using ok egress_drop_head_items(2) [OF ok] by (simp add: egress_pop_def)
  show "length (egress_items st) \<le> M7MUX_EGRESS_QUEUE_CAPACITY"
    using ok by (simp add: egress_ok_def ring_ok_def)
qed

section \<open>What a flush sends\<close>

text \<open>
  The specification works on the list of queued entries: empty ones are dropped, the others go
  out in order until a send fails, and the entry that failed is the head of what remains.
\<close>

fun flush_spec :: "M7MuxEgressData list \<Rightarrow> bool list \<Rightarrow> datagram list \<times> M7MuxEgressData list" where
  "flush_spec [] sends = ([], [])"
| "flush_spec (e # es) sends =
     (if eg_egress_buffer e = [] then flush_spec es sends
      else case sends of
        True # sends' \<Rightarrow>
          (let (out, rest) = flush_spec es sends'
           in ((eg_ip e, eg_client_port e, eg_egress_buffer e) # out, rest))
      | _ \<Rightarrow> ([], e # es))"

lemma flush_egress_loop_spec:
  assumes "egress_ok st"
  shows "case flush_egress_loop True n sent st sends of (n', st', sends', sent') \<Rightarrow>
    (case flush_spec (egress_items st) sends of (out, rest) \<Rightarrow>
      egress_ok st' \<and> egress_items st' = rest \<and> sent' = sent @ out \<and> n' = n + length out)"
  using assms
proof (induction "True" n sent st sends rule: flush_egress_loop.induct)
  case (1 flushed sent st sends)
  show ?case
  proof (cases "es_count st = 0")
    case True
    with "1.prems" show ?thesis
      by (simp add: flush_egress_loop.simps egress_items_Nil [THEN iffD2])
  next
    case False
    let ?e = "es_queue st ! es_head st" and ?st = "egress_drop_head st"
    note drop = egress_drop_head_items [OF "1.prems"]
    have items: "egress_items st = ?e # egress_items ?st" and ok: "egress_ok ?st"
      using drop False by simp_all
    show ?thesis
    proof (cases "eg_egress_buffer ?e = []")
      case True
      with False items show ?thesis
        using "1.hyps"(1) [OF False refl _ True ok]
        by (subst flush_egress_loop.simps) simp
    next
      case nonempty: False
      show ?thesis
      proof (cases "\<exists>sends'. sends = True # sends'")
        case True
        then obtain sends' where sends: "sends = True # sends'" by blast
        let ?s = "sent @ [(eg_ip ?e, eg_client_port ?e, eg_egress_buffer ?e)]"
        have step: "flush_egress_loop True flushed sent st sends =
            flush_egress_loop True (flushed + 1) ?s ?st sends'"
          using False nonempty by (subst flush_egress_loop.simps) (simp add: sends Let_def)
        obtain out rest where r: "flush_spec (egress_items ?st) sends' = (out, rest)" by fastforce
        have "case flush_egress_loop True (flushed + 1) ?s ?st sends' of (n', st', sends', sent') \<Rightarrow>
            egress_ok st' \<and> egress_items st' = rest \<and> sent' = ?s @ out \<and>
            n' = flushed + 1 + length out"
          using "1.hyps"(2) [OF False refl _ nonempty sends refl ok] r by simp
        then show ?thesis
          unfolding step using items nonempty r sends by auto
      next
        case refuse: False
        then have spec: "flush_spec (egress_items st) sends = ([], egress_items st)"
          using items nonempty by (simp split: list.splits bool.splits)
        have "\<exists>s. flush_egress_loop True flushed sent st sends = (flushed, st, s, sent)"
          using False nonempty refuse
          by (subst flush_egress_loop.simps) (cases sends, simp_all split: bool.splits)
        with spec "1.prems" show ?thesis by auto
      qed
    qed
  qed
qed

lemma flush_egress_cannot_send:
  "flush_egress_loop False n sent st sends = (n, st, sends, sent)"
  by (subst flush_egress_loop.simps) simp

lemma flush_spec_length: "length (snd (flush_spec es ss)) \<le> length es"
  by (induction es ss rule: flush_spec.induct) (auto simp: le_SucI split: list.splits bool.splits prod.splits)

lemma flush_egress_ok:
  assumes "egress_ok st" "flush_egress g_ctx st sock now_ms sends = (n, st', sends', sent)"
  shows "egress_ok st' \<and> es_count st' \<le> es_count st"
proof (cases "0 \<le> sock \<and> mx_udp g_ctx")
  case False
  with assms show ?thesis by (simp add: flush_egress_def flush_egress_cannot_send)
next
  case True
  obtain out rest where r: "flush_spec (egress_items st) sends = (out, rest)" by fastforce
  have "egress_ok st'" and "egress_items st' = rest"
    using flush_egress_loop_spec [OF assms(1), where n = 0 and sent = "[]" and sends = sends]
      assms(2) True r by (simp_all add: flush_egress_def)
  moreover have "length rest \<le> length (egress_items st)"
    using flush_spec_length [of "egress_items st" sends] r by simp
  ultimately show ?thesis by (metis length_egress_items)
qed

end
