(* ===== verification/Session.thy ===== *)
theory Session
  imports Wire_Types
begin

text \<open>
  \<open>m7mux/session/session.c\<close>: the table of 64 sessions, the mapping of packets to sessions and
  their expiry. A \<open>M7MuxSession *\<close> is an index into the table; \<open>lib.time.monotonic_ms()\<close>
  is the argument \<open>clock\<close>.
\<close>

section \<open>State\<close>

definition M7MUX_SESSION_SESSION_CAPACITY :: nat where
  "M7MUX_SESSION_SESSION_CAPACITY = 64"

definition M7MUX_SESSION_SESSION_TIMEOUT_MS :: u64 where
  "M7MUX_SESSION_SESSION_TIMEOUT_MS = 30000"

record M7MuxSession =
  ms_session_id :: u64
  ms_client_session_id :: u64
  ms_last_active_ms :: u64
  ms_expires_at_ms :: u64
  ms_wire_version :: u32
  ms_wire_form :: u8
  ms_ip :: string
  ms_client_port :: u16
  ms_encrypted :: bool
  ms_active :: bool

definition zero_session :: M7MuxSession where
  "zero_session = \<lparr>ms_session_id = 0, ms_client_session_id = 0, ms_last_active_ms = 0,
     ms_expires_at_ms = 0, ms_wire_version = 0, ms_wire_form = 0, ms_ip = '''',
     ms_client_port = 0, ms_encrypted = False, ms_active = False\<rparr>"

record M7MuxSessionState =
  se_sessions :: "M7MuxSession list"
  se_session_count :: nat
  se_next_session_id :: u64

definition m7mux_session_state_init :: M7MuxSessionState where
  "m7mux_session_state_init =
     \<lparr>se_sessions = replicate M7MUX_SESSION_SESSION_CAPACITY zero_session, se_session_count = 0,
      se_next_session_id = 1\<rparr>"

definition m7mux_session_state_reset :: "M7MuxSessionState \<Rightarrow> M7MuxSessionState" where
  "m7mux_session_state_reset st =
     \<lparr>se_sessions = replicate M7MUX_SESSION_SESSION_CAPACITY zero_session, se_session_count = 0,
      se_next_session_id = 1\<rparr>"

section \<open>Lookup\<close>

definition m7mux_session_find :: "M7MuxSessionState \<Rightarrow> u64 \<Rightarrow> nat option" where
  "m7mux_session_find st session_id =
     (if session_id = 0 then None
      else find_idx (\<lambda>s. ms_active s \<and> ms_session_id s = session_id) (se_sessions st))"

definition m7mux_session_find_by_client_session ::
  "M7MuxSessionState \<Rightarrow> u64 \<Rightarrow> u32 \<Rightarrow> u8 \<Rightarrow> nat option" where
  "m7mux_session_find_by_client_session st client_session_id wire_version wire_form =
     (if client_session_id = 0 then None
      else find_idx (\<lambda>s. ms_active s \<and> ms_client_session_id s = client_session_id \<and>
             ms_wire_version s = wire_version \<and> ms_wire_form s = wire_form) (se_sessions st))"

definition m7mux_session_find_raw_by_ip :: "M7MuxSessionState \<Rightarrow> string \<Rightarrow> nat option" where
  "m7mux_session_find_raw_by_ip st ip =
     (if ip = '''' then None
      else find_idx (\<lambda>s. ms_active s \<and> ms_wire_version s = 0 \<and> take 64 (ms_ip s) = take 64 ip)
             (se_sessions st))"

section \<open>Registration\<close>

definition m7mux_session_touch :: "u64 \<Rightarrow> M7MuxSession \<Rightarrow> M7MuxSession" where
  "m7mux_session_touch now_ms s =
     s\<lparr>ms_last_active_ms := now_ms,
       ms_expires_at_ms := now_ms + M7MUX_SESSION_SESSION_TIMEOUT_MS\<rparr>"

definition m7mux_session_clear :: "M7MuxSessionState \<Rightarrow> nat \<Rightarrow> M7MuxSessionState" where
  "m7mux_session_clear st i =
     (if \<not> ms_active (se_sessions st ! i) then st
      else st\<lparr>se_sessions := (se_sessions st)[i := zero_session],
              se_session_count := (if se_session_count st > 0 then se_session_count st - 1
                                   else se_session_count st)\<rparr>)"

definition session_refresh :: "M7MuxRecvPacket \<Rightarrow> M7MuxSession \<Rightarrow> M7MuxSession" where
  "session_refresh normal s =
     s\<lparr>ms_wire_version := rp_wire_version normal, ms_wire_form := rp_wire_form normal,
       ms_ip := cstr63 (rp_ip normal), ms_client_port := rp_client_port normal,
       ms_encrypted := rp_encrypted normal\<rparr>"

definition session_refresh_raw :: "M7MuxRecvPacket \<Rightarrow> M7MuxSession \<Rightarrow> M7MuxSession" where
  "session_refresh_raw normal s =
     s\<lparr>ms_client_port := rp_client_port normal, ms_encrypted := rp_encrypted normal,
       ms_wire_version := rp_wire_version normal, ms_wire_form := rp_wire_form normal\<rparr>"

definition update_session :: "nat \<Rightarrow> (M7MuxSession \<Rightarrow> M7MuxSession) \<Rightarrow> M7MuxSessionState \<Rightarrow>
    M7MuxSessionState" where
  "update_session i f st = st\<lparr>se_sessions := (se_sessions st)[i := f (se_sessions st ! i)]\<rparr>"

text \<open>The last loop of \<open>m7mux_session_register\<close>: the first inactive slot is filled.\<close>

definition session_claim_slot ::
  "M7MuxSessionState \<Rightarrow> bool \<Rightarrow> M7MuxRecvPacket \<Rightarrow>
   nat option \<times> M7MuxSessionState \<times> M7MuxRecvPacket" where
  "session_claim_slot st client_owned normal =
     (case find_idx (\<lambda>s. \<not> ms_active s) (se_sessions st) of
        None \<Rightarrow> (None, st, normal)
      | Some i \<Rightarrow>
          let fresh = (client_owned \<or> rp_session_id normal = 0);
              sid = (if fresh then se_next_session_id st else rp_session_id normal);
              next1 = (if fresh then se_next_session_id st + 1 else se_next_session_id st);
              csid = (if client_owned
                      then (if rp_session_id normal \<noteq> 0 then rp_session_id normal else sid) else 0);
              normal' = (if client_owned then normal\<lparr>rp_session_id := sid\<rparr> else normal);
              next2 = (if sid \<ge> next1 then sid + 1 else next1);
              s = session_refresh normal
                    (zero_session\<lparr>ms_session_id := sid, ms_client_session_id := csid,
                                  ms_active := True\<rparr>)
          in (Some i, st\<lparr>se_sessions := (se_sessions st)[i := s],
                         se_session_count := se_session_count st + 1,
                         se_next_session_id := next2\<rparr>, normal'))"

definition control_client_owned :: "M7MuxControl option \<Rightarrow> bool" where
  "control_client_owned control =
     (case control of None \<Rightarrow> False | Some c \<Rightarrow> ct_session_by_client c \<noteq> 0)"

definition m7mux_session_register ::
  "M7MuxSessionState \<Rightarrow> M7MuxControl option \<Rightarrow> M7MuxRecvPacket \<Rightarrow>
   nat option \<times> M7MuxSessionState \<times> M7MuxRecvPacket" where
  "m7mux_session_register st control normal =
     (let client_owned = control_client_owned control;
          by_client = (if client_owned
            then m7mux_session_find_by_client_session st (rp_session_id normal)
                   (rp_wire_version normal) (rp_wire_form normal)
            else None);
          by_id = (if \<not> client_owned \<and> rp_session_id normal \<noteq> 0
            then m7mux_session_find st (rp_session_id normal) else None);
          by_raw = (if rp_wire_version normal = 0
            then m7mux_session_find_raw_by_ip st (rp_ip normal) else None)
      in case by_client of
           Some i \<Rightarrow> (Some i, update_session i (session_refresh normal) st,
                      normal\<lparr>rp_session_id := ms_session_id (se_sessions st ! i)\<rparr>)
         | None \<Rightarrow>
             (case by_id of
                Some i \<Rightarrow> (Some i, update_session i (session_refresh normal) st, normal)
              | None \<Rightarrow>
                  (case by_raw of
                     Some i \<Rightarrow> (Some i, update_session i (session_refresh_raw normal) st, normal)
                   | None \<Rightarrow> session_claim_slot st client_owned normal)))"

definition m7mux_session_ingest ::
  "M7MuxSessionState \<Rightarrow> u64 \<Rightarrow> M7MuxControl option \<Rightarrow> M7MuxRecvPacket \<Rightarrow>
   bool \<times> M7MuxSessionState \<times> M7MuxRecvPacket" where
  "m7mux_session_ingest st clock control normal =
     (let client_owned = control_client_owned control;
          synthetic = (rp_session_id normal = 0)
      in case m7mux_session_register st control normal of
           (None, st', normal') \<Rightarrow> (False, st', normal')
         | (Some i, st', normal') \<Rightarrow>
             let sid = ms_session_id (se_sessions st' ! i);
                 normal1 = (if synthetic \<and> \<not> client_owned
                            then normal'\<lparr>rp_session_id := sid\<rparr> else normal');
                 normal2 = (if client_owned then normal1\<lparr>rp_session_id := sid\<rparr> else normal1)
             in (True, update_session i (m7mux_session_touch clock) st',
                 normal2\<lparr>rp_synthetic_session := synthetic\<rparr>))"

definition m7mux_session_release :: "M7MuxSessionState \<Rightarrow> u64 \<Rightarrow> bool \<times> M7MuxSessionState" where
  "m7mux_session_release st session_id =
     (if session_id = 0 then (False, st)
      else case m7mux_session_find st session_id of
             None \<Rightarrow> (False, st)
           | Some i \<Rightarrow> (True, m7mux_session_clear st i))"

section \<open>Expiry\<close>

definition session_expired :: "u64 \<Rightarrow> M7MuxSession \<Rightarrow> bool" where
  "session_expired now_ms s \<longleftrightarrow>
     ms_active s \<and> \<not> (ms_expires_at_ms s = 0 \<or> ms_expires_at_ms s > now_ms)"

fun session_expire_loop :: "u64 \<Rightarrow> nat list \<Rightarrow> nat \<Rightarrow> M7MuxSessionState \<Rightarrow> nat \<times> M7MuxSessionState" where
  "session_expire_loop now_ms [] expired st = (expired, st)"
| "session_expire_loop now_ms (i # is) expired st =
     (if session_expired now_ms (se_sessions st ! i)
      then session_expire_loop now_ms is (expired + 1) (m7mux_session_clear st i)
      else session_expire_loop now_ms is expired st)"

definition m7mux_session_expire :: "M7MuxSessionState \<Rightarrow> u64 \<Rightarrow> nat \<times> M7MuxSessionState" where
  "m7mux_session_expire st now_ms =
     session_expire_loop now_ms [0..<M7MUX_SESSION_SESSION_CAPACITY] 0 st"

section \<open>The invariant of the table\<close>

definition session_ok :: "M7MuxSessionState \<Rightarrow> bool" where
  "session_ok st \<longleftrightarrow>
     length (se_sessions st) = M7MUX_SESSION_SESSION_CAPACITY \<and>
     se_session_count st = count_if ms_active (se_sessions st) \<and>
     0 < se_next_session_id st \<and>
     (\<forall>i < length (se_sessions st). ms_active (se_sessions st ! i) \<longrightarrow>
        0 < ms_session_id (se_sessions st ! i) \<and>
        ms_session_id (se_sessions st ! i) < se_next_session_id st) \<and>
     (\<forall>i < length (se_sessions st). \<forall>j < length (se_sessions st).
        ms_active (se_sessions st ! i) \<longrightarrow> ms_active (se_sessions st ! j) \<longrightarrow>
        ms_session_id (se_sessions st ! i) = ms_session_id (se_sessions st ! j) \<longrightarrow> i = j)"

lemma session_ok_length: "session_ok st \<Longrightarrow> length (se_sessions st) = M7MUX_SESSION_SESSION_CAPACITY"
  by (simp add: session_ok_def)

lemma session_ok_unique:
  "session_ok st \<Longrightarrow> i < length (se_sessions st) \<Longrightarrow> j < length (se_sessions st) \<Longrightarrow>
   ms_active (se_sessions st ! i) \<Longrightarrow> ms_active (se_sessions st ! j) \<Longrightarrow>
   ms_session_id (se_sessions st ! i) = ms_session_id (se_sessions st ! j) \<Longrightarrow> i = j"
  by (simp add: session_ok_def)

lemma session_ok_id:
  "session_ok st \<Longrightarrow> i < length (se_sessions st) \<Longrightarrow> ms_active (se_sessions st ! i) \<Longrightarrow>
   0 < ms_session_id (se_sessions st ! i) \<and>
   ms_session_id (se_sessions st ! i) < se_next_session_id st"
  by (simp add: session_ok_def)

lemma session_okI:
  assumes "length (se_sessions st) = M7MUX_SESSION_SESSION_CAPACITY"
    and "se_session_count st = count_if ms_active (se_sessions st)"
    and "0 < se_next_session_id st"
    and "\<And>i. i < length (se_sessions st) \<Longrightarrow> ms_active (se_sessions st ! i) \<Longrightarrow>
        0 < ms_session_id (se_sessions st ! i) \<and>
        ms_session_id (se_sessions st ! i) < se_next_session_id st"
    and "\<And>i j. i < length (se_sessions st) \<Longrightarrow> j < length (se_sessions st) \<Longrightarrow>
        ms_active (se_sessions st ! i) \<Longrightarrow> ms_active (se_sessions st ! j) \<Longrightarrow>
        ms_session_id (se_sessions st ! i) = ms_session_id (se_sessions st ! j) \<Longrightarrow> i = j"
  shows "session_ok st"
  using assms by (simp add: session_ok_def)

lemma session_ok_count: "session_ok st \<Longrightarrow> se_session_count st = count_if ms_active (se_sessions st)"
  by (simp add: session_ok_def)

lemma session_ok_next: "session_ok st \<Longrightarrow> 0 < se_next_session_id st"
  by (simp add: session_ok_def)

lemma session_ok_init [simp]:
  "session_ok m7mux_session_state_init" "session_ok (m7mux_session_state_reset st)"
  by (simp_all add: session_ok_def m7mux_session_state_init_def m7mux_session_state_reset_def
      zero_session_def M7MUX_SESSION_SESSION_CAPACITY_def)

lemma update_session_simps [simp]:
  "length (se_sessions (update_session i f st)) = length (se_sessions st)"
  "se_next_session_id (update_session i f st) = se_next_session_id st"
  "se_session_count (update_session i f st) = se_session_count st"
  by (simp_all add: update_session_def)

lemma update_session_nth:
  "i < length (se_sessions st) \<Longrightarrow>
   se_sessions (update_session i f st) ! j = (if j = i then f (se_sessions st ! i) else se_sessions st ! j)"
  by (simp add: update_session_def)

lemma session_ok_update:
  assumes ok: "session_ok st" and i: "i < length (se_sessions st)"
    and keep: "\<And>s. ms_active (f s) = ms_active s \<and> ms_session_id (f s) = ms_session_id s"
  shows "session_ok (update_session i f st)"
proof -
  let ?u = "update_session i f st"
  have ids: "ms_session_id (se_sessions ?u ! j) = ms_session_id (se_sessions st ! j)"
    and act: "ms_active (se_sessions ?u ! j) = ms_active (se_sessions st ! j)" for j
    using i keep by (simp_all add: update_session_nth)
  have "count_if ms_active (se_sessions ?u) = count_if ms_active (se_sessions st)"
    using count_if_update [OF i, of ms_active "f (se_sessions st ! i)"] keep
    by (simp add: update_session_def split: if_splits)
  then show ?thesis
    using session_ok_length [OF ok] session_ok_count [OF ok] session_ok_next [OF ok]
      session_ok_id [OF ok] session_ok_unique [OF ok]
    by (intro session_okI) (simp_all add: ids act)
qed

lemma session_refresh_simps [simp]:
  "ms_active (session_refresh n s) = ms_active s"
  "ms_session_id (session_refresh n s) = ms_session_id s"
  "ms_client_session_id (session_refresh n s) = ms_client_session_id s"
  "ms_wire_version (session_refresh n s) = rp_wire_version n"
  "ms_wire_form (session_refresh n s) = rp_wire_form n"
  "ms_active (session_refresh_raw n s) = ms_active s"
  "ms_session_id (session_refresh_raw n s) = ms_session_id s"
  "ms_active (m7mux_session_touch c s) = ms_active s"
  "ms_session_id (m7mux_session_touch c s) = ms_session_id s"
  "ms_client_session_id (m7mux_session_touch c s) = ms_client_session_id s"
  "ms_wire_version (m7mux_session_touch c s) = ms_wire_version s"
  "ms_wire_form (m7mux_session_touch c s) = ms_wire_form s"
  "ms_expires_at_ms (m7mux_session_touch c s) = c + M7MUX_SESSION_SESSION_TIMEOUT_MS"
  by (simp_all add: session_refresh_def session_refresh_raw_def m7mux_session_touch_def)

lemma session_clear_ok:
  assumes ok: "session_ok st" and i: "i < length (se_sessions st)"
  shows "session_ok (m7mux_session_clear st i)"
proof (cases "ms_active (se_sessions st ! i)")
  case False
  with ok show ?thesis by (simp add: m7mux_session_clear_def)
next
  case True
  have "count_if ms_active ((se_sessions st)[i := zero_session]) + 1 = count_if ms_active (se_sessions st)"
    using count_if_update [OF i, of ms_active zero_session] True by (simp add: zero_session_def)
  moreover have "0 < count_if ms_active (se_sessions st)"
    using count_if_pos i True by blast
  ultimately have cnt: "se_session_count (m7mux_session_clear st i) =
      count_if ms_active (se_sessions (m7mux_session_clear st i))"
    using ok True by (simp add: session_ok_def m7mux_session_clear_def)
  have act: "ms_active (se_sessions (m7mux_session_clear st i) ! j) \<longleftrightarrow>
      j \<noteq> i \<and> ms_active (se_sessions st ! j)" for j
    using True i by (simp add: m7mux_session_clear_def nth_list_update zero_session_def)
  have same: "j \<noteq> i \<Longrightarrow> se_sessions (m7mux_session_clear st i) ! j = se_sessions st ! j" for j
    using True by (simp add: m7mux_session_clear_def)
  have frame: "length (se_sessions (m7mux_session_clear st i)) = length (se_sessions st)"
    "se_next_session_id (m7mux_session_clear st i) = se_next_session_id st"
    by (simp_all add: m7mux_session_clear_def)
  show ?thesis
  proof (rule session_okI)
    fix j assume "j < length (se_sessions (m7mux_session_clear st i))"
      "ms_active (se_sessions (m7mux_session_clear st i) ! j)"
    then show "0 < ms_session_id (se_sessions (m7mux_session_clear st i) ! j) \<and>
        ms_session_id (se_sessions (m7mux_session_clear st i) ! j)
          < se_next_session_id (m7mux_session_clear st i)"
      using session_ok_id [OF ok, of j] by (simp add: act same frame)
  next
    fix j k assume "j < length (se_sessions (m7mux_session_clear st i))"
      "k < length (se_sessions (m7mux_session_clear st i))"
      "ms_active (se_sessions (m7mux_session_clear st i) ! j)"
      "ms_active (se_sessions (m7mux_session_clear st i) ! k)"
      "ms_session_id (se_sessions (m7mux_session_clear st i) ! j) =
       ms_session_id (se_sessions (m7mux_session_clear st i) ! k)"
    then show "j = k"
      using session_ok_unique [OF ok, of j k] by (simp add: act same frame)
  qed (use cnt frame session_ok_length [OF ok] session_ok_next [OF ok] in simp_all)
qed

lemma m7mux_session_find_Some:
  assumes "m7mux_session_find st sid = Some i"
  shows "i < length (se_sessions st)" "ms_active (se_sessions st ! i)"
    "ms_session_id (se_sessions st ! i) = sid" "sid \<noteq> 0"
  using assms find_idx_SomeD [of _ "se_sessions st" i]
  by (auto simp: m7mux_session_find_def split: if_splits dest: find_idx_SomeD)

text \<open>In a well-formed table the lookup by id finds the only active session with that id.\<close>

lemma session_find_active:
  assumes ok: "session_ok st" and i: "i < length (se_sessions st)"
    and act: "ms_active (se_sessions st ! i)"
  shows "m7mux_session_find st (ms_session_id (se_sessions st ! i)) = Some i"
proof -
  have nz: "ms_session_id (se_sessions st ! i) \<noteq> 0"
    using session_ok_id [OF ok i act] by auto
  let ?P = "\<lambda>s. ms_active s \<and> ms_session_id s = ms_session_id (se_sessions st ! i)"
  have "?P (se_sessions st ! i) \<and> se_sessions st ! i \<in> set (se_sessions st)"
    using i act by simp
  then obtain j where "find_idx ?P (se_sessions st) = Some j"
    using find_idx_ex [of "se_sessions st" ?P] by blast
  then have j: "m7mux_session_find st (ms_session_id (se_sessions st ! i)) = Some j"
    using nz by (simp add: m7mux_session_find_def)
  have "j = i"
    by (rule session_ok_unique [OF ok _ i _ act])
      (use m7mux_session_find_Some [OF j] in simp_all)
  with j show ?thesis by simp
qed

section \<open>Registration keeps the invariant and finds the session again\<close>

text \<open>The ids that a registration uses do not wrap around: an assumption on the input.\<close>

definition session_ids_bounded :: "M7MuxSessionState \<Rightarrow> M7MuxRecvPacket \<Rightarrow> bool" where
  "session_ids_bounded st normal \<longleftrightarrow>
     se_next_session_id st < - 1 \<and> rp_session_id normal < - 1"

lemma session_claim_slot_spec:
  assumes ok: "session_ok st" and b: "session_ids_bounded st normal"
    and fresh: "\<not> client_owned \<Longrightarrow> rp_session_id normal \<noteq> 0 \<Longrightarrow>
        m7mux_session_find st (rp_session_id normal) = None"
    and claim: "session_claim_slot st client_owned normal = (Some i, st', normal')"
  shows "session_ok st'" "i < length (se_sessions st')" "ms_active (se_sessions st' ! i)"
    "\<not> ms_active (se_sessions st ! i)"
    "\<And>j. j \<noteq> i \<Longrightarrow> se_sessions st' ! j = se_sessions st ! j"
    "ms_session_id (se_sessions st' ! i) =
      (if client_owned \<or> rp_session_id normal = 0 then se_next_session_id st
       else rp_session_id normal)"
    "ms_client_session_id (se_sessions st' ! i) =
      (if client_owned then if rp_session_id normal \<noteq> 0 then rp_session_id normal
                            else se_next_session_id st else 0)"
    "ms_wire_version (se_sessions st' ! i) = rp_wire_version normal"
    "ms_wire_form (se_sessions st' ! i) = rp_wire_form normal"
    "length (se_sessions st') = length (se_sessions st)"
    "se_next_session_id st \<le> se_next_session_id st'"
proof -
  let ?sid = "if client_owned \<or> rp_session_id normal = 0 then se_next_session_id st
              else rp_session_id normal"
  have f: "find_idx (\<lambda>s. \<not> ms_active s) (se_sessions st) = Some i"
    using claim by (auto simp: session_claim_slot_def Let_def split: option.splits)
  note i = find_idx_SomeD(1,2) [OF f]
  have nb: "se_next_session_id st < - 1" "rp_session_id normal < - 1"
    using b by (simp_all add: session_ids_bounded_def)
  note inc = word_less_inc [OF nb(1)] word_less_inc [OF nb(2)]
  have st': "st' = st\<lparr>se_sessions := (se_sessions st)[i := se_sessions st' ! i],
      se_session_count := se_session_count st + 1, se_next_session_id := se_next_session_id st'\<rparr>"
    using claim f i by (auto simp: session_claim_slot_def Let_def)
  show len: "length (se_sessions st') = length (se_sessions st)"
    by (subst st') simp
  show "i < length (se_sessions st')" using i len by simp
  show na: "\<not> ms_active (se_sessions st ! i)" by (rule i(2))
  show frame: "se_sessions st' ! j = se_sessions st ! j" if "j \<noteq> i" for j
    by (subst st') (use that in simp)
  show act: "ms_active (se_sessions st' ! i)"
    and sid: "ms_session_id (se_sessions st' ! i) = ?sid"
    and "ms_client_session_id (se_sessions st' ! i) =
      (if client_owned then if rp_session_id normal \<noteq> 0 then rp_session_id normal
                            else se_next_session_id st else 0)"
    and "ms_wire_version (se_sessions st' ! i) = rp_wire_version normal"
    and "ms_wire_form (se_sessions st' ! i) = rp_wire_form normal"
    using claim f i by (auto simp: session_claim_slot_def Let_def)
  have nxt: "se_next_session_id st \<le> se_next_session_id st' \<and> ?sid < se_next_session_id st'"
    using claim f inc by (auto simp: session_claim_slot_def Let_def split: if_splits)
  then show "se_next_session_id st \<le> se_next_session_id st'" by blast
  have pos: "0 < ?sid"
    using session_ok_next [OF ok] by (auto simp: word_neq_0_conv)
  have other: "ms_session_id (se_sessions st ! j) \<noteq> ?sid"
    if "j < length (se_sessions st)" "ms_active (se_sessions st ! j)" for j
    using session_ok_id [OF ok that] session_find_active [OF ok that] fresh by auto
  have cnt: "count_if ms_active ((se_sessions st)[i := se_sessions st' ! i]) =
      count_if ms_active (se_sessions st) + 1"
    using count_if_update [OF i(1), of ms_active "se_sessions st' ! i"] na act by simp
  show "session_ok st'"
  proof (rule session_okI)
    show "se_session_count st' = count_if ms_active (se_sessions st')"
      by (subst (1 2) st') (simp add: cnt session_ok_count [OF ok])
    show "length (se_sessions st') = M7MUX_SESSION_SESSION_CAPACITY"
      using len session_ok_length [OF ok] by simp
    show "0 < se_next_session_id st'"
      using nxt session_ok_next [OF ok] by auto
    fix j assume j: "j < length (se_sessions st')" "ms_active (se_sessions st' ! j)"
    show "0 < ms_session_id (se_sessions st' ! j) \<and>
        ms_session_id (se_sessions st' ! j) < se_next_session_id st'"
      using j nxt pos sid session_ok_id [OF ok, of j] len
      by (cases "j = i") (auto simp: frame)
    fix k assume "k < length (se_sessions st')" "ms_active (se_sessions st' ! k)"
      "ms_session_id (se_sessions st' ! j) = ms_session_id (se_sessions st' ! k)"
    then show "j = k"
      using j sid other [of j] other [of k] session_ok_unique [OF ok, of j k] len
      by (cases "j = i"; cases "k = i") (simp_all add: frame)
  qed
qed

lemma m7mux_session_find_by_client_Some:
  assumes "m7mux_session_find_by_client_session st c v f = Some i"
  shows "i < length (se_sessions st) \<and> ms_active (se_sessions st ! i) \<and>
    ms_client_session_id (se_sessions st ! i) = c \<and> ms_wire_version (se_sessions st ! i) = v \<and>
    ms_wire_form (se_sessions st ! i) = f \<and> c \<noteq> 0"
  using assms
  by (auto simp: m7mux_session_find_by_client_session_def split: if_splits dest: find_idx_SomeD)

lemma m7mux_session_find_raw_Some:
  assumes "m7mux_session_find_raw_by_ip st ip = Some i"
  shows "i < length (se_sessions st) \<and> ms_active (se_sessions st ! i) \<and>
    ms_wire_version (se_sessions st ! i) = 0"
  using assms by (auto simp: m7mux_session_find_raw_by_ip_def split: if_splits dest: find_idx_SomeD)

text \<open>The three ways a registration can end: a session refreshed, one claimed, or a full table.\<close>

lemma m7mux_session_register_cases:
  assumes "m7mux_session_register st control normal = (r, st', normal')"
  obtains (known) i f where "r = Some i" "st' = update_session i f st" "i < length (se_sessions st)"
      "ms_active (se_sessions st ! i)"
      "f = session_refresh normal \<or> (f = session_refresh_raw normal \<and> rp_wire_version normal = 0 \<and>
         ms_wire_version (se_sessions st ! i) = 0)"
      "control_client_owned control \<and> f = session_refresh normal \<and>
         m7mux_session_find_by_client_session st (rp_session_id normal) (rp_wire_version normal)
           (rp_wire_form normal) = Some i \<and>
         normal' = normal\<lparr>rp_session_id := ms_session_id (se_sessions st ! i)\<rparr> \<or>
       \<not> control_client_owned control \<and> ms_session_id (se_sessions st ! i) = rp_session_id normal \<and>
         normal' = normal \<or>
       rp_wire_version normal = 0 \<and> normal' = normal"
  | (claimed) "session_claim_slot st (control_client_owned control) normal = (r, st', normal')"
      "control_client_owned control \<Longrightarrow> m7mux_session_find_by_client_session st
         (rp_session_id normal) (rp_wire_version normal) (rp_wire_form normal) = None"
      "\<not> control_client_owned control \<Longrightarrow> rp_session_id normal \<noteq> 0 \<Longrightarrow>
         m7mux_session_find st (rp_session_id normal) = None"
proof (cases "control_client_owned control \<and> m7mux_session_find_by_client_session st
    (rp_session_id normal) (rp_wire_version normal) (rp_wire_form normal) \<noteq> None")
  case True
  then obtain i where i: "m7mux_session_find_by_client_session st (rp_session_id normal)
      (rp_wire_version normal) (rp_wire_form normal) = Some i" by blast
  show ?thesis
    by (rule known [of i "session_refresh normal"])
      (use assms True i m7mux_session_find_by_client_Some [OF i] in
        \<open>simp_all add: m7mux_session_register_def\<close>)
next
  case no_client: False
  show ?thesis
  proof (cases "\<not> control_client_owned control \<and> rp_session_id normal \<noteq> 0 \<and>
      m7mux_session_find st (rp_session_id normal) \<noteq> None")
    case True
    then obtain i where i: "m7mux_session_find st (rp_session_id normal) = Some i" by blast
    show ?thesis
      by (rule known [of i "session_refresh normal"])
        (use assms True i m7mux_session_find_Some [OF i] in
          \<open>auto simp add: m7mux_session_register_def Let_def split: if_splits\<close>)
  next
    case no_id: False
    show ?thesis
    proof (cases "rp_wire_version normal = 0 \<and> m7mux_session_find_raw_by_ip st (rp_ip normal) \<noteq> None")
      case True
      then obtain i where i: "m7mux_session_find_raw_by_ip st (rp_ip normal) = Some i" by blast
      show ?thesis
        by (rule known [of i "session_refresh_raw normal"])
          (use assms True i no_client no_id m7mux_session_find_raw_Some [OF i] in
            \<open>auto simp add: m7mux_session_register_def Let_def split: if_splits\<close>)
    next
      case False
      show ?thesis
        by (rule claimed)
          (use assms no_client no_id False in
            \<open>auto simp add: m7mux_session_register_def Let_def split: if_splits\<close>)
    qed
  qed
qed

text \<open>What a successful ingest leaves behind.\<close>

lemma session_ingest_spec:
  assumes ok: "session_ok st" and b: "session_ids_bounded st normal"
    and raw: "rp_wire_version normal = 0 \<Longrightarrow> rp_session_id normal = 0"
    and ing: "m7mux_session_ingest st clock control normal = (True, st', normal')"
  shows "\<exists>i. session_ok st' \<and> i < length (se_sessions st') \<and> ms_active (se_sessions st' ! i) \<and>
    ms_session_id (se_sessions st' ! i) = rp_session_id normal' \<and>
    ms_expires_at_ms (se_sessions st' ! i) = clock + M7MUX_SESSION_SESSION_TIMEOUT_MS \<and>
    (\<forall>j. j \<noteq> i \<longrightarrow> se_sessions st' ! j = se_sessions st ! j) \<and>
    length (se_sessions st') = length (se_sessions st) \<and>
    (ms_active (se_sessions st ! i) \<longrightarrow> ms_session_id (se_sessions st ! i) = rp_session_id normal') \<and>
    (rp_synthetic_session normal' \<longleftrightarrow> rp_session_id normal = 0)"
proof -
  obtain r st1 n1 where reg: "m7mux_session_register st control normal = (r, st1, n1)"
    by (metis prod_cases3)
  obtain i where r: "r = Some i" using ing reg by (cases r) (simp_all add: m7mux_session_ingest_def)
  let ?sid = "ms_session_id (se_sessions st1 ! i)"
  have st': "st' = update_session i (m7mux_session_touch clock) st1"
    and syn: "rp_synthetic_session normal' \<longleftrightarrow> rp_session_id normal = 0"
    and sid': "rp_session_id normal' = (if control_client_owned control \<or> rp_session_id normal = 0
        then ?sid else rp_session_id n1)"
    using ing reg r by (auto simp: m7mux_session_ingest_def Let_def)
  from reg have "session_ok st1 \<and> i < length (se_sessions st1) \<and> ms_active (se_sessions st1 ! i) \<and>
      (\<forall>j. j \<noteq> i \<longrightarrow> se_sessions st1 ! j = se_sessions st ! j) \<and>
      length (se_sessions st1) = length (se_sessions st) \<and>
      (ms_active (se_sessions st ! i) \<longrightarrow> ms_session_id (se_sessions st ! i) = ?sid) \<and>
      (control_client_owned control \<or> rp_session_id normal = 0 \<or> rp_session_id n1 = ?sid)"
  proof (cases rule: m7mux_session_register_cases)
    case (known k f)
    have k: "k = i" using known(1) r by simp
    have keep: "\<And>s. ms_active (f s) = ms_active s \<and> ms_session_id (f s) = ms_session_id s"
      using known(5) by auto
    have "rp_session_id normal = 0 \<or> control_client_owned control \<or> rp_session_id n1 = ?sid"
      using known k keep raw by (auto simp: update_session_nth)
    then show ?thesis
      using session_ok_update [OF ok known(3) keep] known(2,3,4) k keep
      by (auto simp: update_session_nth)
  next
    case claimed
    note c = session_claim_slot_spec [OF ok b claimed(3) claimed(1) [unfolded r]]
    have "control_client_owned control \<or> n1 = normal"
      using claimed(1) r
      by (auto simp: session_claim_slot_def Let_def split: option.splits if_splits)
    then show ?thesis
      using c by auto
  qed
  then show ?thesis
    using st' syn sid' session_ok_update [of st1 i "m7mux_session_touch clock"]
    by (intro exI [of _ i]) (auto simp: update_session_nth)
qed

lemma session_ingest_refused:
  assumes "m7mux_session_ingest st clock control normal = (False, st', normal')"
  shows "st' = st \<and> normal' = normal \<and> (\<forall>s \<in> set (se_sessions st). ms_active s)"
proof -
  obtain r st1 n1 where reg: "m7mux_session_register st control normal = (r, st1, n1)"
    by (metis prod_cases3)
  have r: "r = None" and "st' = st1" "normal' = n1"
    using assms reg by (auto simp: m7mux_session_ingest_def Let_def split: option.splits)
  moreover from reg have "st1 = st \<and> n1 = normal \<and> (\<forall>s \<in> set (se_sessions st). ms_active s)"
  proof (cases rule: m7mux_session_register_cases)
    case (known k f)
    then show ?thesis using r by simp
  next
    case claimed
    then show ?thesis
      using r by (auto simp: session_claim_slot_def Let_def find_idx_None split: option.splits)
  qed
  ultimately show ?thesis by simp
qed

section \<open>Client sessions\<close>

abbreviation client_lookup :: "M7MuxSessionState \<Rightarrow> M7MuxRecvPacket \<Rightarrow> nat option" where
  "client_lookup st p \<equiv> m7mux_session_find_by_client_session st (rp_session_id p)
     (rp_wire_version p) (rp_wire_form p)"

definition client_key :: "M7MuxRecvPacket \<Rightarrow> u64 \<times> u32 \<times> u8" where
  "client_key p = (rp_session_id p, rp_wire_version p, rp_wire_form p)"

lemma find_idx_update_same:
  assumes "find_idx P xs = Some i \<or> (find_idx P xs = None \<and> i < length xs)" "P x"
  shows "find_idx P (xs[i := x]) = Some i"
  using assms by (auto simp: find_idx_Some find_idx_None nth_list_update)

lemma client_lookup_update:
  assumes "client_lookup st p = Some i \<or> (client_lookup st p = None \<and> i < length (se_sessions st))"
    and "rp_session_id p \<noteq> 0" "se_sessions st' = (se_sessions st)[i := s]" "ms_active s"
    "ms_client_session_id s = rp_session_id p" "ms_wire_version s = rp_wire_version p"
    "ms_wire_form s = rp_wire_form p"
  shows "client_lookup st' p = Some i"
  using assms unfolding m7mux_session_find_by_client_session_def
  by (simp add: find_idx_update_same)

lemma session_ingest_client:
  assumes ok: "session_ok st" and b: "session_ids_bounded st normal"
    and own: "control_client_owned control" and nz: "rp_session_id normal \<noteq> 0" "rp_wire_version normal \<noteq> 0"
    and ing: "m7mux_session_ingest st clock control normal = (True, st', normal')"
  obtains i where "client_lookup st' normal = Some i" "i < length (se_sessions st')"
    "ms_session_id (se_sessions st' ! i) = rp_session_id normal'"
    "client_lookup st normal = Some i \<or> \<not> ms_active (se_sessions st ! i) \<and> client_lookup st normal = None"
    "\<And>j. j \<noteq> i \<Longrightarrow> se_sessions st' ! j = se_sessions st ! j"
    "ms_active (se_sessions st ! i) \<Longrightarrow>
       ms_session_id (se_sessions st ! i) = rp_session_id normal'"
proof -
  obtain r st1 n1 where reg: "m7mux_session_register st control normal = (r, st1, n1)"
    by (metis prod_cases3)
  obtain i where r: "r = Some i" using ing reg by (cases r) (simp_all add: m7mux_session_ingest_def)
  have st': "st' = update_session i (m7mux_session_touch clock) st1"
    and sid': "rp_session_id normal' = ms_session_id (se_sessions st1 ! i)"
    using ing reg r own by (auto simp: m7mux_session_ingest_def Let_def)
  from reg show ?thesis
  proof (cases rule: m7mux_session_register_cases)
    case (known k f)
    have k: "k = i" and f: "f = session_refresh normal" and look: "client_lookup st normal = Some i"
      using known own nz r by auto
    have "se_sessions st' = (se_sessions st)
        [i := m7mux_session_touch clock (session_refresh normal (se_sessions st ! i))]"
      using st' known(2,3) k f by (simp add: update_session_def)
    then have "client_lookup st' normal = Some i"
      by (rule client_lookup_update [OF disjI1 [OF look] nz(1)])
        (use m7mux_session_find_by_client_Some [OF look] in simp_all)
    then show ?thesis
      by (rule that) (use known st' sid' k f look in \<open>auto simp: update_session_nth\<close>)
  next
    case claimed
    note c = session_claim_slot_spec [OF ok b _ claimed(1) [unfolded r]]
    have i: "i < length (se_sessions st1)" "length (se_sessions st1) = length (se_sessions st)"
      using c own by auto
    have frame: "\<And>j. j \<noteq> i \<Longrightarrow> se_sessions st1 ! j = se_sessions st ! j" using c(5) own by simp
    let ?s = "m7mux_session_touch clock (se_sessions st1 ! i)"
    have "se_sessions st' = (se_sessions st)[i := ?s]"
      using st' i frame by (intro nth_equalityI) (auto simp: update_session_nth nth_list_update)
    then have "client_lookup st' normal = Some i"
      using client_lookup_update [OF disjI2 [OF conjI [OF claimed(2) [OF own] i(1) [unfolded i(2)]]] nz(1), of st' ?s]
        c(3,7,8,9) own nz by simp
    then show ?thesis
      by (rule that) (use st' i sid' c(4) frame own claimed(2) in \<open>auto simp: update_session_nth\<close>)
  qed
qed

section \<open>Expiry and release\<close>

lemma session_expire_loop_spec:
  assumes "session_ok st" "distinct is" "\<forall>i \<in> set is. i < length (se_sessions st)"
  shows "case session_expire_loop now_ms is n st of (n', st') \<Rightarrow>
    session_ok st' \<and> n' = n + length (filter (\<lambda>i. session_expired now_ms (se_sessions st ! i)) is) \<and>
    se_next_session_id st' = se_next_session_id st \<and>
    (\<forall>j. se_sessions st' ! j =
      (if j \<in> set is \<and> session_expired now_ms (se_sessions st ! j) then zero_session
       else se_sessions st ! j))"
  using assms
proof (induction now_ms "is" n st rule: session_expire_loop.induct)
  case (1 now_ms expired st)
  then show ?case by simp
next
  case (2 now_ms i "is" expired st)
  show ?case
  proof (cases "session_expired now_ms (se_sessions st ! i)")
    case False
    with 2 show ?thesis by (auto split: prod.splits)
  next
    case True
    let ?c = "m7mux_session_clear st i"
    have c: "session_ok ?c" using session_clear_ok 2 by simp
    have nth: "se_sessions ?c ! j = (if j = i then zero_session else se_sessions st ! j)" for j
      using True 2 by (simp add: m7mux_session_clear_def session_expired_def)
    have frame: "length (se_sessions ?c) = length (se_sessions st)"
      "se_next_session_id ?c = se_next_session_id st"
      by (simp_all add: m7mux_session_clear_def)
    have same: "filter (\<lambda>j. session_expired now_ms (se_sessions ?c ! j)) is =
        filter (\<lambda>j. session_expired now_ms (se_sessions st ! j)) is"
      by (rule filter_cong) (use "2.prems" in \<open>auto simp: nth\<close>)
    have "case session_expire_loop now_ms is (expired + 1) ?c of (n', st') \<Rightarrow>
      session_ok st' \<and>
      n' = expired + 1 + length (filter (\<lambda>j. session_expired now_ms (se_sessions st ! j)) is) \<and>
      se_next_session_id st' = se_next_session_id st \<and>
      (\<forall>j. se_sessions st' ! j =
        (if j \<in> set is \<and> session_expired now_ms (se_sessions ?c ! j) then zero_session
         else se_sessions ?c ! j))"
      using "2.IH"(1) [OF True c] "2.prems" frame same by simp
    with True "2.prems" show ?thesis
      by (auto simp: nth split: prod.splits)
  qed
qed

lemma session_expire_spec:
  assumes ok: "session_ok st" and e: "m7mux_session_expire st now_ms = (n, st')"
  shows "session_ok st'" "n = count_if (session_expired now_ms) (se_sessions st)"
    "se_sessions st' = map (\<lambda>s. if session_expired now_ms s then zero_session else s) (se_sessions st)"
    "se_next_session_id st' = se_next_session_id st"
proof -
  have len: "length (se_sessions st) = M7MUX_SESSION_SESSION_CAPACITY"
    by (rule session_ok_length [OF ok])
  have *: "session_ok st' \<and> n = length (filter (\<lambda>i. session_expired now_ms (se_sessions st ! i))
        [0..<length (se_sessions st)]) \<and>
    se_next_session_id st' = se_next_session_id st \<and>
    (\<forall>j. se_sessions st' ! j =
      (if j < length (se_sessions st) \<and> session_expired now_ms (se_sessions st ! j) then zero_session
       else se_sessions st ! j))"
    using session_expire_loop_spec [OF ok, of "[0..<length (se_sessions st)]" 0 now_ms] e
    by (simp add: m7mux_session_expire_def len)
  then show "session_ok st'" "se_next_session_id st' = se_next_session_id st" by simp_all
  have "filter (session_expired now_ms) (se_sessions st) =
      filter (session_expired now_ms) (map (\<lambda>i. se_sessions st ! i) [0..<length (se_sessions st)])"
    by (simp add: map_nth)
  then show "n = count_if (session_expired now_ms) (se_sessions st)"
    using * by (simp add: count_if_def filter_map o_def)
  show "se_sessions st' = map (\<lambda>s. if session_expired now_ms s then zero_session else s) (se_sessions st)"
    using * session_ok_length [of st'] len by (intro nth_equalityI) simp_all
qed

end
