(* ===== verification/Adapter.thy ===== *)
theory Adapter
  imports Wire_Types
begin

text \<open>
  \<open>m7mux/normalize/adapter/adapter.c\<close>: the registry of codec adapters, and the contract
  that the mux relies on when it calls one, as the locale \<open>codec_adapter\<close>.

  An adapter is the record of its function pointers over its own codec state \<open>'cs\<close>; the
  \<open>ctx\<close> argument, which every codec ignores, is dropped. Encoders draw random bytes, so they
  thread the position \<open>rng\<close> in the stream of \<open>RAND_bytes\<close> results. The registry
  \<open>g_adapters[0 .. g_adapter_count - 1]\<close> is a list.
\<close>

type_synonym rng = nat

record 'cs adapter =
  ad_name :: string
  ad_wire_version :: u32
  ad_create_state :: "(unit \<Rightarrow> 'cs option) option"
  ad_alloc_user_recv_data :: "user_heap \<Rightarrow> uaddr option \<times> user_heap"
  ad_free_user_recv_data :: "uaddr \<Rightarrow> user_heap \<Rightarrow> user_heap"
  ad_copy_user_recv_data :: "M7MuxUserRecvData \<Rightarrow> M7MuxUserRecvData option"
  ad_count_fragments :: "'cs option \<Rightarrow> M7MuxSendPacket \<Rightarrow> nat"
  ad_detect :: "'cs option \<Rightarrow> M7MuxIngress \<Rightarrow> M7MuxIngressIdentity \<Rightarrow> bool \<times> M7MuxIngressIdentity"
  ad_decode :: "'cs option \<Rightarrow> M7MuxIngress \<Rightarrow> M7MuxControl \<Rightarrow> M7MuxRecvPacket \<Rightarrow> user_heap \<Rightarrow>
      bool \<times> M7MuxControl \<times> M7MuxRecvPacket \<times> user_heap"
  ad_encode :: "'cs option \<Rightarrow> M7MuxSendPacket \<Rightarrow> rng \<Rightarrow> M7MuxEgressData option \<times> rng"
  ad_encode_fragment ::
    "('cs option \<Rightarrow> M7MuxSendPacket \<Rightarrow> nat \<Rightarrow> nat \<Rightarrow> rng \<Rightarrow> M7MuxEgressData option \<times> rng) option"
  ad_state :: "'cs option"

type_synonym 'cs registry = "'cs adapter list"

section \<open>The registry\<close>

definition M7MUX_MAX_NORMALIZE_ADAPTERS :: nat where
  "M7MUX_MAX_NORMALIZE_ADAPTERS = 16"

definition m7mux_normalize_adapter_reset_registry :: "'cs registry \<Rightarrow> 'cs registry" where
  "m7mux_normalize_adapter_reset_registry reg = []"

definition m7mux_normalize_adapter_register ::
  "'cs registry \<Rightarrow> 'cs adapter \<Rightarrow> bool \<times> 'cs registry" where
  "m7mux_normalize_adapter_register reg a =
     (if \<exists>b \<in> set reg. ad_name b = ad_name a then (False, reg)
      else if length reg \<ge> M7MUX_MAX_NORMALIZE_ADAPTERS then (False, reg)
      else case ad_create_state a of
        None \<Rightarrow> (True, reg @ [a\<lparr>ad_state := None\<rparr>])
      | Some create \<Rightarrow>
          (case create () of
             None \<Rightarrow> (False, reg)
           | Some s \<Rightarrow> (True, reg @ [a\<lparr>ad_state := Some s\<rparr>])))"

fun m7mux_normalize_adapter_unregister :: "'cs registry \<Rightarrow> string \<Rightarrow> bool \<times> 'cs registry" where
  "m7mux_normalize_adapter_unregister [] name = (False, [])"
| "m7mux_normalize_adapter_unregister (a # as) name =
     (if ad_name a = name then (True, as)
      else let (b, as') = m7mux_normalize_adapter_unregister as name in (b, a # as'))"

definition m7mux_normalize_adapter_lookup :: "'cs registry \<Rightarrow> string \<Rightarrow> 'cs adapter option" where
  "m7mux_normalize_adapter_lookup reg name =
     map_option (\<lambda>i. reg ! i) (find_idx (\<lambda>a. ad_name a = name) reg)"

definition m7mux_normalize_adapter_lookup_wire_version ::
  "'cs registry \<Rightarrow> u32 \<Rightarrow> 'cs adapter option" where
  "m7mux_normalize_adapter_lookup_wire_version reg v =
     map_option (\<lambda>i. reg ! i) (find_idx (\<lambda>a. ad_wire_version a = v) reg)"

fun m7mux_normalize_adapter_demux ::
  "'cs registry \<Rightarrow> M7MuxIngress \<Rightarrow> M7MuxIngressIdentity \<Rightarrow>
   'cs adapter option \<times> M7MuxIngressIdentity" where
  "m7mux_normalize_adapter_demux [] ingress identity = (None, identity)"
| "m7mux_normalize_adapter_demux (a # as) ingress identity =
     (case ad_detect a (ad_state a) ingress zero_identity of
        (True, identity') \<Rightarrow> (Some a, identity')
      | (False, identity') \<Rightarrow> m7mux_normalize_adapter_demux as ingress identity')"

definition m7mux_normalize_adapter_count :: "'cs registry \<Rightarrow> nat" where
  "m7mux_normalize_adapter_count reg = length reg"

section \<open>Calling a codec\<close>

text \<open>
  \<open>owned_user\<close> is the block this call allocated; it is freed on every path that does not
  hand it to the caller.
\<close>

definition m7mux_normalize_adapter_decode ::
  "'cs adapter \<Rightarrow> M7MuxIngress \<Rightarrow> M7MuxControl \<Rightarrow> M7MuxRecvPacket \<Rightarrow> user_heap \<Rightarrow>
   bool \<times> M7MuxControl \<times> M7MuxRecvPacket \<times> user_heap" where
  "m7mux_normalize_adapter_decode a ingress control out h =
     (let (owned_user, h1) =
            (case rp_user out of Some u \<Rightarrow> (None, h) | None \<Rightarrow> ad_alloc_user_recv_data a h)
      in if rp_user out = None \<and> owned_user = None then (False, control, out, h1)
         else
           let out1 = (if rp_user out = None then out\<lparr>rp_user := owned_user\<rparr> else out);
               release = (\<lambda>hh. case owned_user of None \<Rightarrow> hh
                                | Some u \<Rightarrow> ad_free_user_recv_data a u hh)
           in case ad_decode a (ad_state a) ingress control out1 h1 of
                (False, control', out2, h2) \<Rightarrow>
                  (False, control',
                   (if rp_user out2 = owned_user then out2\<lparr>rp_user := None\<rparr> else out2), release h2)
              | (True, control', out2, h2) \<Rightarrow>
                  (if rp_user out2 = None then (False, control', out2, release h2)
                   else (True, control', out2, h2)))"

definition m7mux_normalize_adapter_encode ::
  "'cs adapter \<Rightarrow> M7MuxSendPacket \<Rightarrow> rng \<Rightarrow> M7MuxEgressData option \<times> rng" where
  "m7mux_normalize_adapter_encode a send r = ad_encode a (ad_state a) send r"

definition m7mux_normalize_adapter_fill_egress ::
  "M7MuxSendPacket \<Rightarrow> u8 list \<Rightarrow> M7MuxEgressData option" where
  "m7mux_normalize_adapter_fill_egress src payload =
     (if length payload > M7MUX_NORMALIZED_PACKET_BUFFER_SIZE then None
      else Some \<lparr>eg_trace_id = sp_trace_id src, eg_label = sp_label src,
        eg_wire_version = sp_wire_version src, eg_wire_form = sp_wire_form src,
        eg_received_ms = sp_received_ms src, eg_session_id = sp_session_id src,
        eg_message_id = sp_message_id src, eg_stream_id = sp_stream_id src,
        eg_fragment_index = sp_fragment_index src, eg_fragment_count = sp_fragment_count src,
        eg_timestamp = sp_timestamp src, eg_ip = sp_ip src, eg_client_port = sp_client_port src,
        eg_encrypted = sp_encrypted src, eg_wire_auth = sp_wire_auth src,
        eg_egress_buffer = payload\<rparr>)"

section \<open>The contract of an adapter\<close>

text \<open>
  What the mux relies on: user blocks come from and go back to the heap, a decode neither
  allocates nor frees one and keeps the caller's block in the packet, a copy does not fail, a
  packet decoded from bytes that the adapter detects carries the adapter's wire version, and
  serialized packets fit a datagram buffer.
\<close>

locale codec_adapter =
  fixes a :: "'cs adapter"
  assumes alloc: "ad_alloc_user_recv_data a h = alloc_user h"
    and free: "ad_free_user_recv_data a u h = free_user u h"
    and copy: "ad_copy_user_recv_data a d = Some d"
    and version: "ad_wire_version a \<noteq> 0"
    and decode_heap: "heap_ok h \<Longrightarrow> rp_user out = Some u \<Longrightarrow> u \<in> live h \<Longrightarrow>
        ad_decode a s ingress control out h = (b, control', out', h') \<Longrightarrow>
        heap_ok h' \<and> live h' = live h \<and> rp_user out' = Some u"
    and decode_version: "ad_detect a s raw idn = (True, idn') \<Longrightarrow> in_buffer ingress = in_buffer raw \<Longrightarrow>
        ad_decode a s ingress control out h = (True, control', out', h') \<Longrightarrow>
        rp_wire_version out' = ad_wire_version a"
    and encode_fits: "ad_encode a s send r = (Some e, r') \<Longrightarrow>
        length (eg_egress_buffer e) \<le> M7MUX_NORMALIZED_PACKET_BUFFER_SIZE"
    and encode_fragment_fits: "ad_encode_fragment a = Some f \<Longrightarrow> f s send i n r = (Some e, r') \<Longrightarrow>
        length (eg_egress_buffer e) \<le> M7MUX_NORMALIZED_PACKET_BUFFER_SIZE"
begin

text \<open>A decode through the registry leaves exactly one new block, and only on success.\<close>

lemma adapter_decode_heap:
  assumes h: "heap_ok h" and out: "rp_user out = None"
    and det: "ad_detect a (ad_state a) raw idn = (True, idn')" "in_buffer ingress = in_buffer raw"
    and d: "m7mux_normalize_adapter_decode a ingress control out h = (b, control', out', h')"
  shows "heap_ok h' \<and> (if b then \<exists>u. rp_user out' = Some u \<and> u \<notin> live h \<and> live h' = insert u (live h) \<and>
             rp_wire_version out' = ad_wire_version a
           else rp_user out' = None \<and> live h' = live h)"
proof (cases "alloc_user h")
  case (Pair o1 h1)
  show ?thesis
  proof (cases o1)
    case None
    with d out Pair alloc_user_None [of h h1] h show ?thesis
      by (auto simp: m7mux_normalize_adapter_decode_def alloc)
  next
    case (Some u)
    have a1: "heap_ok h1" "live h1 = insert u (live h)" "u \<notin> live h"
      using alloc_user_Some [of h u h1] Pair Some h by auto
    obtain b2 c2 out2 h2 where e:
      "ad_decode a (ad_state a) ingress control (out\<lparr>rp_user := Some u\<rparr>) h1 = (b2, c2, out2, h2)"
      by (metis prod_cases4)
    have dec: "heap_ok h2" "live h2 = insert u (live h)" "rp_user out2 = Some u"
      using decode_heap [OF a1(1) _ _ e, of u] a1(2) by simp_all
    show ?thesis
    proof (cases b2)
      case True
      with d out Pair Some e dec a1 decode_version [OF det] show ?thesis
        by (auto simp: m7mux_normalize_adapter_decode_def alloc)
    next
      case False
      with d out Pair Some e dec a1 free_user_live [of h2 u] show ?thesis
        by (auto simp: m7mux_normalize_adapter_decode_def alloc free)
    qed
  qed
qed

end

section \<open>Facts about the registry\<close>

definition registry_ok :: "'cs registry \<Rightarrow> bool" where
  "registry_ok reg \<longleftrightarrow> distinct (map ad_name reg) \<and> length reg \<le> M7MUX_MAX_NORMALIZE_ADAPTERS"

lemma lookup_wire_version_Some:
  assumes "m7mux_normalize_adapter_lookup_wire_version reg v = Some a"
  shows "a \<in> set reg" "ad_wire_version a = v"
  using assms by (auto simp: m7mux_normalize_adapter_lookup_wire_version_def dest: find_idx_SomeD)

lemma lookup_wire_version_exists:
  assumes "a \<in> set reg"
  shows "\<exists>b. m7mux_normalize_adapter_lookup_wire_version reg (ad_wire_version a) = Some b"
  using find_idx_ex [of reg "\<lambda>b. ad_wire_version b = ad_wire_version a"] assms
  by (auto simp: m7mux_normalize_adapter_lookup_wire_version_def)

lemma demux_Some:
  assumes "m7mux_normalize_adapter_demux reg ingress identity = (Some a, identity')"
  shows "a \<in> set reg \<and> ad_detect a (ad_state a) ingress zero_identity = (True, identity')"
  using assms
  by (induction reg ingress identity rule: m7mux_normalize_adapter_demux.induct)
    (auto split: prod.splits bool.splits)

lemma register_ok:
  "registry_ok reg \<Longrightarrow> registry_ok (snd (m7mux_normalize_adapter_register reg a))"
  by (auto simp: registry_ok_def m7mux_normalize_adapter_register_def split: option.splits)

lemma unregister_names:
  "set (snd (m7mux_normalize_adapter_unregister reg name)) \<subseteq> set reg \<and>
   length (snd (m7mux_normalize_adapter_unregister reg name)) \<le> length reg"
  by (induction reg name rule: m7mux_normalize_adapter_unregister.induct)
    (auto split: prod.splits)

lemma unregister_ok:
  "registry_ok reg \<Longrightarrow> registry_ok (snd (m7mux_normalize_adapter_unregister reg name))"
proof (induction reg name rule: m7mux_normalize_adapter_unregister.induct)
  case (1 name)
  then show ?case by simp
next
  case (2 a as name)
  show ?case
  proof (cases "ad_name a = name")
    case True
    with 2 show ?thesis by (simp add: registry_ok_def)
  next
    case False
    with 2 unregister_names [of as name] show ?thesis
      by (auto simp: registry_ok_def subset_iff split: prod.splits)
  qed
qed

lemma unregister_lookup:
  "registry_ok reg \<Longrightarrow>
   m7mux_normalize_adapter_lookup (snd (m7mux_normalize_adapter_unregister reg name)) name = None"
proof (induction reg name rule: m7mux_normalize_adapter_unregister.induct)
  case (1 name)
  then show ?case by (simp add: m7mux_normalize_adapter_lookup_def)
next
  case (2 a as name)
  then show ?case
    by (auto simp: registry_ok_def m7mux_normalize_adapter_lookup_def find_idx_None rev_image_eqI
        split: prod.splits option.splits)
qed

end
