(* ===== verification/Normalize.thy ===== *)
theory Normalize
  imports Adapter
begin

text \<open>
  \<open>m7mux/normalize/normalize.c\<close>: a raw datagram becomes a received packet, through the codec
  that recognises it or as raw bytes, under the encryption policy of the connection.
\<close>

datatype M7MuxPolicyEnforceEncryption =
    M7MUX_POLICY_ENFORCE_ENCRYPTION_ANY
  | M7MUX_POLICY_ENFORCE_ENCRYPTION_YES
  | M7MUX_POLICY_ENFORCE_ENCRYPTION_NO

definition m7mux_normalize_encryption_allowed ::
  "M7MuxContext \<Rightarrow> M7MuxPolicyEnforceEncryption \<Rightarrow> bool \<Rightarrow> bool" where
  "m7mux_normalize_encryption_allowed g_ctx policy encrypted =
     (case policy of
        M7MUX_POLICY_ENFORCE_ENCRYPTION_YES \<Rightarrow> encrypted
      | M7MUX_POLICY_ENFORCE_ENCRYPTION_NO \<Rightarrow> \<not> encrypted
      | M7MUX_POLICY_ENFORCE_ENCRYPTION_ANY \<Rightarrow>
          (if mx_server_secure g_ctx = Some True then encrypted else True))"

definition m7mux_normalize_raw_copy :: "M7MuxIngress \<Rightarrow> M7MuxRecvPacket \<Rightarrow> bool \<times> M7MuxRecvPacket" where
  "m7mux_normalize_raw_copy ingress out =
     (if length (in_buffer ingress) > M7MUX_NORMALIZED_PACKET_BUFFER_SIZE then (False, out)
      else (True, zero_recv
        \<lparr>rp_complete := True, rp_received_ms := in_received_ms ingress, rp_label := ''raw'',
         rp_wire_version := 0, rp_wire_form := 0, rp_ip := in_ip ingress,
         rp_client_port := in_client_port ingress, rp_encrypted := in_encrypted ingress,
         rp_wire_decode := False, rp_wire_auth := False, rp_stream_id := 1,
         rp_raw_bytes := in_buffer ingress\<rparr>))"

definition m7mux_normalize_configure_ingress_identity ::
  "M7MuxIngress \<Rightarrow> M7MuxIngressIdentity \<Rightarrow> M7MuxIngress" where
  "m7mux_normalize_configure_ingress_identity ingress identity =
     ingress\<lparr>in_encrypted := id_encrypted identity, in_magic := id_magic identity,
             in_version := id_version identity, in_form := id_form identity\<rparr>"

definition m7mux_normalize_packet ::
  "M7MuxContext \<Rightarrow> 'cs registry \<Rightarrow> M7MuxPolicyEnforceEncryption \<Rightarrow> M7MuxIngress \<Rightarrow> M7MuxControl \<Rightarrow>
   M7MuxRecvPacket \<Rightarrow> user_heap \<Rightarrow> bool \<times> M7MuxControl \<times> M7MuxRecvPacket \<times> user_heap" where
  "m7mux_normalize_packet g_ctx reg policy ingress control out h =
     (if m7mux_normalize_adapter_count reg = 0
      then (let (b, out') = m7mux_normalize_raw_copy ingress out in (b, control, out', h))
      else
        case m7mux_normalize_adapter_demux reg ingress zero_identity of
          (None, identity) \<Rightarrow>
            (let (b, out') = m7mux_normalize_raw_copy ingress out in (b, control, out', h))
        | (Some adapter, identity) \<Rightarrow>
            (let configured = m7mux_normalize_configure_ingress_identity ingress identity
             in case m7mux_normalize_adapter_decode adapter configured control out h of
                  (False, control', out', h') \<Rightarrow>
                    (let (b, out'') = m7mux_normalize_raw_copy ingress out'
                     in (b, control', out'', h'))
                | (True, control', out', h') \<Rightarrow>
                    (let out1 = out'\<lparr>rp_received_ms := in_received_ms configured,
                                     rp_ip := in_ip configured,
                                     rp_client_port := in_client_port configured,
                                     rp_encrypted := in_encrypted configured,
                                     rp_wire_decode := True\<rparr>
                     in if \<not> m7mux_normalize_encryption_allowed g_ctx policy (rp_encrypted out1)
                        then (case rp_user out1 of
                                None \<Rightarrow> (False, control', out1, h')
                              | Some u \<Rightarrow> (False, control', out1\<lparr>rp_user := None\<rparr>,
                                          ad_free_user_recv_data adapter u h'))
                        else (True, control', out1, h'))))"

section \<open>Ownership\<close>

definition adapters_ok :: "'cs registry \<Rightarrow> bool" where
  "adapters_ok reg \<longleftrightarrow> (\<forall>a \<in> set reg. codec_adapter a)"

text \<open>A packet whose user block can be released: a codec of that wire version is registered.\<close>

definition releasable :: "'cs registry \<Rightarrow> M7MuxRecvPacket \<Rightarrow> bool" where
  "releasable reg p \<longleftrightarrow> (rp_user p \<noteq> None \<longrightarrow>
     m7mux_normalize_adapter_lookup_wire_version reg (rp_wire_version p) \<noteq> None)"

lemma raw_copy_result:
  "m7mux_normalize_raw_copy ingress out = (b, out') \<Longrightarrow> rp_user out = None \<Longrightarrow>
   rp_user out' = None \<and> (b \<longrightarrow> rp_wire_version out' = 0 \<and> rp_session_id out' = 0)"
  by (auto simp: m7mux_normalize_raw_copy_def zero_recv_def split: if_splits)

lemma normalize_heap:
  assumes reg: "adapters_ok reg" and h: "heap_ok h" and out: "rp_user out = None"
    and n: "m7mux_normalize_packet g_ctx reg policy ingress control out h = (b, control', out', h')"
  shows "heap_ok h'" "live h' = live h \<union> set_option (rp_user out')"
    "\<And>u. rp_user out' = Some u \<Longrightarrow> u \<notin> live h"
    "\<not> b \<Longrightarrow> rp_user out' = None" "releasable reg out'"
proof -
  have "heap_ok h' \<and> live h' = live h \<union> set_option (rp_user out') \<and>
    (\<forall>u. rp_user out' = Some u \<longrightarrow> u \<notin> live h) \<and> (\<not> b \<longrightarrow> rp_user out' = None) \<and> releasable reg out'"
  proof (cases "\<exists>a. fst (m7mux_normalize_adapter_demux reg ingress zero_identity) = Some a \<and>
      m7mux_normalize_adapter_count reg \<noteq> 0")
    case False
    then have "\<exists>o1. m7mux_normalize_raw_copy ingress out = (b, out') \<and> h' = h"
      using n by (auto simp: m7mux_normalize_packet_def split: prod.splits if_splits option.splits)
    then show ?thesis
      using raw_copy_result [of ingress out b out'] out h by (auto simp: releasable_def)
  next
    case True
    then obtain a idn where dem: "m7mux_normalize_adapter_demux reg ingress zero_identity = (Some a, idn)"
      and cnt: "m7mux_normalize_adapter_count reg \<noteq> 0"
      by (metis prod.collapse)
    note det = demux_Some [OF dem]
    have ca: "codec_adapter a" using reg det by (simp add: adapters_ok_def)
    let ?c = "m7mux_normalize_configure_ingress_identity ingress idn"
    obtain b1 c1 o1 h1 where d: "m7mux_normalize_adapter_decode a ?c control out h = (b1, c1, o1, h1)"
      by (metis prod_cases4)
    have buf: "in_buffer ?c = in_buffer ingress"
      by (simp add: m7mux_normalize_configure_ingress_identity_def)
    note dh = codec_adapter.adapter_decode_heap [OF ca h out conjunct2 [OF det] buf d]
    show ?thesis
    proof (cases b1)
      case False
      with n dem cnt d have "m7mux_normalize_raw_copy ingress o1 = (b, out') \<and> h' = h1"
        by (auto simp: m7mux_normalize_packet_def Let_def split: prod.splits)
      then show ?thesis
        using raw_copy_result [of ingress o1 b out'] dh False by (auto simp: releasable_def)
    next
      case True
      with dh obtain u where u: "rp_user o1 = Some u" "u \<notin> live h" "live h1 = insert u (live h)"
        "heap_ok h1" and ver: "rp_wire_version o1 = ad_wire_version a" by auto
      have rel: "releasable reg out'" if "rp_wire_version out' = rp_wire_version o1"
        using that lookup_wire_version_exists [of a reg] det ver by (auto simp: releasable_def)
      show ?thesis
      proof (cases "m7mux_normalize_encryption_allowed g_ctx policy (in_encrypted ?c)")
        case allowed: True
        with n dem cnt d True have "b" "h' = h1" "rp_user out' = rp_user o1"
          "rp_wire_version out' = rp_wire_version o1"
          by (auto simp: m7mux_normalize_packet_def Let_def)
        with u rel show ?thesis by auto
      next
        case refused: False
        with n dem cnt d True u codec_adapter.free [OF ca] have "h' = free_user u h1" "rp_user out' = None"
          by (auto simp: m7mux_normalize_packet_def Let_def)
        with u free_user_live [of h1 u] show ?thesis by (auto simp: releasable_def)
      qed
    qed
  qed
  then show "heap_ok h'" "live h' = live h \<union> set_option (rp_user out')"
    "\<And>u. rp_user out' = Some u \<Longrightarrow> u \<notin> live h"
    "\<not> b \<Longrightarrow> rp_user out' = None" "releasable reg out'" by blast+
qed

end
