(* ===== verification/Stream.thy ===== *)
theory Stream
  imports Normalize
begin

text \<open>
  \<open>m7mux/stream/stream.c\<close>: the ready queue of received packets, the trackers that put the
  fragments of a message in order, and the ownership of the user blocks of queued packets.
  Pointers to trackers and slots are indices. The operations that reach a codec through
  \<open>state->adapter_lib\<close> take the registry; \<open>sm_adapter_lib\<close> says whether the pointer is set.
\<close>

section \<open>State\<close>

definition M7MUX_STREAM_READY_QUEUE_CAPACITY :: nat where
  "M7MUX_STREAM_READY_QUEUE_CAPACITY = 64"

definition M7MUX_STREAM_SESSION_TRACKER_CAPACITY :: nat where
  "M7MUX_STREAM_SESSION_TRACKER_CAPACITY = 64"

definition M7MUX_STREAM_TRACKER_CAPACITY :: nat where
  "M7MUX_STREAM_TRACKER_CAPACITY = 64"

definition M7MUX_STREAM_EXPIRE_AFTER_MS :: u64 where
  "M7MUX_STREAM_EXPIRE_AFTER_MS = 30000"

record M7MuxStreamMessageTracker =
  mt_stream_id :: u32
  mt_next_message_id :: u64
  mt_message_id :: u64
  mt_next_fragment_index :: u32
  mt_fragment_count :: u32
  mt_active :: bool

definition zero_message_tracker :: M7MuxStreamMessageTracker where
  "zero_message_tracker = \<lparr>mt_stream_id = 0, mt_next_message_id = 0, mt_message_id = 0,
     mt_next_fragment_index = 0, mt_fragment_count = 0, mt_active = False\<rparr>"

record M7MuxStreamSessionTracker =
  tr_session_id :: u64
  tr_next_stream_id :: u32
  tr_active :: bool
  tr_stream_trackers :: "M7MuxStreamMessageTracker list"

definition zero_session_tracker :: M7MuxStreamSessionTracker where
  "zero_session_tracker = \<lparr>tr_session_id = 0, tr_next_stream_id = 0, tr_active = False,
     tr_stream_trackers = replicate M7MUX_STREAM_TRACKER_CAPACITY zero_message_tracker\<rparr>"

record M7MuxStreamState =
  sm_ready_queue :: "M7MuxRecvPacket list"
  sm_ready_count :: nat
  sm_session_trackers :: "M7MuxStreamSessionTracker list"
  sm_adapter_lib :: bool

definition m7mux_stream_state_init :: M7MuxStreamState where
  "m7mux_stream_state_init =
     \<lparr>sm_ready_queue = replicate M7MUX_STREAM_READY_QUEUE_CAPACITY zero_recv, sm_ready_count = 0,
      sm_session_trackers = replicate M7MUX_STREAM_SESSION_TRACKER_CAPACITY zero_session_tracker,
      sm_adapter_lib = False\<rparr>"

definition m7mux_stream_has_pending :: "M7MuxStreamState \<Rightarrow> bool" where
  "m7mux_stream_has_pending st \<longleftrightarrow> sm_ready_count st > 0"

definition m7mux_stream_is_expired :: "M7MuxRecvPacket \<Rightarrow> u64 \<Rightarrow> bool" where
  "m7mux_stream_is_expired slot now_ms =
     (if rp_session_id slot = 0 then False
      else if rp_received_ms slot = 0 then True
      else if now_ms < rp_received_ms slot then False
      else now_ms - rp_received_ms slot \<ge> M7MUX_STREAM_EXPIRE_AFTER_MS)"

section \<open>User blocks of queued packets\<close>

definition m7mux_stream_release_user ::
  "'cs registry \<Rightarrow> M7MuxStreamState \<Rightarrow> M7MuxRecvPacket \<Rightarrow> user_heap \<Rightarrow> user_heap" where
  "m7mux_stream_release_user reg st packet h =
     (if \<not> sm_adapter_lib st then h
      else case rp_user packet of
        None \<Rightarrow> h
      | Some u \<Rightarrow>
          (case m7mux_normalize_adapter_lookup_wire_version reg (rp_wire_version packet) of
             None \<Rightarrow> h
           | Some adapter \<Rightarrow> ad_free_user_recv_data adapter u h))"

text \<open>
  Copies a block to the caller's buffer: the contents, or \<open>None\<close> for the return value 0. A read
  through a dangling pointer sets \<open>uh_fault\<close>.
\<close>

definition m7mux_stream_copy_user ::
  "'cs registry \<Rightarrow> M7MuxStreamState \<Rightarrow> M7MuxRecvPacket \<Rightarrow> uaddr \<Rightarrow> user_heap \<Rightarrow>
   M7MuxUserRecvData option \<times> user_heap" where
  "m7mux_stream_copy_user reg st packet src h =
     (if \<not> sm_adapter_lib st then (None, h)
      else case m7mux_normalize_adapter_lookup_wire_version reg (rp_wire_version packet) of
        None \<Rightarrow> (None, h)
      | Some adapter \<Rightarrow>
          (case uh_cell h src of
             None \<Rightarrow> (None, h\<lparr>uh_fault := True\<rparr>)
           | Some d \<Rightarrow> (ad_copy_user_recv_data adapter d, h)))"

definition m7mux_stream_state_reset ::
  "'cs registry \<Rightarrow> M7MuxStreamState \<Rightarrow> user_heap \<Rightarrow> M7MuxStreamState \<times> user_heap" where
  "m7mux_stream_state_reset reg st h =
     (m7mux_stream_state_init\<lparr>sm_adapter_lib := sm_adapter_lib st\<rparr>,
      foldl (\<lambda>hh slot. m7mux_stream_release_user reg st slot hh) h (sm_ready_queue st))"

section \<open>Trackers\<close>

definition m7mux_stream_find_session_tracker ::
  "M7MuxStreamState \<Rightarrow> u64 \<Rightarrow> bool \<Rightarrow> nat option \<times> M7MuxStreamState" where
  "m7mux_stream_find_session_tracker st session_id create =
     (if session_id = 0 then (None, st)
      else case find_idx (\<lambda>t. tr_active t \<and> tr_session_id t = session_id) (sm_session_trackers st) of
        Some i \<Rightarrow> (Some i, st)
      | None \<Rightarrow>
          (if \<not> create then (None, st)
           else case find_idx (\<lambda>t. \<not> tr_active t) (sm_session_trackers st) of
             None \<Rightarrow> (None, st)
           | Some i \<Rightarrow> (Some i, st\<lparr>sm_session_trackers := (sm_session_trackers st)
               [i := zero_session_tracker\<lparr>tr_active := True, tr_session_id := session_id,
                       tr_next_stream_id := 1\<rparr>]\<rparr>)))"

definition m7mux_stream_find_message_tracker ::
  "M7MuxStreamSessionTracker \<Rightarrow> u32 \<Rightarrow> bool \<Rightarrow> nat option \<times> M7MuxStreamSessionTracker" where
  "m7mux_stream_find_message_tracker tr stream_id create =
     (if stream_id = 0 then (None, tr)
      else case find_idx (\<lambda>t. mt_active t \<and> mt_stream_id t = stream_id) (tr_stream_trackers tr) of
        Some i \<Rightarrow> (Some i, tr)
      | None \<Rightarrow>
          (if \<not> create then (None, tr)
           else case find_idx (\<lambda>t. \<not> mt_active t) (tr_stream_trackers tr) of
             None \<Rightarrow> (None, tr)
           | Some i \<Rightarrow> (Some i, tr\<lparr>tr_stream_trackers := (tr_stream_trackers tr)
               [i := zero_message_tracker\<lparr>mt_active := True, mt_stream_id := stream_id,
                       mt_next_message_id := 1\<rparr>]\<rparr>)))"

definition m7mux_stream_message_tracker_begin ::
  "M7MuxStreamMessageTracker \<Rightarrow> M7MuxRecvPacket \<Rightarrow> bool \<times> M7MuxStreamMessageTracker" where
  "m7mux_stream_message_tracker_begin t packet =
     (if rp_message_id packet = 0 then (False, t)
      else
        let fragment_count = (if rp_fragment_count packet = 0 then 1 else rp_fragment_count packet);
            fresh = t\<lparr>mt_message_id := rp_message_id packet, mt_next_fragment_index := 0,
                      mt_fragment_count := fragment_count\<rparr>
        in if fragment_count \<le> 1 then (True, t)
           else if mt_message_id t = 0 then (True, fresh)
           else if mt_message_id t = rp_message_id packet
             then (True, if mt_fragment_count t = 0 then t\<lparr>mt_fragment_count := fragment_count\<rparr> else t)
           else if mt_next_fragment_index t \<ge> mt_fragment_count t then (True, fresh)
           else (False, t))"

definition m7mux_stream_packet_is_deliverable :: "M7MuxStreamState \<Rightarrow> M7MuxRecvPacket \<Rightarrow> bool" where
  "m7mux_stream_packet_is_deliverable st packet =
     (if rp_session_id packet = 0 \<or> rp_stream_id packet = 0 then False
      else case fst (m7mux_stream_find_session_tracker st (rp_session_id packet) False) of
        None \<Rightarrow> False
      | Some si \<Rightarrow>
          (if rp_fragment_count packet = 0 \<or> rp_fragment_count packet = 1
           then rp_fragment_index packet = 0
           else case fst (m7mux_stream_find_message_tracker (sm_session_trackers st ! si)
                            (rp_stream_id packet) False) of
                  None \<Rightarrow> False
                | Some mi \<Rightarrow>
                    (let t = tr_stream_trackers (sm_session_trackers st ! si) ! mi
                     in if mt_message_id t = 0 then False
                        else if rp_message_id packet \<noteq> mt_message_id t then False
                        else rp_fragment_index packet = mt_next_fragment_index t)))"

section \<open>Ingest\<close>

text \<open>The stream id of the packet, and the counter of the session tracker.\<close>

definition stream_assign_stream_id ::
  "M7MuxStreamSessionTracker \<Rightarrow> M7MuxRecvPacket \<Rightarrow> M7MuxRecvPacket \<times> M7MuxStreamSessionTracker" where
  "stream_assign_stream_id tr packet =
     (if rp_stream_id packet = 0
      then let sid = tr_next_stream_id tr; next1 = tr_next_stream_id tr + 1
           in (packet\<lparr>rp_stream_id := sid\<rparr>,
               tr\<lparr>tr_next_stream_id := (if sid \<ge> next1 then sid + 1 else next1)\<rparr>)
      else if rp_stream_id packet \<ge> tr_next_stream_id tr
      then (packet, tr\<lparr>tr_next_stream_id := rp_stream_id packet + 1\<rparr>)
      else (packet, tr))"

definition stream_assign_message_id ::
  "M7MuxStreamMessageTracker \<Rightarrow> M7MuxRecvPacket \<Rightarrow> M7MuxRecvPacket \<times> M7MuxStreamMessageTracker" where
  "stream_assign_message_id t packet =
     (if rp_message_id packet = 0
      then let mid = mt_next_message_id t; next1 = mt_next_message_id t + 1
           in (packet\<lparr>rp_message_id := mid\<rparr>,
               t\<lparr>mt_next_message_id := (if mid \<ge> next1 then mid + 1 else next1)\<rparr>)
      else if rp_message_id packet \<ge> mt_next_message_id t
      then (packet, t\<lparr>mt_next_message_id := rp_message_id packet + 1\<rparr>)
      else (packet, t))"

definition same_fragment :: "M7MuxRecvPacket \<Rightarrow> M7MuxRecvPacket \<Rightarrow> bool" where
  "same_fragment p q \<longleftrightarrow> rp_session_id p = rp_session_id q \<and> rp_stream_id p = rp_stream_id q \<and>
     rp_message_id p = rp_message_id q \<and> rp_fragment_index p = rp_fragment_index q"

text \<open>From \<open>final_fragment\<close> on: a duplicate is refused, a free slot takes the packet.\<close>

definition stream_queue_packet ::
  "'cs registry \<Rightarrow> M7MuxStreamState \<Rightarrow> M7MuxRecvPacket \<Rightarrow> user_heap \<Rightarrow>
   bool \<times> M7MuxStreamState \<times> user_heap" where
  "stream_queue_packet reg st packet h =
     (let final_fragment = (if rp_fragment_count packet = 0 then True
            else rp_fragment_index packet + 1 \<ge> rp_fragment_count packet);
          slot = (case find_idx (\<lambda>q. same_fragment q packet) (sm_ready_queue st) of
                    Some i \<Rightarrow> Some i
                  | None \<Rightarrow> find_idx (\<lambda>q. rp_session_id q = 0) (sm_ready_queue st))
      in case slot of
           None \<Rightarrow> (False, st, h)
         | Some i \<Rightarrow>
             (if rp_session_id (sm_ready_queue st ! i) \<noteq> 0 then (False, st, h)
              else (True, st\<lparr>sm_ready_queue := (sm_ready_queue st)
                               [i := packet\<lparr>rp_complete := final_fragment\<rparr>],
                             sm_ready_count := sm_ready_count st + 1\<rparr>,
                    m7mux_stream_release_user reg st (sm_ready_queue st ! i) h)))"

definition set_session_tracker :: "nat \<Rightarrow> M7MuxStreamSessionTracker \<Rightarrow> M7MuxStreamState \<Rightarrow>
    M7MuxStreamState" where
  "set_session_tracker i tr st = st\<lparr>sm_session_trackers := (sm_session_trackers st)[i := tr]\<rparr>"

definition set_message_tracker :: "nat \<Rightarrow> M7MuxStreamMessageTracker \<Rightarrow> M7MuxStreamSessionTracker \<Rightarrow>
    M7MuxStreamSessionTracker" where
  "set_message_tracker i t tr = tr\<lparr>tr_stream_trackers := (tr_stream_trackers tr)[i := t]\<rparr>"

definition m7mux_stream_ingest ::
  "'cs registry \<Rightarrow> M7MuxStreamState \<Rightarrow> M7MuxRecvPacket \<Rightarrow> user_heap \<Rightarrow>
   bool \<times> M7MuxStreamState \<times> user_heap" where
  "m7mux_stream_ingest reg st normal h =
     (if rp_session_id normal = 0 then (False, st, h)
      else case m7mux_stream_find_session_tracker st (rp_session_id normal) True of
        (None, st1) \<Rightarrow> (False, st1, h)
      | (Some si, st1) \<Rightarrow>
          (let (packet1, tr1) = stream_assign_stream_id (sm_session_trackers st1 ! si) normal
           in case m7mux_stream_find_message_tracker tr1 (rp_stream_id packet1) True of
                (None, tr2) \<Rightarrow> (False, set_session_tracker si tr2 st1, h)
              | (Some mi, tr2) \<Rightarrow>
                  (let (packet2, t1) = stream_assign_message_id (tr_stream_trackers tr2 ! mi) packet1;
                       (begun, t2) = m7mux_stream_message_tracker_begin t1 packet2;
                       st2 = set_session_tracker si (set_message_tracker mi t2 tr2) st1
                   in if \<not> begun then (False, st2, h)
                      else stream_queue_packet reg st2 packet2 h)))"

section \<open>Drain and expiry\<close>

text \<open>The message tracker of a delivered fragment moves on, and is reset at the last one.\<close>

definition message_tracker_advance :: "M7MuxStreamMessageTracker \<Rightarrow> M7MuxStreamMessageTracker" where
  "message_tracker_advance t =
     (let next1 = (if mt_next_fragment_index t < - 1 then mt_next_fragment_index t + 1
                   else mt_next_fragment_index t)
      in if mt_fragment_count t = 0 \<or> next1 \<ge> mt_fragment_count t
         then t\<lparr>mt_message_id := 0, mt_next_fragment_index := 0, mt_fragment_count := 0\<rparr>
         else t\<lparr>mt_next_fragment_index := next1\<rparr>)"

definition stream_advance_tracker :: "M7MuxStreamState \<Rightarrow> M7MuxRecvPacket \<Rightarrow> M7MuxStreamState" where
  "stream_advance_tracker st slot =
     (if rp_fragment_count slot > 1
      then case fst (m7mux_stream_find_session_tracker st (rp_session_id slot) False) of
        None \<Rightarrow> st
      | Some si \<Rightarrow>
          (let tr = sm_session_trackers st ! si
           in case fst (m7mux_stream_find_message_tracker tr (rp_stream_id slot) False) of
                None \<Rightarrow> st
              | Some mi \<Rightarrow>
                  (let t = tr_stream_trackers tr ! mi
                   in if mt_message_id t = rp_message_id slot
                      then set_session_tracker si
                             (set_message_tracker mi (message_tracker_advance t) tr) st
                      else st))
      else st)"

definition stream_clear_slot :: "nat \<Rightarrow> M7MuxStreamState \<Rightarrow> M7MuxStreamState" where
  "stream_clear_slot i st =
     st\<lparr>sm_ready_queue := (sm_ready_queue st)[i := zero_recv],
        sm_ready_count := (if sm_ready_count st > 0 then sm_ready_count st - 1
                           else sm_ready_count st)\<rparr>"

text \<open>
  \<open>has_user\<close> is whether the caller's packet points to a user buffer of its own. The result is
  the packet, its \<open>user\<close> shown as the contents of that buffer (\<open>None\<close> for a NULL pointer).
\<close>

definition m7mux_stream_drain ::
  "'cs registry \<Rightarrow> bool \<Rightarrow> M7MuxStreamState \<Rightarrow> user_heap \<Rightarrow>
   (M7MuxRecvPacket \<times> M7MuxUserRecvData option) option \<times> M7MuxStreamState \<times> user_heap" where
  "m7mux_stream_drain reg has_user st h =
     (case find_idx (\<lambda>q. rp_session_id q \<noteq> 0 \<and> m7mux_stream_packet_is_deliverable st q)
              (sm_ready_queue st) of
        None \<Rightarrow> (None, st, h)
      | Some i \<Rightarrow>
          (let slot = sm_ready_queue st ! i
           in case rp_user slot of
                None \<Rightarrow>
                  (Some (slot, None),
                   stream_clear_slot i (stream_advance_tracker st slot),
                   m7mux_stream_release_user reg st slot h)
              | Some u \<Rightarrow>
                  (if \<not> has_user then (None, st, h)
                   else case m7mux_stream_copy_user reg st slot u h of
                     (None, h1) \<Rightarrow> (None, st, h1)
                   | (Some d, h1) \<Rightarrow>
                       (Some (slot\<lparr>rp_user := None\<rparr>, Some d),
                        stream_clear_slot i (stream_advance_tracker st slot),
                        m7mux_stream_release_user reg st slot h1))))"

fun stream_expire_loop ::
  "'cs registry \<Rightarrow> u64 \<Rightarrow> nat list \<Rightarrow> nat \<Rightarrow> M7MuxStreamState \<Rightarrow> user_heap \<Rightarrow>
   nat \<times> M7MuxStreamState \<times> user_heap" where
  "stream_expire_loop reg now_ms [] expired st h = (expired, st, h)"
| "stream_expire_loop reg now_ms (i # is) expired st h =
     (if m7mux_stream_is_expired (sm_ready_queue st ! i) now_ms
      then stream_expire_loop reg now_ms is (expired + 1) (stream_clear_slot i st)
             (m7mux_stream_release_user reg st (sm_ready_queue st ! i) h)
      else stream_expire_loop reg now_ms is expired st h)"

definition m7mux_stream_expire ::
  "'cs registry \<Rightarrow> M7MuxStreamState \<Rightarrow> u64 \<Rightarrow> user_heap \<Rightarrow> nat \<times> M7MuxStreamState \<times> user_heap" where
  "m7mux_stream_expire reg st now_ms h =
     stream_expire_loop reg now_ms [0..<M7MUX_STREAM_READY_QUEUE_CAPACITY] 0 st h"

definition m7mux_stream_pump ::
  "'cs registry \<Rightarrow> M7MuxStreamState \<Rightarrow> u64 \<Rightarrow> user_heap \<Rightarrow> nat \<times> M7MuxStreamState \<times> user_heap" where
  "m7mux_stream_pump reg st now_ms h = m7mux_stream_expire reg st now_ms h"

section \<open>The queue invariant and the ownership of user blocks\<close>

definition packet_users :: "M7MuxRecvPacket list \<Rightarrow> uaddr set" where
  "packet_users ps = (\<Union>p \<in> set ps. set_option (rp_user p))"

definition users_distinct :: "M7MuxRecvPacket list \<Rightarrow> bool" where
  "users_distinct ps \<longleftrightarrow> (\<forall>i < length ps. \<forall>j < length ps.
     rp_user (ps ! i) \<noteq> None \<longrightarrow> rp_user (ps ! i) = rp_user (ps ! j) \<longrightarrow> i = j)"

definition queue_ok :: "'cs registry \<Rightarrow> M7MuxRecvPacket list \<Rightarrow> bool" where
  "queue_ok reg ps \<longleftrightarrow> length ps = M7MUX_STREAM_READY_QUEUE_CAPACITY \<and> users_distinct ps \<and>
     (\<forall>p \<in> set ps. (rp_session_id p = 0 \<longrightarrow> rp_user p = None) \<and> releasable reg p)"

definition stream_ok :: "'cs registry \<Rightarrow> M7MuxStreamState \<Rightarrow> bool" where
  "stream_ok reg st \<longleftrightarrow> sm_adapter_lib st \<and> queue_ok reg (sm_ready_queue st) \<and>
     sm_ready_count st = count_if (\<lambda>p. rp_session_id p \<noteq> 0) (sm_ready_queue st)"

definition slot_users :: "M7MuxStreamState \<Rightarrow> uaddr set" where
  "slot_users st = packet_users (sm_ready_queue st)"

lemma zero_recv_simps [simp]: "rp_user zero_recv = None" "rp_session_id zero_recv = 0"
  "rp_wire_version zero_recv = 0"
  by (simp_all add: zero_recv_def)

lemma users_distinctD:
  "users_distinct ps \<Longrightarrow> i < length ps \<Longrightarrow> j < length ps \<Longrightarrow> rp_user (ps ! i) = Some u \<Longrightarrow>
   rp_user (ps ! j) = Some u \<Longrightarrow> i = j"
  by (metis option.distinct(1) users_distinct_def)

lemma packet_users_nth:
  "u \<in> packet_users ps \<longleftrightarrow> (\<exists>i < length ps. rp_user (ps ! i) = Some u)"
  unfolding packet_users_def by (auto simp: in_set_conv_nth Bex_def)

lemma packet_users_update:
  assumes "users_distinct ps" "i < length ps"
  shows "packet_users (ps[i := p]) = packet_users ps - set_option (rp_user (ps ! i)) \<union> set_option (rp_user p)"
proof (rule set_eqI)
  fix u
  have "(\<exists>j < length ps. rp_user (ps[i := p] ! j) = Some u) \<longleftrightarrow>
      rp_user p = Some u \<or> (\<exists>j < length ps. j \<noteq> i \<and> rp_user (ps ! j) = Some u)"
    using assms(2) by (metis nth_list_update_eq nth_list_update_neq)
  moreover have "(\<exists>j < length ps. j \<noteq> i \<and> rp_user (ps ! j) = Some u) \<longleftrightarrow>
      u \<in> packet_users ps \<and> rp_user (ps ! i) \<noteq> Some u"
    using assms users_distinctD [OF assms(1)] by (metis packet_users_nth)
  ultimately show "u \<in> packet_users (ps[i := p]) \<longleftrightarrow>
      u \<in> packet_users ps - set_option (rp_user (ps ! i)) \<union> set_option (rp_user p)"
    by (auto simp: packet_users_nth)
qed

lemma users_distinct_update:
  assumes d: "users_distinct ps" and new: "\<And>u. rp_user p = Some u \<Longrightarrow> u \<notin> packet_users ps"
  shows "users_distinct (ps[i := p])"
proof -
  have "False" if "k < length ps" "rp_user p \<noteq> None" "rp_user p = rp_user (ps ! k)" for k
    using that new by (metis option.exhaust packet_users_nth)
  then have *: "j = k" if "j < length ps" "k < length ps" "rp_user (ps[i := p] ! j) \<noteq> None"
    "rp_user (ps[i := p] ! j) = rp_user (ps[i := p] ! k)" for j k
    using that d unfolding users_distinct_def by (metis nth_list_update_eq nth_list_update_neq)
  show ?thesis
    unfolding users_distinct_def length_list_update by (intro allI impI) (rule *)
qed

lemma queue_ok_update:
  assumes q: "queue_ok reg ps" and new: "\<And>u. rp_user p = Some u \<Longrightarrow> u \<notin> packet_users ps"
    and p: "rp_session_id p = 0 \<Longrightarrow> rp_user p = None" "releasable reg p"
  shows "queue_ok reg (ps[i := p])"
proof -
  have "x \<in> set (ps[i := p]) \<Longrightarrow> x = p \<or> x \<in> set ps" for x
    using set_update_subset_insert [of ps i p] by auto
  with q p users_distinct_update [of ps p i] new show ?thesis
    unfolding queue_ok_def by (metis length_list_update)
qed

lemma queue_okD:
  assumes "queue_ok reg ps"
  shows "length ps = M7MUX_STREAM_READY_QUEUE_CAPACITY" "users_distinct ps"
    "\<And>i. i < length ps \<Longrightarrow> rp_session_id (ps ! i) = 0 \<Longrightarrow> rp_user (ps ! i) = None"
    "\<And>i. i < length ps \<Longrightarrow> releasable reg (ps ! i)"
  using assms by (simp_all add: queue_ok_def)

lemma queue_ok_zero: "queue_ok reg (replicate M7MUX_STREAM_READY_QUEUE_CAPACITY zero_recv)"
  by (auto simp: queue_ok_def users_distinct_def releasable_def)

lemma release_user_spec:
  assumes "adapters_ok reg" "sm_adapter_lib st" "releasable reg p" "heap_ok h"
    "set_option (rp_user p) \<subseteq> live h"
  shows "heap_ok (m7mux_stream_release_user reg st p h) \<and>
    live (m7mux_stream_release_user reg st p h) = live h - set_option (rp_user p)"
proof (cases "rp_user p")
  case None
  with assms show ?thesis by (simp add: m7mux_stream_release_user_def)
next
  case (Some u)
  with assms obtain a where a: "m7mux_normalize_adapter_lookup_wire_version reg (rp_wire_version p) = Some a"
    by (auto simp: releasable_def)
  then have "ad_free_user_recv_data a u h = free_user u h"
    using assms(1) lookup_wire_version_Some [OF a] codec_adapter.free by (auto simp: adapters_ok_def)
  with a Some assms free_user_live [of h u] show ?thesis
    by (simp add: m7mux_stream_release_user_def)
qed

lemma release_user_cell:
  assumes "adapters_ok reg" "sm_adapter_lib st" "rp_user p \<noteq> Some u"
  shows "uh_cell (m7mux_stream_release_user reg st p h) u = uh_cell h u"
proof (cases "rp_user p")
  case None
  with assms show ?thesis by (simp add: m7mux_stream_release_user_def)
next
  case (Some v)
  show ?thesis
  proof (cases "m7mux_normalize_adapter_lookup_wire_version reg (rp_wire_version p)")
    case None
    with Some assms(2) show ?thesis by (simp add: m7mux_stream_release_user_def)
  next
    case a: (Some a)
    then have "ad_free_user_recv_data a v h = free_user v h"
      using assms(1) lookup_wire_version_Some [OF a] codec_adapter.free by (auto simp: adapters_ok_def)
    with a Some assms(2,3) show ?thesis
      by (simp add: m7mux_stream_release_user_def free_user_def split: option.splits)
  qed
qed

lemma release_user_None [simp]: "rp_user p = None \<Longrightarrow> m7mux_stream_release_user reg st p h = h"
  by (simp add: m7mux_stream_release_user_def)

lemma clear_slot_ok:
  assumes ok: "stream_ok reg st" and i: "i < length (sm_ready_queue st)"
    and occ: "rp_session_id (sm_ready_queue st ! i) \<noteq> 0"
  shows "stream_ok reg (stream_clear_slot i st)"
    "slot_users (stream_clear_slot i st) = slot_users st - set_option (rp_user (sm_ready_queue st ! i))"
proof -
  let ?P = "\<lambda>p. rp_session_id p \<noteq> 0"
  have q: "queue_ok reg (sm_ready_queue st)" using ok by (simp add: stream_ok_def)
  have "count_if ?P ((sm_ready_queue st)[i := zero_recv]) + 1 = count_if ?P (sm_ready_queue st)"
    using count_if_update [OF i, of ?P zero_recv] occ by simp
  then show "stream_ok reg (stream_clear_slot i st)"
    using ok queue_ok_update [OF q, of zero_recv i]
    by (auto simp: stream_ok_def stream_clear_slot_def releasable_def)
  show "slot_users (stream_clear_slot i st) = slot_users st - set_option (rp_user (sm_ready_queue st ! i))"
    using packet_users_update [OF queue_okD(2) [OF q] i] by (simp add: slot_users_def stream_clear_slot_def)
qed

lemma stream_ok_trackers:
  "sm_ready_queue st' = sm_ready_queue st \<Longrightarrow> sm_ready_count st' = sm_ready_count st \<Longrightarrow>
   sm_adapter_lib st' = sm_adapter_lib st \<Longrightarrow>
   stream_ok reg st' = stream_ok reg st \<and> slot_users st' = slot_users st"
  by (simp add: stream_ok_def slot_users_def)

lemma set_session_tracker_simps [simp]:
  "sm_ready_queue (set_session_tracker i tr st) = sm_ready_queue st"
  "sm_ready_count (set_session_tracker i tr st) = sm_ready_count st"
  "sm_adapter_lib (set_session_tracker i tr st) = sm_adapter_lib st"
  by (simp_all add: set_session_tracker_def)

lemma find_session_tracker_frame:
  "m7mux_stream_find_session_tracker st sid c = (r, st') \<Longrightarrow>
   sm_ready_queue st' = sm_ready_queue st \<and> sm_ready_count st' = sm_ready_count st \<and>
   sm_adapter_lib st' = sm_adapter_lib st"
  by (auto simp: m7mux_stream_find_session_tracker_def split: if_splits option.splits)

lemma advance_tracker_frame [simp]:
  "sm_ready_queue (stream_advance_tracker st slot) = sm_ready_queue st"
  "sm_ready_count (stream_advance_tracker st slot) = sm_ready_count st"
  "sm_adapter_lib (stream_advance_tracker st slot) = sm_adapter_lib st"
  by (simp_all add: stream_advance_tracker_def Let_def split: option.splits)

text \<open>Ids assigned on the way in do not touch the other fields.\<close>

lemma assign_ids_frame [simp]:
  "rp_user (fst (stream_assign_stream_id tr p)) = rp_user p"
  "rp_session_id (fst (stream_assign_stream_id tr p)) = rp_session_id p"
  "rp_wire_version (fst (stream_assign_stream_id tr p)) = rp_wire_version p"
  "rp_user (fst (stream_assign_message_id t p)) = rp_user p"
  "rp_session_id (fst (stream_assign_message_id t p)) = rp_session_id p"
  "rp_wire_version (fst (stream_assign_message_id t p)) = rp_wire_version p"
  by (simp_all add: stream_assign_stream_id_def stream_assign_message_id_def Let_def)

text \<open>
  An ingest ends in one of two ways: refused with the queue untouched, or through
  \<open>stream_queue_packet\<close> with the same owner fields.
\<close>

lemma m7mux_stream_ingest_cases:
  assumes "m7mux_stream_ingest reg st normal h = (b, st', h')"
  obtains (refused) "\<not> b" "h' = h" "sm_ready_queue st' = sm_ready_queue st"
      "sm_ready_count st' = sm_ready_count st" "sm_adapter_lib st' = sm_adapter_lib st"
  | (queued) st2 p2 where "stream_queue_packet reg st2 p2 h = (b, st', h')"
      "sm_ready_queue st2 = sm_ready_queue st" "sm_ready_count st2 = sm_ready_count st"
      "sm_adapter_lib st2 = sm_adapter_lib st" "rp_user p2 = rp_user normal"
      "rp_session_id p2 = rp_session_id normal" "rp_wire_version p2 = rp_wire_version normal"
      "rp_session_id normal \<noteq> 0"
proof (cases "rp_session_id normal = 0")
  case True
  with assms show ?thesis by (intro refused) (auto simp: m7mux_stream_ingest_def)
next
  case nz: False
  obtain r1 st1 where f1: "m7mux_stream_find_session_tracker st (rp_session_id normal) True = (r1, st1)"
    by fastforce
  note fr1 = find_session_tracker_frame [OF f1]
  show ?thesis
  proof (cases r1)
    case None
    with assms nz f1 fr1 show ?thesis by (intro refused) (auto simp: m7mux_stream_ingest_def)
  next
    case (Some si)
    obtain p1 tr1 where a1: "stream_assign_stream_id (sm_session_trackers st1 ! si) normal = (p1, tr1)"
      by fastforce
    obtain r2 tr2 where f2: "m7mux_stream_find_message_tracker tr1 (rp_stream_id p1) True = (r2, tr2)"
      by fastforce
    show ?thesis
    proof (cases r2)
      case None
      with assms nz f1 fr1 Some a1 f2 show ?thesis
        by (intro refused) (auto simp: m7mux_stream_ingest_def)
    next
      case some2: (Some mi)
      obtain p2 t1 where a2: "stream_assign_message_id (tr_stream_trackers tr2 ! mi) p1 = (p2, t1)"
        by fastforce
      obtain b2 t2 where bg: "m7mux_stream_message_tracker_begin t1 p2 = (b2, t2)" by fastforce
      have own: "rp_user p2 = rp_user normal" "rp_session_id p2 = rp_session_id normal"
        "rp_wire_version p2 = rp_wire_version normal"
        using assign_ids_frame(1-3) [of "sm_session_trackers st1 ! si" normal]
          assign_ids_frame(4-6) [of "tr_stream_trackers tr2 ! mi" p1] a1 a2 by simp_all
      show ?thesis
      proof (cases b2)
        case False
        with assms nz f1 fr1 Some a1 f2 some2 a2 bg show ?thesis
          by (intro refused) (auto simp: m7mux_stream_ingest_def)
      next
        case True
        with assms nz f1 fr1 Some a1 f2 some2 a2 bg own show ?thesis
          by (intro queued [of "set_session_tracker si (set_message_tracker mi t2 tr2) st1" p2])
            (auto simp: m7mux_stream_ingest_def)
      qed
    qed
  qed
qed

definition final_fragment :: "M7MuxRecvPacket \<Rightarrow> bool" where
  "final_fragment packet = (if rp_fragment_count packet = 0 then True
     else rp_fragment_index packet + 1 \<ge> rp_fragment_count packet)"

lemma stream_queue_packet_cases:
  assumes q: "stream_queue_packet reg st p h = (b, st', h')" and p: "rp_session_id p \<noteq> 0"
  obtains (refused) "\<not> b" "st' = st" "h' = h"
      "(\<exists>q \<in> set (sm_ready_queue st). same_fragment q p) \<or>
       (\<forall>q \<in> set (sm_ready_queue st). rp_session_id q \<noteq> 0)"
  | (stored) i where "b" "i < length (sm_ready_queue st)" "rp_session_id (sm_ready_queue st ! i) = 0"
      "\<forall>q \<in> set (sm_ready_queue st). \<not> same_fragment q p"
      "st' = st\<lparr>sm_ready_queue := (sm_ready_queue st)[i := p\<lparr>rp_complete := final_fragment p\<rparr>],
        sm_ready_count := sm_ready_count st + 1\<rparr>"
      "h' = m7mux_stream_release_user reg st (sm_ready_queue st ! i) h"
proof (cases "find_idx (\<lambda>q. same_fragment q p) (sm_ready_queue st)")
  case (Some i)
  note i = find_idx_SomeD(2,4) [OF Some]
  have "rp_session_id (sm_ready_queue st ! i) \<noteq> 0" using i(1) p by (simp add: same_fragment_def)
  then show ?thesis
    using q Some i by (intro refused) (auto simp: stream_queue_packet_def Let_def)
next
  case same: None
  show ?thesis
  proof (cases "find_idx (\<lambda>q. rp_session_id q = 0) (sm_ready_queue st)")
    case None
    then have "(b, st', h') = (False, st, h)"
      using q same by (simp add: stream_queue_packet_def)
    then show ?thesis
      using None by (intro refused) (simp_all add: find_idx_None)
  next
    case (Some i)
    note i = find_idx_SomeD(1,2) [OF Some]
    have "b \<and> st' = st\<lparr>sm_ready_queue := (sm_ready_queue st)[i := p\<lparr>rp_complete := final_fragment p\<rparr>],
        sm_ready_count := sm_ready_count st + 1\<rparr> \<and>
        h' = m7mux_stream_release_user reg st (sm_ready_queue st ! i) h"
      using q same Some i by (simp add: stream_queue_packet_def Let_def final_fragment_def split: if_splits)
    then show ?thesis using same i by (intro stored [of i]) (auto simp: find_idx_None)
  qed
qed

lemma stream_queue_packet_ok:
  assumes ok: "stream_ok reg st" and q: "stream_queue_packet reg st p h = (b, st', h')"
    and p: "rp_session_id p \<noteq> 0" "releasable reg p"
    and new: "\<And>u. rp_user p = Some u \<Longrightarrow> u \<notin> slot_users st"
  shows "stream_ok reg st' \<and> h' = h \<and>
    slot_users st' = slot_users st \<union> (if b then set_option (rp_user p) else {})"
  using q p(1)
proof (cases rule: stream_queue_packet_cases)
  case refused
  with ok show ?thesis by simp
next
  case (stored i)
  have qk: "queue_ok reg (sm_ready_queue st)" using ok by (simp add: stream_ok_def)
  define c where "c = final_fragment p"
  note i = stored(2,3) and st' = stored(5) [folded c_def]
  have none: "rp_user (sm_ready_queue st ! i) = None"
    using queue_okD(3) [OF qk i] .
  have rel: "releasable reg (p\<lparr>rp_complete := c\<rparr>)" using p by (simp add: releasable_def)
  let ?P = "\<lambda>p. rp_session_id p \<noteq> 0"
  have "count_if ?P ((sm_ready_queue st)[i := p\<lparr>rp_complete := c\<rparr>]) = count_if ?P (sm_ready_queue st) + 1"
    using count_if_update [OF i(1), of ?P "p\<lparr>rp_complete := c\<rparr>"] i(2) p(1) by simp
  moreover have "queue_ok reg ((sm_ready_queue st)[i := p\<lparr>rp_complete := c\<rparr>])"
    using new p(1) rel by (intro queue_ok_update [OF qk]) (auto simp: slot_users_def)
  ultimately have "stream_ok reg st'"
    using ok by (simp add: stream_ok_def st')
  moreover have "slot_users st' = slot_users st \<union> set_option (rp_user p)"
    using packet_users_update [OF queue_okD(2) [OF qk] i(1), of "p\<lparr>rp_complete := c\<rparr>"] none
    by (simp add: slot_users_def st')
  ultimately show ?thesis using stored none by simp
qed

lemma stream_ingest_ok:
  assumes ok: "stream_ok reg st" and ing: "m7mux_stream_ingest reg st normal h = (b, st', h')"
    and rel: "releasable reg normal"
    and new: "\<And>u. rp_user normal = Some u \<Longrightarrow> u \<notin> slot_users st"
  shows "stream_ok reg st' \<and> h' = h \<and>
    slot_users st' = slot_users st \<union> (if b then set_option (rp_user normal) else {})"
  using ing
proof (cases rule: m7mux_stream_ingest_cases)
  case refused
  then show ?thesis using stream_ok_trackers [of st' st reg] ok by simp
next
  case (queued st2 p2)
  then show ?thesis
    using stream_queue_packet_ok [OF _ queued(1)] stream_ok_trackers [of st2 st reg] ok rel new
    by (simp add: releasable_def)
qed

lemma copy_user_spec:
  assumes "adapters_ok reg" "sm_adapter_lib st" "releasable reg p" "rp_user p = Some u" "u \<in> live h"
  shows "\<exists>d. uh_cell h u = Some d \<and> m7mux_stream_copy_user reg st p u h = (Some d, h)"
proof -
  from assms obtain a where a: "m7mux_normalize_adapter_lookup_wire_version reg (rp_wire_version p) = Some a"
    by (auto simp: releasable_def)
  then have "ad_copy_user_recv_data a d = Some d" for d
    using assms(1) lookup_wire_version_Some [OF a] codec_adapter.copy by (auto simp: adapters_ok_def)
  with a assms show ?thesis
    by (auto simp: m7mux_stream_copy_user_def live_def)
qed

text \<open>What a drain hands out, and that it frees the block it copied from.\<close>

lemma stream_drain_cases:
  assumes reg: "adapters_ok reg" and ok: "stream_ok reg st" and h: "heap_ok h" "slot_users st \<subseteq> live h"
    and d: "m7mux_stream_drain reg has_user st h = (r, st', h')"
  obtains (nothing) "r = None" "st' = st" "h' = h"
      "has_user \<longrightarrow> (\<forall>p \<in> set (sm_ready_queue st). \<not> m7mux_stream_packet_is_deliverable st p)"
  | (packet) i slot where "i < length (sm_ready_queue st)" "slot = sm_ready_queue st ! i"
      "rp_session_id slot \<noteq> 0" "m7mux_stream_packet_is_deliverable st slot"
      "r = Some (slot\<lparr>rp_user := None\<rparr>,
         case rp_user slot of None \<Rightarrow> None | Some u \<Rightarrow> uh_cell h u)"
      "st' = stream_clear_slot i (stream_advance_tracker st slot)"
      "h' = m7mux_stream_release_user reg st slot h"
proof (cases "find_idx (\<lambda>q. rp_session_id q \<noteq> 0 \<and> m7mux_stream_packet_is_deliverable st q) (sm_ready_queue st)")
  case None
  have "rp_session_id p \<noteq> 0" if "m7mux_stream_packet_is_deliverable st p" for p
    using that by (auto simp: m7mux_stream_packet_is_deliverable_def split: if_splits)
  with None have no: "\<forall>p \<in> set (sm_ready_queue st). \<not> m7mux_stream_packet_is_deliverable st p"
    by (auto simp: find_idx_None)
  have "(r, st', h') = (None, st, h)" using d None by (simp add: m7mux_stream_drain_def)
  then have "r = None" "st' = st" "h' = h" by simp_all
  then show ?thesis by (rule nothing) (use no in blast)
next
  case (Some i)
  note i = find_idx_SomeD(1,2,4) [OF Some]
  have q: "queue_ok reg (sm_ready_queue st)" and lib: "sm_adapter_lib st" using ok by (simp_all add: stream_ok_def)
  let ?slot = "sm_ready_queue st ! i"
  show ?thesis
  proof (cases "rp_user ?slot")
    case None
    moreover have "?slot\<lparr>rp_user := None\<rparr> = ?slot" using None by simp
    ultimately show ?thesis
      using d Some i by (intro packet [of i ?slot]) (auto simp: m7mux_stream_drain_def Let_def)
  next
    case user: (Some u)
    show ?thesis
    proof (cases has_user)
      case False
      then have "(r, st', h') = (None, st, h)"
        using d Some i user by (simp add: m7mux_stream_drain_def)
      then have "r = None" "st' = st" "h' = h" by simp_all
      then show ?thesis by (rule nothing) (use False in simp)
    next
      case True
      have "u \<in> slot_users st"
        using i(1) user by (auto simp: slot_users_def packet_users_nth)
      then obtain dd where "uh_cell h u = Some dd" "m7mux_stream_copy_user reg st ?slot u h = (Some dd, h)"
        using copy_user_spec [OF reg lib queue_okD(4) [OF q i(1)] user] h by blast
      with d Some i user True show ?thesis
        by (intro packet [of i ?slot]) (auto simp: m7mux_stream_drain_def Let_def)
    qed
  qed
qed

lemma stream_drain_ok:
  assumes reg: "adapters_ok reg" and ok: "stream_ok reg st" and h: "heap_ok h" "slot_users st = live h"
    and d: "m7mux_stream_drain reg has_user st h = (r, st', h')"
  shows "stream_ok reg st' \<and> heap_ok h' \<and> slot_users st' = live h'"
proof -
  have sub: "slot_users st \<subseteq> live h" using h by simp
  from reg ok h(1) sub d show ?thesis
  proof (cases rule: stream_drain_cases)
    case nothing
    with ok h show ?thesis by simp
  next
    case (packet i slot)
    have q: "queue_ok reg (sm_ready_queue st)" and lib: "sm_adapter_lib st" using ok by (simp_all add: stream_ok_def)
    have rel: "releasable reg slot" using queue_okD(4) [OF q] packet by simp
    have "set_option (rp_user slot) \<subseteq> slot_users st"
      using packet(1,2) by (auto simp: slot_users_def packet_users_nth)
    then have "set_option (rp_user slot) \<subseteq> live h" using sub by blast
    note r = release_user_spec [OF reg lib rel h(1) this]
    have ok2: "stream_ok reg (stream_advance_tracker st slot)"
      "slot_users (stream_advance_tracker st slot) = slot_users st"
      using stream_ok_trackers [of "stream_advance_tracker st slot" st reg] ok by simp_all
    show ?thesis
      using clear_slot_ok [OF ok2(1), of i] packet ok2(2) r h by simp
  qed
qed

lemma stream_expire_loop_ok:
  assumes "adapters_ok reg" "stream_ok reg st" "heap_ok h" "slot_users st = live h"
    "\<forall>i \<in> set is. i < length (sm_ready_queue st)"
    "stream_expire_loop reg now_ms is n st h = (n', st', h')"
  shows "stream_ok reg st' \<and> heap_ok h' \<and> slot_users st' = live h' \<and>
    sm_session_trackers st' = sm_session_trackers st"
  using assms
proof (induction reg now_ms "is" n st h rule: stream_expire_loop.induct)
  case (1 reg now_ms expired st h)
  then show ?case by simp
next
  case (2 reg now_ms i "is" expired st h)
  let ?slot = "sm_ready_queue st ! i"
  show ?case
  proof (cases "m7mux_stream_is_expired ?slot now_ms")
    case False
    with 2 show ?thesis by simp
  next
    case True
    then have occ: "rp_session_id ?slot \<noteq> 0" by (auto simp: m7mux_stream_is_expired_def)
    have i: "i < length (sm_ready_queue st)" using "2.prems" by simp
    have q: "queue_ok reg (sm_ready_queue st)" and lib: "sm_adapter_lib st"
      using "2.prems" by (simp_all add: stream_ok_def)
    have "set_option (rp_user ?slot) \<subseteq> live h"
      using "2.prems" i by (auto simp: slot_users_def packet_users_nth)
    note r = release_user_spec [OF "2.prems"(1) lib queue_okD(4) [OF q i] "2.prems"(3) this]
    note c = clear_slot_ok [OF "2.prems"(2) i occ]
    have "sm_session_trackers (stream_clear_slot i st) = sm_session_trackers st"
      "length (sm_ready_queue (stream_clear_slot i st)) = length (sm_ready_queue st)"
      by (simp_all add: stream_clear_slot_def)
    with "2.IH"(1) [OF True "2.prems"(1) c(1)] "2.prems" r c(2) True show ?thesis by simp
  qed
qed

lemma stream_expire_ok:
  assumes "adapters_ok reg" "stream_ok reg st" "heap_ok h" "slot_users st = live h"
    "m7mux_stream_expire reg st now_ms h = (n, st', h')"
  shows "stream_ok reg st' \<and> heap_ok h' \<and> slot_users st' = live h' \<and>
    sm_session_trackers st' = sm_session_trackers st"
proof -
  have "length (sm_ready_queue st) = M7MUX_STREAM_READY_QUEUE_CAPACITY"
    using assms(2) by (simp add: stream_ok_def queue_ok_def)
  then show ?thesis
    by (intro stream_expire_loop_ok [OF assms(1-4) _ assms(5) [unfolded m7mux_stream_expire_def]]) simp
qed

text \<open>A reset gives every block back.\<close>

lemma release_all_ok:
  assumes reg: "adapters_ok reg" and lib: "sm_adapter_lib st"
    and "\<forall>p \<in> set ps. releasable reg p" "users_distinct ps" "heap_ok h" "packet_users ps \<subseteq> live h"
  shows "heap_ok (foldl (\<lambda>hh slot. m7mux_stream_release_user reg st slot hh) h ps) \<and>
    live (foldl (\<lambda>hh slot. m7mux_stream_release_user reg st slot hh) h ps) = live h - packet_users ps"
  using assms(3-)
proof (induction ps arbitrary: h)
  case Nil
  then show ?case by (simp add: packet_users_def)
next
  case (Cons p ps)
  let ?h = "m7mux_stream_release_user reg st p h"
  have us: "packet_users (p # ps) = set_option (rp_user p) \<union> packet_users ps"
    by (simp add: packet_users_def)
  have r: "heap_ok ?h \<and> live ?h = live h - set_option (rp_user p)"
    using Cons.prems us by (intro release_user_spec [OF reg lib]) auto
  have dist: "users_distinct ps"
    unfolding users_distinct_def
  proof (intro allI impI)
    fix i j assume "i < length ps" "j < length ps" "rp_user (ps ! i) \<noteq> None"
      "rp_user (ps ! i) = rp_user (ps ! j)"
    then show "i = j"
      using users_distinctD [OF Cons.prems(2), of "Suc i" "Suc j"] by auto
  qed
  have disj: "u \<notin> packet_users ps" if u: "rp_user p = Some u" for u
  proof
    assume "u \<in> packet_users ps"
    then obtain i where "i < length ps" "rp_user (ps ! i) = Some u"
      by (auto simp: packet_users_nth)
    then show False using users_distinctD [OF Cons.prems(2), of 0 "Suc i" u] u by simp
  qed
  have "packet_users ps \<subseteq> live ?h"
    using Cons.prems(4) r us disj by (cases "rp_user p") auto
  with Cons.IH [of ?h] Cons.prems r dist us show ?case by auto
qed

lemma stream_reset_ok:
  assumes "adapters_ok reg" "stream_ok reg st" "heap_ok h" "slot_users st = live h"
    "m7mux_stream_state_reset reg st h = (st', h')"
  shows "stream_ok reg st' \<and> heap_ok h' \<and> live h' = {} \<and> slot_users st' = {}"
proof -
  have q: "queue_ok reg (sm_ready_queue st)" and lib: "sm_adapter_lib st"
    using assms(2) by (simp_all add: stream_ok_def)
  have "stream_ok reg st' \<and> slot_users st' = {}"
    using assms(5) lib queue_ok_zero
    by (auto simp: m7mux_stream_state_reset_def stream_ok_def m7mux_stream_state_init_def
        slot_users_def packet_users_def)
  moreover have "heap_ok h' \<and> live h' = {}"
    using release_all_ok [OF assms(1) lib, of "sm_ready_queue st" h] q assms(3,4,5)
    by (auto simp: m7mux_stream_state_reset_def queue_ok_def slot_users_def)
  ultimately show ?thesis by blast
qed

end
