(* ===== verification/Outbox.thy ===== *)
theory Outbox
  imports Ingress Egress Session Stream
begin

text \<open>
  The state of a connection (\<open>m7mux/internal.h\<close>) and \<open>m7mux/outbox/outbox.c\<close>: a packet
  to send is serialized by its codec, in one datagram or in fragments, and staged for egress.

  Every submodule holds a copy of the same \<open>M7MuxContext\<close> and the library bundle is installed
  once \<open>m7mux_init\<close> has succeeded; the operations below take that context as \<open>g_ctx\<close> and
  the registry of adapters as \<open>reg\<close>.
\<close>

record M7MuxConnectState =
  co_socket_fd :: int
  co_owns_socket :: bool
  co_connected :: bool
  co_remote_ip :: string
  co_remote_port :: u16

record M7MuxState =
  mu_connect :: M7MuxConnectState
  mu_policy_enforce_encryption :: M7MuxPolicyEnforceEncryption
  mu_ingress :: M7MuxIngressState
  mu_session :: M7MuxSessionState
  mu_stream :: M7MuxStreamState
  mu_egress :: M7MuxEgressState

definition m7mux_outbox_state_init :: "M7MuxState \<Rightarrow> M7MuxState" where
  "m7mux_outbox_state_init st = st\<lparr>mu_egress := m7mux_egress_state_init\<rparr>"

definition m7mux_outbox_state_reset :: "M7MuxState \<Rightarrow> M7MuxState" where
  "m7mux_outbox_state_reset st = st\<lparr>mu_egress := m7mux_egress_state_reset (mu_egress st)\<rparr>"

definition m7mux_outbox_has_pending :: "M7MuxState \<Rightarrow> bool" where
  "m7mux_outbox_has_pending st \<longleftrightarrow> egress_ready (mu_egress st)"

definition m7mux_outbox_select_adapter :: "'cs registry \<Rightarrow> M7MuxSendPacket \<Rightarrow> 'cs adapter option" where
  "m7mux_outbox_select_adapter reg send =
     m7mux_normalize_adapter_lookup_wire_version reg (sp_wire_version send)"

definition outbox_stage_one :: "M7MuxState \<Rightarrow> M7MuxEgressData \<Rightarrow> bool \<times> M7MuxState" where
  "outbox_stage_one st e =
     (let (ok, eg) = stage_egress (mu_egress st) e in (ok, st\<lparr>mu_egress := eg\<rparr>))"

text \<open>The encoding loop: all the fragments, or \<open>None\<close> at the first that fails.\<close>

fun outbox_encode_fragments ::
  "(M7MuxSendPacket \<Rightarrow> nat \<Rightarrow> nat \<Rightarrow> rng \<Rightarrow> M7MuxEgressData option \<times> rng) \<Rightarrow>
   M7MuxSendPacket \<Rightarrow> nat \<Rightarrow> nat \<Rightarrow> nat list \<Rightarrow> rng \<Rightarrow> M7MuxEgressData list option \<times> rng" where
  "outbox_encode_fragments enc send fragment_count forced [] r = (Some [], r)"
| "outbox_encode_fragments enc send fragment_count forced (i # is) r =
     (let fragment_send = send\<lparr>sp_fragment_index := of_nat i,
                               sp_fragment_count := of_nat fragment_count\<rparr>
      in case enc fragment_send i forced r of
           (None, r1) \<Rightarrow> (None, r1)
         | (Some e, r1) \<Rightarrow>
             (case outbox_encode_fragments enc send fragment_count forced is r1 of
                (None, r2) \<Rightarrow> (None, r2)
              | (Some es, r2) \<Rightarrow> (Some (e # es), r2)))"

text \<open>The staging loop.\<close>

fun outbox_stage_all :: "M7MuxState \<Rightarrow> M7MuxEgressData list \<Rightarrow> bool \<times> M7MuxState" where
  "outbox_stage_all st [] = (True, st)"
| "outbox_stage_all st (e # es) =
     (case outbox_stage_one st e of
        (False, st') \<Rightarrow> (False, st')
      | (True, st') \<Rightarrow> outbox_stage_all st' es)"

text \<open>\<open>calloc_ok\<close> is whether the fragment array can be allocated.\<close>

definition m7mux_outbox_stage_common ::
  "'cs registry \<Rightarrow> bool \<Rightarrow> M7MuxState \<Rightarrow> M7MuxSendPacket \<Rightarrow> nat \<Rightarrow> rng \<Rightarrow> bool \<times> M7MuxState \<times> rng" where
  "m7mux_outbox_stage_common reg calloc_ok st send force_fragment_count r =
     (case m7mux_outbox_select_adapter reg send of
        None \<Rightarrow> (False, st, r)
      | Some adapter \<Rightarrow>
          (let use_forced = (force_fragment_count > 1);
               fragment_count = (if use_forced then force_fragment_count
                                 else ad_count_fragments adapter (ad_state adapter) send)
           in if fragment_count = 0 then (False, st, r)
              else if es_count (mu_egress st) \<ge> M7MUX_EGRESS_QUEUE_CAPACITY then (False, st, r)
              else if fragment_count > M7MUX_EGRESS_QUEUE_CAPACITY - es_count (mu_egress st)
              then (False, st, r)
              else if fragment_count = 1
              then (case m7mux_normalize_adapter_encode adapter send r of
                      (None, r1) \<Rightarrow> (False, st, r1)
                    | (Some serialized, r1) \<Rightarrow>
                        (let (ok, st1) = outbox_stage_one st serialized in (ok, st1, r1)))
              else case ad_encode_fragment adapter of
                     None \<Rightarrow> (False, st, r)
                   | Some enc \<Rightarrow>
                       (if \<not> calloc_ok then (False, st, r)
                        else case outbox_encode_fragments (enc (ad_state adapter)) send fragment_count
                                    (if use_forced then force_fragment_count else 0)
                                    [0..<fragment_count] r of
                               (None, r1) \<Rightarrow> (False, st, r1)
                             | (Some fragments, r1) \<Rightarrow>
                                 (let (ok, st1) = outbox_stage_all st fragments in (ok, st1, r1)))))"

definition m7mux_outbox_stage ::
  "'cs registry \<Rightarrow> bool \<Rightarrow> M7MuxState \<Rightarrow> M7MuxSendPacket \<Rightarrow> rng \<Rightarrow> bool \<times> M7MuxState \<times> rng" where
  "m7mux_outbox_stage reg calloc_ok st send r = m7mux_outbox_stage_common reg calloc_ok st send 0 r"

definition m7mux_outbox_stage_fragments ::
  "'cs registry \<Rightarrow> bool \<Rightarrow> M7MuxState \<Rightarrow> M7MuxSendPacket \<Rightarrow> nat \<Rightarrow> rng \<Rightarrow> bool \<times> M7MuxState \<times> rng" where
  "m7mux_outbox_stage_fragments reg calloc_ok st send fragment_count r =
     (if fragment_count \<le> 1 then m7mux_outbox_stage reg calloc_ok st send r
      else m7mux_outbox_stage_common reg calloc_ok st send fragment_count r)"

definition m7mux_outbox_stage_bytes :: "M7MuxState \<Rightarrow> M7MuxSendBytesPacket \<Rightarrow> bool \<times> M7MuxState" where
  "m7mux_outbox_stage_bytes st send_bytes =
     (if sb_bytes_len send_bytes > M7MUX_NORMALIZED_PACKET_BUFFER_SIZE then (False, st)
      else
        let serialized = zero_egress
              \<lparr>eg_trace_id := sb_trace_id send_bytes, eg_label := sb_label send_bytes,
               eg_wire_version := 0, eg_wire_form := 0, eg_received_ms := sb_received_ms send_bytes,
               eg_ip := sb_ip send_bytes, eg_client_port := sb_client_port send_bytes,
               eg_encrypted := False, eg_wire_auth := False\<rparr>
        in if sb_bytes_len send_bytes > 0
           then (case sb_bytes send_bytes of
                   None \<Rightarrow> (False, st)
                 | Some bytes \<Rightarrow> outbox_stage_one st
                     (serialized\<lparr>eg_egress_buffer := take (sb_bytes_len send_bytes) bytes\<rparr>))
           else outbox_stage_one st serialized)"

definition m7mux_outbox_flush ::
  "M7MuxContext \<Rightarrow> M7MuxState \<Rightarrow> int \<Rightarrow> u64 \<Rightarrow> bool list \<Rightarrow>
   nat \<times> M7MuxState \<times> bool list \<times> datagram list" where
  "m7mux_outbox_flush g_ctx st sock now_ms sends =
     (let (n, eg, sends', sent) = flush_egress g_ctx (mu_egress st) sock now_ms sends
      in (n, st\<lparr>mu_egress := eg\<rparr>, sends', sent))"

section \<open>Staging is all or nothing\<close>

definition only_egress :: "M7MuxState \<Rightarrow> M7MuxState \<Rightarrow> bool" where
  "only_egress st st' \<longleftrightarrow> (\<exists>eg. st' = st\<lparr>mu_egress := eg\<rparr>)"

lemma only_egress_refl [simp]: "only_egress st st"
  unfolding only_egress_def by (rule exI [of _ "mu_egress st"]) simp

lemma only_egress_upd [simp]: "only_egress st (st\<lparr>mu_egress := eg\<rparr>)"
  by (auto simp: only_egress_def)

lemma only_egress_trans: "only_egress st st1 \<Longrightarrow> only_egress st1 st2 \<Longrightarrow> only_egress st st2"
  by (auto simp: only_egress_def)

lemma only_egressD:
  "only_egress st st' \<Longrightarrow> mu_connect st' = mu_connect st \<and> mu_ingress st' = mu_ingress st \<and>
   mu_session st' = mu_session st \<and> mu_stream st' = mu_stream st \<and>
   mu_policy_enforce_encryption st' = mu_policy_enforce_encryption st"
  by (auto simp: only_egress_def)

lemma stage_one_spec:
  assumes "egress_ok (mu_egress st)" "es_count (mu_egress st) < M7MUX_EGRESS_QUEUE_CAPACITY" "egress_fits e"
  shows "\<exists>st'. outbox_stage_one st e = (True, st') \<and> egress_ok (mu_egress st') \<and>
    egress_items (mu_egress st') = egress_items (mu_egress st) @ [egress_stored e] \<and>
    only_egress st st'"
proof -
  obtain ok eg where s: "stage_egress (mu_egress st) e = (ok, eg)" by fastforce
  with assms egress_fifo.push_taken [of "mu_egress st" e] egress_fifo.push_items [of "mu_egress st" e]
    egress_fifo.push_ok [of "mu_egress st" e]
  show ?thesis by (simp add: outbox_stage_one_def)
qed

lemma stage_one_refused:
  assumes "egress_ok (mu_egress st)" "outbox_stage_one st e = (False, st')"
  shows "egress_ok (mu_egress st') \<and> egress_items (mu_egress st') = egress_items (mu_egress st) \<and>
    only_egress st st'"
proof -
  obtain ok eg where s: "stage_egress (mu_egress st) e = (ok, eg)" by fastforce
  with assms(2) have "\<not> ok" "st' = st\<lparr>mu_egress := eg\<rparr>" by (auto simp: outbox_stage_one_def)
  with s assms(1) egress_fifo.push_taken [of "mu_egress st" e]
    egress_fifo.push_refused_items [of "mu_egress st" e] egress_fifo.push_refused_ok [of "mu_egress st" e]
  show ?thesis by (cases "length (egress_items (mu_egress st)) < M7MUX_EGRESS_QUEUE_CAPACITY \<and> egress_fits e") auto
qed

lemma stage_all_spec:
  assumes "egress_ok (mu_egress st)" "\<forall>e \<in> set es. egress_fits e"
    "es_count (mu_egress st) + length es \<le> M7MUX_EGRESS_QUEUE_CAPACITY"
  shows "\<exists>st'. outbox_stage_all st es = (True, st') \<and> egress_ok (mu_egress st') \<and>
    egress_items (mu_egress st') = egress_items (mu_egress st) @ map egress_stored es \<and>
    only_egress st st'"
  using assms
proof (induction es arbitrary: st)
  case Nil
  then show ?case by simp
next
  case (Cons e es)
  from stage_one_spec [of st e] Cons.prems obtain st1 where s1: "outbox_stage_one st e = (True, st1)"
    "egress_ok (mu_egress st1)"
    "egress_items (mu_egress st1) = egress_items (mu_egress st) @ [egress_stored e]"
    "only_egress st st1" by auto
  have "es_count (mu_egress st1) = Suc (es_count (mu_egress st))"
    using arg_cong [OF s1(3), of length] by simp
  then obtain st2 where "outbox_stage_all st1 es = (True, st2)" "egress_ok (mu_egress st2)"
    "egress_items (mu_egress st2) = egress_items (mu_egress st1) @ map egress_stored es"
    "only_egress st1 st2"
    using Cons.IH [of st1] Cons.prems s1 by auto
  with s1 only_egress_trans [OF s1(4)] show ?case by simp
qed

text \<open>
  The datagrams that a packet stands for: \<open>encoded_as enc n r fs r'\<close> says that \<open>fs\<close> are the \<open>n\<close> datagrams that
  \<open>enc\<close> makes of the indices 0 to \<open>n - 1\<close>, in this order, with the random numbers drawn one after the other.
\<close>

definition encoded_as ::
  "(nat \<Rightarrow> rng \<Rightarrow> M7MuxEgressData option \<times> rng) \<Rightarrow> nat \<Rightarrow> rng \<Rightarrow> M7MuxEgressData list \<Rightarrow> rng \<Rightarrow> bool" where
  "encoded_as enc n r fs r' \<longleftrightarrow> length fs = n \<and>
     (\<exists>rs. length rs = n + 1 \<and> rs ! 0 = r \<and> rs ! n = r' \<and> (\<forall>i < n. enc i (rs ! i) = (Some (fs ! i), rs ! (i + 1))))"

text \<open>Datagram \<open>i\<close> of a packet sent in \<open>n\<close>: the packet itself when it is one, or else its fragment \<open>i\<close> of \<open>n\<close>.\<close>

definition datagram_of :: "'cs adapter \<Rightarrow> M7MuxSendPacket \<Rightarrow> nat \<Rightarrow> nat \<Rightarrow> nat \<Rightarrow> rng \<Rightarrow> M7MuxEgressData option \<times> rng" where
  "datagram_of a send n forced i r =
     (if n = 1 then m7mux_normalize_adapter_encode a send r
      else case ad_encode_fragment a of
        None \<Rightarrow> (None, r)
      | Some enc \<Rightarrow> enc (ad_state a) (send\<lparr>sp_fragment_index := of_nat i, sp_fragment_count := of_nat n\<rparr>) i forced r)"

text \<open>How many datagrams a packet becomes when \<open>force\<close> fragments are asked for: as many, or as the codec needs.\<close>

definition datagram_count :: "'cs adapter \<Rightarrow> M7MuxSendPacket \<Rightarrow> nat \<Rightarrow> nat" where
  "datagram_count a send force = (if force > 1 then force else ad_count_fragments a (ad_state a) send)"

text \<open>The datagrams staged for a packet.\<close>

definition staged_as ::
  "'cs registry \<Rightarrow> M7MuxSendPacket \<Rightarrow> nat \<Rightarrow> rng \<Rightarrow> M7MuxEgressData list \<Rightarrow> rng \<Rightarrow> bool" where
  "staged_as reg send force r fs r' \<longleftrightarrow> (\<exists>a. m7mux_outbox_select_adapter reg send = Some a \<and> 0 < datagram_count a send force \<and>
     encoded_as (datagram_of a send (datagram_count a send force) (if force > 1 then force else 0))
       (datagram_count a send force) r fs r')"

lemma encoded_as_one: "enc 0 r = (Some e, r') \<Longrightarrow> encoded_as enc 1 r [e] r'"
  unfolding encoded_as_def by (intro conjI exI [of _ "[r, r']"]) simp_all

lemma encode_fragments_as:
  assumes "outbox_encode_fragments enc send n forced [m..<n] r = (Some es, r')" "m \<le> n"
  shows "length es = n - m \<and> (\<exists>rs. length rs = n - m + 1 \<and> rs ! 0 = r \<and> rs ! (n - m) = r' \<and>
    (\<forall>i < n - m. enc (send\<lparr>sp_fragment_index := of_nat (m + i), sp_fragment_count := of_nat n\<rparr>) (m + i) forced (rs ! i) =
       (Some (es ! i), rs ! (i + 1))))"
  using assms
proof (induction "n - m" arbitrary: m r es)
  case 0
  then show ?case by (intro conjI exI [of _ "[r]"]) simp_all
next
  case (Suc k)
  let ?f = "\<lambda>i. send\<lparr>sp_fragment_index := of_nat i, sp_fragment_count := of_nat n\<rparr>"
  have up: "[m..<n] = m # [Suc m..<n]" using Suc.hyps(2) by (simp add: upt_conv_Cons)
  obtain e r1 es1 where e: "enc (?f m) m forced r = (Some e, r1)"
      "outbox_encode_fragments enc send n forced [Suc m..<n] r1 = (Some es1, r')" "es = e # es1"
    using Suc.prems(1) unfolding up by (auto simp: Let_def split: prod.splits option.splits)
  have "length es1 = n - Suc m \<and> (\<exists>rs. length rs = n - Suc m + 1 \<and> rs ! 0 = r1 \<and> rs ! (n - Suc m) = r' \<and>
      (\<forall>i < n - Suc m. enc (?f (Suc m + i)) (Suc m + i) forced (rs ! i) = (Some (es1 ! i), rs ! (i + 1))))"
    by (rule Suc.hyps(1) [OF _ e(2)]) (use Suc.hyps(2) in simp_all)
  then obtain rs where rs: "length es1 = n - Suc m" "length rs = n - Suc m + 1" "rs ! 0 = r1" "rs ! (n - Suc m) = r'"
      "\<forall>i < n - Suc m. enc (?f (Suc m + i)) (Suc m + i) forced (rs ! i) = (Some (es1 ! i), rs ! (i + 1))" by blast
  have n: "n - m = Suc (n - Suc m)" using Suc.hyps(2) by simp
  have "enc (?f (m + i)) (m + i) forced ((r # rs) ! i) = (Some (es ! i), (r # rs) ! (i + 1))" if "i < n - m" for i
    using that n e rs by (cases i) auto
  then show ?case using e(3) rs n by (intro conjI exI [of _ "r # rs"]) simp_all
qed

lemma encode_fragments_spec:
  assumes fits: "\<And>i send r e r'. enc send i forced r = (Some e, r') \<Longrightarrow> egress_fits e"
    and "outbox_encode_fragments enc send n forced is r = (Some es, r')"
  shows "length es = length is \<and> (\<forall>e \<in> set es. egress_fits e)"
  using assms(2)
proof (induction "is" arbitrary: r es)
  case Nil
  then show ?case by simp
next
  case (Cons i "is")
  let ?send = "send\<lparr>sp_fragment_index := of_nat i, sp_fragment_count := of_nat n\<rparr>"
  obtain e r1 where e: "enc ?send i forced r = (Some e, r1)"
    using Cons.prems by (auto split: prod.splits option.splits)
  obtain es1 where "outbox_encode_fragments enc send n forced is r1 = (Some es1, r')" "es = e # es1"
    using Cons.prems e by (auto split: prod.splits option.splits)
  with Cons.IH [of r1 es1] fits [OF e] show ?case by simp
qed

lemma stage_common_spec:
  assumes reg: "adapters_ok reg" and ok: "egress_ok (mu_egress st)"
    and s: "m7mux_outbox_stage_common reg calloc_ok st send force r = (b, st', r')"
  shows "egress_ok (mu_egress st')" "only_egress st st'"
    "\<not> b \<Longrightarrow> egress_items (mu_egress st') = egress_items (mu_egress st)"
    "b \<Longrightarrow> \<exists>fs. egress_items (mu_egress st') = egress_items (mu_egress st) @ map egress_stored fs \<and>
       staged_as reg send force r fs r'"
proof -
  have "egress_ok (mu_egress st') \<and> only_egress st st' \<and>
    (if b then \<exists>fs. egress_items (mu_egress st') = egress_items (mu_egress st) @ map egress_stored fs \<and>
        staged_as reg send force r fs r'
     else egress_items (mu_egress st') = egress_items (mu_egress st))"
  proof (cases "m7mux_outbox_select_adapter reg send")
    case None
    with s ok show ?thesis by (auto simp: m7mux_outbox_stage_common_def)
  next
    case (Some a)
    have ca: "codec_adapter a"
      using reg lookup_wire_version_Some(1) Some
      by (auto simp: adapters_ok_def m7mux_outbox_select_adapter_def)
    define fc where "fc = datagram_count a send force"
    define fo where "fo = (if force > 1 then force else 0)"
    note s' = s [unfolded m7mux_outbox_stage_common_def Some option.case Let_def, folded datagram_count_def, folded fc_def fo_def]
    have staged: "staged_as reg send force r fs r'" if "0 < fc" "encoded_as (datagram_of a send fc fo) fc r fs r'" for fs
      using that Some unfolding staged_as_def fc_def fo_def by blast
    show ?thesis
    proof (cases "fc = 0 \<or> es_count (mu_egress st) \<ge> M7MUX_EGRESS_QUEUE_CAPACITY \<or>
        fc > M7MUX_EGRESS_QUEUE_CAPACITY - es_count (mu_egress st)")
      case True
      with s' ok show ?thesis by (auto split: if_splits)
    next
      case room: False
      show ?thesis
      proof (cases "fc = 1")
        case True
        obtain eo r1 where enc: "m7mux_normalize_adapter_encode a send r = (eo, r1)" by fastforce
        show ?thesis
        proof (cases eo)
          case None
          with s' ok room True enc show ?thesis by auto
        next
          case (Some e)
          have "egress_fits e"
            using codec_adapter.encode_fits [OF ca] enc Some
            by (simp add: egress_fits_def m7mux_normalize_adapter_encode_def)
          then obtain st1 where "outbox_stage_one st e = (True, st1)" "egress_ok (mu_egress st1)"
            "egress_items (mu_egress st1) = egress_items (mu_egress st) @ [egress_stored e]" "only_egress st st1"
            using stage_one_spec [of st e] ok room by auto
          moreover have "encoded_as (datagram_of a send fc fo) fc r [e] r1"
            using encoded_as_one [of "datagram_of a send fc fo" r e r1] enc Some True by (simp add: datagram_of_def)
          ultimately show ?thesis
            using s' room True enc Some staged [of "[e]"] by (auto intro!: exI [of _ "[e]"])
        qed
      next
        case many: False
        show ?thesis
        proof (cases "\<exists>f es r1. ad_encode_fragment a = Some f \<and> calloc_ok \<and>
            outbox_encode_fragments (f (ad_state a)) send fc fo [0..<fc] r = (Some es, r1)")
          case False
          with s' ok room many show ?thesis
            by (auto split: option.splits prod.splits if_splits)
        next
          case True
          then obtain f es r1 where f: "ad_encode_fragment a = Some f" "calloc_ok"
            "outbox_encode_fragments (f (ad_state a)) send fc fo [0..<fc] r = (Some es, r1)" by blast
          have "length es = fc \<and> (\<forall>e \<in> set es. egress_fits e)"
            using encode_fragments_spec [OF _ f(3)] codec_adapter.encode_fragment_fits [OF ca f(1)]
            by (simp add: egress_fits_def)
          then obtain st1 where st1: "outbox_stage_all st es = (True, st1)" "egress_ok (mu_egress st1)"
            "egress_items (mu_egress st1) = egress_items (mu_egress st) @ map egress_stored es"
            "only_egress st st1" "length es = fc"
            using stage_all_spec [OF ok, of es] room by (auto simp: not_less not_le le_diff_conv2)
          have b: "b" "st' = st1" "r' = r1"
            using s' room many f st1(1) by auto
          have "encoded_as (datagram_of a send fc fo) fc r es r1"
            using encode_fragments_as [OF f(3)] many f(1) by (simp add: encoded_as_def datagram_of_def)
          then have "staged_as reg send force r es r'" using staged room b(3) by simp
          with st1 b show ?thesis by auto
        qed
      qed
    qed
  qed
  then show "egress_ok (mu_egress st')" "only_egress st st'"
    "\<not> b \<Longrightarrow> egress_items (mu_egress st') = egress_items (mu_egress st)"
    "b \<Longrightarrow> \<exists>fs. egress_items (mu_egress st') = egress_items (mu_egress st) @ map egress_stored fs \<and>
       staged_as reg send force r fs r'" by auto
qed

end
