(* ===== verification/Mux.thy ===== *)
theory Mux
  imports Outbox
begin

text \<open>
  \<open>m7mux/inbox/inbox.c\<close>, \<open>m7mux/connect/connect.c\<close> and \<open>m7mux/m7mux.c\<close>: receiving,
  the life cycle of a connection, and one turn of the mux.

  What one pump reads from outside is a record: the clock when it starts and ends, the clock of
  \<open>lib.time\<close> at the \<open>n\<close>-th session ingest, and the socket script.
\<close>

record pump_env =
  pe_now :: u64
  pe_session_now :: "nat \<Rightarrow> u64"
  pe_end_now :: u64
  pe_script :: socket_script

section \<open>The inbox\<close>

definition m7mux_inbox_configure_stream_adapter :: "M7MuxState \<Rightarrow> M7MuxState" where
  "m7mux_inbox_configure_stream_adapter st =
     st\<lparr>mu_stream := (mu_stream st)\<lparr>sm_adapter_lib := True\<rparr>\<rparr>"

definition m7mux_inbox_state_reset ::
  "'cs registry \<Rightarrow> M7MuxState \<Rightarrow> user_heap \<Rightarrow> M7MuxState \<times> user_heap" where
  "m7mux_inbox_state_reset reg st h =
     (let (stream', h') = m7mux_stream_state_reset reg (mu_stream st) h
      in (m7mux_inbox_configure_stream_adapter
            (st\<lparr>mu_ingress := m7mux_ingress_state_reset (mu_ingress st),
               mu_session := m7mux_session_state_reset (mu_session st),
               mu_stream := stream'\<rparr>), h'))"

definition m7mux_inbox_state_init :: "M7MuxState \<Rightarrow> M7MuxState" where
  "m7mux_inbox_state_init st =
     m7mux_inbox_configure_stream_adapter
       (st\<lparr>mu_session := m7mux_session_state_init, mu_ingress := m7mux_ingress_state_init,
          mu_stream := m7mux_stream_state_init\<rparr>)"

definition m7mux_inbox_has_pending :: "M7MuxState \<Rightarrow> bool" where
  "m7mux_inbox_has_pending st \<longleftrightarrow> m7mux_stream_has_pending (mu_stream st)"

lemma ingress_drain_decreases:
  "m7mux_ingress_drain ig = (Some raw, ig') \<Longrightarrow> is_queue_count ig' < is_queue_count ig"
  by (auto simp: m7mux_ingress_drain_def m7mux_ingress_queue_pop_def split: if_splits)

text \<open>
  The drain loop of \<open>m7mux_inbox_pump\<close>. \<open>control\<close> is the local variable declared before the
  loop: every iteration passes on what the previous one left in it. The first component is
  \<open>False\<close> when the loop ended in the early return after a failed ingest.
\<close>

function (sequential) inbox_drain_loop ::
  "M7MuxContext \<Rightarrow> 'cs registry \<Rightarrow> (nat \<Rightarrow> u64) \<Rightarrow> nat \<Rightarrow> bool \<Rightarrow> M7MuxState \<Rightarrow> M7MuxControl \<Rightarrow>
   user_heap \<Rightarrow> bool \<times> bool \<times> M7MuxState \<times> M7MuxControl \<times> user_heap" where
  "inbox_drain_loop g_ctx reg clock n did_work st control h =
     (case m7mux_ingress_drain (mu_ingress st) of
        (None, ig) \<Rightarrow> (True, did_work, st\<lparr>mu_ingress := ig\<rparr>, control, h)
      | (Some raw, ig) \<Rightarrow>
          (let st1 = st\<lparr>mu_ingress := ig\<rparr>
           in case m7mux_normalize_packet g_ctx reg (mu_policy_enforce_encryption st1) raw control
                     zero_recv h of
                (False, control1, normal, h1) \<Rightarrow>
                  inbox_drain_loop g_ctx reg clock n did_work st1 control1 h1
              | (True, control1, normal, h1) \<Rightarrow>
                  (case m7mux_session_ingest (mu_session st1) (clock n) (Some control1) normal of
                     (False, se, normal1) \<Rightarrow>
                       (False, did_work, st1\<lparr>mu_session := se\<rparr>, control1,
                        m7mux_stream_release_user reg (mu_stream st1) normal1 h1)
                   | (True, se, normal1) \<Rightarrow>
                       (case m7mux_stream_ingest reg (mu_stream st1) normal1 h1 of
                          (False, sm, h2) \<Rightarrow>
                            (False, did_work, st1\<lparr>mu_session := se, mu_stream := sm\<rparr>, control1,
                             m7mux_stream_release_user reg sm normal1 h2)
                        | (True, sm, h2) \<Rightarrow>
                            inbox_drain_loop g_ctx reg clock (n + 1) True
                              (st1\<lparr>mu_session := se, mu_stream := sm\<rparr>) control1 h2))))"
  by pat_completeness auto
termination
  by (relation "measure (\<lambda>(_, _, _, _, _, st, _, _). is_queue_count (mu_ingress st))")
    (auto dest: ingress_drain_decreases [OF sym])

declare inbox_drain_loop.simps [simp del]

definition m7mux_inbox_pump ::
  "M7MuxContext \<Rightarrow> 'cs registry \<Rightarrow> (sockaddr \<Rightarrow> string option) \<Rightarrow> M7MuxState \<Rightarrow> u64 \<Rightarrow> pump_env \<Rightarrow>
   user_heap \<Rightarrow> int \<times> M7MuxState \<times> user_heap \<times> socket_event list" where
  "m7mux_inbox_pump g_ctx reg ntop st timeout_ms env h =
     (let st0 = st\<lparr>mu_ingress := (mu_ingress st)\<lparr>is_socket_fd := co_socket_fd (mu_connect st)\<rparr>\<rparr>;
          (n1, se) = m7mux_session_expire (mu_session st0) (pe_now env);
          (n2, sm, h1) = m7mux_stream_expire reg (mu_stream st0) (pe_now env) h;
          did1 = (n2 > 0 \<or> n1 > 0);
          (rc, ig, evs) = m7mux_ingress_pump g_ctx ntop (mu_ingress st0) timeout_ms (pe_script env);
          st1 = st0\<lparr>mu_session := se, mu_stream := sm, mu_ingress := ig\<rparr>
      in if rc < 0 then (rc, st1, h1, evs)
         else
           let did2 = (rc > 0 \<or> did1);
               (finished, did3, st2, control, h2) =
                 inbox_drain_loop g_ctx reg (pe_session_now env) 0 did2 st1 zero_control h1
           in if \<not> finished then (of_bool did3, st2, h2, evs)
              else
                let (n3, sm', h3) = m7mux_stream_expire reg (mu_stream st2) (pe_end_now env) h2
                in (of_bool (n3 > 0 \<or> did3), st2\<lparr>mu_stream := sm'\<rparr>, h3, evs))"

definition m7mux_inbox_drain ::
  "'cs registry \<Rightarrow> bool \<Rightarrow> M7MuxState \<Rightarrow> user_heap \<Rightarrow>
   (M7MuxRecvPacket \<times> M7MuxUserRecvData option) option \<times> M7MuxState \<times> user_heap" where
  "m7mux_inbox_drain reg has_user st h =
     (let (r, sm, h') = m7mux_stream_drain reg has_user (mu_stream st) h
      in (r, st\<lparr>mu_stream := sm\<rparr>, h'))"

section \<open>Connections\<close>

definition m7mux_connect_validate_context :: "M7MuxContext \<Rightarrow> bool" where
  "m7mux_connect_validate_context ctx \<longleftrightarrow> mx_socket ctx \<and> mx_udp ctx \<and> mx_internal ctx"

definition m7mux_connect_init :: "M7MuxContext \<Rightarrow> bool \<times> M7MuxContext" where
  "m7mux_connect_init ctx =
     (if \<not> m7mux_connect_validate_context ctx then (False, zero_context) else (True, ctx))"

definition zero_connect :: M7MuxConnectState where
  "zero_connect = \<lparr>co_socket_fd = -1, co_owns_socket = False, co_connected = False,
     co_remote_ip = '''', co_remote_port = 0\<rparr>"

text \<open>A zeroed \<open>M7MuxState\<close> with the socket closed.\<close>

definition zero_mux :: M7MuxState where
  "zero_mux = \<lparr>mu_connect = zero_connect,
     mu_policy_enforce_encryption = M7MUX_POLICY_ENFORCE_ENCRYPTION_ANY,
     mu_ingress = m7mux_ingress_state_init\<lparr>is_socket_fd := 0\<rparr>,
     mu_session = m7mux_session_state_init\<lparr>se_next_session_id := 0\<rparr>,
     mu_stream = m7mux_stream_state_init, mu_egress = m7mux_egress_state_init\<rparr>"

definition m7mux_connect_state_init :: "M7MuxContext \<Rightarrow> M7MuxState \<Rightarrow> M7MuxState option" where
  "m7mux_connect_state_init g_ctx st =
     (if \<not> mx_internal g_ctx then None
      else Some (m7mux_outbox_state_init (m7mux_inbox_state_init zero_mux)))"

definition m7mux_connect_state_reset ::
  "M7MuxContext \<Rightarrow> 'cs registry \<Rightarrow> M7MuxState \<Rightarrow> user_heap \<Rightarrow> M7MuxState \<times> user_heap" where
  "m7mux_connect_state_reset g_ctx reg st h =
     (let st1 = m7mux_outbox_state_reset st;
          (st2, h') =
            (if mx_internal g_ctx then m7mux_inbox_state_reset reg st1 h
             else (st1\<lparr>mu_ingress := m7mux_ingress_state_init\<lparr>is_socket_fd := 0\<rparr>,
                       mu_stream := m7mux_stream_state_init\<rparr>, h))
      in (st2\<lparr>mu_connect := zero_connect,
              mu_policy_enforce_encryption := M7MUX_POLICY_ENFORCE_ENCRYPTION_ANY\<rparr>, h'))"

text \<open>\<open>calloc_ok\<close> is whether the state can be allocated.\<close>

definition m7mux_connect_alloc_state :: "M7MuxContext \<Rightarrow> bool \<Rightarrow> M7MuxState option" where
  "m7mux_connect_alloc_state g_ctx calloc_ok =
     (if \<not> calloc_ok then None else m7mux_connect_state_init g_ctx zero_mux)"

text \<open>\<open>open_auto\<close> is \<open>g_ctx.udp->open_auto\<close>: the descriptor, negative when it fails.\<close>

definition m7mux_connect_ip ::
  "M7MuxContext \<Rightarrow> bool \<Rightarrow> (string \<Rightarrow> int) \<Rightarrow> string \<Rightarrow> u16 \<Rightarrow> M7MuxState option" where
  "m7mux_connect_ip g_ctx calloc_ok open_auto ip port =
     (if \<not> mx_udp g_ctx \<or> ip = '''' then None
      else case m7mux_connect_alloc_state g_ctx calloc_ok of
        None \<Rightarrow> None
      | Some st \<Rightarrow>
          (let fd = open_auto ip
           in if fd < 0 then None
              else Some (st\<lparr>mu_connect := \<lparr>co_socket_fd = fd, co_owns_socket = True,
                       co_connected = True, co_remote_ip = cstr63 ip, co_remote_port = port\<rparr>\<rparr>)))"

definition m7mux_connect_socket :: "M7MuxContext \<Rightarrow> bool \<Rightarrow> int \<Rightarrow> M7MuxState option" where
  "m7mux_connect_socket g_ctx calloc_ok socket_fd =
     (if socket_fd < 0 then None
      else case m7mux_connect_alloc_state g_ctx calloc_ok of
        None \<Rightarrow> None
      | Some st \<Rightarrow> Some (st\<lparr>mu_connect := (mu_connect st)\<lparr>co_socket_fd := socket_fd,
                              co_owns_socket := False, co_connected := True\<rparr>\<rparr>))"

text \<open>The descriptor that a disconnect closes, and the heap after the reset.\<close>

definition m7mux_connect_disconnect ::
  "M7MuxContext \<Rightarrow> 'cs registry \<Rightarrow> M7MuxState \<Rightarrow> user_heap \<Rightarrow> int option \<times> user_heap" where
  "m7mux_connect_disconnect g_ctx reg st h =
     (let c = mu_connect st;
          closed = (if co_owns_socket c \<and> co_socket_fd c \<ge> 0 \<and> mx_socket g_ctx
                    then Some (co_socket_fd c) else None)
      in (closed, snd (m7mux_connect_state_reset g_ctx reg st h)))"

section \<open>One turn of the mux\<close>

text \<open>
  \<open>M7MUX_FLUSH_OUTBOX_OR_RETURN\<close>: the flags \<open>did_work\<close> and \<open>inbox_timeout\<close> after it, the
  state, the sends not used and the datagrams sent. A flush never returns a negative number, so
  the early return of the macro cannot be taken.
\<close>

definition m7mux_flush_outbox ::
  "M7MuxContext \<Rightarrow> M7MuxState \<Rightarrow> u64 \<Rightarrow> bool \<Rightarrow> u64 \<Rightarrow> bool list \<Rightarrow>
   bool \<times> u64 \<times> M7MuxState \<times> bool list \<times> datagram list" where
  "m7mux_flush_outbox g_ctx st now_ms did_work inbox_timeout sends =
     (if m7mux_outbox_has_pending st
      then (let (rc, st', sends', sent) =
                  m7mux_outbox_flush g_ctx st (co_socket_fd (mu_connect st)) now_ms sends
            in (if rc > 0 then (True, 0, st', sends', sent)
                else (did_work, inbox_timeout, st', sends', sent)))
      else (did_work, inbox_timeout, st, sends, []))"

definition m7mux_pump ::
  "M7MuxContext \<Rightarrow> 'cs registry \<Rightarrow> (sockaddr \<Rightarrow> string option) \<Rightarrow> M7MuxState \<Rightarrow> u64 \<Rightarrow> pump_env \<Rightarrow>
   u64 \<Rightarrow> u64 \<Rightarrow> bool list \<Rightarrow> user_heap \<Rightarrow>
   int \<times> M7MuxState \<times> user_heap \<times> datagram list" where
  "m7mux_pump g_ctx reg ntop st timeout_ms env now1 now2 sends h =
     (if \<not> co_connected (mu_connect st) \<or> co_socket_fd (mu_connect st) < 0 then (0, st, h, [])
      else
        let (did1, inbox_timeout, st1, sends1, sent1) =
              m7mux_flush_outbox g_ctx st now1 False timeout_ms sends;
            (rc, st2, h2, evs) = m7mux_inbox_pump g_ctx reg ntop st1 inbox_timeout env h
        in if rc < 0 then (rc, st2, h2, sent1)
           else
             let did2 = (rc > 0 \<or> did1);
                 (did3, t3, st3, sends3, sent3) =
                   m7mux_flush_outbox g_ctx st2 now2 did2 inbox_timeout sends1
             in (of_bool did3, st3, h2, sent1 @ sent3))"

section \<open>Ownership across a pump\<close>

text \<open>
  The invariant of a connection: its queues are well formed, and the user blocks on the heap are
  exactly those of the packets queued in its stream.
\<close>

definition mux_ok :: "'cs registry \<Rightarrow> M7MuxState \<Rightarrow> user_heap \<Rightarrow> bool" where
  "mux_ok reg st h \<longleftrightarrow> ingress_ok (mu_ingress st) \<and> egress_ok (mu_egress st) \<and>
     stream_ok reg (mu_stream st) \<and> heap_ok h \<and> slot_users (mu_stream st) = live h"

lemma session_ingest_user:
  assumes "m7mux_session_ingest se clock control p = (b, se', p')"
  shows "rp_user p' = rp_user p \<and> rp_wire_version p' = rp_wire_version p"
proof -
  obtain r se1 p1 where reg: "m7mux_session_register se control p = (r, se1, p1)" by (metis prod_cases3)
  have p1: "rp_user p1 = rp_user p \<and> rp_wire_version p1 = rp_wire_version p"
    using reg
    by (auto simp: m7mux_session_register_def session_claim_slot_def Let_def split: option.splits if_splits)
  show ?thesis
    using assms reg p1 by (auto simp: m7mux_session_ingest_def Let_def split: option.splits)
qed

lemma ingress_drain_ok:
  assumes "ingress_ok ig" "m7mux_ingress_drain ig = (r, ig')"
  shows "ingress_ok ig'"
  using ingress_fifo.pop_ok [OF assms(1)] assms(2) by (simp add: m7mux_ingress_drain_def)

lemma inbox_drain_loop_ok:
  assumes reg: "adapters_ok reg" and "mux_ok reg st h"
    and "inbox_drain_loop g_ctx reg clock n did_work st control h = (fin, did, st', control', h')"
  shows "mux_ok reg st' h' \<and> mu_egress st' = mu_egress st \<and> mu_connect st' = mu_connect st"
  using assms(2,3)
proof (induction "is_queue_count (mu_ingress st)" arbitrary: st h n did_work control rule: less_induct)
  case less
  have ok: "ingress_ok (mu_ingress st)" "egress_ok (mu_egress st)" "stream_ok reg (mu_stream st)"
    "heap_ok h" "slot_users (mu_stream st) = live h"
    using less.prems(1) by (simp_all add: mux_ok_def)
  have lib: "sm_adapter_lib (mu_stream st)" using ok(3) by (simp add: stream_ok_def)
  obtain r ig where dr: "m7mux_ingress_drain (mu_ingress st) = (r, ig)" by fastforce
  note igok = ingress_drain_ok [OF ok(1) dr]
  note run = less.prems(2) [unfolded inbox_drain_loop.simps [of g_ctx reg clock n did_work st control h] dr]
  show ?case
  proof (cases r)
    case None
    with run have "st' = st\<lparr>mu_ingress := ig\<rparr>" "h' = h" by simp_all
    with ok igok show ?thesis by (simp add: mux_ok_def)
  next
    case (Some raw)
    let ?st1 = "st\<lparr>mu_ingress := ig\<rparr>"
    have dec: "is_queue_count ig < is_queue_count (mu_ingress st)"
      using ingress_drain_decreases dr Some by blast
    obtain b control1 normal h1 where nm: "m7mux_normalize_packet g_ctx reg
        (mu_policy_enforce_encryption ?st1) raw control zero_recv h = (b, control1, normal, h1)"
      by (metis prod_cases4)
    have zr: "rp_user zero_recv = None" by simp
    note nh = normalize_heap [OF reg ok(4) zr nm]
    show ?thesis
    proof (cases b)
      case False
      have "mux_ok reg ?st1 h1" using ok igok nh False by (simp add: mux_ok_def)
      with less.hyps [of ?st1 h1 n did_work control1] dec run Some nm False show ?thesis by simp
    next
      case True
      obtain b2 se normal1 where si: "m7mux_session_ingest (mu_session ?st1) (clock n) (Some control1) normal
          = (b2, se, normal1)" by (metis prod_cases3)
      note su = session_ingest_user [OF si]
      have rel: "releasable reg normal1" using nh(5) su by (simp add: releasable_def)
      have new: "\<And>u. rp_user normal1 = Some u \<Longrightarrow> u \<notin> slot_users (mu_stream st)"
        using nh(3) su ok(5) by simp
      have sub: "set_option (rp_user normal1) \<subseteq> live h1" using nh(2) su by simp
      have freed: "heap_ok (m7mux_stream_release_user reg sm normal1 h1) \<and>
          live (m7mux_stream_release_user reg sm normal1 h1) = live h"
        if "sm_adapter_lib sm" for sm
        using release_user_spec [OF reg that rel nh(1) sub] nh(2,3) su by auto
      show ?thesis
      proof (cases b2)
        case False
        with run Some nm True si have "st' = ?st1\<lparr>mu_session := se\<rparr>"
          "h' = m7mux_stream_release_user reg (mu_stream st) normal1 h1" by simp_all
        with freed [OF lib] ok igok show ?thesis by (simp add: mux_ok_def)
      next
        case b2: True
        obtain b3 sm h2 where sg: "m7mux_stream_ingest reg (mu_stream ?st1) normal1 h1 = (b3, sm, h2)"
          by (metis prod_cases3)
        have sok: "stream_ok reg sm \<and> h2 = h1 \<and>
            slot_users sm = slot_users (mu_stream st) \<union> (if b3 then set_option (rp_user normal1) else {})"
          using stream_ingest_ok [OF _ sg rel] new ok(3) by simp
        have lib2: "sm_adapter_lib sm" using sok by (simp add: stream_ok_def)
        show ?thesis
        proof (cases b3)
          case False
          with run Some nm True si b2 sg sok
          have "st' = ?st1\<lparr>mu_session := se, mu_stream := sm\<rparr>"
            "h' = m7mux_stream_release_user reg sm normal1 h1" by simp_all
          with freed [OF lib2] ok igok sok False show ?thesis by (simp add: mux_ok_def)
        next
          case b3: True
          let ?st2 = "?st1\<lparr>mu_session := se, mu_stream := sm\<rparr>"
          have "mux_ok reg ?st2 h1" using ok igok nh sok b3 su by (simp add: mux_ok_def)
          with less.hyps [of ?st2 h1 "n + 1" True control1] dec run Some nm True si b2 sg sok b3
          show ?thesis by simp
        qed
      qed
    qed
  qed
qed

lemma inbox_pump_ok:
  assumes reg: "adapters_ok reg" and ok: "mux_ok reg st h"
    and p: "m7mux_inbox_pump g_ctx reg ntop st timeout_ms env h = (rc, st', h', evs)"
  shows "mux_ok reg st' h' \<and> mu_egress st' = mu_egress st \<and> mu_connect st' = mu_connect st"
proof -
  let ?st0 = "st\<lparr>mu_ingress := (mu_ingress st)\<lparr>is_socket_fd := co_socket_fd (mu_connect st)\<rparr>\<rparr>"
  have ok0: "ingress_ok (mu_ingress ?st0)" "egress_ok (mu_egress st)" "stream_ok reg (mu_stream st)"
    "heap_ok h" "slot_users (mu_stream st) = live h"
    using ok by (simp_all add: mux_ok_def ingress_ok_def)
  obtain n1 se where e1: "m7mux_session_expire (mu_session ?st0) (pe_now env) = (n1, se)" by fastforce
  obtain n2 sm h1 where e2: "m7mux_stream_expire reg (mu_stream ?st0) (pe_now env) h = (n2, sm, h1)"
    by (metis prod_cases3)
  have sm: "stream_ok reg sm" "heap_ok h1" "slot_users sm = live h1"
    using stream_expire_ok [OF reg _ ok0(4) _ e2] ok0 by simp_all
  obtain irc ig ev where ip: "m7mux_ingress_pump g_ctx ntop (mu_ingress ?st0) timeout_ms (pe_script env) = (irc, ig, ev)"
    by (metis prod_cases3)
  note igok = m7mux_ingress_pump_items(1) [OF ok0(1) ip]
  let ?st1 = "?st0\<lparr>mu_session := se, mu_stream := sm, mu_ingress := ig\<rparr>"
  have ok1: "mux_ok reg ?st1 h1" using sm igok ok0 by (simp add: mux_ok_def)
  note run = p [unfolded m7mux_inbox_pump_def Let_def e1 e2 ip prod.case]
  show ?thesis
  proof (cases "irc < 0")
    case True
    with run have "st' = ?st1" "h' = h1" by simp_all
    with ok1 show ?thesis by simp
  next
    case False
    define did2 where "did2 = (irc > 0 \<or> n2 > 0 \<or> n1 > 0)"
    obtain fin did3 st2 control h2 where lp: "inbox_drain_loop g_ctx reg (pe_session_now env) 0 did2 ?st1 zero_control h1
        = (fin, did3, st2, control, h2)" by (metis prod_cases5)
    note lok = inbox_drain_loop_ok [OF reg ok1 lp]
    show ?thesis
    proof (cases fin)
      case False
      with run \<open>\<not> irc < 0\<close> lp lok show ?thesis by (simp add: did2_def)
    next
      case True
      obtain n3 sm' h3 where e3: "m7mux_stream_expire reg (mu_stream st2) (pe_end_now env) h2 = (n3, sm', h3)"
        by (metis prod_cases3)
      have "stream_ok reg sm'" "heap_ok h3" "slot_users sm' = live h3"
        using stream_expire_ok [OF reg _ _ _ e3] lok by (simp_all add: mux_ok_def)
      with run \<open>\<not> irc < 0\<close> lp lok True e3 show ?thesis by (auto simp: did2_def mux_ok_def)
    qed
  qed
qed

lemma flush_outbox_ok:
  assumes ok: "mux_ok reg st h" and f: "m7mux_flush_outbox g_ctx st now did t sends = (did', t', st', sends', sent)"
  shows "mux_ok reg st' h \<and> only_egress st st'"
proof -
  obtain n eg s2 out where fl: "flush_egress g_ctx (mu_egress st) (co_socket_fd (mu_connect st)) now sends
      = (n, eg, s2, out)" by (metis prod_cases4)
  have "egress_ok eg" using flush_egress_ok [OF _ fl] ok by (simp add: mux_ok_def)
  then have upd: "mux_ok reg (st\<lparr>mu_egress := eg\<rparr>) h" using ok by (simp add: mux_ok_def)
  have "st' = st \<or> st' = st\<lparr>mu_egress := eg\<rparr>"
    using f by (simp add: m7mux_flush_outbox_def m7mux_outbox_flush_def fl split: if_splits)
  with upd ok show ?thesis by (elim disjE) simp_all
qed

lemma mux_pump_ok:
  assumes reg: "adapters_ok reg" and ok: "mux_ok reg st h"
    and p: "m7mux_pump g_ctx reg ntop st timeout_ms env now1 now2 sends h = (rc, st', h', sent)"
  shows "mux_ok reg st' h'"
proof (cases "\<not> co_connected (mu_connect st) \<or> co_socket_fd (mu_connect st) < 0")
  case True
  with p ok show ?thesis by (simp add: m7mux_pump_def)
next
  case False
  obtain d1 t1 st1 s1 o1 where f1: "m7mux_flush_outbox g_ctx st now1 False timeout_ms sends = (d1, t1, st1, s1, o1)"
    by (metis prod_cases5)
  obtain rc2 st2 h2 evs where ip: "m7mux_inbox_pump g_ctx reg ntop st1 t1 env h = (rc2, st2, h2, evs)"
    by (metis prod_cases4)
  have ok2: "mux_ok reg st2 h2"
    using inbox_pump_ok [OF reg _ ip] flush_outbox_ok [OF ok f1] by simp
  obtain d3 t3 st3 s3 o3 where f3: "m7mux_flush_outbox g_ctx st2 now2 (rc2 > 0 \<or> d1) t1 s1 = (d3, t3, st3, s3, o3)"
    by (metis prod_cases5)
  have "mux_ok reg st3 h2" using flush_outbox_ok [OF ok2 f3] by simp
  with p False f1 ip f3 ok2 show ?thesis
    by (auto simp: m7mux_pump_def Let_def split: if_splits)
qed


text \<open>
  A connection from its creation to its disconnect: the calls that the daemon and the client make
  on an \<open>M7MuxState\<close>, in any order.
\<close>

datatype mux_op =
    Mux_Pump u64 pump_env u64 u64 "bool list"
  | Mux_Drain bool
  | Mux_Stage bool M7MuxSendPacket
  | Mux_Stage_Fragments bool M7MuxSendPacket nat
  | Mux_Stage_Bytes M7MuxSendBytesPacket

fun mux_step ::
  "M7MuxContext \<Rightarrow> 'cs registry \<Rightarrow> (sockaddr \<Rightarrow> string option) \<Rightarrow> mux_op \<Rightarrow>
   M7MuxState \<times> user_heap \<times> rng \<Rightarrow> M7MuxState \<times> user_heap \<times> rng" where
  "mux_step g_ctx reg ntop (Mux_Pump timeout env now1 now2 sends) (st, h, r) =
     (case m7mux_pump g_ctx reg ntop st timeout env now1 now2 sends h of
        (rc, st', h', sent) \<Rightarrow> (st', h', r))"
| "mux_step g_ctx reg ntop (Mux_Drain has_user) (st, h, r) =
     (case m7mux_inbox_drain reg has_user st h of (p, st', h') \<Rightarrow> (st', h', r))"
| "mux_step g_ctx reg ntop (Mux_Stage calloc_ok send) (st, h, r) =
     (case m7mux_outbox_stage reg calloc_ok st send r of (b, st', r') \<Rightarrow> (st', h, r'))"
| "mux_step g_ctx reg ntop (Mux_Stage_Fragments calloc_ok send n) (st, h, r) =
     (case m7mux_outbox_stage_fragments reg calloc_ok st send n r of (b, st', r') \<Rightarrow> (st', h, r'))"
| "mux_step g_ctx reg ntop (Mux_Stage_Bytes send) (st, h, r) =
     (case m7mux_outbox_stage_bytes st send of (b, st') \<Rightarrow> (st', h, r))"

definition mux_run ::
  "M7MuxContext \<Rightarrow> 'cs registry \<Rightarrow> (sockaddr \<Rightarrow> string option) \<Rightarrow> mux_op list \<Rightarrow>
   M7MuxState \<times> user_heap \<times> rng \<Rightarrow> M7MuxState \<times> user_heap \<times> rng" where
  "mux_run g_ctx reg ntop ops s = fold (mux_step g_ctx reg ntop) ops s"

lemma mux_ok_egress:
  assumes "mux_ok reg st h" "only_egress st st'" "egress_ok (mu_egress st')"
  shows "mux_ok reg st' h"
  using assms(1,3) only_egressD [OF assms(2)] by (simp add: mux_ok_def)

lemma stage_one_any:
  assumes "egress_ok (mu_egress st)" "outbox_stage_one st e = (b, st')"
  shows "only_egress st st'" "egress_ok (mu_egress st')"
proof -
  obtain ok eg where s: "stage_egress (mu_egress st) e = (ok, eg)" by fastforce
  with assms(2) have "st' = st\<lparr>mu_egress := eg\<rparr>" by (simp add: outbox_stage_one_def)
  with s egress_fifo.push_any_ok [OF assms(1), of e] show "only_egress st st'" "egress_ok (mu_egress st')"
    by simp_all
qed

lemma stage_bytes_ok:
  assumes "egress_ok (mu_egress st)" "m7mux_outbox_stage_bytes st send = (b, st')"
  shows "only_egress st st' \<and> egress_ok (mu_egress st')"
proof -
  have "st' = st \<or> (\<exists>e. outbox_stage_one st e = (b, st'))"
    using assms(2) by (auto simp: m7mux_outbox_stage_bytes_def Let_def split: if_splits option.splits)
  then show ?thesis
  proof
    assume "st' = st"
    then show ?thesis using assms(1) by simp
  next
    assume "\<exists>e. outbox_stage_one st e = (b, st')"
    then show ?thesis using stage_one_any [OF assms(1)] by blast
  qed
qed

lemma stage_common_ok:
  assumes "adapters_ok reg" "mux_ok reg st h" "m7mux_outbox_stage_common reg c st send k r = (b, st', r')"
  shows "mux_ok reg st' h"
proof -
  have eg: "egress_ok (mu_egress st)" using assms(2) by (simp add: mux_ok_def)
  show ?thesis
    using stage_common_spec(1,2) [OF assms(1) eg assms(3)] by (rule mux_ok_egress [OF assms(2), rotated])
qed

lemma stage_ok:
  assumes "adapters_ok reg" "mux_ok reg st h"
  shows "m7mux_outbox_stage reg c st send r = (b, st', r') \<Longrightarrow> mux_ok reg st' h"
    and "m7mux_outbox_stage_fragments reg c st send n r = (b, st', r') \<Longrightarrow> mux_ok reg st' h"
  unfolding m7mux_outbox_stage_fragments_def m7mux_outbox_stage_def
  using stage_common_ok [OF assms] by (simp_all split: if_splits)

lemma inbox_drain_ok:
  assumes "adapters_ok reg" "mux_ok reg st h" "m7mux_inbox_drain reg has_user st h = (p, st', h')"
  shows "mux_ok reg st' h'"
proof -
  obtain q sm h1 where d: "m7mux_stream_drain reg has_user (mu_stream st) h = (q, sm, h1)"
    by (metis prod_cases3)
  with assms(3) have eqs: "st' = st\<lparr>mu_stream := sm\<rparr>" "h' = h1"
    by (simp_all add: m7mux_inbox_drain_def)
  show ?thesis
    unfolding eqs using stream_drain_ok [OF assms(1) _ _ _ d] assms(2) by (simp add: mux_ok_def)
qed

lemma mux_step_ok:
  assumes "adapters_ok reg" "mux_ok reg st h" "mux_step g_ctx reg ntop op (st, h, r) = (st', h', r')"
  shows "mux_ok reg st' h'"
proof (cases op)
  case (Mux_Pump timeout env now1 now2 sends)
  obtain rc s1 h1 sent where p: "m7mux_pump g_ctx reg ntop st timeout env now1 now2 sends h = (rc, s1, h1, sent)"
    by (metis prod_cases4)
  from mux_pump_ok [OF assms(1,2) p] assms(3) Mux_Pump p show ?thesis by simp
next
  case (Mux_Drain has_user)
  obtain p s1 h1 where p: "m7mux_inbox_drain reg has_user st h = (p, s1, h1)" by (metis prod_cases3)
  from inbox_drain_ok [OF assms(1,2) p] assms(3) Mux_Drain p show ?thesis by simp
next
  case (Mux_Stage c send)
  obtain b s1 r1 where p: "m7mux_outbox_stage reg c st send r = (b, s1, r1)" by (metis prod_cases3)
  from stage_ok(1) [OF assms(1,2) p] assms(3) Mux_Stage p show ?thesis by simp
next
  case (Mux_Stage_Fragments c send n)
  obtain b s1 r1 where p: "m7mux_outbox_stage_fragments reg c st send n r = (b, s1, r1)"
    by (metis prod_cases3)
  from stage_ok(2) [OF assms(1,2) p] assms(3) Mux_Stage_Fragments p show ?thesis by simp
next
  case (Mux_Stage_Bytes send)
  obtain b s1 where p: "m7mux_outbox_stage_bytes st send = (b, s1)" by fastforce
  have "mux_ok reg s1 h"
    using stage_bytes_ok [OF _ p] mux_ok_egress [OF assms(2)] assms(2) by (simp add: mux_ok_def)
  with assms(3) Mux_Stage_Bytes p show ?thesis by simp
qed

lemma mux_run_ok:
  assumes "adapters_ok reg" "mux_ok reg st h" "mux_run g_ctx reg ntop ops (st, h, r) = (st', h', r')"
  shows "mux_ok reg st' h'"
  using assms(2,3)
proof (induction ops arbitrary: st h r)
  case Nil
  then show ?case by (simp add: mux_run_def)
next
  case (Cons op ops)
  obtain s1 h1 r1 where s: "mux_step g_ctx reg ntop op (st, h, r) = (s1, h1, r1)" by (metis prod_cases3)
  with Cons.IH [OF mux_step_ok [OF assms(1) Cons.prems(1) s]] Cons.prems(2) show ?case
    by (simp add: mux_run_def)
qed

lemma stream_init_ok:
  "stream_ok reg (m7mux_stream_state_init\<lparr>sm_adapter_lib := True\<rparr>)"
  "slot_users (m7mux_stream_state_init\<lparr>sm_adapter_lib := True\<rparr>) = {}"
  by (auto simp: stream_ok_def queue_ok_def m7mux_stream_state_init_def users_distinct_def
      slot_users_def packet_users_def releasable_def count_if_replicate)

lemma connect_socket_ok:
  assumes "m7mux_connect_socket g_ctx calloc_ok fd = Some st"
  shows "mux_ok reg st (empty_heap oom)" "mx_internal g_ctx"
  using assms stream_init_ok(1) [of reg] stream_init_ok(2)
  by (auto simp: m7mux_connect_socket_def m7mux_connect_alloc_state_def m7mux_connect_state_init_def
      m7mux_inbox_state_init_def m7mux_outbox_state_init_def m7mux_inbox_configure_stream_adapter_def
      mux_ok_def heap_ok_empty split: if_splits option.splits)

lemma connect_ip_ok:
  assumes "m7mux_connect_ip g_ctx calloc_ok open_auto ip port = Some st"
  shows "mux_ok reg st (empty_heap oom)" "mx_internal g_ctx"
  using assms stream_init_ok(1) [of reg] stream_init_ok(2)
  by (auto simp: m7mux_connect_ip_def m7mux_connect_alloc_state_def m7mux_connect_state_init_def Let_def
      m7mux_inbox_state_init_def m7mux_outbox_state_init_def m7mux_inbox_configure_stream_adapter_def
      mux_ok_def heap_ok_empty split: if_splits option.splits)

lemma disconnect_frees_all:
  assumes "adapters_ok reg" "mux_ok reg st h" "mx_internal g_ctx"
    "m7mux_connect_disconnect g_ctx reg st h = (closed, h')"
  shows "heap_ok h' \<and> live h' = {}"
proof -
  obtain sm h1 where r: "m7mux_stream_state_reset reg (mu_stream st) h = (sm, h1)" by fastforce
  have "heap_ok h1 \<and> live h1 = {}"
    using stream_reset_ok [OF assms(1) _ _ _ r] assms(2) by (simp add: mux_ok_def)
  with assms(3,4) r show ?thesis
    by (auto simp: m7mux_connect_disconnect_def m7mux_connect_state_reset_def
        m7mux_outbox_state_reset_def m7mux_inbox_state_reset_def Let_def split: prod.splits)
qed

end
