(* ===== verification/Crypto.thy ===== *)
theory Crypto
  imports Adapter
begin

text \<open>
  \<open>stdlib/openssl\<close>: the wrappers around OpenSSL. OpenSSL itself is a parameter, the record
  \<open>evp\<close> of what its calls return; keys are opaque handles. A wrapper that runs a sequence of
  EVP calls, any of which may fail, gets their joint result from the record: \<open>None\<close>, or the stage
  that failed where the code tells the stages apart.
\<close>

type_synonym EVP_PKEY = nat

datatype decrypt_stage = Ctx_Alloc | Decrypt_Init | Set_Padding | Len_Query | Do_Decrypt

record evp =
  EVP_gcm_encrypt :: "u8 list \<Rightarrow> u8 list \<Rightarrow> u8 list \<Rightarrow> u8 list \<Rightarrow> (u8 list \<times> u8 list) option"
  EVP_gcm_decrypt :: "u8 list \<Rightarrow> u8 list \<Rightarrow> u8 list \<Rightarrow> u8 list \<Rightarrow> u8 list \<Rightarrow> u8 list option"
  EVP_PKEY_encrypt :: "EVP_PKEY \<Rightarrow> rng \<Rightarrow> u8 list \<Rightarrow> u8 list option"
  EVP_PKEY_decrypt :: "EVP_PKEY \<Rightarrow> u8 list \<Rightarrow> decrypt_stage + u8 list"
  EVP_DigestInit :: bool
  EVP_DigestUpdate :: "u8 list \<Rightarrow> u8 list \<Rightarrow> bool"
  EVP_DigestFinal :: "u8 list \<Rightarrow> u8 list option"
  EVP_MAC_hmac_sha256 :: "u8 list \<Rightarrow> u8 list \<Rightarrow> u8 list option"
  RAND_bytes :: "rng \<Rightarrow> nat \<Rightarrow> u8 list option"
  EVP_PKEY_get_size :: "EVP_PKEY \<Rightarrow> nat"

section \<open>AES-GCM\<close>

definition SL_OPENSSL_AESGCM_KEY_LEN_128 :: nat where "SL_OPENSSL_AESGCM_KEY_LEN_128 = 16"
definition SL_OPENSSL_AESGCM_KEY_LEN_192 :: nat where "SL_OPENSSL_AESGCM_KEY_LEN_192 = 24"
definition SL_OPENSSL_AESGCM_KEY_LEN_256 :: nat where "SL_OPENSSL_AESGCM_KEY_LEN_256 = 32"
definition SL_OPENSSL_AESGCM_TAG_LEN :: nat where "SL_OPENSSL_AESGCM_TAG_LEN = 16"

definition aesgcm_cipher_for_key_len :: "nat \<Rightarrow> bool" where
  "aesgcm_cipher_for_key_len n \<longleftrightarrow> n = SL_OPENSSL_AESGCM_KEY_LEN_128 \<or>
     n = SL_OPENSSL_AESGCM_KEY_LEN_192 \<or> n = SL_OPENSSL_AESGCM_KEY_LEN_256"

definition aesgcm_validate_sizes :: "nat \<Rightarrow> nat \<Rightarrow> nat \<Rightarrow> nat \<Rightarrow> nat \<Rightarrow> bool" where
  "aesgcm_validate_sizes key_len nonce_len aad_len data_len tag_len \<longleftrightarrow>
     key_len \<le> 2147483647 \<and> nonce_len \<le> 2147483647 \<and> aad_len \<le> 2147483647 \<and>
     data_len \<le> 2147483647 \<and> tag_len \<le> 2147483647"

definition siglatch_openssl_aesgcm_encrypt ::
  "evp \<Rightarrow> u8 list \<Rightarrow> u8 list \<Rightarrow> u8 list \<Rightarrow> u8 list \<Rightarrow> nat \<Rightarrow> (u8 list \<times> u8 list) option" where
  "siglatch_openssl_aesgcm_encrypt E key nonce aad plaintext tag_len =
     (if \<not> aesgcm_validate_sizes (length key) (length nonce) (length aad) (length plaintext) tag_len
      then None
      else if tag_len \<noteq> SL_OPENSSL_AESGCM_TAG_LEN then None
      else if \<not> aesgcm_cipher_for_key_len (length key) then None
      else EVP_gcm_encrypt E key nonce aad plaintext)"

definition siglatch_openssl_aesgcm_decrypt ::
  "evp \<Rightarrow> u8 list \<Rightarrow> u8 list \<Rightarrow> u8 list \<Rightarrow> u8 list \<Rightarrow> u8 list \<Rightarrow> u8 list option" where
  "siglatch_openssl_aesgcm_decrypt E key nonce aad ciphertext tag =
     (if \<not> aesgcm_validate_sizes (length key) (length nonce) (length aad) (length ciphertext) (length tag)
      then None
      else if length tag \<noteq> SL_OPENSSL_AESGCM_TAG_LEN then None
      else if \<not> aesgcm_cipher_for_key_len (length key) then None
      else EVP_gcm_decrypt E key nonce aad ciphertext tag)"

section \<open>RSA\<close>

record SiglatchOpenSSLSession =
  ss_public_key :: "EVP_PKEY option"
  ss_private_key :: "EVP_PKEY option"
  ss_hmac_key :: "u8 list"
  ss_hmac_key_len :: nat

text \<open>The result is what OpenSSL writes through \<open>out_buf\<close>: the capacity in \<open>*out_len\<close> is not read.\<close>

definition siglatch_openssl_session_encrypt ::
  "evp \<Rightarrow> SiglatchOpenSSLSession \<Rightarrow> u8 list \<Rightarrow> rng \<Rightarrow> u8 list option \<times> rng" where
  "siglatch_openssl_session_encrypt E session msg r =
     (case ss_public_key session of
        None \<Rightarrow> (None, r)
      | Some k \<Rightarrow> (EVP_PKEY_encrypt E k r msg, r + 1))"

definition SL_SSL_DECRYPT_OK :: int where "SL_SSL_DECRYPT_OK = 0"
definition SL_SSL_DECRYPT_ERR_ARGS :: int where "SL_SSL_DECRYPT_ERR_ARGS = -1"
definition SL_SSL_DECRYPT_ERR_CTX_ALLOC :: int where "SL_SSL_DECRYPT_ERR_CTX_ALLOC = -2"
definition SL_SSL_DECRYPT_ERR_INIT :: int where "SL_SSL_DECRYPT_ERR_INIT = -3"
definition SL_SSL_DECRYPT_ERR_PADDING :: int where "SL_SSL_DECRYPT_ERR_PADDING = -4"
definition SL_SSL_DECRYPT_ERR_LEN_QUERY :: int where "SL_SSL_DECRYPT_ERR_LEN_QUERY = -5"
definition SL_SSL_DECRYPT_ERR_DECRYPT :: int where "SL_SSL_DECRYPT_ERR_DECRYPT = -6"

text \<open>The code returned and the bytes written, empty unless the code is \<open>SL_SSL_DECRYPT_OK\<close>.\<close>

definition siglatch_openssl_session_decrypt ::
  "evp \<Rightarrow> SiglatchOpenSSLSession \<Rightarrow> u8 list \<Rightarrow> int \<times> u8 list" where
  "siglatch_openssl_session_decrypt E session input =
     (case ss_private_key session of
        None \<Rightarrow> (SL_SSL_DECRYPT_ERR_ARGS, [])
      | Some k \<Rightarrow>
          (case EVP_PKEY_decrypt E k input of
             Inl Ctx_Alloc \<Rightarrow> (SL_SSL_DECRYPT_ERR_CTX_ALLOC, [])
           | Inl Decrypt_Init \<Rightarrow> (SL_SSL_DECRYPT_ERR_INIT, [])
           | Inl Set_Padding \<Rightarrow> (SL_SSL_DECRYPT_ERR_PADDING, [])
           | Inl Len_Query \<Rightarrow> (SL_SSL_DECRYPT_ERR_LEN_QUERY, [])
           | Inl Do_Decrypt \<Rightarrow> (SL_SSL_DECRYPT_ERR_DECRYPT, [])
           | Inr out \<Rightarrow> (SL_SSL_DECRYPT_OK, out)))"

definition siglatch_openssl_decrypt_strerror :: "int \<Rightarrow> string" where
  "siglatch_openssl_decrypt_strerror code =
     (if code = SL_SSL_DECRYPT_OK then ''Success''
      else if code = SL_SSL_DECRYPT_ERR_ARGS then ''Invalid arguments (null pointers or missing key)''
      else if code = SL_SSL_DECRYPT_ERR_CTX_ALLOC then ''Failed to allocate EVP_PKEY_CTX''
      else if code = SL_SSL_DECRYPT_ERR_INIT then ''EVP_PKEY_decrypt_init failed''
      else if code = SL_SSL_DECRYPT_ERR_PADDING then ''Failed to set RSA padding''
      else if code = SL_SSL_DECRYPT_ERR_LEN_QUERY then ''Failed to determine decrypted length''
      else if code = SL_SSL_DECRYPT_ERR_DECRYPT
      then ''EVP_PKEY_decrypt failed (bad data or wrong key)''
      else ''Unknown decryption error'')"

section \<open>Digest and signature\<close>

text \<open>
  The update loop of \<open>siglatch_openssl_digest_array\<close>: the bytes that the hash has absorbed when it
  ends. The \<open>break\<close> after a failed update leaves this loop only, not the function.
\<close>

fun digest_absorb :: "evp \<Rightarrow> u8 list \<Rightarrow> u8 list list \<Rightarrow> u8 list" where
  "digest_absorb E acc [] = acc"
| "digest_absorb E acc (item # items) =
     (if item = [] then digest_absorb E acc items
      else if \<not> EVP_DigestUpdate E acc item then acc
      else digest_absorb E (acc @ item) items)"

definition siglatch_openssl_digest_array :: "evp \<Rightarrow> u8 list list \<Rightarrow> u8 list option" where
  "siglatch_openssl_digest_array E items =
     (if items = [] then None
      else if \<not> EVP_DigestInit E then None
      else case EVP_DigestFinal E (digest_absorb E [] items) of
        None \<Rightarrow> None
      | Some d \<Rightarrow> if length d \<noteq> 32 then None else Some d)"

definition siglatch_openssl_sign :: "evp \<Rightarrow> SiglatchOpenSSLSession \<Rightarrow> u8 list \<Rightarrow> u8 list option" where
  "siglatch_openssl_sign E session digest =
     (case EVP_MAC_hmac_sha256 E (take (ss_hmac_key_len session) (ss_hmac_key session)) (take 32 digest) of
        None \<Rightarrow> None
      | Some out \<Rightarrow> if length out \<noteq> 32 then None else Some out)"

section \<open>Documented behaviour of OpenSSL\<close>

definition gcm_lengths :: "evp \<Rightarrow> bool" where
  "gcm_lengths E \<longleftrightarrow> (\<forall>key nonce aad plain ct tag.
     EVP_gcm_encrypt E key nonce aad plain = Some (ct, tag) \<longrightarrow>
       length ct = length plain \<and> length tag = SL_OPENSSL_AESGCM_TAG_LEN)"

text \<open>Decrypting what was encrypted under the same key, nonce and additional data gives it back.\<close>

definition gcm_inverts :: "evp \<Rightarrow> bool" where
  "gcm_inverts E \<longleftrightarrow> (\<forall>key nonce aad plain ct tag.
     EVP_gcm_encrypt E key nonce aad plain = Some (ct, tag) \<longrightarrow>
       EVP_gcm_decrypt E key nonce aad ct tag = Some plain)"

text \<open>The two keys are a pair.\<close>

definition rsa_pair :: "evp \<Rightarrow> EVP_PKEY \<Rightarrow> EVP_PKEY \<Rightarrow> bool" where
  "rsa_pair E pub priv \<longleftrightarrow> (\<forall>r msg ct.
     EVP_PKEY_encrypt E pub r msg = Some ct \<longrightarrow> EVP_PKEY_decrypt E priv ct = Inr msg)"

definition rand_lengths :: "evp \<Rightarrow> bool" where
  "rand_lengths E \<longleftrightarrow> (\<forall>r n b. RAND_bytes E r n = Some b \<longrightarrow> length b = n)"

definition digest_updates :: "evp \<Rightarrow> bool" where
  "digest_updates E \<longleftrightarrow> (\<forall>acc item. EVP_DigestUpdate E acc item)"

lemma aesgcm_roundtrip:
  assumes "gcm_lengths E" "gcm_inverts E"
    "siglatch_openssl_aesgcm_encrypt E key nonce aad plain n = Some (ct, tag)"
  shows "siglatch_openssl_aesgcm_decrypt E key nonce aad ct tag = Some plain"
    "length ct = length plain" "length tag = 16"
proof -
  have "length ct = length plain \<and> length tag = SL_OPENSSL_AESGCM_TAG_LEN"
    using assms(1,3) by (auto simp: siglatch_openssl_aesgcm_encrypt_def gcm_lengths_def split: if_splits)
  with assms(2,3) show "siglatch_openssl_aesgcm_decrypt E key nonce aad ct tag = Some plain"
    "length ct = length plain" "length tag = 16"
    by (auto simp: siglatch_openssl_aesgcm_encrypt_def siglatch_openssl_aesgcm_decrypt_def gcm_inverts_def
        SL_OPENSSL_AESGCM_TAG_LEN_def split: if_splits)
qed

lemma session_rsa_roundtrip:
  assumes "ss_public_key s1 = Some pub" "ss_private_key s2 = Some priv" "rsa_pair E pub priv"
    "siglatch_openssl_session_encrypt E s1 msg r = (Some ct, r')"
  shows "siglatch_openssl_session_decrypt E s2 ct = (SL_SSL_DECRYPT_OK, msg)"
  using assms
  by (auto simp: siglatch_openssl_session_encrypt_def siglatch_openssl_session_decrypt_def rsa_pair_def)

lemma digest_absorb_concat: "digest_updates E \<Longrightarrow> digest_absorb E acc items = acc @ concat items"
  by (induction items arbitrary: acc) (simp_all add: digest_updates_def)

text \<open>The items can be absorbed one after the other; an empty item is passed over.\<close>

definition absorbs :: "evp \<Rightarrow> u8 list list \<Rightarrow> bool" where
  "absorbs E items \<longleftrightarrow> (\<forall>i < length items. items ! i = [] \<or> EVP_DigestUpdate E (concat (take i items)) (items ! i))"

text \<open>A failed update cuts the input short.\<close>

lemma digest_absorb_from:
  assumes "\<forall>i < length items. items ! i = [] \<or> EVP_DigestUpdate E (acc @ concat (take i items)) (items ! i)"
  shows "digest_absorb E acc (items @ rest) = digest_absorb E (acc @ concat items) rest"
  using assms
proof (induction items arbitrary: acc)
  case (Cons item items)
  have "item = [] \<or> EVP_DigestUpdate E acc item" using Cons.prems by force
  moreover have "\<forall>i < length items. items ! i = [] \<or> EVP_DigestUpdate E ((acc @ item) @ concat (take i items)) (items ! i)"
    using Cons.prems by (auto dest: spec [of _ "Suc _"])
  ultimately show ?case using Cons.IH [of "acc @ item"] by auto
qed simp

lemma digest_absorbed: "absorbs E items \<Longrightarrow> digest_absorb E [] items = concat items"
  using digest_absorb_from [of items E "[]" "[]"] by (simp add: absorbs_def)

lemma digest_absorb_stops:
  assumes "absorbs E items" "item \<noteq> []" "\<not> EVP_DigestUpdate E (concat items) item"
  shows "digest_absorb E [] (items @ item # rest) = concat items"
  using digest_absorb_from [of items E "[]" "item # rest"] assms by (simp add: absorbs_def)

end
