(* ===== verification/Digest.thy ===== *)
theory Digest
  imports Crypto
begin

text \<open>
  \<open>shared/knock/digest.c\<close>: the digest of a unit's semantic fields and its HMAC. The items are the
  fields as they lie in memory, which is little endian on the targets of the build.
\<close>

definition SHARED_KNOCK_CODEC_V3_WIRE_VERSION :: u32 where
  "SHARED_KNOCK_CODEC_V3_WIRE_VERSION = 0x00030000"

definition SHARED_KNOCK_CODEC_V4_WIRE_VERSION :: u32 where
  "SHARED_KNOCK_CODEC_V4_WIRE_VERSION = 0x00040000"

definition SHARED_KNOCK_CODEC_FORM1_ID :: u8 where
  "SHARED_KNOCK_CODEC_FORM1_ID = 0x01"

definition mem_u16 :: "u16 \<Rightarrow> u8 list" where "mem_u16 w = rev (write_u16_be w)"
definition mem_u32 :: "u32 \<Rightarrow> u8 list" where "mem_u32 w = rev (write_u32_be w)"
definition mem_u64 :: "u64 \<Rightarrow> u8 list" where "mem_u64 w = rev (write_u64_be w)"

text \<open>The items of \<open>..._v3_form1\<close> and \<open>..._v4_form1\<close>; \<open>payload_len\<close> is a \<open>size_t\<close>.\<close>

definition form1_items :: "SharedKnockNormalizedUnit \<Rightarrow> u8 list list" where
  "form1_items normal =
     [mem_u32 (nu_wire_version normal), [nu_wire_form normal], mem_u32 (nu_timestamp normal),
      mem_u16 (nu_user_id normal), [nu_action_id normal], mem_u32 (nu_challenge normal),
      mem_u64 (word_of_nat (length (nu_payload normal))), nu_payload normal]"

text \<open>\<open>has_openssl\<close> is whether the digest context has its OpenSSL table.\<close>

definition shared_knock_digest_generate_v3_form1 ::
  "evp \<Rightarrow> bool \<Rightarrow> SharedKnockNormalizedUnit \<Rightarrow> u8 list option" where
  "shared_knock_digest_generate_v3_form1 E has_openssl normal =
     (if \<not> has_openssl then None
      else if nu_wire_version normal \<noteq> SHARED_KNOCK_CODEC_V3_WIRE_VERSION then None
      else if nu_wire_form normal \<noteq> SHARED_KNOCK_CODEC_FORM1_ID then None
      else if length (nu_payload normal) > SHARED_KNOCK_NORMALIZED_PAYLOAD_MAX then None
      else siglatch_openssl_digest_array E (form1_items normal))"

definition shared_knock_digest_generate_v4_form1 ::
  "evp \<Rightarrow> bool \<Rightarrow> SharedKnockNormalizedUnit \<Rightarrow> u8 list option" where
  "shared_knock_digest_generate_v4_form1 E has_openssl normal =
     (if \<not> has_openssl then None
      else if nu_wire_version normal \<noteq> SHARED_KNOCK_CODEC_V4_WIRE_VERSION then None
      else if nu_wire_form normal \<noteq> SHARED_KNOCK_CODEC_FORM1_ID then None
      else if length (nu_payload normal) > SHARED_KNOCK_NORMALIZED_PAYLOAD_MAX then None
      else siglatch_openssl_digest_array E (form1_items normal))"

definition shared_knock_digest_sign :: "evp \<Rightarrow> u8 list \<Rightarrow> u8 list \<Rightarrow> u8 list option" where
  "shared_knock_digest_sign E hmac_key digest =
     (case EVP_MAC_hmac_sha256 E (take 32 hmac_key) (take 32 digest) of
        None \<Rightarrow> None
      | Some out \<Rightarrow> if length out \<noteq> 32 then None else Some out)"

definition shared_knock_digest_validate :: "evp \<Rightarrow> u8 list \<Rightarrow> u8 list \<Rightarrow> u8 list \<Rightarrow> bool" where
  "shared_knock_digest_validate E hmac_key digest signature =
     (case EVP_MAC_hmac_sha256 E (take 32 hmac_key) (take 32 digest) of
        None \<Rightarrow> False
      | Some computed \<Rightarrow> length computed = 32 \<and> take 32 signature = computed)"

lemma digest_sign_validates:
  "shared_knock_digest_sign E key digest = Some sig \<Longrightarrow> shared_knock_digest_validate E key digest sig"
  by (auto simp: shared_knock_digest_sign_def shared_knock_digest_validate_def split: option.splits if_splits)

lemma digest_validate_iff:
  assumes "shared_knock_digest_sign E key digest = Some sig" "length sig' = 32"
  shows "shared_knock_digest_validate E key digest sig' \<longleftrightarrow> sig' = sig"
  using assms
  by (auto simp: shared_knock_digest_sign_def shared_knock_digest_validate_def split: option.splits if_splits)

section \<open>What the digest covers\<close>

lemma write_be_inj:
  "write_u16_be a = write_u16_be b \<longleftrightarrow> a = b" "write_u32_be c = write_u32_be d \<longleftrightarrow> c = d"
  "write_u64_be e = write_u64_be f \<longleftrightarrow> e = f"
  by (metis read_write_be_Nil(1), metis read_write_be_Nil(2), metis read_write_be_Nil(3))

lemma mem_inj:
  "mem_u16 a = mem_u16 b \<longleftrightarrow> a = b" "mem_u32 c = mem_u32 d \<longleftrightarrow> c = d" "mem_u64 e = mem_u64 f \<longleftrightarrow> e = f"
  by (simp_all add: mem_u16_def mem_u32_def mem_u64_def write_be_inj)

lemma length_mem [simp]: "length (mem_u16 a) = 2" "length (mem_u32 b) = 4" "length (mem_u64 c) = 8"
  by (simp_all add: mem_u16_def mem_u32_def mem_u64_def)

text \<open>The bytes that are hashed determine every semantic field of the unit.\<close>

lemma form1_items_inj:
  assumes "concat (form1_items a) = concat (form1_items b)"
  shows "nu_wire_version a = nu_wire_version b \<and> nu_wire_form a = nu_wire_form b \<and>
    nu_timestamp a = nu_timestamp b \<and> nu_user_id a = nu_user_id b \<and> nu_action_id a = nu_action_id b \<and>
    nu_challenge a = nu_challenge b \<and> nu_payload a = nu_payload b"
  using assms by (simp add: form1_items_def mem_inj)

text \<open>The fields that say where a fragment belongs are not among them.\<close>

lemma form1_items_ignores_envelope:
  "form1_items (a\<lparr>nu_session_id := s, nu_message_id := m, nu_stream_id := t,
     nu_fragment_index := i, nu_fragment_count := n\<rparr>) = form1_items a"
  by (simp add: form1_items_def)

lemma digest_v4_ok:
  assumes "shared_knock_digest_generate_v4_form1 E has a = Some d"
  shows "length d = 32" "nu_wire_version a = SHARED_KNOCK_CODEC_V4_WIRE_VERSION"
  using assms
  by (auto simp: shared_knock_digest_generate_v4_form1_def siglatch_openssl_digest_array_def
      split: if_splits option.splits)

end
