(* ===== verification/Nonce.thy ===== *)
theory Nonce
  imports Prelude
begin

text \<open>
  \<open>stdlib/nonce.c\<close>: the replay cache, a ring of the nonces seen last with the time they came.

  An entry whose string is empty is free. \<open>time_t\<close> is an integer. A cache that was shut down, or
  never initialised, has no entries (its pointers are NULL).
\<close>

definition NONCE_DEFAULT_CAPACITY :: nat where
  "NONCE_DEFAULT_CAPACITY = 128"

definition NONCE_DEFAULT_STRLEN :: nat where
  "NONCE_DEFAULT_STRLEN = 32"

definition NONCE_DEFAULT_TTL_SECONDS :: int where
  "NONCE_DEFAULT_TTL_SECONDS = 60"

record NonceEntry =
  ne_nonce :: string
  ne_timestamp :: int

record NonceCache =
  nc_entries :: "NonceEntry list"
  nc_capacity :: nat
  nc_nonce_strlen :: nat
  nc_ttl_seconds :: int
  nc_next_index :: nat

record NonceConfig =
  nf_capacity :: nat
  nf_nonce_strlen :: nat
  nf_ttl_seconds :: int

definition free_entry :: NonceEntry where
  "free_entry = \<lparr>ne_nonce = '''', ne_timestamp = 0\<rparr>"

definition lib_nonce_cache_shutdown :: "NonceCache \<Rightarrow> NonceCache" where
  "lib_nonce_cache_shutdown cache =
     \<lparr>nc_entries = [], nc_capacity = 0, nc_nonce_strlen = 0, nc_ttl_seconds = 0, nc_next_index = 0\<rparr>"

text \<open>\<open>alloc_ok\<close> is whether both arrays can be allocated.\<close>

definition lib_nonce_cache_init :: "bool \<Rightarrow> NonceCache \<Rightarrow> NonceConfig option \<Rightarrow> bool \<times> NonceCache" where
  "lib_nonce_cache_init alloc_ok cache cfg =
     (let capacity = (case cfg of
            Some c \<Rightarrow> if nf_capacity c > 0 then nf_capacity c else NONCE_DEFAULT_CAPACITY
          | None \<Rightarrow> NONCE_DEFAULT_CAPACITY);
          nonce_strlen = (case cfg of
            Some c \<Rightarrow> if nf_nonce_strlen c > 1 then nf_nonce_strlen c else NONCE_DEFAULT_STRLEN
          | None \<Rightarrow> NONCE_DEFAULT_STRLEN);
          ttl_seconds = (case cfg of
            Some c \<Rightarrow> if nf_ttl_seconds c \<ge> 0 then nf_ttl_seconds c else NONCE_DEFAULT_TTL_SECONDS
          | None \<Rightarrow> NONCE_DEFAULT_TTL_SECONDS)
      in if \<not> alloc_ok then (False, lib_nonce_cache_shutdown cache)
         else (True, \<lparr>nc_entries = replicate capacity free_entry, nc_capacity = capacity,
                nc_nonce_strlen = nonce_strlen, nc_ttl_seconds = ttl_seconds, nc_next_index = 0\<rparr>))"

definition lib_nonce_clear :: "NonceCache \<Rightarrow> NonceCache" where
  "lib_nonce_clear cache =
     (if nc_entries cache = [] then cache
      else cache\<lparr>nc_entries := replicate (nc_capacity cache) free_entry, nc_next_index := 0\<rparr>)"

text \<open>The loop of \<open>lib_nonce_check\<close>: entries that have expired on the way are freed.\<close>

fun nonce_check_loop ::
  "nat \<Rightarrow> int \<Rightarrow> string \<Rightarrow> int \<Rightarrow> NonceEntry list \<Rightarrow> bool \<times> NonceEntry list" where
  "nonce_check_loop n ttl nonce now [] = (False, [])"
| "nonce_check_loop n ttl nonce now (e # es) =
     (if ne_nonce e = '''' then (let (b, es') = nonce_check_loop n ttl nonce now es in (b, e # es'))
      else if now - ne_timestamp e > ttl
      then (let (b, es') = nonce_check_loop n ttl nonce now es in (b, free_entry # es'))
      else if take n (ne_nonce e) = take n nonce then (True, e # es)
      else (let (b, es') = nonce_check_loop n ttl nonce now es in (b, e # es')))"

definition lib_nonce_check :: "NonceCache \<Rightarrow> string \<Rightarrow> int \<Rightarrow> bool \<times> NonceCache" where
  "lib_nonce_check cache nonce now =
     (if nc_entries cache = [] then (False, cache)
      else (let (b, es) = nonce_check_loop (nc_nonce_strlen cache) (nc_ttl_seconds cache) nonce now
                            (nc_entries cache)
            in (b, cache\<lparr>nc_entries := es\<rparr>)))"

definition lib_nonce_add :: "NonceCache \<Rightarrow> string \<Rightarrow> int \<Rightarrow> NonceCache" where
  "lib_nonce_add cache nonce now =
     (if nc_entries cache = [] \<or> nc_capacity cache = 0 \<or> nc_nonce_strlen cache = 0 then cache
      else cache\<lparr>nc_entries := (nc_entries cache)[nc_next_index cache :=
                     \<lparr>ne_nonce = take (nc_nonce_strlen cache - 1) nonce, ne_timestamp = now\<rparr>],
                 nc_next_index := (nc_next_index cache + 1) mod nc_capacity cache\<rparr>)"

section \<open>The contract of a replay cache\<close>

text \<open>
  A user of the cache checks every nonce and adds those that were not seen. The specification
  keeps the whole history of accepted nonces, newest first, and looks at the last \<open>cap\<close> of them.
\<close>

fun replay_run ::
  "('c \<Rightarrow> string \<Rightarrow> int \<Rightarrow> bool \<times> 'c) \<Rightarrow> ('c \<Rightarrow> string \<Rightarrow> int \<Rightarrow> 'c) \<Rightarrow> 'c \<Rightarrow> (string \<times> int) list \<Rightarrow> bool list" where
  "replay_run check add c [] = []"
| "replay_run check add c ((n, now) # xs) =
     (case check c n now of
        (True, c') \<Rightarrow> False # replay_run check add c' xs
      | (False, c') \<Rightarrow> True # replay_run check add (add c' n now) xs)"

definition seen_recently :: "nat \<Rightarrow> int \<Rightarrow> (string \<times> int) list \<Rightarrow> string \<Rightarrow> int \<Rightarrow> bool" where
  "seen_recently cap ttl hist n now \<longleftrightarrow>
     (\<exists>(m, t) \<in> set (take cap hist). m = n \<and> now - t \<le> ttl)"

fun replay_spec :: "nat \<Rightarrow> int \<Rightarrow> (string \<times> int) list \<Rightarrow> (string \<times> int) list \<Rightarrow> bool list" where
  "replay_spec cap ttl hist [] = []"
| "replay_spec cap ttl hist ((n, now) # xs) =
     (if seen_recently cap ttl hist n now then False # replay_spec cap ttl hist xs
      else True # replay_spec cap ttl ((n, now) # hist) xs)"

text \<open>\<open>rel c hist now\<close>: the cache can stand for that history at that time.\<close>

locale replay_cache =
  fixes check :: "'c \<Rightarrow> string \<Rightarrow> int \<Rightarrow> bool \<times> 'c"
    and add :: "'c \<Rightarrow> string \<Rightarrow> int \<Rightarrow> 'c"
    and rel :: "'c \<Rightarrow> (string \<times> int) list \<Rightarrow> int \<Rightarrow> bool"
    and valid :: "string \<Rightarrow> bool"
    and cap :: nat
    and ttl :: int
  assumes check_result: "rel c hist t \<Longrightarrow> t \<le> now \<Longrightarrow> valid n \<Longrightarrow>
        fst (check c n now) \<longleftrightarrow> seen_recently cap ttl hist n now"
    and check_rel: "rel c hist t \<Longrightarrow> t \<le> now \<Longrightarrow> rel (snd (check c n now)) hist now"
    and add_rel: "rel c hist t \<Longrightarrow> t \<le> now \<Longrightarrow> valid n \<Longrightarrow> rel (add c n now) ((n, now) # hist) now"
begin

lemma run_spec:
  assumes "rel c hist t" "\<forall>(n, now) \<in> set xs. valid n" "sorted (t # map snd xs)"
  shows "replay_run check add c xs = replay_spec cap ttl hist xs"
  using assms
proof (induction xs arbitrary: c hist t)
  case Nil
  then show ?case by simp
next
  case (Cons x xs)
  obtain n now where x: "x = (n, now)" by fastforce
  have v: "valid n" "t \<le> now" "sorted (now # map snd xs)" "\<forall>(n, now) \<in> set xs. valid n"
    using Cons.prems(2,3) x by auto
  obtain b c1 where ch: "check c n now = (b, c1)" by fastforce
  have b: "b \<longleftrightarrow> seen_recently cap ttl hist n now" and r1: "rel c1 hist now"
    using check_result [OF Cons.prems(1) v(2,1)] check_rel [OF Cons.prems(1) v(2), of n] ch by simp_all
  show ?case
  proof (cases b)
    case True
    with b ch x Cons.IH [OF r1 v(4,3)] show ?thesis by simp
  next
    case False
    with b ch x Cons.IH [OF add_rel [OF r1 order_refl v(1)] v(4,3)] show ?thesis by simp
  qed
qed

end

section \<open>The ring is a replay cache\<close>

text \<open>The slot that holds the nonce accepted \<open>i\<close> acceptances ago.\<close>

definition age_slot :: "nat \<Rightarrow> nat \<Rightarrow> nat \<Rightarrow> nat" where
  "age_slot cap nxt i = (nxt + (cap - 1 - i)) mod cap"

definition entry_stands :: "int \<Rightarrow> int \<Rightarrow> (string \<times> int) list \<Rightarrow> nat \<Rightarrow> NonceEntry \<Rightarrow> bool" where
  "entry_stands ttl now hist i e \<longleftrightarrow>
     (if i < length hist
      then ne_nonce e = fst (hist ! i) \<and> ne_timestamp e = snd (hist ! i) \<or>
           ne_nonce e = '''' \<and> now - snd (hist ! i) > ttl
      else ne_nonce e = '''')"

definition nonce_valid :: "nat \<Rightarrow> string \<Rightarrow> bool" where
  "nonce_valid strlen n \<longleftrightarrow> n \<noteq> '''' \<and> length n < strlen"

definition nonce_rel :: "nat \<Rightarrow> nat \<Rightarrow> int \<Rightarrow> NonceCache \<Rightarrow> (string \<times> int) list \<Rightarrow> int \<Rightarrow> bool" where
  "nonce_rel cap strlen ttl c hist now \<longleftrightarrow>
     0 < cap \<and> nc_capacity c = cap \<and> nc_nonce_strlen c = strlen \<and> nc_ttl_seconds c = ttl \<and>
     length (nc_entries c) = cap \<and> nc_next_index c < cap \<and>
     (\<forall>(n, t) \<in> set hist. nonce_valid strlen n \<and> t \<le> now) \<and>
     (\<forall>i < cap. entry_stands ttl now hist i (nc_entries c ! age_slot cap (nc_next_index c) i))"

lemma nonce_check_loop_length: "length (snd (nonce_check_loop n ttl nonce now es)) = length es"
  by (induction es) (auto split: prod.splits)

lemma nonce_check_loop_nth:
  "i < length es \<Longrightarrow>
   snd (nonce_check_loop n ttl nonce now es) ! i = es ! i \<or>
   snd (nonce_check_loop n ttl nonce now es) ! i = free_entry \<and> now - ne_timestamp (es ! i) > ttl \<and>
     ne_nonce (es ! i) \<noteq> ''''"
proof (induction es arbitrary: i)
  case Nil
  then show ?case by simp
next
  case (Cons e es)
  obtain b es' where l: "nonce_check_loop n ttl nonce now es = (b, es')" by fastforce
  show ?case
  proof (cases i)
    case 0
    with l show ?thesis by simp
  next
    case (Suc k)
    with Cons.IH [of k] Cons.prems l show ?thesis by simp
  qed
qed

lemma nonce_check_loop_result:
  "fst (nonce_check_loop n ttl nonce now es) \<longleftrightarrow>
   (\<exists>e \<in> set es. ne_nonce e \<noteq> '''' \<and> now - ne_timestamp e \<le> ttl \<and> take n (ne_nonce e) = take n nonce)"
  by (induction es) (auto split: prod.splits)

lemma age_slot_lt: "0 < cap \<Longrightarrow> age_slot cap nxt i < cap"
  by (simp add: age_slot_def)

lemma age_slot_surj:
  assumes "j < cap" "nxt < cap"
  shows "\<exists>i < cap. age_slot cap nxt i = j"
proof (cases "j < nxt")
  case True
  have "nxt + (cap - 1 - (nxt - 1 - j)) = j + cap" using True assms by simp
  then have "age_slot cap nxt (nxt - 1 - j) = j" using assms by (simp add: age_slot_def)
  then show ?thesis using assms True by (intro exI [of _ "nxt - 1 - j"]) simp
next
  case False
  have "nxt + (cap - 1 - (cap - 1 - (j - nxt))) = j" using False assms by simp
  then have "age_slot cap nxt (cap - 1 - (j - nxt)) = j" using assms by (simp add: age_slot_def)
  then show ?thesis using assms by (intro exI [of _ "cap - 1 - (j - nxt)"]) simp
qed

lemma age_slot_next:
  assumes "nxt < cap"
  shows "age_slot cap ((nxt + 1) mod cap) 0 = nxt"
    and "Suc i < cap \<Longrightarrow> age_slot cap ((nxt + 1) mod cap) (Suc i) = age_slot cap nxt i"
    and "i < cap - 1 \<Longrightarrow> age_slot cap nxt i \<noteq> nxt"
proof -
  show "age_slot cap ((nxt + 1) mod cap) 0 = nxt"
    using assms by (cases "Suc nxt = cap") (simp_all add: age_slot_def)
  show "age_slot cap ((nxt + 1) mod cap) (Suc i) = age_slot cap nxt i" if "Suc i < cap"
  proof -
    have "((nxt + 1) mod cap + (cap - 1 - Suc i)) mod cap = (nxt + 1 + (cap - 1 - Suc i)) mod cap"
      by (rule mod_add_left_eq)
    also have "nxt + 1 + (cap - 1 - Suc i) = nxt + (cap - 1 - i)" using that by simp
    finally show ?thesis by (simp only: age_slot_def)
  qed
  show "age_slot cap nxt i \<noteq> nxt" if "i < cap - 1"
  proof (cases "nxt + (cap - 1 - i) < cap")
    case True
    with that show ?thesis by (simp add: age_slot_def)
  next
    case False
    have "(nxt + (cap - 1 - i)) mod cap = (nxt + (cap - 1 - i) - cap) mod cap"
      using False by (simp add: le_mod_geq)
    moreover have "nxt + (cap - 1 - i) - cap < nxt" using that assms False by linarith
    ultimately show ?thesis using assms by (simp add: age_slot_def)
  qed
qed

lemma nonce_rel_entry:
  assumes "nonce_rel cap strlen ttl c hist now" "j < cap"
  obtains i where "i < cap" "age_slot cap (nc_next_index c) i = j"
    "entry_stands ttl now hist i (nc_entries c ! j)"
  using assms age_slot_surj [of j cap "nc_next_index c"] by (auto simp: nonce_rel_def)

lemma lib_nonce_check_result:
  assumes r: "nonce_rel cap strlen ttl c hist t" and t: "t \<le> now" and v: "nonce_valid strlen n"
  shows "fst (lib_nonce_check c n now) \<longleftrightarrow> seen_recently cap ttl hist n now"
proof -
  have c: "0 < cap" "nc_nonce_strlen c = strlen" "nc_ttl_seconds c = ttl" "length (nc_entries c) = cap"
    "nc_next_index c < cap" and hist: "\<forall>(n, t) \<in> set hist. nonce_valid strlen n"
    and st: "\<forall>i < cap. entry_stands ttl t hist i (nc_entries c ! age_slot cap (nc_next_index c) i)"
    using r by (auto simp: nonce_rel_def)
  have eq: "take strlen m = take strlen n \<longleftrightarrow> m = n" if "nonce_valid strlen m" for m
    using that v by (simp add: nonce_valid_def)
  have "fst (lib_nonce_check c n now) \<longleftrightarrow> (\<exists>e \<in> set (nc_entries c).
      ne_nonce e \<noteq> '''' \<and> now - ne_timestamp e \<le> ttl \<and> take strlen (ne_nonce e) = take strlen n)"
    using c by (auto simp: lib_nonce_check_def nonce_check_loop_result [symmetric] split: prod.splits)
  also have "\<dots> \<longleftrightarrow> seen_recently cap ttl hist n now"
  proof
    assume "\<exists>e \<in> set (nc_entries c).
      ne_nonce e \<noteq> '''' \<and> now - ne_timestamp e \<le> ttl \<and> take strlen (ne_nonce e) = take strlen n"
    then obtain j where j: "j < cap" "ne_nonce (nc_entries c ! j) \<noteq> ''''"
      "now - ne_timestamp (nc_entries c ! j) \<le> ttl"
      "take strlen (ne_nonce (nc_entries c ! j)) = take strlen n"
      using c(4) by (auto simp: in_set_conv_nth)
    obtain i where i: "i < cap" "entry_stands ttl t hist i (nc_entries c ! j)"
      using nonce_rel_entry [OF r j(1)] by blast
    then have "i < length hist" "ne_nonce (nc_entries c ! j) = fst (hist ! i)"
      "ne_timestamp (nc_entries c ! j) = snd (hist ! i)"
      using j(2) by (auto simp: entry_stands_def split: if_splits)
    moreover have "nonce_valid strlen (fst (hist ! i))"
      using hist \<open>i < length hist\<close> by (metis case_prod_beta nth_mem)
    ultimately have "hist ! i \<in> set (take cap hist)" "fst (hist ! i) = n" "now - snd (hist ! i) \<le> ttl"
      using i(1) j eq by (auto simp: in_set_conv_nth intro!: exI [of _ i])
    then show "seen_recently cap ttl hist n now"
      by (force simp: seen_recently_def)
  next
    assume "seen_recently cap ttl hist n now"
    then obtain i where i: "i < cap" "i < length hist" "fst (hist ! i) = n" "now - snd (hist ! i) \<le> ttl"
      by (force simp: seen_recently_def in_set_conv_nth)
    let ?e = "nc_entries c ! age_slot cap (nc_next_index c) i"
    have "ne_nonce ?e = n \<and> ne_timestamp ?e = snd (hist ! i)"
      using st i t by (fastforce simp: entry_stands_def)
    moreover have "?e \<in> set (nc_entries c)" using age_slot_lt [OF c(1)] c(4) by simp
    ultimately show "\<exists>e \<in> set (nc_entries c).
        ne_nonce e \<noteq> '''' \<and> now - ne_timestamp e \<le> ttl \<and> take strlen (ne_nonce e) = take strlen n"
      using v i(4) by (auto simp: nonce_valid_def intro!: bexI [of _ ?e])
  qed
  finally show ?thesis .
qed

lemma entry_stands_mono: "entry_stands ttl t hist i e \<Longrightarrow> t \<le> now \<Longrightarrow> entry_stands ttl now hist i e"
  by (auto simp: entry_stands_def)

lemma lib_nonce_check_rel:
  assumes r: "nonce_rel cap strlen ttl c hist t" and t: "t \<le> now"
  shows "nonce_rel cap strlen ttl (snd (lib_nonce_check c n now)) hist now"
proof -
  have c: "0 < cap" "nc_capacity c = cap" "nc_nonce_strlen c = strlen" "nc_ttl_seconds c = ttl"
    "length (nc_entries c) = cap" "nc_next_index c < cap"
    and hist: "\<forall>(n, s) \<in> set hist. nonce_valid strlen n \<and> s \<le> t"
    and st: "\<And>i. i < cap \<Longrightarrow> entry_stands ttl t hist i (nc_entries c ! age_slot cap (nc_next_index c) i)"
    using r by (auto simp: nonce_rel_def)
  let ?es = "snd (nonce_check_loop strlen ttl n now (nc_entries c))"
  have s: "snd (lib_nonce_check c n now) = c\<lparr>nc_entries := ?es\<rparr>"
    using c by (auto simp: lib_nonce_check_def split: prod.splits)
  have "entry_stands ttl now hist i (?es ! age_slot cap (nc_next_index c) i)" if i: "i < cap" for i
  proof -
    let ?j = "age_slot cap (nc_next_index c) i"
    have j: "?j < length (nc_entries c)" using age_slot_lt [OF c(1)] c(5) by simp
    note old = entry_stands_mono [OF st [OF i] t]
    from nonce_check_loop_nth [OF j, of strlen ttl n now] show ?thesis
    proof
      assume "?es ! ?j = nc_entries c ! ?j"
      with old show ?thesis by simp
    next
      assume "?es ! ?j = free_entry \<and> now - ne_timestamp (nc_entries c ! ?j) > ttl \<and>
        ne_nonce (nc_entries c ! ?j) \<noteq> ''''"
      with old show ?thesis by (auto simp: entry_stands_def free_entry_def split: if_splits)
    qed
  qed
  moreover have "\<forall>(n, s) \<in> set hist. nonce_valid strlen n \<and> s \<le> now" using hist t by fastforce
  ultimately show ?thesis
    unfolding s using c by (simp add: nonce_rel_def nonce_check_loop_length)
qed

lemma lib_nonce_add_rel:
  assumes r: "nonce_rel cap strlen ttl c hist t" and t: "t \<le> now" and v: "nonce_valid strlen n"
  shows "nonce_rel cap strlen ttl (lib_nonce_add c n now) ((n, now) # hist) now"
proof -
  have c: "0 < cap" "nc_capacity c = cap" "nc_nonce_strlen c = strlen" "nc_ttl_seconds c = ttl"
    "length (nc_entries c) = cap" "nc_next_index c < cap"
    and hist: "\<forall>(n, s) \<in> set hist. nonce_valid strlen n \<and> s \<le> t"
    and st: "\<And>i. i < cap \<Longrightarrow> entry_stands ttl t hist i (nc_entries c ! age_slot cap (nc_next_index c) i)"
    using r by (auto simp: nonce_rel_def)
  let ?nxt = "nc_next_index c" and ?new = "\<lparr>ne_nonce = n, ne_timestamp = now\<rparr>"
  have "n = take (strlen - 1) n" and "strlen \<noteq> 0" using v by (auto simp: nonce_valid_def)
  then have s: "lib_nonce_add c n now =
      c\<lparr>nc_entries := (nc_entries c)[?nxt := ?new], nc_next_index := (?nxt + 1) mod cap\<rparr>"
    using c by (auto simp: lib_nonce_add_def)
  have "entry_stands ttl now ((n, now) # hist) i
      ((nc_entries c)[?nxt := ?new] ! age_slot cap ((?nxt + 1) mod cap) i)" if i: "i < cap" for i
  proof (cases i)
    case 0
    with c age_slot_next(1) [OF c(6)] show ?thesis by (simp add: entry_stands_def)
  next
    case (Suc k)
    have k: "Suc k < cap" "k < cap - 1" "k < cap" using i Suc by simp_all
    note old = entry_stands_mono [OF st [OF k(3)] t]
    show ?thesis
      unfolding Suc age_slot_next(2) [OF c(6) k(1)]
      using old age_slot_next(3) [OF c(6) k(2)] by (simp add: entry_stands_def)
  qed
  moreover have "\<forall>(m, s) \<in> set ((n, now) # hist). nonce_valid strlen m \<and> s \<le> now"
    using hist t v by fastforce
  ultimately show ?thesis unfolding s using c by (simp add: nonce_rel_def)
qed

lemma lib_nonce_cache_init_rel:
  assumes "lib_nonce_cache_init True c0 cfg = (True, c)"
  shows "nonce_rel (nc_capacity c) (nc_nonce_strlen c) (nc_ttl_seconds c) c [] now"
  using assms
  by (auto simp: lib_nonce_cache_init_def Let_def nonce_rel_def entry_stands_def free_entry_def
      age_slot_lt NONCE_DEFAULT_CAPACITY_def split: option.splits)

interpretation nonce_cache: replay_cache lib_nonce_check lib_nonce_add
  "nonce_rel cap strlen ttl" "nonce_valid strlen" cap ttl
  for cap strlen ttl
  by unfold_locales (simp_all add: lib_nonce_check_result lib_nonce_check_rel lib_nonce_add_rel)

text \<open>A nonce of \<open>strlen\<close> characters or more is stored cut off, and never found again.\<close>

lemma long_nonce_not_found:
  assumes "strlen = nc_nonce_strlen c" "strlen \<le> length n" "0 < strlen"
    "\<forall>e \<in> set (nc_entries c). length (ne_nonce e) < strlen"
  shows "\<not> fst (lib_nonce_check c n now)"
proof -
  have "take strlen (ne_nonce e) \<noteq> take strlen n" if "e \<in> set (nc_entries c)" for e
    using assms that by (metis length_take min.absorb2 nat_neq_iff take_all_iff less_imp_le)
  with assms(1) have "\<not> fst (nonce_check_loop (nc_nonce_strlen c) (nc_ttl_seconds c) n now (nc_entries c))"
    by (simp add: nonce_check_loop_result)
  then show ?thesis by (auto simp: lib_nonce_check_def split: prod.splits)
qed

end
