(* ===== verification/Codec_Common.thy ===== *)
theory Codec_Common
  imports Digest Nonce
begin

text \<open>
  What the codecs of \<open>shared/knock/codec\<close> share: the routing prefix of \<open>shared/knock/prefix.h\<close>, the
  result codes, the context they read their keys from, and the state each keeps (its nonce cache).
  The four codecs declare the same state structure, so one record stands for it.
\<close>

definition SHARED_KNOCK_PREFIX_MAGIC :: u32 where
  "SHARED_KNOCK_PREFIX_MAGIC = 0x534C504B"

definition SHARED_KNOCK_PREFIX_SIZE :: nat where
  "SHARED_KNOCK_PREFIX_SIZE = 9"

record SharedKnockPrefix =
  px_magic :: u32
  px_version :: u32
  px_form :: u8

definition SL_PAYLOAD_OK :: int where "SL_PAYLOAD_OK = 0"
definition SL_PAYLOAD_ERR_NULL_PTR :: int where "SL_PAYLOAD_ERR_NULL_PTR = -1"
definition SL_PAYLOAD_ERR_UNPACK :: int where "SL_PAYLOAD_ERR_UNPACK = -2"
definition SL_PAYLOAD_ERR_VALIDATE :: int where "SL_PAYLOAD_ERR_VALIDATE = -3"
definition SL_PAYLOAD_ERR_OVERFLOW :: int where "SL_PAYLOAD_ERR_OVERFLOW = -4"

lemmas payload_codes = SL_PAYLOAD_OK_def SL_PAYLOAD_ERR_NULL_PTR_def SL_PAYLOAD_ERR_UNPACK_def
  SL_PAYLOAD_ERR_VALIDATE_def SL_PAYLOAD_ERR_OVERFLOW_def

section \<open>The codec context\<close>

record SharedKnockCodecKeyEntry =
  ke_user_id :: u32
  ke_name :: "string option"
  ke_public_key :: "EVP_PKEY option"
  ke_private_key :: "EVP_PKEY option"
  ke_hmac_key :: "u8 list option"
  ke_hmac_key_len :: nat
  ke_flags :: u32

record SharedKnockCodecServerKey =
  sk_name :: "string option"
  sk_public_key :: "EVP_PKEY option"
  sk_private_key :: "EVP_PKEY option"
  sk_hmac_key :: "u8 list option"
  sk_hmac_key_len :: nat
  sk_flags :: u32

text \<open>
  \<open>cx_keychain\<close> is the allocated array, of length \<open>keychain_cap\<close>; its first \<open>cx_keychain_len\<close>
  entries are in use.
\<close>

record SharedKnockCodecContext =
  cx_server_key :: SharedKnockCodecServerKey
  cx_has_server_key :: bool
  cx_server_secure :: bool
  cx_openssl_session :: "SiglatchOpenSSLSession option"
  cx_keychain :: "SharedKnockCodecKeyEntry list"
  cx_keychain_len :: nat
  cx_active_key_name :: "string option"
  cx_nonce_window_ms :: u64
  cx_flags :: u32

section \<open>The state of a codec\<close>

record SharedKnockCodecState =
  cs_nonce :: NonceCache
  cs_nonce_ready :: bool

definition zero_codec_state :: SharedKnockCodecState where
  "zero_codec_state = \<lparr>cs_nonce = \<lparr>nc_entries = [], nc_capacity = 0, nc_nonce_strlen = 0,
     nc_ttl_seconds = 0, nc_next_index = 0\<rparr>, cs_nonce_ready = False\<rparr>"

section \<open>Decimal numbers\<close>

text \<open>The text that \<open>%u\<close> prints.\<close>

definition dec_digit :: "nat \<Rightarrow> char" where
  "dec_digit d = ''0123456789'' ! d"

fun dec_string :: "nat \<Rightarrow> string" where
  "dec_string n = (if n < 10 then [dec_digit n] else dec_string (n div 10) @ [dec_digit (n mod 10)])"

declare dec_string.simps [simp del]

lemma dec_digit_inj: "a < 10 \<Longrightarrow> b < 10 \<Longrightarrow> dec_digit a = dec_digit b \<longleftrightarrow> a = b"
  unfolding dec_digit_def by (rule nth_eq_iff_index_eq) simp_all

lemma dec_digit_not_dash: "d < 10 \<Longrightarrow> dec_digit d \<noteq> CHR ''-''"
  using nth_mem [of d "''0123456789''"] by (auto simp: dec_digit_def)

lemma dec_string_not_Nil [simp]: "dec_string n \<noteq> []"
  by (subst dec_string.simps) simp

lemma dec_string_inj: "dec_string m = dec_string n \<longleftrightarrow> m = n"
proof (induction m arbitrary: n rule: less_induct)
  case (less m)
  show ?case
  proof (cases "m < 10 \<or> n < 10")
    case True
    then show ?thesis
      by (subst (1 2) dec_string.simps) (auto simp: dec_digit_inj dest: arg_cong [where f = length])
  next
    case False
    have "dec_string m = dec_string n \<longleftrightarrow>
        dec_string (m div 10) = dec_string (n div 10) \<and> m mod 10 = n mod 10"
      using False by (subst (1 2) dec_string.simps) (simp add: dec_digit_inj)
    also have "\<dots> \<longleftrightarrow> m div 10 = n div 10 \<and> m mod 10 = n mod 10"
      using False less [of "m div 10" "n div 10"] by simp
    also have "\<dots> \<longleftrightarrow> m = n" by (metis div_mult_mod_eq)
    finally show ?thesis .
  qed
qed

lemma dec_string_not_dash: "CHR ''-'' \<notin> set (dec_string n)"
proof (induction n rule: less_induct)
  case (less n)
  then show ?case
    by (subst dec_string.simps) (auto simp: dec_digit_not_dash [symmetric])
qed

lemma length_dec_string: "n < 10 ^ k \<Longrightarrow> 0 < k \<Longrightarrow> length (dec_string n) \<le> k"
proof (induction k arbitrary: n)
  case 0
  then show ?case by simp
next
  case (Suc k)
  show ?case
  proof (cases "n < 10")
    case True
    then show ?thesis by (subst dec_string.simps) simp
  next
    case False
    with Suc.prems have "n div 10 < 10 ^ k" and "0 < k"
      by (auto simp: less_mult_imp_div_less mult.commute intro!: gr0I)
    with Suc.IH [of "n div 10"] False show ?thesis by (subst dec_string.simps) simp
  qed
qed

text \<open>The nonce text \<open>%u-%u\<close>.\<close>

definition nonce_text :: "u32 \<Rightarrow> u32 \<Rightarrow> string" where
  "nonce_text timestamp challenge = dec_string (unat timestamp) @ ''-'' @ dec_string (unat challenge)"

lemma nonce_text_inj: "nonce_text t c = nonce_text t' c' \<longleftrightarrow> t = t' \<and> c = c'"
proof
  have split: "takeWhile (\<lambda>x. x \<noteq> CHR ''-'') (nonce_text a b) = dec_string (unat a)" for a b
  proof -
    have "\<forall>x \<in> set (dec_string (unat a)). x \<noteq> CHR ''-''" using dec_string_not_dash by metis
    then show ?thesis by (simp add: nonce_text_def takeWhile_append2)
  qed
  assume eq: "nonce_text t c = nonce_text t' c'"
  then have "dec_string (unat t) = dec_string (unat t')" by (metis split)
  with eq show "t = t' \<and> c = c'" by (simp add: nonce_text_def dec_string_inj word_unat_eq_iff)
qed simp

lemma nonce_text_valid: "nonce_valid NONCE_DEFAULT_STRLEN (nonce_text t c)"
proof -
  have "unat (w :: u32) < 10 ^ 10" for w
    using unsigned_less [of w, where 'a = nat] by simp
  then have "length (dec_string (unat (w :: u32))) \<le> 10" for w
    by (rule length_dec_string) simp
  from this [of t] this [of c] show ?thesis
    by (simp add: nonce_valid_def nonce_text_def NONCE_DEFAULT_STRLEN_def)
qed

end
