(* ===== verification/Codec_V4_Facts.thy ===== *)
theory Codec_V4_Facts
  imports Codec_V4
begin

text \<open>
  What the V4 codec guarantees: its formats round-trip, fragments partition a payload, what one
  side encodes the other decodes, and its adapter keeps the contract of the mux.
\<close>

section \<open>The plaintext round-trips\<close>

definition v4_received :: "SharedKnockNormalizedUnit \<Rightarrow> string \<Rightarrow> u16 \<Rightarrow> SharedKnockNormalizedUnit" where
  "v4_received normal ip client_port = zero_unit
     \<lparr>nu_session_id := nu_session_id normal, nu_message_id := nu_message_id normal,
      nu_stream_id := nu_stream_id normal, nu_fragment_index := nu_fragment_index normal,
      nu_fragment_count := nu_fragment_count normal, nu_timestamp := nu_timestamp normal,
      nu_user_id := nu_user_id normal, nu_action_id := nu_action_id normal,
      nu_challenge := nu_challenge normal, nu_ip := cstr63 ip, nu_client_port := client_port,
      nu_payload := nu_payload normal, nu_hmac := nu_hmac normal\<rparr>"

lemma v4_received_fragment:
  "nu_fragment_index (v4_received normal ip client_port) = nu_fragment_index normal"
  "nu_fragment_count (v4_received normal ip client_port) = nu_fragment_count normal"
  by (simp_all add: v4_received_def)

lemma v4_pack_plaintext_Some:
  assumes "shared_knock_codec_v4_pack_plaintext normal n = Some bytes"
  shows "bytes = write_u64_be (nu_session_id normal) @ write_u64_be (nu_message_id normal) @
        write_u32_be (nu_stream_id normal) @ write_u32_be (nu_fragment_index normal) @
        write_u32_be (nu_fragment_count normal) @ [0] @ [0] @ write_u32_be (nu_timestamp normal) @
        write_u16_be (nu_user_id normal) @ [nu_action_id normal] @
        write_u32_be (nu_challenge normal) @ write_u32_be (word_of_nat (length (nu_payload normal))) @
        nu_payload normal @ nu_hmac normal"
    "length (nu_payload normal) \<le> 512"
  using assms
  by (auto simp: shared_knock_codec_v4_pack_plaintext_def shared_knock_codec_v4_pack_inner_envelope_def
      v4_sizes Let_def split: if_splits)

lemma unat_len_u32: "n < 2 ^ 32 \<Longrightarrow> unat (word_of_nat n :: u32) = n"
  by (simp add: unat_of_nat)

lemma unat_len_u16: "n < 2 ^ 16 \<Longrightarrow> unat (word_of_nat n :: u16) = n"
  by (simp add: unat_of_nat)

lemma nth_skip [wire_simps]: "length xs \<le> n \<Longrightarrow> (xs @ ys) ! n = ys ! (n - length xs)"
  by (simp add: nth_append)

lemma v4_plaintext_roundtrip:
  assumes p: "shared_knock_codec_v4_pack_plaintext normal n = Some bytes" and h: "length (nu_hmac normal) = 32"
  shows "shared_knock_codec_v4_unpack_plaintext bytes ip client_port control out =
    (True, control\<lparr>ct_stream_type := 0\<rparr>, v4_received normal ip client_port)"
proof -
  note b = v4_pack_plaintext_Some [OF p]
  have len: "unat (word_of_nat (length (nu_payload normal)) :: u32) = length (nu_payload normal)"
    using b(2) by (intro unat_len_u32) simp
  have rd: "read_u64_be bytes 0 = nu_session_id normal" "read_u64_be bytes 8 = nu_message_id normal"
    "read_u32_be bytes 16 = nu_stream_id normal" "read_u32_be bytes 20 = nu_fragment_index normal"
    "read_u32_be bytes 24 = nu_fragment_count normal" "bytes ! 29 = 0"
    "read_u32_be bytes 30 = nu_timestamp normal" "read_u16_be bytes 34 = nu_user_id normal"
    "bytes ! 36 = nu_action_id normal" "read_u32_be bytes 37 = nu_challenge normal"
    "read_u32_be bytes 41 = word_of_nat (length (nu_payload normal))"
    "slice 45 (length (nu_payload normal)) bytes = nu_payload normal"
    "slice (45 + length (nu_payload normal)) 32 bytes = nu_hmac normal"
    "length bytes = 77 + length (nu_payload normal)"
    unfolding b(1) using h by (simp_all add: wire_simps)
  show ?thesis
    using rd len b(2)
    by (simp add: shared_knock_codec_v4_unpack_plaintext_def shared_knock_codec_v4_unpack_inner_envelope_def
        shared_knock_codec_v4_plaintext_size_def v4_sizes v4_received_def)
qed

section \<open>The wire format round-trips\<close>

text \<open>A packet as \<open>unpack_wire\<close> fills it: lengths in range, arrays zero beyond them.\<close>

definition v4_packet_ok :: "SharedKnockCodecV4Form1Packet \<Rightarrow> bool" where
  "v4_packet_ok pkt \<longleftrightarrow>
     (\<exists>cek ct. 0 < length cek \<and> length cek \<le> 256 \<and> 77 \<le> length ct \<and> length ct \<le> 589 \<and>
       v4_wrapped_cek_len pkt = word_of_nat (length cek) \<and>
       v4_ciphertext_len pkt = word_of_nat (length ct) \<and>
       v4_wrapped_cek pkt = write_at 0 cek (replicate 256 0) \<and>
       v4_ciphertext pkt = write_at 0 ct (replicate 589 0)) \<and>
     length (v4_nonce pkt) = 12 \<and> length (v4_tag pkt) = 16"

lemma take_write_at_0 [simp]: "n = length bs \<Longrightarrow> take n (write_at 0 bs buf) = bs"
  by (simp add: write_at_def)

lemma v4_pack_bytes:
  assumes cek: "0 < length cek" "length cek \<le> 256" and ct: "77 \<le> length ct" "length ct \<le> 589"
    and pkt: "v4_wrapped_cek_len pkt = word_of_nat (length cek)"
      "v4_ciphertext_len pkt = word_of_nat (length ct)"
      "v4_wrapped_cek pkt = write_at 0 cek (replicate 256 0)"
      "v4_ciphertext pkt = write_at 0 ct (replicate 589 0)"
    and buf: "27 + length cek + length ct + 16 \<le> length buf"
  shows "shared_knock_codec_v4_pack pkt buf = (int (27 + length cek + length ct + 16), write_at 0
     (write_u32_be (px_magic (v4_outer pkt)) @ write_u32_be (px_version (v4_outer pkt)) @
      [px_form (v4_outer pkt)] @ write_u16_be (v4_wrapped_cek_len pkt) @ v4_nonce pkt @
      write_u32_be (v4_ciphertext_len pkt) @ cek @ ct @ v4_tag pkt) buf)"
  using assms
  by (simp add: shared_knock_codec_v4_pack_def v4_sizes unat_len_u16 unat_len_u32 Let_def)

lemma v4_unpack_bytes:
  assumes cek: "0 < length cek" "length cek \<le> 256" and ct: "77 \<le> length ct" "length ct \<le> 589"
    and n: "length nonce = 12" "length tag = 16"
  shows "shared_knock_codec_v4_unpack_wire
     (write_u32_be m @ write_u32_be v @ [f] @ write_u16_be (word_of_nat (length cek)) @ nonce @
      write_u32_be (word_of_nat (length ct)) @ cek @ ct @ tag) p0 =
    (SL_PAYLOAD_OK, \<lparr>v4_outer = \<lparr>px_magic = m, px_version = v, px_form = f\<rparr>,
      v4_wrapped_cek_len = word_of_nat (length cek), v4_nonce = nonce,
      v4_ciphertext_len = word_of_nat (length ct), v4_wrapped_cek = write_at 0 cek (replicate 256 0),
      v4_ciphertext = write_at 0 ct (replicate 589 0), v4_tag = tag\<rparr>)"
proof -
  let ?b = "write_u32_be m @ write_u32_be v @ [f] @ write_u16_be (word_of_nat (length cek)) @ nonce @
      write_u32_be (word_of_nat (length ct)) @ cek @ ct @ tag"
  have "read_u32_be ?b 0 = m" "read_u32_be ?b 4 = v" "?b ! 8 = f"
    "read_u16_be ?b 9 = word_of_nat (length cek)" "slice 11 12 ?b = nonce"
    "read_u32_be ?b 23 = word_of_nat (length ct)" "slice 27 (length cek) ?b = cek"
    "slice (27 + length cek) (length ct) ?b = ct" "slice (27 + length cek + length ct) 16 ?b = tag"
    "length ?b = 27 + length cek + length ct + 16"
    using n by (simp_all add: wire_simps)
  with cek ct show ?thesis
    by (simp add: shared_knock_codec_v4_unpack_wire_def v4_sizes unat_len_u16 unat_len_u32 zero_v4_packet_def)
qed

lemma v4_wire_roundtrip:
  assumes ok: "v4_packet_ok pkt" and p: "shared_knock_codec_v4_pack pkt buf = (n, out)" "0 < n"
  shows "shared_knock_codec_v4_unpack_wire (take (nat n) out) p0 = (SL_PAYLOAD_OK, pkt)"
proof -
  obtain cek ct where c: "0 < length cek" "length cek \<le> 256" "77 \<le> length ct" "length ct \<le> 589"
    "v4_wrapped_cek_len pkt = word_of_nat (length cek)" "v4_ciphertext_len pkt = word_of_nat (length ct)"
    "v4_wrapped_cek pkt = write_at 0 cek (replicate 256 0)"
    "v4_ciphertext pkt = write_at 0 ct (replicate 589 0)"
    and n: "length (v4_nonce pkt) = 12" "length (v4_tag pkt) = 16"
    using ok by (auto simp: v4_packet_ok_def)
  have buf: "27 + length cek + length ct + 16 \<le> length buf"
  proof (rule ccontr)
    assume "\<not> ?thesis"
    with c have "shared_knock_codec_v4_pack pkt buf = (SL_PAYLOAD_ERR_UNPACK, buf)"
      by (simp add: shared_knock_codec_v4_pack_def v4_sizes unat_len_u16 unat_len_u32)
    with p show False by (simp add: payload_codes)
  qed
  let ?b = "write_u32_be (px_magic (v4_outer pkt)) @ write_u32_be (px_version (v4_outer pkt)) @
      [px_form (v4_outer pkt)] @ write_u16_be (v4_wrapped_cek_len pkt) @ v4_nonce pkt @
      write_u32_be (v4_ciphertext_len pkt) @ cek @ ct @ v4_tag pkt"
  have "n = int (27 + length cek + length ct + 16)" "out = write_at 0 ?b buf"
    using v4_pack_bytes [OF c buf] p(1) by simp_all
  then have "take (nat n) out = ?b" using n by simp
  then show ?thesis
    using v4_unpack_bytes [OF c(1-4) n, of "px_magic (v4_outer pkt)" "px_version (v4_outer pkt)"
        "px_form (v4_outer pkt)" p0] c(5-8) by simp
qed

text \<open>Packets that the wire accepts are well formed.\<close>

lemma v4_unpack_wire_ok:
  assumes "shared_knock_codec_v4_unpack_wire buf p0 = (SL_PAYLOAD_OK, pkt)"
  shows "v4_packet_ok pkt" "length buf = 27 + unat (v4_wrapped_cek_len pkt) + unat (v4_ciphertext_len pkt) + 16"
    "px_magic (v4_outer pkt) = read_u32_be buf 0" "px_version (v4_outer pkt) = read_u32_be buf 4"
    "px_form (v4_outer pkt) = buf ! 8"
proof -
  let ?k = "unat (read_u16_be buf 9)" and ?c = "unat (read_u32_be buf 23)"
  have g: "27 \<le> length buf" "0 < ?k" "?k \<le> 256" "77 \<le> ?c" "?c \<le> 589" "length buf = 27 + ?k + ?c + 16"
    and pkt: "pkt = zero_v4_packet
      \<lparr>v4_outer := \<lparr>px_magic = read_u32_be buf 0, px_version = read_u32_be buf 4, px_form = buf ! 8\<rparr>,
       v4_wrapped_cek_len := read_u16_be buf 9, v4_nonce := slice 11 12 buf,
       v4_ciphertext_len := read_u32_be buf 23,
       v4_wrapped_cek := write_at 0 (slice 27 ?k buf) (replicate 256 0),
       v4_ciphertext := write_at 0 (slice (27 + ?k) ?c buf) (replicate 589 0),
       v4_tag := slice (27 + ?k + ?c) 16 buf\<rparr>"
    using assms
    by (auto simp: shared_knock_codec_v4_unpack_wire_def v4_sizes payload_codes zero_v4_packet_def Let_def
        split: if_splits)
  show "v4_packet_ok pkt"
    unfolding v4_packet_ok_def
  proof (intro conjI exI)
    show "0 < length (slice 27 ?k buf)" "length (slice 27 ?k buf) \<le> 256"
      "77 \<le> length (slice (27 + ?k) ?c buf)" "length (slice (27 + ?k) ?c buf) \<le> 589"
      using g by simp_all
    show "v4_wrapped_cek_len pkt = word_of_nat (length (slice 27 ?k buf))"
      "v4_ciphertext_len pkt = word_of_nat (length (slice (27 + ?k) ?c buf))"
      using g by (simp_all add: pkt)
  qed (use g in \<open>simp_all add: pkt\<close>)
  show "length buf = 27 + unat (v4_wrapped_cek_len pkt) + unat (v4_ciphertext_len pkt) + 16"
    "px_magic (v4_outer pkt) = read_u32_be buf 0" "px_version (v4_outer pkt) = read_u32_be buf 4"
    "px_form (v4_outer pkt) = buf ! 8"
    using g(6) by (simp_all add: pkt)
qed

lemma v4_deserialize_ok_iff:
  "shared_knock_codec_v4_deserialize_wire buf p0 = (SL_PAYLOAD_OK, pkt) \<longleftrightarrow>
   shared_knock_codec_v4_unpack_wire buf p0 = (SL_PAYLOAD_OK, pkt) \<and>
   v4_outer pkt = \<lparr>px_magic = SHARED_KNOCK_PREFIX_MAGIC, px_version = SHARED_KNOCK_CODEC_V4_WIRE_VERSION,
     px_form = SHARED_KNOCK_CODEC_FORM1_ID\<rparr>"
  (is "?l \<longleftrightarrow> ?r")
proof
  assume l: ?l
  then have u: "shared_knock_codec_v4_unpack_wire buf p0 = (SL_PAYLOAD_OK, pkt)"
    and v: "shared_knock_codec_v4_validate_wire pkt = SL_PAYLOAD_OK"
    by (auto simp: shared_knock_codec_v4_deserialize_wire_def payload_codes Let_def
        split: prod.splits if_splits)
  from v have "px_magic (v4_outer pkt) = SHARED_KNOCK_PREFIX_MAGIC"
    "px_version (v4_outer pkt) = SHARED_KNOCK_CODEC_V4_WIRE_VERSION"
    "px_form (v4_outer pkt) = SHARED_KNOCK_CODEC_FORM1_ID"
    by (auto simp: shared_knock_codec_v4_validate_wire_def payload_codes split: if_splits)
  with u show ?r by simp
next
  assume r: ?r
  then obtain cek ct where "0 < length (cek :: u8 list)" "length cek \<le> 256" "77 \<le> length (ct :: u8 list)"
    "length ct \<le> 589" "v4_wrapped_cek_len pkt = word_of_nat (length cek)"
    "v4_ciphertext_len pkt = word_of_nat (length ct)"
    using v4_unpack_wire_ok(1) [of buf p0 pkt] unfolding v4_packet_ok_def by blast
  then have "shared_knock_codec_v4_validate_wire pkt = SL_PAYLOAD_OK"
    using r by (simp add: shared_knock_codec_v4_validate_wire_def v4_sizes unat_len_u16 unat_len_u32
        word_unat_eq_iff)
  with r show ?l
    by (simp add: shared_knock_codec_v4_deserialize_wire_def payload_codes)
qed

section \<open>What is encoded is decoded\<close>

definition v4_header :: "nat \<Rightarrow> u8 list \<Rightarrow> nat \<Rightarrow> u8 list" where
  "v4_header wrapped_len nonce ct_len =
     write_u32_be SHARED_KNOCK_PREFIX_MAGIC @ write_u32_be SHARED_KNOCK_CODEC_V4_WIRE_VERSION @
     [SHARED_KNOCK_CODEC_FORM1_ID] @ write_u16_be (word_of_nat wrapped_len) @ nonce @
     write_u32_be (word_of_nat ct_len)"

lemma v4_body_hmac_length:
  "v4_body_hmac E has context normal = Some hmac \<Longrightarrow> length (nu_hmac normal) = 32 \<Longrightarrow> length hmac = 32"
  by (auto simp: v4_body_hmac_def shared_knock_digest_sign_def split: if_splits option.splits)

lemma v4_encrypt_payload_key_Some:
  assumes "shared_knock_codec_v4_encrypt_payload_key E context cek cap r = (Some wrapped, r')"
  obtains c session where "context = Some c" "cx_openssl_session c = Some session"
    "siglatch_openssl_session_encrypt E session cek r = (Some wrapped, r')"
    "0 < length wrapped" "length wrapped \<le> cap"
  using assms
  by (auto simp: shared_knock_codec_v4_encrypt_payload_key_def split: option.splits if_splits prod.splits)

lemma v4_encode_Some:
  assumes E: "gcm_lengths E" "rand_lengths E"
    and e: "shared_knock_codec_v4_encode E has context normal buf r = (Some bytes, r')"
    and buf: "length buf = SHARED_KNOCK_CODEC_V4_FORM1_PACKET_MAX_SIZE" and h: "length (nu_hmac normal) = 32"
  obtains hmac plaintext cek wrapped nonce ct tag r1 r2 where
    "v4_body_hmac E has context normal = Some hmac"
    "shared_knock_codec_v4_pack_plaintext (normal\<lparr>nu_hmac := hmac\<rparr>) SHARED_KNOCK_CODEC_V4_FORM1_BODY_MAX =
       Some plaintext" "length cek = 32" "length nonce = 12"
    "shared_knock_codec_v4_encrypt_payload_key E context cek SHARED_KNOCK_CODEC_V4_FORM1_CEK_MAX r1 =
       (Some wrapped, r2)"
    "siglatch_openssl_aesgcm_encrypt E cek nonce (v4_header (length wrapped) nonce (length plaintext))
       plaintext SHARED_KNOCK_CODEC_V4_FORM1_TAG_SIZE = Some (ct, tag)"
    "bytes = v4_header (length wrapped) nonce (length ct) @ wrapped @ ct @ tag"
    "length ct = length plaintext" "length tag = 16" "length bytes \<le> SHARED_KNOCK_CODEC_V4_FORM1_PACKET_MAX_SIZE"
proof -
  obtain hmac where hm: "v4_body_hmac E has context normal = Some hmac"
    using e by (auto simp: shared_knock_codec_v4_encode_def split: if_splits option.splits)
  obtain plaintext where pp: "shared_knock_codec_v4_pack_plaintext (normal\<lparr>nu_hmac := hmac\<rparr>)
      SHARED_KNOCK_CODEC_V4_FORM1_BODY_MAX = Some plaintext"
    using e hm by (auto simp: shared_knock_codec_v4_encode_def split: if_splits option.splits)
  obtain cek where cek: "RAND_bytes E r SHARED_KNOCK_CODEC_V4_FORM1_CEK_SIZE = Some cek"
    using e hm pp by (auto simp: shared_knock_codec_v4_encode_def split: if_splits option.splits)
  obtain wrapped r2 where w: "shared_knock_codec_v4_encrypt_payload_key E context cek
      SHARED_KNOCK_CODEC_V4_FORM1_CEK_MAX (r + 1) = (Some wrapped, r2)"
    using e hm pp cek
    by (auto simp: shared_knock_codec_v4_encode_def split: if_splits option.splits prod.splits)
  obtain nonce where nonce: "RAND_bytes E r2 12 = Some nonce"
    using e hm pp cek w by (auto simp: shared_knock_codec_v4_encode_def split: if_splits option.splits)
  have l: "length cek = 32" "length nonce = 12"
    using E(2) cek nonce by (auto simp: rand_lengths_def v4_sizes)
  have wl: "0 < length wrapped" "length wrapped \<le> 256"
    using v4_encrypt_payload_key_Some [OF w] by (auto simp: v4_sizes)
  let ?pkt = "zero_v4_packet
     \<lparr>v4_outer := \<lparr>px_magic = SHARED_KNOCK_PREFIX_MAGIC, px_version = SHARED_KNOCK_CODEC_V4_WIRE_VERSION,
        px_form = SHARED_KNOCK_CODEC_FORM1_ID\<rparr>,
      v4_wrapped_cek := write_at 0 wrapped (v4_wrapped_cek zero_v4_packet),
      v4_wrapped_cek_len := word_of_nat (length wrapped),
      v4_ciphertext_len := word_of_nat (length plaintext), v4_nonce := nonce\<rparr>"
  have aad: "shared_knock_codec_v4_build_aad ?pkt SHARED_KNOCK_CODEC_V4_FORM1_HEADER_SIZE =
      Some (v4_header (length wrapped) nonce (length plaintext))"
    by (simp add: shared_knock_codec_v4_build_aad_def v4_header_def)
  note run = e [unfolded shared_knock_codec_v4_encode_def hm option.case pp cek w prod.case nonce Let_def aad]
  obtain ct tag where g: "siglatch_openssl_aesgcm_encrypt E cek nonce
      (v4_header (length wrapped) nonce (length plaintext)) plaintext
      SHARED_KNOCK_CODEC_V4_FORM1_TAG_SIZE = Some (ct, tag)"
    using run by (auto split: if_splits option.splits)
  have gl: "length ct = length plaintext" "length tag = 16"
    using E(1) g by (auto simp: siglatch_openssl_aesgcm_encrypt_def gcm_lengths_def SL_OPENSSL_AESGCM_TAG_LEN_def
        split: if_splits)
  have pl: "77 \<le> length plaintext" "length plaintext \<le> 589"
    using v4_pack_plaintext_Some [OF pp] v4_body_hmac_length [OF hm h] by simp_all
  let ?pkt2 = "?pkt\<lparr>v4_ciphertext_len := word_of_nat (length ct),
      v4_ciphertext := write_at 0 ct (v4_ciphertext ?pkt), v4_tag := tag\<rparr>"
  let ?b = "v4_header (length wrapped) nonce (length ct) @ wrapped @ ct @ tag"
  have pk: "shared_knock_codec_v4_pack ?pkt2 buf = (int (27 + length wrapped + length ct + 16), write_at 0 ?b buf)"
    using v4_pack_bytes [of wrapped ct ?pkt2 buf] wl pl gl buf
    by (simp add: zero_v4_packet_def v4_sizes v4_header_def)
  have lb: "length ?b = 27 + length wrapped + length ct + 16"
    using l gl by (simp add: v4_header_def)
  have "bytes = take (27 + length wrapped + length ct + 16) (write_at 0 ?b buf)"
    using run g pk gl pl wl by (auto simp: v4_sizes split: if_splits)
  also have "\<dots> = ?b" by (rule take_write_at_0) (simp only: lb)
  finally have "bytes = ?b" .
  moreover from this have "length bytes \<le> SHARED_KNOCK_CODEC_V4_FORM1_PACKET_MAX_SIZE"
    using lb wl pl gl by (simp add: v4_sizes)
  ultimately show thesis using that [OF hm pp l w g _ gl] by blast
qed

lemma v4_deserialize_header:
  assumes "0 < length wrapped" "length wrapped \<le> 256" "77 \<le> length ct" "length ct \<le> 589"
    "length nonce = 12" "length tag = 16"
  shows "shared_knock_codec_v4_deserialize_wire (v4_header (length wrapped) nonce (length ct) @ wrapped @ ct @ tag) p0 =
    (SL_PAYLOAD_OK, \<lparr>v4_outer = \<lparr>px_magic = SHARED_KNOCK_PREFIX_MAGIC,
        px_version = SHARED_KNOCK_CODEC_V4_WIRE_VERSION, px_form = SHARED_KNOCK_CODEC_FORM1_ID\<rparr>,
      v4_wrapped_cek_len = word_of_nat (length wrapped), v4_nonce = nonce,
      v4_ciphertext_len = word_of_nat (length ct),
      v4_wrapped_cek = write_at 0 wrapped (replicate 256 0),
      v4_ciphertext = write_at 0 ct (replicate 589 0), v4_tag = tag\<rparr>)"
  using v4_unpack_bytes [OF assms, of SHARED_KNOCK_PREFIX_MAGIC SHARED_KNOCK_CODEC_V4_WIRE_VERSION
      SHARED_KNOCK_CODEC_FORM1_ID p0]
  by (simp add: v4_deserialize_ok_iff v4_header_def)

text \<open>
  The whole way: what a client with the server's public key encodes, a server with the private key
  decodes to the same unit, with the sender's address, its HMAC, and the flags of a decoded packet.
\<close>

definition v4_delivered ::
  "SharedKnockNormalizedUnit \<Rightarrow> u8 list \<Rightarrow> string \<Rightarrow> u16 \<Rightarrow> SharedKnockNormalizedUnit" where
  "v4_delivered normal hmac ip client_port = (v4_received (normal\<lparr>nu_hmac := hmac\<rparr>) ip client_port)
     \<lparr>nu_complete := unit_final (nu_fragment_index normal) (nu_fragment_count normal),
      nu_wire_version := SHARED_KNOCK_CODEC_V4_WIRE_VERSION,
      nu_wire_form := SHARED_KNOCK_CODEC_FORM1_ID, nu_encrypted := True,
      nu_wire_decode := True, nu_wire_auth := False\<rparr>"

lemma v4_codec_roundtrip:
  assumes E: "gcm_lengths E" "gcm_inverts E" "rand_lengths E"
    and client: "cx_openssl_session client = Some s1" "ss_public_key s1 = Some pub"
    and server: "cx_openssl_session server = Some s2" "ss_private_key s2 = Some priv"
    and pair: "rsa_pair E pub priv"
    and e: "shared_knock_codec_v4_encode E has (Some client) normal buf r = (Some bytes, r')"
    and buf: "length buf = SHARED_KNOCK_CODEC_V4_FORM1_PACKET_MAX_SIZE" and h: "length (nu_hmac normal) = 32"
    and ing: "in_buffer ingress = bytes"
  shows "\<exists>hmac. v4_body_hmac E has (Some client) normal = Some hmac \<and>
    shared_knock_codec_v4_decode E (Some server) (Some state) ingress control zero_unit =
      (1, control\<lparr>ct_session_by_client := 1, ct_stream_type := 0\<rparr>,
       v4_delivered normal hmac (in_ip ingress) (in_client_port ingress))"
proof -
  obtain hmac plaintext cek wrapped nonce ct tag r1 r2 where
    hm: "v4_body_hmac E has (Some client) normal = Some hmac"
    and pp: "shared_knock_codec_v4_pack_plaintext (normal\<lparr>nu_hmac := hmac\<rparr>)
      SHARED_KNOCK_CODEC_V4_FORM1_BODY_MAX = Some plaintext" and l: "length cek = 32" "length nonce = 12"
    and w: "shared_knock_codec_v4_encrypt_payload_key E (Some client) cek
      SHARED_KNOCK_CODEC_V4_FORM1_CEK_MAX r1 = (Some wrapped, r2)"
    and g: "siglatch_openssl_aesgcm_encrypt E cek nonce (v4_header (length wrapped) nonce (length plaintext))
       plaintext SHARED_KNOCK_CODEC_V4_FORM1_TAG_SIZE = Some (ct, tag)"
    and b: "bytes = v4_header (length wrapped) nonce (length ct) @ wrapped @ ct @ tag"
    and gl: "length ct = length plaintext" "length tag = 16"
    using v4_encode_Some [OF E(1,3) e buf h] by metis
  obtain c session where cs: "Some client = Some c" "cx_openssl_session c = Some session"
    "siglatch_openssl_session_encrypt E session cek r1 = (Some wrapped, r2)" "0 < length wrapped"
    "length wrapped \<le> SHARED_KNOCK_CODEC_V4_FORM1_CEK_MAX"
    by (rule v4_encrypt_payload_key_Some [OF w])
  then have se: "siglatch_openssl_session_encrypt E s1 cek r1 = (Some wrapped, r2)"
    and wl: "0 < length wrapped" "length wrapped \<le> 256"
    using client by (simp_all add: v4_sizes)
  have pl: "77 \<le> length ct" "length ct \<le> 589"
    using v4_pack_plaintext_Some [OF pp] v4_body_hmac_length [OF hm h] gl by simp_all
  let ?pkt = "\<lparr>v4_outer = \<lparr>px_magic = SHARED_KNOCK_PREFIX_MAGIC,
        px_version = SHARED_KNOCK_CODEC_V4_WIRE_VERSION, px_form = SHARED_KNOCK_CODEC_FORM1_ID\<rparr>,
      v4_wrapped_cek_len = word_of_nat (length wrapped), v4_nonce = nonce,
      v4_ciphertext_len = word_of_nat (length ct),
      v4_wrapped_cek = write_at 0 wrapped (replicate 256 0),
      v4_ciphertext = write_at 0 ct (replicate 589 0), v4_tag = tag\<rparr>"
  have ds: "shared_knock_codec_v4_deserialize_wire bytes zero_v4_packet = (SL_PAYLOAD_OK, ?pkt)"
    using v4_deserialize_header [OF wl pl l(2) gl(2)] b by simp
  have sd: "siglatch_openssl_session_decrypt E s2 wrapped = (SL_SSL_DECRYPT_OK, cek)"
    using session_rsa_roundtrip [OF client(2) server(2) pair se] .
  have key: "shared_knock_codec_v4_get_payload_key E (Some server) ?pkt SHARED_KNOCK_CODEC_V4_FORM1_CEK_SIZE =
      (SL_PAYLOAD_OK, cek)"
    using wl l sd server
    by (simp add: shared_knock_codec_v4_get_payload_key_def shared_knock_codec_v4_decrypt_payload_key_def
        unat_len_u16 v4_sizes)
  have aad: "shared_knock_codec_v4_build_aad ?pkt SHARED_KNOCK_CODEC_V4_FORM1_HEADER_SIZE =
      Some (v4_header (length wrapped) nonce (length ct))"
    by (simp add: shared_knock_codec_v4_build_aad_def v4_header_def)
  have dec: "siglatch_openssl_aesgcm_decrypt E cek nonce (v4_header (length wrapped) nonce (length ct)) ct tag =
      Some plaintext"
    using aesgcm_roundtrip(1) [OF E(1,2) g] gl by simp
  have up: "shared_knock_codec_v4_unpack_plaintext plaintext ip client_port ctl zero_unit =
      (True, ctl\<lparr>ct_stream_type := 0\<rparr>, v4_received (normal\<lparr>nu_hmac := hmac\<rparr>) ip client_port)" for ip client_port ctl
    using v4_plaintext_roundtrip [OF pp] v4_body_hmac_length [OF hm h] by simp
  have du: "shared_knock_codec_v4_decrypt_and_unpack_packet E (Some server) ?pkt ip client_port ctl zero_unit =
      (SL_PAYLOAD_OK, ctl\<lparr>ct_stream_type := 0\<rparr>, v4_received (normal\<lparr>nu_hmac := hmac\<rparr>) ip client_port)"
    for ip client_port ctl
    using pl key aad dec up
    by (simp add: shared_knock_codec_v4_decrypt_and_unpack_packet_def unat_len_u32)
  have "shared_knock_codec_v4_decode E (Some server) (Some state) ingress control zero_unit =
      (1, control\<lparr>ct_session_by_client := 1, ct_stream_type := 0\<rparr>,
       v4_delivered normal hmac (in_ip ingress) (in_client_port ingress))"
    unfolding shared_knock_codec_v4_decode_def Let_def ing ds prod.case du v4_delivered_def
    by (simp add: v4_received_fragment)
  with hm show ?thesis by blast
qed

section \<open>Fragments partition the payload\<close>

lemma concat_slices:
  assumes "off 0 = 0" "\<And>i. i < n \<Longrightarrow> off (Suc i) = off i + len i"
  shows "concat (map (\<lambda>i. slice (off i) (len i) xs) [0..<n]) = take (off n) xs"
  using assms(2)
proof (induction n)
  case 0
  then show ?case using assms(1) by simp
next
  case (Suc n)
  then show ?case by (simp add: slice_def take_add)
qed

lemma v4_fragments_concat:
  assumes "0 < n"
  shows "concat (map (\<lambda>i. nu_payload (v4_fragment normal i n)) [0..<n]) = nu_payload normal"
proof -
  let ?p = "nu_payload normal"
  let ?b = "length ?p div n" and ?r = "length ?p mod n"
  let ?off = "\<lambda>i. i * ?b + (if i < ?r then i else ?r)" and ?len = "\<lambda>i. ?b + (if i < ?r then 1 else 0)"
  have frag: "nu_payload (v4_fragment normal i n) = slice (?off i) (?len i) ?p" for i
    by (simp add: v4_fragment_def Let_def)
  have "concat (map (\<lambda>i. slice (?off i) (?len i) ?p) [0..<n]) = take (?off n) ?p"
    by (rule concat_slices) auto
  also have "?off n = length ?p"
    using assms mod_less_divisor [OF assms, of "length ?p"] by (simp add: mult.commute)
  finally show ?thesis unfolding frag by simp
qed

lemma v4_fragment_length:
  assumes "i < n"
  shows "length (nu_payload (v4_fragment normal i n)) =
    length (nu_payload normal) div n + (if i < length (nu_payload normal) mod n then 1 else 0)"
proof -
  let ?l = "length (nu_payload normal)"
  let ?b = "?l div n" and ?r = "?l mod n"
  have "i * ?b + ?b \<le> ?b * n"
    using assms by (metis Suc_leI mult.commute mult_Suc_right mult_le_mono2 add.commute)
  then have "i * ?b + (if i < ?r then i else ?r) + (?b + (if i < ?r then 1 else 0)) \<le> ?b * n + ?r"
    by (simp only: split: if_splits) linarith
  also have "\<dots> = ?l" by simp
  finally have "i * ?b + (if i < ?r then i else ?r) + (?b + (if i < ?r then 1 else 0)) \<le> ?l" .
  then show ?thesis by (simp add: v4_fragment_def Let_def)
qed

lemma v4_count_fragments_enough:
  assumes "shared_knock_codec_v4_count_fragments normal k = n" "n \<noteq> 0"
  shows "length (nu_payload normal) \<le> 512 * n" "0 < k \<Longrightarrow> n = k"
proof -
  let ?l = "length (nu_payload normal)"
  have "?l \<le> 512 * (if ?l div 512 + (if ?l mod 512 \<noteq> 0 then 1 else 0) = 0 then 1
      else ?l div 512 + (if ?l mod 512 \<noteq> 0 then 1 else 0))"
    using div_mult_mod_eq [of ?l 512] mod_less_divisor [of 512 ?l] by (auto simp del: div_mult_mod_eq)
  with assms show "?l \<le> 512 * n" "0 < k \<Longrightarrow> n = k"
    by (auto simp: shared_knock_codec_v4_count_fragments_def v4_sizes Let_def split: if_splits)
qed

lemma v4_fragment_fits:
  assumes "shared_knock_codec_v4_count_fragments normal k = n" "i < n"
  shows "length (nu_payload (v4_fragment normal i n)) \<le> SHARED_KNOCK_CODEC_V4_FORM1_PAYLOAD_MAX"
proof -
  let ?l = "length (nu_payload normal)"
  have le: "?l \<le> 512 * n" using v4_count_fragments_enough [OF assms(1)] assms(2) by simp
  have "?l div n + (if i < ?l mod n then 1 else 0) \<le> 512"
  proof (cases "?l mod n = 0")
    case True
    then show ?thesis using le assms(2) by (simp add: div_le_mono [of ?l "512 * n" n] less_imp_neq order_trans [OF div_le_mono [OF le, of n]])
  next
    case False
    then have "?l \<noteq> 512 * n" by auto
    then have "?l div n < 512" using le assms(2) by (simp add: div_less_iff_less_mult)
    then show ?thesis by simp
  qed
  then show ?thesis using v4_fragment_length [OF assms(2)] by (simp add: v4_sizes)
qed

section \<open>The adapter keeps the contract of the mux\<close>

lemma v4_copy_recv_heap:
  assumes "heap_ok h" "rp_user dst = Some u" "u \<in> live h"
    "shared_knock_codec_v4_copy_recv_packet src dst h = (b, dst', h')"
  shows "heap_ok h' \<and> live h' = live h \<and> rp_user dst' = Some u \<and>
    (b \<longrightarrow> rp_wire_version dst' = nu_wire_version src)"
  using assms store_user_live [OF assms(1,3)]
  by (auto simp: shared_knock_codec_v4_copy_recv_packet_def zero_recv_def split: if_splits)

lemma v4_adapter_decode_heap:
  assumes "heap_ok h" "rp_user out = Some u" "u \<in> live h"
    "shared_knock_codec_v4_adapter_decode E context st ingress control out h = (b, control', out', h')"
  shows "heap_ok h' \<and> live h' = live h \<and> rp_user out' = Some u"
proof -
  obtain rc c1 normal where d: "shared_knock_codec_v4_decode E context st ingress control zero_unit = (rc, c1, normal)"
    by (metis prod_cases3)
  obtain b1 o1 h1 where c: "shared_knock_codec_v4_copy_recv_packet normal out h = (b1, o1, h1)"
    by (metis prod_cases3)
  from v4_copy_recv_heap [OF assms(1-3) c] assms show ?thesis
    by (cases b1) (auto simp: shared_knock_codec_v4_adapter_decode_def d c split: if_splits)
qed

text \<open>A buffer that the codec detects never makes \<open>decode\<close> return the negative code.\<close>

lemma v4_decode_version:
  assumes det: "shared_knock_codec_v4_detect raw idn = (True, idn')" and buf: "in_buffer ingress = in_buffer raw"
    and d: "shared_knock_codec_v4_decode E context st ingress control out = (rc, control', out')" "rc \<noteq> 0"
  shows "rc = 1 \<and> nu_wire_version out' = SHARED_KNOCK_CODEC_V4_WIRE_VERSION"
proof -
  obtain pkt where ds: "shared_knock_codec_v4_deserialize_wire (in_buffer raw) zero_v4_packet = (SL_PAYLOAD_OK, pkt)"
    using det by (auto simp: shared_knock_codec_v4_detect_def split: prod.splits if_splits)
  obtain rc2 c2 o2 where du: "shared_knock_codec_v4_decrypt_and_unpack_packet E context pkt (in_ip ingress)
      (in_client_port ingress) (control\<lparr>ct_session_by_client := 1\<rparr>) out = (rc2, c2, o2)" by (metis prod_cases3)
  note run = d(1) [unfolded shared_knock_codec_v4_decode_def Let_def buf ds prod.case du]
  show ?thesis using run d(2) by (auto split: if_splits)
qed

lemma v4_adapter_decode_version:
  assumes "shared_knock_codec_v4_detect raw idn = (True, idn')" "in_buffer ingress = in_buffer raw"
    and d: "shared_knock_codec_v4_adapter_decode E context st ingress control out h = (True, control', out', h')"
  shows "rp_wire_version out' = SHARED_KNOCK_CODEC_V4_WIRE_VERSION"
proof -
  obtain rc c1 normal where dd: "shared_knock_codec_v4_decode E context st ingress control zero_unit = (rc, c1, normal)"
    by (metis prod_cases3)
  obtain b1 o1 h1 where c: "shared_knock_codec_v4_copy_recv_packet normal out h = (b1, o1, h1)"
    by (metis prod_cases3)
  have rc: "rc \<noteq> 0" and b1: b1 and o: "out' = o1\<lparr>rp_received_ms := in_received_ms ingress\<rparr>"
    using d by (auto simp: shared_knock_codec_v4_adapter_decode_def dd c split: if_splits bool.splits)
  have "nu_wire_version normal = SHARED_KNOCK_CODEC_V4_WIRE_VERSION"
    using v4_decode_version [OF assms(1,2) dd rc] by simp
  moreover have "rp_wire_version o1 = nu_wire_version normal"
    using c b1 by (auto simp: shared_knock_codec_v4_copy_recv_packet_def zero_recv_def split: option.splits if_splits)
  ultimately show ?thesis using o by simp
qed

lemma fill_egress_fits:
  "m7mux_normalize_adapter_fill_egress send payload = Some e \<Longrightarrow>
   length (eg_egress_buffer e) \<le> M7MUX_NORMALIZED_PACKET_BUFFER_SIZE"
  by (auto simp: m7mux_normalize_adapter_fill_egress_def split: if_splits)

interpretation v4_adapter: codec_adapter
  "(shared_knock_codec_v4_adapter E has cx c1 c2)\<lparr>ad_state := st\<rparr>"
  for E has cx c1 c2 st
  by unfold_locales
    (auto simp: shared_knock_codec_v4_adapter_def shared_knock_codec_v4_copy_user_recv_data_def
      shared_knock_codec_v4_adapter_encode_def shared_knock_codec_v4_adapter_encode_fragment_def
      SHARED_KNOCK_CODEC_V4_WIRE_VERSION_def [THEN arg_cong [where f = "\<lambda>w. w = 0"]]
      intro: fill_egress_fits v4_adapter_decode_version
      dest: v4_adapter_decode_heap split: option.splits prod.splits)

section \<open>Replay protection\<close>

text \<open>Asking the codec about a sequence of (timestamp, challenge) pairs, each with the time it came.\<close>

fun v4_accept_all ::
  "SharedKnockCodecContext option \<Rightarrow> SharedKnockCodecState \<Rightarrow> (u32 \<times> u32 \<times> int) list \<Rightarrow> bool list" where
  "v4_accept_all context s [] = []"
| "v4_accept_all context s ((timestamp, challenge, now) # xs) =
     (let (ok, s') = shared_knock_codec_v4_packet_nonce_accept context True now s timestamp challenge
      in ok # v4_accept_all context s' xs)"

definition v4_synced :: "SharedKnockCodecContext option \<Rightarrow> SharedKnockCodecState \<Rightarrow> bool" where
  "v4_synced context s \<longleftrightarrow> cs_nonce_ready s \<and> nc_capacity (cs_nonce s) = NONCE_DEFAULT_CAPACITY \<and>
     nc_nonce_strlen (cs_nonce s) = NONCE_DEFAULT_STRLEN \<and>
     nc_ttl_seconds (cs_nonce s) = shared_knock_codec_v4_nonce_ttl context"

lemma nonce_frame:
  "nc_capacity (snd (lib_nonce_check c n now)) = nc_capacity c"
  "nc_nonce_strlen (snd (lib_nonce_check c n now)) = nc_nonce_strlen c"
  "nc_ttl_seconds (snd (lib_nonce_check c n now)) = nc_ttl_seconds c"
  "nc_capacity (lib_nonce_add c n now) = nc_capacity c"
  "nc_nonce_strlen (lib_nonce_add c n now) = nc_nonce_strlen c"
  "nc_ttl_seconds (lib_nonce_add c n now) = nc_ttl_seconds c"
  by (simp_all add: lib_nonce_check_def lib_nonce_add_def Let_def split: prod.splits)

lemma v4_accept_synced:
  assumes "v4_synced context s"
  shows "shared_knock_codec_v4_packet_nonce_accept context ok now s t c =
    (case lib_nonce_check (cs_nonce s) (nonce_text t c) now of
       (True, cache) \<Rightarrow> (False, s\<lparr>cs_nonce := cache\<rparr>)
     | (False, cache) \<Rightarrow> (True, s\<lparr>cs_nonce := lib_nonce_add cache (nonce_text t c) now\<rparr>))"
  using assms
  by (simp add: shared_knock_codec_v4_packet_nonce_accept_def shared_knock_codec_v4_sync_nonce_cache_def
      v4_synced_def Let_def)

lemma v4_accept_all_run:
  assumes "v4_synced context s"
  shows "v4_accept_all context s xs = replay_run lib_nonce_check lib_nonce_add (cs_nonce s)
    (map (\<lambda>(t, c, now). (nonce_text t c, now)) xs)"
  using assms
proof (induction xs arbitrary: s)
  case Nil
  then show ?case by simp
next
  case (Cons x xs)
  obtain t c now where x: "x = (t, c, now)" by (metis prod_cases3)
  obtain b cache where ch: "lib_nonce_check (cs_nonce s) (nonce_text t c) now = (b, cache)" by fastforce
  have fr: "nc_capacity cache = nc_capacity (cs_nonce s)" "nc_nonce_strlen cache = nc_nonce_strlen (cs_nonce s)"
    "nc_ttl_seconds cache = nc_ttl_seconds (cs_nonce s)"
    using nonce_frame(1-3) [of "cs_nonce s" "nonce_text t c" now] ch by simp_all
  have sy: "v4_synced context (s\<lparr>cs_nonce := cache\<rparr>)"
    "v4_synced context (s\<lparr>cs_nonce := lib_nonce_add cache (nonce_text t c) now\<rparr>)"
    using Cons.prems fr by (simp_all add: v4_synced_def nonce_frame)
  show ?case
    using Cons.IH [OF sy(1)] Cons.IH [OF sy(2)] ch
    by (cases b) (simp_all add: x v4_accept_synced [OF Cons.prems])
qed

lemma v4_create_state_synced:
  assumes "shared_knock_codec_v4_create_state context True True = Some s"
  shows "v4_synced context s" "nonce_rel NONCE_DEFAULT_CAPACITY NONCE_DEFAULT_STRLEN
      (shared_knock_codec_v4_nonce_ttl context) (cs_nonce s) [] now"
proof -
  have ttl: "0 \<le> shared_knock_codec_v4_nonce_ttl context"
    by (simp add: shared_knock_codec_v4_nonce_ttl_def NONCE_DEFAULT_TTL_SECONDS_def Let_def split: option.splits)
  let ?cfg = "\<lparr>nf_capacity = NONCE_DEFAULT_CAPACITY, nf_nonce_strlen = NONCE_DEFAULT_STRLEN,
    nf_ttl_seconds = shared_knock_codec_v4_nonce_ttl context\<rparr>"
  obtain b c where i: "lib_nonce_cache_init True (cs_nonce zero_codec_state) (Some ?cfg) = (b, c)" by fastforce
  have b: b and c: "nc_capacity c = NONCE_DEFAULT_CAPACITY" "nc_nonce_strlen c = NONCE_DEFAULT_STRLEN"
    "nc_ttl_seconds c = shared_knock_codec_v4_nonce_ttl context"
    using i ttl by (auto simp: lib_nonce_cache_init_def NONCE_DEFAULT_CAPACITY_def NONCE_DEFAULT_STRLEN_def)
  have s: "cs_nonce s = c" "cs_nonce_ready s"
    using assms i b
    by (auto simp: shared_knock_codec_v4_create_state_def shared_knock_codec_v4_sync_nonce_cache_def
        zero_codec_state_def split: bool.splits)
  show "v4_synced context s" using s c by (simp add: v4_synced_def)
  show "nonce_rel NONCE_DEFAULT_CAPACITY NONCE_DEFAULT_STRLEN
      (shared_knock_codec_v4_nonce_ttl context) (cs_nonce s) [] now"
    using lib_nonce_cache_init_rel [of "cs_nonce zero_codec_state" "Some ?cfg" c now] i b c s by simp
qed

lemma v4_replay_spec:
  assumes "shared_knock_codec_v4_create_state context True True = Some s" "sorted (map (\<lambda>(t, c, now). now) xs)"
  shows "v4_accept_all context s xs =
    replay_spec NONCE_DEFAULT_CAPACITY (shared_knock_codec_v4_nonce_ttl context) []
      (map (\<lambda>(t, c, now). (nonce_text t c, now)) xs)"
proof -
  let ?ys = "map (\<lambda>(t, c, now). (nonce_text t c, now)) xs"
  let ?t0 = "case xs of [] \<Rightarrow> 0 | (t, c, now) # _ \<Rightarrow> now"
  have eq: "map snd ?ys = map (\<lambda>(t, c, now). now) xs" by (simp add: case_prod_beta')
  have "sorted (?t0 # map snd ?ys)"
    unfolding eq using assms(2) by (cases xs) (auto split: prod.splits)
  moreover have "\<forall>(n, now) \<in> set ?ys. nonce_valid NONCE_DEFAULT_STRLEN n"
    using nonce_text_valid by auto
  ultimately have "replay_run lib_nonce_check lib_nonce_add (cs_nonce s) ?ys =
      replay_spec NONCE_DEFAULT_CAPACITY (shared_knock_codec_v4_nonce_ttl context) [] ?ys"
    by (intro nonce_cache.run_spec [OF v4_create_state_synced(2) [OF assms(1)]])
  with v4_accept_all_run [OF v4_create_state_synced(1) [OF assms(1)]] show ?thesis by simp
qed

end
