(* ===== verification/Stream_Order.thy ===== *)
theory Stream_Order
  imports Stream
begin

text \<open>
  The order of delivery of \<open>m7mux/stream/stream.c\<close>: the trackers seen as a map from session
  and stream ids, and what any sequence of ingests, drains and expiries delivers.
\<close>

section \<open>The trackers as a map\<close>

lemma find_of_find_idx: "List.find P xs = map_option ((!) xs) (find_idx P xs)"
  by (induction xs) (auto simp: option.map_comp o_def)

lemma find_update_first:
  "find_idx P xs = Some i \<Longrightarrow> P x \<Longrightarrow> List.find P (xs[i := x]) = Some x"
  by (induction xs arbitrary: i) (auto split: nat.splits if_splits)

lemma find_update_other:
  "\<not> P (xs ! i) \<Longrightarrow> \<not> P x \<Longrightarrow> List.find P (xs[i := x]) = List.find P xs"
  by (induction xs arbitrary: i) (auto split: nat.splits)

lemma find_update_claim:
  "find_idx P xs = None \<Longrightarrow> i < length xs \<Longrightarrow> P x \<Longrightarrow> find_idx P (xs[i := x]) = Some i"
  by (induction xs arbitrary: i) (auto split: nat.splits if_splits)

lemma find_idx_update_first:
  "find_idx P xs = Some i \<Longrightarrow> P x \<Longrightarrow> find_idx P (xs[i := x]) = Some i"
  by (induction xs arbitrary: i) (auto split: nat.splits if_splits)

abbreviation session_key :: "u64 \<Rightarrow> M7MuxStreamSessionTracker \<Rightarrow> bool" where
  "session_key s t \<equiv> tr_active t \<and> tr_session_id t = s"

abbreviation message_key :: "u32 \<Rightarrow> M7MuxStreamMessageTracker \<Rightarrow> bool" where
  "message_key t m \<equiv> mt_active m \<and> mt_stream_id m = t"

definition session_lookup :: "M7MuxStreamState \<Rightarrow> u64 \<Rightarrow> M7MuxStreamSessionTracker option" where
  "session_lookup st s = (if s = 0 then None else List.find (session_key s) (sm_session_trackers st))"

definition message_lookup :: "M7MuxStreamSessionTracker \<Rightarrow> u32 \<Rightarrow> M7MuxStreamMessageTracker option" where
  "message_lookup tr t = (if t = 0 then None else List.find (message_key t) (tr_stream_trackers tr))"

definition stream_tracker :: "M7MuxStreamState \<Rightarrow> u64 \<Rightarrow> u32 \<Rightarrow> M7MuxStreamMessageTracker option" where
  "stream_tracker st s t = (case session_lookup st s of None \<Rightarrow> None | Some tr \<Rightarrow> message_lookup tr t)"

definition fresh_message_tracker :: "u32 \<Rightarrow> M7MuxStreamMessageTracker" where
  "fresh_message_tracker t =
     zero_message_tracker\<lparr>mt_active := True, mt_stream_id := t, mt_next_message_id := 1\<rparr>"

lemma find_session_False:
  "fst (m7mux_stream_find_session_tracker st s False) =
    (if s = 0 then None else find_idx (session_key s) (sm_session_trackers st))"
  by (simp add: m7mux_stream_find_session_tracker_def split: option.splits)

lemma find_message_False:
  "fst (m7mux_stream_find_message_tracker tr t False) =
    (if t = 0 then None else find_idx (message_key t) (tr_stream_trackers tr))"
  by (simp add: m7mux_stream_find_message_tracker_def split: option.splits)

lemma session_lookup_idx:
  "session_lookup st s = map_option ((!) (sm_session_trackers st))
     (fst (m7mux_stream_find_session_tracker st s False))"
  by (simp add: session_lookup_def find_session_False find_of_find_idx)

lemma message_lookup_idx:
  "message_lookup tr t = map_option ((!) (tr_stream_trackers tr))
     (fst (m7mux_stream_find_message_tracker tr t False))"
  by (simp add: message_lookup_def find_message_False find_of_find_idx)

text \<open>Storing back the tracker that a lookup found.\<close>

lemma session_lookup_set:
  assumes f: "find_idx (session_key s0) (sm_session_trackers st) = Some i" "s0 \<noteq> 0"
    and tr: "session_key s0 tr"
  shows "session_lookup (set_session_tracker i tr st) s = (if s = s0 then Some tr else session_lookup st s)"
proof (cases "s = s0")
  case True
  then show ?thesis
    using find_update_first [OF f(1), of tr] tr f(2) by (simp add: session_lookup_def set_session_tracker_def)
next
  case False
  then show ?thesis
    using find_update_other [of "session_key s" "sm_session_trackers st" i tr] tr find_idx_SomeD(2) [OF f(1)]
    by (auto simp: session_lookup_def set_session_tracker_def)
qed

lemma message_lookup_set:
  assumes f: "find_idx (message_key t0) (tr_stream_trackers tr) = Some i" "t0 \<noteq> 0"
    and m: "message_key t0 m"
  shows "message_lookup (set_message_tracker i m tr) t = (if t = t0 then Some m else message_lookup tr t)"
proof (cases "t = t0")
  case True
  then show ?thesis
    using find_update_first [OF f(1), of m] m f(2) by (simp add: message_lookup_def set_message_tracker_def)
next
  case False
  then show ?thesis
    using find_update_other [of "message_key t" "tr_stream_trackers tr" i m] m find_idx_SomeD(2) [OF f(1)]
    by (auto simp: message_lookup_def set_message_tracker_def)
qed

text \<open>Looking a tracker up with \<open>create\<close> set.\<close>

lemma find_session_create:
  assumes "m7mux_stream_find_session_tracker st s0 True = (Some i, st1)"
  shows "find_idx (session_key s0) (sm_session_trackers st1) = Some i \<and> s0 \<noteq> 0 \<and>
    session_key s0 (sm_session_trackers st1 ! i) \<and> stream_tracker st1 s t = stream_tracker st s t"
proof (cases "find_idx (session_key s0) (sm_session_trackers st)")
  case (Some j)
  then show ?thesis
    using assms find_idx_SomeD(2) [OF Some]
    by (auto simp: m7mux_stream_find_session_tracker_def split: if_splits)
next
  case None
  let ?tr = "zero_session_tracker\<lparr>tr_active := True, tr_session_id := s0, tr_next_stream_id := 1\<rparr>"
  have nz: "s0 \<noteq> 0" using assms by (auto simp: m7mux_stream_find_session_tracker_def)
  have f: "find_idx (\<lambda>t. \<not> tr_active t) (sm_session_trackers st) = Some i"
    and st1: "sm_session_trackers st1 = (sm_session_trackers st)[i := ?tr]"
    using assms nz None
    by (auto simp: m7mux_stream_find_session_tracker_def split: option.splits)
  note i = find_idx_SomeD(1,2) [OF f]
  have new: "find_idx (session_key s0) (sm_session_trackers st1) = Some i"
    unfolding st1 by (rule find_update_claim [OF None i(1)]) simp
  have key: "session_key s0 (sm_session_trackers st1 ! i)"
    using find_idx_SomeD(2) [OF new] .
  have "message_lookup ?tr t = None"
    by (auto simp: message_lookup_def zero_session_tracker_def zero_message_tracker_def find_None_iff)
  then have "stream_tracker st1 s t = stream_tracker st s t"
  proof (cases "s = s0")
    case True
    then show ?thesis
      using \<open>message_lookup ?tr t = None\<close> None new i st1 nz
      by (simp add: stream_tracker_def session_lookup_idx find_session_False)
  next
    case False
    have "List.find (session_key s) (sm_session_trackers st1) = List.find (session_key s) (sm_session_trackers st)"
      unfolding st1 by (rule find_update_other) (use i False in auto)
    then show ?thesis by (simp add: stream_tracker_def session_lookup_def)
  qed
  with new key nz show ?thesis by blast
qed

lemma find_message_create:
  assumes "m7mux_stream_find_message_tracker tr t0 True = (Some i, tr1)"
  shows "find_idx (message_key t0) (tr_stream_trackers tr1) = Some i \<and> t0 \<noteq> 0 \<and>
    message_key t0 (tr_stream_trackers tr1 ! i) \<and>
    tr_active tr1 = tr_active tr \<and> tr_session_id tr1 = tr_session_id tr \<and>
    tr_stream_trackers tr1 ! i =
      (case message_lookup tr t0 of Some m \<Rightarrow> m | None \<Rightarrow> fresh_message_tracker t0) \<and>
    (t \<noteq> t0 \<longrightarrow> message_lookup tr1 t = message_lookup tr t)"
proof (cases "find_idx (message_key t0) (tr_stream_trackers tr)")
  case (Some j)
  then show ?thesis
    using assms find_idx_SomeD(2) [OF Some]
    by (auto simp: m7mux_stream_find_message_tracker_def message_lookup_idx find_message_False split: if_splits)
next
  case None
  have nz: "t0 \<noteq> 0" using assms by (auto simp: m7mux_stream_find_message_tracker_def)
  have f: "find_idx (\<lambda>t. \<not> mt_active t) (tr_stream_trackers tr) = Some i"
    and tr1: "tr1 = tr\<lparr>tr_stream_trackers := (tr_stream_trackers tr)[i := fresh_message_tracker t0]\<rparr>"
    using assms nz None
    by (auto simp: m7mux_stream_find_message_tracker_def fresh_message_tracker_def split: option.splits)
  note i = find_idx_SomeD(1,2) [OF f]
  have P: "message_key t0 (fresh_message_tracker t0)" by (simp add: fresh_message_tracker_def)
  have new: "find_idx (message_key t0) (tr_stream_trackers tr1) = Some i"
    using find_update_claim [OF None i(1) P] by (simp add: tr1)
  have "message_lookup tr1 t = message_lookup tr t" if "t \<noteq> t0"
    using find_update_other [of "message_key t" "tr_stream_trackers tr" i "fresh_message_tracker t0"] i that P
    by (auto simp: message_lookup_def tr1)
  with new nz P i None show ?thesis
    by (simp add: tr1 message_lookup_idx find_message_False)
qed

section \<open>What an ingest and a drain do to the map\<close>

lemma assign_stream_id_frame [simp]:
  "tr_active (snd (stream_assign_stream_id tr p)) = tr_active tr"
  "tr_session_id (snd (stream_assign_stream_id tr p)) = tr_session_id tr"
  "tr_stream_trackers (snd (stream_assign_stream_id tr p)) = tr_stream_trackers tr"
  "rp_fragment_index (fst (stream_assign_stream_id tr p)) = rp_fragment_index p"
  "rp_fragment_count (fst (stream_assign_stream_id tr p)) = rp_fragment_count p"
  "rp_message_id (fst (stream_assign_stream_id tr p)) = rp_message_id p"
  "rp_stream_id p \<noteq> 0 \<Longrightarrow> fst (stream_assign_stream_id tr p) = p"
  by (simp_all add: stream_assign_stream_id_def Let_def)

lemma assign_message_id_frame [simp]:
  "mt_active (snd (stream_assign_message_id m p)) = mt_active m"
  "mt_stream_id (snd (stream_assign_message_id m p)) = mt_stream_id m"
  "mt_message_id (snd (stream_assign_message_id m p)) = mt_message_id m"
  "mt_next_fragment_index (snd (stream_assign_message_id m p)) = mt_next_fragment_index m"
  "mt_fragment_count (snd (stream_assign_message_id m p)) = mt_fragment_count m"
  "rp_fragment_index (fst (stream_assign_message_id m p)) = rp_fragment_index p"
  "rp_fragment_count (fst (stream_assign_message_id m p)) = rp_fragment_count p"
  "rp_stream_id (fst (stream_assign_message_id m p)) = rp_stream_id p"
  "rp_message_id p \<noteq> 0 \<Longrightarrow> fst (stream_assign_message_id m p) = p"
  by (simp_all add: stream_assign_message_id_def Let_def)

lemma begin_frame:
  assumes "m7mux_stream_message_tracker_begin m p = (b, m')"
  shows "mt_active m' = mt_active m" "mt_stream_id m' = mt_stream_id m" "\<not> b \<Longrightarrow> m' = m"
  using assms by (auto simp: m7mux_stream_message_tracker_begin_def Let_def split: if_splits)

definition tracker_or_fresh :: "M7MuxStreamState \<Rightarrow> u64 \<Rightarrow> u32 \<Rightarrow> M7MuxStreamMessageTracker" where
  "tracker_or_fresh st s t =
     (case stream_tracker st s t of Some m \<Rightarrow> m | None \<Rightarrow> fresh_message_tracker t)"

definition same_payload :: "M7MuxRecvPacket \<Rightarrow> M7MuxRecvPacket \<Rightarrow> bool" where
  "same_payload p q \<longleftrightarrow> rp_session_id p = rp_session_id q \<and> rp_fragment_index p = rp_fragment_index q \<and>
     rp_fragment_count p = rp_fragment_count q \<and> rp_user p = rp_user q \<and>
     (rp_stream_id q \<noteq> 0 \<longrightarrow> rp_stream_id p = rp_stream_id q) \<and>
     (rp_stream_id q \<noteq> 0 \<longrightarrow> rp_message_id q \<noteq> 0 \<longrightarrow> p = q)"

text \<open>There is, or can be made, a tracker for the stream.\<close>

definition can_track :: "M7MuxStreamState \<Rightarrow> u64 \<Rightarrow> u32 \<Rightarrow> bool" where
  "can_track st s t \<longleftrightarrow> s \<noteq> 0 \<and> t \<noteq> 0 \<and>
     (case session_lookup st s of
        Some tr \<Rightarrow> message_lookup tr t \<noteq> None \<or> (\<exists>m \<in> set (tr_stream_trackers tr). \<not> mt_active m)
      | None \<Rightarrow> (\<exists>tr \<in> set (sm_session_trackers st). \<not> tr_active tr))"

lemma find_session_None:
  assumes "m7mux_stream_find_session_tracker st s True = (None, st1)"
  shows "\<not> can_track st s t"
proof (cases "s = 0")
  case False
  then have "find_idx (session_key s) (sm_session_trackers st) = None"
    "find_idx (\<lambda>t. \<not> tr_active t) (sm_session_trackers st) = None"
    using assms by (auto simp: m7mux_stream_find_session_tracker_def split: option.splits)
  then have "session_lookup st s = None" "\<forall>tr \<in> set (sm_session_trackers st). tr_active tr"
    by (simp_all add: session_lookup_idx find_session_False find_idx_None)
  then show ?thesis by (simp add: can_track_def)
qed (simp add: can_track_def)

lemma find_message_None:
  assumes f1: "m7mux_stream_find_session_tracker st s True = (Some si, st1)"
    and f2: "m7mux_stream_find_message_tracker tr t True = (None, tr2)" "t \<noteq> 0"
    and tr: "tr_stream_trackers tr = tr_stream_trackers (sm_session_trackers st1 ! si)"
  shows "\<not> can_track st s t"
proof -
  let ?tr = "sm_session_trackers st1 ! si"
  have none: "message_lookup tr t = None" "\<forall>m \<in> set (tr_stream_trackers tr). mt_active m"
    using f2 by (auto simp: m7mux_stream_find_message_tracker_def message_lookup_idx find_message_False
        find_idx_None split: if_splits option.splits)
  show ?thesis
  proof (cases "find_idx (session_key s) (sm_session_trackers st)")
    case (Some j)
    then have "st1 = st" "session_lookup st s = Some ?tr"
      using f1 by (auto simp: m7mux_stream_find_session_tracker_def session_lookup_idx find_session_False
          split: if_splits)
    moreover have "message_lookup tr t = message_lookup ?tr t" using tr by (simp add: message_lookup_def)
    ultimately show ?thesis using none tr by (simp add: can_track_def)
  next
    case None
    then have "tr_stream_trackers ?tr = replicate M7MUX_STREAM_TRACKER_CAPACITY zero_message_tracker"
      using f1 by (auto simp: m7mux_stream_find_session_tracker_def zero_session_tracker_def
          split: if_splits option.splits dest: find_idx_SomeD)
    then have "zero_message_tracker \<in> set (tr_stream_trackers tr)"
      using tr by (simp add: M7MUX_STREAM_TRACKER_CAPACITY_def)
    with none(2) show ?thesis by (auto simp: zero_message_tracker_def)
  qed
qed

lemma stream_ingest_tracker:
  assumes ing: "m7mux_stream_ingest reg st normal h = (b, st', h')"
  obtains (untracked) "\<not> b" "\<And>s t. stream_tracker st' s t = stream_tracker st s t"
      "sm_ready_queue st' = sm_ready_queue st"
      "rp_stream_id normal \<noteq> 0 \<longrightarrow> \<not> can_track st (rp_session_id normal) (rp_stream_id normal)"
  | (tracked) p2 m0 m1 begun m2 st2 where "same_payload p2 normal"
      "m0 = tracker_or_fresh st (rp_session_id normal) (rp_stream_id p2)"
      "mt_message_id m1 = mt_message_id m0" "mt_next_fragment_index m1 = mt_next_fragment_index m0"
      "mt_fragment_count m1 = mt_fragment_count m0"
      "m7mux_stream_message_tracker_begin m1 p2 = (begun, m2)"
      "\<And>s t. stream_tracker st2 s t = (if s = rp_session_id normal \<and> t = rp_stream_id p2 then Some m2
         else stream_tracker st s t)"
      "sm_ready_queue st2 = sm_ready_queue st" "rp_session_id normal \<noteq> 0"
      "if begun then stream_queue_packet reg st2 p2 h = (b, st', h') else \<not> b \<and> st' = st2"
proof (cases "rp_session_id normal = 0")
  case True
  with ing show ?thesis by (intro untracked) (auto simp: m7mux_stream_ingest_def can_track_def)
next
  case nz: False
  let ?s0 = "rp_session_id normal"
  obtain r1 st1 where f1: "m7mux_stream_find_session_tracker st ?s0 True = (r1, st1)" by fastforce
  note fr1 = find_session_tracker_frame [OF f1]
  show ?thesis
  proof (cases r1)
    case None
    then have "st1 = st"
      using f1 by (auto simp: m7mux_stream_find_session_tracker_def split: if_splits option.splits)
    with ing nz f1 None find_session_None [of st ?s0 st1] show ?thesis
      by (intro untracked) (auto simp: m7mux_stream_ingest_def)
  next
    case (Some si)
    note s1 = find_session_create [OF f1 [unfolded Some]]
    obtain p1 tr1 where a1: "stream_assign_stream_id (sm_session_trackers st1 ! si) normal = (p1, tr1)"
      by fastforce
    have tr1: "tr_active tr1" "tr_session_id tr1 = ?s0"
      "tr_stream_trackers tr1 = tr_stream_trackers (sm_session_trackers st1 ! si)"
      using assign_stream_id_frame(1-3) [of "sm_session_trackers st1 ! si" normal] a1 s1 by simp_all
    have look1: "message_lookup tr1 t = stream_tracker st ?s0 t" for t
    proof -
      have "session_lookup st1 ?s0 = Some (sm_session_trackers st1 ! si)"
        using s1 nz by (simp add: session_lookup_idx find_session_False)
      then have "stream_tracker st1 ?s0 t = message_lookup (sm_session_trackers st1 ! si) t"
        by (simp add: stream_tracker_def)
      also have "\<dots> = message_lookup tr1 t" by (simp add: message_lookup_def tr1)
      finally show ?thesis using s1 [where s = ?s0 and t = t] by simp
    qed
    have others: "session_lookup (set_session_tracker si tr st1) s =
        (if s = ?s0 then Some tr else session_lookup st1 s)" if "session_key ?s0 tr" for s tr
      by (rule session_lookup_set) (use s1 nz that in auto)
    obtain r2 tr2 where f2: "m7mux_stream_find_message_tracker tr1 (rp_stream_id p1) True = (r2, tr2)"
      by fastforce
    show ?thesis
    proof (cases r2)
      case None
      then have "tr2 = tr1"
        using f2 by (auto simp: m7mux_stream_find_message_tracker_def split: if_splits option.splits)
      moreover have "stream_tracker (set_session_tracker si tr1 st1) s t = stream_tracker st s t" for s t
        using others [of tr1 s] tr1 look1 s1 [where s = s and t = t]
        by (cases "s = ?s0") (simp_all add: stream_tracker_def)
      moreover have "\<not> can_track st ?s0 (rp_stream_id normal)" if nz2: "rp_stream_id normal \<noteq> 0"
      proof (rule find_message_None [OF f1 [unfolded Some] _ nz2 tr1(3)])
        have "rp_stream_id p1 = rp_stream_id normal"
          using assign_stream_id_frame(7) [OF nz2, of "sm_session_trackers st1 ! si"] a1 by simp
        then show "m7mux_stream_find_message_tracker tr1 (rp_stream_id normal) True = (None, tr2)"
          using f2 None by simp
      qed
      ultimately show ?thesis
        using ing nz f1 fr1 Some a1 f2 None
        by (intro untracked) (auto simp: m7mux_stream_ingest_def)
    next
      case some2: (Some mi)
      note m = find_message_create [OF f2 [unfolded some2]]
      let ?t0 = "rp_stream_id p1"
      obtain p2 m1 where a2: "stream_assign_message_id (tr_stream_trackers tr2 ! mi) p1 = (p2, m1)"
        by fastforce
      obtain begun m2 where bg: "m7mux_stream_message_tracker_begin m1 p2 = (begun, m2)" by fastforce
      define m0 where "m0 = tr_stream_trackers tr2 ! mi"
      have a2': "stream_assign_message_id m0 p1 = (p2, m1)" using a2 by (simp only: m0_def)
      have mm: "message_key (rp_stream_id p1) m0" unfolding m0_def using m by blast
      have m0: "m0 = tracker_or_fresh st ?s0 ?t0"
        using m look1 by (simp add: m0_def tracker_or_fresh_def)
      have k1: "mt_active m1" "mt_stream_id m1 = ?t0" "mt_message_id m1 = mt_message_id m0"
        "mt_next_fragment_index m1 = mt_next_fragment_index m0" "mt_fragment_count m1 = mt_fragment_count m0"
        using assign_message_id_frame(1-5) [of m0 p1] a2' mm by simp_all
      have key2: "message_key ?t0 m2" using begin_frame [OF bg] k1 by simp
      let ?st2 = "set_session_tracker si (set_message_tracker mi m2 tr2) st1"
      have p2: "same_payload p2 normal" "rp_stream_id p2 = ?t0" "rp_session_id p2 = ?s0"
        using a1 a2' assign_stream_id_frame(4-) [where tr = "sm_session_trackers st1 ! si" and p = normal]
          assign_message_id_frame(6-) [where m = m0 and p = p1]
          assign_ids_frame(1-3) [where tr = "sm_session_trackers st1 ! si" and p = normal]
          assign_ids_frame(4-6) [where t = m0 and p = p1]
        by (auto simp: same_payload_def)
      have key3: "session_key ?s0 (set_message_tracker mi m2 tr2)"
        using m tr1 by (simp add: set_message_tracker_def)
      have look2: "stream_tracker ?st2 s t =
          (if s = ?s0 \<and> t = rp_stream_id p2 then Some m2 else stream_tracker st s t)" for s t
      proof (cases "s = ?s0")
        case True
        from True key3 others have "stream_tracker ?st2 s t = message_lookup (set_message_tracker mi m2 tr2) t"
          by (simp add: stream_tracker_def)
        also have "\<dots> = (if t = ?t0 then Some m2 else message_lookup tr2 t)"
          by (rule message_lookup_set) (use m key2 in auto)
        also have "\<dots> = (if t = ?t0 then Some m2 else stream_tracker st ?s0 t)"
          using find_message_create [OF f2 [unfolded some2], of t] look1 by simp
        finally show ?thesis using True p2 by simp
      next
        case False
        then show ?thesis
          using others [OF key3] s1 [where s = s and t = t] by (simp add: stream_tracker_def)
      qed
      show ?thesis
        by (rule tracked [OF p2(1) _ k1(3-5) bg look2])
          (use ing nz f1 fr1 Some a1 f2 some2 a2 bg m0 p2 in
            \<open>auto simp: m7mux_stream_ingest_def split: if_splits\<close>)
    qed
  qed
qed

lemma stream_queue_packet_tracker:
  "stream_queue_packet reg st p h = (b, st', h') \<Longrightarrow> sm_session_trackers st' = sm_session_trackers st"
  by (auto simp: stream_queue_packet_def Let_def split: option.splits if_splits)

lemma stream_tracker_cong:
  "sm_session_trackers st' = sm_session_trackers st \<Longrightarrow> stream_tracker st' s t = stream_tracker st s t"
  by (simp add: stream_tracker_def session_lookup_def)

lemma advance_frame:
  "mt_active (message_tracker_advance m) = mt_active m"
  "mt_stream_id (message_tracker_advance m) = mt_stream_id m"
  by (simp_all add: message_tracker_advance_def Let_def)

lemma stream_advance_tracker_lookup:
  "stream_tracker (stream_advance_tracker st slot) s t =
    (if s = rp_session_id slot \<and> t = rp_stream_id slot \<and> rp_fragment_count slot > 1
     then map_option (\<lambda>m. if mt_message_id m = rp_message_id slot then message_tracker_advance m else m)
            (stream_tracker st s t)
     else stream_tracker st s t)"
proof (cases "rp_fragment_count slot > 1")
  case False
  then show ?thesis by (simp add: stream_advance_tracker_def)
next
  case multi: True
  let ?s0 = "rp_session_id slot" and ?t0 = "rp_stream_id slot"
  show ?thesis
  proof (cases "?s0 = 0 \<or> find_idx (session_key ?s0) (sm_session_trackers st) = None")
    case True
    then have "stream_advance_tracker st slot = st" "session_lookup st ?s0 = None"
      by (auto simp: stream_advance_tracker_def session_lookup_idx find_session_False)
    then show ?thesis by (simp add: stream_tracker_def)
  next
    case False
    then obtain si where si: "find_idx (session_key ?s0) (sm_session_trackers st) = Some si" "?s0 \<noteq> 0"
      by auto
    let ?tr = "sm_session_trackers st ! si"
    have ks: "session_key ?s0 ?tr" using find_idx_SomeD(2) [OF si(1)] .
    have ls: "session_lookup st ?s0 = Some ?tr" using si by (simp add: session_lookup_idx find_session_False)
    show ?thesis
    proof (cases "?t0 = 0 \<or> find_idx (message_key ?t0) (tr_stream_trackers ?tr) = None")
      case True
      then have "stream_advance_tracker st slot = st" "message_lookup ?tr ?t0 = None"
        using si by (auto simp: stream_advance_tracker_def find_session_False find_message_False
            message_lookup_idx Let_def)
      then show ?thesis using ls by (simp add: stream_tracker_def)
    next
      case False
      then obtain mi where mi: "find_idx (message_key ?t0) (tr_stream_trackers ?tr) = Some mi" "?t0 \<noteq> 0"
        by auto
      let ?m = "tr_stream_trackers ?tr ! mi"
      have km: "message_key ?t0 ?m" using find_idx_SomeD(2) [OF mi(1)] .
      have lm: "message_lookup ?tr ?t0 = Some ?m" using mi by (simp add: message_lookup_idx find_message_False)
      have adv: "stream_advance_tracker st slot =
          (if mt_message_id ?m = rp_message_id slot
           then set_session_tracker si (set_message_tracker mi (message_tracker_advance ?m) ?tr) st else st)"
        using multi si mi by (simp add: stream_advance_tracker_def find_session_False find_message_False Let_def)
      have set1: "session_lookup (set_session_tracker si (set_message_tracker mi (message_tracker_advance ?m) ?tr) st) s =
          (if s = ?s0 then Some (set_message_tracker mi (message_tracker_advance ?m) ?tr) else session_lookup st s)"
        by (rule session_lookup_set [OF si]) (use ks in \<open>simp add: set_message_tracker_def\<close>)
      have set2: "message_lookup (set_message_tracker mi (message_tracker_advance ?m) ?tr) t =
          (if t = ?t0 then Some (message_tracker_advance ?m) else message_lookup ?tr t)"
        by (rule message_lookup_set [OF mi]) (use km in \<open>simp add: advance_frame\<close>)
      show ?thesis
        using multi ls lm set1 set2 by (auto simp: adv stream_tracker_def)
    qed
  qed
qed

lemma deliverable_fragment:
  assumes "m7mux_stream_packet_is_deliverable st p" "rp_fragment_count p > 1"
  shows "\<exists>m. stream_tracker st (rp_session_id p) (rp_stream_id p) = Some m \<and> mt_message_id m \<noteq> 0 \<and>
    mt_message_id m = rp_message_id p \<and> rp_fragment_index p = mt_next_fragment_index m"
proof -
  have "rp_fragment_count p \<noteq> 0" "rp_fragment_count p \<noteq> 1" using assms(2) by auto
  with assms(1) show ?thesis
    by (auto simp: m7mux_stream_packet_is_deliverable_def stream_tracker_def session_lookup_idx
        message_lookup_idx Let_def split: if_splits option.splits)
qed

lemma stream_tracker_Some:
  assumes "stream_tracker st s t = Some m"
  obtains si mi where "s \<noteq> 0" "t \<noteq> 0"
    "fst (m7mux_stream_find_session_tracker st s False) = Some si"
    "fst (m7mux_stream_find_message_tracker (sm_session_trackers st ! si) t False) = Some mi"
    "tr_stream_trackers (sm_session_trackers st ! si) ! mi = m"
proof -
  obtain tr where tr: "session_lookup st s = Some tr" "message_lookup tr t = Some m"
    using assms by (auto simp: stream_tracker_def split: option.splits)
  have nz: "s \<noteq> 0" "t \<noteq> 0" using tr by (auto simp: session_lookup_def message_lookup_def)
  obtain si where si: "fst (m7mux_stream_find_session_tracker st s False) = Some si"
    "tr = sm_session_trackers st ! si"
    using tr(1) by (auto simp: session_lookup_idx)
  obtain mi where "fst (m7mux_stream_find_message_tracker tr t False) = Some mi"
    "tr_stream_trackers tr ! mi = m"
    using tr(2) by (auto simp: message_lookup_idx)
  with nz si show ?thesis by (intro that [of si mi]) simp_all
qed

lemma fragment_deliverable:
  assumes "stream_tracker st (rp_session_id p) (rp_stream_id p) = Some m" "mt_message_id m \<noteq> 0"
    "mt_message_id m = rp_message_id p" "rp_fragment_index p = mt_next_fragment_index m"
    "rp_fragment_count p > 1"
  shows "m7mux_stream_packet_is_deliverable st p"
proof -
  have "rp_fragment_count p \<noteq> 0" "rp_fragment_count p \<noteq> 1" using assms(5) by auto
  then show ?thesis
    by (rule_tac stream_tracker_Some [OF assms(1)])
      (use assms(2-4) in \<open>simp add: m7mux_stream_packet_is_deliverable_def\<close>)
qed

lemma stream_drain_result:
  assumes "m7mux_stream_drain reg has_user st h = (r, st', h')"
  shows "case r of None \<Rightarrow> st' = st
    | Some (p, d) \<Rightarrow> (\<exists>i < length (sm_ready_queue st). \<exists>slot. slot = sm_ready_queue st ! i \<and>
        rp_session_id slot \<noteq> 0 \<and> m7mux_stream_packet_is_deliverable st slot \<and>
        p = slot\<lparr>rp_user := None\<rparr> \<and> st' = stream_clear_slot i (stream_advance_tracker st slot))"
proof (cases "find_idx (\<lambda>q. rp_session_id q \<noteq> 0 \<and> m7mux_stream_packet_is_deliverable st q) (sm_ready_queue st)")
  case None
  then show ?thesis using assms by (auto simp: m7mux_stream_drain_def)
next
  case (Some i)
  note i = find_idx_SomeD(1,2) [OF Some]
  let ?slot = "sm_ready_queue st ! i"
  have "?slot = ?slot\<lparr>rp_user := None\<rparr>" if "rp_user ?slot = None" using that by simp
  moreover have "r = None \<and> st' = st \<or>
      (\<exists>d. r = Some (?slot\<lparr>rp_user := None\<rparr>, d)) \<and> st' = stream_clear_slot i (stream_advance_tracker st ?slot)"
    using assms Some calculation
    by (auto simp: m7mux_stream_drain_def Let_def split: option.splits if_splits prod.splits)
  ultimately show ?thesis using i by auto
qed

section \<open>Runs and the order of what they deliver\<close>

datatype stream_op = Op_Ingest M7MuxRecvPacket | Op_Drain bool | Op_Expire u64

fun stream_step ::
  "'cs registry \<Rightarrow> stream_op \<Rightarrow> M7MuxStreamState \<Rightarrow> user_heap \<Rightarrow>
   M7MuxRecvPacket list \<times> M7MuxStreamState \<times> user_heap" where
  "stream_step reg (Op_Ingest p) st h = ([], snd (m7mux_stream_ingest reg st p h))"
| "stream_step reg (Op_Drain has_user) st h =
     (case m7mux_stream_drain reg has_user st h of
        (None, rest) \<Rightarrow> ([], rest)
      | (Some (p, d), rest) \<Rightarrow> ([p], rest))"
| "stream_step reg (Op_Expire now_ms) st h = ([], snd (m7mux_stream_expire reg st now_ms h))"

fun stream_run ::
  "'cs registry \<Rightarrow> stream_op list \<Rightarrow> M7MuxStreamState \<Rightarrow> user_heap \<Rightarrow>
   M7MuxRecvPacket list \<times> M7MuxStreamState \<times> user_heap" where
  "stream_run reg [] st h = ([], st, h)"
| "stream_run reg (op # ops) st h =
     (let (out, st1, h1) = stream_step reg op st h;
          (outs, st2, h2) = stream_run reg ops st1 h1
      in (out @ outs, st2, h2))"

text \<open>The fragments of one stream, and the order that a receiver can rely on.\<close>

definition fragments_of :: "u64 \<Rightarrow> u32 \<Rightarrow> M7MuxRecvPacket list \<Rightarrow> M7MuxRecvPacket list" where
  "fragments_of s t ps =
     filter (\<lambda>p. rp_session_id p = s \<and> rp_stream_id p = t \<and> rp_fragment_count p > 1) ps"

definition follows :: "M7MuxRecvPacket option \<Rightarrow> M7MuxRecvPacket \<Rightarrow> bool" where
  "follows prev p \<longleftrightarrow> rp_fragment_index p = 0 \<or>
     (case prev of None \<Rightarrow> False
      | Some q \<Rightarrow> rp_message_id q = rp_message_id p \<and> rp_fragment_index p = rp_fragment_index q + 1)"

fun in_order_from :: "M7MuxRecvPacket option \<Rightarrow> M7MuxRecvPacket list \<Rightarrow> bool" where
  "in_order_from prev [] \<longleftrightarrow> True"
| "in_order_from prev (p # ps) \<longleftrightarrow> follows prev p \<and> in_order_from (Some p) ps"

definition last_of :: "M7MuxRecvPacket option \<Rightarrow> M7MuxRecvPacket list \<Rightarrow> M7MuxRecvPacket option" where
  "last_of prev ps = (if ps = [] then prev else Some (last ps))"

lemma in_order_from_append:
  "in_order_from prev (ps @ qs) \<longleftrightarrow> in_order_from prev ps \<and> in_order_from (last_of prev ps) qs"
  by (induction ps arbitrary: prev) (auto simp: last_of_def)

lemma last_of_append: "last_of prev (ps @ qs) = last_of (last_of prev ps) qs"
  by (simp add: last_of_def)

definition tracker_ok :: "M7MuxStreamMessageTracker \<Rightarrow> bool" where
  "tracker_ok m \<longleftrightarrow>
     mt_message_id m = 0 \<and> mt_next_fragment_index m = 0 \<or>
     mt_message_id m \<noteq> 0 \<and> mt_next_fragment_index m < mt_fragment_count m"

text \<open>What a tracker knows about the fragment that was delivered last on its stream.\<close>

definition knows_last :: "M7MuxStreamMessageTracker \<Rightarrow> M7MuxRecvPacket option \<Rightarrow> bool" where
  "knows_last m prev \<longleftrightarrow> tracker_ok m \<and>
     (mt_next_fragment_index m \<noteq> 0 \<longrightarrow>
       (case prev of None \<Rightarrow> False
        | Some q \<Rightarrow> rp_message_id q = mt_message_id m \<and>
            mt_next_fragment_index m = rp_fragment_index q + 1))"

definition order_inv :: "M7MuxStreamState \<Rightarrow> (u64 \<Rightarrow> u32 \<Rightarrow> M7MuxRecvPacket option) \<Rightarrow> bool" where
  "order_inv st prev \<longleftrightarrow>
     (\<forall>s t m. stream_tracker st s t = Some m \<longrightarrow> knows_last m (prev s t))"

lemma knows_last_begin:
  assumes "knows_last m0 prev" "mt_message_id m1 = mt_message_id m0"
    "mt_next_fragment_index m1 = mt_next_fragment_index m0" "mt_fragment_count m1 = mt_fragment_count m0"
    "m7mux_stream_message_tracker_begin m1 p = (b, m2)"
  shows "knows_last m2 prev"
proof -
  have "m2 = m1 \<or> (mt_message_id m2 = mt_message_id m1 \<and> mt_fragment_count m1 = 0 \<and> mt_message_id m1 \<noteq> 0) \<or>
    (mt_message_id m2 \<noteq> 0 \<and> mt_next_fragment_index m2 = 0 \<and> 0 < mt_fragment_count m2)"
    using assms(5)
    by (auto simp: m7mux_stream_message_tracker_begin_def Let_def word_neq_0_conv split: if_splits)
  with assms(1-4) show ?thesis by (cases prev) (auto simp: knows_last_def tracker_ok_def)
qed

lemma knows_last_advance:
  assumes "knows_last m prev" "mt_message_id m \<noteq> 0" "mt_message_id m = rp_message_id p"
    "rp_fragment_index p = mt_next_fragment_index m"
  shows "knows_last (message_tracker_advance m) (Some p)" "follows prev p"
proof -
  have lt: "mt_next_fragment_index m < mt_fragment_count m"
    using assms by (auto simp: knows_last_def tracker_ok_def)
  then have "mt_next_fragment_index m < - 1"
    by (meson less_le_trans word_order.extremum)
  with lt assms show "knows_last (message_tracker_advance m) (Some p)"
    by (auto simp: message_tracker_advance_def Let_def knows_last_def tracker_ok_def)
  show "follows prev p"
    using assms by (auto simp: knows_last_def follows_def split: option.splits)
qed

lemma stream_expire_loop_trackers:
  "stream_expire_loop reg now_ms is n st h = (n', st', h') \<Longrightarrow>
   sm_session_trackers st' = sm_session_trackers st"
proof (induction reg now_ms "is" n st h rule: stream_expire_loop.induct)
  case (1 reg now_ms expired st h)
  then show ?case by simp
next
  case (2 reg now_ms i "is" expired st h)
  have "sm_session_trackers (stream_clear_slot i st) = sm_session_trackers st"
    by (simp add: stream_clear_slot_def)
  with 2 show ?case by (simp split: if_splits)
qed

lemma stream_expire_trackers:
  "m7mux_stream_expire reg st now_ms h = (n, st', h') \<Longrightarrow>
   sm_session_trackers st' = sm_session_trackers st"
  unfolding m7mux_stream_expire_def by (rule stream_expire_loop_trackers)

lemma order_inv_ingest:
  assumes inv: "order_inv st prev" and ing: "m7mux_stream_ingest reg st p h = (b, st', h')"
  shows "order_inv st' prev"
  using ing
proof (cases rule: stream_ingest_tracker)
  case untracked
  with inv show ?thesis by (simp add: order_inv_def)
next
  case (tracked p2 m0 m1 begun m2 st2)
  have "knows_last (fresh_message_tracker t) x" for t x
    by (simp add: knows_last_def tracker_ok_def fresh_message_tracker_def zero_message_tracker_def)
  with inv have "knows_last m0 (prev (rp_session_id p) (rp_stream_id p2))"
    unfolding tracked(2) order_inv_def tracker_or_fresh_def
    by (cases "stream_tracker st (rp_session_id p) (rp_stream_id p2)") simp_all
  then have "knows_last m2 (prev (rp_session_id p) (rp_stream_id p2))"
    by (rule knows_last_begin [OF _ tracked(3-6)])
  with inv tracked(7) have "order_inv st2 prev"
    by (simp add: order_inv_def)
  moreover have "stream_tracker st' s t = stream_tracker st2 s t" for s t
    using tracked(10) stream_tracker_cong [of st' st2] stream_queue_packet_tracker [of reg st2 p2 h b st' h']
    by (auto split: if_splits)
  ultimately show ?thesis by (simp add: order_inv_def)
qed

lemma order_inv_drain:
  assumes inv: "order_inv st prev" and d: "m7mux_stream_drain reg has_user st h = (Some (p, u), st', h')"
  shows "order_inv st' (\<lambda>s t. last_of (prev s t) (fragments_of s t [p]))"
    "in_order_from (prev s t) (fragments_of s t [p])"
proof -
  from stream_drain_result [OF d] obtain i where
    del: "m7mux_stream_packet_is_deliverable st (sm_ready_queue st ! i)"
    and p: "p = (sm_ready_queue st ! i)\<lparr>rp_user := None\<rparr>"
    and st': "st' = stream_clear_slot i (stream_advance_tracker st (sm_ready_queue st ! i))"
    by auto
  let ?slot = "sm_ready_queue st ! i"
  have look: "stream_tracker st' s t = stream_tracker (stream_advance_tracker st ?slot) s t" for s t
    by (rule stream_tracker_cong) (simp add: st' stream_clear_slot_def)
  have frag: "fragments_of s t [p] = (if rp_session_id ?slot = s \<and> rp_stream_id ?slot = t \<and>
      rp_fragment_count ?slot > 1 then [p] else [])" for s t
    by (simp add: fragments_of_def p)
  have "order_inv st' (\<lambda>s t. last_of (prev s t) (fragments_of s t [p])) \<and>
    in_order_from (prev s t) (fragments_of s t [p])"
  proof (cases "rp_fragment_count ?slot > 1")
    case False
    with inv show ?thesis
      by (simp add: order_inv_def look stream_advance_tracker_lookup frag last_of_def)
  next
    case True
    obtain m where m: "stream_tracker st (rp_session_id ?slot) (rp_stream_id ?slot) = Some m"
      "mt_message_id m \<noteq> 0" "mt_message_id m = rp_message_id ?slot"
      "rp_fragment_index ?slot = mt_next_fragment_index m"
      using deliverable_fragment [OF del True] by blast
    have k: "knows_last m (prev (rp_session_id ?slot) (rp_stream_id ?slot))"
      using inv m(1) by (auto simp: order_inv_def)
    have "knows_last (message_tracker_advance m) (Some p)"
      "follows (prev (rp_session_id ?slot) (rp_stream_id ?slot)) p"
      using knows_last_advance [OF k m(2), of p] m by (simp_all add: p)
    with inv m True show ?thesis
      by (auto simp: order_inv_def look stream_advance_tracker_lookup frag last_of_def split: if_splits)
  qed
  then show "order_inv st' (\<lambda>s t. last_of (prev s t) (fragments_of s t [p]))"
    "in_order_from (prev s t) (fragments_of s t [p])" by blast+
qed

lemma stream_step_order:
  assumes inv: "order_inv st prev" and step: "stream_step reg op st h = (out, st', h')"
  shows "order_inv st' (\<lambda>s t. last_of (prev s t) (fragments_of s t out)) \<and>
    in_order_from (prev s t) (fragments_of s t out)"
proof -
  have nil: "fragments_of s t [] = []" for s t by (simp add: fragments_of_def)
  show ?thesis
  proof (cases op)
    case (Op_Ingest p)
    obtain b st1 h1 where i: "m7mux_stream_ingest reg st p h = (b, st1, h1)" by (metis prod_cases3)
    with Op_Ingest step order_inv_ingest [OF inv i] show ?thesis
      by (simp add: nil last_of_def)
  next
    case (Op_Expire now_ms)
    obtain n st1 h1 where e: "m7mux_stream_expire reg st now_ms h = (n, st1, h1)" by (metis prod_cases3)
    have "order_inv st1 prev"
      using inv stream_tracker_cong [OF stream_expire_trackers [OF e]] by (simp add: order_inv_def)
    with Op_Expire step e show ?thesis by (simp add: nil last_of_def)
  next
    case (Op_Drain has_user)
    obtain r st1 h1 where d: "m7mux_stream_drain reg has_user st h = (r, st1, h1)" by (metis prod_cases3)
    show ?thesis
    proof (cases r)
      case None
      then show ?thesis
        using Op_Drain step d stream_drain_result [OF d] inv by (simp add: nil last_of_def)
    next
      case (Some pu)
      obtain p u where pu: "pu = (p, u)" by fastforce
      with Op_Drain step d Some have "out = [p]" "st' = st1" by simp_all
      with order_inv_drain [OF inv, of reg has_user h p u st1 h1] d Some pu show ?thesis by simp
    qed
  qed
qed

lemma fragments_of_append: "fragments_of s t (ps @ qs) = fragments_of s t ps @ fragments_of s t qs"
  by (simp add: fragments_of_def)

lemma stream_run_order:
  assumes "order_inv st prev" "stream_run reg ops st h = (outs, st', h')"
  shows "in_order_from (prev s t) (fragments_of s t outs)"
  using assms
proof (induction ops arbitrary: st h prev outs)
  case Nil
  then show ?case by (simp add: fragments_of_def)
next
  case (Cons op ops)
  obtain out st1 h1 where step: "stream_step reg op st h = (out, st1, h1)" by (metis prod_cases3)
  obtain outs2 st2 h2 where run: "stream_run reg ops st1 h1 = (outs2, st2, h2)" by (metis prod_cases3)
  have outs: "outs = out @ outs2" and st': "(outs2, st2, h2) = (outs2, st', h')"
    using Cons.prems(2) step run by auto
  note s = stream_step_order [OF Cons.prems(1) step]
  show ?case
    using Cons.IH [OF conjunct1 [OF s], of h1 outs2] run st' s
    by (simp add: outs fragments_of_append in_order_from_append)
qed

lemma order_inv_init:
  "sm_session_trackers st = sm_session_trackers m7mux_stream_state_init \<Longrightarrow> order_inv st (\<lambda>_ _. None)"
  by (auto simp: order_inv_def stream_tracker_def session_lookup_def m7mux_stream_state_init_def
      zero_session_tracker_def find_Some_iff split: option.splits if_splits)

end
