(* ===== verification/Stream_Reassembly.thy ===== *)
theory Stream_Reassembly
  imports Stream_Order "HOL-Library.Multiset"
begin

text \<open>
  Reassembly: the fragments of a message, ingested in any order, are drained in the order of
  their indices, each exactly once. The ready queue is seen as the multiset of its packets.
\<close>

definition occupied :: "M7MuxStreamState \<Rightarrow> M7MuxRecvPacket multiset" where
  "occupied st = filter_mset (\<lambda>q. rp_session_id q \<noteq> 0) (mset (sm_ready_queue st))"

definition queued_form :: "M7MuxRecvPacket \<Rightarrow> M7MuxRecvPacket" where
  "queued_form p = p\<lparr>rp_complete := final_fragment p\<rparr>"

definition delivered_form :: "M7MuxRecvPacket \<Rightarrow> M7MuxRecvPacket" where
  "delivered_form p = p\<lparr>rp_complete := final_fragment p, rp_user := None\<rparr>"

lemma queued_form_simps [simp]:
  "rp_session_id (queued_form p) = rp_session_id p" "rp_stream_id (queued_form p) = rp_stream_id p"
  "rp_message_id (queued_form p) = rp_message_id p"
  "rp_fragment_index (queued_form p) = rp_fragment_index p"
  "rp_fragment_count (queued_form p) = rp_fragment_count p"
  "rp_user (queued_form p) = rp_user p"
  "(queued_form p)\<lparr>rp_user := None\<rparr> = delivered_form p"
  by (simp_all add: queued_form_def delivered_form_def)

lemma occupied_store:
  assumes "i < length (sm_ready_queue st)" "rp_session_id (sm_ready_queue st ! i) = 0" "rp_session_id p \<noteq> 0"
    "sm_ready_queue st' = (sm_ready_queue st)[i := p]"
  shows "occupied st' = add_mset p (occupied st)"
  using assms by (simp add: occupied_def mset_update)

lemma occupied_clear:
  assumes "i < length (sm_ready_queue st)" "rp_session_id (sm_ready_queue st ! i) \<noteq> 0"
  shows "occupied (stream_clear_slot i st) = occupied st - {#sm_ready_queue st ! i#}"
    "sm_ready_queue st ! i \<in># occupied st"
proof -
  have m: "sm_ready_queue st ! i \<in># mset (sm_ready_queue st)" using assms(1) by simp
  show "sm_ready_queue st ! i \<in># occupied st" using assms by (simp add: occupied_def)
  obtain M where M: "mset (sm_ready_queue st) = add_mset (sm_ready_queue st ! i) M"
    using m by (metis insert_DiffM)
  show "occupied (stream_clear_slot i st) = occupied st - {#sm_ready_queue st ! i#}"
    using assms by (simp add: occupied_def stream_clear_slot_def mset_update M)
qed

lemma in_occupied: "q \<in># occupied st \<longleftrightarrow> q \<in> set (sm_ready_queue st) \<and> rp_session_id q \<noteq> 0"
  by (simp add: occupied_def)

definition fragment_of :: "u64 \<Rightarrow> u32 \<Rightarrow> u64 \<Rightarrow> u32 \<Rightarrow> M7MuxRecvPacket \<Rightarrow> bool" where
  "fragment_of s t msg n p \<longleftrightarrow> rp_session_id p = s \<and> rp_stream_id p = t \<and> rp_message_id p = msg \<and>
     rp_fragment_count p = n"

definition expecting :: "M7MuxStreamState \<Rightarrow> u64 \<Rightarrow> u32 \<Rightarrow> u64 \<Rightarrow> u32 \<Rightarrow> u32 \<Rightarrow> bool" where
  "expecting st s t msg n k \<longleftrightarrow> (\<exists>m. stream_tracker st s t = Some m \<and> mt_message_id m = msg \<and>
     mt_fragment_count m = n \<and> mt_next_fragment_index m = k)"

text \<open>A stream that has no message in flight.\<close>

definition idle :: "M7MuxStreamState \<Rightarrow> u64 \<Rightarrow> u32 \<Rightarrow> bool" where
  "idle st s t \<longleftrightarrow> can_track st s t \<and> mt_message_id (tracker_or_fresh st s t) = 0"

lemma expecting_can_track: "expecting st s t msg n k \<Longrightarrow> can_track st s t"
  by (auto simp: expecting_def can_track_def stream_tracker_def session_lookup_def message_lookup_def
      split: option.splits if_splits)

lemma ingest_fragment:
  assumes frag: "fragment_of s t msg n p" and nz: "s \<noteq> 0" "t \<noteq> 0" "msg \<noteq> 0" "1 < n"
    and ready: "idle st s t \<or> expecting st s t msg n 0"
    and len: "length (sm_ready_queue st) = M7MUX_STREAM_READY_QUEUE_CAPACITY"
    and occ: "occupied st = mset (map queued_form Q)" "length Q < M7MUX_STREAM_READY_QUEUE_CAPACITY"
    and new: "\<forall>q \<in> set Q. rp_fragment_index q \<noteq> rp_fragment_index p"
    and ing: "m7mux_stream_ingest reg st p h = (b, st', h')"
  shows "b \<and> expecting st' s t msg n 0 \<and> occupied st' = mset (map queued_form (Q @ [p])) \<and>
    length (sm_ready_queue st') = M7MUX_STREAM_READY_QUEUE_CAPACITY"
proof -
  have ct: "can_track st s t" using ready expecting_can_track by (auto simp: idle_def)
  from ing show ?thesis
  proof (cases rule: stream_ingest_tracker)
    case untracked
    with ct frag nz show ?thesis by (simp add: fragment_of_def)
  next
    case (tracked p2 m0 m1 begun m2 st2)
    have p2: "p2 = p" using tracked(1) frag nz by (simp add: same_payload_def fragment_of_def)
    have n: "n \<noteq> 0" "\<not> n \<le> 1" using nz(4) by auto
    have m0: "mt_message_id m0 = 0 \<or>
        mt_message_id m0 = msg \<and> mt_fragment_count m0 = n \<and> mt_next_fragment_index m0 = 0"
      using ready tracked(2) frag p2
      by (auto simp: idle_def expecting_def fragment_of_def tracker_or_fresh_def)
    have m2: "begun \<and> mt_message_id m2 = msg \<and> mt_fragment_count m2 = n \<and> mt_next_fragment_index m2 = 0"
      using tracked(3-6) m0 frag p2 n nz
      by (auto simp: m7mux_stream_message_tracker_begin_def fragment_of_def Let_def split: if_splits)
    have q: "stream_queue_packet reg st2 p h = (b, st', h')" using tracked(10) m2 p2 by simp
    have sp: "rp_session_id p \<noteq> 0" using frag nz by (simp add: fragment_of_def)
    have "expecting st2 s t msg n 0"
      using m2 tracked(7) frag p2 by (auto simp: expecting_def fragment_of_def)
    then have ex: "expecting st' s t msg n 0"
      using stream_tracker_cong [OF stream_queue_packet_tracker [OF q]] by (simp add: expecting_def)
    have occ2: "occupied st2 = occupied st" by (simp add: occupied_def tracked(8))
    from q sp show ?thesis
    proof (cases rule: stream_queue_packet_cases)
      case refused
      have "\<not> same_fragment q p" if "q \<in> set (sm_ready_queue st)" for q
      proof
        assume sf: "same_fragment q p"
        then have "q \<in># occupied st" using that sp by (simp add: in_occupied same_fragment_def)
        then obtain x where "x \<in> set Q" "q = queued_form x" unfolding occ(1) by auto
        with sf new show False by (simp add: same_fragment_def)
      qed
      moreover have "size (occupied st) = length (sm_ready_queue st)"
        if "\<forall>q \<in> set (sm_ready_queue st). rp_session_id q \<noteq> 0"
      proof -
        have "filter (\<lambda>q. rp_session_id q \<noteq> 0) (sm_ready_queue st) = sm_ready_queue st"
          using that by (simp add: filter_id_conv)
        then show ?thesis unfolding occupied_def mset_filter [symmetric] by (simp only: size_mset)
      qed
      ultimately show ?thesis
        using refused(4) tracked(8) occ len by auto
    next
      case (stored i)
      have "occupied st' = add_mset (queued_form p) (occupied st2)"
        by (rule occupied_store [OF stored(2,3)]) (use stored(5) sp in \<open>simp_all add: queued_form_def\<close>)
      then show ?thesis
        using stored(1,5) ex occ occ2 len tracked(8) by simp
    qed
  qed
qed

section \<open>All fragments in\<close>

lemma packet_users_Cons: "packet_users (p # ps) = set_option (rp_user p) \<union> packet_users ps"
  by (simp add: packet_users_def)

lemma users_distinct_Cons:
  assumes "users_distinct (p # ps)"
  shows "users_distinct ps" "\<And>u. rp_user p = Some u \<Longrightarrow> u \<notin> packet_users ps"
proof -
  show "users_distinct ps"
    unfolding users_distinct_def
  proof (intro allI impI)
    fix i j assume "i < length ps" "j < length ps" "rp_user (ps ! i) \<noteq> None"
      "rp_user (ps ! i) = rp_user (ps ! j)"
    then show "i = j"
      using users_distinctD [OF assms, of "Suc i" "Suc j"] by auto
  qed
  fix u assume u: "rp_user p = Some u"
  show "u \<notin> packet_users ps"
  proof
    assume "u \<in> packet_users ps"
    then obtain i where "i < length ps" "rp_user (ps ! i) = Some u"
      by (auto simp: packet_users_nth)
    then show False using users_distinctD [OF assms, of 0 "Suc i" u] u by simp
  qed
qed

lemma users_distinct_ConsI:
  assumes "users_distinct ps" "\<And>u. rp_user p = Some u \<Longrightarrow> u \<notin> packet_users ps"
  shows "users_distinct (p # ps)"
proof -
  have hd: False if "j < length ps" "rp_user (ps ! j) \<noteq> None" "rp_user p = rp_user (ps ! j)" for j
    using assms(2) that by (auto simp: packet_users_nth)
  have "i = j" if ij: "i < length (p # ps)" "j < length (p # ps)" "rp_user ((p # ps) ! i) \<noteq> None"
    "rp_user ((p # ps) ! i) = rp_user ((p # ps) ! j)" for i j
  proof (cases i)
    case 0
    show ?thesis
    proof (cases j)
      case (Suc l)
      have "l < length ps" "rp_user (ps ! l) \<noteq> None" using ij 0 Suc by auto
      moreover have "rp_user p = rp_user (ps ! l)" using ij(4) Suc 0 by simp
      ultimately show ?thesis using hd by blast
    qed (simp add: 0)
  next
    case (Suc k)
    show ?thesis
    proof (cases j)
      case 0
      have "k < length ps" "rp_user (ps ! k) \<noteq> None" using ij Suc by auto
      moreover have "rp_user p = rp_user (ps ! k)" using ij(4) Suc 0 by simp
      ultimately show ?thesis using hd by blast
    next
      case (Suc l)
      obtain u where "rp_user (ps ! k) = Some u" "rp_user (ps ! l) = Some u"
        using ij \<open>i = Suc k\<close> \<open>j = Suc l\<close> by auto
      then have "k = l" using users_distinctD [OF assms(1), of k l u] ij \<open>i = Suc k\<close> \<open>j = Suc l\<close> by simp
      then show ?thesis using \<open>i = Suc k\<close> \<open>j = Suc l\<close> by simp
    qed
  qed
  then show ?thesis unfolding users_distinct_def by blast
qed

lemma users_distinct_iff: "users_distinct ps \<longleftrightarrow> distinct (filter (\<lambda>u. u \<noteq> None) (map rp_user ps))"
proof (induction ps)
  case Nil
  then show ?case by (simp add: users_distinct_def)
next
  case (Cons p ps)
  have "users_distinct (p # ps) \<longleftrightarrow> users_distinct ps \<and> (\<forall>u. rp_user p = Some u \<longrightarrow> u \<notin> packet_users ps)"
    by (metis users_distinct_Cons users_distinct_ConsI)
  with Cons.IH show ?case by (auto simp: packet_users_def image_iff)
qed

lemma users_distinct_perm:
  assumes "users_distinct ps" "mset qs = mset ps"
  shows "users_distinct qs"
proof -
  have "mset (filter (\<lambda>u. u \<noteq> None) (map rp_user qs)) = mset (filter (\<lambda>u. u \<noteq> None) (map rp_user ps))"
    using assms(2) by simp
  with assms(1) show ?thesis
    unfolding users_distinct_iff by (metis mset_eq_imp_distinct_iff)
qed

lemma ingest_fragments:
  assumes "\<forall>p \<in> set ps. fragment_of s t msg n p \<and> releasable reg p"
    and nz: "s \<noteq> 0" "t \<noteq> 0" "msg \<noteq> 0" "1 < n"
    and "stream_ok reg st" "if Q = [] then idle st s t else expecting st s t msg n 0"
    and "occupied st = mset (map queued_form Q)"
    and "length Q + length ps \<le> M7MUX_STREAM_READY_QUEUE_CAPACITY"
    and "distinct (map rp_fragment_index (Q @ ps))"
    and "users_distinct ps" "packet_users ps \<inter> slot_users st = {}" "ps \<noteq> []"
  shows "\<exists>st'. stream_run reg (map Op_Ingest ps) st h = ([], st', h) \<and> stream_ok reg st' \<and>
    expecting st' s t msg n 0 \<and> occupied st' = mset (map queued_form (Q @ ps)) \<and>
    slot_users st' = slot_users st \<union> packet_users ps"
  using assms(1,6-)
proof (induction ps arbitrary: st Q)
  case Nil
  then show ?case by simp
next
  case (Cons p ps)
  obtain b st1 h1 where i: "m7mux_stream_ingest reg st p h = (b, st1, h1)" by (metis prod_cases3)
  have len: "length (sm_ready_queue st) = M7MUX_STREAM_READY_QUEUE_CAPACITY"
    using Cons.prems(2) by (simp add: stream_ok_def queue_ok_def)
  have one: "b \<and> expecting st1 s t msg n 0 \<and> occupied st1 = mset (map queued_form (Q @ [p]))"
  proof -
    have "\<forall>q \<in> set Q. rp_fragment_index q \<noteq> rp_fragment_index p"
      using Cons.prems(6) by (fastforce simp: image_iff)
    moreover have "idle st s t \<or> expecting st s t msg n 0" using Cons.prems(3) by (auto split: if_splits)
    moreover have "fragment_of s t msg n p" "length Q < M7MUX_STREAM_READY_QUEUE_CAPACITY"
      using Cons.prems(1,5) by simp_all
    ultimately show ?thesis
      using ingest_fragment [OF _ nz _ len Cons.prems(4) _ _ i] by blast
  qed
  have ok: "stream_ok reg st1 \<and> h1 = h \<and> slot_users st1 = slot_users st \<union> set_option (rp_user p)"
    using stream_ingest_ok [OF Cons.prems(2) i] Cons.prems(1,8) one
    by (auto simp: packet_users_Cons)
  show ?case
  proof (cases "ps = []")
    case True
    with i one ok show ?thesis by (simp add: packet_users_def)
  next
    case False
    have disj: "packet_users ps \<inter> slot_users st1 = {}"
      using ok Cons.prems(7,8) users_distinct_Cons(2) [of p ps]
      by (auto simp: packet_users_Cons)
    have "\<exists>st'. stream_run reg (map Op_Ingest ps) st1 h = ([], st', h) \<and> stream_ok reg st' \<and>
      expecting st' s t msg n 0 \<and> occupied st' = mset (map queued_form ((Q @ [p]) @ ps)) \<and>
      slot_users st' = slot_users st1 \<union> packet_users ps"
      by (rule Cons.IH)
        (use Cons.prems one ok disj False users_distinct_Cons(1) [of p ps] in simp_all)
    with i ok show ?thesis by (auto simp: packet_users_Cons Un_assoc)
  qed
qed

section \<open>All fragments out\<close>

lemma drain_fragment:
  assumes reg: "adapters_ok reg" and ok: "stream_ok reg st" and h: "heap_ok h" "slot_users st \<subseteq> live h"
    and frag: "\<forall>x \<in> set (p # R). fragment_of s t msg n x" and nz: "s \<noteq> 0" "msg \<noteq> 0" "1 < n"
    and occ: "occupied st = mset (map queued_form (p # R))"
    and ex: "expecting st s t msg n (rp_fragment_index p)"
    and idx: "\<forall>x \<in> set R. rp_fragment_index x \<noteq> rp_fragment_index p"
    and small: "rp_fragment_index p < n"
  shows "\<exists>st' h'. m7mux_stream_drain reg True st h =
      (Some (delivered_form p, case rp_user p of None \<Rightarrow> None | Some u \<Rightarrow> uh_cell h u), st', h') \<and>
    stream_ok reg st' \<and> heap_ok h' \<and> slot_users st' \<subseteq> live h' \<and>
    occupied st' = mset (map queued_form R) \<and>
    (\<forall>u. rp_user p \<noteq> Some u \<longrightarrow> uh_cell h' u = uh_cell h u) \<and>
    (rp_fragment_index p + 1 < n \<longrightarrow> expecting st' s t msg n (rp_fragment_index p + 1))"
proof -
  obtain r st' h' where d: "m7mux_stream_drain reg True st h = (r, st', h')" by (metis prod_cases3)
  obtain m where m: "stream_tracker st s t = Some m" "mt_message_id m = msg" "mt_fragment_count m = n"
    "mt_next_fragment_index m = rp_fragment_index p"
    using ex by (auto simp: expecting_def)
  have pf: "fragment_of s t msg n p" using frag by simp
  have "queued_form p \<in># occupied st" using occ by simp
  then have pin: "queued_form p \<in> set (sm_ready_queue st)" by (simp add: in_occupied)
  have pdel: "m7mux_stream_packet_is_deliverable st (queued_form p)"
    by (rule fragment_deliverable [of _ _ m]) (use m pf nz in \<open>simp_all add: fragment_of_def\<close>)
  from reg ok h d show ?thesis
  proof (cases rule: stream_drain_cases)
    case nothing
    with pin pdel show ?thesis by simp
  next
    case (packet i slot)
    have "slot \<in># occupied st" using packet(1-3) by (simp add: in_occupied)
    then obtain x where x: "x \<in> set (p # R)" "slot = queued_form x"
      unfolding occ by auto
    then have xf: "fragment_of s t msg n x" using frag by blast
    have "rp_fragment_index x = rp_fragment_index p"
      using deliverable_fragment [OF packet(4)] xf x(2) m nz(3) by (auto simp: fragment_of_def)
    then have xp: "slot = queued_form p" using x idx by auto
    let ?a = "stream_advance_tracker st slot"
    have q: "queue_ok reg (sm_ready_queue st)" and lib: "sm_adapter_lib st"
      using ok by (simp_all add: stream_ok_def)
    have rel: "releasable reg slot" using queue_okD(4) [OF q] packet(1,2) by simp
    have "set_option (rp_user slot) \<subseteq> slot_users st"
      using packet(1,2) by (auto simp: slot_users_def packet_users_nth)
    then have "set_option (rp_user slot) \<subseteq> live h" using h(2) by blast
    note rl = release_user_spec [OF reg lib rel h(1) this]
    have ok2: "stream_ok reg ?a" "slot_users ?a = slot_users st"
      using stream_ok_trackers [of ?a st reg] ok by simp_all
    note c = clear_slot_ok [OF ok2(1), of i]
    have occ': "occupied st' = mset (map queued_form R)"
      using occupied_clear(1) [of i ?a] packet(1-3,6) occ xp
      by (simp add: occupied_def)
    have "stream_tracker st' s t = stream_tracker ?a s t"
      by (rule stream_tracker_cong) (simp add: packet(6) stream_clear_slot_def)
    then have tr: "stream_tracker st' s t = Some (message_tracker_advance m)"
      using m xp pf nz by (simp add: stream_advance_tracker_lookup fragment_of_def)
    have "expecting st' s t msg n (rp_fragment_index p + 1)" if lt: "rp_fragment_index p + 1 < n"
    proof -
      have "rp_fragment_index p < - 1"
        using small by (meson less_le_trans word_order.extremum)
      with lt m nz show ?thesis
        using tr by (auto simp: expecting_def message_tracker_advance_def Let_def)
    qed
    moreover have "slot\<lparr>rp_user := None\<rparr> = delivered_form p" by (simp only: xp queued_form_simps)
    moreover have "stream_ok reg st' \<and> slot_users st' \<subseteq> live h'"
      using packet c ok2 rl h(2) by auto
    moreover have "uh_cell h' u = uh_cell h u" if "rp_user p \<noteq> Some u" for u
      using release_user_cell [OF reg lib, of slot u h] that packet(7) by (simp add: xp)
    ultimately show ?thesis
      using d packet(5,7) rl occ' by (simp add: xp)
  qed
qed

text \<open>Draining \<open>k\<close> times into a buffer of one's own: the packets and their user data.\<close>

fun stream_drains ::
  "'cs registry \<Rightarrow> nat \<Rightarrow> M7MuxStreamState \<Rightarrow> user_heap \<Rightarrow>
   (M7MuxRecvPacket \<times> M7MuxUserRecvData option) list \<times> M7MuxStreamState \<times> user_heap" where
  "stream_drains reg 0 st h = ([], st, h)"
| "stream_drains reg (Suc k) st h =
     (let (r, st1, h1) = m7mux_stream_drain reg True st h;
          (rs, st2, h2) = stream_drains reg k st1 h1
      in ((case r of None \<Rightarrow> rs | Some x \<Rightarrow> x # rs), st2, h2))"

lemma stream_run_drains:
  "stream_run reg (replicate k (Op_Drain True)) st h =
    (case stream_drains reg k st h of (rs, st', h') \<Rightarrow> (map fst rs, st', h'))"
  by (induction k arbitrary: st h) (auto split: prod.splits option.splits)

definition user_of :: "user_heap \<Rightarrow> M7MuxRecvPacket \<Rightarrow> M7MuxUserRecvData option" where
  "user_of h p = (case rp_user p of None \<Rightarrow> None | Some u \<Rightarrow> uh_cell h u)"

lemma drain_fragments:
  assumes reg: "adapters_ok reg" and nz: "s \<noteq> 0" "msg \<noteq> 0" "1 < n"
    and "stream_ok reg st" "heap_ok h" "slot_users st \<subseteq> live h"
    and "\<forall>x \<in> set R. fragment_of s t msg n x"
    and "occupied st = mset (map queued_form R)"
    and "\<forall>j < length R. unat (rp_fragment_index (R ! j)) = k + j" "unat n = k + length R"
    and "R \<noteq> [] \<Longrightarrow> expecting st s t msg n (rp_fragment_index (hd R))"
    and "users_distinct R"
  shows "\<exists>st' h'. stream_drains reg (length R) st h =
      (map (\<lambda>p. (delivered_form p, user_of h p)) R, st', h') \<and> stream_ok reg st' \<and> occupied st' = {#}"
  using assms(5-)
proof (induction R arbitrary: st h k)
  case Nil
  then show ?case by simp
next
  case (Cons p R)
  have idx: "unat (rp_fragment_index p) = k" using Cons.prems(6) by auto
  have next_idx: "unat (rp_fragment_index (R ! j)) = Suc k + j" if "j < length R" for j
    using Cons.prems(6) that by (auto dest: spec [of _ "Suc j"])
  have other: "\<forall>x \<in> set R. rp_fragment_index x \<noteq> rp_fragment_index p"
    using next_idx idx by (auto simp: in_set_conv_nth) (metis add_Suc less_add_Suc1 less_irrefl)
  have small: "rp_fragment_index p < n"
    using idx Cons.prems(7) by (simp add: word_less_nat_alt)
  from drain_fragment [OF reg Cons.prems(1,2,3,4) nz Cons.prems(5) _ other small] Cons.prems(8)
  obtain st1 h1 where d: "m7mux_stream_drain reg True st h = (Some (delivered_form p, user_of h p), st1, h1)"
    and inv: "stream_ok reg st1" "heap_ok h1" "slot_users st1 \<subseteq> live h1"
      "occupied st1 = mset (map queued_form R)"
    and cell: "\<forall>u. rp_user p \<noteq> Some u \<longrightarrow> uh_cell h1 u = uh_cell h u"
    and nxt: "rp_fragment_index p + 1 < n \<longrightarrow> expecting st1 s t msg n (rp_fragment_index p + 1)"
    by (auto simp: user_of_def)
  have ex: "expecting st1 s t msg n (rp_fragment_index (hd R))" if R: "R \<noteq> []"
  proof -
    have hd: "unat (rp_fragment_index (hd R)) = Suc k"
      using next_idx [of 0] R by (simp add: hd_conv_nth)
    have "1 + rp_fragment_index p \<noteq> 0"
      using small word_less_inc [of "rp_fragment_index p"]
      by (metis add.commute less_le_trans word_order.extremum)
    then have "unat (rp_fragment_index p + 1) = Suc k"
      using unatSuc [of "rp_fragment_index p"] idx by (simp add: add.commute)
    then have "rp_fragment_index (hd R) = rp_fragment_index p + 1"
      using hd by (simp add: word_unat_eq_iff)
    moreover have "rp_fragment_index p + 1 < n"
      using \<open>unat (rp_fragment_index p + 1) = Suc k\<close> Cons.prems(7) R by (cases R) (simp_all add: word_less_nat_alt)
    ultimately show ?thesis using nxt by simp
  qed
  have dist: "users_distinct R" "\<And>u. rp_user p = Some u \<Longrightarrow> u \<notin> packet_users R"
    using users_distinct_Cons [OF Cons.prems(9)] by blast+
  have same: "user_of h1 q = user_of h q" if "q \<in> set R" for q
    using that dist(2) cell by (auto simp: user_of_def packet_users_def split: option.splits)
  have "\<exists>st' h'. stream_drains reg (length R) st1 h1 =
      (map (\<lambda>p. (delivered_form p, user_of h1 p)) R, st', h') \<and> stream_ok reg st' \<and> occupied st' = {#}"
    by (rule Cons.IH [where k = "Suc k"]) (use Cons.prems inv next_idx ex dist in auto)
  moreover have "map (\<lambda>p. (delivered_form p, user_of h1 p)) R = map (\<lambda>p. (delivered_form p, user_of h p)) R"
    using same by simp
  ultimately show ?case using d by auto
qed

lemma stream_run_append:
  "stream_run reg (xs @ ys) st h =
    (let (out, st1, h1) = stream_run reg xs st h; (outs, st2, h2) = stream_run reg ys st1 h1
     in (out @ outs, st2, h2))"
  by (induction xs arbitrary: st h) (auto split: prod.splits)

text \<open>The packets sorted by index carry the indices 0, 1, 2, ...\<close>

lemma sorted_indices:
  assumes "mset (map f ps) = mset [0..<length ps]" "j < length ps"
  shows "f (sort_key f ps ! j) = j"
proof -
  have "sorted (map f (sort_key f ps))" by simp
  moreover have "mset (map f (sort_key f ps)) = mset [0..<length ps]"
    using assms(1) by (metis mset_map mset_sort)
  ultimately have "map f (sort_key f ps) = [0..<length ps]"
    using properties_for_sort [of "map f (sort_key f ps)" "[0..<length ps]"]
      properties_for_sort [of "[0..<length ps]" "[0..<length ps]"] by simp
  then show ?thesis using assms(2) by (metis add.left_neutral length_map length_sort nth_map nth_upt)
qed

text \<open>From an empty queue and an idle stream: in, in any order; out, sorted.\<close>

lemma reassembly_run:
  fixes ps :: "M7MuxRecvPacket list"
  defines "ix \<equiv> \<lambda>p. unat (rp_fragment_index p)"
  assumes reg: "adapters_ok reg" and ok: "stream_ok reg st" and h: "heap_ok h"
    and empty: "sm_ready_count st = 0" and idle: "idle st s t" and nz: "s \<noteq> 0" "t \<noteq> 0" "msg \<noteq> 0"
    and frag: "\<forall>p \<in> set ps. fragment_of s t msg n p \<and> releasable reg p"
    and num: "1 < length ps" "length ps \<le> M7MUX_STREAM_READY_QUEUE_CAPACITY" "unat n = length ps"
    and perm: "mset (map ix ps) = mset [0..<length ps]"
    and users: "users_distinct ps" "packet_users ps \<subseteq> live h"
  shows "fst (stream_run reg (map Op_Ingest ps @ replicate (length ps) (Op_Drain True)) st h) =
    map delivered_form (sort_key ix ps)"
proof -
  have n1: "1 < n" using num by (simp add: word_less_nat_alt)
  have occ0: "occupied st = {#}" "slot_users st = {}"
  proof -
    have "\<forall>q \<in> set (sm_ready_queue st). rp_session_id q = 0"
      using ok empty by (simp add: stream_ok_def count_if_zero)
    then show "occupied st = {#}" "slot_users st = {}"
      using ok by (auto simp: in_occupied slot_users_def packet_users_def stream_ok_def queue_ok_def
          intro: multiset_eqI simp flip: set_mset_eq_empty_iff)
  qed
  have dist: "distinct (map rp_fragment_index ps)"
  proof -
    have "distinct (map ix ps)" using perm by (metis distinct_upt mset_eq_imp_distinct_iff)
    then have "distinct (map unat (map rp_fragment_index ps))" by (simp add: ix_def o_def)
    then show ?thesis by (metis distinct_map)
  qed
  have "ps \<noteq> []" using num(1) by auto
  then obtain st1 where r1: "stream_run reg (map Op_Ingest ps) st h = ([], st1, h)" "stream_ok reg st1"
    "expecting st1 s t msg n 0" "occupied st1 = mset (map queued_form ps)"
    "slot_users st1 = packet_users ps"
    using ingest_fragments [OF frag nz n1 ok, of "[]" h] idle occ0 num dist users by auto
  let ?R = "sort_key ix ps"
  have six: "ix (?R ! j) = j" if "j < length ps" for j
    using sorted_indices [OF perm that] .
  have hd0: "rp_fragment_index (hd ?R) = 0"
  proof -
    have "?R \<noteq> []" using \<open>ps \<noteq> []\<close> by (metis length_0_conv length_sort)
    then have "hd ?R = ?R ! 0" by (rule hd_conv_nth)
    with six [of 0] \<open>ps \<noteq> []\<close> show ?thesis by (simp add: ix_def unat_eq_0)
  qed
  have "\<exists>st' h'. stream_drains reg (length ?R) st1 h =
      (map (\<lambda>p. (delivered_form p, user_of h p)) ?R, st', h') \<and> stream_ok reg st' \<and> occupied st' = {#}"
    by (rule drain_fragments [OF reg nz(1,3) n1 r1(2) h, where k = 0])
      (use r1 users frag num six hd0 users_distinct_perm [OF users(1), of ?R] in \<open>auto simp: ix_def\<close>)
  with r1(1) show ?thesis by (auto simp: stream_run_append stream_run_drains)
qed

text \<open>A fresh stream state is idle everywhere.\<close>

lemma fresh_stream_idle:
  assumes "sm_session_trackers st = sm_session_trackers m7mux_stream_state_init" "s \<noteq> 0" "t \<noteq> 0"
  shows "idle st s t"
proof -
  have lk: "session_lookup st s = None"
    using assms(1) by (auto simp: session_lookup_def m7mux_stream_state_init_def zero_session_tracker_def
        find_None_iff)
  have "\<exists>tr \<in> set (sm_session_trackers st). \<not> tr_active tr"
    using assms(1) by (simp add: m7mux_stream_state_init_def zero_session_tracker_def
        M7MUX_STREAM_SESSION_TRACKER_CAPACITY_def)
  with lk assms(2,3) show ?thesis
    by (simp add: idle_def can_track_def tracker_or_fresh_def stream_tracker_def fresh_message_tracker_def
        zero_message_tracker_def)
qed

end
