(* ===== verification/Delivery.thy ===== *)
theory Delivery
  imports Mux Codec_V4_Facts Stream_Reassembly
begin

text \<open>
  A message from end to end: the client stages it in fragments encoded by the V4 codec, the network
  reorders the datagrams, the server normalizes them, maps their session, reassembles them in the
  stream and drains them. The lemmas follow the datagrams through the modules; the theorem that
  joins them is a property of the root theory.
\<close>

section \<open>Normalizing a V4 datagram\<close>

lemma v4_decode_detects:
  assumes "shared_knock_codec_v4_decode E context st ingress control out = (1, control', out')"
  shows "\<exists>idn'. shared_knock_codec_v4_detect ingress idn = (True, idn') \<and> id_encrypted idn'"
  using assms
  by (auto simp: shared_knock_codec_v4_decode_def shared_knock_codec_v4_detect_def payload_codes Let_def
      split: if_splits prod.splits)

definition user_block :: "SharedKnockNormalizedUnit \<Rightarrow> u8 list \<Rightarrow> M7MuxUserRecvData" where
  "user_block normal hmac = \<lparr>ud_user_id = nu_user_id normal, ud_action_id = nu_action_id normal,
     ud_challenge = nu_challenge normal, ud_hmac = hmac, ud_payload = nu_payload normal\<rparr>"

text \<open>A packet that carries what the sender's unit says, in the user block \<open>u\<close>.\<close>

definition carries :: "SharedKnockNormalizedUnit \<Rightarrow> uaddr \<Rightarrow> M7MuxRecvPacket \<Rightarrow> bool" where
  "carries normal u p \<longleftrightarrow> rp_user p = Some u \<and> rp_session_id p = nu_session_id normal \<and>
     rp_message_id p = nu_message_id normal \<and> rp_stream_id p = nu_stream_id normal \<and>
     rp_fragment_index p = nu_fragment_index normal \<and> rp_fragment_count p = nu_fragment_count normal \<and>
     rp_timestamp p = nu_timestamp normal \<and> rp_encrypted p \<and> rp_wire_decode p \<and>
     rp_wire_version p = SHARED_KNOCK_CODEC_V4_WIRE_VERSION \<and> rp_wire_form p = SHARED_KNOCK_CODEC_FORM1_ID"

lemma normalize_v4:
  assumes E: "gcm_lengths E" "gcm_inverts E" "rand_lengths E"
    and client: "cx_openssl_session client = Some s1" "ss_public_key s1 = Some pub"
    and server: "cx_openssl_session server = Some s2" "ss_private_key s2 = Some priv"
    and pair: "rsa_pair E pub priv"
    and e: "shared_knock_codec_v4_encode E has (Some client) normal buf r = (Some bytes, r')"
    and buf: "length buf = SHARED_KNOCK_CODEC_V4_FORM1_PACKET_MAX_SIZE" and hm: "length (nu_hmac normal) = 32"
    and pl: "length (nu_payload normal) \<le> M7MUX_USER_DATA_PAYLOAD_MAX"
    and x: "in_buffer x = bytes"
    and allowed: "m7mux_normalize_encryption_allowed g_ctx policy True"
    and oom: "\<not> uh_oom h (uh_next h)"
  shows "\<exists>hmac p h'. m7mux_normalize_packet g_ctx
      [(shared_knock_codec_v4_adapter E has' (Some server) c1 c2)\<lparr>ad_state := Some state\<rparr>] policy x control
      zero_recv h = (True, control\<lparr>ct_session_by_client := 1, ct_stream_type := 0\<rparr>, p, h') \<and>
    carries normal (uh_next h) p \<and>
    h' = h\<lparr>uh_cell := (uh_cell h)(uh_next h \<mapsto> user_block normal hmac), uh_next := Suc (uh_next h)\<rparr>"
proof -
  let ?a = "(shared_knock_codec_v4_adapter E has' (Some server) c1 c2)\<lparr>ad_state := Some state\<rparr>"
  have rt: "\<exists>hmac. shared_knock_codec_v4_decode E (Some server) (Some state) y control zero_unit =
      (1, control\<lparr>ct_session_by_client := 1, ct_stream_type := 0\<rparr>,
       v4_delivered normal hmac (in_ip y) (in_client_port y))" if "in_buffer y = bytes" for y
    using v4_codec_roundtrip [OF E client server pair e buf hm that] by blast
  obtain idn where idn: "shared_knock_codec_v4_detect x zero_identity = (True, idn)" "id_encrypted idn"
    using rt [OF x] v4_decode_detects by blast
  let ?y = "m7mux_normalize_configure_ingress_identity x idn"
  have y: "in_buffer ?y = bytes" "in_encrypted ?y"
    using x idn by (simp_all add: m7mux_normalize_configure_ingress_identity_def)
  obtain hmac where d: "shared_knock_codec_v4_decode E (Some server) (Some state) ?y control zero_unit =
      (1, control\<lparr>ct_session_by_client := 1, ct_stream_type := 0\<rparr>,
       v4_delivered normal hmac (in_ip ?y) (in_client_port ?y))" using rt [OF y(1)] by blast
  let ?out = "zero_recv\<lparr>rp_user := Some (uh_next h)\<rparr>"
  let ?h1 = "h\<lparr>uh_cell := (uh_cell h)(uh_next h \<mapsto> zero_user), uh_next := Suc (uh_next h)\<rparr>"
  let ?h2 = "h\<lparr>uh_cell := (uh_cell h)(uh_next h \<mapsto> user_block normal hmac), uh_next := Suc (uh_next h)\<rparr>"
  have al: "alloc_user h = (Some (uh_next h), ?h1)" using oom by (simp add: alloc_user_def)
  obtain p where c: "shared_knock_codec_v4_adapter_decode E (Some server) (Some state) ?y control ?out ?h1 =
      (True, control\<lparr>ct_session_by_client := 1, ct_stream_type := 0\<rparr>, p, ?h2)"
    and p: "carries normal (uh_next h) (p\<lparr>rp_encrypted := True, rp_wire_decode := True\<rparr>)"
    using d pl
    by (simp add: shared_knock_codec_v4_adapter_decode_def shared_knock_codec_v4_copy_recv_packet_def
        v4_delivered_def v4_received_def store_user_def user_block_def carries_def)
  have user: "rp_user p = Some (uh_next h)" using p by (simp add: carries_def)
  have dec: "m7mux_normalize_adapter_decode ?a ?y control zero_recv h =
      (True, control\<lparr>ct_session_by_client := 1, ct_stream_type := 0\<rparr>, p, ?h2)"
    by (simp add: m7mux_normalize_adapter_decode_def shared_knock_codec_v4_adapter_def al c user)
  have demux: "m7mux_normalize_adapter_demux [?a] x zero_identity = (Some ?a, idn)"
    by (simp add: shared_knock_codec_v4_adapter_def idn)
  show ?thesis
    using p y(2) allowed
    by (intro exI [where x = hmac]) (simp add: m7mux_normalize_packet_def m7mux_normalize_adapter_count_def
        demux dec carries_def Let_def del: m7mux_normalize_adapter_demux.simps)
qed

section \<open>Mapping the session\<close>

definition mapped :: "u64 \<Rightarrow> M7MuxRecvPacket \<Rightarrow> M7MuxRecvPacket" where
  "mapped sid p = p\<lparr>rp_session_id := sid, rp_synthetic_session := False\<rparr>"

text \<open>A table in which the client of \<open>p\<close> is known as session \<open>sid\<close>, or a fresh one that will call it 1.\<close>

definition knows_client :: "M7MuxSessionState \<Rightarrow> M7MuxRecvPacket \<Rightarrow> u64 \<Rightarrow> bool" where
  "knows_client se p sid \<longleftrightarrow> (\<exists>i < length (se_sessions se). client_lookup se p = Some i \<and>
     ms_session_id (se_sessions se ! i) = sid)"

lemma client_lookup_update_same:
  assumes "client_lookup se p = Some i" "i < length (se_sessions se)"
    and "ms_active (f (se_sessions se ! i)) = ms_active (se_sessions se ! i)"
    "ms_client_session_id (f (se_sessions se ! i)) = ms_client_session_id (se_sessions se ! i)"
    "ms_wire_version (f (se_sessions se ! i)) = ms_wire_version (se_sessions se ! i)"
    "ms_wire_form (f (se_sessions se ! i)) = ms_wire_form (se_sessions se ! i)"
  shows "client_lookup (update_session i f se) p = Some i"
  using assms m7mux_session_find_by_client_Some [OF assms(1)]
  by (auto simp: m7mux_session_find_by_client_session_def update_session_def split: if_splits
      intro!: find_idx_update_same)

lemma ingest_known_client:
  assumes k: "knows_client se p sid" and own: "control_client_owned control"
  shows "\<exists>se'. m7mux_session_ingest se clock control p = (True, se', mapped sid p) \<and> knows_client se' p sid"
proof -
  obtain i where i: "i < length (se_sessions se)" "client_lookup se p = Some i"
    "ms_session_id (se_sessions se ! i) = sid" using k by (auto simp: knows_client_def)
  note f = m7mux_session_find_by_client_Some [OF i(2)]
  let ?se1 = "update_session i (session_refresh p) se"
  let ?se2 = "update_session i (m7mux_session_touch clock) ?se1"
  have reg: "m7mux_session_register se control p = (Some i, ?se1, p\<lparr>rp_session_id := sid\<rparr>)"
    using i own by (simp add: m7mux_session_register_def)
  have s1: "se_sessions ?se1 ! i = session_refresh p (se_sessions se ! i)"
    using i(1) by (simp add: update_session_nth)
  have "m7mux_session_ingest se clock control p = (True, ?se2, mapped sid p)"
    using f own by (simp add: m7mux_session_ingest_def reg s1 i(3) mapped_def Let_def)
  moreover have l1: "client_lookup ?se1 p = Some i"
    by (rule client_lookup_update_same [OF i(2,1)]) (use f in simp_all)
  have "client_lookup ?se2 p = Some i"
    by (rule client_lookup_update_same [OF l1]) (use i(1) in simp_all)
  moreover have "ms_session_id (se_sessions ?se2 ! i) = sid"
    using i by (simp add: update_session_nth)
  ultimately show ?thesis using i(1) by (auto simp: knows_client_def)
qed

lemma find_idx_replicate: "0 < n \<Longrightarrow> find_idx P (replicate n x) = (if P x then Some 0 else None)"
  by (cases n) (auto simp: find_idx_None)

lemma ingest_new_client:
  assumes own: "control_client_owned control" and nz: "rp_session_id p \<noteq> 0" "rp_wire_version p \<noteq> 0"
  shows "\<exists>se'. m7mux_session_ingest m7mux_session_state_init clock control p = (True, se', mapped 1 p) \<and>
    knows_client se' p 1"
proof -
  let ?se = m7mux_session_state_init
  have rep: "se_sessions ?se = replicate 64 zero_session" "se_next_session_id ?se = 1"
    by (simp_all add: m7mux_session_state_init_def M7MUX_SESSION_SESSION_CAPACITY_def)
  have none: "client_lookup ?se p = None"
    by (simp add: m7mux_session_find_by_client_session_def rep find_idx_replicate zero_session_def)
  have slot: "find_idx (\<lambda>s. \<not> ms_active s) (se_sessions ?se) = Some 0"
    by (simp add: rep find_idx_replicate zero_session_def)
  let ?s = "session_refresh p (zero_session\<lparr>ms_session_id := 1, ms_client_session_id := rp_session_id p,
      ms_active := True\<rparr>)"
  obtain se1 where c: "session_claim_slot ?se True p = (Some 0, se1, p\<lparr>rp_session_id := 1\<rparr>)"
    "se_sessions se1 = (se_sessions ?se)[0 := ?s]"
    using nz by (simp add: session_claim_slot_def slot rep(2) Let_def)
  have reg: "m7mux_session_register ?se control p = (Some 0, se1, p\<lparr>rp_session_id := 1\<rparr>)"
    using own none nz c(1) by (simp add: m7mux_session_register_def)
  have len: "length (se_sessions se1) = 64" by (simp add: c(2) rep)
  have s0: "se_sessions se1 ! 0 = ?s" by (simp add: c(2) rep)
  have l1: "client_lookup se1 p = Some 0"
    using nz by (simp add: m7mux_session_find_by_client_session_def c(2) rep find_idx_Some)
  let ?se2 = "update_session 0 (m7mux_session_touch clock) se1"
  have "m7mux_session_ingest ?se clock control p = (True, ?se2, mapped 1 p)"
    using own nz by (simp add: m7mux_session_ingest_def reg s0 mapped_def Let_def)
  moreover have "client_lookup ?se2 p = Some 0"
    by (rule client_lookup_update_same [OF l1]) (simp_all add: len)
  moreover have "ms_session_id (se_sessions ?se2 ! 0) = 1"
    by (simp add: update_session_nth len s0)
  ultimately show ?thesis by (auto simp: knows_client_def len)
qed

section \<open>The fragments arrive\<close>

text \<open>A client and a server whose keys belong together, over an OpenSSL that keeps its promises.\<close>

definition v4_pair :: "evp \<Rightarrow> SharedKnockCodecContext \<Rightarrow> SharedKnockCodecContext \<Rightarrow> bool" where
  "v4_pair E client server \<longleftrightarrow> gcm_lengths E \<and> gcm_inverts E \<and> rand_lengths E \<and>
     (\<exists>s1 pub s2 priv. cx_openssl_session client = Some s1 \<and> ss_public_key s1 = Some pub \<and>
        cx_openssl_session server = Some s2 \<and> ss_private_key s2 = Some priv \<and> rsa_pair E pub priv)"

definition fragment_bytes ::
  "evp \<Rightarrow> bool \<Rightarrow> SharedKnockCodecContext \<Rightarrow> SharedKnockNormalizedUnit \<Rightarrow> nat \<Rightarrow> nat \<Rightarrow> u8 list \<Rightarrow> bool" where
  "fragment_bytes E has client normal n i bytes \<longleftrightarrow> (\<exists>buf r r'.
     length buf = SHARED_KNOCK_CODEC_V4_FORM1_PACKET_MAX_SIZE \<and>
     shared_knock_codec_v4_encode E has (Some client) (v4_fragment normal i n) buf r = (Some bytes, r'))"

definition v4_registry ::
  "evp \<Rightarrow> bool \<Rightarrow> SharedKnockCodecContext \<Rightarrow> SharedKnockCodecState \<Rightarrow> SharedKnockCodecState registry" where
  "v4_registry E has context state =
     [(shared_knock_codec_v4_adapter E has (Some context) True True)\<lparr>ad_state := Some state\<rparr>]"

lemma v4_registry_ok:
  "adapters_ok (v4_registry E has server state)"
  "rp_wire_version p = SHARED_KNOCK_CODEC_V4_WIRE_VERSION \<Longrightarrow> releasable (v4_registry E has server state) p"
proof -
  show "adapters_ok (v4_registry E has server state)"
    by (simp add: adapters_ok_def v4_registry_def v4_adapter.codec_adapter_axioms)
  show "rp_wire_version p = SHARED_KNOCK_CODEC_V4_WIRE_VERSION \<Longrightarrow> releasable (v4_registry E has server state) p"
    by (simp add: v4_registry_def releasable_def m7mux_normalize_adapter_lookup_wire_version_def
        shared_knock_codec_v4_adapter_def)
qed

text \<open>A packet in the queue that stands for fragment \<open>i\<close>.\<close>

definition arrived ::
  "SharedKnockNormalizedUnit \<Rightarrow> nat \<Rightarrow> user_heap \<Rightarrow> nat \<Rightarrow> M7MuxRecvPacket \<Rightarrow> bool" where
  "arrived normal n h i q \<longleftrightarrow> (\<exists>u p hmac. q = mapped 1 p \<and> carries (v4_fragment normal i n) u p \<and>
     uh_cell h u = Some (user_block (v4_fragment normal i n) hmac))"

lemma v4_fragment_fields:
  "nu_session_id (v4_fragment normal i n) = nu_session_id normal"
  "nu_message_id (v4_fragment normal i n) = nu_message_id normal"
  "nu_stream_id (v4_fragment normal i n) = nu_stream_id normal"
  "nu_hmac (v4_fragment normal i n) = nu_hmac normal"
  "nu_fragment_index (v4_fragment normal i n) = word_of_nat i"
  "nu_fragment_count (v4_fragment normal i n) = word_of_nat n"
  "length (nu_payload (v4_fragment normal i n)) \<le> length (nu_payload normal)"
  by (simp_all add: v4_fragment_def Let_def slice_def)

lemma arrived_fields:
  assumes "arrived normal n h i q"
  shows "fragment_of 1 (nu_stream_id normal) (nu_message_id normal) (word_of_nat n) q"
    "rp_fragment_index q = word_of_nat i" "rp_wire_version q = SHARED_KNOCK_CODEC_V4_WIRE_VERSION"
    "\<exists>u. rp_user q = Some u \<and> u \<in> live h"
    "map_option ud_payload (user_of h q) = Some (nu_payload (v4_fragment normal i n))"
  using assms
  by (auto simp: arrived_def carries_def mapped_def fragment_of_def v4_fragment_fields live_def user_of_def
      user_block_def)

lemma arrived_mono:
  "arrived normal n h i q \<Longrightarrow> (\<And>u. u \<in> live h \<Longrightarrow> uh_cell h' u = uh_cell h u) \<Longrightarrow> arrived normal n h' i q"
  unfolding arrived_def live_def by (metis domI)

lemma normalize_fragment:
  assumes pair: "v4_pair E client server" and f: "fragment_bytes E has client normal n i (in_buffer x)"
    and len: "length (nu_hmac normal) = 32" "length (nu_payload normal) \<le> M7MUX_USER_DATA_PAYLOAD_MAX"
    and allowed: "m7mux_normalize_encryption_allowed g_ctx policy True" and oom: "\<not> uh_oom h (uh_next h)"
  obtains hmac p where "m7mux_normalize_packet g_ctx (v4_registry E has' server state) policy x control
      zero_recv h = (True, control\<lparr>ct_session_by_client := 1, ct_stream_type := 0\<rparr>, p,
      h\<lparr>uh_cell := (uh_cell h)(uh_next h \<mapsto> user_block (v4_fragment normal i n) hmac), uh_next := Suc (uh_next h)\<rparr>)"
    "carries (v4_fragment normal i n) (uh_next h) p"
proof -
  obtain s1 pub s2 priv where k: "gcm_lengths E" "gcm_inverts E" "rand_lengths E"
    "cx_openssl_session client = Some s1" "ss_public_key s1 = Some pub"
    "cx_openssl_session server = Some s2" "ss_private_key s2 = Some priv" "rsa_pair E pub priv"
    using pair unfolding v4_pair_def by blast
  obtain buf r r' where e: "length buf = SHARED_KNOCK_CODEC_V4_FORM1_PACKET_MAX_SIZE"
     "shared_knock_codec_v4_encode E has (Some client) (v4_fragment normal i n) buf r = (Some (in_buffer x), r')"
    using f unfolding fragment_bytes_def by blast
  have l: "length (nu_hmac (v4_fragment normal i n)) = 32"
    "length (nu_payload (v4_fragment normal i n)) \<le> M7MUX_USER_DATA_PAYLOAD_MAX"
    using len v4_fragment_fields(4,7) [of normal i n] by simp_all
  show ?thesis
    using normalize_v4 [OF k e(2,1) l refl allowed oom, where has' = has' and ?c1.0 = True and ?c2.0 = True
        and state = state and control = control] that
    unfolding v4_registry_def by blast
qed

lemma drain_head:
  assumes "ingress_ok ig" "ingress_items ig = x # xs"
  shows "\<exists>ig'. m7mux_ingress_drain ig = (Some x, ig') \<and> ingress_ok ig' \<and> ingress_items ig' = xs"
  using ingress_fifo.pop_head [OF assms] ingress_fifo.pop_items [OF assms] ingress_fifo.pop_ok [OF assms(1)]
  by (metis m7mux_ingress_drain_def prod.collapse)

lemma drain_empty:
  assumes "ingress_ok ig" "ingress_items ig = []"
  shows "\<exists>ig'. m7mux_ingress_drain ig = (None, ig')"
  using ingress_fifo.pop_empty [OF assms] by (metis m7mux_ingress_drain_def prod.collapse)

lemma mapped_simps [simp]:
  "rp_user (mapped sid p) = rp_user p" "rp_wire_version (mapped sid p) = rp_wire_version p"
  "rp_session_id (mapped sid p) = sid" "rp_fragment_index (mapped sid p) = rp_fragment_index p"
  by (simp_all add: mapped_def)

text \<open>What holds of the server when the fragments \<open>js\<close> have arrived, as the packets \<open>Q\<close>.\<close>

definition halfway ::
  "'cs registry \<Rightarrow> SharedKnockNormalizedUnit \<Rightarrow> nat \<Rightarrow> M7MuxSessionState \<Rightarrow> M7MuxStreamState \<Rightarrow> user_heap \<Rightarrow>
   nat list \<Rightarrow> M7MuxRecvPacket list \<Rightarrow> bool" where
  "halfway reg normal n se sm h js Q \<longleftrightarrow>
     stream_ok reg sm \<and> heap_ok h \<and> slot_users sm \<subseteq> live h \<and> (\<forall>k. \<not> uh_oom h k) \<and>
     occupied sm = mset (map queued_form Q) \<and> list_all2 (arrived normal n h) js Q \<and> users_distinct Q \<and>
     (if js = [] then se = m7mux_session_state_init \<and> idle sm 1 (nu_stream_id normal)
      else (\<forall>p. rp_session_id p = nu_session_id normal \<longrightarrow>
             rp_wire_version p = SHARED_KNOCK_CODEC_V4_WIRE_VERSION \<longrightarrow>
             rp_wire_form p = SHARED_KNOCK_CODEC_FORM1_ID \<longrightarrow> knows_client se p 1) \<and>
           expecting sm 1 (nu_stream_id normal) (nu_message_id normal) (word_of_nat n) 0)"

lemma knows_client_key:
  "rp_session_id p = rp_session_id q \<Longrightarrow> rp_wire_version p = rp_wire_version q \<Longrightarrow>
   rp_wire_form p = rp_wire_form q \<Longrightarrow> knows_client se p sid \<longleftrightarrow> knows_client se q sid"
  by (simp add: knows_client_def)

lemma packet_users_arrived:
  "list_all2 (arrived normal n h) js Q \<Longrightarrow> packet_users Q \<subseteq> live h"
  by (fastforce simp: packet_users_def list_all2_conv_all_nth in_set_conv_nth dest: arrived_fields(4))

lemma index_inj: "i < n \<Longrightarrow> j < n \<Longrightarrow> n < 2 ^ 32 \<Longrightarrow> (word_of_nat i :: u32) = word_of_nat j \<longleftrightarrow> i = j"
  by (metis order.strict_trans unat_len_u32)

lemma users_distinct_snoc:
  "users_distinct Q \<Longrightarrow> rp_user q = Some u \<Longrightarrow> u \<notin> packet_users Q \<Longrightarrow> users_distinct (Q @ [q])"
  using users_distinct_perm [OF users_distinct_ConsI [of Q q], of "Q @ [q]"] by simp

lemma halfway_step:
  assumes hw: "halfway (v4_registry E has server state) normal n se sm h js Q"
    and c: "carries (v4_fragment normal i n) (uh_next h) p"
    and h1: "h1 = h\<lparr>uh_cell := (uh_cell h)(uh_next h \<mapsto> user_block (v4_fragment normal i n) hmac), uh_next := Suc (uh_next h)\<rparr>"
    and own: "control_client_owned control"
    and ids: "nu_session_id normal \<noteq> 0" "nu_stream_id normal \<noteq> 0" "nu_message_id normal \<noteq> 0"
    and num: "1 < n" "n \<le> M7MUX_STREAM_READY_QUEUE_CAPACITY" "i < n" "\<forall>j \<in> set js. j < n \<and> j \<noteq> i" "length js < n"
  shows "\<exists>se' sm'. m7mux_session_ingest se clock control p = (True, se', mapped 1 p) \<and>
    m7mux_stream_ingest (v4_registry E has server state) sm (mapped 1 p) h1 = (True, sm', h1) \<and>
    halfway (v4_registry E has server state) normal n se' sm' h1 (js @ [i]) (Q @ [mapped 1 p])"
proof -
  let ?reg = "v4_registry E has server state"
  let ?q = "mapped 1 p" and ?s = "nu_stream_id normal" and ?m = "nu_message_id normal" and ?n = "word_of_nat n :: u32"
  note hwd = hw [unfolded halfway_def]
  have key: "rp_session_id p = nu_session_id normal" "rp_wire_version p = SHARED_KNOCK_CODEC_V4_WIRE_VERSION"
    "rp_wire_form p = SHARED_KNOCK_CODEC_FORM1_ID" "rp_user p = Some (uh_next h)"
    using c by (simp_all add: carries_def v4_fragment_fields)
  have "\<exists>se'. m7mux_session_ingest se clock control p = (True, se', ?q) \<and> knows_client se' p 1"
  proof (cases "js = []")
    case True
    then show ?thesis
      using hwd ingest_new_client [OF own, of p clock] key ids by (auto simp: SHARED_KNOCK_CODEC_V4_WIRE_VERSION_def)
  next
    case False
    then have "knows_client se p 1" using hwd key by simp
    then show ?thesis by (rule ingest_known_client [OF _ own])
  qed
  then obtain se' where se: "m7mux_session_ingest se clock control p = (True, se', ?q)" "knows_client se' p 1" by blast
  have next_free: "uh_cell h (uh_next h) = None" using hwd by (auto simp: heap_ok_def)
  have fresh: "uh_next h \<notin> live h" using next_free by (auto simp: live_def)
  have hp: "heap_ok h1" "live h1 = insert (uh_next h) (live h)" "\<forall>k. \<not> uh_oom h1 k"
    "\<And>u. u \<in> live h \<Longrightarrow> uh_cell h1 u = uh_cell h u"
    using hwd fresh by (auto simp: h1 heap_ok_def live_def)
  have arr: "arrived normal n h1 i ?q"
    unfolding arrived_def
    by (intro exI [of _ "uh_next h"] exI [of _ p] exI [of _ hmac]) (simp add: h1 c)
  note qf = arrived_fields [OF arr]
  have small: "n < 2 ^ 32" using num(2) by (simp add: M7MUX_STREAM_READY_QUEUE_CAPACITY_def)
  have n1: "1 < ?n" using num(1) small by (simp add: word_less_nat_alt unat_len_u32)
  have len: "length (sm_ready_queue sm) = M7MUX_STREAM_READY_QUEUE_CAPACITY"
    using hwd by (simp add: stream_ok_def queue_ok_def)
  have lQ: "length Q < M7MUX_STREAM_READY_QUEUE_CAPACITY"
    using hwd num(2,5) by (auto dest: list_all2_lengthD)
  have new: "\<forall>q \<in> set Q. rp_fragment_index q \<noteq> rp_fragment_index ?q"
  proof
    fix q assume "q \<in> set Q"
    then obtain k where k: "k < length Q" "q = Q ! k" by (auto simp: in_set_conv_nth)
    have "length js = length Q" using hwd by (auto dest: list_all2_lengthD)
    then have "arrived normal n h (js ! k) q" "js ! k \<in> set js"
      using hwd k by (auto simp: list_all2_conv_all_nth)
    then show "rp_fragment_index q \<noteq> rp_fragment_index ?q"
      using arrived_fields(2) qf(2) num(3,4) small index_inj [of "js ! k" n i] by auto
  qed
  have ready: "idle sm 1 ?s \<or> expecting sm 1 ?s ?m ?n 0" using hwd by (auto split: if_splits)
  obtain b sm' h2 where ing: "m7mux_stream_ingest ?reg sm ?q h1 = (b, sm', h2)" by (metis prod_cases3)
  have occ: "occupied sm = mset (map queued_form Q)" using hwd by blast
  have one: "b \<and> expecting sm' 1 ?s ?m ?n 0 \<and> occupied sm' = mset (map queued_form (Q @ [?q]))"
    using ingest_fragment [OF qf(1) _ ids(2,3) n1 ready len occ lQ new ing] by simp
  have sok: "stream_ok ?reg sm' \<and> h2 = h1 \<and> slot_users sm' = slot_users sm \<union> (if b then set_option (rp_user ?q) else {})"
    by (rule stream_ingest_ok [OF _ ing])
      (use hwd fresh key in \<open>auto simp: v4_registry_ok(2)\<close>)
  have all: "list_all2 (arrived normal n h1) (js @ [i]) (Q @ [?q])"
    using hwd arr arrived_mono [OF _ hp(4)] by (auto simp: list_all2_appendI list_all2_mono)
  have "packet_users Q \<subseteq> live h" using hwd by (auto dest: packet_users_arrived)
  then have "users_distinct (Q @ [?q])"
    using users_distinct_snoc [of Q ?q "uh_next h"] hwd key(4) fresh by auto
  moreover have "\<forall>p'. rp_session_id p' = nu_session_id normal \<longrightarrow>
      rp_wire_version p' = SHARED_KNOCK_CODEC_V4_WIRE_VERSION \<longrightarrow>
      rp_wire_form p' = SHARED_KNOCK_CODEC_FORM1_ID \<longrightarrow> knows_client se' p' 1"
    using se(2) key knows_client_key by metis
  moreover have "slot_users sm' \<subseteq> live h1" using sok one hwd hp(2) key(4) by auto
  ultimately have "halfway ?reg normal n se' sm' h1 (js @ [i]) (Q @ [?q])"
    unfolding halfway_def using sok one hp all by simp
  moreover have "m7mux_stream_ingest ?reg sm ?q h1 = (True, sm', h1)" using ing one sok by simp
  ultimately show ?thesis using se(1) by blast
qed

lemma deliver_loop:
  fixes normal :: SharedKnockNormalizedUnit and n :: nat
  assumes pair: "v4_pair E client server"
    and len: "length (nu_hmac normal) = 32" "length (nu_payload normal) \<le> M7MUX_USER_DATA_PAYLOAD_MAX"
    and ids: "nu_session_id normal \<noteq> 0" "nu_stream_id normal \<noteq> 0" "nu_message_id normal \<noteq> 0"
    and num: "1 < n" "n \<le> M7MUX_STREAM_READY_QUEUE_CAPACITY"
    and "list_all2 (\<lambda>i x. fragment_bytes E has client normal n i (in_buffer x)) is (ingress_items (mu_ingress st))"
    and "ingress_ok (mu_ingress st)" "distinct (js @ is)" "set (js @ is) \<subseteq> {..<n}"
    and "m7mux_normalize_encryption_allowed g_ctx (mu_policy_enforce_encryption st) True"
    and "halfway (v4_registry E has' server state) normal n (mu_session st) (mu_stream st) h js Q"
  shows "\<exists>did' st' control' h' Q'.
    inbox_drain_loop g_ctx (v4_registry E has' server state) clock k did st control h =
      (True, did', st', control', h') \<and>
    halfway (v4_registry E has' server state) normal n (mu_session st') (mu_stream st') h' (js @ is) Q'"
  using assms(9-)
proof (induction "is" arbitrary: st h js Q k did control)
  case Nil
  then have "ingress_items (mu_ingress st) = []" by simp
  with Nil.prems(2) obtain ig where "m7mux_ingress_drain (mu_ingress st) = (None, ig)"
    using drain_empty by blast
  with Nil.prems(6) show ?case by (subst inbox_drain_loop.simps) auto
next
  case (Cons i "is")
  let ?reg = "v4_registry E has' server state"
  obtain x xs where items: "ingress_items (mu_ingress st) = x # xs"
    and f: "fragment_bytes E has client normal n i (in_buffer x)"
    and rest: "list_all2 (\<lambda>i x. fragment_bytes E has client normal n i (in_buffer x)) is xs"
    using Cons.prems(1) by (auto simp: list_all2_Cons1)
  obtain ig where dr: "m7mux_ingress_drain (mu_ingress st) = (Some x, ig)" "ingress_ok ig" "ingress_items ig = xs"
    using drain_head [OF Cons.prems(2) items] by blast
  have oom: "\<not> uh_oom h (uh_next h)" using Cons.prems(6) by (simp add: halfway_def)
  define control1 where "control1 = control\<lparr>ct_session_by_client := 1, ct_stream_type := 0\<rparr>"
  obtain hmac p h1 where nm: "m7mux_normalize_packet g_ctx ?reg (mu_policy_enforce_encryption st) x control
      zero_recv h = (True, control1, p, h1)"
    and h1: "h1 = h\<lparr>uh_cell := (uh_cell h)(uh_next h \<mapsto> user_block (v4_fragment normal i n) hmac), uh_next := Suc (uh_next h)\<rparr>"
    and c: "carries (v4_fragment normal i n) (uh_next h) p"
    unfolding control1_def using normalize_fragment [OF pair f len Cons.prems(5) oom] by metis
  have own: "control_client_owned (Some control1)" by (simp add: control_client_owned_def control1_def)
  have dist: "distinct js" "i \<notin> set js" "set js \<subseteq> {..<n}" "i < n" using Cons.prems(3,4) by auto
  have "length js < n"
  proof -
    have "card (insert i (set js)) \<le> card {..<n}" using dist by (intro card_mono) auto
    then show ?thesis using dist by (simp add: distinct_card)
  qed
  then obtain se' sm' where se: "m7mux_session_ingest (mu_session st) (clock k) (Some control1) p = (True, se', mapped 1 p)"
    and sm: "m7mux_stream_ingest ?reg (mu_stream st) (mapped 1 p) h1 = (True, sm', h1)"
    and hw: "halfway ?reg normal n se' sm' h1 (js @ [i]) (Q @ [mapped 1 p])"
    using halfway_step [OF Cons.prems(6) c h1 own ids num dist(4)] dist by blast
  let ?st = "st\<lparr>mu_ingress := ig, mu_session := se', mu_stream := sm'\<rparr>"
  have step: "inbox_drain_loop g_ctx ?reg clock k did st control h =
      inbox_drain_loop g_ctx ?reg clock (k + 1) True ?st control1 h1"
    by (subst inbox_drain_loop.simps) (simp add: dr(1) nm se sm)
  have "\<exists>did' st' control' h' Q'. inbox_drain_loop g_ctx ?reg clock (k + 1) True ?st control1 h1 =
      (True, did', st', control', h') \<and>
    halfway ?reg normal n (mu_session st') (mu_stream st') h' ((js @ [i]) @ is) Q'"
    by (rule Cons.IH) (use rest dr Cons.prems(3,4,5) hw in simp_all)
  then show ?case unfolding step by simp
qed

section \<open>The fragments leave\<close>

lemma halfway_drains:
  assumes hw: "halfway (v4_registry E has server state) normal n se sm h js Q"
    and num: "1 < n" "n \<le> M7MUX_STREAM_READY_QUEUE_CAPACITY" "mset js = mset [0..<n]"
    and ids: "nu_stream_id normal \<noteq> 0" "nu_message_id normal \<noteq> 0"
  shows "\<exists>rs st' h'. stream_drains (v4_registry E has server state) n sm h = (rs, st', h') \<and>
    length rs = n \<and> occupied st' = {#} \<and>
    (\<forall>i < n. rp_fragment_index (fst (rs ! i)) = word_of_nat i \<and> rp_session_id (fst (rs ! i)) = 1 \<and>
       map_option ud_payload (snd (rs ! i)) = Some (nu_payload (v4_fragment normal i n)))"
proof -
  let ?reg = "v4_registry E has server state"
  let ?ix = "\<lambda>p. unat (rp_fragment_index p)"
  let ?R = "sort_key ?ix Q"
  note hwd = hw [unfolded halfway_def]
  have small: "n < 2 ^ 32" using num(2) by (simp add: M7MUX_STREAM_READY_QUEUE_CAPACITY_def)
  have un: "unat (word_of_nat n :: u32) = n" by (rule unat_len_u32 [OF small])
  have n1: "1 < (word_of_nat n :: u32)" using num(1) un by (simp add: word_less_nat_alt)
  have lj: "length js = n" using num(3) by (metis diff_zero length_upt size_mset)
  then have ne: "js \<noteq> []" using num(1) by auto
  have la: "list_all2 (arrived normal n h) js Q" using hwd by blast
  have lQ: "length Q = n" using la lj by (auto dest: list_all2_lengthD)
  have jn: "j < n" if "j \<in> set js" for j
    using that num(3) by (metis atLeastLessThan_iff mset_eq_setD set_upt)
  have at: "arrived normal n h (js ! i) (Q ! i) \<and> js ! i < 2 ^ 32" if "i < n" for i
    using that la lj lQ small jn [of "js ! i"] by (simp add: list_all2_conv_all_nth)
  have ixs: "map ?ix Q = js"
    by (rule nth_equalityI)
      (use at lj lQ in \<open>auto simp: arrived_fields(2) [OF conjunct1 [OF at]] unat_len_u32\<close>)
  have sorted: "?ix (?R ! i) = i" if "i < n" for i
    using sorted_indices [of ?ix Q i] that ixs num(3) lQ by simp
  have mem: "\<exists>j \<in> set js. arrived normal n h j q" if "q \<in> set ?R" for q
    using that la by (auto simp: in_set_conv_nth list_all2_conv_all_nth) (metis nth_mem)
  have arr: "arrived normal n h i (?R ! i)" if i: "i < n" for i
  proof -
    obtain j where j: "j \<in> set js" "arrived normal n h j (?R ! i)"
      using mem [of "?R ! i"] i lQ by (metis length_sort nth_mem)
    have "?ix (?R ! i) = j"
      using arrived_fields(2) [OF j(2)] jn [OF j(1)] small by (simp add: unat_len_u32)
    with sorted [OF i] j(2) show ?thesis by simp
  qed
  have hd0: "rp_fragment_index (hd ?R) = 0"
  proof -
    have "?R \<noteq> []" using lQ num(1) by (metis length_0_conv length_sort not_less_zero)
    then have "hd ?R = ?R ! 0" by (rule hd_conv_nth)
    with sorted [of 0] num(1) show ?thesis by (simp add: unat_eq_0)
  qed
  have hw5: "stream_ok ?reg sm" "heap_ok h" "slot_users sm \<subseteq> live h" "occupied sm = mset (map queued_form Q)"
    "users_distinct Q" using hwd by blast+
  have ex: "expecting sm 1 (nu_stream_id normal) (nu_message_id normal) (word_of_nat n) 0" using hwd ne by simp
  have "\<exists>st' h'. stream_drains ?reg (length ?R) sm h =
      (map (\<lambda>p. (delivered_form p, user_of h p)) ?R, st', h') \<and> stream_ok ?reg st' \<and> occupied st' = {#}"
  proof (rule drain_fragments [OF v4_registry_ok(1) _ ids(2) n1 hw5(1-3), where k = 0])
    show "\<forall>x \<in> set ?R. fragment_of 1 (nu_stream_id normal) (nu_message_id normal) (word_of_nat n) x"
      using mem arrived_fields(1) by blast
    show "users_distinct ?R" using hw5(5) by (rule users_distinct_perm) simp
    show "occupied sm = mset (map queued_form ?R)" using hw5(4) by simp
    show "\<forall>j < length ?R. ?ix (?R ! j) = 0 + j" using sorted lQ by simp
    show "unat (word_of_nat n :: u32) = 0 + length ?R" using un lQ by simp
    show "expecting sm 1 (nu_stream_id normal) (nu_message_id normal) (word_of_nat n) (rp_fragment_index (hd ?R))"
      using ex hd0 by simp
  qed simp
  then obtain st' h' where d: "stream_drains ?reg n sm h = (map (\<lambda>p. (delivered_form p, user_of h p)) ?R, st', h')"
    "occupied st' = {#}" using lQ by auto
  show ?thesis
  proof (intro exI conjI)
    show "stream_drains ?reg n sm h = (map (\<lambda>p. (delivered_form p, user_of h p)) ?R, st', h')" by (rule d(1))
    show "length (map (\<lambda>p. (delivered_form p, user_of h p)) ?R) = n" using lQ by simp
    show "\<forall>i < n. rp_fragment_index (fst (map (\<lambda>p. (delivered_form p, user_of h p)) ?R ! i)) = word_of_nat i \<and>
        rp_session_id (fst (map (\<lambda>p. (delivered_form p, user_of h p)) ?R ! i)) = 1 \<and>
        map_option ud_payload (snd (map (\<lambda>p. (delivered_form p, user_of h p)) ?R ! i)) =
          Some (nu_payload (v4_fragment normal i n))"
      using arr arrived_fields(1,2,5) lQ by (simp add: delivered_form_def fragment_of_def) blast
  qed (rule d(2))
qed

section \<open>The fragments are sent\<close>

lemma adapter_encode_fragment_bytes:
  assumes "shared_knock_codec_v4_adapter_encode_fragment E has (Some client) st
      (send\<lparr>sp_fragment_index := a, sp_fragment_count := b\<rparr>) i n r = (Some e, r')"
    and "shared_knock_codec_v4_copy_send_packet send = Some normal" "0 < n"
  shows "fragment_bytes E has client normal n i (eg_egress_buffer e)"
proof -
  let ?u = "normal\<lparr>nu_complete := unit_final a b, nu_fragment_index := a, nu_fragment_count := b\<rparr>"
  have cp: "shared_knock_codec_v4_copy_send_packet (send\<lparr>sp_fragment_index := a, sp_fragment_count := b\<rparr>) = Some ?u"
    using assms(2) by (auto simp: shared_knock_codec_v4_copy_send_packet_def split: option.splits if_splits)
  have fr: "v4_fragment ?u i k = v4_fragment normal i k" for k by (simp add: v4_fragment_def Let_def)
  let ?buf = "replicate SHARED_KNOCK_CODEC_V4_FORM1_PACKET_MAX_SIZE 0 :: u8 list"
  obtain bytes r1 where en: "shared_knock_codec_v4_encode_fragment E has (Some client) ?u i n ?buf r = (Some bytes, r1)"
    and fe: "m7mux_normalize_adapter_fill_egress (send\<lparr>sp_fragment_index := a, sp_fragment_count := b\<rparr>) bytes = Some e"
    using assms(1) cp
    by (auto simp: shared_knock_codec_v4_adapter_encode_fragment_def split: prod.splits option.splits)
  have eb: "eg_egress_buffer e = bytes"
    using fe by (auto simp: m7mux_normalize_adapter_fill_egress_def split: if_splits)
  have "shared_knock_codec_v4_count_fragments ?u n \<noteq> 0"
    "shared_knock_codec_v4_encode E has (Some client)
       (v4_fragment ?u i (shared_knock_codec_v4_count_fragments ?u n)) ?buf r = (Some bytes, r1)"
    using en by (auto simp: shared_knock_codec_v4_encode_fragment_def Let_def split: if_splits)
  with v4_count_fragments_enough(2) [OF refl, of ?u n] assms(3)
  have "shared_knock_codec_v4_encode E has (Some client) (v4_fragment normal i n) ?buf r = (Some bytes, r1)"
    by (simp add: fr)
  then show ?thesis
    unfolding fragment_bytes_def eb by (metis length_replicate)
qed

lemma encode_fragments_nth:
  assumes "outbox_encode_fragments enc send m forced is r = (Some es, r')"
  shows "length es = length is \<and> (\<forall>k < length is. \<exists>r1 r2.
    enc (send\<lparr>sp_fragment_index := of_nat (is ! k), sp_fragment_count := of_nat m\<rparr>) (is ! k) forced r1 = (Some (es ! k), r2))"
  using assms
proof (induction "is" arbitrary: r es r')
  case Nil
  then show ?case by simp
next
  case (Cons i "is")
  obtain e r1 es' r2 where e: "enc (send\<lparr>sp_fragment_index := of_nat i, sp_fragment_count := of_nat m\<rparr>) i forced r = (Some e, r1)"
    "outbox_encode_fragments enc send m forced is r1 = (Some es', r2)" "es = e # es'"
    using Cons.prems by (auto simp: Let_def split: prod.splits option.splits)
  from e(1) Cons.IH [OF e(2)] show ?case
    by (auto simp: e(3) less_Suc_eq_0_disj)
qed

lemma stage_fragments_bytes:
  assumes st: "m7mux_outbox_stage_fragments (v4_registry E has client cst) c cm send n r = (True, cm1, r1)"
    and cp: "shared_knock_codec_v4_copy_send_packet send = Some normal" and num: "1 < n"
    and ok: "egress_ok (mu_egress cm)" and empty: "egress_items (mu_egress cm) = []"
  shows "\<exists>es. egress_items (mu_egress cm1) = map egress_stored es \<and> egress_ok (mu_egress cm1) \<and> length es = n \<and>
    (\<forall>i < n. fragment_bytes E has client normal n i (eg_egress_buffer (es ! i)))"
proof -
  let ?a = "(shared_knock_codec_v4_adapter E has (Some client) True True)\<lparr>ad_state := Some cst\<rparr>"
  let ?enc = "shared_knock_codec_v4_adapter_encode_fragment E has (Some client) (Some cst)"
  have enc: "ad_encode_fragment ?a = Some (shared_knock_codec_v4_adapter_encode_fragment E has (Some client))"
    "ad_state ?a = Some cst" by (simp_all add: shared_knock_codec_v4_adapter_def)
  have com: "m7mux_outbox_stage_common (v4_registry E has client cst) c cm send n r = (True, cm1, r1)"
    using st num by (simp add: m7mux_outbox_stage_fragments_def)
  have sel: "m7mux_outbox_select_adapter (v4_registry E has client cst) send = Some ?a"
    using com
    by (auto simp: m7mux_outbox_stage_common_def m7mux_outbox_select_adapter_def v4_registry_def
        m7mux_normalize_adapter_lookup_wire_version_def split: if_splits)
  have cnt: "es_count (mu_egress cm) = 0" using empty egress_items_Nil by blast
  obtain es where en: "outbox_encode_fragments ?enc send n n [0..<n] r = (Some es, r1)"
    and sa: "outbox_stage_all cm es = (True, cm1)" and fit: "n \<le> M7MUX_EGRESS_QUEUE_CAPACITY"
    using com num
    by (auto simp: m7mux_outbox_stage_common_def sel enc cnt Let_def split: if_splits option.splits prod.splits)
  note nth = encode_fragments_nth [OF en]
  have fits: "\<forall>e \<in> set es. egress_fits e"
  proof
    fix e assume "e \<in> set es"
    then obtain k where "k < n" "e = es ! k" using nth by (auto simp: in_set_conv_nth)
    then obtain r1 r2 where "?enc (send\<lparr>sp_fragment_index := of_nat ([0..<n] ! k), sp_fragment_count := of_nat n\<rparr>)
        ([0..<n] ! k) n r1 = (Some e, r2)" using nth by auto
    then show "egress_fits e"
      using fill_egress_fits
      by (auto simp: egress_fits_def shared_knock_codec_v4_adapter_encode_fragment_def split: prod.splits option.splits)
  qed
  have le: "length es = n" using nth by simp
  obtain st' where "outbox_stage_all cm es = (True, st')" "egress_ok (mu_egress st')"
    "egress_items (mu_egress st') = egress_items (mu_egress cm) @ map egress_stored es"
    using stage_all_spec [OF ok fits] cnt le fit by auto
  with sa empty have q: "egress_items (mu_egress cm1) = map egress_stored es" "egress_ok (mu_egress cm1)" by simp_all
  have "fragment_bytes E has client normal n i (eg_egress_buffer (es ! i))" if "i < n" for i
    using nth that adapter_encode_fragment_bytes [OF _ cp, of E has client "Some cst"] num by fastforce
  with q le show ?thesis by blast
qed

lemma fragment_bytes_nonempty:
  assumes "v4_pair E client server" "fragment_bytes E has client normal n i bytes" "length (nu_hmac normal) = 32"
  shows "bytes \<noteq> []"
proof -
  obtain buf r r' where e: "length buf = SHARED_KNOCK_CODEC_V4_FORM1_PACKET_MAX_SIZE"
     "shared_knock_codec_v4_encode E has (Some client) (v4_fragment normal i n) buf r = (Some bytes, r')"
    using assms(2) unfolding fragment_bytes_def by blast
  have "gcm_lengths E" "rand_lengths E" using assms(1) by (simp_all add: v4_pair_def)
  from v4_encode_Some [OF this e(2,1)] assms(3) show ?thesis
    by (auto simp: v4_fragment_fields v4_header_def write_u32_be_def)
qed

lemma flush_spec_all:
  "\<forall>e \<in> set es. eg_egress_buffer e \<noteq> [] \<Longrightarrow> flush_spec es (replicate (length es) True) =
    (map (\<lambda>e. (eg_ip e, eg_client_port e, eg_egress_buffer e)) es, [])"
  by (induction es) auto

lemma mset_map_obtains:
  assumes "mset ys = image_mset f M"
  shows "\<exists>xs. mset xs = M \<and> ys = map f xs"
  using assms
proof (induction ys arbitrary: M)
  case Nil
  then show ?case by simp
next
  case (Cons y ys)
  then obtain a M1 where "M = add_mset a M1" "f a = y" "image_mset f M1 = mset ys"
    using msed_map_invR [of f M y "mset ys"] by auto
  with Cons.IH [of M1] show ?case by (metis list.simps(9) mset.simps(2))
qed

section \<open>From the client's payload to the server's\<close>

text \<open>A new server connection that has received the datagrams of \<open>ig\<close>.\<close>

definition listening :: "M7MuxIngressState \<Rightarrow> M7MuxState" where
  "listening ig = (m7mux_outbox_state_init (m7mux_inbox_state_init zero_mux))\<lparr>mu_ingress := ig\<rparr>"

lemma listening_halfway:
  assumes "nu_stream_id normal \<noteq> 0"
  shows "halfway reg normal n (mu_session (listening ig)) (mu_stream (listening ig)) (empty_heap (\<lambda>_. False)) [] []"
proof -
  let ?sm = "m7mux_stream_state_init\<lparr>sm_adapter_lib := True\<rparr>"
  have sm: "mu_stream (listening ig) = ?sm" "mu_session (listening ig) = m7mux_session_state_init"
    by (simp_all add: listening_def m7mux_outbox_state_init_def m7mux_inbox_state_init_def
        m7mux_inbox_configure_stream_adapter_def)
  have "idle ?sm 1 (nu_stream_id normal)" using assms by (intro fresh_stream_idle) simp_all
  moreover have "occupied ?sm = {#}"
    by (simp add: occupied_def m7mux_stream_state_init_def)
  ultimately show ?thesis
    using stream_init_ok
    by (simp add: halfway_def sm heap_ok_empty users_distinct_def empty_heap_def [THEN arg_cong [where f = uh_oom]])
qed

lemma message_delivery:
  assumes pair: "v4_pair E client server"
    and cp: "shared_knock_codec_v4_copy_send_packet send = Some normal"
    and len: "length (nu_hmac normal) = 32" "length (nu_payload normal) \<le> M7MUX_USER_DATA_PAYLOAD_MAX"
    and ids: "nu_session_id normal \<noteq> 0" "nu_stream_id normal \<noteq> 0" "nu_message_id normal \<noteq> 0"
    and num: "1 < n" "n \<le> M7MUX_STREAM_READY_QUEUE_CAPACITY"
    and client: "egress_ok (mu_egress cm)" "egress_items (mu_egress cm) = []"
    and stage: "m7mux_outbox_stage_fragments (v4_registry E has client cst) c cm send n r = (True, cm1, r1)"
    and flush: "flush_egress g_c (mu_egress cm1) sock now (replicate n True) = (k, eg, rest, sent)" "0 \<le> sock" "mx_udp g_c"
    and net: "ingress_ok ig" "mset (map in_buffer (ingress_items ig)) = mset (map (\<lambda>(ip, port, bytes). bytes) sent)"
  shows "\<exists>did sm control h rs st' h'.
    inbox_drain_loop g_s (v4_registry E has' server sst) clock 0 False (listening ig) zero_control (empty_heap (\<lambda>_. False)) =
      (True, did, sm, control, h) \<and>
    stream_drains (v4_registry E has' server sst) n (mu_stream sm) h = (rs, st', h') \<and> length rs = n \<and>
    concat (map (\<lambda>(p, u). case u of None \<Rightarrow> [] | Some d \<Rightarrow> ud_payload d) rs) = nu_payload normal"
proof -
  let ?reg = "v4_registry E has' server sst"
  obtain es where es: "egress_items (mu_egress cm1) = map egress_stored es" "egress_ok (mu_egress cm1)" "length es = n"
    "\<forall>i < n. fragment_bytes E has client normal n i (eg_egress_buffer (es ! i))"
    using stage_fragments_bytes [OF stage cp num(1) client] by blast
  have ne: "\<forall>e \<in> set (map egress_stored es). eg_egress_buffer e \<noteq> []"
  proof -
    have "\<forall>i < n. eg_egress_buffer (es ! i) \<noteq> []" using es(4) fragment_bytes_nonempty [OF pair _ len(1)] by metis
    then show ?thesis using es(3) by (auto simp: in_set_conv_nth egress_stored_def)
  qed
  have "sent = map (\<lambda>e. (eg_ip e, eg_client_port e, eg_egress_buffer e)) (map egress_stored es)"
    using flush_egress_loop_spec [OF es(2), where n = 0 and sent = "[]" and sends = "replicate n True"] flush flush_spec_all [OF ne]
    by (auto simp: flush_egress_def es(1,3))
  then have "map (\<lambda>(ip, port, bytes). bytes) sent = map (\<lambda>i. eg_egress_buffer (es ! i)) [0..<n]"
    using es(3) by (auto simp: egress_stored_def intro: nth_equalityI)
  then have "mset (map in_buffer (ingress_items ig)) = image_mset (\<lambda>i. eg_egress_buffer (es ! i)) (mset [0..<n])"
    using net(2) by (metis mset_map)
  then obtain "is" where perm: "mset is = mset [0..<n]" "map in_buffer (ingress_items ig) = map (\<lambda>i. eg_egress_buffer (es ! i)) is"
    using mset_map_obtains by meson
  have dist: "distinct is" "set is \<subseteq> {..<n}"
    using mset_eq_imp_distinct_iff [OF perm(1)] mset_eq_setD [OF perm(1)] by auto
  have arrive: "list_all2 (\<lambda>i x. fragment_bytes E has client normal n i (in_buffer x)) is (ingress_items (mu_ingress (listening ig)))"
  proof -
    have lens: "length is = length (ingress_items ig)" using perm(2) by (metis length_map)
    have "in_buffer (ingress_items ig ! j) = eg_egress_buffer (es ! (is ! j)) \<and> is ! j < n" if "j < length is" for j
      using that perm(2) lens dist(2) by (metis lessThan_iff nth_map nth_mem subsetD)
    then show ?thesis using es(4) lens by (simp add: list_all2_conv_all_nth listening_def)
  qed
  have "m7mux_normalize_encryption_allowed g_s (mu_policy_enforce_encryption (listening ig)) True"
    by (simp add: m7mux_normalize_encryption_allowed_def split: M7MuxPolicyEnforceEncryption.split)
      (simp add: listening_def m7mux_outbox_state_init_def m7mux_inbox_state_init_def
        m7mux_inbox_configure_stream_adapter_def zero_mux_def)
  then have "\<exists>did sm control h Q. inbox_drain_loop g_s ?reg clock 0 False (listening ig) zero_control
      (empty_heap (\<lambda>_. False)) = (True, did, sm, control, h) \<and>
    halfway ?reg normal n (mu_session sm) (mu_stream sm) h ([] @ is) Q"
    by (intro deliver_loop [OF pair len ids num arrive])
      (use net(1) dist listening_halfway [OF ids(2)] in \<open>simp_all add: listening_def\<close>)
  then obtain did sm control h Q where loop: "inbox_drain_loop g_s ?reg clock 0 False (listening ig) zero_control
      (empty_heap (\<lambda>_. False)) = (True, did, sm, control, h)"
    and hw: "halfway ?reg normal n (mu_session sm) (mu_stream sm) h is Q" by auto
  obtain rs st' h' where d: "stream_drains ?reg n (mu_stream sm) h = (rs, st', h')" "length rs = n"
    "\<forall>i < n. map_option ud_payload (snd (rs ! i)) = Some (nu_payload (v4_fragment normal i n))"
    using halfway_drains [OF hw num perm(1) ids(2,3)] by blast
  have "map (\<lambda>(p, u). case u of None \<Rightarrow> [] | Some d \<Rightarrow> ud_payload d) rs = map (\<lambda>i. nu_payload (v4_fragment normal i n)) [0..<n]"
    by (rule nth_equalityI) (use d(2,3) in \<open>auto split: prod.splits option.splits\<close>)
  with v4_fragments_concat [of n normal] num(1) have
    "concat (map (\<lambda>(p, u). case u of None \<Rightarrow> [] | Some d \<Rightarrow> ud_payload d) rs) = nu_payload normal" by simp
  with loop d(1,2) show ?thesis by blast
qed

end
