(* ===== verification/Stream_Limits.thy ===== *)
theory Stream_Limits
  imports Stream_Order
begin

text \<open>
  What the trackers of \<open>m7mux/stream/stream.c\<close> never give back: session trackers stay until a
  reset, and a message with a lost fragment keeps its stream for itself.
\<close>

section \<open>Trackers are never given back\<close>

text \<open>
  Session trackers stay active until a reset, and a tracker with a message in flight accepts no
  other fragmented message, whether or not the missing fragments can still come.
\<close>

definition trackers_full :: "M7MuxStreamState \<Rightarrow> bool" where
  "trackers_full st \<longleftrightarrow> (\<forall>tr \<in> set (sm_session_trackers st). tr_active tr)"

definition tracked_sessions :: "M7MuxStreamState \<Rightarrow> u64 set" where
  "tracked_sessions st = tr_session_id ` set (sm_session_trackers st)"

lemma ingest_full_table:
  assumes "trackers_full st" "rp_session_id p \<notin> tracked_sessions st"
  shows "m7mux_stream_ingest reg st p h = (False, st, h)"
proof -
  have "find_idx (session_key (rp_session_id p)) (sm_session_trackers st) = None"
    "find_idx (\<lambda>t. \<not> tr_active t) (sm_session_trackers st) = None"
    using assms by (auto simp: find_idx_None trackers_full_def tracked_sessions_def image_iff)
  then show ?thesis
    by (simp add: m7mux_stream_ingest_def m7mux_stream_find_session_tracker_def)
qed

lemma map_update_same:
  "f x = f (xs ! i) \<Longrightarrow> map f (xs[i := x]) = map f xs"
  by (metis list_update_id map_update)

definition session_slots :: "M7MuxStreamState \<Rightarrow> (bool \<times> u64) list" where
  "session_slots st = map (\<lambda>tr. (tr_active tr, tr_session_id tr)) (sm_session_trackers st)"

lemma session_slots_set:
  assumes "tr_active tr = tr_active (sm_session_trackers st ! i)"
    "tr_session_id tr = tr_session_id (sm_session_trackers st ! i)"
  shows "session_slots (set_session_tracker i tr st) = session_slots st"
  using assms by (simp add: session_slots_def set_session_tracker_def map_update_same)

lemma session_slots_full:
  "trackers_full st \<longleftrightarrow> (\<forall>x \<in> set (session_slots st). fst x)"
  "tracked_sessions st = snd ` set (session_slots st)"
  by (auto simp: trackers_full_def tracked_sessions_def session_slots_def image_iff)

lemma find_message_frame:
  "m7mux_stream_find_message_tracker tr t c = (r, tr') \<Longrightarrow>
   tr_active tr' = tr_active tr \<and> tr_session_id tr' = tr_session_id tr"
  by (auto simp: m7mux_stream_find_message_tracker_def split: if_splits option.splits)

lemma set_message_tracker_frame [simp]:
  "tr_active (set_message_tracker i m tr) = tr_active tr"
  "tr_session_id (set_message_tracker i m tr) = tr_session_id tr"
  by (simp_all add: set_message_tracker_def)

lemma session_slots_ingest:
  assumes full: "trackers_full st" and ing: "m7mux_stream_ingest reg st p h = (b, st', h')"
  shows "session_slots st' = session_slots st"
proof (cases "fst (m7mux_stream_find_session_tracker st (rp_session_id p) True)")
  case None
  have "find_idx (\<lambda>t. \<not> tr_active t) (sm_session_trackers st) = None"
    using full by (auto simp: find_idx_None trackers_full_def)
  then have "snd (m7mux_stream_find_session_tracker st (rp_session_id p) True) = st"
    by (auto simp: m7mux_stream_find_session_tracker_def split: option.splits)
  with None ing show ?thesis
    by (auto simp: m7mux_stream_ingest_def split: if_splits prod.splits option.splits)
next
  case (Some si)
  have "find_idx (\<lambda>t. \<not> tr_active t) (sm_session_trackers st) = None"
    using full by (auto simp: find_idx_None trackers_full_def)
  then have f1: "m7mux_stream_find_session_tracker st (rp_session_id p) True = (Some si, st)"
    using Some by (auto simp: m7mux_stream_find_session_tracker_def split: option.splits if_splits)
  obtain p1 tr1 where a1: "stream_assign_stream_id (sm_session_trackers st ! si) p = (p1, tr1)" by fastforce
  obtain r2 tr2 where f2: "m7mux_stream_find_message_tracker tr1 (rp_stream_id p1) True = (r2, tr2)"
    by fastforce
  have tr2: "tr_active tr2 = tr_active (sm_session_trackers st ! si)"
    "tr_session_id tr2 = tr_session_id (sm_session_trackers st ! si)"
    using find_message_frame [OF f2] assign_stream_id_frame(1,2) [of "sm_session_trackers st ! si" p] a1
    by simp_all
  have "\<exists>tr. sm_session_trackers st' = sm_session_trackers (set_session_tracker si tr st) \<and>
      tr_active tr = tr_active tr2 \<and> tr_session_id tr = tr_session_id tr2 \<or> st' = st"
  proof (cases r2)
    case None
    then show ?thesis
      using ing f1 a1 f2 by (auto simp: m7mux_stream_ingest_def split: if_splits)
  next
    case (Some mi)
    obtain p2 t1 where a2: "stream_assign_message_id (tr_stream_trackers tr2 ! mi) p1 = (p2, t1)" by fastforce
    obtain b2 t2 where bg: "m7mux_stream_message_tracker_begin t1 p2 = (b2, t2)" by fastforce
    let ?st2 = "set_session_tracker si (set_message_tracker mi t2 tr2) st"
    have "sm_session_trackers st' = sm_session_trackers ?st2 \<or> st' = st"
      using ing f1 a1 f2 Some a2 bg stream_queue_packet_tracker [of reg ?st2 p2 h b st' h']
      by (auto simp: m7mux_stream_ingest_def Let_def split: if_splits)
    then show ?thesis by (auto intro!: exI [of _ "set_message_tracker mi t2 tr2"])
  qed
  then show ?thesis
    using session_slots_set [of _ st si] tr2 by (auto simp: session_slots_def)
qed

lemma session_slots_advance: "session_slots (stream_advance_tracker st slot) = session_slots st"
  by (simp add: stream_advance_tracker_def Let_def session_slots_set split: option.splits)

lemma session_slots_step:
  assumes full: "trackers_full st" and step: "stream_step reg op st h = (out, st', h')"
  shows "session_slots st' = session_slots st"
proof (cases op)
  case (Op_Ingest p)
  obtain b st1 h1 where i: "m7mux_stream_ingest reg st p h = (b, st1, h1)" by (metis prod_cases3)
  with Op_Ingest step session_slots_ingest [OF full i] show ?thesis by simp
next
  case (Op_Expire now_ms)
  obtain n st1 h1 where e: "m7mux_stream_expire reg st now_ms h = (n, st1, h1)" by (metis prod_cases3)
  with Op_Expire step stream_expire_trackers [OF e] show ?thesis by (simp add: session_slots_def)
next
  case (Op_Drain has_user)
  obtain r st1 h1 where d: "m7mux_stream_drain reg has_user st h = (r, st1, h1)" by (metis prod_cases3)
  have clear: "session_slots (stream_clear_slot i x) = session_slots x" for i x
    by (simp add: session_slots_def stream_clear_slot_def)
  have "st' = st1" using Op_Drain step d by (auto split: option.splits prod.splits)
  then show ?thesis
    using stream_drain_result [OF d] by (auto simp: clear session_slots_advance split: option.splits)
qed

lemma session_slots_run:
  "trackers_full st \<Longrightarrow> stream_run reg ops st h = (outs, st', h') \<Longrightarrow> session_slots st' = session_slots st"
proof (induction ops arbitrary: st h outs)
  case Nil
  then show ?case by simp
next
  case (Cons op ops)
  obtain out st1 h1 where step: "stream_step reg op st h = (out, st1, h1)" by (metis prod_cases3)
  obtain outs2 st2 h2 where run: "stream_run reg ops st1 h1 = (outs2, st2, h2)" by (metis prod_cases3)
  have "session_slots st1 = session_slots st" using session_slots_step [OF Cons.prems(1) step] .
  moreover have "trackers_full st1"
    using Cons.prems(1) calculation by (simp add: session_slots_full)
  ultimately show ?case
    using Cons.IH [of st1 h1 outs2] Cons.prems(2) step run by simp
qed

section \<open>A lost fragment\<close>

definition in_flight :: "M7MuxStreamState \<Rightarrow> u64 \<Rightarrow> u32 \<Rightarrow> u64 \<Rightarrow> bool" where
  "in_flight st s t msg \<longleftrightarrow> (\<exists>m. stream_tracker st s t = Some m \<and> mt_message_id m = msg \<and> msg \<noteq> 0 \<and>
     mt_next_fragment_index m < mt_fragment_count m)"

definition stuck :: "M7MuxStreamState \<Rightarrow> u64 \<Rightarrow> u32 \<Rightarrow> u64 \<Rightarrow> bool" where
  "stuck st s t msg \<longleftrightarrow> in_flight st s t msg \<and>
     (\<forall>q \<in> set (sm_ready_queue st). \<not> (rp_session_id q = s \<and> rp_stream_id q = t \<and> rp_message_id q = msg))"

text \<open>The packets of a run in which nothing of the lost message comes again.\<close>

definition avoids :: "u64 \<Rightarrow> u64 \<Rightarrow> stream_op \<Rightarrow> bool" where
  "avoids s msg op = (case op of
     Op_Ingest p \<Rightarrow> rp_session_id p = s \<longrightarrow>
       rp_stream_id p \<noteq> 0 \<and> rp_message_id p \<noteq> 0 \<and> rp_message_id p \<noteq> msg
   | _ \<Rightarrow> True)"

lemma stuck_ingest:
  assumes st: "stuck st s t msg" and a: "avoids s msg (Op_Ingest p)"
    and ing: "m7mux_stream_ingest reg st p h = (b, st', h')"
  shows "stuck st' s t msg \<and>
    (rp_session_id p = s \<longrightarrow> rp_stream_id p = t \<longrightarrow> rp_fragment_count p > 1 \<longrightarrow> \<not> b)"
  using ing
proof (cases rule: stream_ingest_tracker)
  case untracked
  with st show ?thesis by (simp add: stuck_def in_flight_def)
next
  case (tracked p2 m0 m1 begun m2 st2)
  obtain m where m: "stream_tracker st s t = Some m" "mt_message_id m = msg" "msg \<noteq> 0"
    "mt_next_fragment_index m < mt_fragment_count m"
    using st by (auto simp: stuck_def in_flight_def)
  have same: "rp_session_id p = s \<Longrightarrow> p2 = p"
    using tracked(1) a by (auto simp: same_payload_def avoids_def)
  have beg: "mt_message_id m2 = msg \<and> mt_next_fragment_index m2 < mt_fragment_count m2 \<and>
      (rp_fragment_count p > 1 \<longrightarrow> \<not> begun)"
    if "rp_session_id p = s" "rp_stream_id p2 = t"
  proof -
    have "m0 = m" using tracked(2) that m(1) by (simp add: tracker_or_fresh_def)
    with tracked(3-6) m a that same show ?thesis
      by (auto simp: m7mux_stream_message_tracker_begin_def Let_def avoids_def split: if_splits)
  qed
  have fl2: "in_flight st2 s t msg"
    using tracked(7) beg m by (auto simp: in_flight_def)
  have "in_flight st' s t msg"
    using tracked(10) fl2 stream_tracker_cong [of st' st2] stream_queue_packet_tracker [of reg st2 p2 h b st' h']
    by (auto simp: in_flight_def split: if_splits)
  moreover have "\<forall>q \<in> set (sm_ready_queue st'). \<not> (rp_session_id q = s \<and> rp_stream_id q = t \<and> rp_message_id q = msg)"
  proof (cases begun)
    case False
    with tracked(8,10) st show ?thesis by (simp add: stuck_def)
  next
    case True
    have s2: "rp_session_id p2 = rp_session_id p" using tracked(1) by (simp add: same_payload_def)
    have "\<forall>q \<in> set (sm_ready_queue st'). q \<in> set (sm_ready_queue st) \<or> (\<exists>c. q = p2\<lparr>rp_complete := c\<rparr>)"
    proof -
      from tracked(10) True have q: "stream_queue_packet reg st2 p2 h = (b, st', h')" by simp
      have "rp_session_id p2 \<noteq> 0" using s2 tracked(9) by simp
      with q show ?thesis
        by (rule stream_queue_packet_cases)
          (auto simp: tracked(8) dest!: subsetD [OF set_update_subset_insert])
    qed
    then show ?thesis
      using st same a s2 by (auto simp: stuck_def avoids_def)
  qed
  moreover have "rp_session_id p = s \<longrightarrow> rp_stream_id p = t \<longrightarrow> rp_fragment_count p > 1 \<longrightarrow> \<not> b"
    using beg tracked(10) same by auto
  ultimately show ?thesis by (simp add: stuck_def)
qed

lemma clear_slot_set: "set (sm_ready_queue (stream_clear_slot i st)) \<subseteq> insert zero_recv (set (sm_ready_queue st))"
  unfolding stream_clear_slot_def by (simp add: set_update_subset_insert)

lemma expire_loop_set:
  "stream_expire_loop reg now_ms is n st h = (n', st', h') \<Longrightarrow>
   set (sm_ready_queue st') \<subseteq> insert zero_recv (set (sm_ready_queue st))"
proof (induction reg now_ms "is" n st h rule: stream_expire_loop.induct)
  case (1 reg now_ms expired st h)
  then show ?case by auto
next
  case (2 reg now_ms i "is" expired st h)
  with clear_slot_set [of i st] show ?case by (fastforce split: if_splits)
qed

lemma stuck_step:
  assumes st: "stuck st s t msg" and a: "avoids s msg op" and nz: "s \<noteq> 0"
    and step: "stream_step reg op st h = (out, st', h')"
  shows "stuck st' s t msg"
proof (cases op)
  case (Op_Ingest p)
  obtain b st1 h1 where i: "m7mux_stream_ingest reg st p h = (b, st1, h1)" by (metis prod_cases3)
  with Op_Ingest step stuck_ingest [OF st _ i] a show ?thesis by simp
next
  case (Op_Expire now_ms)
  obtain n st1 h1 where e: "m7mux_stream_expire reg st now_ms h = (n, st1, h1)" by (metis prod_cases3)
  have "set (sm_ready_queue st1) \<subseteq> insert zero_recv (set (sm_ready_queue st))"
    using e unfolding m7mux_stream_expire_def by (rule expire_loop_set)
  moreover have "stream_tracker st1 s t = stream_tracker st s t"
    by (rule stream_tracker_cong [OF stream_expire_trackers [OF e]])
  ultimately show ?thesis
    using Op_Expire step e st nz by (auto simp: stuck_def in_flight_def)
next
  case (Op_Drain has_user)
  obtain r st1 h1 where d: "m7mux_stream_drain reg has_user st h = (r, st1, h1)" by (metis prod_cases3)
  have st1: "st' = st1" using Op_Drain step d by (auto split: option.splits prod.splits)
  show ?thesis
  proof (cases r)
    case None
    with stream_drain_result [OF d] st1 st show ?thesis by simp
  next
    case (Some pu)
    then obtain i where i: "i < length (sm_ready_queue st)"
      and del: "m7mux_stream_packet_is_deliverable st (sm_ready_queue st ! i)"
      and st': "st1 = stream_clear_slot i (stream_advance_tracker st (sm_ready_queue st ! i))"
      using stream_drain_result [OF d] by auto
    let ?slot = "sm_ready_queue st ! i"
    have other: "\<not> (rp_session_id ?slot = s \<and> rp_stream_id ?slot = t \<and> rp_fragment_count ?slot > 1)"
      using deliverable_fragment [OF del] st i by (auto simp: stuck_def in_flight_def)
    have "stream_tracker st1 s t = stream_tracker (stream_advance_tracker st ?slot) s t"
      by (rule stream_tracker_cong) (simp add: st' stream_clear_slot_def)
    with other have "stream_tracker st1 s t = stream_tracker st s t"
      by (auto simp: stream_advance_tracker_lookup)
    moreover have "set (sm_ready_queue st1) \<subseteq> insert zero_recv (set (sm_ready_queue st))"
      using clear_slot_set [of i "stream_advance_tracker st ?slot"] by (simp add: st')
    ultimately show ?thesis
      using st st1 nz by (auto simp: stuck_def in_flight_def)
  qed
qed

lemma stuck_run:
  assumes "stuck st s t msg" "\<forall>op \<in> set ops. avoids s msg op" "s \<noteq> 0"
    "stream_run reg ops st h = (outs, st', h')"
  shows "stuck st' s t msg"
  using assms(1,2,4)
proof (induction ops arbitrary: st h outs)
  case Nil
  then show ?case by simp
next
  case (Cons op ops)
  obtain out st1 h1 where step: "stream_step reg op st h = (out, st1, h1)" by (metis prod_cases3)
  obtain outs2 st2 h2 where run: "stream_run reg ops st1 h1 = (outs2, st2, h2)" by (metis prod_cases3)
  have "stuck st1 s t msg"
    using stuck_step [OF Cons.prems(1) _ assms(3) step] Cons.prems(2) by simp
  then show ?case
    using Cons.IH [of st1 h1 outs2] Cons.prems(2,3) step run by simp
qed

end
