(* ===== verification/Samples.thy ===== *)
theory Samples
  imports Delivery Stream_Limits
begin

text \<open>
  Concrete inputs for the witnesses of the properties: an instance of the OpenSSL parameter, two
  codec contexts that share a key pair, a registry with the V4 codec, and a few packets.
\<close>

section \<open>An instance of OpenSSL\<close>

definition sample_evp :: evp where
  "sample_evp = \<lparr>EVP_gcm_encrypt = (\<lambda>key nonce aad plain. Some (plain, replicate 16 0)),
     EVP_gcm_decrypt = (\<lambda>key nonce aad ct tag. if tag = replicate 16 0 then Some ct else None),
     EVP_PKEY_encrypt = (\<lambda>k r msg. Some msg), EVP_PKEY_decrypt = (\<lambda>k ct. Inr ct),
     EVP_DigestInit = True, EVP_DigestUpdate = (\<lambda>acc bs. True),
     EVP_DigestFinal = (\<lambda>acc. Some (replicate 32 0)),
     EVP_MAC_hmac_sha256 = (\<lambda>key msg. Some (replicate 32 1)), RAND_bytes = (\<lambda>r n. Some (replicate n 0)),
     EVP_PKEY_get_size = (\<lambda>k. 256)\<rparr>"

lemma sample_evp_laws:
  "gcm_lengths sample_evp" "gcm_inverts sample_evp" "rand_lengths sample_evp" "rsa_pair sample_evp 1 2"
  "digest_updates sample_evp"
  by (auto simp: sample_evp_def gcm_lengths_def gcm_inverts_def rand_lengths_def rsa_pair_def
      digest_updates_def SL_OPENSSL_AESGCM_TAG_LEN_def)

section \<open>Contexts and the registry\<close>

definition sample_context :: "SiglatchOpenSSLSession \<Rightarrow> SharedKnockCodecContext" where
  "sample_context session = \<lparr>cx_server_key = \<lparr>sk_name = None, sk_public_key = None, sk_private_key = None,
       sk_hmac_key = None, sk_hmac_key_len = 0, sk_flags = 0\<rparr>,
     cx_has_server_key = False, cx_server_secure = True, cx_openssl_session = Some session,
     cx_keychain = [], cx_keychain_len = 0, cx_active_key_name = None, cx_nonce_window_ms = 0,
     cx_flags = 0\<rparr>"

definition client_session :: SiglatchOpenSSLSession where
  "client_session = \<lparr>ss_public_key = Some 1, ss_private_key = None,
     ss_hmac_key = replicate 32 7, ss_hmac_key_len = 32\<rparr>"

definition server_session :: SiglatchOpenSSLSession where
  "server_session = \<lparr>ss_public_key = None, ss_private_key = Some 2,
     ss_hmac_key = replicate 32 7, ss_hmac_key_len = 32\<rparr>"

definition client_context :: SharedKnockCodecContext where
  "client_context = sample_context client_session"

definition server_context :: SharedKnockCodecContext where
  "server_context = sample_context server_session"

lemma sample_sessions:
  "cx_openssl_session client_context = Some client_session" "ss_public_key client_session = Some 1"
  "cx_openssl_session server_context = Some server_session" "ss_private_key server_session = Some 2"
  by (simp_all add: client_context_def server_context_def sample_context_def client_session_def server_session_def)

definition sample_v4_adapter :: "SharedKnockCodecContext \<Rightarrow> SharedKnockCodecState adapter" where
  "sample_v4_adapter cx =
     (shared_knock_codec_v4_adapter sample_evp True (Some cx) True True)\<lparr>ad_state := Some zero_codec_state\<rparr>"

lemma sample_adapters_ok: "adapters_ok [sample_v4_adapter cx]"
  by (simp add: adapters_ok_def sample_v4_adapter_def v4_adapter.codec_adapter_axioms)

definition sample_mux_context :: M7MuxContext where
  "sample_mux_context = \<lparr>mx_socket = True, mx_udp = True, mx_server_secure = Some True,
     mx_enforce_wire_decode = False, mx_enforce_wire_auth = False, mx_internal = True\<rparr>"

section \<open>Packets\<close>

definition sample_unit :: SharedKnockNormalizedUnit where
  "sample_unit = zero_unit\<lparr>nu_wire_version := SHARED_KNOCK_CODEC_V4_WIRE_VERSION,
     nu_wire_form := SHARED_KNOCK_CODEC_FORM1_ID, nu_session_id := 11, nu_message_id := 5,
     nu_stream_id := 1, nu_fragment_count := 1, nu_timestamp := 1700, nu_user_id := 3,
     nu_action_id := 9, nu_challenge := 77, nu_payload := [1, 2, 3]\<rparr>"

lemma sample_unit_simps [simp]:
  "nu_wire_version sample_unit = SHARED_KNOCK_CODEC_V4_WIRE_VERSION"
  "nu_wire_form sample_unit = SHARED_KNOCK_CODEC_FORM1_ID" "nu_payload sample_unit = [1, 2, 3]"
  "nu_hmac sample_unit = replicate 32 0" "nu_wire_auth sample_unit = False"
  by (simp_all add: sample_unit_def zero_unit_def)

text \<open>Encoding succeeds whenever OpenSSL does.\<close>

lemma sample_encode:
  assumes "nu_wire_version u = SHARED_KNOCK_CODEC_V4_WIRE_VERSION" "nu_wire_form u = SHARED_KNOCK_CODEC_FORM1_ID"
    "length (nu_payload u) \<le> 512" "\<not> nu_wire_auth u" "length (nu_hmac u) = 32"
    "length buf = SHARED_KNOCK_CODEC_V4_FORM1_PACKET_MAX_SIZE"
  obtains bytes where
    "shared_knock_codec_v4_encode sample_evp True (Some client_context) u buf r = (Some bytes, r + 3)"
    "length bytes = 77 + length (nu_payload u) + 75"
proof -
  have len: "unat (77 + word_of_nat (length (nu_payload u)) :: u32) = 77 + length (nu_payload u)"
    using assms(3) unat_len_u32 [of "77 + length (nu_payload u)"] by simp
  have ex: "\<exists>bytes. shared_knock_codec_v4_encode sample_evp True (Some client_context) u buf r = (Some bytes, r + 3) \<and>
      length bytes = 77 + length (nu_payload u) + 75"
    using assms
    by (simp add: shared_knock_codec_v4_encode_def v4_body_hmac_def Let_def
      shared_knock_codec_v4_pack_plaintext_def shared_knock_codec_v4_plaintext_size_def
      shared_knock_codec_v4_pack_inner_envelope_def shared_knock_codec_v4_encrypt_payload_key_def
      siglatch_openssl_session_encrypt_def sample_sessions sample_evp_def
      shared_knock_codec_v4_build_aad_def siglatch_openssl_aesgcm_encrypt_def aesgcm_validate_sizes_def
      aesgcm_cipher_for_key_len_def SL_OPENSSL_AESGCM_TAG_LEN_def SL_OPENSSL_AESGCM_KEY_LEN_256_def
      shared_knock_codec_v4_pack_def zero_v4_packet_def v4_sizes unat_len_u16 len)
  then show ?thesis using that by blast
qed

definition sample_send :: M7MuxSendPacket where
  "sample_send = \<lparr>sp_trace_id = 0, sp_label = ''send'', sp_wire_version = SHARED_KNOCK_CODEC_V4_WIRE_VERSION,
     sp_wire_form = SHARED_KNOCK_CODEC_FORM1_ID, sp_received_ms = 0, sp_session_id = 11, sp_message_id = 5,
     sp_stream_id = 1, sp_fragment_index = 0, sp_fragment_count = 1, sp_timestamp = 1700,
     sp_ip = ''10.0.0.2'', sp_client_port = 9000, sp_encrypted = True, sp_wire_auth = False,
     sp_user = Some \<lparr>us_user_id = 3, us_action_id = 9, us_challenge = 77, us_hmac = replicate 32 0,
       us_payload = [1, 2, 3]\<rparr>\<rparr>"

lemma sample_send_version: "sp_wire_version sample_send = SHARED_KNOCK_CODEC_V4_WIRE_VERSION"
  by (simp add: sample_send_def)

lemma sample_copy_send:
  obtains u where "shared_knock_codec_v4_copy_send_packet sample_send = Some u"
    "nu_wire_version u = SHARED_KNOCK_CODEC_V4_WIRE_VERSION" "nu_wire_form u = SHARED_KNOCK_CODEC_FORM1_ID"
    "nu_payload u = [1, 2, 3]" "\<not> nu_wire_auth u" "nu_hmac u = replicate 32 0"
  by (simp add: shared_knock_codec_v4_copy_send_packet_def sample_send_def buffer_sizes)

lemma sample_count_fragments: "shared_knock_codec_v4_adapter_count_fragments st sample_send = 1"
proof -
  obtain u where "shared_knock_codec_v4_copy_send_packet sample_send = Some u" "nu_payload u = [1, 2, 3]"
    by (rule sample_copy_send)
  then show ?thesis
    by (simp add: shared_knock_codec_v4_adapter_count_fragments_def shared_knock_codec_v4_count_fragments_def v4_sizes)
qed

lemma sample_adapter_encode:
  obtains e r' where "\<forall>st. shared_knock_codec_v4_adapter_encode sample_evp True (Some client_context) st sample_send r =
    (Some e, r')" "egress_fits e"
proof -
  obtain u where u: "shared_knock_codec_v4_copy_send_packet sample_send = Some u"
    "nu_wire_version u = SHARED_KNOCK_CODEC_V4_WIRE_VERSION" "nu_wire_form u = SHARED_KNOCK_CODEC_FORM1_ID"
    "nu_payload u = [1, 2, 3]" "\<not> nu_wire_auth u" "nu_hmac u = replicate 32 0"
    by (rule sample_copy_send)
  obtain bytes where b: "shared_knock_codec_v4_encode sample_evp True (Some client_context) u
      (replicate SHARED_KNOCK_CODEC_V4_FORM1_PACKET_MAX_SIZE 0) r = (Some bytes, r + 3)" "length bytes = 155"
    by (rule sample_encode [of u "replicate SHARED_KNOCK_CODEC_V4_FORM1_PACKET_MAX_SIZE 0" r]) (use u in simp_all)
  obtain e where e: "m7mux_normalize_adapter_fill_egress sample_send bytes = Some e"
    using b(2) by (simp add: m7mux_normalize_adapter_fill_egress_def buffer_sizes)
  show ?thesis
    by (rule that [of e "r + 3"])
      (use u b e fill_egress_fits [OF e] in \<open>simp_all add: shared_knock_codec_v4_adapter_encode_def egress_fits_def\<close>)
qed

text \<open>Staging the sample packet in two fragments.\<close>

lemma sample_encode_fragment:
  assumes "i < 2"
  obtains e where "shared_knock_codec_v4_adapter_encode_fragment sample_evp True (Some client_context) st
      (sample_send\<lparr>sp_fragment_index := a, sp_fragment_count := b\<rparr>) i 2 r = (Some e, r + 3)" "egress_fits e"
proof -
  let ?send = "sample_send\<lparr>sp_fragment_index := a, sp_fragment_count := b\<rparr>"
  obtain u where u: "shared_knock_codec_v4_copy_send_packet ?send = Some u"
    "nu_wire_version u = SHARED_KNOCK_CODEC_V4_WIRE_VERSION" "nu_wire_form u = SHARED_KNOCK_CODEC_FORM1_ID"
    "nu_payload u = [1, 2, 3]" "\<not> nu_wire_auth u" "nu_hmac u = replicate 32 0"
    by (simp add: shared_knock_codec_v4_copy_send_packet_def sample_send_def buffer_sizes)
  have n: "shared_knock_codec_v4_count_fragments u 2 = 2"
    by (simp add: shared_knock_codec_v4_count_fragments_def u(4) v4_sizes)
  let ?f = "v4_fragment u i 2" and ?buf = "replicate SHARED_KNOCK_CODEC_V4_FORM1_PACKET_MAX_SIZE 0 :: u8 list"
  have f: "nu_wire_version ?f = nu_wire_version u" "nu_wire_form ?f = nu_wire_form u"
    "nu_wire_auth ?f = nu_wire_auth u" "length (nu_payload ?f) \<le> 3"
    using v4_fragment_fields(7) [of u i 2] u(4) by (simp_all add: v4_fragment_def Let_def)
  obtain bytes where b: "shared_knock_codec_v4_encode sample_evp True (Some client_context) ?f ?buf r = (Some bytes, r + 3)"
    "length bytes \<le> 155"
    by (rule sample_encode [of ?f ?buf r]) (use u f v4_fragment_fields(4) [of u i 2] in simp_all)
  obtain e where e: "m7mux_normalize_adapter_fill_egress ?send bytes = Some e"
    using b(2) by (simp add: m7mux_normalize_adapter_fill_egress_def buffer_sizes)
  show ?thesis
    by (rule that [of e])
      (use assms u n b e fill_egress_fits [OF e] in
        \<open>simp_all add: shared_knock_codec_v4_adapter_encode_fragment_def shared_knock_codec_v4_encode_fragment_def egress_fits_def\<close>)
qed

lemma zero_mux_egress:
  "egress_ok (mu_egress zero_mux)" "egress_items (mu_egress zero_mux) = []" "es_count (mu_egress zero_mux) = 0"
  by (simp_all add: zero_mux_def m7mux_egress_state_init_def [THEN arg_cong [where f = es_count]])

lemma sample_stage:
  obtains cm1 where "m7mux_outbox_stage_fragments (v4_registry sample_evp True client_context zero_codec_state) True
    zero_mux sample_send 2 0 = (True, cm1, 6)"
proof -
  let ?enc = "shared_knock_codec_v4_adapter_encode_fragment sample_evp True (Some client_context) (Some zero_codec_state)"
  obtain e0 where e0: "?enc (sample_send\<lparr>sp_fragment_index := of_nat 0, sp_fragment_count := of_nat 2\<rparr>) 0 2 0 = (Some e0, 0 + 3)"
    "egress_fits e0" by (rule sample_encode_fragment [where i = 0 and r = 0]) simp
  obtain e1 where e1: "?enc (sample_send\<lparr>sp_fragment_index := of_nat 1, sp_fragment_count := of_nat 2\<rparr>) 1 2 3 = (Some e1, 3 + 3)"
    "egress_fits e1" by (rule sample_encode_fragment [where i = 1 and r = 3]) simp
  have "[0..<2] = [0, 1 :: nat]" by (simp add: upt_rec)
  then have en: "outbox_encode_fragments ?enc sample_send 2 2 [0..<2] 0 = (Some [e0, e1], 6)"
    using e0(1) e1(1) by simp
  obtain cm1 where "outbox_stage_all zero_mux [e0, e1] = (True, cm1)"
    using stage_all_spec [of zero_mux "[e0, e1]"] e0(2) e1(2) zero_mux_egress
    by (auto simp: M7MUX_EGRESS_QUEUE_CAPACITY_def)
  with en show ?thesis
    by (intro that [of cm1])
      (simp add: m7mux_outbox_stage_fragments_def m7mux_outbox_stage_common_def m7mux_outbox_select_adapter_def
        m7mux_normalize_adapter_lookup_wire_version_def v4_registry_def shared_knock_codec_v4_adapter_def
        sample_send_version zero_mux_egress M7MUX_EGRESS_QUEUE_CAPACITY_def Let_def)
qed

lemma ingress_of_list:
  "length xs \<le> M7MUX_INGRESS_QUEUE_CAPACITY \<Longrightarrow> \<exists>ig. ingress_ok ig \<and> ingress_items ig = xs"
proof (induction xs rule: rev_induct)
  case Nil
  then show ?case using ingress_ok_init by metis
next
  case (snoc x xs)
  then obtain ig where "ingress_ok ig" "ingress_items ig = xs" by auto
  with snoc.prems ingress_fifo.push_ok [of ig x] ingress_fifo.push_items [of ig x] show ?case
    by (intro exI [of _ "snd (m7mux_ingress_queue_push ig x)"]) simp
qed

lemma flush_spec_sent: "length (fst (flush_spec es ss)) \<le> length es"
  by (induction es ss rule: flush_spec.induct) (auto simp: le_SucI split: list.splits bool.splits prod.splits)

lemma sample_sent_length:
  assumes st: "m7mux_outbox_stage_fragments (v4_registry sample_evp True client_context zero_codec_state) True
      zero_mux sample_send 2 0 = (b, cm1, r1)"
    and fl: "flush_egress sample_mux_context (mu_egress cm1) 3 0 sends = (k, eg, rest, sent)"
  shows "length sent \<le> 64"
proof -
  have "m7mux_outbox_stage_common (v4_registry sample_evp True client_context zero_codec_state) True
      zero_mux sample_send 2 0 = (b, cm1, r1)" using st by (simp add: m7mux_outbox_stage_fragments_def)
  from stage_common_spec(1) [OF v4_registry_ok(1) zero_mux_egress(1) this] have ok: "egress_ok (mu_egress cm1)" .
  then have "length (egress_items (mu_egress cm1)) \<le> 64"
    using egress_fifo.bounded by (simp add: M7MUX_EGRESS_QUEUE_CAPACITY_def)
  moreover have "sent = fst (flush_spec (egress_items (mu_egress cm1)) sends)"
    using flush_egress_loop_spec [OF ok, where n = 0 and sent = "[]" and sends = sends] fl
    by (auto simp: flush_egress_def sample_mux_context_def split: prod.splits)
  ultimately show ?thesis using flush_spec_sent [of "egress_items (mu_egress cm1)" sends] by simp
qed

lemma sample_pair: "v4_pair sample_evp client_context server_context"
  using sample_evp_laws sample_sessions by (auto simp: v4_pair_def)

end
