(* ===== verification/Mux_Properties.thy ===== *)
theory Mux_Properties
  imports Samples
begin

text \<open>
  The properties of the mux: its queues, sessions, streams and connections. Each is a short
  consequence of the lemmas of the component, stated over the definitions that model the code, and
  is followed by a witness where it has hypotheses.
\<close>

section \<open>Queues\<close>

text \<open>
  The ingress queue is a bounded FIFO. Any sequence of pushes and pops
  gives the results, and leaves the contents, of a list of at most 64 datagrams: a full queue
  refuses without a change, the others come out in the order they went in.
\<close>

theorem ingress_queue_refines_list:
  assumes "ingress_ok q"
  shows "fst (queue_run m7mux_ingress_queue_push m7mux_ingress_queue_pop q xs) =
      fst (list_run M7MUX_INGRESS_QUEUE_CAPACITY (\<lambda>_. True) (\<lambda>x. x) (ingress_items q) xs) \<and>
    ingress_items (snd (queue_run m7mux_ingress_queue_push m7mux_ingress_queue_pop q xs)) =
      snd (list_run M7MUX_INGRESS_QUEUE_CAPACITY (\<lambda>_. True) (\<lambda>x. x) (ingress_items q) xs)"
  using ingress_fifo.run_refines [OF assms, of xs] by simp

definition sample_ingress :: "u8 \<Rightarrow> M7MuxIngress" where
  "sample_ingress b = zero_ingress\<lparr>in_buffer := [b], in_ip := ''10.0.0.1''\<rparr>"

theorem ingress_queue_refines_list_witness:
  "fst (queue_run m7mux_ingress_queue_push m7mux_ingress_queue_pop m7mux_ingress_state_init
      [Push (sample_ingress 1), Push (sample_ingress 2), Pop, Pop, Pop]) =
    [Pushed True, Pushed True, Popped (Some (sample_ingress 1)), Popped (Some (sample_ingress 2)), Popped None]"
  using ingress_queue_refines_list [OF ingress_ok_init(1),
      of "[Push (sample_ingress 1), Push (sample_ingress 2), Pop, Pop, Pop]"]
  by (simp add: M7MUX_INGRESS_QUEUE_CAPACITY_def)

text \<open>
  The egress queue is a bounded FIFO of at most 64 datagrams of at most
  1024 bytes; what it stores is the packet with its address cut to 63 characters.
\<close>

theorem egress_queue_refines_list:
  assumes "egress_ok q"
  shows "fst (queue_run stage_egress egress_pop q xs) =
      fst (list_run M7MUX_EGRESS_QUEUE_CAPACITY egress_fits egress_stored (egress_items q) xs) \<and>
    egress_items (snd (queue_run stage_egress egress_pop q xs)) =
      snd (list_run M7MUX_EGRESS_QUEUE_CAPACITY egress_fits egress_stored (egress_items q) xs)"
  using egress_fifo.run_refines [OF assms, of xs] by simp

definition sample_egress :: "u8 list \<Rightarrow> M7MuxEgressData" where
  "sample_egress bs = zero_egress\<lparr>eg_egress_buffer := bs, eg_ip := ''10.0.0.2'', eg_client_port := 9000\<rparr>"

lemma sample_egress_simps:
  "eg_egress_buffer (sample_egress bs) = bs" "eg_ip (sample_egress bs) = ''10.0.0.2''"
  "eg_client_port (sample_egress bs) = 9000"
  by (simp_all add: sample_egress_def)

lemma sample_egress_stored [simp]:
  "egress_stored (sample_egress bs) = sample_egress bs"
  "egress_fits (sample_egress bs) \<longleftrightarrow> length bs \<le> 1024"
  by (simp_all add: egress_stored_def sample_egress_def egress_fits_def M7MUX_NORMALIZED_PACKET_BUFFER_SIZE_def)

theorem egress_queue_refines_list_witness:
  "fst (queue_run stage_egress egress_pop m7mux_egress_state_init
      [Push (sample_egress [1]), Push (sample_egress (replicate 1025 0)), Pop, Pop]) =
    [Pushed True, Pushed False, Popped (Some (sample_egress [1])), Popped None]"
  using egress_queue_refines_list [OF egress_ok_init(1),
      of "[Push (sample_egress [1]), Push (sample_egress (replicate 1025 0)), Pop, Pop]"]
  by (simp add: M7MUX_EGRESS_QUEUE_CAPACITY_def)

text \<open>
  A flush sends the queued datagrams in order, drops the empty ones,
  stops at the first that the socket refuses and keeps that one at the head; it returns how many
  the socket took.
\<close>

theorem egress_flush_sends_prefix:
  assumes "egress_ok st" "0 \<le> sock" "mx_udp g_ctx"
    and "flush_egress g_ctx st sock now_ms sends = (n, st', sends', sent)"
  shows "flush_spec (egress_items st) sends = (sent, egress_items st') \<and> n = length sent"
  using flush_egress_loop_spec [OF assms(1), where n = 0 and sent = "[]" and sends = sends] assms(2-4)
  by (auto simp: flush_egress_def split: prod.splits)

lemma flush_exists:
  obtains n st' sends' sent where "flush_egress g_ctx st sock now_ms sends = (n, st', sends', sent)"
  by (metis prod_cases4)

theorem egress_flush_sends_prefix_witness:
  "\<exists>n st' sends' sent.
     flush_egress sample_mux_context
       (snd (stage_egress (snd (stage_egress m7mux_egress_state_init (sample_egress [1]))) (sample_egress [2])))
       3 0 [True, False] = (n, st', sends', sent) \<and>
     sent = [(''10.0.0.2'', 9000, [1])] \<and> egress_items st' = [sample_egress [2]] \<and> n = 1"
proof -
  let ?q1 = "snd (stage_egress m7mux_egress_state_init (sample_egress [1]))"
  let ?q2 = "snd (stage_egress ?q1 (sample_egress [2]))"
  have i1: "egress_items ?q1 = [sample_egress [1]]" "egress_ok ?q1"
    using egress_fifo.push_items [of m7mux_egress_state_init "sample_egress [1]"]
      egress_fifo.push_any_ok [of m7mux_egress_state_init "sample_egress [1]"]
    by (simp_all add: M7MUX_EGRESS_QUEUE_CAPACITY_def)
  have i2: "egress_items ?q2 = [sample_egress [1], sample_egress [2]]" "egress_ok ?q2"
    using egress_fifo.push_items [of ?q1 "sample_egress [2]"] i1 length_egress_items [of ?q1]
      egress_fifo.push_any_ok [of ?q1 "sample_egress [2]"]
    by (simp_all add: M7MUX_EGRESS_QUEUE_CAPACITY_def)
  obtain n st' sends' sent where
    f: "flush_egress sample_mux_context ?q2 3 0 [True, False] = (n, st', sends', sent)"
    by (rule flush_exists)
  have "flush_spec (egress_items ?q2) [True, False] = (sent, egress_items st') \<and> n = length sent"
    by (rule egress_flush_sends_prefix [OF i2(2) _ _ f]) (simp_all add: sample_mux_context_def)
  then have "sent = [(''10.0.0.2'', 9000, [1])] \<and> egress_items st' = [sample_egress [2]] \<and> n = 1"
    unfolding i2(1) by (auto simp: sample_egress_simps)
  with f show ?thesis by blast
qed

section \<open>Sessions\<close>

text \<open>
  C7: registering a packet keeps the session table well formed (at most 64
  sessions, distinct non-zero ids below the next id, an exact count). On success exactly one slot
  changes, it is active, carries the id written into the packet and expires 30 seconds after the
  clock; on failure nothing changes and every slot is taken.
\<close>

theorem session_ingest_keeps_table:
  assumes "session_ok st" "session_ids_bounded st normal"
    and "rp_wire_version normal = 0 \<Longrightarrow> rp_session_id normal = 0"
  shows "case m7mux_session_ingest st clock control normal of
    (True, st', normal') \<Rightarrow>
      (\<exists>i. session_ok st' \<and> i < length (se_sessions st') \<and> ms_active (se_sessions st' ! i) \<and>
        ms_session_id (se_sessions st' ! i) = rp_session_id normal' \<and>
        ms_expires_at_ms (se_sessions st' ! i) = clock + M7MUX_SESSION_SESSION_TIMEOUT_MS \<and>
        (\<forall>j. j \<noteq> i \<longrightarrow> se_sessions st' ! j = se_sessions st ! j) \<and>
        length (se_sessions st') = length (se_sessions st) \<and>
        (ms_active (se_sessions st ! i) \<longrightarrow> ms_session_id (se_sessions st ! i) = rp_session_id normal') \<and>
        (rp_synthetic_session normal' \<longleftrightarrow> rp_session_id normal = 0))
  | (False, st', normal') \<Rightarrow>
      st' = st \<and> normal' = normal \<and> (\<forall>s \<in> set (se_sessions st). ms_active s)"
proof -
  obtain b st' normal' where i: "m7mux_session_ingest st clock control normal = (b, st', normal')"
    by (metis prod_cases3)
  show ?thesis
  proof (cases b)
    case True
    then show ?thesis using session_ingest_spec [OF assms, of clock control st' normal'] i by simp
  next
    case False
    then show ?thesis using session_ingest_refused [of st clock control normal st' normal'] i by simp
  qed
qed

definition sample_client_packet :: M7MuxRecvPacket where
  "sample_client_packet = zero_recv\<lparr>rp_session_id := 11, rp_wire_version := SHARED_KNOCK_CODEC_V4_WIRE_VERSION,
     rp_wire_form := 1, rp_stream_id := 1, rp_message_id := 5, rp_ip := ''10.0.0.1''\<rparr>"

definition client_control :: "M7MuxControl option" where
  "client_control = Some \<lparr>ct_stream_type = 0, ct_session_by_client = 1\<rparr>"

lemma session_init_free:
  "\<not> (\<forall>s \<in> set (se_sessions m7mux_session_state_init). ms_active s)"
  by (simp add: m7mux_session_state_init_def M7MUX_SESSION_SESSION_CAPACITY_def zero_session_def)

lemma sample_client_bounded: "session_ids_bounded m7mux_session_state_init sample_client_packet"
  by (simp add: session_ids_bounded_def m7mux_session_state_init_def sample_client_packet_def
      word_less_nat_alt unsigned_minus_1_eq_mask mask_eq_exp_minus_1)

theorem session_ingest_keeps_table_witness:
  "\<exists>st' normal'. m7mux_session_ingest m7mux_session_state_init 1000 client_control sample_client_packet =
     (True, st', normal') \<and> session_ok st' \<and> \<not> rp_synthetic_session normal'"
  using session_ingest_keeps_table [OF session_ok_init(1) sample_client_bounded, of 1000 client_control]
    session_init_free
  by (auto simp: sample_client_packet_def SHARED_KNOCK_CODEC_V4_WIRE_VERSION_def split: prod.splits bool.splits)

text \<open>
  A packet whose session id was chosen by the client gets the server's own
  id. The client's id leads to the slot from then on, and a known client keeps its server id.
\<close>

theorem session_client_mapping:
  assumes "session_ok st" "session_ids_bounded st normal" "control_client_owned control"
    and "rp_session_id normal \<noteq> 0" "rp_wire_version normal \<noteq> 0"
    and "m7mux_session_ingest st clock control normal = (True, st', normal')"
  shows "\<exists>i. m7mux_session_find_by_client_session st' (rp_session_id normal) (rp_wire_version normal)
        (rp_wire_form normal) = Some i \<and>
      i < length (se_sessions st') \<and> ms_session_id (se_sessions st' ! i) = rp_session_id normal' \<and>
      (\<forall>k. m7mux_session_find_by_client_session st (rp_session_id normal) (rp_wire_version normal)
         (rp_wire_form normal) = Some k \<longrightarrow>
         k = i \<and> rp_session_id normal' = ms_session_id (se_sessions st ! k))"
proof -
  obtain i where "client_lookup st' normal = Some i" "i < length (se_sessions st')"
    "ms_session_id (se_sessions st' ! i) = rp_session_id normal'"
    "client_lookup st normal = Some i \<or> \<not> ms_active (se_sessions st ! i) \<and> client_lookup st normal = None"
    "ms_active (se_sessions st ! i) \<Longrightarrow> ms_session_id (se_sessions st ! i) = rp_session_id normal'"
    by (rule session_ingest_client [OF assms]) auto
  then show ?thesis
    using m7mux_session_find_by_client_Some by (intro exI [of _ i]) fastforce
qed

lemma sample_client_ingest:
  obtains st' normal' where "m7mux_session_ingest m7mux_session_state_init 1000 client_control sample_client_packet =
     (True, st', normal')"
proof -
  obtain b st' normal' where "m7mux_session_ingest m7mux_session_state_init 1000 client_control
      sample_client_packet = (b, st', normal')" by (metis prod_cases3)
  with session_ingest_refused [of m7mux_session_state_init 1000 client_control sample_client_packet st' normal']
    session_init_free that show ?thesis by (cases b) simp_all
qed

theorem session_client_mapping_witness:
  "\<exists>st' normal' i. m7mux_session_ingest m7mux_session_state_init 1000 client_control sample_client_packet =
     (True, st', normal') \<and>
     m7mux_session_find_by_client_session st' 11 SHARED_KNOCK_CODEC_V4_WIRE_VERSION 1 = Some i \<and>
     ms_session_id (se_sessions st' ! i) = rp_session_id normal'"
proof -
  obtain st' normal' where i: "m7mux_session_ingest m7mux_session_state_init 1000 client_control
      sample_client_packet = (True, st', normal')" by (rule sample_client_ingest)
  from session_client_mapping [OF session_ok_init(1) sample_client_bounded _ _ _ i] i show ?thesis
    by (auto simp: control_client_owned_def client_control_def sample_client_packet_def
        SHARED_KNOCK_CODEC_V4_WIRE_VERSION_def)
qed

text \<open>
  Expiry clears exactly the sessions whose time has come, returns how many,
  and leaves the others and the next id alone.
\<close>

theorem session_expire_exact:
  assumes "session_ok st" "m7mux_session_expire st now_ms = (n, st')"
  shows "session_ok st' \<and> n = count_if (session_expired now_ms) (se_sessions st) \<and>
    se_sessions st' = map (\<lambda>s. if session_expired now_ms s then zero_session else s) (se_sessions st) \<and>
    se_next_session_id st' = se_next_session_id st"
  using session_expire_spec [OF assms] by blast

theorem session_expire_exact_witness:
  "\<exists>st' normal' st''. m7mux_session_ingest m7mux_session_state_init 1000 client_control sample_client_packet =
     (True, st', normal') \<and> m7mux_session_expire st' 0 = (0, st'') \<and> se_sessions st'' = se_sessions st'"
proof -
  obtain st' normal' where i: "m7mux_session_ingest m7mux_session_state_init 1000 client_control
      sample_client_packet = (True, st', normal')" by (rule sample_client_ingest)
  have ok: "session_ok st'"
    using session_ingest_spec [OF session_ok_init(1) sample_client_bounded _ i]
    by (auto simp: sample_client_packet_def SHARED_KNOCK_CODEC_V4_WIRE_VERSION_def)
  obtain n st'' where e: "m7mux_session_expire st' 0 = (n, st'')" by fastforce
  have "\<not> session_expired 0 s" for s by (auto simp: session_expired_def word_neq_0_conv)
  with session_expire_exact [OF ok e] have "n = 0" "se_sessions st'' = se_sessions st'"
    by (simp_all add: count_if_def)
  with i e show ?thesis by blast
qed

section \<open>Streams\<close>

text \<open>
  C3: on an idle stream with an empty ready queue, the fragments of a
  message, ingested in any order, are drained in the order of their indices, each exactly once, with
  the last one marked complete.
\<close>

theorem stream_reassembles_messages:
  fixes ps :: "M7MuxRecvPacket list"
  assumes "adapters_ok reg" "stream_ok reg st" "heap_ok h"
    and "sm_ready_count st = 0" "idle st s t" "s \<noteq> 0" "t \<noteq> 0" "msg \<noteq> 0"
    and "\<forall>p \<in> set ps. fragment_of s t msg n p \<and> releasable reg p"
    and "1 < length ps" "length ps \<le> M7MUX_STREAM_READY_QUEUE_CAPACITY" "unat n = length ps"
    and "mset (map (\<lambda>p. unat (rp_fragment_index p)) ps) = mset [0..<length ps]"
    and "users_distinct ps" "packet_users ps \<subseteq> live h"
  shows "fst (stream_run reg (map Op_Ingest ps @ replicate (length ps) (Op_Drain True)) st h) =
    map delivered_form (sort_key (\<lambda>p. unat (rp_fragment_index p)) ps)"
  using assms by (rule reassembly_run)

definition sample_fragment :: "u32 \<Rightarrow> M7MuxRecvPacket" where
  "sample_fragment i = zero_recv\<lparr>rp_session_id := 7, rp_stream_id := 3, rp_message_id := 9,
     rp_fragment_index := i, rp_fragment_count := 2\<rparr>"

definition sample_stream :: M7MuxStreamState where
  "sample_stream = m7mux_stream_state_init\<lparr>sm_adapter_lib := True\<rparr>"

lemma sample_stream_facts:
  "stream_ok reg sample_stream" "sm_ready_count sample_stream = 0" "slot_users sample_stream = {}"
  "sm_session_trackers sample_stream = sm_session_trackers m7mux_stream_state_init"
  unfolding sample_stream_def using stream_init_ok by (auto simp: m7mux_stream_state_init_def)

theorem stream_reassembles_messages_witness:
  "fst (stream_run ([] :: unit registry)
      [Op_Ingest (sample_fragment 1), Op_Ingest (sample_fragment 0), Op_Drain True, Op_Drain True]
      sample_stream (empty_heap (\<lambda>_. False))) =
   [delivered_form (sample_fragment 0), delivered_form (sample_fragment 1)]"
proof -
  have "fst (stream_run ([] :: unit registry) (map Op_Ingest [sample_fragment 1, sample_fragment 0] @
      replicate (length [sample_fragment 1, sample_fragment 0]) (Op_Drain True))
      sample_stream (empty_heap (\<lambda>_. False))) =
    map delivered_form (sort_key (\<lambda>p. unat (rp_fragment_index p)) [sample_fragment 1, sample_fragment 0])"
    by (rule stream_reassembles_messages [where s = 7 and t = 3 and msg = 9 and n = 2])
      (auto simp: adapters_ok_def sample_stream_facts heap_ok_empty fresh_stream_idle
        sample_fragment_def fragment_of_def releasable_def zero_recv_def users_distinct_def packet_users_def
        M7MUX_STREAM_READY_QUEUE_CAPACITY_def nth_Cons split: nat.splits)
  then show ?thesis by (simp add: sample_fragment_def numeral_2_eq_2)
qed

text \<open>
  C4: whatever is ingested, drained and expired, and in whatever order, the
  fragments delivered on a stream follow one another: a fragment is the first of its message, or
  the one right after the fragment of the same message delivered before it.
\<close>

theorem stream_delivers_in_order:
  assumes "sm_session_trackers st = sm_session_trackers m7mux_stream_state_init"
  shows "in_order_from None (fragments_of s t (fst (stream_run reg ops st h)))"
  using stream_run_order [OF order_inv_init [OF assms], of reg ops h] by (metis prod_cases3 fst_conv)

theorem stream_delivers_in_order_witness:
  "in_order_from None (fragments_of 7 3 (fst (stream_run ([] :: unit registry)
     [Op_Ingest zero_recv, Op_Expire 0, Op_Drain True] m7mux_stream_state_init (empty_heap (\<lambda>_. False)))))"
  by (rule stream_delivers_in_order) (rule refl)

text \<open>
  C10: session trackers are claimed for good. Once 64 sessions have been
  seen, no operation ever frees a tracker, so packets of any other session are refused until the
  connection is reset, however long ago the 64 went silent.
\<close>

theorem stream_sessions_never_released:
  assumes "trackers_full st" "rp_session_id p \<notin> tracked_sessions st"
    and "stream_run reg ops st h = (outs, st', h')"
  shows "m7mux_stream_ingest reg st' p h' = (False, st', h')"
proof -
  have "session_slots st' = session_slots st" by (rule session_slots_run [OF assms(1,3)])
  then have "trackers_full st'" "rp_session_id p \<notin> tracked_sessions st'"
    using assms(1,2) session_slots_full [of st] session_slots_full [of st'] by simp_all
  then show ?thesis by (rule ingest_full_table)
qed

definition crowded_stream :: M7MuxStreamState where
  "crowded_stream = m7mux_stream_state_init\<lparr>sm_session_trackers :=
     map (\<lambda>i. zero_session_tracker\<lparr>tr_active := True, tr_session_id := word_of_nat i\<rparr>) [1..<65]\<rparr>"

lemma crowded_stream_facts:
  "trackers_full crowded_stream" "u \<in> tracked_sessions crowded_stream \<Longrightarrow> unat u < 65"
  by (auto simp: crowded_stream_def trackers_full_def tracked_sessions_def unat_of_nat)

theorem stream_sessions_never_released_witness:
  "\<exists>st' h'. snd (stream_run ([] :: unit registry) [Op_Expire 1000000] crowded_stream (empty_heap (\<lambda>_. False))) = (st', h') \<and>
     m7mux_stream_ingest ([] :: unit registry) st' (zero_recv\<lparr>rp_session_id := 100\<rparr>) h' = (False, st', h')"
proof -
  obtain outs st' h' where r: "stream_run ([] :: unit registry) [Op_Expire 1000000] crowded_stream
      (empty_heap (\<lambda>_. False)) = (outs, st', h')" by (metis prod_cases3)
  have "rp_session_id (zero_recv\<lparr>rp_session_id := 100\<rparr>) \<notin> tracked_sessions crowded_stream"
    using crowded_stream_facts(2) [of 100] by auto
  from stream_sessions_never_released [OF crowded_stream_facts(1) this r] r show ?thesis by simp
qed

text \<open>
  C11: a message whose tracker waits for a fragment that is neither queued
  nor sent again (expiry dropped it, or the network did) blocks its stream: expiry does not reset
  the tracker, so every later message of more than one fragment on that stream is refused.
\<close>

theorem lost_fragment_blocks_stream:
  assumes "stuck st s t msg" "\<forall>op \<in> set ops. avoids s msg op" "s \<noteq> 0"
    and "stream_run reg ops st h = (outs, st', h')"
    and "rp_session_id p = s" "rp_stream_id p = t" "rp_message_id p \<noteq> 0" "rp_message_id p \<noteq> msg"
    and "rp_fragment_count p > 1"
  shows "\<not> fst (m7mux_stream_ingest reg st' p h')"
proof -
  have st: "stuck st' s t msg" by (rule stuck_run [OF assms(1-4)])
  have "t \<noteq> 0" using st by (auto simp: stuck_def in_flight_def elim: stream_tracker_Some)
  then have av: "avoids s msg (Op_Ingest p)" using assms(5-8) by (simp add: avoids_def)
  obtain b st'' h'' where i: "m7mux_stream_ingest reg st' p h' = (b, st'', h'')" by (metis prod_cases3)
  from stuck_ingest [OF st av i] assms(5-9) i show ?thesis by simp
qed

definition waiting_stream :: M7MuxStreamState where
  "waiting_stream = m7mux_stream_state_init\<lparr>sm_session_trackers :=
     zero_session_tracker\<lparr>tr_active := True, tr_session_id := 7, tr_stream_trackers :=
       zero_message_tracker\<lparr>mt_active := True, mt_stream_id := 3, mt_message_id := 9,
         mt_next_fragment_index := 1, mt_fragment_count := 3\<rparr> # replicate 63 zero_message_tracker\<rparr> #
     replicate 63 zero_session_tracker\<rparr>"

lemma waiting_stream_stuck: "stuck waiting_stream 7 3 9"
  by (auto simp: stuck_def in_flight_def stream_tracker_def session_lookup_def message_lookup_def
      waiting_stream_def m7mux_stream_state_init_def)

theorem lost_fragment_blocks_stream_witness:
  "\<exists>st' h'. snd (stream_run ([] :: unit registry) [Op_Expire 1000000] waiting_stream (empty_heap (\<lambda>_. False))) = (st', h') \<and>
     \<not> fst (m7mux_stream_ingest ([] :: unit registry) st'
       (zero_recv\<lparr>rp_session_id := 7, rp_stream_id := 3, rp_message_id := 10, rp_fragment_count := 2\<rparr>) h')"
proof -
  obtain outs st' h' where r: "stream_run ([] :: unit registry) [Op_Expire 1000000] waiting_stream
      (empty_heap (\<lambda>_. False)) = (outs, st', h')" by (metis prod_cases3)
  have "\<not> fst (m7mux_stream_ingest ([] :: unit registry) st'
      (zero_recv\<lparr>rp_session_id := 7, rp_stream_id := 3, rp_message_id := 10, rp_fragment_count := 2\<rparr>) h')"
    by (rule lost_fragment_blocks_stream [OF waiting_stream_stuck _ _ r]) (simp_all add: avoids_def)
  with r show ?thesis by simp
qed

section \<open>Sending\<close>

text \<open>
  C8: a packet is staged whole or not at all. When staging succeeds, the egress queue has
  got at its end, in the order of their indices, exactly the datagrams that the codec of the packet's wire version
  makes of it: the packet itself when it goes in one, or else fragment 0, 1 and so on up to the last of the number
  asked for or needed. When it fails, the queue is as before. Nothing else of the connection changes.
\<close>

theorem staging_is_all_or_nothing:
  assumes "adapters_ok reg" "egress_ok (mu_egress st)"
  shows "case m7mux_outbox_stage_fragments reg calloc_ok st send n r of (b, st', r') \<Rightarrow>
    egress_ok (mu_egress st') \<and> only_egress st st' \<and>
    (if b then \<exists>fs. egress_items (mu_egress st') = egress_items (mu_egress st) @ map egress_stored fs \<and>
        staged_as reg send n r fs r' \<and> (1 < n \<longrightarrow> length fs = n)
     else egress_items (mu_egress st') = egress_items (mu_egress st))"
proof -
  define k where "k = (if n \<le> 1 then 0 else n)"
  have k: "m7mux_outbox_stage_fragments reg calloc_ok st send n r = m7mux_outbox_stage_common reg calloc_ok st send k r"
    "staged_as reg send k = staged_as reg send n"
    by (simp_all add: k_def m7mux_outbox_stage_fragments_def m7mux_outbox_stage_def staged_as_def datagram_count_def fun_eq_iff)
  have len: "1 < n \<longrightarrow> length fs = n" if "staged_as reg send n r fs r'" for fs r'
    using that by (auto simp: staged_as_def encoded_as_def datagram_count_def)
  obtain b st' r' where s: "m7mux_outbox_stage_common reg calloc_ok st send k r = (b, st', r')"
    by (metis prod_cases3)
  note c = stage_common_spec [OF assms s, unfolded k(2)]
  show ?thesis unfolding k(1) s using c len by (cases b) auto
qed

theorem staging_is_all_or_nothing_witness:
  "\<exists>st' fs. m7mux_outbox_stage_fragments (v4_registry sample_evp True client_context zero_codec_state) True
      zero_mux sample_send 2 0 = (True, st', 6) \<and>
    egress_items (mu_egress st') = map egress_stored fs \<and> length fs = 2 \<and>
    staged_as (v4_registry sample_evp True client_context zero_codec_state) sample_send 2 0 fs 6"
proof -
  obtain st' where s: "m7mux_outbox_stage_fragments (v4_registry sample_evp True client_context zero_codec_state) True
      zero_mux sample_send 2 0 = (True, st', 6)" by (rule sample_stage)
  note t = staging_is_all_or_nothing [where reg = "v4_registry sample_evp True client_context zero_codec_state" and calloc_ok = True
      and send = sample_send and n = 2 and r = 0, OF v4_registry_ok(1) zero_mux_egress(1)]
  show ?thesis using t [unfolded s prod.case] s zero_mux_egress(2) by auto
qed

section \<open>Connections\<close>

text \<open>
  C2: from the creation of a connection through any sequence of pumps,
  drains and staged packets, the user blocks allocated are exactly those of the packets queued in
  the stream, none is freed twice or read after it was freed, and the disconnect frees them all.
\<close>

theorem connection_owns_user_blocks:
  assumes "adapters_ok reg" "m7mux_connect_socket g_ctx True fd = Some st0"
    and "mux_run g_ctx reg ntop ops (st0, empty_heap oom, r) = (st, h, r')"
    and "m7mux_connect_disconnect g_ctx reg st h = (closed, h')"
  shows "\<not> uh_fault h \<and> live h = slot_users (mu_stream st) \<and> \<not> uh_fault h' \<and> live h' = {} \<and>
    is_queue_count (mu_ingress st) \<le> M7MUX_INGRESS_QUEUE_CAPACITY \<and>
    es_count (mu_egress st) \<le> M7MUX_EGRESS_QUEUE_CAPACITY"
proof -
  note c = connect_socket_ok [OF assms(2)]
  have ok: "mux_ok reg st h" by (rule mux_run_ok [OF assms(1) c(1) assms(3)])
  have "heap_ok h' \<and> live h' = {}" by (rule disconnect_frees_all [OF assms(1) ok c(2) assms(4)])
  with ok show ?thesis
    by (auto simp: mux_ok_def heap_ok_def ingress_ok_def egress_ok_def ring_ok_def)
qed

theorem connection_owns_user_blocks_witness:
  "\<exists>st0 st h r' closed h'. m7mux_connect_socket sample_mux_context True 4 = Some st0 \<and>
    mux_run sample_mux_context [sample_v4_adapter server_context] (\<lambda>_. None) [Mux_Drain True]
      (st0, empty_heap (\<lambda>_. False), 0) = (st, h, r') \<and>
    m7mux_connect_disconnect sample_mux_context [sample_v4_adapter server_context] st h = (closed, h') \<and>
    live h' = {}"
proof -
  obtain st0 where c: "m7mux_connect_socket sample_mux_context True 4 = Some st0"
    by (simp add: m7mux_connect_socket_def m7mux_connect_alloc_state_def m7mux_connect_state_init_def
        sample_mux_context_def)
  obtain st h r' where r: "mux_run sample_mux_context [sample_v4_adapter server_context] (\<lambda>_. None) [Mux_Drain True]
      (st0, empty_heap (\<lambda>_. False), 0) = (st, h, r')" by (metis prod_cases3)
  obtain closed h' where d: "m7mux_connect_disconnect sample_mux_context [sample_v4_adapter server_context] st h = (closed, h')"
    by fastforce
  from connection_owns_user_blocks [OF sample_adapters_ok c r d] c r d show ?thesis by blast
qed

section \<open>Normalization and the codec registry\<close>



text \<open>
  Registering a codec under a new name makes it, with a fresh state, what
  the name stands for; the other names keep theirs, and unregistering it takes the name out again.
\<close>

theorem registry_register_lookup:
  assumes "registry_ok reg" "m7mux_normalize_adapter_register reg a = (True, reg')"
  shows "registry_ok reg' \<and> m7mux_normalize_adapter_lookup reg (ad_name a) = None \<and>
    (\<exists>s. m7mux_normalize_adapter_lookup reg' (ad_name a) = Some (a\<lparr>ad_state := s\<rparr>)) \<and>
    (\<forall>n. n \<noteq> ad_name a \<longrightarrow> m7mux_normalize_adapter_lookup reg' n = m7mux_normalize_adapter_lookup reg n) \<and>
    m7mux_normalize_adapter_unregister reg' (ad_name a) = (True, reg)"
proof -
  obtain s where new: "\<forall>b \<in> set reg. ad_name b \<noteq> ad_name a" and r: "reg' = reg @ [a\<lparr>ad_state := s\<rparr>]"
    using assms(2) by (auto simp: m7mux_normalize_adapter_register_def split: if_splits option.splits)
  have look: "find_idx (\<lambda>b. ad_name b = n) (reg @ [x]) =
      (case find_idx (\<lambda>b. ad_name b = n) reg of Some i \<Rightarrow> Some i
       | None \<Rightarrow> if ad_name x = n then Some (length reg) else None)" for n and x :: "'a adapter"
    by (induction reg) (auto split: option.splits)
  have unreg: "m7mux_normalize_adapter_unregister (reg @ [x]) (ad_name x) = (True, reg)"
    if "\<forall>b \<in> set reg. ad_name b \<noteq> ad_name x" for x :: "'a adapter"
    using that by (induction reg) auto
  have none: "find_idx (\<lambda>b. ad_name b = ad_name a) reg = None" using new by (simp add: find_idx_None)
  show ?thesis
    using register_ok [OF assms(1), of a] assms(2) none look unreg [of "a\<lparr>ad_state := s\<rparr>"] new
    by (auto simp: r m7mux_normalize_adapter_lookup_def nth_append split: option.splits dest: find_idx_SomeD(1))
qed

theorem registry_register_lookup_witness:
  "\<exists>reg' s. m7mux_normalize_adapter_register []
       (shared_knock_codec_v4_adapter sample_evp True (Some server_context) True True) = (True, reg') \<and>
     m7mux_normalize_adapter_lookup reg' ''codec.v4'' =
       Some ((shared_knock_codec_v4_adapter sample_evp True (Some server_context) True True)\<lparr>ad_state := s\<rparr>)"
proof -
  let ?a = "shared_knock_codec_v4_adapter sample_evp True (Some server_context) True True"
  obtain reg' where r: "m7mux_normalize_adapter_register [] ?a = (True, reg')"
    by (simp add: m7mux_normalize_adapter_register_def shared_knock_codec_v4_adapter_def
        M7MUX_MAX_NORMALIZE_ADAPTERS_def shared_knock_codec_v4_create_state_def
        shared_knock_codec_v4_sync_nonce_cache_def Let_def lib_nonce_cache_init_def zero_codec_state_def
        NONCE_DEFAULT_CAPACITY_def NONCE_DEFAULT_STRLEN_def)
  have "registry_ok []" by (simp add: registry_ok_def)
  from registry_register_lookup [OF this r] r show ?thesis
    by (auto simp: shared_knock_codec_v4_adapter_def)
qed

end
