(* ===== verification/Codec_Properties.thy ===== *)
theory Codec_Properties
  imports Samples
begin

text \<open>
  The properties of the V4 codec, of the packet digest and of the replay cache. OpenSSL is the
  parameter \<open>E\<close>; what a property needs of it is a named hypothesis: GCM keeps lengths and opens what
  it sealed, the private key opens what the public key wrapped, random numbers have the length asked.
\<close>

section \<open>V4 packets\<close>

text \<open>
  C5: what the client's context encodes, the server's context decodes: every
  semantic field and the payload come back, the unit is marked encrypted and decoded but never
  authenticated, and the control block says that the session id is the client's.
\<close>

theorem v4_decode_inverts_encode:
  assumes "gcm_lengths E" "gcm_inverts E" "rand_lengths E"
    and "cx_openssl_session client = Some s1" "ss_public_key s1 = Some pub"
    and "cx_openssl_session server = Some s2" "ss_private_key s2 = Some priv" "rsa_pair E pub priv"
    and "shared_knock_codec_v4_encode E has (Some client) normal buf r = (Some bytes, r')"
    and "length buf = SHARED_KNOCK_CODEC_V4_FORM1_PACKET_MAX_SIZE" "length (nu_hmac normal) = 32"
    and "in_buffer ingress = bytes"
  shows "\<exists>hmac. v4_body_hmac E has (Some client) normal = Some hmac \<and>
    shared_knock_codec_v4_decode E (Some server) (Some state) ingress control zero_unit =
      (1, control\<lparr>ct_session_by_client := 1, ct_stream_type := 0\<rparr>,
       v4_delivered normal hmac (in_ip ingress) (in_client_port ingress))"
  by (rule v4_codec_roundtrip [OF assms])

theorem v4_decode_inverts_encode_witness:
  "\<exists>bytes out. shared_knock_codec_v4_encode sample_evp True (Some client_context) sample_unit
       (replicate SHARED_KNOCK_CODEC_V4_FORM1_PACKET_MAX_SIZE 0) 0 = (Some bytes, 3) \<and>
     shared_knock_codec_v4_decode sample_evp (Some server_context) (Some zero_codec_state)
       (zero_ingress\<lparr>in_buffer := bytes\<rparr>) zero_control zero_unit =
       (1, zero_control\<lparr>ct_session_by_client := 1, ct_stream_type := 0\<rparr>, out) \<and>
     nu_payload out = [1, 2, 3] \<and> nu_user_id out = 3 \<and> \<not> nu_wire_auth out"
proof -
  obtain bytes where b: "shared_knock_codec_v4_encode sample_evp True (Some client_context) sample_unit
      (replicate SHARED_KNOCK_CODEC_V4_FORM1_PACKET_MAX_SIZE 0) 0 = (Some bytes, 3)"
    by (rule sample_encode [of sample_unit "replicate SHARED_KNOCK_CODEC_V4_FORM1_PACKET_MAX_SIZE 0" 0]) simp_all
  let ?i = "zero_ingress\<lparr>in_buffer := bytes\<rparr>"
  obtain hmac where d: "shared_knock_codec_v4_decode sample_evp (Some server_context) (Some zero_codec_state) ?i
      zero_control zero_unit = (1, zero_control\<lparr>ct_session_by_client := 1, ct_stream_type := 0\<rparr>,
        v4_delivered sample_unit hmac (in_ip ?i) (in_client_port ?i))"
    using v4_decode_inverts_encode [OF sample_evp_laws(1-3) sample_sessions sample_evp_laws(4) b, of ?i] by auto
  have "nu_payload (v4_delivered sample_unit hmac ip port) = [1, 2, 3]"
    "nu_user_id (v4_delivered sample_unit hmac ip port) = 3" "\<not> nu_wire_auth (v4_delivered sample_unit hmac ip port)"
    for ip port by (simp_all add: v4_delivered_def v4_received_def sample_unit_def)
  with b d show ?thesis by blast
qed

text \<open>
  Serializing a packet whose lengths are in range and reading the bytes
  back gives the same packet.
\<close>

theorem v4_wire_roundtrip_exact:
  assumes "v4_packet_ok pkt" "shared_knock_codec_v4_pack pkt buf = (n, out)" "0 < n"
  shows "shared_knock_codec_v4_unpack_wire (take (nat n) out) p0 = (SL_PAYLOAD_OK, pkt)"
  by (rule v4_wire_roundtrip [OF assms])

definition sample_packet :: SharedKnockCodecV4Form1Packet where
  "sample_packet = \<lparr>v4_outer = \<lparr>px_magic = SHARED_KNOCK_PREFIX_MAGIC,
      px_version = SHARED_KNOCK_CODEC_V4_WIRE_VERSION, px_form = SHARED_KNOCK_CODEC_FORM1_ID\<rparr>,
    v4_wrapped_cek_len = word_of_nat (length [1 :: u8, 2]), v4_nonce = replicate 12 3,
    v4_ciphertext_len = word_of_nat (length (replicate 77 (4 :: u8))),
    v4_wrapped_cek = write_at 0 [1, 2] (replicate 256 0),
    v4_ciphertext = write_at 0 (replicate 77 4) (replicate 589 0), v4_tag = replicate 16 5\<rparr>"

theorem v4_wire_roundtrip_exact_witness:
  "\<exists>out. shared_knock_codec_v4_pack sample_packet (replicate 888 0) = (122, out) \<and>
     shared_knock_codec_v4_unpack_wire (take 122 out) zero_v4_packet = (SL_PAYLOAD_OK, sample_packet)"
proof -
  have ok: "v4_packet_ok sample_packet"
    unfolding v4_packet_ok_def
    by (intro conjI exI [of _ "[1, 2]"] exI [of _ "replicate 77 4"]) (simp_all add: sample_packet_def)
  obtain out where p: "shared_knock_codec_v4_pack sample_packet (replicate 888 0) = (122, out)"
    by (simp add: shared_knock_codec_v4_pack_def sample_packet_def v4_sizes)
  from v4_wire_roundtrip_exact [OF ok p, of zero_v4_packet] p show ?thesis by simp
qed

text \<open>
  The codec claims a datagram exactly when its header has the magic, the version
  and the form of V4, both lengths are in range and add up, with header and tag, to the size of the
  datagram. Everything shorter, longer or out of range is left to the other codecs.
\<close>

theorem v4_detects_exactly:
  "fst (shared_knock_codec_v4_detect ingress identity) \<longleftrightarrow>
    (let buf = in_buffer ingress;
         cek_len = unat (read_u16_be buf 9);
         ct_len = unat (read_u32_be buf 23)
     in 27 \<le> length buf \<and> read_u32_be buf 0 = SHARED_KNOCK_PREFIX_MAGIC \<and>
        read_u32_be buf 4 = SHARED_KNOCK_CODEC_V4_WIRE_VERSION \<and> buf ! 8 = SHARED_KNOCK_CODEC_FORM1_ID \<and>
        0 < cek_len \<and> cek_len \<le> 256 \<and> 77 \<le> ct_len \<and> ct_len \<le> 589 \<and>
        length buf = 27 + cek_len + ct_len + 16)"
  by (auto simp: shared_knock_codec_v4_detect_def shared_knock_codec_v4_deserialize_wire_def
      shared_knock_codec_v4_unpack_wire_def shared_knock_codec_v4_validate_wire_def Let_def v4_sizes
      payload_codes zero_v4_packet_def not_less unat_eq_0 unat_gt_0 split: if_splits)

text \<open>
  Cut into the number of fragments the codec counts, or into a larger
  number that was forced, a payload is the concatenation of the fragments' payloads, none exceeds
  512 bytes, and their lengths differ by at most one byte.
\<close>

theorem v4_fragments_partition:
  assumes "shared_knock_codec_v4_count_fragments normal force = n" "n \<noteq> 0"
  shows "concat (map (\<lambda>i. nu_payload (v4_fragment normal i n)) [0..<n]) = nu_payload normal \<and>
    (0 < force \<longrightarrow> n = force) \<and>
    (\<forall>i < n. length (nu_payload (v4_fragment normal i n)) \<le> SHARED_KNOCK_CODEC_V4_FORM1_PAYLOAD_MAX \<and>
       length (nu_payload (v4_fragment normal i n)) =
         length (nu_payload normal) div n + (if i < length (nu_payload normal) mod n then 1 else 0))"
  using v4_fragments_concat [of n normal] v4_fragment_fits [OF assms(1)] v4_fragment_length [of _ n normal]
    v4_count_fragments_enough(2) [OF assms] assms(2) by auto

theorem v4_fragments_partition_witness:
  "concat (map (\<lambda>i. nu_payload (v4_fragment sample_unit i 2)) [0..<2]) = [1, 2, 3] \<and>
   length (nu_payload (v4_fragment sample_unit 0 2)) = 2"
proof -
  have n: "shared_knock_codec_v4_count_fragments sample_unit 2 = 2"
    by (simp add: shared_knock_codec_v4_count_fragments_def v4_sizes)
  from v4_fragments_partition [OF n] show ?thesis by simp
qed

section \<open>Replay\<close>

text \<open>
  C6: asked about (timestamp, challenge) pairs in the order of their times, a codec
  state accepts a pair exactly when none of the last 128 accepted pairs, accepted within the time
  to live, is the same one.
\<close>

theorem v4_replay_refused:
  assumes "shared_knock_codec_v4_create_state context True True = Some s" "sorted (map (\<lambda>(t, c, now). now) xs)"
  shows "v4_accept_all context s xs =
    replay_spec NONCE_DEFAULT_CAPACITY (shared_knock_codec_v4_nonce_ttl context) []
      (map (\<lambda>(t, c, now). (nonce_text t c, now)) xs)"
  by (rule v4_replay_spec [OF assms])

theorem v4_replay_refused_witness:
  "\<exists>s. shared_knock_codec_v4_create_state None True True = Some s \<and>
     v4_accept_all None s [(1700, 5, 10), (1700, 5, 20), (1700, 6, 30), (1700, 5, 80)] = [True, False, True, True]"
proof -
  obtain s where s: "shared_knock_codec_v4_create_state None True True = Some s"
    by (simp add: shared_knock_codec_v4_create_state_def shared_knock_codec_v4_sync_nonce_cache_def Let_def
        lib_nonce_cache_init_def zero_codec_state_def NONCE_DEFAULT_CAPACITY_def NONCE_DEFAULT_STRLEN_def)
  have ttl: "shared_knock_codec_v4_nonce_ttl None = NONCE_DEFAULT_TTL_SECONDS"
    by (simp add: shared_knock_codec_v4_nonce_ttl_def)
  from v4_replay_refused [OF s, of "[(1700, 5, 10), (1700, 5, 20), (1700, 6, 30), (1700, 5, 80)]"]
  have "v4_accept_all None s [(1700, 5, 10), (1700, 5, 20), (1700, 6, 30), (1700, 5, 80)] = [True, False, True, True]"
    by (simp add: ttl seen_recently_def nonce_text_inj NONCE_DEFAULT_CAPACITY_def NONCE_DEFAULT_TTL_SECONDS_def)
  with s show ?thesis by blast
qed

section \<open>The digest\<close>

text \<open>
  C12: the bytes that the digest of a V3 or V4 packet absorbs determine
  every semantic field: version, form, timestamp, user, action, challenge and payload. Two units
  that differ in one of them have different digest inputs.
\<close>

theorem digest_covers_semantic_fields:
  assumes "concat (form1_items a) = concat (form1_items b)"
  shows "nu_wire_version a = nu_wire_version b \<and> nu_wire_form a = nu_wire_form b \<and>
    nu_timestamp a = nu_timestamp b \<and> nu_user_id a = nu_user_id b \<and> nu_action_id a = nu_action_id b \<and>
    nu_challenge a = nu_challenge b \<and> nu_payload a = nu_payload b"
  by (rule form1_items_inj [OF assms])

theorem digest_covers_semantic_fields_witness:
  "nu_payload (sample_unit\<lparr>nu_session_id := 99\<rparr>) = nu_payload sample_unit"
proof -
  have "concat (form1_items (sample_unit\<lparr>nu_session_id := 99\<rparr>)) = concat (form1_items sample_unit)"
    by (simp add: form1_items_def)
  from digest_covers_semantic_fields [OF this] show ?thesis by blast
qed

text \<open>
  The digest does not cover the envelope: two units that differ only in
  session, message, stream, fragment index and fragment count have the same digest.
\<close>

theorem digest_ignores_envelope:
  "shared_knock_digest_generate_v4_form1 E has (a\<lparr>nu_session_id := s, nu_message_id := m,
     nu_stream_id := t, nu_fragment_index := i, nu_fragment_count := n\<rparr>) =
   shared_knock_digest_generate_v4_form1 E has a"
  by (simp add: shared_knock_digest_generate_v4_form1_def form1_items_ignores_envelope)

text \<open>
  For the digest of a V4 unit, validation accepts the signature that
  signing made and no other 32 bytes.
\<close>

theorem digest_validates_only_signature:
  assumes "shared_knock_digest_generate_v4_form1 E has normal = Some digest"
    and "shared_knock_digest_sign E key digest = Some sig"
  shows "length digest = 32 \<and> length sig = 32 \<and> shared_knock_digest_validate E key digest sig \<and>
    (\<forall>sig'. length sig' = 32 \<longrightarrow> shared_knock_digest_validate E key digest sig' \<longrightarrow> sig' = sig)"
  using digest_v4_ok(1) [OF assms(1)] digest_sign_validates [OF assms(2)] digest_validate_iff [OF assms(2)] assms(2)
  by (auto simp: shared_knock_digest_sign_def split: option.splits if_splits)

theorem digest_validates_only_signature_witness:
  "\<exists>digest sig. shared_knock_digest_generate_v4_form1 sample_evp True sample_unit = Some digest \<and>
     shared_knock_digest_sign sample_evp (replicate 32 7) digest = Some sig \<and>
     shared_knock_digest_validate sample_evp (replicate 32 7) digest sig \<and>
     \<not> shared_knock_digest_validate sample_evp (replicate 32 7) digest (replicate 32 2)"
proof -
  obtain digest where d: "shared_knock_digest_generate_v4_form1 sample_evp True sample_unit = Some digest"
    by (simp add: shared_knock_digest_generate_v4_form1_def form1_items_def siglatch_openssl_digest_array_def
        sample_evp_def buffer_sizes digest_absorb.simps)
  obtain sig where s: "shared_knock_digest_sign sample_evp (replicate 32 7) digest = Some sig" "sig = replicate 32 1"
    by (simp add: shared_knock_digest_sign_def sample_evp_def)
  have "replicate 32 (2 :: u8) \<noteq> sig" using s(2) by (simp add: replicate_eq_replicate)
  with digest_validates_only_signature [OF d s(1)] d s(1) show ?thesis by (metis length_replicate)
qed

text \<open>
  Whichever item is the first that cannot be absorbed, the loop of the digest wrapper
  ends there but the function goes on: what it returns, as success, is what it would return for the items
  before that one alone. So that item and all that follow it are not covered by the digest.
\<close>

theorem digest_array_prefix:
  assumes "absorbs E absorbed" "absorbed \<noteq> []"
    and "next_item \<noteq> []" "\<not> EVP_DigestUpdate E (concat absorbed) next_item"
  shows "siglatch_openssl_digest_array E (absorbed @ next_item # items) = siglatch_openssl_digest_array E absorbed \<and>
    siglatch_openssl_digest_array E absorbed =
      (if EVP_DigestInit E
       then case EVP_DigestFinal E (concat absorbed) of None \<Rightarrow> None | Some d \<Rightarrow> if length d = 32 then Some d else None
       else None)"
  using digest_absorb_stops [OF assms(1,3,4), of items] digest_absorbed [OF assms(1)] assms(2)
  by (simp add: siglatch_openssl_digest_array_def split: option.split)

theorem digest_array_prefix_witness:
  "siglatch_openssl_digest_array (sample_evp\<lparr>EVP_DigestUpdate := (\<lambda>acc bs. length acc < 2)\<rparr>) [[1], [], [2], [3], [4]] =
    Some (replicate 32 0)"
  using digest_array_prefix [of "sample_evp\<lparr>EVP_DigestUpdate := (\<lambda>acc bs. length acc < 2)\<rparr>" "[[1], [], [2]]" "[3]" "[[4]]"]
  by (simp add: sample_evp_def absorbs_def less_Suc_eq numeral_3_eq_3)

end
