(* ===== verification/Digest_Legacy.thy ===== *)
theory Digest_Legacy
  imports Codec_Common
begin

text \<open>
  The packets of the first two wire versions (\<open>shared/knock/packet.h\<close>, \<open>codec/v2/v2_form1.h\<close>) and
  their digests (\<open>shared/knock/digest.c\<close>). A payload array with its length field is a list of the
  array's size and a word.
\<close>

record KnockPacket =
  kp_version :: u8
  kp_timestamp :: u32
  kp_user_id :: u16
  kp_action_id :: u8
  kp_challenge :: u32
  kp_hmac :: "u8 list"
  kp_payload_len :: u16
  kp_payload :: "u8 list"

definition KNOCK_PAYLOAD_SIZE :: nat where "KNOCK_PAYLOAD_SIZE = 199"

definition SHARED_KNOCK_CODEC_V2_WIRE_VERSION :: u32 where
  "SHARED_KNOCK_CODEC_V2_WIRE_VERSION = 0x00020000"

definition SHARED_KNOCK_CODEC_V2_FORM1_PAYLOAD_MAX :: nat where
  "SHARED_KNOCK_CODEC_V2_FORM1_PAYLOAD_MAX = 191"

record SharedKnockCodecV2Form1Inner =
  i2_timestamp :: u32
  i2_user_id :: u16
  i2_action_id :: u8
  i2_challenge :: u32
  i2_hmac :: "u8 list"
  i2_payload_len :: u16

record SharedKnockCodecV2Form1Packet =
  p2_outer :: SharedKnockPrefix
  p2_inner :: SharedKnockCodecV2Form1Inner
  p2_payload :: "u8 list"

text \<open>A payload array of \<open>n\<close> bytes that starts with the given bytes.\<close>

definition payload_array :: "nat \<Rightarrow> u8 list \<Rightarrow> u8 list" where
  "payload_array n bytes = bytes @ replicate (n - length bytes) 0"

definition knock_items :: "KnockPacket \<Rightarrow> u8 list list" where
  "knock_items pkt =
     [[kp_version pkt], mem_u32 (kp_timestamp pkt), mem_u16 (kp_user_id pkt), [kp_action_id pkt],
      mem_u32 (kp_challenge pkt), mem_u16 (kp_payload_len pkt),
      take (unat (kp_payload_len pkt)) (kp_payload pkt)]"

definition shared_knock_digest_generate :: "evp \<Rightarrow> bool \<Rightarrow> KnockPacket \<Rightarrow> u8 list option" where
  "shared_knock_digest_generate E has_openssl pkt =
     (if \<not> has_openssl then None
      else if unat (kp_payload_len pkt) > KNOCK_PAYLOAD_SIZE then None
      else siglatch_openssl_digest_array E (knock_items pkt))"

text \<open>A chain of updates, each of which must succeed.\<close>

fun digest_updates_all :: "evp \<Rightarrow> u8 list \<Rightarrow> u8 list list \<Rightarrow> u8 list option" where
  "digest_updates_all E acc [] = Some acc"
| "digest_updates_all E acc (item # items) =
     (if \<not> EVP_DigestUpdate E acc item then None else digest_updates_all E (acc @ item) items)"

definition digest_oneshot :: "evp \<Rightarrow> u8 list list \<Rightarrow> u8 list option" where
  "digest_oneshot E items =
     (if \<not> EVP_DigestInit E then None
      else case digest_updates_all E [] items of
        None \<Rightarrow> None
      | Some bytes \<Rightarrow>
          (case EVP_DigestFinal E bytes of
             None \<Rightarrow> None
           | Some d \<Rightarrow> if length d \<noteq> 32 then None else Some d))"

definition shared_knock_digest_generate_oneshot :: "evp \<Rightarrow> KnockPacket \<Rightarrow> u8 list option" where
  "shared_knock_digest_generate_oneshot E pkt =
     (if unat (kp_payload_len pkt) > KNOCK_PAYLOAD_SIZE then None
      else digest_oneshot E (knock_items pkt))"

definition v2_form1_items :: "SharedKnockCodecV2Form1Packet \<Rightarrow> u8 list list" where
  "v2_form1_items pkt =
     [mem_u32 (px_version (p2_outer pkt)), mem_u32 (i2_timestamp (p2_inner pkt)),
      mem_u16 (i2_user_id (p2_inner pkt)), [i2_action_id (p2_inner pkt)],
      mem_u32 (i2_challenge (p2_inner pkt)), mem_u16 (i2_payload_len (p2_inner pkt)),
      take (unat (i2_payload_len (p2_inner pkt))) (p2_payload pkt)]"

definition shared_knock_digest_generate_v2_form1 ::
  "evp \<Rightarrow> SharedKnockCodecV2Form1Packet \<Rightarrow> u8 list option" where
  "shared_knock_digest_generate_v2_form1 E pkt =
     (if unat (i2_payload_len (p2_inner pkt)) > SHARED_KNOCK_CODEC_V2_FORM1_PAYLOAD_MAX then None
      else digest_oneshot E (v2_form1_items pkt))"

lemma digest_updates_all_ok: "digest_updates E \<Longrightarrow> digest_updates_all E acc items = Some (acc @ concat items)"
  by (induction items arbitrary: acc) (simp_all add: digest_updates_def)

text \<open>When no update fails, the chained and the one-shot digest of a packet agree.\<close>

lemma oneshot_agrees:
  assumes "digest_updates E"
  shows "shared_knock_digest_generate_oneshot E pkt = shared_knock_digest_generate E True pkt"
proof -
  have "knock_items pkt \<noteq> []" by (simp add: knock_items_def)
  then show ?thesis
    using digest_updates_all_ok [OF assms, of "[]" "knock_items pkt"] digest_absorb_concat [OF assms, of "[]" "knock_items pkt"]
    by (simp add: shared_knock_digest_generate_oneshot_def shared_knock_digest_generate_def
        digest_oneshot_def siglatch_openssl_digest_array_def)
qed

end
