(* ===== verification/Codec_V2.thy ===== *)
theory Codec_V2
  imports Digest_Legacy Codec_V4_Facts
begin

text \<open>
  \<open>shared/knock/codec/v2/v2.c\<close>: fixed packets of 245 bytes with the routing prefix, in the clear or
  encrypted as a whole with the server's RSA key.

  \<open>context\<close> is the file's static \<open>g_context\<close>, \<open>now\<close> what \<open>time\<close> returns, \<open>calloc_ok\<close> whether the
  buffer for the plaintext can be allocated.
\<close>

section \<open>Layout\<close>

definition SHARED_KNOCK_CODEC_V2_FORM1_PACKET_SIZE :: nat where
  "SHARED_KNOCK_CODEC_V2_FORM1_PACKET_SIZE = 245"
definition SHARED_KNOCK_CODEC_V2_FORM1_OUTER_SIZE :: nat where
  "SHARED_KNOCK_CODEC_V2_FORM1_OUTER_SIZE = SHARED_KNOCK_PREFIX_SIZE"
definition SHARED_KNOCK_CODEC_V2_FORM1_INNER_SIZE :: nat where
  "SHARED_KNOCK_CODEC_V2_FORM1_INNER_SIZE = 45"
definition SHARED_KNOCK_CODEC_V2_FORM1_TIMESTAMP_FUZZ :: int where
  "SHARED_KNOCK_CODEC_V2_FORM1_TIMESTAMP_FUZZ = 300"

lemmas v2_sizes = SHARED_KNOCK_CODEC_V2_FORM1_PACKET_SIZE_def SHARED_KNOCK_CODEC_V2_FORM1_OUTER_SIZE_def
  SHARED_KNOCK_CODEC_V2_FORM1_INNER_SIZE_def SHARED_KNOCK_CODEC_V2_FORM1_PAYLOAD_MAX_def
  SHARED_KNOCK_PREFIX_SIZE_def SHARED_KNOCK_CODEC_V2_FORM1_TIMESTAMP_FUZZ_def

definition zero_v2_packet :: SharedKnockCodecV2Form1Packet where
  "zero_v2_packet = \<lparr>p2_outer = \<lparr>px_magic = 0, px_version = 0, px_form = 0\<rparr>,
     p2_inner = \<lparr>i2_timestamp = 0, i2_user_id = 0, i2_action_id = 0, i2_challenge = 0,
       i2_hmac = replicate 32 0, i2_payload_len = 0\<rparr>,
     p2_payload = replicate SHARED_KNOCK_CODEC_V2_FORM1_PAYLOAD_MAX 0\<rparr>"

section \<open>The nonce cache\<close>

definition shared_knock_codec_v2_nonce_ttl :: "SharedKnockCodecContext option \<Rightarrow> int" where
  "shared_knock_codec_v2_nonce_ttl context =
     (case context of
        Some c \<Rightarrow>
          (if cx_nonce_window_ms c > 0
           then (let ttl = uint (cx_nonce_window_ms c div 1000)
                 in if ttl \<le> 0 then NONCE_DEFAULT_TTL_SECONDS else ttl)
           else NONCE_DEFAULT_TTL_SECONDS)
      | None \<Rightarrow> NONCE_DEFAULT_TTL_SECONDS)"

definition shared_knock_codec_v2_sync_nonce_cache ::
  "SharedKnockCodecContext option \<Rightarrow> bool \<Rightarrow> SharedKnockCodecState \<Rightarrow> bool \<times> SharedKnockCodecState" where
  "shared_knock_codec_v2_sync_nonce_cache context alloc_ok state =
     (let cfg = \<lparr>nf_capacity = NONCE_DEFAULT_CAPACITY, nf_nonce_strlen = NONCE_DEFAULT_STRLEN,
            nf_ttl_seconds = shared_knock_codec_v2_nonce_ttl context\<rparr>
      in if cs_nonce_ready state \<and> nc_capacity (cs_nonce state) = nf_capacity cfg \<and>
            nc_nonce_strlen (cs_nonce state) = nf_nonce_strlen cfg \<and>
            nc_ttl_seconds (cs_nonce state) = nf_ttl_seconds cfg
         then (True, state)
         else
           let state1 = (if cs_nonce_ready state
                         then state\<lparr>cs_nonce := lib_nonce_cache_shutdown (cs_nonce state),
                                    cs_nonce_ready := False\<rparr>
                         else state);
               (ok, cache) = lib_nonce_cache_init alloc_ok (cs_nonce state1) (Some cfg)
           in if \<not> ok then (False, state1\<lparr>cs_nonce := cache\<rparr>)
              else (True, state1\<lparr>cs_nonce := cache, cs_nonce_ready := True\<rparr>))"

definition shared_knock_codec_v2_packet_nonce_accept ::
  "SharedKnockCodecContext option \<Rightarrow> bool \<Rightarrow> int \<Rightarrow> SharedKnockCodecState \<Rightarrow> u32 \<Rightarrow> u32 \<Rightarrow>
   bool \<times> SharedKnockCodecState" where
  "shared_knock_codec_v2_packet_nonce_accept context alloc_ok now state timestamp challenge =
     (case shared_knock_codec_v2_sync_nonce_cache context alloc_ok state of
        (False, state1) \<Rightarrow> (False, state1)
      | (True, state1) \<Rightarrow>
          (let nonce_str = nonce_text timestamp challenge
           in case lib_nonce_check (cs_nonce state1) nonce_str now of
                (True, cache) \<Rightarrow> (False, state1\<lparr>cs_nonce := cache\<rparr>)
              | (False, cache) \<Rightarrow>
                  (True, state1\<lparr>cs_nonce := lib_nonce_add cache nonce_str now\<rparr>)))"

section \<open>The server's key\<close>

text \<open>The private key of the server, when the context has one.\<close>

definition server_private_key :: "SharedKnockCodecContext option \<Rightarrow> EVP_PKEY option" where
  "server_private_key context =
     (case context of
        None \<Rightarrow> None
      | Some c \<Rightarrow> if \<not> cx_has_server_key c then None else sk_private_key (cx_server_key c))"

text \<open>
  The first \<open>EVP_PKEY_decrypt\<close> asks for the size, which is the maximum for the key,
  \<open>EVP_PKEY_get_size\<close>; it must fit the \<open>cap\<close> bytes of the output.
\<close>

definition shared_knock_codec_v2_private_decrypt ::
  "evp \<Rightarrow> SharedKnockCodecContext option \<Rightarrow> u8 list \<Rightarrow> nat \<Rightarrow> u8 list option" where
  "shared_knock_codec_v2_private_decrypt E context input cap =
     (case server_private_key context of
        None \<Rightarrow> None
      | Some k \<Rightarrow>
          (if cap = 0 then None
           else if EVP_PKEY_get_size E k > cap then None
           else case EVP_PKEY_decrypt E k input of
             Inl stage \<Rightarrow> None
           | Inr plain \<Rightarrow> Some plain))"

section \<open>Encrypting a whole packet\<close>

text \<open>\<open>context ? context->openssl_session : NULL\<close>\<close>

definition context_session :: "SharedKnockCodecContext option \<Rightarrow> SiglatchOpenSSLSession option" where
  "context_session context =
     (case context of None \<Rightarrow> None | Some c \<Rightarrow> cx_openssl_session c)"

text \<open>The end of \<open>encode\<close>: PKCS 1 padding takes 11 bytes of the key's size.\<close>

definition rsa_whole_packet ::
  "evp \<Rightarrow> SharedKnockCodecContext option \<Rightarrow> u8 list \<Rightarrow> nat \<Rightarrow> rng \<Rightarrow> u8 list option \<times> rng" where
  "rsa_whole_packet E context packed capacity r =
     (case context_session context of
        None \<Rightarrow> (None, r)
      | Some session \<Rightarrow>
          (case ss_public_key session of
             None \<Rightarrow> (None, r)
           | Some k \<Rightarrow>
               (let encrypted_cap = EVP_PKEY_get_size E k
                in if encrypted_cap \<le> 11 \<or> capacity < encrypted_cap \<or> length packed > encrypted_cap - 11
                   then (None, r)
                   else siglatch_openssl_session_encrypt E session packed r)))"

section \<open>The packet on the wire\<close>

definition shared_knock_codec_v2_unpack_wire ::
  "u8 list \<Rightarrow> SharedKnockCodecV2Form1Packet \<Rightarrow> int \<times> SharedKnockCodecV2Form1Packet" where
  "shared_knock_codec_v2_unpack_wire buf pkt =
     (if length buf \<noteq> SHARED_KNOCK_CODEC_V2_FORM1_PACKET_SIZE then (SL_PAYLOAD_ERR_UNPACK, pkt)
      else (SL_PAYLOAD_OK,
        \<lparr>p2_outer = \<lparr>px_magic = read_u32_be buf 0, px_version = read_u32_be buf 4, px_form = buf ! 8\<rparr>,
         p2_inner = \<lparr>i2_timestamp = read_u32_be buf 9, i2_user_id = read_u16_be buf 13,
           i2_action_id = buf ! 15, i2_challenge = read_u32_be buf 16, i2_hmac = slice 20 32 buf,
           i2_payload_len = read_u16_be buf 52\<rparr>,
         p2_payload = slice (SHARED_KNOCK_CODEC_V2_FORM1_OUTER_SIZE + SHARED_KNOCK_CODEC_V2_FORM1_INNER_SIZE)
           SHARED_KNOCK_CODEC_V2_FORM1_PAYLOAD_MAX buf\<rparr>))"

definition shared_knock_codec_v2_validate_wire :: "int \<Rightarrow> SharedKnockCodecV2Form1Packet \<Rightarrow> int" where
  "shared_knock_codec_v2_validate_wire now pkt =
     (if px_magic (p2_outer pkt) \<noteq> SHARED_KNOCK_PREFIX_MAGIC then SL_PAYLOAD_ERR_VALIDATE
      else if px_version (p2_outer pkt) \<noteq> SHARED_KNOCK_CODEC_V2_WIRE_VERSION then SL_PAYLOAD_ERR_VALIDATE
      else if px_form (p2_outer pkt) \<noteq> SHARED_KNOCK_CODEC_FORM1_ID then SL_PAYLOAD_ERR_VALIDATE
      else if unat (i2_payload_len (p2_inner pkt)) > SHARED_KNOCK_CODEC_V2_FORM1_PAYLOAD_MAX
      then SL_PAYLOAD_ERR_OVERFLOW
      else if uint (i2_timestamp (p2_inner pkt)) > now + SHARED_KNOCK_CODEC_V2_FORM1_TIMESTAMP_FUZZ \<or>
              uint (i2_timestamp (p2_inner pkt)) < now - SHARED_KNOCK_CODEC_V2_FORM1_TIMESTAMP_FUZZ
      then SL_PAYLOAD_ERR_VALIDATE
      else SL_PAYLOAD_OK)"

definition shared_knock_codec_v2_deserialize_wire ::
  "int \<Rightarrow> u8 list \<Rightarrow> SharedKnockCodecV2Form1Packet \<Rightarrow> int \<times> SharedKnockCodecV2Form1Packet" where
  "shared_knock_codec_v2_deserialize_wire now buf pkt =
     (let (rc, pkt1) = shared_knock_codec_v2_unpack_wire buf pkt
      in if rc \<noteq> SL_PAYLOAD_OK then (rc, pkt1)
         else
           let rc2 = shared_knock_codec_v2_validate_wire now pkt1
           in if rc2 = SL_PAYLOAD_ERR_OVERFLOW then (SL_PAYLOAD_ERR_OVERFLOW, pkt1)
              else if rc2 \<noteq> SL_PAYLOAD_OK then (SL_PAYLOAD_ERR_VALIDATE, pkt1)
              else (SL_PAYLOAD_OK, pkt1))"

definition shared_knock_codec_v2_normalize ::
  "int \<Rightarrow> u8 list \<Rightarrow> string \<Rightarrow> u16 \<Rightarrow> bool \<Rightarrow> SharedKnockNormalizedUnit \<Rightarrow>
   int \<times> SharedKnockNormalizedUnit" where
  "shared_knock_codec_v2_normalize now buf ip client_port encrypted out =
     (case shared_knock_codec_v2_deserialize_wire now buf zero_v2_packet of
        (rc, pkt) \<Rightarrow>
          (if rc \<noteq> SL_PAYLOAD_OK then (rc, out)
           else
             let inner = p2_inner pkt;
                 overflow = unat (i2_payload_len inner) > SHARED_KNOCK_NORMALIZED_PAYLOAD_MAX;
                 copy_len = (if overflow then SHARED_KNOCK_NORMALIZED_PAYLOAD_MAX
                             else unat (i2_payload_len inner))
             in (if overflow then SL_PAYLOAD_ERR_OVERFLOW else SL_PAYLOAD_OK,
                 zero_unit\<lparr>nu_complete := True, nu_wire_version := SHARED_KNOCK_CODEC_V2_WIRE_VERSION,
                   nu_wire_form := px_form (p2_outer pkt), nu_fragment_count := 1,
                   nu_timestamp := i2_timestamp inner, nu_user_id := i2_user_id inner,
                   nu_action_id := i2_action_id inner, nu_challenge := i2_challenge inner,
                   nu_hmac := i2_hmac inner, nu_ip := cstr63 ip, nu_client_port := client_port,
                   nu_encrypted := encrypted, nu_payload := take copy_len (p2_payload pkt)\<rparr>)))"

text \<open>The number returned and what is in \<open>out_buf\<close> afterwards; the payload is padded with zeros.\<close>

definition shared_knock_codec_v2_pack ::
  "SharedKnockCodecV2Form1Packet \<Rightarrow> u8 list \<Rightarrow> int \<times> u8 list" where
  "shared_knock_codec_v2_pack pkt out_buf =
     (if length out_buf < SHARED_KNOCK_CODEC_V2_FORM1_PACKET_SIZE then (SL_PAYLOAD_ERR_UNPACK, out_buf)
      else if unat (i2_payload_len (p2_inner pkt)) > SHARED_KNOCK_CODEC_V2_FORM1_PAYLOAD_MAX
      then (SL_PAYLOAD_ERR_OVERFLOW, out_buf)
      else (int SHARED_KNOCK_CODEC_V2_FORM1_PACKET_SIZE, write_at 0
        (write_u32_be (px_magic (p2_outer pkt)) @ write_u32_be (px_version (p2_outer pkt)) @
         [px_form (p2_outer pkt)] @ write_u32_be (i2_timestamp (p2_inner pkt)) @
         write_u16_be (i2_user_id (p2_inner pkt)) @ [i2_action_id (p2_inner pkt)] @
         write_u32_be (i2_challenge (p2_inner pkt)) @ i2_hmac (p2_inner pkt) @
         write_u16_be (i2_payload_len (p2_inner pkt)) @
         payload_array SHARED_KNOCK_CODEC_V2_FORM1_PAYLOAD_MAX
           (take (unat (i2_payload_len (p2_inner pkt))) (p2_payload pkt))) out_buf))"

definition shared_knock_codec_v2_unpack ::
  "u8 list \<Rightarrow> SharedKnockCodecV2Form1Packet \<Rightarrow> int \<times> SharedKnockCodecV2Form1Packet" where
  "shared_knock_codec_v2_unpack buf pkt = shared_knock_codec_v2_unpack_wire buf pkt"

definition shared_knock_codec_v2_validate :: "int \<Rightarrow> SharedKnockCodecV2Form1Packet \<Rightarrow> int" where
  "shared_knock_codec_v2_validate now pkt = shared_knock_codec_v2_validate_wire now pkt"

definition shared_knock_codec_v2_deserialize ::
  "int \<Rightarrow> u8 list \<Rightarrow> SharedKnockCodecV2Form1Packet \<Rightarrow> int \<times> SharedKnockCodecV2Form1Packet" where
  "shared_knock_codec_v2_deserialize now buf pkt = shared_knock_codec_v2_deserialize_wire now buf pkt"

definition shared_knock_codec_v2_deserialize_strerror :: "int \<Rightarrow> string" where
  "shared_knock_codec_v2_deserialize_strerror code =
     (if code = SL_PAYLOAD_OK then ''ok''
      else if code = SL_PAYLOAD_ERR_NULL_PTR then ''null_ptr''
      else if code = SL_PAYLOAD_ERR_UNPACK then ''unpack''
      else if code = SL_PAYLOAD_ERR_VALIDATE then ''validate''
      else if code = SL_PAYLOAD_ERR_OVERFLOW then ''overflow''
      else ''unknown'')"

section \<open>Units and mux packets\<close>

definition shared_knock_codec_v2_copy_recv_packet ::
  "SharedKnockNormalizedUnit \<Rightarrow> M7MuxRecvPacket \<Rightarrow> user_heap \<Rightarrow> bool \<times> M7MuxRecvPacket \<times> user_heap" where
  "shared_knock_codec_v2_copy_recv_packet src dst h =
     (case rp_user dst of
        None \<Rightarrow> (False, dst, h)
      | Some user \<Rightarrow>
          (if length (nu_payload src) > M7MUX_USER_DATA_PAYLOAD_MAX then (False, dst, h)
           else (True, zero_recv
             \<lparr>rp_user := Some user, rp_complete := nu_complete src, rp_should_reply := False,
              rp_synthetic_session := False, rp_wire_version := nu_wire_version src,
              rp_wire_form := nu_wire_form src, rp_received_ms := 0,
              rp_session_id := nu_session_id src, rp_message_id := nu_message_id src,
              rp_stream_id := nu_stream_id src, rp_fragment_index := nu_fragment_index src,
              rp_fragment_count := nu_fragment_count src, rp_timestamp := nu_timestamp src,
              rp_label := ''codec'', rp_ip := nu_ip src, rp_client_port := nu_client_port src,
              rp_encrypted := nu_encrypted src, rp_wire_decode := nu_wire_decode src,
              rp_wire_auth := nu_wire_auth src\<rparr>,
             store_user user \<lparr>ud_user_id = nu_user_id src, ud_action_id = nu_action_id src,
               ud_challenge = nu_challenge src, ud_hmac = nu_hmac src, ud_payload = nu_payload src\<rparr> h)))"

definition shared_knock_codec_v2_copy_send_packet :: "M7MuxSendPacket \<Rightarrow> SharedKnockNormalizedUnit option" where
  "shared_knock_codec_v2_copy_send_packet src =
     (case sp_user src of
        None \<Rightarrow> None
      | Some user \<Rightarrow>
          (if length (us_payload user) > SHARED_KNOCK_NORMALIZED_PAYLOAD_MAX then None
           else Some (zero_unit
             \<lparr>nu_complete := unit_final (sp_fragment_index src) (sp_fragment_count src),
              nu_wire_version := sp_wire_version src, nu_wire_form := sp_wire_form src,
              nu_session_id := sp_session_id src, nu_message_id := sp_message_id src,
              nu_stream_id := sp_stream_id src, nu_fragment_index := sp_fragment_index src,
              nu_fragment_count := sp_fragment_count src, nu_timestamp := sp_timestamp src,
              nu_user_id := us_user_id user, nu_action_id := us_action_id user,
              nu_challenge := us_challenge user, nu_hmac := us_hmac user, nu_ip := sp_ip src,
              nu_client_port := sp_client_port src, nu_encrypted := sp_encrypted src,
              nu_wire_auth := sp_wire_auth src, nu_payload := us_payload user\<rparr>)))"

section \<open>State\<close>

text \<open>\<open>calloc_ok\<close> and \<open>alloc_ok\<close> are whether the state and the cache arrays can be allocated.\<close>

definition shared_knock_codec_v2_create_state ::
  "SharedKnockCodecContext option \<Rightarrow> bool \<Rightarrow> bool \<Rightarrow> SharedKnockCodecState option" where
  "shared_knock_codec_v2_create_state context calloc_ok alloc_ok =
     (if \<not> calloc_ok then None
      else case shared_knock_codec_v2_sync_nonce_cache context alloc_ok zero_codec_state of
        (False, state) \<Rightarrow> None
      | (True, state) \<Rightarrow> Some state)"

section \<open>Detection, decoding and encoding\<close>

text \<open>The buffer of \<open>EVP_PKEY_get_size\<close> bytes and the plaintext of the packet in it.\<close>

definition v2_decrypted ::
  "evp \<Rightarrow> SharedKnockCodecContext option \<Rightarrow> bool \<Rightarrow> u8 list \<Rightarrow> u8 list option" where
  "v2_decrypted E context calloc_ok buf =
     (case server_private_key context of
        None \<Rightarrow> None
      | Some k \<Rightarrow>
          (let decrypted_cap = EVP_PKEY_get_size E k
           in if decrypted_cap = 0 \<or> \<not> calloc_ok then None
              else shared_knock_codec_v2_private_decrypt E context buf decrypted_cap))"

definition shared_knock_codec_v2_detect ::
  "evp \<Rightarrow> SharedKnockCodecContext option \<Rightarrow> int \<Rightarrow> bool \<Rightarrow> SharedKnockCodecState option \<Rightarrow>
   M7MuxIngress \<Rightarrow> M7MuxIngressIdentity \<Rightarrow> bool \<times> M7MuxIngressIdentity" where
  "shared_knock_codec_v2_detect E context now calloc_ok state ingress identity =
     (let buf = in_buffer ingress;
          (rc, pkt) = shared_knock_codec_v2_deserialize_wire now buf zero_v2_packet
      in if length buf = SHARED_KNOCK_CODEC_V2_FORM1_PACKET_SIZE \<and> rc = SL_PAYLOAD_OK
         then (True, identity\<lparr>id_encrypted := False, id_magic := px_magic (p2_outer pkt),
                 id_version := px_version (p2_outer pkt), id_form := px_form (p2_outer pkt)\<rparr>)
         else if state = None then (False, identity)
         else case v2_decrypted E context calloc_ok buf of
           None \<Rightarrow> (False, identity)
         | Some plain \<Rightarrow>
             (if length plain \<noteq> SHARED_KNOCK_CODEC_V2_FORM1_PACKET_SIZE then (False, identity)
              else let (rc2, pkt2) = shared_knock_codec_v2_deserialize_wire now plain pkt
                   in if rc2 \<noteq> SL_PAYLOAD_OK then (False, identity)
                      else (True, identity\<lparr>id_encrypted := True, id_magic := px_magic (p2_outer pkt2),
                              id_version := px_version (p2_outer pkt2), id_form := px_form (p2_outer pkt2)\<rparr>)))"

definition shared_knock_codec_v2_count_fragments :: "SharedKnockNormalizedUnit \<Rightarrow> nat \<Rightarrow> nat" where
  "shared_knock_codec_v2_count_fragments normal force_fragment_count =
     (if force_fragment_count > 0 \<and> force_fragment_count \<noteq> 1 then 0
      else if length (nu_payload normal) \<le> SHARED_KNOCK_CODEC_V2_FORM1_PAYLOAD_MAX then 1 else 0)"

definition shared_knock_codec_v2_decode ::
  "evp \<Rightarrow> SharedKnockCodecContext option \<Rightarrow> int \<Rightarrow> bool \<Rightarrow> SharedKnockCodecState option \<Rightarrow>
   M7MuxIngress \<Rightarrow> SharedKnockNormalizedUnit \<Rightarrow> bool \<times> SharedKnockNormalizedUnit" where
  "shared_knock_codec_v2_decode E context now calloc_ok state ingress out =
     (if state = None then (False, out)
      else
        let should_decrypt = in_encrypted ingress
        in case (if should_decrypt then v2_decrypted E context calloc_ok (in_buffer ingress)
                 else Some (in_buffer ingress)) of
             None \<Rightarrow> (False, out)
           | Some payload \<Rightarrow>
               (if (case context of None \<Rightarrow> False | Some c \<Rightarrow> cx_server_secure c) \<and> \<not> should_decrypt
                then (False, out)
                else let (rc, out1) = shared_knock_codec_v2_normalize now payload (in_ip ingress)
                           (in_client_port ingress) should_decrypt out
                     in (rc = SL_PAYLOAD_OK, out1)))"

definition shared_knock_codec_v2_wire_auth ::
  "SharedKnockCodecContext option \<Rightarrow> bool \<Rightarrow> int \<Rightarrow> SharedKnockCodecState option \<Rightarrow>
   SharedKnockNormalizedUnit \<Rightarrow> bool \<times> SharedKnockCodecState option \<times> SharedKnockNormalizedUnit" where
  "shared_knock_codec_v2_wire_auth context alloc_ok now state normal =
     (case state of
        None \<Rightarrow> (False, None, normal)
      | Some s \<Rightarrow>
          (let (ok, s') = shared_knock_codec_v2_packet_nonce_accept context alloc_ok now s
                 (nu_timestamp normal) (nu_challenge normal)
           in (ok, Some s', normal\<lparr>nu_wire_auth := ok\<rparr>)))"

text \<open>The HMAC that goes into the packet.\<close>

definition v2_packet_hmac ::
  "evp \<Rightarrow> SharedKnockCodecContext option \<Rightarrow> SharedKnockNormalizedUnit \<Rightarrow>
   SharedKnockCodecV2Form1Packet \<Rightarrow> u8 list option" where
  "v2_packet_hmac E context normal wire_pkt =
     (if \<not> nu_wire_auth normal then Some (nu_hmac normal)
      else case context_session context of
        None \<Rightarrow> None
      | Some session \<Rightarrow>
          (if ss_hmac_key_len session < 32 then None
           else case shared_knock_digest_generate_v2_form1 E wire_pkt of
             None \<Rightarrow> None
           | Some digest \<Rightarrow> shared_knock_digest_sign E (ss_hmac_key session) digest))"

text \<open>
  \<open>None\<close> for a return value of 0, else the \<open>*out_len\<close> bytes at \<open>out_buf\<close>; \<open>capacity\<close> is the
  value of \<open>*out_len\<close> on entry.
\<close>

definition shared_knock_codec_v2_encode ::
  "evp \<Rightarrow> SharedKnockCodecContext option \<Rightarrow> SharedKnockNormalizedUnit \<Rightarrow> nat \<Rightarrow> rng \<Rightarrow>
   u8 list option \<times> rng" where
  "shared_knock_codec_v2_encode E context normal capacity r =
     (if capacity < SHARED_KNOCK_CODEC_V2_FORM1_PACKET_SIZE then (None, r)
      else if length (nu_payload normal) > SHARED_KNOCK_CODEC_V2_FORM1_PAYLOAD_MAX then (None, r)
      else
        let wire_pkt = \<lparr>p2_outer = \<lparr>px_magic = SHARED_KNOCK_PREFIX_MAGIC,
                px_version = SHARED_KNOCK_CODEC_V2_WIRE_VERSION, px_form = SHARED_KNOCK_CODEC_FORM1_ID\<rparr>,
              p2_inner = \<lparr>i2_timestamp = nu_timestamp normal, i2_user_id = nu_user_id normal,
                i2_action_id = nu_action_id normal, i2_challenge = nu_challenge normal,
                i2_hmac = replicate 32 0, i2_payload_len = word_of_nat (length (nu_payload normal))\<rparr>,
              p2_payload = payload_array SHARED_KNOCK_CODEC_V2_FORM1_PAYLOAD_MAX (nu_payload normal)\<rparr>
        in case v2_packet_hmac E context normal wire_pkt of
          None \<Rightarrow> (None, r)
        | Some hmac \<Rightarrow>
            (let (rc, packed) = shared_knock_codec_v2_pack
                   (wire_pkt\<lparr>p2_inner := (p2_inner wire_pkt)\<lparr>i2_hmac := hmac\<rparr>\<rparr>)
                   (replicate SHARED_KNOCK_CODEC_V2_FORM1_PACKET_SIZE 0)
             in if rc < 0 then (None, r)
                else if \<not> nu_encrypted normal
                then (if capacity < length packed then (None, r) else (Some packed, r))
                else rsa_whole_packet E context packed capacity r))"

section \<open>The adapter\<close>

definition shared_knock_codec_v2_copy_user_recv_data :: "M7MuxUserRecvData \<Rightarrow> M7MuxUserRecvData option" where
  "shared_knock_codec_v2_copy_user_recv_data src = Some src"

definition shared_knock_codec_v2_adapter_count_fragments ::
  "SharedKnockCodecState option \<Rightarrow> M7MuxSendPacket \<Rightarrow> nat" where
  "shared_knock_codec_v2_adapter_count_fragments state send =
     (case shared_knock_codec_v2_copy_send_packet send of
        None \<Rightarrow> 0
      | Some normal \<Rightarrow> shared_knock_codec_v2_count_fragments normal 0)"

definition shared_knock_codec_v2_adapter_decode ::
  "evp \<Rightarrow> SharedKnockCodecContext option \<Rightarrow> int \<Rightarrow> bool \<Rightarrow> SharedKnockCodecState option \<Rightarrow>
   M7MuxIngress \<Rightarrow> M7MuxControl \<Rightarrow> M7MuxRecvPacket \<Rightarrow> user_heap \<Rightarrow>
   bool \<times> M7MuxControl \<times> M7MuxRecvPacket \<times> user_heap" where
  "shared_knock_codec_v2_adapter_decode E context now calloc_ok state ingress control out h =
     (case shared_knock_codec_v2_decode E context now calloc_ok state ingress zero_unit of
        (ok, normal) \<Rightarrow>
          (if \<not> ok then (False, control, out, h)
           else case shared_knock_codec_v2_copy_recv_packet normal out h of
             (False, out1, h1) \<Rightarrow> (False, control, out1, h1)
           | (True, out1, h1) \<Rightarrow>
               (True, control, out1\<lparr>rp_received_ms := in_received_ms ingress\<rparr>, h1)))"

definition shared_knock_codec_v2_adapter_encode ::
  "evp \<Rightarrow> SharedKnockCodecContext option \<Rightarrow> SharedKnockCodecState option \<Rightarrow>
   M7MuxSendPacket \<Rightarrow> rng \<Rightarrow> M7MuxEgressData option \<times> rng" where
  "shared_knock_codec_v2_adapter_encode E context state send r =
     (case shared_knock_codec_v2_copy_send_packet send of
        None \<Rightarrow> (None, r)
      | Some normal \<Rightarrow>
          (case shared_knock_codec_v2_encode E context normal M7MUX_NORMALIZED_PACKET_BUFFER_SIZE r of
             (None, r1) \<Rightarrow> (None, r1)
           | (Some encoded, r1) \<Rightarrow> (m7mux_normalize_adapter_fill_egress send encoded, r1)))"

text \<open>The adapter at the time \<open>now\<close>.\<close>

definition shared_knock_codec_v2_adapter ::
  "evp \<Rightarrow> SharedKnockCodecContext option \<Rightarrow> int \<Rightarrow> bool \<Rightarrow> bool \<Rightarrow> SharedKnockCodecState adapter" where
  "shared_knock_codec_v2_adapter E context now calloc_ok alloc_ok =
     \<lparr>ad_name = ''codec.v2'', ad_wire_version = SHARED_KNOCK_CODEC_V2_WIRE_VERSION,
      ad_create_state = Some (\<lambda>_. shared_knock_codec_v2_create_state context calloc_ok alloc_ok),
      ad_alloc_user_recv_data = alloc_user, ad_free_user_recv_data = free_user,
      ad_copy_user_recv_data = shared_knock_codec_v2_copy_user_recv_data,
      ad_count_fragments = shared_knock_codec_v2_adapter_count_fragments,
      ad_detect = shared_knock_codec_v2_detect E context now calloc_ok,
      ad_decode = shared_knock_codec_v2_adapter_decode E context now calloc_ok,
      ad_encode = shared_knock_codec_v2_adapter_encode E context,
      ad_encode_fragment = None,
      ad_state = None\<rparr>"

end
