(* ===== verification/Cstring.thy ===== *)
theory Cstring
  imports Prelude
begin

text \<open>
  \<open>stdlib/str.c\<close> and what the program uses of the C library on strings. A C string is the list of
  its characters before the terminating zero; a \<open>char\<close> array that holds one is the string it
  holds. The predicates are those of the C locale.
\<close>

section \<open>The C library\<close>

definition isspace :: "char \<Rightarrow> bool" where
  "isspace c \<longleftrightarrow> of_char c = (32::nat) \<or> (9::nat) \<le> of_char c \<and> of_char c \<le> (13::nat)"

definition isdigit :: "char \<Rightarrow> bool" where
  "isdigit c \<longleftrightarrow> (48::nat) \<le> of_char c \<and> of_char c \<le> (57::nat)"

definition digit_value :: "char \<Rightarrow> nat" where
  "digit_value c = of_char c - 48"

definition tolower :: "char \<Rightarrow> char" where
  "tolower c = (if (65::nat) \<le> of_char c \<and> of_char c \<le> (90::nat) then char_of (of_char c + (32::nat)) else c)"

text \<open>\<open>strcasecmp(a, b) == 0\<close>.\<close>

definition strcaseeq :: "string \<Rightarrow> string \<Rightarrow> bool" where
  "strcaseeq a b \<longleftrightarrow> map tolower a = map tolower b"

text \<open>The text before and after the first occurrence of a character, as \<open>strchr\<close> finds it.\<close>

definition strchr_split :: "char \<Rightarrow> string \<Rightarrow> (string \<times> string) option" where
  "strchr_split c s =
     (if c \<in> set s then Some (takeWhile (\<lambda>x. x \<noteq> c) s, tl (dropWhile (\<lambda>x. x \<noteq> c) s)) else None)"

fun split_on :: "char \<Rightarrow> string \<Rightarrow> string list" where
  "split_on c [] = [[]]"
| "split_on c (x # xs) =
     (if x = c then [] # split_on c xs
      else case split_on c xs of [] \<Rightarrow> [[x]] | p # ps \<Rightarrow> (x # p) # ps)"

text \<open>The tokens a loop over \<open>strtok\<close> sees: runs of delimiters count as one.\<close>

definition strtok_all :: "char \<Rightarrow> string \<Rightarrow> string list" where
  "strtok_all c s = filter (\<lambda>t. t \<noteq> []) (split_on c s)"

fun digits_value :: "nat \<Rightarrow> string \<Rightarrow> nat" where
  "digits_value acc [] = acc"
| "digits_value acc (c # cs) = digits_value (10 * acc + digit_value c) cs"

text \<open>
  The common part of \<open>strtol\<close> and \<open>strtoul\<close> in base ten: leading space, a sign, digits. The result
  is the sign, the digits and what follows them; without digits, the text itself.
\<close>

definition scan_integer :: "string \<Rightarrow> bool \<times> string \<times> string" where
  "scan_integer s =
     (let t = dropWhile isspace s;
          neg = (t \<noteq> [] \<and> hd t = CHR ''-'');
          u = (if t \<noteq> [] \<and> (hd t = CHR ''-'' \<or> hd t = CHR ''+'') then tl t else t);
          ds = takeWhile isdigit u
      in if ds = [] then (False, [], s) else (neg, ds, dropWhile isdigit u))"

definition strtoul10 :: "string \<Rightarrow> nat \<times> string" where
  "strtoul10 s =
     (case scan_integer s of (neg, ds, rest) \<Rightarrow>
        let v = digits_value 0 ds
        in (if 2 ^ 64 \<le> v then 2 ^ 64 - 1 else if neg then (2 ^ 64 - v) mod 2 ^ 64 else v, rest))"

definition strtol10 :: "string \<Rightarrow> int" where
  "strtol10 s =
     (case scan_integer s of (neg, ds, rest) \<Rightarrow>
        let v = int (digits_value 0 ds)
        in if neg then max (- (2 ^ 63)) (- v) else min (2 ^ 63 - 1) v)"

text \<open>\<open>atoi\<close> is \<open>strtol\<close> converted to a 32-bit \<open>int\<close>.\<close>

definition atoi :: "string \<Rightarrow> int" where
  "atoi s = sint (word_of_int (strtol10 s) :: 32 word)"

section \<open>stdlib/str.c\<close>

text \<open>The string left in \<open>dst\<close>, and the length of the source.\<close>

definition lib_str_lcpy :: "string \<Rightarrow> string \<Rightarrow> nat \<Rightarrow> string \<times> nat" where
  "lib_str_lcpy dst src dstsize = (if dstsize = 0 then dst else take (dstsize - 1) src, length src)"

definition lib_str_lcat :: "string \<Rightarrow> string \<Rightarrow> nat \<Rightarrow> string \<times> nat" where
  "lib_str_lcat dst src dstsize =
     (let dlen = min (length dst) dstsize; n = dstsize - dlen
      in if n = 0 then (dst, dlen + length src)
         else (dst @ take (n - 1) src, dlen + length src))"

text \<open>\<open>malloc_ok\<close> says which sizes \<open>malloc\<close> can give.\<close>

definition lib_str_dup :: "(nat \<Rightarrow> bool) \<Rightarrow> string \<Rightarrow> string option" where
  "lib_str_dup malloc_ok s = (if malloc_ok (length s + 1) then Some s else None)"

definition lib_str_is_blank :: "string \<Rightarrow> bool" where
  "lib_str_is_blank s \<longleftrightarrow> list_all isspace s"

definition lib_str_trim :: "string \<Rightarrow> string" where
  "lib_str_trim s = rev (dropWhile isspace (rev (dropWhile isspace s)))"

definition lib_str_to_bool :: "string \<Rightarrow> bool option" where
  "lib_str_to_bool text =
     (if strcaseeq text ''1'' \<or> strcaseeq text ''yes'' then Some True
      else if strcaseeq text ''0'' \<or> strcaseeq text ''no'' then Some False
      else None)"

definition lib_str_split_kv :: "string \<Rightarrow> (string \<times> string) option" where
  "lib_str_split_kv text =
     (case strchr_split (CHR ''='') text of
        None \<Rightarrow> None
      | Some (k, v) \<Rightarrow> Some (lib_str_trim k, lib_str_trim v))"

text \<open>The loop of \<open>parse_csv_fixed\<close>: \<open>items\<close> holds the \<open>*count\<close> entries in use.\<close>

fun csv_loop :: "nat \<Rightarrow> nat \<Rightarrow> string list \<Rightarrow> string list \<Rightarrow> string list" where
  "csv_loop max_items item_size items [] = items"
| "csv_loop max_items item_size items (tok # toks) =
     (if length items < max_items
      then csv_loop max_items item_size (items @ [fst (lib_str_lcpy [] (lib_str_trim tok) item_size)]) toks
      else items)"

definition lib_str_parse_csv_fixed ::
  "(nat \<Rightarrow> bool) \<Rightarrow> string list \<Rightarrow> nat \<Rightarrow> nat \<Rightarrow> string \<Rightarrow> string list" where
  "lib_str_parse_csv_fixed malloc_ok items max_items item_size value =
     (if max_items = 0 \<or> item_size = 0 then items
      else case lib_str_dup malloc_ok value of
        None \<Rightarrow> items
      | Some copy \<Rightarrow> csv_loop max_items item_size items (strtok_all (CHR '','') copy))"

section \<open>Facts\<close>

lemma lcpy_bound: "0 < n \<Longrightarrow> length (fst (lib_str_lcpy dst src n)) < n"
  by (auto simp: lib_str_lcpy_def)

lemma lcpy_id: "length src < n \<Longrightarrow> fst (lib_str_lcpy dst src n) = src"
  by (simp add: lib_str_lcpy_def)

lemma lcpy_return: "snd (lib_str_lcpy dst src n) = length src"
  by (simp add: lib_str_lcpy_def)

lemma lcat_bound: "length dst < n \<Longrightarrow> length (fst (lib_str_lcat dst src n)) < n"
  by (auto simp: lib_str_lcat_def Let_def)

lemma lcat_append:
  assumes "length dst + length src < n"
  shows "lib_str_lcat dst src n = (dst @ src, length dst + length src)"
  using assms by (auto simp: lib_str_lcat_def Let_def)

lemma dropWhile_ends: "xs = [] \<or> \<not> P (hd xs) \<Longrightarrow> dropWhile P xs = xs"
  by (cases xs) auto

text \<open>A text that neither starts nor ends in white space.\<close>

definition no_outer_space :: "string \<Rightarrow> bool" where
  "no_outer_space s \<longleftrightarrow> s = [] \<or> \<not> isspace (hd s) \<and> \<not> isspace (last s)"

lemma trim_id: "no_outer_space s \<Longrightarrow> lib_str_trim s = s"
  by (cases s rule: rev_cases) (auto simp: lib_str_trim_def no_outer_space_def dropWhile_ends hd_append)

lemma dropWhile_append_all: "list_all P xs \<Longrightarrow> dropWhile P (xs @ ys) = dropWhile P ys"
  by (induction xs) auto

lemma last_dropWhile: "dropWhile P xs \<noteq> [] \<Longrightarrow> last (dropWhile P xs) = last xs"
  by (induction xs) (auto split: if_splits)

lemma trim_trimmed [simp]: "no_outer_space (lib_str_trim s)"
proof -
  define u where "u = dropWhile isspace s"
  define v where "v = dropWhile isspace (rev u)"
  have *: "lib_str_trim s = rev v"
    by (simp add: lib_str_trim_def u_def v_def)
  show ?thesis
  proof (cases "v = []")
    case True
    with * show ?thesis by (simp add: no_outer_space_def)
  next
    case False
    then have "u \<noteq> []" by (auto simp: v_def)
    then have "\<not> isspace (hd u)" unfolding u_def by (rule hd_dropWhile)
    moreover have "\<not> isspace (hd v)" using False unfolding v_def by (rule hd_dropWhile)
    moreover have "last v = hd u"
      using False last_dropWhile [of isspace "rev u"] by (simp add: v_def last_rev)
    ultimately show ?thesis
      using False by (simp add: * no_outer_space_def hd_rev last_rev)
  qed
qed

lemma trim_idem [simp]: "lib_str_trim (lib_str_trim s) = lib_str_trim s"
  by (simp add: trim_id)

lemma trim_blank: "lib_str_is_blank s \<longleftrightarrow> lib_str_trim s = []"
proof
  assume "lib_str_is_blank s"
  then have "dropWhile isspace s = []"
    using dropWhile_append_all [of isspace s "[]"] by (simp add: lib_str_is_blank_def)
  then show "lib_str_trim s = []" by (simp only: lib_str_trim_def rev.simps dropWhile.simps)
next
  assume *: "lib_str_trim s = []"
  have "dropWhile isspace s = []"
  proof (rule ccontr)
    assume "dropWhile isspace s \<noteq> []"
    then have "hd (dropWhile isspace s) \<in> set (dropWhile isspace s)" "\<not> isspace (hd (dropWhile isspace s))"
      by (rule hd_in_set, rule hd_dropWhile)
    with * show False by (auto simp: lib_str_trim_def)
  qed
  then show "lib_str_is_blank s" by (simp add: lib_str_is_blank_def list_all_iff)
qed

lemma trim_pad:
  assumes "list_all isspace a" "list_all isspace b" "no_outer_space s"
  shows "lib_str_trim (a @ s @ b) = s"
proof (cases "s = []")
  case True
  then show ?thesis
    using assms(1,2) by (simp add: trim_blank [symmetric] lib_str_is_blank_def)
next
  case False
  then have "dropWhile isspace (a @ s @ b) = s @ b"
    using assms(1,3) by (simp add: dropWhile_append_all no_outer_space_def dropWhile_ends)
  moreover have "dropWhile isspace (rev b @ rev s) = rev s"
    using assms(2,3) False
      dropWhile_append_all [of isspace "rev b" "rev s"]
    by (simp add: no_outer_space_def dropWhile_ends hd_rev list_all_iff)
  ultimately show ?thesis by (simp add: lib_str_trim_def)
qed

lemma split_on_nonempty [simp]: "split_on c s \<noteq> []"
  by (induction s) (auto split: list.splits)

lemma split_on_single: "c \<notin> set s \<Longrightarrow> split_on c s = [s]"
  by (induction s) auto

lemma split_on_append: "c \<notin> set p \<Longrightarrow> split_on c (p @ c # s) = p # split_on c s"
  by (induction p) auto

lemma split_on_parts: "p \<in> set (split_on c s) \<Longrightarrow> c \<notin> set p"
  by (induction s arbitrary: p) (auto split: if_splits list.splits)

lemma strchr_split_append: "c \<notin> set k \<Longrightarrow> strchr_split c (k @ c # v) = Some (k, v)"
  by (induction k) (auto simp: strchr_split_def)

lemma strchr_split_None: "strchr_split c s = None \<longleftrightarrow> c \<notin> set s"
  by (simp add: strchr_split_def)

lemma csv_loop_length:
  "length items \<le> max_items \<Longrightarrow> length (csv_loop max_items item_size items toks) \<le> max_items"
  by (induction max_items item_size items toks rule: csv_loop.induct) auto

lemma csv_loop_sizes:
  assumes "0 < item_size" "\<forall>x \<in> set items. length x < item_size"
  shows "\<forall>x \<in> set (csv_loop max_items item_size items toks). length x < item_size"
  using assms
  by (induction max_items item_size items toks rule: csv_loop.induct) (auto simp: lcpy_bound)

lemma parse_csv_bounds:
  assumes "length items \<le> max_items" "\<forall>x \<in> set items. length x < item_size"
  shows "length (lib_str_parse_csv_fixed malloc_ok items max_items item_size value) \<le> max_items"
    "\<forall>x \<in> set (lib_str_parse_csv_fixed malloc_ok items max_items item_size value). length x < item_size"
  using assms csv_loop_length csv_loop_sizes
  by (auto simp: lib_str_parse_csv_fixed_def split: option.splits)

text \<open>While there is room, the loop appends the no_outer_space and cut tokens.\<close>

lemma csv_loop_map:
  "length items + length toks \<le> max_items \<Longrightarrow>
   csv_loop max_items item_size items toks =
     items @ map (\<lambda>t. fst (lib_str_lcpy [] (lib_str_trim t) item_size)) toks"
  by (induction max_items item_size items toks rule: csv_loop.induct) auto

end
