(* ===== verification/Ini.thy ===== *)
theory Ini
  imports Cstring
begin

text \<open>
  \<open>stdlib/parse/ini.c\<close>: reading an INI file line by line. A file is the characters that \<open>fgets\<close>
  would read and whether the reading ends in an error; \<open>malloc_ok\<close> says which allocation sizes
  succeed. An error carries its line, as \<open>IniError\<close> does, and the case instead of the message.
\<close>

section \<open>Data\<close>

record IniEntry =
  ie_key :: string
  ie_value :: string
  ie_line :: nat

record IniSection =
  is_name :: "string option"
  is_line :: nat
  is_entries :: "IniEntry list"

record IniDocument =
  id_global :: IniSection
  id_sections :: "IniSection list"

datatype IniFault =
    Ini_Open_Failed | Ini_No_Memory | Ini_Line_Too_Long | Ini_Invalid_Header string
  | Ini_Empty_Section | Ini_Invalid_Line string | Ini_Empty_Key | Ini_Read_Failed

type_synonym IniError = "nat \<times> IniFault"

record IniFile =
  file_content :: string
  file_error :: bool

definition INI_LINE_BUFFER_SIZE :: nat where "INI_LINE_BUFFER_SIZE = 4096"

definition sizeof_IniEntry :: nat where "sizeof_IniEntry = 24"
definition sizeof_IniSection :: nat where "sizeof_IniSection = 32"
definition sizeof_IniDocument :: nat where "sizeof_IniDocument = 48"

abbreviation nl :: char where "nl \<equiv> CHR 0x0A"
abbreviation nul :: char where "nul \<equiv> CHR 0x00"

text \<open>
  \<open>fgets(buf, sz, fp)\<close>: the characters read, those left in the stream, and whether the end of
  the file was met while reading.
\<close>

definition fgets :: "nat \<Rightarrow> string \<Rightarrow> (string \<times> string \<times> bool) option" where
  "fgets sz s =
     (if s = [] then None
      else let line = takeWhile (\<lambda>c. c \<noteq> nl) s;
               n = (if length line < length s then length line + 1 else length line);
               k = min n (sz - 1)
           in Some (take k s, drop k s, nl \<notin> set (take k s) \<and> k < sz - 1))"

section \<open>Building the document\<close>

definition empty_section :: IniSection where
  "empty_section = \<lparr>is_name = None, is_line = 0, is_entries = []\<rparr>"

definition ini_append_section ::
  "(nat \<Rightarrow> bool) \<Rightarrow> IniDocument \<Rightarrow> string \<Rightarrow> nat \<Rightarrow> IniError + IniDocument" where
  "ini_append_section malloc_ok document name line =
     (let next_count = length (id_sections document) + 1
      in if \<not> malloc_ok (next_count * sizeof_IniSection) then Inl (line, Ini_No_Memory)
         else case lib_str_dup malloc_ok name of
           None \<Rightarrow> Inl (line, Ini_No_Memory)
         | Some copy \<Rightarrow>
             Inr (document\<lparr>id_sections := id_sections document @
               [\<lparr>is_name = Some copy, is_line = line, is_entries = []\<rparr>]\<rparr>))"

definition ini_append_entry ::
  "(nat \<Rightarrow> bool) \<Rightarrow> IniSection \<Rightarrow> string \<Rightarrow> string \<Rightarrow> nat \<Rightarrow> IniError + IniSection" where
  "ini_append_entry malloc_ok sec key val line =
     (let next_count = length (is_entries sec) + 1
      in if \<not> malloc_ok (next_count * sizeof_IniEntry) then Inl (line, Ini_No_Memory)
         else case lib_str_dup malloc_ok key of
           None \<Rightarrow> Inl (line, Ini_No_Memory)
         | Some k \<Rightarrow>
             (case lib_str_dup malloc_ok val of
                None \<Rightarrow> Inl (line, Ini_No_Memory)
              | Some v \<Rightarrow>
                  Inr (sec\<lparr>is_entries := is_entries sec @
                    [\<lparr>ie_key = k, ie_value = v, ie_line = line\<rparr>]\<rparr>)))"

definition ini_parse_section_name :: "string \<Rightarrow> nat \<Rightarrow> IniError + string" where
  "ini_parse_section_name text line =
     (if length text < 2 \<or> hd text \<noteq> CHR ''['' \<or> last text \<noteq> CHR '']''
      then Inl (line, Ini_Invalid_Header text)
      else let name = lib_str_trim (tl (butlast text))
           in if name = [] then Inl (line, Ini_Empty_Section) else Inr name)"

definition ini_find_section :: "IniDocument \<Rightarrow> string option \<Rightarrow> IniSection option" where
  "ini_find_section document name =
     (if name = None \<or> name = Some [] then Some (id_global document)
      else List.find (\<lambda>s. is_name s = name) (id_sections document))"

definition ini_find_entry :: "IniSection \<Rightarrow> string \<Rightarrow> IniEntry option" where
  "ini_find_entry sec key = List.find (\<lambda>e. ie_key e = key) (is_entries sec)"

definition ini_get :: "IniDocument \<Rightarrow> string option \<Rightarrow> string \<Rightarrow> string option" where
  "ini_get document sec key =
     (case ini_find_section document sec of
        None \<Rightarrow> None
      | Some s \<Rightarrow> map_option ie_value (ini_find_entry s key))"

section \<open>Reading\<close>

text \<open>
  \<open>current\<close> points at the section that entries go to: the global one (\<open>None\<close>) or an element of
  the array. The text of a line is what precedes a zero character in the buffer.
\<close>

definition line_text :: "nat \<Rightarrow> string \<Rightarrow> string" where
  "line_text line_number buf =
     (let t = lib_str_trim (takeWhile (\<lambda>c. c \<noteq> nul) buf)
      in if line_number = 1 \<and> take 3 t = [CHR 0xEF, CHR 0xBB, CHR 0xBF]
         then lib_str_trim (drop 3 t) else t)"

definition append_to_current ::
  "(nat \<Rightarrow> bool) \<Rightarrow> IniDocument \<Rightarrow> nat option \<Rightarrow> string \<Rightarrow> string \<Rightarrow> nat \<Rightarrow> IniError + IniDocument" where
  "append_to_current malloc_ok document current key val line =
     (case current of
        None \<Rightarrow>
          (case ini_append_entry malloc_ok (id_global document) key val line of
             Inl e \<Rightarrow> Inl e
           | Inr s \<Rightarrow> Inr (document\<lparr>id_global := s\<rparr>))
      | Some i \<Rightarrow>
          (case ini_append_entry malloc_ok (id_sections document ! i) key val line of
             Inl e \<Rightarrow> Inl e
           | Inr s \<Rightarrow> Inr (document\<lparr>id_sections := (id_sections document)[i := s]\<rparr>)))"

text \<open>The body of the loop, from the text of a line on.\<close>

definition ini_line ::
  "(nat \<Rightarrow> bool) \<Rightarrow> nat \<Rightarrow> string \<Rightarrow> IniDocument \<times> nat option \<Rightarrow> IniError + IniDocument \<times> nat option" where
  "ini_line malloc_ok line_number t st =
     (case st of (document, current) \<Rightarrow>
        if lib_str_is_blank t then Inr (document, current)
        else if hd t = CHR ''#'' \<or> hd t = CHR '';'' then Inr (document, current)
        else if hd t = CHR ''['' then
          (case ini_parse_section_name t line_number of
             Inl e \<Rightarrow> Inl e
           | Inr name \<Rightarrow>
               (case ini_append_section malloc_ok document name line_number of
                  Inl e \<Rightarrow> Inl e
                | Inr d \<Rightarrow> Inr (d, Some (length (id_sections document)))))
        else
          (case lib_str_split_kv t of
             None \<Rightarrow> Inl (line_number, Ini_Invalid_Line t)
           | Some (key, val) \<Rightarrow>
               if key = [] then Inl (line_number, Ini_Empty_Key)
               else case append_to_current malloc_ok document current key val line_number of
                 Inl e \<Rightarrow> Inl e
               | Inr d \<Rightarrow> Inr (d, current)))"

lemma fgets_shorter: "fgets sz s = Some (buf, rest, eof) \<Longrightarrow> 2 \<le> sz \<Longrightarrow> length rest < length s"
proof -
  assume f: "fgets sz s = Some (buf, rest, eof)" and sz: "2 \<le> sz"
  define line where "line = takeWhile (\<lambda>c. c \<noteq> nl) s"
  define k where "k = min (if length line < length s then length line + 1 else length line) (sz - 1)"
  have "s \<noteq> []" using f by (auto simp: fgets_def)
  moreover have "fgets sz s = Some (take k s, drop k s, nl \<notin> set (take k s) \<and> k < sz - 1)"
    using \<open>s \<noteq> []\<close> by (simp only: fgets_def Let_def k_def line_def if_False)
  then have "rest = drop k s" using f by simp
  moreover have "0 < k"
    using sz \<open>s \<noteq> []\<close> by (cases "line = []") (auto simp: k_def)
  ultimately show "length rest < length s" by simp
qed

function ini_loop ::
  "(nat \<Rightarrow> bool) \<Rightarrow> nat \<Rightarrow> IniDocument \<times> nat option \<Rightarrow> string \<Rightarrow> IniError + nat \<times> IniDocument" where
  "ini_loop malloc_ok line_number st s =
     (case fgets INI_LINE_BUFFER_SIZE s of
        None \<Rightarrow> Inr (line_number, fst st)
      | Some (buf, rest, eof) \<Rightarrow>
          if nl \<notin> set (takeWhile (\<lambda>c. c \<noteq> nul) buf) \<and> \<not> eof
          then Inl (line_number + 1, Ini_Line_Too_Long)
          else case ini_line malloc_ok (line_number + 1) (line_text (line_number + 1) buf) st of
            Inl e \<Rightarrow> Inl e
          | Inr st' \<Rightarrow> ini_loop malloc_ok (line_number + 1) st' rest)"
  by pat_completeness auto

termination
  by (relation "measure (\<lambda>(m, n, st, s). length s)")
    (auto dest: fgets_shorter simp: INI_LINE_BUFFER_SIZE_def)

declare ini_loop.simps [simp del]

text \<open>\<open>fp\<close> is what \<open>fopen\<close> gives for the path.\<close>

definition ini_read_file :: "(nat \<Rightarrow> bool) \<Rightarrow> IniFile option \<Rightarrow> IniError + IniDocument" where
  "ini_read_file malloc_ok fp =
     (case fp of
        None \<Rightarrow> Inl (0, Ini_Open_Failed)
      | Some file \<Rightarrow>
          if \<not> malloc_ok sizeof_IniDocument then Inl (0, Ini_No_Memory)
          else case ini_loop malloc_ok 0
              (\<lparr>id_global = empty_section, id_sections = []\<rparr>, None) (file_content file) of
            Inl e \<Rightarrow> Inl e
          | Inr (line_number, document) \<Rightarrow>
              if file_error file then Inl (line_number, Ini_Read_Failed) else Inr document)"

section \<open>Printing, and reading back what was printed\<close>

type_synonym ini_pairs = "(string \<times> string) list"
type_synonym ini_data = "ini_pairs \<times> (string \<times> ini_pairs) list"

definition print_pair :: "string \<times> string \<Rightarrow> string" where
  "print_pair kv = fst kv @ CHR ''='' # snd kv"

fun print_lines :: "(string \<times> ini_pairs) list \<Rightarrow> string list" where
  "print_lines [] = []"
| "print_lines ((name, kvs) # secs) =
     (CHR ''['' # name @ '']'') # map print_pair kvs @ print_lines secs"

definition ini_print :: "ini_data \<Rightarrow> string" where
  "ini_print d = concat (map (\<lambda>l. l @ [nl]) (map print_pair (fst d) @ print_lines (snd d)))"

text \<open>The document with the lines on which things stand.\<close>

fun lay_entries :: "nat \<Rightarrow> ini_pairs \<Rightarrow> IniEntry list" where
  "lay_entries n [] = []"
| "lay_entries n ((k, v) # kvs) = \<lparr>ie_key = k, ie_value = v, ie_line = n + 1\<rparr> # lay_entries (n + 1) kvs"

fun lay_sections :: "nat \<Rightarrow> (string \<times> ini_pairs) list \<Rightarrow> IniSection list" where
  "lay_sections n [] = []"
| "lay_sections n ((name, kvs) # secs) =
     \<lparr>is_name = Some name, is_line = n + 1, is_entries = lay_entries (n + 1) kvs\<rparr> #
     lay_sections (n + 1 + length kvs) secs"

definition ini_layout :: "ini_data \<Rightarrow> IniDocument" where
  "ini_layout d =
     \<lparr>id_global = \<lparr>is_name = None, is_line = 0, is_entries = lay_entries 0 (fst d)\<rparr>,
      id_sections = lay_sections (length (fst d)) (snd d)\<rparr>"

text \<open>What can be printed so that it reads back: no line breaks, no outer space, lines that fit.\<close>

definition plain_text :: "string \<Rightarrow> bool" where
  "plain_text s \<longleftrightarrow> no_outer_space s \<and> nl \<notin> set s \<and> nul \<notin> set s"

definition pair_ok :: "string \<times> string \<Rightarrow> bool" where
  "pair_ok kv \<longleftrightarrow> plain_text (fst kv) \<and> plain_text (snd kv) \<and> fst kv \<noteq> [] \<and>
     hd (fst kv) \<notin> {CHR ''#'', CHR '';'', CHR ''['', CHR 0xEF} \<and> CHR ''='' \<notin> set (fst kv) \<and>
     length (fst kv) + length (snd kv) + 2 < INI_LINE_BUFFER_SIZE"

definition section_ok :: "string \<times> ini_pairs \<Rightarrow> bool" where
  "section_ok s \<longleftrightarrow> plain_text (fst s) \<and> fst s \<noteq> [] \<and> length (fst s) + 3 < INI_LINE_BUFFER_SIZE \<and>
     list_all pair_ok (snd s)"

definition ini_ok :: "ini_data \<Rightarrow> bool" where
  "ini_ok d \<longleftrightarrow> list_all pair_ok (fst d) \<and> list_all section_ok (snd d)"

lemma fgets_line:
  assumes "nl \<notin> set l" "length l + 1 < sz"
  shows "fgets sz (l @ nl # s) = Some (l @ [nl], s, False)"
proof -
  have *: "takeWhile (\<lambda>c. c \<noteq> nl) (l @ nl # s) = l" using assms(1) by (induction l) auto
  show ?thesis
    using assms(2) by (simp add: fgets_def Let_def * min_def)
qed

text \<open>One plain line is read whole and its text is the line.\<close>

lemma ini_loop_line:
  assumes "nl \<notin> set l" "nul \<notin> set l" "no_outer_space l" "length l + 1 < INI_LINE_BUFFER_SIZE"
    "l = [] \<or> hd l \<noteq> CHR 0xEF"
  shows "ini_loop m n st (l @ nl # s) =
    (case ini_line m (n + 1) l st of Inl e \<Rightarrow> Inl e | Inr st' \<Rightarrow> ini_loop m (n + 1) st' s)"
proof -
  have 1: "takeWhile (\<lambda>c. c \<noteq> nul) (l @ [nl]) = l @ [nl]"
    using assms(2) by (simp add: takeWhile_append)
  have 2: "lib_str_trim (l @ [nl]) = l"
    using trim_pad [of "[]" "[nl]" l] assms(3) by (simp add: isspace_def)
  have 3: "line_text (n + 1) (l @ [nl]) = l"
    unfolding line_text_def 1 2 Let_def using assms(5) by (cases l) auto
  show ?thesis
    using assms(1,4) by (subst ini_loop.simps) (simp add: fgets_line 1 3 [unfolded Suc_eq_plus1 [symmetric]])
qed

lemma print_pair_line:
  assumes "pair_ok kv"
  shows "nl \<notin> set (print_pair kv)" "nul \<notin> set (print_pair kv)" "no_outer_space (print_pair kv)"
    "length (print_pair kv) + 1 < INI_LINE_BUFFER_SIZE" "hd (print_pair kv) \<noteq> CHR 0xEF"
  using assms
  by (auto simp: pair_ok_def plain_text_def print_pair_def no_outer_space_def isspace_def hd_append)

lemma ini_line_pair:
  assumes "pair_ok kv" "\<forall>k. m k"
  shows "ini_line m n (print_pair kv) (d, cur) =
    (case append_to_current m d cur (fst kv) (snd kv) n of Inl e \<Rightarrow> Inl e | Inr d \<Rightarrow> Inr (d, cur))"
proof -
  have k: "fst kv \<noteq> []" "CHR ''='' \<notin> set (fst kv)" "no_outer_space (fst kv)" "no_outer_space (snd kv)"
    using assms(1) by (auto simp: pair_ok_def plain_text_def)
  have "hd (print_pair kv) = hd (fst kv)" "\<not> isspace (hd (fst kv))"
    using k by (auto simp: print_pair_def hd_append no_outer_space_def)
  moreover have "print_pair kv \<noteq> []" by (simp add: print_pair_def)
  ultimately have "\<not> lib_str_is_blank (print_pair kv)"
    by (cases "print_pair kv") (auto simp: lib_str_is_blank_def)
  moreover have "lib_str_split_kv (print_pair kv) = Some (fst kv, snd kv)"
    using k by (cases kv) (simp add: lib_str_split_kv_def print_pair_def strchr_split_append trim_id)
  ultimately show ?thesis
    using assms(1) k(1) \<open>hd (print_pair kv) = hd (fst kv)\<close>
    by (cases kv) (simp add: ini_line_def pair_ok_def)
qed

lemma ini_line_header:
  assumes "section_ok (name, kvs)" "\<forall>k. m k"
  shows "ini_line m n (CHR ''['' # name @ '']'') (d, cur) =
    Inr (d\<lparr>id_sections := id_sections d @ [\<lparr>is_name = Some name, is_line = n, is_entries = []\<rparr>]\<rparr>,
      Some (length (id_sections d)))"
  using assms
  by (simp add: ini_line_def section_ok_def plain_text_def lib_str_is_blank_def isspace_def
      ini_parse_section_name_def butlast_append trim_id ini_append_section_def lib_str_dup_def)

text \<open>The entries of a section, while \<open>current\<close> points at the last section or at the global one.\<close>

lemma ini_loop_pairs_global:
  assumes "list_all pair_ok kvs" "\<forall>k. m k"
  shows "ini_loop m n (d, None) (concat (map (\<lambda>l. l @ [nl]) (map print_pair kvs)) @ s) =
    ini_loop m (n + length kvs)
      (d\<lparr>id_global := (id_global d)\<lparr>is_entries := is_entries (id_global d) @ lay_entries n kvs\<rparr>\<rparr>, None) s"
  using assms(1)
proof (induction kvs arbitrary: n d)
  case Nil
  then show ?case by (cases d) simp
next
  case (Cons kv kvs)
  have ok: "pair_ok kv" and kvs: "list_all pair_ok kvs" using Cons.prems by simp_all
  note * = print_pair_line [OF ok]
  have "append_to_current m d None (fst kv) (snd kv) (n + 1) =
      Inr (d\<lparr>id_global := (id_global d)\<lparr>is_entries := is_entries (id_global d) @
        [\<lparr>ie_key = fst kv, ie_value = snd kv, ie_line = n + 1\<rparr>]\<rparr>\<rparr>)"
    using assms(2) by (simp add: append_to_current_def ini_append_entry_def lib_str_dup_def)
  then show ?case
    using Cons.prems ini_loop_line [OF *(1-4), of m n "(d, None)"] *(5) ini_line_pair [OF ok assms(2)]
    by (cases kv) (simp add: Cons.IH [OF kvs, simplified map_map o_def] o_def)
qed

lemma ini_loop_pairs_section:
  assumes "list_all pair_ok kvs" "\<forall>k. m k" "id_sections d = ss @ [c]"
  shows "ini_loop m n (d, Some (length ss)) (concat (map (\<lambda>l. l @ [nl]) (map print_pair kvs)) @ s) =
    ini_loop m (n + length kvs)
      (d\<lparr>id_sections := ss @ [c\<lparr>is_entries := is_entries c @ lay_entries n kvs\<rparr>]\<rparr>, Some (length ss)) s"
  using assms(1,3)
proof (induction kvs arbitrary: n d c)
  case Nil
  then show ?case by (cases d) simp
next
  case (Cons kv kvs)
  have ok: "pair_ok kv" and kvs: "list_all pair_ok kvs" using Cons.prems by simp_all
  note * = print_pair_line [OF ok]
  have "append_to_current m d (Some (length ss)) (fst kv) (snd kv) (n + 1) =
      Inr (d\<lparr>id_sections := ss @ [c\<lparr>is_entries := is_entries c @
        [\<lparr>ie_key = fst kv, ie_value = snd kv, ie_line = n + 1\<rparr>]\<rparr>]\<rparr>)"
    using assms(2) Cons.prems(2) by (simp add: append_to_current_def ini_append_entry_def lib_str_dup_def)
  then show ?case
    using Cons.prems ini_loop_line [OF *(1-4), of m n "(d, Some (length ss))"] *(5)
      ini_line_pair [OF ok assms(2)]
    by (cases kv) (simp add: Cons.IH [OF kvs, simplified map_map o_def] o_def)
qed

lemma ini_loop_sections:
  assumes "list_all section_ok secs" "\<forall>k. m k"
  shows "\<exists>n' cur'. ini_loop m n (d, cur) (concat (map (\<lambda>l. l @ [nl]) (print_lines secs)) @ s) =
    ini_loop m n' (d\<lparr>id_sections := id_sections d @ lay_sections n secs\<rparr>, cur') s"
  using assms(1)
proof (induction secs arbitrary: n d cur)
  case Nil
  have "ini_loop m n (d, cur) s = ini_loop m n (d\<lparr>id_sections := id_sections d @ []\<rparr>, cur) s" by simp
  then show ?case unfolding print_lines.simps lay_sections.simps by auto
next
  case (Cons sec secs)
  obtain name kvs where sec: "sec = (name, kvs)" by (cases sec) auto
  have ok: "section_ok (name, kvs)" using Cons.prems sec by simp
  define l where "l = CHR ''['' # name @ '']''"
  have l: "nl \<notin> set l" "nul \<notin> set l" "no_outer_space l" "length l + 1 < INI_LINE_BUFFER_SIZE"
    "l = [] \<or> hd l \<noteq> CHR 0xEF"
    using ok by (auto simp: l_def section_ok_def plain_text_def no_outer_space_def isspace_def)
  define c where "c = \<lparr>is_name = Some name, is_line = n + 1, is_entries = []\<rparr>"
  define d1 where "d1 = d\<lparr>id_sections := id_sections d @ [c]\<rparr>"
  define t where "t = concat (map (\<lambda>l. l @ [nl]) (print_lines secs)) @ s"
  have "concat (map (\<lambda>l. l @ [nl]) (print_lines (sec # secs))) @ s =
      l @ nl # concat (map (\<lambda>l. l @ [nl]) (map print_pair kvs)) @ t"
    by (simp add: sec l_def t_def)
  then have "ini_loop m n (d, cur) (concat (map (\<lambda>l. l @ [nl]) (print_lines (sec # secs))) @ s) =
      ini_loop m (n + 1) (d1, Some (length (id_sections d)))
        (concat (map (\<lambda>l. l @ [nl]) (map print_pair kvs)) @ t)"
    using ini_loop_line [OF l, of m n "(d, cur)"] ini_line_header [OF ok assms(2), of "n + 1" d cur]
    by (simp add: l_def d1_def c_def)
  also have "\<dots> = ini_loop m (n + 1 + length kvs)
      (d1\<lparr>id_sections := id_sections d @ [c\<lparr>is_entries := is_entries c @ lay_entries (n + 1) kvs\<rparr>]\<rparr>,
       Some (length (id_sections d))) t"
    by (rule ini_loop_pairs_section) (use ok assms(2) in \<open>simp_all add: section_ok_def d1_def\<close>)
  finally have step: "ini_loop m n (d, cur) (concat (map (\<lambda>l. l @ [nl]) (print_lines (sec # secs))) @ s) =
      ini_loop m (n + 1 + length kvs)
      (d1\<lparr>id_sections := id_sections d @ [c\<lparr>is_entries := is_entries c @ lay_entries (n + 1) kvs\<rparr>]\<rparr>,
       Some (length (id_sections d))) t" .
  have "list_all section_ok secs" using Cons.prems by simp
  from Cons.IH [OF this, of "n + 1 + length kvs"
      "d1\<lparr>id_sections := id_sections d @ [c\<lparr>is_entries := is_entries c @ lay_entries (n + 1) kvs\<rparr>]\<rparr>"
      "Some (length (id_sections d))"]
  obtain n' cur' where "ini_loop m (n + 1 + length kvs)
      (d1\<lparr>id_sections := id_sections d @ [c\<lparr>is_entries := is_entries c @ lay_entries (n + 1) kvs\<rparr>]\<rparr>,
       Some (length (id_sections d))) t =
    ini_loop m n' (d\<lparr>id_sections := id_sections d @ lay_sections n (sec # secs)\<rparr>, cur') s"
    by (auto simp: t_def sec d1_def c_def)
  with step show ?case by metis
qed

lemma ini_read_print:
  assumes "ini_ok data" "\<forall>k. m k"
  shows "ini_read_file m (Some \<lparr>file_content = ini_print data, file_error = False\<rparr>) = Inr (ini_layout data)"
proof -
  obtain kvs secs where data: "data = (kvs, secs)" by (cases data) auto
  define d0 where "d0 = \<lparr>id_global = empty_section, id_sections = []\<rparr>"
  define g where "g = d0\<lparr>id_global := (id_global d0)\<lparr>is_entries := is_entries (id_global d0) @ lay_entries 0 kvs\<rparr>\<rparr>"
  have "ini_print data = concat (map (\<lambda>l. l @ [nl]) (map print_pair kvs)) @
      concat (map (\<lambda>l. l @ [nl]) (print_lines secs)) @ []"
    by (simp add: ini_print_def data)
  then have 1: "ini_loop m 0 (d0, None) (ini_print data) =
      ini_loop m (0 + length kvs) (g, None) (concat (map (\<lambda>l. l @ [nl]) (print_lines secs)) @ [])"
    using ini_loop_pairs_global [of kvs m 0 d0] assms by (simp add: data ini_ok_def g_def)
  obtain n' cur' where 2: "ini_loop m (0 + length kvs) (g, None) (concat (map (\<lambda>l. l @ [nl]) (print_lines secs)) @ []) =
      ini_loop m n' (g\<lparr>id_sections := id_sections g @ lay_sections (0 + length kvs) secs\<rparr>, cur') []"
    using ini_loop_sections [of secs m "0 + length kvs" g None "[]"] assms by (auto simp: data ini_ok_def)
  have "ini_loop m n' (x, cur') [] = Inr (n', x)" for x
    by (subst ini_loop.simps) (simp add: fgets_def)
  then show ?thesis
    using 1 2 assms(2)
    by (simp add: ini_read_file_def d0_def [symmetric])
      (simp add: ini_layout_def data g_def d0_def empty_section_def)
qed

text \<open>Looking up what was read: the first section of the name, the first entry of the key.\<close>

lemma find_lay_entries: "map_option ie_value (List.find (\<lambda>e. ie_key e = key) (lay_entries n kvs)) = map_of kvs key"
  by (induction n kvs rule: lay_entries.induct) auto

lemma find_lay_sections:
  "map_option (\<lambda>s. map_option ie_value (ini_find_entry s key))
     (List.find (\<lambda>s. is_name s = Some name) (lay_sections n secs)) =
   map_option (\<lambda>kvs. map_of kvs key) (map_of secs name)"
  by (induction n secs rule: lay_sections.induct) (auto simp: ini_find_entry_def find_lay_entries)

lemma ini_get_layout:
  assumes "name \<noteq> []"
  shows "ini_get (ini_layout (kvs, secs)) None key = map_of kvs key"
    "ini_get (ini_layout (kvs, secs)) (Some name) key =
       (case map_of secs name of None \<Rightarrow> None | Some ps \<Rightarrow> map_of ps key)"
proof -
  show "ini_get (ini_layout (kvs, secs)) None key = map_of kvs key"
    by (simp add: ini_get_def ini_find_section_def ini_layout_def ini_find_entry_def find_lay_entries)
  have "map_option (\<lambda>s. map_option ie_value (ini_find_entry s key))
      (List.find (\<lambda>s. is_name s = Some name) (lay_sections (length kvs) secs)) =
    map_option (\<lambda>kvs. map_of kvs key) (map_of secs name)"
    by (rule find_lay_sections)
  then show "ini_get (ini_layout (kvs, secs)) (Some name) key =
      (case map_of secs name of None \<Rightarrow> None | Some ps \<Rightarrow> map_of ps key)"
    using assms
    by (auto simp: ini_get_def ini_find_section_def ini_layout_def split: option.splits)
qed

end
