(* ===== verification/Net_Range.thy ===== *)
theory Net_Range
  imports Cstring
begin

text \<open>
  \<open>stdlib/net/ip/range/range.c\<close>: IPv4 addresses and CIDR ranges as texts, and whether a range
  contains an address. \<open>inet_pton\<close> is the C library's: four decimal octets without leading zeros,
  here already in host byte order.
\<close>

section \<open>The C library\<close>

definition parse_octet :: "string \<Rightarrow> nat option" where
  "parse_octet s =
     (if s \<noteq> [] \<and> length s \<le> 3 \<and> list_all isdigit s \<and> (length s = 1 \<or> hd s \<noteq> CHR ''0'') \<and>
         digits_value 0 s \<le> 255
      then Some (digits_value 0 s) else None)"

definition inet_pton4 :: "string \<Rightarrow> u32 option" where
  "inet_pton4 s =
     (case map parse_octet (split_on (CHR ''.'') s) of
        [Some a, Some b, Some c, Some d] \<Rightarrow> Some (word_of_nat (((a * 256 + b) * 256 + c) * 256 + d))
      | _ \<Rightarrow> None)"

section \<open>The module\<close>

definition net_ip_range_trim_copy :: "string \<Rightarrow> nat \<Rightarrow> string option" where
  "net_ip_range_trim_copy input out_len =
     (let t = rev (dropWhile isspace (rev (dropWhile isspace input)))
      in if t = [] then None else if length t \<ge> out_len then None else Some t)"

definition net_ip_range_parse_ipv4_literal :: "string \<Rightarrow> u32 option" where
  "net_ip_range_parse_ipv4_literal text = inet_pton4 text"

definition net_ip_range_prefix_mask :: "nat \<Rightarrow> u32" where
  "net_ip_range_prefix_mask prefix_len =
     (if prefix_len = 0 then 0
      else if prefix_len \<ge> 32 then 0xFFFFFFFF
      else push_bit (32 - prefix_len) 0xFFFFFFFF)"

text \<open>The network, the mask and whether the text is in CIDR form.\<close>

definition net_ip_range_parse_ipv4_spec :: "string \<Rightarrow> (u32 \<times> u32 \<times> bool) option" where
  "net_ip_range_parse_ipv4_spec spec =
     (case net_ip_range_trim_copy spec 128 of
        None \<Rightarrow> None
      | Some trimmed \<Rightarrow>
          (case strchr_split (CHR ''/'') trimmed of
             None \<Rightarrow>
               (case net_ip_range_parse_ipv4_literal trimmed of
                  None \<Rightarrow> None
                | Some addr \<Rightarrow> Some (addr, 0xFFFFFFFF, False))
           | Some (left, slash) \<Rightarrow>
               if CHR ''/'' \<in> set slash then None
               else case net_ip_range_parse_ipv4_literal left of
                 None \<Rightarrow> None
               | Some addr \<Rightarrow>
                   (let (prefix_len, parse_end) = strtoul10 slash
                    in if parse_end \<noteq> [] \<or> prefix_len > 32 then None
                       else let m = net_ip_range_prefix_mask prefix_len
                            in Some (addr AND m, m, True))))"

definition net_ip_range_is_single_ipv4 :: "string \<Rightarrow> bool" where
  "net_ip_range_is_single_ipv4 spec =
     (case net_ip_range_trim_copy spec 64 of
        None \<Rightarrow> False
      | Some trimmed \<Rightarrow>
          CHR ''/'' \<notin> set trimmed \<and> net_ip_range_parse_ipv4_literal trimmed \<noteq> None)"

definition net_ip_range_is_cidr_ipv4 :: "string \<Rightarrow> bool" where
  "net_ip_range_is_cidr_ipv4 spec =
     (case net_ip_range_parse_ipv4_spec spec of
        None \<Rightarrow> False
      | Some (network, m, is_cidr) \<Rightarrow> is_cidr)"

definition net_ip_range_contains_cidr_ipv4 :: "string \<Rightarrow> string \<Rightarrow> bool" where
  "net_ip_range_contains_cidr_ipv4 cidr ip =
     (case net_ip_range_parse_ipv4_spec cidr of
        None \<Rightarrow> False
      | Some (network, m, is_cidr) \<Rightarrow>
          is_cidr \<and>
          (case net_ip_range_parse_ipv4_literal ip of
             None \<Rightarrow> False
           | Some addr \<Rightarrow> addr AND m = network))"

definition net_ip_range_contains_spec_ipv4 :: "string \<Rightarrow> string \<Rightarrow> bool" where
  "net_ip_range_contains_spec_ipv4 spec ip =
     (case net_ip_range_parse_ipv4_spec spec of
        None \<Rightarrow> False
      | Some (network, m, is_cidr) \<Rightarrow>
          (case net_ip_range_parse_ipv4_literal ip of
             None \<Rightarrow> False
           | Some addr \<Rightarrow> if \<not> is_cidr then addr = network else addr AND m = network))"

text \<open>The parts between commas, empty ones skipped, up to one that is too long.\<close>

fun contains_any_parts :: "string list \<Rightarrow> string \<Rightarrow> bool" where
  "contains_any_parts [] ip = False"
| "contains_any_parts (part # parts) ip =
     (if part = [] then contains_any_parts parts ip
      else if length part \<ge> 128 then False
      else if net_ip_range_contains_spec_ipv4 part ip then True
      else contains_any_parts parts ip)"

definition net_ip_range_contains_any_ipv4 :: "string \<Rightarrow> string \<Rightarrow> bool" where
  "net_ip_range_contains_any_ipv4 spec_list ip = contains_any_parts (split_on (CHR '','') spec_list) ip"

section \<open>Printing addresses\<close>

text \<open>The usual notation, as a reference for the parser.\<close>

definition digit_char :: "nat \<Rightarrow> char" where
  "digit_char n = ''0123456789'' ! n"

definition decimal :: "nat \<Rightarrow> string" where
  "decimal n =
     (if n < 10 then [digit_char n]
      else if n < 100 then [digit_char (n div 10), digit_char (n mod 10)]
      else [digit_char (n div 100), digit_char (n div 10 mod 10), digit_char (n mod 10)])"

definition octet_of :: "nat \<Rightarrow> u32 \<Rightarrow> nat" where
  "octet_of k a = unat a div 256 ^ k mod 256"

definition dotted :: "u32 \<Rightarrow> string" where
  "dotted a = decimal (octet_of 3 a) @ CHR ''.'' # decimal (octet_of 2 a) @ CHR ''.'' #
     decimal (octet_of 1 a) @ CHR ''.'' # decimal (octet_of 0 a)"

lemma digit_char_facts:
  assumes "n < 10"
  shows "isdigit (digit_char n)" "digit_value (digit_char n) = n" "\<not> isspace (digit_char n)"
    "digit_char n = CHR ''0'' \<longleftrightarrow> n = 0"
    "digit_char n \<noteq> CHR ''.''" "digit_char n \<noteq> CHR ''/''" "digit_char n \<noteq> CHR ''-''" "digit_char n \<noteq> CHR ''+''"
proof -
  have "n = 0 \<or> n = 1 \<or> n = 2 \<or> n = 3 \<or> n = 4 \<or> n = 5 \<or> n = 6 \<or> n = 7 \<or> n = 8 \<or> n = 9"
    using assms by arith
  then show "isdigit (digit_char n)" "digit_value (digit_char n) = n" "\<not> isspace (digit_char n)"
    "digit_char n = CHR ''0'' \<longleftrightarrow> n = 0"
    "digit_char n \<noteq> CHR ''.''" "digit_char n \<noteq> CHR ''/''" "digit_char n \<noteq> CHR ''-''" "digit_char n \<noteq> CHR ''+''"
    by (auto simp: digit_char_def isdigit_def digit_value_def isspace_def)
qed

lemma decimal_digits:
  assumes "n < 1000"
  shows "list_all isdigit (decimal n)" "digits_value 0 (decimal n) = n" "decimal n \<noteq> []"
    "length (decimal n) \<le> 3" "n < 10 \<or> hd (decimal n) \<noteq> CHR ''0''"
    "n < 10 \<Longrightarrow> length (decimal n) = 1"
    "c \<in> set (decimal n) \<Longrightarrow> \<not> isspace c \<and> c \<noteq> CHR ''.'' \<and> c \<noteq> CHR ''/'' \<and> c \<noteq> CHR ''-'' \<and> c \<noteq> CHR ''+''"
proof -
  have *: "n div 100 < 10" "n div 10 mod 10 < 10" "n mod 10 < 10" "n < 100 \<Longrightarrow> n div 10 < 10"
    using assms by auto
  show "list_all isdigit (decimal n)" "decimal n \<noteq> []" "length (decimal n) \<le> 3"
    "n < 10 \<Longrightarrow> length (decimal n) = 1"
    using * by (simp_all add: decimal_def digit_char_facts)
  have "n div 100 = n div 10 div 10"
    by (simp add: div_mult2_eq [symmetric])
  then have "n div 100 * 100 + n div 10 mod 10 * 10 + n mod 10 = n"
    using div_mult_mod_eq [of n 10] div_mult_mod_eq [of "n div 10" 10] by linarith
  then show "digits_value 0 (decimal n) = n"
    using * by (auto simp: decimal_def digit_char_facts)
  show "n < 10 \<or> hd (decimal n) \<noteq> CHR ''0''"
    using * by (auto simp: decimal_def digit_char_facts)
  show "c \<in> set (decimal n) \<Longrightarrow> \<not> isspace c \<and> c \<noteq> CHR ''.'' \<and> c \<noteq> CHR ''/'' \<and> c \<noteq> CHR ''-'' \<and> c \<noteq> CHR ''+''"
    using * by (auto simp: decimal_def digit_char_facts split: if_splits)
qed

lemma parse_octet_decimal: "n < 256 \<Longrightarrow> parse_octet (decimal n) = Some n"
  using decimal_digits [of n] by (auto simp: parse_octet_def)

lemma octet_less: "octet_of k a < 256"
  by (simp add: octet_of_def)

lemma octets_nat:
  fixes n :: nat
  assumes "n < 4294967296"
  shows "((n div 256 ^ 3 mod 256 * 256 + n div 256 ^ 2 mod 256) * 256 + n div 256 ^ 1 mod 256) * 256 +
    n div 256 ^ 0 mod 256 = n"
proof -
  have q: "n div 256 ^ 2 = n div 256 div 256" "n div 256 ^ 3 = n div 256 div 256 div 256"
    by (simp_all add: div_mult2_eq [symmetric])
  have "n div 256 div 256 div 256 < 256"
    using assms by (simp add: div_mult2_eq [symmetric] less_mult_imp_div_less)
  then show ?thesis
    unfolding q using div_mult_mod_eq [of n 256] div_mult_mod_eq [of "n div 256" 256]
      div_mult_mod_eq [of "n div 256 div 256" 256] by simp
qed

lemma octets_word:
  "word_of_nat (((octet_of 3 a * 256 + octet_of 2 a) * 256 + octet_of 1 a) * 256 + octet_of 0 a) = a"
  unfolding octet_of_def using octets_nat [of "unat a"] unsigned_less [of a, where ?'a = nat] by simp

lemma split_on_decimal:
  assumes "n < 256"
  shows "split_on (CHR ''.'') (decimal n @ CHR ''.'' # s) = decimal n # split_on (CHR ''.'') s"
    "split_on (CHR ''.'') (decimal n) = [decimal n]"
proof -
  have "CHR ''.'' \<notin> set (decimal n)" using decimal_digits(7) [of n] assms by auto
  then show "split_on (CHR ''.'') (decimal n @ CHR ''.'' # s) = decimal n # split_on (CHR ''.'') s"
    "split_on (CHR ''.'') (decimal n) = [decimal n]"
    by (simp_all add: split_on_append split_on_single)
qed

lemma inet_pton4_dotted: "inet_pton4 (dotted a) = Some a"
  using octets_word [of a]
  by (simp add: inet_pton4_def dotted_def split_on_decimal parse_octet_decimal octet_less)

section \<open>What a range contains\<close>

lemma decimal_scan: "n < 1000 \<Longrightarrow> scan_integer (decimal n) = (False, decimal n, [])"
proof -
  assume n: "n < 1000"
  note d = decimal_digits [OF n]
  obtain c cs where c: "decimal n = c # cs" using d(3) by (cases "decimal n") auto
  have "\<not> isspace c" "c \<noteq> CHR ''-''" "c \<noteq> CHR ''+''" using d(7) [of c] c by auto
  moreover have "takeWhile isdigit (c # cs) = c # cs" "dropWhile isdigit (c # cs) = []"
    using d(1) c by (simp_all add: list_all_iff)
  ultimately show ?thesis
    unfolding scan_integer_def Let_def c by simp
qed

lemma decimal_strtoul: "n < 1000 \<Longrightarrow> strtoul10 (decimal n) = (n, [])"
  by (simp add: strtoul10_def decimal_scan decimal_digits)

lemma dotted_chars:
  assumes "c \<in> set (dotted a)"
  shows "\<not> isspace c" "c \<noteq> CHR ''/''"
proof -
  have "octet_of k a < 1000" for k using octet_less [of k a] by simp
  then have *: "c \<in> set (decimal (octet_of k a)) \<Longrightarrow> \<not> isspace c \<and> c \<noteq> CHR ''/''" for k
    using decimal_digits(7) [of "octet_of k a" c] by blast
  have "c = CHR ''.'' \<or> (\<exists>k. c \<in> set (decimal (octet_of k a)))"
    using assms by (auto simp: dotted_def)
  then show "\<not> isspace c" "c \<noteq> CHR ''/''"
    using * by (auto simp: isspace_def)
qed

lemma dotted_bounds: "dotted a \<noteq> []" "length (dotted a) \<le> 15"
proof -
  have "octet_of k a < 1000" for k using octet_less [of k a] by simp
  then have *: "length (decimal (octet_of k a)) \<le> 3" for k
    by (rule decimal_digits(4))
  show "length (dotted a) \<le> 15"
    using * [of 0] * [of 1] * [of 2] * [of 3] by (simp add: dotted_def)
qed (simp add: dotted_def)

lemma trim_copy_plain:
  assumes "s \<noteq> []" "\<forall>c \<in> set s. \<not> isspace c" "length s < n"
  shows "net_ip_range_trim_copy s n = Some s"
proof -
  have "no_outer_space s" using assms by (simp add: no_outer_space_def)
  then show ?thesis
    using assms trim_id [of s] by (simp add: net_ip_range_trim_copy_def lib_str_trim_def)
qed

lemma parse_spec_single: "net_ip_range_parse_ipv4_spec (dotted a) = Some (a, 0xFFFFFFFF, False)"
proof -
  have "net_ip_range_trim_copy (dotted a) 128 = Some (dotted a)"
    using dotted_bounds [of a] dotted_chars by (auto intro!: trim_copy_plain)
  moreover have "strchr_split (CHR ''/'') (dotted a) = None"
    using dotted_chars(2) [of _ a] by (auto simp: strchr_split_None)
  ultimately show ?thesis
    by (simp add: net_ip_range_parse_ipv4_spec_def net_ip_range_parse_ipv4_literal_def inet_pton4_dotted)
qed

lemma parse_spec_slash:
  assumes "\<forall>c \<in> set s. \<not> isspace c \<and> c \<noteq> CHR ''/''" "length s < 64" "strtoul10 s = (n, [])" "n \<le> 32"
  shows "net_ip_range_parse_ipv4_spec (dotted a @ CHR ''/'' # s) =
    Some (a AND net_ip_range_prefix_mask n, net_ip_range_prefix_mask n, True)"
proof -
  have "net_ip_range_trim_copy (dotted a @ CHR ''/'' # s) 128 = Some (dotted a @ CHR ''/'' # s)"
  proof (rule trim_copy_plain)
    have "\<not> isspace (CHR ''/'')" by (simp add: isspace_def)
    then show "\<forall>c \<in> set (dotted a @ CHR ''/'' # s). \<not> isspace c"
      using assms(1) dotted_chars(1) [of _ a] by auto
  qed (use assms(2) dotted_bounds [of a] in simp_all)
  moreover have "strchr_split (CHR ''/'') (dotted a @ CHR ''/'' # s) = Some (dotted a, s)"
    using dotted_chars(2) [of "CHR ''/''" a] by (intro strchr_split_append) blast
  moreover have "CHR ''/'' \<notin> set s" using assms(1) by blast
  ultimately show ?thesis
    using assms(3,4)
    by (simp add: net_ip_range_parse_ipv4_spec_def net_ip_range_parse_ipv4_literal_def inet_pton4_dotted Let_def)
qed

lemma mask_agree:
  assumes "n \<le> 32"
  shows "a AND net_ip_range_prefix_mask n = b AND net_ip_range_prefix_mask n \<longleftrightarrow>
    drop_bit (32 - n) a = drop_bit (32 - n) b"
proof -
  have ones: "(0xFFFFFFFF :: u32) = - 1" by simp
  have m: "bit (net_ip_range_prefix_mask n) i \<longleftrightarrow> 32 - n \<le> i \<and> i < 32" for i
    using assms unfolding net_ip_range_prefix_mask_def ones
    by (simp add: bit_simps del: push_bit_minus_one_eq_not_mask) auto
  have bits: "bit (x AND net_ip_range_prefix_mask n) i \<longleftrightarrow> 32 - n \<le> i \<and> i < 32 \<and> bit x i" for x i
    by (auto simp: bit_and_iff m)
  have drops: "drop_bit (32 - n) a = drop_bit (32 - n) b \<longleftrightarrow> (\<forall>i \<ge> 32 - n. bit a i = bit b i)"
  proof
    assume *: "drop_bit (32 - n) a = drop_bit (32 - n) b"
    show "\<forall>i \<ge> 32 - n. bit a i = bit b i"
    proof (intro allI impI)
      fix i assume "32 - n \<le> i"
      then obtain j where "i = 32 - n + j" using le_Suc_ex by blast
      then show "bit a i = bit b i"
        using arg_cong [OF *, of "\<lambda>x. bit x j"] by (simp add: bit_drop_bit_eq)
    qed
  qed (auto simp: bit_eq_iff bit_drop_bit_eq)
  have "a AND net_ip_range_prefix_mask n = b AND net_ip_range_prefix_mask n \<longleftrightarrow>
      (\<forall>i. 32 - n \<le> i \<and> i < 32 \<longrightarrow> bit a i = bit b i)"
    unfolding bit_eq_iff bits by auto
  also have "\<dots> \<longleftrightarrow> (\<forall>i \<ge> 32 - n. bit a i = bit b i)"
    using bit_imp_le_length [of a] bit_imp_le_length [of b] by fastforce
  finally show ?thesis using drops by simp
qed

text \<open>A network, with or without a prefix length, contains exactly the addresses it should.\<close>

lemma contains_single: "net_ip_range_contains_spec_ipv4 (dotted net) (dotted a) \<longleftrightarrow> a = net"
  by (simp add: net_ip_range_contains_spec_ipv4_def parse_spec_single net_ip_range_parse_ipv4_literal_def
      inet_pton4_dotted)

lemma contains_cidr:
  assumes "n \<le> 32"
  shows "net_ip_range_contains_spec_ipv4 (dotted net @ CHR ''/'' # decimal n) (dotted a) \<longleftrightarrow>
    drop_bit (32 - n) a = drop_bit (32 - n) net"
proof -
  have "n < 1000" using assms by simp
  note d = decimal_digits [OF this]
  have "\<forall>c \<in> set (decimal n). \<not> isspace c \<and> c \<noteq> CHR ''/''" using d(7) by blast
  then have "net_ip_range_parse_ipv4_spec (dotted net @ CHR ''/'' # decimal n) =
      Some (net AND net_ip_range_prefix_mask n, net_ip_range_prefix_mask n, True)"
    using parse_spec_slash [of "decimal n" n net] d(4) decimal_strtoul [of n] assms by auto
  then show ?thesis
    using mask_agree [OF assms, of a net]
    by (simp add: net_ip_range_contains_spec_ipv4_def net_ip_range_parse_ipv4_literal_def inet_pton4_dotted)
qed

text \<open>A slash without a prefix length reads as length zero: the whole address space.\<close>

lemma contains_missing_prefix: "net_ip_range_contains_spec_ipv4 (dotted net @ ''/'') (dotted a)"
proof -
  have "strtoul10 [] = (0, [])"
    by (simp add: strtoul10_def scan_integer_def)
  then have "net_ip_range_parse_ipv4_spec (dotted net @ ''/'') = Some (0, 0, True)"
    using parse_spec_slash [of "[]" 0 net] by (simp add: net_ip_range_prefix_mask_def)
  then show ?thesis
    by (simp add: net_ip_range_contains_spec_ipv4_def net_ip_range_parse_ipv4_literal_def inet_pton4_dotted)
qed

lemma missing_prefix_is_cidr: "net_ip_range_is_cidr_ipv4 (dotted net @ ''/'')"
proof -
  have "strtoul10 [] = (0, [])"
    by (simp add: strtoul10_def scan_integer_def)
  then show ?thesis
    using parse_spec_slash [of "[]" 0 net] by (simp add: net_ip_range_is_cidr_ipv4_def)
qed

end
