(* ===== verification/Config.thy ===== *)
theory Config
  imports Ini Net_Range Crypto
begin

text \<open>
  \<open>siglatch/app/config/config.c\<close>: the server configuration, built from an INI document. The arrays
  with their counts are lists; the C strings are cut to their arrays where the code copies with
  \<open>lcpy\<close>. Whether a dynamic object can be loaded is asked of the dynamic linker: a parameter.
\<close>

section \<open>Data\<close>

definition PATH_MAX :: nat where "PATH_MAX = 4096"
definition MAX_USERS :: nat where "MAX_USERS = 32"
definition MAX_ACTIONS :: nat where "MAX_ACTIONS = 32"
definition MAX_SERVERS :: nat where "MAX_SERVERS = 5"
definition MAX_DEADDROPS :: nat where "MAX_DEADDROPS = 16"
definition MAX_ACTION_NAME :: nat where "MAX_ACTION_NAME = 32"
definition MAX_SERVER_NAME :: nat where "MAX_SERVER_NAME = 64"
definition MAX_DEADDROP_NAME :: nat where "MAX_DEADDROP_NAME = 64"
definition MAX_BUILTIN_NAME :: nat where "MAX_BUILTIN_NAME = 64"
definition MAX_OBJECT_NAME :: nat where "MAX_OBJECT_NAME = 64"
definition MAX_RUN_AS_NAME :: nat where "MAX_RUN_AS_NAME = 64"
definition MAX_PATH_LEN :: nat where "MAX_PATH_LEN = 256"
definition MAX_FILTERS :: nat where "MAX_FILTERS = 16"
definition MAX_FILTER_LEN :: nat where "MAX_FILTER_LEN = 32"
definition MAX_IP_RANGES :: nat where "MAX_IP_RANGES = 16"
definition MAX_IP_RANGE_LEN :: nat where "MAX_IP_RANGE_LEN = 64"
definition USER_NAME_LEN :: nat where "USER_NAME_LEN = 64"

lemmas config_sizes =
  PATH_MAX_def MAX_USERS_def MAX_ACTIONS_def MAX_SERVERS_def MAX_DEADDROPS_def MAX_ACTION_NAME_def
  MAX_SERVER_NAME_def MAX_DEADDROP_NAME_def MAX_BUILTIN_NAME_def MAX_OBJECT_NAME_def
  MAX_RUN_AS_NAME_def MAX_PATH_LEN_def MAX_FILTERS_def MAX_FILTER_LEN_def MAX_IP_RANGES_def
  MAX_IP_RANGE_LEN_def USER_NAME_LEN_def

datatype siglatch_payload_overflow_policy =
    SL_PAYLOAD_OVERFLOW_UNSET | SL_PAYLOAD_OVERFLOW_REJECT | SL_PAYLOAD_OVERFLOW_CLAMP
  | SL_PAYLOAD_OVERFLOW_INHERIT

datatype siglatch_action_handler =
    SL_ACTION_HANDLER_INVALID | SL_ACTION_HANDLER_SHELL | SL_ACTION_HANDLER_BUILTIN
  | SL_ACTION_HANDLER_STATIC | SL_ACTION_HANDLER_DYNAMIC

record siglatch_action =
  sa_id :: u32
  sa_name :: string
  sa_label :: string
  sa_handler :: siglatch_action_handler
  sa_builtin :: string
  sa_object :: string
  sa_object_path :: string
  sa_run_as :: string
  sa_constructor :: string
  sa_destructor :: string
  sa_keepalive_interval :: int
  sa_enabled :: bool
  sa_require_ascii :: bool
  sa_exec_split :: bool
  sa_enforce_wire_auth :: bool
  sa_payload_overflow :: siglatch_payload_overflow_policy
  sa_allowed_ips :: "string list"

record siglatch_user =
  su_id :: u32
  su_name :: string
  su_key_file :: string
  su_hmac_file :: string
  su_enabled :: bool
  su_actions :: "string list"
  su_allowed_ips :: "string list"
  su_pubkey :: "EVP_PKEY option"
  su_hmac_key :: "u8 list"

record siglatch_deaddrop =
  sd_id :: u32
  sd_name :: string
  sd_label :: string
  sd_constructor :: string
  sd_run_as :: string
  sd_filters :: "string list"
  sd_starts_with :: "string list"
  sd_enabled :: bool
  sd_require_ascii :: bool
  sd_exec_split :: bool

record siglatch_server =
  sv_id :: u32
  sv_name :: string
  sv_label :: string
  sv_priv_key_path :: string
  sv_key_owned :: bool
  sv_enabled :: bool
  sv_logging :: bool
  sv_log_file :: string
  sv_bind_ip :: string
  sv_allowed_ips :: "string list"
  sv_port :: int
  sv_secure :: bool
  sv_enforce_wire_decode :: bool
  sv_enforce_wire_auth :: bool
  sv_output_mode :: nat
  sv_payload_overflow :: siglatch_payload_overflow_policy
  sv_priv_key :: "EVP_PKEY option"
  sv_deaddrops :: "string list"
  sv_actions :: "string list"

record siglatch_config =
  sc_log_file :: string
  sc_priv_key_path :: string
  sc_default_server :: string
  sc_output_mode :: nat
  sc_payload_overflow :: siglatch_payload_overflow_policy
  sc_master_privkey :: "EVP_PKEY option"
  sc_users :: "siglatch_user list"
  sc_actions :: "siglatch_action list"
  sc_servers :: "siglatch_server list"
  sc_deaddrops :: "siglatch_deaddrop list"

text \<open>The elements of the arrays as \<open>calloc\<close> leaves them.\<close>

definition zero_action :: siglatch_action where
  "zero_action = \<lparr>sa_id = 0, sa_name = [], sa_label = [], sa_handler = SL_ACTION_HANDLER_INVALID,
     sa_builtin = [], sa_object = [], sa_object_path = [], sa_run_as = [], sa_constructor = [],
     sa_destructor = [], sa_keepalive_interval = 0, sa_enabled = False, sa_require_ascii = False,
     sa_exec_split = False, sa_enforce_wire_auth = False,
     sa_payload_overflow = SL_PAYLOAD_OVERFLOW_UNSET, sa_allowed_ips = []\<rparr>"

definition zero_user_cfg :: siglatch_user where
  "zero_user_cfg = \<lparr>su_id = 0, su_name = [], su_key_file = [], su_hmac_file = [], su_enabled = False,
     su_actions = [], su_allowed_ips = [], su_pubkey = None, su_hmac_key = replicate 32 0\<rparr>"

definition zero_deaddrop :: siglatch_deaddrop where
  "zero_deaddrop = \<lparr>sd_id = 0, sd_name = [], sd_label = [], sd_constructor = [], sd_run_as = [],
     sd_filters = [], sd_starts_with = [], sd_enabled = False, sd_require_ascii = False,
     sd_exec_split = False\<rparr>"

definition zero_server :: siglatch_server where
  "zero_server = \<lparr>sv_id = 0, sv_name = [], sv_label = [], sv_priv_key_path = [], sv_key_owned = False,
     sv_enabled = False, sv_logging = False, sv_log_file = [], sv_bind_ip = [], sv_allowed_ips = [],
     sv_port = 0, sv_secure = False, sv_enforce_wire_decode = False, sv_enforce_wire_auth = False,
     sv_output_mode = 0, sv_payload_overflow = SL_PAYLOAD_OVERFLOW_UNSET, sv_priv_key = None,
     sv_deaddrops = [], sv_actions = []\<rparr>"

definition zero_config :: siglatch_config where
  "zero_config = \<lparr>sc_log_file = [], sc_priv_key_path = [], sc_default_server = [], sc_output_mode = 0,
     sc_payload_overflow = SL_PAYLOAD_OVERFLOW_UNSET, sc_master_privkey = None, sc_users = [],
     sc_actions = [], sc_servers = [], sc_deaddrops = []\<rparr>"

section \<open>Values\<close>

abbreviation lcpy :: "string \<Rightarrow> nat \<Rightarrow> string" where
  "lcpy src n \<equiv> fst (lib_str_lcpy [] src n)"

text \<open>A flag is cleared first and set when the text reads as a boolean.\<close>

definition flag_of :: "string \<Rightarrow> bool" where
  "flag_of val = (case lib_str_to_bool val of None \<Rightarrow> False | Some b \<Rightarrow> b)"

definition id_of :: "string \<Rightarrow> u32" where "id_of val = word_of_int (atoi val)"

definition SL_OUTPUT_MODE_UNICODE :: nat where "SL_OUTPUT_MODE_UNICODE = 1"
definition SL_OUTPUT_MODE_ASCII :: nat where "SL_OUTPUT_MODE_ASCII = 2"

definition print_output_parse_mode :: "string \<Rightarrow> nat" where
  "print_output_parse_mode val =
     (if val = [] then 0
      else if strcaseeq val ''unicode'' then SL_OUTPUT_MODE_UNICODE
      else if strcaseeq val ''ascii'' then SL_OUTPUT_MODE_ASCII
      else 0)"

definition parse_output_mode_key :: "string \<Rightarrow> nat" where
  "parse_output_mode_key val =
     (let mode = print_output_parse_mode val in if mode \<noteq> 0 then mode else 0)"

definition parse_action_handler_key :: "string \<Rightarrow> siglatch_action_handler" where
  "parse_action_handler_key val =
     (if strcaseeq val ''shell'' then SL_ACTION_HANDLER_SHELL
      else if strcaseeq val ''builtin'' then SL_ACTION_HANDLER_BUILTIN
      else if strcaseeq val ''static'' then SL_ACTION_HANDLER_STATIC
      else if strcaseeq val ''dynamic'' then SL_ACTION_HANDLER_DYNAMIC
      else SL_ACTION_HANDLER_INVALID)"

definition parse_payload_overflow_key ::
  "string \<Rightarrow> bool \<Rightarrow> siglatch_payload_overflow_policy \<Rightarrow> siglatch_payload_overflow_policy" where
  "parse_payload_overflow_key val allow_inherit fallback =
     (if strcaseeq val ''reject'' then SL_PAYLOAD_OVERFLOW_REJECT
      else if strcaseeq val ''clamp'' then SL_PAYLOAD_OVERFLOW_CLAMP
      else if allow_inherit \<and> strcaseeq val ''inherit'' then SL_PAYLOAD_OVERFLOW_INHERIT
      else fallback)"

section \<open>Consuming a document\<close>

definition config_apply_defaults :: "siglatch_config \<Rightarrow> siglatch_config" where
  "config_apply_defaults config = config\<lparr>sc_master_privkey := None,
     sc_priv_key_path := lcpy ''/etc/siglatch/server_priv.pem'' PATH_MAX,
     sc_payload_overflow := SL_PAYLOAD_OVERFLOW_REJECT\<rparr>"

definition config_append_user :: "siglatch_config \<Rightarrow> string \<Rightarrow> siglatch_user option" where
  "config_append_user config name =
     (if length (sc_users config) \<ge> MAX_USERS then None
      else Some (zero_user_cfg\<lparr>su_name := lcpy name USER_NAME_LEN, su_pubkey := None\<rparr>))"

definition config_append_action :: "siglatch_config \<Rightarrow> string \<Rightarrow> siglatch_action option" where
  "config_append_action config name =
     (if length (sc_actions config) \<ge> MAX_ACTIONS then None
      else Some (zero_action\<lparr>sa_name := lcpy name MAX_ACTION_NAME,
        sa_handler := SL_ACTION_HANDLER_SHELL, sa_exec_split := True, sa_enabled := True,
        sa_require_ascii := False, sa_enforce_wire_auth := False,
        sa_payload_overflow := SL_PAYLOAD_OVERFLOW_INHERIT\<rparr>))"

definition config_append_server :: "siglatch_config \<Rightarrow> string \<Rightarrow> siglatch_server option" where
  "config_append_server config name =
     (if length (sc_servers config) \<ge> MAX_SERVERS then None
      else Some (zero_server\<lparr>sv_name := lcpy name MAX_SERVER_NAME,
        sv_label := lcpy (lcpy name MAX_SERVER_NAME) MAX_SERVER_NAME,
        sv_enforce_wire_decode := False, sv_enforce_wire_auth := False,
        sv_payload_overflow := SL_PAYLOAD_OVERFLOW_INHERIT\<rparr>))"

definition config_append_deaddrop :: "siglatch_config \<Rightarrow> string \<Rightarrow> siglatch_deaddrop option" where
  "config_append_deaddrop config name =
     (if length (sc_deaddrops config) \<ge> MAX_DEADDROPS then None
      else Some (zero_deaddrop\<lparr>sd_name := lcpy name MAX_DEADDROP_NAME,
        sd_label := lcpy (lcpy name MAX_DEADDROP_NAME) MAX_DEADDROP_NAME,
        sd_enabled := True, sd_require_ascii := False, sd_exec_split := True\<rparr>))"

definition config_consume_global_entry :: "siglatch_config \<Rightarrow> IniEntry \<Rightarrow> siglatch_config" where
  "config_consume_global_entry config entry =
     (let key = ie_key entry; val = ie_value entry
      in if key = ''priv_key_path'' then config\<lparr>sc_priv_key_path := lcpy val PATH_MAX\<rparr>
         else if key = ''port'' then config
         else if key = ''default_server'' then config\<lparr>sc_default_server := lcpy val MAX_SERVER_NAME\<rparr>
         else if key = ''log_file'' then config\<lparr>sc_log_file := lcpy val PATH_MAX\<rparr>
         else if key = ''output_mode'' then config\<lparr>sc_output_mode := parse_output_mode_key val\<rparr>
         else if key = ''payload_overflow''
         then config\<lparr>sc_payload_overflow := parse_payload_overflow_key val False (sc_payload_overflow config)\<rparr>
         else config)"

definition config_consume_action_entry ::
  "(nat \<Rightarrow> bool) \<Rightarrow> siglatch_action \<Rightarrow> IniEntry \<Rightarrow> siglatch_action" where
  "config_consume_action_entry malloc_ok action entry =
     (let key = ie_key entry; val = ie_value entry
      in if key = ''constructor'' then action\<lparr>sa_constructor := lcpy val PATH_MAX\<rparr>
         else if key = ''label'' then action\<lparr>sa_label := lcpy val MAX_ACTION_NAME\<rparr>
         else if key = ''name'' then action\<lparr>sa_label := lcpy val MAX_ACTION_NAME\<rparr>
         else if key = ''handler'' then action\<lparr>sa_handler := parse_action_handler_key val\<rparr>
         else if key = ''builtin'' then action\<lparr>sa_builtin := lcpy val MAX_BUILTIN_NAME\<rparr>
         else if key = ''object'' then action\<lparr>sa_object := lcpy val MAX_OBJECT_NAME\<rparr>
         else if key = ''object_path'' then action\<lparr>sa_object_path := lcpy val PATH_MAX\<rparr>
         else if key = ''run_as'' then action\<lparr>sa_run_as := lcpy val MAX_RUN_AS_NAME\<rparr>
         else if key = ''destructor'' then action\<lparr>sa_destructor := lcpy val PATH_MAX\<rparr>
         else if key = ''keepalive_interval'' then action\<lparr>sa_keepalive_interval := atoi val\<rparr>
         else if key = ''id'' then action\<lparr>sa_id := id_of val\<rparr>
         else if key = ''enabled'' then action\<lparr>sa_enabled := flag_of val\<rparr>
         else if key = ''require_ascii'' then action\<lparr>sa_require_ascii := flag_of val\<rparr>
         else if key = ''exec_split'' then action\<lparr>sa_exec_split := flag_of val\<rparr>
         else if key = ''payload_overflow''
         then action\<lparr>sa_payload_overflow := parse_payload_overflow_key val True (sa_payload_overflow action)\<rparr>
         else if key = ''enforce_wire_auth'' \<or> key = ''reject_wire_auth_error''
         then action\<lparr>sa_enforce_wire_auth := flag_of val\<rparr>
         else if key = ''allowed_ips''
         then action\<lparr>sa_allowed_ips := lib_str_parse_csv_fixed malloc_ok (sa_allowed_ips action)
           MAX_IP_RANGES MAX_IP_RANGE_LEN val\<rparr>
         else action)"

definition config_consume_user_entry ::
  "(nat \<Rightarrow> bool) \<Rightarrow> siglatch_user \<Rightarrow> IniEntry \<Rightarrow> siglatch_user" where
  "config_consume_user_entry malloc_ok user entry =
     (let key = ie_key entry; val = ie_value entry
      in if key = ''enabled'' then user\<lparr>su_enabled := flag_of val\<rparr>
         else if key = ''key_file'' then user\<lparr>su_key_file := lcpy val PATH_MAX\<rparr>
         else if key = ''hmac_file'' then user\<lparr>su_hmac_file := lcpy val PATH_MAX\<rparr>
         else if key = ''id'' then user\<lparr>su_id := id_of val\<rparr>
         else if key = ''actions''
         then user\<lparr>su_actions := lib_str_parse_csv_fixed malloc_ok (su_actions user)
           MAX_ACTIONS MAX_ACTION_NAME val\<rparr>
         else if key = ''allowed_ips''
         then user\<lparr>su_allowed_ips := lib_str_parse_csv_fixed malloc_ok (su_allowed_ips user)
           MAX_IP_RANGES MAX_IP_RANGE_LEN val\<rparr>
         else user)"

definition config_consume_server_entry ::
  "(nat \<Rightarrow> bool) \<Rightarrow> siglatch_server \<Rightarrow> IniEntry \<Rightarrow> siglatch_server" where
  "config_consume_server_entry malloc_ok server entry =
     (let key = ie_key entry; val = ie_value entry
      in if key = ''id'' then server\<lparr>sv_id := id_of val\<rparr>
         else if key = ''enabled'' then server\<lparr>sv_enabled := flag_of val\<rparr>
         else if key = ''label'' then server\<lparr>sv_label := lcpy val MAX_SERVER_NAME\<rparr>
         else if key = ''name'' then server\<lparr>sv_label := lcpy val MAX_SERVER_NAME\<rparr>
         else if key = ''priv_key_path'' then server\<lparr>sv_priv_key_path := lcpy val PATH_MAX\<rparr>
         else if key = ''log_file'' then server\<lparr>sv_log_file := lcpy val PATH_MAX\<rparr>
         else if key = ''bind_ip'' then server\<lparr>sv_bind_ip := lcpy val MAX_IP_RANGE_LEN\<rparr>
         else if key = ''allowed_ips''
         then server\<lparr>sv_allowed_ips := lib_str_parse_csv_fixed malloc_ok (sv_allowed_ips server)
           MAX_IP_RANGES MAX_IP_RANGE_LEN val\<rparr>
         else if key = ''port'' then server\<lparr>sv_port := atoi val\<rparr>
         else if key = ''secure'' then server\<lparr>sv_secure := flag_of val\<rparr>
         else if key = ''enforce_wire_decode'' \<or> key = ''reject_wire_decode_error''
         then server\<lparr>sv_enforce_wire_decode := flag_of val\<rparr>
         else if key = ''enforce_wire_auth'' \<or> key = ''reject_wire_auth_error''
         then server\<lparr>sv_enforce_wire_auth := flag_of val\<rparr>
         else if key = ''logging'' then server\<lparr>sv_logging := flag_of val\<rparr>
         else if key = ''output_mode'' then server\<lparr>sv_output_mode := parse_output_mode_key val\<rparr>
         else if key = ''payload_overflow''
         then server\<lparr>sv_payload_overflow := parse_payload_overflow_key val True (sv_payload_overflow server)\<rparr>
         else if key = ''actions''
         then server\<lparr>sv_actions := lib_str_parse_csv_fixed malloc_ok (sv_actions server)
           MAX_ACTIONS MAX_ACTION_NAME val\<rparr>
         else if key = ''deaddrops''
         then server\<lparr>sv_deaddrops := lib_str_parse_csv_fixed malloc_ok (sv_deaddrops server)
           MAX_ACTIONS MAX_ACTION_NAME val\<rparr>
         else server)"

definition config_consume_deaddrop_entry ::
  "(nat \<Rightarrow> bool) \<Rightarrow> siglatch_deaddrop \<Rightarrow> IniEntry \<Rightarrow> siglatch_deaddrop" where
  "config_consume_deaddrop_entry malloc_ok deaddrop entry =
     (let key = ie_key entry; val = ie_value entry
      in if key = ''id'' then deaddrop\<lparr>sd_id := id_of val\<rparr>
         else if key = ''label'' then deaddrop\<lparr>sd_label := lcpy val MAX_DEADDROP_NAME\<rparr>
         else if key = ''name'' then deaddrop\<lparr>sd_label := lcpy val MAX_DEADDROP_NAME\<rparr>
         else if key = ''constructor'' then deaddrop\<lparr>sd_constructor := lcpy val MAX_PATH_LEN\<rparr>
         else if key = ''run_as'' then deaddrop\<lparr>sd_run_as := lcpy val MAX_RUN_AS_NAME\<rparr>
         else if key = ''filter'' \<or> key = ''filters''
         then deaddrop\<lparr>sd_filters := lib_str_parse_csv_fixed malloc_ok (sd_filters deaddrop)
           MAX_FILTERS MAX_FILTER_LEN val\<rparr>
         else if key = ''starts_with''
         then deaddrop\<lparr>sd_starts_with := lib_str_parse_csv_fixed malloc_ok (sd_starts_with deaddrop)
           MAX_FILTERS MAX_FILTER_LEN val\<rparr>
         else if key = ''enabled'' then deaddrop\<lparr>sd_enabled := flag_of val\<rparr>
         else if key = ''require_ascii'' then deaddrop\<lparr>sd_require_ascii := flag_of val\<rparr>
         else if key = ''exec_split'' then deaddrop\<lparr>sd_exec_split := flag_of val\<rparr>
         else deaddrop)"

text \<open>The name after a prefix of a section name, as \<open>strncmp\<close> and pointer arithmetic find it.\<close>

definition section_kind :: "string \<Rightarrow> string \<Rightarrow> string option" where
  "section_kind prefix name =
     (if take (length prefix) name = prefix then Some (drop (length prefix) name) else None)"

text \<open>The body of the loop over the sections.\<close>

definition config_consume_section ::
  "(nat \<Rightarrow> bool) \<Rightarrow> siglatch_config \<Rightarrow> IniSection \<Rightarrow> siglatch_config" where
  "config_consume_section malloc_ok config sec =
     (case is_name sec of
        None \<Rightarrow> config
      | Some name \<Rightarrow>
          (case section_kind ''user:'' name of
             Some n \<Rightarrow>
               (case config_append_user config n of
                  None \<Rightarrow> config
                | Some u \<Rightarrow> config\<lparr>sc_users := sc_users config @
                    [foldl (config_consume_user_entry malloc_ok) u (is_entries sec)]\<rparr>)
           | None \<Rightarrow>
          (case section_kind ''action:'' name of
             Some n \<Rightarrow>
               (case config_append_action config n of
                  None \<Rightarrow> config
                | Some a \<Rightarrow> config\<lparr>sc_actions := sc_actions config @
                    [foldl (config_consume_action_entry malloc_ok) a (is_entries sec)]\<rparr>)
           | None \<Rightarrow>
          (case section_kind ''server:'' name of
             Some n \<Rightarrow>
               (case config_append_server config n of
                  None \<Rightarrow> config
                | Some s \<Rightarrow> config\<lparr>sc_servers := sc_servers config @
                    [foldl (config_consume_server_entry malloc_ok) s (is_entries sec)]\<rparr>)
           | None \<Rightarrow>
          (case section_kind ''deaddrop:'' name of
             Some n \<Rightarrow>
               (case config_append_deaddrop config n of
                  None \<Rightarrow> config
                | Some d \<Rightarrow> config\<lparr>sc_deaddrops := sc_deaddrops config @
                    [foldl (config_consume_deaddrop_entry malloc_ok) d (is_entries sec)]\<rparr>)
           | None \<Rightarrow> config)))))"

end
