(* ===== verification/Config_Load.thy ===== *)
theory Config_Load
  imports Config
begin

text \<open>
  The rest of \<open>siglatch/app/config/config.c\<close>: validation, the consumption of a whole document,
  loading with the keys (\<open>siglatch/app/keys\<close>, \<open>stdlib/hmac_key.c\<close>), the lookups and the setters.
  The file system, the PEM readers and the dynamic linker are the record \<open>world\<close>.
\<close>

section \<open>Which handlers exist\<close>

definition app_builtin_supports :: "string \<Rightarrow> bool" where
  "app_builtin_supports name \<longleftrightarrow>
     name = ''reload_config'' \<or> name = ''probe_rebind'' \<or> name = ''rebind_listener'' \<or>
     name = ''change_setting'' \<or> name = ''save_config'' \<or> name = ''load_config'' \<or>
     name = ''list_users'' \<or> name = ''version'' \<or> name = ''test_blurt''"

definition app_object_supports_static :: "string \<Rightarrow> bool" where
  "app_object_supports_static name \<longleftrightarrow> name = ''test_static'' \<or> name = ''sample_blurt_static''"

text \<open>\<open>dlsym_ok path name\<close>: the library can be opened and has the symbol.\<close>

definition app_object_supports_dynamic :: "(string \<Rightarrow> string \<Rightarrow> bool) \<Rightarrow> string \<Rightarrow> string \<Rightarrow> bool" where
  "app_object_supports_dynamic dlsym_ok path name \<longleftrightarrow> path \<noteq> [] \<and> name \<noteq> [] \<and> dlsym_ok path name"

section \<open>Validation\<close>

fun unique_names :: "string list \<Rightarrow> bool" where
  "unique_names [] = True"
| "unique_names (a # rest) = (a \<noteq> [] \<and> list_all (\<lambda>b. a \<noteq> b) rest \<and> unique_names rest)"

definition validate_unique_server_names :: "siglatch_config \<Rightarrow> bool" where
  "validate_unique_server_names cfg = unique_names (map sv_name (sc_servers cfg))"

definition validate_action_handler :: "(string \<Rightarrow> string \<Rightarrow> bool) \<Rightarrow> siglatch_action \<Rightarrow> bool" where
  "validate_action_handler dlsym_ok action =
     (case sa_handler action of
        SL_ACTION_HANDLER_SHELL \<Rightarrow>
          sa_constructor action \<noteq> [] \<and>
          \<not> (sa_builtin action \<noteq> [] \<or> sa_object action \<noteq> [] \<or> sa_object_path action \<noteq> [])
      | SL_ACTION_HANDLER_BUILTIN \<Rightarrow>
          sa_builtin action \<noteq> [] \<and> sa_constructor action = [] \<and>
          \<not> (sa_object action \<noteq> [] \<or> sa_object_path action \<noteq> []) \<and> sa_run_as action = [] \<and>
          app_builtin_supports (sa_builtin action)
      | SL_ACTION_HANDLER_STATIC \<Rightarrow>
          sa_object action \<noteq> [] \<and>
          \<not> (sa_constructor action \<noteq> [] \<or> sa_builtin action \<noteq> [] \<or> sa_object_path action \<noteq> []) \<and>
          app_object_supports_static (sa_object action)
      | SL_ACTION_HANDLER_DYNAMIC \<Rightarrow>
          sa_object action \<noteq> [] \<and> sa_object_path action \<noteq> [] \<and>
          \<not> (sa_constructor action \<noteq> [] \<or> sa_builtin action \<noteq> []) \<and>
          app_object_supports_dynamic dlsym_ok (sa_object_path action) (sa_object action)
      | SL_ACTION_HANDLER_INVALID \<Rightarrow> False)"

definition validate_action_handlers :: "(string \<Rightarrow> string \<Rightarrow> bool) \<Rightarrow> siglatch_config \<Rightarrow> bool" where
  "validate_action_handlers dlsym_ok cfg = list_all (validate_action_handler dlsym_ok) (sc_actions cfg)"

definition validate_ip_spec_list :: "string list \<Rightarrow> bool" where
  "validate_ip_spec_list specs =
     list_all (\<lambda>spec. spec = [] \<or> net_ip_range_is_single_ipv4 spec \<or> net_ip_range_is_cidr_ipv4 spec) specs"

definition validate_ip_constraints :: "siglatch_config \<Rightarrow> bool" where
  "validate_ip_constraints cfg \<longleftrightarrow>
     list_all (\<lambda>u. validate_ip_spec_list (su_allowed_ips u)) (sc_users cfg) \<and>
     list_all (\<lambda>a. validate_ip_spec_list (sa_allowed_ips a)) (sc_actions cfg) \<and>
     list_all (\<lambda>s. validate_ip_spec_list (sv_allowed_ips s) \<and>
        (sv_bind_ip s = [] \<or> net_ip_range_is_single_ipv4 (sv_bind_ip s))) (sc_servers cfg)"

definition apply_server_runtime_defaults :: "siglatch_config \<Rightarrow> siglatch_config" where
  "apply_server_runtime_defaults cfg = cfg\<lparr>sc_servers := map (\<lambda>s.
     let s1 = (if sv_port s = 0 then s\<lparr>sv_port := 50000\<rparr> else s)
     in if sv_log_file s1 = [] \<and> sc_log_file cfg \<noteq> [] then s1\<lparr>sv_log_file := lcpy (sc_log_file cfg) PATH_MAX\<rparr>
        else s1) (sc_servers cfg)\<rparr>"

text \<open>\<open>calloc_ok\<close>: whether the configuration itself can be allocated.\<close>

definition config_consume_document_ptr ::
  "bool \<Rightarrow> (nat \<Rightarrow> bool) \<Rightarrow> (string \<Rightarrow> string \<Rightarrow> bool) \<Rightarrow> IniDocument \<Rightarrow> siglatch_config option" where
  "config_consume_document_ptr calloc_ok malloc_ok dlsym_ok document =
     (if \<not> calloc_ok then None
      else let c0 = config_apply_defaults zero_config;
               c1 = foldl config_consume_global_entry c0 (is_entries (id_global document));
               c2 = foldl (config_consume_section malloc_ok) c1 (id_sections document)
           in if \<not> validate_unique_server_names c2 then None
              else if \<not> validate_action_handlers dlsym_ok c2 then None
              else if \<not> validate_ip_constraints c2 then None
              else Some (apply_server_runtime_defaults c2))"

section \<open>Keys\<close>

definition isxdigit8 :: "u8 \<Rightarrow> bool" where
  "isxdigit8 b \<longleftrightarrow> 48 \<le> unat b \<and> unat b \<le> 57 \<or> 65 \<le> unat b \<and> unat b \<le> 70 \<or> 97 \<le> unat b \<and> unat b \<le> 102"

definition xdigit_value :: "u8 \<Rightarrow> nat" where
  "xdigit_value b =
     (if unat b \<le> 57 then unat b - 48 else if unat b \<le> 70 then unat b - 55 else unat b - 87)"

fun parse_hex_pairs :: "u8 list \<Rightarrow> u8 list option" where
  "parse_hex_pairs [] = Some []"
| "parse_hex_pairs [a] = None"
| "parse_hex_pairs (a # b # rest) =
     (if \<not> isxdigit8 a \<or> \<not> isxdigit8 b then None
      else map_option (\<lambda>bs. word_of_nat (16 * xdigit_value a + xdigit_value b) # bs) (parse_hex_pairs rest))"

definition hmac_key_normalize :: "u8 list \<Rightarrow> u8 list option" where
  "hmac_key_normalize input =
     (if length input = 32
      then (if list_all (\<lambda>b. b = 0) input then None else Some input)
      else let groomed = filter (\<lambda>b. b \<noteq> 0x20 \<and> b \<noteq> 0x0A \<and> b \<noteq> 0x0D \<and> b \<noteq> 0x09) input
           in if length groomed \<noteq> 64 then None
              else case parse_hex_pairs groomed of
                None \<Rightarrow> None
              | Some output \<Rightarrow> if list_all (\<lambda>b. b = 0) output then None else Some output)"

text \<open>
  What opening and reading a file gives: an INI file, the contents of an HMAC key file, a private
  key in PEM, a public key in PEM and whether it is an RSA key.
\<close>

record world =
  w_malloc :: "nat \<Rightarrow> bool"
  w_calloc :: bool
  w_dlsym :: "string \<Rightarrow> string \<Rightarrow> bool"
  w_ini :: "string \<Rightarrow> IniFile option"
  w_bytes :: "string \<Rightarrow> u8 list option"
  w_private :: "string \<Rightarrow> EVP_PKEY option"
  w_public :: "string \<Rightarrow> (EVP_PKEY \<times> bool) option"

definition app_keys_master_load :: "world \<Rightarrow> siglatch_config \<Rightarrow> siglatch_config option" where
  "app_keys_master_load w cfg =
     (if sc_priv_key_path cfg = [] then Some cfg
      else case w_private w (sc_priv_key_path cfg) of
        None \<Rightarrow> None
      | Some k \<Rightarrow> Some (cfg\<lparr>sc_master_privkey := Some k\<rparr>))"

definition load_user_key :: "world \<Rightarrow> siglatch_user \<Rightarrow> siglatch_user option" where
  "load_user_key w u =
     (if \<not> su_enabled u then Some u
      else case w_public w (su_key_file u) of
        None \<Rightarrow> None
      | Some (k, rsa) \<Rightarrow> if \<not> rsa then None else Some (u\<lparr>su_pubkey := Some k\<rparr>))"

definition load_server_key :: "world \<Rightarrow> EVP_PKEY option \<Rightarrow> siglatch_server \<Rightarrow> siglatch_server option" where
  "load_server_key w master s =
     (if \<not> sv_secure s then Some s
      else if \<not> sv_enabled s then Some s
      else if sv_priv_key_path s = [] then Some (s\<lparr>sv_key_owned := False, sv_priv_key := master\<rparr>)
      else case w_private w (sv_priv_key_path s) of
        None \<Rightarrow> None
      | Some k \<Rightarrow> Some (s\<lparr>sv_priv_key := Some k, sv_key_owned := True\<rparr>))"

text \<open>The code reads at most 128 bytes and refuses a file that fills the buffer.\<close>

definition load_user_hmac :: "world \<Rightarrow> siglatch_user \<Rightarrow> siglatch_user option" where
  "load_user_hmac w u =
     (if \<not> su_enabled u then Some u
      else case w_bytes w (su_hmac_file u) of
        None \<Rightarrow> None
      | Some bytes \<Rightarrow>
          (let file_buf = take 128 bytes
           in if length file_buf \<noteq> 32 \<and> length file_buf = 128 then None
              else case hmac_key_normalize file_buf of
                None \<Rightarrow> None
              | Some k \<Rightarrow> Some (u\<lparr>su_hmac_key := k\<rparr>)))"

text \<open>A loop over an array that stops at the first failure.\<close>

fun map_all :: "('a \<Rightarrow> 'b option) \<Rightarrow> 'a list \<Rightarrow> 'b list option" where
  "map_all f [] = Some []"
| "map_all f (x # xs) =
     (case f x of None \<Rightarrow> None | Some y \<Rightarrow> map_option (\<lambda>ys. y # ys) (map_all f xs))"

definition app_keys_user_load_all :: "world \<Rightarrow> siglatch_config \<Rightarrow> siglatch_config option" where
  "app_keys_user_load_all w cfg =
     map_option (\<lambda>us. cfg\<lparr>sc_users := us\<rparr>) (map_all (load_user_key w) (sc_users cfg))"

definition app_keys_server_load_all :: "world \<Rightarrow> siglatch_config \<Rightarrow> siglatch_config option" where
  "app_keys_server_load_all w cfg =
     map_option (\<lambda>ss. cfg\<lparr>sc_servers := ss\<rparr>)
       (map_all (load_server_key w (sc_master_privkey cfg)) (sc_servers cfg))"

definition app_keys_hmac_load_all :: "world \<Rightarrow> siglatch_config \<Rightarrow> siglatch_config option" where
  "app_keys_hmac_load_all w cfg =
     map_option (\<lambda>us. cfg\<lparr>sc_users := us\<rparr>) (map_all (load_user_hmac w) (sc_users cfg))"

definition keys_load :: "world \<Rightarrow> siglatch_config \<Rightarrow> siglatch_config option" where
  "keys_load w cfg =
     (case app_keys_master_load w cfg of
        None \<Rightarrow> None
      | Some c1 \<Rightarrow>
          (case app_keys_user_load_all w c1 of
             None \<Rightarrow> None
           | Some c2 \<Rightarrow>
               (case app_keys_server_load_all w c2 of
                  None \<Rightarrow> None
                | Some c3 \<Rightarrow> app_keys_hmac_load_all w c3)))"

section \<open>Loading\<close>

definition config_build_from_path :: "world \<Rightarrow> string \<Rightarrow> siglatch_config option" where
  "config_build_from_path w path =
     (if path = [] then None
      else case ini_read_file (w_malloc w) (w_ini w path) of
        Inl e \<Rightarrow> None
      | Inr document \<Rightarrow>
          (case config_consume_document_ptr (w_calloc w) (w_malloc w) (w_dlsym w) document of
             None \<Rightarrow> None
           | Some cfg \<Rightarrow> keys_load w cfg))"

text \<open>
  The module's state: the attached configuration, if any, and whether the module owns it. A
  configuration that \<open>config_free\<close> releases is gone; one that is only unlinked is returned.
\<close>

type_synonym config_state = "siglatch_config option \<times> bool"

definition config_attach :: "config_state \<Rightarrow> siglatch_config \<Rightarrow> config_state" where
  "config_attach st config = (Some config, True)"

definition config_detach :: "config_state \<Rightarrow> siglatch_config option \<times> config_state" where
  "config_detach st = (fst st, (None, False))"

definition config_load :: "world \<Rightarrow> config_state \<Rightarrow> string \<Rightarrow> bool \<times> config_state" where
  "config_load w st path =
     (case config_build_from_path w path of
        None \<Rightarrow> (False, st)
      | Some cfg \<Rightarrow> (True, config_attach st cfg))"

definition config_load_detached :: "world \<Rightarrow> string \<Rightarrow> siglatch_config option" where
  "config_load_detached w path = config_build_from_path w path"

section \<open>Lookups\<close>

definition config_user_by_id_from_ptr :: "siglatch_config option \<Rightarrow> u32 \<Rightarrow> siglatch_user option" where
  "config_user_by_id_from_ptr cfg user_id =
     (case cfg of None \<Rightarrow> None
      | Some c \<Rightarrow> List.find (\<lambda>u. su_enabled u \<and> su_id u = user_id) (sc_users c))"

definition config_action_by_id_from_ptr :: "siglatch_config option \<Rightarrow> u32 \<Rightarrow> siglatch_action option" where
  "config_action_by_id_from_ptr cfg action_id =
     (case cfg of None \<Rightarrow> None
      | Some c \<Rightarrow> List.find (\<lambda>a. sa_id a = action_id) (sc_actions c))"

definition config_server_by_name_from_ptr :: "siglatch_config option \<Rightarrow> string \<Rightarrow> siglatch_server option" where
  "config_server_by_name_from_ptr cfg name =
     (case cfg of None \<Rightarrow> None
      | Some c \<Rightarrow> List.find (\<lambda>s. sv_name s = name) (sc_servers c))"

definition config_deaddrop_by_name_from_ptr :: "siglatch_config option \<Rightarrow> string \<Rightarrow> siglatch_deaddrop option" where
  "config_deaddrop_by_name_from_ptr cfg name =
     (case cfg of None \<Rightarrow> None
      | Some c \<Rightarrow> List.find (\<lambda>d. sd_name d = name) (sc_deaddrops c))"

definition config_action_available_by_user :: "siglatch_config option \<Rightarrow> u32 \<Rightarrow> string \<Rightarrow> bool" where
  "config_action_available_by_user cfg user_id action =
     (case config_user_by_id_from_ptr cfg user_id of
        None \<Rightarrow> False
      | Some user \<Rightarrow> action \<in> set (su_actions user))"

definition config_username_by_id :: "siglatch_config option \<Rightarrow> u32 \<Rightarrow> string option" where
  "config_username_by_id cfg user_id =
     (case config_user_by_id_from_ptr cfg user_id of
        None \<Rightarrow> None
      | Some u \<Rightarrow> if su_name u \<noteq> [] then Some (su_name u) else None)"

text \<open>A payload starts with a prefix when \<open>memcmp\<close> of the prefix's length says so.\<close>

definition bytes_of :: "string \<Rightarrow> u8 list" where
  "bytes_of s = map of_char s"

definition payload_has_prefix :: "u8 list \<Rightarrow> string \<Rightarrow> bool" where
  "payload_has_prefix payload prefix \<longleftrightarrow>
     length prefix \<le> length payload \<and> take (length prefix) payload = bytes_of prefix"

definition config_deaddrop_starts_with_buffer ::
  "siglatch_config option \<Rightarrow> u8 list \<Rightarrow> siglatch_deaddrop option" where
  "config_deaddrop_starts_with_buffer cfg payload =
     (case cfg of None \<Rightarrow> None
      | Some c \<Rightarrow>
          if payload = [] then None
          else List.find (\<lambda>d. list_ex (payload_has_prefix payload) (sd_starts_with d)) (sc_deaddrops c))"

section \<open>Setters\<close>

text \<open>The first server of the name is changed in place.\<close>

fun update_server :: "string \<Rightarrow> (siglatch_server \<Rightarrow> siglatch_server) \<Rightarrow> siglatch_server list \<Rightarrow> siglatch_server list" where
  "update_server name f [] = []"
| "update_server name f (s # ss) = (if sv_name s = name then f s # ss else s # update_server name f ss)"

definition with_server ::
  "siglatch_config option \<Rightarrow> string \<Rightarrow> (siglatch_server \<Rightarrow> siglatch_server) \<Rightarrow> bool \<times> siglatch_config option" where
  "with_server cfg name f =
     (case cfg of None \<Rightarrow> (False, cfg)
      | Some c \<Rightarrow>
          if name = [] then (False, cfg)
          else case config_server_by_name_from_ptr cfg name of
            None \<Rightarrow> (False, cfg)
          | Some s \<Rightarrow> (True, Some (c\<lparr>sc_servers := update_server name f (sc_servers c)\<rparr>)))"

definition config_server_set_port :: "siglatch_config option \<Rightarrow> string \<Rightarrow> int \<Rightarrow> bool \<times> siglatch_config option" where
  "config_server_set_port cfg name port =
     (if port \<le> 0 \<or> port > 65535 then (False, cfg)
      else with_server cfg name (\<lambda>s. s\<lparr>sv_port := port\<rparr>))"

definition config_server_set_binding ::
  "siglatch_config option \<Rightarrow> string \<Rightarrow> string \<Rightarrow> int \<Rightarrow> bool \<times> siglatch_config option" where
  "config_server_set_binding cfg name bind_ip port =
     (if port \<le> 0 \<or> port > 65535 then (False, cfg)
      else if bind_ip \<noteq> [] \<and> \<not> net_ip_range_is_single_ipv4 bind_ip then (False, cfg)
      else with_server cfg name (\<lambda>s. s\<lparr>sv_port := port,
        sv_bind_ip := (if bind_ip \<noteq> [] then lcpy bind_ip MAX_IP_RANGE_LEN else [])\<rparr>))"

definition config_server_set_enforce_wire_decode ::
  "siglatch_config option \<Rightarrow> string \<Rightarrow> bool \<Rightarrow> bool \<times> siglatch_config option" where
  "config_server_set_enforce_wire_decode cfg name enabled =
     with_server cfg name (\<lambda>s. s\<lparr>sv_enforce_wire_decode := enabled\<rparr>)"

definition config_server_set_enforce_wire_auth ::
  "siglatch_config option \<Rightarrow> string \<Rightarrow> bool \<Rightarrow> bool \<times> siglatch_config option" where
  "config_server_set_enforce_wire_auth cfg name enabled =
     with_server cfg name (\<lambda>s. s\<lparr>sv_enforce_wire_auth := enabled\<rparr>)"

end
