(* ===== verification/Config_Facts.thy ===== *)
theory Config_Facts
  imports Config_Load
begin

text \<open>
  What the configuration loader guarantees: every array and string of a loaded configuration is
  within its bounds, its server names are distinct, its actions have the fields their handler
  needs, its address lists parse, and its enabled users have their keys.
\<close>

section \<open>Well-formed configurations\<close>

definition strings_within :: "nat \<Rightarrow> nat \<Rightarrow> string list \<Rightarrow> bool" where
  "strings_within count sz xs \<longleftrightarrow> length xs \<le> count \<and> (\<forall>x \<in> set xs. length x < sz)"

definition user_wf :: "siglatch_user \<Rightarrow> bool" where
  "user_wf u \<longleftrightarrow> length (su_name u) < USER_NAME_LEN \<and> length (su_key_file u) < PATH_MAX \<and>
     length (su_hmac_file u) < PATH_MAX \<and> strings_within MAX_ACTIONS MAX_ACTION_NAME (su_actions u) \<and>
     strings_within MAX_IP_RANGES MAX_IP_RANGE_LEN (su_allowed_ips u) \<and> length (su_hmac_key u) = 32"

definition action_wf :: "siglatch_action \<Rightarrow> bool" where
  "action_wf a \<longleftrightarrow> length (sa_name a) < MAX_ACTION_NAME \<and> length (sa_label a) < MAX_ACTION_NAME \<and>
     length (sa_builtin a) < MAX_BUILTIN_NAME \<and> length (sa_object a) < MAX_OBJECT_NAME \<and>
     length (sa_object_path a) < PATH_MAX \<and> length (sa_run_as a) < MAX_RUN_AS_NAME \<and>
     length (sa_constructor a) < PATH_MAX \<and> length (sa_destructor a) < PATH_MAX \<and>
     strings_within MAX_IP_RANGES MAX_IP_RANGE_LEN (sa_allowed_ips a)"

definition server_wf :: "siglatch_server \<Rightarrow> bool" where
  "server_wf s \<longleftrightarrow> length (sv_name s) < MAX_SERVER_NAME \<and> length (sv_label s) < MAX_SERVER_NAME \<and>
     length (sv_priv_key_path s) < PATH_MAX \<and> length (sv_log_file s) < PATH_MAX \<and>
     length (sv_bind_ip s) < MAX_IP_RANGE_LEN \<and>
     strings_within MAX_IP_RANGES MAX_IP_RANGE_LEN (sv_allowed_ips s) \<and>
     strings_within MAX_ACTIONS MAX_ACTION_NAME (sv_actions s) \<and>
     strings_within MAX_ACTIONS MAX_ACTION_NAME (sv_deaddrops s)"

definition deaddrop_wf :: "siglatch_deaddrop \<Rightarrow> bool" where
  "deaddrop_wf d \<longleftrightarrow> length (sd_name d) < MAX_DEADDROP_NAME \<and> length (sd_label d) < MAX_DEADDROP_NAME \<and>
     length (sd_constructor d) < MAX_PATH_LEN \<and> length (sd_run_as d) < MAX_RUN_AS_NAME \<and>
     strings_within MAX_FILTERS MAX_FILTER_LEN (sd_filters d) \<and>
     strings_within MAX_FILTERS MAX_FILTER_LEN (sd_starts_with d)"

definition config_wf :: "siglatch_config \<Rightarrow> bool" where
  "config_wf c \<longleftrightarrow> length (sc_log_file c) < PATH_MAX \<and> length (sc_priv_key_path c) < PATH_MAX \<and>
     length (sc_default_server c) < MAX_SERVER_NAME \<and>
     length (sc_users c) \<le> MAX_USERS \<and> length (sc_actions c) \<le> MAX_ACTIONS \<and>
     length (sc_servers c) \<le> MAX_SERVERS \<and> length (sc_deaddrops c) \<le> MAX_DEADDROPS \<and>
     list_all user_wf (sc_users c) \<and> list_all action_wf (sc_actions c) \<and>
     list_all server_wf (sc_servers c) \<and> list_all deaddrop_wf (sc_deaddrops c)"

text \<open>What validation adds.\<close>

definition config_valid :: "(string \<Rightarrow> string \<Rightarrow> bool) \<Rightarrow> siglatch_config \<Rightarrow> bool" where
  "config_valid dlsym_ok c \<longleftrightarrow>
     distinct (map sv_name (sc_servers c)) \<and> [] \<notin> set (map sv_name (sc_servers c)) \<and>
     validate_action_handlers dlsym_ok c \<and> validate_ip_constraints c \<and>
     (\<forall>s \<in> set (sc_servers c). sv_port s \<noteq> 0)"

text \<open>What loading the keys adds.\<close>

definition user_keys_ok :: "siglatch_user \<Rightarrow> bool" where
  "user_keys_ok u \<longleftrightarrow> (su_enabled u \<longrightarrow> su_pubkey u \<noteq> None \<and> length (su_hmac_key u) = 32 \<and>
     (\<exists>b \<in> set (su_hmac_key u). b \<noteq> 0))"

lemma foldl_inv: "P a \<Longrightarrow> (\<And>a x. P a \<Longrightarrow> P (f a x)) \<Longrightarrow> P (foldl f a xs)"
  by (induction xs arbitrary: a) auto

lemma lcpy_within: "0 < n \<Longrightarrow> length (lcpy src n) < n"
  by (rule lcpy_bound)

lemma csv_within:
  "strings_within c n xs \<Longrightarrow> strings_within c n (lib_str_parse_csv_fixed malloc_ok xs c n val)"
  using parse_csv_bounds [of xs c n malloc_ok val] by (simp add: strings_within_def)

lemma config_positive:
  "0 < PATH_MAX" "0 < MAX_ACTION_NAME" "0 < MAX_SERVER_NAME" "0 < MAX_DEADDROP_NAME"
  "0 < MAX_BUILTIN_NAME" "0 < MAX_OBJECT_NAME" "0 < MAX_RUN_AS_NAME" "0 < MAX_PATH_LEN"
  "0 < MAX_IP_RANGE_LEN" "0 < USER_NAME_LEN"
  by (simp_all add: config_sizes)

lemma consume_user_wf: "user_wf u \<Longrightarrow> user_wf (config_consume_user_entry m u e)"
  by (simp add: user_wf_def config_consume_user_entry_def Let_def lcpy_within csv_within
      config_positive)

lemma consume_action_wf: "action_wf a \<Longrightarrow> action_wf (config_consume_action_entry m a e)"
  by (simp add: action_wf_def config_consume_action_entry_def Let_def lcpy_within csv_within
      config_positive)

lemma consume_server_wf: "server_wf s \<Longrightarrow> server_wf (config_consume_server_entry m s e)"
  by (simp add: server_wf_def config_consume_server_entry_def Let_def lcpy_within csv_within
      config_positive)

lemma consume_deaddrop_wf: "deaddrop_wf d \<Longrightarrow> deaddrop_wf (config_consume_deaddrop_entry m d e)"
  by (simp add: deaddrop_wf_def config_consume_deaddrop_entry_def Let_def lcpy_within csv_within
      config_positive)

lemma consume_global_wf: "config_wf c \<Longrightarrow> config_wf (config_consume_global_entry c e)"
  by (simp add: config_wf_def config_consume_global_entry_def Let_def lcpy_within config_positive)

lemma append_wf:
  "config_append_user c n = Some u \<Longrightarrow> user_wf u \<and> length (sc_users c) < MAX_USERS"
  "config_append_action c n = Some a \<Longrightarrow> action_wf a \<and> length (sc_actions c) < MAX_ACTIONS"
  "config_append_server c n = Some s \<Longrightarrow> server_wf s \<and> length (sc_servers c) < MAX_SERVERS"
  "config_append_deaddrop c n = Some d \<Longrightarrow> deaddrop_wf d \<and> length (sc_deaddrops c) < MAX_DEADDROPS"
  by (auto simp: config_append_user_def user_wf_def zero_user_cfg_def
      config_append_action_def action_wf_def zero_action_def
      config_append_server_def server_wf_def zero_server_def
      config_append_deaddrop_def deaddrop_wf_def zero_deaddrop_def
      strings_within_def config_sizes lcpy_within split: if_splits)

lemma foldl_user_wf: "user_wf u \<Longrightarrow> user_wf (foldl (config_consume_user_entry m) u es)"
  by (rule foldl_inv [where P = user_wf]) (auto intro: consume_user_wf)

lemma foldl_action_wf: "action_wf a \<Longrightarrow> action_wf (foldl (config_consume_action_entry m) a es)"
  by (rule foldl_inv [where P = action_wf]) (auto intro: consume_action_wf)

lemma foldl_server_wf: "server_wf s \<Longrightarrow> server_wf (foldl (config_consume_server_entry m) s es)"
  by (rule foldl_inv [where P = server_wf]) (auto intro: consume_server_wf)

lemma foldl_deaddrop_wf: "deaddrop_wf d \<Longrightarrow> deaddrop_wf (foldl (config_consume_deaddrop_entry m) d es)"
  by (rule foldl_inv [where P = deaddrop_wf]) (auto intro: consume_deaddrop_wf)

lemma consume_section_wf:
  assumes "config_wf c"
  shows "config_wf (config_consume_section m c sec)"
proof -
  note append = append_wf [of c]
  show ?thesis
    using assms
    by (auto simp: config_consume_section_def config_wf_def foldl_user_wf foldl_action_wf foldl_server_wf
        foldl_deaddrop_wf dest!: append split: option.splits)
qed

lemma zero_config_wf: "config_wf (config_apply_defaults zero_config)"
  by (simp add: config_wf_def config_apply_defaults_def zero_config_def config_sizes lib_str_lcpy_def)

lemma unique_names_distinct: "unique_names xs \<longleftrightarrow> distinct xs \<and> [] \<notin> set xs"
  by (induction xs) (auto simp: list_all_iff)

lemma defaults_wf:
  assumes "config_wf c"
  shows "config_wf (apply_server_runtime_defaults c)"
  using assms lcpy_within [of PATH_MAX "sc_log_file c"]
  by (auto simp: config_wf_def apply_server_runtime_defaults_def Let_def list_all_iff server_wf_def PATH_MAX_def)

lemma defaults_names: "map sv_name (sc_servers (apply_server_runtime_defaults c)) = map sv_name (sc_servers c)"
  by (simp add: apply_server_runtime_defaults_def Let_def)

lemma consume_document_valid:
  assumes "config_consume_document_ptr b m dlsym_ok doc = Some c"
  shows "config_wf c" "config_valid dlsym_ok c"
proof -
  define c0 where "c0 = config_apply_defaults zero_config"
  define c1 where "c1 = foldl config_consume_global_entry c0 (is_entries (id_global doc))"
  define c2 where "c2 = foldl (config_consume_section m) c1 (id_sections doc)"
  have c: "c = apply_server_runtime_defaults c2" and v: "validate_unique_server_names c2"
    "validate_action_handlers dlsym_ok c2" "validate_ip_constraints c2"
    using assms by (auto simp: config_consume_document_ptr_def Let_def c0_def c1_def c2_def split: if_splits)
  have "config_wf c1" unfolding c1_def
    by (rule foldl_inv [where P = config_wf]) (auto simp: c0_def zero_config_wf intro: consume_global_wf)
  then have "config_wf c2" unfolding c2_def
    by (rule foldl_inv [where P = config_wf]) (auto intro: consume_section_wf)
  then show "config_wf c" unfolding c by (rule defaults_wf)
  have "validate_action_handlers dlsym_ok c" "validate_ip_constraints c"
    using v(2,3)
    by (auto simp: c apply_server_runtime_defaults_def validate_action_handlers_def
        validate_ip_constraints_def list_all_iff Let_def split: if_splits)
  moreover have "\<forall>s \<in> set (sc_servers c). sv_port s \<noteq> 0"
    by (auto simp: c apply_server_runtime_defaults_def Let_def split: if_splits)
  ultimately show "config_valid dlsym_ok c"
    using v(1) defaults_names [of c2]
    by (simp add: config_valid_def validate_unique_server_names_def unique_names_distinct c)
qed

section \<open>Loading the keys\<close>

lemma map_all_inv:
  assumes "map_all f xs = Some ys" "\<And>x y. x \<in> set xs \<Longrightarrow> f x = Some y \<Longrightarrow> P y"
  shows "list_all P ys"
  using assms
proof (induction xs arbitrary: ys)
  case Nil
  then show ?case by simp
next
  case (Cons x xs)
  then obtain y zs where "f x = Some y" "map_all f xs = Some zs" "ys = y # zs"
    by (auto split: option.splits)
  with Cons.IH [of zs] Cons.prems(2) show ?case by auto
qed

lemma map_all_map:
  assumes "map_all f xs = Some ys" "\<And>x y. f x = Some y \<Longrightarrow> g y = g x"
  shows "map g ys = map g xs"
  using assms
proof (induction xs arbitrary: ys)
  case Nil
  then show ?case by simp
next
  case (Cons x xs)
  then obtain y zs where "f x = Some y" "map_all f xs = Some zs" "ys = y # zs"
    by (auto split: option.splits)
  with Cons show ?case by simp
qed

lemma map_all_length: "map_all f xs = Some ys \<Longrightarrow> length ys = length xs"
  by (induction xs arbitrary: ys) (auto split: option.splits)

lemma load_user_key_frame:
  assumes "load_user_key w u = Some v"
  shows "v = u\<lparr>su_pubkey := su_pubkey v\<rparr>" "su_enabled u \<longrightarrow> su_pubkey v \<noteq> None"
  using assms by (auto simp: load_user_key_def split: if_splits option.splits prod.splits)

lemma parse_hex_length: "parse_hex_pairs xs = Some ys \<Longrightarrow> length xs = 2 * length ys"
  by (induction xs arbitrary: ys rule: parse_hex_pairs.induct) (auto split: if_splits)

lemma hmac_normalize_key:
  assumes "hmac_key_normalize b = Some k"
  shows "length k = 32" "\<exists>x \<in> set k. x \<noteq> 0"
  using assms parse_hex_length [of "filter (\<lambda>b. b \<noteq> 0x20 \<and> b \<noteq> 0x0A \<and> b \<noteq> 0x0D \<and> b \<noteq> 0x09) b" k]
  by (auto simp: hmac_key_normalize_def Let_def list_all_iff split: if_splits option.splits)

lemma load_user_hmac_frame:
  assumes "load_user_hmac w u = Some v"
  shows "v = u\<lparr>su_hmac_key := su_hmac_key v\<rparr>"
    "su_enabled u \<longrightarrow> length (su_hmac_key v) = 32 \<and> (\<exists>x \<in> set (su_hmac_key v). x \<noteq> 0)"
    "length (su_hmac_key u) = 32 \<longrightarrow> length (su_hmac_key v) = 32"
  using assms hmac_normalize_key
  by (auto simp: load_user_hmac_def Let_def split: if_splits option.splits)

lemma load_server_key_frame:
  assumes "load_server_key w k s = Some t"
  shows "t = s\<lparr>sv_key_owned := sv_key_owned t, sv_priv_key := sv_priv_key t\<rparr>"
  using assms by (auto simp: load_server_key_def split: if_splits option.splits)

lemma user_wf_update:
  "user_wf (u\<lparr>su_pubkey := k\<rparr>) = user_wf u" "length h = 32 \<Longrightarrow> user_wf u \<Longrightarrow> user_wf (u\<lparr>su_hmac_key := h\<rparr>)"
  by (auto simp: user_wf_def)

text \<open>Validity reads only the names, addresses and ports of the users and servers.\<close>

lemma config_valid_cong:
  assumes "map su_allowed_ips us = map su_allowed_ips (sc_users c)"
    "map (\<lambda>s. (sv_name s, sv_allowed_ips s, sv_bind_ip s, sv_port s)) ss =
     map (\<lambda>s. (sv_name s, sv_allowed_ips s, sv_bind_ip s, sv_port s)) (sc_servers c)"
  shows "config_valid dl (c\<lparr>sc_master_privkey := k, sc_users := us, sc_servers := ss\<rparr>) = config_valid dl c"
proof -
  have via: "(\<forall>s \<in> set xs. Q (sv_name s) (sv_allowed_ips s) (sv_bind_ip s) (sv_port s)) \<longleftrightarrow>
      (\<forall>(a, b, c, d) \<in> set (map (\<lambda>s. (sv_name s, sv_allowed_ips s, sv_bind_ip s, sv_port s)) xs). Q a b c d)" for xs Q
    by auto
  have *: "(\<forall>s \<in> set ss. Q (sv_name s) (sv_allowed_ips s) (sv_bind_ip s) (sv_port s)) \<longleftrightarrow>
      (\<forall>s \<in> set (sc_servers c). Q (sv_name s) (sv_allowed_ips s) (sv_bind_ip s) (sv_port s))" for Q
    unfolding via assms(2) ..
  have "map fst (map (\<lambda>s. (sv_name s, sv_allowed_ips s, sv_bind_ip s, sv_port s)) ss) =
      map fst (map (\<lambda>s. (sv_name s, sv_allowed_ips s, sv_bind_ip s, sv_port s)) (sc_servers c))"
    unfolding assms(2) ..
  then have names: "map sv_name ss = map sv_name (sc_servers c)" by (simp add: o_def)
  have "set (map su_allowed_ips us) = set (map su_allowed_ips (sc_users c))" unfolding assms(1) ..
  then have users: "(\<forall>u \<in> set us. validate_ip_spec_list (su_allowed_ips u)) \<longleftrightarrow>
      (\<forall>u \<in> set (sc_users c). validate_ip_spec_list (su_allowed_ips u))"
    by (metis (no_types, lifting) image_iff list.set_map)
  show ?thesis
    using * [of "\<lambda>n i b p. p \<noteq> 0"] names users
      * [of "\<lambda>n i b p. validate_ip_spec_list i \<and> (b = [] \<or> net_ip_range_is_single_ipv4 b)"]
    by (simp add: config_valid_def validate_action_handlers_def validate_ip_constraints_def list_all_iff)
qed

lemma keys_load_valid:
  assumes load: "keys_load w c = Some d" and wf: "config_wf c" and valid: "config_valid dl c"
  shows "config_wf d" "config_valid dl d" "list_all user_keys_ok (sc_users d)"
proof -
  obtain c1 where c1: "app_keys_master_load w c = Some c1"
    using load by (auto simp: keys_load_def split: option.splits)
  then obtain us where us: "map_all (load_user_key w) (sc_users c1) = Some us"
    using load by (auto simp: keys_load_def app_keys_user_load_all_def split: option.splits)
  obtain ss where ss: "map_all (load_server_key w (sc_master_privkey c1)) (sc_servers c1) = Some ss"
    using load c1 us by (auto simp: keys_load_def app_keys_user_load_all_def app_keys_server_load_all_def
        split: option.splits)
  obtain vs where vs: "map_all (load_user_hmac w) us = Some vs"
    and d: "d = c1\<lparr>sc_users := vs, sc_servers := ss\<rparr>"
    using load c1 us ss by (auto simp: keys_load_def app_keys_user_load_all_def
        app_keys_server_load_all_def app_keys_hmac_load_all_def)
  obtain k where e: "c1 = c\<lparr>sc_master_privkey := k\<rparr>"
  proof (cases "sc_priv_key_path c = []")
    case True
    then have "c1 = c\<lparr>sc_master_privkey := sc_master_privkey c\<rparr>"
      using c1 by (simp add: app_keys_master_load_def)
    then show ?thesis by (rule that)
  next
    case False
    then show ?thesis using c1 that by (auto simp: app_keys_master_load_def split: option.splits)
  qed
  have users: "list_all user_wf (sc_users c1)" "list_all server_wf (sc_servers c1)"
    using wf by (simp_all add: e config_wf_def)
  have 1: "list_all (\<lambda>u. user_wf u \<and> (su_enabled u \<longrightarrow> su_pubkey u \<noteq> None)) us"
  proof (rule map_all_inv [OF us])
    fix u v assume "u \<in> set (sc_users c1)" "load_user_key w u = Some v"
    then have "user_wf u" "v = u\<lparr>su_pubkey := su_pubkey v\<rparr>" "su_enabled u \<longrightarrow> su_pubkey v \<noteq> None"
      using users(1) load_user_key_frame [of w u v] by (auto simp: list_all_iff)
    then show "user_wf v \<and> (su_enabled v \<longrightarrow> su_pubkey v \<noteq> None)"
      by (metis user_wf_update(1) siglatch_user.select_convs(5) siglatch_user.surjective
          siglatch_user.update_convs(8))
  qed
  have 2: "list_all (\<lambda>u. user_wf u \<and> user_keys_ok u) vs"
  proof (rule map_all_inv [OF vs])
    fix u v assume "u \<in> set us" and v: "load_user_hmac w u = Some v"
    then have u: "user_wf u" "su_enabled u \<longrightarrow> su_pubkey u \<noteq> None" using 1 by (auto simp: list_all_iff)
    note f = load_user_hmac_frame [OF v]
    have "length (su_hmac_key v) = 32" using f(3) u(1) by (auto simp: user_wf_def)
    then have "user_wf v" using u(1) by (subst f(1)) (rule user_wf_update(2))
    moreover have "su_enabled v = su_enabled u" "su_pubkey v = su_pubkey u"
      by (subst f(1), simp)+
    ultimately show "user_wf v \<and> user_keys_ok v" using f(2) u(2) by (auto simp: user_keys_ok_def)
  qed
  have 3: "list_all server_wf ss"
  proof (rule map_all_inv [OF ss])
    fix s t assume "s \<in> set (sc_servers c1)" "load_server_key w (sc_master_privkey c1) s = Some t"
    then have s: "server_wf s" "t = s\<lparr>sv_key_owned := sv_key_owned t, sv_priv_key := sv_priv_key t\<rparr>"
      using users(2) load_server_key_frame by (auto simp: list_all_iff)
    show "server_wf t" using s(1) by (subst s(2)) (simp add: server_wf_def)
  qed
  have len: "length vs = length (sc_users c1)" "length ss = length (sc_servers c1)"
    using map_all_length [OF us] map_all_length [OF vs] map_all_length [OF ss] by simp_all
  have "list_all user_wf vs" using 2 by (auto simp: list_all_iff)
  then show "config_wf d"
    using wf 3 len by (simp add: d e config_wf_def)
  show "list_all user_keys_ok (sc_users d)" using 2 by (simp add: d list_all_iff)
  have "map su_allowed_ips us = map su_allowed_ips (sc_users c1)"
    by (rule map_all_map [OF us]) (auto simp: load_user_key_def split: if_splits option.splits)
  moreover have "map su_allowed_ips vs = map su_allowed_ips us"
    by (rule map_all_map [OF vs]) (auto simp: load_user_hmac_def Let_def split: if_splits option.splits)
  ultimately have m1: "map su_allowed_ips vs = map su_allowed_ips (sc_users c)" by (simp add: e)
  define g where "g = (\<lambda>s :: siglatch_server. (sv_name s, sv_allowed_ips s, sv_bind_ip s, sv_port s))"
  have "map g ss = map g (sc_servers c1)"
    by (rule map_all_map [OF ss]) (auto simp: g_def load_server_key_def split: if_splits option.splits)
  then have m2: "map g ss = map g (sc_servers c)" by (simp add: e)
  show "config_valid dl d"
    using valid config_valid_cong [of vs c ss dl] m1 m2 by (simp add: d e g_def)
qed

lemma config_build_valid:
  assumes "config_build_from_path w path = Some c"
  shows "config_wf c" "config_valid (w_dlsym w) c" "list_all user_keys_ok (sc_users c)"
proof -
  obtain doc c0 where doc: "config_consume_document_ptr (w_calloc w) (w_malloc w) (w_dlsym w) doc = Some c0"
    and load: "keys_load w c0 = Some c"
    using assms by (auto simp: config_build_from_path_def split: if_splits sum.splits option.splits)
  show "config_wf c" "config_valid (w_dlsym w) c" "list_all user_keys_ok (sc_users c)"
    using keys_load_valid [OF load consume_document_valid [OF doc]] by simp_all
qed

section \<open>Setters\<close>

lemma update_server_find:
  "(\<And>s. sv_name (f s) = sv_name s) \<Longrightarrow>
   List.find (\<lambda>s. sv_name s = name) (update_server name f ss) =
     map_option f (List.find (\<lambda>s. sv_name s = name) ss)"
  by (induction ss) auto

lemma update_server_other:
  "n \<noteq> name \<Longrightarrow> (\<And>s. sv_name (f s) = sv_name s) \<Longrightarrow>
   List.find (\<lambda>s. sv_name s = n) (update_server name f ss) = List.find (\<lambda>s. sv_name s = n) ss"
  by (induction ss) auto

lemma update_server_names: "(\<And>s. sv_name (f s) = sv_name s) \<Longrightarrow> map sv_name (update_server name f ss) = map sv_name ss"
  by (induction ss) auto

lemma update_server_all:
  "list_all P ss \<Longrightarrow> (\<And>s. P s \<Longrightarrow> P (f s)) \<Longrightarrow> list_all P (update_server name f ss)"
  by (induction ss) auto

lemma update_server_length [simp]: "length (update_server name f ss) = length ss"
  by (induction ss) auto

text \<open>A change of one server that keeps its name and what validation asks of a server keeps the configuration valid.\<close>

lemma with_server_valid:
  assumes wf: "config_wf c" and valid: "config_valid dl c" and r: "with_server (Some c) name f = (b, Some c')"
    and f: "\<And>s. sv_name (f s) = sv_name s" "\<And>s. sv_allowed_ips (f s) = sv_allowed_ips s"
      "\<And>s. server_wf s \<Longrightarrow> server_wf (f s)" "\<And>s. sv_port s \<noteq> 0 \<Longrightarrow> sv_port (f s) \<noteq> 0"
      "\<And>s. sv_bind_ip s = [] \<or> net_ip_range_is_single_ipv4 (sv_bind_ip s) \<Longrightarrow>
         sv_bind_ip (f s) = [] \<or> net_ip_range_is_single_ipv4 (sv_bind_ip (f s))"
  shows "config_wf c' \<and> config_valid dl c'"
proof (cases b)
  case False
  then show ?thesis using assms by (auto simp: with_server_def split: if_splits option.splits)
next
  case True
  then have c': "c' = c\<lparr>sc_servers := update_server name f (sc_servers c)\<rparr>"
    using r by (auto simp: with_server_def split: if_splits option.splits)
  have "config_wf c'"
    using wf f(3) by (auto simp: c' config_wf_def intro: update_server_all)
  moreover have "list_all (\<lambda>s. sv_port s \<noteq> 0) (update_server name f (sc_servers c))"
    by (rule update_server_all) (use valid f(4) in \<open>auto simp: config_valid_def list_all_iff\<close>)
  moreover have "list_all (\<lambda>s. validate_ip_spec_list (sv_allowed_ips s) \<and>
      (sv_bind_ip s = [] \<or> net_ip_range_is_single_ipv4 (sv_bind_ip s))) (update_server name f (sc_servers c))"
    by (rule update_server_all) (use valid f(2,5) in \<open>auto simp: config_valid_def validate_ip_constraints_def list_all_iff\<close>)
  ultimately show ?thesis
    using valid update_server_names [of f name "sc_servers c"] f(1)
    by (simp add: c' config_valid_def validate_action_handlers_def validate_ip_constraints_def list_all_iff)
qed

lemma single_ipv4_short:
  assumes "net_ip_range_is_single_ipv4 ip" "no_outer_space ip"
  shows "lcpy ip MAX_IP_RANGE_LEN = ip"
proof -
  have "length (lib_str_trim ip) < 64"
    using assms(1) by (auto simp: net_ip_range_is_single_ipv4_def net_ip_range_trim_copy_def
        lib_str_trim_def Let_def split: if_splits option.splits)
  then show ?thesis using assms(2) by (simp add: trim_id lcpy_id MAX_IP_RANGE_LEN_def)
qed

lemma set_port_effect:
  assumes "config_server_set_port (Some c) name port = (True, Some c')"
  shows "config_server_by_name_from_ptr (Some c') name =
      map_option (\<lambda>s. s\<lparr>sv_port := port\<rparr>) (config_server_by_name_from_ptr (Some c) name)"
    "n \<noteq> name \<Longrightarrow> config_server_by_name_from_ptr (Some c') n = config_server_by_name_from_ptr (Some c) n"
    "0 < port \<and> port \<le> 65535"
  using assms
  by (auto simp: config_server_set_port_def with_server_def config_server_by_name_from_ptr_def
      update_server_find update_server_other split: if_splits option.splits)

end
