(* ===== verification/Policy.thy ===== *)
theory Policy
  imports Config_Facts
begin

text \<open>
  \<open>siglatch/app/server/server.c\<close> and \<open>siglatch/app/policy/policy.c\<close>: what a server, a user and an
  action permit. The configuration that the lookups read is an argument.
\<close>

section \<open>siglatch/app/server/server.c\<close>

definition normalize_payload_overflow_effective ::
  "siglatch_payload_overflow_policy \<Rightarrow> siglatch_payload_overflow_policy" where
  "normalize_payload_overflow_effective policy =
     (case policy of
        SL_PAYLOAD_OVERFLOW_REJECT \<Rightarrow> SL_PAYLOAD_OVERFLOW_REJECT
      | SL_PAYLOAD_OVERFLOW_CLAMP \<Rightarrow> SL_PAYLOAD_OVERFLOW_CLAMP
      | _ \<Rightarrow> SL_PAYLOAD_OVERFLOW_REJECT)"

definition server_select :: "siglatch_config option \<Rightarrow> string \<Rightarrow> siglatch_server option" where
  "server_select cfg name =
     (case config_server_by_name_from_ptr cfg name of
        None \<Rightarrow> None
      | Some current \<Rightarrow> if \<not> sv_enabled current then None else Some current)"

definition server_action_available :: "siglatch_server \<Rightarrow> string \<Rightarrow> bool" where
  "server_action_available server action_name = list_ex (\<lambda>a. a = action_name) (sv_actions server)"

definition server_deaddrop_available :: "siglatch_server \<Rightarrow> string \<Rightarrow> bool" where
  "server_deaddrop_available server deaddrop_name = list_ex (\<lambda>d. d = deaddrop_name) (sv_deaddrops server)"

text \<open>The dead drop found, the prefix copied to the caller and the length of the prefix.\<close>

fun deaddrop_search ::
  "siglatch_config option \<Rightarrow> u8 list \<Rightarrow> nat \<Rightarrow> string list \<Rightarrow> (siglatch_deaddrop \<times> string \<times> nat) option" where
  "deaddrop_search cfg payload match_buf_size [] = None"
| "deaddrop_search cfg payload match_buf_size (allowed # rest) =
     (case config_deaddrop_by_name_from_ptr cfg allowed of
        None \<Rightarrow> deaddrop_search cfg payload match_buf_size rest
      | Some deaddrop \<Rightarrow>
          if \<not> sd_enabled deaddrop then deaddrop_search cfg payload match_buf_size rest
          else case List.find (payload_has_prefix payload) (sd_starts_with deaddrop) of
            None \<Rightarrow> deaddrop_search cfg payload match_buf_size rest
          | Some prefix \<Rightarrow> Some (deaddrop, take (match_buf_size - 1) prefix, length prefix))"

definition server_deaddrop_starts_with_buffer ::
  "siglatch_config option \<Rightarrow> siglatch_server \<Rightarrow> u8 list \<Rightarrow> nat \<Rightarrow>
   (siglatch_deaddrop \<times> string \<times> nat) option" where
  "server_deaddrop_starts_with_buffer cfg server payload match_buf_size =
     (if payload = [] then None else deaddrop_search cfg payload match_buf_size (sv_deaddrops server))"

definition server_resolve_payload_overflow_by_action ::
  "siglatch_config option \<Rightarrow> siglatch_server option \<Rightarrow> u32 \<Rightarrow> siglatch_payload_overflow_policy" where
  "server_resolve_payload_overflow_by_action cfg server action_id =
     (case cfg of
        None \<Rightarrow> SL_PAYLOAD_OVERFLOW_REJECT
      | Some c \<Rightarrow>
          (let e0 = normalize_payload_overflow_effective (sc_payload_overflow c);
               e1 = (case server of
                       None \<Rightarrow> e0
                     | Some s \<Rightarrow>
                         if sv_payload_overflow s \<noteq> SL_PAYLOAD_OVERFLOW_INHERIT
                         then normalize_payload_overflow_effective (sv_payload_overflow s) else e0)
           in case config_action_by_id_from_ptr cfg action_id of
                None \<Rightarrow> e1
              | Some a \<Rightarrow>
                  if sa_payload_overflow a \<noteq> SL_PAYLOAD_OVERFLOW_INHERIT
                  then normalize_payload_overflow_effective (sa_payload_overflow a) else e1))"

section \<open>siglatch/app/policy/policy.c\<close>

definition ip_list_allows :: "string list \<Rightarrow> string \<Rightarrow> bool" where
  "ip_list_allows allowed_ips ip_addr =
     (if ip_addr = [] then False
      else if allowed_ips = [] then True
      else list_ex (\<lambda>spec. net_ip_range_contains_spec_ipv4 spec ip_addr) allowed_ips)"

definition app_policy_server_ip_allowed :: "siglatch_server \<Rightarrow> string \<Rightarrow> bool" where
  "app_policy_server_ip_allowed server ip_addr = ip_list_allows (sv_allowed_ips server) ip_addr"

definition app_policy_user_ip_allowed :: "siglatch_user \<Rightarrow> string \<Rightarrow> bool" where
  "app_policy_user_ip_allowed user ip_addr = ip_list_allows (su_allowed_ips user) ip_addr"

definition app_policy_action_ip_allowed :: "siglatch_action \<Rightarrow> string \<Rightarrow> bool" where
  "app_policy_action_ip_allowed action ip_addr = ip_list_allows (sa_allowed_ips action) ip_addr"

definition app_policy_request_ip_allowed ::
  "siglatch_server \<Rightarrow> siglatch_user \<Rightarrow> siglatch_action \<Rightarrow> string \<Rightarrow> bool" where
  "app_policy_request_ip_allowed server user action ip_addr =
     (if ip_addr = [] then False
      else if \<not> app_policy_server_ip_allowed server ip_addr then False
      else if \<not> app_policy_user_ip_allowed user ip_addr then False
      else if \<not> app_policy_action_ip_allowed action ip_addr then False
      else True)"

section \<open>Facts\<close>

text \<open>An address list read as ranges: pairs of a network and a prefix length.\<close>

definition range_text :: "u32 \<times> nat \<Rightarrow> string" where
  "range_text r = dotted (fst r) @ CHR ''/'' # decimal (snd r)"

definition in_range :: "u32 \<Rightarrow> u32 \<times> nat \<Rightarrow> bool" where
  "in_range a r \<longleftrightarrow> drop_bit (32 - snd r) a = drop_bit (32 - snd r) (fst r)"

lemma ip_list_ranges:
  assumes "\<forall>r \<in> set rs. snd r \<le> 32"
  shows "ip_list_allows (map range_text rs) (dotted a) \<longleftrightarrow> rs = [] \<or> (\<exists>r \<in> set rs. in_range a r)"
proof -
  have "list_ex (\<lambda>spec. net_ip_range_contains_spec_ipv4 spec (dotted a)) (map range_text rs) \<longleftrightarrow>
      (\<exists>r \<in> set rs. in_range a r)"
    using assms by (auto simp: list_ex_iff range_text_def in_range_def contains_cidr)
  then show ?thesis
    using dotted_bounds(1) [of a] by (simp add: ip_list_allows_def)
qed

lemma request_ip_allowed_iff:
  "app_policy_request_ip_allowed server user action ip \<longleftrightarrow>
     ip_list_allows (sv_allowed_ips server) ip \<and> ip_list_allows (su_allowed_ips user) ip \<and>
     ip_list_allows (sa_allowed_ips action) ip"
  by (auto simp: app_policy_request_ip_allowed_def app_policy_server_ip_allowed_def
      app_policy_user_ip_allowed_def app_policy_action_ip_allowed_def ip_list_allows_def)

text \<open>The search returns a dead drop that the server lists, that is enabled and whose prefix matches.\<close>

lemma deaddrop_search_sound:
  assumes "deaddrop_search cfg payload n names = Some (d, m, k)"
  shows "sd_name d \<in> set names \<and> sd_enabled d \<and> k \<le> length payload \<and>
    (\<exists>p \<in> set (sd_starts_with d). payload_has_prefix payload p \<and> k = length p \<and> m = take (n - 1) p)"
  using assms
proof (induction names)
  case Nil
  then show ?case by simp
next
  case (Cons a names)
  show ?case
  proof (cases "config_deaddrop_by_name_from_ptr cfg a")
    case None
    with Cons show ?thesis by simp
  next
    case (Some e)
    have name: "sd_name e = a"
      using Some by (auto simp: config_deaddrop_by_name_from_ptr_def find_Some_iff split: option.splits)
    show ?thesis
    proof (cases "sd_enabled e")
      case False
      with Cons Some show ?thesis by simp
    next
      case True
      show ?thesis
      proof (cases "List.find (payload_has_prefix payload) (sd_starts_with e)")
        case None
        with Cons Some True show ?thesis by simp
      next
        case (Some p)
        then have "p \<in> set (sd_starts_with e)" "payload_has_prefix payload p"
          by (auto simp: find_Some_iff)
        with Cons.prems \<open>config_deaddrop_by_name_from_ptr cfg a = Some e\<close> Some True name show ?thesis
          by (auto simp: payload_has_prefix_def)
      qed
    qed
  qed
qed

end
