(* ===== verification/Buf_Heap.thy ===== *)
theory Buf_Heap
  imports Prelude "HOL-Library.Multiset"
begin

text \<open>
  The heap of the buffers that the daemon's jobs own (\<open>realloc\<close> and \<open>free\<close>). Allocation number
  \<open>n\<close> fails when the oracle \<open>bh_oom\<close> says so; \<open>bh_fault\<close> records a free of, or an access through,
  an address that is not allocated, and an access beyond the end of a buffer. Fresh bytes are
  zero: the program writes every byte before it reads it.
\<close>

type_synonym baddr = nat

record buf_heap =
  bh_cell :: "baddr \<Rightarrow> u8 list option"
  bh_next :: nat
  bh_oom :: "nat \<Rightarrow> bool"
  bh_fault :: bool

definition bh_empty :: "(nat \<Rightarrow> bool) \<Rightarrow> buf_heap" where
  "bh_empty oom = \<lparr>bh_cell = (\<lambda>_. None), bh_next = 0, bh_oom = oom, bh_fault = False\<rparr>"

definition bh_free :: "baddr option \<Rightarrow> buf_heap \<Rightarrow> buf_heap" where
  "bh_free p h =
     (case p of
        None \<Rightarrow> h
      | Some a \<Rightarrow>
          (case bh_cell h a of
             None \<Rightarrow> h\<lparr>bh_fault := True\<rparr>
           | Some _ \<Rightarrow> h\<lparr>bh_cell := (bh_cell h)(a := None)\<rparr>))"

text \<open>A block that grows moves to a fresh address.\<close>

definition bh_realloc :: "baddr option \<Rightarrow> nat \<Rightarrow> buf_heap \<Rightarrow> baddr option \<times> buf_heap" where
  "bh_realloc p n h =
     (if bh_oom h (bh_next h) then (None, h\<lparr>bh_next := Suc (bh_next h)\<rparr>)
      else case p of
        None \<Rightarrow>
          (Some (bh_next h),
           h\<lparr>bh_cell := (bh_cell h)(bh_next h \<mapsto> replicate n 0), bh_next := Suc (bh_next h)\<rparr>)
      | Some a \<Rightarrow>
          (case bh_cell h a of
             None \<Rightarrow> (None, h\<lparr>bh_fault := True\<rparr>)
           | Some old \<Rightarrow>
               (Some (bh_next h),
                h\<lparr>bh_cell := (bh_cell h)(a := None, bh_next h \<mapsto> take n old @ replicate (n - length old) 0),
                  bh_next := Suc (bh_next h)\<rparr>)))"

text \<open>\<open>memcpy\<close> to the start of a buffer.\<close>

definition bh_write :: "baddr option \<Rightarrow> u8 list \<Rightarrow> buf_heap \<Rightarrow> buf_heap" where
  "bh_write p bytes h =
     (case p of
        None \<Rightarrow> h\<lparr>bh_fault := True\<rparr>
      | Some a \<Rightarrow>
          (case bh_cell h a of
             None \<Rightarrow> h\<lparr>bh_fault := True\<rparr>
           | Some old \<Rightarrow>
               if length old < length bytes then h\<lparr>bh_fault := True\<rparr>
               else h\<lparr>bh_cell := (bh_cell h)(a \<mapsto> bytes @ drop (length bytes) old)\<rparr>))"

definition bh_read :: "baddr option \<Rightarrow> nat \<Rightarrow> buf_heap \<Rightarrow> u8 list" where
  "bh_read p n h = (case p of None \<Rightarrow> [] | Some a \<Rightarrow> (case bh_cell h a of None \<Rightarrow> [] | Some b \<Rightarrow> take n b))"

section \<open>Ownership\<close>

text \<open>The allocated addresses are exactly those of the multiset \<open>m\<close>, each once, and nothing went wrong.\<close>

definition bh_owned :: "buf_heap \<Rightarrow> baddr multiset \<Rightarrow> bool" where
  "bh_owned h m \<longleftrightarrow> finite (dom (bh_cell h)) \<and> \<not> bh_fault h \<and>
     (\<forall>a. bh_next h \<le> a \<longrightarrow> bh_cell h a = None) \<and> m = mset_set (dom (bh_cell h))"

lemma bh_owned_empty: "bh_owned (bh_empty oom) {#}"
  by (simp add: bh_owned_def bh_empty_def)

lemma bh_owned_cell: "bh_owned h m \<Longrightarrow> a \<in># m \<longleftrightarrow> bh_cell h a \<noteq> None"
  by (auto simp: bh_owned_def dom_def)

lemma bh_owned_once: "bh_owned h (add_mset a m) \<Longrightarrow> a \<notin># m"
proof
  assume o: "bh_owned h (add_mset a m)" and "a \<in># m"
  then have "2 \<le> count (add_mset a m) a" by (simp add: count_inI Suc_leI)
  moreover have "count (add_mset a m) a \<le> 1"
  proof -
    have "add_mset a m = mset_set (dom (bh_cell h))" using o by (simp add: bh_owned_def)
    then have "count (add_mset a m) a = count (mset_set (dom (bh_cell h))) a" by (rule arg_cong)
    then show ?thesis unfolding count_mset_set' by (simp only: split: if_split) simp
  qed
  ultimately show False using \<open>a \<in># m\<close> by (simp add: count_eq_zero_iff)
qed

lemma bh_owned_apart: "bh_owned h (m + k) \<Longrightarrow> a \<in># m \<Longrightarrow> a \<notin># k"
  by (metis bh_owned_once add_mset_add_single insert_DiffM union_iff union_mset_add_mset_left)

lemma bh_free_owned:
  assumes "bh_owned h (add_mset a m)"
  shows "bh_owned (bh_free (Some a) h) m"
    "bh_cell (bh_free (Some a) h) = (bh_cell h)(a := None)"
proof -
  obtain c where c: "bh_cell h a = Some c"
    using bh_owned_cell [OF assms, of a] by auto
  show cell: "bh_cell (bh_free (Some a) h) = (bh_cell h)(a := None)"
    by (simp add: bh_free_def c)
  have "m = add_mset a m - {#a#}" by simp
  also have "\<dots> = mset_set (dom (bh_cell h) - {a})"
    using assms c by (simp add: bh_owned_def mset_set_Diff dom_def)
  finally show "bh_owned (bh_free (Some a) h) m"
    using assms by (simp add: bh_owned_def cell bh_free_def c)
qed

lemma bh_free_None [simp]: "bh_free None h = h"
  by (simp add: bh_free_def)

lemma bh_realloc_fail:
  assumes "bh_owned h m" "\<forall>a \<in> set_option p. a \<in># m" "bh_realloc p n h = (None, h')"
  shows "bh_owned h' m" "bh_cell h' = bh_cell h"
proof -
  have "bh_cell h a \<noteq> None" if "p = Some a" for a
    using that assms(1,2) bh_owned_cell by auto
  then have "h' = h\<lparr>bh_next := Suc (bh_next h)\<rparr>"
    using assms(3) by (auto simp: bh_realloc_def split: if_splits option.splits)
  then show "bh_owned h' m" "bh_cell h' = bh_cell h"
    using assms(1) by (simp_all add: bh_owned_def)
qed

lemma bh_realloc_fresh:
  assumes "bh_owned h m" "bh_realloc None n h = (Some b, h')"
  shows "bh_owned h' (add_mset b m)" "bh_cell h' = (bh_cell h)(b \<mapsto> replicate n 0)" "b \<notin># m"
    "bh_cell h b = None"
proof -
  have b: "b = bh_next h" and h': "h' = h\<lparr>bh_cell := (bh_cell h)(b \<mapsto> replicate n 0), bh_next := Suc b\<rparr>"
    using assms(2) by (auto simp: bh_realloc_def split: if_splits)
  show n: "bh_cell h b = None" using assms(1) b by (simp add: bh_owned_def)
  then show "b \<notin># m" using bh_owned_cell [OF assms(1), of b] by simp
  show "bh_cell h' = (bh_cell h)(b \<mapsto> replicate n 0)" by (simp add: h')
  have "b \<notin> dom (bh_cell h)" using n by auto
  then show "bh_owned h' (add_mset b m)"
    using assms(1) b by (auto simp: bh_owned_def h')
qed

lemma bh_realloc_move:
  assumes "bh_owned h (add_mset a m)" "bh_realloc (Some a) n h = (Some b, h')"
  shows "bh_owned h' (add_mset b m)"
    "\<exists>bytes. length bytes = n \<and> bh_cell h' = (bh_cell h)(a := None, b \<mapsto> bytes)" "b \<notin># m" "bh_cell h b = None"
proof -
  obtain old where old: "bh_cell h a = Some old" using bh_owned_cell [OF assms(1), of a] by auto
  define bytes where "bytes = take n old @ replicate (n - length old) 0"
  have b: "b = bh_next h"
    and h': "h' = h\<lparr>bh_cell := (bh_cell h)(a := None, b \<mapsto> bytes), bh_next := Suc b\<rparr>"
    using assms(2) old by (auto simp: bh_realloc_def bytes_def split: if_splits)
  show nb: "bh_cell h b = None" using assms(1) b by (simp add: bh_owned_def)
  then show "b \<notin># m" using bh_owned_cell [OF assms(1), of b] by simp
  have "length bytes = n" by (auto simp: bytes_def)
  then show "\<exists>bytes. length bytes = n \<and> bh_cell h' = (bh_cell h)(a := None, b \<mapsto> bytes)"
    by (auto simp: h')
  have ab: "a \<noteq> b" using old nb by auto
  have "m = add_mset a m - {#a#}" by simp
  also have "\<dots> = mset_set (dom (bh_cell h) - {a})"
    using assms(1) old by (simp add: bh_owned_def mset_set_Diff dom_def)
  finally have "add_mset b m = mset_set (insert b (dom (bh_cell h) - {a}))"
    using assms(1) nb by (simp add: bh_owned_def domIff)
  moreover have "dom (bh_cell h') = insert b (dom (bh_cell h) - {a})"
    using ab by (auto simp: h')
  ultimately show "bh_owned h' (add_mset b m)"
    using assms(1) b by (auto simp: bh_owned_def h')
qed

lemma bh_write_owned:
  assumes "bh_owned h m" "bh_cell h a = Some old" "length bytes \<le> length old"
  shows "bh_owned (bh_write (Some a) bytes h) m"
    "bh_cell (bh_write (Some a) bytes h) = (bh_cell h)(a \<mapsto> bytes @ drop (length bytes) old)"
proof -
  have *: "bh_write (Some a) bytes h = h\<lparr>bh_cell := (bh_cell h)(a \<mapsto> bytes @ drop (length bytes) old)\<rparr>"
    using assms(2,3) by (simp add: bh_write_def)
  have "dom ((bh_cell h)(a \<mapsto> bytes @ drop (length bytes) old)) = dom (bh_cell h)"
    using assms(2) by auto
  then show "bh_owned (bh_write (Some a) bytes h) m"
    "bh_cell (bh_write (Some a) bytes h) = (bh_cell h)(a \<mapsto> bytes @ drop (length bytes) old)"
    using assms(1,2) by (auto simp: * bh_owned_def)
qed

lemma bh_oom_frame [simp]:
  "bh_oom (bh_free p h) = bh_oom h" "bh_oom (snd (bh_realloc p n h)) = bh_oom h"
  "bh_oom (bh_write p bytes h) = bh_oom h"
  by (auto simp: bh_free_def bh_realloc_def bh_write_def split: option.splits)

lemma bh_realloc_oom: "bh_realloc p n h = (r, h') \<Longrightarrow> bh_oom h' = bh_oom h"
  using bh_oom_frame(2) [of p n h] by simp

end
