(* ===== verification/Job.thy ===== *)
theory Job
  imports Buf_Heap Wire_Types Ring_Queue
begin

text \<open>
  \<open>siglatch/app/daemon/job.c\<close>: the queue of application jobs. A job owns two growing buffers, its
  payload and its response; the queue hands a job out by moving the struct, pointers included.
\<close>

section \<open>Data\<close>

definition SIZE_MAX :: nat where "SIZE_MAX = 18446744073709551615"

definition APP_JOB_PAYLOAD_BLOCK_SIZE :: nat where "APP_JOB_PAYLOAD_BLOCK_SIZE = 1280"
definition APP_JOB_RESPONSE_BLOCK_SIZE :: nat where "APP_JOB_RESPONSE_BLOCK_SIZE = 1280"
definition APP_JOB_READY_QUEUE_CAPACITY :: nat where "APP_JOB_READY_QUEUE_CAPACITY = 64"

record AppDaemonRequestPacket =
  rq_user_id :: u16
  rq_action_id :: u8
  rq_challenge :: u32
  rq_hmac :: "u8 list"
  rq_payload_buffer :: "baddr option"
  rq_payload_len :: nat
  rq_payload_cap :: nat

record AppConnectionJob =
  aj_complete :: bool
  aj_should_reply :: bool
  aj_available :: bool
  aj_synthetic_session :: bool
  aj_wire_version :: u32
  aj_wire_form :: u8
  aj_session_id :: u64
  aj_message_id :: u64
  aj_stream_id :: u32
  aj_fragment_index :: u32
  aj_fragment_count :: u32
  aj_timestamp :: u32
  aj_ip :: string
  aj_client_port :: u16
  aj_encrypted :: bool
  aj_wire_auth :: bool
  aj_request :: AppDaemonRequestPacket
  aj_response_buffer :: "baddr option"
  aj_response_len :: nat
  aj_response_cap :: nat

record AppJobState =
  js_ready_queue :: "AppConnectionJob list"
  js_ready_head :: nat
  js_ready_tail :: nat
  js_ready_count :: nat

definition zero_request :: AppDaemonRequestPacket where
  "zero_request = \<lparr>rq_user_id = 0, rq_action_id = 0, rq_challenge = 0, rq_hmac = replicate 32 0,
     rq_payload_buffer = None, rq_payload_len = 0, rq_payload_cap = 0\<rparr>"

definition zero_job :: AppConnectionJob where
  "zero_job = \<lparr>aj_complete = False, aj_should_reply = False, aj_available = False,
     aj_synthetic_session = False, aj_wire_version = 0, aj_wire_form = 0, aj_session_id = 0,
     aj_message_id = 0, aj_stream_id = 0, aj_fragment_index = 0, aj_fragment_count = 0,
     aj_timestamp = 0, aj_ip = [], aj_client_port = 0, aj_encrypted = False, aj_wire_auth = False,
     aj_request = zero_request, aj_response_buffer = None, aj_response_len = 0, aj_response_cap = 0\<rparr>"

section \<open>Growing buffers\<close>

text \<open>
  The doubling loop. It does not end when it starts from capacity zero, so it is a partial
  function: \<open>None\<close> is not returning.
\<close>

partial_function (option) grow_cap :: "nat \<Rightarrow> nat \<Rightarrow> nat option" where
  "grow_cap next_cap min_cap =
     (if next_cap < min_cap
      then if next_cap > SIZE_MAX div 2 then Some 0 else grow_cap (next_cap * 2) min_cap
      else Some next_cap)"

definition app_job_next_buffer_cap :: "nat \<Rightarrow> nat \<Rightarrow> nat \<Rightarrow> nat option" where
  "app_job_next_buffer_cap current_cap min_cap block_size =
     (let c1 = (if current_cap < block_size then block_size else current_cap);
          c2 = (if c1 = 0 then block_size else c1)
      in grow_cap c2 min_cap)"

text \<open>The result, the buffer and its capacity; \<open>None\<close> when the call does not return.\<close>

definition app_job_reserve_buffer ::
  "baddr option \<Rightarrow> nat \<Rightarrow> nat \<Rightarrow> nat \<Rightarrow> buf_heap \<Rightarrow> (bool \<times> baddr option \<times> nat \<times> buf_heap) option" where
  "app_job_reserve_buffer buffer cap min_cap block_size h =
     (if min_cap = 0 then Some (True, buffer, cap, h)
      else if buffer \<noteq> None \<and> cap \<ge> min_cap then Some (True, buffer, cap, h)
      else case app_job_next_buffer_cap cap min_cap block_size of
        None \<Rightarrow> None
      | Some next_cap \<Rightarrow>
          if next_cap = 0 then Some (False, buffer, cap, h)
          else case bh_realloc buffer next_cap h of
            (None, h1) \<Rightarrow> Some (False, buffer, cap, h1)
          | (Some b, h1) \<Rightarrow> Some (True, Some b, next_cap, h1))"

section \<open>Jobs\<close>

definition app_job_release_payload :: "AppConnectionJob \<Rightarrow> buf_heap \<Rightarrow> AppConnectionJob \<times> buf_heap" where
  "app_job_release_payload job h =
     (job\<lparr>aj_request := (aj_request job)\<lparr>rq_payload_buffer := None, rq_payload_len := 0, rq_payload_cap := 0\<rparr>\<rparr>,
      bh_free (rq_payload_buffer (aj_request job)) h)"

definition app_job_release_response :: "AppConnectionJob \<Rightarrow> buf_heap \<Rightarrow> AppConnectionJob \<times> buf_heap" where
  "app_job_release_response job h =
     (job\<lparr>aj_response_buffer := None, aj_response_len := 0, aj_response_cap := 0\<rparr>,
      bh_free (aj_response_buffer job) h)"

definition app_job_release_job :: "AppConnectionJob \<Rightarrow> buf_heap \<Rightarrow> AppConnectionJob \<times> buf_heap" where
  "app_job_release_job job h =
     (let (j1, h1) = app_job_release_payload job h in app_job_release_response j1 h1)"

text \<open>The two block sizes are positive, so the reservations below return (\<open>reserve_returns\<close>).\<close>

definition app_job_copy_payload ::
  "AppConnectionJob \<Rightarrow> u8 list \<Rightarrow> buf_heap \<Rightarrow> bool \<times> AppConnectionJob \<times> buf_heap" where
  "app_job_copy_payload job payload h =
     (if payload = []
      then (True, job\<lparr>aj_request := (aj_request job)\<lparr>rq_payload_len := 0\<rparr>\<rparr>, h)
      else let (ok, b, cap, h1) = the (app_job_reserve_buffer (rq_payload_buffer (aj_request job))
                 (rq_payload_cap (aj_request job)) (length payload) APP_JOB_PAYLOAD_BLOCK_SIZE h)
           in if \<not> ok
              then (False, job\<lparr>aj_request := (aj_request job)\<lparr>rq_payload_buffer := b, rq_payload_cap := cap\<rparr>\<rparr>, h1)
              else (True, job\<lparr>aj_request := (aj_request job)\<lparr>rq_payload_buffer := b, rq_payload_cap := cap,
                      rq_payload_len := length payload\<rparr>\<rparr>, bh_write b payload h1))"

definition app_job_reserve_response ::
  "AppConnectionJob \<Rightarrow> nat \<Rightarrow> buf_heap \<Rightarrow> bool \<times> AppConnectionJob \<times> buf_heap" where
  "app_job_reserve_response job min_cap h =
     (let (ok, b, cap, h1) = the (app_job_reserve_buffer (aj_response_buffer job) (aj_response_cap job)
            min_cap APP_JOB_RESPONSE_BLOCK_SIZE h)
      in (ok, job\<lparr>aj_response_buffer := b, aj_response_cap := cap\<rparr>, h1))"

text \<open>The fields that a job takes from the packet, before its request is filled in.\<close>

definition job_envelope :: "M7MuxRecvPacket \<Rightarrow> AppConnectionJob" where
  "job_envelope normal = zero_job\<lparr>
     aj_should_reply := rp_should_reply normal, aj_available := True,
     aj_synthetic_session := rp_synthetic_session normal, aj_wire_version := rp_wire_version normal,
     aj_wire_form := rp_wire_form normal, aj_session_id := rp_session_id normal,
     aj_message_id := rp_message_id normal, aj_stream_id := rp_stream_id normal,
     aj_fragment_index := rp_fragment_index normal, aj_fragment_count := rp_fragment_count normal,
     aj_timestamp := rp_timestamp normal, aj_ip := cstr63 (rp_ip normal),
     aj_client_port := rp_client_port normal, aj_encrypted := rp_encrypted normal,
     aj_wire_auth := rp_wire_auth normal\<rparr>"

text \<open>A packet as the inbox hands it out: with the contents of its user buffer, if it has one.\<close>

type_synonym delivered = "M7MuxRecvPacket \<times> M7MuxUserRecvData option"

definition app_job_load_from_normal ::
  "AppConnectionJob \<Rightarrow> delivered \<Rightarrow> buf_heap \<Rightarrow> bool \<times> AppConnectionJob \<times> buf_heap" where
  "app_job_load_from_normal job0 del h =
     (case del of (normal, user) \<Rightarrow>
        let h0 = snd (app_job_release_job job0 h);
            job = job_envelope normal
        in if rp_wire_version normal = 0
           then (let job1 = job\<lparr>aj_request := (aj_request job)\<lparr>rq_user_id := 0, rq_action_id := 0,
                       rq_challenge := 0, rq_hmac := replicate 32 0\<rparr>\<rparr>
                 in if length (rp_raw_bytes normal) > 0
                    then case app_job_copy_payload job1 (rp_raw_bytes normal) h0 of
                      (ok, job2, h1) \<Rightarrow>
                        if ok then (True, job2, h1)
                        else (False, zero_job, snd (app_job_release_job job2 h1))
                    else (True, job1, h0))
           else case user of
             None \<Rightarrow> (False, job, h0)
           | Some u \<Rightarrow>
               (let job1 = job\<lparr>aj_request := (aj_request job)\<lparr>rq_user_id := ud_user_id u,
                      rq_action_id := ud_action_id u, rq_challenge := ud_challenge u,
                      rq_hmac := ud_hmac u\<rparr>\<rparr>
                in if length (ud_payload u) > 0
                   then case app_job_copy_payload job1 (ud_payload u) h0 of
                     (ok, job2, h1) \<Rightarrow>
                       if ok then (True, job2, h1)
                       else (False, zero_job, snd (app_job_release_job job2 h1))
                   else (True, job1, h0)))"

section \<open>The queue\<close>

definition app_job_state_init :: AppJobState where
  "app_job_state_init = \<lparr>js_ready_queue = replicate APP_JOB_READY_QUEUE_CAPACITY zero_job,
     js_ready_head = 0, js_ready_tail = 0, js_ready_count = 0\<rparr>"

definition app_job_state_reset :: "AppJobState \<Rightarrow> buf_heap \<Rightarrow> AppJobState \<times> buf_heap" where
  "app_job_state_reset st h =
     (app_job_state_init, foldl (\<lambda>g job. snd (app_job_release_job job g)) h (js_ready_queue st))"

definition app_job_enqueue :: "AppJobState \<Rightarrow> delivered \<Rightarrow> buf_heap \<Rightarrow> bool \<times> AppJobState \<times> buf_heap" where
  "app_job_enqueue st del h =
     (if js_ready_count st \<ge> APP_JOB_READY_QUEUE_CAPACITY then (False, st, h)
      else let i = js_ready_tail st;
               h0 = snd (app_job_release_job (js_ready_queue st ! i) h);
               (ok, job, h1) = app_job_load_from_normal zero_job del h0;
               st1 = st\<lparr>js_ready_queue := (js_ready_queue st)[i := job]\<rparr>
           in if \<not> ok then (False, st1, h1)
              else (True, st1\<lparr>js_ready_tail := (i + 1) mod APP_JOB_READY_QUEUE_CAPACITY,
                      js_ready_count := js_ready_count st + 1\<rparr>, h1))"

text \<open>\<open>out_job\<close> is the caller's job, whose buffers are released first.\<close>

definition app_job_drain ::
  "AppJobState \<Rightarrow> AppConnectionJob \<Rightarrow> buf_heap \<Rightarrow> bool \<times> AppJobState \<times> AppConnectionJob \<times> buf_heap" where
  "app_job_drain st out_job h =
     (if js_ready_count st = 0 then (False, st, zero_job, snd (app_job_release_job out_job h))
      else let i = js_ready_head st; slot = js_ready_queue st ! i
           in (True, st\<lparr>js_ready_queue := (js_ready_queue st)[i := zero_job],
                js_ready_head := (i + 1) mod APP_JOB_READY_QUEUE_CAPACITY,
                js_ready_count := js_ready_count st - 1\<rparr>,
               slot, snd (app_job_release_job out_job h)))"

definition app_job_dispose :: "AppConnectionJob \<Rightarrow> buf_heap \<Rightarrow> AppConnectionJob \<times> buf_heap" where
  "app_job_dispose job h = (zero_job, snd (app_job_release_job job h))"

definition app_job_flush_buffer :: "AppConnectionJob \<Rightarrow> buf_heap \<Rightarrow> bool \<times> AppConnectionJob \<times> buf_heap" where
  "app_job_flush_buffer job h = (True, zero_job, snd (app_job_release_job job h))"

section \<open>The doubling loop ends\<close>

text \<open>
  From a positive capacity the loop returns: zero when doubling would pass \<open>SIZE_MAX\<close>, else the
  first capacity in the sequence that is enough.
\<close>

lemma grow_cap_returns:
  assumes "0 < c"
  shows "\<exists>r. grow_cap c m = Some r \<and>
    (r = 0 \<and> SIZE_MAX div 2 < m \<or> m \<le> r \<and> (r = c \<or> r < 2 * m \<and> c < r) \<and> (r = c \<or> r \<le> SIZE_MAX))"
  using assms
proof (induction "m - c" arbitrary: c rule: less_induct)
  case less
  show ?case
  proof (cases "c < m")
    case False
    then show ?thesis by (subst grow_cap.simps) auto
  next
    case True
    show ?thesis
    proof (cases "c > SIZE_MAX div 2")
      case True
      with \<open>c < m\<close> show ?thesis by (subst grow_cap.simps) auto
    next
      case small: False
      have eq: "grow_cap c m = grow_cap (c * 2) m"
        using True small by (subst grow_cap.simps) simp
      have "m - c * 2 < m - c" "0 < c * 2" using True less.prems by auto
      from less.hyps [OF this] obtain r where r: "grow_cap (c * 2) m = Some r"
        "r = 0 \<and> SIZE_MAX div 2 < m \<or> m \<le> r \<and> (r = c * 2 \<or> r < 2 * m \<and> c * 2 < r) \<and> (r = c * 2 \<or> r \<le> SIZE_MAX)"
        by auto
      moreover have "c * 2 \<le> SIZE_MAX" "c * 2 < 2 * m" using small True by auto
      ultimately show ?thesis using eq less.prems by auto
    qed
  qed
qed

lemma next_buffer_cap_returns:
  assumes "0 < block"
  shows "\<exists>r. app_job_next_buffer_cap cur m block = Some r \<and>
    (r = 0 \<and> SIZE_MAX div 2 < m \<or>
     m \<le> r \<and> max cur block \<le> r \<and> (r = max cur block \<or> r < 2 * m \<and> r \<le> SIZE_MAX))"
proof -
  have "app_job_next_buffer_cap cur m block = grow_cap (max cur block) m"
    using assms by (auto simp: app_job_next_buffer_cap_def max_def)
  moreover have "0 < max cur block" using assms by auto
  ultimately show ?thesis using grow_cap_returns [of "max cur block" m] by auto
qed

text \<open>From capacity zero with block size zero it never returns.\<close>

lemma grow_cap_positive: "grow_cap c m = Some r \<Longrightarrow> 0 < c \<or> m = 0"
  by (rule grow_cap.raw_induct [where P = "\<lambda>c m r. 0 < c \<or> m = 0"]) (fastforce split: if_splits)+

lemma grow_cap_from_zero: "0 < m \<Longrightarrow> grow_cap 0 m = None"
  using grow_cap_positive [of 0 m] by (cases "grow_cap 0 m") auto

lemma reserve_returns:
  assumes "0 < block"
  shows "\<exists>res. app_job_reserve_buffer b cap m block h = Some res"
  using next_buffer_cap_returns [OF assms, of cap m]
  by (auto simp: app_job_reserve_buffer_def split: option.splits prod.splits)

end
