(* ===== verification/Inbound.thy ===== *)
theory Inbound
  imports Digest_Legacy Policy Job
begin

text \<open>
  Who sent a job: \<open>siglatch/app/inbound/crypto/crypto.c\<close>, \<open>app/daemon/auth.c\<close>, \<open>app/daemon/request.c\<close>
  and \<open>app/daemon/policy.c\<close>. The configuration the lookups read, the heap that holds the payload
  of the job and OpenSSL are arguments; \<open>server\<close> is what the listener's server pointer points to.
\<close>

section \<open>siglatch/app/inbound/crypto/crypto.c\<close>

text \<open>\<open>ready\<close>: whether the OpenSSL context of the library is there with its file reader.\<close>

definition siglatch_openssl_session_init :: "bool \<Rightarrow> bool" where
  "siglatch_openssl_session_init ready = ready"

definition app_inbound_crypto_init_session_for_server ::
  "bool \<Rightarrow> siglatch_server \<Rightarrow> SiglatchOpenSSLSession \<Rightarrow> bool \<times> SiglatchOpenSSLSession" where
  "app_inbound_crypto_init_session_for_server ready server session =
     (if \<not> siglatch_openssl_session_init ready then (False, session)
      else if sv_secure server
      then (if sv_priv_key server = None then (False, session)
            else (True, session\<lparr>ss_private_key := sv_priv_key server\<rparr>))
      else (True, session\<lparr>ss_private_key := None\<rparr>))"

text \<open>\<open>memcpy\<close> of the whole destination, 64 bytes: beyond the 32 bytes of the user's key it reads on
  in the structure. Only the first \<open>hmac_key_len\<close> bytes are ever used, so the copy is the key.\<close>

definition app_inbound_crypto_assign_session_to_user ::
  "SiglatchOpenSSLSession \<Rightarrow> siglatch_user \<Rightarrow> SiglatchOpenSSLSession" where
  "app_inbound_crypto_assign_session_to_user session user =
     session\<lparr>ss_hmac_key := su_hmac_key user, ss_hmac_key_len := 32, ss_public_key := su_pubkey user\<rparr>"

definition job_payload :: "buf_heap \<Rightarrow> AppConnectionJob \<Rightarrow> u8 list" where
  "job_payload h job = bh_read (rq_payload_buffer (aj_request job)) (rq_payload_len (aj_request job)) h"

text \<open>The packets that the first two versions rebuild from the job.\<close>

definition job_packet_v1 :: "buf_heap \<Rightarrow> AppConnectionJob \<Rightarrow> KnockPacket" where
  "job_packet_v1 h job =
     (let rq = aj_request job
      in \<lparr>kp_version = ucast (aj_wire_version job), kp_timestamp = aj_timestamp job,
          kp_user_id = rq_user_id rq, kp_action_id = rq_action_id rq, kp_challenge = rq_challenge rq,
          kp_hmac = replicate 32 0, kp_payload_len = word_of_nat (rq_payload_len rq),
          kp_payload = payload_array KNOCK_PAYLOAD_SIZE (job_payload h job)\<rparr>)"

definition job_packet_v2 :: "buf_heap \<Rightarrow> AppConnectionJob \<Rightarrow> SharedKnockCodecV2Form1Packet" where
  "job_packet_v2 h job =
     (let rq = aj_request job
      in \<lparr>p2_outer = \<lparr>px_magic = SHARED_KNOCK_PREFIX_MAGIC, px_version = aj_wire_version job,
            px_form = aj_wire_form job\<rparr>,
          p2_inner = \<lparr>i2_timestamp = aj_timestamp job, i2_user_id = rq_user_id rq,
            i2_action_id = rq_action_id rq, i2_challenge = rq_challenge rq, i2_hmac = rq_hmac rq,
            i2_payload_len = word_of_nat (rq_payload_len rq)\<rparr>,
          p2_payload = payload_array SHARED_KNOCK_CODEC_V2_FORM1_PAYLOAD_MAX (job_payload h job)\<rparr>)"

definition app_inbound_crypto_validate_signature_v1 ::
  "evp \<Rightarrow> bool \<Rightarrow> buf_heap \<Rightarrow> SiglatchOpenSSLSession \<Rightarrow> AppConnectionJob \<Rightarrow> bool" where
  "app_inbound_crypto_validate_signature_v1 E has_openssl h session job =
     (if rq_payload_len (aj_request job) > KNOCK_PAYLOAD_SIZE then False
      else case shared_knock_digest_generate E has_openssl (job_packet_v1 h job) of
        None \<Rightarrow> False
      | Some digest \<Rightarrow>
          shared_knock_digest_validate E (ss_hmac_key session) digest (rq_hmac (aj_request job)))"

definition app_inbound_crypto_validate_signature_v2 ::
  "evp \<Rightarrow> buf_heap \<Rightarrow> SiglatchOpenSSLSession \<Rightarrow> AppConnectionJob \<Rightarrow> bool" where
  "app_inbound_crypto_validate_signature_v2 E h session job =
     (if rq_payload_len (aj_request job) > SHARED_KNOCK_CODEC_V2_FORM1_PAYLOAD_MAX then False
      else case shared_knock_digest_generate_v2_form1 E (job_packet_v2 h job) of
        None \<Rightarrow> False
      | Some digest \<Rightarrow>
          shared_knock_digest_validate E (ss_hmac_key session) digest (rq_hmac (aj_request job)))"

text \<open>The unit that the last two versions rebuild from the job.\<close>

definition job_unit :: "buf_heap \<Rightarrow> AppConnectionJob \<Rightarrow> SharedKnockNormalizedUnit" where
  "job_unit h job = zero_unit\<lparr>nu_wire_version := aj_wire_version job, nu_wire_form := aj_wire_form job,
     nu_timestamp := aj_timestamp job, nu_user_id := rq_user_id (aj_request job),
     nu_action_id := rq_action_id (aj_request job), nu_challenge := rq_challenge (aj_request job),
     nu_payload := job_payload h job, nu_hmac := rq_hmac (aj_request job)\<rparr>"

definition app_inbound_crypto_validate_signature_v3 ::
  "evp \<Rightarrow> bool \<Rightarrow> buf_heap \<Rightarrow> SiglatchOpenSSLSession \<Rightarrow> AppConnectionJob \<Rightarrow> bool" where
  "app_inbound_crypto_validate_signature_v3 E has_openssl h session job =
     (if rq_payload_len (aj_request job) > SHARED_KNOCK_NORMALIZED_PAYLOAD_MAX then False
      else case shared_knock_digest_generate_v3_form1 E has_openssl (job_unit h job) of
        None \<Rightarrow> False
      | Some digest \<Rightarrow>
          shared_knock_digest_validate E (ss_hmac_key session) digest (rq_hmac (aj_request job)))"

definition app_inbound_crypto_validate_signature_v4 ::
  "evp \<Rightarrow> bool \<Rightarrow> buf_heap \<Rightarrow> SiglatchOpenSSLSession \<Rightarrow> AppConnectionJob \<Rightarrow> bool" where
  "app_inbound_crypto_validate_signature_v4 E has_openssl h session job =
     (if rq_payload_len (aj_request job) > SHARED_KNOCK_NORMALIZED_PAYLOAD_MAX then False
      else case shared_knock_digest_generate_v4_form1 E has_openssl (job_unit h job) of
        None \<Rightarrow> False
      | Some digest \<Rightarrow>
          shared_knock_digest_validate E (ss_hmac_key session) digest (rq_hmac (aj_request job)))"

definition SHARED_KNOCK_CODEC_V1_VERSION :: u32 where "SHARED_KNOCK_CODEC_V1_VERSION = 1"

definition app_inbound_crypto_validate_signature ::
  "evp \<Rightarrow> bool \<Rightarrow> buf_heap \<Rightarrow> SiglatchOpenSSLSession \<Rightarrow> AppConnectionJob \<Rightarrow> bool" where
  "app_inbound_crypto_validate_signature E has_openssl h session job =
     (let v = aj_wire_version job
      in if v = SHARED_KNOCK_CODEC_V1_VERSION \<or> v = 0
         then app_inbound_crypto_validate_signature_v1 E has_openssl h session job
         else if v = SHARED_KNOCK_CODEC_V2_WIRE_VERSION
         then app_inbound_crypto_validate_signature_v2 E h session job
         else if v = SHARED_KNOCK_CODEC_V3_WIRE_VERSION
         then app_inbound_crypto_validate_signature_v3 E has_openssl h session job
         else if v = SHARED_KNOCK_CODEC_V4_WIRE_VERSION
         then app_inbound_crypto_validate_signature_v4 E has_openssl h session job
         else False)"

section \<open>siglatch/app/daemon/auth.c and request.c\<close>

definition app_daemon_auth_authorize ::
  "evp \<Rightarrow> bool \<Rightarrow> siglatch_config option \<Rightarrow> buf_heap \<Rightarrow> SiglatchOpenSSLSession \<Rightarrow> AppConnectionJob \<Rightarrow>
   bool \<times> SiglatchOpenSSLSession \<times> AppConnectionJob" where
  "app_daemon_auth_authorize E has_openssl cfg h session job0 =
     (let job = job0\<lparr>aj_wire_auth := False\<rparr>
      in if aj_wire_version job = 0 then (True, session, job\<lparr>aj_wire_auth := True\<rparr>)
         else case config_user_by_id_from_ptr cfg (ucast (rq_user_id (aj_request job))) of
           None \<Rightarrow> (False, session, job)
         | Some user \<Rightarrow>
             (let s1 = app_inbound_crypto_assign_session_to_user session user
              in if \<not> app_inbound_crypto_validate_signature E has_openssl h s1 job then (False, s1, job)
                 else (True, s1, job\<lparr>aj_wire_auth := True\<rparr>)))"

definition app_daemon_request_resolve_user_action ::
  "siglatch_config option \<Rightarrow> AppConnectionJob \<Rightarrow> (siglatch_user \<times> siglatch_action) option" where
  "app_daemon_request_resolve_user_action cfg job =
     (case (config_user_by_id_from_ptr cfg (ucast (rq_user_id (aj_request job))),
            config_action_by_id_from_ptr cfg (ucast (rq_action_id (aj_request job)))) of
        (Some u, Some a) \<Rightarrow> Some (u, a)
      | _ \<Rightarrow> None)"

definition app_daemon_request_bind_user_action ::
  "siglatch_config option \<Rightarrow> siglatch_server option \<Rightarrow> AppConnectionJob \<Rightarrow> SiglatchOpenSSLSession \<Rightarrow>
   (siglatch_user \<times> siglatch_action) option \<times> SiglatchOpenSSLSession" where
  "app_daemon_request_bind_user_action cfg server job session =
     (if server = None then (None, session)
      else case config_user_by_id_from_ptr cfg (ucast (rq_user_id (aj_request job))) of
        None \<Rightarrow> (None, session)
      | Some user \<Rightarrow>
          (let s1 = app_inbound_crypto_assign_session_to_user session user
           in case config_action_by_id_from_ptr cfg (ucast (rq_action_id (aj_request job))) of
                None \<Rightarrow> (None, s1)
              | Some action \<Rightarrow> (Some (user, action), s1)))"

section \<open>siglatch/app/daemon/policy.c\<close>

text \<open>The branches after a refused address only choose what is logged.\<close>

definition app_daemon_policy_enforce ::
  "siglatch_config option \<Rightarrow> siglatch_server option \<Rightarrow> AppConnectionJob \<Rightarrow> siglatch_user \<Rightarrow> siglatch_action \<Rightarrow> bool" where
  "app_daemon_policy_enforce cfg server job user action =
     (case server of
        None \<Rightarrow> False
      | Some sv \<Rightarrow>
          if \<not> server_action_available sv (sa_name action) then False
          else if \<not> config_action_available_by_user cfg (ucast (rq_user_id (aj_request job))) (sa_name action)
          then False
          else if \<not> sa_enabled action then False
          else if \<not> aj_wire_auth job \<and> sa_enforce_wire_auth action then False
          else if \<not> app_policy_request_ip_allowed sv user action (aj_ip job) then False
          else True)"

section \<open>What passes\<close>

text \<open>The digest of what a job carries, by its wire version.\<close>

definition job_digest :: "evp \<Rightarrow> bool \<Rightarrow> buf_heap \<Rightarrow> AppConnectionJob \<Rightarrow> u8 list option" where
  "job_digest E has_openssl h job =
     (if aj_wire_version job = 1 then shared_knock_digest_generate E has_openssl (job_packet_v1 h job)
      else if aj_wire_version job = 0x00020000 then shared_knock_digest_generate_v2_form1 E (job_packet_v2 h job)
      else if aj_wire_version job = 0x00030000
      then shared_knock_digest_generate_v3_form1 E has_openssl (job_unit h job)
      else shared_knock_digest_generate_v4_form1 E has_openssl (job_unit h job))"

text \<open>The signature of the job is the HMAC of its digest under the user's key.\<close>

definition signed_by :: "evp \<Rightarrow> bool \<Rightarrow> buf_heap \<Rightarrow> siglatch_user \<Rightarrow> AppConnectionJob \<Rightarrow> bool" where
  "signed_by E has_openssl h user job \<longleftrightarrow>
     aj_wire_version job \<in> {1, 0x00020000, 0x00030000, 0x00040000} \<and>
     (\<exists>digest. job_digest E has_openssl h job = Some digest \<and>
        EVP_MAC_hmac_sha256 E (take 32 (su_hmac_key user)) (take 32 digest) =
          Some (take 32 (rq_hmac (aj_request job))))"

lemma digest_validateD:
  "shared_knock_digest_validate E key digest sig \<Longrightarrow> EVP_MAC_hmac_sha256 E (take 32 key) (take 32 digest) = Some (take 32 sig)"
  by (auto simp: shared_knock_digest_validate_def split: option.splits)

lemmas validate_defs = app_inbound_crypto_validate_signature_v1_def
  app_inbound_crypto_validate_signature_v2_def app_inbound_crypto_validate_signature_v3_def
  app_inbound_crypto_validate_signature_v4_def

lemmas wire_versions = SHARED_KNOCK_CODEC_V1_VERSION_def SHARED_KNOCK_CODEC_V2_WIRE_VERSION_def
  SHARED_KNOCK_CODEC_V3_WIRE_VERSION_def SHARED_KNOCK_CODEC_V4_WIRE_VERSION_def

lemma validate_signatureD:
  assumes "app_inbound_crypto_validate_signature E has h (app_inbound_crypto_assign_session_to_user s user) job"
    "aj_wire_version job \<noteq> 0"
  shows "signed_by E has h user job"
  using assms
  by (auto simp: app_inbound_crypto_validate_signature_def validate_defs wire_versions signed_by_def Let_def
      job_digest_def app_inbound_crypto_assign_session_to_user_def
      dest!: digest_validateD split: if_splits option.splits)

text \<open>The signature does not depend on what was in the session before, nor on \<open>wire_auth\<close>.\<close>

lemma authorize_spec:
  assumes "app_daemon_auth_authorize E has cfg h s job = (ok, s', job')"
  shows "aj_request job' = aj_request job" "aj_ip job' = aj_ip job" "aj_wire_version job' = aj_wire_version job"
    "aj_wire_auth job' = ok" "job' = job\<lparr>aj_wire_auth := ok\<rparr>"
    "ok \<Longrightarrow> aj_wire_version job \<noteq> 0 \<Longrightarrow>
       \<exists>user. config_user_by_id_from_ptr cfg (ucast (rq_user_id (aj_request job))) = Some user \<and>
              signed_by E has h user job' \<and> s' = app_inbound_crypto_assign_session_to_user s user"
proof -
  have sb: "signed_by E has h u (job\<lparr>aj_wire_auth := b\<rparr>) = signed_by E has h u job" for u b
    by (simp add: signed_by_def job_digest_def job_unit_def job_packet_v1_def job_packet_v2_def job_payload_def)
  show "aj_request job' = aj_request job" "aj_ip job' = aj_ip job" "aj_wire_version job' = aj_wire_version job"
    "aj_wire_auth job' = ok" "job' = job\<lparr>aj_wire_auth := ok\<rparr>"
    using assms by (auto simp: app_daemon_auth_authorize_def Let_def split: if_splits option.splits)
  show "\<exists>user. config_user_by_id_from_ptr cfg (ucast (rq_user_id (aj_request job))) = Some user \<and>
      signed_by E has h user job' \<and> s' = app_inbound_crypto_assign_session_to_user s user"
    if "ok" "aj_wire_version job \<noteq> 0"
    using assms that validate_signatureD [of E has h s _ "job\<lparr>aj_wire_auth := False\<rparr>"]
    by (auto simp: app_daemon_auth_authorize_def Let_def sb split: if_splits option.splits)
qed

lemma bind_spec:
  assumes "app_daemon_request_bind_user_action cfg server job s = (Some (user, action), s')"
  shows "server \<noteq> None" "config_user_by_id_from_ptr cfg (ucast (rq_user_id (aj_request job))) = Some user"
    "config_action_by_id_from_ptr cfg (ucast (rq_action_id (aj_request job))) = Some action"
    "s' = app_inbound_crypto_assign_session_to_user s user"
  using assms by (auto simp: app_daemon_request_bind_user_action_def Let_def split: if_splits option.splits)

lemma enforce_spec:
  assumes "app_daemon_policy_enforce cfg server job user action"
  shows "\<exists>sv. server = Some sv \<and> sa_name action \<in> set (sv_actions sv) \<and>
    config_action_available_by_user cfg (ucast (rq_user_id (aj_request job))) (sa_name action) \<and>
    sa_enabled action \<and> (sa_enforce_wire_auth action \<longrightarrow> aj_wire_auth job) \<and>
    app_policy_request_ip_allowed sv user action (aj_ip job)"
  using assms
  by (auto simp: app_daemon_policy_enforce_def server_action_available_def list_ex_iff split: option.splits if_splits)

end
