(* ===== verification/Codec_V2_Facts.thy ===== *)
theory Codec_V2_Facts
  imports Codec_V2
begin

text \<open>
  What the V2 codec guarantees: a packet that one side encodes, in the clear or encrypted, is
  detected and decoded by the other within the clock window; its adapter keeps the contract of the
  mux; its copies of the replay cache and of the record conversions are those of V4.
\<close>

section \<open>Shared with the V4 codec\<close>

lemma v2_copies_v4:
  "shared_knock_codec_v2_packet_nonce_accept = shared_knock_codec_v4_packet_nonce_accept"
  "shared_knock_codec_v2_copy_recv_packet = shared_knock_codec_v4_copy_recv_packet"
  "shared_knock_codec_v2_copy_send_packet = shared_knock_codec_v4_copy_send_packet"
  "shared_knock_codec_v2_create_state = shared_knock_codec_v4_create_state"
proof -
  have ttl: "shared_knock_codec_v2_nonce_ttl = shared_knock_codec_v4_nonce_ttl"
    by (intro ext) (simp add: shared_knock_codec_v2_nonce_ttl_def shared_knock_codec_v4_nonce_ttl_def)
  have sync: "shared_knock_codec_v2_sync_nonce_cache = shared_knock_codec_v4_sync_nonce_cache"
    by (intro ext)
      (simp add: shared_knock_codec_v2_sync_nonce_cache_def shared_knock_codec_v4_sync_nonce_cache_def ttl)
  show "shared_knock_codec_v2_packet_nonce_accept = shared_knock_codec_v4_packet_nonce_accept"
    by (intro ext)
      (simp add: shared_knock_codec_v2_packet_nonce_accept_def shared_knock_codec_v4_packet_nonce_accept_def sync)
  show "shared_knock_codec_v2_create_state = shared_knock_codec_v4_create_state"
    by (intro ext) (simp add: shared_knock_codec_v2_create_state_def shared_knock_codec_v4_create_state_def sync)
qed (intro ext; simp add: shared_knock_codec_v2_copy_recv_packet_def shared_knock_codec_v4_copy_recv_packet_def
    shared_knock_codec_v2_copy_send_packet_def shared_knock_codec_v4_copy_send_packet_def)+

section \<open>Documented behaviour of RSA\<close>

text \<open>A ciphertext has the size of the key, and the keys of a pair have the same size.\<close>

definition rsa_lengths :: "evp \<Rightarrow> EVP_PKEY \<Rightarrow> EVP_PKEY \<Rightarrow> bool" where
  "rsa_lengths E pub priv \<longleftrightarrow> EVP_PKEY_get_size E priv = EVP_PKEY_get_size E pub \<and>
     (\<forall>r msg ct. EVP_PKEY_encrypt E pub r msg = Some ct \<longrightarrow> length ct = EVP_PKEY_get_size E pub)"

lemma rsa_whole_packet_decrypts:
  assumes "rsa_pair E pub priv" "rsa_lengths E pub priv"
    and "context_session client = Some s" "ss_public_key s = Some pub"
    and "rsa_whole_packet E client packed capacity r = (Some bytes, r')"
  shows "EVP_PKEY_decrypt E priv bytes = Inr packed" "length bytes = EVP_PKEY_get_size E priv"
    "length packed + 11 \<le> EVP_PKEY_get_size E priv"
  using assms
  by (auto simp: rsa_whole_packet_def rsa_pair_def rsa_lengths_def siglatch_openssl_session_encrypt_def Let_def
      split: if_splits)

section \<open>What is encoded is detected and decoded\<close>

definition v2_wire :: "SharedKnockNormalizedUnit \<Rightarrow> u8 list \<Rightarrow> u8 list" where
  "v2_wire normal hmac =
     write_u32_be SHARED_KNOCK_PREFIX_MAGIC @ write_u32_be SHARED_KNOCK_CODEC_V2_WIRE_VERSION @
     [SHARED_KNOCK_CODEC_FORM1_ID] @ write_u32_be (nu_timestamp normal) @
     write_u16_be (nu_user_id normal) @ [nu_action_id normal] @ write_u32_be (nu_challenge normal) @
     hmac @ write_u16_be (word_of_nat (length (nu_payload normal))) @
     payload_array SHARED_KNOCK_CODEC_V2_FORM1_PAYLOAD_MAX (nu_payload normal)"

definition v2_delivered ::
  "SharedKnockNormalizedUnit \<Rightarrow> u8 list \<Rightarrow> string \<Rightarrow> u16 \<Rightarrow> SharedKnockNormalizedUnit" where
  "v2_delivered normal hmac ip client_port = zero_unit
     \<lparr>nu_complete := True, nu_wire_version := SHARED_KNOCK_CODEC_V2_WIRE_VERSION,
      nu_wire_form := SHARED_KNOCK_CODEC_FORM1_ID, nu_fragment_count := 1,
      nu_timestamp := nu_timestamp normal, nu_user_id := nu_user_id normal,
      nu_action_id := nu_action_id normal, nu_challenge := nu_challenge normal, nu_hmac := hmac,
      nu_ip := cstr63 ip, nu_client_port := client_port, nu_encrypted := nu_encrypted normal,
      nu_payload := nu_payload normal\<rparr>"

definition clock_near :: "int \<Rightarrow> u32 \<Rightarrow> bool" where
  "clock_near now timestamp \<longleftrightarrow> \<bar>uint timestamp - now\<bar> \<le> 300"

lemma length_payload_array [simp]: "length bs \<le> n \<Longrightarrow> length (payload_array n bs) = n"
  by (simp add: payload_array_def)

lemma take_payload_array [simp]: "take (length bs) (payload_array n bs) = bs"
  by (simp add: payload_array_def)

lemma v2_wire_length: "length (nu_payload normal) \<le> 191 \<Longrightarrow> length hmac = 32 \<Longrightarrow> length (v2_wire normal hmac) = 245"
  by (simp add: v2_wire_def v2_sizes)

lemma v2_unpack_wire:
  assumes "length (nu_payload normal) \<le> 191" "length hmac = 32"
  shows "shared_knock_codec_v2_unpack_wire (v2_wire normal hmac) p0 = (SL_PAYLOAD_OK,
    \<lparr>p2_outer = \<lparr>px_magic = SHARED_KNOCK_PREFIX_MAGIC, px_version = SHARED_KNOCK_CODEC_V2_WIRE_VERSION,
       px_form = SHARED_KNOCK_CODEC_FORM1_ID\<rparr>,
     p2_inner = \<lparr>i2_timestamp = nu_timestamp normal, i2_user_id = nu_user_id normal,
       i2_action_id = nu_action_id normal, i2_challenge = nu_challenge normal, i2_hmac = hmac,
       i2_payload_len = word_of_nat (length (nu_payload normal))\<rparr>,
     p2_payload = payload_array 191 (nu_payload normal)\<rparr>)"
proof -
  let ?b = "v2_wire normal hmac"
  have "read_u32_be ?b 0 = SHARED_KNOCK_PREFIX_MAGIC" "read_u32_be ?b 4 = SHARED_KNOCK_CODEC_V2_WIRE_VERSION"
    "?b ! 8 = SHARED_KNOCK_CODEC_FORM1_ID" "read_u32_be ?b 9 = nu_timestamp normal"
    "read_u16_be ?b 13 = nu_user_id normal" "?b ! 15 = nu_action_id normal"
    "read_u32_be ?b 16 = nu_challenge normal" "slice 20 32 ?b = hmac"
    "read_u16_be ?b 52 = word_of_nat (length (nu_payload normal))"
    "slice 54 191 ?b = payload_array 191 (nu_payload normal)"
    unfolding v2_wire_def using assms by (simp_all add: wire_simps v2_sizes)
  with v2_wire_length [OF assms] show ?thesis
    by (simp add: shared_knock_codec_v2_unpack_wire_def v2_sizes)
qed

lemma v2_normalize_wire:
  assumes "length (nu_payload normal) \<le> 191" "length hmac = 32" "clock_near now (nu_timestamp normal)"
  shows "shared_knock_codec_v2_normalize now (v2_wire normal hmac) ip client_port enc out =
      (SL_PAYLOAD_OK, (v2_delivered normal hmac ip client_port)\<lparr>nu_encrypted := enc\<rparr>)"
    "fst (shared_knock_codec_v2_deserialize_wire now (v2_wire normal hmac) p0) = SL_PAYLOAD_OK"
proof -
  have len: "unat (word_of_nat (length (nu_payload normal)) :: u16) = length (nu_payload normal)"
    using assms(1) by (intro unat_len_u16) simp
  have ds: "shared_knock_codec_v2_deserialize_wire now (v2_wire normal hmac) p0 =
      shared_knock_codec_v2_unpack_wire (v2_wire normal hmac) p0" for p0
    using assms len
    by (simp add: shared_knock_codec_v2_deserialize_wire_def v2_unpack_wire shared_knock_codec_v2_validate_wire_def
        v2_sizes payload_codes clock_near_def abs_le_iff)
  then show "fst (shared_knock_codec_v2_deserialize_wire now (v2_wire normal hmac) p0) = SL_PAYLOAD_OK"
    using assms by (simp add: v2_unpack_wire)
  show "shared_knock_codec_v2_normalize now (v2_wire normal hmac) ip client_port enc out =
      (SL_PAYLOAD_OK, (v2_delivered normal hmac ip client_port)\<lparr>nu_encrypted := enc\<rparr>)"
    using assms len
    by (simp add: shared_knock_codec_v2_normalize_def ds v2_unpack_wire v2_delivered_def buffer_sizes)
qed

lemma v2_encode_Some:
  assumes e: "shared_knock_codec_v2_encode E context normal capacity r = (Some bytes, r')"
    and h: "length (nu_hmac normal) = 32"
  obtains hmac where "length hmac = 32" "\<not> nu_wire_auth normal \<longrightarrow> hmac = nu_hmac normal"
    "length (nu_payload normal) \<le> 191"
    "if nu_encrypted normal then rsa_whole_packet E context (v2_wire normal hmac) capacity r = (Some bytes, r')
     else bytes = v2_wire normal hmac"
proof -
  let ?w = "\<lparr>p2_outer = \<lparr>px_magic = SHARED_KNOCK_PREFIX_MAGIC,
      px_version = SHARED_KNOCK_CODEC_V2_WIRE_VERSION, px_form = SHARED_KNOCK_CODEC_FORM1_ID\<rparr>,
    p2_inner = \<lparr>i2_timestamp = nu_timestamp normal, i2_user_id = nu_user_id normal,
      i2_action_id = nu_action_id normal, i2_challenge = nu_challenge normal,
      i2_hmac = replicate 32 0, i2_payload_len = word_of_nat (length (nu_payload normal))\<rparr>,
    p2_payload = payload_array SHARED_KNOCK_CODEC_V2_FORM1_PAYLOAD_MAX (nu_payload normal)\<rparr>"
  have pl: "length (nu_payload normal) \<le> 191"
    using e by (auto simp: shared_knock_codec_v2_encode_def v2_sizes split: if_splits)
  obtain hmac where hm: "v2_packet_hmac E context normal ?w = Some hmac"
    using e by (auto simp: shared_knock_codec_v2_encode_def Let_def split: if_splits option.splits)
  have hl: "length hmac = 32" "\<not> nu_wire_auth normal \<longrightarrow> hmac = nu_hmac normal"
    using hm h by (auto simp: v2_packet_hmac_def shared_knock_digest_sign_def split: if_splits option.splits)
  have len: "unat (word_of_nat (length (nu_payload normal)) :: u16) = length (nu_payload normal)"
    using pl by (intro unat_len_u16) simp
  have pk: "shared_knock_codec_v2_pack (?w\<lparr>p2_inner := (p2_inner ?w)\<lparr>i2_hmac := hmac\<rparr>\<rparr>)
      (replicate SHARED_KNOCK_CODEC_V2_FORM1_PACKET_SIZE 0) = (245, v2_wire normal hmac)"
    using pl hl len v2_wire_length [OF pl hl(1)]
    by (simp add: shared_knock_codec_v2_pack_def v2_wire_def v2_sizes write_at_def)
  note run = e [unfolded shared_knock_codec_v2_encode_def Let_def hm option.case pk prod.case]
  have "if nu_encrypted normal then rsa_whole_packet E context (v2_wire normal hmac) capacity r = (Some bytes, r')
     else bytes = v2_wire normal hmac"
    using run by (auto split: if_splits)
  with that hl pl show thesis by blast
qed

lemma v2_codec_roundtrip:
  assumes rsa: "rsa_pair E pub priv" "rsa_lengths E pub priv"
    and client: "context_session client = Some s" "ss_public_key s = Some pub"
    and server: "server_private_key (Some server) = Some priv" "cx_server_secure server \<longrightarrow> nu_encrypted normal"
    and e: "shared_knock_codec_v2_encode E client normal capacity r = (Some bytes, r')"
    and h: "length (nu_hmac normal) = 32" and now: "clock_near now (nu_timestamp normal)"
    and ing: "in_buffer ingress = bytes"
  shows "\<exists>hmac idn'. (\<not> nu_wire_auth normal \<longrightarrow> hmac = nu_hmac normal) \<and>
    shared_knock_codec_v2_detect E (Some server) now True (Some st) ingress idn = (True, idn') \<and>
    id_encrypted idn' = nu_encrypted normal \<and>
    shared_knock_codec_v2_decode E (Some server) now True (Some st)
      (ingress\<lparr>in_encrypted := id_encrypted idn'\<rparr>) out =
      (True, v2_delivered normal hmac (in_ip ingress) (in_client_port ingress))"
proof -
  obtain hmac where hm: "length hmac = 32" "\<not> nu_wire_auth normal \<longrightarrow> hmac = nu_hmac normal"
    and pl: "length (nu_payload normal) \<le> 191"
    and b: "if nu_encrypted normal then rsa_whole_packet E client (v2_wire normal hmac) capacity r = (Some bytes, r')
      else bytes = v2_wire normal hmac"
    by (rule v2_encode_Some [OF e h])
  let ?w = "v2_wire normal hmac"
  note norm = v2_normalize_wire [OF pl hm(1) now] and wl = v2_wire_length [OF pl hm(1)]
  have dl: "(v2_delivered normal hmac ip port)\<lparr>nu_encrypted := nu_encrypted normal\<rparr> =
      v2_delivered normal hmac ip port" for ip port by (simp add: v2_delivered_def)
  have ds: "\<exists>pkt. shared_knock_codec_v2_deserialize_wire now ?w p0 = (SL_PAYLOAD_OK, pkt)" for p0
    using norm(2) [of p0] by (metis prod.collapse)
  have dec: "shared_knock_codec_v2_decode E (Some server) now True (Some st)
      (ingress\<lparr>in_encrypted := nu_encrypted normal\<rparr>) out =
      (True, v2_delivered normal hmac (in_ip ingress) (in_client_port ingress))"
    if "(if nu_encrypted normal then v2_decrypted E (Some server) True bytes else Some bytes) = Some ?w"
  proof -
    have n: "shared_knock_codec_v2_normalize now ?w (in_ip ingress) (in_client_port ingress) (nu_encrypted normal) out =
        (SL_PAYLOAD_OK, v2_delivered normal hmac (in_ip ingress) (in_client_port ingress))"
      by (simp only: norm(1) dl)
    have p: "(if in_encrypted (ingress\<lparr>in_encrypted := nu_encrypted normal\<rparr>) then v2_decrypted E (Some server) True
        (in_buffer (ingress\<lparr>in_encrypted := nu_encrypted normal\<rparr>)) else
        Some (in_buffer (ingress\<lparr>in_encrypted := nu_encrypted normal\<rparr>))) = Some ?w"
      using that by (cases "nu_encrypted normal") (simp_all add: ing)
    show ?thesis
      unfolding shared_knock_codec_v2_decode_def Let_def p option.case
      using server(2) by (simp add: n)
  qed
  have "\<exists>idn'. shared_knock_codec_v2_detect E (Some server) now True (Some st) ingress idn = (True, idn') \<and>
      id_encrypted idn' = nu_encrypted normal \<and>
      (if nu_encrypted normal then v2_decrypted E (Some server) True bytes else Some bytes) = Some ?w"
  proof (cases "nu_encrypted normal")
    case False
    then have b: "bytes = ?w" using b by simp
    obtain pkt where p: "shared_knock_codec_v2_deserialize_wire now ?w zero_v2_packet = (SL_PAYLOAD_OK, pkt)"
      using ds by blast
    show ?thesis
      unfolding shared_knock_codec_v2_detect_def Let_def ing b p prod.case using False wl by (simp add: v2_sizes)
  next
    case True
    then have "rsa_whole_packet E client ?w capacity r = (Some bytes, r')" using b by simp
    note d = rsa_whole_packet_decrypts [OF rsa client this]
    have plain: "v2_decrypted E (Some server) True bytes = Some ?w"
      using d server(1) wl by (simp add: v2_decrypted_def shared_knock_codec_v2_private_decrypt_def Let_def)
    obtain rc pkt1 where p1: "shared_knock_codec_v2_deserialize_wire now bytes zero_v2_packet = (rc, pkt1)"
      by fastforce
    obtain pkt where p: "shared_knock_codec_v2_deserialize_wire now ?w pkt1 = (SL_PAYLOAD_OK, pkt)" using ds by blast
    have "length bytes \<noteq> SHARED_KNOCK_CODEC_V2_FORM1_PACKET_SIZE" using d wl by (simp add: v2_sizes)
    then show ?thesis
      unfolding shared_knock_codec_v2_detect_def Let_def ing p1 prod.case plain option.case p
      using True wl plain by (simp add: v2_sizes)
  qed
  with dec hm(2) show ?thesis by metis
qed

section \<open>Only fresh packets\<close>

lemma v2_deserialize_fresh:
  assumes "shared_knock_codec_v2_deserialize_wire now buf p0 = (SL_PAYLOAD_OK, pkt)"
  shows "clock_near now (i2_timestamp (p2_inner pkt))" "length buf = 245"
    "px_version (p2_outer pkt) = SHARED_KNOCK_CODEC_V2_WIRE_VERSION"
  using assms
  by (auto simp: shared_knock_codec_v2_deserialize_wire_def shared_knock_codec_v2_unpack_wire_def
      shared_knock_codec_v2_validate_wire_def v2_sizes payload_codes clock_near_def abs_le_iff Let_def
      split: if_splits prod.splits)

lemma v2_normalize_ok:
  assumes "shared_knock_codec_v2_normalize now buf ip port enc out = (SL_PAYLOAD_OK, out')"
  shows "clock_near now (nu_timestamp out')" "nu_wire_version out' = SHARED_KNOCK_CODEC_V2_WIRE_VERSION"
    "nu_encrypted out' = enc" "length (nu_payload out') \<le> 191"
proof -
  obtain rc pkt where ds: "shared_knock_codec_v2_deserialize_wire now buf zero_v2_packet = (rc, pkt)" by fastforce
  have rc: "rc = SL_PAYLOAD_OK"
    using assms by (auto simp: shared_knock_codec_v2_normalize_def ds split: if_splits)
  note f = v2_deserialize_fresh [OF ds [unfolded rc]]
  have out: "nu_timestamp out' = i2_timestamp (p2_inner pkt)"
    "nu_wire_version out' = SHARED_KNOCK_CODEC_V2_WIRE_VERSION" "nu_encrypted out' = enc"
    "length (nu_payload out') \<le> length (p2_payload pkt)"
    using assms by (auto simp: shared_knock_codec_v2_normalize_def ds rc Let_def split: if_splits)
  have "length (p2_payload pkt) \<le> 191"
    using ds rc
    by (auto simp: shared_knock_codec_v2_deserialize_wire_def shared_knock_codec_v2_unpack_wire_def v2_sizes
        payload_codes Let_def split: if_splits prod.splits)
  with out f show "clock_near now (nu_timestamp out')" "nu_wire_version out' = SHARED_KNOCK_CODEC_V2_WIRE_VERSION"
    "nu_encrypted out' = enc" "length (nu_payload out') \<le> 191" by simp_all
qed

lemma v2_decode_ok:
  assumes "shared_knock_codec_v2_decode E context now ok st ingress out = (True, out')"
  shows "clock_near now (nu_timestamp out')" "nu_wire_version out' = SHARED_KNOCK_CODEC_V2_WIRE_VERSION"
    "nu_encrypted out' = in_encrypted ingress" "length (nu_payload out') \<le> 191"
    "\<forall>c. context = Some c \<longrightarrow> cx_server_secure c \<longrightarrow> nu_encrypted out'"
proof -
  obtain payload where n: "shared_knock_codec_v2_normalize now payload (in_ip ingress) (in_client_port ingress)
      (in_encrypted ingress) out = (SL_PAYLOAD_OK, out')"
    and s: "\<forall>c. context = Some c \<longrightarrow> cx_server_secure c \<longrightarrow> in_encrypted ingress"
    using assms
    by (auto simp: shared_knock_codec_v2_decode_def Let_def split: if_splits option.splits prod.splits)
  from v2_normalize_ok [OF n] s
  show "clock_near now (nu_timestamp out')" "nu_wire_version out' = SHARED_KNOCK_CODEC_V2_WIRE_VERSION"
    "nu_encrypted out' = in_encrypted ingress" "length (nu_payload out') \<le> 191"
    "\<forall>c. context = Some c \<longrightarrow> cx_server_secure c \<longrightarrow> nu_encrypted out'" by simp_all
qed

section \<open>The adapter keeps the contract of the mux\<close>

lemma v2_adapter_decode_heap:
  assumes "heap_ok h" "rp_user out = Some u" "u \<in> live h"
    "shared_knock_codec_v2_adapter_decode E context now ok st ingress control out h = (b, control', out', h')"
  shows "heap_ok h' \<and> live h' = live h \<and> rp_user out' = Some u"
proof -
  obtain d normal where d: "shared_knock_codec_v2_decode E context now ok st ingress zero_unit = (d, normal)"
    by fastforce
  obtain b1 o1 h1 where c: "shared_knock_codec_v4_copy_recv_packet normal out h = (b1, o1, h1)"
    by (metis prod_cases3)
  from v4_copy_recv_heap [OF assms(1-3) c] assms show ?thesis
    by (cases b1) (auto simp: shared_knock_codec_v2_adapter_decode_def v2_copies_v4 d c split: if_splits)
qed

lemma v2_adapter_decode_version:
  assumes "shared_knock_codec_v2_adapter_decode E context now ok st ingress control out h = (True, control', out', h')"
  shows "rp_wire_version out' = SHARED_KNOCK_CODEC_V2_WIRE_VERSION"
proof -
  obtain d normal where d: "shared_knock_codec_v2_decode E context now ok st ingress zero_unit = (d, normal)"
    by fastforce
  obtain b1 o1 h1 where c: "shared_knock_codec_v4_copy_recv_packet normal out h = (b1, o1, h1)"
    by (metis prod_cases3)
  have r: d b1 "out' = o1\<lparr>rp_received_ms := in_received_ms ingress\<rparr>"
    using assms by (auto simp: shared_knock_codec_v2_adapter_decode_def v2_copies_v4 d c split: if_splits bool.splits)
  have "nu_wire_version normal = SHARED_KNOCK_CODEC_V2_WIRE_VERSION"
    using v2_decode_ok(2) d r(1) by (metis (full_types))
  moreover have "rp_wire_version o1 = nu_wire_version normal"
    using c r(2) by (auto simp: shared_knock_codec_v4_copy_recv_packet_def zero_recv_def split: option.splits if_splits)
  ultimately show ?thesis using r(3) by simp
qed

interpretation v2_adapter: codec_adapter
  "(shared_knock_codec_v2_adapter E cx now c1 c2)\<lparr>ad_state := st\<rparr>"
  for E cx now c1 c2 st
  by unfold_locales
    (auto simp: shared_knock_codec_v2_adapter_def shared_knock_codec_v2_copy_user_recv_data_def
      shared_knock_codec_v2_adapter_encode_def
      SHARED_KNOCK_CODEC_V2_WIRE_VERSION_def [THEN arg_cong [where f = "\<lambda>w. w = 0"]]
      intro: fill_egress_fits v2_adapter_decode_version
      dest: v2_adapter_decode_heap split: option.splits prod.splits)

end
