(* ===== verification/Codec_V1.thy ===== *)
theory Codec_V1
  imports Codec_V2 Inbound Codec_V2_Facts
begin

text \<open>
  \<open>shared/knock/codec/v1/v1.c\<close>: the first format, a packed structure of 245 bytes sent as it lies in
  memory, in the clear or encrypted as a whole with the server's RSA key.

  The code casts between \<open>SharedKnockCodecV1Packet\<close> and \<open>KnockPacket\<close>, which have the same fields, so
  one record stands for both. \<open>context\<close> is the file's static \<open>g_context\<close>, \<open>now\<close> what \<open>time\<close> returns,
  \<open>calloc_ok\<close> whether the buffer for the plaintext can be allocated.
\<close>

section \<open>Layout\<close>

definition SHARED_KNOCK_CODEC_V1_PAYLOAD_MAX :: nat where
  "SHARED_KNOCK_CODEC_V1_PAYLOAD_MAX = 199"
definition SHARED_KNOCK_CODEC_V1_PACKET_SIZE :: nat where
  "SHARED_KNOCK_CODEC_V1_PACKET_SIZE = 245"
definition SHARED_KNOCK_CODEC_V1_TIMESTAMP_FUZZ :: int where
  "SHARED_KNOCK_CODEC_V1_TIMESTAMP_FUZZ = 300"

lemmas v1_sizes = SHARED_KNOCK_CODEC_V1_PACKET_SIZE_def SHARED_KNOCK_CODEC_V1_PAYLOAD_MAX_def
  SHARED_KNOCK_CODEC_V1_TIMESTAMP_FUZZ_def KNOCK_PAYLOAD_SIZE_def

definition zero_v1_packet :: KnockPacket where
  "zero_v1_packet = \<lparr>kp_version = 0, kp_timestamp = 0, kp_user_id = 0, kp_action_id = 0, kp_challenge = 0,
     kp_hmac = replicate 32 0, kp_payload_len = 0, kp_payload = replicate KNOCK_PAYLOAD_SIZE 0\<rparr>"

text \<open>Integers as they lie in memory, and how \<open>memcpy\<close> into the structure reads them.\<close>

definition read_mem_u16 :: "u8 list \<Rightarrow> nat \<Rightarrow> u16" where
  "read_mem_u16 buf off = read_u16_be (rev (slice off 2 buf)) 0"
definition read_mem_u32 :: "u8 list \<Rightarrow> nat \<Rightarrow> u32" where
  "read_mem_u32 buf off = read_u32_be (rev (slice off 4 buf)) 0"

section \<open>The keys of the users\<close>

text \<open>The first entry in use that has a name and the user id.\<close>

definition shared_knock_codec_v1_keychain_entry_for_user_id ::
  "SharedKnockCodecContext option \<Rightarrow> u32 \<Rightarrow> SharedKnockCodecKeyEntry option" where
  "shared_knock_codec_v1_keychain_entry_for_user_id context user_id =
     (case context of
        None \<Rightarrow> None
      | Some c \<Rightarrow> find (\<lambda>entry. ke_name entry \<noteq> None \<and> ke_user_id entry = user_id)
                    (take (cx_keychain_len c) (cx_keychain c)))"

section \<open>The nonce cache\<close>

definition shared_knock_codec_v1_nonce_ttl :: "SharedKnockCodecContext option \<Rightarrow> int" where
  "shared_knock_codec_v1_nonce_ttl context =
     (case context of
        Some c \<Rightarrow>
          (if cx_nonce_window_ms c > 0
           then (let ttl = uint (cx_nonce_window_ms c div 1000)
                 in if ttl \<le> 0 then NONCE_DEFAULT_TTL_SECONDS else ttl)
           else NONCE_DEFAULT_TTL_SECONDS)
      | None \<Rightarrow> NONCE_DEFAULT_TTL_SECONDS)"

definition shared_knock_codec_v1_sync_nonce_cache ::
  "SharedKnockCodecContext option \<Rightarrow> bool \<Rightarrow> SharedKnockCodecState \<Rightarrow> bool \<times> SharedKnockCodecState" where
  "shared_knock_codec_v1_sync_nonce_cache context alloc_ok state =
     (let cfg = \<lparr>nf_capacity = NONCE_DEFAULT_CAPACITY, nf_nonce_strlen = NONCE_DEFAULT_STRLEN,
            nf_ttl_seconds = shared_knock_codec_v1_nonce_ttl context\<rparr>
      in if cs_nonce_ready state \<and> nc_capacity (cs_nonce state) = nf_capacity cfg \<and>
            nc_nonce_strlen (cs_nonce state) = nf_nonce_strlen cfg \<and>
            nc_ttl_seconds (cs_nonce state) = nf_ttl_seconds cfg
         then (True, state)
         else
           let state1 = (if cs_nonce_ready state
                         then state\<lparr>cs_nonce := lib_nonce_cache_shutdown (cs_nonce state),
                                    cs_nonce_ready := False\<rparr>
                         else state);
               (ok, cache) = lib_nonce_cache_init alloc_ok (cs_nonce state1) (Some cfg)
           in if \<not> ok then (False, state1\<lparr>cs_nonce := cache\<rparr>)
              else (True, state1\<lparr>cs_nonce := cache, cs_nonce_ready := True\<rparr>))"

definition shared_knock_codec_v1_packet_nonce_accept ::
  "SharedKnockCodecContext option \<Rightarrow> bool \<Rightarrow> int \<Rightarrow> SharedKnockCodecState \<Rightarrow> u32 \<Rightarrow> u32 \<Rightarrow>
   bool \<times> SharedKnockCodecState" where
  "shared_knock_codec_v1_packet_nonce_accept context alloc_ok now state timestamp challenge =
     (case shared_knock_codec_v1_sync_nonce_cache context alloc_ok state of
        (False, state1) \<Rightarrow> (False, state1)
      | (True, state1) \<Rightarrow>
          (let nonce_str = nonce_text timestamp challenge
           in case lib_nonce_check (cs_nonce state1) nonce_str now of
                (True, cache) \<Rightarrow> (False, state1\<lparr>cs_nonce := cache\<rparr>)
              | (False, cache) \<Rightarrow>
                  (True, state1\<lparr>cs_nonce := lib_nonce_add cache nonce_str now\<rparr>)))"

section \<open>Decryption with the server's key\<close>

text \<open>
  The first \<open>EVP_PKEY_decrypt\<close> asks for the size, which is the maximum for the key,
  \<open>EVP_PKEY_get_size\<close>; it must fit the \<open>cap\<close> bytes of the output.
\<close>

definition shared_knock_codec_v1_private_decrypt ::
  "evp \<Rightarrow> SharedKnockCodecContext option \<Rightarrow> u8 list \<Rightarrow> nat \<Rightarrow> u8 list option" where
  "shared_knock_codec_v1_private_decrypt E context input cap =
     (case server_private_key context of
        None \<Rightarrow> None
      | Some k \<Rightarrow>
          (if cap = 0 then None
           else if EVP_PKEY_get_size E k > cap then None
           else case EVP_PKEY_decrypt E k input of
             Inl stage \<Rightarrow> None
           | Inr plain \<Rightarrow> Some plain))"

section \<open>The packet on the wire\<close>

text \<open>The number returned and what is in \<open>out_buf\<close> afterwards.\<close>

definition shared_knock_codec_v1_pack_wire :: "KnockPacket \<Rightarrow> u8 list \<Rightarrow> int \<times> u8 list" where
  "shared_knock_codec_v1_pack_wire pkt out_buf =
     (if length out_buf < SHARED_KNOCK_CODEC_V1_PACKET_SIZE then (SL_PAYLOAD_ERR_UNPACK, out_buf)
      else (int SHARED_KNOCK_CODEC_V1_PACKET_SIZE, write_at 0
        ([kp_version pkt] @ mem_u32 (kp_timestamp pkt) @ mem_u16 (kp_user_id pkt) @ [kp_action_id pkt] @
         mem_u32 (kp_challenge pkt) @ kp_hmac pkt @ mem_u16 (kp_payload_len pkt) @ kp_payload pkt) out_buf))"

definition shared_knock_codec_v1_unpack_wire :: "u8 list \<Rightarrow> KnockPacket \<Rightarrow> int \<times> KnockPacket" where
  "shared_knock_codec_v1_unpack_wire buf pkt =
     (if length buf < SHARED_KNOCK_CODEC_V1_PACKET_SIZE then (SL_PAYLOAD_ERR_UNPACK, pkt)
      else (SL_PAYLOAD_OK,
        \<lparr>kp_version = buf ! 0, kp_timestamp = read_mem_u32 buf 1, kp_user_id = read_mem_u16 buf 5,
         kp_action_id = buf ! 7, kp_challenge = read_mem_u32 buf 8, kp_hmac = slice 12 32 buf,
         kp_payload_len = read_mem_u16 buf 44, kp_payload = slice 46 KNOCK_PAYLOAD_SIZE buf\<rparr>))"

definition shared_knock_codec_v1_validate_wire :: "int \<Rightarrow> KnockPacket \<Rightarrow> int" where
  "shared_knock_codec_v1_validate_wire now pkt =
     (if ucast (kp_version pkt) \<noteq> SHARED_KNOCK_CODEC_V1_VERSION then SL_PAYLOAD_ERR_VALIDATE
      else if unat (kp_payload_len pkt) > KNOCK_PAYLOAD_SIZE then SL_PAYLOAD_ERR_OVERFLOW
      else if uint (kp_timestamp pkt) > now + SHARED_KNOCK_CODEC_V1_TIMESTAMP_FUZZ \<or>
              uint (kp_timestamp pkt) < now - SHARED_KNOCK_CODEC_V1_TIMESTAMP_FUZZ
      then SL_PAYLOAD_ERR_VALIDATE
      else SL_PAYLOAD_OK)"

definition shared_knock_codec_v1_deserialize_wire ::
  "int \<Rightarrow> u8 list \<Rightarrow> KnockPacket \<Rightarrow> int \<times> KnockPacket" where
  "shared_knock_codec_v1_deserialize_wire now buf pkt =
     (let (rc, pkt1) = shared_knock_codec_v1_unpack_wire buf pkt
      in if rc \<noteq> SL_PAYLOAD_OK then (rc, pkt1)
         else
           let rc2 = shared_knock_codec_v1_validate_wire now pkt1
           in if rc2 = SL_PAYLOAD_ERR_OVERFLOW then (SL_PAYLOAD_ERR_OVERFLOW, pkt1)
              else if rc2 \<noteq> SL_PAYLOAD_OK then (SL_PAYLOAD_ERR_VALIDATE, pkt1)
              else (SL_PAYLOAD_OK, pkt1))"

definition shared_knock_codec_v1_normalize ::
  "int \<Rightarrow> u8 list \<Rightarrow> string \<Rightarrow> u16 \<Rightarrow> bool \<Rightarrow> SharedKnockNormalizedUnit \<Rightarrow>
   int \<times> SharedKnockNormalizedUnit" where
  "shared_knock_codec_v1_normalize now buf ip client_port encrypted out =
     (case shared_knock_codec_v1_deserialize_wire now buf zero_v1_packet of
        (rc, pkt) \<Rightarrow>
          (if rc \<noteq> SL_PAYLOAD_OK then (rc, out)
           else
             let overflow = unat (kp_payload_len pkt) > SHARED_KNOCK_NORMALIZED_PAYLOAD_MAX;
                 copy_len = (if overflow then SHARED_KNOCK_NORMALIZED_PAYLOAD_MAX
                             else unat (kp_payload_len pkt))
             in (if overflow then SL_PAYLOAD_ERR_OVERFLOW else SL_PAYLOAD_OK,
                 zero_unit\<lparr>nu_complete := True, nu_wire_version := SHARED_KNOCK_CODEC_V1_VERSION,
                   nu_wire_form := 0, nu_fragment_count := 1,
                   nu_timestamp := kp_timestamp pkt, nu_user_id := kp_user_id pkt,
                   nu_action_id := kp_action_id pkt, nu_challenge := kp_challenge pkt,
                   nu_hmac := kp_hmac pkt, nu_ip := cstr63 ip, nu_client_port := client_port,
                   nu_encrypted := encrypted, nu_payload := take copy_len (kp_payload pkt)\<rparr>)))"

definition shared_knock_codec_v1_pack :: "KnockPacket \<Rightarrow> u8 list \<Rightarrow> int \<times> u8 list" where
  "shared_knock_codec_v1_pack pkt out_buf = shared_knock_codec_v1_pack_wire pkt out_buf"

definition shared_knock_codec_v1_unpack ::
  "u8 list \<Rightarrow> KnockPacket \<Rightarrow> int \<times> KnockPacket" where
  "shared_knock_codec_v1_unpack buf pkt = shared_knock_codec_v1_unpack_wire buf pkt"

definition shared_knock_codec_v1_validate :: "int \<Rightarrow> KnockPacket \<Rightarrow> int" where
  "shared_knock_codec_v1_validate now pkt = shared_knock_codec_v1_validate_wire now pkt"

definition shared_knock_codec_v1_deserialize ::
  "int \<Rightarrow> u8 list \<Rightarrow> KnockPacket \<Rightarrow> int \<times> KnockPacket" where
  "shared_knock_codec_v1_deserialize now buf pkt = shared_knock_codec_v1_deserialize_wire now buf pkt"

definition shared_knock_codec_v1_deserialize_strerror :: "int \<Rightarrow> string" where
  "shared_knock_codec_v1_deserialize_strerror code =
     (if code = SL_PAYLOAD_OK then ''ok''
      else if code = SL_PAYLOAD_ERR_NULL_PTR then ''null_ptr''
      else if code = SL_PAYLOAD_ERR_UNPACK then ''unpack''
      else if code = SL_PAYLOAD_ERR_VALIDATE then ''validate''
      else if code = SL_PAYLOAD_ERR_OVERFLOW then ''overflow''
      else ''unknown'')"

section \<open>Units and mux packets\<close>

definition shared_knock_codec_v1_copy_recv_packet ::
  "SharedKnockNormalizedUnit \<Rightarrow> M7MuxRecvPacket \<Rightarrow> user_heap \<Rightarrow> bool \<times> M7MuxRecvPacket \<times> user_heap" where
  "shared_knock_codec_v1_copy_recv_packet src dst h =
     (case rp_user dst of
        None \<Rightarrow> (False, dst, h)
      | Some user \<Rightarrow>
          (if length (nu_payload src) > M7MUX_USER_DATA_PAYLOAD_MAX then (False, dst, h)
           else (True, zero_recv
             \<lparr>rp_user := Some user, rp_complete := nu_complete src, rp_should_reply := False,
              rp_synthetic_session := False, rp_wire_version := nu_wire_version src,
              rp_wire_form := nu_wire_form src, rp_received_ms := 0,
              rp_session_id := nu_session_id src, rp_message_id := nu_message_id src,
              rp_stream_id := nu_stream_id src, rp_fragment_index := nu_fragment_index src,
              rp_fragment_count := nu_fragment_count src, rp_timestamp := nu_timestamp src,
              rp_label := ''codec'', rp_ip := nu_ip src, rp_client_port := nu_client_port src,
              rp_encrypted := nu_encrypted src, rp_wire_decode := nu_wire_decode src,
              rp_wire_auth := nu_wire_auth src\<rparr>,
             store_user user \<lparr>ud_user_id = nu_user_id src, ud_action_id = nu_action_id src,
               ud_challenge = nu_challenge src, ud_hmac = nu_hmac src, ud_payload = nu_payload src\<rparr> h)))"

definition shared_knock_codec_v1_copy_send_packet :: "M7MuxSendPacket \<Rightarrow> SharedKnockNormalizedUnit option" where
  "shared_knock_codec_v1_copy_send_packet src =
     (case sp_user src of
        None \<Rightarrow> None
      | Some user \<Rightarrow>
          (if length (us_payload user) > SHARED_KNOCK_NORMALIZED_PAYLOAD_MAX then None
           else Some (zero_unit
             \<lparr>nu_complete := unit_final (sp_fragment_index src) (sp_fragment_count src),
              nu_wire_version := sp_wire_version src, nu_wire_form := sp_wire_form src,
              nu_session_id := sp_session_id src, nu_message_id := sp_message_id src,
              nu_stream_id := sp_stream_id src, nu_fragment_index := sp_fragment_index src,
              nu_fragment_count := sp_fragment_count src, nu_timestamp := sp_timestamp src,
              nu_user_id := us_user_id user, nu_action_id := us_action_id user,
              nu_challenge := us_challenge user, nu_hmac := us_hmac user, nu_ip := sp_ip src,
              nu_client_port := sp_client_port src, nu_encrypted := sp_encrypted src,
              nu_wire_auth := sp_wire_auth src, nu_payload := us_payload user\<rparr>)))"

section \<open>State\<close>

text \<open>\<open>calloc_ok\<close> and \<open>alloc_ok\<close> are whether the state and the cache arrays can be allocated.\<close>

definition shared_knock_codec_v1_create_state ::
  "SharedKnockCodecContext option \<Rightarrow> bool \<Rightarrow> bool \<Rightarrow> SharedKnockCodecState option" where
  "shared_knock_codec_v1_create_state context calloc_ok alloc_ok =
     (if \<not> calloc_ok then None
      else case shared_knock_codec_v1_sync_nonce_cache context alloc_ok zero_codec_state of
        (False, state) \<Rightarrow> None
      | (True, state) \<Rightarrow> Some state)"

section \<open>Detection, decoding and encoding\<close>

text \<open>The buffer of \<open>EVP_PKEY_get_size\<close> bytes and the plaintext of the packet in it.\<close>

definition v1_decrypted ::
  "evp \<Rightarrow> SharedKnockCodecContext option \<Rightarrow> bool \<Rightarrow> u8 list \<Rightarrow> u8 list option" where
  "v1_decrypted E context calloc_ok buf =
     (case server_private_key context of
        None \<Rightarrow> None
      | Some k \<Rightarrow>
          (let decrypted_cap = EVP_PKEY_get_size E k
           in if decrypted_cap = 0 \<or> \<not> calloc_ok then None
              else shared_knock_codec_v1_private_decrypt E context buf decrypted_cap))"

definition shared_knock_codec_v1_detect ::
  "evp \<Rightarrow> SharedKnockCodecContext option \<Rightarrow> int \<Rightarrow> bool \<Rightarrow> SharedKnockCodecState option \<Rightarrow>
   M7MuxIngress \<Rightarrow> M7MuxIngressIdentity \<Rightarrow> bool \<times> M7MuxIngressIdentity" where
  "shared_knock_codec_v1_detect E context now calloc_ok state ingress identity =
     (let buf = in_buffer ingress;
          (rc, pkt) = shared_knock_codec_v1_deserialize_wire now buf zero_v1_packet
      in if length buf = SHARED_KNOCK_CODEC_V1_PACKET_SIZE \<and> rc = SL_PAYLOAD_OK
         then (True, identity\<lparr>id_encrypted := False\<rparr>)
         else if state = None then (False, identity)
         else case v1_decrypted E context calloc_ok buf of
           None \<Rightarrow> (False, identity)
         | Some plain \<Rightarrow>
             (if length plain \<noteq> SHARED_KNOCK_CODEC_V1_PACKET_SIZE then (False, identity)
              else let (rc2, pkt2) = shared_knock_codec_v1_deserialize_wire now plain pkt
                   in if rc2 \<noteq> SL_PAYLOAD_OK then (False, identity)
                      else (True, identity\<lparr>id_encrypted := True\<rparr>)))"

definition shared_knock_codec_v1_count_fragments :: "SharedKnockNormalizedUnit \<Rightarrow> nat \<Rightarrow> nat" where
  "shared_knock_codec_v1_count_fragments normal force_fragment_count =
     (if force_fragment_count > 0 \<and> force_fragment_count \<noteq> 1 then 0
      else if length (nu_payload normal) \<le> SHARED_KNOCK_CODEC_V1_PAYLOAD_MAX then 1 else 0)"

definition shared_knock_codec_v1_decode ::
  "evp \<Rightarrow> SharedKnockCodecContext option \<Rightarrow> int \<Rightarrow> bool \<Rightarrow> SharedKnockCodecState option \<Rightarrow>
   M7MuxIngress \<Rightarrow> SharedKnockNormalizedUnit \<Rightarrow> bool \<times> SharedKnockNormalizedUnit" where
  "shared_knock_codec_v1_decode E context now calloc_ok state ingress out =
     (if state = None then (False, out)
      else
        let should_decrypt = in_encrypted ingress
        in case (if should_decrypt then v1_decrypted E context calloc_ok (in_buffer ingress)
                 else Some (in_buffer ingress)) of
             None \<Rightarrow> (False, out)
           | Some payload \<Rightarrow>
               (if (case context of None \<Rightarrow> False | Some c \<Rightarrow> cx_server_secure c) \<and> \<not> should_decrypt
                then (False, out)
                else let (rc, out1) = shared_knock_codec_v1_normalize now payload (in_ip ingress)
                           (in_client_port ingress) should_decrypt out
                     in (rc = SL_PAYLOAD_OK, out1)))"

text \<open>The packet of a unit, before its HMAC: what \<open>encode\<close> sends and what is signed.\<close>

definition unit_packet_v1 :: "SharedKnockNormalizedUnit \<Rightarrow> KnockPacket" where
  "unit_packet_v1 normal =
     \<lparr>kp_version = ucast SHARED_KNOCK_CODEC_V1_VERSION, kp_timestamp = nu_timestamp normal,
      kp_user_id = nu_user_id normal, kp_action_id = nu_action_id normal, kp_challenge = nu_challenge normal,
      kp_hmac = replicate 32 0, kp_payload_len = word_of_nat (length (nu_payload normal)),
      kp_payload = payload_array KNOCK_PAYLOAD_SIZE (nu_payload normal)\<rparr>"

text \<open>Whether the signature of the unit is that of the user whose id it carries.\<close>

definition shared_knock_codec_v1_authorize_normalized ::
  "evp \<Rightarrow> bool \<Rightarrow> SharedKnockCodecContext option \<Rightarrow> SharedKnockNormalizedUnit \<Rightarrow> bool" where
  "shared_knock_codec_v1_authorize_normalized E has_digest context normal =
     (if length (nu_payload normal) > KNOCK_PAYLOAD_SIZE then False
      else case shared_knock_codec_v1_keychain_entry_for_user_id context (ucast (nu_user_id normal)) of
        None \<Rightarrow> False
      | Some entry \<Rightarrow>
          (case ke_hmac_key entry of
             None \<Rightarrow> False
           | Some key \<Rightarrow>
               (if ke_hmac_key_len entry < 32 then False
                else case shared_knock_digest_generate E has_digest (unit_packet_v1 normal) of
                  None \<Rightarrow> False
                | Some digest \<Rightarrow> shared_knock_digest_validate E key digest (nu_hmac normal))))"

definition shared_knock_codec_v1_wire_auth ::
  "evp \<Rightarrow> bool \<Rightarrow> SharedKnockCodecContext option \<Rightarrow> bool \<Rightarrow> int \<Rightarrow> SharedKnockCodecState option \<Rightarrow>
   SharedKnockNormalizedUnit \<Rightarrow> bool \<times> SharedKnockCodecState option \<times> SharedKnockNormalizedUnit" where
  "shared_knock_codec_v1_wire_auth E has_digest context alloc_ok now state normal =
     (case state of
        None \<Rightarrow> (False, None, normal)
      | Some s \<Rightarrow>
          (let normal1 = normal\<lparr>nu_wire_auth := False\<rparr>
           in if \<not> shared_knock_codec_v1_authorize_normalized E has_digest context normal1
              then (False, Some s, normal1)
              else
                let (ok, s') = shared_knock_codec_v1_packet_nonce_accept context alloc_ok now s
                      (nu_timestamp normal1) (nu_challenge normal1)
                in (ok, Some s', normal1\<lparr>nu_wire_auth := ok\<rparr>)))"

text \<open>The HMAC that goes into the packet.\<close>

definition v1_packet_hmac ::
  "evp \<Rightarrow> bool \<Rightarrow> SharedKnockCodecContext option \<Rightarrow> SharedKnockNormalizedUnit \<Rightarrow> u8 list option" where
  "v1_packet_hmac E has_digest context normal =
     (if \<not> nu_wire_auth normal then Some (nu_hmac normal)
      else case context_session context of
        None \<Rightarrow> None
      | Some session \<Rightarrow>
          (if ss_hmac_key_len session < 32 then None
           else case shared_knock_digest_generate E has_digest (unit_packet_v1 normal) of
             None \<Rightarrow> None
           | Some digest \<Rightarrow> shared_knock_digest_sign E (ss_hmac_key session) digest))"

text \<open>
  \<open>None\<close> for a return value of 0, else the \<open>*out_len\<close> bytes at \<open>out_buf\<close>; \<open>capacity\<close> is the
  value of \<open>*out_len\<close> on entry.
\<close>

definition shared_knock_codec_v1_encode ::
  "evp \<Rightarrow> bool \<Rightarrow> SharedKnockCodecContext option \<Rightarrow> SharedKnockNormalizedUnit \<Rightarrow> nat \<Rightarrow> rng \<Rightarrow>
   u8 list option \<times> rng" where
  "shared_knock_codec_v1_encode E has_digest context normal capacity r =
     (if capacity < SHARED_KNOCK_CODEC_V1_PACKET_SIZE then (None, r)
      else if length (nu_payload normal) > SHARED_KNOCK_CODEC_V1_PAYLOAD_MAX then (None, r)
      else case v1_packet_hmac E has_digest context normal of
        None \<Rightarrow> (None, r)
      | Some hmac \<Rightarrow>
          (let (rc, packed) = shared_knock_codec_v1_pack_wire ((unit_packet_v1 normal)\<lparr>kp_hmac := hmac\<rparr>)
                 (replicate SHARED_KNOCK_CODEC_V1_PACKET_SIZE 0)
           in if rc < 0 then (None, r)
              else if \<not> nu_encrypted normal
              then (if capacity < length packed then (None, r) else (Some packed, r))
              else rsa_whole_packet E context packed capacity r))"

section \<open>The adapter\<close>

definition shared_knock_codec_v1_copy_user_recv_data :: "M7MuxUserRecvData \<Rightarrow> M7MuxUserRecvData option" where
  "shared_knock_codec_v1_copy_user_recv_data src = Some src"

definition shared_knock_codec_v1_adapter_count_fragments ::
  "SharedKnockCodecState option \<Rightarrow> M7MuxSendPacket \<Rightarrow> nat" where
  "shared_knock_codec_v1_adapter_count_fragments state send =
     (case shared_knock_codec_v1_copy_send_packet send of
        None \<Rightarrow> 0
      | Some normal \<Rightarrow> shared_knock_codec_v1_count_fragments normal 0)"

definition shared_knock_codec_v1_adapter_decode ::
  "evp \<Rightarrow> SharedKnockCodecContext option \<Rightarrow> int \<Rightarrow> bool \<Rightarrow> SharedKnockCodecState option \<Rightarrow>
   M7MuxIngress \<Rightarrow> M7MuxControl \<Rightarrow> M7MuxRecvPacket \<Rightarrow> user_heap \<Rightarrow>
   bool \<times> M7MuxControl \<times> M7MuxRecvPacket \<times> user_heap" where
  "shared_knock_codec_v1_adapter_decode E context now calloc_ok state ingress control out h =
     (case shared_knock_codec_v1_decode E context now calloc_ok state ingress zero_unit of
        (ok, normal) \<Rightarrow>
          (if \<not> ok then (False, control, out, h)
           else case shared_knock_codec_v1_copy_recv_packet normal out h of
             (False, out1, h1) \<Rightarrow> (False, control, out1, h1)
           | (True, out1, h1) \<Rightarrow>
               (True, control, out1\<lparr>rp_received_ms := in_received_ms ingress\<rparr>, h1)))"

definition shared_knock_codec_v1_adapter_encode ::
  "evp \<Rightarrow> bool \<Rightarrow> SharedKnockCodecContext option \<Rightarrow> SharedKnockCodecState option \<Rightarrow>
   M7MuxSendPacket \<Rightarrow> rng \<Rightarrow> M7MuxEgressData option \<times> rng" where
  "shared_knock_codec_v1_adapter_encode E has_digest context state send r =
     (case shared_knock_codec_v1_copy_send_packet send of
        None \<Rightarrow> (None, r)
      | Some normal \<Rightarrow>
          (case shared_knock_codec_v1_encode E has_digest context normal M7MUX_NORMALIZED_PACKET_BUFFER_SIZE r of
             (None, r1) \<Rightarrow> (None, r1)
           | (Some encoded, r1) \<Rightarrow> (m7mux_normalize_adapter_fill_egress send encoded, r1)))"

text \<open>The adapter at the time \<open>now\<close>.\<close>

definition shared_knock_codec_v1_adapter ::
  "evp \<Rightarrow> bool \<Rightarrow> SharedKnockCodecContext option \<Rightarrow> int \<Rightarrow> bool \<Rightarrow> bool \<Rightarrow> SharedKnockCodecState adapter" where
  "shared_knock_codec_v1_adapter E has_digest context now calloc_ok alloc_ok =
     \<lparr>ad_name = ''codec.v1'', ad_wire_version = SHARED_KNOCK_CODEC_V1_VERSION,
      ad_create_state = Some (\<lambda>_. shared_knock_codec_v1_create_state context calloc_ok alloc_ok),
      ad_alloc_user_recv_data = alloc_user, ad_free_user_recv_data = free_user,
      ad_copy_user_recv_data = shared_knock_codec_v1_copy_user_recv_data,
      ad_count_fragments = shared_knock_codec_v1_adapter_count_fragments,
      ad_detect = shared_knock_codec_v1_detect E context now calloc_ok,
      ad_decode = shared_knock_codec_v1_adapter_decode E context now calloc_ok,
      ad_encode = shared_knock_codec_v1_adapter_encode E has_digest context,
      ad_encode_fragment = None,
      ad_state = None\<rparr>"


text \<open>
  What the V1 codec guarantees: a packet that one side encodes, in the clear or encrypted, is
  detected and decoded by the other within the clock window; a unit is authenticated only with the
  signature of a configured user and only once; its adapter keeps the contract of the mux.
\<close>

section \<open>Shared with the V4 codec\<close>

lemma v1_copies_v4:
  "shared_knock_codec_v1_packet_nonce_accept = shared_knock_codec_v4_packet_nonce_accept"
  "shared_knock_codec_v1_copy_recv_packet = shared_knock_codec_v4_copy_recv_packet"
  "shared_knock_codec_v1_copy_send_packet = shared_knock_codec_v4_copy_send_packet"
  "shared_knock_codec_v1_create_state = shared_knock_codec_v4_create_state"
proof -
  have ttl: "shared_knock_codec_v1_nonce_ttl = shared_knock_codec_v4_nonce_ttl"
    by (intro ext) (simp add: shared_knock_codec_v1_nonce_ttl_def shared_knock_codec_v4_nonce_ttl_def)
  have sync: "shared_knock_codec_v1_sync_nonce_cache = shared_knock_codec_v4_sync_nonce_cache"
    by (intro ext)
      (simp add: shared_knock_codec_v1_sync_nonce_cache_def shared_knock_codec_v4_sync_nonce_cache_def ttl)
  show "shared_knock_codec_v1_packet_nonce_accept = shared_knock_codec_v4_packet_nonce_accept"
    by (intro ext)
      (simp add: shared_knock_codec_v1_packet_nonce_accept_def shared_knock_codec_v4_packet_nonce_accept_def sync)
  show "shared_knock_codec_v1_create_state = shared_knock_codec_v4_create_state"
    by (intro ext) (simp add: shared_knock_codec_v1_create_state_def shared_knock_codec_v4_create_state_def sync)
qed (intro ext; simp add: shared_knock_codec_v1_copy_recv_packet_def shared_knock_codec_v4_copy_recv_packet_def
    shared_knock_codec_v1_copy_send_packet_def shared_knock_codec_v4_copy_send_packet_def)+

section \<open>Integers in memory\<close>

lemma read_mem_skip [wire_simps]:
  "length xs \<le> n \<Longrightarrow> read_mem_u16 (xs @ ys) n = read_mem_u16 ys (n - length xs)"
  "length xs \<le> n \<Longrightarrow> read_mem_u32 (xs @ ys) n = read_mem_u32 ys (n - length xs)"
  by (simp_all add: read_mem_u16_def read_mem_u32_def slice_skip)

lemma read_mem_Cons [wire_simps]:
  "0 < n \<Longrightarrow> read_mem_u16 (x # ys) n = read_mem_u16 ys (n - 1)"
  "0 < n \<Longrightarrow> read_mem_u32 (x # ys) n = read_mem_u32 ys (n - 1)"
  by (simp_all add: read_mem_u16_def read_mem_u32_def slice_Cons)

lemma read_mem [wire_simps]:
  "read_mem_u16 (mem_u16 w @ ys) 0 = w" "read_mem_u32 (mem_u32 x @ ys) 0 = x"
  by (simp_all add: read_mem_u16_def read_mem_u32_def mem_u16_def mem_u32_def)

section \<open>What is encoded is detected and decoded\<close>

definition v1_wire :: "SharedKnockNormalizedUnit \<Rightarrow> u8 list \<Rightarrow> u8 list" where
  "v1_wire normal hmac =
     [1] @ mem_u32 (nu_timestamp normal) @ mem_u16 (nu_user_id normal) @ [nu_action_id normal] @
     mem_u32 (nu_challenge normal) @ hmac @ mem_u16 (word_of_nat (length (nu_payload normal))) @
     payload_array KNOCK_PAYLOAD_SIZE (nu_payload normal)"

definition v1_delivered ::
  "SharedKnockNormalizedUnit \<Rightarrow> u8 list \<Rightarrow> string \<Rightarrow> u16 \<Rightarrow> SharedKnockNormalizedUnit" where
  "v1_delivered normal hmac ip client_port = zero_unit
     \<lparr>nu_complete := True, nu_wire_version := SHARED_KNOCK_CODEC_V1_VERSION, nu_wire_form := 0, nu_fragment_count := 1,
      nu_timestamp := nu_timestamp normal, nu_user_id := nu_user_id normal,
      nu_action_id := nu_action_id normal, nu_challenge := nu_challenge normal, nu_hmac := hmac,
      nu_ip := cstr63 ip, nu_client_port := client_port, nu_encrypted := nu_encrypted normal,
      nu_payload := nu_payload normal\<rparr>"

lemma v1_wire_length: "length (nu_payload normal) \<le> 199 \<Longrightarrow> length hmac = 32 \<Longrightarrow> length (v1_wire normal hmac) = 245"
  by (simp add: v1_wire_def v1_sizes)

lemma v1_unpack_wire:
  assumes "length (nu_payload normal) \<le> 199" "length hmac = 32"
  shows "shared_knock_codec_v1_unpack_wire (v1_wire normal hmac) p0 =
    (SL_PAYLOAD_OK, (unit_packet_v1 normal)\<lparr>kp_hmac := hmac\<rparr>)"
proof -
  let ?b = "v1_wire normal hmac"
  have "?b ! 0 = 1" "read_mem_u32 ?b 1 = nu_timestamp normal" "read_mem_u16 ?b 5 = nu_user_id normal"
    "?b ! 7 = nu_action_id normal" "read_mem_u32 ?b 8 = nu_challenge normal" "slice 12 32 ?b = hmac"
    "read_mem_u16 ?b 44 = word_of_nat (length (nu_payload normal))"
    "slice 46 199 ?b = payload_array 199 (nu_payload normal)"
    unfolding v1_wire_def using assms by (simp_all add: wire_simps v1_sizes)
  with v1_wire_length [OF assms] show ?thesis
    by (simp add: shared_knock_codec_v1_unpack_wire_def unit_packet_v1_def v1_sizes SHARED_KNOCK_CODEC_V1_VERSION_def)
qed

lemma v1_normalize_wire:
  assumes "length (nu_payload normal) \<le> 199" "length hmac = 32" "clock_near now (nu_timestamp normal)"
  shows "shared_knock_codec_v1_normalize now (v1_wire normal hmac) ip client_port enc out =
      (SL_PAYLOAD_OK, (v1_delivered normal hmac ip client_port)\<lparr>nu_encrypted := enc\<rparr>)"
    "fst (shared_knock_codec_v1_deserialize_wire now (v1_wire normal hmac) p0) = SL_PAYLOAD_OK"
proof -
  have len: "unat (word_of_nat (length (nu_payload normal)) :: u16) = length (nu_payload normal)"
    using assms(1) by (intro unat_len_u16) simp
  have ds: "shared_knock_codec_v1_deserialize_wire now (v1_wire normal hmac) p0 =
      shared_knock_codec_v1_unpack_wire (v1_wire normal hmac) p0" for p0
    using assms len
    by (simp add: shared_knock_codec_v1_deserialize_wire_def v1_unpack_wire shared_knock_codec_v1_validate_wire_def
        unit_packet_v1_def SHARED_KNOCK_CODEC_V1_VERSION_def v1_sizes payload_codes clock_near_def abs_le_iff)
  then show "fst (shared_knock_codec_v1_deserialize_wire now (v1_wire normal hmac) p0) = SL_PAYLOAD_OK"
    using assms by (simp add: v1_unpack_wire)
  show "shared_knock_codec_v1_normalize now (v1_wire normal hmac) ip client_port enc out =
      (SL_PAYLOAD_OK, (v1_delivered normal hmac ip client_port)\<lparr>nu_encrypted := enc\<rparr>)"
    using assms len
    by (simp add: shared_knock_codec_v1_normalize_def ds v1_unpack_wire v1_delivered_def unit_packet_v1_def buffer_sizes)
qed

lemma v1_encode_Some:
  assumes e: "shared_knock_codec_v1_encode E has context normal capacity r = (Some bytes, r')"
    and h: "length (nu_hmac normal) = 32"
  obtains hmac where "length hmac = 32" "\<not> nu_wire_auth normal \<longrightarrow> hmac = nu_hmac normal"
    "length (nu_payload normal) \<le> 199"
    "if nu_encrypted normal then rsa_whole_packet E context (v1_wire normal hmac) capacity r = (Some bytes, r')
     else bytes = v1_wire normal hmac"
proof -
  have pl: "length (nu_payload normal) \<le> 199"
    using e by (auto simp: shared_knock_codec_v1_encode_def v1_sizes split: if_splits)
  obtain hmac where hm: "v1_packet_hmac E has context normal = Some hmac"
    using e by (auto simp: shared_knock_codec_v1_encode_def Let_def split: if_splits option.splits)
  have hl: "length hmac = 32" "\<not> nu_wire_auth normal \<longrightarrow> hmac = nu_hmac normal"
    using hm h by (auto simp: v1_packet_hmac_def shared_knock_digest_sign_def split: if_splits option.splits)
  have pk: "shared_knock_codec_v1_pack_wire ((unit_packet_v1 normal)\<lparr>kp_hmac := hmac\<rparr>)
      (replicate SHARED_KNOCK_CODEC_V1_PACKET_SIZE 0) = (245, v1_wire normal hmac)"
    using pl hl v1_wire_length [OF pl hl(1)]
    by (simp add: shared_knock_codec_v1_pack_wire_def v1_wire_def unit_packet_v1_def v1_sizes write_at_def
        SHARED_KNOCK_CODEC_V1_VERSION_def)
  note run = e [unfolded shared_knock_codec_v1_encode_def Let_def hm option.case pk prod.case]
  have "if nu_encrypted normal then rsa_whole_packet E context (v1_wire normal hmac) capacity r = (Some bytes, r')
     else bytes = v1_wire normal hmac"
    using run by (auto split: if_splits)
  with that hl pl show thesis by blast
qed

lemma v1_codec_roundtrip:
  assumes rsa: "rsa_pair E pub priv" "rsa_lengths E pub priv"
    and client: "context_session client = Some s" "ss_public_key s = Some pub"
    and server: "server_private_key (Some server) = Some priv" "cx_server_secure server \<longrightarrow> nu_encrypted normal"
    and e: "shared_knock_codec_v1_encode E has client normal capacity r = (Some bytes, r')"
    and h: "length (nu_hmac normal) = 32" and now: "clock_near now (nu_timestamp normal)"
    and ing: "in_buffer ingress = bytes"
  shows "\<exists>hmac idn'. (\<not> nu_wire_auth normal \<longrightarrow> hmac = nu_hmac normal) \<and>
    shared_knock_codec_v1_detect E (Some server) now True (Some st) ingress idn = (True, idn') \<and>
    id_encrypted idn' = nu_encrypted normal \<and>
    shared_knock_codec_v1_decode E (Some server) now True (Some st)
      (ingress\<lparr>in_encrypted := id_encrypted idn'\<rparr>) out =
      (True, v1_delivered normal hmac (in_ip ingress) (in_client_port ingress))"
proof -
  obtain hmac where hm: "length hmac = 32" "\<not> nu_wire_auth normal \<longrightarrow> hmac = nu_hmac normal"
    and pl: "length (nu_payload normal) \<le> 199"
    and b: "if nu_encrypted normal then rsa_whole_packet E client (v1_wire normal hmac) capacity r = (Some bytes, r')
      else bytes = v1_wire normal hmac"
    by (rule v1_encode_Some [OF e h])
  let ?w = "v1_wire normal hmac"
  note norm = v1_normalize_wire [OF pl hm(1) now] and wl = v1_wire_length [OF pl hm(1)]
  have dl: "(v1_delivered normal hmac ip port)\<lparr>nu_encrypted := nu_encrypted normal\<rparr> =
      v1_delivered normal hmac ip port" for ip port by (simp add: v1_delivered_def)
  have ds: "\<exists>pkt. shared_knock_codec_v1_deserialize_wire now ?w p0 = (SL_PAYLOAD_OK, pkt)" for p0
    using norm(2) [of p0] by (metis prod.collapse)
  have dec: "shared_knock_codec_v1_decode E (Some server) now True (Some st)
      (ingress\<lparr>in_encrypted := nu_encrypted normal\<rparr>) out =
      (True, v1_delivered normal hmac (in_ip ingress) (in_client_port ingress))"
    if "(if nu_encrypted normal then v1_decrypted E (Some server) True bytes else Some bytes) = Some ?w"
  proof -
    have n: "shared_knock_codec_v1_normalize now ?w (in_ip ingress) (in_client_port ingress) (nu_encrypted normal) out =
        (SL_PAYLOAD_OK, v1_delivered normal hmac (in_ip ingress) (in_client_port ingress))"
      by (simp only: norm(1) dl)
    have p: "(if in_encrypted (ingress\<lparr>in_encrypted := nu_encrypted normal\<rparr>) then v1_decrypted E (Some server) True
        (in_buffer (ingress\<lparr>in_encrypted := nu_encrypted normal\<rparr>)) else
        Some (in_buffer (ingress\<lparr>in_encrypted := nu_encrypted normal\<rparr>))) = Some ?w"
      using that by (cases "nu_encrypted normal") (simp_all add: ing)
    show ?thesis
      unfolding shared_knock_codec_v1_decode_def Let_def p option.case
      using server(2) by (simp add: n)
  qed
  have "\<exists>idn'. shared_knock_codec_v1_detect E (Some server) now True (Some st) ingress idn = (True, idn') \<and>
      id_encrypted idn' = nu_encrypted normal \<and>
      (if nu_encrypted normal then v1_decrypted E (Some server) True bytes else Some bytes) = Some ?w"
  proof (cases "nu_encrypted normal")
    case False
    then have b: "bytes = ?w" using b by simp
    obtain pkt where p: "shared_knock_codec_v1_deserialize_wire now ?w zero_v1_packet = (SL_PAYLOAD_OK, pkt)"
      using ds by blast
    show ?thesis
      unfolding shared_knock_codec_v1_detect_def Let_def ing b p prod.case using False wl by (simp add: v1_sizes)
  next
    case True
    then have "rsa_whole_packet E client ?w capacity r = (Some bytes, r')" using b by simp
    note d = rsa_whole_packet_decrypts [OF rsa client this]
    have plain: "v1_decrypted E (Some server) True bytes = Some ?w"
      using d server(1) wl by (simp add: v1_decrypted_def shared_knock_codec_v1_private_decrypt_def Let_def)
    obtain rc pkt1 where p1: "shared_knock_codec_v1_deserialize_wire now bytes zero_v1_packet = (rc, pkt1)"
      by fastforce
    obtain pkt where p: "shared_knock_codec_v1_deserialize_wire now ?w pkt1 = (SL_PAYLOAD_OK, pkt)" using ds by blast
    have "length bytes \<noteq> SHARED_KNOCK_CODEC_V1_PACKET_SIZE" using d wl by (simp add: v1_sizes)
    then show ?thesis
      unfolding shared_knock_codec_v1_detect_def Let_def ing p1 prod.case plain option.case p
      using True wl plain by (simp add: v1_sizes)
  qed
  with dec hm(2) show ?thesis by metis
qed

section \<open>Only fresh packets\<close>

lemma v1_deserialize_fresh:
  assumes "shared_knock_codec_v1_deserialize_wire now buf p0 = (SL_PAYLOAD_OK, pkt)"
  shows "clock_near now (kp_timestamp pkt)" "length (kp_payload pkt) \<le> 199"
  using assms
  by (auto simp: shared_knock_codec_v1_deserialize_wire_def shared_knock_codec_v1_unpack_wire_def
      shared_knock_codec_v1_validate_wire_def v1_sizes payload_codes clock_near_def abs_le_iff Let_def
      split: if_splits prod.splits)

lemma v1_normalize_ok:
  assumes "shared_knock_codec_v1_normalize now buf ip port enc out = (SL_PAYLOAD_OK, out')"
  shows "clock_near now (nu_timestamp out')" "nu_wire_version out' = SHARED_KNOCK_CODEC_V1_VERSION"
    "nu_encrypted out' = enc" "length (nu_payload out') \<le> 199"
proof -
  obtain rc pkt where ds: "shared_knock_codec_v1_deserialize_wire now buf zero_v1_packet = (rc, pkt)" by fastforce
  have rc: "rc = SL_PAYLOAD_OK"
    using assms by (auto simp: shared_knock_codec_v1_normalize_def ds split: if_splits)
  have out: "nu_timestamp out' = kp_timestamp pkt"
    "nu_wire_version out' = SHARED_KNOCK_CODEC_V1_VERSION" "nu_encrypted out' = enc"
    "length (nu_payload out') \<le> length (kp_payload pkt)"
    using assms by (auto simp: shared_knock_codec_v1_normalize_def ds rc Let_def split: if_splits)
  with v1_deserialize_fresh [OF ds [unfolded rc]]
  show "clock_near now (nu_timestamp out')" "nu_wire_version out' = SHARED_KNOCK_CODEC_V1_VERSION"
    "nu_encrypted out' = enc" "length (nu_payload out') \<le> 199" by simp_all
qed

lemma v1_decode_ok:
  assumes "shared_knock_codec_v1_decode E context now ok st ingress out = (True, out')"
  shows "clock_near now (nu_timestamp out')" "nu_wire_version out' = SHARED_KNOCK_CODEC_V1_VERSION"
    "nu_encrypted out' = in_encrypted ingress" "length (nu_payload out') \<le> 199"
    "\<forall>c. context = Some c \<longrightarrow> cx_server_secure c \<longrightarrow> nu_encrypted out'"
proof -
  obtain payload where n: "shared_knock_codec_v1_normalize now payload (in_ip ingress) (in_client_port ingress)
      (in_encrypted ingress) out = (SL_PAYLOAD_OK, out')"
    and s: "\<forall>c. context = Some c \<longrightarrow> cx_server_secure c \<longrightarrow> in_encrypted ingress"
    using assms
    by (auto simp: shared_knock_codec_v1_decode_def Let_def split: if_splits option.splits prod.splits)
  from v1_normalize_ok [OF n] s
  show "clock_near now (nu_timestamp out')" "nu_wire_version out' = SHARED_KNOCK_CODEC_V1_VERSION"
    "nu_encrypted out' = in_encrypted ingress" "length (nu_payload out') \<le> 199"
    "\<forall>c. context = Some c \<longrightarrow> cx_server_secure c \<longrightarrow> nu_encrypted out'" by simp_all
qed

section \<open>The adapter keeps the contract of the mux\<close>

lemma v1_adapter_decode_heap:
  assumes "heap_ok h" "rp_user out = Some u" "u \<in> live h"
    "shared_knock_codec_v1_adapter_decode E context now ok st ingress control out h = (b, control', out', h')"
  shows "heap_ok h' \<and> live h' = live h \<and> rp_user out' = Some u"
proof -
  obtain d normal where d: "shared_knock_codec_v1_decode E context now ok st ingress zero_unit = (d, normal)"
    by fastforce
  obtain b1 o1 h1 where c: "shared_knock_codec_v4_copy_recv_packet normal out h = (b1, o1, h1)"
    by (metis prod_cases3)
  from v4_copy_recv_heap [OF assms(1-3) c] assms show ?thesis
    by (cases b1) (auto simp: shared_knock_codec_v1_adapter_decode_def v1_copies_v4 d c split: if_splits)
qed

lemma v1_adapter_decode_version:
  assumes "shared_knock_codec_v1_adapter_decode E context now ok st ingress control out h = (True, control', out', h')"
  shows "rp_wire_version out' = SHARED_KNOCK_CODEC_V1_VERSION"
proof -
  obtain d normal where d: "shared_knock_codec_v1_decode E context now ok st ingress zero_unit = (d, normal)"
    by fastforce
  obtain b1 o1 h1 where c: "shared_knock_codec_v4_copy_recv_packet normal out h = (b1, o1, h1)"
    by (metis prod_cases3)
  have r: d b1 "out' = o1\<lparr>rp_received_ms := in_received_ms ingress\<rparr>"
    using assms by (auto simp: shared_knock_codec_v1_adapter_decode_def v1_copies_v4 d c split: if_splits bool.splits)
  have "nu_wire_version normal = SHARED_KNOCK_CODEC_V1_VERSION"
    using v1_decode_ok(2) d r(1) by (metis (full_types))
  moreover have "rp_wire_version o1 = nu_wire_version normal"
    using c r(2) by (auto simp: shared_knock_codec_v4_copy_recv_packet_def zero_recv_def split: option.splits if_splits)
  ultimately show ?thesis using r(3) by simp
qed

interpretation v1_adapter: codec_adapter
  "(shared_knock_codec_v1_adapter E has cx now c1 c2)\<lparr>ad_state := st\<rparr>"
  for E has cx now c1 c2 st
  by unfold_locales
    (auto simp: shared_knock_codec_v1_adapter_def shared_knock_codec_v1_copy_user_recv_data_def
      shared_knock_codec_v1_adapter_encode_def
      SHARED_KNOCK_CODEC_V1_VERSION_def [THEN arg_cong [where f = "\<lambda>w. w = 0"]]
      intro: fill_egress_fits v1_adapter_decode_version
      dest: v1_adapter_decode_heap split: option.splits prod.splits)

end
