(* ===== verification/Codec_V3.thy ===== *)
theory Codec_V3
  imports Codec_V4_Facts
begin

text \<open>
  \<open>shared/knock/codec/v3/v3.c\<close>: the sealed packet format. A random content key, wrapped with
  RSA, encrypts the plaintext with AES-GCM under the header as additional data; the plaintext
  carries the request and an HMAC. There is no envelope, so a message is one packet.

  \<open>context\<close> is the file's static \<open>g_context\<close>. Buffers that a function fills are returned; the
  \<open>SharedKnockCodecV3Form1Packet\<close> keeps its fixed arrays and length fields.
\<close>

section \<open>Layout\<close>

definition SHARED_KNOCK_CODEC_V3_FORM1_TAG_SIZE :: nat where
  "SHARED_KNOCK_CODEC_V3_FORM1_TAG_SIZE = 16"
definition SHARED_KNOCK_CODEC_V3_FORM1_CEK_SIZE :: nat where
  "SHARED_KNOCK_CODEC_V3_FORM1_CEK_SIZE = 32"
definition SHARED_KNOCK_CODEC_V3_FORM1_CEK_MAX :: nat where
  "SHARED_KNOCK_CODEC_V3_FORM1_CEK_MAX = 256"
definition SHARED_KNOCK_CODEC_V3_FORM1_PAYLOAD_MAX :: nat where
  "SHARED_KNOCK_CODEC_V3_FORM1_PAYLOAD_MAX = 512"
definition SHARED_KNOCK_CODEC_V3_FORM1_BODY_FIXED_SIZE :: nat where
  "SHARED_KNOCK_CODEC_V3_FORM1_BODY_FIXED_SIZE = 47"
definition SHARED_KNOCK_CODEC_V3_FORM1_BODY_MAX :: nat where
  "SHARED_KNOCK_CODEC_V3_FORM1_BODY_MAX =
     SHARED_KNOCK_CODEC_V3_FORM1_BODY_FIXED_SIZE + SHARED_KNOCK_CODEC_V3_FORM1_PAYLOAD_MAX"
definition SHARED_KNOCK_CODEC_V3_FORM1_HEADER_SIZE :: nat where
  "SHARED_KNOCK_CODEC_V3_FORM1_HEADER_SIZE = SHARED_KNOCK_PREFIX_SIZE + 2 + 12 + 4"
definition SHARED_KNOCK_CODEC_V3_FORM1_PACKET_MAX_SIZE :: nat where
  "SHARED_KNOCK_CODEC_V3_FORM1_PACKET_MAX_SIZE =
     SHARED_KNOCK_CODEC_V3_FORM1_HEADER_SIZE + SHARED_KNOCK_CODEC_V3_FORM1_CEK_MAX +
     SHARED_KNOCK_CODEC_V3_FORM1_BODY_MAX + SHARED_KNOCK_CODEC_V3_FORM1_TAG_SIZE"

lemmas v3_sizes = SHARED_KNOCK_CODEC_V3_FORM1_TAG_SIZE_def SHARED_KNOCK_CODEC_V3_FORM1_CEK_SIZE_def
  SHARED_KNOCK_CODEC_V3_FORM1_CEK_MAX_def SHARED_KNOCK_CODEC_V3_FORM1_PAYLOAD_MAX_def
  SHARED_KNOCK_CODEC_V3_FORM1_BODY_FIXED_SIZE_def SHARED_KNOCK_CODEC_V3_FORM1_BODY_MAX_def
  SHARED_KNOCK_PREFIX_SIZE_def SHARED_KNOCK_CODEC_V3_FORM1_HEADER_SIZE_def
  SHARED_KNOCK_CODEC_V3_FORM1_PACKET_MAX_SIZE_def

record SharedKnockCodecV3Form1Packet =
  v3_outer :: SharedKnockPrefix
  v3_wrapped_cek_len :: u16
  v3_nonce :: "u8 list"
  v3_ciphertext_len :: u32
  v3_wrapped_cek :: "u8 list"
  v3_ciphertext :: "u8 list"
  v3_tag :: "u8 list"

definition zero_v3_packet :: SharedKnockCodecV3Form1Packet where
  "zero_v3_packet = \<lparr>v3_outer = \<lparr>px_magic = 0, px_version = 0, px_form = 0\<rparr>, v3_wrapped_cek_len = 0,
     v3_nonce = replicate 12 0, v3_ciphertext_len = 0,
     v3_wrapped_cek = replicate SHARED_KNOCK_CODEC_V3_FORM1_CEK_MAX 0,
     v3_ciphertext = replicate SHARED_KNOCK_CODEC_V3_FORM1_BODY_MAX 0,
     v3_tag = replicate SHARED_KNOCK_CODEC_V3_FORM1_TAG_SIZE 0\<rparr>"

section \<open>The nonce cache\<close>

definition shared_knock_codec_v3_nonce_ttl :: "SharedKnockCodecContext option \<Rightarrow> int" where
  "shared_knock_codec_v3_nonce_ttl context =
     (case context of
        Some c \<Rightarrow>
          (if cx_nonce_window_ms c > 0
           then (let ttl = uint (cx_nonce_window_ms c div 1000)
                 in if ttl \<le> 0 then NONCE_DEFAULT_TTL_SECONDS else ttl)
           else NONCE_DEFAULT_TTL_SECONDS)
      | None \<Rightarrow> NONCE_DEFAULT_TTL_SECONDS)"

definition shared_knock_codec_v3_sync_nonce_cache ::
  "SharedKnockCodecContext option \<Rightarrow> bool \<Rightarrow> SharedKnockCodecState \<Rightarrow> bool \<times> SharedKnockCodecState" where
  "shared_knock_codec_v3_sync_nonce_cache context alloc_ok state =
     (let cfg = \<lparr>nf_capacity = NONCE_DEFAULT_CAPACITY, nf_nonce_strlen = NONCE_DEFAULT_STRLEN,
            nf_ttl_seconds = shared_knock_codec_v3_nonce_ttl context\<rparr>
      in if cs_nonce_ready state \<and> nc_capacity (cs_nonce state) = nf_capacity cfg \<and>
            nc_nonce_strlen (cs_nonce state) = nf_nonce_strlen cfg \<and>
            nc_ttl_seconds (cs_nonce state) = nf_ttl_seconds cfg
         then (True, state)
         else
           let state1 = (if cs_nonce_ready state
                         then state\<lparr>cs_nonce := lib_nonce_cache_shutdown (cs_nonce state),
                                    cs_nonce_ready := False\<rparr>
                         else state);
               (ok, cache) = lib_nonce_cache_init alloc_ok (cs_nonce state1) (Some cfg)
           in if \<not> ok then (False, state1\<lparr>cs_nonce := cache\<rparr>)
              else (True, state1\<lparr>cs_nonce := cache, cs_nonce_ready := True\<rparr>))"

definition shared_knock_codec_v3_packet_nonce_accept ::
  "SharedKnockCodecContext option \<Rightarrow> bool \<Rightarrow> int \<Rightarrow> SharedKnockCodecState \<Rightarrow> u32 \<Rightarrow> u32 \<Rightarrow>
   bool \<times> SharedKnockCodecState" where
  "shared_knock_codec_v3_packet_nonce_accept context alloc_ok now state timestamp challenge =
     (case shared_knock_codec_v3_sync_nonce_cache context alloc_ok state of
        (False, state1) \<Rightarrow> (False, state1)
      | (True, state1) \<Rightarrow>
          (let nonce_str = nonce_text timestamp challenge
           in case lib_nonce_check (cs_nonce state1) nonce_str now of
                (True, cache) \<Rightarrow> (False, state1\<lparr>cs_nonce := cache\<rparr>)
              | (False, cache) \<Rightarrow>
                  (True, state1\<lparr>cs_nonce := lib_nonce_add cache nonce_str now\<rparr>)))"

section \<open>The content key\<close>

text \<open>\<open>cap\<close> is the value of \<open>*output_len\<close> on entry.\<close>

definition shared_knock_codec_v3_decrypt_payload_key ::
  "evp \<Rightarrow> SharedKnockCodecContext option \<Rightarrow> u8 list \<Rightarrow> nat \<Rightarrow> u8 list option" where
  "shared_knock_codec_v3_decrypt_payload_key E context input cap =
     (case context of
        None \<Rightarrow> None
      | Some c \<Rightarrow>
          (case cx_openssl_session c of
             None \<Rightarrow> None
           | Some session \<Rightarrow>
               (if cap = 0 then None
                else
                  let (rc, temp_output) = siglatch_openssl_session_decrypt E session input
                  in if rc \<noteq> SL_SSL_DECRYPT_OK then None
                     else if length temp_output \<noteq> SHARED_KNOCK_CODEC_V3_FORM1_CEK_SIZE then None
                     else if cap < length temp_output then None
                     else Some temp_output)))"

definition shared_knock_codec_v3_get_payload_key ::
  "evp \<Rightarrow> SharedKnockCodecContext option \<Rightarrow> SharedKnockCodecV3Form1Packet \<Rightarrow> nat \<Rightarrow> int \<times> u8 list" where
  "shared_knock_codec_v3_get_payload_key E context pkt cap =
     (case shared_knock_codec_v3_decrypt_payload_key E context
             (take (unat (v3_wrapped_cek_len pkt)) (v3_wrapped_cek pkt)) cap of
        None \<Rightarrow> (SL_PAYLOAD_ERR_VALIDATE, [])
      | Some cek \<Rightarrow>
          (if length cek \<noteq> SHARED_KNOCK_CODEC_V3_FORM1_CEK_SIZE then (SL_PAYLOAD_ERR_VALIDATE, [])
           else (SL_PAYLOAD_OK, cek)))"

definition shared_knock_codec_v3_encrypt_payload_key ::
  "evp \<Rightarrow> SharedKnockCodecContext option \<Rightarrow> u8 list \<Rightarrow> nat \<Rightarrow> rng \<Rightarrow> u8 list option \<times> rng" where
  "shared_knock_codec_v3_encrypt_payload_key E context input cap r =
     (case context of
        None \<Rightarrow> (None, r)
      | Some c \<Rightarrow>
          (case cx_openssl_session c of
             None \<Rightarrow> (None, r)
           | Some session \<Rightarrow>
               (if cap = 0 then (None, r)
                else case siglatch_openssl_session_encrypt E session input r of
                  (None, r1) \<Rightarrow> (None, r1)
                | (Some wrapped, r1) \<Rightarrow>
                    (if length wrapped = 0 \<or> length wrapped > cap then (None, r1)
                     else (Some wrapped, r1)))))"

section \<open>The plaintext\<close>

definition shared_knock_codec_v3_plaintext_size :: "nat \<Rightarrow> nat" where
  "shared_knock_codec_v3_plaintext_size payload_len =
     SHARED_KNOCK_CODEC_V3_FORM1_BODY_FIXED_SIZE + payload_len"



definition shared_knock_codec_v3_pack_plaintext ::
  "SharedKnockNormalizedUnit \<Rightarrow> nat \<Rightarrow> u8 list option" where
  "shared_knock_codec_v3_pack_plaintext normal out_len =
     (let payload_len = length (nu_payload normal);
          need = shared_knock_codec_v3_plaintext_size payload_len
      in if payload_len > SHARED_KNOCK_CODEC_V3_FORM1_PAYLOAD_MAX then None
         else if nu_wire_version normal \<noteq> SHARED_KNOCK_CODEC_V3_WIRE_VERSION \<or>
                 nu_wire_form normal \<noteq> SHARED_KNOCK_CODEC_FORM1_ID then None
         else if out_len < need then None
         else Some (write_u32_be (nu_timestamp normal) @
             write_u16_be (nu_user_id normal) @ [nu_action_id normal] @
             write_u32_be (nu_challenge normal) @ write_u32_be (word_of_nat payload_len) @
             nu_payload normal @ nu_hmac normal))"

definition shared_knock_codec_v3_unpack_plaintext ::
  "u8 list \<Rightarrow> string \<Rightarrow> u16 \<Rightarrow> SharedKnockNormalizedUnit \<Rightarrow> bool \<times> SharedKnockNormalizedUnit" where
  "shared_knock_codec_v3_unpack_plaintext buf ip client_port out =
     (if length buf < SHARED_KNOCK_CODEC_V3_FORM1_BODY_FIXED_SIZE then (False, out)
      else let payload_len = unat (read_u32_be buf 11)
           in if payload_len > SHARED_KNOCK_CODEC_V3_FORM1_PAYLOAD_MAX then (False, out)
              else if length buf \<noteq> shared_knock_codec_v3_plaintext_size payload_len then (False, out)
              else (True, zero_unit\<lparr>nu_timestamp := read_u32_be buf 0, nu_user_id := read_u16_be buf 4,
                   nu_action_id := buf ! 6, nu_challenge := read_u32_be buf 7,
                   nu_ip := cstr63 ip, nu_client_port := client_port,
                   nu_payload := slice 15 payload_len buf,
                   nu_hmac := slice (15 + payload_len) 32 buf\<rparr>))"

section \<open>The packet on the wire\<close>

definition shared_knock_codec_v3_build_aad :: "SharedKnockCodecV3Form1Packet \<Rightarrow> nat \<Rightarrow> u8 list option" where
  "shared_knock_codec_v3_build_aad pkt aad_size =
     (if aad_size < SHARED_KNOCK_CODEC_V3_FORM1_HEADER_SIZE then None
      else Some (write_u32_be (px_magic (v3_outer pkt)) @ write_u32_be (px_version (v3_outer pkt)) @
        [px_form (v3_outer pkt)] @ write_u16_be (v3_wrapped_cek_len pkt) @ v3_nonce pkt @
        write_u32_be (v3_ciphertext_len pkt)))"

definition shared_knock_codec_v3_unpack_wire ::
  "u8 list \<Rightarrow> SharedKnockCodecV3Form1Packet \<Rightarrow> int \<times> SharedKnockCodecV3Form1Packet" where
  "shared_knock_codec_v3_unpack_wire buf pkt =
     (let header = SHARED_KNOCK_CODEC_V3_FORM1_HEADER_SIZE
      in if length buf < header then (SL_PAYLOAD_ERR_UNPACK, pkt)
         else
           let pkt1 = zero_v3_packet
                 \<lparr>v3_outer := \<lparr>px_magic = read_u32_be buf 0, px_version = read_u32_be buf 4,
                              px_form = buf ! 8\<rparr>,
                  v3_wrapped_cek_len := read_u16_be buf 9, v3_nonce := slice 11 12 buf,
                  v3_ciphertext_len := read_u32_be buf 23\<rparr>;
               wrapped_cek_len = unat (v3_wrapped_cek_len pkt1);
               ciphertext_len = unat (v3_ciphertext_len pkt1)
           in if wrapped_cek_len = 0 \<or> wrapped_cek_len > SHARED_KNOCK_CODEC_V3_FORM1_CEK_MAX
              then (SL_PAYLOAD_ERR_OVERFLOW, pkt1)
              else if ciphertext_len < SHARED_KNOCK_CODEC_V3_FORM1_BODY_FIXED_SIZE \<or>
                      ciphertext_len > SHARED_KNOCK_CODEC_V3_FORM1_BODY_MAX
              then (SL_PAYLOAD_ERR_OVERFLOW, pkt1)
              else if length buf \<noteq> header + wrapped_cek_len + ciphertext_len +
                        SHARED_KNOCK_CODEC_V3_FORM1_TAG_SIZE
              then (SL_PAYLOAD_ERR_UNPACK, pkt1)
              else (SL_PAYLOAD_OK, pkt1
                \<lparr>v3_wrapped_cek := write_at 0 (slice header wrapped_cek_len buf) (v3_wrapped_cek pkt1),
                 v3_ciphertext := write_at 0 (slice (header + wrapped_cek_len) ciphertext_len buf)
                                    (v3_ciphertext pkt1),
                 v3_tag := slice (header + wrapped_cek_len + ciphertext_len)
                             SHARED_KNOCK_CODEC_V3_FORM1_TAG_SIZE buf\<rparr>))"

definition shared_knock_codec_v3_validate_wire :: "SharedKnockCodecV3Form1Packet \<Rightarrow> int" where
  "shared_knock_codec_v3_validate_wire pkt =
     (if px_magic (v3_outer pkt) \<noteq> SHARED_KNOCK_PREFIX_MAGIC then SL_PAYLOAD_ERR_VALIDATE
      else if px_version (v3_outer pkt) \<noteq> SHARED_KNOCK_CODEC_V3_WIRE_VERSION then SL_PAYLOAD_ERR_VALIDATE
      else if px_form (v3_outer pkt) \<noteq> SHARED_KNOCK_CODEC_FORM1_ID then SL_PAYLOAD_ERR_VALIDATE
      else if v3_wrapped_cek_len pkt = 0 \<or>
              unat (v3_wrapped_cek_len pkt) > SHARED_KNOCK_CODEC_V3_FORM1_CEK_MAX
      then SL_PAYLOAD_ERR_OVERFLOW
      else if unat (v3_ciphertext_len pkt) < SHARED_KNOCK_CODEC_V3_FORM1_BODY_FIXED_SIZE \<or>
              unat (v3_ciphertext_len pkt) > SHARED_KNOCK_CODEC_V3_FORM1_BODY_MAX
      then SL_PAYLOAD_ERR_OVERFLOW
      else SL_PAYLOAD_OK)"

definition shared_knock_codec_v3_deserialize_wire ::
  "u8 list \<Rightarrow> SharedKnockCodecV3Form1Packet \<Rightarrow> int \<times> SharedKnockCodecV3Form1Packet" where
  "shared_knock_codec_v3_deserialize_wire buf pkt =
     (let (rc, pkt1) = shared_knock_codec_v3_unpack_wire buf pkt
      in if rc \<noteq> SL_PAYLOAD_OK then (rc, pkt1)
         else
           let rc2 = shared_knock_codec_v3_validate_wire pkt1
           in if rc2 = SL_PAYLOAD_ERR_OVERFLOW then (SL_PAYLOAD_ERR_OVERFLOW, pkt1)
              else if rc2 \<noteq> SL_PAYLOAD_OK then (SL_PAYLOAD_ERR_VALIDATE, pkt1)
              else (SL_PAYLOAD_OK, pkt1))"

definition shared_knock_codec_v3_decrypt_and_unpack_packet ::
  "evp \<Rightarrow> SharedKnockCodecContext option \<Rightarrow> SharedKnockCodecV3Form1Packet \<Rightarrow> string \<Rightarrow> u16 \<Rightarrow>
   SharedKnockNormalizedUnit \<Rightarrow> int \<times> SharedKnockNormalizedUnit" where
  "shared_knock_codec_v3_decrypt_and_unpack_packet E context pkt ip client_port out =
     (case shared_knock_codec_v3_get_payload_key E context pkt SHARED_KNOCK_CODEC_V3_FORM1_CEK_SIZE of
        (rc, cek) \<Rightarrow>
          (if rc \<noteq> SL_PAYLOAD_OK then (SL_PAYLOAD_ERR_VALIDATE, out)
           else case shared_knock_codec_v3_build_aad pkt SHARED_KNOCK_CODEC_V3_FORM1_HEADER_SIZE of
             None \<Rightarrow> (SL_PAYLOAD_ERR_VALIDATE, out)
           | Some aad \<Rightarrow>
               (case siglatch_openssl_aesgcm_decrypt E cek (v3_nonce pkt) aad
                       (take (unat (v3_ciphertext_len pkt)) (v3_ciphertext pkt)) (v3_tag pkt) of
                  None \<Rightarrow> (SL_PAYLOAD_ERR_VALIDATE, out)
                | Some plaintext \<Rightarrow>
                    (case shared_knock_codec_v3_unpack_plaintext plaintext ip client_port out of
                       (False, out1) \<Rightarrow> (SL_PAYLOAD_ERR_VALIDATE, out1)
                     | (True, out1) \<Rightarrow> (SL_PAYLOAD_OK, out1)))))"

text \<open>The number returned and what is in \<open>out_buf\<close> afterwards: a failure leaves it as it was.\<close>

definition shared_knock_codec_v3_pack ::
  "SharedKnockCodecV3Form1Packet \<Rightarrow> u8 list \<Rightarrow> int \<times> u8 list" where
  "shared_knock_codec_v3_pack pkt out_buf =
     (let wrapped_cek_len = unat (v3_wrapped_cek_len pkt);
          ciphertext_len = unat (v3_ciphertext_len pkt)
      in if wrapped_cek_len = 0 \<or> wrapped_cek_len > SHARED_KNOCK_CODEC_V3_FORM1_CEK_MAX
         then (SL_PAYLOAD_ERR_OVERFLOW, out_buf)
         else if ciphertext_len < SHARED_KNOCK_CODEC_V3_FORM1_BODY_FIXED_SIZE \<or>
                 ciphertext_len > SHARED_KNOCK_CODEC_V3_FORM1_BODY_MAX
         then (SL_PAYLOAD_ERR_OVERFLOW, out_buf)
         else
           let total_len = SHARED_KNOCK_CODEC_V3_FORM1_HEADER_SIZE + wrapped_cek_len + ciphertext_len +
                 SHARED_KNOCK_CODEC_V3_FORM1_TAG_SIZE
           in if length out_buf < total_len then (SL_PAYLOAD_ERR_UNPACK, out_buf)
              else (int total_len, write_at 0
                (write_u32_be (px_magic (v3_outer pkt)) @ write_u32_be (px_version (v3_outer pkt)) @
                 [px_form (v3_outer pkt)] @ write_u16_be (v3_wrapped_cek_len pkt) @ v3_nonce pkt @
                 write_u32_be (v3_ciphertext_len pkt) @ take wrapped_cek_len (v3_wrapped_cek pkt) @
                 take ciphertext_len (v3_ciphertext pkt) @ v3_tag pkt) out_buf))"

definition shared_knock_codec_v3_unpack ::
  "u8 list \<Rightarrow> SharedKnockCodecV3Form1Packet \<Rightarrow> int \<times> SharedKnockCodecV3Form1Packet" where
  "shared_knock_codec_v3_unpack buf pkt = shared_knock_codec_v3_unpack_wire buf pkt"

definition shared_knock_codec_v3_validate :: "SharedKnockCodecV3Form1Packet \<Rightarrow> int" where
  "shared_knock_codec_v3_validate pkt = shared_knock_codec_v3_validate_wire pkt"

definition shared_knock_codec_v3_deserialize ::
  "u8 list \<Rightarrow> SharedKnockCodecV3Form1Packet \<Rightarrow> int \<times> SharedKnockCodecV3Form1Packet" where
  "shared_knock_codec_v3_deserialize buf pkt = shared_knock_codec_v3_deserialize_wire buf pkt"

definition shared_knock_codec_v3_deserialize_strerror :: "int \<Rightarrow> string" where
  "shared_knock_codec_v3_deserialize_strerror code =
     (if code = SL_PAYLOAD_OK then ''ok''
      else if code = SL_PAYLOAD_ERR_NULL_PTR then ''null_ptr''
      else if code = SL_PAYLOAD_ERR_UNPACK then ''unpack''
      else if code = SL_PAYLOAD_ERR_VALIDATE then ''validate''
      else if code = SL_PAYLOAD_ERR_OVERFLOW then ''overflow''
      else ''unknown'')"

section \<open>Units and mux packets\<close>


definition shared_knock_codec_v3_copy_recv_packet ::
  "SharedKnockNormalizedUnit \<Rightarrow> M7MuxRecvPacket \<Rightarrow> user_heap \<Rightarrow> bool \<times> M7MuxRecvPacket \<times> user_heap" where
  "shared_knock_codec_v3_copy_recv_packet src dst h =
     (case rp_user dst of
        None \<Rightarrow> (False, dst, h)
      | Some user \<Rightarrow>
          (if length (nu_payload src) > M7MUX_USER_DATA_PAYLOAD_MAX then (False, dst, h)
           else (True, zero_recv
             \<lparr>rp_user := Some user, rp_complete := nu_complete src, rp_should_reply := False,
              rp_synthetic_session := False, rp_wire_version := nu_wire_version src,
              rp_wire_form := nu_wire_form src, rp_received_ms := 0,
              rp_session_id := nu_session_id src, rp_message_id := nu_message_id src,
              rp_stream_id := nu_stream_id src, rp_fragment_index := nu_fragment_index src,
              rp_fragment_count := nu_fragment_count src, rp_timestamp := nu_timestamp src,
              rp_label := ''codec'', rp_ip := nu_ip src, rp_client_port := nu_client_port src,
              rp_encrypted := nu_encrypted src, rp_wire_decode := nu_wire_decode src,
              rp_wire_auth := nu_wire_auth src\<rparr>,
             store_user user \<lparr>ud_user_id = nu_user_id src, ud_action_id = nu_action_id src,
               ud_challenge = nu_challenge src, ud_hmac = nu_hmac src, ud_payload = nu_payload src\<rparr> h)))"

definition shared_knock_codec_v3_copy_send_packet :: "M7MuxSendPacket \<Rightarrow> SharedKnockNormalizedUnit option" where
  "shared_knock_codec_v3_copy_send_packet src =
     (case sp_user src of
        None \<Rightarrow> None
      | Some user \<Rightarrow>
          (if length (us_payload user) > SHARED_KNOCK_NORMALIZED_PAYLOAD_MAX then None
           else Some (zero_unit
             \<lparr>nu_complete := unit_final (sp_fragment_index src) (sp_fragment_count src),
              nu_wire_version := sp_wire_version src, nu_wire_form := sp_wire_form src,
              nu_session_id := sp_session_id src, nu_message_id := sp_message_id src,
              nu_stream_id := sp_stream_id src, nu_fragment_index := sp_fragment_index src,
              nu_fragment_count := sp_fragment_count src, nu_timestamp := sp_timestamp src,
              nu_user_id := us_user_id user, nu_action_id := us_action_id user,
              nu_challenge := us_challenge user, nu_hmac := us_hmac user, nu_ip := sp_ip src,
              nu_client_port := sp_client_port src, nu_encrypted := sp_encrypted src,
              nu_wire_auth := sp_wire_auth src, nu_payload := us_payload user\<rparr>)))"

section \<open>State\<close>

text \<open>\<open>calloc_ok\<close> and \<open>alloc_ok\<close> are whether the state and the cache arrays can be allocated.\<close>

definition shared_knock_codec_v3_create_state ::
  "SharedKnockCodecContext option \<Rightarrow> bool \<Rightarrow> bool \<Rightarrow> SharedKnockCodecState option" where
  "shared_knock_codec_v3_create_state context calloc_ok alloc_ok =
     (if \<not> calloc_ok then None
      else case shared_knock_codec_v3_sync_nonce_cache context alloc_ok zero_codec_state of
        (False, state) \<Rightarrow> None
      | (True, state) \<Rightarrow> Some state)"

section \<open>Detection, decoding and encoding\<close>

definition shared_knock_codec_v3_detect ::
  "M7MuxIngress \<Rightarrow> M7MuxIngressIdentity \<Rightarrow> bool \<times> M7MuxIngressIdentity" where
  "shared_knock_codec_v3_detect ingress identity =
     (case shared_knock_codec_v3_deserialize_wire (in_buffer ingress) zero_v3_packet of
        (rc, pkt) \<Rightarrow>
          (if rc \<noteq> SL_PAYLOAD_OK then (False, identity)
           else (True, identity\<lparr>id_encrypted := True, id_magic := px_magic (v3_outer pkt),
                   id_version := px_version (v3_outer pkt), id_form := px_form (v3_outer pkt)\<rparr>)))"

definition shared_knock_codec_v3_count_fragments :: "SharedKnockNormalizedUnit \<Rightarrow> nat \<Rightarrow> nat" where
  "shared_knock_codec_v3_count_fragments normal force_fragment_count =
     (if force_fragment_count > 0 \<and> force_fragment_count \<noteq> 1 then 0
      else if length (nu_payload normal) \<le> SHARED_KNOCK_CODEC_V3_FORM1_PAYLOAD_MAX then 1 else 0)"

text \<open>The return code, \<open>0\<close> or negative on failure, \<open>1\<close> on success. The control block is not used.\<close>

definition shared_knock_codec_v3_decode ::
  "evp \<Rightarrow> SharedKnockCodecContext option \<Rightarrow> SharedKnockCodecState option \<Rightarrow> M7MuxIngress \<Rightarrow>
   M7MuxControl \<Rightarrow> SharedKnockNormalizedUnit \<Rightarrow> int \<times> M7MuxControl \<times> SharedKnockNormalizedUnit" where
  "shared_knock_codec_v3_decode E context state ingress control out =
     (if state = None then (0, control, out)
      else
        case shared_knock_codec_v3_deserialize_wire (in_buffer ingress) zero_v3_packet of
             (rc, pkt) \<Rightarrow>
               (if rc \<noteq> SL_PAYLOAD_OK then (SL_PAYLOAD_ERR_UNPACK, control, out)
                else case shared_knock_codec_v3_decrypt_and_unpack_packet E context pkt (in_ip ingress)
                            (in_client_port ingress) out of
                  (rc2, out2) \<Rightarrow>
                    (if rc2 \<noteq> SL_PAYLOAD_OK then (0, control, out2)
                     else (1, control, out2
                       \<lparr>nu_complete := True,
                        nu_wire_version := SHARED_KNOCK_CODEC_V3_WIRE_VERSION,
                        nu_wire_form := SHARED_KNOCK_CODEC_FORM1_ID, nu_session_id := 0,
                        nu_message_id := 0, nu_stream_id := 0, nu_fragment_index := 0,
                        nu_fragment_count := 1, nu_encrypted := True,
                        nu_wire_decode := True, nu_wire_auth := False\<rparr>))))"

definition shared_knock_codec_v3_wire_auth ::
  "SharedKnockCodecContext option \<Rightarrow> bool \<Rightarrow> int \<Rightarrow> SharedKnockCodecState option \<Rightarrow>
   SharedKnockNormalizedUnit \<Rightarrow> bool \<times> SharedKnockCodecState option \<times> SharedKnockNormalizedUnit" where
  "shared_knock_codec_v3_wire_auth context alloc_ok now state normal =
     (case state of
        None \<Rightarrow> (False, None, normal)
      | Some s \<Rightarrow>
          (let (ok, s') = shared_knock_codec_v3_packet_nonce_accept context alloc_ok now s
                 (nu_timestamp normal) (nu_challenge normal)
           in (ok, Some s', normal\<lparr>nu_wire_auth := ok\<rparr>)))"

text \<open>
  The HMAC that goes into the packet. \<open>has_digest\<close> is whether the digest module has its OpenSSL table.
\<close>

definition v3_body_hmac ::
  "evp \<Rightarrow> bool \<Rightarrow> SharedKnockCodecContext option \<Rightarrow> SharedKnockNormalizedUnit \<Rightarrow> u8 list option" where
  "v3_body_hmac E has_digest context normal =
     (if \<not> nu_wire_auth normal then Some (nu_hmac normal)
      else case context of
        None \<Rightarrow> None
      | Some c \<Rightarrow>
          (case cx_openssl_session c of
             None \<Rightarrow> None
           | Some session \<Rightarrow>
               (if ss_public_key session = None \<or> ss_hmac_key_len session < 32 then None
                else case shared_knock_digest_generate_v3_form1 E has_digest normal of
                  None \<Rightarrow> None
                | Some digest \<Rightarrow> shared_knock_digest_sign E (ss_hmac_key session) digest)))"

text \<open>
  \<open>None\<close> for a return value of 0, else the \<open>*out_len\<close> bytes at \<open>out_buf\<close>. The result of
  \<open>shared_knock_codec_v3_pack\<close> is tested for 0 only, so a negative code passes as success.
\<close>

definition shared_knock_codec_v3_encode ::
  "evp \<Rightarrow> bool \<Rightarrow> SharedKnockCodecContext option \<Rightarrow> SharedKnockNormalizedUnit \<Rightarrow> u8 list \<Rightarrow> rng \<Rightarrow>
   u8 list option \<times> rng" where
  "shared_knock_codec_v3_encode E has_digest context normal out_buf r =
     (if nu_wire_version normal \<noteq> SHARED_KNOCK_CODEC_V3_WIRE_VERSION \<or>
         nu_wire_form normal \<noteq> SHARED_KNOCK_CODEC_FORM1_ID then (None, r)
      else if length (nu_payload normal) > SHARED_KNOCK_CODEC_V3_FORM1_PAYLOAD_MAX then (None, r)
      else case v3_body_hmac E has_digest context normal of
        None \<Rightarrow> (None, r)
      | Some hmac \<Rightarrow>
      (case shared_knock_codec_v3_pack_plaintext (normal\<lparr>nu_hmac := hmac\<rparr>)
              SHARED_KNOCK_CODEC_V3_FORM1_BODY_MAX of
        None \<Rightarrow> (None, r)
      | Some plaintext \<Rightarrow>
      (case RAND_bytes E r SHARED_KNOCK_CODEC_V3_FORM1_CEK_SIZE of
        None \<Rightarrow> (None, r + 1)
      | Some cek \<Rightarrow>
      (case shared_knock_codec_v3_encrypt_payload_key E context cek
              SHARED_KNOCK_CODEC_V3_FORM1_CEK_MAX (r + 1) of
        (None, r2) \<Rightarrow> (None, r2)
      | (Some wrapped, r2) \<Rightarrow>
      (case RAND_bytes E r2 12 of
        None \<Rightarrow> (None, r2 + 1)
      | Some nonce \<Rightarrow>
          (let pkt = zero_v3_packet
                 \<lparr>v3_outer := \<lparr>px_magic = SHARED_KNOCK_PREFIX_MAGIC,
                              px_version = SHARED_KNOCK_CODEC_V3_WIRE_VERSION,
                              px_form = SHARED_KNOCK_CODEC_FORM1_ID\<rparr>,
                  v3_wrapped_cek := write_at 0 wrapped (v3_wrapped_cek zero_v3_packet),
                  v3_wrapped_cek_len := word_of_nat (length wrapped),
                  v3_ciphertext_len := word_of_nat (length plaintext), v3_nonce := nonce\<rparr>
           in case shared_knock_codec_v3_build_aad pkt SHARED_KNOCK_CODEC_V3_FORM1_HEADER_SIZE of
                None \<Rightarrow> (None, r2 + 1)
              | Some aad \<Rightarrow>
                  (case siglatch_openssl_aesgcm_encrypt E cek nonce aad plaintext
                          SHARED_KNOCK_CODEC_V3_FORM1_TAG_SIZE of
                     None \<Rightarrow> (None, r2 + 1)
                   | Some (ciphertext, tag) \<Rightarrow>
                       (if length ciphertext > SHARED_KNOCK_CODEC_V3_FORM1_BODY_MAX \<or>
                           length wrapped > SHARED_KNOCK_CODEC_V3_FORM1_CEK_MAX then (None, r2 + 1)
                        else
                          let pkt2 = pkt\<lparr>v3_ciphertext_len := word_of_nat (length ciphertext),
                                v3_ciphertext := write_at 0 ciphertext (v3_ciphertext pkt), v3_tag := tag\<rparr>;
                              (rc, out) = shared_knock_codec_v3_pack pkt2 out_buf
                          in if rc = 0 then (None, r2 + 1)
                             else (Some (take (SHARED_KNOCK_CODEC_V3_FORM1_HEADER_SIZE + length wrapped +
                                     length ciphertext + SHARED_KNOCK_CODEC_V3_FORM1_TAG_SIZE) out),
                                   r2 + 1)))))))))"




section \<open>The adapter\<close>

definition shared_knock_codec_v3_copy_user_recv_data :: "M7MuxUserRecvData \<Rightarrow> M7MuxUserRecvData option" where
  "shared_knock_codec_v3_copy_user_recv_data src = Some src"

definition shared_knock_codec_v3_adapter_count_fragments ::
  "SharedKnockCodecState option \<Rightarrow> M7MuxSendPacket \<Rightarrow> nat" where
  "shared_knock_codec_v3_adapter_count_fragments state send =
     (case shared_knock_codec_v3_copy_send_packet send of
        None \<Rightarrow> 0
      | Some normal \<Rightarrow> shared_knock_codec_v3_count_fragments normal 0)"

definition shared_knock_codec_v3_adapter_decode ::
  "evp \<Rightarrow> SharedKnockCodecContext option \<Rightarrow> SharedKnockCodecState option \<Rightarrow> M7MuxIngress \<Rightarrow>
   M7MuxControl \<Rightarrow> M7MuxRecvPacket \<Rightarrow> user_heap \<Rightarrow>
   bool \<times> M7MuxControl \<times> M7MuxRecvPacket \<times> user_heap" where
  "shared_knock_codec_v3_adapter_decode E context state ingress control out h =
     (case shared_knock_codec_v3_decode E context state ingress control zero_unit of
        (rc, control1, normal) \<Rightarrow>
          (if rc = 0 then (False, control1, out, h)
           else case shared_knock_codec_v3_copy_recv_packet normal out h of
             (False, out1, h1) \<Rightarrow> (False, control1, out1, h1)
           | (True, out1, h1) \<Rightarrow>
               (True, control1, out1\<lparr>rp_received_ms := in_received_ms ingress\<rparr>, h1)))"

definition shared_knock_codec_v3_adapter_encode ::
  "evp \<Rightarrow> bool \<Rightarrow> SharedKnockCodecContext option \<Rightarrow> SharedKnockCodecState option \<Rightarrow>
   M7MuxSendPacket \<Rightarrow> rng \<Rightarrow> M7MuxEgressData option \<times> rng" where
  "shared_knock_codec_v3_adapter_encode E has_digest context state send r =
     (case shared_knock_codec_v3_copy_send_packet send of
        None \<Rightarrow> (None, r)
      | Some normal \<Rightarrow>
          (case shared_knock_codec_v3_encode E has_digest context normal
                  (replicate SHARED_KNOCK_CODEC_V3_FORM1_PACKET_MAX_SIZE 0) r of
             (None, r1) \<Rightarrow> (None, r1)
           | (Some encoded, r1) \<Rightarrow> (m7mux_normalize_adapter_fill_egress send encoded, r1)))"


definition shared_knock_codec_v3_adapter ::
  "evp \<Rightarrow> bool \<Rightarrow> SharedKnockCodecContext option \<Rightarrow> bool \<Rightarrow> bool \<Rightarrow> SharedKnockCodecState adapter" where
  "shared_knock_codec_v3_adapter E has_digest context calloc_ok alloc_ok =
     \<lparr>ad_name = ''codec.v3'', ad_wire_version = SHARED_KNOCK_CODEC_V3_WIRE_VERSION,
      ad_create_state = Some (\<lambda>_. shared_knock_codec_v3_create_state context calloc_ok alloc_ok),
      ad_alloc_user_recv_data = alloc_user, ad_free_user_recv_data = free_user,
      ad_copy_user_recv_data = shared_knock_codec_v3_copy_user_recv_data,
      ad_count_fragments = shared_knock_codec_v3_adapter_count_fragments,
      ad_detect = (\<lambda>_. shared_knock_codec_v3_detect),
      ad_decode = shared_knock_codec_v3_adapter_decode E context,
      ad_encode = shared_knock_codec_v3_adapter_encode E has_digest context,
      ad_encode_fragment = None,
      ad_state = None\<rparr>"

end
