(* ===== verification/Codec_V3_Facts.thy ===== *)
theory Codec_V3_Facts
  imports Codec_V3
begin

text \<open>
  What the V3 codec guarantees: its wire format round-trips, what one side encodes the other decodes,
  as a single complete packet, and its adapter keeps the contract of the mux. Its copies of the
  replay cache and of the record conversions are those of V4.
\<close>

section \<open>Shared with the V4 codec\<close>

lemma v3_copies_v4:
  "shared_knock_codec_v3_packet_nonce_accept = shared_knock_codec_v4_packet_nonce_accept"
  "shared_knock_codec_v3_copy_recv_packet = shared_knock_codec_v4_copy_recv_packet"
  "shared_knock_codec_v3_copy_send_packet = shared_knock_codec_v4_copy_send_packet"
  "shared_knock_codec_v3_create_state = shared_knock_codec_v4_create_state"
proof -
  have ttl: "shared_knock_codec_v3_nonce_ttl = shared_knock_codec_v4_nonce_ttl"
    by (intro ext) (simp add: shared_knock_codec_v3_nonce_ttl_def shared_knock_codec_v4_nonce_ttl_def)
  have sync: "shared_knock_codec_v3_sync_nonce_cache = shared_knock_codec_v4_sync_nonce_cache"
    by (intro ext)
      (simp add: shared_knock_codec_v3_sync_nonce_cache_def shared_knock_codec_v4_sync_nonce_cache_def ttl)
  show "shared_knock_codec_v3_packet_nonce_accept = shared_knock_codec_v4_packet_nonce_accept"
    by (intro ext)
      (simp add: shared_knock_codec_v3_packet_nonce_accept_def shared_knock_codec_v4_packet_nonce_accept_def sync)
  show "shared_knock_codec_v3_create_state = shared_knock_codec_v4_create_state"
    by (intro ext) (simp add: shared_knock_codec_v3_create_state_def shared_knock_codec_v4_create_state_def sync)
qed (intro ext; simp add: shared_knock_codec_v3_copy_recv_packet_def shared_knock_codec_v4_copy_recv_packet_def
    shared_knock_codec_v3_copy_send_packet_def shared_knock_codec_v4_copy_send_packet_def)+

section \<open>The plaintext round-trips\<close>

definition v3_received :: "SharedKnockNormalizedUnit \<Rightarrow> string \<Rightarrow> u16 \<Rightarrow> SharedKnockNormalizedUnit" where
  "v3_received normal ip client_port = zero_unit
     \<lparr>nu_timestamp := nu_timestamp normal,
      nu_user_id := nu_user_id normal, nu_action_id := nu_action_id normal,
      nu_challenge := nu_challenge normal, nu_ip := cstr63 ip, nu_client_port := client_port,
      nu_payload := nu_payload normal, nu_hmac := nu_hmac normal\<rparr>"

lemma v3_pack_plaintext_Some:
  assumes "shared_knock_codec_v3_pack_plaintext normal n = Some bytes"
  shows "bytes = write_u32_be (nu_timestamp normal) @
        write_u16_be (nu_user_id normal) @ [nu_action_id normal] @
        write_u32_be (nu_challenge normal) @ write_u32_be (word_of_nat (length (nu_payload normal))) @
        nu_payload normal @ nu_hmac normal"
    "length (nu_payload normal) \<le> 512"
  using assms
  by (auto simp: shared_knock_codec_v3_pack_plaintext_def v3_sizes Let_def split: if_splits)

lemma v3_plaintext_roundtrip:
  assumes p: "shared_knock_codec_v3_pack_plaintext normal n = Some bytes" and h: "length (nu_hmac normal) = 32"
  shows "shared_knock_codec_v3_unpack_plaintext bytes ip client_port out =
    (True, v3_received normal ip client_port)"
proof -
  note b = v3_pack_plaintext_Some [OF p]
  have len: "unat (word_of_nat (length (nu_payload normal)) :: u32) = length (nu_payload normal)"
    using b(2) by (intro unat_len_u32) simp
  have rd: "read_u32_be bytes 0 = nu_timestamp normal" "read_u16_be bytes 4 = nu_user_id normal"
    "bytes ! 6 = nu_action_id normal" "read_u32_be bytes 7 = nu_challenge normal"
    "read_u32_be bytes 11 = word_of_nat (length (nu_payload normal))"
    "slice 15 (length (nu_payload normal)) bytes = nu_payload normal"
    "slice (15 + length (nu_payload normal)) 32 bytes = nu_hmac normal"
    "length bytes = 47 + length (nu_payload normal)"
    unfolding b(1) using h by (simp_all add: wire_simps)
  show ?thesis
    using rd len b(2)
    by (simp add: shared_knock_codec_v3_unpack_plaintext_def shared_knock_codec_v3_plaintext_size_def v3_sizes
        v3_received_def)
qed

section \<open>The wire format round-trips\<close>

text \<open>A packet as \<open>unpack_wire\<close> fills it: lengths in range, arrays zero beyond them.\<close>

definition v3_packet_ok :: "SharedKnockCodecV3Form1Packet \<Rightarrow> bool" where
  "v3_packet_ok pkt \<longleftrightarrow>
     (\<exists>cek ct. 0 < length cek \<and> length cek \<le> 256 \<and> 47 \<le> length ct \<and> length ct \<le> 559 \<and>
       v3_wrapped_cek_len pkt = word_of_nat (length cek) \<and>
       v3_ciphertext_len pkt = word_of_nat (length ct) \<and>
       v3_wrapped_cek pkt = write_at 0 cek (replicate 256 0) \<and>
       v3_ciphertext pkt = write_at 0 ct (replicate 559 0)) \<and>
     length (v3_nonce pkt) = 12 \<and> length (v3_tag pkt) = 16"

lemma v3_pack_bytes:
  assumes cek: "0 < length cek" "length cek \<le> 256" and ct: "47 \<le> length ct" "length ct \<le> 559"
    and pkt: "v3_wrapped_cek_len pkt = word_of_nat (length cek)"
      "v3_ciphertext_len pkt = word_of_nat (length ct)"
      "v3_wrapped_cek pkt = write_at 0 cek (replicate 256 0)"
      "v3_ciphertext pkt = write_at 0 ct (replicate 559 0)"
    and buf: "27 + length cek + length ct + 16 \<le> length buf"
  shows "shared_knock_codec_v3_pack pkt buf = (int (27 + length cek + length ct + 16), write_at 0
     (write_u32_be (px_magic (v3_outer pkt)) @ write_u32_be (px_version (v3_outer pkt)) @
      [px_form (v3_outer pkt)] @ write_u16_be (v3_wrapped_cek_len pkt) @ v3_nonce pkt @
      write_u32_be (v3_ciphertext_len pkt) @ cek @ ct @ v3_tag pkt) buf)"
  using assms
  by (simp add: shared_knock_codec_v3_pack_def v3_sizes unat_len_u16 unat_len_u32 Let_def)

lemma v3_unpack_bytes:
  assumes cek: "0 < length cek" "length cek \<le> 256" and ct: "47 \<le> length ct" "length ct \<le> 559"
    and n: "length nonce = 12" "length tag = 16"
  shows "shared_knock_codec_v3_unpack_wire
     (write_u32_be m @ write_u32_be v @ [f] @ write_u16_be (word_of_nat (length cek)) @ nonce @
      write_u32_be (word_of_nat (length ct)) @ cek @ ct @ tag) p0 =
    (SL_PAYLOAD_OK, \<lparr>v3_outer = \<lparr>px_magic = m, px_version = v, px_form = f\<rparr>,
      v3_wrapped_cek_len = word_of_nat (length cek), v3_nonce = nonce,
      v3_ciphertext_len = word_of_nat (length ct), v3_wrapped_cek = write_at 0 cek (replicate 256 0),
      v3_ciphertext = write_at 0 ct (replicate 559 0), v3_tag = tag\<rparr>)"
proof -
  let ?b = "write_u32_be m @ write_u32_be v @ [f] @ write_u16_be (word_of_nat (length cek)) @ nonce @
      write_u32_be (word_of_nat (length ct)) @ cek @ ct @ tag"
  have "read_u32_be ?b 0 = m" "read_u32_be ?b 4 = v" "?b ! 8 = f"
    "read_u16_be ?b 9 = word_of_nat (length cek)" "slice 11 12 ?b = nonce"
    "read_u32_be ?b 23 = word_of_nat (length ct)" "slice 27 (length cek) ?b = cek"
    "slice (27 + length cek) (length ct) ?b = ct" "slice (27 + length cek + length ct) 16 ?b = tag"
    "length ?b = 27 + length cek + length ct + 16"
    using n by (simp_all add: wire_simps)
  with cek ct show ?thesis
    by (simp add: shared_knock_codec_v3_unpack_wire_def v3_sizes unat_len_u16 unat_len_u32 zero_v3_packet_def)
qed

lemma v3_wire_roundtrip:
  assumes ok: "v3_packet_ok pkt" and p: "shared_knock_codec_v3_pack pkt buf = (n, out)" "0 < n"
  shows "shared_knock_codec_v3_unpack_wire (take (nat n) out) p0 = (SL_PAYLOAD_OK, pkt)"
proof -
  obtain cek ct where c: "0 < length cek" "length cek \<le> 256" "47 \<le> length ct" "length ct \<le> 559"
    "v3_wrapped_cek_len pkt = word_of_nat (length cek)" "v3_ciphertext_len pkt = word_of_nat (length ct)"
    "v3_wrapped_cek pkt = write_at 0 cek (replicate 256 0)"
    "v3_ciphertext pkt = write_at 0 ct (replicate 559 0)"
    and n: "length (v3_nonce pkt) = 12" "length (v3_tag pkt) = 16"
    using ok by (auto simp: v3_packet_ok_def)
  have buf: "27 + length cek + length ct + 16 \<le> length buf"
  proof (rule ccontr)
    assume "\<not> ?thesis"
    with c have "shared_knock_codec_v3_pack pkt buf = (SL_PAYLOAD_ERR_UNPACK, buf)"
      by (simp add: shared_knock_codec_v3_pack_def v3_sizes unat_len_u16 unat_len_u32)
    with p show False by (simp add: payload_codes)
  qed
  let ?b = "write_u32_be (px_magic (v3_outer pkt)) @ write_u32_be (px_version (v3_outer pkt)) @
      [px_form (v3_outer pkt)] @ write_u16_be (v3_wrapped_cek_len pkt) @ v3_nonce pkt @
      write_u32_be (v3_ciphertext_len pkt) @ cek @ ct @ v3_tag pkt"
  have "n = int (27 + length cek + length ct + 16)" "out = write_at 0 ?b buf"
    using v3_pack_bytes [OF c buf] p(1) by simp_all
  then have "take (nat n) out = ?b" using n by simp
  then show ?thesis
    using v3_unpack_bytes [OF c(1-4) n, of "px_magic (v3_outer pkt)" "px_version (v3_outer pkt)"
        "px_form (v3_outer pkt)" p0] c(5-8) by simp
qed

text \<open>Packets that the wire accepts are well formed.\<close>

lemma v3_unpack_wire_ok:
  assumes "shared_knock_codec_v3_unpack_wire buf p0 = (SL_PAYLOAD_OK, pkt)"
  shows "v3_packet_ok pkt" "length buf = 27 + unat (v3_wrapped_cek_len pkt) + unat (v3_ciphertext_len pkt) + 16"
    "px_magic (v3_outer pkt) = read_u32_be buf 0" "px_version (v3_outer pkt) = read_u32_be buf 4"
    "px_form (v3_outer pkt) = buf ! 8"
proof -
  let ?k = "unat (read_u16_be buf 9)" and ?c = "unat (read_u32_be buf 23)"
  have g: "27 \<le> length buf" "0 < ?k" "?k \<le> 256" "47 \<le> ?c" "?c \<le> 559" "length buf = 27 + ?k + ?c + 16"
    and pkt: "pkt = zero_v3_packet
      \<lparr>v3_outer := \<lparr>px_magic = read_u32_be buf 0, px_version = read_u32_be buf 4, px_form = buf ! 8\<rparr>,
       v3_wrapped_cek_len := read_u16_be buf 9, v3_nonce := slice 11 12 buf,
       v3_ciphertext_len := read_u32_be buf 23,
       v3_wrapped_cek := write_at 0 (slice 27 ?k buf) (replicate 256 0),
       v3_ciphertext := write_at 0 (slice (27 + ?k) ?c buf) (replicate 559 0),
       v3_tag := slice (27 + ?k + ?c) 16 buf\<rparr>"
    using assms
    by (auto simp: shared_knock_codec_v3_unpack_wire_def v3_sizes payload_codes zero_v3_packet_def Let_def
        split: if_splits)
  show "v3_packet_ok pkt"
    unfolding v3_packet_ok_def
  proof (intro conjI exI)
    show "0 < length (slice 27 ?k buf)" "length (slice 27 ?k buf) \<le> 256"
      "47 \<le> length (slice (27 + ?k) ?c buf)" "length (slice (27 + ?k) ?c buf) \<le> 559"
      using g by simp_all
    show "v3_wrapped_cek_len pkt = word_of_nat (length (slice 27 ?k buf))"
      "v3_ciphertext_len pkt = word_of_nat (length (slice (27 + ?k) ?c buf))"
      using g by (simp_all add: pkt)
  qed (use g in \<open>simp_all add: pkt\<close>)
  show "length buf = 27 + unat (v3_wrapped_cek_len pkt) + unat (v3_ciphertext_len pkt) + 16"
    "px_magic (v3_outer pkt) = read_u32_be buf 0" "px_version (v3_outer pkt) = read_u32_be buf 4"
    "px_form (v3_outer pkt) = buf ! 8"
    using g(6) by (simp_all add: pkt)
qed

lemma v3_deserialize_ok_iff:
  "shared_knock_codec_v3_deserialize_wire buf p0 = (SL_PAYLOAD_OK, pkt) \<longleftrightarrow>
   shared_knock_codec_v3_unpack_wire buf p0 = (SL_PAYLOAD_OK, pkt) \<and>
   v3_outer pkt = \<lparr>px_magic = SHARED_KNOCK_PREFIX_MAGIC, px_version = SHARED_KNOCK_CODEC_V3_WIRE_VERSION,
     px_form = SHARED_KNOCK_CODEC_FORM1_ID\<rparr>"
  (is "?l \<longleftrightarrow> ?r")
proof
  assume l: ?l
  then have u: "shared_knock_codec_v3_unpack_wire buf p0 = (SL_PAYLOAD_OK, pkt)"
    and v: "shared_knock_codec_v3_validate_wire pkt = SL_PAYLOAD_OK"
    by (auto simp: shared_knock_codec_v3_deserialize_wire_def payload_codes Let_def
        split: prod.splits if_splits)
  from v have "px_magic (v3_outer pkt) = SHARED_KNOCK_PREFIX_MAGIC"
    "px_version (v3_outer pkt) = SHARED_KNOCK_CODEC_V3_WIRE_VERSION"
    "px_form (v3_outer pkt) = SHARED_KNOCK_CODEC_FORM1_ID"
    by (auto simp: shared_knock_codec_v3_validate_wire_def payload_codes split: if_splits)
  with u show ?r by simp
next
  assume r: ?r
  then obtain cek ct where "0 < length (cek :: u8 list)" "length cek \<le> 256" "47 \<le> length (ct :: u8 list)"
    "length ct \<le> 559" "v3_wrapped_cek_len pkt = word_of_nat (length cek)"
    "v3_ciphertext_len pkt = word_of_nat (length ct)"
    using v3_unpack_wire_ok(1) [of buf p0 pkt] unfolding v3_packet_ok_def by blast
  then have "shared_knock_codec_v3_validate_wire pkt = SL_PAYLOAD_OK"
    using r by (simp add: shared_knock_codec_v3_validate_wire_def v3_sizes unat_len_u16 unat_len_u32
        word_unat_eq_iff)
  with r show ?l
    by (simp add: shared_knock_codec_v3_deserialize_wire_def payload_codes)
qed

section \<open>What is encoded is decoded\<close>

definition v3_header :: "nat \<Rightarrow> u8 list \<Rightarrow> nat \<Rightarrow> u8 list" where
  "v3_header wrapped_len nonce ct_len =
     write_u32_be SHARED_KNOCK_PREFIX_MAGIC @ write_u32_be SHARED_KNOCK_CODEC_V3_WIRE_VERSION @
     [SHARED_KNOCK_CODEC_FORM1_ID] @ write_u16_be (word_of_nat wrapped_len) @ nonce @
     write_u32_be (word_of_nat ct_len)"

lemma v3_body_hmac_length:
  "v3_body_hmac E has context normal = Some hmac \<Longrightarrow> length (nu_hmac normal) = 32 \<Longrightarrow> length hmac = 32"
  by (auto simp: v3_body_hmac_def shared_knock_digest_sign_def split: if_splits option.splits)

lemma v3_encrypt_payload_key_Some:
  assumes "shared_knock_codec_v3_encrypt_payload_key E context cek cap r = (Some wrapped, r')"
  obtains c session where "context = Some c" "cx_openssl_session c = Some session"
    "siglatch_openssl_session_encrypt E session cek r = (Some wrapped, r')"
    "0 < length wrapped" "length wrapped \<le> cap"
  using assms
  by (auto simp: shared_knock_codec_v3_encrypt_payload_key_def split: option.splits if_splits prod.splits)

lemma v3_encode_Some:
  assumes E: "gcm_lengths E" "rand_lengths E"
    and e: "shared_knock_codec_v3_encode E has context normal buf r = (Some bytes, r')"
    and buf: "length buf = SHARED_KNOCK_CODEC_V3_FORM1_PACKET_MAX_SIZE" and h: "length (nu_hmac normal) = 32"
  obtains hmac plaintext cek wrapped nonce ct tag r1 r2 where
    "v3_body_hmac E has context normal = Some hmac"
    "shared_knock_codec_v3_pack_plaintext (normal\<lparr>nu_hmac := hmac\<rparr>) SHARED_KNOCK_CODEC_V3_FORM1_BODY_MAX =
       Some plaintext" "length cek = 32" "length nonce = 12"
    "shared_knock_codec_v3_encrypt_payload_key E context cek SHARED_KNOCK_CODEC_V3_FORM1_CEK_MAX r1 =
       (Some wrapped, r2)"
    "siglatch_openssl_aesgcm_encrypt E cek nonce (v3_header (length wrapped) nonce (length plaintext))
       plaintext SHARED_KNOCK_CODEC_V3_FORM1_TAG_SIZE = Some (ct, tag)"
    "bytes = v3_header (length wrapped) nonce (length ct) @ wrapped @ ct @ tag"
    "length ct = length plaintext" "length tag = 16" "length bytes \<le> SHARED_KNOCK_CODEC_V3_FORM1_PACKET_MAX_SIZE"
proof -
  obtain hmac where hm: "v3_body_hmac E has context normal = Some hmac"
    using e by (auto simp: shared_knock_codec_v3_encode_def split: if_splits option.splits)
  obtain plaintext where pp: "shared_knock_codec_v3_pack_plaintext (normal\<lparr>nu_hmac := hmac\<rparr>)
      SHARED_KNOCK_CODEC_V3_FORM1_BODY_MAX = Some plaintext"
    using e hm by (auto simp: shared_knock_codec_v3_encode_def split: if_splits option.splits)
  obtain cek where cek: "RAND_bytes E r SHARED_KNOCK_CODEC_V3_FORM1_CEK_SIZE = Some cek"
    using e hm pp by (auto simp: shared_knock_codec_v3_encode_def split: if_splits option.splits)
  obtain wrapped r2 where w: "shared_knock_codec_v3_encrypt_payload_key E context cek
      SHARED_KNOCK_CODEC_V3_FORM1_CEK_MAX (r + 1) = (Some wrapped, r2)"
    using e hm pp cek
    by (auto simp: shared_knock_codec_v3_encode_def split: if_splits option.splits prod.splits)
  obtain nonce where nonce: "RAND_bytes E r2 12 = Some nonce"
    using e hm pp cek w by (auto simp: shared_knock_codec_v3_encode_def split: if_splits option.splits)
  have l: "length cek = 32" "length nonce = 12"
    using E(2) cek nonce by (auto simp: rand_lengths_def v3_sizes)
  have wl: "0 < length wrapped" "length wrapped \<le> 256"
    using v3_encrypt_payload_key_Some [OF w] by (auto simp: v3_sizes)
  let ?pkt = "zero_v3_packet
     \<lparr>v3_outer := \<lparr>px_magic = SHARED_KNOCK_PREFIX_MAGIC, px_version = SHARED_KNOCK_CODEC_V3_WIRE_VERSION,
        px_form = SHARED_KNOCK_CODEC_FORM1_ID\<rparr>,
      v3_wrapped_cek := write_at 0 wrapped (v3_wrapped_cek zero_v3_packet),
      v3_wrapped_cek_len := word_of_nat (length wrapped),
      v3_ciphertext_len := word_of_nat (length plaintext), v3_nonce := nonce\<rparr>"
  have aad: "shared_knock_codec_v3_build_aad ?pkt SHARED_KNOCK_CODEC_V3_FORM1_HEADER_SIZE =
      Some (v3_header (length wrapped) nonce (length plaintext))"
    by (simp add: shared_knock_codec_v3_build_aad_def v3_header_def)
  note run = e [unfolded shared_knock_codec_v3_encode_def hm option.case pp cek w prod.case nonce Let_def aad]
  obtain ct tag where g: "siglatch_openssl_aesgcm_encrypt E cek nonce
      (v3_header (length wrapped) nonce (length plaintext)) plaintext
      SHARED_KNOCK_CODEC_V3_FORM1_TAG_SIZE = Some (ct, tag)"
    using run by (auto split: if_splits option.splits)
  have gl: "length ct = length plaintext" "length tag = 16"
    using E(1) g by (auto simp: siglatch_openssl_aesgcm_encrypt_def gcm_lengths_def SL_OPENSSL_AESGCM_TAG_LEN_def
        split: if_splits)
  have pl: "47 \<le> length plaintext" "length plaintext \<le> 559"
    using v3_pack_plaintext_Some [OF pp] v3_body_hmac_length [OF hm h] by simp_all
  let ?pkt2 = "?pkt\<lparr>v3_ciphertext_len := word_of_nat (length ct),
      v3_ciphertext := write_at 0 ct (v3_ciphertext ?pkt), v3_tag := tag\<rparr>"
  let ?b = "v3_header (length wrapped) nonce (length ct) @ wrapped @ ct @ tag"
  have pk: "shared_knock_codec_v3_pack ?pkt2 buf = (int (27 + length wrapped + length ct + 16), write_at 0 ?b buf)"
    using v3_pack_bytes [of wrapped ct ?pkt2 buf] wl pl gl buf
    by (simp add: zero_v3_packet_def v3_sizes v3_header_def)
  have lb: "length ?b = 27 + length wrapped + length ct + 16"
    using l gl by (simp add: v3_header_def)
  have "bytes = take (27 + length wrapped + length ct + 16) (write_at 0 ?b buf)"
    using run g pk gl pl wl by (auto simp: v3_sizes split: if_splits)
  also have "\<dots> = ?b" by (rule take_write_at_0) (simp only: lb)
  finally have "bytes = ?b" .
  moreover from this have "length bytes \<le> SHARED_KNOCK_CODEC_V3_FORM1_PACKET_MAX_SIZE"
    using lb wl pl gl by (simp add: v3_sizes)
  ultimately show thesis using that [OF hm pp l w g _ gl] by blast
qed

lemma v3_deserialize_header:
  assumes "0 < length wrapped" "length wrapped \<le> 256" "47 \<le> length ct" "length ct \<le> 559"
    "length nonce = 12" "length tag = 16"
  shows "shared_knock_codec_v3_deserialize_wire (v3_header (length wrapped) nonce (length ct) @ wrapped @ ct @ tag) p0 =
    (SL_PAYLOAD_OK, \<lparr>v3_outer = \<lparr>px_magic = SHARED_KNOCK_PREFIX_MAGIC,
        px_version = SHARED_KNOCK_CODEC_V3_WIRE_VERSION, px_form = SHARED_KNOCK_CODEC_FORM1_ID\<rparr>,
      v3_wrapped_cek_len = word_of_nat (length wrapped), v3_nonce = nonce,
      v3_ciphertext_len = word_of_nat (length ct),
      v3_wrapped_cek = write_at 0 wrapped (replicate 256 0),
      v3_ciphertext = write_at 0 ct (replicate 559 0), v3_tag = tag\<rparr>)"
  using v3_unpack_bytes [OF assms, of SHARED_KNOCK_PREFIX_MAGIC SHARED_KNOCK_CODEC_V3_WIRE_VERSION
      SHARED_KNOCK_CODEC_FORM1_ID p0]
  by (simp add: v3_deserialize_ok_iff v3_header_def)

text \<open>
  The whole way: what a client with the server's public key encodes, a server with the private key
  decodes to the same unit, with the sender's address, its HMAC, and the flags of a decoded packet.
\<close>

definition v3_delivered ::
  "SharedKnockNormalizedUnit \<Rightarrow> u8 list \<Rightarrow> string \<Rightarrow> u16 \<Rightarrow> SharedKnockNormalizedUnit" where
  "v3_delivered normal hmac ip client_port = (v3_received (normal\<lparr>nu_hmac := hmac\<rparr>) ip client_port)
     \<lparr>nu_complete := True, nu_wire_version := SHARED_KNOCK_CODEC_V3_WIRE_VERSION,
      nu_wire_form := SHARED_KNOCK_CODEC_FORM1_ID, nu_session_id := 0, nu_message_id := 0,
      nu_stream_id := 0, nu_fragment_index := 0, nu_fragment_count := 1, nu_encrypted := True,
      nu_wire_decode := True, nu_wire_auth := False\<rparr>"

lemma v3_codec_roundtrip:
  assumes E: "gcm_lengths E" "gcm_inverts E" "rand_lengths E"
    and client: "cx_openssl_session client = Some s1" "ss_public_key s1 = Some pub"
    and server: "cx_openssl_session server = Some s2" "ss_private_key s2 = Some priv"
    and pair: "rsa_pair E pub priv"
    and e: "shared_knock_codec_v3_encode E has (Some client) normal buf r = (Some bytes, r')"
    and buf: "length buf = SHARED_KNOCK_CODEC_V3_FORM1_PACKET_MAX_SIZE" and h: "length (nu_hmac normal) = 32"
    and ing: "in_buffer ingress = bytes"
  shows "\<exists>hmac. v3_body_hmac E has (Some client) normal = Some hmac \<and>
    shared_knock_codec_v3_decode E (Some server) (Some state) ingress control zero_unit =
      (1, control,
       v3_delivered normal hmac (in_ip ingress) (in_client_port ingress))"
proof -
  obtain hmac plaintext cek wrapped nonce ct tag r1 r2 where
    hm: "v3_body_hmac E has (Some client) normal = Some hmac"
    and pp: "shared_knock_codec_v3_pack_plaintext (normal\<lparr>nu_hmac := hmac\<rparr>)
      SHARED_KNOCK_CODEC_V3_FORM1_BODY_MAX = Some plaintext" and l: "length cek = 32" "length nonce = 12"
    and w: "shared_knock_codec_v3_encrypt_payload_key E (Some client) cek
      SHARED_KNOCK_CODEC_V3_FORM1_CEK_MAX r1 = (Some wrapped, r2)"
    and g: "siglatch_openssl_aesgcm_encrypt E cek nonce (v3_header (length wrapped) nonce (length plaintext))
       plaintext SHARED_KNOCK_CODEC_V3_FORM1_TAG_SIZE = Some (ct, tag)"
    and b: "bytes = v3_header (length wrapped) nonce (length ct) @ wrapped @ ct @ tag"
    and gl: "length ct = length plaintext" "length tag = 16"
    using v3_encode_Some [OF E(1,3) e buf h] by metis
  obtain c session where cs: "Some client = Some c" "cx_openssl_session c = Some session"
    "siglatch_openssl_session_encrypt E session cek r1 = (Some wrapped, r2)" "0 < length wrapped"
    "length wrapped \<le> SHARED_KNOCK_CODEC_V3_FORM1_CEK_MAX"
    by (rule v3_encrypt_payload_key_Some [OF w])
  then have se: "siglatch_openssl_session_encrypt E s1 cek r1 = (Some wrapped, r2)"
    and wl: "0 < length wrapped" "length wrapped \<le> 256"
    using client by (simp_all add: v3_sizes)
  have pl: "47 \<le> length ct" "length ct \<le> 559"
    using v3_pack_plaintext_Some [OF pp] v3_body_hmac_length [OF hm h] gl by simp_all
  let ?pkt = "\<lparr>v3_outer = \<lparr>px_magic = SHARED_KNOCK_PREFIX_MAGIC,
        px_version = SHARED_KNOCK_CODEC_V3_WIRE_VERSION, px_form = SHARED_KNOCK_CODEC_FORM1_ID\<rparr>,
      v3_wrapped_cek_len = word_of_nat (length wrapped), v3_nonce = nonce,
      v3_ciphertext_len = word_of_nat (length ct),
      v3_wrapped_cek = write_at 0 wrapped (replicate 256 0),
      v3_ciphertext = write_at 0 ct (replicate 559 0), v3_tag = tag\<rparr>"
  have ds: "shared_knock_codec_v3_deserialize_wire bytes zero_v3_packet = (SL_PAYLOAD_OK, ?pkt)"
    using v3_deserialize_header [OF wl pl l(2) gl(2)] b by simp
  have sd: "siglatch_openssl_session_decrypt E s2 wrapped = (SL_SSL_DECRYPT_OK, cek)"
    using session_rsa_roundtrip [OF client(2) server(2) pair se] .
  have key: "shared_knock_codec_v3_get_payload_key E (Some server) ?pkt SHARED_KNOCK_CODEC_V3_FORM1_CEK_SIZE =
      (SL_PAYLOAD_OK, cek)"
    using wl l sd server
    by (simp add: shared_knock_codec_v3_get_payload_key_def shared_knock_codec_v3_decrypt_payload_key_def
        unat_len_u16 v3_sizes)
  have aad: "shared_knock_codec_v3_build_aad ?pkt SHARED_KNOCK_CODEC_V3_FORM1_HEADER_SIZE =
      Some (v3_header (length wrapped) nonce (length ct))"
    by (simp add: shared_knock_codec_v3_build_aad_def v3_header_def)
  have dec: "siglatch_openssl_aesgcm_decrypt E cek nonce (v3_header (length wrapped) nonce (length ct)) ct tag =
      Some plaintext"
    using aesgcm_roundtrip(1) [OF E(1,2) g] gl by simp
  have up: "shared_knock_codec_v3_unpack_plaintext plaintext ip client_port zero_unit =
      (True, v3_received (normal\<lparr>nu_hmac := hmac\<rparr>) ip client_port)" for ip client_port
    using v3_plaintext_roundtrip [OF pp] v3_body_hmac_length [OF hm h] by simp
  have du: "shared_knock_codec_v3_decrypt_and_unpack_packet E (Some server) ?pkt ip client_port zero_unit =
      (SL_PAYLOAD_OK, v3_received (normal\<lparr>nu_hmac := hmac\<rparr>) ip client_port)"
    for ip client_port
    using pl key aad dec up
    by (simp add: shared_knock_codec_v3_decrypt_and_unpack_packet_def unat_len_u32)
  have "shared_knock_codec_v3_decode E (Some server) (Some state) ingress control zero_unit =
      (1, control,
       v3_delivered normal hmac (in_ip ingress) (in_client_port ingress))"
    unfolding shared_knock_codec_v3_decode_def Let_def ing ds prod.case du v3_delivered_def
    by simp
  with hm show ?thesis by blast
qed

section \<open>The adapter keeps the contract of the mux\<close>

lemma v3_adapter_decode_heap:
  assumes "heap_ok h" "rp_user out = Some u" "u \<in> live h"
    "shared_knock_codec_v3_adapter_decode E context st ingress control out h = (b, control', out', h')"
  shows "heap_ok h' \<and> live h' = live h \<and> rp_user out' = Some u"
proof -
  obtain rc c1 normal where d: "shared_knock_codec_v3_decode E context st ingress control zero_unit = (rc, c1, normal)"
    by (metis prod_cases3)
  obtain b1 o1 h1 where c: "shared_knock_codec_v4_copy_recv_packet normal out h = (b1, o1, h1)"
    by (metis prod_cases3)
  from v4_copy_recv_heap [OF assms(1-3) c] assms show ?thesis
    by (cases b1) (auto simp: shared_knock_codec_v3_adapter_decode_def v3_copies_v4 d c split: if_splits)
qed

text \<open>A buffer that the codec detects never makes \<open>decode\<close> return the negative code.\<close>

lemma v3_decode_version:
  assumes det: "shared_knock_codec_v3_detect raw idn = (True, idn')" and buf: "in_buffer ingress = in_buffer raw"
    and d: "shared_knock_codec_v3_decode E context st ingress control out = (rc, control', out')" "rc \<noteq> 0"
  shows "rc = 1 \<and> nu_wire_version out' = SHARED_KNOCK_CODEC_V3_WIRE_VERSION"
proof -
  obtain pkt where ds: "shared_knock_codec_v3_deserialize_wire (in_buffer raw) zero_v3_packet = (SL_PAYLOAD_OK, pkt)"
    using det by (auto simp: shared_knock_codec_v3_detect_def split: prod.splits if_splits)
  obtain rc2 o2 where du: "shared_knock_codec_v3_decrypt_and_unpack_packet E context pkt (in_ip ingress)
      (in_client_port ingress) out = (rc2, o2)" by fastforce
  note run = d(1) [unfolded shared_knock_codec_v3_decode_def Let_def buf ds prod.case du]
  show ?thesis using run d(2) by (auto split: if_splits)
qed

lemma v3_adapter_decode_version:
  assumes "shared_knock_codec_v3_detect raw idn = (True, idn')" "in_buffer ingress = in_buffer raw"
    and d: "shared_knock_codec_v3_adapter_decode E context st ingress control out h = (True, control', out', h')"
  shows "rp_wire_version out' = SHARED_KNOCK_CODEC_V3_WIRE_VERSION"
proof -
  obtain rc c1 normal where dd: "shared_knock_codec_v3_decode E context st ingress control zero_unit = (rc, c1, normal)"
    by (metis prod_cases3)
  obtain b1 o1 h1 where c: "shared_knock_codec_v4_copy_recv_packet normal out h = (b1, o1, h1)"
    by (metis prod_cases3)
  have rc: "rc \<noteq> 0" and b1: b1 and o: "out' = o1\<lparr>rp_received_ms := in_received_ms ingress\<rparr>"
    using d by (auto simp: shared_knock_codec_v3_adapter_decode_def v3_copies_v4 dd c split: if_splits bool.splits)
  have "nu_wire_version normal = SHARED_KNOCK_CODEC_V3_WIRE_VERSION"
    using v3_decode_version [OF assms(1,2) dd rc] by simp
  moreover have "rp_wire_version o1 = nu_wire_version normal"
    using c b1 by (auto simp: shared_knock_codec_v4_copy_recv_packet_def zero_recv_def split: option.splits if_splits)
  ultimately show ?thesis using o by simp
qed

interpretation v3_adapter: codec_adapter
  "(shared_knock_codec_v3_adapter E has cx c1 c2)\<lparr>ad_state := st\<rparr>"
  for E has cx c1 c2 st
  by unfold_locales
    (auto simp: shared_knock_codec_v3_adapter_def shared_knock_codec_v3_copy_user_recv_data_def
      shared_knock_codec_v3_adapter_encode_def
      SHARED_KNOCK_CODEC_V3_WIRE_VERSION_def [THEN arg_cong [where f = "\<lambda>w. w = 0"]]
      intro: fill_egress_fits v3_adapter_decode_version
      dest: v3_adapter_decode_heap split: option.splits prod.splits)

end
