(* ===== verification/Detect.thy ===== *)
theory Detect
  imports Codec_V1 Codec_V3_Facts
begin

text \<open>
  \<open>shared/knock/detect.c\<close>: telling the wire version of a datagram without any key. \<open>now\<close> is what
  \<open>time\<close> returns. The structures of the V1 packet are those of the codec.
\<close>

datatype SharedKnockRouteKind = SHARED_KNOCK_ROUTE_UNKNOWN | SHARED_KNOCK_ROUTE_V1_LEGACY
  | SHARED_KNOCK_ROUTE_V2_FORM1 | SHARED_KNOCK_ROUTE_V3_FORM1 | SHARED_KNOCK_ROUTE_V4_FORM1

record SharedKnockRoutingInfo =
  ri_kind :: SharedKnockRouteKind
  ri_version :: u32
  ri_form :: u8
  ri_expected_packet_size :: nat
  ri_exact_size_required :: bool
  ri_identified_by_prefix :: bool

definition zero_routing_info :: SharedKnockRoutingInfo where
  "zero_routing_info = \<lparr>ri_kind = SHARED_KNOCK_ROUTE_UNKNOWN, ri_version = 0, ri_form = 0,
     ri_expected_packet_size = 0, ri_exact_size_required = False, ri_identified_by_prefix = False\<rparr>"

definition SHARED_KNOCK_DETECT_V1_TIMESTAMP_FUZZ :: int where
  "SHARED_KNOCK_DETECT_V1_TIMESTAMP_FUZZ = 300"

definition shared_knock_detect_v1_unpack :: "u8 list \<Rightarrow> KnockPacket \<Rightarrow> bool \<times> KnockPacket" where
  "shared_knock_detect_v1_unpack buf pkt =
     (if length buf < SHARED_KNOCK_CODEC_V1_PACKET_SIZE then (False, pkt)
      else (True, \<lparr>kp_version = buf ! 0, kp_timestamp = read_mem_u32 buf 1, kp_user_id = read_mem_u16 buf 5,
         kp_action_id = buf ! 7, kp_challenge = read_mem_u32 buf 8, kp_hmac = slice 12 32 buf,
         kp_payload_len = read_mem_u16 buf 44, kp_payload = slice 46 KNOCK_PAYLOAD_SIZE buf\<rparr>))"

definition shared_knock_detect_v1_validate :: "int \<Rightarrow> KnockPacket \<Rightarrow> bool" where
  "shared_knock_detect_v1_validate now pkt =
     (if ucast (kp_version pkt) \<noteq> SHARED_KNOCK_CODEC_V1_VERSION then False
      else if unat (kp_payload_len pkt) > KNOCK_PAYLOAD_SIZE then False
      else if uint (kp_timestamp pkt) > now + SHARED_KNOCK_DETECT_V1_TIMESTAMP_FUZZ \<or>
              uint (kp_timestamp pkt) < now - SHARED_KNOCK_DETECT_V1_TIMESTAMP_FUZZ
      then False
      else True)"

definition shared_knock_detect_v1_deserialize :: "int \<Rightarrow> u8 list \<Rightarrow> KnockPacket \<Rightarrow> bool \<times> KnockPacket" where
  "shared_knock_detect_v1_deserialize now buf pkt =
     (let (ok, pkt1) = shared_knock_detect_v1_unpack buf pkt
      in if \<not> ok then (False, pkt1) else (shared_knock_detect_v1_validate now pkt1, pkt1))"

text \<open>
  The branch of a sealed version, once its prefix has been recognised: both lengths must be in range
  and add up to the size of the datagram.
\<close>

definition detect_sealed ::
  "SharedKnockRouteKind \<Rightarrow> u32 \<Rightarrow> u8 \<Rightarrow> nat \<Rightarrow> nat \<Rightarrow> nat \<Rightarrow> nat \<Rightarrow> nat \<Rightarrow> u8 list \<Rightarrow>
   bool \<times> SharedKnockRoutingInfo" where
  "detect_sealed kind version form cek_max body_max body_fixed header tag buf =
     (let wrapped_cek_len = unat (read_u16_be buf 9);
          ciphertext_len = unat (read_u32_be buf 23)
      in if wrapped_cek_len > cek_max \<or> wrapped_cek_len = 0 \<or> ciphertext_len > body_max \<or>
            ciphertext_len < body_fixed
         then (False, zero_routing_info)
         else
           let expected_size = header + wrapped_cek_len + ciphertext_len + tag
           in if length buf \<noteq> expected_size then (False, zero_routing_info)
              else (True, \<lparr>ri_kind = kind, ri_version = version, ri_form = form,
                 ri_expected_packet_size = expected_size, ri_exact_size_required = True,
                 ri_identified_by_prefix = True\<rparr>))"

text \<open>The last two branches, which are tried for every datagram that is not of a sealed version.\<close>

definition detect_plain :: "int \<Rightarrow> u8 list \<Rightarrow> bool \<times> SharedKnockRoutingInfo" where
  "detect_plain now buf =
     (if length buf \<ge> SHARED_KNOCK_CODEC_V2_FORM1_OUTER_SIZE \<and>
         read_u32_be buf 0 = SHARED_KNOCK_PREFIX_MAGIC \<and>
         read_u32_be buf 4 = SHARED_KNOCK_CODEC_V2_WIRE_VERSION \<and> buf ! 8 = SHARED_KNOCK_CODEC_FORM1_ID
      then (True, \<lparr>ri_kind = SHARED_KNOCK_ROUTE_V2_FORM1, ri_version = read_u32_be buf 4,
             ri_form = buf ! 8, ri_expected_packet_size = SHARED_KNOCK_CODEC_V2_FORM1_PACKET_SIZE,
             ri_exact_size_required = True, ri_identified_by_prefix = True\<rparr>)
      else if length buf = SHARED_KNOCK_CODEC_V1_PACKET_SIZE
      then (case shared_knock_detect_v1_deserialize now buf zero_v1_packet of
              (False, pkt) \<Rightarrow> (False, zero_routing_info)
            | (True, pkt) \<Rightarrow> (True, \<lparr>ri_kind = SHARED_KNOCK_ROUTE_V1_LEGACY,
                 ri_version = ucast (kp_version pkt), ri_form = 0,
                 ri_expected_packet_size = SHARED_KNOCK_CODEC_V1_PACKET_SIZE,
                 ri_exact_size_required = True, ri_identified_by_prefix = False\<rparr>))
      else (False, zero_routing_info))"

definition shared_knock_detect :: "int \<Rightarrow> u8 list \<Rightarrow> bool \<times> SharedKnockRoutingInfo" where
  "shared_knock_detect now buf =
     (if length buf \<ge> SHARED_KNOCK_CODEC_V3_FORM1_HEADER_SIZE \<and>
         read_u32_be buf 0 = SHARED_KNOCK_PREFIX_MAGIC \<and>
         read_u32_be buf 4 = SHARED_KNOCK_CODEC_V4_WIRE_VERSION \<and> buf ! 8 = SHARED_KNOCK_CODEC_FORM1_ID
      then detect_sealed SHARED_KNOCK_ROUTE_V4_FORM1 (read_u32_be buf 4) (buf ! 8)
             SHARED_KNOCK_CODEC_V4_FORM1_CEK_MAX SHARED_KNOCK_CODEC_V4_FORM1_BODY_MAX
             SHARED_KNOCK_CODEC_V4_FORM1_BODY_FIXED_SIZE SHARED_KNOCK_CODEC_V4_FORM1_HEADER_SIZE
             SHARED_KNOCK_CODEC_V4_FORM1_TAG_SIZE buf
      else if length buf \<ge> SHARED_KNOCK_CODEC_V3_FORM1_HEADER_SIZE \<and>
         read_u32_be buf 0 = SHARED_KNOCK_PREFIX_MAGIC \<and>
         read_u32_be buf 4 = SHARED_KNOCK_CODEC_V3_WIRE_VERSION \<and> buf ! 8 = SHARED_KNOCK_CODEC_FORM1_ID
      then detect_sealed SHARED_KNOCK_ROUTE_V3_FORM1 (read_u32_be buf 4) (buf ! 8)
             SHARED_KNOCK_CODEC_V3_FORM1_CEK_MAX SHARED_KNOCK_CODEC_V3_FORM1_BODY_MAX
             SHARED_KNOCK_CODEC_V3_FORM1_BODY_FIXED_SIZE SHARED_KNOCK_CODEC_V3_FORM1_HEADER_SIZE
             SHARED_KNOCK_CODEC_V3_FORM1_TAG_SIZE buf
      else detect_plain now buf)"

definition shared_knock_detect_kind :: "int \<Rightarrow> u8 list \<Rightarrow> SharedKnockRouteKind" where
  "shared_knock_detect_kind now buf =
     (case shared_knock_detect now buf of
        (False, info) \<Rightarrow> SHARED_KNOCK_ROUTE_UNKNOWN
      | (True, info) \<Rightarrow> ri_kind info)"

fun shared_knock_detect_kind_name :: "SharedKnockRouteKind \<Rightarrow> string" where
  "shared_knock_detect_kind_name SHARED_KNOCK_ROUTE_V1_LEGACY = ''v1-legacy''"
| "shared_knock_detect_kind_name SHARED_KNOCK_ROUTE_V2_FORM1 = ''v2-form1''"
| "shared_knock_detect_kind_name SHARED_KNOCK_ROUTE_V3_FORM1 = ''v3-form1''"
| "shared_knock_detect_kind_name SHARED_KNOCK_ROUTE_V4_FORM1 = ''v4-form1''"
| "shared_knock_detect_kind_name SHARED_KNOCK_ROUTE_UNKNOWN = ''unknown''"

section \<open>The router and the codecs\<close>

lemma unat_lt2p_u8: "unat (b :: u8) < 256"
  using unsigned_less [of b, where 'a = nat] by simp

lemma magic_first_byte:
  assumes "read_u32_be buf 0 = SHARED_KNOCK_PREFIX_MAGIC" shows "buf ! 0 \<noteq> 1"
proof
  assume one: "buf ! 0 = 1"
  have high: "\<not> bit (b :: u8) n" if "8 \<le> n" for b n
    using bit_imp_le_length [of b n] that by auto
  have "\<not> bit (read_u32_be buf 0) 25"
    by (simp add: read_u32_be_def bit_simps one high)
  moreover have "bit SHARED_KNOCK_PREFIX_MAGIC 25"
    by (simp add: SHARED_KNOCK_PREFIX_MAGIC_def bit_iff_odd)
  ultimately show False using assms by simp
qed

lemma detect_v1_deserialize_eq:
  "fst (shared_knock_detect_v1_deserialize now buf p0) \<longleftrightarrow>
   fst (shared_knock_codec_v1_deserialize_wire now buf p1) = SL_PAYLOAD_OK"
  by (simp add: shared_knock_detect_v1_deserialize_def shared_knock_detect_v1_unpack_def
      shared_knock_detect_v1_validate_def shared_knock_codec_v1_deserialize_wire_def
      shared_knock_codec_v1_unpack_wire_def shared_knock_codec_v1_validate_wire_def Let_def
      SHARED_KNOCK_DETECT_V1_TIMESTAMP_FUZZ_def SHARED_KNOCK_CODEC_V1_TIMESTAMP_FUZZ_def payload_codes)

text \<open>A datagram that V1 accepts in the clear has no prefix.\<close>

lemma v1_no_magic:
  assumes "fst (shared_knock_codec_v1_deserialize_wire now buf p1) = SL_PAYLOAD_OK"
  shows "read_u32_be buf 0 \<noteq> SHARED_KNOCK_PREFIX_MAGIC"
proof
  assume "read_u32_be buf 0 = SHARED_KNOCK_PREFIX_MAGIC"
  from magic_first_byte [OF this] have "buf ! 0 \<noteq> 1" .
  moreover have "ucast (buf ! 0) = SHARED_KNOCK_CODEC_V1_VERSION"
    using assms
    by (auto simp: shared_knock_codec_v1_deserialize_wire_def shared_knock_codec_v1_unpack_wire_def
        shared_knock_codec_v1_validate_wire_def payload_codes Let_def split: if_splits prod.splits)
  ultimately show False
    by (simp add: SHARED_KNOCK_CODEC_V1_VERSION_def word_unat_eq_iff unsigned_ucast_eq take_bit_nat_eq_self
        order_less_le_trans [OF unat_lt2p_u8])
qed

lemma v2_deserialize_prefix:
  assumes "fst (shared_knock_codec_v2_deserialize_wire now buf p0) = SL_PAYLOAD_OK"
  shows "length buf = 245 \<and> read_u32_be buf 0 = SHARED_KNOCK_PREFIX_MAGIC \<and>
    read_u32_be buf 4 = SHARED_KNOCK_CODEC_V2_WIRE_VERSION \<and> buf ! 8 = SHARED_KNOCK_CODEC_FORM1_ID"
  using assms
  by (auto simp: shared_knock_codec_v2_deserialize_wire_def shared_knock_codec_v2_unpack_wire_def
      shared_knock_codec_v2_validate_wire_def v2_sizes payload_codes Let_def split: if_splits prod.splits)

lemma v2_accepts_exactly:
  "fst (shared_knock_codec_v2_deserialize_wire now buf p0) = SL_PAYLOAD_OK \<longleftrightarrow>
    length buf = 245 \<and> read_u32_be buf 0 = SHARED_KNOCK_PREFIX_MAGIC \<and>
    read_u32_be buf 4 = SHARED_KNOCK_CODEC_V2_WIRE_VERSION \<and> buf ! 8 = SHARED_KNOCK_CODEC_FORM1_ID \<and>
    unat (read_u16_be buf 52) \<le> 191 \<and> uint (read_u32_be buf 9) \<in> {now - 300..now + 300}"
  by (auto simp: shared_knock_codec_v2_deserialize_wire_def shared_knock_codec_v2_unpack_wire_def
      shared_knock_codec_v2_validate_wire_def SHARED_KNOCK_CODEC_V2_FORM1_TIMESTAMP_FUZZ_def v2_sizes payload_codes Let_def
      not_less)

lemma v3_detects_exactly:
  "fst (shared_knock_codec_v3_detect ingress identity) \<longleftrightarrow>
    (let buf = in_buffer ingress;
         cek_len = unat (read_u16_be buf 9);
         ct_len = unat (read_u32_be buf 23)
     in 27 \<le> length buf \<and> read_u32_be buf 0 = SHARED_KNOCK_PREFIX_MAGIC \<and>
        read_u32_be buf 4 = SHARED_KNOCK_CODEC_V3_WIRE_VERSION \<and> buf ! 8 = SHARED_KNOCK_CODEC_FORM1_ID \<and>
        0 < cek_len \<and> cek_len \<le> 256 \<and> 47 \<le> ct_len \<and> ct_len \<le> 559 \<and>
        length buf = 27 + cek_len + ct_len + 16)"
  by (auto simp: shared_knock_codec_v3_detect_def shared_knock_codec_v3_deserialize_wire_def
      shared_knock_codec_v3_unpack_wire_def shared_knock_codec_v3_validate_wire_def Let_def v3_sizes
      payload_codes zero_v3_packet_def not_less unat_eq_0 unat_gt_0 split: if_splits)

lemma v4_detects_iff:
  "fst (shared_knock_codec_v4_detect ingress identity) \<longleftrightarrow>
    (let buf = in_buffer ingress;
         cek_len = unat (read_u16_be buf 9);
         ct_len = unat (read_u32_be buf 23)
     in 27 \<le> length buf \<and> read_u32_be buf 0 = SHARED_KNOCK_PREFIX_MAGIC \<and>
        read_u32_be buf 4 = SHARED_KNOCK_CODEC_V4_WIRE_VERSION \<and> buf ! 8 = SHARED_KNOCK_CODEC_FORM1_ID \<and>
        0 < cek_len \<and> cek_len \<le> 256 \<and> 77 \<le> ct_len \<and> ct_len \<le> 589 \<and>
        length buf = 27 + cek_len + ct_len + 16)"
  by (auto simp: shared_knock_codec_v4_detect_def shared_knock_codec_v4_deserialize_wire_def
      shared_knock_codec_v4_unpack_wire_def shared_knock_codec_v4_validate_wire_def Let_def v4_sizes
      payload_codes zero_v4_packet_def not_less unat_eq_0 unat_gt_0 split: if_splits)

lemma detect_sealed_kind:
  "fst (detect_sealed kind version form cek_max body_max body_fixed header tag buf) \<longleftrightarrow>
    0 < unat (read_u16_be buf 9) \<and> unat (read_u16_be buf 9) \<le> cek_max \<and>
    body_fixed \<le> unat (read_u32_be buf 23) \<and> unat (read_u32_be buf 23) \<le> body_max \<and>
    length buf = header + unat (read_u16_be buf 9) + unat (read_u32_be buf 23) + tag"
  "fst (detect_sealed kind version form cek_max body_max body_fixed header tag buf) \<Longrightarrow>
   ri_kind (snd (detect_sealed kind version form cek_max body_max body_fixed header tag buf)) = kind"
  by (auto simp: detect_sealed_def Let_def)

lemma kind_cases:
  "shared_knock_detect_kind now buf =
    (if fst (shared_knock_detect now buf) then ri_kind (snd (shared_knock_detect now buf))
     else SHARED_KNOCK_ROUTE_UNKNOWN)"
  by (simp add: shared_knock_detect_kind_def split: prod.splits bool.splits)

lemma versions_differ:
  "SHARED_KNOCK_CODEC_V4_WIRE_VERSION \<noteq> SHARED_KNOCK_CODEC_V3_WIRE_VERSION"
  "SHARED_KNOCK_CODEC_V4_WIRE_VERSION \<noteq> SHARED_KNOCK_CODEC_V2_WIRE_VERSION"
  "SHARED_KNOCK_CODEC_V3_WIRE_VERSION \<noteq> SHARED_KNOCK_CODEC_V2_WIRE_VERSION"
  by (simp_all add: SHARED_KNOCK_CODEC_V4_WIRE_VERSION_def SHARED_KNOCK_CODEC_V3_WIRE_VERSION_def
      SHARED_KNOCK_CODEC_V2_WIRE_VERSION_def)

lemma detect_plain_kind:
  "fst (detect_plain now buf) \<Longrightarrow> ri_kind (snd (detect_plain now buf)) =
    (if length buf \<ge> 9 \<and> read_u32_be buf 0 = SHARED_KNOCK_PREFIX_MAGIC \<and>
        read_u32_be buf 4 = SHARED_KNOCK_CODEC_V2_WIRE_VERSION \<and> buf ! 8 = SHARED_KNOCK_CODEC_FORM1_ID
     then SHARED_KNOCK_ROUTE_V2_FORM1 else SHARED_KNOCK_ROUTE_V1_LEGACY)"
  "fst (detect_plain now buf) \<longleftrightarrow>
    (length buf \<ge> 9 \<and> read_u32_be buf 0 = SHARED_KNOCK_PREFIX_MAGIC \<and>
        read_u32_be buf 4 = SHARED_KNOCK_CODEC_V2_WIRE_VERSION \<and> buf ! 8 = SHARED_KNOCK_CODEC_FORM1_ID) \<or>
    (length buf = 245 \<and> fst (shared_knock_codec_v1_deserialize_wire now buf zero_v1_packet) = SL_PAYLOAD_OK)"
proof -
  obtain ok pkt where d: "shared_knock_detect_v1_deserialize now buf zero_v1_packet = (ok, pkt)" by fastforce
  have ok: "ok \<longleftrightarrow> fst (shared_knock_codec_v1_deserialize_wire now buf zero_v1_packet) = SL_PAYLOAD_OK"
    using detect_v1_deserialize_eq [of now buf zero_v1_packet zero_v1_packet] d by simp
  show "fst (detect_plain now buf) \<Longrightarrow> ri_kind (snd (detect_plain now buf)) =
      (if length buf \<ge> 9 \<and> read_u32_be buf 0 = SHARED_KNOCK_PREFIX_MAGIC \<and>
          read_u32_be buf 4 = SHARED_KNOCK_CODEC_V2_WIRE_VERSION \<and> buf ! 8 = SHARED_KNOCK_CODEC_FORM1_ID
       then SHARED_KNOCK_ROUTE_V2_FORM1 else SHARED_KNOCK_ROUTE_V1_LEGACY)"
    by (cases ok) (auto simp: detect_plain_def v2_sizes v1_sizes d split: if_splits)
  show "fst (detect_plain now buf) \<longleftrightarrow>
    (length buf \<ge> 9 \<and> read_u32_be buf 0 = SHARED_KNOCK_PREFIX_MAGIC \<and>
        read_u32_be buf 4 = SHARED_KNOCK_CODEC_V2_WIRE_VERSION \<and> buf ! 8 = SHARED_KNOCK_CODEC_FORM1_ID) \<or>
    (length buf = 245 \<and> fst (shared_knock_codec_v1_deserialize_wire now buf zero_v1_packet) = SL_PAYLOAD_OK)"
    using ok by (cases ok) (auto simp: detect_plain_def v2_sizes v1_sizes d)
qed

text \<open>The prefix of V2, all that the router looks at.\<close>

definition v2_prefixed :: "u8 list \<Rightarrow> bool" where
  "v2_prefixed buf \<longleftrightarrow> 9 \<le> length buf \<and> read_u32_be buf 0 = SHARED_KNOCK_PREFIX_MAGIC \<and>
     read_u32_be buf 4 = SHARED_KNOCK_CODEC_V2_WIRE_VERSION \<and> buf ! 8 = SHARED_KNOCK_CODEC_FORM1_ID"

lemma router_v2: "shared_knock_detect_kind now buf = SHARED_KNOCK_ROUTE_V2_FORM1 \<longleftrightarrow> v2_prefixed buf"
proof -
  let ?s4 = "detect_sealed SHARED_KNOCK_ROUTE_V4_FORM1 (read_u32_be buf 4) (buf ! 8) 256 589 77 27 16 buf"
  let ?s3 = "detect_sealed SHARED_KNOCK_ROUTE_V3_FORM1 (read_u32_be buf 4) (buf ! 8) 256 559 47 27 16 buf"
  have run: "shared_knock_detect now buf =
      (if 27 \<le> length buf \<and> read_u32_be buf 0 = SHARED_KNOCK_PREFIX_MAGIC \<and>
          read_u32_be buf 4 = SHARED_KNOCK_CODEC_V4_WIRE_VERSION \<and> buf ! 8 = SHARED_KNOCK_CODEC_FORM1_ID then ?s4
       else if 27 \<le> length buf \<and> read_u32_be buf 0 = SHARED_KNOCK_PREFIX_MAGIC \<and>
          read_u32_be buf 4 = SHARED_KNOCK_CODEC_V3_WIRE_VERSION \<and> buf ! 8 = SHARED_KNOCK_CODEC_FORM1_ID then ?s3
       else detect_plain now buf)"
    by (simp add: shared_knock_detect_def v3_sizes v4_sizes)
  show ?thesis
    using detect_sealed_kind(2) detect_plain_kind [of now buf] versions_differ
    by (auto simp: kind_cases run v2_prefixed_def)
qed

lemma router_agrees:
  "(shared_knock_detect_kind now (in_buffer ingress) = SHARED_KNOCK_ROUTE_V4_FORM1 \<longleftrightarrow>
      fst (shared_knock_codec_v4_detect ingress identity)) \<and>
   (shared_knock_detect_kind now (in_buffer ingress) = SHARED_KNOCK_ROUTE_V3_FORM1 \<longleftrightarrow>
      fst (shared_knock_codec_v3_detect ingress identity)) \<and>
   (fst (shared_knock_codec_v2_deserialize_wire now (in_buffer ingress) zero_v2_packet) = SL_PAYLOAD_OK \<longrightarrow>
      shared_knock_detect_kind now (in_buffer ingress) = SHARED_KNOCK_ROUTE_V2_FORM1) \<and>
   (shared_knock_detect_kind now (in_buffer ingress) = SHARED_KNOCK_ROUTE_V1_LEGACY \<longleftrightarrow>
      length (in_buffer ingress) = SHARED_KNOCK_CODEC_V1_PACKET_SIZE \<and>
      fst (shared_knock_codec_v1_deserialize_wire now (in_buffer ingress) zero_v1_packet) = SL_PAYLOAD_OK)"
proof -
  let ?buf = "in_buffer ingress"
  define p where "p v \<longleftrightarrow> 27 \<le> length ?buf \<and> read_u32_be ?buf 0 = SHARED_KNOCK_PREFIX_MAGIC \<and>
      read_u32_be ?buf 4 = v \<and> ?buf ! 8 = SHARED_KNOCK_CODEC_FORM1_ID" for v
  have "p v \<longrightarrow> \<not> fst (shared_knock_codec_v1_deserialize_wire now ?buf zero_v1_packet) = SL_PAYLOAD_OK" for v
    using v1_no_magic [of now ?buf zero_v1_packet] by (auto simp: p_def)
  note v1 = this v1_no_magic [of now ?buf zero_v1_packet]
  have v2: "fst (shared_knock_codec_v2_deserialize_wire now ?buf zero_v2_packet) = SL_PAYLOAD_OK \<longrightarrow>
      p SHARED_KNOCK_CODEC_V2_WIRE_VERSION"
    using v2_deserialize_prefix [of now ?buf zero_v2_packet] by (auto simp: p_def)
  have v4: "fst (shared_knock_codec_v4_detect ingress identity) \<longleftrightarrow> p SHARED_KNOCK_CODEC_V4_WIRE_VERSION \<and>
      fst (detect_sealed k v f 256 589 77 27 16 ?buf)" for k v f
    by (auto simp: v4_detects_iff Let_def p_def detect_sealed_kind)
  have v3: "fst (shared_knock_codec_v3_detect ingress identity) \<longleftrightarrow> p SHARED_KNOCK_CODEC_V3_WIRE_VERSION \<and>
      fst (detect_sealed k v f 256 559 47 27 16 ?buf)" for k v f
    by (auto simp: v3_detects_exactly Let_def p_def detect_sealed_kind)
  have dist: "p SHARED_KNOCK_CODEC_V4_WIRE_VERSION \<longrightarrow> \<not> p SHARED_KNOCK_CODEC_V3_WIRE_VERSION"
    "p SHARED_KNOCK_CODEC_V4_WIRE_VERSION \<longrightarrow> \<not> p SHARED_KNOCK_CODEC_V2_WIRE_VERSION"
    "p SHARED_KNOCK_CODEC_V3_WIRE_VERSION \<longrightarrow> \<not> p SHARED_KNOCK_CODEC_V2_WIRE_VERSION"
    using versions_differ by (auto simp: p_def)
  let ?s4 = "detect_sealed SHARED_KNOCK_ROUTE_V4_FORM1 (read_u32_be ?buf 4) (?buf ! 8) 256 589 77 27 16 ?buf"
  let ?s3 = "detect_sealed SHARED_KNOCK_ROUTE_V3_FORM1 (read_u32_be ?buf 4) (?buf ! 8) 256 559 47 27 16 ?buf"
  have run: "shared_knock_detect now ?buf =
      (if p SHARED_KNOCK_CODEC_V4_WIRE_VERSION then ?s4
       else if p SHARED_KNOCK_CODEC_V3_WIRE_VERSION then ?s3 else detect_plain now ?buf)"
    by (simp add: shared_knock_detect_def p_def v3_sizes v4_sizes)
  consider (four) "p SHARED_KNOCK_CODEC_V4_WIRE_VERSION" | (three) "p SHARED_KNOCK_CODEC_V3_WIRE_VERSION"
    | (plain) "\<not> p SHARED_KNOCK_CODEC_V4_WIRE_VERSION" "\<not> p SHARED_KNOCK_CODEC_V3_WIRE_VERSION" by blast
  then show ?thesis
  proof cases
    case four
    then have k: "shared_knock_detect_kind now ?buf = (if fst ?s4 then SHARED_KNOCK_ROUTE_V4_FORM1 else SHARED_KNOCK_ROUTE_UNKNOWN)"
      using detect_sealed_kind(2) by (simp add: kind_cases run)
    show ?thesis unfolding k using four v1(1) v2 v4 v3 dist by auto
  next
    case three
    then have k: "shared_knock_detect_kind now ?buf = (if fst ?s3 then SHARED_KNOCK_ROUTE_V3_FORM1 else SHARED_KNOCK_ROUTE_UNKNOWN)"
      using detect_sealed_kind(2) dist(1) by (simp add: kind_cases run)
    show ?thesis unfolding k using three v1(1) v2 v4 v3 dist by auto
  next
    case plain
    have p2: "p SHARED_KNOCK_CODEC_V2_WIRE_VERSION \<longrightarrow> 9 \<le> length ?buf \<and> read_u32_be ?buf 0 = SHARED_KNOCK_PREFIX_MAGIC \<and>
        read_u32_be ?buf 4 = SHARED_KNOCK_CODEC_V2_WIRE_VERSION \<and> ?buf ! 8 = SHARED_KNOCK_CODEC_FORM1_ID"
      by (auto simp: p_def)
    have k: "shared_knock_detect_kind now ?buf =
        (if fst (detect_plain now ?buf) then ri_kind (snd (detect_plain now ?buf)) else SHARED_KNOCK_ROUTE_UNKNOWN)"
      using plain by (simp add: kind_cases run)
    show ?thesis
      unfolding k using plain v1(2) v2 v4 v3 p2 detect_plain_kind [of now ?buf] by (auto simp: v1_sizes)
  qed
qed

end
