(* ===== verification/Legacy_Properties.thy ===== *)
theory Legacy_Properties
  imports Detect Samples
begin

text \<open>
  The properties of the codecs V1 to V3 and of the router. What they need of RSA beyond the inverse
  of a key pair is \<open>rsa_lengths\<close>: a ciphertext has the size of the key, and so do the keys of a pair.
\<close>

section \<open>Samples\<close>

text \<open>RSA that fills a ciphertext up to 256 bytes; the last one is the length of the message.\<close>

definition padded_evp :: evp where
  "padded_evp = sample_evp
     \<lparr>EVP_PKEY_encrypt := (\<lambda>k r msg. if length msg \<le> 245
        then Some (msg @ replicate (255 - length msg) 0 @ [word_of_nat (length msg)]) else None),
      EVP_PKEY_decrypt := (\<lambda>k ct. Inr (take (unat (last ct)) ct))\<rparr>"

lemma padded_evp_laws: "rsa_pair padded_evp 1 2" "rsa_lengths padded_evp 1 2"
  by (auto simp: padded_evp_def rsa_pair_def rsa_lengths_def sample_evp_def unat_of_nat split: if_splits)

definition legacy_server :: SharedKnockCodecContext where
  "legacy_server = server_context
     \<lparr>cx_has_server_key := True, cx_server_key := (cx_server_key server_context)\<lparr>sk_private_key := Some 2\<rparr>\<rparr>"

lemma legacy_contexts:
  "context_session (Some client_context) = Some client_session" "ss_public_key client_session = Some 1"
  "server_private_key (Some legacy_server) = Some 2" "cx_server_secure legacy_server"
  by (simp_all add: context_session_def sample_sessions server_private_key_def legacy_server_def
      server_context_def sample_context_def)

definition legacy_unit :: SharedKnockNormalizedUnit where
  "legacy_unit = sample_unit\<lparr>nu_encrypted := True\<rparr>"

lemma legacy_unit_simps [simp]:
  "nu_payload legacy_unit = [1, 2, 3]" "nu_hmac legacy_unit = replicate 32 0" "\<not> nu_wire_auth legacy_unit"
  "nu_encrypted legacy_unit" "clock_near 1800 (nu_timestamp legacy_unit)"
  by (simp_all add: legacy_unit_def sample_unit_def zero_unit_def clock_near_def)

lemma rsa_whole_packet_sample:
  "length packed = 245 \<Longrightarrow> \<exists>bytes. rsa_whole_packet padded_evp (Some client_context) packed 1024 r = (Some bytes, r + 1)"
  by (simp add: rsa_whole_packet_def legacy_contexts padded_evp_def sample_evp_def
      siglatch_openssl_session_encrypt_def)

section \<open>Round trips\<close>

text \<open>
  C22: what a V3 client context encodes, the server context decodes to the
  same fields and payload, as one complete packet without session, message or stream number, marked
  encrypted and decoded but not authenticated; the control block is left alone.
\<close>

theorem v3_decode_inverts_encode:
  assumes "gcm_lengths E" "gcm_inverts E" "rand_lengths E"
    and "cx_openssl_session client = Some s1" "ss_public_key s1 = Some pub"
    and "cx_openssl_session server = Some s2" "ss_private_key s2 = Some priv" "rsa_pair E pub priv"
    and "shared_knock_codec_v3_encode E has (Some client) normal buf r = (Some bytes, r')"
    and "length buf = SHARED_KNOCK_CODEC_V3_FORM1_PACKET_MAX_SIZE" "length (nu_hmac normal) = 32"
    and "in_buffer ingress = bytes"
  shows "\<exists>hmac. v3_body_hmac E has (Some client) normal = Some hmac \<and>
    shared_knock_codec_v3_decode E (Some server) (Some state) ingress control zero_unit =
      (1, control, v3_delivered normal hmac (in_ip ingress) (in_client_port ingress))"
  by (rule v3_codec_roundtrip [OF assms])

definition v3_sample_unit :: SharedKnockNormalizedUnit where
  "v3_sample_unit = sample_unit\<lparr>nu_wire_version := SHARED_KNOCK_CODEC_V3_WIRE_VERSION\<rparr>"

theorem v3_decode_inverts_encode_witness:
  "\<exists>bytes out. shared_knock_codec_v3_encode sample_evp True (Some client_context) v3_sample_unit
       (replicate SHARED_KNOCK_CODEC_V3_FORM1_PACKET_MAX_SIZE 0) 0 = (Some bytes, 3) \<and>
     shared_knock_codec_v3_decode sample_evp (Some server_context) (Some zero_codec_state)
       (zero_ingress\<lparr>in_buffer := bytes\<rparr>) zero_control zero_unit = (1, zero_control, out) \<and>
     nu_payload out = [1, 2, 3] \<and> nu_user_id out = 3 \<and> nu_session_id out = 0 \<and> nu_complete out"
proof -
  have u: "nu_wire_version v3_sample_unit = SHARED_KNOCK_CODEC_V3_WIRE_VERSION"
    "nu_wire_form v3_sample_unit = SHARED_KNOCK_CODEC_FORM1_ID" "nu_payload v3_sample_unit = [1, 2, 3]"
    "\<not> nu_wire_auth v3_sample_unit" "nu_hmac v3_sample_unit = replicate 32 0"
    by (simp_all add: v3_sample_unit_def)
  have "\<exists>bytes. shared_knock_codec_v3_encode sample_evp True (Some client_context) v3_sample_unit
      (replicate SHARED_KNOCK_CODEC_V3_FORM1_PACKET_MAX_SIZE 0) 0 = (Some bytes, 3)"
    by (simp add: shared_knock_codec_v3_encode_def v3_body_hmac_def Let_def u
      shared_knock_codec_v3_pack_plaintext_def shared_knock_codec_v3_plaintext_size_def
      shared_knock_codec_v3_encrypt_payload_key_def siglatch_openssl_session_encrypt_def sample_sessions
      sample_evp_def shared_knock_codec_v3_build_aad_def siglatch_openssl_aesgcm_encrypt_def
      aesgcm_validate_sizes_def aesgcm_cipher_for_key_len_def SL_OPENSSL_AESGCM_TAG_LEN_def
      SL_OPENSSL_AESGCM_KEY_LEN_256_def shared_knock_codec_v3_pack_def zero_v3_packet_def v3_sizes)
  then obtain bytes where b: "shared_knock_codec_v3_encode sample_evp True (Some client_context) v3_sample_unit
      (replicate SHARED_KNOCK_CODEC_V3_FORM1_PACKET_MAX_SIZE 0) 0 = (Some bytes, 3)" by blast
  let ?i = "zero_ingress\<lparr>in_buffer := bytes\<rparr>"
  obtain hmac where d: "shared_knock_codec_v3_decode sample_evp (Some server_context) (Some zero_codec_state) ?i
      zero_control zero_unit = (1, zero_control, v3_delivered v3_sample_unit hmac (in_ip ?i) (in_client_port ?i))"
    using v3_decode_inverts_encode [OF sample_evp_laws(1-3) sample_sessions sample_evp_laws(4) b, of ?i] u by auto
  have "nu_payload (v3_delivered v3_sample_unit hmac ip port) = [1, 2, 3]"
    "nu_user_id (v3_delivered v3_sample_unit hmac ip port) = 3"
    "nu_session_id (v3_delivered v3_sample_unit hmac ip port) = 0"
    "nu_complete (v3_delivered v3_sample_unit hmac ip port)"
    for ip port by (simp_all add: v3_delivered_def v3_received_def v3_sample_unit_def sample_unit_def)
  with b d show ?thesis by blast
qed

text \<open>
  C23: a V2 packet, in the clear or encrypted, is claimed by the server's codec
  with the right encryption flag and decoded to the sender's fields and payload, if the clocks differ by
  at most 300 seconds and a secure server gets it encrypted.
\<close>

theorem v2_decode_inverts_encode:
  assumes "rsa_pair E pub priv" "rsa_lengths E pub priv"
    and "context_session client = Some s" "ss_public_key s = Some pub"
    and "server_private_key (Some server) = Some priv" "cx_server_secure server \<longrightarrow> nu_encrypted normal"
    and "shared_knock_codec_v2_encode E client normal capacity r = (Some bytes, r')"
    and "length (nu_hmac normal) = 32" "clock_near now (nu_timestamp normal)" "in_buffer ingress = bytes"
  shows "\<exists>hmac idn'. (\<not> nu_wire_auth normal \<longrightarrow> hmac = nu_hmac normal) \<and>
    shared_knock_codec_v2_detect E (Some server) now True (Some st) ingress idn = (True, idn') \<and>
    id_encrypted idn' = nu_encrypted normal \<and>
    shared_knock_codec_v2_decode E (Some server) now True (Some st)
      (ingress\<lparr>in_encrypted := id_encrypted idn'\<rparr>) out =
      (True, v2_delivered normal hmac (in_ip ingress) (in_client_port ingress))"
  by (rule v2_codec_roundtrip [OF assms])

theorem v2_decode_inverts_encode_witness:
  "\<exists>bytes out. shared_knock_codec_v2_encode padded_evp (Some client_context) legacy_unit 1024 0 = (Some bytes, 1) \<and>
     shared_knock_codec_v2_decode padded_evp (Some legacy_server) 1800 True (Some zero_codec_state)
       (zero_ingress\<lparr>in_buffer := bytes, in_encrypted := True\<rparr>) zero_unit = (True, out) \<and>
     nu_payload out = [1, 2, 3] \<and> nu_user_id out = 3"
proof -
  let ?hmac = "replicate 32 0 :: u8 list"
  obtain bytes where w: "rsa_whole_packet padded_evp (Some client_context) (v2_wire legacy_unit ?hmac) 1024 0 = (Some bytes, 1)"
    using rsa_whole_packet_sample [of "v2_wire legacy_unit ?hmac" 0] by (auto simp: v2_wire_length)
  have t: "take 3 (payload_array 191 [1, 2, 3]) = [1, 2, 3 :: u8]"
    using take_payload_array [of "[1, 2, 3 :: u8]" 191] by (simp add: numeral_3_eq_3)
  have b: "shared_knock_codec_v2_encode padded_evp (Some client_context) legacy_unit 1024 0 = (Some bytes, 1)"
    using w v2_wire_length [of legacy_unit ?hmac]
    by (simp add: t shared_knock_codec_v2_encode_def v2_packet_hmac_def shared_knock_codec_v2_pack_def v2_sizes
        v2_wire_def write_at_def)
  let ?i = "zero_ingress\<lparr>in_buffer := bytes\<rparr>"
  have c: "length (nu_hmac legacy_unit) = 32" "cx_server_secure legacy_server \<longrightarrow> nu_encrypted legacy_unit"
    "in_buffer ?i = bytes" by simp_all
  obtain hmac and idn' :: M7MuxIngressIdentity where d: "id_encrypted idn' = nu_encrypted legacy_unit"
    "shared_knock_codec_v2_decode padded_evp (Some legacy_server) 1800 True (Some zero_codec_state)
      (?i\<lparr>in_encrypted := id_encrypted idn'\<rparr>) zero_unit =
      (True, v2_delivered legacy_unit hmac (in_ip ?i) (in_client_port ?i))"
    using v2_decode_inverts_encode [OF padded_evp_laws legacy_contexts(1-3) c(2) b c(1) legacy_unit_simps(5) c(3),
        where st = zero_codec_state and out = zero_unit and idn = zero_identity] by blast
  have "nu_payload (v2_delivered legacy_unit hmac ip port) = [1, 2, 3]"
    "nu_user_id (v2_delivered legacy_unit hmac ip port) = 3" for ip port
    by (simp_all add: v2_delivered_def) (simp add: legacy_unit_def sample_unit_def)
  with b d show ?thesis by (simp add: d(1))
qed

text \<open>
  C24: the same for V1, whose packets lie on the wire as they lie in memory.
\<close>

theorem v1_decode_inverts_encode:
  assumes "rsa_pair E pub priv" "rsa_lengths E pub priv"
    and "context_session client = Some s" "ss_public_key s = Some pub"
    and "server_private_key (Some server) = Some priv" "cx_server_secure server \<longrightarrow> nu_encrypted normal"
    and "shared_knock_codec_v1_encode E has client normal capacity r = (Some bytes, r')"
    and "length (nu_hmac normal) = 32" "clock_near now (nu_timestamp normal)" "in_buffer ingress = bytes"
  shows "\<exists>hmac idn'. (\<not> nu_wire_auth normal \<longrightarrow> hmac = nu_hmac normal) \<and>
    shared_knock_codec_v1_detect E (Some server) now True (Some st) ingress idn = (True, idn') \<and>
    id_encrypted idn' = nu_encrypted normal \<and>
    shared_knock_codec_v1_decode E (Some server) now True (Some st)
      (ingress\<lparr>in_encrypted := id_encrypted idn'\<rparr>) out =
      (True, v1_delivered normal hmac (in_ip ingress) (in_client_port ingress))"
  by (rule v1_codec_roundtrip [OF assms])

theorem v1_decode_inverts_encode_witness:
  "\<exists>bytes out. shared_knock_codec_v1_encode padded_evp True (Some client_context) legacy_unit 1024 0 = (Some bytes, 1) \<and>
     shared_knock_codec_v1_decode padded_evp (Some legacy_server) 1800 True (Some zero_codec_state)
       (zero_ingress\<lparr>in_buffer := bytes, in_encrypted := True\<rparr>) zero_unit = (True, out) \<and>
     nu_payload out = [1, 2, 3] \<and> nu_user_id out = 3"
proof -
  let ?hmac = "replicate 32 0 :: u8 list"
  obtain bytes where w: "rsa_whole_packet padded_evp (Some client_context) (v1_wire legacy_unit ?hmac) 1024 0 = (Some bytes, 1)"
    using rsa_whole_packet_sample [of "v1_wire legacy_unit ?hmac" 0] by (auto simp: v1_wire_length)
  have b: "shared_knock_codec_v1_encode padded_evp True (Some client_context) legacy_unit 1024 0 = (Some bytes, 1)"
    using w v1_wire_length [of legacy_unit ?hmac]
    by (simp add: shared_knock_codec_v1_encode_def v1_packet_hmac_def shared_knock_codec_v1_pack_wire_def v1_sizes
        v1_wire_def unit_packet_v1_def write_at_def SHARED_KNOCK_CODEC_V1_VERSION_def)
  let ?i = "zero_ingress\<lparr>in_buffer := bytes\<rparr>"
  have c: "length (nu_hmac legacy_unit) = 32" "cx_server_secure legacy_server \<longrightarrow> nu_encrypted legacy_unit"
    "in_buffer ?i = bytes" by simp_all
  obtain hmac and idn' :: M7MuxIngressIdentity where d: "id_encrypted idn' = nu_encrypted legacy_unit"
    "shared_knock_codec_v1_decode padded_evp (Some legacy_server) 1800 True (Some zero_codec_state)
      (?i\<lparr>in_encrypted := id_encrypted idn'\<rparr>) zero_unit =
      (True, v1_delivered legacy_unit hmac (in_ip ?i) (in_client_port ?i))"
    using v1_decode_inverts_encode [OF padded_evp_laws legacy_contexts(1-3) c(2) b c(1) legacy_unit_simps(5) c(3),
        where st = zero_codec_state and out = zero_unit and idn = zero_identity] by blast
  have "nu_payload (v1_delivered legacy_unit hmac ip port) = [1, 2, 3]"
    "nu_user_id (v1_delivered legacy_unit hmac ip port) = 3" for ip port
    by (simp_all add: v1_delivered_def) (simp add: legacy_unit_def sample_unit_def)
  with b d show ?thesis by (simp add: d(1))
qed

section \<open>Who and when\<close>

text \<open>
  C25: whatever bytes arrive, a unit that the V1 or the V2 codec decodes
  has a timestamp within 300 seconds of the receiver's clock, a payload within the bounds of its
  version, and, at a secure server, was encrypted.
\<close>

theorem legacy_packets_fresh_and_sealed:
  "(shared_knock_codec_v1_decode E cx now calloc_ok st ingress out = (True, u) \<longrightarrow>
      \<bar>uint (nu_timestamp u) - now\<bar> \<le> 300 \<and> length (nu_payload u) \<le> 199 \<and>
      (\<forall>c. cx = Some c \<and> cx_server_secure c \<longrightarrow> nu_encrypted u)) \<and>
   (shared_knock_codec_v2_decode E cx now calloc_ok st ingress out = (True, u) \<longrightarrow>
      \<bar>uint (nu_timestamp u) - now\<bar> \<le> 300 \<and> length (nu_payload u) \<le> 191 \<and>
      (\<forall>c. cx = Some c \<and> cx_server_secure c \<longrightarrow> nu_encrypted u))"
  using v1_decode_ok [of E cx now calloc_ok st ingress out u]
    v2_decode_ok [of E cx now calloc_ok st ingress out u]
  unfolding clock_near_def by blast

definition plain_server :: SharedKnockCodecContext where
  "plain_server = legacy_server\<lparr>cx_server_secure := False\<rparr>"

theorem legacy_packets_fresh_and_sealed_witness:
  "\<exists>u. shared_knock_codec_v1_decode padded_evp (Some plain_server) 1800 True (Some zero_codec_state)
       (zero_ingress\<lparr>in_buffer := v1_wire legacy_unit (replicate 32 0)\<rparr>) zero_unit = (True, u) \<and>
     \<bar>uint (nu_timestamp u) - 1800\<bar> \<le> 300"
proof -
  let ?i = "zero_ingress\<lparr>in_buffer := v1_wire legacy_unit (replicate 32 0)\<rparr>"
  obtain u where d: "shared_knock_codec_v1_decode padded_evp (Some plain_server) 1800 True (Some zero_codec_state)
      ?i zero_unit = (True, u)"
    using v1_normalize_wire(1) [of legacy_unit "replicate 32 0" 1800 "in_ip zero_ingress" "in_client_port zero_ingress" False zero_unit]
    by (simp add: shared_knock_codec_v1_decode_def plain_server_def zero_ingress_def)
  with legacy_packets_fresh_and_sealed [of padded_evp "Some plain_server" 1800 True "Some zero_codec_state" ?i zero_unit u]
  show ?thesis by blast
qed

text \<open>
  C26: V1 marks a unit authenticated only if a configured user with its id
  signed it; a unit without such a signature is not even looked up in the replay cache, which stays
  as it is.
\<close>

theorem v1_authenticates_only_signed:
  assumes "shared_knock_codec_v1_wire_auth E has context alloc_ok now (Some s) normal = (ok, st', normal')"
  shows "nu_wire_auth normal' = ok \<and>
    (ok \<longrightarrow> (\<exists>c entry key digest. context = Some c \<and> entry \<in> set (take (cx_keychain_len c) (cx_keychain c)) \<and>
       ke_name entry \<noteq> None \<and> ke_user_id entry = ucast (nu_user_id normal) \<and> ke_hmac_key entry = Some key \<and>
       shared_knock_digest_generate E has (unit_packet_v1 normal) = Some digest \<and>
       shared_knock_digest_validate E key digest (nu_hmac normal))) \<and>
    (\<not> shared_knock_codec_v1_authorize_normalized E has context normal \<longrightarrow> \<not> ok \<and> st' = Some s)"
proof -
  have frame: "shared_knock_codec_v1_authorize_normalized E has context (normal\<lparr>nu_wire_auth := False\<rparr>) =
      shared_knock_codec_v1_authorize_normalized E has context normal"
  proof -
    have "unit_packet_v1 (normal\<lparr>nu_wire_auth := False\<rparr>) = unit_packet_v1 normal"
      by (simp add: unit_packet_v1_def)
    then show ?thesis by (simp add: shared_knock_codec_v1_authorize_normalized_def cong: option.case_cong)
  qed
  show ?thesis
  proof (cases "shared_knock_codec_v1_authorize_normalized E has context normal")
    case False
    with assms frame show ?thesis by (auto simp: shared_knock_codec_v1_wire_auth_def Let_def)
  next
    case True
    then obtain entry key digest where e:
      "shared_knock_codec_v1_keychain_entry_for_user_id context (ucast (nu_user_id normal)) = Some entry"
      "ke_hmac_key entry = Some key" "shared_knock_digest_generate E has (unit_packet_v1 normal) = Some digest"
      "shared_knock_digest_validate E key digest (nu_hmac normal)"
      by (auto simp: shared_knock_codec_v1_authorize_normalized_def split: if_splits option.splits)
    obtain c where c: "context = Some c" "find (\<lambda>entry. ke_name entry \<noteq> None \<and> ke_user_id entry = ucast (nu_user_id normal))
        (take (cx_keychain_len c) (cx_keychain c)) = Some entry"
      using e(1) by (auto simp: shared_knock_codec_v1_keychain_entry_for_user_id_def split: option.splits)
    then have "entry \<in> set (take (cx_keychain_len c) (cx_keychain c))" "ke_name entry \<noteq> None"
      "ke_user_id entry = ucast (nu_user_id normal)"
      by (auto simp: find_Some_iff in_set_conv_nth)
    moreover have "nu_wire_auth normal' = ok"
      using assms True frame
      by (auto simp: shared_knock_codec_v1_wire_auth_def Let_def split: prod.splits)
    ultimately show ?thesis using c(1) e True by blast
  qed
qed

definition keyed_context :: SharedKnockCodecContext where
  "keyed_context = legacy_server\<lparr>cx_keychain := [\<lparr>ke_user_id = 3, ke_name = Some ''ann'', ke_public_key = None,
     ke_private_key = None, ke_hmac_key = Some (replicate 32 7), ke_hmac_key_len = 32, ke_flags = 0\<rparr>],
     cx_keychain_len := 1\<rparr>"

theorem v1_authenticates_only_signed_witness:
  "\<exists>normal'. shared_knock_codec_v1_wire_auth sample_evp True (Some keyed_context) True 1800
      (Some zero_codec_state) legacy_unit = (False, Some zero_codec_state, normal') \<and> \<not> nu_wire_auth normal'"
proof -
  have no: "\<not> shared_knock_codec_v1_authorize_normalized sample_evp True (Some keyed_context) legacy_unit"
  proof -
    have "replicate 32 (1 :: u8) \<noteq> replicate 32 0" by (simp add: replicate_eq_replicate)
    then show ?thesis
      by (auto simp: shared_knock_codec_v1_authorize_normalized_def shared_knock_digest_validate_def sample_evp_def
          split: option.splits)
  qed
  obtain ok st' normal' where w: "shared_knock_codec_v1_wire_auth sample_evp True (Some keyed_context) True 1800
      (Some zero_codec_state) legacy_unit = (ok, st', normal')" by (metis prod_cases3)
  from v1_authenticates_only_signed [OF w] no have "\<not> ok" "st' = Some zero_codec_state" "\<not> nu_wire_auth normal'"
    by simp_all
  with w show ?thesis by simp
qed

section \<open>The router\<close>

text \<open>
  C21: the router, which has no key, names V4 or V3 for exactly the datagrams
  that the codec of that version claims, and V1 for exactly those that V1 accepts in the clear. For V2
  it looks at the first nine bytes only: it names V2 for exactly the datagrams with the V2 prefix, and V2
  accepts in the clear exactly those of them that have the size of its packets, a payload length in
  bounds and a time stamp within 300 seconds. So no datagram in the clear is accepted by two codecs.
\<close>

theorem router_agrees_with_codecs:
  "(shared_knock_detect_kind now (in_buffer ingress) = SHARED_KNOCK_ROUTE_V4_FORM1 \<longleftrightarrow>
      fst (shared_knock_codec_v4_detect ingress identity)) \<and>
   (shared_knock_detect_kind now (in_buffer ingress) = SHARED_KNOCK_ROUTE_V3_FORM1 \<longleftrightarrow>
      fst (shared_knock_codec_v3_detect ingress identity)) \<and>
   (shared_knock_detect_kind now (in_buffer ingress) = SHARED_KNOCK_ROUTE_V2_FORM1 \<longleftrightarrow> v2_prefixed (in_buffer ingress)) \<and>
   (fst (shared_knock_codec_v2_deserialize_wire now (in_buffer ingress) zero_v2_packet) = SL_PAYLOAD_OK \<longleftrightarrow>
      shared_knock_detect_kind now (in_buffer ingress) = SHARED_KNOCK_ROUTE_V2_FORM1 \<and>
      length (in_buffer ingress) = SHARED_KNOCK_CODEC_V2_FORM1_PACKET_SIZE \<and>
      unat (read_u16_be (in_buffer ingress) 52) \<le> SHARED_KNOCK_CODEC_V2_FORM1_PAYLOAD_MAX \<and>
      uint (read_u32_be (in_buffer ingress) 9) \<in> {now - 300..now + 300}) \<and>
   (shared_knock_detect_kind now (in_buffer ingress) = SHARED_KNOCK_ROUTE_V1_LEGACY \<longleftrightarrow>
      length (in_buffer ingress) = SHARED_KNOCK_CODEC_V1_PACKET_SIZE \<and>
      fst (shared_knock_codec_v1_deserialize_wire now (in_buffer ingress) zero_v1_packet) = SL_PAYLOAD_OK)"
  using router_agrees [of now ingress identity] router_v2 [of now "in_buffer ingress"]
    v2_accepts_exactly [of now "in_buffer ingress" zero_v2_packet]
  by (auto simp: v2_prefixed_def v2_sizes)

theorem router_agrees_with_codecs_witness:
  "shared_knock_detect_kind 1800 (v2_wire legacy_unit (replicate 32 0)) = SHARED_KNOCK_ROUTE_V2_FORM1"
proof -
  have "fst (shared_knock_codec_v2_deserialize_wire 1800 (v2_wire legacy_unit (replicate 32 0)) zero_v2_packet) = SL_PAYLOAD_OK"
    by (rule v2_normalize_wire(2)) simp_all
  with router_agrees_with_codecs [of 1800 "zero_ingress\<lparr>in_buffer := v2_wire legacy_unit (replicate 32 0)\<rparr>" zero_identity]
  show ?thesis by simp
qed

end
