(* ===== verification/Config_Properties.thy ===== *)
theory Config_Properties
  imports Policy "HOL-Library.Code_Target_Nat"
begin

text \<open>
  The properties of the configuration: the INI round trip, what a loaded configuration guarantees,
  the meaning of address lists, and what the setters keep.
\<close>

section \<open>A small configuration\<close>

definition sample_ini :: ini_data where
  "sample_ini = ([(''default_server'', ''main'')],
     [(''user:alice'', [(''enabled'', ''yes''), (''id'', ''7''), (''key_file'', ''alice.pem''),
        (''hmac_file'', ''alice.key''), (''actions'', ''open'')]),
      (''action:open'', [(''id'', ''1''), (''enabled'', ''yes''), (''handler'', ''builtin''), (''builtin'', ''version'')]),
      (''server:main'', [(''enabled'', ''yes''), (''port'', ''50001''), (''actions'', ''open''),
        (''allowed_ips'', ''10.0.0.0/8'')])])"

definition sample_world :: world where
  "sample_world = \<lparr>w_malloc = (\<lambda>_. True), w_calloc = True, w_dlsym = (\<lambda>_ _. False),
     w_ini = (\<lambda>path. Some \<lparr>file_content = ini_print sample_ini, file_error = False\<rparr>),
     w_bytes = (\<lambda>path. Some (replicate 32 7)), w_private = (\<lambda>path. Some 2),
     w_public = (\<lambda>path. Some (1, True))\<rparr>"

lemma sample_ini_ok: "ini_ok sample_ini"
  by code_simp

text \<open>What the loader makes of it.\<close>

definition sample_user :: siglatch_user where
  "sample_user = zero_user_cfg\<lparr>su_id := 7, su_name := ''alice'', su_key_file := ''alice.pem'',
     su_hmac_file := ''alice.key'', su_enabled := True, su_actions := [''open''], su_pubkey := Some 1,
     su_hmac_key := replicate 32 7\<rparr>"

definition sample_action :: siglatch_action where
  "sample_action = zero_action\<lparr>sa_id := 1, sa_name := ''open'', sa_enabled := True, sa_exec_split := True,
     sa_handler := SL_ACTION_HANDLER_BUILTIN, sa_builtin := ''version'',
     sa_payload_overflow := SL_PAYLOAD_OVERFLOW_INHERIT\<rparr>"

definition sample_server :: siglatch_server where
  "sample_server = zero_server\<lparr>sv_name := ''main'', sv_label := ''main'', sv_enabled := True, sv_port := 50001,
     sv_payload_overflow := SL_PAYLOAD_OVERFLOW_INHERIT,
     sv_actions := [''open''], sv_allowed_ips := [''10.0.0.0/8'']\<rparr>"

definition sample_config :: siglatch_config where
  "sample_config = zero_config\<lparr>sc_priv_key_path := ''/etc/siglatch/server_priv.pem'',
     sc_default_server := ''main'', sc_payload_overflow := SL_PAYLOAD_OVERFLOW_REJECT,
     sc_master_privkey := Some 2, sc_users := [sample_user], sc_actions := [sample_action],
     sc_servers := [sample_server]\<rparr>"

lemma sample_consumed:
  "(case config_consume_document_ptr True (\<lambda>_. True) (\<lambda>_ _. False) (ini_layout sample_ini) of
      None \<Rightarrow> None | Some c \<Rightarrow> keys_load sample_world c) = Some sample_config"
  by code_simp

lemma sample_loaded: "path \<noteq> [] \<Longrightarrow> config_build_from_path sample_world path = Some sample_config"
  using sample_consumed ini_read_print [OF sample_ini_ok, of "\<lambda>_. True"]
  by (simp add: config_build_from_path_def sample_world_def split: option.splits)

section \<open>Reading\<close>

text \<open>C15: what is printed as an INI file reads back: every global key and every key of a
  section is found with its value, the first of several of the same name, and no other.\<close>

theorem ini_roundtrip:
  assumes "ini_ok (kvs, secs)" "\<forall>k. m k" "name \<noteq> []"
  shows "\<exists>doc. ini_read_file m (Some \<lparr>file_content = ini_print (kvs, secs), file_error = False\<rparr>) = Inr doc \<and>
    (\<forall>key. ini_get doc None key = map_of kvs key \<and>
       ini_get doc (Some name) key =
         (case map_of secs name of None \<Rightarrow> None | Some ps \<Rightarrow> map_of ps key))"
  using ini_read_print [OF assms(1,2)] ini_get_layout [OF assms(3)] by blast

lemma ini_roundtrip_witness:
  "\<exists>doc. ini_read_file (\<lambda>_. True) (Some \<lparr>file_content = ini_print sample_ini, file_error = False\<rparr>) = Inr doc \<and>
    ini_get doc (Some ''server:main'') ''port'' = Some ''50001'' \<and> ini_get doc (Some ''server:none'') ''port'' = None"
proof -
  note ok = sample_ini_ok [unfolded sample_ini_def]
  from ini_roundtrip [OF ok, of "\<lambda>_. True" "''server:main''"]
  obtain doc where doc: "ini_read_file (\<lambda>_. True) (Some \<lparr>file_content = ini_print sample_ini, file_error = False\<rparr>) = Inr doc"
    "ini_get doc (Some ''server:main'') ''port'' = Some ''50001''"
    by (auto simp: sample_ini_def)
  from ini_roundtrip [OF ok, of "\<lambda>_. True" "''server:none''"]
  have "ini_get doc (Some ''server:none'') ''port'' = None"
    using doc(1) by (auto simp: sample_ini_def)
  with doc show ?thesis by blast
qed



section \<open>Address lists\<close>

text \<open>C18: a request from address \<open>a\<close> is allowed exactly when each of the three lists,
  of the server, of the user and of the action, is empty or has a range that contains \<open>a\<close>.\<close>

theorem ip_policy_ranges:
  assumes "sv_allowed_ips server = map range_text rs" "su_allowed_ips user = map range_text ru"
    "sa_allowed_ips action = map range_text ra" "\<forall>r \<in> set (rs @ ru @ ra). snd r \<le> 32"
  shows "app_policy_request_ip_allowed server user action (dotted a) \<longleftrightarrow>
    (\<forall>l \<in> {rs, ru, ra}. l = [] \<or> (\<exists>r \<in> set l. in_range a r))"
  using assms by (auto simp: request_ip_allowed_iff ip_list_ranges)

lemma ip_policy_ranges_witness:
  "app_policy_request_ip_allowed sample_server sample_user sample_action (dotted 0x0A010203) \<and>
   \<not> app_policy_request_ip_allowed sample_server sample_user sample_action (dotted 0x0B010203)"
proof -
  have t: "sv_allowed_ips sample_server = map range_text [(0x0A000000, 8)]"
    "su_allowed_ips sample_user = map range_text []" "sa_allowed_ips sample_action = map range_text []"
    by code_simp+
  show ?thesis
    using ip_policy_ranges [OF t, of "0x0A010203"] ip_policy_ranges [OF t, of "0x0B010203"]
    by (simp add: in_range_def)
qed

text \<open>C19: a range that ends in a slash without a length passes validation and
  allows every address.\<close>

theorem missing_prefix_allows_all:
  "validate_ip_spec_list [dotted net @ ''/''] \<and> ip_list_allows [dotted net @ ''/''] (dotted a)"
  using missing_prefix_is_cidr [of net] contains_missing_prefix [of net a] dotted_bounds(1) [of a]
  by (simp add: validate_ip_spec_list_def ip_list_allows_def)

section \<open>Setters\<close>

text \<open>The four setters keep the configuration well formed and valid: a port
  out of range or an address that does not parse is refused.\<close>

theorem setters_keep_config_valid:
  assumes "config_wf c" "config_valid dl c"
    "config_server_set_port (Some c) name port = (b, Some c') \<or>
     config_server_set_enforce_wire_decode (Some c) name flag = (b, Some c') \<or>
     config_server_set_enforce_wire_auth (Some c) name flag = (b, Some c') \<or>
     config_server_set_binding (Some c) name bind_ip port = (b, Some c') \<and> no_outer_space bind_ip"
  shows "config_wf c' \<and> config_valid dl c'"
  using assms(3)
proof (elim disjE conjE)
  assume s: "config_server_set_port (Some c) name port = (b, Some c')"
  show ?thesis
  proof (cases "port \<le> 0 \<or> port > 65535")
    case True
    then show ?thesis using s assms(1,2) by (auto simp: config_server_set_port_def)
  next
    case False
    then have "with_server (Some c) name (\<lambda>s. s\<lparr>sv_port := port\<rparr>) = (b, Some c')"
      using s by (simp add: config_server_set_port_def)
    from with_server_valid [OF assms(1,2) this] False show ?thesis by (simp add: server_wf_def)
  qed
next
  assume "config_server_set_enforce_wire_decode (Some c) name flag = (b, Some c')"
  then show ?thesis
    using with_server_valid [OF assms(1,2), of name "\<lambda>s. s\<lparr>sv_enforce_wire_decode := flag\<rparr>" b c']
    by (simp add: config_server_set_enforce_wire_decode_def server_wf_def)
next
  assume "config_server_set_enforce_wire_auth (Some c) name flag = (b, Some c')"
  then show ?thesis
    using with_server_valid [OF assms(1,2), of name "\<lambda>s. s\<lparr>sv_enforce_wire_auth := flag\<rparr>" b c']
    by (simp add: config_server_set_enforce_wire_auth_def server_wf_def)
next
  assume s: "config_server_set_binding (Some c) name bind_ip port = (b, Some c')" "no_outer_space bind_ip"
  define ip where "ip = (if bind_ip \<noteq> [] then lcpy bind_ip MAX_IP_RANGE_LEN else [])"
  show ?thesis
  proof (cases "port \<le> 0 \<or> port > 65535 \<or> bind_ip \<noteq> [] \<and> \<not> net_ip_range_is_single_ipv4 bind_ip")
    case True
    then show ?thesis using s assms(1,2) by (auto simp: config_server_set_binding_def split: if_splits)
  next
    case False
    then have w: "with_server (Some c) name (\<lambda>s. s\<lparr>sv_port := port, sv_bind_ip := ip\<rparr>) = (b, Some c')"
      using s by (cases "bind_ip = []") (simp_all add: config_server_set_binding_def ip_def)
    have short: "length ip < MAX_IP_RANGE_LEN"
      using lcpy_within [of MAX_IP_RANGE_LEN bind_ip] by (simp add: ip_def MAX_IP_RANGE_LEN_def)
    have single: "ip = [] \<or> net_ip_range_is_single_ipv4 ip"
      using False s(2) single_ipv4_short [of bind_ip] by (cases "bind_ip = []") (auto simp: ip_def)
    show ?thesis
      by (rule with_server_valid [OF assms(1,2) w]) (use short single False in \<open>simp_all add: server_wf_def\<close>)
  qed
qed

lemma setters_keep_config_valid_witness:
  "\<exists>c'. config_server_set_port (Some sample_config) ''main'' 4000 = (True, Some c') \<and>
     config_wf c' \<and> config_valid (\<lambda>_ _. False) c'"
proof -
  obtain c' where c': "config_server_set_port (Some sample_config) ''main'' 4000 = (True, Some c')"
    by (simp add: config_server_set_port_def with_server_def config_server_by_name_from_ptr_def
        sample_config_def sample_server_def)
  note l = config_build_valid [OF sample_loaded [of "''c''"]]
  have "config_wf c' \<and> config_valid (w_dlsym sample_world) c'"
    by (rule setters_keep_config_valid) (use c' l in auto)
  then show ?thesis using c' by (auto simp: sample_world_def)
qed

section \<open>Dead drops\<close>

text \<open>C20: the dead drop that a raw payload is routed to is one that the server lists
  and that is enabled, and one of its prefixes starts the payload.\<close>

theorem deaddrop_match_sound:
  assumes "server_deaddrop_starts_with_buffer cfg server payload n = Some (d, match, len)"
  shows "server_deaddrop_available server (sd_name d) \<and> sd_enabled d \<and> len \<le> length payload \<and>
    (\<exists>p \<in> set (sd_starts_with d). payload_has_prefix payload p \<and> len = length p \<and> match = take (n - 1) p)"
proof -
  have "deaddrop_search cfg payload n (sv_deaddrops server) = Some (d, match, len)"
    using assms by (auto simp: server_deaddrop_starts_with_buffer_def split: if_splits)
  from deaddrop_search_sound [OF this] show ?thesis
    by (auto simp: server_deaddrop_available_def list_ex_iff)
qed

lemma deaddrop_match_sound_witness:
  "\<exists>d match len. server_deaddrop_starts_with_buffer
     (Some (zero_config\<lparr>sc_deaddrops := [zero_deaddrop\<lparr>sd_name := ''log'', sd_enabled := True,
        sd_starts_with := [''LOG '']\<rparr>]\<rparr>)) (zero_server\<lparr>sv_deaddrops := [''log'']\<rparr>) (bytes_of ''LOG a'') 512
       = Some (d, match, len) \<and> len = 4 \<and> sd_enabled d"
proof -
  define cfg where "cfg = Some (zero_config\<lparr>sc_deaddrops := [zero_deaddrop\<lparr>sd_name := ''log'', sd_enabled := True,
        sd_starts_with := [''LOG '']\<rparr>]\<rparr>)"
  obtain d match len where r: "server_deaddrop_starts_with_buffer cfg (zero_server\<lparr>sv_deaddrops := [''log'']\<rparr>)
      (bytes_of ''LOG a'') 512 = Some (d, match, len)" and "len = 4"
    by (simp add: server_deaddrop_starts_with_buffer_def config_deaddrop_by_name_from_ptr_def cfg_def
        payload_has_prefix_def bytes_of_def)
  with deaddrop_match_sound [OF r] show ?thesis unfolding cfg_def by blast
qed

end
