(* ===== verification/Job_Facts.thy ===== *)
theory Job_Facts
  imports Job
begin

text \<open>
  The job queue owns its buffers: every allocated buffer belongs to exactly one job, in the queue
  or in the caller's hands, and no operation frees twice, leaks or writes out of bounds. The
  queue behaves as a bounded list of the jobs' contents.
\<close>

section \<open>The buffers of a job\<close>

definition opt_mset :: "baddr option \<Rightarrow> baddr multiset" where
  "opt_mset p = (case p of None \<Rightarrow> {#} | Some a \<Rightarrow> {#a#})"

definition job_bufs :: "AppConnectionJob \<Rightarrow> baddr multiset" where
  "job_bufs j = opt_mset (rq_payload_buffer (aj_request j)) + opt_mset (aj_response_buffer j)"

definition buf_ok :: "buf_heap \<Rightarrow> baddr option \<Rightarrow> nat \<Rightarrow> nat \<Rightarrow> bool" where
  "buf_ok h p len cap \<longleftrightarrow>
     (case p of None \<Rightarrow> len = 0 \<and> cap = 0
      | Some a \<Rightarrow> (case bh_cell h a of None \<Rightarrow> False | Some c \<Rightarrow> length c = cap \<and> len \<le> cap))"

definition job_ok :: "buf_heap \<Rightarrow> AppConnectionJob \<Rightarrow> bool" where
  "job_ok h j \<longleftrightarrow>
     buf_ok h (rq_payload_buffer (aj_request j)) (rq_payload_len (aj_request j)) (rq_payload_cap (aj_request j)) \<and>
     buf_ok h (aj_response_buffer j) (aj_response_len j) (aj_response_cap j)"

text \<open>What a job says, without where its buffers are.\<close>

type_synonym job_view = "AppConnectionJob \<times> u8 list \<times> u8 list"

definition job_view :: "buf_heap \<Rightarrow> AppConnectionJob \<Rightarrow> job_view" where
  "job_view h j =
     (j\<lparr>aj_request := (aj_request j)\<lparr>rq_payload_buffer := None, rq_payload_cap := 0\<rparr>,
        aj_response_buffer := None, aj_response_cap := 0\<rparr>,
      bh_read (rq_payload_buffer (aj_request j)) (rq_payload_len (aj_request j)) h,
      bh_read (aj_response_buffer j) (aj_response_len j) h)"

lemma zero_job_facts [simp]: "job_bufs zero_job = {#}" "job_ok h zero_job"
  by (simp_all add: job_bufs_def opt_mset_def job_ok_def buf_ok_def zero_job_def zero_request_def)

lemma opt_mset_simps [simp]: "opt_mset None = {#}" "opt_mset (Some a) = {#a#}"
  by (simp_all add: opt_mset_def)

lemma job_frame:
  assumes "\<forall>a \<in># job_bufs j. bh_cell h' a = bh_cell h a"
  shows "job_view h' j = job_view h j" "job_ok h' j = job_ok h j"
  using assms
  by (auto simp: job_view_def job_ok_def buf_ok_def job_bufs_def bh_read_def split: option.splits)

text \<open>Releasing frees the job's buffers and nothing else.\<close>

lemma bh_free_opt:
  assumes "bh_owned h (opt_mset p + R)"
  shows "bh_owned (bh_free p h) R" "\<forall>a \<in># R. bh_cell (bh_free p h) a = bh_cell h a"
proof -
  show "bh_owned (bh_free p h) R"
    using assms bh_free_owned(1) by (cases p) auto
  show "\<forall>a \<in># R. bh_cell (bh_free p h) a = bh_cell h a"
  proof (cases p)
    case (Some b)
    then have o: "bh_owned h (add_mset b R)" using assms by simp
    show ?thesis
      using bh_free_owned(2) [OF o] bh_owned_once [OF o] Some by auto
  qed simp
qed

lemma release_eq:
  "snd (app_job_release_job j h) = bh_free (aj_response_buffer j) (bh_free (rq_payload_buffer (aj_request j)) h)"
  by (simp add: app_job_release_job_def app_job_release_payload_def app_job_release_response_def)

lemma release_owned:
  assumes "bh_owned h (job_bufs j + R)"
  shows "bh_owned (snd (app_job_release_job j h)) R"
    "\<forall>a \<in># R. bh_cell (snd (app_job_release_job j h)) a = bh_cell h a"
proof -
  let ?p = "rq_payload_buffer (aj_request j)" and ?r = "aj_response_buffer j"
  have 1: "bh_owned h (opt_mset ?p + (opt_mset ?r + R))" using assms by (simp add: job_bufs_def add.assoc)
  note f = bh_free_opt [OF 1]
  note g = bh_free_opt [OF f(1)]
  show "bh_owned (snd (app_job_release_job j h)) R" unfolding release_eq by (rule g(1))
  show "\<forall>a \<in># R. bh_cell (snd (app_job_release_job j h)) a = bh_cell h a"
    unfolding release_eq using f(2) g(2) by simp
qed

lemma release_oom [simp]: "bh_oom (snd (app_job_release_job j h)) = bh_oom h"
  by (simp add: release_eq)

lemma release_zero [simp]: "snd (app_job_release_job zero_job h) = h"
  by (simp add: release_eq zero_job_def zero_request_def)

section \<open>Filling a job\<close>

text \<open>Where the request and its payload come from; \<open>None\<close> for a structured packet without a user.\<close>

definition job_source :: "delivered \<Rightarrow> (AppDaemonRequestPacket \<times> u8 list) option" where
  "job_source d =
     (if rp_wire_version (fst d) = 0 then Some (zero_request, rp_raw_bytes (fst d))
      else map_option (\<lambda>u. (zero_request\<lparr>rq_user_id := ud_user_id u, rq_action_id := ud_action_id u,
             rq_challenge := ud_challenge u, rq_hmac := ud_hmac u\<rparr>, ud_payload u)) (snd d))"

text \<open>A payload whose buffer capacity does not overflow.\<close>

definition job_fits :: "delivered \<Rightarrow> bool" where
  "job_fits d \<longleftrightarrow>
     (case job_source d of None \<Rightarrow> False
      | Some (rq, p) \<Rightarrow> p = [] \<or> app_job_next_buffer_cap 0 (length p) APP_JOB_PAYLOAD_BLOCK_SIZE \<noteq> Some 0)"

definition job_stored :: "delivered \<Rightarrow> job_view" where
  "job_stored d =
     (case job_source d of None \<Rightarrow> (job_envelope (fst d), [], [])
      | Some (rq, p) \<Rightarrow> ((job_envelope (fst d))\<lparr>aj_request := rq\<lparr>rq_payload_len := length p\<rparr>\<rparr>, p, []))"

lemma source_request:
  "job_source d = Some (rq, p) \<Longrightarrow> rq_payload_buffer rq = None \<and> rq_payload_cap rq = 0 \<and> rq_payload_len rq = 0"
  by (auto simp: job_source_def zero_request_def split: if_splits)

lemma envelope_facts [simp]:
  "aj_request (job_envelope p) = zero_request" "aj_response_buffer (job_envelope p) = None"
  "aj_response_len (job_envelope p) = 0" "aj_response_cap (job_envelope p) = 0"
  by (simp_all add: job_envelope_def zero_job_def)

lemma load_eq:
  "app_job_load_from_normal zero_job d h =
     (case job_source d of
        None \<Rightarrow> (False, job_envelope (fst d), h)
      | Some (rq, p) \<Rightarrow>
          if p = [] then (True, (job_envelope (fst d))\<lparr>aj_request := rq\<rparr>, h)
          else case app_job_copy_payload ((job_envelope (fst d))\<lparr>aj_request := rq\<rparr>) p h of
            (ok, job, h1) \<Rightarrow>
              if ok then (True, job, h1) else (False, zero_job, snd (app_job_release_job job h1)))"
proof -
  obtain normal user where d: "d = (normal, user)" by (cases d)
  have z: "zero_request\<lparr>rq_user_id := 0, rq_action_id := 0, rq_challenge := 0, rq_hmac := replicate 32 0\<rparr> = zero_request"
    by (simp add: zero_request_def)
  show ?thesis
    by (cases user) (simp_all add: d app_job_load_from_normal_def job_source_def Let_def z)
qed

lemma first_reservation:
  assumes "m \<noteq> 0"
  obtains (overflow) "app_job_next_buffer_cap 0 m 1280 = Some 0"
      "app_job_reserve_buffer None 0 m 1280 h = Some (False, None, 0, h)"
    | (memory) h1 where "bh_oom h (bh_next h)" "bh_realloc None 1280 h = (None, h1)"
      "app_job_reserve_buffer None 0 m 1280 h = Some (False, None, 0, h1)"
    | (taken) b c h1 where "app_job_next_buffer_cap 0 m 1280 = Some c" "m \<le> c" "c \<noteq> 0"
      "bh_realloc None c h = (Some b, h1)"
      "app_job_reserve_buffer None 0 m 1280 h = Some (True, Some b, c, h1)"
proof -
  obtain c where c: "app_job_next_buffer_cap 0 m 1280 = Some c" "c = 0 \<or> m \<le> c"
    using next_buffer_cap_returns [of 1280 0 m] by auto
  show thesis
  proof (cases "c = 0")
    case True
    show thesis by (rule overflow) (use True c assms in \<open>simp_all add: app_job_reserve_buffer_def\<close>)
  next
    case False
    obtain r h1 where r: "bh_realloc None c h = (r, h1)" by fastforce
    show thesis
    proof (cases r)
      case None
      then have "bh_oom h (bh_next h)" using r by (auto simp: bh_realloc_def split: if_splits)
      moreover have "bh_realloc None 1280 h = (None, h1)"
        using r None \<open>bh_oom h (bh_next h)\<close> by (simp add: bh_realloc_def)
      moreover have "app_job_reserve_buffer None 0 m 1280 h = Some (False, None, 0, h1)"
        using assms c False r None by (simp add: app_job_reserve_buffer_def)
      ultimately show thesis by (rule memory)
    next
      case (Some b)
      show thesis
        by (rule taken [of c b h1]) (use Some c False r assms in \<open>simp_all add: app_job_reserve_buffer_def\<close>)
    qed
  qed
qed

text \<open>What loading does to a heap whose addresses are all owned by \<open>R\<close>.\<close>

lemma load_owned:
  assumes own: "bh_owned h R" and load: "app_job_load_from_normal zero_job d h = (ok, job, h')"
  shows "bh_owned h' (job_bufs job + R)" "\<forall>a \<in># R. bh_cell h' a = bh_cell h a" "job_ok h' job"
    "bh_oom h' = bh_oom h" "ok \<Longrightarrow> job_view h' job = job_stored d"
    "(\<forall>n. \<not> bh_oom h n) \<Longrightarrow> ok \<longleftrightarrow> job_fits d"
proof -
  have "bh_owned h' (job_bufs job + R) \<and> (\<forall>a \<in># R. bh_cell h' a = bh_cell h a) \<and> job_ok h' job \<and>
    bh_oom h' = bh_oom h \<and> (ok \<longrightarrow> job_view h' job = job_stored d) \<and>
    ((\<forall>n. \<not> bh_oom h n) \<longrightarrow> ok = job_fits d)"
  proof (cases "job_source d")
    case None
    then have "ok = False" "job = job_envelope (fst d)" "h' = h" using load by (simp_all add: load_eq)
    then show ?thesis
      using own None
      by (simp add: job_bufs_def job_ok_def buf_ok_def zero_request_def job_fits_def)
  next
    case (Some rp)
    then obtain rq p where src: "job_source d = Some (rq, p)" by (cases rp) auto
    note rq = source_request [OF src]
    define j0 where "j0 = (job_envelope (fst d))\<lparr>aj_request := rq\<rparr>"
    show ?thesis
    proof (cases "p = []")
      case True
      then have r: "ok = True" "job = j0" "h' = h" using load src by (simp_all add: load_eq j0_def)
      have "rq\<lparr>rq_payload_len := 0\<rparr> = rq" "rq\<lparr>rq_payload_buffer := None, rq_payload_cap := 0\<rparr> = rq" using rq by (cases rq; simp)+
      then show ?thesis
        using own src True rq r
        by (simp add: j0_def job_bufs_def job_ok_def buf_ok_def job_fits_def job_stored_def job_view_def
            bh_read_def)
    next
      case False
      have copy: "app_job_copy_payload j0 p h =
          (let (ok, b, cap, h1) = the (app_job_reserve_buffer None 0 (length p) 1280 h)
           in if \<not> ok then (False, j0\<lparr>aj_request := rq\<lparr>rq_payload_buffer := b, rq_payload_cap := cap\<rparr>\<rparr>, h1)
              else (True, j0\<lparr>aj_request := rq\<lparr>rq_payload_buffer := b, rq_payload_cap := cap,
                     rq_payload_len := length p\<rparr>\<rparr>, bh_write b p h1))"
        using False rq
        by (simp add: app_job_copy_payload_def j0_def APP_JOB_PAYLOAD_BLOCK_SIZE_def cong: if_cong prod.case_cong)
      have len: "length p \<noteq> 0" using False by simp
      show ?thesis
      proof (cases rule: first_reservation [OF len, of h, case_names overflow memory taken])
        case overflow
        then have "app_job_copy_payload j0 p h =
            (False, j0\<lparr>aj_request := rq\<lparr>rq_payload_buffer := None, rq_payload_cap := 0\<rparr>\<rparr>, h)"
          by (simp add: copy)
        then have "ok = False" "job = zero_job" "h' = h"
          using load src False by (simp_all add: load_eq j0_def release_eq)
        then show ?thesis using own overflow src False
          by (simp add: job_fits_def APP_JOB_PAYLOAD_BLOCK_SIZE_def)
      next
        case (memory h1)
        then have "app_job_copy_payload j0 p h =
            (False, j0\<lparr>aj_request := rq\<lparr>rq_payload_buffer := None, rq_payload_cap := 0\<rparr>\<rparr>, h1)"
          by (simp add: copy)
        then have r: "ok = False" "job = zero_job" "h' = h1"
          using load src False by (simp_all add: load_eq j0_def release_eq)
        have "bh_owned h1 R" "bh_cell h1 = bh_cell h"
          using bh_realloc_fail [OF own _ memory(2)] by simp_all
        then show ?thesis using r memory(1) bh_realloc_oom [OF memory(2)] by auto
      next
        case (taken b c h1)
        note fresh = bh_realloc_fresh [OF own taken(4)]
        have cell: "bh_cell h1 b = Some (replicate c 0)" using fresh(2) by simp
        have fit: "length p \<le> length (replicate c (0::u8))" using taken(2) by simp
        note w = bh_write_owned [OF fresh(1) cell fit]
        have "app_job_copy_payload j0 p h =
            (True, j0\<lparr>aj_request := rq\<lparr>rq_payload_buffer := Some b, rq_payload_cap := c,
                     rq_payload_len := length p\<rparr>\<rparr>, bh_write (Some b) p h1)"
          by (simp add: copy taken(5))
        then have r: "ok = True" "job = j0\<lparr>aj_request := rq\<lparr>rq_payload_buffer := Some b, rq_payload_cap := c,
                     rq_payload_len := length p\<rparr>\<rparr>" "h' = bh_write (Some b) p h1"
          using load src False by (simp_all add: load_eq j0_def)
        have "bh_cell h' b = Some (p @ drop (length p) (replicate c 0))" using r(3) w(2) by simp
        moreover have "rq\<lparr>rq_payload_buffer := None, rq_payload_cap := 0, rq_payload_len := n\<rparr> = rq\<lparr>rq_payload_len := n\<rparr>" for n
          using rq by (cases rq) simp
        ultimately show ?thesis
          using w r fresh bh_realloc_oom [OF taken(4)] taken(1,2,3) src False rq
          by (auto simp: job_bufs_def j0_def job_ok_def buf_ok_def job_view_def job_stored_def bh_read_def
              job_fits_def APP_JOB_PAYLOAD_BLOCK_SIZE_def)
      qed
    qed
  qed
  then show "bh_owned h' (job_bufs job + R)" "\<forall>a \<in># R. bh_cell h' a = bh_cell h a" "job_ok h' job"
    "bh_oom h' = bh_oom h" "ok \<Longrightarrow> job_view h' job = job_stored d"
    "(\<forall>n. \<not> bh_oom h n) \<Longrightarrow> ok \<longleftrightarrow> job_fits d"
    by blast+
qed

end
