(* ===== verification/Job_Queue.thy ===== *)
theory Job_Queue
  imports Job_Facts
begin

text \<open>
  The invariant of the job queue and of the caller's job, kept by every operation, and the queue
  as an instance of the contract of a bounded FIFO.
\<close>

section \<open>Who owns what\<close>

definition owned :: "AppConnectionJob list \<Rightarrow> baddr multiset" where
  "owned js = (\<Sum>j \<leftarrow> js. job_bufs j)"

lemma owned_simps [simp]: "owned [] = {#}" "owned (j # js) = job_bufs j + owned js"
  by (simp_all add: owned_def)

lemma owned_zero [simp]: "owned (replicate n zero_job) = {#}"
  by (induction n) simp_all

lemma owned_update: "i < length js \<Longrightarrow> owned (js[i := j]) + job_bufs (js ! i) = owned js + job_bufs j"
proof (induction js arbitrary: i)
  case Nil
  then show ?case by simp
next
  case (Cons k js)
  then show ?case by (cases i) (auto simp: ac_simps)
qed

lemma owned_take: "i < length js \<Longrightarrow> owned js = job_bufs (js ! i) + owned (js[i := zero_job])"
  using owned_update [of i js zero_job] by (simp add: ac_simps)

lemma owned_put: "i < length js \<Longrightarrow> owned (js[i := j]) = job_bufs j + owned (js[i := zero_job])"
  using owned_take [of i "js[i := j]"] by simp

lemma owned_member: "j \<in> set js \<Longrightarrow> a \<in># job_bufs j \<Longrightarrow> a \<in># owned js"
  by (induction js) auto

definition jobs_inv :: "buf_heap \<Rightarrow> AppJobState \<Rightarrow> AppConnectionJob \<Rightarrow> bool" where
  "jobs_inv h st out \<longleftrightarrow>
     ring_ok APP_JOB_READY_QUEUE_CAPACITY (js_ready_queue st) (js_ready_head st) (js_ready_tail st) (js_ready_count st) \<and>
     bh_owned h (owned (js_ready_queue st) + job_bufs out) \<and>
     (\<forall>j \<in> set (js_ready_queue st). job_ok h j) \<and> job_ok h out"

definition job_items :: "buf_heap \<Rightarrow> AppJobState \<Rightarrow> job_view list" where
  "job_items h st = map (job_view h) (ring_items (js_ready_queue st) (js_ready_head st) (js_ready_count st))"

lemma ring_items_slots: "ring_ok n slots h t c \<Longrightarrow> set (ring_items slots h c) \<subseteq> set slots"
proof
  fix x assume r: "ring_ok n slots h t c" and "x \<in> set (ring_items slots h c)"
  then obtain k where "x = slots ! ((h + k) mod length slots)" by (auto simp: ring_items_def)
  moreover have "0 < length slots" using r by (auto simp: ring_ok_def)
  ultimately show "x \<in> set slots" by simp
qed

lemma ring_items_tail:
  assumes "ring_ok n slots h t c" "c < n"
  shows "ring_items (slots[t := x]) h c = ring_items slots h c"
proof -
  have "ring_items (slots[t := x]) h (c + 1) = ring_items slots h c @ [x]"
    by (rule ring_push_items [OF assms])
  moreover have "ring_items (slots[t := x]) h (c + 1) =
      ring_items (slots[t := x]) h c @ [slots[t := x] ! ((h + c) mod length (slots[t := x]))]"
    by (simp add: ring_items_def)
  ultimately show ?thesis by (metis append1_eq_conv)
qed

text \<open>A heap that agrees on what the jobs own shows the same jobs.\<close>

lemma jobs_frame:
  assumes "\<forall>a \<in># owned js. bh_cell h' a = bh_cell h a"
  shows "\<forall>j \<in> set js. job_ok h' j = job_ok h j" "\<forall>j \<in> set js. job_view h' j = job_view h j"
  using assms job_frame owned_member by metis+

lemma jobs_inv_init: "jobs_inv (bh_empty oom) app_job_state_init zero_job"
  using bh_owned_empty
  by (simp add: jobs_inv_def app_job_state_init_def ring_ok_init APP_JOB_READY_QUEUE_CAPACITY_def)

section \<open>Every operation keeps the invariant\<close>

lemma enqueue_inv:
  assumes inv: "jobs_inv h st out" and e: "app_job_enqueue st d h = (ok, st', h')"
  shows "jobs_inv h' st' out" "job_view h' out = job_view h out" "bh_oom h' = bh_oom h"
    "job_items h' st' = (if ok then job_items h st @ [job_stored d] else job_items h st)"
    "(\<forall>n. \<not> bh_oom h n) \<Longrightarrow> ok \<longleftrightarrow> js_ready_count st < APP_JOB_READY_QUEUE_CAPACITY \<and> job_fits d"
proof -
  let ?q = "js_ready_queue st" and ?t = "js_ready_tail st" and ?c = "js_ready_count st" and ?h = "js_ready_head st"
  have ring: "ring_ok APP_JOB_READY_QUEUE_CAPACITY ?q ?h ?t ?c"
    and own: "bh_owned h (owned ?q + job_bufs out)"
    and oks: "\<forall>j \<in> set ?q. job_ok h j" "job_ok h out" using inv by (auto simp: jobs_inv_def)
  have "jobs_inv h' st' out \<and> job_view h' out = job_view h out \<and> bh_oom h' = bh_oom h \<and>
    job_items h' st' = (if ok then job_items h st @ [job_stored d] else job_items h st) \<and>
    ((\<forall>n. \<not> bh_oom h n) \<longrightarrow> (ok \<longleftrightarrow> ?c < APP_JOB_READY_QUEUE_CAPACITY \<and> job_fits d))"
  proof (cases "?c < APP_JOB_READY_QUEUE_CAPACITY")
    case False
    then have "ok = False" "st' = st" "h' = h" using e by (simp_all add: app_job_enqueue_def)
    then show ?thesis using inv False by simp
  next
    case room: True
    have t: "?t < length ?q" using ring by (auto simp: ring_ok_def)
    define rest where "rest = owned (?q[?t := zero_job])"
    have own1: "bh_owned h (job_bufs (?q ! ?t) + (rest + job_bufs out))"
      using own owned_take [OF t] by (simp add: rest_def add.assoc)
    define h0 where "h0 = snd (app_job_release_job (?q ! ?t) h)"
    obtain ok1 job h1 where l: "app_job_load_from_normal zero_job d h0 = (ok1, job, h1)"
      using prod_cases3 by blast
    have own0: "bh_owned h0 (rest + job_bufs out)" and cell0: "\<forall>a \<in># rest + job_bufs out. bh_cell h0 a = bh_cell h a"
      using release_owned [OF own1] by (simp_all add: h0_def)
    note load = load_owned [OF own0 l]
    have r: "ok = ok1" "h' = h1" "js_ready_queue st' = ?q[?t := job]" "js_ready_head st' = ?h"
      "js_ready_tail st' = (if ok1 then (?t + 1) mod APP_JOB_READY_QUEUE_CAPACITY else ?t)"
      "js_ready_count st' = (if ok1 then ?c + 1 else ?c)"
      using e room l by (auto simp: app_job_enqueue_def Let_def h0_def split: if_splits)
    have cell: "\<forall>a \<in># rest. bh_cell h' a = bh_cell h a" "\<forall>a \<in># job_bufs out. bh_cell h' a = bh_cell h a"
      using load(2) cell0 r(2) by auto
    note out = job_frame [OF cell(2)]
    note others = jobs_frame [OF cell(1) [unfolded rest_def]]
    have "bh_owned h' (owned (?q[?t := job]) + job_bufs out)"
      using load(1) owned_put [OF t, of job] r(2) by (simp add: rest_def add.assoc)
    moreover have "\<forall>j \<in> set (?q[?t := job]). job_ok h' j"
    proof
      fix j assume "j \<in> set (?q[?t := job])"
      then have "j = job \<or> j \<in> set (?q[?t := zero_job])"
        using t by (auto simp: in_set_conv_nth nth_list_update split: if_splits)
      then show "job_ok h' j"
        using load(3) r(2) others(1) oks(1) set_update_subset_insert [of ?q ?t zero_job] by auto
    qed
    moreover have "ring_ok APP_JOB_READY_QUEUE_CAPACITY (js_ready_queue st') (js_ready_head st') (js_ready_tail st') (js_ready_count st')"
      using ring ring_push_ok [OF ring room, of job] r by (auto simp: ring_ok_def)
    moreover have items: "map (job_view h') (ring_items (?q[?t := job]) ?h ?c) = job_items h st"
    proof -
      have eq: "ring_items (?q[?t := zero_job]) ?h ?c = ring_items ?q ?h ?c"
        "ring_items (?q[?t := job]) ?h ?c = ring_items ?q ?h ?c"
        using ring_items_tail [OF ring room] by simp_all
      have "set (ring_items (?q[?t := zero_job]) ?h ?c) \<subseteq> set (?q[?t := zero_job])"
        using ring by (intro ring_items_slots [of APP_JOB_READY_QUEUE_CAPACITY _ _ ?t]) (simp add: ring_ok_def)
      then have "\<forall>j \<in> set (ring_items ?q ?h ?c). job_view h' j = job_view h j"
        using others(2) eq(1) by auto
      then show ?thesis unfolding eq(2) job_items_def by simp
    qed
    moreover have "ok \<Longrightarrow> job_items h' st' = job_items h st @ [job_stored d]"
    proof -
      assume ok: "ok"
      have "ring_items (?q[?t := job]) ?h (?c + 1) = ring_items ?q ?h ?c @ [job]"
        by (rule ring_push_items [OF ring room])
      also have "ring_items ?q ?h ?c = ring_items (?q[?t := job]) ?h ?c"
        using ring_items_tail [OF ring room] by simp
      finally show ?thesis using ok r load(5) items by (simp add: job_items_def)
    qed
    ultimately show ?thesis
      using out oks(2) load(4,6) r room
      by (auto simp: jobs_inv_def job_items_def h0_def)
  qed
  then show "jobs_inv h' st' out" "job_view h' out = job_view h out" "bh_oom h' = bh_oom h"
    "job_items h' st' = (if ok then job_items h st @ [job_stored d] else job_items h st)"
    "(\<forall>n. \<not> bh_oom h n) \<Longrightarrow> ok \<longleftrightarrow> js_ready_count st < APP_JOB_READY_QUEUE_CAPACITY \<and> job_fits d"
    by blast+
qed

lemma drain_inv:
  assumes inv: "jobs_inv h st out" and d: "app_job_drain st out h = (ok, st', out', h')"
  shows "jobs_inv h' st' out'" "bh_oom h' = bh_oom h" "ok \<longleftrightarrow> job_items h st \<noteq> []"
    "ok \<Longrightarrow> job_items h st = job_view h' out' # job_items h' st'"
    "\<not> ok \<Longrightarrow> out' = zero_job \<and> job_items h' st' = []"
proof -
  let ?q = "js_ready_queue st" and ?t = "js_ready_tail st" and ?c = "js_ready_count st" and ?h = "js_ready_head st"
  have ring: "ring_ok APP_JOB_READY_QUEUE_CAPACITY ?q ?h ?t ?c"
    and own: "bh_owned h (job_bufs out + owned ?q)"
    and oks: "\<forall>j \<in> set ?q. job_ok h j" using inv by (auto simp: jobs_inv_def add.commute)
  have h': "h' = snd (app_job_release_job out h)"
    using d by (auto simp: app_job_drain_def Let_def split: if_splits)
  note rel = release_owned [OF own, folded h']
  note frame = jobs_frame [OF rel(2)]
  have items: "job_items h' st = job_items h st"
    using frame(2) ring_items_slots [OF ring] by (auto simp: job_items_def)
  have oom: "bh_oom h' = bh_oom h" by (simp add: h')
  have "jobs_inv h' st' out' \<and> (ok \<longleftrightarrow> job_items h st \<noteq> []) \<and>
    (ok \<longrightarrow> job_items h st = job_view h' out' # job_items h' st') \<and>
    (\<not> ok \<longrightarrow> out' = zero_job \<and> job_items h' st' = [])"
  proof (cases "?c = 0")
    case True
    then have "ok = False" "st' = st" "out' = zero_job" using d by (simp_all add: app_job_drain_def)
    then show ?thesis
      using True ring rel(1) frame(1) oks by (simp add: jobs_inv_def job_items_def)
  next
    case False
    then have r: "ok = True" "out' = ?q ! ?h" "js_ready_queue st' = ?q[?h := zero_job]"
      "js_ready_head st' = (?h + 1) mod APP_JOB_READY_QUEUE_CAPACITY" "js_ready_tail st' = ?t"
      "js_ready_count st' = ?c - 1"
      using d by (auto simp: app_job_drain_def Let_def)
    have hd: "?h < length ?q" using ring by (simp add: ring_ok_def)
    have pos: "0 < ?c" using False by simp
    have ring': "ring_ok APP_JOB_READY_QUEUE_CAPACITY (?q[?h := zero_job])
        ((?h + 1) mod APP_JOB_READY_QUEUE_CAPACITY) ?t (?c - 1)"
      by (rule ring_pop_ok [OF ring pos])
    have "bh_owned h' (owned (?q[?h := zero_job]) + job_bufs (?q ! ?h))"
      using rel(1) owned_take [OF hd] by (simp add: add.commute)
    moreover have "\<forall>j \<in> set (?q[?h := zero_job]). job_ok h' j"
      using frame(1) oks set_update_subset_insert [of ?q ?h zero_job] by auto
    moreover have "job_ok h' (?q ! ?h)" using frame(1) oks hd by simp
    moreover have "job_items h st = job_view h' out' # job_items h' st'"
      using ring_pop_items [OF ring pos, of zero_job] items r by (simp add: job_items_def)
    ultimately show ?thesis using ring' r by (simp add: jobs_inv_def)
  qed
  then show "jobs_inv h' st' out'" "bh_oom h' = bh_oom h" "ok \<longleftrightarrow> job_items h st \<noteq> []"
    "ok \<Longrightarrow> job_items h st = job_view h' out' # job_items h' st'"
    "\<not> ok \<Longrightarrow> out' = zero_job \<and> job_items h' st' = []"
    using oom by blast+
qed

lemma dispose_inv:
  assumes "jobs_inv h st out" "app_job_dispose out h = (out', h')"
  shows "jobs_inv h' st out'" "job_items h' st = job_items h st" "out' = zero_job" "bh_oom h' = bh_oom h"
proof -
  let ?q = "js_ready_queue st"
  have ring: "ring_ok APP_JOB_READY_QUEUE_CAPACITY ?q (js_ready_head st) (js_ready_tail st) (js_ready_count st)"
    and own: "bh_owned h (job_bufs out + owned ?q)"
    and oks: "\<forall>j \<in> set ?q. job_ok h j" using assms(1) by (auto simp: jobs_inv_def add.commute)
  have h': "h' = snd (app_job_release_job out h)" and out: "out' = zero_job"
    using assms(2) by (simp_all add: app_job_dispose_def)
  note rel = release_owned [OF own, folded h']
  note frame = jobs_frame [OF rel(2)]
  show "jobs_inv h' st out'" using ring rel(1) frame(1) oks out by (simp add: jobs_inv_def)
  show "job_items h' st = job_items h st"
    using frame(2) ring_items_slots [OF ring] by (auto simp: job_items_def)
  show "out' = zero_job" "bh_oom h' = bh_oom h" using out by (simp_all add: h')
qed

text \<open>Resetting the queue leaves nothing allocated but the caller's job.\<close>

lemma release_all:
  assumes "bh_owned h (owned js + R)"
  shows "bh_owned (foldl (\<lambda>g job. snd (app_job_release_job job g)) h js) R"
    "\<forall>a \<in># R. bh_cell (foldl (\<lambda>g job. snd (app_job_release_job job g)) h js) a = bh_cell h a"
proof -
  have "bh_owned (foldl (\<lambda>g job. snd (app_job_release_job job g)) h js) R \<and>
    (\<forall>a \<in># R. bh_cell (foldl (\<lambda>g job. snd (app_job_release_job job g)) h js) a = bh_cell h a)"
    using assms
  proof (induction js arbitrary: h)
    case Nil
    then show ?case by simp
  next
    case (Cons j js)
    then have "bh_owned h (job_bufs j + (owned js + R))" by (simp add: add.assoc)
    note rel = release_owned [OF this]
    show ?case using Cons.IH [OF rel(1)] rel(2) by simp
  qed
  then show "bh_owned (foldl (\<lambda>g job. snd (app_job_release_job job g)) h js) R"
    "\<forall>a \<in># R. bh_cell (foldl (\<lambda>g job. snd (app_job_release_job job g)) h js) a = bh_cell h a"
    by blast+
qed

lemma reset_inv:
  assumes "jobs_inv h st out" "app_job_state_reset st h = (st', h')"
  shows "jobs_inv h' st' out" "job_items h' st' = []" "bh_owned h' (job_bufs out)"
proof -
  have own: "bh_owned h (owned (js_ready_queue st) + job_bufs out)" and ok: "job_ok h out"
    using assms(1) by (simp_all add: jobs_inv_def)
  have h': "h' = foldl (\<lambda>g job. snd (app_job_release_job job g)) h (js_ready_queue st)"
    and st': "st' = app_job_state_init" using assms(2) by (simp_all add: app_job_state_reset_def)
  note rel = release_all [OF own, folded h']
  show "bh_owned h' (job_bufs out)" by (rule rel(1))
  have "owned (js_ready_queue st') = {#}"
    by (simp add: st' app_job_state_init_def)
  then show "jobs_inv h' st' out"
    using rel(1) ok job_frame(2) [OF rel(2)]
    by (simp add: jobs_inv_def st' app_job_state_init_def ring_ok_init APP_JOB_READY_QUEUE_CAPACITY_def)
  show "job_items h' st' = []" by (simp add: job_items_def st' app_job_state_init_def)
qed

section \<open>The queue is a bounded FIFO\<close>

text \<open>The queue with its heap and the caller's job, when memory does not run out.\<close>

type_synonym job_queue = "buf_heap \<times> AppJobState \<times> AppConnectionJob"

definition job_push :: "job_queue \<Rightarrow> delivered \<Rightarrow> bool \<times> job_queue" where
  "job_push q d = (case q of (h, st, out) \<Rightarrow>
     (case app_job_enqueue st d h of (ok, st', h') \<Rightarrow> (ok, (h', st', out))))"

definition job_pop :: "job_queue \<Rightarrow> job_view option \<times> job_queue" where
  "job_pop q = (case q of (h, st, out) \<Rightarrow>
     (case app_job_drain st out h of (ok, st', out', h') \<Rightarrow>
        (if ok then Some (job_view h' out') else None, (h', st', out'))))"

definition job_contents :: "job_queue \<Rightarrow> job_view list" where
  "job_contents q = (case q of (h, st, out) \<Rightarrow> job_items h st)"

definition job_queue_ok :: "job_queue \<Rightarrow> bool" where
  "job_queue_ok q = (case q of (h, st, out) \<Rightarrow> jobs_inv h st out \<and> (\<forall>n. \<not> bh_oom h n))"

lemma job_queue_cases:
  assumes "job_queue_ok q"
  obtains h st out where "q = (h, st, out)" "jobs_inv h st out" "\<forall>n. \<not> bh_oom h n"
  using assms by (auto simp: job_queue_ok_def split: prod.splits)

lemma job_push_facts:
  assumes "job_queue_ok q"
  shows "fst (job_push q d) \<longleftrightarrow> length (job_contents q) < APP_JOB_READY_QUEUE_CAPACITY \<and> job_fits d"
    "job_contents (snd (job_push q d)) =
       (if fst (job_push q d) then job_contents q @ [job_stored d] else job_contents q)"
    "job_queue_ok (snd (job_push q d))"
proof -
  obtain h st out where q: "q = (h, st, out)" and inv: "jobs_inv h st out" "\<forall>n. \<not> bh_oom h n"
    using assms by (rule job_queue_cases)
  obtain ok st' h' where e: "app_job_enqueue st d h = (ok, st', h')" using prod_cases3 by blast
  note f = enqueue_inv [OF inv(1) e]
  have p: "job_push q d = (ok, (h', st', out))" by (simp add: q job_push_def e)
  have "length (job_contents q) = js_ready_count st" by (simp add: q job_contents_def job_items_def)
  then show "fst (job_push q d) \<longleftrightarrow> length (job_contents q) < APP_JOB_READY_QUEUE_CAPACITY \<and> job_fits d"
    using f(5) [OF inv(2)] p by simp
  show "job_contents (snd (job_push q d)) =
      (if fst (job_push q d) then job_contents q @ [job_stored d] else job_contents q)"
    using f(4) p q by (simp add: job_contents_def)
  show "job_queue_ok (snd (job_push q d))" using f(1,3) p inv(2) by (simp add: job_queue_ok_def)
qed

lemma job_pop_facts:
  assumes "job_queue_ok q"
  shows "job_contents q = [] \<Longrightarrow> fst (job_pop q) = None \<and> job_contents (snd (job_pop q)) = []"
    "job_contents q = y # ys \<Longrightarrow> fst (job_pop q) = Some y \<and> job_contents (snd (job_pop q)) = ys"
    "job_queue_ok (snd (job_pop q))"
proof -
  obtain h st out where q: "q = (h, st, out)" and inv: "jobs_inv h st out" "\<forall>n. \<not> bh_oom h n"
    using assms by (rule job_queue_cases)
  obtain ok st' out' h' where e: "app_job_drain st out h = (ok, st', out', h')" using prod_cases4 by blast
  note f = drain_inv [OF inv(1) e]
  have p: "job_pop q = (if ok then Some (job_view h' out') else None, (h', st', out'))"
    by (simp add: q job_pop_def e)
  show "job_contents q = [] \<Longrightarrow> fst (job_pop q) = None \<and> job_contents (snd (job_pop q)) = []"
    using f(3,5) p q by (auto simp: job_contents_def)
  show "job_contents q = y # ys \<Longrightarrow> fst (job_pop q) = Some y \<and> job_contents (snd (job_pop q)) = ys"
    using f(3,4) p q by (auto simp: job_contents_def)
  show "job_queue_ok (snd (job_pop q))" using f(1,2) p inv(2) by (simp add: job_queue_ok_def)
qed

lemma job_contents_bound: "job_queue_ok q \<Longrightarrow> length (job_contents q) \<le> APP_JOB_READY_QUEUE_CAPACITY"
  by (elim job_queue_cases) (auto simp: job_contents_def job_items_def jobs_inv_def ring_ok_def)

interpretation job_fifo: bounded_fifo job_push job_pop job_contents job_queue_ok
  APP_JOB_READY_QUEUE_CAPACITY job_fits job_stored
  by unfold_locales (use job_push_facts job_pop_facts job_contents_bound in \<open>auto 0 2\<close>)


text \<open>
  The response buffer of a job: reserving it and writing to it keep the ownership of buffers. The
  queue with the caller's job is then a state machine whose every run keeps its invariant.
\<close>

lemma reserve_response_facts:
  assumes own: "bh_owned h (R + job_bufs job)" and ok: "job_ok h job"
    and res: "app_job_reserve_response job m h = (b, job', h')"
  shows "bh_owned h' (R + job_bufs job')" "\<forall>a \<in># R. bh_cell h' a = bh_cell h a" "job_ok h' job'"
    "b \<Longrightarrow> 0 < m \<Longrightarrow> aj_response_buffer job' \<noteq> None \<and> m \<le> aj_response_cap job'"
    "aj_request job' = aj_request job" "bh_read (rq_payload_buffer (aj_request job)) n h' =
       bh_read (rq_payload_buffer (aj_request job)) n h"
    "job' = job\<lparr>aj_response_buffer := aj_response_buffer job', aj_response_cap := aj_response_cap job'\<rparr>"
    "bh_oom h' = bh_oom h" "(\<forall>n. \<not> bh_oom h n) \<Longrightarrow> m \<le> APP_JOB_RESPONSE_BLOCK_SIZE \<Longrightarrow> b"
proof -
  let ?p = "rq_payload_buffer (aj_request job)" and ?r = "aj_response_buffer job" and ?c = "aj_response_cap job"
  let ?P = "bh_owned h' (R + job_bufs job') \<and> (\<forall>a \<in># R + opt_mset ?p. bh_cell h' a = bh_cell h a) \<and>
    buf_ok h' (aj_response_buffer job') (aj_response_len job') (aj_response_cap job') \<and>
    (b \<longrightarrow> 0 < m \<longrightarrow> aj_response_buffer job' \<noteq> None \<and> m \<le> aj_response_cap job') \<and>
    job' = job\<lparr>aj_response_buffer := aj_response_buffer job', aj_response_cap := aj_response_cap job'\<rparr> \<and>
    bh_oom h' = bh_oom h \<and> ((\<forall>n. \<not> bh_oom h n) \<longrightarrow> m \<le> APP_JOB_RESPONSE_BLOCK_SIZE \<longrightarrow> b)"
  obtain b1 p1 c1 h1 where rb: "app_job_reserve_buffer ?r ?c m APP_JOB_RESPONSE_BLOCK_SIZE h = Some (b1, p1, c1, h1)"
    using reserve_returns [of APP_JOB_RESPONSE_BLOCK_SIZE ?r ?c m h]
    by (auto simp: APP_JOB_RESPONSE_BLOCK_SIZE_def)
  have r: "b = b1" "h' = h1" "job' = job\<lparr>aj_response_buffer := p1, aj_response_cap := c1\<rparr>"
    using res rb by (auto simp: app_job_reserve_response_def)
  have bok: "buf_ok h ?r (aj_response_len job) ?c" using ok by (simp add: job_ok_def)
  have P: ?P
  proof (cases "m = 0 \<or> ?r \<noteq> None \<and> m \<le> ?c")
    case True
    then have "b1 = True" "p1 = ?r" "c1 = ?c" "h1 = h"
      using rb by (auto simp: app_job_reserve_buffer_def split: if_splits)
    then show ?thesis using r True own bok by (auto simp: job_bufs_def)
  next
    case grow: False
    obtain c where c: "app_job_next_buffer_cap ?c m APP_JOB_RESPONSE_BLOCK_SIZE = Some c"
      and cs: "c = 0 \<and> SIZE_MAX div 2 < m \<or> m \<le> c \<and> max ?c APP_JOB_RESPONSE_BLOCK_SIZE \<le> c"
      using next_buffer_cap_returns [of APP_JOB_RESPONSE_BLOCK_SIZE ?c m]
      by (auto simp: APP_JOB_RESPONSE_BLOCK_SIZE_def)
    show ?thesis
    proof (cases "c = 0")
      case True
      then have "b1 = False" "p1 = ?r" "c1 = ?c" "h1 = h"
        using rb c grow by (auto simp: app_job_reserve_buffer_def)
      then show ?thesis
        using r own bok cs True by (auto simp: job_bufs_def SIZE_MAX_def APP_JOB_RESPONSE_BLOCK_SIZE_def)
    next
      case False
      obtain q h2 where ra: "bh_realloc ?r c h = (q, h2)" by fastforce
      have own2: "bh_owned h ((R + opt_mset ?p) + opt_mset ?r)" using own by (simp add: job_bufs_def add.assoc)
      show ?thesis
      proof (cases q)
        case None
        then have e: "b1 = False" "p1 = ?r" "c1 = ?c" "h1 = h2"
          using rb c grow False ra by (auto simp: app_job_reserve_buffer_def)
        have "\<forall>a \<in> set_option ?r. a \<in># R + opt_mset ?p + opt_mset ?r" by (cases ?r) auto
        note f = bh_realloc_fail [OF own2 this ra [unfolded None]]
        have "\<exists>n. bh_oom h n"
        proof (rule ccontr)
          assume "\<nexists>n. bh_oom h n"
          moreover have "bh_cell h a \<noteq> None" if "?r = Some a" for a
            using that bok by (auto simp: buf_ok_def split: option.splits)
          ultimately show False
            using ra None by (auto simp: bh_realloc_def split: option.splits)
        qed
        moreover have "buf_ok h2 ?r (aj_response_len job) ?c" using bok f(2) by (auto simp: buf_ok_def split: option.splits)
        ultimately show ?thesis
          using r e f bh_realloc_oom [OF ra] own by (auto simp: job_bufs_def add.assoc)
      next
        case (Some a)
        then have e: "b1 = True" "p1 = Some a" "c1 = c" "h1 = h2"
          using rb c grow False ra by (auto simp: app_job_reserve_buffer_def)
        have len: "aj_response_len job \<le> c"
          using bok cs False by (auto simp: buf_ok_def split: option.splits)
        have "bh_owned h2 (add_mset a (R + opt_mset ?p)) \<and>
            (\<exists>bytes. length bytes = c \<and> bh_cell h2 a = Some bytes) \<and>
            (\<forall>x \<in># R + opt_mset ?p. bh_cell h2 x = bh_cell h x)"
        proof (cases ?r)
          case None
          have "bh_owned h (R + opt_mset ?p)" using own2 None by simp
          note f = bh_realloc_fresh [OF this ra [unfolded None Some]]
          then show ?thesis by auto
        next
          case (Some old)
          have own3: "bh_owned h (add_mset old (R + opt_mset ?p))" using own2 Some by simp
          note f = bh_realloc_move [OF own3 ra [unfolded Some \<open>q = Some a\<close>]]
          then obtain bytes where bs: "length bytes = c" "bh_cell h2 = (bh_cell h)(old := None, a \<mapsto> bytes)" by blast
          then show ?thesis using f bh_owned_once [OF own3] by auto
        qed
        then show ?thesis
          using r e len bh_realloc_oom [OF ra] cs False by (auto simp: job_bufs_def buf_ok_def)
      qed
    qed
  qed
  show "bh_owned h' (R + job_bufs job')" "\<forall>a \<in># R. bh_cell h' a = bh_cell h a"
    "b \<Longrightarrow> 0 < m \<Longrightarrow> aj_response_buffer job' \<noteq> None \<and> m \<le> aj_response_cap job'"
    "job' = job\<lparr>aj_response_buffer := aj_response_buffer job', aj_response_cap := aj_response_cap job'\<rparr>"
    "bh_oom h' = bh_oom h" "(\<forall>n. \<not> bh_oom h n) \<Longrightarrow> m \<le> APP_JOB_RESPONSE_BLOCK_SIZE \<Longrightarrow> b"
    using P by auto
  show rq: "aj_request job' = aj_request job" using r(3) by simp
  show "bh_read ?p n h' = bh_read ?p n h"
    using P by (cases ?p) (auto simp: bh_read_def)
  have "buf_ok h' ?p (rq_payload_len (aj_request job)) (rq_payload_cap (aj_request job))"
    using P ok by (cases ?p) (auto simp: job_ok_def buf_ok_def)
  then show "job_ok h' job'" using P rq by (simp add: job_ok_def)
qed

text \<open>Writing bytes that fit to the response buffer.\<close>

lemma write_response_facts:
  assumes own: "bh_owned h (R + job_bufs job)" and ok: "job_ok h job"
    and buf: "aj_response_buffer job = Some a" and len: "length bytes \<le> aj_response_cap job"
    and apart: "rq_payload_buffer (aj_request job) \<noteq> Some a"
  defines "h' \<equiv> bh_write (aj_response_buffer job) bytes h"
    and "job' \<equiv> job\<lparr>aj_response_len := length bytes\<rparr>"
  shows "bh_owned h' (R + job_bufs job')" "\<forall>x \<in># R. bh_cell h' x = bh_cell h x" "job_ok h' job'"
    "bh_read (aj_response_buffer job) (length bytes) h' = bytes"
    "bh_read (rq_payload_buffer (aj_request job)) n h' = bh_read (rq_payload_buffer (aj_request job)) n h"
proof -
  obtain old where old: "bh_cell h a = Some old" "length old = aj_response_cap job"
    using ok buf by (auto simp: job_ok_def buf_ok_def split: option.splits)
  have "length bytes \<le> length old" using len old by simp
  note w = bh_write_owned [OF own old(1) this]
  have cell: "bh_cell h' = (bh_cell h)(a \<mapsto> bytes @ drop (length bytes) old)" using w(2) buf by (simp add: h'_def)
  have bufs: "job_bufs job' = job_bufs job" by (simp add: job'_def job_bufs_def)
  then show "bh_owned h' (R + job_bufs job')" using w(1) buf by (simp add: h'_def)
  have "a \<in># job_bufs job" using buf by (simp add: job_bufs_def)
  moreover have "bh_owned h (job_bufs job + R)" using own by (simp add: add.commute)
  ultimately have "a \<notin># R" using bh_owned_apart [of h "job_bufs job" R a] by simp
  then show "\<forall>x \<in># R. bh_cell h' x = bh_cell h x" using cell by auto
  show "job_ok h' job'"
    using ok cell buf old len apart by (auto simp: job_ok_def buf_ok_def job'_def split: option.splits)
  show "bh_read (aj_response_buffer job) (length bytes) h' = bytes" using cell buf by (simp add: bh_read_def)
  show "bh_read (rq_payload_buffer (aj_request job)) n h' = bh_read (rq_payload_buffer (aj_request job)) n h"
    using cell apart by (auto simp: bh_read_def split: option.splits)
qed

lemma buffers_apart:
  "bh_owned h (R + job_bufs job) \<Longrightarrow> aj_response_buffer job = Some a \<Longrightarrow> rq_payload_buffer (aj_request job) \<noteq> Some a"
  using bh_owned_once [of h a "R + opt_mset (rq_payload_buffer (aj_request job))"]
  by (auto simp: job_bufs_def)

section \<open>The queue as a state machine\<close>

type_synonym job_state = "buf_heap \<times> AppJobState \<times> AppConnectionJob"

inductive job_step :: "job_state \<Rightarrow> job_state \<Rightarrow> bool" where
  enqueue: "app_job_enqueue st d h = (ok, st', h') \<Longrightarrow> job_step (h, st, out) (h', st', out)"
| drain: "app_job_drain st out h = (ok, st', out', h') \<Longrightarrow> job_step (h, st, out) (h', st', out')"
| dispose: "app_job_dispose out h = (out', h') \<Longrightarrow> job_step (h, st, out) (h', st, out')"
| reset: "app_job_state_reset st h = (st', h') \<Longrightarrow> job_step (h, st, out) (h', st', out)"
| reserve: "app_job_reserve_response out m h = (ok, out', h') \<Longrightarrow> job_step (h, st, out) (h', st, out')"
| respond: "aj_response_buffer out \<noteq> None \<Longrightarrow> length bytes \<le> aj_response_cap out \<Longrightarrow>
    job_step (h, st, out) (bh_write (aj_response_buffer out) bytes h, st, out\<lparr>aj_response_len := length bytes\<rparr>)"

inductive_cases job_stepE: "job_step s s'"

lemma reserve_inv:
  assumes "jobs_inv h st out" "app_job_reserve_response out m h = (ok, out', h')"
  shows "jobs_inv h' st out'"
proof -
  have own: "bh_owned h (owned (js_ready_queue st) + job_bufs out)" and oks: "\<forall>j \<in> set (js_ready_queue st). job_ok h j"
    and ok: "job_ok h out" using assms(1) by (auto simp: jobs_inv_def)
  note f = reserve_response_facts [OF own ok assms(2)]
  show ?thesis using assms(1) f(1,3) jobs_frame(1) [OF f(2)] oks by (simp add: jobs_inv_def)
qed

lemma respond_inv:
  assumes "jobs_inv h st out" "aj_response_buffer out = Some a" "length bytes \<le> aj_response_cap out"
  shows "jobs_inv (bh_write (Some a) bytes h) st (out\<lparr>aj_response_len := length bytes\<rparr>)"
proof -
  have own: "bh_owned h (owned (js_ready_queue st) + job_bufs out)" and oks: "\<forall>j \<in> set (js_ready_queue st). job_ok h j"
    and ok: "job_ok h out" using assms(1) by (auto simp: jobs_inv_def)
  note f = write_response_facts [OF own ok assms(2,3) buffers_apart [OF own assms(2)]]
  show ?thesis using assms(1,2) f(1,3) jobs_frame(1) [OF f(2)] oks by (simp add: jobs_inv_def)
qed

lemma job_step_inv: "job_step (h, st, out) (h', st', out') \<Longrightarrow> jobs_inv h st out \<Longrightarrow> jobs_inv h' st' out'"
  by (erule job_stepE)
    (auto intro: enqueue_inv(1) drain_inv(1) dispose_inv(1) reset_inv(1) reserve_inv respond_inv)

lemma job_steps_inv: "job_step\<^sup>*\<^sup>* s s' \<Longrightarrow> jobs_inv (fst s) (fst (snd s)) (snd (snd s)) \<Longrightarrow>
   jobs_inv (fst s') (fst (snd s')) (snd (snd s'))"
proof (induction rule: rtranclp_induct)
  case base
  then show ?case .
next
  case (step s1 s2)
  then show ?case using job_step_inv by (cases s1; cases s2) auto
qed

end
