(* ===== verification/Codec_Context.thy ===== *)
theory Codec_Context
  imports Codec_Common "HOL-Library.Multiset"
begin

text \<open>
  \<open>shared/knock/codec/context.c\<close>: the operations on the codec context. A key is shared with the
  configuration by reference counting; \<open>refs\<close> is the multiset of the references that are held
  anywhere in the program. \<open>malloc_ok\<close> says which sizes can be allocated and \<open>up_ref_ok\<close> whether
  \<open>EVP_PKEY_up_ref\<close> succeeds. \<open>initialized\<close> is the module's flag.
\<close>

type_synonym key_refs = "EVP_PKEY multiset"

definition zero_entry :: SharedKnockCodecKeyEntry where
  "zero_entry = \<lparr>ke_user_id = 0, ke_name = None, ke_public_key = None, ke_private_key = None,
     ke_hmac_key = None, ke_hmac_key_len = 0, ke_flags = 0\<rparr>"

definition zero_server_key :: SharedKnockCodecServerKey where
  "zero_server_key = \<lparr>sk_name = None, sk_public_key = None, sk_private_key = None,
     sk_hmac_key = None, sk_hmac_key_len = 0, sk_flags = 0\<rparr>"

definition zero_codec_context :: SharedKnockCodecContext where
  "zero_codec_context = \<lparr>cx_server_key = zero_server_key, cx_has_server_key = False,
     cx_server_secure = False, cx_openssl_session = None, cx_keychain = [], cx_keychain_len = 0,
     cx_active_key_name = None, cx_nonce_window_ms = 0, cx_flags = 0\<rparr>"

definition sizeof_KeyEntry :: nat where "sizeof_KeyEntry = 56"

section \<open>Freeing and copying\<close>

definition key_mset :: "EVP_PKEY option \<Rightarrow> key_refs" where
  "key_mset k = (case k of None \<Rightarrow> {#} | Some x \<Rightarrow> {#x#})"

text \<open>\<open>EVP_PKEY_free\<close>, guarded by the NULL check of the code.\<close>

definition free_key :: "EVP_PKEY option \<Rightarrow> key_refs \<Rightarrow> key_refs" where
  "free_key k refs = refs - key_mset k"

definition shared_knock_codec_context_free_server_key ::
  "SharedKnockCodecServerKey \<Rightarrow> key_refs \<Rightarrow> SharedKnockCodecServerKey \<times> key_refs" where
  "shared_knock_codec_context_free_server_key entry refs =
     (entry\<lparr>sk_name := None, sk_public_key := None, sk_private_key := None, sk_hmac_key := None,
        sk_hmac_key_len := 0, sk_flags := 0\<rparr>,
      free_key (sk_private_key entry) (free_key (sk_public_key entry) refs))"

definition shared_knock_codec_context_free_entry ::
  "SharedKnockCodecKeyEntry \<Rightarrow> key_refs \<Rightarrow> SharedKnockCodecKeyEntry \<times> key_refs" where
  "shared_knock_codec_context_free_entry entry refs =
     (entry\<lparr>ke_name := None, ke_public_key := None, ke_private_key := None, ke_hmac_key := None,
        ke_hmac_key_len := 0, ke_user_id := 0, ke_flags := 0\<rparr>,
      free_key (ke_private_key entry) (free_key (ke_public_key entry) refs))"

definition up_ref_all :: "(EVP_PKEY \<Rightarrow> bool) \<Rightarrow> EVP_PKEY option \<Rightarrow> bool" where
  "up_ref_all up_ref_ok k = (case k of None \<Rightarrow> True | Some x \<Rightarrow> up_ref_ok x)"

definition shared_knock_codec_context_copy_server_key ::
  "(nat \<Rightarrow> bool) \<Rightarrow> (EVP_PKEY \<Rightarrow> bool) \<Rightarrow> SharedKnockCodecServerKey \<Rightarrow> key_refs \<Rightarrow>
   bool \<times> SharedKnockCodecServerKey \<times> key_refs" where
  "shared_knock_codec_context_copy_server_key malloc_ok up_ref_ok src refs =
     (case sk_name src of
        None \<Rightarrow> (False, zero_server_key, refs)
      | Some name \<Rightarrow>
          if \<not> malloc_ok (length name + 1) then (False, zero_server_key, refs)
          else let d1 = zero_server_key\<lparr>sk_name := Some name\<rparr>
            in if \<not> up_ref_all up_ref_ok (sk_public_key src)
               then (False, shared_knock_codec_context_free_server_key d1 refs)
               else let r1 = refs + key_mset (sk_public_key src);
                        d2 = d1\<lparr>sk_public_key := sk_public_key src\<rparr>
               in if \<not> up_ref_all up_ref_ok (sk_private_key src)
                  then (False, shared_knock_codec_context_free_server_key d2 r1)
                  else let r2 = r1 + key_mset (sk_private_key src);
                           d3 = d2\<lparr>sk_private_key := sk_private_key src\<rparr>
                  in if sk_hmac_key_len src > 0 \<and>
                        (sk_hmac_key src = None \<or> \<not> malloc_ok (sk_hmac_key_len src))
                     then (False, shared_knock_codec_context_free_server_key d3 r2)
                     else (True,
                       d3\<lparr>sk_hmac_key := (if sk_hmac_key_len src > 0
                              then map_option (take (sk_hmac_key_len src)) (sk_hmac_key src) else None),
                          sk_hmac_key_len := sk_hmac_key_len src, sk_flags := sk_flags src\<rparr>, r2))"

definition shared_knock_codec_context_copy_entry ::
  "(nat \<Rightarrow> bool) \<Rightarrow> (EVP_PKEY \<Rightarrow> bool) \<Rightarrow> SharedKnockCodecKeyEntry \<Rightarrow> key_refs \<Rightarrow>
   bool \<times> SharedKnockCodecKeyEntry \<times> key_refs" where
  "shared_knock_codec_context_copy_entry malloc_ok up_ref_ok src refs =
     (case ke_name src of
        None \<Rightarrow> (False, zero_entry, refs)
      | Some name \<Rightarrow>
          if \<not> malloc_ok (length name + 1) then (False, zero_entry, refs)
          else let d1 = zero_entry\<lparr>ke_name := Some name\<rparr>
            in if \<not> up_ref_all up_ref_ok (ke_public_key src)
               then (False, shared_knock_codec_context_free_entry d1 refs)
               else let r1 = refs + key_mset (ke_public_key src);
                        d2 = d1\<lparr>ke_public_key := ke_public_key src\<rparr>
               in if \<not> up_ref_all up_ref_ok (ke_private_key src)
                  then (False, shared_knock_codec_context_free_entry d2 r1)
                  else let r2 = r1 + key_mset (ke_private_key src);
                           d3 = d2\<lparr>ke_private_key := ke_private_key src\<rparr>
                  in if ke_hmac_key_len src > 0 \<and>
                        (ke_hmac_key src = None \<or> \<not> malloc_ok (ke_hmac_key_len src))
                     then (False, shared_knock_codec_context_free_entry d3 r2)
                     else (True,
                       d3\<lparr>ke_hmac_key := (if ke_hmac_key_len src > 0
                              then map_option (take (ke_hmac_key_len src)) (ke_hmac_key src) else None),
                          ke_hmac_key_len := ke_hmac_key_len src, ke_user_id := ke_user_id src,
                          ke_flags := ke_flags src\<rparr>, r2))"

section \<open>The operations\<close>

definition shared_knock_codec_context_create :: "bool \<Rightarrow> bool \<Rightarrow> SharedKnockCodecContext option" where
  "shared_knock_codec_context_create initialized calloc_ok =
     (if \<not> initialized then None else if \<not> calloc_ok then None else Some zero_codec_context)"

fun free_entries :: "SharedKnockCodecKeyEntry list \<Rightarrow> key_refs \<Rightarrow> key_refs" where
  "free_entries [] refs = refs"
| "free_entries (e # es) refs = free_entries es (snd (shared_knock_codec_context_free_entry e refs))"

definition shared_knock_codec_context_destroy :: "SharedKnockCodecContext \<Rightarrow> key_refs \<Rightarrow> key_refs" where
  "shared_knock_codec_context_destroy context refs =
     free_entries (take (cx_keychain_len context) (cx_keychain context))
       (snd (shared_knock_codec_context_free_server_key (cx_server_key context) refs))"

definition shared_knock_codec_context_set_server_key ::
  "bool \<Rightarrow> (nat \<Rightarrow> bool) \<Rightarrow> (EVP_PKEY \<Rightarrow> bool) \<Rightarrow> SharedKnockCodecContext \<Rightarrow> SharedKnockCodecServerKey \<Rightarrow>
   key_refs \<Rightarrow> bool \<times> SharedKnockCodecContext \<times> key_refs" where
  "shared_knock_codec_context_set_server_key initialized malloc_ok up_ref_ok context server_key refs =
     (if \<not> initialized \<or> sk_name server_key = None \<or> sk_name server_key = Some [] then (False, context, refs)
      else case shared_knock_codec_context_copy_server_key malloc_ok up_ref_ok server_key refs of
        (ok, copy, r1) \<Rightarrow>
          if \<not> ok then (False, context, r1)
          else (True, context\<lparr>cx_server_key := copy, cx_has_server_key := True\<rparr>,
                snd (shared_knock_codec_context_free_server_key (cx_server_key context) r1)))"

definition shared_knock_codec_context_clear_server_key ::
  "SharedKnockCodecContext \<Rightarrow> key_refs \<Rightarrow> SharedKnockCodecContext \<times> key_refs" where
  "shared_knock_codec_context_clear_server_key context refs =
     (let (k, r) = shared_knock_codec_context_free_server_key (cx_server_key context) refs
      in (context\<lparr>cx_server_key := k, cx_has_server_key := False, cx_server_secure := False\<rparr>, r))"

definition shared_knock_codec_context_set_openssl_session ::
  "bool \<Rightarrow> SharedKnockCodecContext \<Rightarrow> SiglatchOpenSSLSession \<Rightarrow> bool \<times> SharedKnockCodecContext" where
  "shared_knock_codec_context_set_openssl_session initialized context session =
     (if \<not> initialized then (False, context) else (True, context\<lparr>cx_openssl_session := Some session\<rparr>))"

definition shared_knock_codec_context_clear_openssl_session ::
  "SharedKnockCodecContext \<Rightarrow> SharedKnockCodecContext" where
  "shared_knock_codec_context_clear_openssl_session context = context\<lparr>cx_openssl_session := None\<rparr>"

definition shared_knock_codec_context_name_exists :: "SharedKnockCodecContext \<Rightarrow> string \<Rightarrow> bool" where
  "shared_knock_codec_context_name_exists context name =
     list_ex (\<lambda>e. ke_name e = Some name) (take (cx_keychain_len context) (cx_keychain context))"

function keychain_cap_loop :: "nat \<Rightarrow> nat \<Rightarrow> nat" where
  "keychain_cap_loop new_cap needed =
     (if 0 < new_cap \<and> new_cap < needed then keychain_cap_loop (new_cap * 2) needed else new_cap)"
  by pat_completeness auto

termination
  by (relation "measure (\<lambda>(c, n). n - c)") auto

declare keychain_cap_loop.simps [simp del]

definition shared_knock_codec_context_ensure_capacity ::
  "(nat \<Rightarrow> bool) \<Rightarrow> SharedKnockCodecContext \<Rightarrow> nat \<Rightarrow> bool \<times> SharedKnockCodecContext" where
  "shared_knock_codec_context_ensure_capacity malloc_ok context needed =
     (if needed = 0 then (False, context)
      else if length (cx_keychain context) \<ge> needed then (True, context)
      else let old_cap = length (cx_keychain context);
               new_cap = keychain_cap_loop (if old_cap \<noteq> 0 then old_cap else 4) needed
           in if \<not> malloc_ok (new_cap * sizeof_KeyEntry) then (False, context)
              else (True, context\<lparr>cx_keychain := cx_keychain context @ replicate (new_cap - old_cap) zero_entry\<rparr>))"

definition shared_knock_codec_context_add_keychain ::
  "bool \<Rightarrow> (nat \<Rightarrow> bool) \<Rightarrow> (EVP_PKEY \<Rightarrow> bool) \<Rightarrow> SharedKnockCodecContext \<Rightarrow> SharedKnockCodecKeyEntry \<Rightarrow>
   key_refs \<Rightarrow> bool \<times> SharedKnockCodecContext \<times> key_refs" where
  "shared_knock_codec_context_add_keychain initialized malloc_ok up_ref_ok context entry refs =
     (case ke_name entry of
        None \<Rightarrow> (False, context, refs)
      | Some name \<Rightarrow>
          if \<not> initialized \<or> name = [] then (False, context, refs)
          else if shared_knock_codec_context_name_exists context name then (False, context, refs)
          else case shared_knock_codec_context_ensure_capacity malloc_ok context (cx_keychain_len context + 1) of
            (ok, c1) \<Rightarrow>
              if \<not> ok then (False, c1, refs)
              else let index = cx_keychain_len c1
                   in case shared_knock_codec_context_copy_entry malloc_ok up_ref_ok entry refs of
                     (copied, slot, r1) \<Rightarrow>
                       if \<not> copied
                       then (let (slot', r2) = shared_knock_codec_context_free_entry slot r1
                             in (False, c1\<lparr>cx_keychain := (cx_keychain c1)[index := slot']\<rparr>, r2))
                       else (True, c1\<lparr>cx_keychain := (cx_keychain c1)[index := slot],
                               cx_keychain_len := index + 1\<rparr>, r1))"

text \<open>Moving the entries after \<open>i\<close> down and clearing the last one in use.\<close>

definition shift_down :: "nat \<Rightarrow> nat \<Rightarrow> SharedKnockCodecKeyEntry list \<Rightarrow> SharedKnockCodecKeyEntry list" where
  "shift_down i n ks = take i ks @ drop (i + 1) (take n ks) @ zero_entry # drop n ks"

definition shared_knock_codec_context_remove_keychain ::
  "bool \<Rightarrow> SharedKnockCodecContext \<Rightarrow> string \<Rightarrow> key_refs \<Rightarrow> bool \<times> SharedKnockCodecContext \<times> key_refs" where
  "shared_knock_codec_context_remove_keychain initialized context name refs =
     (if \<not> initialized \<or> name = [] then (False, context, refs)
      else case find_idx (\<lambda>e. ke_name e = Some name) (take (cx_keychain_len context) (cx_keychain context)) of
        None \<Rightarrow> (False, context, refs)
      | Some i \<Rightarrow>
          (True,
           context\<lparr>cx_keychain := shift_down i (cx_keychain_len context) (cx_keychain context),
             cx_keychain_len := cx_keychain_len context - 1,
             cx_active_key_name := (if cx_active_key_name context = Some name then None
               else cx_active_key_name context)\<rparr>,
           snd (shared_knock_codec_context_free_entry (cx_keychain context ! i) refs)))"

section \<open>References and names\<close>

definition entry_refs :: "SharedKnockCodecKeyEntry \<Rightarrow> key_refs" where
  "entry_refs e = key_mset (ke_public_key e) + key_mset (ke_private_key e)"

definition server_key_refs :: "SharedKnockCodecServerKey \<Rightarrow> key_refs" where
  "server_key_refs k = key_mset (sk_public_key k) + key_mset (sk_private_key k)"

definition entries_in_use :: "SharedKnockCodecContext \<Rightarrow> SharedKnockCodecKeyEntry list" where
  "entries_in_use c = take (cx_keychain_len c) (cx_keychain c)"

definition entries_refs :: "SharedKnockCodecKeyEntry list \<Rightarrow> key_refs" where
  "entries_refs es = (\<Sum>e \<leftarrow> es. entry_refs e)"

definition context_refs :: "SharedKnockCodecContext \<Rightarrow> key_refs" where
  "context_refs c = server_key_refs (cx_server_key c) + entries_refs (entries_in_use c)"

text \<open>The entries in use have distinct, non-empty names; the others hold nothing.\<close>

definition context_ok :: "SharedKnockCodecContext \<Rightarrow> bool" where
  "context_ok c \<longleftrightarrow> cx_keychain_len c \<le> length (cx_keychain c) \<and>
     distinct (map ke_name (entries_in_use c)) \<and> None \<notin> ke_name ` set (entries_in_use c) \<and>
     Some [] \<notin> ke_name ` set (entries_in_use c)"

lemma key_mset_simps [simp]: "key_mset None = {#}" "key_mset (Some k) = {#k#}"
  by (simp_all add: key_mset_def)

lemma zero_refs [simp]: "entry_refs zero_entry = {#}" "server_key_refs zero_server_key = {#}"
  by (simp_all add: entry_refs_def zero_entry_def server_key_refs_def zero_server_key_def)

lemma entries_refs_simps [simp]:
  "entries_refs [] = {#}" "entries_refs (e # es) = entry_refs e + entries_refs es"
  "entries_refs (es @ fs) = entries_refs es + entries_refs fs"
  by (simp_all add: entries_refs_def)

lemma free_entry_refs: "snd (shared_knock_codec_context_free_entry e (other + entry_refs e)) = other"
  by (simp add: shared_knock_codec_context_free_entry_def entry_refs_def free_key_def)

lemma free_entry_holds_nothing: "entry_refs (fst (shared_knock_codec_context_free_entry e r)) = {#}"
  by (simp add: shared_knock_codec_context_free_entry_def entry_refs_def)

lemma free_server_key_refs: "snd (shared_knock_codec_context_free_server_key k (other + server_key_refs k)) = other"
  by (simp add: shared_knock_codec_context_free_server_key_def server_key_refs_def free_key_def)

lemma free_server_key_holds_nothing: "server_key_refs (fst (shared_knock_codec_context_free_server_key k r)) = {#}"
  by (simp add: shared_knock_codec_context_free_server_key_def server_key_refs_def)

text \<open>A copy takes the references it holds; a failed copy takes none.\<close>

lemma copy_entry_refs:
  assumes "shared_knock_codec_context_copy_entry m u src refs = (ok, dst, r)"
  shows "r = refs + entry_refs dst" "ok \<Longrightarrow> entry_refs dst = entry_refs src"
    "ok \<Longrightarrow> ke_name dst = ke_name src \<and> ke_user_id dst = ke_user_id src \<and>
       ke_public_key dst = ke_public_key src"
    "\<not> ok \<Longrightarrow> entry_refs dst = {#}"
  using assms
  by (auto simp: shared_knock_codec_context_copy_entry_def shared_knock_codec_context_free_entry_def
      entry_refs_def zero_entry_def free_key_def Let_def split: option.splits if_splits)

lemma copy_server_key_refs:
  assumes "shared_knock_codec_context_copy_server_key m u src refs = (ok, dst, r)"
  shows "r = refs + server_key_refs dst" "\<not> ok \<Longrightarrow> server_key_refs dst = {#}"
  using assms
  by (auto simp: shared_knock_codec_context_copy_server_key_def shared_knock_codec_context_free_server_key_def
      server_key_refs_def zero_server_key_def free_key_def Let_def split: option.splits if_splits)

lemma free_entries_refs: "free_entries es (other + entries_refs es) = other"
proof (induction es)
  case Nil
  then show ?case by simp
next
  case (Cons e es)
  have eq: "other + entries_refs (e # es) = (other + entries_refs es) + entry_refs e" by simp
  show ?case unfolding free_entries.simps eq free_entry_refs by (rule Cons.IH)
qed

text \<open>Destroying the context gives back all its references.\<close>

lemma destroy_refs: "shared_knock_codec_context_destroy c (other + context_refs c) = other"
proof -
  have eq: "other + context_refs c = (other + entries_refs (entries_in_use c)) + server_key_refs (cx_server_key c)"
    by (simp add: context_refs_def ac_simps)
  show ?thesis
    unfolding shared_knock_codec_context_destroy_def eq free_server_key_refs
    using free_entries_refs [of "entries_in_use c" other] by (simp add: entries_in_use_def)
qed

lemma ensure_capacity_facts:
  assumes "shared_knock_codec_context_ensure_capacity m c n = (ok, c')" "cx_keychain_len c \<le> length (cx_keychain c)"
  shows "entries_in_use c' = entries_in_use c" "cx_keychain_len c' = cx_keychain_len c"
    "cx_server_key c' = cx_server_key c" "ok \<Longrightarrow> n \<le> length (cx_keychain c')"
    "length (cx_keychain c) \<le> length (cx_keychain c')"
proof -
  have cap: "n \<le> keychain_cap_loop k n" if "0 < k" for k
    using that
  proof (induction k n rule: keychain_cap_loop.induct)
    case (1 k n)
    then show ?case by (subst keychain_cap_loop.simps) auto
  qed
  show "entries_in_use c' = entries_in_use c" "cx_keychain_len c' = cx_keychain_len c"
    "cx_server_key c' = cx_server_key c" "length (cx_keychain c) \<le> length (cx_keychain c')"
    using assms by (auto simp: shared_knock_codec_context_ensure_capacity_def entries_in_use_def Let_def split: if_splits)
  show "ok \<Longrightarrow> n \<le> length (cx_keychain c')"
    using assms cap [of "if length (cx_keychain c) \<noteq> 0 then length (cx_keychain c) else 4"]
    by (auto simp: shared_knock_codec_context_ensure_capacity_def Let_def split: if_splits)
qed

lemma add_keychain_facts:
  assumes ok: "context_ok c"
    and add: "shared_knock_codec_context_add_keychain ini m u c e (other + context_refs c) = (b, c', r)"
  shows "context_ok c'" "r = other + context_refs c'"
    "b \<Longrightarrow> map ke_name (entries_in_use c') = map ke_name (entries_in_use c) @ [ke_name e]"
    "\<not> b \<Longrightarrow> entries_in_use c' = entries_in_use c"
    "ke_name e \<in> ke_name ` set (entries_in_use c) \<Longrightarrow> \<not> b"
proof -
  have "context_ok c' \<and> r = other + context_refs c' \<and>
    (b \<longrightarrow> map ke_name (entries_in_use c') = map ke_name (entries_in_use c) @ [ke_name e]) \<and>
    (\<not> b \<longrightarrow> entries_in_use c' = entries_in_use c) \<and>
    (ke_name e \<in> ke_name ` set (entries_in_use c) \<longrightarrow> \<not> b)"
  proof (cases "(\<exists>name. ke_name e = Some name \<and> name \<noteq> [] \<and> \<not> shared_knock_codec_context_name_exists c name) \<and> ini")
    case False
    then have "b = False \<and> c' = c \<and> r = other + context_refs c"
      using add by (cases "ke_name e"; cases ini) (auto simp: shared_knock_codec_context_add_keychain_def split: if_splits)
    moreover have "ke_name e \<in> ke_name ` set (entries_in_use c) \<longrightarrow> \<not> b" using calculation by simp
    ultimately show ?thesis using ok by simp
  next
    case True
    then obtain name where name: "ke_name e = Some name" "name \<noteq> []" "ini"
      and new: "\<not> shared_knock_codec_context_name_exists c name" by blast
    have fresh: "Some name \<notin> ke_name ` set (entries_in_use c)"
      using new by (auto simp: shared_knock_codec_context_name_exists_def entries_in_use_def list_ex_iff)
    obtain grown c1 where g: "shared_knock_codec_context_ensure_capacity m c (cx_keychain_len c + 1) = (grown, c1)"
      by fastforce
    have len: "cx_keychain_len c \<le> length (cx_keychain c)" using ok by (simp add: context_ok_def)
    note cap = ensure_capacity_facts [OF g len]
    have refs1: "context_refs c1 = context_refs c" using cap by (simp add: context_refs_def)
    have ok1: "context_ok c1" using ok cap len by (simp add: context_ok_def)
    show ?thesis
    proof (cases grown)
      case False
      then have "b = False" "c' = c1" "r = other + context_refs c"
        using add name new g by (auto simp: shared_knock_codec_context_add_keychain_def)
      then show ?thesis using ok1 refs1 cap(1) by simp
    next
      case True
      obtain copied slot r1 where cp: "shared_knock_codec_context_copy_entry m u e (other + context_refs c) = (copied, slot, r1)"
        using prod_cases3 by blast
      note copy = copy_entry_refs [OF cp]
      let ?n = "cx_keychain_len c"
      have room: "?n < length (cx_keychain c1)" using cap(4) True by simp
      show ?thesis
      proof (cases copied)
        case False
        then have r: "b = False" "c' = c1\<lparr>cx_keychain := (cx_keychain c1)[?n := fst (shared_knock_codec_context_free_entry slot r1)]\<rparr>"
          "r = snd (shared_knock_codec_context_free_entry slot r1)"
          using add name new g True cp cap(2)
          by (auto simp: shared_knock_codec_context_add_keychain_def Let_def split: prod.splits)
        have use: "entries_in_use c' = entries_in_use c"
          using r(2) cap(1,2) by (simp add: entries_in_use_def)
        have "r = other + context_refs c"
          using r(3) copy(1) copy(4) False free_entry_refs [of slot "other + context_refs c"] by simp
        moreover have "context_refs c' = context_refs c"
          using use r(2) cap(3) by (simp add: context_refs_def)
        moreover have "context_ok c'" using ok1 r(2) use cap by (simp add: context_ok_def)
        ultimately show ?thesis using r(1) use by simp
      next
        case copied: True
        then have r: "b = True" "c' = c1\<lparr>cx_keychain := (cx_keychain c1)[?n := slot], cx_keychain_len := ?n + 1\<rparr>" "r = r1"
          using add name new g True cp cap(2)
          by (auto simp: shared_knock_codec_context_add_keychain_def Let_def)
        have "take (?n + 1) ((cx_keychain c1)[?n := slot]) = take ?n (cx_keychain c1) @ [slot]"
          using room by (simp add: take_Suc_conv_app_nth)
        then have use: "entries_in_use c' = entries_in_use c @ [slot]"
          using r(2) cap(1,2) by (simp add: entries_in_use_def)
        have nm: "ke_name slot = Some name" using copy(3) copied name by simp
        have "context_refs c' = context_refs c + entry_refs slot"
          using use r(2) cap(3) by (simp add: context_refs_def ac_simps)
        moreover have "context_ok c'"
          using ok use nm fresh name(2) room r(2) by (auto simp: context_ok_def)
        ultimately show ?thesis using r copy(1) use nm name fresh by (simp add: ac_simps)
      qed
    qed
  qed
  then show "context_ok c'" "r = other + context_refs c'"
    "b \<Longrightarrow> map ke_name (entries_in_use c') = map ke_name (entries_in_use c) @ [ke_name e]"
    "\<not> b \<Longrightarrow> entries_in_use c' = entries_in_use c"
    "ke_name e \<in> ke_name ` set (entries_in_use c) \<Longrightarrow> \<not> b"
    by blast+
qed

lemma remove_keychain_facts:
  assumes ok: "context_ok c"
    and rm: "shared_knock_codec_context_remove_keychain ini c name (other + context_refs c) = (b, c', r)"
  shows "context_ok c'" "r = other + context_refs c'"
    "b \<Longrightarrow> entries_in_use c' = filter (\<lambda>e. ke_name e \<noteq> Some name) (entries_in_use c)"
    "b \<longleftrightarrow> ini \<and> name \<noteq> [] \<and> Some name \<in> ke_name ` set (entries_in_use c)"
    "\<not> b \<Longrightarrow> c' = c"
proof -
  have "context_ok c' \<and> r = other + context_refs c' \<and>
    (b \<longrightarrow> entries_in_use c' = filter (\<lambda>e. ke_name e \<noteq> Some name) (entries_in_use c)) \<and>
    (b \<longleftrightarrow> ini \<and> name \<noteq> [] \<and> Some name \<in> ke_name ` set (entries_in_use c)) \<and> (\<not> b \<longrightarrow> c' = c)"
  proof (cases "ini \<and> name \<noteq> [] \<and> Some name \<in> ke_name ` set (entries_in_use c)")
    case False
    then have "find_idx (\<lambda>e. ke_name e = Some name) (entries_in_use c) = None" if "ini" "name \<noteq> []"
      using that unfolding find_idx_None by (force simp: image_iff)
    then have "b = False \<and> c' = c \<and> r = other + context_refs c"
      using rm by (auto simp: shared_knock_codec_context_remove_keychain_def entries_in_use_def split: if_splits)
    then show ?thesis using ok False by simp
  next
    case True
    let ?es = "entries_in_use c" and ?n = "cx_keychain_len c"
    obtain i where i: "find_idx (\<lambda>e. ke_name e = Some name) ?es = Some i"
      using True find_idx_ex [of ?es "\<lambda>e. ke_name e = Some name"] by force
    note at = find_idx_SomeD [OF i]
    have len: "?n \<le> length (cx_keychain c)" using ok by (simp add: context_ok_def)
    have les: "length ?es = ?n" using len by (simp add: entries_in_use_def)
    have r: "b = True"
      "c' = c\<lparr>cx_keychain := shift_down i ?n (cx_keychain c), cx_keychain_len := ?n - 1,
         cx_active_key_name := (if cx_active_key_name c = Some name then None else cx_active_key_name c)\<rparr>"
      "r = snd (shared_knock_codec_context_free_entry (cx_keychain c ! i) (other + context_refs c))"
      using rm True i by (auto simp: shared_knock_codec_context_remove_keychain_def entries_in_use_def)
    have use: "entries_in_use c' = take i ?es @ drop (i + 1) ?es"
      using at(1) les len r(2)
      by (cases "?n - 1 = i") (auto simp: entries_in_use_def shift_down_def min_def)
    have split: "?es = take i ?es @ ?es ! i # drop (i + 1) ?es"
      using at(1) id_take_nth_drop by simp
    have nth: "cx_keychain c ! i = ?es ! i" using at(1) les by (simp add: entries_in_use_def)
    have "distinct (map ke_name ?es)" using ok by (simp add: context_ok_def)
    then have "distinct (map ke_name (take i ?es @ ?es ! i # drop (i + 1) ?es))" using split by simp
    then have dist: "distinct (map ke_name (entries_in_use c'))"
      and away: "ke_name (?es ! i) \<notin> ke_name ` set (entries_in_use c')"
      unfolding use by auto
    have "filter (\<lambda>e. ke_name e \<noteq> Some name) ?es = filter (\<lambda>e. ke_name e \<noteq> Some name) (take i ?es @ ?es ! i # drop (i + 1) ?es)"
      using split by simp
    also have "\<dots> = filter (\<lambda>e. ke_name e \<noteq> Some name) (entries_in_use c')"
      using at(2) by (simp add: use)
    also have "\<dots> = entries_in_use c'"
      using away at(2) by (intro filter_True) (force simp: image_iff)
    finally have filt: "entries_in_use c' = filter (\<lambda>e. ke_name e \<noteq> Some name) ?es" by simp
    have "entries_refs ?es = entries_refs (take i ?es @ ?es ! i # drop (i + 1) ?es)" using split by simp
    then have "entries_refs ?es = entries_refs (entries_in_use c') + entry_refs (?es ! i)"
      by (simp add: use ac_simps)
    then have eq: "other + context_refs c = (other + context_refs c') + entry_refs (?es ! i)"
      using r(2) by (simp add: context_refs_def ac_simps)
    have "r = other + context_refs c'"
      unfolding r(3) nth eq by (rule free_entry_refs)
    moreover have "context_ok c'"
      using ok dist r(2) len filt by (auto simp: context_ok_def shift_down_def)
    ultimately show ?thesis using r(1) True filt by simp
  qed
  then show "context_ok c'" "r = other + context_refs c'"
    "b \<Longrightarrow> entries_in_use c' = filter (\<lambda>e. ke_name e \<noteq> Some name) (entries_in_use c)"
    "b \<longleftrightarrow> ini \<and> name \<noteq> [] \<and> Some name \<in> ke_name ` set (entries_in_use c)"
    "\<not> b \<Longrightarrow> c' = c"
    by blast+
qed

lemma set_server_key_facts:
  assumes "context_ok c"
    "shared_knock_codec_context_set_server_key ini m u c k (other + context_refs c) = (b, c', r)"
  shows "context_ok c'" "r = other + context_refs c'" "entries_in_use c' = entries_in_use c"
proof -
  obtain ok copy r1 where cp: "shared_knock_codec_context_copy_server_key m u k (other + context_refs c) = (ok, copy, r1)"
    using prod_cases3 by blast
  note copy = copy_server_key_refs [OF cp]
  have e: "other + context_refs c + server_key_refs copy =
      (other + entries_refs (entries_in_use c) + server_key_refs copy) + server_key_refs (cx_server_key c)"
    by (simp add: context_refs_def ac_simps)
  have f: "snd (shared_knock_codec_context_free_server_key (cx_server_key c) r1) =
      other + entries_refs (entries_in_use c) + server_key_refs copy"
    unfolding copy(1) e by (rule free_server_key_refs)
  have "c' = c \<and> (r = other + context_refs c) \<or>
      c' = c\<lparr>cx_server_key := copy, cx_has_server_key := True\<rparr> \<and>
      r = other + entries_refs (entries_in_use c) + server_key_refs copy"
    using assms(2) cp copy f
    by (auto simp: shared_knock_codec_context_set_server_key_def split: if_splits)
  then show "context_ok c'" "r = other + context_refs c'" "entries_in_use c' = entries_in_use c"
    using assms(1) by (auto simp: context_ok_def entries_in_use_def context_refs_def ac_simps)
qed

lemma clear_server_key_facts:
  assumes "context_ok c" "shared_knock_codec_context_clear_server_key c (other + context_refs c) = (c', r)"
  shows "context_ok c'" "r = other + context_refs c'" "entries_in_use c' = entries_in_use c"
proof -
  have e: "other + context_refs c = (other + entries_refs (entries_in_use c)) + server_key_refs (cx_server_key c)"
    by (simp add: context_refs_def ac_simps)
  have "r = other + entries_refs (entries_in_use c)"
    using assms(2) free_server_key_refs [of "cx_server_key c" "other + entries_refs (entries_in_use c)"]
    unfolding e by (auto simp: shared_knock_codec_context_clear_server_key_def split: prod.splits)
  then show "context_ok c'" "r = other + context_refs c'" "entries_in_use c' = entries_in_use c"
    using assms free_server_key_holds_nothing [of "cx_server_key c" "other + context_refs c"]
    by (auto simp: shared_knock_codec_context_clear_server_key_def context_ok_def entries_in_use_def
        context_refs_def split: prod.splits)
qed

section \<open>The context as a state machine\<close>

type_synonym context_state = "SharedKnockCodecContext \<times> key_refs"

inductive context_step :: "context_state \<Rightarrow> context_state \<Rightarrow> bool" where
  add: "shared_knock_codec_context_add_keychain ini m u c e r = (b, c', r') \<Longrightarrow> context_step (c, r) (c', r')"
| remove: "shared_knock_codec_context_remove_keychain ini c name r = (b, c', r') \<Longrightarrow> context_step (c, r) (c', r')"
| set_server: "shared_knock_codec_context_set_server_key ini m u c k r = (b, c', r') \<Longrightarrow> context_step (c, r) (c', r')"
| clear_server: "shared_knock_codec_context_clear_server_key c r = (c', r') \<Longrightarrow> context_step (c, r) (c', r')"
| set_session: "shared_knock_codec_context_set_openssl_session ini c s = (b, c') \<Longrightarrow> context_step (c, r) (c', r)"
| clear_session: "context_step (c, r) (shared_knock_codec_context_clear_openssl_session c, r)"

lemma context_step_inv:
  assumes "context_step s s'" "context_ok (fst s)" "snd s = other + context_refs (fst s)"
  shows "context_ok (fst s') \<and> snd s' = other + context_refs (fst s')"
  using assms
proof (induction rule: context_step.induct)
  case (add ini m u c e r b c' r')
  then show ?case using add_keychain_facts(1,2) [of c ini m u e other b c' r'] by simp
next
  case (remove ini c name r b c' r')
  then show ?case using remove_keychain_facts(1,2) [of c ini name other b c' r'] by simp
next
  case (set_server ini m u c k r b c' r')
  then show ?case using set_server_key_facts(1,2) [of c ini m u k other b c' r'] by simp
next
  case (clear_server c r c' r')
  then show ?case using clear_server_key_facts(1,2) [of c other c' r'] by simp
next
  case (set_session ini c s b c' r)
  then show ?case
    by (auto simp: shared_knock_codec_context_set_openssl_session_def context_ok_def
        context_refs_def entries_in_use_def split: if_splits)
next
  case (clear_session c r)
  then show ?case
    by (simp add: shared_knock_codec_context_clear_openssl_session_def context_ok_def
        context_refs_def entries_in_use_def)
qed

lemma zero_context_ok: "context_ok zero_codec_context" "context_refs zero_codec_context = {#}"
  by (simp_all add: context_ok_def zero_codec_context_def entries_in_use_def context_refs_def)

lemma context_steps_inv:
  "context_step\<^sup>*\<^sup>* s s' \<Longrightarrow> context_ok (fst s) \<Longrightarrow> snd s = other + context_refs (fst s) \<Longrightarrow>
   context_ok (fst s') \<and> snd s' = other + context_refs (fst s')"
proof (induction rule: rtranclp_induct)
  case base
  then show ?case by blast
next
  case (step s1 s2)
  then show ?case using context_step_inv [of s1 s2 other] by blast
qed

end
