(* ===== verification/Job_Properties.thy ===== *)
theory Job_Properties
  imports Job_Queue Codec_Context
begin

text \<open>
  The properties of the daemon's job queue and of the codec context: what they own, in what order
  jobs come out, and that their buffers grow in a bounded number of steps.
\<close>

section \<open>Jobs\<close>

text \<open>C17: growing a buffer returns for every block size that is not zero. The
  result is zero, and then the need exceeds half of the largest size, or it is enough for the need,
  not below the present capacity and less than twice the need unless no growth was needed.\<close>

theorem job_buffer_growth_returns:
  assumes "0 < block"
  shows "\<exists>r. app_job_next_buffer_cap cur need block = Some r \<and>
    (r = 0 \<and> SIZE_MAX div 2 < need \<or>
     need \<le> r \<and> max cur block \<le> r \<and> (r = max cur block \<or> r < 2 * need \<and> r \<le> SIZE_MAX))"
  by (rule next_buffer_cap_returns [OF assms])

lemma job_buffer_growth_returns_witness:
  "\<exists>r. app_job_next_buffer_cap 0 3000 APP_JOB_PAYLOAD_BLOCK_SIZE = Some r \<and> 3000 \<le> r \<and> r < 6000"
  using job_buffer_growth_returns [of APP_JOB_PAYLOAD_BLOCK_SIZE 0 3000]
  by (auto simp: APP_JOB_PAYLOAD_BLOCK_SIZE_def SIZE_MAX_def)

text \<open>C16: when memory does not run out, every sequence of enqueued packets and
  drains gives the results of a list bounded by the capacity of the queue, on which a packet is
  represented by the job that it is stored as.\<close>

theorem job_queue_refines_list:
  assumes "job_queue_ok q"
  shows "fst (queue_run job_push job_pop q xs) =
      fst (list_run APP_JOB_READY_QUEUE_CAPACITY job_fits job_stored (job_contents q) xs) \<and>
    job_contents (snd (queue_run job_push job_pop q xs)) =
      snd (list_run APP_JOB_READY_QUEUE_CAPACITY job_fits job_stored (job_contents q) xs)"
  using job_fifo.run_refines [OF assms, of xs] by blast

definition fresh_queue :: job_queue where
  "fresh_queue = (bh_empty (\<lambda>_. False), app_job_state_init, zero_job)"

lemma fresh_queue_ok: "job_queue_ok fresh_queue" "job_contents fresh_queue = []"
  using jobs_inv_init [of "\<lambda>_. False"]
  by (simp_all add: fresh_queue_def job_queue_ok_def job_contents_def job_items_def app_job_state_init_def bh_empty_def)

lemma job_queue_refines_list_witness:
  "fst (queue_run job_push job_pop fresh_queue [Pop, Push (zero_recv, None), Pop]) =
     [Popped None, Pushed True, Popped (Some (job_stored (zero_recv, None)))]"
  using job_queue_refines_list [OF fresh_queue_ok(1), of "[Pop, Push (zero_recv, None), Pop]"]
  by (simp add: fresh_queue_ok(2) job_fits_def job_source_def zero_recv_def APP_JOB_READY_QUEUE_CAPACITY_def)

text \<open>C14: after any sequence of enqueues, drains, disposals, resets, reservations
  and replies, whatever allocations fail, the allocated buffers are those of the queued jobs and of the
  caller's job, each held once, no buffer has been freed twice or written past its end, and a reset
  followed by a disposal frees all.\<close>

theorem jobs_own_their_buffers:
  assumes "job_step\<^sup>*\<^sup>* (bh_empty oom, app_job_state_init, zero_job) (h, st, out)"
    "app_job_state_reset st h = (st1, h1)" "app_job_dispose out h1 = (out2, h2)"
  shows "bh_owned h (owned (js_ready_queue st) + job_bufs out) \<and> \<not> bh_fault h \<and>
    (\<forall>j \<in> set (js_ready_queue st). job_ok h j) \<and> bh_owned h2 {#} \<and> \<not> bh_fault h2"
proof -
  have inv: "jobs_inv h st out" using job_steps_inv [OF assms(1)] jobs_inv_init by simp
  have inv1: "jobs_inv h1 st1 out" and own1: "bh_owned h1 (job_bufs out)" using reset_inv [OF inv assms(2)] by simp_all
  have st1: "owned (js_ready_queue st1) = {#}"
    using assms(2) by (auto simp: app_job_state_reset_def app_job_state_init_def)
  have "jobs_inv h2 st1 out2" "out2 = zero_job" using dispose_inv [OF inv1 assms(3)] by simp_all
  then have "bh_owned h2 {#}" using st1 by (simp add: jobs_inv_def)
  then show ?thesis using inv by (auto simp: jobs_inv_def bh_owned_def)
qed

lemma jobs_own_their_buffers_witness:
  "\<exists>h st out st1 h1 out2 h2. job_step\<^sup>*\<^sup>* (bh_empty (\<lambda>_. False), app_job_state_init, zero_job) (h, st, out) \<and>
     js_ready_count st = 1 \<and> app_job_state_reset st h = (st1, h1) \<and> app_job_dispose out h1 = (out2, h2) \<and>
     bh_owned h2 {#}"
proof -
  let ?d = "(zero_recv\<lparr>rp_raw_bytes := [1, 2]\<rparr>, None) :: delivered"
  obtain ok st h where e: "app_job_enqueue app_job_state_init ?d (bh_empty (\<lambda>_. False)) = (ok, st, h)"
    using prod_cases3 by blast
  have run: "job_step\<^sup>*\<^sup>* (bh_empty (\<lambda>_. False), app_job_state_init, zero_job) (h, st, zero_job)"
    using job_step.enqueue [OF e] by (rule r_into_rtranclp)
  have fits: "job_fits ?d"
    using next_buffer_cap_returns [of APP_JOB_PAYLOAD_BLOCK_SIZE 0 2]
    by (auto simp: job_fits_def job_source_def zero_recv_def APP_JOB_PAYLOAD_BLOCK_SIZE_def SIZE_MAX_def
        numeral_2_eq_2 [symmetric])
  then have ok
    using enqueue_inv(5) [OF jobs_inv_init e]
    by (simp add: bh_empty_def app_job_state_init_def APP_JOB_READY_QUEUE_CAPACITY_def)
  then have "length (job_items h st) = 1"
    using enqueue_inv(4) [OF jobs_inv_init e] by (simp add: job_items_def app_job_state_init_def)
  then have count: "js_ready_count st = 1" by (simp add: job_items_def)
  obtain st1 h1 out2 h2 where d: "app_job_state_reset st h = (st1, h1)" "app_job_dispose zero_job h1 = (out2, h2)"
    by fastforce
  show ?thesis using jobs_own_their_buffers [OF run d] run count d by blast
qed

section \<open>The codec context\<close>

text \<open>After any sequence of operations on a created codec context, successful or
  not, its entries have distinct non-empty names, it holds exactly the key references it has taken, and
  destroying it gives them all back.\<close>

theorem context_keys_balanced:
  assumes "shared_knock_codec_context_create True True = Some c0" "context_step\<^sup>*\<^sup>* (c0, other) (c, r)"
  shows "context_ok c \<and> r = other + context_refs c \<and> shared_knock_codec_context_destroy c r = other"
proof -
  have "c0 = zero_codec_context" using assms(1) by (simp add: shared_knock_codec_context_create_def)
  then show ?thesis
    using context_steps_inv [OF assms(2), of other] zero_context_ok destroy_refs by simp
qed

lemma context_keys_balanced_witness:
  "\<exists>c r. context_step\<^sup>*\<^sup>* (zero_codec_context, {#}) (c, r) \<and> cx_keychain_len c = 1 \<and>
     shared_knock_codec_context_destroy c r = {#}"
proof -
  let ?e = "zero_entry\<lparr>ke_name := Some ''alice'', ke_public_key := Some 5\<rparr>"
  obtain b c r where a: "shared_knock_codec_context_add_keychain True (\<lambda>_. True) (\<lambda>_. True) zero_codec_context ?e {#} = (b, c, r)"
    using prod_cases3 by blast
  have "shared_knock_codec_context_create True True = Some zero_codec_context"
    by (simp add: shared_knock_codec_context_create_def)
  moreover have run: "context_step\<^sup>*\<^sup>* (zero_codec_context, {#}) (c, r)"
    using context_step.add [OF a] by (rule r_into_rtranclp)
  ultimately have "shared_knock_codec_context_destroy c r = {#}" using context_keys_balanced by blast
  moreover have "cx_keychain_len c = 1"
    using a by (auto simp: shared_knock_codec_context_add_keychain_def zero_codec_context_def zero_entry_def
        shared_knock_codec_context_name_exists_def shared_knock_codec_context_ensure_capacity_def
        shared_knock_codec_context_copy_entry_def up_ref_all_def Let_def)
  ultimately show ?thesis using run by blast
qed

end
