(* ===== verification/Listener.thy ===== *)
theory Listener
  imports Config_Facts
begin

text \<open>
  The socket that the daemon listens on: \<open>siglatch/app/udp/udp.c\<close> over \<open>stdlib/net/udp/udp.c\<close> and
  \<open>stdlib/net/socket/socket.c\<close>. What the kernel answers is the record \<open>net_os\<close>, indexed by the number
  of the \<open>socket\<close> call; the descriptors that are open are part of the state. The addresses of
  servers are indices into the array of the attached configuration.
\<close>

section \<open>The kernel's sockets\<close>

datatype address_family = AF_INET | AF_INET6

record net_os =
  os_socket :: "nat \<Rightarrow> int set \<Rightarrow> int"
  os_bind :: "nat \<Rightarrow> u32 option \<Rightarrow> u16 \<Rightarrow> bool"
  os_getsockname :: "nat \<Rightarrow> u16 option"

record sock_table =
  so_calls :: nat
  so_open :: "int set"

text \<open>A descriptor that \<open>socket\<close> returns is not in use.\<close>

definition kernel_ok :: "net_os \<Rightarrow> bool" where
  "kernel_ok os \<longleftrightarrow> (\<forall>n used. os_socket os n used < 0 \<or> os_socket os n used \<notin> used)"

definition open_socket :: "net_os \<Rightarrow> address_family \<Rightarrow> sock_table \<Rightarrow> int \<times> sock_table" where
  "open_socket os domain k =
     (let fd = os_socket os (so_calls k) (so_open k)
      in (fd, k\<lparr>so_calls := so_calls k + 1,
              so_open := (if fd \<ge> 0 then insert fd (so_open k) else so_open k)\<rparr>))"

definition close_socket :: "int \<Rightarrow> sock_table \<Rightarrow> sock_table" where
  "close_socket fd k = (if fd \<ge> 0 then k\<lparr>so_open := so_open k - {fd}\<rparr> else k)"

text \<open>The port bound, if the call succeeds; \<open>n\<close> is the number of the \<open>socket\<close> call that made \<open>fd\<close>.\<close>

definition socket_bind :: "net_os \<Rightarrow> nat \<Rightarrow> int \<Rightarrow> string \<Rightarrow> u16 \<Rightarrow> u16 option" where
  "socket_bind os n fd bind_ip bind_port =
     (if fd < 0 then None
      else if bind_ip = [] \<and> bind_port = 0 then Some 0
      else if bind_ip \<noteq> [] \<and> inet_pton4 bind_ip = None then None
      else if \<not> os_bind os n (if bind_ip \<noteq> [] then inet_pton4 bind_ip else None) bind_port then None
      else case os_getsockname os n of Some p \<Rightarrow> Some p | None \<Rightarrow> Some bind_port)"

definition udp_open :: "net_os \<Rightarrow> address_family \<Rightarrow> sock_table \<Rightarrow> int \<times> sock_table" where
  "udp_open os family k = open_socket os family k"

definition udp_close :: "int \<Rightarrow> sock_table \<Rightarrow> sock_table" where
  "udp_close fd k = close_socket fd k"

definition udp_open_bound ::
  "net_os \<Rightarrow> address_family \<Rightarrow> string \<Rightarrow> u16 \<Rightarrow> sock_table \<Rightarrow> (int \<times> u16) \<times> sock_table" where
  "udp_open_bound os family bind_ip bind_port k =
     (if family \<noteq> AF_INET
      then (if bind_ip \<noteq> [] \<or> bind_port \<noteq> 0 then ((-1, 0), k)
            else case udp_open os family k of (fd, k1) \<Rightarrow> ((fd, 0), k1))
      else case udp_open os family k of
        (fd, k1) \<Rightarrow>
          if fd < 0 then ((-1, 0), k1)
          else case socket_bind os (so_calls k) fd bind_ip bind_port of
            None \<Rightarrow> ((-1, 0), udp_close fd k1)
          | Some bound_port \<Rightarrow> ((fd, bound_port), k1))"

definition udp_open_bound_ipv4 :: "net_os \<Rightarrow> string \<Rightarrow> u16 \<Rightarrow> sock_table \<Rightarrow> (int \<times> u16) \<times> sock_table" where
  "udp_open_bound_ipv4 os bind_ip bind_port k = udp_open_bound os AF_INET bind_ip bind_port k"

section \<open>siglatch/app/udp/udp.c\<close>

text \<open>The packet counter, the nonce cache and the process pointer are not read by the code below.\<close>

record AppRuntimeListenerState =
  ls_sock :: int
  ls_bound_port :: int
  ls_bound_ip :: string
  ls_config_path :: string
  ls_server :: "nat option"

definition listener_server :: "siglatch_config option \<Rightarrow> AppRuntimeListenerState \<Rightarrow> siglatch_server option" where
  "listener_server cfg listener =
     (case (cfg, ls_server listener) of
        (Some c, Some i) \<Rightarrow> if i < length (sc_servers c) then Some (sc_servers c ! i) else None
      | _ \<Rightarrow> None)"

definition app_udp_effective_bind_ip :: "siglatch_server \<Rightarrow> string" where
  "app_udp_effective_bind_ip server_conf = (if sv_bind_ip server_conf = [] then [] else sv_bind_ip server_conf)"

definition app_udp_same_binding :: "AppRuntimeListenerState \<Rightarrow> siglatch_server \<Rightarrow> bool" where
  "app_udp_same_binding listener server =
     (if ls_sock listener < 0 then False
      else ls_bound_port listener = sv_port server \<and> ls_bound_ip listener = app_udp_effective_bind_ip server)"

text \<open>The socket and the port it is bound to; a failed open gives the socket -1.\<close>

definition app_udp_open_bound_socket ::
  "net_os \<Rightarrow> siglatch_server \<Rightarrow> sock_table \<Rightarrow> (int \<times> int) \<times> sock_table" where
  "app_udp_open_bound_socket os server_conf k =
     (case udp_open_bound_ipv4 os (sv_bind_ip server_conf) (word_of_int (sv_port server_conf)) k of
        ((sock, bound_port), k1) \<Rightarrow>
          if sock < 0 then ((-1, 0), k1)
          else ((sock, if bound_port > 0 then uint bound_port else sv_port server_conf), k1))"

definition app_udp_start_listener ::
  "net_os \<Rightarrow> siglatch_config option \<Rightarrow> AppRuntimeListenerState \<Rightarrow> sock_table \<Rightarrow>
   int \<times> AppRuntimeListenerState \<times> sock_table" where
  "app_udp_start_listener os cfg listener k =
     (case listener_server cfg listener of
        None \<Rightarrow> (-1, listener, k)
      | Some server_conf \<Rightarrow>
          (case app_udp_open_bound_socket os server_conf k of
             ((sock, bound_port), k1) \<Rightarrow>
               if sock < 0 then (-1, listener, k1)
               else (sock, listener\<lparr>ls_sock := sock, ls_bound_port := bound_port,
                       ls_bound_ip := lcpy (app_udp_effective_bind_ip server_conf) MAX_IP_RANGE_LEN\<rparr>, k1)))"

definition app_udp_probe_bind ::
  "net_os \<Rightarrow> AppRuntimeListenerState \<Rightarrow> siglatch_server \<Rightarrow> sock_table \<Rightarrow> bool \<times> sock_table" where
  "app_udp_probe_bind os listener server k =
     (if app_udp_same_binding listener server then (True, k)
      else case app_udp_open_bound_socket os server k of
        ((probe_sock, p), k1) \<Rightarrow> if probe_sock < 0 then (False, k1) else (True, close_socket probe_sock k1))"

definition app_udp_rebind_listener ::
  "net_os \<Rightarrow> AppRuntimeListenerState \<Rightarrow> siglatch_server \<Rightarrow> sock_table \<Rightarrow>
   bool \<times> AppRuntimeListenerState \<times> sock_table" where
  "app_udp_rebind_listener os listener server k =
     (if app_udp_same_binding listener server then (True, listener, k)
      else case app_udp_open_bound_socket os server k of
        ((new_sock, new_bound_port), k1) \<Rightarrow>
          if new_sock < 0 then (False, listener, k1)
          else let old_sock = ls_sock listener;
                   l1 = listener\<lparr>ls_sock := new_sock, ls_bound_port := new_bound_port,
                     ls_bound_ip := lcpy (app_udp_effective_bind_ip server) MAX_IP_RANGE_LEN\<rparr>
               in (True, l1, if old_sock \<ge> 0 then close_socket old_sock k1 else k1))"

section \<open>Descriptors\<close>

text \<open>Opening a bound socket either leaves the open descriptors as they were or adds a fresh one.\<close>

lemma open_bound_fds:
  assumes "kernel_ok os" "app_udp_open_bound_socket os server k = ((sock, port), k')"
  shows "sock < 0 \<Longrightarrow> so_open k' = so_open k" "0 \<le> sock \<Longrightarrow> so_open k' = insert sock (so_open k) \<and> sock \<notin> so_open k"
    "sock < 0 \<longrightarrow> sock = -1"
proof -
  have "os_socket os (so_calls k) (so_open k) < 0 \<or> os_socket os (so_calls k) (so_open k) \<notin> so_open k" using assms(1) by (simp add: kernel_ok_def)
  then show "sock < 0 \<Longrightarrow> so_open k' = so_open k" "0 \<le> sock \<Longrightarrow> so_open k' = insert sock (so_open k) \<and> sock \<notin> so_open k"
    "sock < 0 \<longrightarrow> sock = -1"
    using assms(2)
    by (auto simp: app_udp_open_bound_socket_def udp_open_bound_ipv4_def udp_open_bound_def udp_open_def
        open_socket_def udp_close_def close_socket_def Let_def split: if_splits option.splits)
qed

lemma probe_fds:
  assumes "kernel_ok os" "app_udp_probe_bind os listener server k = (ok, k')"
  shows "so_open k' = so_open k"
proof (cases "app_udp_same_binding listener server")
  case True
  with assms(2) show ?thesis by (simp add: app_udp_probe_bind_def)
next
  case False
  obtain s p k1 where o: "app_udp_open_bound_socket os server k = ((s, p), k1)" by (metis prod.collapse)
  from open_bound_fds [OF assms(1) o] assms(2) False o show ?thesis
    by (auto simp: app_udp_probe_bind_def close_socket_def split: if_splits)
qed

text \<open>The descriptors other than the listener's own: a rebind exchanges the listener's socket only.\<close>

definition listens :: "AppRuntimeListenerState \<Rightarrow> sock_table \<Rightarrow> int set \<Rightarrow> bool" where
  "listens listener k others \<longleftrightarrow> 0 \<le> ls_sock listener \<and> ls_sock listener \<notin> others \<and>
     so_open k = insert (ls_sock listener) others"

lemma listens_server [simp]: "listens (l\<lparr>ls_server := s\<rparr>) k R = listens l k R"
  by (simp add: listens_def)

lemma rebind_listens:
  assumes "kernel_ok os" "listens l k R" "app_udp_rebind_listener os l server k = (ok, l', k')"
  shows "listens l' k' R" "ls_server l' = ls_server l" "ls_config_path l' = ls_config_path l"
    "\<not> ok \<Longrightarrow> l' = l \<and> so_open k' = so_open k"
    "ok \<Longrightarrow> app_udp_same_binding l server \<and> l' = l \<or>
       ls_bound_ip l' = lcpy (app_udp_effective_bind_ip server) MAX_IP_RANGE_LEN \<and> ls_sock l' \<noteq> ls_sock l"
proof -
  let ?P = "listens l' k' R \<and> ls_server l' = ls_server l \<and> ls_config_path l' = ls_config_path l \<and>
    (\<not> ok \<longrightarrow> l' = l \<and> so_open k' = so_open k) \<and>
    (ok \<longrightarrow> app_udp_same_binding l server \<and> l' = l \<or>
       ls_bound_ip l' = lcpy (app_udp_effective_bind_ip server) MAX_IP_RANGE_LEN \<and> ls_sock l' \<noteq> ls_sock l)"
  have ?P
  proof (cases "app_udp_same_binding l server")
    case True
    with assms(2,3) show ?thesis by (simp add: app_udp_rebind_listener_def)
  next
    case False
    obtain s p k1 where o: "app_udp_open_bound_socket os server k = ((s, p), k1)" by (metis prod.collapse)
    show ?thesis
    proof (cases "s < 0")
      case True
      with open_bound_fds(1) [OF assms(1) o] assms(2,3) False o show ?thesis
        by (auto simp: app_udp_rebind_listener_def listens_def)
    next
      case s: False
      with open_bound_fds(2) [OF assms(1) o]
      have n: "so_open k1 = insert s (so_open k)" "s \<notin> so_open k" by auto
      from assms(2) have "so_open k1 - {ls_sock l} = insert s R" "s \<notin> R" "s \<noteq> ls_sock l"
        using n by (auto simp: listens_def)
      moreover have "ok" "l' = l\<lparr>ls_sock := s, ls_bound_port := p,
          ls_bound_ip := lcpy (app_udp_effective_bind_ip server) MAX_IP_RANGE_LEN\<rparr>"
        "k' = k1\<lparr>so_open := so_open k1 - {ls_sock l}\<rparr>"
        using assms(2,3) False o s
        by (simp_all add: app_udp_rebind_listener_def close_socket_def listens_def Let_def)
      ultimately show ?thesis using s by (simp add: listens_def)
    qed
  qed
  then show "listens l' k' R" "ls_server l' = ls_server l" "ls_config_path l' = ls_config_path l"
    "\<not> ok \<Longrightarrow> l' = l \<and> so_open k' = so_open k"
    "ok \<Longrightarrow> app_udp_same_binding l server \<and> l' = l \<or>
       ls_bound_ip l' = lcpy (app_udp_effective_bind_ip server) MAX_IP_RANGE_LEN \<and> ls_sock l' \<noteq> ls_sock l"
    by simp_all
qed

end
