(* ===== verification/Runtime.thy ===== *)
theory Runtime
  imports Listener Inbound Codec_Context Mux
begin

text \<open>
  \<open>siglatch/app/runtime/runtime.c\<close>: replacing the configuration of a running daemon, with the part of
  \<open>app/config/config.c\<close> that owns configurations and \<open>m7mux_set_context\<close>. The references to keys
  that the configuration and the codec context hold are counted in \<open>dm_refs\<close>.
\<close>

section \<open>Owning a configuration\<close>

definition config_key_refs :: "siglatch_config \<Rightarrow> key_refs" where
  "config_key_refs c = key_mset (sc_master_privkey c) + (\<Sum>u \<leftarrow> sc_users c. key_mset (su_pubkey u)) +
     (\<Sum>s \<leftarrow> sc_servers c. if sv_key_owned s then key_mset (sv_priv_key s) else {#})"

fun free_keys :: "EVP_PKEY option list \<Rightarrow> key_refs \<Rightarrow> key_refs" where
  "free_keys [] refs = refs"
| "free_keys (k # ks) refs = free_keys ks (free_key k refs)"

definition config_free :: "siglatch_config \<Rightarrow> key_refs \<Rightarrow> key_refs" where
  "config_free config refs =
     free_keys (map sv_priv_key (filter sv_key_owned (sc_servers config)))
       (free_keys (map su_pubkey (sc_users config)) (free_key (sc_master_privkey config) refs))"

definition config_destroy :: "siglatch_config option \<Rightarrow> key_refs \<Rightarrow> key_refs" where
  "config_destroy config refs = (case config of None \<Rightarrow> refs | Some c \<Rightarrow> config_free c refs)"

text \<open>\<open>config_attach\<close> with the release of what it replaces; NULL is ignored.\<close>

definition config_attach_ptr :: "config_state \<Rightarrow> siglatch_config option \<Rightarrow> key_refs \<Rightarrow> config_state \<times> key_refs" where
  "config_attach_ptr st config refs =
     (case config of
        None \<Rightarrow> (st, refs)
      | Some c \<Rightarrow> (config_attach st c, if snd st then config_destroy (fst st) refs else refs))"

definition config_unload :: "config_state \<Rightarrow> key_refs \<Rightarrow> config_state \<times> key_refs" where
  "config_unload st refs = (case config_detach st of (c, st1) \<Rightarrow> (st1, config_destroy c refs))"

definition config_shutdown :: "config_state \<Rightarrow> key_refs \<Rightarrow> config_state \<times> key_refs" where
  "config_shutdown st refs = ((None, False), if snd st then config_destroy (fst st) refs else refs)"

definition config_consume ::
  "bool \<Rightarrow> (nat \<Rightarrow> bool) \<Rightarrow> (string \<Rightarrow> string \<Rightarrow> bool) \<Rightarrow> IniDocument \<Rightarrow> config_state \<Rightarrow> key_refs \<Rightarrow>
   bool \<times> config_state \<times> key_refs" where
  "config_consume calloc_ok malloc_ok dlsym_ok document st refs =
     (case config_consume_document_ptr calloc_ok malloc_ok dlsym_ok document of
        None \<Rightarrow> (False, st, refs)
      | Some cfg \<Rightarrow> (True, config_attach_ptr st (Some cfg) refs))"

text \<open>The pointer that \<open>server_by_name\<close> returns, as an index.\<close>

definition config_server_by_name :: "siglatch_config option \<Rightarrow> string \<Rightarrow> nat option" where
  "config_server_by_name cfg name =
     (case cfg of None \<Rightarrow> None | Some c \<Rightarrow> find_idx (\<lambda>s. sv_name s = name) (sc_servers c))"

section \<open>The state of the daemon that a reload touches\<close>

record runtime_env =
  re_world :: world
  re_net :: net_os
  re_openssl_ready :: bool
  re_codec_ready :: bool
  re_codec_calloc :: bool
  re_up_ref :: "EVP_PKEY \<Rightarrow> bool"

record daemon =
  dm_listener :: AppRuntimeListenerState
  dm_session :: SiglatchOpenSSLSession
  dm_config :: config_state
  dm_codec :: "SharedKnockCodecContext option"
  dm_refs :: key_refs
  dm_mux :: M7MuxContext
  dm_socks :: sock_table

definition dm_server :: "daemon \<Rightarrow> siglatch_server option" where
  "dm_server d = listener_server (fst (dm_config d)) (dm_listener d)"

section \<open>siglatch/app/runtime/runtime.c\<close>

definition app_runtime_listener_bound_port :: "siglatch_config option \<Rightarrow> AppRuntimeListenerState \<Rightarrow> int" where
  "app_runtime_listener_bound_port cfg listener =
     (if ls_bound_port listener > 0 then ls_bound_port listener
      else case listener_server cfg listener of Some s \<Rightarrow> sv_port s | None \<Rightarrow> 0)"

definition app_runtime_listener_binding_changed ::
  "siglatch_config option \<Rightarrow> AppRuntimeListenerState \<Rightarrow> siglatch_server \<Rightarrow> bool" where
  "app_runtime_listener_binding_changed cfg listener server \<longleftrightarrow>
     app_runtime_listener_bound_port cfg listener \<noteq> sv_port server \<or> ls_bound_ip listener \<noteq> sv_bind_ip server"

definition app_runtime_listener_same_port_ip_change ::
  "siglatch_config option \<Rightarrow> AppRuntimeListenerState \<Rightarrow> siglatch_server \<Rightarrow> bool" where
  "app_runtime_listener_same_port_ip_change cfg listener server \<longleftrightarrow>
     app_runtime_listener_bound_port cfg listener = sv_port server \<and> ls_bound_ip listener \<noteq> sv_bind_ip server"

definition zero_session :: SiglatchOpenSSLSession where
  "zero_session = \<lparr>ss_public_key = None, ss_private_key = None, ss_hmac_key = replicate 64 0, ss_hmac_key_len = 0\<rparr>"

definition app_runtime_invalidate_config_borrows :: "daemon \<Rightarrow> daemon" where
  "app_runtime_invalidate_config_borrows d =
     d\<lparr>dm_listener := (dm_listener d)\<lparr>ls_server := None\<rparr>,
       dm_session := (dm_session d)\<lparr>ss_public_key := None, ss_private_key := None,
         ss_hmac_key := replicate 64 0, ss_hmac_key_len := 0\<rparr>\<rparr>"

text \<open>The loop that empties the keychain.\<close>

lemma remove_keychain_len:
  "shared_knock_codec_context_remove_keychain ini c name r = (True, c', r') \<Longrightarrow>
   0 < cx_keychain_len c \<and> cx_keychain_len c' = cx_keychain_len c - 1"
  by (auto simp: shared_knock_codec_context_remove_keychain_def find_idx_Some split: if_splits option.splits)

function sync_clear_keychain :: "bool \<Rightarrow> SharedKnockCodecContext \<Rightarrow> key_refs \<Rightarrow> bool \<times> SharedKnockCodecContext \<times> key_refs" where
  "sync_clear_keychain ini context refs =
     (if cx_keychain_len context = 0 then (True, context, refs)
      else case ke_name (cx_keychain context ! 0) of
        None \<Rightarrow> (False, context, refs)
      | Some name \<Rightarrow>
          (case shared_knock_codec_context_remove_keychain ini context name refs of
             (False, c1, r1) \<Rightarrow> (False, c1, r1)
           | (True, c1, r1) \<Rightarrow> sync_clear_keychain ini c1 r1))"
  by pat_completeness auto
termination
  by (relation "measure (\<lambda>(_, c, _). cx_keychain_len c)") (auto dest!: remove_keychain_len [OF sym])

declare sync_clear_keychain.simps [simp del]

text \<open>The entry of a user; the private key and the flags stay zero.\<close>

definition user_key_entry :: "siglatch_user \<Rightarrow> SharedKnockCodecKeyEntry" where
  "user_key_entry user = zero_entry\<lparr>ke_name := Some (su_name user), ke_user_id := su_id user,
     ke_public_key := su_pubkey user, ke_private_key := None, ke_hmac_key := Some (su_hmac_key user),
     ke_hmac_key_len := 32\<rparr>"

fun sync_add_users ::
  "bool \<Rightarrow> (nat \<Rightarrow> bool) \<Rightarrow> (EVP_PKEY \<Rightarrow> bool) \<Rightarrow> siglatch_user list \<Rightarrow> SharedKnockCodecContext \<Rightarrow> key_refs \<Rightarrow>
   bool \<times> SharedKnockCodecContext \<times> key_refs" where
  "sync_add_users ini malloc_ok up_ref_ok [] context refs = (True, context, refs)"
| "sync_add_users ini malloc_ok up_ref_ok (user # users) context refs =
     (if \<not> su_enabled user then sync_add_users ini malloc_ok up_ref_ok users context refs
      else case shared_knock_codec_context_add_keychain ini malloc_ok up_ref_ok context (user_key_entry user) refs of
        (False, c1, r1) \<Rightarrow> (False, c1, r1)
      | (True, c1, r1) \<Rightarrow> sync_add_users ini malloc_ok up_ref_ok users c1 r1)"

definition m7mux_set_context :: "M7MuxContext \<Rightarrow> bool \<times> M7MuxContext" where
  "m7mux_set_context ctx =
     (let g_ctx = ctx\<lparr>mx_internal := True\<rparr> in (m7mux_connect_validate_context g_ctx, g_ctx))"

text \<open>
  The context that the daemon installs. \<open>mx_server_secure\<close> is read through the pointer to the codec
  context; here it only says that the pointer is set (\<open>dm_mux_view\<close>).
\<close>

definition wire_policy_context :: "SharedKnockCodecContext \<Rightarrow> bool \<Rightarrow> bool \<Rightarrow> M7MuxContext" where
  "wire_policy_context context enforce_wire_decode enforce_wire_auth = zero_context\<lparr>mx_socket := True, mx_udp := True,
     mx_server_secure := Some (cx_server_secure context), mx_enforce_wire_decode := enforce_wire_decode,
     mx_enforce_wire_auth := enforce_wire_auth\<rparr>"

definition NONCE_WINDOW_MS :: u64 where
  "NONCE_WINDOW_MS = word_of_int NONCE_DEFAULT_TTL_SECONDS * 1000"

definition app_runtime_sync_codec_context ::
  "runtime_env \<Rightarrow> daemon \<Rightarrow> siglatch_config option \<Rightarrow> siglatch_server option \<Rightarrow> bool \<times> daemon" where
  "app_runtime_sync_codec_context env d cfg0 server0 =
     (case (cfg0, server0) of
        (Some cfg, Some server) \<Rightarrow>
          (case (case dm_codec d of
                   Some c \<Rightarrow> Some c
                 | None \<Rightarrow> shared_knock_codec_context_create (re_codec_ready env) (re_codec_calloc env)) of
             None \<Rightarrow> (False, d)
           | Some c0 \<Rightarrow>
               (case shared_knock_codec_context_clear_server_key c0 (dm_refs d) of
                  (c1, r1) \<Rightarrow>
               (let c2 = c1\<lparr>cx_server_secure := sv_secure server, cx_nonce_window_ms := NONCE_WINDOW_MS\<rparr>
                in case sync_clear_keychain (re_codec_ready env) c2 r1 of
                  (False, c3, r3) \<Rightarrow> (False, d\<lparr>dm_codec := Some c3, dm_refs := r3\<rparr>)
                | (True, c3, r3) \<Rightarrow>
                    (case (if sv_secure server \<and> sv_priv_key server \<noteq> None
                           then shared_knock_codec_context_set_server_key (re_codec_ready env)
                             (w_malloc (re_world env)) (re_up_ref env) c3
                             (zero_server_key\<lparr>sk_name := Some (sv_name server), sk_private_key := sv_priv_key server\<rparr>) r3
                           else (True, c3, r3)) of
                       (False, c4, r4) \<Rightarrow> (False, d\<lparr>dm_codec := Some c4, dm_refs := r4\<rparr>)
                     | (True, c4, r4) \<Rightarrow>
                         (case sync_add_users (re_codec_ready env) (w_malloc (re_world env)) (re_up_ref env)
                                 (sc_users cfg) c4 r4 of
                            (False, c5, r5) \<Rightarrow> (False, d\<lparr>dm_codec := Some c5, dm_refs := r5\<rparr>)
                          | (True, c5, r5) \<Rightarrow>
                              (case m7mux_set_context (wire_policy_context c5
                                      (sv_enforce_wire_decode server) (sv_enforce_wire_auth server)) of
                                 (ok, g) \<Rightarrow> (ok, d\<lparr>dm_codec := Some c5, dm_refs := r5, dm_mux := g\<rparr>)))))))
      | _ \<Rightarrow> (False, d))"

text \<open>
  The block that each failure after the exchange runs: the previous configuration is attached again,
  the new one destroyed, and the listener and the session bound to the previous server. \<open>resync\<close> is
  the block of the third failure, which also calls the synchronisation: with \<open>old_cfg\<close>, which the lines
  before have set to NULL.
\<close>

definition runtime_restore :: "runtime_env \<Rightarrow> string \<Rightarrow> siglatch_config option \<Rightarrow> bool \<Rightarrow> daemon \<Rightarrow> daemon" where
  "runtime_restore env current_name old_cfg resync d =
     (let d1 = app_runtime_invalidate_config_borrows d;
          (new_cfg, st1) = config_detach (dm_config d1);
          (st2, r2) = config_attach_ptr st1 old_cfg (dm_refs d1);
          d2 = d1\<lparr>dm_config := st2, dm_refs := config_destroy new_cfg r2\<rparr>;
          restored_server = (if current_name \<noteq> [] then config_server_by_name (fst st2) current_name else None);
          d3 = (if resync \<and> restored_server \<noteq> None
                then snd (app_runtime_sync_codec_context env d2 None
                  (listener_server (fst st2) ((dm_listener d2)\<lparr>ls_server := restored_server\<rparr>)))
                else d2)
      in case listener_server (fst st2) ((dm_listener d3)\<lparr>ls_server := restored_server\<rparr>) of
           None \<Rightarrow> app_runtime_invalidate_config_borrows d3
         | Some server \<Rightarrow>
             (case app_inbound_crypto_init_session_for_server (re_openssl_ready env) server (dm_session d3) of
                (True, s) \<Rightarrow> d3\<lparr>dm_session := s, dm_listener := (dm_listener d3)\<lparr>ls_server := restored_server\<rparr>\<rparr>
              | (False, s) \<Rightarrow> app_runtime_invalidate_config_borrows (d3\<lparr>dm_session := s\<rparr>)))"

definition reload_target :: "daemon \<Rightarrow> string \<Rightarrow> string" where
  "reload_target d server_name =
     (if server_name \<noteq> [] then lcpy server_name MAX_SERVER_NAME
      else case dm_server d of None \<Rightarrow> [] | Some s \<Rightarrow> lcpy (sv_name s) MAX_SERVER_NAME)"

text \<open>
  The configuration that is read and checked before anything changes: the new configuration with its
  selected server. The keys it has loaded are counted when it is kept. The second component is the
  table of sockets after the probe.
\<close>

definition reload_stage ::
  "runtime_env \<Rightarrow> daemon \<Rightarrow> string \<Rightarrow> string \<Rightarrow> (siglatch_config \<times> siglatch_server) option \<times> sock_table" where
  "reload_stage env d config_path target_name =
     (case config_load_detached (re_world env) config_path of
        None \<Rightarrow> (None, dm_socks d)
      | Some new_cfg \<Rightarrow>
          (case config_server_by_name_from_ptr (Some new_cfg) target_name of
             None \<Rightarrow> (None, dm_socks d)
           | Some server \<Rightarrow>
               if \<not> sv_enabled server then (None, dm_socks d)
               else if \<not> fst (app_inbound_crypto_init_session_for_server (re_openssl_ready env) server zero_session)
               then (None, dm_socks d)
               else if app_runtime_listener_binding_changed (fst (dm_config d)) (dm_listener d) server
               then (if app_runtime_listener_same_port_ip_change (fst (dm_config d)) (dm_listener d) server
                     then (None, dm_socks d)
                     else case app_udp_probe_bind (re_net env) (dm_listener d) server (dm_socks d) of
                       (ok, k) \<Rightarrow> (if ok then Some (new_cfg, server) else None, k))
               else (Some (new_cfg, server), dm_socks d)))"

text \<open>The exchange of the configurations (lines 286 to 289): the old one and the new state.\<close>

definition reload_exchange ::
  "daemon \<Rightarrow> sock_table \<Rightarrow> siglatch_config \<Rightarrow> string \<Rightarrow> siglatch_config option \<times> daemon" where
  "reload_exchange d k new_cfg target_name =
     (case config_detach (dm_config d) of
        (old_cfg, st1) \<Rightarrow>
          (let d1 = app_runtime_invalidate_config_borrows
                      (d\<lparr>dm_socks := k, dm_config := st1, dm_refs := dm_refs d + config_key_refs new_cfg\<rparr>)
           in case config_attach_ptr (dm_config d1) (Some new_cfg) (dm_refs d1) of
                (st2, r2) \<Rightarrow>
                  (old_cfg, d1\<lparr>dm_config := st2, dm_refs := r2,
                     dm_listener := (dm_listener d1)\<lparr>ls_server := config_server_by_name (fst st2) target_name\<rparr>\<rparr>)))"

text \<open>The rest: the session, the socket and the codec context, each with its way back.\<close>

definition reload_apply ::
  "runtime_env \<Rightarrow> string \<Rightarrow> bool \<Rightarrow> siglatch_config option \<Rightarrow> siglatch_config \<Rightarrow> daemon \<Rightarrow> bool \<times> daemon" where
  "reload_apply env current_name binding_changed old_cfg new_cfg d2 =
     (case dm_server d2 of
        None \<Rightarrow> (False, runtime_restore env current_name old_cfg False d2)
      | Some server \<Rightarrow>
          (case app_inbound_crypto_init_session_for_server (re_openssl_ready env) server (dm_session d2) of
             (False, s) \<Rightarrow> (False, runtime_restore env current_name old_cfg False (d2\<lparr>dm_session := s\<rparr>))
           | (True, s) \<Rightarrow>
               (case (if binding_changed
                      then app_udp_rebind_listener (re_net env) (dm_listener d2) server (dm_socks d2)
                      else (True, dm_listener d2, dm_socks d2)) of
                  (False, l3, k3) \<Rightarrow>
                    (False, runtime_restore env current_name old_cfg False
                       (d2\<lparr>dm_session := s, dm_listener := l3, dm_socks := k3\<rparr>))
                | (True, l3, k3) \<Rightarrow>
                    (case app_runtime_sync_codec_context env
                            (d2\<lparr>dm_session := s, dm_listener := l3, dm_socks := k3\<rparr>) (Some new_cfg) (Some server) of
                       (False, d4) \<Rightarrow> (False, runtime_restore env current_name old_cfg True d4)
                     | (True, d4) \<Rightarrow> (True, d4\<lparr>dm_refs := config_destroy old_cfg (dm_refs d4)\<rparr>)))))"

definition app_runtime_reload_config :: "runtime_env \<Rightarrow> daemon \<Rightarrow> string \<Rightarrow> string \<Rightarrow> bool \<times> daemon" where
  "app_runtime_reload_config env d config_path server_name =
     (if config_path = [] then (False, d)
      else let current_name = (case dm_server d of None \<Rightarrow> [] | Some s \<Rightarrow> lcpy (sv_name s) MAX_SERVER_NAME);
               target_name = reload_target d server_name
      in if target_name = [] then (False, d)
      else case reload_stage env d config_path target_name of
        (None, k) \<Rightarrow> (False, d\<lparr>dm_socks := k\<rparr>)
      | (Some (new_cfg, selected_server), k) \<Rightarrow>
          (case reload_exchange d k new_cfg target_name of
             (old_cfg, d2) \<Rightarrow>
               reload_apply env current_name
                 (app_runtime_listener_binding_changed (fst (dm_config d)) (dm_listener d) selected_server)
                 old_cfg new_cfg d2))"

end
