(* ===== verification/Runtime_Facts.thy ===== *)
theory Runtime_Facts
  imports Runtime
begin

text \<open>
  Facts about reloading: who holds the keys, which configuration is attached and which sockets are
  open when a reload ends, in whichever way.
\<close>

section \<open>Freeing a configuration\<close>

lemma free_keys_refs: "free_keys ks (other + (\<Sum>k \<leftarrow> ks. key_mset k)) = other"
proof (induction ks)
  case Nil
  then show ?case by simp
next
  case (Cons k ks)
  have "free_key k (other + (\<Sum>k \<leftarrow> k # ks. key_mset k)) = other + (\<Sum>k \<leftarrow> ks. key_mset k)"
    by (simp add: free_key_def)
  with Cons.IH show ?case by simp
qed

lemma config_free_refs: "config_free c (other + config_key_refs c) = other"
proof -
  have owned: "(\<Sum>s \<leftarrow> ss. if sv_key_owned s then key_mset (sv_priv_key s) else {#}) =
      (\<Sum>k \<leftarrow> map sv_priv_key (filter sv_key_owned ss). key_mset k)" for ss
    by (induction ss) simp_all
  define U where "U = (\<Sum>k \<leftarrow> map su_pubkey (sc_users c). key_mset k)"
  define S where "S = (\<Sum>k \<leftarrow> map sv_priv_key (filter sv_key_owned (sc_servers c)). key_mset k)"
  have "config_key_refs c = key_mset (sc_master_privkey c) + U + S"
    by (simp add: config_key_refs_def U_def S_def owned comp_def)
  then have "free_key (sc_master_privkey c) (other + config_key_refs c) = (other + S) + U"
    by (simp add: free_key_def ac_simps)
  then show ?thesis
    using free_keys_refs [of "map su_pubkey (sc_users c)" "other + S"]
      free_keys_refs [of "map sv_priv_key (filter sv_key_owned (sc_servers c))" other]
    by (simp add: config_free_def U_def S_def)
qed

definition attached_refs :: "siglatch_config option \<Rightarrow> key_refs" where
  "attached_refs cfg = (case cfg of None \<Rightarrow> {#} | Some c \<Rightarrow> config_key_refs c)"

lemma attached_refs_simps [simp]: "attached_refs None = {#}" "attached_refs (Some c) = config_key_refs c"
  by (simp_all add: attached_refs_def)

lemma config_destroy_refs: "config_destroy cfg (other + attached_refs cfg) = other"
  by (cases cfg) (simp_all add: config_destroy_def config_free_refs)

section \<open>The codec context\<close>

definition codec_bal :: "key_refs \<Rightarrow> SharedKnockCodecContext \<Rightarrow> key_refs \<Rightarrow> bool" where
  "codec_bal other c r \<longleftrightarrow> context_ok c \<and> r = other + context_refs c"

lemma clear_keychain_facts:
  assumes "codec_bal other c r" "sync_clear_keychain ini c r = (b, c', r')"
  shows "codec_bal other c' r' \<and> (b \<longrightarrow> entries_in_use c' = []) \<and> (ini \<longrightarrow> b)"
  using assms
proof (induction ini c r arbitrary: b c' r' rule: sync_clear_keychain.induct)
  case (1 ini c r)
  show ?case
  proof (cases "cx_keychain_len c = 0")
    case True
    with "1.prems" show ?thesis by (simp add: sync_clear_keychain.simps [of ini c r] entries_in_use_def)
  next
    case False
    have ok: "context_ok c" and r: "r = other + context_refs c" using "1.prems"(1) by (simp_all add: codec_bal_def)
    have "cx_keychain c ! 0 \<in> set (entries_in_use c)"
      using ok False by (auto simp: context_ok_def entries_in_use_def in_set_conv_nth intro!: exI [of _ 0])
    then have nm: "ke_name (cx_keychain c ! 0) \<in> ke_name ` set (entries_in_use c)" by simp
    then obtain name where name: "ke_name (cx_keychain c ! 0) = Some name" "name \<noteq> []"
      using ok by (cases "ke_name (cx_keychain c ! 0)") (auto simp: context_ok_def)
    obtain b1 c1 r1 where rm: "shared_knock_codec_context_remove_keychain ini c name r = (b1, c1, r1)"
      using prod_cases3 by blast
    note f = remove_keychain_facts [OF ok rm [unfolded r]]
    have bal1: "codec_bal other c1 r1" using f(1,2) by (simp add: codec_bal_def)
    show ?thesis
    proof (cases b1)
      case True
      have "sync_clear_keychain ini c1 r1 = (b, c', r')"
        using "1.prems"(2) False name rm True by (simp add: sync_clear_keychain.simps [of ini c r])
      moreover have "(True, c1, r1) = shared_knock_codec_context_remove_keychain ini c name r" using rm True by simp
      ultimately show ?thesis using "1.IH" [OF False name(1) _ refl refl bal1] by blast
    next
      case b1: False
      then have "sync_clear_keychain ini c r = (False, c1, r1)"
        using False name rm by (simp add: sync_clear_keychain.simps [of ini c r])
      moreover have "\<not> ini" using b1 f(4) nm name by simp
      ultimately show ?thesis using bal1 "1.prems"(2) by simp
    qed
  qed
qed

definition enabled_names :: "siglatch_user list \<Rightarrow> string option list" where
  "enabled_names us = map (\<lambda>u. Some (su_name u)) (filter su_enabled us)"

lemma add_users_facts:
  assumes "codec_bal other c r" "sync_add_users ini m u users c r = (b, c', r')"
  shows "codec_bal other c' r' \<and>
    (b \<longrightarrow> map ke_name (entries_in_use c') = map ke_name (entries_in_use c) @ enabled_names users) \<and>
    (\<not> b \<longrightarrow> (\<exists>done rest. enabled_names users = done @ rest \<and> rest \<noteq> [] \<and>
        map ke_name (entries_in_use c') = map ke_name (entries_in_use c) @ done))"
  using assms
proof (induction users arbitrary: c r)
  case Nil
  then show ?case by (simp add: enabled_names_def)
next
  case (Cons user users)
  show ?case
  proof (cases "su_enabled user")
    case False
    then have "sync_add_users ini m u users c r = (b, c', r')" using Cons.prems(2) by simp
    from Cons.IH [OF Cons.prems(1) this] False show ?thesis by (simp add: enabled_names_def)
  next
    case en: True
    obtain b1 c1 r1 where a: "shared_knock_codec_context_add_keychain ini m u c (user_key_entry user) r = (b1, c1, r1)"
      using prod_cases3 by blast
    have ok: "context_ok c" and r: "r = other + context_refs c" using Cons.prems(1) by (simp_all add: codec_bal_def)
    note f = add_keychain_facts [OF ok a [unfolded r]]
    have bal1: "codec_bal other c1 r1" using f(1,2) by (simp add: codec_bal_def)
    have nm: "ke_name (user_key_entry user) = Some (su_name user)" by (simp add: user_key_entry_def)
    show ?thesis
    proof (cases b1)
      case True
      with a en Cons.prems(2) have run: "sync_add_users ini m u users c1 r1 = (b, c', r')" by simp
      have names: "map ke_name (entries_in_use c1) = map ke_name (entries_in_use c) @ [Some (su_name user)]"
        using f(3) True nm by simp
      have hd: "enabled_names (user # users) = Some (su_name user) # enabled_names users"
        using en by (simp add: enabled_names_def)
      from Cons.IH [OF bal1 run]
      show ?thesis
        unfolding hd names by (metis append_Cons append_Nil append_assoc)
    next
      case False
      then have "b = False" "c' = c1" "r' = r1" using a en Cons.prems(2) by simp_all
      moreover have "enabled_names (user # users) \<noteq> []" using en by (simp add: enabled_names_def)
      ultimately show ?thesis using bal1 f(4) False by (metis append_Nil append_Nil2)
    qed
  qed
qed

text \<open>The part of the daemon's state that the synchronisation keeps.\<close>

definition same_frame :: "daemon \<Rightarrow> daemon \<Rightarrow> bool" where
  "same_frame d d' \<longleftrightarrow> dm_listener d' = dm_listener d \<and> dm_session d' = dm_session d \<and>
     dm_config d' = dm_config d \<and> dm_socks d' = dm_socks d"

definition codec_refs :: "SharedKnockCodecContext option \<Rightarrow> key_refs" where
  "codec_refs c = (case c of None \<Rightarrow> {#} | Some x \<Rightarrow> context_refs x)"

definition codec_fine :: "SharedKnockCodecContext option \<Rightarrow> bool" where
  "codec_fine c = (case c of None \<Rightarrow> True | Some x \<Rightarrow> context_ok x)"

lemma codec_simps [simp]:
  "codec_refs None = {#}" "codec_refs (Some c) = context_refs c" "codec_fine None" "codec_fine (Some c) = context_ok c"
  by (simp_all add: codec_refs_def codec_fine_def)

lemma context_upd [simp]:
  "context_ok (c\<lparr>cx_server_secure := b, cx_nonce_window_ms := n\<rparr>) = context_ok c"
  "context_refs (c\<lparr>cx_server_secure := b, cx_nonce_window_ms := n\<rparr>) = context_refs c"
  "entries_in_use (c\<lparr>cx_server_secure := b, cx_nonce_window_ms := n\<rparr>) = entries_in_use c"
  by (simp_all add: context_ok_def context_refs_def entries_in_use_def)

lemma sync_None: "app_runtime_sync_codec_context env d None server = (False, d)"
  by (simp add: app_runtime_sync_codec_context_def)

lemma sync_facts:
  assumes bal: "codec_fine (dm_codec d)" "dm_refs d = other + codec_refs (dm_codec d)"
    and run: "app_runtime_sync_codec_context env d (Some cfg) (Some server) = (b, d')"
  shows "codec_fine (dm_codec d')" "dm_refs d' = other + codec_refs (dm_codec d')" "same_frame d d'"
    "b \<Longrightarrow> \<exists>c. dm_codec d' = Some c \<and> map ke_name (entries_in_use c) = enabled_names (sc_users cfg) \<and>
        mx_enforce_wire_decode (dm_mux d') = sv_enforce_wire_decode server \<and>
        mx_enforce_wire_auth (dm_mux d') = sv_enforce_wire_auth server"
    "re_codec_ready env \<Longrightarrow> dm_codec d \<noteq> None \<Longrightarrow> \<not> b \<Longrightarrow>
       \<exists>c done rest. dm_codec d' = Some c \<and> map ke_name (entries_in_use c) = done \<and> dm_mux d' = dm_mux d \<and>
         enabled_names (sc_users cfg) = done @ rest"
proof -
  let ?P = "codec_fine (dm_codec d') \<and> dm_refs d' = other + codec_refs (dm_codec d') \<and> same_frame d d' \<and>
    (b \<longrightarrow> (\<exists>c. dm_codec d' = Some c \<and> map ke_name (entries_in_use c) = enabled_names (sc_users cfg) \<and>
        mx_enforce_wire_decode (dm_mux d') = sv_enforce_wire_decode server \<and>
        mx_enforce_wire_auth (dm_mux d') = sv_enforce_wire_auth server)) \<and>
    (re_codec_ready env \<longrightarrow> dm_codec d \<noteq> None \<longrightarrow> \<not> b \<longrightarrow>
       (\<exists>c done rest. dm_codec d' = Some c \<and> map ke_name (entries_in_use c) = done \<and> dm_mux d' = dm_mux d \<and>
         enabled_names (sc_users cfg) = done @ rest))"
  let ?start = "case dm_codec d of Some c \<Rightarrow> Some c
      | None \<Rightarrow> shared_knock_codec_context_create (re_codec_ready env) (re_codec_calloc env)"
  let ?m = "w_malloc (re_world env)" and ?u = "re_up_ref env" and ?ini = "re_codec_ready env"
  have ?P
  proof (cases ?start)
    case None
    then show ?thesis
      using run bal by (auto simp: app_runtime_sync_codec_context_def same_frame_def)
  next
    case (Some c0)
    have "codec_bal other c0 (dm_refs d)"
      using Some bal zero_context_ok
      by (auto simp: codec_bal_def shared_knock_codec_context_create_def split: option.splits if_splits)
    then have ok0: "context_ok c0" and r0: "dm_refs d = other + context_refs c0" by (simp_all add: codec_bal_def)
    obtain c1 r1 where s1: "shared_knock_codec_context_clear_server_key c0 (dm_refs d) = (c1, r1)" by fastforce
    note f1 = clear_server_key_facts [OF ok0 s1 [unfolded r0]]
    define c2 where "c2 = c1\<lparr>cx_server_secure := sv_secure server, cx_nonce_window_ms := NONCE_WINDOW_MS\<rparr>"
    have bal2: "codec_bal other c2 r1" using f1 by (simp add: codec_bal_def c2_def)
    obtain b3 c3 r3 where s3: "sync_clear_keychain ?ini c2 r1 = (b3, c3, r3)" using prod_cases3 by blast
    note f3 = clear_keychain_facts [OF bal2 s3]
    note step = run [unfolded app_runtime_sync_codec_context_def Let_def, simplified, unfolded Some, simplified,
        unfolded s1, simplified, folded c2_def, unfolded s3, simplified]
    show ?thesis
    proof (cases b3)
      case False
      with step f3 show ?thesis by (auto simp: codec_bal_def same_frame_def)
    next
      case b3: True
      let ?sk = "if sv_secure server \<and> sv_priv_key server \<noteq> None
           then shared_knock_codec_context_set_server_key ?ini ?m ?u c3
             (zero_server_key\<lparr>sk_name := Some (sv_name server), sk_private_key := sv_priv_key server\<rparr>) r3
           else (True, c3, r3)"
      obtain b4 c4 r4 where s4: "?sk = (b4, c4, r4)" using prod_cases3 by blast
      have ok3: "context_ok c3" "r3 = other + context_refs c3" "entries_in_use c3 = []"
        using f3 b3 by (simp_all add: codec_bal_def)
      have f4: "codec_bal other c4 r4 \<and> entries_in_use c4 = []"
        using s4 ok3 set_server_key_facts [OF ok3(1), of ?ini ?m ?u _ other b4 c4 r4]
        by (auto simp: codec_bal_def split: if_splits)
      show ?thesis
      proof (cases b4)
        case False
        with step b3 s4 f4 show ?thesis
          by (auto simp: codec_bal_def same_frame_def)
      next
        case b4: True
        obtain b5 c5 r5 where s5: "sync_add_users ?ini ?m ?u (sc_users cfg) c4 r4 = (b5, c5, r5)"
          using prod_cases3 by blast
        have f5: "codec_bal other c5 r5"
          "b5 \<Longrightarrow> map ke_name (entries_in_use c5) = enabled_names (sc_users cfg)"
          "\<not> b5 \<Longrightarrow> \<exists>done rest. enabled_names (sc_users cfg) = done @ rest \<and> map ke_name (entries_in_use c5) = done"
          using add_users_facts [OF conjunct1 [OF f4] s5] f4 by auto
        show ?thesis
        proof (cases b5)
          case False
          with step b3 s4 b4 s5 f5(1,3) show ?thesis by (auto simp: codec_bal_def same_frame_def)
        next
          case True
          with step b3 s4 b4 s5
          have "b = True" "d' = d\<lparr>dm_codec := Some c5, dm_refs := r5,
            dm_mux := (wire_policy_context c5 (sv_enforce_wire_decode server) (sv_enforce_wire_auth server))\<lparr>mx_internal := True\<rparr>\<rparr>"
            by (simp_all add: m7mux_set_context_def wire_policy_context_def m7mux_connect_validate_context_def Let_def)
          with f5(1) f5(2) [OF True] show ?thesis
            by (simp add: codec_bal_def same_frame_def wire_policy_context_def)
        qed
      qed
    qed
  qed
  then show "codec_fine (dm_codec d')" "dm_refs d' = other + codec_refs (dm_codec d')" "same_frame d d'"
    "b \<Longrightarrow> \<exists>c. dm_codec d' = Some c \<and> map ke_name (entries_in_use c) = enabled_names (sc_users cfg) \<and>
        mx_enforce_wire_decode (dm_mux d') = sv_enforce_wire_decode server \<and>
        mx_enforce_wire_auth (dm_mux d') = sv_enforce_wire_auth server"
    "re_codec_ready env \<Longrightarrow> dm_codec d \<noteq> None \<Longrightarrow> \<not> b \<Longrightarrow>
       \<exists>c done rest. dm_codec d' = Some c \<and> map ke_name (entries_in_use c) = done \<and> dm_mux d' = dm_mux d \<and>
         enabled_names (sc_users cfg) = done @ rest"
    by blast+
qed


text \<open>
  The invariant of the daemon's state under a reload, with what a reload that succeeds and one that
  fails leave behind.
\<close>

text \<open>
  The listener has its socket, no other descriptor is left open, the configuration that is attached is
  owned, and the references to keys are those of the configuration, those of the codec context and
  those of others.
\<close>

definition daemon_inv :: "int set \<Rightarrow> key_refs \<Rightarrow> daemon \<Rightarrow> bool" where
  "daemon_inv R other d \<longleftrightarrow> listens (dm_listener d) (dm_socks d) R \<and>
     snd (dm_config d) = (fst (dm_config d) \<noteq> None) \<and> codec_fine (dm_codec d) \<and>
     dm_refs d = other + attached_refs (fst (dm_config d)) + codec_refs (dm_codec d)"

text \<open>The binding of the listener, without the server it points to.\<close>

definition binding :: "daemon \<Rightarrow> int \<times> int \<times> string" where
  "binding d = (ls_sock (dm_listener d), ls_bound_port (dm_listener d), ls_bound_ip (dm_listener d))"

lemma invalidate_simps [simp]:
  "dm_config (app_runtime_invalidate_config_borrows d) = dm_config d"
  "dm_codec (app_runtime_invalidate_config_borrows d) = dm_codec d"
  "dm_refs (app_runtime_invalidate_config_borrows d) = dm_refs d"
  "dm_mux (app_runtime_invalidate_config_borrows d) = dm_mux d"
  "dm_socks (app_runtime_invalidate_config_borrows d) = dm_socks d"
  "dm_listener (app_runtime_invalidate_config_borrows d) = (dm_listener d)\<lparr>ls_server := None\<rparr>"
  by (simp_all add: app_runtime_invalidate_config_borrows_def)

text \<open>Restoring brings back the old configuration and gives back the keys of the new one.\<close>

lemma restore_facts:
  assumes "dm_config d = (Some new_cfg, True)"
    and "dm_refs d = rest + attached_refs old_cfg + config_key_refs new_cfg"
    and "d' = runtime_restore env name old_cfg resync d"
  shows "dm_config d' = (old_cfg, old_cfg \<noteq> None)" "dm_refs d' = rest + attached_refs old_cfg"
    "dm_codec d' = dm_codec d" "dm_mux d' = dm_mux d" "dm_socks d' = dm_socks d"
    "\<exists>s. dm_listener d' = (dm_listener d)\<lparr>ls_server := s\<rparr> \<and> s \<in> {None, config_server_by_name old_cfg name}"
proof -
  have destroy: "config_destroy (Some new_cfg) (dm_refs d) = rest + attached_refs old_cfg"
    using assms(2) config_destroy_refs [of "Some new_cfg" "rest + attached_refs old_cfg"] by simp
  have att: "config_attach_ptr (None, False) old_cfg r = ((old_cfg, old_cfg \<noteq> None), r)" for r
    by (cases old_cfg) (simp_all add: config_attach_ptr_def config_attach_def)
  define rs where "rs = (if name \<noteq> [] then config_server_by_name old_cfg name else None)"
  define d2 where "d2 = (app_runtime_invalidate_config_borrows d)\<lparr>dm_config := (old_cfg, old_cfg \<noteq> None),
    dm_refs := rest + attached_refs old_cfg\<rparr>"
  have eq: "d' = (case listener_server old_cfg ((dm_listener d2)\<lparr>ls_server := rs\<rparr>) of
           None \<Rightarrow> app_runtime_invalidate_config_borrows d2
         | Some server \<Rightarrow>
             (case app_inbound_crypto_init_session_for_server (re_openssl_ready env) server (dm_session d2) of
                (True, s) \<Rightarrow> d2\<lparr>dm_session := s, dm_listener := (dm_listener d2)\<lparr>ls_server := rs\<rparr>\<rparr>
              | (False, s) \<Rightarrow> app_runtime_invalidate_config_borrows (d2\<lparr>dm_session := s\<rparr>)))"
    unfolding assms(3)
    by (simp add: runtime_restore_def Let_def assms(1) config_detach_def att destroy sync_None
        rs_def d2_def cong: if_cong option.case_cong prod.case_cong bool.case_cong)
  have d2: "dm_config d2 = (old_cfg, old_cfg \<noteq> None)" "dm_refs d2 = rest + attached_refs old_cfg"
    "dm_codec d2 = dm_codec d" "dm_mux d2 = dm_mux d" "dm_socks d2 = dm_socks d"
    "dm_listener d2 = (dm_listener d)\<lparr>ls_server := None\<rparr>"
    by (simp_all add: d2_def)
  have rs: "rs \<in> {None, config_server_by_name old_cfg name}" by (simp add: rs_def)
  show "dm_config d' = (old_cfg, old_cfg \<noteq> None)" "dm_refs d' = rest + attached_refs old_cfg"
    "dm_codec d' = dm_codec d" "dm_mux d' = dm_mux d" "dm_socks d' = dm_socks d"
    unfolding eq using d2 by (simp_all split: option.split prod.split bool.split)
  show "\<exists>s. dm_listener d' = (dm_listener d)\<lparr>ls_server := s\<rparr> \<and> s \<in> {None, config_server_by_name old_cfg name}"
    unfolding eq using d2(6) rs by (auto split: option.split prod.split bool.split)
qed

lemma stage_facts:
  assumes "kernel_ok (re_net env)" "reload_stage env d path name = (res, k)"
  shows "so_open k = so_open (dm_socks d)"
    "res = Some (c, s) \<Longrightarrow> config_load_detached (re_world env) path = Some c \<and>
       config_server_by_name_from_ptr (Some c) name = Some s \<and> sv_enabled s"
  using assms(2) probe_fds [OF assms(1)]
  by (auto simp: reload_stage_def split: option.splits if_splits prod.splits)

lemma server_by_name_agrees:
  "config_server_by_name_from_ptr (Some c) name = Some s \<Longrightarrow>
   \<exists>i. config_server_by_name (Some c) name = Some i \<and> i < length (sc_servers c) \<and> sc_servers c ! i = s \<and> sv_name s = name"
  by (auto simp: config_server_by_name_from_ptr_def config_server_by_name_def find_Some_iff find_idx_Some)

text \<open>The daemon once the new configuration has taken the place of the old one.\<close>

definition exchanged :: "daemon \<Rightarrow> sock_table \<Rightarrow> siglatch_config \<Rightarrow> nat \<Rightarrow> SiglatchOpenSSLSession \<Rightarrow> daemon" where
  "exchanged d k c i s = (app_runtime_invalidate_config_borrows d)\<lparr>dm_socks := k, dm_config := (Some c, True),
     dm_refs := dm_refs d + config_key_refs c, dm_session := s,
     dm_listener := (dm_listener d)\<lparr>ls_server := Some i\<rparr>\<rparr>"

text \<open>How a reload goes: five ways to end.\<close>

inductive reload_outcome ::
  "runtime_env \<Rightarrow> daemon \<Rightarrow> string \<Rightarrow> bool \<Rightarrow> bool \<Rightarrow> daemon \<Rightarrow> bool" for env d path where
  refused: "so_open k = so_open (dm_socks d) \<Longrightarrow> reload_outcome env d path False False (d\<lparr>dm_socks := k\<rparr>)"
| restored: "config_load_detached (re_world env) path = Some c \<Longrightarrow>
    dm_config d1 = (Some c, True) \<Longrightarrow> dm_refs d1 = dm_refs d + config_key_refs c \<Longrightarrow> dm_codec d1 = dm_codec d \<Longrightarrow>
    dm_mux d1 = dm_mux d \<Longrightarrow> \<exists>s. dm_listener d1 = (dm_listener d)\<lparr>ls_server := s\<rparr> \<Longrightarrow> so_open (dm_socks d1) = so_open (dm_socks d) \<Longrightarrow>
    reload_outcome env d path False False (runtime_restore env name (fst (dm_config d)) False d1)"
| unsynced: "config_load_detached (re_world env) path = Some c \<Longrightarrow> so_open k = so_open (dm_socks d) \<Longrightarrow>
    i < length (sc_servers c) \<Longrightarrow> server = sc_servers c ! i \<Longrightarrow> sv_enabled server \<Longrightarrow>
    (l, k') = (dm_listener (exchanged d k c i s), k) \<or>
      app_udp_rebind_listener (re_net env) (dm_listener (exchanged d k c i s)) server k = (True, l, k') \<Longrightarrow>
    app_runtime_sync_codec_context env ((exchanged d k c i s)\<lparr>dm_listener := l, dm_socks := k'\<rparr>) (Some c) (Some server) = (False, d4) \<Longrightarrow>
    reload_outcome env d path False True (runtime_restore env name (fst (dm_config d)) True d4)"
| reloaded: "config_load_detached (re_world env) path = Some c \<Longrightarrow> so_open k = so_open (dm_socks d) \<Longrightarrow>
    i < length (sc_servers c) \<Longrightarrow> server = sc_servers c ! i \<Longrightarrow> sv_enabled server \<Longrightarrow>
    (l, k') = (dm_listener (exchanged d k c i s), k) \<or>
      app_udp_rebind_listener (re_net env) (dm_listener (exchanged d k c i s)) server k = (True, l, k') \<Longrightarrow>
    app_runtime_sync_codec_context env ((exchanged d k c i s)\<lparr>dm_listener := l, dm_socks := k'\<rparr>) (Some c) (Some server) = (True, d4) \<Longrightarrow>
    reload_outcome env d path True False (d4\<lparr>dm_refs := config_destroy (fst (dm_config d)) (dm_refs d4)\<rparr>)"


lemma reload_outcomes:
  assumes kernel: "kernel_ok (re_net env)" and R: "listens (dm_listener d) (dm_socks d) R"
    and run: "app_runtime_reload_config env d path server_name = (ok, d')"
  shows "\<exists>unsynced. reload_outcome env d path ok unsynced d'"
proof (cases "path = [] \<or> reload_target d server_name = []")
  case True
  then have "app_runtime_reload_config env d path server_name = (False, d)"
    unfolding app_runtime_reload_config_def Let_def by (elim disjE) simp_all
  then have "ok = False" "d' = d\<lparr>dm_socks := dm_socks d\<rparr>" using run by simp_all
  then show ?thesis using reload_outcome.refused [of "dm_socks d" d env path] by auto
next
  case False
  let ?cur = "case dm_server d of None \<Rightarrow> [] | Some s \<Rightarrow> lcpy (sv_name s) MAX_SERVER_NAME"
  let ?target = "reload_target d server_name"
  obtain res k where st: "reload_stage env d path ?target = (res, k)" by fastforce
  note sf = stage_facts [OF kernel st]
  show ?thesis
  proof (cases res)
    case None
    with run False st have "ok = False" "d' = d\<lparr>dm_socks := k\<rparr>"
      by (simp_all add: app_runtime_reload_config_def Let_def)
    then show ?thesis using reload_outcome.refused [OF sf(1)] by auto
  next
    case (Some cs)
    obtain c sel where cs: "res = Some (c, sel)" using Some by (cases cs) simp
    note loaded = sf(2) [OF cs]
    obtain i where i: "config_server_by_name (Some c) ?target = Some i" "i < length (sc_servers c)"
      "sc_servers c ! i = sel" using server_by_name_agrees loaded by blast
    define bc where "bc = app_runtime_listener_binding_changed (fst (dm_config d)) (dm_listener d) sel"
    define d2 where "d2 = exchanged d k c i (dm_session (app_runtime_invalidate_config_borrows d))"
    have server: "dm_server d2 = Some sel"
      by (simp add: d2_def exchanged_def dm_server_def listener_server_def i)
    have ex: "reload_exchange d k c ?target = (fst (dm_config d), d2)"
      by (simp add: reload_exchange_def config_detach_def config_attach_ptr_def config_attach_def i(1)
          d2_def exchanged_def app_runtime_invalidate_config_borrows_def)
    have step: "(ok, d') = reload_apply env ?cur bc (fst (dm_config d)) c d2"
      using run False st cs ex by (simp add: app_runtime_reload_config_def Let_def bc_def)
    note step = step [unfolded reload_apply_def server option.case]
    obtain b1 s where init: "app_inbound_crypto_init_session_for_server (re_openssl_ready env) sel (dm_session d2) = (b1, s)"
      by fastforce
    have base: "dm_config d2 = (Some c, True)" "dm_refs d2 = dm_refs d + config_key_refs c"
      "dm_codec d2 = dm_codec d" "dm_mux d2 = dm_mux d" "dm_listener d2 = (dm_listener d)\<lparr>ls_server := Some i\<rparr>" "dm_socks d2 = k"
      by (simp_all add: d2_def exchanged_def)
    have d2s: "d2\<lparr>dm_session := s\<rparr> = exchanged d k c i s" by (simp add: d2_def exchanged_def)
    obtain b2 l3 k3 where rb: "(if bc then app_udp_rebind_listener (re_net env) (dm_listener d2) sel (dm_socks d2)
                  else (True, dm_listener d2, dm_socks d2)) = (b2, l3, k3)" by (metis prod_cases3)
    have R2: "listens (dm_listener d2) k R" using R sf(1) base by (simp add: listens_def)
    show ?thesis
    proof (cases "b1 \<and> b2")
      case False
      have same: "l3 = dm_listener d2 \<and> so_open k3 = so_open k" if "\<not> b2"
        using rb that rebind_listens(4) [OF kernel R2, of sel b2 l3 k3] base by (auto split: if_splits)
      have "\<exists>d1. ok = False \<and> d' = runtime_restore env ?cur (fst (dm_config d)) False d1 \<and>
          dm_config d1 = (Some c, True) \<and> dm_refs d1 = dm_refs d + config_key_refs c \<and> dm_codec d1 = dm_codec d \<and>
          dm_mux d1 = dm_mux d \<and> (\<exists>s. dm_listener d1 = (dm_listener d)\<lparr>ls_server := s\<rparr>) \<and> so_open (dm_socks d1) = so_open (dm_socks d)"
      proof (cases b1)
        case True
        with same have "\<not> b2" using False by simp
        with step init rb True same sf(1) base show ?thesis
          by (intro exI [of _ "d2\<lparr>dm_session := s, dm_listener := l3, dm_socks := k3\<rparr>"]) auto
      next
        case False
        with step init sf(1) base show ?thesis by (intro exI [of _ "d2\<lparr>dm_session := s\<rparr>"]) auto
      qed
      then show ?thesis using reload_outcome.restored [OF conjunct1 [OF loaded]] by metis
    next
      case True
      then have rb': "(l3, k3) = (dm_listener (exchanged d k c i s), k) \<or>
          app_udp_rebind_listener (re_net env) (dm_listener (exchanged d k c i s)) sel k = (True, l3, k3)"
        using rb base by (auto simp: exchanged_def split: if_splits)
      obtain b4 d4 where sy: "app_runtime_sync_codec_context env
          ((exchanged d k c i s)\<lparr>dm_listener := l3, dm_socks := k3\<rparr>) (Some c) (Some sel) = (b4, d4)" by fastforce
      have d2u: "d2\<lparr>dm_session := s, dm_listener := l3, dm_socks := k3\<rparr> = (exchanged d k c i s)\<lparr>dm_listener := l3, dm_socks := k3\<rparr>"
        using d2s by simp
      have "(ok, d') = (case (b4, d4) of (False, d4) \<Rightarrow> (False, runtime_restore env ?cur (fst (dm_config d)) True d4)
          | (True, d4) \<Rightarrow> (True, d4\<lparr>dm_refs := config_destroy (fst (dm_config d)) (dm_refs d4)\<rparr>))"
        using step init rb True d2u sy by simp
      then show ?thesis
        using reload_outcome.unsynced [OF conjunct1 [OF loaded] sf(1) i(2) i(3) [symmetric] _ rb']
          reload_outcome.reloaded [OF conjunct1 [OF loaded] sf(1) i(2) i(3) [symmetric] _ rb'] sy loaded
        by (cases b4) auto
    qed
  qed
qed

end
