(* ===== verification/Reload_Properties.thy ===== *)
theory Reload_Properties
  imports Runtime_Facts Config_Properties
begin

text \<open>
  The properties of the reload of the configuration: what it keeps in every case, what a successful
  reload installs, and what a failure to rebuild the codec context leaves behind.
\<close>

section \<open>Every reload\<close>

lemma exchanged_simps [simp]:
  "dm_config (exchanged d k c i s) = (Some c, True)"
  "dm_refs (exchanged d k c i s) = dm_refs d + config_key_refs c"
  "dm_codec (exchanged d k c i s) = dm_codec d" "dm_mux (exchanged d k c i s) = dm_mux d"
  "dm_listener (exchanged d k c i s) = (dm_listener d)\<lparr>ls_server := Some i\<rparr>"
  "dm_socks (exchanged d k c i s) = k"
  by (simp_all add: exchanged_def)

text \<open>The state after the socket may have been exchanged too.\<close>

lemma rebound_facts:
  assumes "kernel_ok os" "listens (dm_listener d) (dm_socks d) R" "so_open k = so_open (dm_socks d)"
    "(l, k') = (dm_listener (exchanged d k c i s), k) \<or>
      app_udp_rebind_listener os (dm_listener (exchanged d k c i s)) server k = (True, l, k')"
  shows "listens l k' R \<and> ls_server l = Some i \<and> ls_config_path l = ls_config_path (dm_listener d)"
proof -
  have R: "listens (dm_listener (exchanged d k c i s)) k R" using assms(2,3) by (simp add: listens_def)
  show ?thesis using assms(4) R rebind_listens(1,2,3) [OF assms(1) R] by auto
qed

lemma reload_facts:
  assumes kernel: "kernel_ok (re_net env)" and inv: "daemon_inv R other d"
    and run: "app_runtime_reload_config env d path server_name = (ok, d')"
  shows "daemon_inv R other d'" "\<not> ok \<Longrightarrow> dm_config d' = dm_config d"
    "ok \<Longrightarrow> \<exists>c server codec. config_load_detached (re_world env) path = Some c \<and> dm_config d' = (Some c, True) \<and>
       dm_server d' = Some server \<and> sv_enabled server \<and> dm_codec d' = Some codec \<and>
       map ke_name (entries_in_use codec) = enabled_names (sc_users c) \<and>
       mx_enforce_wire_decode (dm_mux d') = sv_enforce_wire_decode server \<and>
       mx_enforce_wire_auth (dm_mux d') = sv_enforce_wire_auth server"
    "ls_config_path (dm_listener d') = ls_config_path (dm_listener d)"
proof -
  let ?Q = "\<lambda>ok d'. daemon_inv R other d' \<and> (\<not> ok \<longrightarrow> dm_config d' = dm_config d) \<and>
    (ok \<longrightarrow> (\<exists>c server codec. config_load_detached (re_world env) path = Some c \<and> dm_config d' = (Some c, True) \<and>
       dm_server d' = Some server \<and> sv_enabled server \<and> dm_codec d' = Some codec \<and>
       map ke_name (entries_in_use codec) = enabled_names (sc_users c) \<and>
       mx_enforce_wire_decode (dm_mux d') = sv_enforce_wire_decode server \<and>
       mx_enforce_wire_auth (dm_mux d') = sv_enforce_wire_auth server)) \<and>
    ls_config_path (dm_listener d') = ls_config_path (dm_listener d)"
  have lst: "listens (dm_listener d) (dm_socks d) R" and own: "snd (dm_config d) = (fst (dm_config d) \<noteq> None)"
    and fine: "codec_fine (dm_codec d)"
    and refs: "dm_refs d = other + attached_refs (fst (dm_config d)) + codec_refs (dm_codec d)"
    using inv by (simp_all add: daemon_inv_def)
  let ?old = "fst (dm_config d)"
  have old: "dm_config d = (?old, ?old \<noteq> None)" using own by (simp add: prod_eq_iff)
  obtain unsynced where "reload_outcome env d path ok unsynced d'" using reload_outcomes [OF kernel lst run] by blast
  then have "?Q ok d'"
  proof (induction rule: reload_outcome.induct)
    case (refused k)
    then show ?case using inv by (simp add: daemon_inv_def listens_def)
  next
    case (restored c d1 name)
    have r: "dm_refs d1 = (other + codec_refs (dm_codec d)) + attached_refs ?old + config_key_refs c"
      using restored(3) refs by (simp add: ac_simps)
    note f = restore_facts [OF restored(2) r refl, of env name False]
    let ?d' = "runtime_restore env name ?old False d1"
    have refs': "dm_refs ?d' = other + attached_refs (fst (dm_config ?d')) + codec_refs (dm_codec ?d')"
      using f(1-3) restored(4) by (simp add: ac_simps)
    obtain s1 s2 where l: "dm_listener ?d' = (dm_listener d1)\<lparr>ls_server := s1\<rparr>"
      "dm_listener d1 = (dm_listener d)\<lparr>ls_server := s2\<rparr>" using f(6) restored(6) by blast
    then have "listens (dm_listener ?d') (dm_socks ?d') R"
      using lst restored(7) f(5) by (simp add: listens_def)
    then show ?case using f(1) f(3) restored(4) refs' fine own old l by (simp add: daemon_inv_def)
  next
    case (unsynced c k i server l k' s d4 name)
    let ?d3 = "(exchanged d k c i s)\<lparr>dm_listener := l, dm_socks := k'\<rparr>"
    have r3: "dm_refs ?d3 = (other + attached_refs ?old + config_key_refs c) + codec_refs (dm_codec ?d3)"
      using refs by (simp add: ac_simps)
    note sf = sync_facts [OF _ r3 unsynced(7)]
    note rb = rebound_facts [OF kernel lst unsynced(2) unsynced(6)]
    have cfg: "dm_config d4 = (Some c, True)" using sf(3) fine by (simp add: same_frame_def)
    have r4: "dm_refs d4 = (other + codec_refs (dm_codec d4)) + attached_refs ?old + config_key_refs c"
      using sf(2) fine by (simp add: ac_simps)
    note f = restore_facts [OF cfg r4 refl, of env name True]
    let ?d' = "runtime_restore env name ?old True d4"
    have "dm_listener d4 = l" "dm_socks d4 = k'" using sf(3) fine by (simp_all add: same_frame_def)
    moreover obtain s1 where l1: "dm_listener ?d' = (dm_listener d4)\<lparr>ls_server := s1\<rparr>" using f(6) by blast
    ultimately have "listens (dm_listener ?d') (dm_socks ?d') R"
      "ls_config_path (dm_listener ?d') = ls_config_path (dm_listener d)"
      using rb f(5) by (simp_all add: listens_def)
    moreover have "dm_refs ?d' = other + attached_refs (fst (dm_config ?d')) + codec_refs (dm_codec ?d')"
      using f(1-3) by (simp add: ac_simps)
    ultimately show ?case using f(1) f(3) sf(1) fine own old by (simp add: daemon_inv_def)
  next
    case (reloaded c k i server l k' s d4)
    let ?d3 = "(exchanged d k c i s)\<lparr>dm_listener := l, dm_socks := k'\<rparr>"
    have r3: "dm_refs ?d3 = (other + attached_refs ?old + config_key_refs c) + codec_refs (dm_codec ?d3)"
      using refs by (simp add: ac_simps)
    note sf = sync_facts [OF _ r3 reloaded(7)]
    note rb = rebound_facts [OF kernel lst reloaded(2) reloaded(6)]
    have fr: "dm_listener d4 = l" "dm_socks d4 = k'" "dm_config d4 = (Some c, True)"
      using sf(3) fine by (simp_all add: same_frame_def)
    have "dm_refs d4 = (other + config_key_refs c + codec_refs (dm_codec d4)) + attached_refs ?old"
      using sf(2) fine by (simp add: ac_simps)
    then have dst: "config_destroy ?old (dm_refs d4) = other + config_key_refs c + codec_refs (dm_codec d4)"
      by (simp add: config_destroy_refs)
    have srv: "dm_server (d4\<lparr>dm_refs := config_destroy ?old (dm_refs d4)\<rparr>) = Some server"
      using rb fr reloaded(3,4) by (simp add: dm_server_def listener_server_def)
    have inv': "daemon_inv R other (d4\<lparr>dm_refs := config_destroy ?old (dm_refs d4)\<rparr>)"
      using rb fr dst sf(1) fine by (simp add: daemon_inv_def ac_simps)
    obtain codec where "dm_codec d4 = Some codec" "map ke_name (entries_in_use codec) = enabled_names (sc_users c)"
      "mx_enforce_wire_decode (dm_mux d4) = sv_enforce_wire_decode server"
      "mx_enforce_wire_auth (dm_mux d4) = sv_enforce_wire_auth server"
      using sf(4) fine by auto
    then show ?case using inv' srv reloaded(1,5) fr rb by simp
  qed
  then show "daemon_inv R other d'" "\<not> ok \<Longrightarrow> dm_config d' = dm_config d"
    "ok \<Longrightarrow> \<exists>c server codec. config_load_detached (re_world env) path = Some c \<and> dm_config d' = (Some c, True) \<and>
       dm_server d' = Some server \<and> sv_enabled server \<and> dm_codec d' = Some codec \<and>
       map ke_name (entries_in_use codec) = enabled_names (sc_users c) \<and>
       mx_enforce_wire_decode (dm_mux d') = sv_enforce_wire_decode server \<and>
       mx_enforce_wire_auth (dm_mux d') = sv_enforce_wire_auth server"
    "ls_config_path (dm_listener d') = ls_config_path (dm_listener d)"
    by blast+
qed

text \<open>Without a change of binding the reload comes down to the synchronisation.\<close>

lemma reload_same_binding:
  assumes "path \<noteq> []" "target = reload_target d server_name" "target \<noteq> []"
    and load: "config_load_detached (re_world env) path = Some c"
    and srv: "config_server_by_name_from_ptr (Some c) target = Some server" "sv_enabled server"
    and init: "re_openssl_ready env" "sv_secure server \<longrightarrow> sv_priv_key server \<noteq> None"
    and same: "\<not> app_runtime_listener_binding_changed (fst (dm_config d)) (dm_listener d) server"
  shows "\<exists>name i s. i < length (sc_servers c) \<and> sc_servers c ! i = server \<and>
    app_runtime_reload_config env d path server_name =
      (case app_runtime_sync_codec_context env (exchanged d (dm_socks d) c i s) (Some c) (Some server) of
         (False, d4) \<Rightarrow> (False, runtime_restore env name (fst (dm_config d)) True d4)
       | (True, d4) \<Rightarrow> (True, d4\<lparr>dm_refs := config_destroy (fst (dm_config d)) (dm_refs d4)\<rparr>))"
proof -
  obtain i where i: "config_server_by_name (Some c) target = Some i" "i < length (sc_servers c)"
    "sc_servers c ! i = server" using server_by_name_agrees [OF srv(1)] by blast
  have initOK: "\<exists>s'. app_inbound_crypto_init_session_for_server (re_openssl_ready env) server s = (True, s')" for s
    using init by (auto simp: app_inbound_crypto_init_session_for_server_def siglatch_openssl_session_init_def)
  have stage: "reload_stage env d path target = (Some (c, server), dm_socks d)"
    using load srv same initOK [of zero_session] by (auto simp: reload_stage_def)
  define d2 where "d2 = exchanged d (dm_socks d) c i (dm_session (app_runtime_invalidate_config_borrows d))"
  have ex: "reload_exchange d (dm_socks d) c target = (fst (dm_config d), d2)"
    by (simp add: reload_exchange_def config_detach_def config_attach_ptr_def config_attach_def i(1)
        d2_def exchanged_def app_runtime_invalidate_config_borrows_def)
  have server: "dm_server d2 = Some server" by (simp add: d2_def dm_server_def listener_server_def i)
  obtain s where s: "app_inbound_crypto_init_session_for_server (re_openssl_ready env) server (dm_session d2) = (True, s)"
    using initOK by blast
  have upd: "d2\<lparr>dm_session := s\<rparr> = exchanged d (dm_socks d) c i s"
    by (simp add: d2_def exchanged_def)
  let ?name = "case dm_server d of None \<Rightarrow> [] | Some s \<Rightarrow> lcpy (sv_name s) MAX_SERVER_NAME"
  have "app_runtime_reload_config env d path server_name = reload_apply env ?name False (fst (dm_config d)) c d2"
    using assms(1-3) stage ex same by (simp add: app_runtime_reload_config_def Let_def)
  also have "\<dots> = (case app_runtime_sync_codec_context env (exchanged d (dm_socks d) c i s) (Some c) (Some server) of
         (False, d4) \<Rightarrow> (False, runtime_restore env ?name (fst (dm_config d)) True d4)
       | (True, d4) \<Rightarrow> (True, d4\<lparr>dm_refs := config_destroy (fst (dm_config d)) (dm_refs d4)\<rparr>))"
    by (simp add: reload_apply_def server s upd)
  finally show ?thesis using i by blast
qed

section \<open>A small daemon\<close>

text \<open>It listens on socket 3 for the server of the small configuration.\<close>

definition sample_net :: net_os where
  "sample_net = \<lparr>os_socket = (\<lambda>n used. if int n + 3 \<in> used then -1 else int n + 3), os_bind = (\<lambda>_ _ _. True),
     os_getsockname = (\<lambda>_. None)\<rparr>"

definition sample_env :: runtime_env where
  "sample_env = \<lparr>re_world = sample_world, re_net = sample_net, re_openssl_ready = True, re_codec_ready = True,
     re_codec_calloc = True, re_up_ref = (\<lambda>_. True)\<rparr>"

definition sample_listener :: AppRuntimeListenerState where
  "sample_listener = \<lparr>ls_sock = 3, ls_bound_port = 50001, ls_bound_ip = [], ls_config_path = ''siglatch.conf'',
     ls_server = Some 0\<rparr>"

definition sample_daemon :: daemon where
  "sample_daemon = \<lparr>dm_listener = sample_listener, dm_session = zero_session, dm_config = (Some sample_config, True),
     dm_codec = Some zero_codec_context, dm_refs = config_key_refs sample_config, dm_mux = zero_context,
     dm_socks = \<lparr>so_calls = 1, so_open = {3}\<rparr>\<rparr>"

lemma sample_kernel: "kernel_ok sample_net"
  by (auto simp: kernel_ok_def sample_net_def)

lemma sample_daemon_inv: "daemon_inv {} {#} sample_daemon"
  using zero_context_ok by (simp add: daemon_inv_def sample_daemon_def listens_def sample_listener_def)

lemma sample_target: "reload_target sample_daemon [] = ''main''"
  by (simp add: reload_target_def dm_server_def listener_server_def sample_daemon_def sample_listener_def
      sample_config_def sample_server_def zero_server_def lib_str_lcpy_def MAX_SERVER_NAME_def)

text \<open>The reload of the same file succeeds.\<close>

lemma sample_reload: "fst (app_runtime_reload_config sample_env sample_daemon ''siglatch.conf'' []) = True"
proof -
  have load: "config_load_detached (re_world sample_env) ''siglatch.conf'' = Some sample_config"
    using sample_loaded [of "''siglatch.conf''"] by (simp add: config_load_detached_def sample_env_def)
  have srv: "config_server_by_name_from_ptr (Some sample_config) ''main'' = Some sample_server" "sv_enabled sample_server"
    by (simp_all add: config_server_by_name_from_ptr_def sample_config_def sample_server_def zero_server_def)
  have "\<exists>name i s. i < length (sc_servers sample_config) \<and> sc_servers sample_config ! i = sample_server \<and>
    app_runtime_reload_config sample_env sample_daemon ''siglatch.conf'' [] =
      (case app_runtime_sync_codec_context sample_env (exchanged sample_daemon (dm_socks sample_daemon) sample_config i s)
          (Some sample_config) (Some sample_server) of
         (False, d4) \<Rightarrow> (False, runtime_restore sample_env name (fst (dm_config sample_daemon)) True d4)
       | (True, d4) \<Rightarrow> (True, d4\<lparr>dm_refs := config_destroy (fst (dm_config sample_daemon)) (dm_refs d4)\<rparr>))"
    by (rule reload_same_binding [OF _ sample_target [symmetric] _ load srv])
      (simp_all add: sample_env_def sample_server_def zero_server_def sample_daemon_def sample_listener_def
        app_runtime_listener_binding_changed_def app_runtime_listener_bound_port_def)
  then obtain name i s where r: "app_runtime_reload_config sample_env sample_daemon ''siglatch.conf'' [] =
      (case app_runtime_sync_codec_context sample_env (exchanged sample_daemon (dm_socks sample_daemon) sample_config i s)
          (Some sample_config) (Some sample_server) of
         (False, d4) \<Rightarrow> (False, runtime_restore sample_env name (fst (dm_config sample_daemon)) True d4)
       | (True, d4) \<Rightarrow> (True, d4\<lparr>dm_refs := config_destroy (fst (dm_config sample_daemon)) (dm_refs d4)\<rparr>))" by blast
  have "fst (app_runtime_sync_codec_context sample_env (exchanged sample_daemon (dm_socks sample_daemon) sample_config i s)
          (Some sample_config) (Some sample_server))"
    by (simp add: app_runtime_sync_codec_context_def exchanged_def app_runtime_invalidate_config_borrows_def
        sample_daemon_def sample_env_def sample_world_def shared_knock_codec_context_clear_server_key_def
        shared_knock_codec_context_free_server_key_def sync_clear_keychain.simps zero_codec_context_def
        sample_server_def zero_server_def sample_config_def sample_user_def zero_user_cfg_def
        shared_knock_codec_context_add_keychain_def user_key_entry_def zero_entry_def
        shared_knock_codec_context_name_exists_def shared_knock_codec_context_ensure_capacity_def
        shared_knock_codec_context_copy_entry_def up_ref_all_def m7mux_set_context_def wire_policy_context_def
        m7mux_connect_validate_context_def Let_def split: prod.splits)
  with r show ?thesis by (auto split: prod.splits bool.splits)
qed

section \<open>Properties\<close>

text \<open>C29: a reload, however it ends, keeps the daemon's invariant: the listener has
  its socket and no descriptor is left open besides it and the others' (\<open>R\<close>), the attached configuration is
  owned, and the references to keys are exactly those of the configuration, of the codec context and of
  others.\<close>

theorem reload_keeps_daemon_invariant:
  assumes "kernel_ok (re_net env)" "daemon_inv R other d"
    "app_runtime_reload_config env d path server_name = (ok, d')"
  shows "daemon_inv R other d'"
  using reload_facts(1) [OF assms] .

lemma reload_keeps_daemon_invariant_witness:
  "daemon_inv {} {#} (snd (app_runtime_reload_config sample_env sample_daemon ''siglatch.conf'' []))"
proof -
  have k: "kernel_ok (re_net sample_env)" using sample_kernel by (simp add: sample_env_def)
  from reload_keeps_daemon_invariant [OF k sample_daemon_inv prod.collapse [symmetric]] show ?thesis .
qed

text \<open>C30: a reload that succeeds has attached the configuration read from the file, with an
  enabled server for the listener, the codec keys of exactly the enabled users and the wire policy of the
  server; one that fails leaves the configuration that was attached.\<close>

theorem reload_commits_or_keeps:
  assumes "kernel_ok (re_net env)" "daemon_inv R other d"
    "app_runtime_reload_config env d path server_name = (ok, d')"
  shows "if ok then \<exists>c server codec. config_load_detached (re_world env) path = Some c \<and> dm_config d' = (Some c, True) \<and>
       dm_server d' = Some server \<and> sv_enabled server \<and> dm_codec d' = Some codec \<and>
       map ke_name (entries_in_use codec) = enabled_names (sc_users c) \<and>
       mx_enforce_wire_decode (dm_mux d') = sv_enforce_wire_decode server \<and>
       mx_enforce_wire_auth (dm_mux d') = sv_enforce_wire_auth server
     else dm_config d' = dm_config d"
  using reload_facts(2,3) [OF assms] by (cases ok) simp_all

lemma reload_commits_or_keeps_witness:
  "fst (app_runtime_reload_config sample_env sample_daemon ''siglatch.conf'' []) \<and>
   fst (dm_config (snd (app_runtime_reload_config sample_env sample_daemon ''siglatch.conf'' []))) = Some sample_config"
proof -
  have k: "kernel_ok (re_net sample_env)" using sample_kernel by (simp add: sample_env_def)
  have load: "config_load_detached (re_world sample_env) ''siglatch.conf'' = Some sample_config"
    using sample_loaded [of "''siglatch.conf''"] by (simp add: config_load_detached_def sample_env_def)
  from reload_commits_or_keeps [OF k sample_daemon_inv prod.collapse [symmetric], of "''siglatch.conf''" "[]"]
  show ?thesis using sample_reload load by auto
qed

text \<open>C31: when the enabled users of the configuration that is read do not have distinct,
  non-empty names, which its validation does not check, a reload that keeps the binding fails after the exchange.
  The old configuration is attached again and the listener has its socket, port and address as before, but the
  codec context is not rebuilt from the old configuration: its keychain holds the users of the refused one
  before the user that failed, and no other.\<close>

theorem reload_sync_failure:
  assumes "daemon_inv R other d" "dm_codec d \<noteq> None" "re_codec_ready env"
    and "path \<noteq> []" "target = reload_target d server_name" "target \<noteq> []"
    and "config_load_detached (re_world env) path = Some c"
    and "config_server_by_name_from_ptr (Some c) target = Some server" "sv_enabled server"
    and "re_openssl_ready env" "sv_secure server \<longrightarrow> sv_priv_key server \<noteq> None"
    and "\<not> app_runtime_listener_binding_changed (fst (dm_config d)) (dm_listener d) server"
    and bad: "\<not> distinct (enabled_names (sc_users c)) \<or> Some [] \<in> set (enabled_names (sc_users c))"
  shows "\<exists>d' codec rest. app_runtime_reload_config env d path server_name = (False, d') \<and>
    dm_config d' = dm_config d \<and> dm_socks d' = dm_socks d \<and> (\<exists>s. dm_listener d' = (dm_listener d)\<lparr>ls_server := s\<rparr>) \<and>
    dm_codec d' = Some codec \<and> rest \<noteq> [] \<and>
    enabled_names (sc_users c) = map ke_name (entries_in_use codec) @ rest"
proof -
  have fine: "codec_fine (dm_codec d)" and own: "snd (dm_config d) = (fst (dm_config d) \<noteq> None)"
    and refs: "dm_refs d = other + attached_refs (fst (dm_config d)) + codec_refs (dm_codec d)"
    using assms(1) by (simp_all add: daemon_inv_def)
  obtain name i s where i: "i < length (sc_servers c)" "sc_servers c ! i = server"
    and run: "app_runtime_reload_config env d path server_name =
      (case app_runtime_sync_codec_context env (exchanged d (dm_socks d) c i s) (Some c) (Some server) of
         (False, d4) \<Rightarrow> (False, runtime_restore env name (fst (dm_config d)) True d4)
       | (True, d4) \<Rightarrow> (True, d4\<lparr>dm_refs := config_destroy (fst (dm_config d)) (dm_refs d4)\<rparr>))"
    using reload_same_binding [OF assms(4-12)] by blast
  let ?d3 = "exchanged d (dm_socks d) c i s"
  obtain b d4 where sy: "app_runtime_sync_codec_context env ?d3 (Some c) (Some server) = (b, d4)" by fastforce
  have r3: "dm_refs ?d3 = (other + attached_refs (fst (dm_config d)) + config_key_refs c) + codec_refs (dm_codec ?d3)"
    using refs by (simp add: ac_simps)
  have fine3: "codec_fine (dm_codec ?d3)" using fine by simp
  note sf = sync_facts [OF fine3 r3 sy]
  have "\<not> b"
  proof
    assume b
    then obtain codec where co: "dm_codec d4 = Some codec" "map ke_name (entries_in_use codec) = enabled_names (sc_users c)"
      using sf(4) by blast
    then have "context_ok codec" using sf(1) by simp
    with co(2) bad show False
      unfolding context_ok_def by (metis list.set_map)
  qed
  obtain codec rest where co: "dm_codec d4 = Some codec" "enabled_names (sc_users c) = map ke_name (entries_in_use codec) @ rest"
    using sf(5) assms(2,3) \<open>\<not> b\<close> by auto
  have "context_ok codec" using sf(1) co by simp
  then have "rest \<noteq> []" using co(2) bad unfolding context_ok_def by (metis append_Nil2 list.set_map)
  moreover have "dm_config d4 = (Some c, True)" "dm_socks d4 = dm_socks d" "dm_listener d4 = (dm_listener d)\<lparr>ls_server := Some i\<rparr>"
    using sf(3) by (simp_all add: same_frame_def exchanged_def)
  moreover have "dm_refs d4 = (other + codec_refs (dm_codec d4)) + attached_refs (fst (dm_config d)) + config_key_refs c"
    using sf(2) by (simp add: ac_simps)
  moreover note restore_facts(1,3,5,6) [OF calculation(2,5) refl, of env name True]
  moreover have "dm_config d = (fst (dm_config d), fst (dm_config d) \<noteq> None)" using own by (simp add: prod_eq_iff)
  ultimately show ?thesis using run sy \<open>\<not> b\<close> co by auto
qed

text \<open>The small configuration with its user twice.\<close>

definition twice_ini :: ini_data where
  "twice_ini = (fst sample_ini, hd (snd sample_ini) # snd sample_ini)"

definition twice_world :: world where
  "twice_world = sample_world\<lparr>w_ini := (\<lambda>path. Some \<lparr>file_content = ini_print twice_ini, file_error = False\<rparr>)\<rparr>"

definition twice_config :: siglatch_config where
  "twice_config = sample_config\<lparr>sc_users := [sample_user, sample_user]\<rparr>"

lemma twice_ini_ok: "ini_ok twice_ini"
  by code_simp

lemma twice_consumed:
  "(case config_consume_document_ptr True (\<lambda>_. True) (\<lambda>_ _. False) (ini_layout twice_ini) of
      None \<Rightarrow> None | Some c \<Rightarrow> keys_load twice_world c) = Some twice_config"
  by code_simp

lemma twice_loaded: "path \<noteq> [] \<Longrightarrow> config_build_from_path twice_world path = Some twice_config"
  using twice_consumed ini_read_print [OF twice_ini_ok, of "\<lambda>_. True"]
  by (simp add: config_build_from_path_def twice_world_def sample_world_def split: option.splits)

lemma reload_sync_failure_witness:
  "\<exists>d' codec. app_runtime_reload_config (sample_env\<lparr>re_world := twice_world\<rparr>) sample_daemon ''siglatch.conf'' [] = (False, d') \<and>
     fst (dm_config d') = Some sample_config \<and> dm_codec d' = Some codec \<and>
     map ke_name (entries_in_use codec) \<in> {[], [Some ''alice'']}"
proof -
  let ?env = "sample_env\<lparr>re_world := twice_world\<rparr>"
  have load: "config_load_detached (re_world ?env) ''siglatch.conf'' = Some twice_config"
    using twice_loaded [of "''siglatch.conf''"] by (simp add: config_load_detached_def)
  have srv: "config_server_by_name_from_ptr (Some twice_config) ''main'' = Some sample_server" "sv_enabled sample_server"
    by (simp_all add: config_server_by_name_from_ptr_def twice_config_def sample_config_def sample_server_def zero_server_def)
  have names: "enabled_names (sc_users twice_config) = [Some ''alice'', Some ''alice'']"
    by (simp add: enabled_names_def twice_config_def sample_user_def zero_user_cfg_def)
  have "\<exists>d' codec rest. app_runtime_reload_config ?env sample_daemon ''siglatch.conf'' [] = (False, d') \<and>
    dm_config d' = dm_config sample_daemon \<and> dm_socks d' = dm_socks sample_daemon \<and>
    (\<exists>s. dm_listener d' = (dm_listener sample_daemon)\<lparr>ls_server := s\<rparr>) \<and> dm_codec d' = Some codec \<and> rest \<noteq> [] \<and>
    enabled_names (sc_users twice_config) = map ke_name (entries_in_use codec) @ rest"
    by (rule reload_sync_failure [OF sample_daemon_inv _ _ _ sample_target [symmetric] _ load srv])
      (simp_all add: names sample_env_def sample_server_def zero_server_def sample_daemon_def sample_listener_def
        app_runtime_listener_binding_changed_def app_runtime_listener_bound_port_def)
  then show ?thesis
    unfolding names by (auto simp: sample_daemon_def append_eq_Cons_conv Cons_eq_append_conv)
qed

end
