(* ===== verification/Payload_Text.thy ===== *)
theory Payload_Text
  imports Config Job Codec_Common
begin

text \<open>
  The text that payloads are turned into: \<open>stdlib/base64.c\<close>, \<open>app/payload/reply.c\<close>, and the helpers
  of \<open>app/payload/unstructured.c\<close> and of the builtins that look at the bytes of a payload.
\<close>

section \<open>stdlib/base64.c\<close>

definition base64_table :: string where
  "base64_table = ''ABCDEFGHIJKLMNOPQRSTUVWXYZabcdefghijklmnopqrstuvwxyz0123456789+/''"

definition base64_char :: "u8 \<Rightarrow> char" where
  "base64_char b = base64_table ! unat b"

definition base64_quad :: "u8 \<Rightarrow> u8 \<Rightarrow> u8 \<Rightarrow> u8 list" where
  "base64_quad a b c =
     [drop_bit 2 (a AND 0xfc), push_bit 4 (a AND 0x03) + drop_bit 4 (b AND 0xf0),
      push_bit 2 (b AND 0x0f) + drop_bit 6 (c AND 0xc0), c AND 0x3f]"

text \<open>The characters written, in order, before the terminating zero.\<close>

fun base64_chars :: "u8 list \<Rightarrow> string" where
  "base64_chars (a # b # c # rest) = map base64_char (base64_quad a b c) @ base64_chars rest"
| "base64_chars [a, b] = map base64_char (take 3 (base64_quad a b 0)) @ ''=''"
| "base64_chars [a] = map base64_char (take 2 (base64_quad a 0 0)) @ ''==''"
| "base64_chars [] = []"

text \<open>
  \<open>None\<close> is the result -1: a character had no room before the last byte of the output. The output
  length is not zero in any call.
\<close>

definition base64_encode :: "u8 list \<Rightarrow> nat \<Rightarrow> string option" where
  "base64_encode input output_len =
     (let s = base64_chars input in if length s \<le> output_len - 1 then Some s else None)"

definition app_daemon_payload_base64_size :: "nat \<Rightarrow> nat option" where
  "app_daemon_payload_base64_size input_len =
     (if input_len > SIZE_MAX - 2 then None
      else let groups = (input_len + 2) div 3
           in if groups > (SIZE_MAX - 1) div 4 then None else Some (groups * 4 + 1))"

definition app_payload_unstructured_base64_size :: "nat \<Rightarrow> nat option" where
  "app_payload_unstructured_base64_size input_len =
     (if input_len > SIZE_MAX - 2 then None
      else let groups = (input_len + 2) div 3
           in if groups > (SIZE_MAX - 1) div 4 then None else Some (groups * 4 + 1))"

section \<open>app/payload/reply.c\<close>

definition APP_ACTION_REPLY_MESSAGE_MAX :: nat where "APP_ACTION_REPLY_MESSAGE_MAX = 512"

record AppActionReply =
  ar_should_reply :: bool
  ar_ok :: bool
  ar_truncated :: bool
  ar_message :: string

definition app_action_reply_reset :: AppActionReply where
  "app_action_reply_reset = \<lparr>ar_should_reply = False, ar_ok = False, ar_truncated = False, ar_message = []\<rparr>"

text \<open>\<open>text\<close> is what the format and its arguments print; \<open>vsnprintf\<close> does not fail on them.\<close>

definition app_action_reply_set :: "bool \<Rightarrow> string \<Rightarrow> AppActionReply" where
  "app_action_reply_set ok text =
     app_action_reply_reset\<lparr>ar_should_reply := True, ar_ok := ok,
       ar_message := take (APP_ACTION_REPLY_MESSAGE_MAX - 1) text,
       ar_truncated := APP_ACTION_REPLY_MESSAGE_MAX \<le> length text\<rparr>"

text \<open>\<open>%d\<close> of an \<open>int\<close>.\<close>

definition int_text :: "int \<Rightarrow> string" where
  "int_text i = (if i < 0 then ''-'' @ dec_string (nat (- i)) else dec_string (nat i))"

section \<open>The bytes of a payload\<close>

definition app_payload_unstructured_is_ascii :: "u8 list \<Rightarrow> bool" where
  "app_payload_unstructured_is_ascii buf =
     list_all (\<lambda>b. b = 10 \<or> b = 13 \<or> b = 9 \<or> \<not> (b < 32 \<or> b > 126)) buf"

definition app_builtin_test_blurt_payload_is_ascii :: "u8 list \<Rightarrow> bool" where
  "app_builtin_test_blurt_payload_is_ascii payload =
     list_all (\<lambda>b. b = 9 \<or> b = 10 \<or> b = 13 \<or> \<not> (b < 32 \<or> b > 126)) payload"

text \<open>The C string that starts a buffer.\<close>

definition text_of :: "u8 list \<Rightarrow> string" where
  "text_of bytes = takeWhile (\<lambda>c. c \<noteq> nul) (map (\<lambda>b. char_of (unat b)) bytes)"

section \<open>Facts about base64\<close>

lemma length_base64_chars: "length (base64_chars bs) = (length bs + 2) div 3 * 4"
proof (induction bs rule: base64_chars.induct)
  case (1 a b c rest)
  have "(length (a # b # c # rest) + 2) div 3 = (length rest + 2) div 3 + 1" by simp
  with 1 show ?case by (simp add: base64_quad_def)
qed (simp_all add: base64_quad_def)

text \<open>The size computed for an input is just enough for its encoding.\<close>

lemma base64_size_exact:
  assumes "app_daemon_payload_base64_size (length bs) = Some n" "0 < m"
  shows "base64_encode bs m = (if n \<le> m then Some (base64_chars bs) else None)"
  using assms length_base64_chars [of bs]
  by (auto simp: base64_encode_def app_daemon_payload_base64_size_def Let_def split: if_splits)

lemma base64_sizes_agree: "app_payload_unstructured_base64_size n = app_daemon_payload_base64_size n"
  by (simp add: app_payload_unstructured_base64_size_def app_daemon_payload_base64_size_def)

text \<open>A decoder, to show that nothing is lost.\<close>

definition base64_value :: "char \<Rightarrow> u8" where
  "base64_value c = (case find_idx (\<lambda>d. d = c) base64_table of None \<Rightarrow> 0 | Some i \<Rightarrow> word_of_nat i)"

fun base64_bytes :: "string \<Rightarrow> u8 list" where
  "base64_bytes (w # x # y # z # rest) =
     (let a = push_bit 2 (base64_value w) OR drop_bit 4 (base64_value x);
          b = push_bit 4 (base64_value x) OR drop_bit 2 (base64_value y);
          c = push_bit 6 (base64_value y) OR base64_value z
      in if y = CHR ''='' then [a] else if z = CHR ''='' then [a, b] else a # b # c # base64_bytes rest)"
| "base64_bytes _ = []"

text \<open>Bytes are compared bit by bit.\<close>

lemma u8_bit: "8 \<le> n \<Longrightarrow> \<not> bit (a :: u8) n"
  using bit_imp_le_length [of a n] by auto

lemma u8_eqI:
  assumes "\<And>n. n \<in> {0, 1, 2, 3, 4, 5, 6, 7} \<Longrightarrow> bit a n = bit b n"
  shows "a = (b :: u8)"
proof (rule bit_word_eqI)
  fix n assume "n < LENGTH(8)"
  then have "n < 8" by simp
  then have "n \<in> {0, 1, 2, 3, 4, 5, 6, 7}" unfolding insert_iff empty_iff by presburger
  then show "bit a n = bit b n" by (rule assms)
qed

lemmas u8_bits = bit_simps u8_bit numeral_2_eq_2 [symmetric] numeral_3_eq_3 [symmetric]

lemma base64_quad_or:
  "base64_quad a b c =
     [drop_bit 2 (a AND 0xfc), push_bit 4 (a AND 0x03) OR drop_bit 4 (b AND 0xf0),
      push_bit 2 (b AND 0x0f) OR drop_bit 6 (c AND 0xc0), c AND 0x3f]"
proof -
  have "push_bit 4 (a AND 3) + drop_bit 4 (b AND 0xf0) = push_bit 4 (a AND 3) OR drop_bit 4 (b AND 0xf0)"
    by (rule disjunctive_add) (auto simp: u8_bits)
  moreover have "push_bit 2 (b AND 0xf) + drop_bit 6 (c AND 0xc0) = push_bit 2 (b AND 0xf) OR drop_bit 6 (c AND 0xc0)"
    by (rule disjunctive_add) (auto simp: u8_bits)
  ultimately show ?thesis by (simp add: base64_quad_def)
qed

lemma base64_join:
  "push_bit 2 (drop_bit 2 (a AND 0xfc)) OR drop_bit 4 (push_bit 4 (a AND 3) OR drop_bit 4 (b AND 0xf0)) = (a :: u8)"
  "push_bit 4 (push_bit 4 (a AND 3) OR drop_bit 4 (b AND 0xf0)) OR
     drop_bit 2 (push_bit 2 (b AND 0x0f) OR drop_bit 6 (c AND 0xc0)) = (b :: u8)"
  "push_bit 6 (push_bit 2 (b AND 0x0f) OR drop_bit 6 (c AND 0xc0)) OR (c AND 0x3f) = (c :: u8)"
  by (rule u8_eqI, auto simp: u8_bits)+

lemma base64_digits: "list_all (\<lambda>i. base64_value (base64_table ! i) = word_of_nat i \<and> base64_table ! i \<noteq> CHR ''='') [0..<64]"
  by code_simp

lemma u8_small: "(\<And>n. n \<in> {6, 7} \<Longrightarrow> \<not> bit q n) \<Longrightarrow> unat (q :: u8) < 64"
proof -
  assume h: "\<And>n. n \<in> {6, 7} \<Longrightarrow> \<not> bit q n"
  have "take_bit 6 q = q" by (rule u8_eqI) (use h in \<open>auto simp: bit_simps\<close>)
  then have "unat q = take_bit 6 (unat q)" by (metis unsigned_take_bit_eq)
  then show ?thesis using take_bit_nat_less_exp [of 6 "unat q"] by simp
qed

lemma base64_char_value:
  assumes "q \<in> set (base64_quad a b c)"
  shows "base64_value (base64_char q) = q" "base64_char q \<noteq> CHR ''=''"
proof -
  have "unat q < 64"
    by (rule u8_small) (use assms in \<open>auto simp: base64_quad_or u8_bits\<close>)
  then have "unat q \<in> set [0..<64]" by simp
  with base64_digits have "base64_value (base64_table ! unat q) = word_of_nat (unat q) \<and> base64_table ! unat q \<noteq> CHR ''=''"
    unfolding list_all_iff by blast
  then show "base64_value (base64_char q) = q" "base64_char q \<noteq> CHR ''=''"
    by (simp_all add: base64_char_def)
qed

lemma base64_roundtrip: "base64_bytes (base64_chars bs) = bs"
proof (induction bs rule: base64_chars.induct)
  case (1 a b c rest)
  note v = base64_char_value [of _ a b c, unfolded base64_quad_or, simplified]
  show ?case using 1 v base64_join by (simp add: base64_quad_or Let_def)
next
  case (2 a b)
  note v = base64_char_value [of _ a b 0, unfolded base64_quad_or, simplified]
  show ?case
    using v base64_join(1) [of a b] base64_join(2) [of a b 0] by (simp add: base64_quad_or Let_def)
next
  case (3 a)
  note v = base64_char_value [of _ a 0 0, unfolded base64_quad_or, simplified]
  show ?case using v base64_join(1) [of a 0] by (simp add: base64_quad_or Let_def)
qed simp

end
