(* ===== verification/Builtins.thy ===== *)
theory Builtins
  imports Runtime Payload_Text
begin

text \<open>
  \<open>siglatch/app/builtin\<close>: the actions that the daemon performs itself. Each handler takes the daemon,
  the heap with the payload of the job and the job, and returns whether it succeeded, its reply and the
  daemon. \<open>is_ipv6\<close> is \<open>inet_pton(AF_INET6, ...) = 1\<close>.
\<close>

section \<open>builtin/bind_target.c\<close>

record AppBuiltinBindTarget =
  bt_has_ip_override :: bool
  bt_has_port_override :: bool
  bt_bind_ip :: string
  bt_port :: int

definition zero_bind_target :: AppBuiltinBindTarget where
  "zero_bind_target = \<lparr>bt_has_ip_override = False, bt_has_port_override = False, bt_bind_ip = [], bt_port = 0\<rparr>"

definition app_builtin_parse_port_text :: "string \<Rightarrow> int option" where
  "app_builtin_parse_port_text text =
     (if text = [] then None
      else case strtoul10 text of
        (port_ul, rest) \<Rightarrow>
          if rest \<noteq> [] then None
          else if port_ul = 0 \<or> port_ul > 65535 then None
          else Some (int port_ul))"

definition app_builtin_is_all_digits :: "string \<Rightarrow> bool" where
  "app_builtin_is_all_digits text \<longleftrightarrow> text \<noteq> [] \<and> list_all isdigit text"

definition addr_is_ipv4 :: "string \<Rightarrow> bool" where
  "addr_is_ipv4 ip \<longleftrightarrow> inet_pton4 ip \<noteq> None"

definition app_builtin_is_ip_literal :: "(string \<Rightarrow> bool) \<Rightarrow> string \<Rightarrow> bool" where
  "app_builtin_is_ip_literal is_ipv6 text =
     (if text = [] then False else if addr_is_ipv4 text then True else if is_ipv6 text then True else False)"

text \<open>The text of the payload, without the white space around it.\<close>

definition bind_target_of_text :: "(string \<Rightarrow> bool) \<Rightarrow> string \<Rightarrow> AppBuiltinBindTarget option" where
  "bind_target_of_text is_ipv6 text =
     (if text = [] then Some zero_bind_target
      else if hd text = CHR ''[''
      then (case strchr_split (CHR '']'') (tl text) of
              None \<Rightarrow> None
            | Some (host, after) \<Rightarrow>
                if host = [] \<or> after = [] \<or> hd after \<noteq> CHR '':'' then None
                else if length host \<ge> MAX_IP_RANGE_LEN then None
                else if \<not> app_builtin_is_ip_literal is_ipv6 host then None
                else case app_builtin_parse_port_text (tl after) of
                  None \<Rightarrow> None
                | Some port \<Rightarrow> Some \<lparr>bt_has_ip_override = True, bt_has_port_override = True,
                    bt_bind_ip = lcpy host MAX_IP_RANGE_LEN, bt_port = port\<rparr>)
      else if app_builtin_is_all_digits text
      then (case app_builtin_parse_port_text text of
              None \<Rightarrow> None
            | Some port \<Rightarrow> Some (zero_bind_target\<lparr>bt_port := port, bt_has_port_override := True\<rparr>))
      else if \<not> app_builtin_is_ip_literal is_ipv6 text then None
      else Some (zero_bind_target\<lparr>bt_bind_ip := lcpy text MAX_IP_RANGE_LEN, bt_has_ip_override := True\<rparr>))"

definition app_builtin_parse_bind_target ::
  "(string \<Rightarrow> bool) \<Rightarrow> buf_heap \<Rightarrow> AppConnectionJob \<Rightarrow> AppBuiltinBindTarget option" where
  "app_builtin_parse_bind_target is_ipv6 h job =
     (let rq = aj_request job
      in if rq_payload_len rq = 0 then Some zero_bind_target
         else if rq_payload_buffer rq = None then None
         else if rq_payload_len rq \<ge> 128 then None
         else bind_target_of_text is_ipv6 (lib_str_trim (text_of (job_payload h job))))"

definition app_builtin_format_binding :: "(string \<Rightarrow> bool) \<Rightarrow> string \<Rightarrow> int \<Rightarrow> nat \<Rightarrow> string" where
  "app_builtin_format_binding is_ipv6 bind_ip port outlen =
     (let ip = (if bind_ip \<noteq> [] then bind_ip else ''0.0.0.0'')
      in take (outlen - 1)
           (if is_ipv6 ip then CHR ''['' # ip @ '']:'' @ int_text port else ip @ CHR '':'' # int_text port))"

section \<open>version.c, test_blurt.c, save_config.c, load_config.c, list_users.c\<close>

type_synonym builtin_result = "bool \<times> AppActionReply \<times> daemon"

definition SIGLATCH_SERVER_VERSION :: string where "SIGLATCH_SERVER_VERSION = ''2.0-dev''"

definition app_builtin_version_handle :: "daemon \<Rightarrow> builtin_result" where
  "app_builtin_version_handle d = (True, app_action_reply_set True SIGLATCH_SERVER_VERSION, d)"

definition app_builtin_test_blurt_handle :: "daemon \<Rightarrow> buf_heap \<Rightarrow> AppConnectionJob \<Rightarrow> builtin_result" where
  "app_builtin_test_blurt_handle d h job =
     (if rq_payload_len (aj_request job) = 0 then (True, app_action_reply_set True ''TEST_BLURT (empty)'', d)
      else if rq_payload_buffer (aj_request job) = None then (False, app_action_reply_set False ''INVALID_PAYLOAD'', d)
      else if \<not> app_builtin_test_blurt_payload_is_ascii (job_payload h job)
      then (True, app_action_reply_set True ''TEST_BLURT payload skipped'', d)
      else (True, app_action_reply_set True (text_of (take 256 (job_payload h job))), d))"

definition app_builtin_save_config_handle :: "daemon \<Rightarrow> builtin_result" where
  "app_builtin_save_config_handle d = (False, app_action_reply_set False ''UNIMPLEMENTED save_config'', d)"

definition app_builtin_load_config_handle :: "daemon \<Rightarrow> builtin_result" where
  "app_builtin_load_config_handle d = (False, app_action_reply_set False ''UNIMPLEMENTED load_config'', d)"

definition app_builtin_list_users_handle :: "daemon \<Rightarrow> builtin_result" where
  "app_builtin_list_users_handle d = (False, app_action_reply_set False ''UNIMPLEMENTED list_users'', d)"

section \<open>reload_config.c\<close>

definition app_builtin_reload_config_handle :: "runtime_env \<Rightarrow> daemon \<Rightarrow> builtin_result" where
  "app_builtin_reload_config_handle env d =
     (let path = ls_config_path (dm_listener d)
      in if path = [] then (False, app_action_reply_set False ''NO_CONFIG_PATH'', d)
         else case app_runtime_reload_config env d path
                (case dm_server d of Some s \<Rightarrow> sv_name s | None \<Rightarrow> []) of
           (False, d1) \<Rightarrow> (False, app_action_reply_set False ''RELOAD_FAILED'', d1)
         | (True, d1) \<Rightarrow> (True, app_action_reply_set True ''RELOADED'', d1))"

section \<open>probe_rebind.c and rebind_listener.c\<close>

text \<open>The copy of the active server with the overrides of the request.\<close>

definition bind_target_server :: "siglatch_server \<Rightarrow> AppBuiltinBindTarget \<Rightarrow> siglatch_server" where
  "bind_target_server server parsed =
     (let s1 = (if bt_has_ip_override parsed then server\<lparr>sv_bind_ip := lcpy (bt_bind_ip parsed) MAX_IP_RANGE_LEN\<rparr>
                else server)
      in if bt_has_port_override parsed then s1\<lparr>sv_port := bt_port parsed\<rparr> else s1)"

definition app_builtin_probe_rebind_handle ::
  "runtime_env \<Rightarrow> (string \<Rightarrow> bool) \<Rightarrow> daemon \<Rightarrow> buf_heap \<Rightarrow> AppConnectionJob \<Rightarrow> builtin_result" where
  "app_builtin_probe_rebind_handle env is_ipv6 d h job =
     (case dm_server d of
        None \<Rightarrow> (False, app_action_reply_set False ''NO_ACTIVE_SERVER'', d)
      | Some server \<Rightarrow>
          (case app_builtin_parse_bind_target is_ipv6 h job of
             None \<Rightarrow> (False, app_action_reply_set False ''INVALID_BIND_TARGET'', d)
           | Some parsed \<Rightarrow>
               (let target = bind_target_server server parsed; listener = dm_listener d;
                    target_binding = app_builtin_format_binding is_ipv6 (sv_bind_ip target) (sv_port target) 128
                in if sv_bind_ip target \<noteq> [] \<and> is_ipv6 (sv_bind_ip target)
                   then (False, app_action_reply_set False ''IPV6_BIND_UNSUPPORTED'', d)
                   else case app_udp_probe_bind (re_net env) listener target (dm_socks d) of
                     (False, k) \<Rightarrow> (False, app_action_reply_set False (''PROBE_FAILED '' @ target_binding), d\<lparr>dm_socks := k\<rparr>)
                   | (True, k) \<Rightarrow>
                       (True,
                        app_action_reply_set True
                          ((if ls_sock listener \<ge> 0 \<and> sv_port target = ls_bound_port listener \<and>
                               sv_bind_ip target = ls_bound_ip listener
                            then ''ALREADY_BOUND '' else ''BINDABLE '') @ target_binding),
                        d\<lparr>dm_socks := k\<rparr>))))"

text \<open>Writing the binding to the configuration and following the server's name, when it has one.\<close>

definition rebind_sync_config :: "daemon \<Rightarrow> string \<Rightarrow> string \<Rightarrow> int \<Rightarrow> bool \<times> daemon" where
  "rebind_sync_config d server_name bind_ip port =
     (if server_name = [] then (True, d)
      else case config_server_set_binding (fst (dm_config d)) server_name bind_ip port of
        (False, cfg) \<Rightarrow> (False, d\<lparr>dm_config := (cfg, snd (dm_config d))\<rparr>)
      | (True, cfg) \<Rightarrow> (True, d\<lparr>dm_config := (cfg, snd (dm_config d)),
          dm_listener := (dm_listener d)\<lparr>ls_server := config_server_by_name cfg server_name\<rparr>\<rparr>))"

definition app_builtin_rebind_listener_handle ::
  "runtime_env \<Rightarrow> (string \<Rightarrow> bool) \<Rightarrow> daemon \<Rightarrow> buf_heap \<Rightarrow> AppConnectionJob \<Rightarrow> builtin_result" where
  "app_builtin_rebind_listener_handle env is_ipv6 d h job =
     (case dm_server d of
        None \<Rightarrow> (False, app_action_reply_set False ''NO_ACTIVE_SERVER'', d)
      | Some server \<Rightarrow>
          (case app_builtin_parse_bind_target is_ipv6 h job of
             None \<Rightarrow> (False, app_action_reply_set False ''INVALID_BIND_TARGET'', d)
           | Some parsed \<Rightarrow>
               (let target = bind_target_server server parsed; listener = dm_listener d;
                    current_port = (if ls_bound_port listener > 0 then ls_bound_port listener else sv_port server);
                    current_binding = app_builtin_format_binding is_ipv6 (ls_bound_ip listener) current_port 128;
                    target_binding = app_builtin_format_binding is_ipv6 (sv_bind_ip target) (sv_port target) 128
                in if sv_bind_ip target \<noteq> [] \<and> is_ipv6 (sv_bind_ip target)
                   then (False, app_action_reply_set False ''IPV6_BIND_UNSUPPORTED'', d)
                   else if current_port = sv_port target \<and> ls_bound_ip listener = sv_bind_ip target
                   then (case rebind_sync_config d (sv_name server) (sv_bind_ip target) current_port of
                           (False, d1) \<Rightarrow> (False, app_action_reply_set False ''CONFIG_BIND_SYNC_FAILED'', d1)
                         | (True, d1) \<Rightarrow> (True, app_action_reply_set True (''ALREADY_BOUND '' @ current_binding), d1))
                   else case app_udp_rebind_listener (re_net env) listener target (dm_socks d) of
                     (False, l1, k) \<Rightarrow>
                       (False, app_action_reply_set False (''REBIND_FAILED '' @ target_binding),
                        d\<lparr>dm_listener := l1, dm_socks := k\<rparr>)
                   | (True, l1, k) \<Rightarrow>
                       (case rebind_sync_config (d\<lparr>dm_listener := l1, dm_socks := k\<rparr>) (sv_name server)
                               (sv_bind_ip target) (sv_port target) of
                          (False, d1) \<Rightarrow> (False, app_action_reply_set False ''CONFIG_BIND_SYNC_FAILED'', d1)
                        | (True, d1) \<Rightarrow>
                            (True, app_action_reply_set True (''BOUND '' @ app_builtin_format_binding is_ipv6
                               (ls_bound_ip (dm_listener d1)) (ls_bound_port (dm_listener d1)) 128), d1)))))"

section \<open>change_setting.c\<close>

text \<open>Also the configuration when the context is refused; the policy goes into the mux's context.\<close>

definition app_builtin_change_setting_push_wire_policy :: "daemon \<Rightarrow> bool \<Rightarrow> bool \<Rightarrow> bool \<times> daemon" where
  "app_builtin_change_setting_push_wire_policy d enforce_wire_decode enforce_wire_auth =
     (case dm_codec d of
        None \<Rightarrow> (False, d)
      | Some c \<Rightarrow>
          if dm_server d = None then (False, d)
          else case m7mux_set_context (wire_policy_context c enforce_wire_decode enforce_wire_auth) of
            (ok, g) \<Rightarrow> (ok, d\<lparr>dm_mux := g\<rparr>))"

text \<open>A key and a value from a line: around the equals sign, else around the first white space.\<close>

definition setting_kv :: "string \<Rightarrow> (string \<times> string) option" where
  "setting_kv line =
     (case lib_str_split_kv line of
        Some kv \<Rightarrow> Some kv
      | None \<Rightarrow>
          (case dropWhile (\<lambda>c. \<not> isspace c) line of
             [] \<Rightarrow> None
           | c # rest \<Rightarrow> Some (lib_str_trim (takeWhile (\<lambda>c. \<not> isspace c) line), lib_str_trim rest)))"

definition app_builtin_change_setting_extract_kv ::
  "buf_heap \<Rightarrow> AppConnectionJob \<Rightarrow> nat \<Rightarrow> nat \<Rightarrow> (string \<times> string) option" where
  "app_builtin_change_setting_extract_kv h job key_size value_size =
     (let len = rq_payload_len (aj_request job)
      in if rq_payload_buffer (aj_request job) = None then None
         else if len = 0 \<or> len \<ge> 256 then None
         else let line = lib_str_trim (text_of (job_payload h job))
              in if line = [] \<or> lib_str_is_blank line then None
                 else case setting_kv line of
                   None \<Rightarrow> None
                 | Some (parsed_key, parsed_value) \<Rightarrow>
                     if parsed_key = [] \<or> parsed_value = [] then None
                     else if section_kind ''action.'' parsed_key \<noteq> None then None
                     else let k = (case section_kind ''server.'' parsed_key of Some k \<Rightarrow> k | None \<Rightarrow> parsed_key)
                          in if k \<noteq> ''enforce_wire_decode'' \<and> k \<noteq> ''enforce_wire_auth'' then None
                             else Some (lcpy k key_size, lcpy parsed_value value_size))"

text \<open>Setting one of the two flags of the server named.\<close>

definition set_wire_flag ::
  "siglatch_config option \<Rightarrow> string \<Rightarrow> string \<Rightarrow> bool \<Rightarrow> bool \<times> siglatch_config option" where
  "set_wire_flag cfg key name enabled =
     (if key = ''enforce_wire_decode'' then config_server_set_enforce_wire_decode cfg name enabled
      else config_server_set_enforce_wire_auth cfg name enabled)"

definition app_builtin_change_setting_set_server_wire_flag :: "daemon \<Rightarrow> string \<Rightarrow> bool \<Rightarrow> builtin_result" where
  "app_builtin_change_setting_set_server_wire_flag d key enabled =
     (case dm_server d of
        None \<Rightarrow> (False, app_action_reply_set False ''INVALID_CONTEXT'', d)
      | Some server \<Rightarrow>
          if dm_codec d = None then (False, app_action_reply_set False ''WORKSPACE_UNAVAILABLE'', d)
          else let old_decode = sv_enforce_wire_decode server; old_auth = sv_enforce_wire_auth server
          in if key \<noteq> ''enforce_wire_decode'' \<and> key \<noteq> ''enforce_wire_auth''
             then (False, app_action_reply_set False ''UNSUPPORTED_KEY'', d)
             else case set_wire_flag (fst (dm_config d)) key (sv_name server) enabled of
               (False, cfg) \<Rightarrow> (False, app_action_reply_set False ''SET_FAILED'', d\<lparr>dm_config := (cfg, snd (dm_config d))\<rparr>)
             | (True, cfg) \<Rightarrow>
                 (let d1 = d\<lparr>dm_config := (cfg, snd (dm_config d))\<rparr>;
                      now = (case dm_server d1 of Some s \<Rightarrow> s | None \<Rightarrow> server)
                  in case app_builtin_change_setting_push_wire_policy d1 (sv_enforce_wire_decode now) (sv_enforce_wire_auth now) of
                       (True, d2) \<Rightarrow>
                         (True, app_action_reply_set True (key @ CHR ''='' # (if enabled then ''yes'' else ''no'')), d2)
                     | (False, d2) \<Rightarrow>
                         (let back = snd (set_wire_flag (fst (dm_config d2)) key (sv_name server)
                                (if key = ''enforce_wire_decode'' then old_decode else old_auth));
                              d3 = snd (app_builtin_change_setting_push_wire_policy
                                (d2\<lparr>dm_config := (back, snd (dm_config d2))\<rparr>) old_decode old_auth)
                          in (False, app_action_reply_set False ''REFRESH_FAILED'', d3))))"

definition app_builtin_change_setting_handle :: "daemon \<Rightarrow> buf_heap \<Rightarrow> AppConnectionJob \<Rightarrow> builtin_result" where
  "app_builtin_change_setting_handle d h job =
     (case app_builtin_change_setting_extract_kv h job 128 128 of
        None \<Rightarrow>
          (False, app_action_reply_set False ''Expected payload: [server.]enforce_wire_(decode|auth) = yes|no'', d)
      | Some (key, val) \<Rightarrow>
          (case lib_str_to_bool val of
             None \<Rightarrow> (False, app_action_reply_set False (''Invalid boolean value: '' @ val), d)
           | Some enabled \<Rightarrow> app_builtin_change_setting_set_server_wire_flag d key enabled))"

section \<open>builtin/builtin.c\<close>

definition app_builtin_is_action :: "siglatch_action \<Rightarrow> bool" where
  "app_builtin_is_action action \<longleftrightarrow>
     sa_handler action = SL_ACTION_HANDLER_BUILTIN \<and> sa_builtin action \<noteq> []"

definition app_builtin_handle ::
  "runtime_env \<Rightarrow> (string \<Rightarrow> bool) \<Rightarrow> daemon \<Rightarrow> buf_heap \<Rightarrow> AppConnectionJob \<Rightarrow> siglatch_action \<Rightarrow> builtin_result" where
  "app_builtin_handle env is_ipv6 d h job action =
     (let name = sa_builtin action
      in if name = ''reload_config'' then app_builtin_reload_config_handle env d
         else if name = ''probe_rebind'' then app_builtin_probe_rebind_handle env is_ipv6 d h job
         else if name = ''rebind_listener'' then app_builtin_rebind_listener_handle env is_ipv6 d h job
         else if name = ''change_setting'' then app_builtin_change_setting_handle d h job
         else if name = ''save_config'' then app_builtin_save_config_handle d
         else if name = ''load_config'' then app_builtin_load_config_handle d
         else if name = ''list_users'' then app_builtin_list_users_handle d
         else if name = ''version'' then app_builtin_version_handle d
         else if name = ''test_blurt'' then app_builtin_test_blurt_handle d h job
         else (False, app_action_reply_reset, d))"

end
