(* ===== verification/Handlers.thy ===== *)
theory Handlers
  imports Payload_Text Inbound Listener
begin

text \<open>
  The programs and objects that actions run: \<open>app/payload/payload.c\<close>, \<open>app/object\<close> with the static
  objects, and \<open>app/payload/unstructured.c\<close>. The kernel is the record \<open>proc_env\<close>, indexed by the number
  of the \<open>fork\<close>; every program that an \<open>execv\<close> starts is recorded in \<open>pr_execs\<close>.
\<close>

section \<open>Processes\<close>

datatype wait_status = Exited nat | Signaled nat | Wait_Other

text \<open>
  \<open>pv_status\<close> is how the program of a child ends, \<open>pv_output\<close> the chunks that its parent reads from it
  and whether the last \<open>read\<close> fails; calls interrupted by a signal are repeated by the code and do not
  show. A dynamic object is a parameter.
\<close>

record proc_env =
  pv_pipe :: "nat \<Rightarrow> int set \<Rightarrow> (int \<times> int) option"
  pv_fork :: "nat \<Rightarrow> bool"
  pv_drop_to_name :: "string \<Rightarrow> bool"
  pv_dup2 :: "nat \<Rightarrow> bool"
  pv_execv :: "nat \<Rightarrow> string \<Rightarrow> bool"
  pv_status :: "nat \<Rightarrow> wait_status"
  pv_waitpid :: "nat \<Rightarrow> bool"
  pv_output :: "nat \<Rightarrow> u8 list list \<times> bool"
  pv_pipe_read :: "nat \<Rightarrow> bool"
  pv_dlopen :: "string \<Rightarrow> bool"
  pv_dlsym :: "string \<Rightarrow> string \<Rightarrow> bool"
  pv_dynamic :: "string \<Rightarrow> string \<Rightarrow> u8 list \<Rightarrow> siglatch_action \<Rightarrow> bool \<times> AppActionReply"

record exec_event =
  ev_path :: string
  ev_argv :: "string list"
  ev_run_as :: string

record processes =
  pr_forks :: nat
  pr_execs :: "exec_event list"

text \<open>The two ends of a pipe are distinct and were not in use.\<close>

definition pipes_ok :: "proc_env \<Rightarrow> bool" where
  "pipes_ok pv \<longleftrightarrow> (\<forall>n used r w. pv_pipe pv n used = Some (r, w) \<longrightarrow> r \<noteq> w \<and> 0 \<le> r \<and> 0 \<le> w \<and> r \<notin> used \<and> w \<notin> used)"

definition pipe_open :: "proc_env \<Rightarrow> nat \<Rightarrow> sock_table \<Rightarrow> (int \<times> int) option \<times> sock_table" where
  "pipe_open pv n k =
     (case pv_pipe pv n (so_open k) of
        None \<Rightarrow> (None, k)
      | Some (r, w) \<Rightarrow> (Some (r, w), k\<lparr>so_open := insert r (insert w (so_open k))\<rparr>))"

text \<open>What a child does between \<open>fork\<close> and its end; \<open>dup\<close>: whether it redirects its output first.\<close>

definition child_exec ::
  "proc_env \<Rightarrow> bool \<Rightarrow> string \<Rightarrow> string list \<Rightarrow> string \<Rightarrow> processes \<Rightarrow> wait_status \<times> processes" where
  "child_exec pv dup cmd argv run_as p =
     (let n = pr_forks p; p1 = p\<lparr>pr_forks := n + 1\<rparr>
      in if run_as \<noteq> [] \<and> \<not> pv_drop_to_name pv run_as then (Exited 126, p1)
         else if dup \<and> \<not> pv_dup2 pv n then (Exited 126, p1)
         else if \<not> pv_execv pv n cmd then (Exited 127, p1)
         else (pv_status pv n, p1\<lparr>pr_execs := pr_execs p @ [\<lparr>ev_path = cmd, ev_argv = argv, ev_run_as = run_as\<rparr>]\<rparr>))"

section \<open>app/payload/payload.c\<close>

definition app_payload_parse_cmd :: "string \<Rightarrow> nat \<Rightarrow> nat \<Rightarrow> (string \<times> string) option" where
  "app_payload_parse_cmd input cmd_size arg_size =
     (let s = dropWhile (\<lambda>c. c = CHR '' '') input;
          cmd = takeWhile (\<lambda>c. c \<noteq> CHR '' '') s
      in if length cmd \<ge> cmd_size then None
         else let rest = dropWhile (\<lambda>c. c = CHR '' '') (drop (length cmd) s)
              in Some (cmd, take (arg_size - 1) rest))"

text \<open>The program and the argument vector that the three functions below build.\<close>

definition shell_argv :: "string \<Rightarrow> string list \<Rightarrow> bool \<Rightarrow> (string \<times> string list) option" where
  "shell_argv script_path argv exec_split =
     (if exec_split \<and> CHR '' '' \<in> set script_path
      then (case app_payload_parse_cmd script_path 128 256 of
              None \<Rightarrow> None
            | Some (cmd, script) \<Rightarrow>
                Some (cmd, cmd # (if script \<noteq> [] \<and> cmd \<noteq> script then [script] else []) @ argv))
      else Some (script_path, script_path # argv))"

definition app_payload_fork_exec ::
  "proc_env \<Rightarrow> string \<Rightarrow> string list \<Rightarrow> string \<Rightarrow> processes \<Rightarrow> wait_status option \<times> processes" where
  "app_payload_fork_exec pv cmd argv run_as p =
     (if \<not> pv_fork pv (pr_forks p) then (None, p\<lparr>pr_forks := pr_forks p + 1\<rparr>)
      else case child_exec pv False cmd argv run_as p of (status, p1) \<Rightarrow> (Some status, p1))"

text \<open>The exit code, if \<open>waitpid\<close> returns the child numbered \<open>n\<close>.\<close>

definition app_payload_waitpid_exit_code :: "proc_env \<Rightarrow> nat \<Rightarrow> wait_status \<Rightarrow> nat option" where
  "app_payload_waitpid_exit_code pv n status =
     (if \<not> pv_waitpid pv n then None
      else case status of Exited c \<Rightarrow> Some c | Signaled s \<Rightarrow> Some (128 + s) | Wait_Other \<Rightarrow> Some 127)"

definition app_payload_run_shell ::
  "proc_env \<Rightarrow> string \<Rightarrow> string list \<Rightarrow> bool \<Rightarrow> string \<Rightarrow> processes \<Rightarrow> bool \<times> processes" where
  "app_payload_run_shell pv script_path argv exec_split run_as p =
     (if argv = [] then (False, p)
      else case shell_argv script_path argv exec_split of
        None \<Rightarrow> (False, p)
      | Some (cmd, final_argv) \<Rightarrow>
          (case app_payload_fork_exec pv cmd final_argv run_as p of
             (None, p1) \<Rightarrow> (False, p1)
           | (Some status, p1) \<Rightarrow> (True, p1)))"

text \<open>The result and the exit code left.\<close>

definition app_payload_run_shell_wait ::
  "proc_env \<Rightarrow> string \<Rightarrow> string list \<Rightarrow> bool \<Rightarrow> string \<Rightarrow> processes \<Rightarrow> bool \<times> nat \<times> processes" where
  "app_payload_run_shell_wait pv script_path argv exec_split run_as p =
     (if argv = [] then (False, 127, p)
      else case shell_argv script_path argv exec_split of
        None \<Rightarrow> (False, 127, p)
      | Some (cmd, final_argv) \<Rightarrow>
          (case app_payload_fork_exec pv cmd final_argv run_as p of
             (None, p1) \<Rightarrow> (False, 127, p1)
           | (Some status, p1) \<Rightarrow>
               (case app_payload_waitpid_exit_code pv (pr_forks p) status of
                  None \<Rightarrow> (False, 127, p1)
                | Some c \<Rightarrow> (True, c, p1))))"

text \<open>The bytes in the output buffer while the parent reads.\<close>

fun capture_loop :: "nat \<Rightarrow> u8 list \<Rightarrow> u8 list list \<Rightarrow> u8 list" where
  "capture_loop out_cap captured [] = captured"
| "capture_loop out_cap captured (chunk # chunks) =
     capture_loop out_cap
       (if length captured < out_cap then captured @ take (out_cap - length captured) chunk else captured) chunks"

text \<open>
  The result, the bytes written to the buffer, \<open>*out_len\<close> and the exit code. An unparsable constructor
  closes both ends of the pipe before any fork.
\<close>

definition app_payload_run_shell_capture ::
  "proc_env \<Rightarrow> string \<Rightarrow> string list \<Rightarrow> bool \<Rightarrow> string \<Rightarrow> nat \<Rightarrow> processes \<Rightarrow> sock_table \<Rightarrow>
   (bool \<times> u8 list \<times> nat \<times> nat) \<times> processes \<times> sock_table" where
  "app_payload_run_shell_capture pv script_path argv exec_split run_as out_cap p k =
     (if argv = [] \<or> out_cap = 0 then ((False, [], 0, 127), p, k)
      else case pipe_open pv (pr_forks p) k of
        (None, k1) \<Rightarrow> ((False, [], 0, 127), p, k1)
      | (Some (r, w), k1) \<Rightarrow>
          (case shell_argv script_path argv exec_split of
             None \<Rightarrow> ((False, [], 0, 127), p, close_socket w (close_socket r k1))
           | Some (cmd, final_argv) \<Rightarrow>
               if \<not> pv_fork pv (pr_forks p)
               then ((False, [], 0, 127), p\<lparr>pr_forks := pr_forks p + 1\<rparr>, close_socket w (close_socket r k1))
               else case child_exec pv True cmd final_argv run_as p of
                 (status, p1) \<Rightarrow>
                   (let k2 = close_socket r (close_socket w k1);
                        (chunks, failed) = pv_output pv (pr_forks p);
                        captured = capture_loop out_cap [] chunks
                    in if failed then ((False, captured, 0, 127), p1, k2)
                       else case app_payload_waitpid_exit_code pv (pr_forks p) status of
                         None \<Rightarrow> ((False, captured, 0, 127), p1, k2)
                       | Some c \<Rightarrow> ((True, captured, length captured, c), p1, k2))))"

section \<open>app/object\<close>

definition app_object_test_static_payload_is_ascii :: "u8 list \<Rightarrow> bool" where
  "app_object_test_static_payload_is_ascii payload =
     list_all (\<lambda>b. b = 10 \<or> b = 13 \<or> b = 9 \<or> 32 \<le> b \<and> b \<le> 126) payload"

definition siglatch_object_sample_blurt_payload_is_ascii :: "u8 list \<Rightarrow> bool" where
  "siglatch_object_sample_blurt_payload_is_ascii payload =
     list_all (\<lambda>b. b = 10 \<or> b = 13 \<or> b = 9 \<or> 32 \<le> b \<and> b \<le> 126) payload"

text \<open>A handler gets the reply that is there and returns the one it leaves.\<close>

definition app_object_test_static_handle ::
  "buf_heap \<Rightarrow> AppConnectionJob \<Rightarrow> bool \<times> AppActionReply" where
  "app_object_test_static_handle h job =
     (if rq_payload_len (aj_request job) = 0 then (True, app_action_reply_set True ''TEST_STATIC (empty)'')
      else if rq_payload_buffer (aj_request job) = None then (False, app_action_reply_set False ''INVALID_PAYLOAD'')
      else if \<not> app_object_test_static_payload_is_ascii (job_payload h job)
      then (True, app_action_reply_set True ''TEST_STATIC payload skipped'')
      else (True, app_action_reply_set True (text_of (take (APP_ACTION_REPLY_MESSAGE_MAX - 1) (job_payload h job)))))"

definition siglatch_object_sample_blurt_static_handle ::
  "buf_heap \<Rightarrow> AppConnectionJob \<Rightarrow> bool \<times> AppActionReply" where
  "siglatch_object_sample_blurt_static_handle h job =
     (if rq_payload_len (aj_request job) = 0 then (True, app_action_reply_set True ''SAMPLE_STATIC_BLURT (empty)'')
      else if rq_payload_buffer (aj_request job) = None then (False, app_action_reply_set False ''INVALID_PAYLOAD'')
      else if \<not> siglatch_object_sample_blurt_payload_is_ascii (job_payload h job)
      then (True, app_action_reply_set True ''SAMPLE_STATIC_BLURT payload skipped'')
      else (True, app_action_reply_set True (text_of (take (APP_ACTION_REPLY_MESSAGE_MAX - 1) (job_payload h job)))))"

definition app_object_lookup_static ::
  "string \<Rightarrow> (buf_heap \<Rightarrow> AppConnectionJob \<Rightarrow> bool \<times> AppActionReply) option" where
  "app_object_lookup_static name =
     (if name = [] then None
      else if name = ''test_static'' then Some app_object_test_static_handle
      else if name = ''sample_blurt_static'' then Some siglatch_object_sample_blurt_static_handle
      else None)"

definition app_object_run_static_child ::
  "buf_heap \<Rightarrow> AppConnectionJob \<Rightarrow> siglatch_action \<Rightarrow> bool \<times> AppActionReply" where
  "app_object_run_static_child h job action =
     (case app_object_lookup_static (sa_object action) of
        None \<Rightarrow> (False, app_action_reply_set False (''ERROR '' @ sa_name action @ '' object_not_found''))
      | Some handle \<Rightarrow> handle h job)"

definition app_object_run_dynamic_child ::
  "proc_env \<Rightarrow> buf_heap \<Rightarrow> AppConnectionJob \<Rightarrow> siglatch_action \<Rightarrow> bool \<times> AppActionReply" where
  "app_object_run_dynamic_child pv h job action =
     (if \<not> pv_dlopen pv (sa_object_path action)
      then (False, app_action_reply_set False (''ERROR '' @ sa_name action @ '' object_load_failed''))
      else if \<not> pv_dlsym pv (sa_object_path action) (sa_object action)
      then (False, app_action_reply_set False (''ERROR '' @ sa_name action @ '' symbol_not_found''))
      else pv_dynamic pv (sa_object_path action) (sa_object action) (job_payload h job) action)"

text \<open>The reply that the child sends through the pipe, with its result.\<close>

definition object_child ::
  "proc_env \<Rightarrow> bool \<Rightarrow> buf_heap \<Rightarrow> AppConnectionJob \<Rightarrow> siglatch_action \<Rightarrow> bool \<times> AppActionReply" where
  "object_child pv is_dynamic h job action =
     (if sa_run_as action \<noteq> [] \<and> \<not> pv_drop_to_name pv (sa_run_as action)
      then (False, app_action_reply_set False (''ERROR '' @ sa_name action @ '' run_as_failed''))
      else case (if is_dynamic then app_object_run_dynamic_child pv h job action
                 else app_object_run_static_child h job action) of
        (ok, reply) \<Rightarrow>
          (ok, if ar_should_reply reply then reply
               else if ok then app_action_reply_set True (''OK '' @ sa_name action)
               else app_action_reply_set False (''ERROR '' @ sa_name action @ '' object_failed'')))"

definition app_object_run_forked ::
  "proc_env \<Rightarrow> bool \<Rightarrow> buf_heap \<Rightarrow> AppConnectionJob \<Rightarrow> siglatch_action \<Rightarrow> processes \<Rightarrow> sock_table \<Rightarrow>
   bool \<times> AppActionReply \<times> processes \<times> sock_table" where
  "app_object_run_forked pv is_dynamic h job action p k =
     (let ipc_failed = app_action_reply_set False (''ERROR '' @ sa_name action @ '' object_ipc_failed'');
          n = pr_forks p; p1 = p\<lparr>pr_forks := n + 1\<rparr>
      in case pipe_open pv n k of
           (None, k1) \<Rightarrow> (False, ipc_failed, p, k1)
         | (Some (r, w), k1) \<Rightarrow>
             if \<not> pv_fork pv n
             then (False, app_action_reply_set False (''ERROR '' @ sa_name action @ '' object_exec_failed''), p1,
                   close_socket w (close_socket r k1))
             else let k2 = close_socket r (close_socket w k1)
                  in if \<not> pv_pipe_read pv n then (False, ipc_failed, p1, k2)
                     else case object_child pv is_dynamic h job action of
                       (handler_ok, reply) \<Rightarrow> (handler_ok, reply, p1, k2))"

definition app_object_run_static ::
  "proc_env \<Rightarrow> buf_heap \<Rightarrow> AppConnectionJob \<Rightarrow> siglatch_action \<Rightarrow> processes \<Rightarrow> sock_table \<Rightarrow>
   bool \<times> AppActionReply \<times> processes \<times> sock_table" where
  "app_object_run_static pv h job action p k = app_object_run_forked pv False h job action p k"

definition app_object_run_dynamic ::
  "proc_env \<Rightarrow> buf_heap \<Rightarrow> AppConnectionJob \<Rightarrow> siglatch_action \<Rightarrow> processes \<Rightarrow> sock_table \<Rightarrow>
   bool \<times> AppActionReply \<times> processes \<times> sock_table" where
  "app_object_run_dynamic pv h job action p k = app_object_run_forked pv True h job action p k"

section \<open>app/payload/unstructured.c\<close>

text \<open>The base64 text of some bytes: empty for none, \<open>None\<close> when it does not fit or cannot be allocated.\<close>

definition payload_base64 ::
  "(nat \<Rightarrow> nat option) \<Rightarrow> (nat \<Rightarrow> bool) \<Rightarrow> u8 list \<Rightarrow> string option" where
  "payload_base64 b64_size malloc_ok bytes =
     (if length bytes = 0 then Some []
      else case b64_size (length bytes) of
        None \<Rightarrow> None
      | Some n \<Rightarrow> if \<not> malloc_ok n then None else base64_encode bytes n)"

definition app_payload_unstructured_handle ::
  "proc_env \<Rightarrow> (nat \<Rightarrow> bool) \<Rightarrow> siglatch_config option \<Rightarrow> siglatch_server option \<Rightarrow> AppConnectionJob \<Rightarrow>
   buf_heap \<Rightarrow> processes \<Rightarrow> sock_table \<Rightarrow> AppConnectionJob \<times> buf_heap \<times> processes \<times> sock_table" where
  "app_payload_unstructured_handle pv malloc_ok cfg server job h p k =
     (case server of
        None \<Rightarrow> (job, h, p, k)
      | Some sv \<Rightarrow>
          if rq_payload_len (aj_request job) > 0 \<and> rq_payload_buffer (aj_request job) = None then (job, h, p, k)
          else let payload = job_payload h job
               in case server_deaddrop_starts_with_buffer cfg sv payload 512 of
                    None \<Rightarrow> (job, h, p, k)
                  | Some (deaddrop, matched, match_len) \<Rightarrow>
                      if sd_require_ascii deaddrop \<and> \<not> app_payload_unstructured_is_ascii payload then (job, h, p, k)
                      else case payload_base64 app_payload_unstructured_base64_size malloc_ok (drop match_len payload) of
                        None \<Rightarrow> (job, h, p, k)
                      | Some b64 \<Rightarrow>
                          (case app_job_reserve_response (job\<lparr>aj_response_len := 0, aj_should_reply := False\<rparr>)
                                  APP_JOB_RESPONSE_BLOCK_SIZE h of
                             (False, job1, h1) \<Rightarrow> (job1, h1, p, k)
                           | (True, job1, h1) \<Rightarrow>
                               (let cap = aj_response_cap job1;
                                    h2 = bh_write (aj_response_buffer job1) (replicate cap 0) h1
                                in case app_payload_run_shell_capture pv (sd_constructor deaddrop)
                                          [aj_ip job, sd_name deaddrop, int_text (if sv_secure sv then 1 else 0), b64]
                                          (sd_exec_split deaddrop) (sd_run_as deaddrop) cap p k of
                                     ((ok, written, len, code), p1, k1) \<Rightarrow>
                                       (if ok then job1\<lparr>aj_response_len := len, aj_should_reply := len > 0\<rparr>
                                        else job1\<lparr>aj_response_len := 0, aj_should_reply := False\<rparr>,
                                        bh_write (aj_response_buffer job1) written h2, p1, k1))))"

end
