(* ===== verification/Daemon.thy ===== *)
theory Daemon
  imports Builtins Handlers
begin

text \<open>
  \<open>siglatch/app/daemon/payload.c\<close>: what the daemon does with one job. The machine is the daemon with
  the heap of the jobs and the processes started; what a job meets outside is a \<open>machine_env\<close>.
\<close>

record machine =
  mc_daemon :: daemon
  mc_heap :: buf_heap
  mc_procs :: processes

record machine_env =
  me_runtime :: runtime_env
  me_procs :: proc_env
  me_evp :: evp
  me_openssl :: bool
  me_is_ipv6 :: "string \<Rightarrow> bool"

definition SL_KNOCK_RESPONSE_ACTION_ID :: u8 where "SL_KNOCK_RESPONSE_ACTION_ID = 0"
definition SL_KNOCK_RESPONSE_STATUS_OK :: u8 where "SL_KNOCK_RESPONSE_STATUS_OK = 1"
definition SL_KNOCK_RESPONSE_STATUS_ERROR :: u8 where "SL_KNOCK_RESPONSE_STATUS_ERROR = 2"
definition SL_KNOCK_RESPONSE_FLAG_TRUNCATED :: u8 where "SL_KNOCK_RESPONSE_FLAG_TRUNCATED = 1"
definition SL_KNOCK_RESPONSE_PAYLOAD_HEADER_SIZE :: nat where "SL_KNOCK_RESPONSE_PAYLOAD_HEADER_SIZE = 3"

section \<open>Replies\<close>

definition app_daemon_payload_reply_action_prefix :: "siglatch_config option \<Rightarrow> u8 \<Rightarrow> nat \<Rightarrow> string option" where
  "app_daemon_payload_reply_action_prefix cfg action_id out_size =
     (if action_id = 0 then None
      else case config_action_by_id_from_ptr cfg (ucast action_id) of
        Some action \<Rightarrow>
          if sa_label action \<noteq> [] then Some (take (out_size - 1) (sa_label action))
          else Some (take (out_size - 1) (int_text (uint action_id)))
      | None \<Rightarrow> Some (take (out_size - 1) (int_text (uint action_id))))"

text \<open>The text that a reply shows, with the name of the action in front of the message.\<close>

definition rendered_message :: "siglatch_config option \<Rightarrow> u8 \<Rightarrow> AppActionReply \<Rightarrow> string" where
  "rendered_message cfg action_id reply =
     take (APP_ACTION_REPLY_MESSAGE_MAX + MAX_ACTION_NAME + 8 - 1)
       (case app_daemon_payload_reply_action_prefix cfg action_id 64 of
          Some action_prefix \<Rightarrow>
            if ar_message reply \<noteq> [] then action_prefix @ '': '' @ ar_message reply else action_prefix
        | None \<Rightarrow> ar_message reply)"

text \<open>The first \<open>*out_len\<close> bytes of \<open>out_buf\<close>.\<close>

definition app_daemon_payload_build_semantic_reply ::
  "siglatch_config option \<Rightarrow> AppConnectionJob \<Rightarrow> AppActionReply \<Rightarrow> nat \<Rightarrow> u8 list option" where
  "app_daemon_payload_build_semantic_reply cfg job reply out_size =
     (if \<not> ar_should_reply reply then Some []
      else if out_size < SL_KNOCK_RESPONSE_PAYLOAD_HEADER_SIZE then None
      else let action_id = rq_action_id (aj_request job);
               text = rendered_message cfg action_id reply;
               rendered_len = length text;
               max_text_len = min (out_size - SL_KNOCK_RESPONSE_PAYLOAD_HEADER_SIZE) APP_ACTION_REPLY_MESSAGE_MAX;
               message_len = min rendered_len max_text_len;
               truncated = (rendered_len > max_text_len \<or> ar_truncated reply \<or>
                 rendered_len \<ge> APP_ACTION_REPLY_MESSAGE_MAX + MAX_ACTION_NAME + 8)
           in Some ([if ar_ok reply then SL_KNOCK_RESPONSE_STATUS_OK else SL_KNOCK_RESPONSE_STATUS_ERROR,
                     action_id, if truncated then SL_KNOCK_RESPONSE_FLAG_TRUNCATED else 0] @
                    bytes_of (take message_len text)))"

definition app_daemon_payload_stage_reply ::
  "siglatch_config option \<Rightarrow> AppConnectionJob \<Rightarrow> AppActionReply \<Rightarrow> buf_heap \<Rightarrow>
   bool \<times> AppConnectionJob \<times> buf_heap" where
  "app_daemon_payload_stage_reply cfg job reply h =
     (let job0 = job\<lparr>aj_response_len := 0\<rparr>
      in if \<not> ar_should_reply reply then (True, job0\<lparr>aj_should_reply := False\<rparr>, h)
         else case app_job_reserve_response job0 APP_JOB_RESPONSE_BLOCK_SIZE h of
           (False, job1, h1) \<Rightarrow> (False, job1\<lparr>aj_should_reply := False\<rparr>, h1)
         | (True, job1, h1) \<Rightarrow>
             (let h2 = bh_write (aj_response_buffer job1) (replicate (aj_response_cap job1) 0) h1
              in case app_daemon_payload_build_semantic_reply cfg job1 reply (aj_response_cap job1) of
                   None \<Rightarrow> (False, job1\<lparr>aj_should_reply := False\<rparr>, h2)
                 | Some bytes \<Rightarrow>
                     (True, job1\<lparr>aj_should_reply := True, aj_response_len := length bytes\<rparr>,
                      bh_write (aj_response_buffer job1) bytes h2)))"

text \<open>A reply staged on the machine.\<close>

definition machine_reply :: "machine \<Rightarrow> AppConnectionJob \<Rightarrow> AppActionReply \<Rightarrow> bool \<times> AppConnectionJob \<times> machine" where
  "machine_reply m job reply =
     (case app_daemon_payload_stage_reply (fst (dm_config (mc_daemon m))) job reply (mc_heap m) of
        (ok, job1, h1) \<Rightarrow> (ok, job1, m\<lparr>mc_heap := h1\<rparr>))"

section \<open>Dispatch\<close>

text \<open>The branch of the builtins. The reply needs the user, who may be gone with the configuration.\<close>

definition dispatch_builtin ::
  "machine_env \<Rightarrow> machine \<Rightarrow> AppConnectionJob \<Rightarrow> siglatch_action \<Rightarrow> bool \<times> AppConnectionJob \<times> machine" where
  "dispatch_builtin env m job action =
     (case app_builtin_handle (me_runtime env) (me_is_ipv6 env) (mc_daemon m) (mc_heap m) job action of
        (ok, reply, d1) \<Rightarrow>
          (let m1 = m\<lparr>mc_daemon := d1\<rparr>
           in if ar_should_reply reply
              then (case config_user_by_id_from_ptr (fst (dm_config d1)) (ucast (rq_user_id (aj_request job))) of
                      None \<Rightarrow> (False, job, m1)
                    | Some reply_user \<Rightarrow>
                        (case machine_reply (m1\<lparr>mc_daemon := d1\<lparr>dm_session :=
                                app_inbound_crypto_assign_session_to_user (dm_session d1) reply_user\<rparr>\<rparr>) job reply of
                           (staged, job2, m2) \<Rightarrow> (ok \<and> staged, job2, m2)))
              else (case machine_reply m1 job reply of (staged, job2, m2) \<Rightarrow> (ok \<and> staged, job2, m2))))"

definition dispatch_object ::
  "machine_env \<Rightarrow> machine \<Rightarrow> AppConnectionJob \<Rightarrow> siglatch_action \<Rightarrow> bool \<times> AppConnectionJob \<times> machine" where
  "dispatch_object env m job action =
     (let run = (if sa_handler action = SL_ACTION_HANDLER_STATIC then app_object_run_static else app_object_run_dynamic)
      in case run (me_procs env) (mc_heap m) job action (mc_procs m) (dm_socks (mc_daemon m)) of
           (ok, reply, p1, k1) \<Rightarrow>
             (case machine_reply (m\<lparr>mc_procs := p1, mc_daemon := (mc_daemon m)\<lparr>dm_socks := k1\<rparr>\<rparr>) job reply of
                (staged, job2, m2) \<Rightarrow> (staged \<and> ok, job2, m2)))"

text \<open>A failed reply to a shell action is only logged: the result is \<open>False\<close> in both cases.\<close>

definition shell_failure ::
  "machine \<Rightarrow> AppConnectionJob \<Rightarrow> siglatch_action \<Rightarrow> string \<Rightarrow> bool \<times> AppConnectionJob \<times> machine" where
  "shell_failure m job action reason =
     (case machine_reply m job (app_action_reply_set False (''ERROR '' @ sa_name action @ '' '' @ reason)) of
        (staged, job1, m1) \<Rightarrow> (False, job1, m1))"

definition shell_reply_text :: "siglatch_action \<Rightarrow> nat \<Rightarrow> bool \<times> string" where
  "shell_reply_text action shell_exit_code =
     (if shell_exit_code = 0 then (True, ''OK '' @ sa_name action)
      else if shell_exit_code = 126 \<and> sa_run_as action \<noteq> []
      then (False, ''ERROR '' @ sa_name action @ '' run_as_failed'')
      else (False, ''ERROR '' @ sa_name action @ '' rc='' @ int_text (int shell_exit_code)))"

text \<open>The base64 text of the payload, or the reason why there is none.\<close>

definition shell_payload :: "(nat \<Rightarrow> bool) \<Rightarrow> u8 list \<Rightarrow> string + string" where
  "shell_payload malloc_ok payload =
     (if payload = [] then Inr []
      else case app_daemon_payload_base64_size (length payload) of
        None \<Rightarrow> Inl ''payload_too_large''
      | Some n \<Rightarrow>
          if \<not> malloc_ok n then Inl ''payload_alloc_failed''
          else case base64_encode payload n of
            None \<Rightarrow> Inl ''payload_too_large''
          | Some b64 \<Rightarrow> Inr b64)"

definition shell_arguments ::
  "AppConnectionJob \<Rightarrow> siglatch_server \<Rightarrow> siglatch_user \<Rightarrow> siglatch_action \<Rightarrow> string \<Rightarrow> string list" where
  "shell_arguments job server user action b64 =
     [aj_ip job, int_text (uint (rq_user_id (aj_request job))), su_name user,
      int_text (uint (rq_action_id (aj_request job))), sa_name action,
      int_text (if sv_secure server then 1 else 0), b64]"

definition dispatch_shell ::
  "machine_env \<Rightarrow> machine \<Rightarrow> AppConnectionJob \<Rightarrow> siglatch_server \<Rightarrow> siglatch_user \<Rightarrow> siglatch_action \<Rightarrow>
   bool \<times> AppConnectionJob \<times> machine" where
  "dispatch_shell env m job server user action =
     (if sa_constructor action = [] then (False, job, m)
      else case shell_payload (w_malloc (re_world (me_runtime env))) (job_payload (mc_heap m) job) of
        Inl reason \<Rightarrow> shell_failure m job action reason
      | Inr b64 \<Rightarrow>
          (case app_payload_run_shell_wait (me_procs env) (sa_constructor action)
                  (shell_arguments job server user action b64) (sa_exec_split action) (sa_run_as action) (mc_procs m) of
             (started, shell_exit_code, p1) \<Rightarrow>
               (let m1 = m\<lparr>mc_procs := p1\<rparr>
                in if \<not> started then shell_failure m1 job action ''exec_failed''
                   else case machine_reply m1 job (case shell_reply_text action shell_exit_code of
                                (ok, text) \<Rightarrow> app_action_reply_set ok text) of
                     (staged, job2, m2) \<Rightarrow> (staged \<and> shell_exit_code = 0, job2, m2))))"

definition app_daemon_payload_dispatch_action ::
  "machine_env \<Rightarrow> machine \<Rightarrow> AppConnectionJob \<Rightarrow> siglatch_user \<Rightarrow> siglatch_action \<Rightarrow>
   bool \<times> AppConnectionJob \<times> machine" where
  "app_daemon_payload_dispatch_action env m job user action =
     (case dm_server (mc_daemon m) of
        None \<Rightarrow> (False, job, m)
      | Some server \<Rightarrow>
          if app_builtin_is_action action then dispatch_builtin env m job action
          else if sa_handler action = SL_ACTION_HANDLER_STATIC \<or> sa_handler action = SL_ACTION_HANDLER_DYNAMIC
          then dispatch_object env m job action
          else dispatch_shell env m job server user action)"

section \<open>One job\<close>

text \<open>What must hold before the action of a job is dispatched: its user, its action and the state then.\<close>

definition admit ::
  "machine_env \<Rightarrow> daemon \<Rightarrow> buf_heap \<Rightarrow> AppConnectionJob \<Rightarrow>
   (siglatch_user \<times> siglatch_action) option \<times> AppConnectionJob \<times> daemon" where
  "admit env d h job =
     (let cfg = fst (dm_config d); server = dm_server d
      in case app_daemon_request_bind_user_action cfg server job (dm_session d) of
           (None, s1) \<Rightarrow> (None, job, d\<lparr>dm_session := s1\<rparr>)
         | (Some (user, action), s1) \<Rightarrow>
             (case app_daemon_auth_authorize (me_evp env) (me_openssl env) cfg h s1 job of
                (False, s2, job1) \<Rightarrow> (None, job1, d\<lparr>dm_session := s2\<rparr>)
              | (True, s2, job1) \<Rightarrow>
                  (if app_daemon_policy_enforce cfg server job1 user action then Some (user, action) else None,
                   job1, d\<lparr>dm_session := s2\<rparr>)))"

definition app_daemon_payload_consume ::
  "machine_env \<Rightarrow> machine \<Rightarrow> AppConnectionJob \<Rightarrow> bool \<times> AppConnectionJob \<times> machine" where
  "app_daemon_payload_consume env m job =
     (let d = mc_daemon m
      in if dm_server d = None then (False, job, m)
         else if rq_payload_len (aj_request job) > 0 \<and> rq_payload_buffer (aj_request job) = None then (False, job, m)
         else if aj_wire_version job = 0
         then (case app_payload_unstructured_handle (me_procs env) (w_malloc (re_world (me_runtime env)))
                     (fst (dm_config d)) (dm_server d) job (mc_heap m) (mc_procs m) (dm_socks d) of
                 (job1, h1, p1, k1) \<Rightarrow>
                   (True, job1, \<lparr>mc_daemon = d\<lparr>dm_socks := k1\<rparr>, mc_heap = h1, mc_procs = p1\<rparr>))
         else case admit env d (mc_heap m) job of
           (None, job1, d1) \<Rightarrow> (False, job1, m\<lparr>mc_daemon := d1\<rparr>)
         | (Some (user, action), job1, d1) \<Rightarrow>
             app_daemon_payload_dispatch_action env (m\<lparr>mc_daemon := d1\<rparr>) job1 user action)"

end
