(* ===== verification/Runner.thy ===== *)
theory Runner
  imports Daemon Mux
begin

text \<open>
  The loop of the daemon: \<open>siglatch/app/daemon/runner.c\<close>, \<open>helper.c\<close> and \<open>tick.c\<close>. One turn pumps
  the mux, turns the packets received into jobs, performs each job and sends the replies. The codecs
  read the clock, and the daemon's keys through pointers, so the registry is a function of the time of
  the turn and of the daemon.
\<close>

section \<open>helper.c and tick.c\<close>

text \<open>The first \<open>response_len\<close> bytes of the response buffer are \<open>response\<close>.\<close>

definition app_daemon_copy_job_reply_to_send :: "AppConnectionJob \<Rightarrow> u8 list \<Rightarrow> M7MuxSendPacket option" where
  "app_daemon_copy_job_reply_to_send job response =
     (if aj_response_len job > 0 \<and> aj_response_buffer job = None \<or>
         aj_response_len job > M7MUX_USER_DATA_PAYLOAD_MAX then None
      else Some \<lparr>sp_trace_id = 0, sp_label = ''daemon'', sp_wire_version = aj_wire_version job,
        sp_wire_form = aj_wire_form job, sp_received_ms = ucast (aj_timestamp job),
        sp_session_id = aj_session_id job,
        sp_message_id = aj_message_id job + ucast (aj_fragment_index job),
        sp_stream_id = aj_stream_id job, sp_fragment_index = 0, sp_fragment_count = 1,
        sp_timestamp = aj_timestamp job, sp_ip = cstr63 (aj_ip job), sp_client_port = aj_client_port job,
        sp_encrypted = aj_encrypted job, sp_wire_auth = aj_wire_auth job,
        sp_user = Some \<lparr>us_user_id = rq_user_id (aj_request job), us_action_id = SL_KNOCK_RESPONSE_ACTION_ID,
          us_challenge = rq_challenge (aj_request job), us_hmac = rq_hmac (aj_request job),
          us_payload = response\<rparr>\<rparr>)"

definition app_daemon_time_until_ms :: "u64 \<Rightarrow> u64 \<Rightarrow> u64" where
  "app_daemon_time_until_ms next_tick_at now_ms = (if next_tick_at \<le> now_ms then 0 else next_tick_at - now_ms)"

definition APP_TICK_DEFAULT_MS :: u64 where "APP_TICK_DEFAULT_MS = 6000"

record AppConnectionSession =
  as_expires_at_ms :: u64
  as_active :: bool

fun tick_loop :: "AppConnectionSession list \<Rightarrow> u64 \<Rightarrow> u64" where
  "tick_loop [] next_at = next_at"
| "tick_loop (s # sessions) next_at =
     tick_loop sessions
       (if \<not> as_active s then next_at else if as_expires_at_ms s = 0 then next_at
        else if as_expires_at_ms s < next_at then as_expires_at_ms s else next_at)"

definition app_tick_next_at :: "AppConnectionSession list option \<Rightarrow> u64 \<Rightarrow> u64" where
  "app_tick_next_at connection_state now_ms =
     (let next_at = now_ms + APP_TICK_DEFAULT_MS
      in case connection_state of None \<Rightarrow> next_at | Some sessions \<Rightarrow> tick_loop sessions next_at)"

section \<open>The state of the loop\<close>

record runner =
  ru_machine :: machine
  ru_mux :: M7MuxState
  ru_users :: user_heap
  ru_jobs :: AppJobState
  ru_rng :: rng
  ru_tracked :: int
  ru_sent :: "datagram list"

text \<open>
  What one turn meets outside. \<open>te_time\<close> is what \<open>time\<close> returns to the codecs. \<open>te_job\<close>, \<open>te_stage\<close>, \<open>te_flush_now\<close> and \<open>te_flush\<close> are indexed by
  the number of the job in the turn: what its handler meets, whether the arrays of its two staging
  attempts can be allocated, and the clock and the sends of the flush between them.
\<close>

record turn_env =
  te_time :: int
  te_calloc :: bool
  te_now :: u64
  te_ntop :: "sockaddr \<Rightarrow> string option"
  te_pump :: pump_env
  te_pump_now1 :: u64
  te_pump_now2 :: u64
  te_pump_sends :: "bool list"
  te_job :: "nat \<Rightarrow> machine_env"
  te_stage :: "nat \<Rightarrow> bool \<times> bool"
  te_flush_now :: "nat \<Rightarrow> u64"
  te_flush :: "nat \<Rightarrow> bool list"
  te_final_now :: u64
  te_final_sends :: "bool list"

text \<open>The context of the mux, its pointer to the codec context followed.\<close>

definition dm_mux_view :: "daemon \<Rightarrow> M7MuxContext" where
  "dm_mux_view d = (dm_mux d)\<lparr>mx_server_secure :=
     (case mx_server_secure (dm_mux d) of None \<Rightarrow> None | Some _ \<Rightarrow> map_option cx_server_secure (dm_codec d))\<rparr>"

text \<open>The codec context that the codecs see: its session pointer points to the session of the loop.\<close>

definition dm_codec_view :: "daemon \<Rightarrow> SharedKnockCodecContext option" where
  "dm_codec_view d = map_option (\<lambda>c. c\<lparr>cx_openssl_session :=
     map_option (\<lambda>_. dm_session d) (cx_openssl_session c)\<rparr>) (dm_codec d)"

definition ru_daemon :: "runner \<Rightarrow> daemon" where
  "ru_daemon ru = mc_daemon (ru_machine ru)"

definition ru_sock :: "runner \<Rightarrow> int" where
  "ru_sock ru = ls_sock (dm_listener (ru_daemon ru))"

section \<open>Replies\<close>

definition app_daemon_configure_mux_policy :: "siglatch_server option \<Rightarrow> M7MuxState \<Rightarrow> M7MuxState" where
  "app_daemon_configure_mux_policy server mux_state = mux_state\<lparr>mu_policy_enforce_encryption :=
     (case server of
        Some s \<Rightarrow> if sv_secure s then M7MUX_POLICY_ENFORCE_ENCRYPTION_YES else M7MUX_POLICY_ENFORCE_ENCRYPTION_NO
      | None \<Rightarrow> M7MUX_POLICY_ENFORCE_ENCRYPTION_NO)\<rparr>"

text \<open>The result, the mux and the datagrams sent by a flush.\<close>

definition app_daemon_stage_raw_outbox_reply ::
  "M7MuxContext \<Rightarrow> int \<Rightarrow> M7MuxState \<Rightarrow> AppConnectionJob \<Rightarrow> u8 list \<Rightarrow> u64 \<Rightarrow> bool list \<Rightarrow>
   int \<times> M7MuxState \<times> datagram list" where
  "app_daemon_stage_raw_outbox_reply g_ctx sock mux job response now_ms sends =
     (if aj_response_buffer job = None \<or> aj_response_len job = 0 then (0, mux, [])
      else let response_len = min (aj_response_len job) M7MUX_NORMALIZED_PACKET_BUFFER_SIZE;
               raw_send = \<lparr>sb_trace_id = 0, sb_label = ''daemon'', sb_ip = cstr63 (aj_ip job),
                 sb_client_port = aj_client_port job, sb_received_ms = ucast (aj_timestamp job),
                 sb_bytes = Some response, sb_bytes_len = response_len\<rparr>
           in case m7mux_outbox_stage_bytes mux raw_send of
                (True, mux1) \<Rightarrow> (1, mux1, [])
              | (False, mux1) \<Rightarrow>
                  (case m7mux_outbox_flush g_ctx mux1 sock now_ms sends of
                     (n, mux2, sends', sent) \<Rightarrow>
                       (case m7mux_outbox_stage_bytes mux2 raw_send of
                          (True, mux3) \<Rightarrow> (1, mux3, sent)
                        | (False, mux3) \<Rightarrow> (0, mux3, sent))))"

definition app_daemon_stage_outbox_reply ::
  "M7MuxContext \<Rightarrow> 'cs registry \<Rightarrow> int \<Rightarrow> bool \<times> bool \<Rightarrow> M7MuxState \<Rightarrow> AppConnectionJob \<Rightarrow> u8 list \<Rightarrow> u64 \<Rightarrow>
   bool list \<Rightarrow> rng \<Rightarrow> int \<times> M7MuxState \<times> rng \<times> datagram list" where
  "app_daemon_stage_outbox_reply g_ctx reg sock callocs mux job response now_ms sends r =
     (if aj_wire_version job = 0
      then (case app_daemon_stage_raw_outbox_reply g_ctx sock mux job response now_ms sends of
              (rc, mux1, sent) \<Rightarrow> (rc, mux1, r, sent))
      else case app_daemon_copy_job_reply_to_send job response of
        None \<Rightarrow> (0, mux, r, [])
      | Some send \<Rightarrow>
          (case m7mux_outbox_stage reg (fst callocs) mux send r of
             (True, mux1, r1) \<Rightarrow> (1, mux1, r1, [])
           | (False, mux1, r1) \<Rightarrow>
               (case m7mux_outbox_flush g_ctx mux1 sock now_ms sends of
                  (n, mux2, sends', sent) \<Rightarrow>
                    (case m7mux_outbox_stage reg (snd callocs) mux2 send r1 of
                       (True, mux3, r2) \<Rightarrow> (1, mux3, r2, sent)
                     | (False, mux3, r2) \<Rightarrow> (0, mux3, r2, sent)))))"

section \<open>The jobs of a turn\<close>

text \<open>One job from its drain to its disposal: the result of the staging, or 1 when it has no reply.\<close>

definition perform_job ::
  "(daemon \<Rightarrow> 'cs registry) \<Rightarrow> turn_env \<Rightarrow> nat \<Rightarrow> AppConnectionJob \<Rightarrow> runner \<Rightarrow> int \<times> runner" where
  "perform_job reg te n job ru =
     (case app_daemon_payload_consume (te_job te n) (ru_machine ru) job of
        (ok, job1, m1) \<Rightarrow>
          (let ru1 = ru\<lparr>ru_machine := m1\<rparr>; d = mc_daemon m1;
               disposed = (\<lambda>x. x\<lparr>ru_machine := m1\<lparr>mc_heap := snd (app_job_dispose job1 (mc_heap m1))\<rparr>\<rparr>)
           in if aj_should_reply job1 \<or> aj_response_len job1 > 0
              then (case app_daemon_stage_outbox_reply (dm_mux_view d) (reg d) (ls_sock (dm_listener d))
                       (te_stage te n) (ru_mux ru1) job1
                       (bh_read (aj_response_buffer job1) (aj_response_len job1) (mc_heap m1))
                       (te_flush_now te n) (te_flush te n) (ru_rng ru1) of
                      (rc, mux2, r2, sent) \<Rightarrow>
                        (rc, disposed (ru1\<lparr>ru_mux := mux2, ru_rng := r2, ru_sent := ru_sent ru1 @ sent\<rparr>)))
              else (1, disposed ru1)))"

lemma perform_job_jobs: "perform_job reg te n job ru = (rc, ru') \<Longrightarrow> ru_jobs ru' = ru_jobs ru"
  by (auto simp: perform_job_def Let_def split: prod.splits if_splits)

lemma job_drain_count: "app_job_drain st out h = (True, st', out', h') \<Longrightarrow> js_ready_count st' < js_ready_count st"
  by (auto simp: app_job_drain_def Let_def split: if_splits)

function (sequential) drain_jobs ::
  "(daemon \<Rightarrow> 'cs registry) \<Rightarrow> turn_env \<Rightarrow> nat \<Rightarrow> runner \<Rightarrow> int \<times> runner" where
  "drain_jobs reg te n ru =
     (case app_job_drain (ru_jobs ru) zero_job (mc_heap (ru_machine ru)) of
        (False, js, job, h) \<Rightarrow> (0, ru\<lparr>ru_jobs := js, ru_machine := (ru_machine ru)\<lparr>mc_heap := h\<rparr>\<rparr>)
      | (True, js, job, h) \<Rightarrow>
          (case perform_job reg te n job (ru\<lparr>ru_jobs := js, ru_machine := (ru_machine ru)\<lparr>mc_heap := h\<rparr>\<rparr>) of
             (rc, ru1) \<Rightarrow> if rc \<le> 0 then (if rc < 0 then rc else -1, ru1) else drain_jobs reg te (n + 1) ru1))"
  by pat_completeness auto
termination
  by (relation "measure (\<lambda>(_, _, _, ru). js_ready_count (ru_jobs ru))")
    (auto dest!: perform_job_jobs [OF sym] job_drain_count [OF sym])

declare drain_jobs.simps [simp del]

definition app_daemon_drain_jobs_and_flush ::
  "(daemon \<Rightarrow> 'cs registry) \<Rightarrow> turn_env \<Rightarrow> runner \<Rightarrow> int \<times> runner" where
  "app_daemon_drain_jobs_and_flush reg te ru =
     (case drain_jobs reg te 0 ru of
        (rc, ru1) \<Rightarrow>
          if rc < 0 then (rc, ru1)
          else if m7mux_outbox_has_pending (ru_mux ru1)
          then (case m7mux_outbox_flush (dm_mux_view (ru_daemon ru1)) (ru_mux ru1) (ru_sock ru1)
                        (te_final_now te) (te_final_sends te) of
                  (n, mux2, sends', sent) \<Rightarrow> (0, ru1\<lparr>ru_mux := mux2, ru_sent := ru_sent ru1 @ sent\<rparr>))
          else (0, ru1))"

section \<open>One turn\<close>

lemma stream_drain_count:
  assumes "m7mux_stream_drain reg b st h = (Some x, st', h')" "0 < sm_ready_count st"
  shows "sm_ready_count st' < sm_ready_count st"
proof -
  have adv: "sm_ready_count (stream_advance_tracker st p) = sm_ready_count st" for p
    by (auto simp: stream_advance_tracker_def Let_def set_session_tracker_def split: option.splits if_splits)
  show ?thesis
    using assms by (auto simp: m7mux_stream_drain_def stream_clear_slot_def adv Let_def
        split: option.splits if_splits prod.splits)
qed

text \<open>The packets that the pump has made ready become jobs; those that find no room are dropped.\<close>

function (sequential) inbox_jobs ::
  "'cs registry \<Rightarrow> M7MuxState \<Rightarrow> user_heap \<Rightarrow> AppJobState \<Rightarrow> buf_heap \<Rightarrow>
   M7MuxState \<times> user_heap \<times> AppJobState \<times> buf_heap" where
  "inbox_jobs reg mux users jobs h =
     (if \<not> m7mux_inbox_has_pending mux then (mux, users, jobs, h)
      else case m7mux_inbox_drain reg True mux users of
        (None, mux1, users1) \<Rightarrow> (mux1, users1, jobs, h)
      | (Some normal, mux1, users1) \<Rightarrow>
          (case app_job_enqueue jobs normal h of
             (ok, jobs1, h1) \<Rightarrow> inbox_jobs reg mux1 users1 jobs1 h1))"
  by pat_completeness auto
termination
  by (relation "measure (\<lambda>(_, mux, _). sm_ready_count (mu_stream mux))")
    (auto simp: m7mux_inbox_drain_def m7mux_inbox_has_pending_def m7mux_stream_has_pending_def Let_def
      split: prod.splits dest: stream_drain_count)

declare inbox_jobs.simps [simp del]

text \<open>The mux follows the socket of the listener; \<open>None\<close> when the new connection cannot be made.\<close>

definition follow_socket ::
  "(daemon \<Rightarrow> 'cs registry) \<Rightarrow> turn_env \<Rightarrow> runner \<Rightarrow> runner option" where
  "follow_socket reg te ru =
     (let d = ru_daemon ru
      in if ru_tracked ru = ru_sock ru then Some ru
         else case m7mux_connect_socket (dm_mux_view d) (te_calloc te) (ru_sock ru) of
           None \<Rightarrow> None
         | Some next_mux \<Rightarrow>
             Some (ru\<lparr>ru_mux := app_daemon_configure_mux_policy (dm_server d) next_mux,
                    ru_users := snd (m7mux_connect_disconnect (dm_mux_view d) (reg d) (ru_mux ru) (ru_users ru)),
                    ru_tracked := ru_sock ru\<rparr>))"

text \<open>The first component is \<open>False\<close> when the loop is left. \<open>tick.run\<close> does nothing.\<close>

definition daemon_turn :: "(daemon \<Rightarrow> 'cs registry) \<Rightarrow> turn_env \<Rightarrow> runner \<Rightarrow> bool \<times> runner" where
  "daemon_turn reg te ru =
     (case follow_socket reg te ru of
        None \<Rightarrow> (False, ru)
      | Some ru1 \<Rightarrow>
          (let d = ru_daemon ru1;
               next_tick_at = app_tick_next_at None (te_now te);
               timeout_ms = app_daemon_time_until_ms next_tick_at (te_now te)
           in case m7mux_pump (dm_mux_view d) (reg d) (te_ntop te) (ru_mux ru1) timeout_ms (te_pump te)
                     (te_pump_now1 te) (te_pump_now2 te) (te_pump_sends te) (ru_users ru1) of
                (rc, mux2, users2, sent) \<Rightarrow>
                  (let ru2 = ru1\<lparr>ru_mux := mux2, ru_users := users2, ru_sent := ru_sent ru1 @ sent\<rparr>
                   in if rc < 0 then (False, ru2)
                      else case inbox_jobs (reg d) mux2 users2 (ru_jobs ru2) (mc_heap (ru_machine ru2)) of
                        (mux3, users3, jobs3, h3) \<Rightarrow>
                          (case app_daemon_drain_jobs_and_flush reg te
                                  (ru2\<lparr>ru_mux := mux3, ru_users := users3, ru_jobs := jobs3,
                                     ru_machine := (ru_machine ru2)\<lparr>mc_heap := h3\<rparr>\<rparr>) of
                             (rc4, ru4) \<Rightarrow> (0 \<le> rc4, ru4)))))"

text \<open>The loop, until a turn leaves it or the process is asked to exit (the turns are used up).\<close>

fun daemon_loop :: "(int \<Rightarrow> daemon \<Rightarrow> 'cs registry) \<Rightarrow> turn_env list \<Rightarrow> runner \<Rightarrow> runner" where
  "daemon_loop reg [] ru = ru"
| "daemon_loop reg (te # tes) ru =
     (case daemon_turn (reg (te_time te)) te ru of (go_on, ru1) \<Rightarrow> if go_on then daemon_loop reg tes ru1 else ru1)"

section \<open>The run of the daemon\<close>

text \<open>What is done with the daemon at \<open>cleanup\<close>, with the session installed in the codec context or not.\<close>

definition daemon_cleanup :: "bool \<Rightarrow> daemon \<Rightarrow> daemon" where
  "daemon_cleanup installed d =
     app_runtime_invalidate_config_borrows
       (if installed then d\<lparr>dm_codec := map_option shared_knock_codec_context_clear_openssl_session (dm_codec d)\<rparr>
        else d)"

text \<open>
  The set-up before the loop: the connection, or the daemon after the cleanup. \<open>session\<close> starts
  zeroed; \<open>calloc_ok\<close> is for the first connection.
\<close>

definition daemon_setup :: "runtime_env \<Rightarrow> bool \<Rightarrow> daemon \<Rightarrow> daemon + M7MuxState \<times> daemon" where
  "daemon_setup env calloc_ok d0 =
     (case dm_server d0 of
        None \<Rightarrow> Inl d0
      | Some server \<Rightarrow>
          (case app_inbound_crypto_init_session_for_server (re_openssl_ready env) server zero_session of
             (False, s) \<Rightarrow> Inl (d0\<lparr>dm_session := s\<rparr>)
           | (True, s) \<Rightarrow>
               (let d1 = d0\<lparr>dm_session := s\<rparr>
                in case dm_codec d1 of
                     None \<Rightarrow> Inl (daemon_cleanup False d1)
                   | Some c \<Rightarrow>
                       (case shared_knock_codec_context_set_openssl_session (re_codec_ready env) c s of
                          (False, c1) \<Rightarrow> Inl (daemon_cleanup False d1)
                        | (True, c1) \<Rightarrow>
                            (let d2 = d1\<lparr>dm_codec := Some c1\<rparr>
                             in case m7mux_connect_socket (dm_mux_view d2) calloc_ok (ls_sock (dm_listener d2)) of
                                  None \<Rightarrow> Inl (daemon_cleanup True d2)
                                | Some mux \<Rightarrow> Inr (app_daemon_configure_mux_policy (dm_server d2) mux, d2))))))"

text \<open>The machine, the heap of user blocks and the datagrams sent when the daemon returns at \<open>end_time\<close>.\<close>

definition app_daemon_run ::
  "(int \<Rightarrow> daemon \<Rightarrow> 'cs registry) \<Rightarrow> runtime_env \<Rightarrow> bool \<Rightarrow> turn_env list \<Rightarrow> int \<Rightarrow> machine \<Rightarrow> user_heap \<Rightarrow>
   rng \<Rightarrow> machine \<times> user_heap \<times> datagram list" where
  "app_daemon_run reg env calloc_ok turns end_time m users r =
     (case daemon_setup env calloc_ok (mc_daemon m) of
        Inl d \<Rightarrow> (m\<lparr>mc_daemon := d\<rparr>, users, [])
      | Inr (mux, d) \<Rightarrow>
          (let ru = daemon_loop reg turns
                 \<lparr>ru_machine = m\<lparr>mc_daemon := d\<rparr>, ru_mux = mux, ru_users = users, ru_jobs = app_job_state_init,
                  ru_rng = r, ru_tracked = ls_sock (dm_listener d), ru_sent = []\<rparr>;
               m1 = ru_machine ru; d1 = daemon_cleanup True (mc_daemon m1)
           in (m1\<lparr>mc_daemon := d1, mc_heap := snd (app_job_state_reset (ru_jobs ru) (mc_heap m1))\<rparr>,
               snd (m7mux_connect_disconnect (dm_mux_view d1) (reg end_time d1) (ru_mux ru) (ru_users ru)),
               ru_sent ru)))"

end
