(* ===== verification/Builtin_Facts.thy ===== *)
theory Builtin_Facts
  imports Builtins Reload_Properties
begin

text \<open>
  The builtins keep the daemon's invariant, whatever the request says; the mux stays usable; a
  configuration is replaced or changed only through the reload and the setters.
\<close>

section \<open>The context of the mux\<close>

lemma set_context_internal [simp]: "mx_internal (snd (m7mux_set_context g))"
  by (simp add: m7mux_set_context_def Let_def)

lemma sync_internal:
  assumes "mx_internal (dm_mux d)"
  shows "mx_internal (dm_mux (snd (app_runtime_sync_codec_context env d cfg server)))"
  using assms
  by (auto simp: app_runtime_sync_codec_context_def m7mux_set_context_def Let_def
      split: option.splits prod.splits bool.splits)

lemma restore_internal:
  assumes "mx_internal (dm_mux d)"
  shows "mx_internal (dm_mux (runtime_restore env name old_cfg resync d))"
proof -
  have s: "snd (app_runtime_sync_codec_context env d2 None server) = d2" for d2 server
    by (simp add: sync_None)
  show ?thesis
    using assms by (auto simp: runtime_restore_def Let_def s split: option.splits prod.splits bool.splits)
qed

lemma reload_internal:
  assumes kernel: "kernel_ok (re_net env)" and R: "listens (dm_listener d) (dm_socks d) R"
    and m: "mx_internal (dm_mux d)" and run: "app_runtime_reload_config env d path name = (ok, d')"
  shows "mx_internal (dm_mux d')"
proof -
  obtain u where "reload_outcome env d path ok u d'" using reload_outcomes [OF kernel R run] by blast
  then show ?thesis
  proof cases
    case (unsynced c k i server l k' s d4 nm)
    have "mx_internal (dm_mux ((exchanged d k c i s)\<lparr>dm_listener := l, dm_socks := k'\<rparr>))"
      using m by (simp add: exchanged_def)
    from sync_internal [OF this, of env "Some c" "Some server"] unsynced have "mx_internal (dm_mux d4)" by simp
    then show ?thesis using unsynced restore_internal by simp
  next
    case (reloaded c k i server l k' s d4)
    have "mx_internal (dm_mux ((exchanged d k c i s)\<lparr>dm_listener := l, dm_socks := k'\<rparr>))"
      using m by (simp add: exchanged_def)
    from sync_internal [OF this, of env "Some c" "Some server"] reloaded show ?thesis by simp
  qed (use m restore_internal in auto)
qed

section \<open>The setters and the keys\<close>

lemma update_server_refs:
  assumes "\<And>s. sv_key_owned (f s) = sv_key_owned s" "\<And>s. sv_priv_key (f s) = sv_priv_key s"
  shows "config_key_refs (c\<lparr>sc_servers := update_server name f (sc_servers c)\<rparr>) = config_key_refs c"
proof -
  have "(\<Sum>s \<leftarrow> update_server name f ss. if sv_key_owned s then key_mset (sv_priv_key s) else {#}) =
      (\<Sum>s \<leftarrow> ss. if sv_key_owned s then key_mset (sv_priv_key s) else {#})" for ss
    by (induction ss) (simp_all add: assms)
  then show ?thesis by (simp add: config_key_refs_def)
qed

lemma with_server_refs:
  assumes "\<And>s. sv_key_owned (f s) = sv_key_owned s" "\<And>s. sv_priv_key (f s) = sv_priv_key s"
    and "with_server cfg name f = (ok, cfg')"
  shows "attached_refs cfg' = attached_refs cfg" "(cfg' = None) = (cfg = None)"
  using assms(3) update_server_refs [of f, OF assms(1,2)]
  by (auto simp: with_server_def split: option.splits if_splits)

lemma set_binding_refs:
  assumes "config_server_set_binding cfg name ip port = (ok, cfg')"
  shows "attached_refs cfg' = attached_refs cfg" "(cfg' = None) = (cfg = None)"
  using assms with_server_refs [of "\<lambda>s. s\<lparr>sv_port := port,
        sv_bind_ip := (if ip \<noteq> [] then lcpy ip MAX_IP_RANGE_LEN else [])\<rparr>" cfg name ok cfg']
  by (auto simp: config_server_set_binding_def split: if_splits)

lemma set_wire_flag_refs:
  assumes "set_wire_flag cfg key name b = (ok, cfg')"
  shows "attached_refs cfg' = attached_refs cfg" "(cfg' = None) = (cfg = None)"
  using assms with_server_refs [of "\<lambda>s. s\<lparr>sv_enforce_wire_decode := b\<rparr>" cfg name ok cfg']
    with_server_refs [of "\<lambda>s. s\<lparr>sv_enforce_wire_auth := b\<rparr>" cfg name ok cfg']
  by (auto simp: set_wire_flag_def config_server_set_enforce_wire_decode_def
      config_server_set_enforce_wire_auth_def split: if_splits)

section \<open>The invariant\<close>

text \<open>The daemon can be served by the mux.\<close>

definition daemon_fit :: "int set \<Rightarrow> key_refs \<Rightarrow> daemon \<Rightarrow> bool" where
  "daemon_fit R other d \<longleftrightarrow> daemon_inv R other d \<and> mx_internal (dm_mux d)"

lemma fit_session [simp]: "daemon_fit R other (d\<lparr>dm_session := s\<rparr>) = daemon_fit R other d"
  by (simp add: daemon_fit_def daemon_inv_def)

lemma fit_socks: "so_open k = so_open (dm_socks d) \<Longrightarrow> daemon_fit R other (d\<lparr>dm_socks := k\<rparr>) = daemon_fit R other d"
  by (simp add: daemon_fit_def daemon_inv_def listens_def)

lemma fit_config:
  assumes "attached_refs cfg = attached_refs (fst (dm_config d))" "(cfg = None) = (fst (dm_config d) = None)"
  shows "daemon_fit R other (d\<lparr>dm_config := (cfg, snd (dm_config d))\<rparr>) = daemon_fit R other d"
  using assms by (simp add: daemon_fit_def daemon_inv_def)

lemma fit_server:
  "daemon_fit R other (d\<lparr>dm_listener := (dm_listener d)\<lparr>ls_server := i\<rparr>\<rparr>) = daemon_fit R other d"
  by (simp add: daemon_fit_def daemon_inv_def)

lemma fit_mux: "daemon_fit R other d \<Longrightarrow> mx_internal g \<Longrightarrow> daemon_fit R other (d\<lparr>dm_mux := g\<rparr>)"
  by (simp add: daemon_fit_def daemon_inv_def)

lemma fit_rebind:
  assumes "kernel_ok os" "daemon_fit R other d"
    "app_udp_rebind_listener os (dm_listener d) server (dm_socks d) = (ok, l, k)"
  shows "daemon_fit R other (d\<lparr>dm_listener := l, dm_socks := k\<rparr>)"
  using assms(2) rebind_listens(1) [OF assms(1) _ assms(3)] by (simp add: daemon_fit_def daemon_inv_def)

lemma fit_rebind_sync:
  assumes "daemon_fit R other d" "rebind_sync_config d name ip port = (ok, d')"
  shows "daemon_fit R other d'"
proof (cases "name = []")
  case True
  with assms show ?thesis by (simp add: rebind_sync_config_def)
next
  case False
  obtain b cfg where s: "config_server_set_binding (fst (dm_config d)) name ip port = (b, cfg)" by fastforce
  have 1: "daemon_fit R other (d\<lparr>dm_config := (cfg, snd (dm_config d))\<rparr>)"
    using fit_config [of cfg d R other] set_binding_refs [OF s] assms(1) by simp
  have "d' = d\<lparr>dm_config := (cfg, snd (dm_config d))\<rparr> \<or>
      d' = d\<lparr>dm_config := (cfg, snd (dm_config d)), dm_listener := (dm_listener d)\<lparr>ls_server := config_server_by_name cfg name\<rparr>\<rparr>"
    using assms(2) False s by (auto simp: rebind_sync_config_def split: bool.splits)
  then show ?thesis
    using 1 fit_server [where d = "d\<lparr>dm_config := (cfg, snd (dm_config d))\<rparr>" and i = "config_server_by_name cfg name"] by auto
qed

lemma fit_push:
  assumes "daemon_fit R other d" "app_builtin_change_setting_push_wire_policy d x y = (ok, d')"
  shows "daemon_fit R other d'"
  using assms fit_mux [OF assms(1)]
  by (auto simp: app_builtin_change_setting_push_wire_policy_def m7mux_set_context_def Let_def
      split: option.splits if_splits)

section \<open>Each builtin\<close>

lemma fit_reload:
  assumes "kernel_ok (re_net env)" "daemon_fit R other d"
    "app_builtin_reload_config_handle env d = (ok, reply, d')"
  shows "daemon_fit R other d'"
proof -
  have l: "listens (dm_listener d) (dm_socks d) R" and i: "daemon_inv R other d" and m: "mx_internal (dm_mux d)"
    using assms(2) by (simp_all add: daemon_fit_def daemon_inv_def)
  have "d' = d \<or> (\<exists>path name b. app_runtime_reload_config env d path name = (b, d'))"
    using assms(3) by (auto simp: app_builtin_reload_config_handle_def Let_def split: if_splits prod.splits bool.splits)
  then show ?thesis
  proof
    assume "\<exists>path name b. app_runtime_reload_config env d path name = (b, d')"
    then obtain path name b where r: "app_runtime_reload_config env d path name = (b, d')" by blast
    show ?thesis using reload_facts(1) [OF assms(1) i r] reload_internal [OF assms(1) l m r] by (simp add: daemon_fit_def)
  qed (use assms(2) in simp)
qed

lemma fit_probe:
  assumes "kernel_ok (re_net env)" "daemon_fit R other d"
    "app_builtin_probe_rebind_handle env is6 d h job = (ok, reply, d')"
  shows "daemon_fit R other d'"
proof -
  have "d' = d \<or> (\<exists>server b k. app_udp_probe_bind (re_net env) (dm_listener d) server (dm_socks d) = (b, k) \<and> d' = d\<lparr>dm_socks := k\<rparr>)"
    using assms(3)
    by (auto simp: app_builtin_probe_rebind_handle_def Let_def split: option.splits if_splits prod.splits bool.splits)
  then show ?thesis using probe_fds [OF assms(1)] fit_socks assms(2) by fastforce
qed

lemma fit_rebind_handle:
  assumes "kernel_ok (re_net env)" "daemon_fit R other d"
    "app_builtin_rebind_listener_handle env is6 d h job = (ok, reply, d')"
  shows "daemon_fit R other d'"
proof -
  show ?thesis
  proof (cases "dm_server d")
    case None
    with assms(2,3) show ?thesis by (simp add: app_builtin_rebind_listener_handle_def)
  next
    case (Some server)
    show ?thesis
    proof (cases "app_builtin_parse_bind_target is6 h job")
      case None
      with assms(2,3) Some show ?thesis by (simp add: app_builtin_rebind_listener_handle_def)
    next
      case (Some parsed)
      note run = assms(3) [unfolded app_builtin_rebind_listener_handle_def \<open>dm_server d = Some server\<close> Some option.case Let_def]
      let ?target = "bind_target_server server parsed"
      obtain b l k where rb: "app_udp_rebind_listener (re_net env) (dm_listener d) ?target (dm_socks d) = (b, l, k)"
        by (metis prod_cases3)
      note fit1 = fit_rebind [OF assms(1,2) rb]
      obtain b1 d1 where s1: "rebind_sync_config d (sv_name server) (sv_bind_ip ?target)
          (if ls_bound_port (dm_listener d) > 0 then ls_bound_port (dm_listener d) else sv_port server) = (b1, d1)" by fastforce
      obtain b2 d2 where s2: "rebind_sync_config (d\<lparr>dm_listener := l, dm_socks := k\<rparr>) (sv_name server)
          (sv_bind_ip ?target) (sv_port ?target) = (b2, d2)" by fastforce
      have "d' \<in> {d, d1, d\<lparr>dm_listener := l, dm_socks := k\<rparr>, d2}"
        using run unfolding rb s1 s2 prod.case by (cases b; cases b1; cases b2) (simp_all split: if_splits)
      then show ?thesis
        using assms(2) fit1 fit_rebind_sync [OF assms(2) s1] fit_rebind_sync [OF fit1 s2] by blast
    qed
  qed
qed

lemma fit_setting:
  assumes "daemon_fit R other d" "app_builtin_change_setting_handle d h job = (ok, reply, d')"
  shows "daemon_fit R other d'"
proof -
  have flag: "daemon_fit R other (x\<lparr>dm_config := (snd (set_wire_flag (fst (dm_config x)) key name b), snd (dm_config x))\<rparr>)"
    if "daemon_fit R other x" for x key name b
    using that fit_config [of _ x R other] set_wire_flag_refs [OF prod.collapse [symmetric], of "fst (dm_config x)" key name b] by simp
  have push: "daemon_fit R other (snd (app_builtin_change_setting_push_wire_policy x u v))"
    if "daemon_fit R other x" for x u v
    using fit_push [OF that prod.collapse [symmetric]] .
  have "daemon_fit R other (snd (snd (app_builtin_change_setting_set_server_wire_flag d key enabled)))" for key enabled
  proof (cases "dm_server d = None \<or> dm_codec d = None \<or> key \<noteq> ''enforce_wire_decode'' \<and> key \<noteq> ''enforce_wire_auth''")
    case True
    then show ?thesis using assms(1)
      by (auto simp: app_builtin_change_setting_set_server_wire_flag_def Let_def split: option.splits)
  next
    case False
    then obtain server where srv: "dm_server d = Some server" by auto
    obtain b cfg where s: "set_wire_flag (fst (dm_config d)) key (sv_name server) enabled = (b, cfg)" by fastforce
    let ?d1 = "d\<lparr>dm_config := (cfg, snd (dm_config d))\<rparr>"
    have 1: "daemon_fit R other ?d1" using flag [OF assms(1), of key "sv_name server" enabled] s by simp
    let ?now = "case dm_server ?d1 of Some s \<Rightarrow> s | None \<Rightarrow> server"
    obtain b2 d2 where p: "app_builtin_change_setting_push_wire_policy ?d1 (sv_enforce_wire_decode ?now) (sv_enforce_wire_auth ?now) = (b2, d2)"
      by fastforce
    have 2: "daemon_fit R other d2" using fit_push [OF 1 p] .
    from False have k: "\<not> (key \<noteq> ''enforce_wire_decode'' \<and> key \<noteq> ''enforce_wire_auth'')" "dm_codec d \<noteq> None" by auto
    show ?thesis
      using assms(1) 1 2 push [OF flag [OF 2]] k
      by (simp add: app_builtin_change_setting_set_server_wire_flag_def Let_def srv s p split: bool.split)
  qed
  then show ?thesis
    using assms
    by (auto simp: app_builtin_change_setting_handle_def split: option.splits prod.splits) (metis snd_conv)+
qed

lemma fit_builtin:
  assumes "kernel_ok (re_net env)" "daemon_fit R other d"
    "app_builtin_handle env is6 d h job action = (ok, reply, d')"
  shows "daemon_fit R other d'"
proof -
  have "d' = d \<or> app_builtin_reload_config_handle env d = (ok, reply, d') \<or>
      app_builtin_probe_rebind_handle env is6 d h job = (ok, reply, d') \<or>
      app_builtin_rebind_listener_handle env is6 d h job = (ok, reply, d') \<or>
      app_builtin_change_setting_handle d h job = (ok, reply, d')"
    using assms(3)
    by (auto simp: app_builtin_handle_def Let_def app_builtin_save_config_handle_def app_builtin_load_config_handle_def
        app_builtin_list_users_handle_def app_builtin_version_handle_def app_builtin_test_blurt_handle_def
        split: if_splits)
  then show ?thesis
    using assms(2) fit_reload [OF assms(1,2)] fit_probe [OF assms(1,2)] fit_rebind_handle [OF assms(1,2)]
      fit_setting [OF assms(2)] by blast
qed

end
