(* ===== verification/Daemon_Facts.thy ===== *)
theory Daemon_Facts
  imports Daemon Builtin_Facts Job_Queue
begin

text \<open>
  What performing a job leaves behind: the buffers are still those of the jobs, no descriptor stays
  open, the daemon keeps its invariant, and a reply fits the response buffer.
\<close>

section \<open>Replies\<close>

lemma jobs_inv_flags [simp]:
  "jobs_inv h st (job\<lparr>aj_should_reply := b\<rparr>) = jobs_inv h st job"
  "jobs_inv h st (job\<lparr>aj_wire_auth := b\<rparr>) = jobs_inv h st job"
  "jobs_inv h st (job\<lparr>aj_should_reply := b, aj_response_len := n\<rparr>) = jobs_inv h st (job\<lparr>aj_response_len := n\<rparr>)"
  "jobs_inv h st (job\<lparr>aj_response_len := n, aj_should_reply := b\<rparr>) = jobs_inv h st (job\<lparr>aj_response_len := n\<rparr>)"
  by (simp_all add: jobs_inv_def job_ok_def job_bufs_def)

lemma jobs_inv_empty_response: "jobs_inv h st job \<Longrightarrow> jobs_inv h st (job\<lparr>aj_response_len := 0\<rparr>)"
  by (auto simp: jobs_inv_def job_ok_def job_bufs_def buf_ok_def split: option.splits)

lemma jobs_inv_cap: "jobs_inv h st job \<Longrightarrow> aj_response_len job \<le> aj_response_cap job"
  by (auto simp: jobs_inv_def job_ok_def buf_ok_def split: option.splits)

text \<open>Reserving and zeroing the response buffer, then writing a reply that fits.\<close>

lemma reserve_zero:
  assumes inv: "jobs_inv h st job" and res: "app_job_reserve_response (job\<lparr>aj_response_len := 0\<rparr>) APP_JOB_RESPONSE_BLOCK_SIZE h = (ok, job1, h1)"
  shows "jobs_inv h1 st job1" "aj_response_len job1 = 0" "aj_request job1 = aj_request job"
    "job1 = job\<lparr>aj_response_len := 0, aj_response_buffer := aj_response_buffer job1, aj_response_cap := aj_response_cap job1\<rparr>"
    "ok \<Longrightarrow> length bytes \<le> aj_response_cap job1 \<Longrightarrow>
       jobs_inv (bh_write (aj_response_buffer job1) bytes (bh_write (aj_response_buffer job1) (replicate (aj_response_cap job1) 0) h1))
         st (job1\<lparr>aj_response_len := length bytes\<rparr>)"
    "ok \<Longrightarrow> APP_JOB_RESPONSE_BLOCK_SIZE \<le> aj_response_cap job1"
    "ok \<Longrightarrow> length bytes \<le> aj_response_cap job1 \<Longrightarrow>
       bh_read (aj_response_buffer job1) (length bytes)
         (bh_write (aj_response_buffer job1) bytes (bh_write (aj_response_buffer job1) (replicate (aj_response_cap job1) 0) h1)) = bytes"
    "\<forall>n. \<not> bh_oom h n \<Longrightarrow> ok"
proof -
  have inv0: "jobs_inv h st (job\<lparr>aj_response_len := 0\<rparr>)" using jobs_inv_empty_response [OF inv] .
  show inv1: "jobs_inv h1 st job1" using reserve_inv [OF inv0 res] .
  have own: "bh_owned h (owned (js_ready_queue st) + job_bufs (job\<lparr>aj_response_len := 0\<rparr>))"
    and jok: "job_ok h (job\<lparr>aj_response_len := 0\<rparr>)" using inv0 by (auto simp: jobs_inv_def)
  note f = reserve_response_facts [OF own jok res]
  show j1: "job1 = job\<lparr>aj_response_len := 0, aj_response_buffer := aj_response_buffer job1, aj_response_cap := aj_response_cap job1\<rparr>"
    using f(7) by simp
  show "aj_response_len job1 = 0" "aj_request job1 = aj_request job"
    using arg_cong [OF j1, of aj_response_len] arg_cong [OF j1, of aj_request] by simp_all
  show ok if "\<forall>n. \<not> bh_oom h n" using f(9) that by simp
  show "APP_JOB_RESPONSE_BLOCK_SIZE \<le> aj_response_cap job1" if ok
    using f(4) that by (simp add: APP_JOB_RESPONSE_BLOCK_SIZE_def)
  { assume ok and len: "length bytes \<le> aj_response_cap job1"
    then obtain a where a: "aj_response_buffer job1 = Some a" using f(4) by (auto simp: APP_JOB_RESPONSE_BLOCK_SIZE_def)
    let ?z = "replicate (aj_response_cap job1) (0 :: u8)" and ?job2 = "job1\<lparr>aj_response_len := aj_response_cap job1\<rparr>"
    have inv2: "jobs_inv (bh_write (Some a) ?z h1) st ?job2"
      using respond_inv [OF inv1 a, of ?z] by simp
    have inv3: "jobs_inv (bh_write (Some a) bytes (bh_write (Some a) ?z h1)) st (?job2\<lparr>aj_response_len := length bytes\<rparr>)"
      using respond_inv [OF inv2, of a bytes] a len by simp
    have own2: "bh_owned (bh_write (Some a) ?z h1) (owned (js_ready_queue st) + job_bufs ?job2)"
      "job_ok (bh_write (Some a) ?z h1) ?job2" using inv2 by (simp_all add: jobs_inv_def)
    have "bh_read (Some a) (length bytes) (bh_write (Some a) bytes (bh_write (Some a) ?z h1)) = bytes"
      using write_response_facts(4) [OF own2, of a bytes] buffers_apart [OF own2(1)] a len by simp
    with inv3 a show "jobs_inv (bh_write (aj_response_buffer job1) bytes (bh_write (aj_response_buffer job1) ?z h1)) st (job1\<lparr>aj_response_len := length bytes\<rparr>)"
      "bh_read (aj_response_buffer job1) (length bytes) (bh_write (aj_response_buffer job1) bytes (bh_write (aj_response_buffer job1) ?z h1)) = bytes"
      by simp_all }
qed

lemma semantic_reply_length:
  "app_daemon_payload_build_semantic_reply cfg job reply cap = Some bytes \<Longrightarrow>
   length bytes \<le> cap \<and> length bytes \<le> SL_KNOCK_RESPONSE_PAYLOAD_HEADER_SIZE + APP_ACTION_REPLY_MESSAGE_MAX"
  by (auto simp: app_daemon_payload_build_semantic_reply_def Let_def bytes_of_def SL_KNOCK_RESPONSE_PAYLOAD_HEADER_SIZE_def
      APP_ACTION_REPLY_MESSAGE_MAX_def split: if_splits)

lemma stage_reply_facts:
  assumes inv: "jobs_inv h st job" and run: "app_daemon_payload_stage_reply cfg job reply h = (ok, job', h')"
  shows "jobs_inv h' st job'" "aj_request job' = aj_request job" "aj_wire_version job' = aj_wire_version job"
    "aj_response_len job' \<le> SL_KNOCK_RESPONSE_PAYLOAD_HEADER_SIZE + APP_ACTION_REPLY_MESSAGE_MAX"
    "ok \<Longrightarrow> ar_should_reply reply \<Longrightarrow> aj_should_reply job' \<and>
       app_daemon_payload_build_semantic_reply cfg job reply (aj_response_cap job') =
         Some (bh_read (aj_response_buffer job') (aj_response_len job') h')"
    "ok \<Longrightarrow> ar_should_reply reply \<Longrightarrow> APP_JOB_RESPONSE_BLOCK_SIZE \<le> aj_response_cap job'"
    "\<forall>n. \<not> bh_oom h n \<Longrightarrow> ok"
proof -
  let ?P = "jobs_inv h' st job' \<and> aj_request job' = aj_request job \<and> aj_wire_version job' = aj_wire_version job \<and>
    aj_response_len job' \<le> SL_KNOCK_RESPONSE_PAYLOAD_HEADER_SIZE + APP_ACTION_REPLY_MESSAGE_MAX \<and>
    ((\<forall>n. \<not> bh_oom h n) \<longrightarrow> ok) \<and>
    (ok \<longrightarrow> ar_should_reply reply \<longrightarrow> aj_should_reply job' \<and> APP_JOB_RESPONSE_BLOCK_SIZE \<le> aj_response_cap job' \<and>
       app_daemon_payload_build_semantic_reply cfg job reply (aj_response_cap job') =
         Some (bh_read (aj_response_buffer job') (aj_response_len job') h'))"
  have ?P
  proof (cases "ar_should_reply reply")
    case False
    with run have "ok" "job' = job\<lparr>aj_response_len := 0, aj_should_reply := False\<rparr>" "h' = h"
      by (simp_all add: app_daemon_payload_stage_reply_def)
    with jobs_inv_empty_response [OF inv] False show ?thesis by simp
  next
    case True
    obtain b job1 h1 where res: "app_job_reserve_response (job\<lparr>aj_response_len := 0\<rparr>) APP_JOB_RESPONSE_BLOCK_SIZE h = (b, job1, h1)"
      by (metis prod_cases3)
    note f = reserve_zero [OF inv res]
    have fr: "aj_wire_version job1 = aj_wire_version job" by (subst f(4)) simp
    show ?thesis
    proof (cases b)
      case False
      with run True res have "\<not> ok" "job' = job1\<lparr>aj_should_reply := False\<rparr>" "h' = h1"
        by (simp_all add: app_daemon_payload_stage_reply_def)
      with f(1-3) f(8) fr False show ?thesis by auto
    next
      case b: True
      have same: "app_daemon_payload_build_semantic_reply cfg job1 reply n = app_daemon_payload_build_semantic_reply cfg job reply n" for n
        using f(3) by (simp add: app_daemon_payload_build_semantic_reply_def)
      have "SL_KNOCK_RESPONSE_PAYLOAD_HEADER_SIZE \<le> aj_response_cap job1"
        using f(6) [OF b] by (simp add: SL_KNOCK_RESPONSE_PAYLOAD_HEADER_SIZE_def APP_JOB_RESPONSE_BLOCK_SIZE_def)
      then obtain bytes where bytes: "app_daemon_payload_build_semantic_reply cfg job1 reply (aj_response_cap job1) = Some bytes"
        using True by (simp add: app_daemon_payload_build_semantic_reply_def Let_def)
      note len = semantic_reply_length [OF bytes]
      have "ok" "job' = job1\<lparr>aj_should_reply := True, aj_response_len := length bytes\<rparr>"
        "h' = bh_write (aj_response_buffer job1) bytes (bh_write (aj_response_buffer job1) (replicate (aj_response_cap job1) 0) h1)"
        using run True res b bytes by (simp_all add: app_daemon_payload_stage_reply_def Let_def)
      then show ?thesis using f(3,5-7) b len bytes same fr by simp
    qed
  qed
  then show "jobs_inv h' st job'" "aj_request job' = aj_request job" "aj_wire_version job' = aj_wire_version job"
    "aj_response_len job' \<le> SL_KNOCK_RESPONSE_PAYLOAD_HEADER_SIZE + APP_ACTION_REPLY_MESSAGE_MAX"
    "ok \<Longrightarrow> ar_should_reply reply \<Longrightarrow> aj_should_reply job' \<and>
       app_daemon_payload_build_semantic_reply cfg job reply (aj_response_cap job') =
         Some (bh_read (aj_response_buffer job') (aj_response_len job') h')"
    "ok \<Longrightarrow> ar_should_reply reply \<Longrightarrow> APP_JOB_RESPONSE_BLOCK_SIZE \<le> aj_response_cap job'"
    "\<forall>n. \<not> bh_oom h n \<Longrightarrow> ok"
    by simp_all
qed

section \<open>Programs and descriptors\<close>

lemma capture_loop_length: "length captured \<le> out_cap \<Longrightarrow> length (capture_loop out_cap captured chunks) \<le> out_cap"
  by (induction out_cap captured chunks rule: capture_loop.induct) auto

lemma pipe_closed:
  assumes "pipes_ok pv" "pipe_open pv n k = (Some (r, w), k1)"
  shows "so_open (close_socket w (close_socket r k1)) = so_open k" "so_open (close_socket r (close_socket w k1)) = so_open k"
proof -
  have p: "pv_pipe pv n (so_open k) = Some (r, w)" "so_open k1 = insert r (insert w (so_open k))"
    using assms(2) by (auto simp: pipe_open_def split: option.splits)
  have "r \<notin> so_open k" "w \<notin> so_open k" "0 \<le> r" "0 \<le> w" using assms(1) p(1) by (auto simp: pipes_ok_def)
  with p(2) show "so_open (close_socket w (close_socket r k1)) = so_open k" "so_open (close_socket r (close_socket w k1)) = so_open k"
    by (auto simp: close_socket_def)
qed

lemma pipe_none: "pipe_open pv n k = (None, k1) \<Longrightarrow> k1 = k"
  by (auto simp: pipe_open_def split: option.splits)

lemma capture_facts:
  assumes pipes: "pipes_ok pv"
    and run: "app_payload_run_shell_capture pv path argv split run_as cap p k = ((ok, written, len, code), p', k')"
  shows "so_open k' = so_open k" "length written \<le> cap" "len = (if ok then length written else 0)"
proof -
  let ?P = "so_open k' = so_open k \<and> length written \<le> cap \<and> len = (if ok then length written else 0)"
  have ?P
  proof (cases "argv = [] \<or> cap = 0")
    case True
    with run show ?thesis by (auto simp: app_payload_run_shell_capture_def)
  next
    case False
    obtain e k1 where po: "pipe_open pv (pr_forks p) k = (e, k1)" by fastforce
    show ?thesis
    proof (cases e)
      case None
      with run False po pipe_none show ?thesis by (fastforce simp: app_payload_run_shell_capture_def)
    next
      case (Some rw)
      then obtain r w where rw: "e = Some (r, w)" by (cases rw) auto
      note c = pipe_closed [OF pipes po [unfolded rw]]
      obtain chunks failed where out: "pv_output pv (pr_forks p) = (chunks, failed)" by fastforce
      have "length (capture_loop cap [] chunks) \<le> cap" by (rule capture_loop_length) simp
      then show ?thesis
        using run False po rw c out
        by (auto simp: app_payload_run_shell_capture_def Let_def split: option.splits if_splits prod.splits)
    qed
  qed
  then show "so_open k' = so_open k" "length written \<le> cap" "len = (if ok then length written else 0)" by simp_all
qed

lemma forked_fds:
  assumes pipes: "pipes_ok pv" and run: "app_object_run_forked pv dyn h job action p k = (ok, reply, p', k')"
  shows "so_open k' = so_open k" "pr_execs p' = pr_execs p"
proof -
  obtain e k1 where po: "pipe_open pv (pr_forks p) k = (e, k1)" by fastforce
  have "so_open k' = so_open k \<and> pr_execs p' = pr_execs p"
  proof (cases e)
    case None
    with run po pipe_none show ?thesis by (fastforce simp: app_object_run_forked_def Let_def)
  next
    case (Some rw)
    then obtain r w where rw: "e = Some (r, w)" by (cases rw) auto
    note c = pipe_closed [OF pipes po [unfolded rw]]
    show ?thesis using run po rw c by (auto simp: app_object_run_forked_def Let_def split: if_splits prod.splits)
  qed
  then show "so_open k' = so_open k" "pr_execs p' = pr_execs p" by simp_all
qed

text \<open>At most one program is started, the one that the path names, with the arguments given.\<close>

definition started :: "processes \<Rightarrow> string \<Rightarrow> string list \<Rightarrow> bool \<Rightarrow> string \<Rightarrow> processes \<Rightarrow> bool" where
  "started p path argv split run_as p' \<longleftrightarrow> pr_execs p' = pr_execs p \<or>
     (\<exists>cmd full. shell_argv path argv split = Some (cmd, full) \<and>
        pr_execs p' = pr_execs p @ [\<lparr>ev_path = cmd, ev_argv = full, ev_run_as = run_as\<rparr>])"

lemma child_execs:
  "child_exec pv dup cmd argv run_as p = (status, p') \<Longrightarrow>
   pr_execs p' = pr_execs p \<or> pr_execs p' = pr_execs p @ [\<lparr>ev_path = cmd, ev_argv = argv, ev_run_as = run_as\<rparr>]"
  by (auto simp: child_exec_def Let_def split: if_splits)

lemma run_shell_wait_started:
  assumes "app_payload_run_shell_wait pv path argv split run_as p = (ok, code, p')"
  shows "started p path argv split run_as p'"
proof (cases "argv = [] \<or> shell_argv path argv split = None")
  case True
  with assms show ?thesis by (auto simp: app_payload_run_shell_wait_def started_def split: if_splits)
next
  case False
  then obtain cmd full where sh: "shell_argv path argv split = Some (cmd, full)" "argv \<noteq> []" by auto
  obtain st p1 where f: "app_payload_fork_exec pv cmd full run_as p = (st, p1)" by fastforce
  have "p' = p1" using assms f sh by (auto simp: app_payload_run_shell_wait_def split: option.splits)
  moreover have "pr_execs p1 = pr_execs p \<or> pr_execs p1 = pr_execs p @ [\<lparr>ev_path = cmd, ev_argv = full, ev_run_as = run_as\<rparr>]"
    using f child_execs [of pv False cmd full run_as p] by (auto simp: app_payload_fork_exec_def split: if_splits prod.splits)
  ultimately show ?thesis using sh by (auto simp: started_def)
qed

lemma run_shell_capture_started:
  assumes "app_payload_run_shell_capture pv path argv split run_as cap p k = (res, p', k')"
  shows "started p path argv split run_as p'"
proof (cases "argv = [] \<or> cap = 0")
  case True
  with assms show ?thesis by (auto simp: app_payload_run_shell_capture_def started_def)
next
  case False
  obtain e k1 where po: "pipe_open pv (pr_forks p) k = (e, k1)" by fastforce
  show ?thesis
  proof (cases "e = None \<or> shell_argv path argv split = None")
    case True
    with assms False po show ?thesis
      by (auto simp: app_payload_run_shell_capture_def started_def split: option.splits)
  next
    case some: False
    then obtain r w cmd full where sh: "e = Some (r, w)" "shell_argv path argv split = Some (cmd, full)" by auto
    obtain st p1 where c: "child_exec pv True cmd full run_as p = (st, p1)" by fastforce
    have "p' = p1 \<or> p' = p\<lparr>pr_forks := pr_forks p + 1\<rparr>"
      using assms False po sh c
      by (auto simp: app_payload_run_shell_capture_def Let_def split: option.splits if_splits prod.splits)
    then show ?thesis using child_execs [OF c] sh by (auto simp: started_def)
  qed
qed

section \<open>Dispatch\<close>

text \<open>The machine between jobs, with the queue \<open>st\<close> and the job \<open>job\<close> in hand.\<close>

definition machine_ok :: "int set \<Rightarrow> key_refs \<Rightarrow> AppJobState \<Rightarrow> AppConnectionJob \<Rightarrow> machine \<Rightarrow> bool" where
  "machine_ok R other st job m \<longleftrightarrow> daemon_fit R other (mc_daemon m) \<and> jobs_inv (mc_heap m) st job"

definition env_ok :: "machine_env \<Rightarrow> bool" where
  "env_ok env \<longleftrightarrow> kernel_ok (re_net (me_runtime env)) \<and> pipes_ok (me_procs env)"

lemma machine_reply_ok:
  assumes "machine_ok R other st job m" "machine_reply m job reply = (ok, job', m')"
  shows "machine_ok R other st job' m'" "mc_daemon m' = mc_daemon m" "mc_procs m' = mc_procs m"
    "aj_request job' = aj_request job" "aj_wire_version job' = aj_wire_version job"
    "aj_response_len job' \<le> SL_KNOCK_RESPONSE_PAYLOAD_HEADER_SIZE + APP_ACTION_REPLY_MESSAGE_MAX"
proof -
  obtain h1 where s: "app_daemon_payload_stage_reply (fst (dm_config (mc_daemon m))) job reply (mc_heap m) = (ok, job', h1)"
    "m' = m\<lparr>mc_heap := h1\<rparr>" using assms(2) by (auto simp: machine_reply_def split: prod.splits)
  have inv: "jobs_inv (mc_heap m) st job" using assms(1) by (simp add: machine_ok_def)
  note f = stage_reply_facts [OF inv s(1)]
  show "machine_ok R other st job' m'" using assms(1) f(1) s(2) by (simp add: machine_ok_def)
  show "mc_daemon m' = mc_daemon m" "mc_procs m' = mc_procs m" using s(2) by simp_all
  show "aj_request job' = aj_request job" "aj_wire_version job' = aj_wire_version job"
    "aj_response_len job' \<le> SL_KNOCK_RESPONSE_PAYLOAD_HEADER_SIZE + APP_ACTION_REPLY_MESSAGE_MAX" using f by simp_all
qed

lemma machine_ok_daemon: "machine_ok R other st job m \<Longrightarrow> daemon_fit R other d \<Longrightarrow> machine_ok R other st job (m\<lparr>mc_daemon := d\<rparr>)"
  by (simp add: machine_ok_def)

lemma machine_ok_procs [simp]: "machine_ok R other st job (m\<lparr>mc_procs := p\<rparr>) = machine_ok R other st job m"
  by (simp add: machine_ok_def)

lemma dispatch_builtin_ok:
  assumes env: "env_ok env" and m: "machine_ok R other st job m"
    and run: "dispatch_builtin env m job action = (ok, job', m')"
  shows "machine_ok R other st job' m'" "mc_procs m' = mc_procs m"
proof -
  obtain b reply d1 where h: "app_builtin_handle (me_runtime env) (me_is_ipv6 env) (mc_daemon m) (mc_heap m) job action = (b, reply, d1)"
    by (metis prod_cases3)
  have fit: "daemon_fit R other d1" using fit_builtin [OF _ _ h] env m by (simp add: env_ok_def machine_ok_def)
  have "machine_ok R other st job (m\<lparr>mc_daemon := d1\<rparr>)" "machine_ok R other st job (m\<lparr>mc_daemon := d1\<lparr>dm_session := s\<rparr>\<rparr>)" for s
    using machine_ok_daemon [OF m] fit by simp_all
  note r = machine_reply_ok(1,3) [OF this(1)] machine_reply_ok(1,3) [OF this(2)]
  show "machine_ok R other st job' m'" "mc_procs m' = mc_procs m"
    using run h r \<open>machine_ok R other st job (m\<lparr>mc_daemon := d1\<rparr>)\<close>
    by (auto simp: dispatch_builtin_def Let_def split: if_splits option.splits prod.splits)
qed

lemma dispatch_object_ok:
  assumes env: "env_ok env" and m: "machine_ok R other st job m"
    and run: "dispatch_object env m job action = (ok, job', m')"
  shows "machine_ok R other st job' m'" "pr_execs (mc_procs m') = pr_execs (mc_procs m)"
proof -
  define dyn where "dyn = (sa_handler action \<noteq> SL_ACTION_HANDLER_STATIC)"
  obtain b reply p1 k1 where h: "app_object_run_forked (me_procs env) dyn (mc_heap m) job action (mc_procs m) (dm_socks (mc_daemon m)) = (b, reply, p1, k1)"
    by (metis prod_cases4)
  note f = forked_fds [OF _ h]
  let ?m1 = "m\<lparr>mc_procs := p1, mc_daemon := (mc_daemon m)\<lparr>dm_socks := k1\<rparr>\<rparr>"
  have m1: "machine_ok R other st job ?m1"
    using m fit_socks [of k1 "mc_daemon m" R other] f env by (simp add: machine_ok_def env_ok_def)
  have "(if sa_handler action = SL_ACTION_HANDLER_STATIC then app_object_run_static else app_object_run_dynamic) (me_procs env)
      (mc_heap m) job action (mc_procs m) (dm_socks (mc_daemon m)) = (b, reply, p1, k1)"
    using h by (cases "sa_handler action = SL_ACTION_HANDLER_STATIC") (simp_all add: dyn_def app_object_run_static_def app_object_run_dynamic_def)
  then obtain staged where r: "machine_reply ?m1 job reply = (staged, job', m')"
    using run by (auto simp: dispatch_object_def Let_def split: prod.splits)
  show "machine_ok R other st job' m'" "pr_execs (mc_procs m') = pr_execs (mc_procs m)"
    using machine_reply_ok(1,3) [OF m1 r] f(2) env by (simp_all add: env_ok_def)
qed

lemma shell_failure_ok:
  assumes "machine_ok R other st job m" "shell_failure m job action reason = (ok, job', m')"
  shows "machine_ok R other st job' m'" "mc_daemon m' = mc_daemon m" "mc_procs m' = mc_procs m"
  using assms(2) machine_reply_ok(1-3) [OF assms(1)] by (auto simp: shell_failure_def split: prod.splits)

lemma dispatch_shell_ok:
  assumes m: "machine_ok R other st job m" and run: "dispatch_shell env m job server user action = (ok, job', m')"
  shows "machine_ok R other st job' m'" "mc_daemon m' = mc_daemon m"
proof -
  have m1: "machine_ok R other st job (m\<lparr>mc_procs := p\<rparr>)" for p using m by simp
  have "machine_ok R other st job' m' \<and> mc_daemon m' = mc_daemon m"
  proof (cases "sa_constructor action = []")
    case True
    with run m show ?thesis by (simp add: dispatch_shell_def)
  next
    case con: False
    note run1 = run [unfolded dispatch_shell_def if_not_P [OF con] Let_def]
    show ?thesis
    proof (cases "shell_payload (w_malloc (re_world (me_runtime env))) (job_payload (mc_heap m) job)")
      case (Inl reason)
      with run1 show ?thesis using shell_failure_ok(1,2) [OF m] by simp
    next
      case (Inr b64)
      obtain started code p1 where sh: "app_payload_run_shell_wait (me_procs env) (sa_constructor action)
          (shell_arguments job server user action b64) (sa_exec_split action) (sa_run_as action) (mc_procs m) = (started, code, p1)"
        by (metis prod_cases3)
      obtain reply where reply: "reply = (case shell_reply_text action code of (ok, text) \<Rightarrow> app_action_reply_set ok text)" by blast
      note run2 = run1 [unfolded Inr sum.case sh prod.case reply [symmetric]]
      show ?thesis
      proof (cases started)
        case False
        with run2 show ?thesis using shell_failure_ok(1,2) [OF m1, of p1] by simp
      next
        case True
        then obtain staged where "machine_reply (m\<lparr>mc_procs := p1\<rparr>) job reply = (staged, job', m')"
          using run2 by (auto split: prod.splits)
        with machine_reply_ok(1,2) [OF m1 this] show ?thesis by simp
      qed
    qed
  qed
  then show "machine_ok R other st job' m'" "mc_daemon m' = mc_daemon m" by simp_all
qed

lemma dispatch_ok:
  assumes "env_ok env" "machine_ok R other st job m"
    "app_daemon_payload_dispatch_action env m job user action = (ok, job', m')"
  shows "machine_ok R other st job' m'"
proof (cases "dm_server (mc_daemon m)")
  case None
  with assms(2,3) show ?thesis by (simp add: app_daemon_payload_dispatch_action_def)
next
  case (Some server)
  from assms(3) have "dispatch_builtin env m job action = (ok, job', m') \<or> dispatch_object env m job action = (ok, job', m') \<or>
      dispatch_shell env m job server user action = (ok, job', m')"
    by (simp add: app_daemon_payload_dispatch_action_def Some split: if_splits)
  then show ?thesis
    using dispatch_builtin_ok(1) [OF assms(1,2)] dispatch_object_ok(1) [OF assms(1,2)] dispatch_shell_ok(1) [OF assms(2)]
    by blast
qed

section \<open>One job\<close>

lemma admit_spec:
  assumes "admit env d h job = (admitted, job', d')"
  shows "\<exists>s. d' = d\<lparr>dm_session := s\<rparr>" "job' = job \<or> job' = job\<lparr>aj_wire_auth := aj_wire_auth job'\<rparr>"
    "admitted = Some (user, action) \<Longrightarrow> aj_wire_version job \<noteq> 0 \<Longrightarrow>
       config_user_by_id_from_ptr (fst (dm_config d)) (ucast (rq_user_id (aj_request job))) = Some user \<and>
       config_action_by_id_from_ptr (fst (dm_config d)) (ucast (rq_action_id (aj_request job))) = Some action \<and>
       signed_by (me_evp env) (me_openssl env) h user job' \<and> aj_wire_auth job' \<and>
       app_daemon_policy_enforce (fst (dm_config d)) (dm_server d) job' user action"
proof -
  let ?cfg = "fst (dm_config d)"
  obtain bound s1 where b: "app_daemon_request_bind_user_action ?cfg (dm_server d) job (dm_session d) = (bound, s1)" by fastforce
  obtain ok s2 job1 where a: "app_daemon_auth_authorize (me_evp env) (me_openssl env) ?cfg h s1 job = (ok, s2, job1)"
    by (metis prod_cases3)
  note as = authorize_spec [OF a]
  have "(\<exists>s. d' = d\<lparr>dm_session := s\<rparr>) \<and> (job' = job \<or> job' = job1) \<and>
    (admitted = Some (user, action) \<longrightarrow> bound = Some (user, action) \<and> ok \<and> job' = job1 \<and>
       app_daemon_policy_enforce ?cfg (dm_server d) job1 user action)"
    using assms unfolding admit_def Let_def b a prod.case
    by (cases bound; cases ok) (auto split: prod.splits if_splits)
  then have r: "\<exists>s. d' = d\<lparr>dm_session := s\<rparr>" "job' = job \<or> job' = job1"
    "admitted = Some (user, action) \<Longrightarrow> bound = Some (user, action) \<and> ok \<and> job' = job1 \<and>
       app_daemon_policy_enforce ?cfg (dm_server d) job1 user action" by blast+
  show "\<exists>s. d' = d\<lparr>dm_session := s\<rparr>" using r(1) .
  have "job1 = job\<lparr>aj_wire_auth := aj_wire_auth job1\<rparr>" using as(4,5) by simp
  then show "job' = job \<or> job' = job\<lparr>aj_wire_auth := aj_wire_auth job'\<rparr>" using r(2) by blast
  assume adm: "admitted = Some (user, action)" and v: "aj_wire_version job \<noteq> 0"
  note r3 = r(3) [OF adm]
  from r3 b have b': "app_daemon_request_bind_user_action ?cfg (dm_server d) job (dm_session d) = (Some (user, action), s1)" by simp
  from r3 have ok by simp
  from as(6) [OF \<open>ok\<close> v] obtain u where u: "config_user_by_id_from_ptr ?cfg (ucast (rq_user_id (aj_request job))) = Some u"
    "signed_by (me_evp env) (me_openssl env) h u job1" by blast
  with bind_spec [OF b'] r3 as(4) show "config_user_by_id_from_ptr ?cfg (ucast (rq_user_id (aj_request job))) = Some user \<and>
       config_action_by_id_from_ptr ?cfg (ucast (rq_action_id (aj_request job))) = Some action \<and>
       signed_by (me_evp env) (me_openssl env) h user job' \<and> aj_wire_auth job' \<and>
       app_daemon_policy_enforce ?cfg (dm_server d) job' user action" by simp
qed

section \<open>Raw payloads\<close>

lemma unstructured_facts:
  assumes pipes: "pipes_ok pv" and inv: "jobs_inv h st job"
    and run: "app_payload_unstructured_handle pv malloc_ok cfg server job h p k = (job', h', p', k')"
  shows "jobs_inv h' st job'" "so_open k' = so_open k" "aj_request job' = aj_request job"
    "aj_wire_version job' = aj_wire_version job"
    "pr_execs p' = pr_execs p \<or> (\<exists>sv drop prefix len argv.
       server = Some sv \<and> server_deaddrop_starts_with_buffer cfg sv (job_payload h job) 512 = Some (drop, prefix, len) \<and>
       started p (sd_constructor drop) argv (sd_exec_split drop) (sd_run_as drop) p')"
proof -
  let ?P = "jobs_inv h' st job' \<and> so_open k' = so_open k \<and> aj_request job' = aj_request job \<and>
    aj_wire_version job' = aj_wire_version job \<and>
    (pr_execs p' = pr_execs p \<or> (\<exists>sv drop prefix len argv.
       server = Some sv \<and> server_deaddrop_starts_with_buffer cfg sv (job_payload h job) 512 = Some (drop, prefix, len) \<and>
       started p (sd_constructor drop) argv (sd_exec_split drop) (sd_run_as drop) p'))"
  have skip: "(job', h', p', k') = (job, h, p, k) \<Longrightarrow> ?P" using inv by simp
  have ?P
  proof (cases server)
    case None
    with run skip show ?thesis by (simp add: app_payload_unstructured_handle_def)
  next
    case (Some sv)
    let ?payload = "job_payload h job"
    show ?thesis
    proof (cases "(rq_payload_len (aj_request job) > 0 \<and> rq_payload_buffer (aj_request job) = None) \<or>
        server_deaddrop_starts_with_buffer cfg sv ?payload 512 = None")
      case True
      then have "(job', h', p', k') = (job, h, p, k)"
        using run Some by (auto simp: app_payload_unstructured_handle_def Let_def split: if_splits)
      then show ?thesis by (rule skip)
    next
      case some: False
      then obtain dd prefix len where dd: "server_deaddrop_starts_with_buffer cfg sv ?payload 512 = Some (dd, prefix, len)" by auto
      let ?b64 = "payload_base64 app_payload_unstructured_base64_size malloc_ok (drop len ?payload)"
      show ?thesis
      proof (cases "sd_require_ascii dd \<and> \<not> app_payload_unstructured_is_ascii ?payload \<or> ?b64 = None")
        case True
        then have "(job', h', p', k') = (job, h, p, k)"
          using run Some some dd by (auto simp: app_payload_unstructured_handle_def Let_def split: if_splits)
        then show ?thesis by (rule skip)
      next
        case go: False
        then obtain b64 where b64: "?b64 = Some b64" by auto
        have eq: "job\<lparr>aj_response_len := 0, aj_should_reply := False\<rparr> = (job\<lparr>aj_should_reply := False\<rparr>)\<lparr>aj_response_len := 0\<rparr>" by simp
        have inv0: "jobs_inv h st (job\<lparr>aj_should_reply := False\<rparr>)" using inv by simp
        obtain ok job1 h1 where res: "app_job_reserve_response ((job\<lparr>aj_should_reply := False\<rparr>)\<lparr>aj_response_len := 0\<rparr>)
            APP_JOB_RESPONSE_BLOCK_SIZE h = (ok, job1, h1)" by (metis prod_cases3)
        note f = reserve_zero [OF inv0 res]
        have fr: "aj_request job1 = aj_request job" "aj_wire_version job1 = aj_wire_version job"
          using f(3) arg_cong [OF f(4), of aj_wire_version] by simp_all
        show ?thesis
        proof (cases ok)
          case False
          then have "(job', h', p', k') = (job1, h1, p, k)"
            using run Some some dd go b64 res by (auto simp: app_payload_unstructured_handle_def Let_def eq)
          with f(1) fr show ?thesis by simp
        next
          case True
          let ?argv = "[aj_ip job, sd_name dd, int_text (if sv_secure sv then 1 else 0), b64]"
          let ?cap = "aj_response_cap job1"
          obtain ok2 written len2 code p1 k1 where cap: "app_payload_run_shell_capture pv (sd_constructor dd) ?argv
              (sd_exec_split dd) (sd_run_as dd) ?cap p k = ((ok2, written, len2, code), p1, k1)" by (metis prod.collapse)
          note cf = capture_facts [OF pipes cap]
          define h3 where "h3 = bh_write (aj_response_buffer job1) written (bh_write (aj_response_buffer job1) (replicate ?cap 0) h1)"
          have r: "h' = h3" "p' = p1" "k' = k1"
            "job' = (if ok2 then job1\<lparr>aj_response_len := len2, aj_should_reply := len2 > 0\<rparr>
                     else job1\<lparr>aj_response_len := 0, aj_should_reply := False\<rparr>)"
            using run Some some dd go b64 res True cap
            by (auto simp: app_payload_unstructured_handle_def Let_def eq h3_def)
          have i3: "jobs_inv h3 st (job1\<lparr>aj_response_len := length written\<rparr>)"
            unfolding h3_def using f(5) [OF True cf(2)] .
          have "jobs_inv h3 st ((job1\<lparr>aj_response_len := length written\<rparr>)\<lparr>aj_response_len := 0\<rparr>)"
            using jobs_inv_empty_response [OF i3] .
          then have "jobs_inv h' st job'" using i3 cf(3) r by (simp split: if_splits)
          moreover have "started p (sd_constructor dd) ?argv (sd_exec_split dd) (sd_run_as dd) p'"
            using run_shell_capture_started [OF cap] r by simp
          ultimately show ?thesis using cf(1) fr r Some dd by auto
        qed
      qed
    qed
  qed
  then show "jobs_inv h' st job'" "so_open k' = so_open k" "aj_request job' = aj_request job"
    "aj_wire_version job' = aj_wire_version job"
    "pr_execs p' = pr_execs p \<or> (\<exists>sv drop prefix len argv.
       server = Some sv \<and> server_deaddrop_starts_with_buffer cfg sv (job_payload h job) 512 = Some (drop, prefix, len) \<and>
       started p (sd_constructor drop) argv (sd_exec_split drop) (sd_run_as drop) p')"
    by blast+
qed

section \<open>A whole job\<close>

lemma consume_ok:
  assumes env: "env_ok env" and m: "machine_ok R other st job m"
    and run: "app_daemon_payload_consume env m job = (ok, job', m')"
  shows "machine_ok R other st job' m'"
proof -
  let ?d = "mc_daemon m"
  have fit: "daemon_fit R other ?d" and inv: "jobs_inv (mc_heap m) st job" using m by (simp_all add: machine_ok_def)
  show ?thesis
  proof (cases "dm_server ?d = None \<or> (rq_payload_len (aj_request job) > 0 \<and> rq_payload_buffer (aj_request job) = None)")
    case True
    then have "(ok, job', m') = (False, job, m)"
      using run by (auto simp: app_daemon_payload_consume_def Let_def split: if_splits)
    with m show ?thesis by simp
  next
    case False
    show ?thesis
    proof (cases "aj_wire_version job = 0")
      case True
      obtain job1 h1 p1 k1 where u: "app_payload_unstructured_handle (me_procs env) (w_malloc (re_world (me_runtime env)))
          (fst (dm_config ?d)) (dm_server ?d) job (mc_heap m) (mc_procs m) (dm_socks ?d) = (job1, h1, p1, k1)"
        by (metis prod_cases4)
      have pipes: "pipes_ok (me_procs env)" using env by (simp add: env_ok_def)
      note f = unstructured_facts(1,2) [OF pipes inv u]
      have "job' = job1" "m' = \<lparr>mc_daemon = ?d\<lparr>dm_socks := k1\<rparr>, mc_heap = h1, mc_procs = p1\<rparr>"
        using run False True u by (auto simp: app_daemon_payload_consume_def Let_def)
      with f fit show ?thesis by (simp add: machine_ok_def fit_socks)
    next
      case wire: False
      obtain adm job1 d1 where a: "admit env ?d (mc_heap m) job = (adm, job1, d1)" by (metis prod_cases3)
      have "jobs_inv (mc_heap m) st job1" using admit_spec(2) [OF a] inv jobs_inv_flags(2) by metis
      moreover have "daemon_fit R other d1" using admit_spec(1) [OF a] fit by auto
      ultimately have m1: "machine_ok R other st job1 (m\<lparr>mc_daemon := d1\<rparr>)" by (simp add: machine_ok_def)
      show ?thesis
      proof (cases adm)
        case None
        with run False wire a have "job' = job1" "m' = m\<lparr>mc_daemon := d1\<rparr>"
          by (auto simp: app_daemon_payload_consume_def Let_def)
        with m1 show ?thesis by simp
      next
        case (Some ua)
        obtain user action where "ua = (user, action)" by fastforce
        with run False wire a Some have "app_daemon_payload_dispatch_action env (m\<lparr>mc_daemon := d1\<rparr>) job1 user action = (ok, job', m')"
          by (auto simp: app_daemon_payload_consume_def Let_def)
        with dispatch_ok [OF env m1] show ?thesis by simp
      qed
    qed
  qed
qed

text \<open>Only an admitted job has effects besides the keys in the session.\<close>

lemma dispatch_execs:
  assumes "app_daemon_payload_dispatch_action env m job user action = (ok, job', m')"
    and "pipes_ok (me_procs env)"
  shows "pr_execs (mc_procs m') = pr_execs (mc_procs m) \<or>
    (\<exists>server b64. dm_server (mc_daemon m) = Some server \<and> \<not> app_builtin_is_action action \<and>
       shell_payload (w_malloc (re_world (me_runtime env))) (job_payload (mc_heap m) job) = Inr b64 \<and>
       started (mc_procs m) (sa_constructor action) (shell_arguments job server user action b64)
         (sa_exec_split action) (sa_run_as action) (mc_procs m'))"
proof -
  have rep: "machine_reply x j rp = (b, j', x') \<Longrightarrow> mc_procs x' = mc_procs x" for x j rp b j' x'
    by (auto simp: machine_reply_def split: prod.splits)
  have fail: "shell_failure x j a rs = (b, j', x') \<Longrightarrow> mc_procs x' = mc_procs x" for x j a rs b j' x'
    by (auto simp: shell_failure_def split: prod.splits dest: rep)
  show ?thesis
  proof (cases "dm_server (mc_daemon m)")
    case None
    with assms(1) show ?thesis by (simp add: app_daemon_payload_dispatch_action_def)
  next
    case (Some server)
    from assms(1) consider "dispatch_builtin env m job action = (ok, job', m')"
      | "dispatch_object env m job action = (ok, job', m')"
      | "\<not> app_builtin_is_action action" "dispatch_shell env m job server user action = (ok, job', m')"
      by (auto simp: app_daemon_payload_dispatch_action_def Some split: if_splits)
    then show ?thesis
    proof cases
      case 1
      then show ?thesis
        by (auto simp: dispatch_builtin_def Let_def split: prod.splits if_splits option.splits dest!: rep)
    next
      case 2
      define dyn where "dyn = (sa_handler action \<noteq> SL_ACTION_HANDLER_STATIC)"
      obtain b reply p1 k1 where h: "app_object_run_forked (me_procs env) dyn (mc_heap m) job action (mc_procs m) (dm_socks (mc_daemon m)) = (b, reply, p1, k1)"
        by (metis prod_cases4)
      have "(if sa_handler action = SL_ACTION_HANDLER_STATIC then app_object_run_static else app_object_run_dynamic) (me_procs env)
          (mc_heap m) job action (mc_procs m) (dm_socks (mc_daemon m)) = (b, reply, p1, k1)"
        using h by (cases "sa_handler action = SL_ACTION_HANDLER_STATIC") (simp_all add: dyn_def app_object_run_static_def app_object_run_dynamic_def)
      with 2 have "mc_procs m' = p1" by (auto simp: dispatch_object_def Let_def split: prod.splits dest!: rep)
      with forked_fds(2) [OF assms(2) h] show ?thesis by simp
    next
      case 3
      show ?thesis
      proof (cases "sa_constructor action = []")
        case True
        with 3 show ?thesis by (simp add: dispatch_shell_def)
      next
        case con: False
        note run1 = 3(2) [unfolded dispatch_shell_def if_not_P [OF con] Let_def]
        show ?thesis
        proof (cases "shell_payload (w_malloc (re_world (me_runtime env))) (job_payload (mc_heap m) job)")
          case (Inl reason)
          with run1 fail show ?thesis by simp
        next
          case (Inr b64)
          obtain st code p1 where sh: "app_payload_run_shell_wait (me_procs env) (sa_constructor action)
              (shell_arguments job server user action b64) (sa_exec_split action) (sa_run_as action) (mc_procs m) = (st, code, p1)"
            by (metis prod_cases3)
          have "mc_procs m' = p1"
            using run1 unfolding Inr sum.case sh prod.case
            by (cases st) (auto split: prod.splits dest!: rep fail)
          with run_shell_wait_started [OF sh] Some 3(1) Inr show ?thesis by blast
        qed
      qed
    qed
  qed
qed

lemma consume_admitted:
  assumes run: "app_daemon_payload_consume env m job = (ok, job', m')" and wire: "aj_wire_version job \<noteq> 0"
    and act: "m' \<noteq> m\<lparr>mc_daemon := (mc_daemon m)\<lparr>dm_session := dm_session (mc_daemon m')\<rparr>\<rparr>"
  shows "\<exists>user action job1 d1. admit env (mc_daemon m) (mc_heap m) job = (Some (user, action), job1, d1) \<and>
    app_daemon_payload_dispatch_action env (m\<lparr>mc_daemon := d1\<rparr>) job1 user action = (ok, job', m')"
proof -
  have keep: "m = m\<lparr>mc_daemon := (mc_daemon m)\<lparr>dm_session := dm_session (mc_daemon m)\<rparr>\<rparr>" by simp
  have go: "\<not> (dm_server (mc_daemon m) = None \<or> (rq_payload_len (aj_request job) > 0 \<and> rq_payload_buffer (aj_request job) = None))"
  proof
    assume "dm_server (mc_daemon m) = None \<or> (rq_payload_len (aj_request job) > 0 \<and> rq_payload_buffer (aj_request job) = None)"
    then have "m' = m" using run by (auto simp: app_daemon_payload_consume_def Let_def split: if_splits)
    with act keep show False by simp
  qed
  obtain adm job1 d1 where a: "admit env (mc_daemon m) (mc_heap m) job = (adm, job1, d1)" by (metis prod_cases3)
  show ?thesis
  proof (cases adm)
    case None
    then have "m' = m\<lparr>mc_daemon := d1\<rparr>"
      using run go wire a by (auto simp: app_daemon_payload_consume_def Let_def)
    with admit_spec(1) [OF a] act show ?thesis by auto
  next
    case (Some ua)
    obtain user action where "ua = (user, action)" by fastforce
    with run go wire a Some show ?thesis by (auto simp: app_daemon_payload_consume_def Let_def)
  qed
qed

end
