(* ===== verification/Runner_Facts.thy ===== *)
theory Runner_Facts
  imports Runner Daemon_Facts
begin

text \<open>
  The daemon's invariant over its turns: the buffers are those of the queued jobs, the blocks of user
  data those of the packets in the mux, the descriptors and keys accounted for.
\<close>

text \<open>Whatever the time is and whatever keys the daemon holds, the same sound codecs are registered.\<close>

definition codecs_ok :: "('i \<Rightarrow> 'cs registry) \<Rightarrow> bool" where
  "codecs_ok reg \<longleftrightarrow> (\<forall>d. adapters_ok (reg d)) \<and>
     (\<forall>d d' v. (m7mux_normalize_adapter_lookup_wire_version (reg d) v = None) =
        (m7mux_normalize_adapter_lookup_wire_version (reg d') v = None))"

lemma codecs_okD: "codecs_ok reg \<Longrightarrow> adapters_ok (reg d)"
  by (simp add: codecs_ok_def)

lemma codecs_ok_lookup:
  "codecs_ok reg \<Longrightarrow> (m7mux_normalize_adapter_lookup_wire_version (reg d) v = None) =
     (m7mux_normalize_adapter_lookup_wire_version (reg d') v = None)"
  unfolding codecs_ok_def by (drule conjunct2) (drule spec, drule spec, erule spec)

lemma codecs_ok_time:
  assumes "codecs_ok (case_prod reg)"
  shows "codecs_ok (reg t)"
  using codecs_okD [OF assms] codecs_ok_lookup [OF assms] unfolding codecs_ok_def
  by (metis case_prod_conv)

lemma mux_ok_reg:
  assumes "codecs_ok reg"
  shows "mux_ok (reg d) st h = mux_ok (reg d') st h"
proof -
  have "releasable (reg d) p = releasable (reg d') p" for p
    using codecs_ok_lookup [OF assms, of d "rp_wire_version p" d'] by (simp add: releasable_def)
  then have "releasable (reg d) = releasable (reg d')" by blast
  then show ?thesis by (simp add: mux_ok_def stream_ok_def queue_ok_def)
qed

definition runner_ok ::
  "int set \<Rightarrow> key_refs \<Rightarrow> (daemon \<Rightarrow> 'cs registry) \<Rightarrow> AppConnectionJob \<Rightarrow> runner \<Rightarrow> bool" where
  "runner_ok R other reg job ru \<longleftrightarrow> machine_ok R other (ru_jobs ru) job (ru_machine ru) \<and>
     mux_ok (reg (ru_daemon ru)) (ru_mux ru) (ru_users ru)"

definition turn_ok :: "turn_env \<Rightarrow> bool" where
  "turn_ok te \<longleftrightarrow> (\<forall>n. env_ok (te_job te n))"

section \<open>Replies\<close>

lemma flush_mux_ok:
  assumes "mux_ok reg mux users" "m7mux_outbox_flush g mux sock now sends = (n, mux', sends', sent)"
  shows "mux_ok reg mux' users"
proof -
  obtain m eg s out where f: "flush_egress g (mu_egress mux) sock now sends = (m, eg, s, out)" by (metis prod_cases4)
  have "egress_ok eg" using flush_egress_ok [OF _ f] assms(1) by (simp add: mux_ok_def)
  moreover have "mux' = mux\<lparr>mu_egress := eg\<rparr>" using assms(2) f by (simp add: m7mux_outbox_flush_def)
  ultimately show ?thesis using assms(1) by (simp add: mux_ok_def)
qed

lemma stage_bytes_mux_ok:
  assumes "mux_ok reg mux users" "m7mux_outbox_stage_bytes mux send = (b, mux')"
  shows "mux_ok reg mux' users"
  using mux_ok_egress [OF assms(1)] stage_bytes_ok [OF _ assms(2)] assms(1) by (simp add: mux_ok_def)

lemma raw_reply_mux_ok:
  assumes ok: "mux_ok reg mux users"
    and run: "app_daemon_stage_raw_outbox_reply g sock mux job response now sends = (rc, mux', sent)"
  shows "mux_ok reg mux' users"
proof (cases "aj_response_buffer job = None \<or> aj_response_len job = 0")
  case True
  with run ok show ?thesis by (auto simp: app_daemon_stage_raw_outbox_reply_def)
next
  case False
  define send where "send = \<lparr>sb_trace_id = 0, sb_label = ''daemon'', sb_ip = cstr63 (aj_ip job),
                 sb_client_port = aj_client_port job, sb_received_ms = ucast (aj_timestamp job),
                 sb_bytes = Some response, sb_bytes_len = min (aj_response_len job) M7MUX_NORMALIZED_PACKET_BUFFER_SIZE\<rparr>"
  obtain b1 mux1 where s1: "m7mux_outbox_stage_bytes mux send = (b1, mux1)" by fastforce
  obtain n mux2 s sent1 where f: "m7mux_outbox_flush g mux1 sock now sends = (n, mux2, s, sent1)" by (metis prod_cases4)
  obtain b3 mux3 where s3: "m7mux_outbox_stage_bytes mux2 send = (b3, mux3)" by fastforce
  note ok1 = stage_bytes_mux_ok [OF ok s1]
  note ok3 = stage_bytes_mux_ok [OF flush_mux_ok [OF ok1 f] s3]
  have "mux' = mux1 \<or> mux' = mux3"
    using run False s1 f s3
    by (cases b1; cases b3) (simp_all add: app_daemon_stage_raw_outbox_reply_def Let_def send_def [symmetric])
  with ok1 ok3 show ?thesis by blast
qed

lemma reply_mux_ok:
  assumes reg: "adapters_ok reg" and ok: "mux_ok reg mux users"
    and run: "app_daemon_stage_outbox_reply g reg sock callocs mux job response now sends r = (rc, mux', r', sent)"
  shows "mux_ok reg mux' users"
proof (cases "aj_wire_version job = 0")
  case True
  with run raw_reply_mux_ok [OF ok] show ?thesis
    by (auto simp: app_daemon_stage_outbox_reply_def split: prod.splits)
next
  case False
  show ?thesis
  proof (cases "app_daemon_copy_job_reply_to_send job response")
    case None
    with run False ok show ?thesis by (simp add: app_daemon_stage_outbox_reply_def)
  next
    case (Some send)
    obtain b1 mux1 r1 where s1: "m7mux_outbox_stage reg (fst callocs) mux send r = (b1, mux1, r1)" by (metis prod_cases3)
    obtain n mux2 s sent1 where f: "m7mux_outbox_flush g mux1 sock now sends = (n, mux2, s, sent1)" by (metis prod_cases4)
    obtain b3 mux3 r3 where s3: "m7mux_outbox_stage reg (snd callocs) mux2 send r1 = (b3, mux3, r3)" by (metis prod_cases3)
    note ok1 = stage_ok(1) [OF reg ok s1]
    note ok3 = stage_ok(1) [OF reg flush_mux_ok [OF ok1 f] s3]
    have "mux' = mux1 \<or> mux' = mux3"
      using run False Some s1 f s3 by (cases b1; cases b3) (simp_all add: app_daemon_stage_outbox_reply_def)
    with ok1 ok3 show ?thesis by blast
  qed
qed

section \<open>Jobs\<close>

lemma perform_job_ok:
  assumes reg: "codecs_ok reg" and te: "turn_ok te" and ru: "runner_ok R other reg job ru"
    and run: "perform_job reg te n job ru = (rc, ru')"
  shows "runner_ok R other reg zero_job ru'"
proof -
  have env: "env_ok (te_job te n)" using te by (simp add: turn_ok_def)
  have m: "machine_ok R other (ru_jobs ru) job (ru_machine ru)" using ru by (simp add: runner_ok_def)
  obtain ok job1 m1 where c: "app_daemon_payload_consume (te_job te n) (ru_machine ru) job = (ok, job1, m1)"
    by (metis prod_cases3)
  note m1 = consume_ok [OF env m c]
  let ?h = "snd (app_job_dispose job1 (mc_heap m1))"
  have "jobs_inv ?h (ru_jobs ru) zero_job"
    using m1 dispose_inv(1,3) [OF _ prod.collapse [symmetric]] by (metis machine_ok_def)
  then have md: "machine_ok R other (ru_jobs ru) zero_job (m1\<lparr>mc_heap := ?h\<rparr>)"
    using m1 by (simp add: machine_ok_def)
  have mux: "mux_ok (reg (mc_daemon m1)) (ru_mux ru) (ru_users ru)"
    using ru mux_ok_reg [OF reg] by (auto simp: runner_ok_def)
  obtain rc2 mux2 r2 sent where s: "app_daemon_stage_outbox_reply (dm_mux_view (mc_daemon m1)) (reg (mc_daemon m1))
      (ls_sock (dm_listener (mc_daemon m1))) (te_stage te n) (ru_mux ru) job1
      (bh_read (aj_response_buffer job1) (aj_response_len job1) (mc_heap m1)) (te_flush_now te n) (te_flush te n) (ru_rng ru)
      = (rc2, mux2, r2, sent)" by (metis prod_cases4)
  note mux2 = reply_mux_ok [OF codecs_okD [OF reg] mux s]
  have "ru_machine ru' = m1\<lparr>mc_heap := ?h\<rparr> \<and> ru_users ru' = ru_users ru \<and> ru_jobs ru' = ru_jobs ru \<and>
      (ru_mux ru' = ru_mux ru \<or> ru_mux ru' = mux2)"
    using run by (auto simp: perform_job_def Let_def c s split: if_splits)
  with md mux mux2 show ?thesis by (auto simp: runner_ok_def ru_daemon_def)
qed

lemma drain_jobs_ok:
  assumes reg: "codecs_ok reg" and te: "turn_ok te"
    and "runner_ok R other reg zero_job ru" "drain_jobs reg te n ru = (rc, ru')"
  shows "runner_ok R other reg zero_job ru'"
  using assms(3,4)
proof (induction "js_ready_count (ru_jobs ru)" arbitrary: ru n rule: less_induct)
  case less
  obtain ok js job h where d: "app_job_drain (ru_jobs ru) zero_job (mc_heap (ru_machine ru)) = (ok, js, job, h)"
    by (metis prod_cases4)
  let ?ru1 = "ru\<lparr>ru_jobs := js, ru_machine := (ru_machine ru)\<lparr>mc_heap := h\<rparr>\<rparr>"
  have "jobs_inv (mc_heap (ru_machine ru)) (ru_jobs ru) zero_job" using less.prems(1) by (simp add: runner_ok_def machine_ok_def)
  note di = drain_inv(1,5) [OF this d]
  have ru1: "runner_ok R other reg job ?ru1"
    using less.prems(1) di(1) by (simp add: runner_ok_def machine_ok_def ru_daemon_def)
  note run = less.prems(2) [unfolded drain_jobs.simps [of reg te n ru] d prod.case]
  show ?case
  proof (cases ok)
    case False
    with run have "ru' = ?ru1" by simp
    with ru1 di(2) False show ?thesis by simp
  next
    case True
    obtain rc1 ru2 where p: "perform_job reg te n job ?ru1 = (rc1, ru2)" by fastforce
    note ok2 = perform_job_ok [OF reg te ru1 p]
    have "js_ready_count (ru_jobs ru2) < js_ready_count (ru_jobs ru)"
      using job_drain_count d True perform_job_jobs [OF p] by simp
    note IH = less.hyps [OF this ok2]
    show ?thesis
    proof (cases "rc1 \<le> 0")
      case True
      with run p ok2 \<open>ok\<close> show ?thesis by simp
    next
      case False
      with run p IH \<open>ok\<close> show ?thesis by simp
    qed
  qed
qed

lemma drain_flush_ok:
  assumes reg: "codecs_ok reg" and te: "turn_ok te"
    and ru: "runner_ok R other reg zero_job ru" and run: "app_daemon_drain_jobs_and_flush reg te ru = (rc, ru')"
  shows "runner_ok R other reg zero_job ru'"
proof -
  obtain rc1 ru1 where d: "drain_jobs reg te 0 ru = (rc1, ru1)" by fastforce
  note ok1 = drain_jobs_ok [OF reg te ru d]
  obtain n mux2 s sent where f: "m7mux_outbox_flush (dm_mux_view (ru_daemon ru1)) (ru_mux ru1) (ru_sock ru1)
      (te_final_now te) (te_final_sends te) = (n, mux2, s, sent)" by (metis prod_cases4)
  have "mux_ok (reg (ru_daemon ru1)) mux2 (ru_users ru1)" using flush_mux_ok [OF _ f] ok1 by (auto simp: runner_ok_def)
  moreover have "ru' = ru1 \<or> ru' = ru1\<lparr>ru_mux := mux2, ru_sent := ru_sent ru1 @ sent\<rparr>"
    using run d f by (auto simp: app_daemon_drain_jobs_and_flush_def split: if_splits)
  ultimately show ?thesis using ok1 by (auto simp: runner_ok_def ru_daemon_def)
qed

section \<open>Turns\<close>

lemma inbox_jobs_ok:
  assumes reg: "adapters_ok reg"
    and "mux_ok reg mux users" "jobs_inv h jobs zero_job" "inbox_jobs reg mux users jobs h = (mux', users', jobs', h')"
  shows "mux_ok reg mux' users' \<and> jobs_inv h' jobs' zero_job"
  using assms(2-4)
proof (induction "sm_ready_count (mu_stream mux)" arbitrary: mux users jobs h rule: less_induct)
  case less
  note run = less.prems(3) [unfolded inbox_jobs.simps [of reg mux users jobs h]]
  show ?case
  proof (cases "m7mux_inbox_has_pending mux")
    case False
    with run less.prems show ?thesis by simp
  next
    case pending: True
    obtain p mux1 users1 where d: "m7mux_inbox_drain reg True mux users = (p, mux1, users1)" by (metis prod_cases3)
    note ok1 = inbox_drain_ok [OF reg less.prems(1) d]
    show ?thesis
    proof (cases p)
      case None
      with run pending d ok1 less.prems(2) show ?thesis by simp
    next
      case (Some normal)
      obtain ok jobs1 h1 where e: "app_job_enqueue jobs normal h = (ok, jobs1, h1)" by (metis prod_cases3)
      note ok2 = enqueue_inv(1) [OF less.prems(2) e]
      have "sm_ready_count (mu_stream mux1) < sm_ready_count (mu_stream mux)"
        using d Some pending stream_drain_count [of reg True "mu_stream mux" users]
        by (auto simp: m7mux_inbox_drain_def m7mux_inbox_has_pending_def m7mux_stream_has_pending_def split: prod.splits)
      from less.hyps [OF this ok1 ok2] run pending d Some e show ?thesis by simp
    qed
  qed
qed

lemma disconnect_users:
  assumes "adapters_ok reg" "mux_ok reg mux users" "mx_internal g"
  shows "heap_ok (snd (m7mux_connect_disconnect g reg mux users))" "live (snd (m7mux_connect_disconnect g reg mux users)) = {}"
  using disconnect_frees_all [OF assms prod.collapse [symmetric]] by simp_all

lemma connect_mux_ok:
  assumes "m7mux_connect_socket g c sock = Some mux" "heap_ok h" "live h = {}"
  shows "mux_ok reg (app_daemon_configure_mux_policy server mux) h"
  using connect_socket_ok(1) [OF assms(1), of reg "\<lambda>_. False"] assms(2,3)
  by (simp add: mux_ok_def heap_ok_empty app_daemon_configure_mux_policy_def)

lemma view_internal [simp]: "mx_internal (dm_mux_view d) = mx_internal (dm_mux d)"
  by (simp add: dm_mux_view_def)

lemma follow_socket_ok:
  assumes reg: "codecs_ok reg" and ru: "runner_ok R other reg zero_job ru" and f: "follow_socket reg te ru = Some ru'"
  shows "runner_ok R other reg zero_job ru'" "ru_machine ru' = ru_machine ru" "ru_jobs ru' = ru_jobs ru"
proof -
  let ?d = "ru_daemon ru"
  have int: "mx_internal (dm_mux_view ?d)" using ru by (simp add: runner_ok_def machine_ok_def daemon_fit_def ru_daemon_def)
  have mux: "mux_ok (reg ?d) (ru_mux ru) (ru_users ru)" using ru by (simp add: runner_ok_def)
  note dis = disconnect_users [OF codecs_okD [OF reg] mux int]
  have "runner_ok R other reg zero_job ru' \<and> ru_machine ru' = ru_machine ru \<and> ru_jobs ru' = ru_jobs ru"
  proof (cases "ru_tracked ru = ru_sock ru")
    case True
    with f ru show ?thesis by (simp add: follow_socket_def)
  next
    case False
    then obtain next_mux where c: "m7mux_connect_socket (dm_mux_view ?d) (te_calloc te) (ru_sock ru) = Some next_mux"
      using f by (auto simp: follow_socket_def Let_def split: option.splits)
    have "ru' = ru\<lparr>ru_mux := app_daemon_configure_mux_policy (dm_server ?d) next_mux,
        ru_users := snd (m7mux_connect_disconnect (dm_mux_view ?d) (reg ?d) (ru_mux ru) (ru_users ru)), ru_tracked := ru_sock ru\<rparr>"
      using f False c by (simp add: follow_socket_def Let_def)
    with connect_mux_ok [OF c dis] ru show ?thesis by (simp add: runner_ok_def ru_daemon_def)
  qed
  then show "runner_ok R other reg zero_job ru'" "ru_machine ru' = ru_machine ru" "ru_jobs ru' = ru_jobs ru" by simp_all
qed

lemma turn_keeps:
  assumes reg: "codecs_ok reg" and te: "turn_ok te" and ru: "runner_ok R other reg zero_job ru"
    and run: "daemon_turn reg te ru = (go_on, ru')"
  shows "runner_ok R other reg zero_job ru'"
proof (cases "follow_socket reg te ru")
  case None
  with run ru show ?thesis by (simp add: daemon_turn_def)
next
  case (Some ru1)
  note ok1 = follow_socket_ok(1) [OF reg ru Some]
  let ?d = "ru_daemon ru1"
  have mux1: "mux_ok (reg ?d) (ru_mux ru1) (ru_users ru1)" using ok1 by (simp add: runner_ok_def)
  obtain rc mux2 users2 sent where p: "m7mux_pump (dm_mux_view ?d) (reg ?d) (te_ntop te) (ru_mux ru1)
      (app_daemon_time_until_ms (app_tick_next_at None (te_now te)) (te_now te)) (te_pump te)
      (te_pump_now1 te) (te_pump_now2 te) (te_pump_sends te) (ru_users ru1) = (rc, mux2, users2, sent)" by (metis prod_cases4)
  note mux2 = mux_pump_ok [OF codecs_okD [OF reg] mux1 p]
  let ?ru2 = "ru1\<lparr>ru_mux := mux2, ru_users := users2, ru_sent := ru_sent ru1 @ sent\<rparr>"
  have ok2: "runner_ok R other reg zero_job ?ru2" using ok1 mux2 by (simp add: runner_ok_def ru_daemon_def)
  note run1 = run [unfolded daemon_turn_def Some option.case Let_def p prod.case]
  show ?thesis
  proof (cases "rc < 0")
    case True
    with run1 ok2 show ?thesis by simp
  next
    case False
    obtain mux3 users3 jobs3 h3 where ib: "inbox_jobs (reg ?d) mux2 users2 (ru_jobs ru1) (mc_heap (ru_machine ru1)) = (mux3, users3, jobs3, h3)"
      by (metis prod_cases4)
    have "jobs_inv (mc_heap (ru_machine ru1)) (ru_jobs ru1) zero_job" using ok1 by (simp add: runner_ok_def machine_ok_def)
    note ib_ok = inbox_jobs_ok [OF codecs_okD [OF reg] mux2 this ib]
    let ?ru3 = "?ru2\<lparr>ru_mux := mux3, ru_users := users3, ru_jobs := jobs3, ru_machine := (ru_machine ?ru2)\<lparr>mc_heap := h3\<rparr>\<rparr>"
    have ok3: "runner_ok R other reg zero_job ?ru3"
      using ok2 ib_ok by (simp add: runner_ok_def machine_ok_def ru_daemon_def)
    obtain rc4 ru4 where dj: "app_daemon_drain_jobs_and_flush reg te ?ru3 = (rc4, ru4)" by fastforce
    have "ru' = ru4" using run1 False ib dj by simp
    with drain_flush_ok [OF reg te ok3 dj] show ?thesis by simp
  qed
qed

lemma runner_ok_time:
  assumes "codecs_ok (case_prod reg)" "runner_ok R other (reg t) job ru"
  shows "runner_ok R other (reg t') job ru"
  using assms(2) mux_ok_reg [OF assms(1), of "(t, ru_daemon ru)" "ru_mux ru" "ru_users ru" "(t', ru_daemon ru)"]
  by (simp add: runner_ok_def)

lemma loop_keeps:
  assumes "codecs_ok (case_prod reg)" "\<forall>te \<in> set turns. turn_ok te" "runner_ok R other (reg t) zero_job ru"
  shows "runner_ok R other (reg t) zero_job (daemon_loop reg turns ru)"
  using assms(2,3)
proof (induction turns arbitrary: ru)
  case Nil
  then show ?case by simp
next
  case (Cons te turns)
  obtain go_on ru1 where t: "daemon_turn (reg (te_time te)) te ru = (go_on, ru1)" by fastforce
  have "runner_ok R other (reg (te_time te)) zero_job ru" using runner_ok_time [OF assms(1)] Cons.prems(2) .
  then have "runner_ok R other (reg (te_time te)) zero_job ru1"
    using turn_keeps [OF codecs_ok_time [OF assms(1)] _ _ t] Cons.prems by simp
  then have "runner_ok R other (reg t) zero_job ru1" using runner_ok_time [OF assms(1)] by blast
  with Cons.IH [of ru1] Cons.prems t show ?case by simp
qed

section \<open>A run\<close>

lemma context_session [simp]:
  "context_ok (c\<lparr>cx_openssl_session := s\<rparr>) = context_ok c" "context_refs (c\<lparr>cx_openssl_session := s\<rparr>) = context_refs c"
  by (simp_all add: context_ok_def context_refs_def entries_in_use_def)

lemma fit_codec_session:
  "dm_codec d = Some c \<Longrightarrow> daemon_fit R other (d\<lparr>dm_codec := Some (c\<lparr>cx_openssl_session := s\<rparr>)\<rparr>) = daemon_fit R other d"
  by (simp add: daemon_fit_def daemon_inv_def)

lemma fit_cleanup: "daemon_fit R other d \<Longrightarrow> daemon_fit R other (daemon_cleanup b d)"
  by (cases "dm_codec d")
    (auto simp: daemon_cleanup_def daemon_fit_def daemon_inv_def shared_knock_codec_context_clear_openssl_session_def)

lemma cleanup_facts:
  "ls_server (dm_listener (daemon_cleanup b d)) = None"
  "ss_private_key (dm_session (daemon_cleanup b d)) = None" "ss_public_key (dm_session (daemon_cleanup b d)) = None"
  "ss_hmac_key_len (dm_session (daemon_cleanup b d)) = 0"
  "b \<Longrightarrow> dm_codec (daemon_cleanup b d) = Some c \<Longrightarrow> cx_openssl_session c = None"
  by (auto simp: daemon_cleanup_def app_runtime_invalidate_config_borrows_def
      shared_knock_codec_context_clear_openssl_session_def)

lemma setup_Inl:
  assumes fit: "daemon_fit R other d" and run: "daemon_setup env c d = Inl d'"
  shows "daemon_fit R other d'"
  using run fit fit_cleanup [of R other "d\<lparr>dm_session := s\<rparr>" for s]
    fit_cleanup [of R other "d\<lparr>dm_session := s, dm_codec := Some (cc\<lparr>cx_openssl_session := Some s\<rparr>)\<rparr>" for s cc]
    fit_codec_session [of "d\<lparr>dm_session := s\<rparr>" for s]
  by (auto simp: daemon_setup_def shared_knock_codec_context_set_openssl_session_def Let_def
      split: option.splits prod.splits bool.splits if_splits)

lemma setup_Inr:
  assumes fit: "daemon_fit R other d" and run: "daemon_setup env c d = Inr (mux, d')"
  shows "daemon_fit R other d'"
    "\<exists>next_mux. m7mux_connect_socket (dm_mux_view d') c (ls_sock (dm_listener d')) = Some next_mux \<and>
       mux = app_daemon_configure_mux_policy (dm_server d') next_mux"
  using run fit fit_codec_session [of "d\<lparr>dm_session := s\<rparr>" for s]
  by (auto simp: daemon_setup_def shared_knock_codec_context_set_openssl_session_def Let_def
      split: option.splits prod.splits bool.splits if_splits)

text \<open>However the daemon ends, everything its loop has allocated is freed.\<close>

lemma run_facts:
  assumes reg: "codecs_ok (case_prod reg)" and turns: "\<forall>te \<in> set turns. turn_ok te"
    and fit: "daemon_fit R other (mc_daemon m)" and heap: "bh_owned (mc_heap m) {#}"
    and users: "heap_ok users" "live users = {}"
    and run: "app_daemon_run reg env c turns t m users r = (m', users', sent)"
  shows "daemon_fit R other (mc_daemon m')" "bh_owned (mc_heap m') {#}" "heap_ok users'" "live users' = {}"
proof -
  let ?P = "daemon_fit R other (mc_daemon m') \<and> bh_owned (mc_heap m') {#} \<and> heap_ok users' \<and> live users' = {}"
  have ?P
  proof (cases "daemon_setup env c (mc_daemon m)")
    case (Inl d)
    with run setup_Inl [OF fit Inl] heap users show ?thesis by (auto simp: app_daemon_run_def)
  next
    case (Inr md)
    obtain mux d where "md = (mux, d)" by fastforce
    with Inr have s: "daemon_setup env c (mc_daemon m) = Inr (mux, d)" by simp
    note sf = setup_Inr [OF fit s]
    let ?ru0 = "\<lparr>ru_machine = m\<lparr>mc_daemon := d\<rparr>, ru_mux = mux, ru_users = users, ru_jobs = app_job_state_init,
                  ru_rng = r, ru_tracked = ls_sock (dm_listener d), ru_sent = []\<rparr>"
    have "mux_ok (reg t d) mux users" using sf(2) connect_mux_ok [OF _ users] by blast
    moreover have "jobs_inv (mc_heap m) app_job_state_init zero_job"
      using heap by (simp add: jobs_inv_def app_job_state_init_def ring_ok_init APP_JOB_READY_QUEUE_CAPACITY_def)
    ultimately have ru0: "runner_ok R other (reg t) zero_job ?ru0"
      using sf(1) by (simp add: runner_ok_def machine_ok_def ru_daemon_def)
    define ru where "ru = daemon_loop reg turns ?ru0"
    have ok: "runner_ok R other (reg t) zero_job ru" unfolding ru_def by (rule loop_keeps [OF reg turns ru0])
    let ?m1 = "ru_machine ru" and ?d1 = "daemon_cleanup True (mc_daemon (ru_machine ru))"
    have fit1: "daemon_fit R other ?d1" using ok fit_cleanup by (simp add: runner_ok_def machine_ok_def)
    have jobs: "jobs_inv (mc_heap ?m1) (ru_jobs ru) zero_job" using ok by (simp add: runner_ok_def machine_ok_def)
    have h1: "bh_owned (snd (app_job_state_reset (ru_jobs ru) (mc_heap ?m1))) {#}"
      using reset_inv(3) [OF jobs prod.collapse [symmetric]] by simp
    have "mux_ok (reg t ?d1) (ru_mux ru) (ru_users ru)"
      using ok mux_ok_reg [OF codecs_ok_time [OF reg], of t "ru_daemon ru" _ _ ?d1] by (simp add: runner_ok_def)
    moreover have "mx_internal (dm_mux_view ?d1)" using fit1 by (simp add: daemon_fit_def)
    ultimately have dis: "heap_ok (snd (m7mux_connect_disconnect (dm_mux_view ?d1) (reg t ?d1) (ru_mux ru) (ru_users ru)))"
      "live (snd (m7mux_connect_disconnect (dm_mux_view ?d1) (reg t ?d1) (ru_mux ru) (ru_users ru))) = {}"
      using disconnect_users [OF codecs_okD [OF codecs_ok_time [OF reg]]] by blast+
    have "m' = ?m1\<lparr>mc_daemon := ?d1, mc_heap := snd (app_job_state_reset (ru_jobs ru) (mc_heap ?m1))\<rparr>"
      "users' = snd (m7mux_connect_disconnect (dm_mux_view ?d1) (reg t ?d1) (ru_mux ru) (ru_users ru))"
      using run s by (simp_all add: app_daemon_run_def Let_def ru_def)
    with fit1 h1 dis show ?thesis by simp
  qed
  then show "daemon_fit R other (mc_daemon m')" "bh_owned (mc_heap m') {#}" "heap_ok users'" "live users' = {}" by simp_all
qed

end
