(* ===== verification/Daemon_Properties.thy ===== *)
theory Daemon_Properties
  imports Runner_Facts Samples
begin

text \<open>
  The properties of the running daemon: what it does with a job and for whom, what it leaves behind,
  and a request that ends it.
\<close>

section \<open>A small daemon that runs\<close>

text \<open>The V4 codec over the daemon's keys.\<close>

definition sample_codecs :: "daemon \<Rightarrow> SharedKnockCodecState registry" where
  "sample_codecs d = [(shared_knock_codec_v4_adapter sample_evp True (dm_codec_view d) True True)
     \<lparr>ad_state := Some zero_codec_state\<rparr>]"

lemma sample_codecs_ok: "codecs_ok sample_codecs"
proof -
  have "adapters_ok (sample_codecs d)" for d
    by (simp add: sample_codecs_def adapters_ok_def v4_adapter.codec_adapter_axioms)
  moreover have "(m7mux_normalize_adapter_lookup_wire_version (sample_codecs d) v = None) =
      (m7mux_normalize_adapter_lookup_wire_version (sample_codecs d') v = None)" for d d' v
    by (simp add: sample_codecs_def m7mux_normalize_adapter_lookup_wire_version_def shared_knock_codec_v4_adapter_def)
  ultimately show ?thesis unfolding codecs_ok_def by blast
qed

definition sample_procs :: proc_env where
  "sample_procs = \<lparr>pv_pipe = (\<lambda>_ used. if 100 \<in> used \<or> 101 \<in> used then None else Some (100, 101)), pv_fork = (\<lambda>_. True), pv_drop_to_name = (\<lambda>_. True),
     pv_dup2 = (\<lambda>_. True), pv_execv = (\<lambda>_ _. True), pv_status = (\<lambda>_. Exited 0), pv_waitpid = (\<lambda>_. True),
     pv_output = (\<lambda>_. ([], False)), pv_pipe_read = (\<lambda>_. True), pv_dlopen = (\<lambda>_. False),
     pv_dlsym = (\<lambda>_ _. False), pv_dynamic = (\<lambda>_ _ _ _. (False, app_action_reply_reset))\<rparr>"

definition sample_machine_env :: machine_env where
  "sample_machine_env = \<lparr>me_runtime = sample_env, me_procs = sample_procs, me_evp = sample_evp, me_openssl = True,
     me_is_ipv6 = (\<lambda>_. False)\<rparr>"

lemma sample_env_ok: "env_ok sample_machine_env"
  using sample_kernel by (simp add: env_ok_def sample_machine_env_def sample_env_def pipes_ok_def sample_procs_def)

section \<open>What the daemon does with a job\<close>

text \<open>A user may perform an action with a job: the conditions that the code checks, in one place.\<close>

definition permitted ::
  "machine_env \<Rightarrow> machine \<Rightarrow> AppConnectionJob \<Rightarrow> siglatch_user \<Rightarrow> siglatch_action \<Rightarrow> siglatch_server \<Rightarrow> bool" where
  "permitted env m job user action server \<longleftrightarrow>
     config_user_by_id_from_ptr (fst (dm_config (mc_daemon m))) (ucast (rq_user_id (aj_request job))) = Some user \<and>
     config_action_by_id_from_ptr (fst (dm_config (mc_daemon m))) (ucast (rq_action_id (aj_request job))) = Some action \<and>
     dm_server (mc_daemon m) = Some server \<and>
     signed_by (me_evp env) (me_openssl env) (mc_heap m) user job \<and>
     sa_name action \<in> set (sv_actions server) \<and> sa_name action \<in> set (su_actions user) \<and> sa_enabled action \<and>
     app_policy_request_ip_allowed server user action (aj_ip job)"

lemma signed_by_auth [simp]: "signed_by E has h u (job\<lparr>aj_wire_auth := b\<rparr>) = signed_by E has h u job"
  by (simp add: signed_by_def job_digest_def job_unit_def job_packet_v1_def job_packet_v2_def job_payload_def)

lemma admit_permitted:
  assumes "admit env (mc_daemon m) (mc_heap m) job = (Some (user, action), job1, d1)" "aj_wire_version job \<noteq> 0"
  shows "\<exists>server. permitted env m job user action server"
proof -
  note a = admit_spec(3) [OF assms(1) refl assms(2)]
  obtain b where "job1 = job \<or> job1 = job\<lparr>aj_wire_auth := b\<rparr>" using admit_spec(2) [OF assms(1)] by blast
  then have j: "signed_by E has h u job1 = signed_by E has h u job" "aj_ip job1 = aj_ip job" "aj_request job1 = aj_request job" for E has h u
    by auto
  from a enforce_spec [of "fst (dm_config (mc_daemon m))" "dm_server (mc_daemon m)" job1 user action]
  show ?thesis by (auto simp: permitted_def j config_action_available_by_user_def)
qed

text \<open>
  C27: a job without a codec only feeds a dead drop that the server lists and whose
  prefix starts the payload; any other job changes nothing but the keys in the session, unless a user
  of the configuration has signed it and the server, the user and the action permit it from its address.
  The program it then starts is that of the action, with the arguments of the job.
\<close>

theorem only_permitted_jobs_act:
  assumes "env_ok env" "machine_ok R other st job m" "app_daemon_payload_consume env m job = (ok, job', m')"
  shows "if aj_wire_version job = 0
    then (\<exists>k. mc_daemon m' = (mc_daemon m)\<lparr>dm_socks := k\<rparr>) \<and>
      (pr_execs (mc_procs m') = pr_execs (mc_procs m) \<or>
       (\<exists>server deaddrop prefix len argv. dm_server (mc_daemon m) = Some server \<and>
          server_deaddrop_starts_with_buffer (fst (dm_config (mc_daemon m))) server (job_payload (mc_heap m) job) 512 =
            Some (deaddrop, prefix, len) \<and>
          started (mc_procs m) (sd_constructor deaddrop) argv (sd_exec_split deaddrop) (sd_run_as deaddrop) (mc_procs m')))
    else m' = m\<lparr>mc_daemon := (mc_daemon m)\<lparr>dm_session := dm_session (mc_daemon m')\<rparr>\<rparr> \<or>
      (\<exists>user action server. permitted env m job user action server \<and>
         (pr_execs (mc_procs m') = pr_execs (mc_procs m) \<or>
          (\<exists>b64. \<not> app_builtin_is_action action \<and>
             started (mc_procs m) (sa_constructor action) (shell_arguments job server user action b64)
               (sa_exec_split action) (sa_run_as action) (mc_procs m'))))"
proof (cases "aj_wire_version job = 0")
  case True
  have inv: "jobs_inv (mc_heap m) st job" using assms(2) by (simp add: machine_ok_def)
  have pipes: "pipes_ok (me_procs env)" using assms(1) by (simp add: env_ok_def)
  obtain job1 h1 p1 k1 where u: "app_payload_unstructured_handle (me_procs env) (w_malloc (re_world (me_runtime env)))
      (fst (dm_config (mc_daemon m))) (dm_server (mc_daemon m)) job (mc_heap m) (mc_procs m) (dm_socks (mc_daemon m)) = (job1, h1, p1, k1)"
    by (metis prod_cases4)
  have "m' = m \<or> m' = \<lparr>mc_daemon = (mc_daemon m)\<lparr>dm_socks := k1\<rparr>, mc_heap = h1, mc_procs = p1\<rparr>"
    using assms(3) True u by (auto simp: app_daemon_payload_consume_def Let_def split: if_splits)
  then show ?thesis
  proof
    assume "m' = m"
    moreover have "mc_daemon m = (mc_daemon m)\<lparr>dm_socks := dm_socks (mc_daemon m)\<rparr>" by simp
    ultimately show ?thesis using True by metis
  next
    assume m': "m' = \<lparr>mc_daemon = (mc_daemon m)\<lparr>dm_socks := k1\<rparr>, mc_heap = h1, mc_procs = p1\<rparr>"
    from unstructured_facts(5) [OF pipes inv u] show ?thesis using True unfolding m' by auto
  qed
next
  case wire: False
  have pipes: "pipes_ok (me_procs env)" using assms(1) by (simp add: env_ok_def)
  show ?thesis
  proof (cases "m' = m\<lparr>mc_daemon := (mc_daemon m)\<lparr>dm_session := dm_session (mc_daemon m')\<rparr>\<rparr>")
    case True
    with wire show ?thesis by simp
  next
    case False
    from consume_admitted [OF assms(3) wire False] obtain user action job1 d1 where
      a: "admit env (mc_daemon m) (mc_heap m) job = (Some (user, action), job1, d1)"
      and d: "app_daemon_payload_dispatch_action env (m\<lparr>mc_daemon := d1\<rparr>) job1 user action = (ok, job', m')" by blast
    obtain server where p: "permitted env m job user action server" using admit_permitted [OF a wire] by blast
    have srv: "dm_server d1 = Some server" using admit_spec(1) [OF a] p by (auto simp: permitted_def dm_server_def)
    obtain b where "job1 = job \<or> job1 = job\<lparr>aj_wire_auth := b\<rparr>" using admit_spec(2) [OF a] by blast
    then have args: "shell_arguments job1 server user action t = shell_arguments job server user action t" for t
      by (auto simp: shell_arguments_def)
    have "pr_execs (mc_procs m') = pr_execs (mc_procs m) \<or>
          (\<exists>b64. \<not> app_builtin_is_action action \<and>
             started (mc_procs m) (sa_constructor action) (shell_arguments job server user action b64)
               (sa_exec_split action) (sa_run_as action) (mc_procs m'))"
      using dispatch_execs [OF d pipes] srv by (auto simp: args)
    with p have "\<exists>user action server. permitted env m job user action server \<and>
         (pr_execs (mc_procs m') = pr_execs (mc_procs m) \<or>
          (\<exists>b64. \<not> app_builtin_is_action action \<and>
             started (mc_procs m) (sa_constructor action) (shell_arguments job server user action b64)
               (sa_exec_split action) (sa_run_as action) (mc_procs m')))" by blast
    with wire show ?thesis by simp
  qed
qed

section \<open>What the daemon leaves behind\<close>

text \<open>
  For any traffic, however many turns the loop runs and however it ends, when
  the daemon returns every buffer of its jobs and every block of user data has been freed, none of them
  twice or while in use; the listener still has its socket, and no other descriptor or reference to a key
  has been leaked.
\<close>

theorem daemon_releases_everything:
  assumes "codecs_ok (case_prod reg)" "\<forall>te \<in> set turns. turn_ok te"
    and "daemon_inv R other (mc_daemon m)" "mx_internal (dm_mux (mc_daemon m))"
    and "bh_owned (mc_heap m) {#}" "heap_ok users" "live users = {}"
    and "app_daemon_run reg env calloc_ok turns end_time m users r = (m', users', sent)"
  shows "bh_owned (mc_heap m') {#} \<and> heap_ok users' \<and> live users' = {} \<and> daemon_inv R other (mc_daemon m')"
  using run_facts [OF assms(1,2) _ assms(5-8), of R other] assms(3,4) by (simp add: daemon_fit_def)

section \<open>A reply that is too long\<close>

lemma text_of_nonzero: "list_all (\<lambda>b. b \<noteq> 0) bs \<Longrightarrow> length (text_of bs) = length bs"
proof -
  assume nz: "list_all (\<lambda>b. b \<noteq> 0) bs"
  have "char_of (unat b) \<noteq> nul" if "b \<noteq> 0" for b :: u8
  proof
    assume "char_of (unat b) = nul"
    from arg_cong [OF this, of "of_char :: char \<Rightarrow> nat"] have "unat b mod 256 = 0" by simp
    moreover have "unat b < 256" using unsigned_less [of b] by simp
    ultimately show False using that by (simp add: unat_eq_0)
  qed
  then have "takeWhile (\<lambda>c. c \<noteq> nul) (map (\<lambda>b. char_of (unat b)) bs) = map (\<lambda>b. char_of (unat b)) bs"
    using nz by (simp add: takeWhile_eq_all_conv list_all_iff)
  then show ?thesis by (simp only: text_of_def length_map)
qed

lemma prefix_present:
  assumes "action_id \<noteq> 0"
  obtains prefix where "app_daemon_payload_reply_action_prefix cfg action_id 64 = Some prefix" "prefix \<noteq> []"
proof -
  have ne: "int_text (uint action_id) \<noteq> []" by (simp add: int_text_def)
  have "\<exists>prefix. app_daemon_payload_reply_action_prefix cfg action_id 64 = Some prefix \<and> prefix \<noteq> []"
    using assms ne by (cases "config_action_by_id_from_ptr cfg (ucast action_id)")
      (simp_all add: app_daemon_payload_reply_action_prefix_def)
  then show ?thesis using that by blast
qed

lemma blurt_reply_long:
  assumes "rq_action_id (aj_request job) \<noteq> 0" "194 \<le> length payload" "list_all (\<lambda>b. 32 \<le> b \<and> b \<le> 126) payload"
    and cap: "APP_JOB_RESPONSE_BLOCK_SIZE \<le> cap"
    and b: "app_daemon_payload_build_semantic_reply cfg job (app_action_reply_set True (text_of (take 256 payload))) cap = Some bytes"
  shows "M7MUX_USER_DATA_PAYLOAD_MAX < length bytes"
proof -
  obtain prefix where p: "app_daemon_payload_reply_action_prefix cfg (rq_action_id (aj_request job)) 64 = Some prefix" "prefix \<noteq> []"
    using prefix_present [OF assms(1)] .
  have "list_all (\<lambda>b. b \<noteq> 0) (take 256 payload)"
    using assms(3) by (auto simp: list_all_iff dest!: in_set_takeD bspec)
  then have t: "length (text_of (take 256 payload)) = min (length payload) 256" by (simp add: text_of_nonzero)
  then have m: "length (ar_message (app_action_reply_set True (text_of (take 256 payload)))) = min (length payload) 256"
    by (simp add: app_action_reply_set_def app_action_reply_reset_def APP_ACTION_REPLY_MESSAGE_MAX_def)
  then have ne: "ar_message (app_action_reply_set True (text_of (take 256 payload))) \<noteq> []" using assms(2) by auto
  have "1 \<le> length prefix" using p(2) by (cases prefix) simp_all
  then have "197 \<le> length (rendered_message cfg (rq_action_id (aj_request job)) (app_action_reply_set True (text_of (take 256 payload))))"
    using m ne assms(2) by (simp add: rendered_message_def p APP_ACTION_REPLY_MESSAGE_MAX_def MAX_ACTION_NAME_def)
  then show ?thesis
    using b cap
    by (auto simp: app_daemon_payload_build_semantic_reply_def Let_def app_action_reply_set_def app_action_reply_reset_def
        bytes_of_def SL_KNOCK_RESPONSE_PAYLOAD_HEADER_SIZE_def APP_ACTION_REPLY_MESSAGE_MAX_def M7MUX_USER_DATA_PAYLOAD_MAX_def
        APP_JOB_RESPONSE_BLOCK_SIZE_def split: if_splits)
qed

text \<open>An admitted blurt of that length leaves a reply that no packet can carry.\<close>

lemma blurt_consume:
  assumes inv: "jobs_inv (mc_heap m) st job" and mem: "\<forall>n. \<not> bh_oom (mc_heap m) n" and wire: "aj_wire_version job \<noteq> 0"
    and adm: "admit env (mc_daemon m) (mc_heap m) job = (Some (user, action), job1, d1)"
    and blurt: "app_builtin_is_action action" "sa_builtin action = ''test_blurt''"
    and id: "rq_action_id (aj_request job) \<noteq> 0"
    and payload: "194 \<le> length (job_payload (mc_heap m) job)" "list_all (\<lambda>b. 32 \<le> b \<and> b \<le> 126) (job_payload (mc_heap m) job)"
    and run: "app_daemon_payload_consume env m job = (ok, job', m')"
  shows "aj_wire_version job' = aj_wire_version job" "M7MUX_USER_DATA_PAYLOAD_MAX < aj_response_len job'"
proof -
  obtain b where "job1 = job \<or> job1 = job\<lparr>aj_wire_auth := b\<rparr>" using admit_spec(2) [OF adm] by blast
  then have j: "aj_request job1 = aj_request job" "aj_wire_version job1 = aj_wire_version job"
    "jobs_inv (mc_heap m) st job1" using inv by auto
  obtain s where d1: "d1 = (mc_daemon m)\<lparr>dm_session := s\<rparr>" using admit_spec(1) [OF adm] by blast
  obtain server where perm: "permitted env m job user action server" using admit_permitted [OF adm wire] by blast
  then have srv: "dm_server (mc_daemon m) = Some server" "dm_server d1 = Some server" and
    usr: "config_user_by_id_from_ptr (fst (dm_config d1)) (ucast (rq_user_id (aj_request job))) = Some user"
    by (auto simp: permitted_def d1 dm_server_def)
  let ?p = "job_payload (mc_heap m) job"
  have buf: "rq_payload_buffer (aj_request job) \<noteq> None" "rq_payload_len (aj_request job) \<noteq> 0"
    using payload(1) by (auto simp: job_payload_def bh_read_def split: option.splits)
  have pj: "job_payload (mc_heap m) job1 = ?p" by (simp add: job_payload_def j)
  have "app_builtin_test_blurt_payload_is_ascii ?p"
    using payload(2) by (auto simp: app_builtin_test_blurt_payload_is_ascii_def list_all_iff not_less)
  then have h: "app_builtin_handle (me_runtime env) (me_is_ipv6 env) d1 (mc_heap m) job1 action =
      (True, app_action_reply_set True (text_of (take 256 ?p)), d1)"
    using buf by (simp add: app_builtin_handle_def Let_def blurt(2) app_builtin_test_blurt_handle_def j pj)
  let ?d2 = "d1\<lparr>dm_session := app_inbound_crypto_assign_session_to_user (dm_session d1) user\<rparr>"
  let ?m2 = "m\<lparr>mc_daemon := ?d2\<rparr>" and ?reply = "app_action_reply_set True (text_of (take 256 ?p))"
  obtain staged job2 h2 where st: "app_daemon_payload_stage_reply (fst (dm_config ?d2)) job1 ?reply (mc_heap m) = (staged, job2, h2)"
    by (metis prod_cases3)
  note sf = stage_reply_facts [OF j(3) st]
  have "ar_should_reply ?reply" by (simp add: app_action_reply_set_def)
  with sf(5-7) mem obtain bytes where bytes: "app_daemon_payload_build_semantic_reply (fst (dm_config ?d2)) job1 ?reply (aj_response_cap job2) = Some bytes"
    "bytes = bh_read (aj_response_buffer job2) (aj_response_len job2) h2" and cap: "APP_JOB_RESPONSE_BLOCK_SIZE \<le> aj_response_cap job2"
    by blast
  have "M7MUX_USER_DATA_PAYLOAD_MAX < length bytes"
    using blurt_reply_long [OF _ payload cap bytes(1)] id j by simp
  moreover have "length bytes \<le> aj_response_len job2" by (simp add: bytes(2) bh_read_def split: option.splits)
  ultimately have len: "M7MUX_USER_DATA_PAYLOAD_MAX < aj_response_len job2" by simp
  have "app_daemon_payload_consume env m job = app_daemon_payload_dispatch_action env (m\<lparr>mc_daemon := d1\<rparr>) job1 user action"
    using srv wire buf adm by (auto simp: app_daemon_payload_consume_def Let_def)
  also have "\<dots> = (staged, job2, ?m2\<lparr>mc_heap := h2\<rparr>)"
    using srv blurt(1) usr st
    by (simp add: app_daemon_payload_dispatch_action_def dispatch_builtin_def h Let_def app_action_reply_set_def j machine_reply_def)
  finally have "job' = job2" using run by simp
  with len sf(3) j show "aj_wire_version job' = aj_wire_version job" "M7MUX_USER_DATA_PAYLOAD_MAX < aj_response_len job'" by simp_all
qed

text \<open>
  C28: a blurt of 194 printable bytes or more that the daemon admits makes it leave its
  loop: the reply does not fit a packet of the mux, staging it fails, and that failure ends the daemon
  with the jobs behind it unanswered. (The largest request is 199 bytes long.)
\<close>

theorem long_reply_ends_daemon:
  assumes "jobs_inv (mc_heap (ru_machine ru)) (ru_jobs ru) zero_job" "\<forall>n. \<not> bh_oom (mc_heap (ru_machine ru)) n"
    and drain: "app_job_drain (ru_jobs ru) zero_job (mc_heap (ru_machine ru)) = (True, jobs, job, h)"
    and "aj_wire_version job \<noteq> 0" "rq_action_id (aj_request job) \<noteq> 0"
    and "admit (te_job te 0) (ru_daemon ru) h job = (Some (user, action), job1, d1)"
    and "app_builtin_is_action action" "sa_builtin action = ''test_blurt''"
    and "194 \<le> length (job_payload h job)" "list_all (\<lambda>b. 32 \<le> b \<and> b \<le> 126) (job_payload h job)"
  shows "fst (app_daemon_drain_jobs_and_flush reg te ru) = -1"
proof -
  let ?m = "(ru_machine ru)\<lparr>mc_heap := h\<rparr>" and ?ru = "ru\<lparr>ru_jobs := jobs, ru_machine := (ru_machine ru)\<lparr>mc_heap := h\<rparr>\<rparr>"
  note di = drain_inv(1,2) [OF assms(1) drain]
  obtain ok job2 m2 where c: "app_daemon_payload_consume (te_job te 0) ?m job = (ok, job2, m2)" by (metis prod_cases3)
  have bc: "aj_wire_version job2 = aj_wire_version job" "M7MUX_USER_DATA_PAYLOAD_MAX < aj_response_len job2"
    using blurt_consume [of ?m jobs job "te_job te 0" user action job1 d1 ok job2 m2] di assms(2,4-) c
    by (simp_all add: ru_daemon_def)
  then have none: "app_daemon_copy_job_reply_to_send job2 response = None" for response
    by (simp add: app_daemon_copy_job_reply_to_send_def)
  have "fst (perform_job reg te 0 job ?ru) = 0"
    using c bc assms(4) by (simp add: perform_job_def Let_def app_daemon_stage_outbox_reply_def none)
  then obtain ru1 where "perform_job reg te 0 job ?ru = (0, ru1)" by (metis prod.collapse)
  then have "fst (drain_jobs reg te 0 ru) = -1"
    by (subst drain_jobs.simps) (simp add: drain)
  then obtain ru2 where "drain_jobs reg te 0 ru = (-1, ru2)" by (metis prod.collapse)
  then show ?thesis by (simp add: app_daemon_drain_jobs_and_flush_def)
qed

section \<open>A request to the small daemon\<close>

definition blurt_action :: siglatch_action where
  "blurt_action = sample_action\<lparr>sa_builtin := ''test_blurt''\<rparr>"

definition blurt_config :: siglatch_config where
  "blurt_config = sample_config\<lparr>sc_actions := [blurt_action]\<rparr>"

definition blurt_daemon :: daemon where
  "blurt_daemon = sample_daemon\<lparr>dm_config := (Some blurt_config, True), dm_refs := config_key_refs blurt_config,
     dm_mux := sample_mux_context\<rparr>"

definition blurt_delivered :: delivered where
  "blurt_delivered =
     (zero_recv\<lparr>rp_wire_version := SHARED_KNOCK_CODEC_V4_WIRE_VERSION, rp_wire_form := SHARED_KNOCK_CODEC_FORM1_ID,
        rp_ip := ''10.0.0.2''\<rparr>,
      Some \<lparr>ud_user_id = 7, ud_action_id = 1, ud_challenge = 77, ud_hmac = replicate 32 1,
        ud_payload = replicate 194 65\<rparr>)"

lemma blurt_daemon_inv: "daemon_inv {} {#} blurt_daemon" "mx_internal (dm_mux blurt_daemon)"
  using sample_daemon_inv
  by (simp_all add: daemon_inv_def blurt_daemon_def sample_daemon_def sample_mux_context_def)

text \<open>The queue with that request, and the job drained from it.\<close>

lemma blurt_queue:
  obtains jobs h jobs' job h' where
    "jobs_inv h jobs zero_job" "\<forall>n. \<not> bh_oom h n" "app_job_drain jobs zero_job h = (True, jobs', job, h')"
    "jobs_inv h' jobs' job" "job_view h' job = job_stored blurt_delivered" "\<forall>n. \<not> bh_oom h' n"
proof -
  let ?h0 = "bh_empty (\<lambda>_. False)"
  have i0: "jobs_inv ?h0 app_job_state_init zero_job" by (rule jobs_inv_init)
  obtain ok jobs h where e: "app_job_enqueue app_job_state_init blurt_delivered ?h0 = (ok, jobs, h)" by (metis prod_cases3)
  note ei = enqueue_inv [OF i0 e]
  have fits: "job_fits blurt_delivered"
    using next_buffer_cap_returns [of APP_JOB_PAYLOAD_BLOCK_SIZE 0 194]
    by (auto simp: blurt_delivered_def job_fits_def job_source_def SIZE_MAX_def APP_JOB_PAYLOAD_BLOCK_SIZE_def
        SHARED_KNOCK_CODEC_V4_WIRE_VERSION_def)
  have "ok" using ei(5) fits by (simp add: bh_empty_def app_job_state_init_def APP_JOB_READY_QUEUE_CAPACITY_def)
  moreover have "job_items ?h0 app_job_state_init = []" by (simp add: job_items_def app_job_state_init_def)
  ultimately have items: "job_items h jobs = [job_stored blurt_delivered]" using ei(4) by simp
  have mem: "\<forall>n. \<not> bh_oom h n" using ei(3) by (simp add: bh_empty_def)
  obtain ok2 jobs' job h' where d: "app_job_drain jobs zero_job h = (ok2, jobs', job, h')" by (metis prod_cases4)
  note di = drain_inv [OF ei(1) d]
  have "ok2" using di(3) items by simp
  with di(4) items have "job_view h' job = job_stored blurt_delivered" by simp
  with that [OF ei(1) mem] d \<open>ok2\<close> di(1,2) mem show ?thesis by simp
qed

text \<open>It is admitted.\<close>

lemma blurt_fields:
  assumes "job_view h job = job_stored blurt_delivered"
  shows "aj_wire_version job = SHARED_KNOCK_CODEC_V4_WIRE_VERSION" "aj_wire_form job = SHARED_KNOCK_CODEC_FORM1_ID"
    "aj_ip job = ''10.0.0.2''" "rq_user_id (aj_request job) = 7" "rq_action_id (aj_request job) = 1"
    "rq_hmac (aj_request job) = replicate 32 1" "job_payload h job = replicate 194 65"
    "rq_payload_len (aj_request job) = 194"
proof -
  let ?env = "(job_envelope (fst blurt_delivered))\<lparr>aj_request := zero_request\<lparr>rq_user_id := 7, rq_action_id := 1,
      rq_challenge := 77, rq_hmac := replicate 32 1, rq_payload_len := 194\<rparr>\<rparr>"
  have "SHARED_KNOCK_CODEC_V4_WIRE_VERSION \<noteq> 0" by (simp add: SHARED_KNOCK_CODEC_V4_WIRE_VERSION_def)
  then have "job_stored blurt_delivered = (?env, replicate 194 65, [])"
    by (simp add: job_stored_def job_source_def blurt_delivered_def)
  with assms have v: "job\<lparr>aj_request := (aj_request job)\<lparr>rq_payload_buffer := None, rq_payload_cap := 0\<rparr>,
        aj_response_buffer := None, aj_response_cap := 0\<rparr> = ?env" "job_payload h job = replicate 194 65"
    by (simp_all add: job_view_def job_payload_def)
  show "job_payload h job = replicate 194 65" using v(2) .
  show "aj_wire_version job = SHARED_KNOCK_CODEC_V4_WIRE_VERSION" "aj_wire_form job = SHARED_KNOCK_CODEC_FORM1_ID"
    "aj_ip job = ''10.0.0.2''"
    using arg_cong [OF v(1), of aj_wire_version] arg_cong [OF v(1), of aj_wire_form] arg_cong [OF v(1), of aj_ip]
    by (simp_all add: job_envelope_def blurt_delivered_def cstr63_def)
  have "(aj_request job)\<lparr>rq_payload_buffer := None, rq_payload_cap := 0\<rparr> = zero_request\<lparr>rq_user_id := 7, rq_action_id := 1,
      rq_challenge := 77, rq_hmac := replicate 32 1, rq_payload_len := 194\<rparr>"
    using arg_cong [OF v(1), of aj_request] by simp
  note rq = arg_cong [OF this, of rq_user_id] arg_cong [OF this, of rq_action_id] arg_cong [OF this, of rq_hmac]
    arg_cong [OF this, of rq_payload_len]
  show "rq_user_id (aj_request job) = 7" "rq_action_id (aj_request job) = 1"
    "rq_hmac (aj_request job) = replicate 32 1" "rq_payload_len (aj_request job) = 194"
    using rq by simp_all
qed

lemma blurt_allowed: "app_policy_request_ip_allowed sample_server sample_user blurt_action ''10.0.0.2''"
  by code_simp

lemma blurt_admitted:
  assumes "job_view h job = job_stored blurt_delivered"
  obtains job1 d1 where "admit sample_machine_env blurt_daemon h job = (Some (sample_user, blurt_action), job1, d1)"
proof -
  note f = blurt_fields [OF assms]
  have cfg: "fst (dm_config blurt_daemon) = Some blurt_config" by (simp add: blurt_daemon_def)
  have usr: "config_user_by_id_from_ptr (Some blurt_config) 7 = Some sample_user"
    by (simp add: config_user_by_id_from_ptr_def blurt_config_def sample_config_def sample_user_def)
  have act: "config_action_by_id_from_ptr (Some blurt_config) 1 = Some blurt_action"
    by (simp add: config_action_by_id_from_ptr_def blurt_config_def blurt_action_def sample_action_def)
  have srv: "dm_server blurt_daemon = Some sample_server"
    by (simp add: dm_server_def listener_server_def blurt_daemon_def sample_daemon_def sample_listener_def blurt_config_def sample_config_def)
  have unit: "nu_wire_version (job_unit h (job\<lparr>aj_wire_auth := False\<rparr>)) = SHARED_KNOCK_CODEC_V4_WIRE_VERSION"
    "nu_wire_form (job_unit h (job\<lparr>aj_wire_auth := False\<rparr>)) = SHARED_KNOCK_CODEC_FORM1_ID"
    "length (nu_payload (job_unit h (job\<lparr>aj_wire_auth := False\<rparr>))) = 194"
    using f by (simp_all add: job_unit_def job_payload_def)
  have dig: "siglatch_openssl_digest_array sample_evp items = Some (replicate 32 0)" if "items \<noteq> []" for items
    using that by (simp add: siglatch_openssl_digest_array_def sample_evp_def)
  have val: "app_inbound_crypto_validate_signature sample_evp True h s (job\<lparr>aj_wire_auth := False\<rparr>)" for s
    using f unit
    by (simp add: app_inbound_crypto_validate_signature_def app_inbound_crypto_validate_signature_v4_def wire_versions Let_def
        shared_knock_digest_generate_v4_form1_def dig form1_items_def shared_knock_digest_validate_def buffer_sizes)
       (simp add: sample_evp_def)
  have pol: "app_daemon_policy_enforce (Some blurt_config) (Some sample_server) (job\<lparr>aj_wire_auth := True\<rparr>) sample_user blurt_action"
    using f blurt_allowed usr
    by (simp add: app_daemon_policy_enforce_def server_action_available_def config_action_available_by_user_def)
      (simp add: blurt_action_def sample_action_def sample_server_def sample_user_def)
  show ?thesis
    using that f val pol usr act
    by (simp add: admit_def cfg srv app_daemon_request_bind_user_action_def app_daemon_auth_authorize_def Let_def
        sample_machine_env_def wire_versions)
qed

definition blurt_machine :: "buf_heap \<Rightarrow> machine" where
  "blurt_machine h = \<lparr>mc_daemon = blurt_daemon, mc_heap = h, mc_procs = \<lparr>pr_forks = 0, pr_execs = []\<rparr>\<rparr>"

definition blurt_turn :: turn_env where
  "blurt_turn = \<lparr>te_time = 0, te_calloc = True, te_now = 5, te_ntop = (\<lambda>_. Some ''10.0.0.2''),
     te_pump = \<lparr>pe_now = 5, pe_session_now = (\<lambda>_. 5), pe_end_now = 6,
       pe_script = \<lparr>ss_wait = (\<lambda>_. 1), ss_events = [Datagram [1, 2, 3] (Sockaddr_In [10, 0, 0, 2] 9000) 5]\<rparr>\<rparr>,
     te_pump_now1 = 5, te_pump_now2 = 6, te_pump_sends = [], te_job = (\<lambda>_. sample_machine_env),
     te_stage = (\<lambda>_. (True, True)), te_flush_now = (\<lambda>_. 6), te_flush = (\<lambda>_. []), te_final_now = 6, te_final_sends = []\<rparr>"

lemma only_permitted_jobs_act_witness:
  "\<exists>h job. aj_wire_version job \<noteq> 0 \<and>
     (let m' = snd (snd (app_daemon_payload_consume sample_machine_env (blurt_machine h) job))
      in m' = (blurt_machine h)\<lparr>mc_daemon := (mc_daemon (blurt_machine h))\<lparr>dm_session := dm_session (mc_daemon m')\<rparr>\<rparr> \<or>
        (\<exists>user action server. permitted sample_machine_env (blurt_machine h) job user action server \<and>
           (pr_execs (mc_procs m') = [] \<or> (\<exists>b64. \<not> app_builtin_is_action action \<and>
             started (mc_procs (blurt_machine h)) (sa_constructor action) (shell_arguments job server user action b64)
               (sa_exec_split action) (sa_run_as action) (mc_procs m')))))"
proof -
  obtain jobs h jobs' job h' where q: "jobs_inv h' jobs' job" "job_view h' job = job_stored blurt_delivered"
    using blurt_queue by metis
  have ok: "machine_ok {} {#} jobs' job (blurt_machine h')"
    using q(1) blurt_daemon_inv by (simp add: machine_ok_def blurt_machine_def daemon_fit_def)
  obtain b job' m' where c: "app_daemon_payload_consume sample_machine_env (blurt_machine h') job = (b, job', m')"
    by (metis prod_cases3)
  have "aj_wire_version job \<noteq> 0" using blurt_fields(1) [OF q(2)] by (simp add: SHARED_KNOCK_CODEC_V4_WIRE_VERSION_def)
  moreover have "pr_execs (mc_procs (blurt_machine h')) = []" by (simp add: blurt_machine_def)
  ultimately show ?thesis using only_permitted_jobs_act [OF sample_env_ok ok c] c
    by (intro exI [of _ h'] exI [of _ job]) (simp add: Let_def)
qed

lemma sample_codecs_always: "codecs_ok (case_prod (\<lambda>_. sample_codecs))"
  using sample_codecs_ok unfolding codecs_ok_def by auto

lemma daemon_releases_everything_witness:
  "\<exists>m' users' sent. app_daemon_run (\<lambda>_. sample_codecs) sample_env True [blurt_turn, blurt_turn] 0
       (blurt_machine (bh_empty (\<lambda>_. False))) (empty_heap (\<lambda>_. False)) 0 = (m', users', sent) \<and>
     bh_owned (mc_heap m') {#} \<and> heap_ok users' \<and> live users' = {} \<and> daemon_inv {} {#} (mc_daemon m')"
proof -
  obtain m' users' sent where r: "app_daemon_run (\<lambda>_. sample_codecs) sample_env True [blurt_turn, blurt_turn] 0
       (blurt_machine (bh_empty (\<lambda>_. False))) (empty_heap (\<lambda>_. False)) 0 = (m', users', sent)" by (metis prod_cases3)
  have "turn_ok blurt_turn" using sample_env_ok by (simp add: turn_ok_def blurt_turn_def)
  then have t: "\<forall>te \<in> set [blurt_turn, blurt_turn]. turn_ok te" by simp
  have d: "daemon_inv {} {#} (mc_daemon (blurt_machine (bh_empty (\<lambda>_. False))))"
    "mx_internal (dm_mux (mc_daemon (blurt_machine (bh_empty (\<lambda>_. False)))))"
    "bh_owned (mc_heap (blurt_machine (bh_empty (\<lambda>_. False)))) {#}"
    using blurt_daemon_inv bh_owned_empty by (simp_all add: blurt_machine_def)
  from daemon_releases_everything [OF sample_codecs_always t d heap_ok_empty r] r show ?thesis by blast
qed

lemma long_reply_ends_daemon_witness:
  "\<exists>h jobs. fst (app_daemon_drain_jobs_and_flush sample_codecs blurt_turn
     \<lparr>ru_machine = blurt_machine h, ru_mux = zero_mux, ru_users = empty_heap (\<lambda>_. False), ru_jobs = jobs,
      ru_rng = 0, ru_tracked = 3, ru_sent = []\<rparr>) = -1"
proof -
  obtain jobs h jobs' job h' where q: "jobs_inv h jobs zero_job" "\<forall>n. \<not> bh_oom h n"
    "app_job_drain jobs zero_job h = (True, jobs', job, h')" and v: "job_view h' job = job_stored blurt_delivered"
    using blurt_queue by metis
  note f = blurt_fields [OF v]
  obtain job1 d1 where a: "admit sample_machine_env blurt_daemon h' job = (Some (sample_user, blurt_action), job1, d1)"
    using blurt_admitted [OF v] .
  let ?ru = "\<lparr>ru_machine = blurt_machine h, ru_mux = zero_mux, ru_users = empty_heap (\<lambda>_. False), ru_jobs = jobs,
      ru_rng = 0, ru_tracked = 3, ru_sent = []\<rparr>"
  have "fst (app_daemon_drain_jobs_and_flush sample_codecs blurt_turn ?ru) = -1"
  proof (rule long_reply_ends_daemon)
    show "jobs_inv (mc_heap (ru_machine ?ru)) (ru_jobs ?ru) zero_job" "\<forall>n. \<not> bh_oom (mc_heap (ru_machine ?ru)) n"
      "app_job_drain (ru_jobs ?ru) zero_job (mc_heap (ru_machine ?ru)) = (True, jobs', job, h')"
      using q by (simp_all add: blurt_machine_def)
    show "admit (te_job blurt_turn 0) (ru_daemon ?ru) h' job = (Some (sample_user, blurt_action), job1, d1)"
      using a by (simp add: blurt_turn_def ru_daemon_def blurt_machine_def)
    show "app_builtin_is_action blurt_action" "sa_builtin blurt_action = ''test_blurt''"
      by (simp_all add: app_builtin_is_action_def blurt_action_def sample_action_def)
  qed (use f in \<open>simp_all add: SHARED_KNOCK_CODEC_V4_WIRE_VERSION_def list_all_iff\<close>)
  then show ?thesis by blast
qed

end
