(* ===== verification/Argv.thy ===== *)
theory Argv
  imports Cstring Codec_Common
begin

text \<open>
  \<open>stdlib/argv.c\<close>: the command-line parser of both programs. A table of options is a list (the C table
  ends with a NULL name), \<open>argv\<close> a list of strings, the array of the values of an option with its count a
  list. \<open>strict\<close> is the only field of the parser's context. The array \<open>value_ptrs\<close>
  of the parser has ten entries: \<open>ap_overrun\<close> records a write past its end.
\<close>

definition ARGV_MAX_OPTIONS :: nat where "ARGV_MAX_OPTIONS = 32"
definition ARGV_MAX_OPTION_ARGS :: nat where "ARGV_MAX_OPTION_ARGS = 10"
definition ARGV_MAX_POSITIONALS :: nat where "ARGV_MAX_POSITIONALS = 8"

lemmas argv_limits = ARGV_MAX_OPTIONS_def ARGV_MAX_OPTION_ARGS_def ARGV_MAX_POSITIONALS_def

datatype ArgvOptionType = ARGV_OPT_FLAG | ARGV_OPT_KEYED

datatype ArgvErrorCode =
    ARGV_ERR_NONE | ARGV_ERR_INVALID_INPUT | ARGV_ERR_UNKNOWN_OPTION | ARGV_ERR_NOT_ENOUGH_OPTION_ARGS
  | ARGV_ERR_TOO_MANY_OPTIONS | ARGV_ERR_TOO_MANY_POSITIONALS | ARGV_ERR_TOO_MANY_OPTION_ARGS
  | ARGV_ERR_EQUALS_FORM_NOT_ALLOWED | ARGV_ERR_DUPLICATE_OPTION | ARGV_ERR_REQUIRED_OPTION_MISSING
  | ARGV_ERR_BAD_INTEGER | ARGV_ERR_INTEGER_OUT_OF_RANGE | ARGV_ERR_BAD_ENUM

record ArgvError =
  ae_code :: ArgvErrorCode
  ae_arg_index :: int
  ae_arg_value :: "string option"
  ae_option_id :: int
  ae_option_name :: "string option"

record ArgvOptionSpec =
  ao_name :: string
  ao_id :: int
  ao_num_args :: int
  ao_type :: ArgvOptionType
  ao_required :: bool
  ao_allow_repeat :: bool
  ao_last_wins :: bool

text \<open>\<open>po_args\<close> holds the \<open>num_args\<close> entries in use: the spelling, then the values.\<close>

record ArgvParsedOption =
  po_spec :: ArgvOptionSpec
  po_args :: "string list"
  po_source_index :: nat

record ArgvParsed =
  ap_options :: "ArgvParsedOption list"
  ap_positionals :: "string list"
  ap_positional_indices :: "nat list"
  ap_spec :: "ArgvOptionSpec list"
  ap_error :: ArgvError
  ap_overrun :: bool

section \<open>Errors and lookups\<close>

definition argv_error :: "ArgvErrorCode \<Rightarrow> int \<Rightarrow> string option \<Rightarrow> int \<Rightarrow> string option \<Rightarrow> ArgvError" where
  "argv_error code arg_index arg_value option_id option_name =
     \<lparr>ae_code = code, ae_arg_index = arg_index, ae_arg_value = arg_value, ae_option_id = option_id,
      ae_option_name = option_name\<rparr>"

definition argv_clear_error :: ArgvError where
  "argv_clear_error = argv_error ARGV_ERR_NONE (-1) None 0 None"

definition argv_set_error ::
  "ArgvErrorCode \<Rightarrow> int \<Rightarrow> string option \<Rightarrow> int \<Rightarrow> string option \<Rightarrow> ArgvParsed \<Rightarrow> ArgvParsed" where
  "argv_set_error code arg_index arg_value option_id option_name p =
     p\<lparr>ap_error := argv_error code arg_index arg_value option_id option_name\<rparr>"

definition argv_find_spec_exact :: "string \<Rightarrow> ArgvOptionSpec list \<Rightarrow> ArgvOptionSpec option" where
  "argv_find_spec_exact name spec_table = find (\<lambda>s. ao_name s = name) spec_table"

definition argv_find_option_index_by_id :: "ArgvParsed \<Rightarrow> int \<Rightarrow> nat option" where
  "argv_find_option_index_by_id parsed option_id = find_idx (\<lambda>po. ao_id (po_spec po) = option_id) (ap_options parsed)"

definition argv_append_positional :: "ArgvParsed \<Rightarrow> string \<Rightarrow> nat \<Rightarrow> bool \<times> ArgvParsed" where
  "argv_append_positional p value arg_index =
     (if ARGV_MAX_POSITIONALS \<le> length (ap_positionals p)
      then (False, argv_set_error ARGV_ERR_TOO_MANY_POSITIONALS (int arg_index) (Some value) 0 None p)
      else (True, p\<lparr>ap_positionals := ap_positionals p @ [value],
                    ap_positional_indices := ap_positional_indices p @ [arg_index]\<rparr>))"

definition argv_store_option ::
  "ArgvParsed \<Rightarrow> ArgvOptionSpec \<Rightarrow> string \<Rightarrow> nat \<Rightarrow> string list \<Rightarrow> bool \<times> ArgvParsed" where
  "argv_store_option p opt spelling source_index values =
     (let po = \<lparr>po_spec = opt, po_args = spelling # values, po_source_index = source_index\<rparr>;
          fail = (\<lambda>code. (False, argv_set_error code (int source_index) (Some spelling) (ao_id opt) (Some (ao_name opt)) p))
      in if ARGV_MAX_OPTION_ARGS < 1 + length values then fail ARGV_ERR_TOO_MANY_OPTION_ARGS
         else case (if ao_allow_repeat opt then None else argv_find_option_index_by_id p (ao_id opt)) of
           Some existing_index \<Rightarrow>
             if ao_last_wins opt then (True, p\<lparr>ap_options := (ap_options p)[existing_index := po]\<rparr>)
             else fail ARGV_ERR_DUPLICATE_OPTION
         | None \<Rightarrow>
             if ARGV_MAX_OPTIONS \<le> length (ap_options p) then fail ARGV_ERR_TOO_MANY_OPTIONS
             else (True, p\<lparr>ap_options := ap_options p @ [po]\<rparr>))"

section \<open>Parsing\<close>

text \<open>The result is -1 when the argument is not of this form.\<close>

definition argv_parse_long_with_equals ::
  "bool \<Rightarrow> string \<Rightarrow> nat \<Rightarrow> ArgvParsed \<Rightarrow> ArgvOptionSpec list \<Rightarrow> int \<times> ArgvParsed" where
  "argv_parse_long_with_equals strict arg arg_index p spec_table =
     (case strchr_split (CHR ''='') arg of
        None \<Rightarrow> (-1, p)
      | Some (key_buf, value) \<Rightarrow>
          (let unknown = (if strict
                          then (0, argv_set_error ARGV_ERR_UNKNOWN_OPTION (int arg_index) (Some arg) 0 None p)
                          else (-1, p))
           in if length key_buf = 0 \<or> 256 \<le> length key_buf then unknown
              else case argv_find_spec_exact key_buf spec_table of
                None \<Rightarrow> unknown
              | Some opt \<Rightarrow>
                  if ao_num_args opt \<noteq> 1
                  then (0, argv_set_error ARGV_ERR_EQUALS_FORM_NOT_ALLOWED (int arg_index) (Some arg)
                             (ao_id opt) (Some (ao_name opt)) p)
                  else (case argv_store_option p opt (ao_name opt) arg_index [value] of
                          (ok, p1) \<Rightarrow> (if ok then 1 else 0, p1))))"

fun argv_enforce_required :: "ArgvOptionSpec list \<Rightarrow> ArgvParsed \<Rightarrow> bool \<times> ArgvParsed" where
  "argv_enforce_required [] p = (True, p)"
| "argv_enforce_required (spec # specs) p =
     (if ao_required spec \<and> argv_find_option_index_by_id p (ao_id spec) = None
      then (False, argv_set_error ARGV_ERR_REQUIRED_OPTION_MISSING (-1) (Some (ao_name spec)) (ao_id spec)
              (Some (ao_name spec)) p)
      else argv_enforce_required specs p)"

text \<open>
  An argument that names an option, with the arguments after it: the result, the state and how many
  arguments are used. \<open>None\<close> in the first component when the argument is not an option.
\<close>

definition argv_parse_option ::
  "bool \<Rightarrow> ArgvOptionSpec list \<Rightarrow> string \<Rightarrow> string list \<Rightarrow> nat \<Rightarrow> ArgvParsed \<Rightarrow> bool option \<times> ArgvParsed \<times> nat" where
  "argv_parse_option strict spec_table arg rest i p =
     (case argv_find_spec_exact arg spec_table of
        Some opt \<Rightarrow>
          (let fail = (\<lambda>code. (Some False, argv_set_error code (int i) (Some arg) (ao_id opt) (Some (ao_name opt)) p, 0))
           in if ao_num_args opt < 0 then fail ARGV_ERR_INVALID_INPUT
              else if int (length rest) < ao_num_args opt then fail ARGV_ERR_NOT_ENOUGH_OPTION_ARGS
              else let value_count = nat (ao_num_args opt);
                       p1 = (if ARGV_MAX_OPTION_ARGS < value_count then p\<lparr>ap_overrun := True\<rparr> else p)
                   in case argv_store_option p1 opt arg i (take value_count rest) of
                        (ok, p2) \<Rightarrow> (Some ok, p2, 1 + value_count))
      | None \<Rightarrow>
          if strict then (Some False, argv_set_error ARGV_ERR_UNKNOWN_OPTION (int i) (Some arg) 0 None p, 0)
          else (None, p, 0))"

text \<open>The loop over \<open>argv[i..]\<close>.\<close>

function (sequential) argv_loop ::
  "bool \<Rightarrow> ArgvOptionSpec list \<Rightarrow> bool \<Rightarrow> nat \<Rightarrow> string list \<Rightarrow> ArgvParsed \<Rightarrow> bool \<times> ArgvParsed" where
  "argv_loop strict spec_table positional_only i [] p = (True, p)"
| "argv_loop strict spec_table positional_only i (arg # rest) p =
     (if \<not> positional_only \<and> arg = ''--'' then argv_loop strict spec_table True (i + 1) rest p
      else
        case (if \<not> positional_only \<and> take 2 arg = ''--''
              then argv_parse_long_with_equals strict arg i p spec_table else (-1, p)) of
          (rc, p1) \<Rightarrow>
            if 0 \<le> rc then (if rc = 0 then (False, p1) else argv_loop strict spec_table positional_only (i + 1) rest p1)
            else
              (case (if \<not> positional_only \<and> take 1 arg = ''-''
                     then argv_parse_option strict spec_table arg rest i p1 else (None, p1, 0)) of
                 (Some ok, p2, used) \<Rightarrow>
                   if \<not> ok then (False, p2)
                   else argv_loop strict spec_table positional_only (i + used) (drop (used - 1) rest) p2
               | (None, p2, used) \<Rightarrow>
                   (case argv_append_positional p2 arg i of
                      (ok, p3) \<Rightarrow> if ok then argv_loop strict spec_table positional_only (i + 1) rest p3 else (False, p3))))"
  by pat_completeness auto
termination
  by (relation "measure (\<lambda>(_, _, _, _, args, _). length args)") auto

declare argv_loop.simps [simp del]

definition argv_empty :: "ArgvOptionSpec list \<Rightarrow> ArgvParsed" where
  "argv_empty spec_table = \<lparr>ap_options = [], ap_positionals = [], ap_positional_indices = [], ap_spec = spec_table,
     ap_error = argv_clear_error, ap_overrun = False\<rparr>"

text \<open>The program name is \<open>argv[0]\<close>.\<close>

definition argv_parse :: "bool \<Rightarrow> string list \<Rightarrow> ArgvOptionSpec list \<Rightarrow> bool \<times> ArgvParsed" where
  "argv_parse strict argv spec_table =
     (case argv_loop strict spec_table False 1 (tl argv) (argv_empty spec_table) of
        (ok, p) \<Rightarrow> if \<not> ok then (False, p) else argv_enforce_required spec_table p)"

section \<open>Reading the result\<close>

definition argv_has :: "ArgvParsed \<Rightarrow> string \<Rightarrow> bool" where
  "argv_has parsed option_name \<longleftrightarrow> list_ex (\<lambda>po. ao_name (po_spec po) = option_name) (ap_options parsed)"

definition argv_find_first_by_id :: "ArgvParsed \<Rightarrow> int \<Rightarrow> ArgvParsedOption option" where
  "argv_find_first_by_id parsed option_id = find (\<lambda>po. ao_id (po_spec po) = option_id) (ap_options parsed)"

definition argv_find_last_by_id :: "ArgvParsed \<Rightarrow> int \<Rightarrow> ArgvParsedOption option" where
  "argv_find_last_by_id parsed option_id = find (\<lambda>po. ao_id (po_spec po) = option_id) (rev (ap_options parsed))"

definition argv_find_first_by_name :: "ArgvParsed \<Rightarrow> string \<Rightarrow> ArgvParsedOption option" where
  "argv_find_first_by_name parsed option_name = find (\<lambda>po. ao_name (po_spec po) = option_name) (ap_options parsed)"

definition argv_option_value :: "ArgvParsedOption option \<Rightarrow> int \<Rightarrow> string option" where
  "argv_option_value option value_index =
     (case option of
        None \<Rightarrow> None
      | Some po \<Rightarrow>
          if value_index < 0 then None
          else let idx = nat value_index + 1
               in if length (po_args po) \<le> idx \<or> ARGV_MAX_OPTION_ARGS \<le> idx then None else Some (po_args po ! idx))"

definition argv_set_typed_error :: "ArgvErrorCode \<Rightarrow> ArgvParsedOption option \<Rightarrow> string option \<Rightarrow> ArgvError" where
  "argv_set_typed_error code option value =
     (case option of
        None \<Rightarrow> argv_error code (-1) value 0 None
      | Some po \<Rightarrow> argv_error code (int (po_source_index po)) value (ao_id (po_spec po)) (Some (ao_name (po_spec po))))"

text \<open>
  \<open>strtol(text, &endptr, 10)\<close>: whether \<open>errno\<close> is \<open>ERANGE\<close>, the number, and the text at \<open>endptr\<close>.
\<close>

definition strtol_end :: "string \<Rightarrow> bool \<times> int \<times> string" where
  "strtol_end s =
     (case scan_integer s of (neg, ds, rest) \<Rightarrow>
        let v = int (digits_value 0 ds)
        in (if neg then 2 ^ 63 < v else 2 ^ 63 \<le> v, strtol10 s, rest))"

text \<open>0 for no integer, -1 for one out of range, 1 with the integer.\<close>

definition argv_parse_long_range :: "string option \<Rightarrow> int \<Rightarrow> int \<Rightarrow> int \<times> int" where
  "argv_parse_long_range text min_value max_value =
     (case text of
        None \<Rightarrow> (0, 0)
      | Some t \<Rightarrow>
          if t = [] then (0, 0)
          else case strtol_end t of
            (erange, parsed, rest) \<Rightarrow>
              if erange \<or> rest \<noteq> [] then (0, 0)
              else if parsed < min_value \<or> max_value < parsed then (-1, 0) else (1, parsed))"

definition argv_get_i32 :: "ArgvParsedOption option \<Rightarrow> int \<Rightarrow> int \<Rightarrow> int \<Rightarrow> ArgvError + int" where
  "argv_get_i32 option value_index min_value max_value =
     (let text = argv_option_value option value_index
      in if option = None then Inl (argv_set_typed_error ARGV_ERR_INVALID_INPUT option None)
         else case argv_parse_long_range text min_value max_value of
           (rc, parsed) \<Rightarrow>
             if rc = 0 then Inl (argv_set_typed_error ARGV_ERR_BAD_INTEGER option text)
             else if rc < 0 then Inl (argv_set_typed_error ARGV_ERR_INTEGER_OUT_OF_RANGE option text)
             else Inr parsed)"

definition argv_get_u16 :: "ArgvParsedOption option \<Rightarrow> int \<Rightarrow> ArgvError + u16" where
  "argv_get_u16 option value_index =
     (case argv_get_i32 option value_index 0 65535 of Inl e \<Rightarrow> Inl e | Inr tmp \<Rightarrow> Inr (word_of_int tmp))"

text \<open>
  The C function compares the value without testing it for NULL. Options that take a value always have
  one (\<open>argv_value_present\<close> below); for the others the model finds no match.
\<close>

definition argv_get_enum :: "ArgvParsedOption option \<Rightarrow> int \<Rightarrow> (string \<times> int) list \<Rightarrow> ArgvError + int" where
  "argv_get_enum option value_index entries =
     (let text = argv_option_value option value_index
      in if option = None \<or> entries = [] then Inl (argv_set_typed_error ARGV_ERR_INVALID_INPUT option text)
         else case find (\<lambda>(name, value). Some name = text) entries of
           Some (name, value) \<Rightarrow> Inr value
         | None \<Rightarrow> Inl (argv_set_typed_error ARGV_ERR_BAD_ENUM option text))"

fun argv_error_code_name :: "ArgvErrorCode \<Rightarrow> string" where
  "argv_error_code_name ARGV_ERR_NONE = ''none''"
| "argv_error_code_name ARGV_ERR_INVALID_INPUT = ''invalid_input''"
| "argv_error_code_name ARGV_ERR_UNKNOWN_OPTION = ''unknown_option''"
| "argv_error_code_name ARGV_ERR_NOT_ENOUGH_OPTION_ARGS = ''not_enough_option_args''"
| "argv_error_code_name ARGV_ERR_TOO_MANY_OPTIONS = ''too_many_options''"
| "argv_error_code_name ARGV_ERR_TOO_MANY_POSITIONALS = ''too_many_positionals''"
| "argv_error_code_name ARGV_ERR_TOO_MANY_OPTION_ARGS = ''too_many_option_args''"
| "argv_error_code_name ARGV_ERR_EQUALS_FORM_NOT_ALLOWED = ''equals_form_not_allowed''"
| "argv_error_code_name ARGV_ERR_DUPLICATE_OPTION = ''duplicate_option''"
| "argv_error_code_name ARGV_ERR_REQUIRED_OPTION_MISSING = ''required_option_missing''"
| "argv_error_code_name ARGV_ERR_BAD_INTEGER = ''bad_integer''"
| "argv_error_code_name ARGV_ERR_INTEGER_OUT_OF_RANGE = ''integer_out_of_range''"
| "argv_error_code_name ARGV_ERR_BAD_ENUM = ''bad_enum''"

definition dec_int :: "int \<Rightarrow> string" where
  "dec_int i = (if i < 0 then CHR ''-'' # dec_string (nat (- i)) else dec_string (nat i))"

definition null_text :: "string option \<Rightarrow> string" where
  "null_text t = (case t of None \<Rightarrow> ''(null)'' | Some s \<Rightarrow> s)"

text \<open>The text left in \<open>out\<close>, and whether it is whole.\<close>

definition argv_format_error :: "ArgvError \<Rightarrow> nat \<Rightarrow> bool \<times> string" where
  "argv_format_error err out_size =
     (if out_size = 0 then (False, [])
      else let t = ''code='' @ argv_error_code_name (ae_code err) @ '' arg_index='' @ dec_int (ae_arg_index err) @
                   '' arg_value='' @ null_text (ae_arg_value err) @ '' option_id='' @ dec_int (ae_option_id err) @
                   '' option_name='' @ null_text (ae_option_name err)
           in (length t < out_size, take (out_size - 1) t))"

end
