(* ===== verification/Argv_Facts.thy ===== *)
theory Argv_Facts
  imports Argv
begin

text \<open>
  What the command-line parser guarantees: it reads back every command line that is written from its
  table, and whatever it accepts comes from the table and from the command line.
\<close>

section \<open>Tables\<close>

definition argv_table_ok :: "ArgvOptionSpec list \<Rightarrow> bool" where
  "argv_table_ok table \<longleftrightarrow> distinct (map ao_name table) \<and> distinct (map ao_id table) \<and>
     list_all (\<lambda>s. take 2 (ao_name s) = ''--'' \<and> ao_name s \<noteq> ''--'' \<and> CHR ''='' \<notin> set (ao_name s) \<and>
       length (ao_name s) < 256 \<and> 0 \<le> ao_num_args s \<and> ao_num_args s < 10) table"

lemma find_spec_Some:
  "argv_find_spec_exact name table = Some s \<Longrightarrow> s \<in> set table \<and> ao_name s = name"
  by (auto simp: argv_find_spec_exact_def find_Some_iff)

lemma find_spec_name:
  assumes "distinct (map ao_name table)" "s \<in> set table"
  shows "argv_find_spec_exact (ao_name s) table = Some s"
  using assms
proof (induction table)
  case (Cons a table)
  show ?case
  proof (cases "ao_name a = ao_name s")
    case True
    with Cons.prems have "a = s" by (auto simp: image_iff)
    then show ?thesis by (simp add: argv_find_spec_exact_def)
  next
    case False
    with Cons have "s \<in> set table" "argv_find_spec_exact (ao_name s) table = Some s" by auto
    with False show ?thesis by (simp add: argv_find_spec_exact_def)
  qed
qed simp

lemma table_spec:
  assumes "argv_table_ok table" "s \<in> set table"
  shows "take 2 (ao_name s) = ''--''" "ao_name s \<noteq> ''--''" "CHR ''='' \<notin> set (ao_name s)"
    "length (ao_name s) < 256" "0 \<le> ao_num_args s" "ao_num_args s < 10"
  using assms by (auto simp: argv_table_ok_def list_all_iff)

lemma take_2_1: "take 2 s = ''--'' \<Longrightarrow> take 1 s = ''-''"
proof -
  assume "take 2 s = ''--''"
  then have "take 1 (take 2 s) = take 1 ''--''" by simp
  then show ?thesis by simp
qed

lemma table_ids_inj:
  assumes "argv_table_ok table" "s \<in> set table" "t \<in> set table" "ao_id s = ao_id t"
  shows "s = t"
  using assms unfolding argv_table_ok_def
  by (auto simp: distinct_map dest: inj_onD)

section \<open>The order of options\<close>

text \<open>No option is given twice unless it may be.\<close>

fun fresh_ids :: "int set \<Rightarrow> ArgvParsedOption list \<Rightarrow> bool" where
  "fresh_ids seen [] = True"
| "fresh_ids seen (po # pos) =
     ((ao_allow_repeat (po_spec po) \<or> ao_id (po_spec po) \<notin> seen) \<and> fresh_ids (insert (ao_id (po_spec po)) seen) pos)"

abbreviation opt_ids :: "ArgvParsedOption list \<Rightarrow> int set" where
  "opt_ids pos \<equiv> (\<lambda>po. ao_id (po_spec po)) ` set pos"

lemma fresh_ids_append: "fresh_ids seen (xs @ ys) \<longleftrightarrow> fresh_ids seen xs \<and> fresh_ids (seen \<union> opt_ids xs) ys"
proof (induction xs arbitrary: seen)
  case (Cons x xs)
  have "insert (ao_id (po_spec x)) seen \<union> opt_ids xs = seen \<union> opt_ids (x # xs)" by auto
  with Cons show ?case by simp
qed simp

lemma fresh_ids_update:
  assumes "fresh_ids seen xs" "i < length xs" "po_spec x = po_spec (xs ! i)"
  shows "fresh_ids seen (xs[i := x])"
  using assms
proof (induction xs arbitrary: seen i)
  case (Cons y ys)
  then show ?case by (cases i) auto
qed simp

lemma option_index_None: "argv_find_option_index_by_id p k = None \<longleftrightarrow> k \<notin> opt_ids (ap_options p)"
  by (auto simp: argv_find_option_index_by_id_def find_idx_None)

section \<open>Command lines written from a table\<close>

datatype argv_item = Option_item ArgvOptionSpec "string list" | Equals_item ArgvOptionSpec string
  | Positional_item string

fun item_text :: "argv_item \<Rightarrow> string list" where
  "item_text (Option_item s vs) = ao_name s # vs"
| "item_text (Equals_item s v) = [ao_name s @ ''='' @ v]"
| "item_text (Positional_item t) = [t]"

fun item_ok :: "ArgvOptionSpec list \<Rightarrow> argv_item \<Rightarrow> bool" where
  "item_ok table (Option_item s vs) = (s \<in> set table \<and> ao_num_args s = int (length vs))"
| "item_ok table (Equals_item s v) = (s \<in> set table \<and> ao_num_args s = 1)"
| "item_ok table (Positional_item t) = (take 1 t \<noteq> ''-'')"

text \<open>The options and the positionals of a command line whose first item is argument \<open>i\<close>.\<close>

fun item_options :: "nat \<Rightarrow> argv_item list \<Rightarrow> ArgvParsedOption list" where
  "item_options i [] = []"
| "item_options i (Option_item s vs # items) =
     \<lparr>po_spec = s, po_args = ao_name s # vs, po_source_index = i\<rparr> # item_options (i + 1 + length vs) items"
| "item_options i (Equals_item s v # items) =
     \<lparr>po_spec = s, po_args = [ao_name s, v], po_source_index = i\<rparr> # item_options (i + 1) items"
| "item_options i (Positional_item t # items) = item_options (i + 1) items"

fun item_positionals :: "nat \<Rightarrow> argv_item list \<Rightarrow> (nat \<times> string) list" where
  "item_positionals i [] = []"
| "item_positionals i (Positional_item t # items) = (i, t) # item_positionals (i + 1) items"
| "item_positionals i (item # items) = item_positionals (i + length (item_text item)) items"

definition items_text :: "argv_item list \<Rightarrow> string list" where
  "items_text items = concat (map item_text items)"

definition add_items :: "ArgvParsedOption list \<Rightarrow> (nat \<times> string) list \<Rightarrow> ArgvParsed \<Rightarrow> ArgvParsed" where
  "add_items opts pos p = p\<lparr>ap_options := ap_options p @ opts, ap_positionals := ap_positionals p @ map snd pos,
     ap_positional_indices := ap_positional_indices p @ map fst pos\<rparr>"

lemma add_items_simps [simp]:
  "ap_options (add_items os ps p) = ap_options p @ os"
  "ap_positionals (add_items os ps p) = ap_positionals p @ map snd ps"
  "ap_positional_indices (add_items os ps p) = ap_positional_indices p @ map fst ps"
  "add_items os2 ps2 (add_items os ps p) = add_items (os @ os2) (ps @ ps2) p"
  "add_items [] [] p = p"
  by (simp_all add: add_items_def)

lemma store_new:
  assumes "length vs < 10" "ao_allow_repeat s \<or> ao_id s \<notin> opt_ids (ap_options p)" "length (ap_options p) < 32"
  shows "argv_store_option p s n i vs =
    (True, add_items [\<lparr>po_spec = s, po_args = n # vs, po_source_index = i\<rparr>] [] p)"
proof -
  have "(if ao_allow_repeat s then None else argv_find_option_index_by_id p (ao_id s)) = None"
    using assms(2) by (auto simp: option_index_None)
  with assms(1,3) show ?thesis
    by (simp add: argv_store_option_def argv_limits add_items_def Let_def)
qed

lemma append_positional:
  "length (ap_positionals p) < 8 \<Longrightarrow> argv_append_positional p t i = (True, add_items [] [(i, t)] p)"
  by (simp add: argv_append_positional_def argv_limits add_items_def)

lemma equals_split:
  "CHR ''='' \<notin> set n \<Longrightarrow> strchr_split (CHR ''='') (n @ ''='' @ v) = Some (n, v)"
  by (simp add: strchr_split_def takeWhile_append dropWhile_append)

lemma no_equals: "CHR ''='' \<notin> set n \<Longrightarrow> argv_parse_long_with_equals strict n i p table = (-1, p)"
  by (simp add: argv_parse_long_with_equals_def strchr_split_def)

lemma loop_option:
  assumes t: "argv_table_ok table" and s: "s \<in> set table" and vs: "ao_num_args s = int (length vs)"
    and fresh: "ao_allow_repeat s \<or> ao_id s \<notin> opt_ids (ap_options p)" and room: "length (ap_options p) < 32"
  shows "argv_loop strict table False i (ao_name s # vs @ rest) p =
    argv_loop strict table False (i + 1 + length vs) rest
      (add_items [\<lparr>po_spec = s, po_args = ao_name s # vs, po_source_index = i\<rparr>] [] p)"
proof -
  note ts = table_spec [OF t s]
  from vs ts(6) have l: "length vs < 10" by simp
  from t have "argv_find_spec_exact (ao_name s) table = Some s"
    using s by (simp add: argv_table_ok_def find_spec_name)
  then have opt: "argv_parse_option strict table (ao_name s) (vs @ rest) i p =
      (Some True, add_items [\<lparr>po_spec = s, po_args = ao_name s # vs, po_source_index = i\<rparr>] [] p, 1 + length vs)"
    using vs l store_new [OF l fresh room] by (simp add: argv_parse_option_def argv_limits)
  show ?thesis
    by (subst argv_loop.simps) (simp add: ts(1,2) take_2_1 [OF ts(1)] no_equals [OF ts(3)] opt add.assoc del: One_nat_def)
qed

lemma loop_equals:
  assumes t: "argv_table_ok table" and s: "s \<in> set table" and one: "ao_num_args s = 1"
    and fresh: "ao_allow_repeat s \<or> ao_id s \<notin> opt_ids (ap_options p)" and room: "length (ap_options p) < 32"
  shows "argv_loop strict table False i ((ao_name s @ ''='' @ v) # rest) p =
    argv_loop strict table False (i + 1) rest
      (add_items [\<lparr>po_spec = s, po_args = [ao_name s, v], po_source_index = i\<rparr>] [] p)"
proof -
  note ts = table_spec [OF t s]
  have n: "ao_name s \<noteq> []" using ts(1) by auto
  have two: "take 2 (ao_name s @ ''='' @ v) = ''--''"
    using ts(1,2) by (cases "ao_name s"; cases "tl (ao_name s)") auto
  have ne: "ao_name s @ ''='' @ v \<noteq> ''--''"
  proof
    assume "ao_name s @ ''='' @ v = ''--''"
    then have "CHR ''='' \<in> set ''--''" by (metis append_Cons in_set_conv_decomp)
    then show False by simp
  qed
  from t have "argv_find_spec_exact (ao_name s) table = Some s"
    using s by (simp add: argv_table_ok_def find_spec_name)
  then have "argv_parse_long_with_equals strict (ao_name s @ ''='' @ v) i p table =
      (1, add_items [\<lparr>po_spec = s, po_args = [ao_name s, v], po_source_index = i\<rparr>] [] p)"
    unfolding argv_parse_long_with_equals_def equals_split [OF ts(3)]
    using n ts(4) one fresh room store_new [of "[v]" s p "ao_name s" i] by (simp add: Let_def)
  with two ne show ?thesis by (subst argv_loop.simps) (simp del: append.simps)
qed

lemma loop_positional:
  assumes "take 1 t \<noteq> ''-''" "length (ap_positionals p) < 8"
  shows "argv_loop strict table False i (t # rest) p = argv_loop strict table False (i + 1) rest (add_items [] [(i, t)] p)"
proof -
  have "take 2 t \<noteq> ''--''" "t \<noteq> ''--''" using assms(1) take_2_1 [of t] by auto
  then show ?thesis
    using assms append_positional [OF assms(2), of t i] by (subst argv_loop.simps) (simp del: One_nat_def)
qed

lemma loop_items:
  assumes "argv_table_ok table" "list_all (item_ok table) items"
    "fresh_ids (opt_ids (ap_options p)) (item_options i items)"
    "length (ap_options p) + length (item_options i items) \<le> 32"
    "length (ap_positionals p) + length (item_positionals i items) \<le> 8"
  shows "argv_loop strict table False i (items_text items @ tail) p =
    argv_loop strict table False (i + length (items_text items)) tail
      (add_items (item_options i items) (item_positionals i items) p)"
  using assms(2-)
proof (induction items arbitrary: i p)
  case Nil
  then show ?case by (simp add: items_text_def)
next
  case (Cons x xs)
  show ?case
  proof (cases x)
    case (Option_item s vs)
    let ?o = "\<lparr>po_spec = s, po_args = ao_name s # vs, po_source_index = i\<rparr>"
    from Cons.prems Option_item loop_option [OF assms(1), of s vs p strict i "items_text xs @ tail"]
    have "argv_loop strict table False i (items_text (x # xs) @ tail) p =
        argv_loop strict table False (i + 1 + length vs) (items_text xs @ tail) (add_items [?o] [] p)"
      by (simp add: items_text_def)
    also have "\<dots> = argv_loop strict table False (i + 1 + length vs + length (items_text xs)) tail
        (add_items (item_options (i + 1 + length vs) xs) (item_positionals (i + 1 + length vs) xs) (add_items [?o] [] p))"
      using Cons.prems Option_item by (intro Cons.IH) simp_all
    finally show ?thesis by (simp add: Option_item items_text_def ac_simps)
  next
    case (Equals_item s v)
    let ?o = "\<lparr>po_spec = s, po_args = [ao_name s, v], po_source_index = i\<rparr>"
    from Cons.prems Equals_item loop_equals [OF assms(1), of s p strict i v "items_text xs @ tail"]
    have "argv_loop strict table False i (items_text (x # xs) @ tail) p =
        argv_loop strict table False (i + 1) (items_text xs @ tail) (add_items [?o] [] p)"
      by (simp add: items_text_def)
    also have "\<dots> = argv_loop strict table False (i + 1 + length (items_text xs)) tail
        (add_items (item_options (i + 1) xs) (item_positionals (i + 1) xs) (add_items [?o] [] p))"
      using Cons.prems Equals_item by (intro Cons.IH) simp_all
    finally show ?thesis by (simp add: Equals_item items_text_def ac_simps)
  next
    case (Positional_item t)
    from Cons.prems Positional_item loop_positional [of t p strict table i "items_text xs @ tail"]
    have "argv_loop strict table False i (items_text (x # xs) @ tail) p =
        argv_loop strict table False (i + 1) (items_text xs @ tail) (add_items [] [(i, t)] p)"
      by (simp add: items_text_def)
    also have "\<dots> = argv_loop strict table False (i + 1 + length (items_text xs)) tail
        (add_items (item_options (i + 1) xs) (item_positionals (i + 1) xs) (add_items [] [(i, t)] p))"
      using Cons.prems Positional_item by (intro Cons.IH) simp_all
    finally show ?thesis by (simp add: Positional_item items_text_def ac_simps)
  qed
qed

lemma loop_tail:
  "length (ap_positionals p) + length ts \<le> 8 \<Longrightarrow>
   argv_loop strict table True i ts p = (True, add_items [] (zip [i..<i + length ts] ts) p)"
proof (induction ts arbitrary: i p)
  case Nil
  then show ?case by (simp add: argv_loop.simps)
next
  case (Cons t ts)
  then have "argv_loop strict table True i (t # ts) p = argv_loop strict table True (i + 1) ts (add_items [] [(i, t)] p)"
    using append_positional [of p t i] by (subst argv_loop.simps) simp
  also have "\<dots> = (True, add_items [] (zip [i + 1..<i + 1 + length ts] ts) (add_items [] [(i, t)] p))"
    using Cons.prems by (intro Cons.IH) simp
  finally show ?case by (simp add: upt_conv_Cons del: upt_Suc)
qed

text \<open>A whole command line: items, and perhaps \<open>--\<close> with arguments that are not looked into.\<close>

definition command_line :: "string \<Rightarrow> argv_item list \<Rightarrow> string list option \<Rightarrow> string list" where
  "command_line prog items tail =
     prog # items_text items @ (case tail of None \<Rightarrow> [] | Some ts \<Rightarrow> ''--'' # ts)"

definition tail_positionals :: "argv_item list \<Rightarrow> string list option \<Rightarrow> (nat \<times> string) list" where
  "tail_positionals items tail =
     (case tail of None \<Rightarrow> [] | Some ts \<Rightarrow> let i = length (items_text items) + 2 in zip [i..<i + length ts] ts)"

lemma enforce_required:
  "argv_enforce_required specs p = (True, p) \<longleftrightarrow> (\<forall>s \<in> set specs. ao_required s \<longrightarrow> ao_id s \<in> opt_ids (ap_options p))"
  "fst (argv_enforce_required specs p) \<longrightarrow> argv_enforce_required specs p = (True, p)"
  by (induction specs) (auto simp: option_index_None)

lemma parse_command_line:
  assumes "argv_table_ok table" "list_all (item_ok table) items" "fresh_ids {} (item_options 1 items)"
    "length (item_options 1 items) \<le> 32"
    "length (item_positionals 1 items) + length (tail_positionals items tail) \<le> 8"
    "\<forall>s \<in> set table. ao_required s \<longrightarrow> ao_id s \<in> opt_ids (item_options 1 items)"
  shows "argv_parse strict (command_line prog items tail) table =
    (True, add_items (item_options 1 items) (item_positionals 1 items @ tail_positionals items tail) (argv_empty table))"
proof -
  let ?p = "add_items (item_options 1 items) (item_positionals 1 items) (argv_empty table)"
  have e: "ap_options (argv_empty table) = []" "ap_positionals (argv_empty table) = []"
    by (simp_all add: argv_empty_def)
  let ?tl = "case tail of None \<Rightarrow> [] | Some ts \<Rightarrow> ''--'' # ts"
  have "argv_loop strict table False 1 (items_text items @ ?tl) (argv_empty table) =
      argv_loop strict table False (1 + length (items_text items)) ?tl ?p"
    by (rule loop_items) (use assms e in simp_all)
  also have "\<dots> = (True, add_items [] (tail_positionals items tail) ?p)"
  proof (cases tail)
    case None
    then show ?thesis by (simp add: argv_loop.simps tail_positionals_def)
  next
    case (Some ts)
    let ?i = "length (items_text items) + 2"
    from Some assms(5) e have "length (ap_positionals ?p) + length ts \<le> 8"
      by (simp add: tail_positionals_def Let_def del: upt_Suc)
    from loop_tail [OF this, of strict table ?i] show ?thesis
      by (simp add: Some argv_loop.simps(2) tail_positionals_def Let_def del: upt_Suc)
  qed
  finally show ?thesis
    using assms(6) e by (simp add: argv_parse_def command_line_def enforce_required(1))
qed

section \<open>What the parser accepts\<close>

text \<open>An option stands on the command line, with its values after it or after its equals sign.\<close>

definition option_from :: "ArgvOptionSpec list \<Rightarrow> string list \<Rightarrow> ArgvParsedOption \<Rightarrow> bool" where
  "option_from table argv po \<longleftrightarrow>
     po_spec po \<in> set table \<and> po_source_index po < length argv \<and> po_args po \<noteq> [] \<and>
     hd (po_args po) = ao_name (po_spec po) \<and> int (length (tl (po_args po))) = ao_num_args (po_spec po) \<and>
     (argv ! po_source_index po = ao_name (po_spec po) \<and>
        tl (po_args po) = take (length (tl (po_args po))) (drop (po_source_index po + 1) argv) \<or>
      (\<exists>v. argv ! po_source_index po = ao_name (po_spec po) @ ''='' @ v \<and> tl (po_args po) = [v]))"

definition parsed_ok :: "ArgvOptionSpec list \<Rightarrow> string list \<Rightarrow> ArgvParsed \<Rightarrow> bool" where
  "parsed_ok table argv p \<longleftrightarrow>
     length (ap_options p) \<le> 32 \<and> fresh_ids {} (ap_options p) \<and> list_all (option_from table argv) (ap_options p) \<and>
     length (ap_positionals p) \<le> 8 \<and> length (ap_positional_indices p) = length (ap_positionals p) \<and>
     list_all (\<lambda>(i, t). i < length argv \<and> argv ! i = t) (zip (ap_positional_indices p) (ap_positionals p)) \<and>
     \<not> ap_overrun p"

lemma parsed_ok_empty: "parsed_ok table argv (argv_empty table)"
  by (simp add: parsed_ok_def argv_empty_def)

lemma parsed_ok_error [simp]: "parsed_ok table argv (argv_set_error c i v n m p) = parsed_ok table argv p"
  by (simp add: parsed_ok_def argv_set_error_def)

lemma store_ok:
  assumes t: "argv_table_ok table" and p: "parsed_ok table argv p"
    and o: "option_from table argv \<lparr>po_spec = s, po_args = n # vs, po_source_index = i\<rparr>"
  shows "parsed_ok table argv (snd (argv_store_option p s n i vs))"
proof -
  let ?o = "\<lparr>po_spec = s, po_args = n # vs, po_source_index = i\<rparr>"
  have s: "s \<in> set table" using o by (simp add: option_from_def)
  consider "10 < 1 + length vs" | (new) "\<not> 10 < 1 + length vs" "ao_allow_repeat s \<or> ao_id s \<notin> opt_ids (ap_options p)"
    | (old) k where "\<not> 10 < 1 + length vs" "\<not> ao_allow_repeat s" "argv_find_option_index_by_id p (ao_id s) = Some k"
    using option_index_None [of p "ao_id s"] by (cases "argv_find_option_index_by_id p (ao_id s)") auto
  then show ?thesis
  proof cases
    case 1
    with p show ?thesis by (simp add: argv_store_option_def argv_limits Let_def)
  next
    case new
    show ?thesis
    proof (cases "length (ap_options p) < 32")
      case True
      with new(1) store_new [OF _ new(2) True, of vs n i]
      have "snd (argv_store_option p s n i vs) = add_items [?o] [] p" by simp
      moreover have "parsed_ok table argv (add_items [?o] [] p)"
        using p o new(2) True by (auto simp: parsed_ok_def fresh_ids_append add_items_def)
      ultimately show ?thesis by simp
    next
      case False
      with new p show ?thesis
        by (auto simp: argv_store_option_def argv_limits Let_def simp flip: option_index_None)
    qed
  next
    case old
    then have k: "k < length (ap_options p)" "ao_id (po_spec (ap_options p ! k)) = ao_id s"
      by (auto simp: argv_find_option_index_by_id_def find_idx_Some)
    from p k(1) have "po_spec (ap_options p ! k) \<in> set table"
      by (auto simp: parsed_ok_def list_all_length option_from_def)
    from table_ids_inj [OF t this s k(2)] have "s = po_spec (ap_options p ! k)" by simp
    then have f: "fresh_ids {} ((ap_options p)[k := ?o])"
      using p k(1) by (intro fresh_ids_update) (simp_all add: parsed_ok_def)
    have "list_all (option_from table argv) ((ap_options p)[k := ?o])"
      using p o k(1) by (auto simp: parsed_ok_def list_all_length nth_list_update)
    with p f have "parsed_ok table argv (p\<lparr>ap_options := (ap_options p)[k := ?o]\<rparr>)" by (simp add: parsed_ok_def)
    with p old show ?thesis by (simp add: argv_store_option_def argv_limits Let_def)
  qed
qed

lemma append_ok:
  assumes "parsed_ok table argv p" "i < length argv" "argv ! i = t"
  shows "parsed_ok table argv (snd (argv_append_positional p t i))"
proof (cases "ARGV_MAX_POSITIONALS \<le> length (ap_positionals p)")
  case True
  with assms(1) show ?thesis by (simp add: argv_append_positional_def)
next
  case False
  with assms show ?thesis by (auto simp: argv_append_positional_def argv_limits parsed_ok_def)
qed

lemma strchr_split_text: "strchr_split c s = Some (k, v) \<Longrightarrow> s = k @ c # v"
proof (induction s arbitrary: k)
  case (Cons x s)
  then show ?case by (cases "x = c") (auto simp: strchr_split_def split: if_splits)
qed (simp add: strchr_split_def)

lemma equals_ok:
  assumes t: "argv_table_ok table" and p: "parsed_ok table argv p" and i: "i < length argv" "argv ! i = arg"
  shows "parsed_ok table argv (snd (argv_parse_long_with_equals strict arg i p table))"
proof (cases "strchr_split (CHR ''='') arg")
  case None
  with p show ?thesis by (simp add: argv_parse_long_with_equals_def)
next
  case (Some kv)
  then obtain key v where kv: "strchr_split (CHR ''='') arg = Some (key, v)" by (cases kv) auto
  then have arg: "arg = key @ ''='' @ v" using strchr_split_text by fastforce
  show ?thesis
  proof (cases "argv_find_spec_exact key table")
    case None
    with kv p show ?thesis by (simp add: argv_parse_long_with_equals_def Let_def)
  next
    case (Some s)
    with find_spec_Some [OF Some] have s: "s \<in> set table" "ao_name s = key" by auto
    have "parsed_ok table argv (snd (argv_store_option p s (ao_name s) i [v]))" if "ao_num_args s = 1"
      using s i arg that by (intro store_ok [OF t p]) (simp add: option_from_def)
    with kv p Some show ?thesis
      by (auto simp: argv_parse_long_with_equals_def Let_def split: prod.split)
  qed
qed

lemma option_ok:
  assumes t: "argv_table_ok table" and p: "parsed_ok table argv p" and i: "i < length argv" "argv ! i = arg"
    and rest: "drop (i + 1) argv = rest"
  shows "parsed_ok table argv (fst (snd (argv_parse_option strict table arg rest i p)))"
    "snd (snd (argv_parse_option strict table arg rest i p)) \<le> 1 + length rest"
    "fst (argv_parse_option strict table arg rest i p) = Some True \<Longrightarrow>
     1 \<le> snd (snd (argv_parse_option strict table arg rest i p))"
proof -
  let ?r = "argv_parse_option strict table arg rest i p"
  have "parsed_ok table argv (fst (snd ?r)) \<and> snd (snd ?r) \<le> 1 + length rest \<and>
      (fst ?r = Some True \<longrightarrow> 1 \<le> snd (snd ?r))"
  proof (cases "argv_find_spec_exact arg table")
    case None
    with p show ?thesis by (simp add: argv_parse_option_def)
  next
    case (Some s)
    with find_spec_Some [OF Some] have s: "s \<in> set table" "ao_name s = arg" by auto
    note ts = table_spec [OF t s(1)]
    show ?thesis
    proof (cases "int (length rest) < ao_num_args s")
      case True
      with Some p ts(5) show ?thesis by (simp add: argv_parse_option_def Let_def)
    next
      case False
      let ?vs = "take (nat (ao_num_args s)) rest"
      have "parsed_ok table argv (snd (argv_store_option p s arg i ?vs))"
        using s i rest ts(5) False by (intro store_ok [OF t p]) (auto simp: option_from_def min_def)
      with Some ts(5,6) False show ?thesis
        by (auto simp: argv_parse_option_def Let_def argv_limits split: prod.split)
    qed
  qed
  then show "parsed_ok table argv (fst (snd ?r))" "snd (snd ?r) \<le> 1 + length rest"
    "fst ?r = Some True \<Longrightarrow> 1 \<le> snd (snd ?r)" by blast+
qed

lemma loop_ok:
  assumes "argv_table_ok table" "parsed_ok table argv p" "i \<le> length argv" "drop i argv = args"
  shows "parsed_ok table argv (snd (argv_loop strict table ponly i args p))"
  using assms(2-)
proof (induction "length args" arbitrary: args i p ponly rule: less_induct)
  case less
  note t = assms(1)
  show ?case
  proof (cases args)
    case Nil
    with less.prems show ?thesis by (simp add: argv_loop.simps)
  next
    case (Cons arg rest)
    with less.prems(3) have "i < length argv" by (cases "i < length argv") auto
    with less.prems(3) Cons have i: "i < length argv" "argv ! i = arg" "drop (i + 1) argv = rest"
      by (simp_all add: Cons_nth_drop_Suc [symmetric])
    then have len: "length argv = i + 1 + length rest" by auto
    have go: "parsed_ok table argv (snd (argv_loop strict table po (i + k) (drop (k - 1) rest) q))"
      if "parsed_ok table argv q" "1 \<le> k" "k \<le> 1 + length rest" for po k q
    proof (rule less.hyps)
      show "length (drop (k - 1) rest) < length args" using Cons that by simp
      show "i + k \<le> length argv" using len that(3) by simp
      have "drop (k - 1) rest = drop (k - 1 + (i + 1)) argv" by (simp flip: i(3))
      then show "drop (i + k) argv = drop (k - 1) rest" using that(2) by (simp add: add.commute)
    qed (rule that(1))
    obtain rc p1 where q: "(if \<not> ponly \<and> take 2 arg = ''--'' then argv_parse_long_with_equals strict arg i p table
        else (-1, p)) = (rc, p1)" by (metis surj_pair)
    have p1: "parsed_ok table argv p1"
      using equals_ok [OF t less.prems(1) i(1,2), of strict] less.prems(1) q by (auto split: if_splits)
    obtain r p2 used where o: "(if \<not> ponly \<and> take 1 arg = ''-'' then argv_parse_option strict table arg rest i p1
        else (None, p1, 0)) = (r, p2, used)" by (metis prod_cases3)
    have p2: "parsed_ok table argv p2" "used \<le> 1 + length rest" "r = Some True \<Longrightarrow> 1 \<le> used"
      using option_ok [OF t p1 i, of strict] p1 o by (auto split: if_splits)
    have p3: "parsed_ok table argv (snd (argv_append_positional p2 arg i))"
      by (rule append_ok [OF p2(1) i(1,2)])
    show ?thesis
    proof (cases "\<not> ponly \<and> arg = ''--''")
      case True
      with go [OF less.prems(1), of 1 True] Cons show ?thesis by (simp add: argv_loop.simps(2))
    next
      case False
      have "argv_loop strict table ponly i args p =
          (if 0 \<le> rc then if rc = 0 then (False, p1) else argv_loop strict table ponly (i + 1) rest p1
           else case r of
             Some ok \<Rightarrow> if \<not> ok then (False, p2) else argv_loop strict table ponly (i + used) (drop (used - 1) rest) p2
           | None \<Rightarrow> (case argv_append_positional p2 arg i of
               (ok, p3) \<Rightarrow> if ok then argv_loop strict table ponly (i + 1) rest p3 else (False, p3)))"
        unfolding Cons argv_loop.simps(2) if_not_P [OF False] q prod.case o by (rule refl)
      then show ?thesis
        using p1 p2 p3 go [OF p1, of 1 ponly] go [OF p2(1), of used ponly]
          go [OF p3, of 1 ponly] by (auto split: option.split prod.split)
    qed
  qed
qed

lemma enforce_ok:
  "parsed_ok table argv p \<Longrightarrow> parsed_ok table argv (snd (argv_enforce_required specs p))"
  by (induction specs) auto

lemma parse_ok:
  assumes "argv_table_ok table" "argv \<noteq> []" "argv_parse strict argv table = (ok, p)"
  shows "parsed_ok table argv p"
    "ok \<Longrightarrow> \<forall>s \<in> set table. ao_required s \<longrightarrow> ao_id s \<in> opt_ids (ap_options p)"
proof -
  obtain ok1 p1 where l: "argv_loop strict table False 1 (tl argv) (argv_empty table) = (ok1, p1)" by (metis surj_pair)
  have "parsed_ok table argv p1"
    using loop_ok [OF assms(1) parsed_ok_empty [of table argv], of 1 "tl argv" strict False] assms(2) l
    by (simp add: drop_Suc Suc_le_eq)
  then show "parsed_ok table argv p"
    using assms(3) l enforce_ok [of table argv p1 table] by (auto simp: argv_parse_def split: if_splits)
  show "\<forall>s \<in> set table. ao_required s \<longrightarrow> ao_id s \<in> opt_ids (ap_options p)" if ok
  proof -
    from assms(3) l that have e: "argv_enforce_required table p1 = (True, p)"
      by (auto simp: argv_parse_def split: if_splits)
    with enforce_required(2) [of table p1] have "p = p1" by auto
    with e enforce_required(1) [of table p] show ?thesis by auto
  qed
qed

text \<open>An option that takes a value has one.\<close>

lemma argv_value_present:
  assumes "option_from table argv po" "0 \<le> k" "k < ao_num_args (po_spec po)" "k < 9"
  shows "argv_option_value (Some po) k = Some (po_args po ! (nat k + 1))"
  using assms by (cases "po_args po") (auto simp: argv_option_value_def option_from_def argv_limits Let_def)

end
