(* ===== verification/Opts.thy ===== *)
theory Opts
  imports Argv_Facts Config
begin

text \<open>
  The command line of the daemon: \<open>siglatch/app/opts/opts.c\<close>. A function that fills the result returns
  it with its C result. \<open>snprintf\<close> into a buffer of 256 bytes keeps 255 characters.
\<close>

record AppOpts =
  ov_help_requested :: bool
  ov_version_requested :: bool
  ov_dump_config_requested :: bool
  ov_output_mode :: int
  ov_config_path :: string
  ov_server_name :: string

record AppParsedOpts =
  pp_ok :: bool
  pp_exit_code :: int
  pp_error :: string
  pp_values :: AppOpts

definition zero_opts :: AppOpts where
  "zero_opts = \<lparr>ov_help_requested = False, ov_version_requested = False, ov_dump_config_requested = False,
     ov_output_mode = 0, ov_config_path = [], ov_server_name = []\<rparr>"

definition OPT_ID_HELP :: int where "OPT_ID_HELP = 1"
definition OPT_ID_VERSION :: int where "OPT_ID_VERSION = 2"
definition OPT_ID_DUMP_CONFIG :: int where "OPT_ID_DUMP_CONFIG = 3"
definition OPT_ID_OUTPUT_MODE :: int where "OPT_ID_OUTPUT_MODE = 4"
definition OPT_ID_CONFIG :: int where "OPT_ID_CONFIG = 5"
definition OPT_ID_SERVER :: int where "OPT_ID_SERVER = 6"

lemmas opt_ids = OPT_ID_HELP_def OPT_ID_VERSION_def OPT_ID_DUMP_CONFIG_def OPT_ID_OUTPUT_MODE_def
  OPT_ID_CONFIG_def OPT_ID_SERVER_def

definition option_spec :: "string \<Rightarrow> int \<Rightarrow> int \<Rightarrow> ArgvOptionType \<Rightarrow> bool \<Rightarrow> bool \<Rightarrow> bool \<Rightarrow> ArgvOptionSpec" where
  "option_spec name opt_id num_args type required allow_repeat last_wins =
     \<lparr>ao_name = name, ao_id = opt_id, ao_num_args = num_args, ao_type = type, ao_required = required,
      ao_allow_repeat = allow_repeat, ao_last_wins = last_wins\<rparr>"

definition app_opts_specs :: "ArgvOptionSpec list" where
  "app_opts_specs =
     [option_spec ''--help'' OPT_ID_HELP 0 ARGV_OPT_FLAG False True True,
      option_spec ''--version'' OPT_ID_VERSION 0 ARGV_OPT_FLAG False True True,
      option_spec ''--dump-config'' OPT_ID_DUMP_CONFIG 0 ARGV_OPT_FLAG False True True,
      option_spec ''--output-mode'' OPT_ID_OUTPUT_MODE 1 ARGV_OPT_KEYED False True True,
      option_spec ''--config'' OPT_ID_CONFIG 1 ARGV_OPT_KEYED False True True,
      option_spec ''--server'' OPT_ID_SERVER 1 ARGV_OPT_KEYED False True True]"

definition output_mode_map :: "(string \<times> int) list" where
  "output_mode_map = [(''unicode'', int SL_OUTPUT_MODE_UNICODE), (''ascii'', int SL_OUTPUT_MODE_ASCII)]"

section \<open>Errors\<close>

definition snprintf256 :: "string \<Rightarrow> string" where
  "snprintf256 text = take 255 text"

definition app_opts_set_error :: "AppParsedOpts \<Rightarrow> int \<Rightarrow> string \<Rightarrow> bool \<times> AppParsedOpts" where
  "app_opts_set_error out exit_code message =
     (False, out\<lparr>pp_ok := False, pp_exit_code := exit_code, pp_error := snprintf256 message\<rparr>)"

definition app_opts_set_argv_error :: "AppParsedOpts \<Rightarrow> ArgvParsed \<Rightarrow> bool \<times> AppParsedOpts" where
  "app_opts_set_argv_error out parsed =
     (let err = ap_error parsed;
          say = (\<lambda>message. app_opts_set_error out 2 (snprintf256 message))
      in case ae_code err of
           ARGV_ERR_UNKNOWN_OPTION \<Rightarrow> say (''Unknown option: '' @ null_text (ae_arg_value err))
         | ARGV_ERR_NOT_ENOUGH_OPTION_ARGS \<Rightarrow>
             say (''Not enough arguments for option: '' @
               (case ae_arg_value err of Some v \<Rightarrow> v | None \<Rightarrow> null_text (ae_option_name err)))
         | ARGV_ERR_TOO_MANY_OPTIONS \<Rightarrow> say (''Too many options (max '' @ dec_string ARGV_MAX_OPTIONS @ '')'')
         | ARGV_ERR_TOO_MANY_POSITIONALS \<Rightarrow>
             say (''Too many positional arguments (max '' @ dec_string ARGV_MAX_POSITIONALS @ '')'')
         | ARGV_ERR_DUPLICATE_OPTION \<Rightarrow> say (''Duplicate option not allowed: '' @ null_text (ae_option_name err))
         | ARGV_ERR_EQUALS_FORM_NOT_ALLOWED \<Rightarrow>
             say (''Option does not accept --key=value form: '' @ null_text (ae_option_name err))
         | _ \<Rightarrow> (case argv_format_error err 256 of
                 (True, message) \<Rightarrow> app_opts_set_error out 2 message
               | (False, _) \<Rightarrow> app_opts_set_error out 2 ''Argument parse error''))"

definition app_opts_set_typed_error ::
  "AppParsedOpts \<Rightarrow> ArgvParsedOption \<Rightarrow> ArgvError \<Rightarrow> bool \<times> AppParsedOpts" where
  "app_opts_set_typed_error out opt err =
     (let option_name = (if ao_name (po_spec opt) \<noteq> [] then ao_name (po_spec opt) else ''--option'');
          value = argv_option_value (Some opt) 0
      in app_opts_set_error out 2 (snprintf256
           (if ae_code err = ARGV_ERR_BAD_ENUM then ''Invalid value for '' @ option_name @ '': '' @ null_text value
            else ''Invalid option value for '' @ option_name)))"

section \<open>Parts of the command line\<close>

definition app_opts_help_requested :: "string list \<Rightarrow> bool" where
  "app_opts_help_requested argv \<longleftrightarrow> list_ex (\<lambda>a. a = ''--help'') (tl argv)"

definition app_opts_version_requested :: "string list \<Rightarrow> bool" where
  "app_opts_version_requested argv \<longleftrightarrow> list_ex (\<lambda>a. a = ''--version'') (tl argv)"

definition app_opts_reject_positionals :: "AppParsedOpts \<Rightarrow> ArgvParsed \<Rightarrow> bool \<times> AppParsedOpts" where
  "app_opts_reject_positionals out parsed =
     (case ap_positionals parsed of
        [] \<Rightarrow> (True, out)
      | p # _ \<Rightarrow> app_opts_set_error out 2 (snprintf256 (''Unexpected positional argument: '' @ p)))"

definition app_opts_reject_equals_form ::
  "AppParsedOpts \<Rightarrow> ArgvParsedOption \<Rightarrow> string list \<Rightarrow> bool \<times> AppParsedOpts" where
  "app_opts_reject_equals_form out opt argv =
     (let option_name = (if ao_name (po_spec opt) \<noteq> [] then ao_name (po_spec opt) else ''--option'')
      in if length argv \<le> po_source_index opt then (True, out)
         else if CHR ''='' \<notin> set (argv ! po_source_index opt) then (True, out)
         else app_opts_set_error out 2 (snprintf256 (''Option does not accept --key=value form: '' @ option_name)))"

definition app_opts_copy_server_name :: "AppParsedOpts \<Rightarrow> string option \<Rightarrow> bool \<times> AppParsedOpts" where
  "app_opts_copy_server_name out value =
     (case value of
        None \<Rightarrow> app_opts_set_error out 2 ''Invalid --server value''
      | Some v \<Rightarrow>
          if v = [] then app_opts_set_error out 2 ''Invalid --server value (empty)''
          else let out1 = out\<lparr>pp_values := (pp_values out)\<lparr>ov_server_name := take (MAX_SERVER_NAME - 1) v\<rparr>\<rparr>
               in if MAX_SERVER_NAME \<le> length v then app_opts_set_error out1 2 ''Server name is too long''
                  else (True, out1))"

definition app_opts_copy_config_path :: "AppParsedOpts \<Rightarrow> string option \<Rightarrow> bool \<times> AppParsedOpts" where
  "app_opts_copy_config_path out value =
     (case value of
        None \<Rightarrow> app_opts_set_error out 2 ''Invalid --config value''
      | Some v \<Rightarrow>
          if v = [] then app_opts_set_error out 2 ''Invalid --config value (empty)''
          else let out1 = out\<lparr>pp_values := (pp_values out)\<lparr>ov_config_path := take (PATH_MAX - 1) v\<rparr>\<rparr>
               in if PATH_MAX \<le> length v then app_opts_set_error out1 2 ''Config path is too long''
                  else (True, out1))"

section \<open>app_opts_parse\<close>

text \<open>The three options with a value, each read from its last occurrence.\<close>

definition opts_read_output_mode :: "string list \<Rightarrow> ArgvParsed \<Rightarrow> AppParsedOpts \<Rightarrow> bool \<times> AppParsedOpts" where
  "opts_read_output_mode argv parsed out =
     (case argv_find_last_by_id parsed OPT_ID_OUTPUT_MODE of
        None \<Rightarrow> (True, out)
      | Some opt \<Rightarrow>
          (case app_opts_reject_equals_form out opt argv of
             (False, out1) \<Rightarrow> (False, out1)
           | (True, out1) \<Rightarrow>
               (case argv_get_enum (Some opt) 0 output_mode_map of
                  Inl parse_err \<Rightarrow> app_opts_set_typed_error out1 opt parse_err
                | Inr mode \<Rightarrow> (True, out1\<lparr>pp_values := (pp_values out1)\<lparr>ov_output_mode := mode\<rparr>\<rparr>))))"

definition opts_read_config :: "string list \<Rightarrow> ArgvParsed \<Rightarrow> AppParsedOpts \<Rightarrow> bool \<times> AppParsedOpts" where
  "opts_read_config argv parsed out =
     (case argv_find_last_by_id parsed OPT_ID_CONFIG of
        None \<Rightarrow> (True, out)
      | Some opt \<Rightarrow>
          (case app_opts_reject_equals_form out opt argv of
             (False, out1) \<Rightarrow> (False, out1)
           | (True, out1) \<Rightarrow> app_opts_copy_config_path out1 (argv_option_value (Some opt) 0)))"

definition opts_read_server :: "string list \<Rightarrow> ArgvParsed \<Rightarrow> AppParsedOpts \<Rightarrow> bool \<times> AppParsedOpts" where
  "opts_read_server argv parsed out =
     (case argv_find_last_by_id parsed OPT_ID_SERVER of
        None \<Rightarrow> (True, out)
      | Some opt \<Rightarrow>
          (case app_opts_reject_equals_form out opt argv of
             (False, out1) \<Rightarrow> (False, out1)
           | (True, out1) \<Rightarrow> app_opts_copy_server_name out1 (argv_option_value (Some opt) 0)))"

definition app_opts_parse :: "string list \<Rightarrow> bool \<times> AppParsedOpts" where
  "app_opts_parse argv =
     (let out = \<lparr>pp_ok = False, pp_exit_code = 2, pp_error = [], pp_values = zero_opts\<rparr>
      in if argv = [] then app_opts_set_error out 2 ''Invalid argv state''
         else if app_opts_help_requested argv
         then (True, out\<lparr>pp_ok := True, pp_exit_code := 0, pp_values := zero_opts\<lparr>ov_help_requested := True\<rparr>\<rparr>)
         else if app_opts_version_requested argv
         then (True, out\<lparr>pp_ok := True, pp_exit_code := 0, pp_values := zero_opts\<lparr>ov_version_requested := True\<rparr>\<rparr>)
         else case argv_parse True argv app_opts_specs of
           (False, parsed) \<Rightarrow> app_opts_set_argv_error out parsed
         | (True, parsed) \<Rightarrow>
             (case app_opts_reject_positionals out parsed of
                (False, out1) \<Rightarrow> (False, out1)
              | (True, out1) \<Rightarrow>
                  (case opts_read_output_mode argv parsed out1 of
                     (False, out2) \<Rightarrow> (False, out2)
                   | (True, out2) \<Rightarrow>
                       (case opts_read_config argv parsed out2 of
                          (False, out3) \<Rightarrow> (False, out3)
                        | (True, out3) \<Rightarrow>
                            (case opts_read_server argv parsed out3 of
                               (False, out4) \<Rightarrow> (False, out4)
                             | (True, out4) \<Rightarrow>
                                 (True, out4\<lparr>pp_ok := True, pp_exit_code := 0,
                                    pp_values := (pp_values out4)\<lparr>ov_dump_config_requested :=
                                      argv_has parsed ''--dump-config''\<rparr>\<rparr>))))))"

section \<open>What it guarantees\<close>

lemma app_opts_table: "argv_table_ok app_opts_specs"
  by (simp add: argv_table_ok_def app_opts_specs_def option_spec_def opt_ids)

text \<open>A command line of settings: the last of each kind counts.\<close>

datatype setting = Set_config string | Set_server string | Set_mode bool | Set_dump

fun setting_item :: "setting \<Rightarrow> argv_item" where
  "setting_item (Set_config p) = Option_item (app_opts_specs ! 4) [p]"
| "setting_item (Set_server n) = Option_item (app_opts_specs ! 5) [n]"
| "setting_item (Set_mode ascii) = Option_item (app_opts_specs ! 3) [if ascii then ''ascii'' else ''unicode'']"
| "setting_item Set_dump = Option_item (app_opts_specs ! 2) []"

fun apply_setting :: "setting \<Rightarrow> AppOpts \<Rightarrow> AppOpts" where
  "apply_setting (Set_config p) v = v\<lparr>ov_config_path := p\<rparr>"
| "apply_setting (Set_server n) v = v\<lparr>ov_server_name := n\<rparr>"
| "apply_setting (Set_mode ascii) v =
     v\<lparr>ov_output_mode := int (if ascii then SL_OUTPUT_MODE_ASCII else SL_OUTPUT_MODE_UNICODE)\<rparr>"
| "apply_setting Set_dump v = v\<lparr>ov_dump_config_requested := True\<rparr>"

text \<open>Values that the options take; \<open>--help\<close> and \<open>--version\<close> are seen wherever they stand.\<close>

fun setting_ok :: "setting \<Rightarrow> bool" where
  "setting_ok (Set_config p) = (p \<noteq> [] \<and> length p < PATH_MAX \<and> p \<noteq> ''--help'' \<and> p \<noteq> ''--version'')"
| "setting_ok (Set_server n) = (n \<noteq> [] \<and> length n < MAX_SERVER_NAME \<and> n \<noteq> ''--help'' \<and> n \<noteq> ''--version'')"
| "setting_ok _ = True"

abbreviation setting_items :: "setting list \<Rightarrow> argv_item list" where
  "setting_items ss \<equiv> map setting_item ss"

definition settings_line :: "string \<Rightarrow> setting list \<Rightarrow> string list" where
  "settings_line prog ss = command_line prog (setting_items ss) None"

lemma item_options_append:
  "item_options i (xs @ ys) = item_options i xs @ item_options (i + length (items_text xs)) ys"
  by (induction i xs rule: item_options.induct) (simp_all add: items_text_def ac_simps)

lemma setting_spec_in: "setting_item s = Option_item sp vs \<Longrightarrow> sp \<in> set app_opts_specs \<and> CHR ''='' \<notin> set (ao_name sp) \<and>
    ao_allow_repeat sp \<and> ao_num_args sp = int (length vs)"
  by (cases s) (auto simp: app_opts_specs_def option_spec_def)

lemma item_options_source:
  "po \<in> set (item_options i (setting_items ss)) \<Longrightarrow> i \<le> po_source_index po \<and>
     po_source_index po - i < length (items_text (setting_items ss)) \<and>
     items_text (setting_items ss) ! (po_source_index po - i) = ao_name (po_spec po) \<and>
     CHR ''='' \<notin> set (ao_name (po_spec po))"
proof (induction ss arbitrary: i)
  case (Cons s ss)
  obtain sp vs where s: "setting_item s = Option_item sp vs" by (cases s) auto
  consider "po = \<lparr>po_spec = sp, po_args = ao_name sp # vs, po_source_index = i\<rparr>"
    | "po \<in> set (item_options (i + 1 + length vs) (setting_items ss))"
    using Cons.prems s by auto
  then show ?case
  proof cases
    case 1
    then show ?thesis using setting_spec_in [OF s] by (simp add: s items_text_def)
  next
    case 2
    from Cons.IH [OF 2] show ?thesis
      by (auto simp: s items_text_def nth_append nth_Cons' diff_diff_eq)
  qed
qed simp

lemma settings_ok_items: "list_all (item_ok app_opts_specs) (setting_items ss)"
proof (induction ss)
  case (Cons s ss)
  obtain sp vs where "setting_item s = Option_item sp vs" by (cases s) auto
  with Cons setting_spec_in [OF this] show ?case by simp
qed simp

lemma settings_fresh: "fresh_ids seen (item_options i (setting_items ss))"
proof (induction ss arbitrary: seen i)
  case (Cons s ss)
  obtain sp vs where "setting_item s = Option_item sp vs" by (cases s) auto
  with Cons setting_spec_in [OF this] show ?case by simp
qed simp

lemma settings_length: "length (item_options i (setting_items ss)) = length ss"
proof (induction ss arbitrary: i)
  case (Cons s ss)
  then show ?case by (cases s) auto
qed simp

lemma settings_positionals: "item_positionals i (setting_items ss) = []"
proof (induction ss arbitrary: i)
  case (Cons s ss)
  then show ?case by (cases s) auto
qed simp

text \<open>What the last option of a kind holds.\<close>

definition last_of :: "setting list \<Rightarrow> int \<Rightarrow> ArgvParsedOption option" where
  "last_of ss k = find (\<lambda>po. ao_id (po_spec po) = k) (rev (item_options 1 (setting_items ss)))"

lemma last_of_snoc:
  assumes "setting_item s = Option_item sp vs"
  shows "last_of (ss @ [s]) k =
    (if ao_id sp = k then Some \<lparr>po_spec = sp, po_args = ao_name sp # vs,
        po_source_index = 1 + length (items_text (setting_items ss))\<rparr> else last_of ss k)"
  using assms by (simp add: last_of_def item_options_append)

definition mode_text :: "int \<Rightarrow> string" where
  "mode_text mode = (if mode = 2 then ''ascii'' else ''unicode'')"

lemma mode_setting: "setting_item (Set_mode ascii) = Option_item (app_opts_specs ! 3) [mode_text (ov_output_mode
    (apply_setting (Set_mode ascii) v))]" "ov_output_mode (apply_setting (Set_mode ascii) v) \<in> {1, 2}"
  by (simp_all add: mode_text_def SL_OUTPUT_MODE_ASCII_def SL_OUTPUT_MODE_UNICODE_def)

lemma setting_mode_other: "(\<And>a. s \<noteq> Set_mode a) \<Longrightarrow> ov_output_mode (apply_setting s v) = ov_output_mode v"
  by (cases s) auto

lemma last_of_settings:
  assumes "list_all setting_ok ss" and "v = fold apply_setting ss zero_opts"
  shows "case last_of ss OPT_ID_CONFIG of None \<Rightarrow> ov_config_path v = []
      | Some po \<Rightarrow> po_args po = [''--config'', ov_config_path v] \<and> setting_ok (Set_config (ov_config_path v))"
    "case last_of ss OPT_ID_SERVER of None \<Rightarrow> ov_server_name v = []
      | Some po \<Rightarrow> po_args po = [''--server'', ov_server_name v] \<and> setting_ok (Set_server (ov_server_name v))"
    "case last_of ss OPT_ID_OUTPUT_MODE of None \<Rightarrow> ov_output_mode v = 0
      | Some po \<Rightarrow> po_args po = [''--output-mode'', mode_text (ov_output_mode v)] \<and> ov_output_mode v \<in> {1, 2}"
    "ov_dump_config_requested v = (Set_dump \<in> set ss)" "\<not> ov_help_requested v" "\<not> ov_version_requested v"
  using assms
proof (induction ss arbitrary: v rule: rev_induct)
  case Nil
  { case 1 then show ?case by (simp add: last_of_def zero_opts_def)
  next case 2 then show ?case by (simp add: last_of_def zero_opts_def)
  next case 3 then show ?case by (simp add: last_of_def zero_opts_def)
  next case 4 then show ?case by (simp add: zero_opts_def)
  next case 5 then show ?case by (simp add: zero_opts_def)
  next case 6 then show ?case by (simp add: zero_opts_def) }
next
  case (snoc s ss)
  let ?w = "fold apply_setting ss zero_opts"
  note IH = snoc.IH [of ?w]
  { case 1 then show ?case using IH(1)
      by (cases s) (auto simp: last_of_snoc app_opts_specs_def option_spec_def opt_ids split: option.splits)
  next case 2 then show ?case using IH(2)
      by (cases s) (auto simp: last_of_snoc app_opts_specs_def option_spec_def opt_ids split: option.splits)
  next case 3
    then have v: "v = apply_setting s ?w" and ih: "case last_of ss OPT_ID_OUTPUT_MODE of None \<Rightarrow> ov_output_mode ?w = 0
      | Some po \<Rightarrow> po_args po = [''--output-mode'', mode_text (ov_output_mode ?w)] \<and> ov_output_mode ?w \<in> {1, 2}"
      using IH(3) by simp_all
    show ?case
    proof (cases "\<exists>a. s = Set_mode a")
      case True
      then obtain a where "s = Set_mode a" by blast
      with mode_setting [of a ?w] v last_of_snoc [of s "app_opts_specs ! 3" _ ss OPT_ID_OUTPUT_MODE] show ?thesis
        by (simp add: app_opts_specs_def option_spec_def del: apply_setting.simps setting_item.simps)
    next
      case False
      then have "ov_output_mode v = ov_output_mode ?w" using v setting_mode_other by blast
      moreover have "last_of (ss @ [s]) OPT_ID_OUTPUT_MODE = last_of ss OPT_ID_OUTPUT_MODE"
        using False by (cases s) (auto simp: last_of_snoc app_opts_specs_def option_spec_def opt_ids)
      ultimately show ?thesis using ih by (simp split: option.splits)
    qed
  next case 4 then show ?case using IH(4) by (cases s) auto
  next case 5 then show ?case using IH(5) by (cases s) auto
  next case 6 then show ?case using IH(6) by (cases s) auto }
qed

lemma not_requested:
  assumes "list_all setting_ok ss"
  shows "''--help'' \<notin> set (items_text (setting_items ss))" "''--version'' \<notin> set (items_text (setting_items ss))"
proof -
  have "''--help'' \<notin> set (item_text (setting_item s)) \<and> ''--version'' \<notin> set (item_text (setting_item s))"
    if "setting_ok s" for s
    using that by (cases s) (auto simp: app_opts_specs_def option_spec_def)
  with assms show "''--help'' \<notin> set (items_text (setting_items ss))" "''--version'' \<notin> set (items_text (setting_items ss))"
    by (auto simp: items_text_def list_all_iff)
qed

lemma value_of_pair: "po_args po = [n, v] \<Longrightarrow> argv_option_value (Some po) 0 = Some v"
  by (simp add: argv_option_value_def argv_limits)

lemma enum_of_mode:
  assumes "po_args po = [n, mode_text m]" "m \<in> {1, 2}"
  shows "argv_get_enum (Some po) 0 output_mode_map = Inr m"
  using assms(2) value_of_pair [OF assms(1)]
  by (auto simp: argv_get_enum_def output_mode_map_def mode_text_def Let_def
      SL_OUTPUT_MODE_ASCII_def SL_OUTPUT_MODE_UNICODE_def)

lemma settings_dump: "list_ex (\<lambda>po. ao_name (po_spec po) = ''--dump-config'') (item_options i (setting_items ss)) \<longleftrightarrow>
    Set_dump \<in> set ss"
proof (induction ss arbitrary: i)
  case (Cons s ss)
  then show ?case by (cases s) (simp_all add: app_opts_specs_def option_spec_def)
qed simp

lemma settings_quiet: "\<not> ov_help_requested (fold apply_setting ss zero_opts)" "\<not> ov_version_requested (fold apply_setting ss zero_opts)"
proof -
  have "\<not> ov_help_requested (fold apply_setting ss zero_opts) \<and> \<not> ov_version_requested (fold apply_setting ss zero_opts)"
  proof (induction ss rule: rev_induct)
    case (snoc s ss)
    then show ?case by (cases s) simp_all
  qed (simp add: zero_opts_def)
  then show "\<not> ov_help_requested (fold apply_setting ss zero_opts)" "\<not> ov_version_requested (fold apply_setting ss zero_opts)"
    by blast+
qed

lemma parse_settings:
  assumes ok: "list_all setting_ok ss" and room: "length ss \<le> 32"
  shows "app_opts_parse (settings_line prog ss) = (True, \<lparr>pp_ok = True, pp_exit_code = 0, pp_error = [],
     pp_values = fold apply_setting ss zero_opts\<rparr>)"
proof -
  let ?argv = "settings_line prog ss"
  let ?os = "item_options 1 (setting_items ss)"
  let ?v = "fold apply_setting ss zero_opts"
  let ?p = "add_items ?os [] (argv_empty app_opts_specs)"
  note lo = last_of_settings [OF ok refl]
  have p: "argv_parse True ?argv app_opts_specs = (True, ?p)"
    using parse_command_line [where tail = None and items = "setting_items ss" and table = app_opts_specs
        and strict = True and prog = prog, OF app_opts_table settings_ok_items settings_fresh]
      room settings_length [of 1 ss] settings_positionals [of 1 ss]
    by (auto simp: settings_line_def tail_positionals_def app_opts_specs_def option_spec_def)
  have opts: "ap_options ?p = ?os" by (simp add: argv_empty_def)
  have last: "argv_find_last_by_id ?p k = last_of ss k" for k
    unfolding argv_find_last_by_id_def last_of_def opts ..
  have tl: "?argv \<noteq> []" "tl ?argv = items_text (setting_items ss)"
    by (simp_all add: settings_line_def command_line_def)
  have asked: "\<not> app_opts_help_requested ?argv" "\<not> app_opts_version_requested ?argv"
    using not_requested [OF ok] tl(2)
    by (auto simp: app_opts_help_requested_def app_opts_version_requested_def list_ex_iff)
  have plain: "app_opts_reject_equals_form out po ?argv = (True, out)" if "last_of ss k = Some po" for k po out
  proof -
    from that have m: "po \<in> set ?os" by (auto simp: last_of_def find_Some_iff) (metis nth_mem length_rev set_rev)
    note src = item_options_source [OF m]
    have "?argv ! po_source_index po = ao_name (po_spec po)"
      using src by (cases "po_source_index po") (simp_all add: settings_line_def command_line_def)
    then show ?thesis using src by (simp add: app_opts_reject_equals_form_def Let_def)
  qed
  let ?o0 = "\<lparr>pp_ok = False, pp_exit_code = 2, pp_error = [], pp_values = zero_opts\<rparr>"
  let ?o1 = "?o0\<lparr>pp_values := zero_opts\<lparr>ov_output_mode := ov_output_mode ?v\<rparr>\<rparr>"
  let ?o2 = "?o1\<lparr>pp_values := (pp_values ?o1)\<lparr>ov_config_path := ov_config_path ?v\<rparr>\<rparr>"
  let ?o3 = "?o2\<lparr>pp_values := (pp_values ?o2)\<lparr>ov_server_name := ov_server_name ?v\<rparr>\<rparr>"
  have r1: "opts_read_output_mode ?argv ?p ?o0 = (True, ?o1)"
    using lo(3) enum_of_mode unfolding opts_read_output_mode_def last
    by (auto simp: plain zero_opts_def split: option.split)
  have r2: "opts_read_config ?argv ?p ?o1 = (True, ?o2)"
    using lo(1) value_of_pair unfolding opts_read_config_def last
    by (auto simp: plain app_opts_copy_config_path_def zero_opts_def split: option.split)
  have r3: "opts_read_server ?argv ?p ?o2 = (True, ?o3)"
    using lo(2) value_of_pair unfolding opts_read_server_def last
    by (auto simp: plain app_opts_copy_server_name_def zero_opts_def split: option.split)
  have d: "argv_has ?p ''--dump-config'' = ov_dump_config_requested ?v"
    unfolding argv_has_def opts settings_dump lo(4) ..
  have "app_opts_reject_positionals ?o0 ?p = (True, ?o0)"
    by (simp add: app_opts_reject_positionals_def argv_empty_def)
  with tl(1) asked p r1 r2 r3 d lo(5,6) show ?thesis
    by (simp add: app_opts_parse_def Let_def zero_opts_def)
qed

text \<open>A command line is accepted, or rejected with exit code 2 and a message.\<close>

definition told :: "bool \<times> AppParsedOpts \<Rightarrow> bool" where
  "told r \<longleftrightarrow> fst r \<or> \<not> pp_ok (snd r) \<and> pp_exit_code (snd r) = 2 \<and> pp_error (snd r) \<noteq> []"

lemma told_error: "m \<noteq> [] \<Longrightarrow> told (app_opts_set_error out 2 m)"
  by (cases m) (simp_all add: told_def app_opts_set_error_def snprintf256_def)

lemma told_True [simp]: "told (True, x)"
  by (simp add: told_def)

lemma told_argv_error: "told (app_opts_set_argv_error out parsed)"
proof -
  have s: "told (app_opts_set_error out 2 (snprintf256 (c # m)))" for c m
    by (rule told_error) (simp add: snprintf256_def)
  have f: "told (case argv_format_error err 256 of (True, message) \<Rightarrow> app_opts_set_error out 2 message
      | (False, _) \<Rightarrow> app_opts_set_error out 2 ''Argument parse error'')" for err
    by (auto simp: argv_format_error_def Let_def intro!: told_error split: bool.split)
  show ?thesis
    using s f by (simp add: app_opts_set_argv_error_def Let_def split: ArgvErrorCode.split)
qed

lemma told_parts: "told (app_opts_reject_positionals out parsed)" "told (app_opts_reject_equals_form out opt argv)"
  "told (app_opts_set_typed_error out opt err)" "told (app_opts_copy_server_name out v)"
  "told (app_opts_copy_config_path out v)"
  by (auto simp: app_opts_reject_positionals_def app_opts_reject_equals_form_def app_opts_set_typed_error_def
      app_opts_copy_server_name_def app_opts_copy_config_path_def snprintf256_def Let_def
      intro!: told_error split: list.split option.split)

lemma told_bind: "told r \<Longrightarrow> (\<And>x. told (f x)) \<Longrightarrow> told (case r of (False, x) \<Rightarrow> (False, x) | (True, x) \<Rightarrow> f x)"
  by (cases r) (auto simp: told_def split: bool.split)

lemma told_reads: "told (opts_read_output_mode argv parsed out)" "told (opts_read_config argv parsed out)"
  "told (opts_read_server argv parsed out)"
  by (auto simp: opts_read_output_mode_def opts_read_config_def opts_read_server_def
      intro!: told_bind told_parts split: option.split sum.split)

lemma parse_told: "told (app_opts_parse argv)"
proof -
  let ?out = "\<lparr>pp_ok = False, pp_exit_code = 2, pp_error = [], pp_values = zero_opts\<rparr>"
  have a: "told (case argv_parse True argv app_opts_specs of (False, p) \<Rightarrow> app_opts_set_argv_error ?out p
      | (True, p) \<Rightarrow> f p)" if "\<And>p. told (f p)" for f
    using that told_argv_error by (cases "argv_parse True argv app_opts_specs") (auto split: bool.split)
  show ?thesis
    unfolding app_opts_parse_def Let_def
    by (auto intro!: a told_bind told_parts told_reads told_error)
qed

end
