(* ===== verification/Signals.thy ===== *)
theory Signals
  imports Prelude
begin

text \<open>
  \<open>stdlib/signal.c\<close> and \<open>siglatch/app/signal/signal.c\<close>: the signals that stop a program. \<open>sig_atomic_t\<close>
  is a 32-bit \<open>int\<close>. The program has one \<open>SignalState\<close>; \<open>lg_attached\<close> says whether \<open>g_signal_state\<close> points
  to it. The dispositions of the kernel are a function of the signal, and \<open>can_set\<close> says which signals
  \<open>sigaction\<close> accepts.
\<close>

section \<open>State\<close>

record SignalState =
  si_should_exit :: bool
  si_last_signal :: int
  si_pending :: bool
  si_delivery_count :: "32 word"
  si_wake_write_fd :: int

datatype SignalPolicy = LIB_SIGNAL_POLICY_GRACEFUL | LIB_SIGNAL_POLICY_GRACEFUL_THEN_HARD | LIB_SIGNAL_POLICY_HARD_EXIT

text \<open>What a signal does: the handler of the library, or something else that was set before.\<close>

datatype disposition = Lib_signal_handle | Other_disposition nat

type_synonym kernel_signals = "int \<Rightarrow> disposition"

record signal_lib =
  lg_attached :: bool
  lg_installed :: "int list"
  lg_previous :: "disposition list"
  lg_set_should_exit :: bool
  lg_policy :: SignalPolicy

record SignalInstallConfig =
  sn_signals :: "int list option"
  sn_signal_count :: nat
  sn_set_should_exit :: bool
  sn_wake_write_fd :: int
  sn_policy :: SignalPolicy

definition LIB_SIGNAL_MAX_SIGNALS :: nat where "LIB_SIGNAL_MAX_SIGNALS = 16"
definition SIGINT :: int where "SIGINT = 2"
definition SIGTERM :: int where "SIGTERM = 15"

section \<open>The handler\<close>

text \<open>\<open>_exit\<close> ends the process with a code; otherwise the state, and the byte written to the wake descriptor.\<close>

datatype handled = Exited int | Returned SignalState "(int \<times> u8) option"

text \<open>\<open>((sig_atomic_t)~0 >> 1)\<close>\<close>

definition DELIVERY_LIMIT :: "32 word" where
  "DELIVERY_LIMIT = signed_drop_bit 1 (NOT 0)"

definition lib_signal_handle :: "signal_lib \<Rightarrow> SignalState \<Rightarrow> int \<Rightarrow> handled" where
  "lib_signal_handle lib state sig =
     (if \<not> lg_attached lib then Returned state None
      else let s1 = state\<lparr>si_last_signal := sig, si_pending := True\<rparr>;
               s2 = (if sint (si_delivery_count s1) < sint DELIVERY_LIMIT
                     then s1\<lparr>si_delivery_count := si_delivery_count s1 + 1\<rparr> else s1)
           in if lg_policy lib = LIB_SIGNAL_POLICY_HARD_EXIT then Exited (128 + sig)
              else if lg_policy lib = LIB_SIGNAL_POLICY_GRACEFUL_THEN_HARD \<and> 1 < sint (si_delivery_count s2)
              then Exited (128 + sig)
              else let s3 = (if lg_set_should_exit lib then s2\<lparr>si_should_exit := True\<rparr> else s2)
                   in Returned s3 (if 0 \<le> si_wake_write_fd s3 then Some (si_wake_write_fd s3, word_of_int sig) else None))"

section \<open>Installing\<close>

definition lib_signal_state_reset :: SignalState where
  "lib_signal_state_reset = \<lparr>si_should_exit = False, si_last_signal = 0, si_pending = False, si_delivery_count = 0,
     si_wake_write_fd = -1\<rparr>"

definition lib_signal_initial :: signal_lib where
  "lib_signal_initial = \<lparr>lg_attached = False, lg_installed = [], lg_previous = [], lg_set_should_exit = True,
     lg_policy = LIB_SIGNAL_POLICY_GRACEFUL\<rparr>"

definition sigaction_set :: "(int \<Rightarrow> bool) \<Rightarrow> int \<Rightarrow> disposition \<Rightarrow> kernel_signals \<Rightarrow> kernel_signals" where
  "sigaction_set can_set sig d k = (if can_set sig then k(sig := d) else k)"

text \<open>Restoring the dispositions in the order of their installation.\<close>

fun restore_signals :: "(int \<Rightarrow> bool) \<Rightarrow> (int \<times> disposition) list \<Rightarrow> kernel_signals \<Rightarrow> kernel_signals" where
  "restore_signals can_set [] k = k"
| "restore_signals can_set ((sig, d) # ps) k = restore_signals can_set ps (sigaction_set can_set sig d k)"

definition lib_signal_uninstall ::
  "(int \<Rightarrow> bool) \<Rightarrow> signal_lib \<Rightarrow> kernel_signals \<Rightarrow> signal_lib \<times> kernel_signals" where
  "lib_signal_uninstall can_set lib k =
     (lib_signal_initial, restore_signals can_set (zip (lg_installed lib) (lg_previous lib)) k)"

text \<open>The loop over \<open>sigaction\<close>: \<open>done\<close> are the signals set so far with what they had before.\<close>

fun install_loop ::
  "(int \<Rightarrow> bool) \<Rightarrow> int list \<Rightarrow> (int \<times> disposition) list \<Rightarrow> kernel_signals \<Rightarrow>
   bool \<times> (int \<times> disposition) list \<times> kernel_signals" where
  "install_loop can_set [] set_so_far k = (True, set_so_far, k)"
| "install_loop can_set (sig # sigs) set_so_far k =
     (if can_set sig then install_loop can_set sigs (set_so_far @ [(sig, k sig)]) (k(sig := Lib_signal_handle))
      else (False, set_so_far, restore_signals can_set (rev set_so_far) k))"

text \<open>The signals of a configuration; \<open>None\<close> when it has a count without an array.\<close>

definition config_signals :: "SignalInstallConfig option \<Rightarrow> int list option" where
  "config_signals cfg =
     (case cfg of
        None \<Rightarrow> Some [SIGINT, SIGTERM]
      | Some c \<Rightarrow>
          (case sn_signals c of
             Some sigs \<Rightarrow> if 0 < sn_signal_count c then Some (take (sn_signal_count c) sigs) else Some [SIGINT, SIGTERM]
           | None \<Rightarrow> if 0 < sn_signal_count c then None else Some [SIGINT, SIGTERM]))"

text \<open>
  The result, the state and the library. On a failure the count of installed signals is zero; the two
  settings stay as they were set.
\<close>

definition lib_signal_install ::
  "(int \<Rightarrow> bool) \<Rightarrow> SignalInstallConfig option \<Rightarrow> SignalState \<Rightarrow> signal_lib \<Rightarrow> kernel_signals \<Rightarrow>
   bool \<times> SignalState \<times> signal_lib \<times> kernel_signals" where
  "lib_signal_install can_set cfg state lib k =
     (case config_signals cfg of
        None \<Rightarrow> (False, state, lib, k)
      | Some signals \<Rightarrow>
          if signals = [] \<or> LIB_SIGNAL_MAX_SIGNALS < length signals then (False, state, lib, k)
          else case lib_signal_uninstall can_set lib k of
            (lib1, k1) \<Rightarrow>
              (let s1 = lib_signal_state_reset\<lparr>si_wake_write_fd := (case cfg of Some c \<Rightarrow> sn_wake_write_fd c | None \<Rightarrow> -1)\<rparr>;
                   lib2 = lib1\<lparr>lg_attached := True,
                     lg_set_should_exit := (case cfg of Some c \<Rightarrow> sn_set_should_exit c | None \<Rightarrow> True),
                     lg_policy := (case cfg of Some c \<Rightarrow> sn_policy c | None \<Rightarrow> LIB_SIGNAL_POLICY_GRACEFUL)\<rparr>
               in case install_loop can_set signals [] k1 of
                    (True, ps, k2) \<Rightarrow> (True, s1, lib2\<lparr>lg_installed := map fst ps, lg_previous := map snd ps\<rparr>, k2)
                  | (False, ps, k2) \<Rightarrow> (False, s1, lib2\<lparr>lg_attached := False, lg_installed := [], lg_previous := []\<rparr>, k2)))"

section \<open>Reading the state\<close>

definition lib_signal_should_exit :: "SignalState \<Rightarrow> bool" where
  "lib_signal_should_exit state = si_should_exit state"

definition lib_signal_last_signal :: "SignalState \<Rightarrow> int" where
  "lib_signal_last_signal state = si_last_signal state"

definition lib_signal_take_last_signal :: "SignalState \<Rightarrow> int \<times> SignalState" where
  "lib_signal_take_last_signal state = (si_last_signal state, state\<lparr>si_last_signal := 0, si_pending := False\<rparr>)"

definition lib_signal_has_pending :: "SignalState \<Rightarrow> bool" where
  "lib_signal_has_pending state = si_pending state"

definition lib_signal_clear_pending :: "SignalState \<Rightarrow> SignalState" where
  "lib_signal_clear_pending state = state\<lparr>si_last_signal := 0, si_pending := False\<rparr>"

definition lib_signal_request_exit :: "SignalState \<Rightarrow> SignalState" where
  "lib_signal_request_exit state = state\<lparr>si_should_exit := True, si_pending := True\<rparr>"

section \<open>siglatch/app/signal/signal.c\<close>

definition app_signal_config :: SignalInstallConfig where
  "app_signal_config = \<lparr>sn_signals = Some [SIGINT, SIGTERM], sn_signal_count = 2, sn_set_should_exit = True,
     sn_wake_write_fd = -1, sn_policy = LIB_SIGNAL_POLICY_GRACEFUL_THEN_HARD\<rparr>"

text \<open>A failure is only logged.\<close>

definition app_signal_install ::
  "(int \<Rightarrow> bool) \<Rightarrow> signal_lib \<Rightarrow> kernel_signals \<Rightarrow> SignalState \<times> signal_lib \<times> kernel_signals" where
  "app_signal_install can_set lib k =
     snd (lib_signal_install can_set (Some app_signal_config) lib_signal_state_reset lib k)"

definition app_signal_should_exit :: "SignalState \<Rightarrow> bool" where
  "app_signal_should_exit state = lib_signal_should_exit state"

definition app_signal_request_exit :: "SignalState \<Rightarrow> SignalState" where
  "app_signal_request_exit state = lib_signal_request_exit state"

definition app_signal_shutdown :: "(int \<Rightarrow> bool) \<Rightarrow> signal_lib \<Rightarrow> kernel_signals \<Rightarrow> signal_lib \<times> kernel_signals" where
  "app_signal_shutdown can_set lib k = lib_signal_uninstall can_set lib k"

section \<open>Signals that arrive\<close>

text \<open>The handler runs for the signals whose disposition it is; the others are not the library's.\<close>

fun deliver :: "signal_lib \<Rightarrow> kernel_signals \<Rightarrow> int list \<Rightarrow> SignalState \<Rightarrow> handled" where
  "deliver lib k [] state = Returned state None"
| "deliver lib k (sig # sigs) state =
     (if k sig = Lib_signal_handle
      then (case lib_signal_handle lib state sig of
              Exited code \<Rightarrow> Exited code
            | Returned state1 woken \<Rightarrow> deliver lib k sigs state1)
      else deliver lib k sigs state)"

lemma delivery_limit: "sint DELIVERY_LIMIT = -1"
proof -
  have e: "DELIVERY_LIMIT = -1"
    by (rule bit_word_eqI) (simp add: DELIVERY_LIMIT_def bit_simps)
  show ?thesis unfolding e by (rule signed_minus_1)
qed

text \<open>The count of deliveries stays zero, since zero is not below the limit.\<close>

lemma handle_graceful:
  assumes "lg_attached lib" "lg_policy lib = LIB_SIGNAL_POLICY_GRACEFUL_THEN_HARD" "si_delivery_count s = 0"
  shows "lib_signal_handle lib s sig =
    Returned (s\<lparr>si_last_signal := sig, si_pending := True,
        si_should_exit := si_should_exit s \<or> lg_set_should_exit lib\<rparr>)
      (if 0 \<le> si_wake_write_fd s then Some (si_wake_write_fd s, word_of_int sig) else None)"
  using assms by (auto simp: lib_signal_handle_def Let_def delivery_limit)

lemma deliver_graceful:
  assumes "lg_attached lib" "lg_policy lib = LIB_SIGNAL_POLICY_GRACEFUL_THEN_HARD" "si_delivery_count s = 0"
    "lg_set_should_exit lib" "\<forall>sig \<in> set sigs. k sig = Lib_signal_handle" "sigs \<noteq> []"
  shows "\<exists>s'. deliver lib k sigs s = Returned s' None \<and> si_should_exit s' \<and> si_last_signal s' = last sigs \<and>
    si_pending s' \<and> si_delivery_count s' = 0"
  using assms(3,5,6)
proof (induction sigs arbitrary: s)
  case (Cons sig sigs)
  note h = handle_graceful [OF assms(1,2) Cons.prems(1), of sig]
  show ?case
  proof (cases "sigs = []")
    case True
    with Cons.prems h assms(4) show ?thesis by simp
  next
    case False
    with Cons.prems h show ?thesis using Cons.IH by simp
  qed
qed simp

section \<open>Installing and uninstalling\<close>

lemma install_loop_ok:
  assumes "install_loop can_set sigs ps k = (True, qs, k')" "distinct sigs"
  shows "qs = ps @ map (\<lambda>s. (s, k s)) sigs \<and> (\<forall>s \<in> set sigs. can_set s) \<and>
    k' = (\<lambda>s. if s \<in> set sigs then Lib_signal_handle else k s)"
  using assms
proof (induction sigs arbitrary: ps k)
  case (Cons s sigs)
  from Cons.prems have c: "can_set s"
    and l: "install_loop can_set sigs (ps @ [(s, k s)]) (k(s := Lib_signal_handle)) = (True, qs, k')"
    by (auto split: if_splits)
  from Cons.IH [OF l] Cons.prems(2) c show ?case by (auto intro!: map_cong)
qed auto

lemma restore_other: "s \<notin> fst ` set ps \<Longrightarrow> restore_signals can_set ps k s = k s"
  by (induction ps arbitrary: k) (auto simp: sigaction_set_def)

lemma restore_map:
  assumes "distinct sigs" "\<forall>s \<in> set sigs. can_set s"
  shows "restore_signals can_set (map (\<lambda>s. (s, f s)) sigs) k = (\<lambda>s. if s \<in> set sigs then f s else k s)"
  using assms
proof (induction sigs arbitrary: k)
  case (Cons s sigs)
  then have "restore_signals can_set (map (\<lambda>s. (s, f s)) (s # sigs)) k =
      (\<lambda>t. if t \<in> set sigs then f t else (k(s := f s)) t)"
    by (simp add: sigaction_set_def)
  then show ?case by auto
qed simp

text \<open>What \<open>uninstall\<close> undoes.\<close>

lemma install_uninstall:
  assumes "lib_signal_install can_set cfg state lib k = (True, state', lib', k')"
    and "config_signals cfg = Some sigs" "distinct sigs" "lg_installed lib = []"
  shows "lib_signal_uninstall can_set lib' k' = (lib_signal_initial, k)"
    "\<forall>s. k' s = (if s \<in> set sigs then Lib_signal_handle else k s)" "lg_attached lib'" "state' =
      lib_signal_state_reset\<lparr>si_wake_write_fd := (case cfg of Some c \<Rightarrow> sn_wake_write_fd c | None \<Rightarrow> -1)\<rparr>"
proof -
  have u: "lib_signal_uninstall can_set lib k = (lib_signal_initial, k)"
    using assms(4) by (simp add: lib_signal_uninstall_def)
  obtain ps k2 where l: "install_loop can_set sigs [] k = (True, ps, k2)"
    using assms(1,2) u by (auto simp: lib_signal_install_def Let_def split: if_splits prod.splits bool.splits)
  with install_loop_ok [OF l assms(3)] assms(1,2) u
  have r: "k' = (\<lambda>s. if s \<in> set sigs then Lib_signal_handle else k s)" "\<forall>s \<in> set sigs. can_set s"
    "lg_installed lib' = map fst (map (\<lambda>s. (s, k s)) sigs)" "lg_previous lib' = map snd (map (\<lambda>s. (s, k s)) sigs)"
    and s: "lg_attached lib'" "state' =
      lib_signal_state_reset\<lparr>si_wake_write_fd := (case cfg of Some c \<Rightarrow> sn_wake_write_fd c | None \<Rightarrow> -1)\<rparr>"
    by (auto simp: lib_signal_install_def Let_def split: if_splits)
  have "zip (lg_installed lib') (lg_previous lib') = map (\<lambda>s. (s, k s)) sigs"
    unfolding r(3,4) by (rule zip_map_fst_snd)
  then show "lib_signal_uninstall can_set lib' k' = (lib_signal_initial, k)"
    using restore_map [OF assms(3) r(2), of k k'] r(1)
    by (auto simp: lib_signal_uninstall_def)
  show "\<forall>s. k' s = (if s \<in> set sigs then Lib_signal_handle else k s)" using r(1) by simp
  show "lg_attached lib'" "state' =
      lib_signal_state_reset\<lparr>si_wake_write_fd := (case cfg of Some c \<Rightarrow> sn_wake_write_fd c | None \<Rightarrow> -1)\<rparr>"
    by fact+
qed

end
