(* ===== verification/Lifecycle.thy ===== *)
theory Lifecycle
  imports Prelude
begin

text \<open>
  Bringing the modules of the daemon up and taking them down: \<open>siglatch/lib.c\<close>, \<open>shared/shared.c\<close>,
  \<open>siglatch/app/app.c\<close> and \<open>siglatch/lifecycle.c\<close>. A module is its name; the state is the set of the
  modules that are up, with the flags that the functions test. The tables of function pointers are
  constants, so the checks of their wiring pass. \<open>starts\<close> says whether the \<open>init\<close> of a module succeeds;
  for a module whose \<open>init\<close> returns nothing it is not asked.
\<close>

record lifecycle =
  lc_up :: "string set"
  lc_lib_initialized :: bool
  lc_shared_initialized :: bool
  lc_app_initialized :: bool
  lc_g_shared_initialized :: bool
  lc_g_app_initialized :: bool

definition lifecycle_initial :: lifecycle where
  "lifecycle_initial = \<lparr>lc_up = {}, lc_lib_initialized = False, lc_shared_initialized = False,
     lc_app_initialized = False, lc_g_shared_initialized = False, lc_g_app_initialized = False\<rparr>"

text \<open>Modules in the order of their initialisation, each with whether its \<open>init\<close> can fail.\<close>

fun init_modules :: "(string \<Rightarrow> bool) \<Rightarrow> (string \<times> bool) list \<Rightarrow> string set \<Rightarrow> bool \<times> string set" where
  "init_modules starts [] up = (True, up)"
| "init_modules starts ((m, can_fail) # ms) up =
     (if can_fail \<and> \<not> starts m then (False, up) else init_modules starts ms (insert m up))"

fun shutdown_modules :: "string list \<Rightarrow> string set \<Rightarrow> string set" where
  "shutdown_modules [] up = up"
| "shutdown_modules (m # ms) up = shutdown_modules ms (up - {m})"

section \<open>siglatch/lib.c\<close>

definition lib_init_order :: "(string \<times> bool) list" where
  "lib_init_order =
     [(''lib.time'', False), (''lib.net'', False), (''codec_context'', True), (''lib.m7mux'', True),
      (''lib.process'', True), (''lib.str'', False), (''lib.argv'', False), (''lib.parse'', True),
      (''lib.unicode'', False), (''lib.print'', False), (''lib.utils'', False), (''lib.log'', False),
      (''lib.hmac'', False), (''lib.nonce'', True), (''lib.signal'', True), (''lib.file'', False),
      (''lib.openssl'', True)]"

definition lib_fail_order :: "string list" where
  "lib_fail_order =
     [''lib.openssl'', ''lib.file'', ''lib.nonce'', ''lib.signal'', ''lib.hmac'', ''lib.log'', ''lib.utils'',
      ''lib.print'', ''lib.unicode'', ''lib.parse'', ''lib.argv'', ''lib.str'', ''lib.process'', ''lib.m7mux'',
      ''codec_context'', ''lib.net'', ''lib.time'']"

definition init_lib :: "(string \<Rightarrow> bool) \<Rightarrow> string set \<Rightarrow> bool \<times> string set" where
  "init_lib starts up =
     (case init_modules starts lib_init_order up of
        (True, up1) \<Rightarrow> (True, up1)
      | (False, up1) \<Rightarrow> (False, shutdown_modules lib_fail_order up1))"

definition shutdown_lib :: "string set \<Rightarrow> string set" where
  "shutdown_lib up = shutdown_modules
     [''lib.openssl'', ''lib.signal'', ''lib.nonce'', ''lib.hmac'', ''lib.log'', ''lib.parse'', ''lib.argv'',
      ''lib.utils'', ''lib.print'', ''lib.unicode'', ''lib.time'', ''lib.m7mux'', ''codec_context'', ''lib.net'',
      ''lib.str''] up"

section \<open>shared/shared.c\<close>

definition init_shared :: "(string \<Rightarrow> bool) \<Rightarrow> lifecycle \<Rightarrow> bool \<times> lifecycle" where
  "init_shared starts lc =
     (if lc_g_shared_initialized lc then (True, lc)
      else if \<not> starts ''shared.debug'' then (False, lc)
      else let up1 = insert ''shared.debug'' (lc_up lc)
      in if \<not> starts ''shared.detect'' then (False, lc\<lparr>lc_up := shutdown_modules [''shared.debug''] up1\<rparr>)
      else let up2 = insert ''shared.detect'' up1
      in if \<not> starts ''shared.digest''
         then (False, lc\<lparr>lc_up := shutdown_modules [''shared.detect'', ''shared.debug''] up2\<rparr>)
      else (True, lc\<lparr>lc_up := insert ''shared.digest'' up2, lc_g_shared_initialized := True\<rparr>))"

definition shutdown_shared :: "lifecycle \<Rightarrow> lifecycle" where
  "shutdown_shared lc =
     (if \<not> lc_g_shared_initialized lc then lc
      else lc\<lparr>lc_up := shutdown_modules [''shared.digest'', ''shared.detect'', ''shared.debug''] (lc_up lc),
             lc_g_shared_initialized := False\<rparr>)"

section \<open>siglatch/app/app.c\<close>

definition app_init_order :: "(string \<times> bool) list" where
  "app_init_order =
     [(''app.builtin'', True), (''app.config'', True), (''app.daemon'', True), (''app.daemon.helper'', True),
      (''app.daemon.auth'', True), (''app.daemon.request'', True), (''app.daemon.policy'', True),
      (''app.daemon.payload'', True), (''app.help'', True), (''app.inbound'', True), (''app.keys'', True),
      (''app.object'', True), (''app.opts'', True), (''app.payload'', True), (''app.policy'', True),
      (''app.runtime'', True), (''app.server'', True), (''app.signal'', True), (''app.workspace'', True),
      (''app.startup'', True), (''app.daemon.tick'', True), (''app.udp'', True)]"

definition app_fail_order :: "string list" where
  "app_fail_order =
     [''app.udp'', ''app.daemon.tick'', ''app.startup'', ''app.server'', ''app.signal'', ''app.workspace'',
      ''app.policy'', ''app.runtime'', ''app.payload'', ''app.opts'', ''app.keys'', ''app.object'', ''app.inbound'',
      ''app.daemon.helper'', ''app.daemon.auth'', ''app.daemon.request'', ''app.daemon.policy'',
      ''app.daemon.payload'', ''app.daemon'', ''app.help'', ''app.builtin'', ''app.config'']"

definition init_app :: "(string \<Rightarrow> bool) \<Rightarrow> lifecycle \<Rightarrow> bool \<times> lifecycle" where
  "init_app starts lc =
     (if lc_g_app_initialized lc then (True, lc)
      else case init_modules starts app_init_order (lc_up lc) of
        (True, up1) \<Rightarrow> (True, lc\<lparr>lc_up := up1, lc_g_app_initialized := True\<rparr>)
      | (False, up1) \<Rightarrow> (False, lc\<lparr>lc_up := shutdown_modules app_fail_order up1, lc_g_app_initialized := False\<rparr>))"

definition shutdown_app :: "lifecycle \<Rightarrow> lifecycle" where
  "shutdown_app lc =
     (if \<not> lc_g_app_initialized lc then lc
      else lc\<lparr>lc_up := shutdown_modules
          [''app.builtin'', ''app.daemon.helper'', ''app.daemon.auth'', ''app.daemon.request'', ''app.daemon.payload'',
           ''app.daemon'', ''app.udp'', ''app.daemon.tick'', ''app.startup'', ''app.server'', ''app.signal'',
           ''app.workspace'', ''app.runtime'', ''app.payload'', ''app.policy'', ''app.opts'', ''app.keys'',
           ''app.object'', ''app.inbound'', ''app.help'', ''app.config''] (lc_up lc),
         lc_g_app_initialized := False\<rparr>)"

section \<open>siglatch/lifecycle.c\<close>

definition siglatch_shutdown :: "lifecycle \<Rightarrow> lifecycle" where
  "siglatch_shutdown lc =
     (let l1 = (if lc_app_initialized lc then (shutdown_app lc)\<lparr>lc_app_initialized := False\<rparr> else lc);
          l2 = (if lc_shared_initialized l1 then (shutdown_shared l1)\<lparr>lc_shared_initialized := False\<rparr> else l1)
      in if lc_lib_initialized l2 then l2\<lparr>lc_up := shutdown_lib (lc_up l2), lc_lib_initialized := False\<rparr> else l2)"

definition boot_lib :: "(string \<Rightarrow> bool) \<Rightarrow> lifecycle \<Rightarrow> bool \<times> lifecycle" where
  "boot_lib starts lc =
     (if lc_lib_initialized lc then (True, lc)
      else case init_lib starts (lc_up lc) of
        (ok, up1) \<Rightarrow> (ok, lc\<lparr>lc_up := up1, lc_lib_initialized := ok\<rparr>))"

definition boot_shared :: "(string \<Rightarrow> bool) \<Rightarrow> lifecycle \<Rightarrow> bool \<times> lifecycle" where
  "boot_shared starts lc =
     (if lc_shared_initialized lc then (True, lc)
      else case init_shared starts lc of (ok, l1) \<Rightarrow> (ok, l1\<lparr>lc_shared_initialized := ok\<rparr>))"

definition siglatch_boot :: "(string \<Rightarrow> bool) \<Rightarrow> lifecycle \<Rightarrow> bool \<times> lifecycle" where
  "siglatch_boot starts lc =
     (if lc_lib_initialized lc \<and> lc_app_initialized lc then (True, lc)
      else case boot_lib starts lc of
        (False, l1) \<Rightarrow> (False, siglatch_shutdown l1)
      | (True, l1) \<Rightarrow>
          if lc_app_initialized l1 then (True, l1)
          else (case boot_shared starts l1 of
                  (False, l2) \<Rightarrow> (False, siglatch_shutdown l2)
                | (True, l2) \<Rightarrow>
                    (case init_app starts l2 of
                       (False, l3) \<Rightarrow> (False, siglatch_shutdown l3)
                     | (True, l3) \<Rightarrow> (True, l3\<lparr>lc_app_initialized := True\<rparr>))))"

section \<open>What a boot and a shutdown leave up\<close>

lemma shutdown_modules_set: "shutdown_modules ms up = up - set ms"
  by (induction ms arbitrary: up) auto

lemma init_modules_up:
  assumes "init_modules starts ms up = (ok, up')"
  shows "up \<subseteq> up'" "up' \<subseteq> up \<union> fst ` set ms" "ok \<Longrightarrow> up' = up \<union> fst ` set ms"
  using assms by (induction starts ms up rule: init_modules.induct) (auto split: if_splits)

definition lib_modules :: "string set" where "lib_modules = set (map fst lib_init_order)"
definition shared_modules :: "string set" where
  "shared_modules = set [''shared.debug'', ''shared.detect'', ''shared.digest'']"
definition app_modules :: "string set" where "app_modules = set (map fst app_init_order)"

text \<open>The modules that a complete shutdown does not take down.\<close>

definition left_up :: "string set" where
  "left_up = set [''lib.process'', ''lib.file'', ''app.daemon.policy'']"

lemma modules_disjoint: "lib_modules \<inter> shared_modules = {}" "lib_modules \<inter> app_modules = {}"
  "shared_modules \<inter> app_modules = {}"
  by code_simp+

lemma init_lib_result:
  assumes "init_lib starts {} = (ok, up)"
  shows "up = (if ok then lib_modules else {})"
proof -
  obtain ok1 up1 where i: "init_modules starts lib_init_order {} = (ok1, up1)" by fastforce
  have "lib_modules \<subseteq> set lib_fail_order" by code_simp
  with assms i init_modules_up [OF i] show ?thesis
    by (auto simp: init_lib_def lib_modules_def shutdown_modules_set split: bool.splits)
qed

lemma init_app_result:
  assumes "init_app starts lc = (ok, lc')" "\<not> lc_g_app_initialized lc" "lc_up lc \<inter> app_modules = {}"
  shows "lc' = (if ok then lc\<lparr>lc_up := lc_up lc \<union> app_modules, lc_g_app_initialized := True\<rparr> else lc)"
proof -
  obtain ok1 up1 where i: "init_modules starts app_init_order (lc_up lc) = (ok1, up1)" by fastforce
  have f: "set app_fail_order = app_modules"
    by code_simp
  have "ok = ok1" using assms(1,2) i by (auto simp: init_app_def split: bool.splits)
  moreover have "up1 - app_modules = lc_up lc" using init_modules_up [OF i] assms(3) by (auto simp: app_modules_def)
  ultimately show ?thesis
    using assms(1,2) i init_modules_up(3) [OF i] f
    by (auto simp: init_app_def shutdown_modules_set app_modules_def split: bool.splits)
qed

definition fully_up :: lifecycle where
  "fully_up = \<lparr>lc_up = lib_modules \<union> shared_modules \<union> app_modules, lc_lib_initialized = True,
     lc_shared_initialized = True, lc_app_initialized = True, lc_g_shared_initialized = True,
     lc_g_app_initialized = True\<rparr>"

lemma shutdown_fully_up: "siglatch_shutdown fully_up = lifecycle_initial\<lparr>lc_up := left_up\<rparr>"
proof -
  have "lib_modules \<union> shared_modules \<union> app_modules -
      set [''app.builtin'', ''app.daemon.helper'', ''app.daemon.auth'', ''app.daemon.request'', ''app.daemon.payload'',
           ''app.daemon'', ''app.udp'', ''app.daemon.tick'', ''app.startup'', ''app.server'', ''app.signal'',
           ''app.workspace'', ''app.runtime'', ''app.payload'', ''app.policy'', ''app.opts'', ''app.keys'',
           ''app.object'', ''app.inbound'', ''app.help'', ''app.config''] -
      set [''shared.digest'', ''shared.detect'', ''shared.debug''] -
      set [''lib.openssl'', ''lib.signal'', ''lib.nonce'', ''lib.hmac'', ''lib.log'', ''lib.parse'', ''lib.argv'',
      ''lib.utils'', ''lib.print'', ''lib.unicode'', ''lib.time'', ''lib.m7mux'', ''codec_context'', ''lib.net'',
      ''lib.str''] = left_up"
    by code_simp
  then show ?thesis
    by (simp add: siglatch_shutdown_def fully_up_def shutdown_app_def shutdown_shared_def shutdown_lib_def
        shutdown_modules_set lifecycle_initial_def)
qed

lemma shutdown_lib_modules: "shutdown_lib lib_modules = {''lib.process'', ''lib.file''}"
  by code_simp

text \<open>A boot brings everything up or takes everything down but two modules of the library.\<close>

lemma boot_result:
  assumes "siglatch_boot starts lifecycle_initial = (ok, lc)"
  shows "ok \<Longrightarrow> lc = fully_up"
    "\<not> ok \<Longrightarrow> lc = lifecycle_initial\<lparr>lc_up := {}\<rparr> \<or> lc = lifecycle_initial\<lparr>lc_up := {''lib.process'', ''lib.file''}\<rparr>"
proof -
  obtain b1 up1 where l: "init_lib starts {} = (b1, up1)" by fastforce
  note u1 = init_lib_result [OF l]
  let ?l1 = "lifecycle_initial\<lparr>lc_up := lib_modules, lc_lib_initialized := True\<rparr>"
  have down: "siglatch_shutdown ?l1 = lifecycle_initial\<lparr>lc_up := {''lib.process'', ''lib.file''}\<rparr>"
    by (simp add: siglatch_shutdown_def lifecycle_initial_def shutdown_lib_modules)
  have sh: "boot_shared starts ?l1 = (False, ?l1) \<or> boot_shared starts ?l1 = (True, ?l1\<lparr>lc_up := lib_modules \<union> shared_modules,
      lc_g_shared_initialized := True, lc_shared_initialized := True\<rparr>)"
    using modules_disjoint(1)
    by (auto simp: boot_shared_def init_shared_def shutdown_modules_set lifecycle_initial_def shared_modules_def Let_def
        intro!: Diff_triv)
  have down2: "siglatch_shutdown (?l1\<lparr>lc_up := lib_modules \<union> shared_modules,
      lc_g_shared_initialized := True, lc_shared_initialized := True\<rparr>) =
      lifecycle_initial\<lparr>lc_up := {''lib.process'', ''lib.file''}\<rparr>"
  proof -
    have "lib_modules \<union> shared_modules - set [''shared.digest'', ''shared.detect'', ''shared.debug''] = lib_modules"
      using modules_disjoint(1) by (auto simp: shared_modules_def)
    then show ?thesis
      by (simp add: siglatch_shutdown_def shutdown_shared_def shutdown_modules_set lifecycle_initial_def
          shutdown_lib_modules del: set_simps)
  qed
  let ?l2 = "?l1\<lparr>lc_up := lib_modules \<union> shared_modules, lc_g_shared_initialized := True, lc_shared_initialized := True\<rparr>"
  obtain b3 l3 where a: "init_app starts ?l2 = (b3, l3)" by fastforce
  have u3: "l3 = (if b3 then ?l2\<lparr>lc_up := lib_modules \<union> shared_modules \<union> app_modules, lc_g_app_initialized := True\<rparr> else ?l2)"
  proof -
    have "(lib_modules \<union> shared_modules) \<inter> app_modules = {}" using modules_disjoint(2,3) by blast
    then have "lc_up ?l2 \<inter> app_modules = {}" by simp
    moreover have "\<not> lc_g_app_initialized ?l2" by (simp add: lifecycle_initial_def)
    ultimately show ?thesis using init_app_result [OF a] by simp
  qed
  have "lc = (if ok then fully_up else lc) \<and> (ok \<or> lc = lifecycle_initial\<lparr>lc_up := {}\<rparr> \<or>
      lc = lifecycle_initial\<lparr>lc_up := {''lib.process'', ''lib.file''}\<rparr>)"
  proof (cases b1)
    case False
    with assms l u1 show ?thesis
      by (auto simp: siglatch_boot_def boot_lib_def siglatch_shutdown_def lifecycle_initial_def)
  next
    case True
    then have bl: "boot_lib starts lifecycle_initial = (True, ?l1)"
      using l u1 by (simp add: boot_lib_def lifecycle_initial_def)
    have flags: "\<not> lc_lib_initialized lifecycle_initial" "\<not> lc_app_initialized ?l1" by (simp_all add: lifecycle_initial_def)
    from sh show ?thesis
    proof
      assume "boot_shared starts ?l1 = (False, ?l1)"
      with assms bl flags down show ?thesis by (auto simp: siglatch_boot_def)
    next
      assume s: "boot_shared starts ?l1 = (True, ?l2)"
      show ?thesis
      proof (cases b3)
        case True
        with assms bl flags s a u3 show ?thesis by (auto simp: siglatch_boot_def fully_up_def lifecycle_initial_def)
      next
        case False
        with assms bl flags s a u3 down2 show ?thesis by (auto simp: siglatch_boot_def)
      qed
    qed
  qed
  then show "ok \<Longrightarrow> lc = fully_up"
    "\<not> ok \<Longrightarrow> lc = lifecycle_initial\<lparr>lc_up := {}\<rparr> \<or> lc = lifecycle_initial\<lparr>lc_up := {''lib.process'', ''lib.file''}\<rparr>"
    by (auto split: if_splits)
qed

end
