(* ===== verification/Startup.thy ===== *)
theory Startup
  imports Opts Signals Lifecycle Runner Codec_V1 Codec_V2_Facts Codec_V3_Facts
begin

text \<open>
  From the command line to a running daemon and back: \<open>siglatch/app/startup/startup.c\<close>,
  \<open>app/workspace/workspace.c\<close> and \<open>siglatch/main.c\<close>. Logging and the texts of \<open>help\<close> and of the dump of
  the configuration are left out. The pointer \<open>state->cfg\<close> is the attached configuration, and
  \<open>workspace.codec_context\<close> the codec context of the daemon.
\<close>

section \<open>State\<close>

text \<open>
  \<open>se_helpers\<close>: whether V3 and V4 find their helper tables; \<open>se_calloc\<close> and \<open>se_alloc\<close>: whether the state
  of a codec and its nonce cache can be allocated; \<open>se_nonce\<close>: the same for the listener's cache.
\<close>

record startup_env =
  se_runtime :: runtime_env
  se_getenv :: "string \<Rightarrow> string option"
  se_can_set :: "int \<Rightarrow> bool"
  se_nonce :: bool
  se_helpers :: bool
  se_calloc :: "nat \<Rightarrow> bool"
  se_alloc :: "nat \<Rightarrow> bool"
  se_evp :: evp
  se_digest :: bool
  se_time :: int

text \<open>\<open>sd_codecs\<close> are the codecs whose \<open>g_context\<close> points to the codec context.\<close>

record siglatchd =
  sd_daemon :: daemon
  sd_nonce :: NonceCache
  sd_signal :: SignalState
  sd_signals :: signal_lib
  sd_kernel :: kernel_signals
  sd_codecs :: "nat set"
  sd_registry :: "SharedKnockCodecState registry"
  sd_output_mode :: int

record AppStartupState =
  st_should_exit :: bool
  st_exit_code :: int
  st_parsed :: AppParsedOpts

definition EXIT_FAILURE :: int where "EXIT_FAILURE = 1"

definition zero_parsed :: AppParsedOpts where
  "zero_parsed = \<lparr>pp_ok = False, pp_exit_code = 0, pp_error = [], pp_values = zero_opts\<rparr>"

text \<open>The zeroed state that \<open>main\<close> starts with: its socket is descriptor 0.\<close>

definition zero_listener :: AppRuntimeListenerState where
  "zero_listener = \<lparr>ls_sock = 0, ls_bound_port = 0, ls_bound_ip = [], ls_config_path = [], ls_server = None\<rparr>"

definition zero_startup :: AppStartupState where
  "zero_startup = \<lparr>st_should_exit = False, st_exit_code = 0, st_parsed = zero_parsed\<rparr>"

abbreviation sd_upd_daemon :: "(daemon \<Rightarrow> daemon) \<Rightarrow> siglatchd \<Rightarrow> siglatchd" where
  "sd_upd_daemon f p \<equiv> p\<lparr>sd_daemon := f (sd_daemon p)\<rparr>"

section \<open>Codecs\<close>

text \<open>The adapter of codec \<open>n\<close>, with the context it reads through its pointer.\<close>

definition codec_module ::
  "startup_env \<Rightarrow> int \<Rightarrow> SharedKnockCodecContext option \<Rightarrow> nat \<Rightarrow> SharedKnockCodecState adapter" where
  "codec_module env now context n =
     (let c = se_calloc env n; a = se_alloc env n
      in if n = 1 then shared_knock_codec_v1_adapter (se_evp env) (se_digest env) context now c a
         else if n = 2 then shared_knock_codec_v2_adapter (se_evp env) context now c a
         else if n = 3 then shared_knock_codec_v3_adapter (se_evp env) (se_digest env) context c a
         else shared_knock_codec_v4_adapter (se_evp env) (se_digest env) context c a)"

definition codec_number :: "SharedKnockCodecState adapter \<Rightarrow> nat" where
  "codec_number a =
     (if ad_name a = ''codec.v1'' then 1 else if ad_name a = ''codec.v2'' then 2
      else if ad_name a = ''codec.v3'' then 3 else 4)"

text \<open>The registered codecs as they work at a time, for the keys that the daemon then holds.\<close>

definition live_registry :: "startup_env \<Rightarrow> siglatchd \<Rightarrow> int \<Rightarrow> daemon \<Rightarrow> SharedKnockCodecState registry" where
  "live_registry env p now d =
     map (\<lambda>a. (codec_module env now (if codec_number a \<in> sd_codecs p then dm_codec_view d else None)
                 (codec_number a))\<lparr>ad_state := ad_state a\<rparr>) (sd_registry p)"

definition codec_init :: "startup_env \<Rightarrow> nat \<Rightarrow> bool" where
  "codec_init env n \<longleftrightarrow> n \<le> 2 \<or> se_helpers env"

text \<open>The registration of the four codecs; \<open>names\<close> are those registered so far, the last one first.\<close>

fun register_loop ::
  "startup_env \<Rightarrow> nat list \<Rightarrow> string list \<Rightarrow> siglatchd \<Rightarrow> bool \<times> siglatchd" where
  "register_loop env [] names p = (True, p)"
| "register_loop env (n # ns) names p =
     (let a = codec_module env (se_time env) (dm_codec_view (sd_daemon p)) n
      in case m7mux_normalize_adapter_register (sd_registry p) a of
           (True, reg) \<Rightarrow> register_loop env ns (ad_name a # names) (p\<lparr>sd_registry := reg\<rparr>)
         | (False, reg) \<Rightarrow>
             (False, p\<lparr>sd_registry := foldl (\<lambda>r name. snd (m7mux_normalize_adapter_unregister r name)) reg names,
                       sd_codecs := sd_codecs p - {1, 2, 3, 4}\<rparr>))"

definition app_startup_register_codec_modules :: "startup_env \<Rightarrow> siglatchd \<Rightarrow> bool \<times> siglatchd" where
  "app_startup_register_codec_modules env p =
     (if dm_codec (sd_daemon p) = None then (False, p)
      else if \<not> codec_init env 1 then (False, p\<lparr>sd_codecs := sd_codecs p - {1}\<rparr>)
      else if \<not> codec_init env 2 then (False, p\<lparr>sd_codecs := sd_codecs p - {1, 2}\<rparr>)
      else if \<not> codec_init env 3 then (False, p\<lparr>sd_codecs := sd_codecs p - {1, 2, 3}\<rparr>)
      else if \<not> codec_init env 4 then (False, p\<lparr>sd_codecs := sd_codecs p - {1, 2, 3, 4}\<rparr>)
      else register_loop env [1, 2, 3, 4] [] (p\<lparr>sd_codecs := sd_codecs p \<union> {1, 2, 3, 4}\<rparr>))"

section \<open>The codec context\<close>

text \<open>Everything up to the keychain: the same steps as in \<open>app/runtime/runtime.c\<close>.\<close>

definition fill_codec_context ::
  "runtime_env \<Rightarrow> daemon \<Rightarrow> siglatch_config \<Rightarrow> siglatch_server \<Rightarrow> bool \<times> daemon" where
  "fill_codec_context env d cfg server =
     (case (case dm_codec d of
              Some c \<Rightarrow> Some c
            | None \<Rightarrow> shared_knock_codec_context_create (re_codec_ready env) (re_codec_calloc env)) of
        None \<Rightarrow> (False, d)
      | Some c0 \<Rightarrow>
          (case shared_knock_codec_context_clear_server_key c0 (dm_refs d) of
             (c1, r1) \<Rightarrow>
          (let c2 = c1\<lparr>cx_server_secure := sv_secure server, cx_nonce_window_ms := NONCE_WINDOW_MS\<rparr>
           in case sync_clear_keychain (re_codec_ready env) c2 r1 of
             (False, c3, r3) \<Rightarrow> (False, d\<lparr>dm_codec := Some c3, dm_refs := r3\<rparr>)
           | (True, c3, r3) \<Rightarrow>
               (case (if sv_secure server \<and> sv_priv_key server \<noteq> None
                      then shared_knock_codec_context_set_server_key (re_codec_ready env)
                        (w_malloc (re_world env)) (re_up_ref env) c3
                        (zero_server_key\<lparr>sk_name := Some (sv_name server), sk_private_key := sv_priv_key server\<rparr>) r3
                      else (True, c3, r3)) of
                  (False, c4, r4) \<Rightarrow> (False, d\<lparr>dm_codec := Some c4, dm_refs := r4\<rparr>)
                | (True, c4, r4) \<Rightarrow>
                    (case sync_add_users (re_codec_ready env) (w_malloc (re_world env)) (re_up_ref env)
                            (sc_users cfg) c4 r4 of
                       (ok, c5, r5) \<Rightarrow> (ok, d\<lparr>dm_codec := Some c5, dm_refs := r5\<rparr>))))))"

definition app_startup_sync_codec_context :: "startup_env \<Rightarrow> siglatchd \<Rightarrow> bool \<times> siglatchd" where
  "app_startup_sync_codec_context env p =
     (let d = sd_daemon p
      in case (fst (dm_config d), dm_server d) of
           (Some cfg, Some server) \<Rightarrow>
             (case fill_codec_context (se_runtime env) d cfg server of
                (False, d1) \<Rightarrow> (False, p\<lparr>sd_daemon := d1\<rparr>)
              | (True, d1) \<Rightarrow>
                  (case app_startup_register_codec_modules env (p\<lparr>sd_daemon := d1\<rparr>) of
                     (False, p2) \<Rightarrow> (False, p2)
                   | (True, p2) \<Rightarrow>
                       (case dm_codec (sd_daemon p2) of
                          None \<Rightarrow> (False, p2)
                        | Some c \<Rightarrow>
                            (case m7mux_set_context (wire_policy_context c
                                    (sv_enforce_wire_decode server) (sv_enforce_wire_auth server)) of
                               (ok, g) \<Rightarrow> (ok, sd_upd_daemon (\<lambda>d. d\<lparr>dm_mux := g\<rparr>) p2)))))
         | _ \<Rightarrow> (False, p))"

section \<open>Preparing\<close>

definition app_startup_reset_state :: "siglatchd \<Rightarrow> AppStartupState \<times> siglatchd" where
  "app_startup_reset_state p =
     (zero_startup\<lparr>st_exit_code := EXIT_FAILURE\<rparr>,
      (sd_upd_daemon (\<lambda>d. d\<lparr>dm_listener := zero_listener\<lparr>ls_sock := -1\<rparr>\<rparr>) p)
        \<lparr>sd_nonce := lib_nonce_cache_shutdown (sd_nonce p), sd_signal := lib_signal_state_reset\<lparr>si_wake_write_fd := 0\<rparr>\<rparr>)"

definition startup_server_name :: "AppParsedOpts \<Rightarrow> (string \<Rightarrow> string option) \<Rightarrow> siglatch_config \<Rightarrow> string" where
  "startup_server_name parsed getenv cfg =
     (if ov_server_name (pp_values parsed) \<noteq> [] then ov_server_name (pp_values parsed)
      else case getenv ''SIGLATCH_SERVER'' of
        Some name \<Rightarrow> if name \<noteq> [] then name
                     else if sc_default_server cfg \<noteq> [] then sc_default_server cfg else ''secure''
      | None \<Rightarrow> if sc_default_server cfg \<noteq> [] then sc_default_server cfg else ''secure'')"

definition app_startup_select_server ::
  "AppParsedOpts \<Rightarrow> (string \<Rightarrow> string option) \<Rightarrow> siglatch_config \<Rightarrow> AppRuntimeListenerState \<Rightarrow>
   bool \<times> AppRuntimeListenerState" where
  "app_startup_select_server parsed getenv cfg listener =
     (let name = startup_server_name parsed getenv cfg;
          server = (if server_select (Some cfg) name = None then None else config_server_by_name (Some cfg) name)
      in (server \<noteq> None, listener\<lparr>ls_server := server\<rparr>))"

definition output_set_mode :: "int \<Rightarrow> siglatchd \<Rightarrow> siglatchd" where
  "output_set_mode mode p =
     (if mode = int SL_OUTPUT_MODE_UNICODE \<or> mode = int SL_OUTPUT_MODE_ASCII then p\<lparr>sd_output_mode := mode\<rparr> else p)"

definition app_startup_resolve_output_mode :: "startup_env \<Rightarrow> AppParsedOpts \<Rightarrow> siglatchd \<Rightarrow> siglatchd" where
  "app_startup_resolve_output_mode env parsed p =
     (let env_output_mode = (case se_getenv env ''SIGLATCH_OUTPUT_MODE'' of None \<Rightarrow> 0 | Some v \<Rightarrow> print_output_parse_mode v)
      in case fst (dm_config (sd_daemon p)) of
           None \<Rightarrow> p
         | Some cfg \<Rightarrow>
             if ov_output_mode (pp_values parsed) \<noteq> 0 then output_set_mode (ov_output_mode (pp_values parsed)) p
             else if env_output_mode \<noteq> 0 then output_set_mode (int env_output_mode) p
             else let config_output_mode =
                        (case dm_server (sd_daemon p) of
                           Some server \<Rightarrow> if sv_output_mode server \<noteq> 0 then sv_output_mode server else sc_output_mode cfg
                         | None \<Rightarrow> sc_output_mode cfg)
                  in if config_output_mode \<noteq> 0 then output_set_mode (int config_output_mode) p else p)"

definition SL_CONFIG_PATH_DEFAULT :: string where "SL_CONFIG_PATH_DEFAULT = ''/etc/siglatch/server.conf''"

text \<open>The part of \<open>app_startup_prepare\<close> after the options: loading, selecting, synchronising.\<close>

definition startup_load :: "startup_env \<Rightarrow> AppStartupState \<Rightarrow> siglatchd \<Rightarrow> bool \<times> AppStartupState \<times> siglatchd" where
  "startup_load env st p =
     (let v = pp_values (st_parsed st);
          config_path = (if ov_config_path v \<noteq> [] then ov_config_path v else SL_CONFIG_PATH_DEFAULT);
          p1 = sd_upd_daemon (\<lambda>d. d\<lparr>dm_listener := (dm_listener d)\<lparr>ls_config_path := lcpy config_path PATH_MAX\<rparr>\<rparr>) p
      in case config_load_detached (re_world (se_runtime env)) config_path of
           None \<Rightarrow> (False, st, p1)
         | Some cfg \<Rightarrow>
             (case config_attach_ptr (dm_config (sd_daemon p1)) (Some cfg) (dm_refs (sd_daemon p1) + config_key_refs cfg) of
                (cs, refs) \<Rightarrow>
             (let p2 = sd_upd_daemon (\<lambda>d. d\<lparr>dm_config := cs, dm_refs := refs\<rparr>) p1
              in case app_startup_select_server (st_parsed st) (se_getenv env) cfg (dm_listener (sd_daemon p2)) of
                (selected, l) \<Rightarrow>
             (let p3 = sd_upd_daemon (\<lambda>d. d\<lparr>dm_listener := l\<rparr>) p2
              in if \<not> selected then (False, st, p3)
                 else case lib_nonce_cache_init (se_nonce env) (sd_nonce p3) None of
                   (nonce_ok, cache) \<Rightarrow>
                     (let p4 = p3\<lparr>sd_nonce := cache\<rparr>
                      in if \<not> nonce_ok then (False, st, p4)
                         else if ov_dump_config_requested v
                         then (True, st\<lparr>st_should_exit := True, st_exit_code := 0\<rparr>, p4)
                         else case app_startup_sync_codec_context env (app_startup_resolve_output_mode env (st_parsed st) p4) of
                           (False, p5) \<Rightarrow> (False, st, p5)
                         | (True, p5) \<Rightarrow> (True, st\<lparr>st_exit_code := 0\<rparr>, p5))))))"

definition app_startup_prepare ::
  "startup_env \<Rightarrow> string list \<Rightarrow> siglatchd \<Rightarrow> bool \<times> AppStartupState \<times> siglatchd" where
  "app_startup_prepare env argv p0 =
     (case app_startup_reset_state p0 of
        (st0, p1) \<Rightarrow>
          (case app_opts_parse argv of
             (accepted, parsed) \<Rightarrow>
               (let st = st0\<lparr>st_parsed := parsed\<rparr>
                in if \<not> accepted
                   then (True, st\<lparr>st_should_exit := True,
                           st_exit_code := (if pp_exit_code parsed \<noteq> 0 then pp_exit_code parsed else 2)\<rparr>, p1)
                   else if ov_help_requested (pp_values parsed) \<or> ov_version_requested (pp_values parsed)
                   then (True, st\<lparr>st_should_exit := True, st_exit_code := 0\<rparr>, p1)
                   else case app_signal_install (se_can_set env) (sd_signals p1) (sd_kernel p1) of
                     (state, lib, k) \<Rightarrow>
                       startup_load env st (p1\<lparr>sd_signal := state, sd_signals := lib, sd_kernel := k\<rparr>))))"

section \<open>Releasing\<close>

definition app_startup_shutdown :: "siglatchd \<Rightarrow> siglatchd" where
  "app_startup_shutdown p = p\<lparr>sd_codecs := sd_codecs p - {4, 3, 2, 1}\<rparr>"

definition workspace_shutdown :: "siglatchd \<Rightarrow> siglatchd" where
  "workspace_shutdown p =
     (case dm_codec (sd_daemon p) of
        None \<Rightarrow> p
      | Some c \<Rightarrow> sd_upd_daemon (\<lambda>d. d\<lparr>dm_codec := None, dm_refs := shared_knock_codec_context_destroy c (dm_refs d)\<rparr>) p)"

definition signals_uninstall :: "startup_env \<Rightarrow> siglatchd \<Rightarrow> siglatchd" where
  "signals_uninstall env p =
     (case lib_signal_uninstall (se_can_set env) (sd_signals p) (sd_kernel p) of
        (lib, k) \<Rightarrow> p\<lparr>sd_signals := lib, sd_kernel := k\<rparr>)"

text \<open>
  What \<open>siglatch_shutdown\<close> does to the state above, in the order of \<open>shutdown_app\<close> and \<open>shutdown_lib\<close>, for
  the modules that the lifecycle says are up.
\<close>

definition release_app :: "startup_env \<Rightarrow> siglatchd \<Rightarrow> siglatchd" where
  "release_app env p =
     (let p1 = workspace_shutdown (signals_uninstall env (app_startup_shutdown p));
          (cs, refs) = config_shutdown (dm_config (sd_daemon p1)) (dm_refs (sd_daemon p1))
      in sd_upd_daemon (\<lambda>d. d\<lparr>dm_config := cs, dm_refs := refs\<rparr>) p1)"

definition release_lib :: "startup_env \<Rightarrow> siglatchd \<Rightarrow> siglatchd" where
  "release_lib env p =
     (let p1 = signals_uninstall env p in p1\<lparr>sd_registry := m7mux_normalize_adapter_reset_registry (sd_registry p1)\<rparr>)"

definition release_modules :: "startup_env \<Rightarrow> lifecycle \<Rightarrow> siglatchd \<Rightarrow> siglatchd" where
  "release_modules env lc p =
     (let p1 = (if lc_app_initialized lc then release_app env p else p)
      in if lc_lib_initialized lc then release_lib env p1 else p1)"

section \<open>main\<close>

record process =
  pc_siglatchd :: siglatchd
  pc_lifecycle :: lifecycle
  pc_heap :: buf_heap
  pc_procs :: processes
  pc_users :: user_heap
  pc_sent :: "datagram list"

text \<open>The label \<open>cleanup\<close>.\<close>

definition main_cleanup :: "startup_env \<Rightarrow> process \<Rightarrow> process" where
  "main_cleanup env pc =
     (let p = pc_siglatchd pc;
          sock = ls_sock (dm_listener (sd_daemon p));
          p1 = (if 0 \<le> sock then sd_upd_daemon (\<lambda>d. d\<lparr>dm_socks := close_socket sock (dm_socks d)\<rparr>) p else p);
          p2 = p1\<lparr>sd_nonce := lib_nonce_cache_shutdown (sd_nonce p1),
                  sd_signal := snd (lib_signal_take_last_signal (sd_signal p1))\<rparr>
      in pc\<lparr>pc_siglatchd := release_modules env (pc_lifecycle pc) p2,
            pc_lifecycle := siglatch_shutdown (pc_lifecycle pc)\<rparr>)"

text \<open>The exit status and the process. \<open>starts\<close> is about the modules, \<open>turns\<close> about the daemon's loop.\<close>

definition siglatch_main ::
  "(string \<Rightarrow> bool) \<Rightarrow> startup_env \<Rightarrow> string list \<Rightarrow> bool \<Rightarrow> turn_env list \<Rightarrow> int \<Rightarrow> rng \<Rightarrow> process \<Rightarrow> int \<times> process" where
  "siglatch_main starts env argv calloc_ok turns end_time r pc0 =
     (let p0 = sd_upd_daemon (\<lambda>d. d\<lparr>dm_listener := zero_listener\<rparr>) (pc_siglatchd pc0)
      in case siglatch_boot starts (pc_lifecycle pc0) of
           (False, lc) \<Rightarrow> (EXIT_FAILURE, main_cleanup env (pc0\<lparr>pc_siglatchd := p0, pc_lifecycle := lc\<rparr>))
         | (True, lc) \<Rightarrow>
             (case app_startup_prepare env argv p0 of
                (False, st, p) \<Rightarrow>
                  (if st_exit_code st \<noteq> 0 then st_exit_code st else EXIT_FAILURE,
                   main_cleanup env (pc0\<lparr>pc_siglatchd := p, pc_lifecycle := lc\<rparr>))
              | (True, st, p) \<Rightarrow>
                  if st_should_exit st
                  then (st_exit_code st, main_cleanup env (pc0\<lparr>pc_siglatchd := p, pc_lifecycle := lc\<rparr>))
                  else case app_udp_start_listener (re_net (se_runtime env)) (fst (dm_config (sd_daemon p)))
                              (dm_listener (sd_daemon p)) (dm_socks (sd_daemon p)) of
                    (fd, l, k) \<Rightarrow>
                      (let p1 = sd_upd_daemon (\<lambda>d. d\<lparr>dm_listener := l, dm_socks := k\<rparr>) p
                       in if fd < 0 then (EXIT_FAILURE, main_cleanup env (pc0\<lparr>pc_siglatchd := p1, pc_lifecycle := lc\<rparr>))
                          else case app_daemon_run (live_registry env p1) (se_runtime env) calloc_ok turns end_time
                                      \<lparr>mc_daemon = sd_daemon p1, mc_heap = pc_heap pc0, mc_procs = pc_procs pc0\<rparr>
                                      (pc_users pc0) r of
                            (m, users, sent) \<Rightarrow>
                              (0, main_cleanup env (pc0\<lparr>pc_siglatchd := p1\<lparr>sd_daemon := mc_daemon m\<rparr>,
                                  pc_lifecycle := lc, pc_heap := mc_heap m, pc_procs := mc_procs m,
                                  pc_users := users, pc_sent := pc_sent pc0 @ sent\<rparr>)))))"

end
