(* ===== verification/Startup_Facts.thy ===== *)
theory Startup_Facts
  imports Startup Runner_Facts
begin

text \<open>
  What the start of the daemon establishes and what its end releases.
\<close>

section \<open>The codecs\<close>

lemma codec_module_ok: "codec_adapter ((codec_module env now cx n)\<lparr>ad_state := st\<rparr>)"
  by (simp add: codec_module_def Let_def v1_adapter.codec_adapter_axioms v2_adapter.codec_adapter_axioms
      v3_adapter.codec_adapter_axioms v4_adapter.codec_adapter_axioms)

lemma codec_module_version:
  "ad_wire_version ((codec_module env now cx n)\<lparr>ad_state := st\<rparr>) = ad_wire_version (codec_module env 0 None n)"
  by (simp add: codec_module_def Let_def shared_knock_codec_v1_adapter_def shared_knock_codec_v2_adapter_def
      shared_knock_codec_v3_adapter_def shared_knock_codec_v4_adapter_def)

lemma lookup_wire_None:
  "m7mux_normalize_adapter_lookup_wire_version reg v = None \<longleftrightarrow> v \<notin> ad_wire_version ` set reg"
  by (auto simp: m7mux_normalize_adapter_lookup_wire_version_def find_idx_None)

lemma live_registry_ok: "codecs_ok (case_prod (live_registry env p))"
proof -
  have "adapters_ok (live_registry env p now d)" for now d
    using codec_module_ok by (auto simp: adapters_ok_def live_registry_def)
  moreover have "ad_wire_version ` set (live_registry env p now d) =
      (\<lambda>a. ad_wire_version (codec_module env 0 None (codec_number a))) ` set (sd_registry p)" for now d
    by (simp add: live_registry_def image_image codec_module_version)
  ultimately show ?thesis by (auto simp: codecs_ok_def lookup_wire_None)
qed

section \<open>The codec context\<close>

lemma runtime_sync_fill:
  "app_runtime_sync_codec_context env d (Some cfg) (Some server) =
     (case fill_codec_context env d cfg server of
        (False, d1) \<Rightarrow> (False, d1)
      | (True, d1) \<Rightarrow>
          (case m7mux_set_context (wire_policy_context (the (dm_codec d1)) (sv_enforce_wire_decode server)
                  (sv_enforce_wire_auth server)) of (ok, g) \<Rightarrow> (ok, d1\<lparr>dm_mux := g\<rparr>)))"
proof (cases "case dm_codec d of Some c \<Rightarrow> Some c
    | None \<Rightarrow> shared_knock_codec_context_create (re_codec_ready env) (re_codec_calloc env)")
  case None
  then show ?thesis
    unfolding app_runtime_sync_codec_context_def fill_codec_context_def prod.case option.case None by simp
next
  case (Some c0)
  obtain c1 r1 where s1: "shared_knock_codec_context_clear_server_key c0 (dm_refs d) = (c1, r1)" by fastforce
  obtain b3 c3 r3 where s3: "sync_clear_keychain (re_codec_ready env)
      (c1\<lparr>cx_server_secure := sv_secure server, cx_nonce_window_ms := NONCE_WINDOW_MS\<rparr>) r1 = (b3, c3, r3)"
    using prod_cases3 by blast
  obtain b4 c4 r4 where s4: "(if sv_secure server \<and> sv_priv_key server \<noteq> None
      then shared_knock_codec_context_set_server_key (re_codec_ready env) (w_malloc (re_world env)) (re_up_ref env) c3
        (zero_server_key\<lparr>sk_name := Some (sv_name server), sk_private_key := sv_priv_key server\<rparr>) r3
      else (True, c3, r3)) = (b4, c4, r4)" using prod_cases3 by blast
  obtain b5 c5 r5 where s5: "sync_add_users (re_codec_ready env) (w_malloc (re_world env)) (re_up_ref env)
      (sc_users cfg) c4 r4 = (b5, c5, r5)" using prod_cases3 by blast
  show ?thesis
    unfolding app_runtime_sync_codec_context_def fill_codec_context_def prod.case option.case Some s1 Let_def s3 s4 s5
    by (cases b3; cases b4; cases b5; simp add: s4 s5)
qed

lemma set_context_ok:
  "m7mux_set_context (wire_policy_context c e a) = (True, (wire_policy_context c e a)\<lparr>mx_internal := True\<rparr>)"
  by (simp add: m7mux_set_context_def wire_policy_context_def m7mux_connect_validate_context_def Let_def)

lemma fill_facts:
  assumes bal: "codec_fine (dm_codec d)" "dm_refs d = other + codec_refs (dm_codec d)"
    and run: "fill_codec_context env d cfg server = (b, d1)"
  shows "codec_fine (dm_codec d1)" "dm_refs d1 = other + codec_refs (dm_codec d1)" "same_frame d d1"
    "b \<Longrightarrow> \<exists>c. dm_codec d1 = Some c \<and> map ke_name (entries_in_use c) = enabled_names (sc_users cfg)"
proof -
  define g where "g = (wire_policy_context (the (dm_codec d1)) (sv_enforce_wire_decode server)
      (sv_enforce_wire_auth server))\<lparr>mx_internal := True\<rparr>"
  define d2 where "d2 = (if b then d1\<lparr>dm_mux := g\<rparr> else d1)"
  have s: "app_runtime_sync_codec_context env d (Some cfg) (Some server) = (b, d2)"
    using run by (cases b) (simp_all add: runtime_sync_fill set_context_ok d2_def g_def)
  note f = sync_facts [OF bal s]
  show "codec_fine (dm_codec d1)" "dm_refs d1 = other + codec_refs (dm_codec d1)" "same_frame d d1"
    using f(1-3) by (cases b; simp add: d2_def same_frame_def)+
  show "b \<Longrightarrow> \<exists>c. dm_codec d1 = Some c \<and> map ke_name (entries_in_use c) = enabled_names (sc_users cfg)"
    using f(4) by (auto simp: d2_def)
qed

section \<open>Registration\<close>

text \<open>The registration touches the codecs only.\<close>

definition same_but_codecs :: "siglatchd \<Rightarrow> siglatchd \<Rightarrow> bool" where
  "same_but_codecs p q \<longleftrightarrow> q = p\<lparr>sd_codecs := sd_codecs q, sd_registry := sd_registry q\<rparr>"

lemma register_loop_frame: "register_loop env ns names p = (b, q) \<Longrightarrow> same_but_codecs p q"
proof (induction env ns names p rule: register_loop.induct)
  case (2 env n ns names p)
  obtain ok reg where r: "m7mux_normalize_adapter_register (sd_registry p)
      (codec_module env (se_time env) (dm_codec_view (sd_daemon p)) n) = (ok, reg)" by fastforce
  show ?case
  proof (cases ok)
    case True
    with 2 r have "same_but_codecs (p\<lparr>sd_registry := reg\<rparr>) q" by (simp add: Let_def)
    then show ?thesis by (simp add: same_but_codecs_def)
  next
    case False
    with 2(2) r show ?thesis by (auto simp: Let_def same_but_codecs_def)
  qed
qed (simp add: same_but_codecs_def)

lemma register_frame: "app_startup_register_codec_modules env p = (b, q) \<Longrightarrow> same_but_codecs p q"
proof -
  assume r: "app_startup_register_codec_modules env p = (b, q)"
  have "same_but_codecs p q" if "register_loop env [1, 2, 3, 4] [] (p\<lparr>sd_codecs := s\<rparr>) = (b, q)" for s
    using register_loop_frame [OF that] by (simp add: same_but_codecs_def)
  with r show ?thesis
    by (auto simp: app_startup_register_codec_modules_def same_but_codecs_def split: if_splits)
qed

lemma same_but_codecsD:
  assumes "same_but_codecs p q"
  shows "sd_daemon q = sd_daemon p" "sd_nonce q = sd_nonce p" "sd_signal q = sd_signal p"
    "sd_signals q = sd_signals p" "sd_kernel q = sd_kernel p" "sd_output_mode q = sd_output_mode p"
proof -
  obtain c r where "q = p\<lparr>sd_codecs := c, sd_registry := r\<rparr>" using assms by (auto simp: same_but_codecs_def)
  then show "sd_daemon q = sd_daemon p" "sd_nonce q = sd_nonce p" "sd_signal q = sd_signal p"
    "sd_signals q = sd_signals p" "sd_kernel q = sd_kernel p" "sd_output_mode q = sd_output_mode p" by simp_all
qed

section \<open>What stays balanced\<close>

text \<open>Before the listener starts: the sockets are those of others, the keys are accounted for.\<close>

definition daemon_idle :: "int set \<Rightarrow> key_refs \<Rightarrow> daemon \<Rightarrow> bool" where
  "daemon_idle R other d \<longleftrightarrow> so_open (dm_socks d) = R \<and> ls_sock (dm_listener d) = -1 \<and>
     snd (dm_config d) = (fst (dm_config d) \<noteq> None) \<and> codec_fine (dm_codec d) \<and>
     dm_refs d = other + attached_refs (fst (dm_config d)) + codec_refs (dm_codec d)"

text \<open>Uninstalling the signals gives the dispositions \<open>k\<close>.\<close>

definition signals_restore :: "startup_env \<Rightarrow> kernel_signals \<Rightarrow> siglatchd \<Rightarrow> bool" where
  "signals_restore env k p \<longleftrightarrow> lib_signal_uninstall (se_can_set env) (sd_signals p) (sd_kernel p) = (lib_signal_initial, k)"

lemma app_install_restore:
  assumes "app_signal_install can_set lib k = (s, lib', k')" "lib = lib_signal_initial"
  shows "lib_signal_uninstall can_set lib' k' = (lib_signal_initial, k)"
proof -
  obtain ok where i: "lib_signal_install can_set (Some app_signal_config) lib_signal_state_reset lib k = (ok, s, lib', k')"
    using assms(1) by (cases "lib_signal_install can_set (Some app_signal_config) lib_signal_state_reset lib k")
      (simp add: app_signal_install_def)
  show ?thesis
  proof (cases ok)
    case True
    with install_uninstall(1) [of can_set "Some app_signal_config" lib_signal_state_reset lib k s lib' k' "[SIGINT, SIGTERM]"]
      i assms(2) show ?thesis
      by (simp add: config_signals_def app_signal_config_def lib_signal_initial_def SIGINT_def SIGTERM_def)
  next
    case False
    with i assms(2) have "lg_installed lib' = []" "k' = k"
      by (auto simp: lib_signal_install_def config_signals_def app_signal_config_def lib_signal_uninstall_def
          lib_signal_initial_def sigaction_set_def SIGINT_def SIGTERM_def Let_def LIB_SIGNAL_MAX_SIGNALS_def
          split: if_splits prod.splits bool.splits)
    then show ?thesis by (simp add: lib_signal_uninstall_def)
  qed
qed

lemma register_loop_codecs: "register_loop env ns names p = (b, q) \<Longrightarrow> sd_codecs q \<subseteq> sd_codecs p"
proof (induction env ns names p rule: register_loop.induct)
  case (2 env n ns names p)
  then show ?case by (auto simp: Let_def split: prod.splits bool.splits)
qed simp

lemma register_codecs:
  assumes "app_startup_register_codec_modules env p = (b, q)" "sd_codecs p \<subseteq> {1, 2, 3, 4}"
  shows "sd_codecs q \<subseteq> {1, 2, 3, 4}"
proof -
  have "sd_codecs q \<subseteq> {1, 2, 3, 4}"
    if "register_loop env [1, 2, 3, 4] [] (p\<lparr>sd_codecs := sd_codecs p \<union> {1, 2, 3, 4}\<rparr>) = (b, q)"
    using register_loop_codecs [OF that] assms(2) by auto
  with assms show ?thesis
    unfolding app_startup_register_codec_modules_def by (auto split: if_splits)
qed

text \<open>The state between the start and the listener.\<close>

definition start_inv :: "startup_env \<Rightarrow> int set \<Rightarrow> key_refs \<Rightarrow> kernel_signals \<Rightarrow> siglatchd \<Rightarrow> bool" where
  "start_inv env R other k p \<longleftrightarrow>
     daemon_idle R other (sd_daemon p) \<and> signals_restore env k p \<and> sd_codecs p \<subseteq> {1, 2, 3, 4}"

lemma sync_start:
  assumes inv: "start_inv env R other k p" and run: "app_startup_sync_codec_context env p = (b, q)"
  shows "start_inv env R other k q" "b \<Longrightarrow> mx_internal (dm_mux (sd_daemon q))"
    "dm_config (sd_daemon q) = dm_config (sd_daemon p)" "dm_listener (sd_daemon q) = dm_listener (sd_daemon p)"
proof -
  let ?d = "sd_daemon p"
  have "start_inv env R other k q \<and> (b \<longrightarrow> mx_internal (dm_mux (sd_daemon q))) \<and>
    dm_config (sd_daemon q) = dm_config ?d \<and> dm_listener (sd_daemon q) = dm_listener ?d"
  proof (cases "fst (dm_config ?d) = None \<or> dm_server ?d = None")
    case True
    with run inv show ?thesis by (auto simp: app_startup_sync_codec_context_def Let_def split: option.splits)
  next
    case False
    then obtain cfg server where c: "fst (dm_config ?d) = Some cfg" "dm_server ?d = Some server" by auto
    obtain b1 d1 where f: "fill_codec_context (se_runtime env) ?d cfg server = (b1, d1)" by fastforce
    have bal: "codec_fine (dm_codec ?d)" "dm_refs ?d = (other + attached_refs (Some cfg)) + codec_refs (dm_codec ?d)"
      using inv c by (simp_all add: start_inv_def daemon_idle_def)
    note ff = fill_facts [OF bal f]
    have idle1: "daemon_idle R other d1" "dm_config d1 = dm_config ?d" "dm_listener d1 = dm_listener ?d"
      using inv c ff(1-3) by (simp_all add: start_inv_def daemon_idle_def same_frame_def)
    show ?thesis
    proof (cases b1)
      case False
      with run c f idle1 inv show ?thesis
        by (auto simp: app_startup_sync_codec_context_def start_inv_def signals_restore_def)
    next
      case True
      then obtain x where x: "dm_codec d1 = Some x" using ff(4) by blast
      obtain b2 p2 where r: "app_startup_register_codec_modules env (p\<lparr>sd_daemon := d1\<rparr>) = (b2, p2)" by fastforce
      note same = same_but_codecsD [OF register_frame [OF r]]
      have inv2: "start_inv env R other k p2"
        using inv idle1 same register_codecs [OF r] by (simp add: start_inv_def signals_restore_def)
      show ?thesis
      proof (cases b2)
        case False
        with run c f True r inv2 same idle1 show ?thesis by (auto simp: app_startup_sync_codec_context_def)
      next
        case b2: True
        have "b = True \<and> q = sd_upd_daemon (\<lambda>d. d\<lparr>dm_mux := (wire_policy_context x (sv_enforce_wire_decode server)
            (sv_enforce_wire_auth server))\<lparr>mx_internal := True\<rparr>\<rparr>) p2"
          using run c f True r b2 x same(1) by (simp add: app_startup_sync_codec_context_def set_context_ok)
        with inv2 same(1) idle1 show ?thesis by (simp add: start_inv_def daemon_idle_def signals_restore_def)
      qed
    qed
  qed
  then show "start_inv env R other k q" "b \<Longrightarrow> mx_internal (dm_mux (sd_daemon q))"
    "dm_config (sd_daemon q) = dm_config (sd_daemon p)" "dm_listener (sd_daemon q) = dm_listener (sd_daemon p)"
    by blast+
qed

lemma output_mode_frame:
  "start_inv env R other k (app_startup_resolve_output_mode env parsed p) = start_inv env R other k p"
  "sd_daemon (app_startup_resolve_output_mode env parsed p) = sd_daemon p"
  "sd_nonce (app_startup_resolve_output_mode env parsed p) = sd_nonce p"
  by (auto simp: app_startup_resolve_output_mode_def output_set_mode_def start_inv_def signals_restore_def Let_def
      split: option.split)

lemma output_mode_registry: "sd_registry (app_startup_resolve_output_mode env parsed p) = sd_registry p"
  by (simp add: app_startup_resolve_output_mode_def output_set_mode_def Let_def split: option.split)

text \<open>A start that goes on has loaded a configuration, selected a server and installed the context of the mux.\<close>

lemma load_start:
  assumes inv: "start_inv env R other k p" and fresh: "dm_config (sd_daemon p) = (None, False)"
    and run: "startup_load env st p = (b, st', q)"
  shows "start_inv env R other k q"
    "b \<Longrightarrow> st_should_exit st' = st_should_exit st \<Longrightarrow> \<not> ov_dump_config_requested (pp_values (st_parsed st)) \<Longrightarrow>
       mx_internal (dm_mux (sd_daemon q)) \<and> st_exit_code st' = 0"
    "b \<Longrightarrow> ov_dump_config_requested (pp_values (st_parsed st)) \<Longrightarrow> st_should_exit st'"
proof -
  let ?v = "pp_values (st_parsed st)"
  let ?path = "if ov_config_path ?v \<noteq> [] then ov_config_path ?v else SL_CONFIG_PATH_DEFAULT"
  let ?p1 = "sd_upd_daemon (\<lambda>d. d\<lparr>dm_listener := (dm_listener d)\<lparr>ls_config_path := lcpy ?path PATH_MAX\<rparr>\<rparr>) p"
  have inv1: "start_inv env R other k ?p1" using inv by (simp add: start_inv_def daemon_idle_def signals_restore_def)
  have "start_inv env R other k q \<and>
    (b \<longrightarrow> st_should_exit st' = st_should_exit st \<longrightarrow> \<not> ov_dump_config_requested ?v \<longrightarrow>
       mx_internal (dm_mux (sd_daemon q)) \<and> st_exit_code st' = 0) \<and>
    (b \<longrightarrow> ov_dump_config_requested ?v \<longrightarrow> st_should_exit st')"
  proof (cases "config_load_detached (re_world (se_runtime env)) ?path")
    case None
    have e: "(b, st', q) = (False, st, ?p1)"
      using run [symmetric] unfolding startup_load_def Let_def None option.case .
    from e have "b = False" "q = ?p1" by (simp_all only: prod.inject)
    with inv1 show ?thesis by (simp only: simp_thms)
  next
    case (Some cfg)
    let ?refs = "dm_refs (sd_daemon p) + config_key_refs cfg"
    let ?p2 = "sd_upd_daemon (\<lambda>d. d\<lparr>dm_config := (Some cfg, True), dm_refs := ?refs\<rparr>) ?p1"
    have at: "config_attach_ptr (dm_config (sd_daemon ?p1)) (Some cfg) (dm_refs (sd_daemon ?p1) + config_key_refs cfg) =
        ((Some cfg, True), ?refs)"
      using fresh by (simp add: config_attach_ptr_def config_attach_def)
    have inv2: "start_inv env R other k ?p2"
      using inv1 fresh by (simp add: start_inv_def daemon_idle_def signals_restore_def ac_simps)
    obtain sel l where s: "app_startup_select_server (st_parsed st) (se_getenv env) cfg (dm_listener (sd_daemon ?p2)) = (sel, l)"
      by fastforce
    let ?p3 = "sd_upd_daemon (\<lambda>d. d\<lparr>dm_listener := l\<rparr>) ?p2"
    have "ls_sock l = ls_sock (dm_listener (sd_daemon ?p2))" using s by (auto simp: app_startup_select_server_def Let_def)
    then have inv3: "start_inv env R other k ?p3" using inv2 by (simp add: start_inv_def daemon_idle_def signals_restore_def)
    obtain nok cache where n: "lib_nonce_cache_init (se_nonce env) (sd_nonce ?p3) None = (nok, cache)" by fastforce
    let ?p4 = "?p3\<lparr>sd_nonce := cache\<rparr>"
    have inv4: "start_inv env R other k ?p4" using inv3 by (simp add: start_inv_def signals_restore_def)
    obtain b5 p5 where y: "app_startup_sync_codec_context env (app_startup_resolve_output_mode env (st_parsed st) ?p4) = (b5, p5)"
      by fastforce
    have "start_inv env R other k (app_startup_resolve_output_mode env (st_parsed st) ?p4)"
      using inv4 by (simp only: output_mode_frame(1))
    note sy = sync_start [OF this y]
    have run': "(b, st', q) = (if \<not> sel then (False, st, ?p3) else if \<not> nok then (False, st, ?p4)
        else if ov_dump_config_requested ?v then (True, st\<lparr>st_should_exit := True, st_exit_code := 0\<rparr>, ?p4)
        else if b5 then (True, st\<lparr>st_exit_code := 0\<rparr>, p5) else (False, st, p5))"
      using run [symmetric] unfolding startup_load_def Let_def Some option.case at prod.case s n y
      by (simp split: bool.split)
    show ?thesis
      using run' inv3 inv4 sy(1,2) by (auto split: if_splits)
  qed
  then show "start_inv env R other k q"
    "b \<Longrightarrow> st_should_exit st' = st_should_exit st \<Longrightarrow> \<not> ov_dump_config_requested (pp_values (st_parsed st)) \<Longrightarrow>
       mx_internal (dm_mux (sd_daemon q)) \<and> st_exit_code st' = 0"
    "b \<Longrightarrow> ov_dump_config_requested (pp_values (st_parsed st)) \<Longrightarrow> st_should_exit st'"
    by blast+
qed

section \<open>A process from its start to its end\<close>

definition program_fresh :: "int set \<Rightarrow> key_refs \<Rightarrow> kernel_signals \<Rightarrow> siglatchd \<Rightarrow> bool" where
  "program_fresh R other k p \<longleftrightarrow> so_open (dm_socks (sd_daemon p)) = R \<and> dm_config (sd_daemon p) = (None, False) \<and>
     dm_codec (sd_daemon p) = None \<and> dm_refs (sd_daemon p) = other \<and> sd_signals p = lib_signal_initial \<and>
     sd_kernel p = k \<and> sd_codecs p = {}"

text \<open>What is released: descriptors, keys, the configuration, the codecs, the dispositions of the signals.\<close>

definition program_released :: "int set \<Rightarrow> key_refs \<Rightarrow> kernel_signals \<Rightarrow> siglatchd \<Rightarrow> bool" where
  "program_released R other k p \<longleftrightarrow> program_fresh R other k p \<and> sd_registry p = []"

lemma prepare_start:
  assumes fresh: "program_fresh R other k p" and run: "app_startup_prepare env argv p = (b, st, q)"
  shows "start_inv env R other k q"
    "b \<Longrightarrow> \<not> st_should_exit st \<Longrightarrow> mx_internal (dm_mux (sd_daemon q)) \<and> st_exit_code st = 0"
proof -
  obtain st0 p1 where r: "app_startup_reset_state p = (st0, p1)" by fastforce
  then have p1: "start_inv env R other k p1" "dm_config (sd_daemon p1) = (None, False)" "sd_signals p1 = lib_signal_initial"
    "sd_kernel p1 = k" "\<not> st_should_exit st0"
    using fresh
    by (auto simp: app_startup_reset_state_def start_inv_def daemon_idle_def signals_restore_def program_fresh_def
        lib_signal_uninstall_def lib_signal_initial_def zero_startup_def)
  obtain ok parsed where o: "app_opts_parse argv = (ok, parsed)" by fastforce
  obtain s lib k' where g: "app_signal_install (se_can_set env) (sd_signals p1) (sd_kernel p1) = (s, lib, k')"
    using prod_cases3 by blast
  let ?st = "st0\<lparr>st_parsed := parsed\<rparr>"
  let ?p2 = "p1\<lparr>sd_signal := s, sd_signals := lib, sd_kernel := k'\<rparr>"
  have inv2: "start_inv env R other k ?p2"
    using p1 app_install_restore [OF g p1(3)] by (simp add: start_inv_def signals_restore_def)
  consider "(b, st, q) = (True, ?st\<lparr>st_should_exit := True,
        st_exit_code := (if pp_exit_code parsed \<noteq> 0 then pp_exit_code parsed else 2)\<rparr>, p1)"
    | "(b, st, q) = (True, ?st\<lparr>st_should_exit := True, st_exit_code := 0\<rparr>, p1)"
    | "startup_load env ?st ?p2 = (b, st, q)"
    using run unfolding app_startup_prepare_def r prod.case o Let_def g
    by (cases ok; cases "ov_help_requested (pp_values parsed) \<or> ov_version_requested (pp_values parsed)")
      (simp_all only: if_True if_False not_True_eq_False not_False_eq_True simp_thms)
  then have "start_inv env R other k q \<and> (b \<longrightarrow> \<not> st_should_exit st \<longrightarrow>
      mx_internal (dm_mux (sd_daemon q)) \<and> st_exit_code st = 0)"
  proof cases
    case 1
    then show ?thesis using p1(1) by simp
  next
    case 2
    then show ?thesis using p1(1) by simp
  next
    case 3
    have "dm_config (sd_daemon ?p2) = (None, False)" using p1(2) by simp
    note ld = load_start [OF inv2 this 3]
    show ?thesis using ld p1(5) by (cases "ov_dump_config_requested (pp_values parsed)") auto
  qed
  then show "start_inv env R other k q"
    "b \<Longrightarrow> \<not> st_should_exit st \<Longrightarrow> mx_internal (dm_mux (sd_daemon q)) \<and> st_exit_code st = 0" by blast+
qed

text \<open>Releasing what a daemon holds, with its listener open on a descriptor that is not one of \<open>R\<close>, or without.\<close>

definition daemon_held :: "int set \<Rightarrow> key_refs \<Rightarrow> daemon \<Rightarrow> bool" where
  "daemon_held R other d \<longleftrightarrow> daemon_idle R other d \<or> daemon_inv R other d"

lemma release_app_result:
  assumes "snd (dm_config (sd_daemon p)) = (fst (dm_config (sd_daemon p)) \<noteq> None)"
    and "codec_fine (dm_codec (sd_daemon p))"
    and "dm_refs (sd_daemon p) = other + attached_refs (fst (dm_config (sd_daemon p))) + codec_refs (dm_codec (sd_daemon p))"
    and "signals_restore env k p" "sd_codecs p \<subseteq> {1, 2, 3, 4}" "so_open (dm_socks (sd_daemon p)) = R"
  shows "program_fresh R other k (release_app env p)"
proof -
  let ?p1 = "workspace_shutdown (signals_uninstall env (app_startup_shutdown p))"
  have sig: "sd_signals ?p1 = lib_signal_initial" "sd_kernel ?p1 = k" "sd_codecs ?p1 = {}"
    and frame: "dm_config (sd_daemon ?p1) = dm_config (sd_daemon p)" "dm_socks (sd_daemon ?p1) = dm_socks (sd_daemon p)"
      "dm_codec (sd_daemon ?p1) = None"
    using assms(4,5)
    by (auto simp: workspace_shutdown_def signals_uninstall_def app_startup_shutdown_def signals_restore_def split: option.split)
  have "dm_refs (sd_daemon ?p1) = other + attached_refs (fst (dm_config (sd_daemon p)))"
    using assms(3) destroy_refs
    by (cases "dm_codec (sd_daemon p)")
      (auto simp: workspace_shutdown_def signals_uninstall_def app_startup_shutdown_def split: prod.split)
  then have "config_shutdown (dm_config (sd_daemon ?p1)) (dm_refs (sd_daemon ?p1)) = ((None, False), other)"
    using assms(1) frame config_destroy_refs [of "fst (dm_config (sd_daemon p))" other]
    by (auto simp: config_shutdown_def)
  with sig frame assms(6) show ?thesis by (simp add: release_app_def program_fresh_def Let_def)
qed

lemma release_lib_result: "program_fresh R other k p \<Longrightarrow> program_released R other k (release_lib env p)"
  by (simp add: release_lib_def signals_uninstall_def program_released_def program_fresh_def lib_signal_uninstall_def
      lib_signal_initial_def m7mux_normalize_adapter_reset_registry_def Let_def)

lemma cleanup_result:
  assumes held: "daemon_held R other (sd_daemon (pc_siglatchd pc))" and up: "pc_lifecycle pc = fully_up"
    and sig: "signals_restore env k (pc_siglatchd pc)" "sd_codecs (pc_siglatchd pc) \<subseteq> {1, 2, 3, 4}"
  shows "program_released R other k (pc_siglatchd (main_cleanup env pc))"
    "pc_lifecycle (main_cleanup env pc) = lifecycle_initial\<lparr>lc_up := left_up\<rparr>"
    "pc_heap (main_cleanup env pc) = pc_heap pc" "pc_users (main_cleanup env pc) = pc_users pc"
proof -
  let ?p = "pc_siglatchd pc"
  let ?sock = "ls_sock (dm_listener (sd_daemon ?p))"
  let ?p1 = "if 0 \<le> ?sock then sd_upd_daemon (\<lambda>d. d\<lparr>dm_socks := close_socket ?sock (dm_socks d)\<rparr>) ?p else ?p"
  let ?p2 = "?p1\<lparr>sd_nonce := lib_nonce_cache_shutdown (sd_nonce ?p1),
                  sd_signal := snd (lib_signal_take_last_signal (sd_signal ?p1))\<rparr>"
  have "so_open (dm_socks (sd_daemon ?p2)) = R"
    using held by (auto simp: daemon_held_def daemon_idle_def daemon_inv_def listens_def close_socket_def)
  then have "program_fresh R other k (release_app env ?p2)"
    using held sig
    by (intro release_app_result) (auto simp: daemon_held_def daemon_idle_def daemon_inv_def signals_restore_def)
  then have "program_released R other k (release_modules env fully_up ?p2)"
    using release_lib_result by (simp add: release_modules_def fully_up_def Let_def)
  then show "program_released R other k (pc_siglatchd (main_cleanup env pc))"
    unfolding main_cleanup_def Let_def up by simp
  show "pc_lifecycle (main_cleanup env pc) = lifecycle_initial\<lparr>lc_up := left_up\<rparr>"
    unfolding main_cleanup_def Let_def up by (simp add: shutdown_fully_up)
  show "pc_heap (main_cleanup env pc) = pc_heap pc" "pc_users (main_cleanup env pc) = pc_users pc"
    by (simp_all add: main_cleanup_def Let_def)
qed

text \<open>The listener: either it cannot start and nothing has changed, or the daemon holds its socket.\<close>

lemma listener_start:
  assumes kernel: "kernel_ok os" and idle: "daemon_idle R other d"
    and run: "app_udp_start_listener os (fst (dm_config d)) (dm_listener d) (dm_socks d) = (fd, l, k)"
  shows "fd < 0 \<Longrightarrow> daemon_idle R other (d\<lparr>dm_listener := l, dm_socks := k\<rparr>)"
    "0 \<le> fd \<Longrightarrow> daemon_inv R other (d\<lparr>dm_listener := l, dm_socks := k\<rparr>)"
proof -
  have "(fd < 0 \<longrightarrow> daemon_idle R other (d\<lparr>dm_listener := l, dm_socks := k\<rparr>)) \<and>
    (0 \<le> fd \<longrightarrow> daemon_inv R other (d\<lparr>dm_listener := l, dm_socks := k\<rparr>))"
  proof (cases "listener_server (fst (dm_config d)) (dm_listener d)")
    case None
    with run idle show ?thesis by (auto simp: app_udp_start_listener_def daemon_idle_def)
  next
    case (Some server)
    obtain sock port k1 where o: "app_udp_open_bound_socket os server (dm_socks d) = ((sock, port), k1)"
      by (metis prod.collapse)
    note fds = open_bound_fds [OF kernel o]
    show ?thesis
    proof (cases "sock < 0")
      case True
      with run Some o have "fd = -1" "l = dm_listener d" "k = k1"
        by (simp_all add: app_udp_start_listener_def)
      with fds(1) [OF True] idle show ?thesis by (simp add: daemon_idle_def)
    next
      case False
      with run Some o have l: "fd = sock" "l = (dm_listener d)\<lparr>ls_sock := sock, ls_bound_port := port,
          ls_bound_ip := lcpy (app_udp_effective_bind_ip server) MAX_IP_RANGE_LEN\<rparr>" "k = k1"
        by (auto simp: app_udp_start_listener_def)
      have "so_open k1 = insert sock R \<and> sock \<notin> R" using fds(2) False idle by (simp add: daemon_idle_def)
      with l False idle show ?thesis by (simp add: daemon_idle_def daemon_inv_def listens_def)
    qed
  qed
  then show "fd < 0 \<Longrightarrow> daemon_idle R other (d\<lparr>dm_listener := l, dm_socks := k\<rparr>)"
    "0 \<le> fd \<Longrightarrow> daemon_inv R other (d\<lparr>dm_listener := l, dm_socks := k\<rparr>)" by blast+
qed

definition process_fresh :: "int set \<Rightarrow> key_refs \<Rightarrow> kernel_signals \<Rightarrow> process \<Rightarrow> bool" where
  "process_fresh R other k pc \<longleftrightarrow> program_fresh R other k (pc_siglatchd pc) \<and> pc_lifecycle pc = lifecycle_initial \<and>
     bh_owned (pc_heap pc) {#} \<and> heap_ok (pc_users pc) \<and> live (pc_users pc) = {}"

definition process_released :: "int set \<Rightarrow> key_refs \<Rightarrow> kernel_signals \<Rightarrow> string set \<Rightarrow> process \<Rightarrow> bool" where
  "process_released R other k up pc \<longleftrightarrow> program_released R other k (pc_siglatchd pc) \<and>
     pc_lifecycle pc = lifecycle_initial\<lparr>lc_up := up\<rparr> \<and>
     bh_owned (pc_heap pc) {#} \<and> heap_ok (pc_users pc) \<and> live (pc_users pc) = {}"

lemma main_after_boot:
  assumes kernel: "kernel_ok (re_net (se_runtime env))" and turns: "\<forall>te \<in> set turns. turn_ok te"
    and fresh: "process_fresh R other k pc0" and boot: "siglatch_boot starts lifecycle_initial = (True, lc)"
    and run: "siglatch_main starts env argv c turns t r pc0 = (status, pc)"
  shows "process_released R other k left_up pc"
proof -
  let ?p0 = "sd_upd_daemon (\<lambda>d. d\<lparr>dm_listener := zero_listener\<rparr>) (pc_siglatchd pc0)"
  have lc: "lc = fully_up" using boot_result(1) [OF boot] by simp
  have life: "pc_lifecycle pc0 = lifecycle_initial" and heap: "bh_owned (pc_heap pc0) {#}"
    and users: "heap_ok (pc_users pc0)" "live (pc_users pc0) = {}" and fr: "program_fresh R other k ?p0"
    using fresh by (simp_all add: process_fresh_def program_fresh_def)
  have finish: "process_released R other k left_up (main_cleanup env pc1)"
    if "daemon_held R other (sd_daemon (pc_siglatchd pc1))" "pc_lifecycle pc1 = fully_up"
      "signals_restore env k (pc_siglatchd pc1)" "sd_codecs (pc_siglatchd pc1) \<subseteq> {1, 2, 3, 4}"
      "bh_owned (pc_heap pc1) {#}" "heap_ok (pc_users pc1)" "live (pc_users pc1) = {}" for pc1
    using cleanup_result [OF that(1-4)] that(5-7) by (simp add: process_released_def)
  obtain b st p where pr: "app_startup_prepare env argv ?p0 = (b, st, p)" using prod_cases3 by blast
  note ps = prepare_start [OF fr pr]
  have inv: "daemon_idle R other (sd_daemon p)" "signals_restore env k p" "sd_codecs p \<subseteq> {1, 2, 3, 4}"
    using ps(1) by (simp_all add: start_inv_def)
  have stop: "process_released R other k left_up (main_cleanup env (pc0\<lparr>pc_siglatchd := p, pc_lifecycle := lc\<rparr>))"
    using inv heap users lc by (intro finish) (simp_all add: daemon_held_def)
  show ?thesis
  proof (cases "b \<and> \<not> st_should_exit st")
    case False
    with run stop show ?thesis
      unfolding siglatch_main_def Let_def life boot prod.case bool.case pr by (auto split: bool.splits if_splits)
  next
    case True
    obtain fd l kk where ls: "app_udp_start_listener (re_net (se_runtime env)) (fst (dm_config (sd_daemon p)))
        (dm_listener (sd_daemon p)) (dm_socks (sd_daemon p)) = (fd, l, kk)" using prod_cases3 by blast
    let ?p1 = "sd_upd_daemon (\<lambda>d. d\<lparr>dm_listener := l, dm_socks := kk\<rparr>) p"
    note li = listener_start [OF kernel inv(1) ls]
    obtain m us sent where dr: "app_daemon_run (live_registry env ?p1) (se_runtime env) c turns t
        \<lparr>mc_daemon = sd_daemon ?p1, mc_heap = pc_heap pc0, mc_procs = pc_procs pc0\<rparr> (pc_users pc0) r = (m, us, sent)"
      using prod_cases3 by blast
    have pc: "pc = (if fd < 0 then main_cleanup env (pc0\<lparr>pc_siglatchd := ?p1, pc_lifecycle := lc\<rparr>)
        else main_cleanup env (pc0\<lparr>pc_siglatchd := ?p1\<lparr>sd_daemon := mc_daemon m\<rparr>, pc_lifecycle := lc,
          pc_heap := mc_heap m, pc_procs := mc_procs m, pc_users := us, pc_sent := pc_sent pc0 @ sent\<rparr>))"
      using run True unfolding siglatch_main_def Let_def life boot prod.case bool.case pr ls dr
      by (auto split: if_splits)
    show ?thesis
    proof (cases "fd < 0")
      case fd: True
      then have "daemon_held R other (sd_daemon ?p1)" using li(1) by (simp add: daemon_held_def)
      then show ?thesis unfolding pc if_P [OF fd] using inv heap users lc
        by (intro finish) (simp_all add: signals_restore_def)
    next
      case fd: False
      have "daemon_fit R other (sd_daemon ?p1)"
        using li(2) fd ps(2) True by (simp add: daemon_fit_def)
      then have f: "daemon_fit R other (mc_daemon \<lparr>mc_daemon = sd_daemon ?p1, mc_heap = pc_heap pc0, mc_procs = pc_procs pc0\<rparr>)"
        and h: "bh_owned (mc_heap \<lparr>mc_daemon = sd_daemon ?p1, mc_heap = pc_heap pc0, mc_procs = pc_procs pc0\<rparr>) {#}"
        using heap by simp_all
      note rf = run_facts [OF live_registry_ok turns f h users dr]
      show ?thesis unfolding pc if_not_P [OF fd] using inv rf lc
        by (intro finish) (simp_all add: signals_restore_def daemon_held_def daemon_fit_def)
    qed
  qed
qed

section \<open>What a started daemon has\<close>

lemma codec_module_name:
  "ad_name ((codec_module env now cx n)\<lparr>ad_state := st\<rparr>) = ad_name (codec_module env 0 None n)"
  "ad_name (codec_module env now cx n) = ad_name (codec_module env 0 None n)"
  by (simp_all add: codec_module_def Let_def shared_knock_codec_v1_adapter_def shared_knock_codec_v2_adapter_def
      shared_knock_codec_v3_adapter_def shared_knock_codec_v4_adapter_def)

lemma register_names:
  assumes "m7mux_normalize_adapter_register reg a = (True, reg')"
  shows "map ad_name reg' = map ad_name reg @ [ad_name a]"
  using assms by (auto simp: m7mux_normalize_adapter_register_def split: if_splits option.splits)

lemma register_loop_names:
  "register_loop env ns names p = (True, q) \<Longrightarrow> sd_codecs q = sd_codecs p \<and>
   map ad_name (sd_registry q) = map ad_name (sd_registry p) @ map (\<lambda>n. ad_name (codec_module env 0 None n)) ns"
proof (induction ns arbitrary: names p)
  case (Cons n ns)
  let ?a = "codec_module env (se_time env) (dm_codec_view (sd_daemon p)) n"
  obtain ok reg where r: "m7mux_normalize_adapter_register (sd_registry p) ?a = (ok, reg)" by fastforce
  show ?case
  proof (cases ok)
    case True
    with Cons.prems r have "register_loop env ns (ad_name ?a # names) (p\<lparr>sd_registry := reg\<rparr>) = (True, q)"
      by (simp add: Let_def)
    moreover have "ad_name ?a = ad_name (codec_module env 0 None n)" by (rule codec_module_name(2))
    ultimately show ?thesis using Cons.IH register_names [of "sd_registry p" ?a reg] r True by fastforce
  next
    case False
    with Cons.prems r show ?thesis by (simp add: Let_def)
  qed
qed simp

definition codec_names :: "string list" where
  "codec_names = [''codec.v1'', ''codec.v2'', ''codec.v3'', ''codec.v4'']"

lemma modules_names: "map (\<lambda>n. ad_name (codec_module env 0 None n)) [1, 2, 3, 4] = codec_names"
  by (simp add: codec_module_def Let_def codec_names_def shared_knock_codec_v1_adapter_def shared_knock_codec_v2_adapter_def
      shared_knock_codec_v3_adapter_def shared_knock_codec_v4_adapter_def)

lemma register_all:
  assumes "app_startup_register_codec_modules env p = (True, q)"
  shows "map ad_name (sd_registry q) = map ad_name (sd_registry p) @ codec_names" "{1, 2, 3, 4} \<subseteq> sd_codecs q"
proof -
  have "register_loop env [1, 2, 3, 4] [] (p\<lparr>sd_codecs := sd_codecs p \<union> {1, 2, 3, 4}\<rparr>) = (True, q)"
    using assms by (auto simp: app_startup_register_codec_modules_def split: if_splits)
  from register_loop_names [OF this]
  show "map ad_name (sd_registry q) = map ad_name (sd_registry p) @ codec_names" "{1, 2, 3, 4} \<subseteq> sd_codecs q"
    unfolding modules_names by auto
qed

text \<open>The codecs that the daemon's loop sees, in the order in which they are asked.\<close>

lemma live_names:
  assumes "map ad_name (sd_registry p) = codec_names"
  shows "map ad_name (live_registry env p now d) = codec_names"
proof -
  have "map ad_name (live_registry env p now d) =
      map (\<lambda>a. ad_name (codec_module env 0 None (codec_number a))) (sd_registry p)"
    by (auto simp: live_registry_def intro: codec_module_name(2))
  also have "\<dots> = map (\<lambda>n. ad_name (codec_module env 0 None n)) (map codec_number (sd_registry p))" by simp
  also have "map codec_number (sd_registry p) = [1, 2, 3, 4]"
  proof -
    have "map codec_number (sd_registry p) = map (\<lambda>name. if name = ''codec.v1'' then 1 else if name = ''codec.v2'' then 2
        else if name = ''codec.v3'' then 3 else 4) (map ad_name (sd_registry p))"
      by (simp add: codec_number_def)
    then show ?thesis unfolding assms codec_names_def by simp
  qed
  finally show ?thesis unfolding modules_names .
qed

lemma sync_ready:
  assumes bal: "codec_fine (dm_codec (sd_daemon p))"
    "dm_refs (sd_daemon p) = other + codec_refs (dm_codec (sd_daemon p))"
    and run: "app_startup_sync_codec_context env p = (True, q)"
  shows "\<exists>cfg server c. fst (dm_config (sd_daemon p)) = Some cfg \<and> dm_server (sd_daemon p) = Some server \<and>
      dm_codec (sd_daemon q) = Some c \<and> map ke_name (entries_in_use c) = enabled_names (sc_users cfg) \<and>
      dm_config (sd_daemon q) = dm_config (sd_daemon p) \<and> dm_listener (sd_daemon q) = dm_listener (sd_daemon p) \<and>
      mx_enforce_wire_decode (dm_mux (sd_daemon q)) = sv_enforce_wire_decode server \<and>
      mx_enforce_wire_auth (dm_mux (sd_daemon q)) = sv_enforce_wire_auth server \<and>
      map ad_name (sd_registry q) = map ad_name (sd_registry p) @ codec_names \<and> sd_nonce q = sd_nonce p"
proof -
  let ?d = "sd_daemon p"
  obtain cfg server where c: "fst (dm_config ?d) = Some cfg" "dm_server ?d = Some server"
    using run by (auto simp: app_startup_sync_codec_context_def Let_def split: option.splits)
  obtain b1 d1 where f: "fill_codec_context (se_runtime env) ?d cfg server = (b1, d1)" by fastforce
  note ff = fill_facts [OF bal f]
  have b1: "b1" using run c f by (cases b1) (auto simp: app_startup_sync_codec_context_def)
  then obtain x where x: "dm_codec d1 = Some x" "map ke_name (entries_in_use x) = enabled_names (sc_users cfg)"
    using ff(4) by blast
  obtain b2 p2 where r: "app_startup_register_codec_modules env (p\<lparr>sd_daemon := d1\<rparr>) = (b2, p2)" by fastforce
  note same = same_but_codecsD [OF register_frame [OF r]]
  have b2: "b2" using run c f b1 r by (cases b2) (auto simp: app_startup_sync_codec_context_def)
  have "q = sd_upd_daemon (\<lambda>d. d\<lparr>dm_mux := (wire_policy_context x (sv_enforce_wire_decode server)
      (sv_enforce_wire_auth server))\<lparr>mx_internal := True\<rparr>\<rparr>) p2"
    using run c f b1 r b2 x same(1) by (simp add: app_startup_sync_codec_context_def set_context_ok)
  moreover have "map ad_name (sd_registry p2) = map ad_name (sd_registry p) @ codec_names"
    using register_all(1) [of env "p\<lparr>sd_daemon := d1\<rparr>" p2] r b2 by simp
  moreover have "dm_config d1 = dm_config ?d" "dm_listener d1 = dm_listener ?d" using ff(3) by (simp_all add: same_frame_def)
  ultimately show ?thesis using c x same by (auto simp: wire_policy_context_def)
qed

lemma select_facts:
  assumes "app_startup_select_server parsed getenv cfg l = (True, l')"
  shows "\<exists>server. listener_server (Some cfg) l' = Some server \<and> sv_name server = startup_server_name parsed getenv cfg \<and>
    sv_enabled server \<and> (\<exists>i. l' = l\<lparr>ls_server := i\<rparr>)"
proof -
  let ?name = "startup_server_name parsed getenv cfg"
  from assms have "server_select (Some cfg) ?name \<noteq> None" "l' = l\<lparr>ls_server := config_server_by_name (Some cfg) ?name\<rparr>"
    by (auto simp: app_startup_select_server_def Let_def split: if_splits)
  moreover then obtain s where s: "config_server_by_name_from_ptr (Some cfg) ?name = Some s" "sv_enabled s"
    by (auto simp: server_select_def split: option.splits if_splits)
  ultimately show ?thesis using server_by_name_agrees [OF s(1)] s(2) by (auto simp: listener_server_def)
qed

text \<open>What a start that goes on has set up from the configuration file.\<close>

definition started_on :: "startup_env \<Rightarrow> AppParsedOpts \<Rightarrow> siglatch_config \<Rightarrow> siglatch_server \<Rightarrow> siglatchd \<Rightarrow> bool" where
  "started_on env parsed cfg server q \<longleftrightarrow>
     config_load_detached (re_world (se_runtime env))
       (if ov_config_path (pp_values parsed) \<noteq> [] then ov_config_path (pp_values parsed) else SL_CONFIG_PATH_DEFAULT) = Some cfg \<and>
     dm_config (sd_daemon q) = (Some cfg, True) \<and> dm_server (sd_daemon q) = Some server \<and> sv_enabled server \<and>
     sv_name server = startup_server_name parsed (se_getenv env) cfg \<and>
     (\<exists>c. dm_codec (sd_daemon q) = Some c \<and> map ke_name (entries_in_use c) = enabled_names (sc_users cfg)) \<and>
     mx_enforce_wire_decode (dm_mux (sd_daemon q)) = sv_enforce_wire_decode server \<and>
     mx_enforce_wire_auth (dm_mux (sd_daemon q)) = sv_enforce_wire_auth server \<and>
     map ad_name (sd_registry q) = codec_names \<and>
     nonce_rel (nc_capacity (sd_nonce q)) (nc_nonce_strlen (sd_nonce q)) (nc_ttl_seconds (sd_nonce q)) (sd_nonce q) [] (se_time env)"

lemma load_keeps_parsed: "startup_load env st p = (b, st', q) \<Longrightarrow> st_parsed st' = st_parsed st"
  unfolding startup_load_def Let_def
  by (auto split: option.splits prod.splits if_splits bool.splits)

lemma load_ready:
  assumes inv: "start_inv env R other k p" and fresh: "dm_config (sd_daemon p) = (None, False)" "sd_registry p = []"
    and run: "startup_load env st p = (True, st', q)" and dump: "\<not> ov_dump_config_requested (pp_values (st_parsed st))"
  shows "\<exists>cfg server. started_on env (st_parsed st) cfg server q"
proof -
  let ?v = "pp_values (st_parsed st)"
  let ?path = "if ov_config_path ?v \<noteq> [] then ov_config_path ?v else SL_CONFIG_PATH_DEFAULT"
  let ?p1 = "sd_upd_daemon (\<lambda>d. d\<lparr>dm_listener := (dm_listener d)\<lparr>ls_config_path := lcpy ?path PATH_MAX\<rparr>\<rparr>) p"
  obtain cfg where Some: "config_load_detached (re_world (se_runtime env)) ?path = Some cfg"
    using run unfolding startup_load_def Let_def
    by (cases "config_load_detached (re_world (se_runtime env)) ?path") (simp_all del: if_split)
  let ?refs = "dm_refs (sd_daemon p) + config_key_refs cfg"
  let ?p2 = "sd_upd_daemon (\<lambda>d. d\<lparr>dm_config := (Some cfg, True), dm_refs := ?refs\<rparr>) ?p1"
  have at: "config_attach_ptr (dm_config (sd_daemon ?p1)) (Some cfg) (dm_refs (sd_daemon ?p1) + config_key_refs cfg) =
      ((Some cfg, True), ?refs)"
    using fresh by (simp add: config_attach_ptr_def config_attach_def)
  obtain sel l where s: "app_startup_select_server (st_parsed st) (se_getenv env) cfg (dm_listener (sd_daemon ?p2)) = (sel, l)"
    by fastforce
  let ?p3 = "sd_upd_daemon (\<lambda>d. d\<lparr>dm_listener := l\<rparr>) ?p2"
  obtain nok cache where n: "lib_nonce_cache_init (se_nonce env) (sd_nonce ?p3) None = (nok, cache)" by fastforce
  let ?p4 = "?p3\<lparr>sd_nonce := cache\<rparr>"
  let ?p4' = "app_startup_resolve_output_mode env (st_parsed st) ?p4"
  obtain b5 p5 where y: "app_startup_sync_codec_context env ?p4' = (b5, p5)" by fastforce
  have "(True, st', q) = (if \<not> sel then (False, st, ?p3) else if \<not> nok then (False, st, ?p4)
      else if ov_dump_config_requested ?v then (True, st\<lparr>st_should_exit := True, st_exit_code := 0\<rparr>, ?p4)
      else if b5 then (True, st\<lparr>st_exit_code := 0\<rparr>, p5) else (False, st, p5))"
    using run [symmetric] unfolding startup_load_def Let_def Some option.case at prod.case s n y
    by (simp split: bool.split)
  then have go: "sel" "nok" "b5" "q = p5" using dump by (auto split: if_splits)
  obtain server where sv: "listener_server (Some cfg) l = Some server"
    "sv_name server = startup_server_name (st_parsed st) (se_getenv env) cfg" "sv_enabled server"
    using select_facts [OF s [unfolded eqTrueI [OF go(1)]]] by blast
  have reg: "sd_registry ?p4' = []" using fresh(2) by (simp add: output_mode_registry)
  have d4: "dm_config (sd_daemon ?p4') = (Some cfg, True)" "dm_listener (sd_daemon ?p4') = l" "sd_nonce ?p4' = cache"
    "dm_codec (sd_daemon ?p4') = dm_codec (sd_daemon p)" "dm_refs (sd_daemon ?p4') = ?refs"
    by (simp_all add: output_mode_frame)
  have bal: "codec_fine (dm_codec (sd_daemon ?p4'))"
    "dm_refs (sd_daemon ?p4') = (other + config_key_refs cfg) + codec_refs (dm_codec (sd_daemon ?p4'))"
    using inv fresh(1) d4(4,5) by (simp_all add: start_inv_def daemon_idle_def ac_simps)
  have nr: "nonce_rel (nc_capacity cache) (nc_nonce_strlen cache) (nc_ttl_seconds cache) cache [] (se_time env)"
  proof -
    have "se_nonce env" using n go(2) by (cases "se_nonce env") (auto simp: lib_nonce_cache_init_def Let_def split: if_splits)
    then show ?thesis using n go(2) by (intro lib_nonce_cache_init_rel) (simp, assumption?)
  qed
  have sd: "dm_server (sd_daemon ?p4') = Some server" using d4 sv by (simp add: dm_server_def)
  obtain c where c: "dm_codec (sd_daemon q) = Some c" "map ke_name (entries_in_use c) = enabled_names (sc_users cfg)"
    "dm_config (sd_daemon q) = dm_config (sd_daemon ?p4')" "dm_listener (sd_daemon q) = dm_listener (sd_daemon ?p4')"
    "mx_enforce_wire_decode (dm_mux (sd_daemon q)) = sv_enforce_wire_decode server"
    "mx_enforce_wire_auth (dm_mux (sd_daemon q)) = sv_enforce_wire_auth server"
    "map ad_name (sd_registry q) = codec_names" "sd_nonce q = cache"
    using sync_ready [OF bal, of env p5] y go(3,4) d4 sd reg by auto
  have "dm_server (sd_daemon q) = Some server" using sd c(3,4) by (simp add: dm_server_def)
  with c d4 sv nr Some have "started_on env (st_parsed st) cfg server q"
    unfolding started_on_def by (simp del: if_split)
  then show ?thesis by blast
qed

end
