(* ===== verification/Startup_Properties.thy ===== *)
theory Startup_Properties
  imports Startup_Facts Reload_Properties Daemon_Properties
begin

text \<open>
  Properties of the command line, of the signals, and of a process from its start to its end.
\<close>

section \<open>The command line\<close>

definition port_spec :: ArgvOptionSpec where
  "port_spec = option_spec ''--port'' 1 1 ARGV_OPT_KEYED False True True"

definition verbose_spec :: ArgvOptionSpec where
  "verbose_spec = option_spec ''--verbose'' 2 0 ARGV_OPT_FLAG False False False"

definition sample_table :: "ArgvOptionSpec list" where
  "sample_table = [port_spec, verbose_spec]"

lemmas sample_table_defs = sample_table_def port_spec_def verbose_spec_def option_spec_def

lemma sample_table_ok: "argv_table_ok sample_table"
  by (simp add: argv_table_ok_def sample_table_defs)

text \<open>C34: a command line that is written from a table of options (options with their
  values after them or after an equals sign, positionals, and after \<open>--\<close> anything) is parsed back to these
  options and positionals, each with its index in \<open>argv\<close>, in order. No option stands there twice
  that may not, the required ones do, and there are at most 32 options and 8 positionals.\<close>

theorem argv_parse_inverts_print:
  assumes "argv_table_ok table" "list_all (item_ok table) items" "fresh_ids {} (item_options 1 items)"
    "length (item_options 1 items) \<le> 32"
    "length (item_positionals 1 items) + length (tail_positionals items tail) \<le> 8"
    "\<forall>s \<in> set table. ao_required s \<longrightarrow> ao_id s \<in> (\<lambda>po. ao_id (po_spec po)) ` set (item_options 1 items)"
    "argv_parse strict (command_line prog items tail) table = (ok, p)"
  shows "ok \<and> ap_options p = item_options 1 items \<and>
    zip (ap_positional_indices p) (ap_positionals p) = item_positionals 1 items @ tail_positionals items tail \<and>
    ap_error p = argv_clear_error \<and> \<not> ap_overrun p"
  using parse_command_line [OF assms(1-6), of strict prog] assms(7)
  by (auto simp: add_items_def argv_empty_def zip_append [symmetric] zip_map_fst_snd simp del: zip_append map_append)

lemma argv_parse_inverts_print_witness:
  "let items = [Equals_item port_spec ''80'', Positional_item ''host'', Option_item verbose_spec [],
       Option_item port_spec [''-1'']];
       p = snd (argv_parse True (command_line ''prog'' items (Some [''--x''])) sample_table)
   in fst (argv_parse True (command_line ''prog'' items (Some [''--x''])) sample_table) \<and>
      map po_args (ap_options p) = [[''--port'', ''80''], [''--verbose''], [''--port'', ''-1'']] \<and>
      ap_positionals p = [''host'', ''--x'']"
proof -
  let ?items = "[Equals_item port_spec ''80'', Positional_item ''host'', Option_item verbose_spec [],
       Option_item port_spec [''-1'']]"
  let ?r = "argv_parse True (command_line ''prog'' ?items (Some [''--x''])) sample_table"
  have "fst ?r \<and> ap_options (snd ?r) = item_options 1 ?items \<and>
      zip (ap_positional_indices (snd ?r)) (ap_positionals (snd ?r)) =
        item_positionals 1 ?items @ tail_positionals ?items (Some [''--x'']) \<and>
      ap_error (snd ?r) = argv_clear_error \<and> \<not> ap_overrun (snd ?r)"
    by (rule argv_parse_inverts_print [OF sample_table_ok])
      (simp_all add: sample_table_defs tail_positionals_def items_text_def)
  moreover have "length (ap_positional_indices (snd ?r)) = length (ap_positionals (snd ?r))"
    using parse_ok(1) [OF sample_table_ok, of "command_line ''prog'' ?items (Some [''--x''])" True "fst ?r" "snd ?r"]
    by (simp add: parsed_ok_def command_line_def)
  then have "ap_positionals (snd ?r) = map snd (zip (ap_positional_indices (snd ?r)) (ap_positionals (snd ?r)))" by simp
  ultimately show ?thesis
    by (simp add: Let_def tail_positionals_def items_text_def port_spec_def verbose_spec_def option_spec_def)
qed

text \<open>C35: whatever the command line, every parsed option is one of the table and
  stands on the command line at the recorded index with exactly as many values as the table says (after it,
  or one after an equals sign), no option is repeated that may not be, positionals stand at their
  indices, no array is overrun, and if the parse succeeds every required option is present.\<close>

theorem argv_accepts_only_its_table:
  assumes "argv_table_ok table" "argv \<noteq> []" "argv_parse strict argv table = (ok, p)"
  shows "length (ap_options p) \<le> 32 \<and> fresh_ids {} (ap_options p) \<and>
     (\<forall>po \<in> set (ap_options p). option_from table argv po) \<and>
     length (ap_positionals p) \<le> 8 \<and> length (ap_positional_indices p) = length (ap_positionals p) \<and>
     (\<forall>(i, t) \<in> set (zip (ap_positional_indices p) (ap_positionals p)). i < length argv \<and> argv ! i = t) \<and>
     \<not> ap_overrun p \<and>
     (ok \<longrightarrow> (\<forall>s \<in> set table. ao_required s \<longrightarrow> ao_id s \<in> (\<lambda>po. ao_id (po_spec po)) ` set (ap_options p)))"
  using parse_ok [OF assms] by (simp add: parsed_ok_def list_all_iff)

lemma argv_accepts_only_its_table_witness:
  "list_all (option_from sample_table [''prog'', ''--verbose'', ''--port'', ''80'', ''--nope''])
     (ap_options (snd (argv_parse True [''prog'', ''--verbose'', ''--port'', ''80'', ''--nope''] sample_table)))"
  using argv_accepts_only_its_table [OF sample_table_ok, of "[''prog'', ''--verbose'', ''--port'', ''80'', ''--nope'']"
      True "fst (argv_parse True [''prog'', ''--verbose'', ''--port'', ''80'', ''--nope''] sample_table)"
      "snd (argv_parse True [''prog'', ''--verbose'', ''--port'', ''80'', ''--nope''] sample_table)"]
  by (simp add: list_all_iff)

section \<open>Signals\<close>

text \<open>C36: once the daemon has installed its handler with the policy "graceful, then
  hard", any number of SIGINT and SIGTERM returns from the handler with the request to exit set and the last
  signal recorded: the process is never ended hard, and the count of deliveries stays zero. Uninstalling
  gives the earlier dispositions back.\<close>

theorem second_signal_never_kills:
  assumes "app_signal_install can_set lib_signal_initial k = (state, lib, k')" "can_set SIGINT" "can_set SIGTERM"
    "set sigs \<subseteq> {SIGINT, SIGTERM}" "sigs \<noteq> []"
  shows "\<exists>s. deliver lib k' sigs state = Returned s None \<and> app_signal_should_exit s \<and>
      fst (lib_signal_take_last_signal s) = last sigs \<and> si_delivery_count s = 0 \<and>
      app_signal_shutdown can_set lib k' = (lib_signal_initial, k)"
proof -
  obtain ok where i: "lib_signal_install can_set (Some app_signal_config) lib_signal_state_reset lib_signal_initial k =
      (ok, state, lib, k')"
    using assms(1) by (cases "lib_signal_install can_set (Some app_signal_config) lib_signal_state_reset lib_signal_initial k")
      (simp add: app_signal_install_def)
  have c: "config_signals (Some app_signal_config) = Some [SIGINT, SIGTERM]"
    by (simp add: config_signals_def app_signal_config_def)
  have ok: "ok" and fields: "lg_policy lib = LIB_SIGNAL_POLICY_GRACEFUL_THEN_HARD" "lg_set_should_exit lib"
    using i assms(2,3)
    by (auto simp: lib_signal_install_def config_signals_def lib_signal_uninstall_def lib_signal_initial_def app_signal_config_def
        LIB_SIGNAL_MAX_SIGNALS_def Let_def split: if_splits prod.splits bool.splits)
  have d: "distinct [SIGINT, SIGTERM]" "lg_installed lib_signal_initial = []"
    by (simp_all add: SIGINT_def SIGTERM_def lib_signal_initial_def)
  note u = install_uninstall [OF i [unfolded eqTrueI [OF ok]] c d]
  have "si_delivery_count state = 0" using u(4) by (simp add: lib_signal_state_reset_def)
  moreover have "\<forall>sig \<in> set sigs. k' sig = Lib_signal_handle" using u(2) assms(4) by auto
  ultimately obtain s where "deliver lib k' sigs state = Returned s None" "si_should_exit s" "si_last_signal s = last sigs"
    "si_pending s" "si_delivery_count s = 0"
    using deliver_graceful [OF u(3) fields(1) _ fields(2) _ assms(5)] by blast
  then show ?thesis using u(1)
    by (simp add: app_signal_should_exit_def lib_signal_should_exit_def lib_signal_take_last_signal_def
        app_signal_shutdown_def)
qed

lemma second_signal_never_kills_witness:
  "case app_signal_install (\<lambda>_. True) lib_signal_initial (\<lambda>_. Other_disposition 0) of
     (state, lib, k) \<Rightarrow> \<exists>s. deliver lib k [SIGINT, SIGINT, SIGTERM] state = Returned s None \<and> app_signal_should_exit s"
proof -
  obtain state lib k where i: "app_signal_install (\<lambda>_. True) lib_signal_initial (\<lambda>_. Other_disposition 0) = (state, lib, k)"
    by (metis prod_cases3)
  have "\<exists>s. deliver lib k [SIGINT, SIGINT, SIGTERM] state = Returned s None \<and> app_signal_should_exit s \<and>
      fst (lib_signal_take_last_signal s) = last [SIGINT, SIGINT, SIGTERM] \<and> si_delivery_count s = 0 \<and>
      app_signal_shutdown (\<lambda>_. True) lib k = (lib_signal_initial, \<lambda>_. Other_disposition 0)"
    by (rule second_signal_never_kills [OF i]) simp_all
  with i show ?thesis by auto
qed

section \<open>Starting\<close>


section \<open>The whole process\<close>

text \<open>C32: for any command line, configuration, traffic and number of turns, a process
  whose modules boot ends with every descriptor, key reference, job buffer and user block that it took
  given back, the configuration and codecs released, and the dispositions of the signals as before. The modules
  \<open>lib.process\<close>, \<open>lib.file\<close> and \<open>app.daemon.policy\<close> are left up.\<close>

theorem main_releases_everything:
  assumes "kernel_ok (re_net (se_runtime env))" "\<forall>te \<in> set turns. turn_ok te" "process_fresh R other k pc0"
    "siglatch_boot starts lifecycle_initial = (True, lc)"
    "siglatch_main starts env argv calloc_ok turns end_time r pc0 = (status, pc)"
  shows "so_open (dm_socks (sd_daemon (pc_siglatchd pc))) = R \<and> dm_refs (sd_daemon (pc_siglatchd pc)) = other \<and>
     dm_config (sd_daemon (pc_siglatchd pc)) = (None, False) \<and> dm_codec (sd_daemon (pc_siglatchd pc)) = None \<and>
     sd_registry (pc_siglatchd pc) = [] \<and> sd_codecs (pc_siglatchd pc) = {} \<and>
     sd_signals (pc_siglatchd pc) = lib_signal_initial \<and> sd_kernel (pc_siglatchd pc) = k \<and>
     bh_owned (pc_heap pc) {#} \<and> heap_ok (pc_users pc) \<and> live (pc_users pc) = {} \<and>
     lc_up (pc_lifecycle pc) = {''lib.process'', ''lib.file'', ''app.daemon.policy''}"
  using main_after_boot [OF assms(1-5)]
  by (simp add: process_released_def program_released_def program_fresh_def left_up_def)

text \<open>When the modules do not boot, the process ends with exit status 1 and has
  closed descriptor 0, which it never opened: the startup state is zeroed, and the clean-up takes
  its socket 0 for an open one. Everything else is as before.\<close>

theorem failed_boot_closes_stdin:
  assumes "process_fresh R other k pc0" "siglatch_boot starts lifecycle_initial = (False, lc)"
    "siglatch_main starts env argv calloc_ok turns end_time r pc0 = (status, pc)"
  shows "status = 1 \<and> program_fresh (R - {0}) other k (pc_siglatchd pc) \<and>
     lc_up (pc_lifecycle pc) \<subseteq> {''lib.process'', ''lib.file''}"
proof -
  have life: "pc_lifecycle pc0 = lifecycle_initial" and fr: "program_fresh R other k (pc_siglatchd pc0)"
    using assms(1) by (simp_all add: process_fresh_def)
  have lc: "\<not> lc_app_initialized lc" "\<not> lc_lib_initialized lc" "lc_up (siglatch_shutdown lc) \<subseteq> {''lib.process'', ''lib.file''}"
    using boot_result(2) [OF assms(2)]
    by (auto simp: lifecycle_initial_def siglatch_shutdown_def)
  let ?p0 = "sd_upd_daemon (\<lambda>d. d\<lparr>dm_listener := zero_listener\<rparr>) (pc_siglatchd pc0)"
  have "status = EXIT_FAILURE" "pc = main_cleanup env (pc0\<lparr>pc_siglatchd := ?p0, pc_lifecycle := lc\<rparr>)"
    using assms(3) unfolding siglatch_main_def Let_def life assms(2) prod.case bool.case by simp_all
  then show ?thesis using lc fr
    by (simp add: main_cleanup_def release_modules_def program_fresh_def zero_listener_def close_socket_def
        EXIT_FAILURE_def Let_def)
qed

section \<open>Witnesses\<close>

definition sample_startup_env :: startup_env where
  "sample_startup_env = \<lparr>se_runtime = sample_env, se_getenv = (\<lambda>_. None), se_can_set = (\<lambda>_. True), se_nonce = True,
     se_helpers = True, se_calloc = (\<lambda>_. True), se_alloc = (\<lambda>_. True), se_evp = sample_evp, se_digest = True,
     se_time = 5\<rparr>"

definition sample_siglatchd :: siglatchd where
  "sample_siglatchd = \<lparr>sd_daemon = \<lparr>dm_listener = zero_listener, dm_session = zero_session, dm_config = (None, False),
       dm_codec = None, dm_refs = {#}, dm_mux = zero_context, dm_socks = \<lparr>so_calls = 0, so_open = {0, 1, 2}\<rparr>\<rparr>,
     sd_nonce = lib_nonce_cache_shutdown (cs_nonce zero_codec_state), sd_signal = lib_signal_state_reset,
     sd_signals = lib_signal_initial, sd_kernel = (\<lambda>_. Other_disposition 0), sd_codecs = {}, sd_registry = [],
     sd_output_mode = 1\<rparr>"

definition sample_process :: process where
  "sample_process = \<lparr>pc_siglatchd = sample_siglatchd, pc_lifecycle = lifecycle_initial,
     pc_heap = bh_empty (\<lambda>_. False), pc_procs = \<lparr>pr_forks = 0, pr_execs = []\<rparr>,
     pc_users = empty_heap (\<lambda>_. False), pc_sent = []\<rparr>"

lemma sample_siglatchd_fresh: "program_fresh {0, 1, 2} {#} (\<lambda>_. Other_disposition 0) sample_siglatchd"
  by (simp add: program_fresh_def sample_siglatchd_def)








lemma sample_process_fresh: "process_fresh {0, 1, 2} {#} (\<lambda>_. Other_disposition 0) sample_process"
  using sample_siglatchd_fresh bh_owned_empty heap_ok_empty
  by (simp add: process_fresh_def sample_process_def empty_heap_def)

lemma sample_boot: "siglatch_boot (\<lambda>_. True) lifecycle_initial = (True, fully_up)"
proof -
  have "fst (siglatch_boot (\<lambda>_. True) lifecycle_initial)" by code_simp
  then show ?thesis using boot_result(1) by (metis prod.collapse)
qed

lemma main_releases_everything_witness:
  "\<exists>status pc. siglatch_main (\<lambda>_. True) sample_startup_env (settings_line ''siglatchd'' [Set_server ''main'']) True
       [blurt_turn, blurt_turn] 7 0 sample_process = (status, pc) \<and>
     so_open (dm_socks (sd_daemon (pc_siglatchd pc))) = {0, 1, 2} \<and> bh_owned (pc_heap pc) {#}"
proof -
  obtain status pc where r: "siglatch_main (\<lambda>_. True) sample_startup_env
      (settings_line ''siglatchd'' [Set_server ''main'']) True [blurt_turn, blurt_turn] 7 0 sample_process = (status, pc)"
    by fastforce
  have "turn_ok blurt_turn" using sample_env_ok by (simp add: turn_ok_def blurt_turn_def)
  then have t: "\<forall>te \<in> set [blurt_turn, blurt_turn]. turn_ok te" by simp
  have k: "kernel_ok (re_net (se_runtime sample_startup_env))"
    using sample_kernel by (simp add: sample_startup_env_def sample_env_def)
  note m = main_releases_everything [OF k t sample_process_fresh sample_boot r]
  show ?thesis by (intro exI [of _ status] exI [of _ pc]) (simp add: r m)
qed

lemma failed_boot_closes_stdin_witness:
  "so_open (dm_socks (sd_daemon (pc_siglatchd (snd (siglatch_main (\<lambda>m. m \<noteq> ''lib.nonce'') sample_startup_env
     [''siglatchd''] True [] 7 0 sample_process))))) = {1, 2}"
proof -
  have "\<not> fst (siglatch_boot (\<lambda>m. m \<noteq> ''lib.nonce'') lifecycle_initial)" by code_simp
  then obtain lc where b: "siglatch_boot (\<lambda>m. m \<noteq> ''lib.nonce'') lifecycle_initial = (False, lc)"
    by (cases "siglatch_boot (\<lambda>m. m \<noteq> ''lib.nonce'') lifecycle_initial") auto
  from failed_boot_closes_stdin [OF sample_process_fresh b, of sample_startup_env "[''siglatchd'']" True "[]" 7 0]
  have "program_fresh ({0, 1, 2} - {0}) {#} (\<lambda>_. Other_disposition 0) (pc_siglatchd (snd (siglatch_main (\<lambda>m. m \<noteq> ''lib.nonce'')
      sample_startup_env [''siglatchd''] True [] 7 0 sample_process)))"
    by (metis prod.collapse)
  then show ?thesis by (simp add: program_fresh_def)
qed

end
