(* ===== verification/Client_Env.thy ===== *)
theory Client_Env
  imports Ini Net_Range Config
begin

text \<open>
  The files of the client: \<open>knock/app/env/env.c\<close> over \<open>stdlib/env.c\<close>. The disk is the files with their
  contents and the directories; what the operating system answers is the record \<open>disk_env\<close>. The client
  prints what goes wrong; the texts are left out.
\<close>

section \<open>The disk\<close>

record disk =
  dk_files :: "string \<Rightarrow> string option"
  dk_dirs :: "string set"

text \<open>
  \<open>de_write path text\<close> is what is stored when a text is written and closed, and whether \<open>fprintf\<close> and
  \<open>fclose\<close> succeed.
\<close>

record disk_env =
  de_getenv :: "string \<Rightarrow> string option"
  de_readable :: "string \<Rightarrow> bool"
  de_writable :: "string \<Rightarrow> bool"
  de_write :: "string \<Rightarrow> string \<Rightarrow> string \<times> bool \<times> bool"
  de_unlink :: "string \<Rightarrow> bool"
  de_mkdir :: "string \<Rightarrow> bool"

definition fopen_read :: "disk_env \<Rightarrow> disk \<Rightarrow> string \<Rightarrow> string option" where
  "fopen_read env k path = (if de_readable env path then dk_files k path else None)"

text \<open>Opening for writing, writing and closing; the disk is as before when the file cannot be opened.\<close>

definition fwrite_file :: "disk_env \<Rightarrow> disk \<Rightarrow> string \<Rightarrow> string \<Rightarrow> (bool \<times> bool) option \<times> disk" where
  "fwrite_file env k path text =
     (if \<not> de_writable env path then (None, k)
      else case de_write env path text of
        (stored, printed, closed) \<Rightarrow> (Some (printed, closed), k\<lparr>dk_files := (dk_files k)(path \<mapsto> stored)\<rparr>))"

definition unlink_file :: "disk_env \<Rightarrow> disk \<Rightarrow> string \<Rightarrow> bool \<times> disk" where
  "unlink_file env k path =
     (if dk_files k path = None \<or> \<not> de_unlink env path then (False, k)
      else (True, k\<lparr>dk_files := (dk_files k)(path := None)\<rparr>))"

text \<open>\<open>access(path, F_OK) == 0\<close>, for a file.\<close>

definition file_exists :: "disk \<Rightarrow> string \<Rightarrow> bool" where
  "file_exists k path \<longleftrightarrow> dk_files k path \<noteq> None"

text \<open>\<open>snprintf\<close> of a text into a buffer, when it must fit.\<close>

definition snprintf_fit :: "nat \<Rightarrow> string \<Rightarrow> string option" where
  "snprintf_fit sz text = (if length text < sz then Some text else None)"

section \<open>stdlib/env.c\<close>

definition env_user_home :: "disk_env \<Rightarrow> string option" where
  "env_user_home env = (case de_getenv env ''HOME'' of None \<Rightarrow> None | Some h \<Rightarrow> if h = [] then None else Some h)"

definition env_user_build_home_path :: "disk_env \<Rightarrow> nat \<Rightarrow> string \<Rightarrow> string option" where
  "env_user_build_home_path env out_size relative_path =
     (case env_user_home env of
        None \<Rightarrow> None
      | Some home \<Rightarrow>
          snprintf_fit out_size
            (if relative_path = [] then home
             else if hd relative_path = CHR ''/'' then home @ relative_path
             else home @ ''/'' @ relative_path))"

definition env_user_ensure_dir :: "disk_env \<Rightarrow> disk \<Rightarrow> string \<Rightarrow> bool \<times> disk" where
  "env_user_ensure_dir env k path =
     (if path = [] then (False, k)
      else if path \<in> dk_dirs k then (True, k)
      else if file_exists k path then (False, k)
      else if de_mkdir env path then (True, k\<lparr>dk_dirs := insert path (dk_dirs k)\<rparr>)
      else (False, k))"

definition env_user_ensure_home_config_dir :: "disk_env \<Rightarrow> disk \<Rightarrow> bool \<times> disk" where
  "env_user_ensure_home_config_dir env k =
     (case env_user_build_home_path env PATH_MAX ''.config'' of
        None \<Rightarrow> (False, k)
      | Some path \<Rightarrow> env_user_ensure_dir env k path)"

section \<open>Paths\<close>

definition trim_ws :: "string \<Rightarrow> string" where
  "trim_ws value = (let v = dropWhile isspace value in rev (dropWhile isspace (rev v)))"

definition app_env_build_config_root_path :: "disk_env \<Rightarrow> nat \<Rightarrow> string option" where
  "app_env_build_config_root_path env out_size =
     (case env_user_home env of
        None \<Rightarrow> None
      | Some home \<Rightarrow> snprintf_fit out_size (home @ ''/.config/siglatch''))"

definition app_env_build_host_config_path :: "disk_env \<Rightarrow> nat \<Rightarrow> string \<Rightarrow> string option \<Rightarrow> string option" where
  "app_env_build_host_config_path env out_size host filename =
     (if out_size = 0 \<or> host = [] then None
      else case app_env_build_config_root_path env PATH_MAX of
        None \<Rightarrow> None
      | Some root_path \<Rightarrow>
          snprintf_fit out_size
            (case filename of
               Some f \<Rightarrow> if f \<noteq> [] then root_path @ ''/'' @ host @ ''/'' @ f else root_path @ ''/'' @ host
             | None \<Rightarrow> root_path @ ''/'' @ host))"

definition build_client_config_dir_path :: "disk_env \<Rightarrow> nat \<Rightarrow> string option" where
  "build_client_config_dir_path env out_size = app_env_build_config_root_path env out_size"

definition build_client_config_file_path :: "disk_env \<Rightarrow> nat \<Rightarrow> string option" where
  "build_client_config_file_path env out_size =
     (case build_client_config_dir_path env PATH_MAX of
        None \<Rightarrow> None
      | Some dir_path \<Rightarrow> snprintf_fit out_size (dir_path @ ''/client.conf''))"

definition ensure_client_config_dir_exists :: "disk_env \<Rightarrow> disk \<Rightarrow> bool \<times> disk" where
  "ensure_client_config_dir_exists env k =
     (case env_user_ensure_home_config_dir env k of
        (False, k1) \<Rightarrow> (False, k1)
      | (True, k1) \<Rightarrow>
          (case build_client_config_dir_path env PATH_MAX of
             None \<Rightarrow> (False, k1)
           | Some dir_path \<Rightarrow> env_user_ensure_dir env k1 dir_path))"

definition app_env_ensure_host_config_dir :: "disk_env \<Rightarrow> disk \<Rightarrow> string \<Rightarrow> bool \<times> disk" where
  "app_env_ensure_host_config_dir env k host =
     (case ensure_client_config_dir_exists env k of
        (False, k1) \<Rightarrow> (False, k1)
      | (True, k1) \<Rightarrow>
          (case app_env_build_host_config_path env PATH_MAX host None of
             None \<Rightarrow> (False, k1)
           | Some path \<Rightarrow> env_user_ensure_dir env k1 path))"

definition token_char :: "char \<Rightarrow> bool" where
  "token_char c \<longleftrightarrow> isdigit c \<or> (65::nat) \<le> of_char c \<and> of_char c \<le> (90::nat) \<or>
     (97::nat) \<le> of_char c \<and> of_char c \<le> (122::nat) \<or> c = CHR ''_'' \<or> c = CHR ''-'' \<or> c = CHR ''.''"

definition app_env_user_token_valid :: "string \<Rightarrow> bool" where
  "app_env_user_token_valid user \<longleftrightarrow> user \<noteq> [] \<and> list_all token_char user"

definition app_env_build_host_user_config_filename :: "nat \<Rightarrow> string \<Rightarrow> string option" where
  "app_env_build_host_user_config_filename out_size user =
     (if out_size = 0 \<or> \<not> app_env_user_token_valid user then None
      else snprintf_fit out_size (''client.'' @ user @ ''.conf''))"

section \<open>Reading\<close>

text \<open>
  The value of the first line \<open>key = value\<close> with the given key, as both loaders look for it. A line is
  what \<open>fgets\<close> reads into 256 bytes, up to a zero character.
\<close>

definition entry_of_line :: "string \<Rightarrow> (string \<times> string) option" where
  "entry_of_line line =
     (let entry = trim_ws line
      in if entry = [] \<or> hd entry = CHR ''#'' \<or> hd entry = CHR '';'' then None
         else case strchr_split (CHR ''='') entry of
           None \<Rightarrow> None
         | Some (key, value) \<Rightarrow> Some (trim_ws key, trim_ws value))"

function find_entry :: "string \<Rightarrow> string \<Rightarrow> string option" where
  "find_entry key s =
     (case fgets 256 s of
        None \<Rightarrow> None
      | Some (buf, rest, eof) \<Rightarrow>
          (case entry_of_line (takeWhile (\<lambda>c. c \<noteq> nul) buf) of
             Some (k, value) \<Rightarrow> if k = key then Some value else find_entry key rest
           | None \<Rightarrow> find_entry key rest))"
  by pat_completeness auto

termination
  by (relation "measure (\<lambda>(key, s). length s)") (auto dest: fgets_shorter)

declare find_entry.simps [simp del]

definition app_env_load_output_mode_default :: "disk_env \<Rightarrow> disk \<Rightarrow> nat" where
  "app_env_load_output_mode_default env k =
     (case build_client_config_file_path env PATH_MAX of
        None \<Rightarrow> 0
      | Some config_path \<Rightarrow>
          (case fopen_read env k config_path of
             None \<Rightarrow> 0
           | Some s \<Rightarrow>
               (case find_entry ''output_mode'' s of None \<Rightarrow> 0 | Some value \<Rightarrow> print_output_parse_mode value)))"

text \<open>The C result and the address.\<close>

definition app_env_load_host_user_send_from_ip ::
  "disk_env \<Rightarrow> disk \<Rightarrow> string \<Rightarrow> string \<Rightarrow> nat \<Rightarrow> int \<times> string" where
  "app_env_load_host_user_send_from_ip env k host user out_size =
     (if out_size = 0 \<or> host = [] \<or> \<not> app_env_user_token_valid user then (-1, [])
      else case app_env_build_host_user_config_filename PATH_MAX user of
        None \<Rightarrow> (-1, [])
      | Some filename \<Rightarrow>
          (case app_env_build_host_config_path env PATH_MAX host (Some filename) of
             None \<Rightarrow> (-1, [])
           | Some config_path \<Rightarrow>
               if \<not> file_exists k config_path then (0, [])
               else case fopen_read env k config_path of
                 None \<Rightarrow> (-1, [])
               | Some s \<Rightarrow>
                   (case find_entry ''send_from_ip'' s of
                      None \<Rightarrow> (0, [])
                    | Some value \<Rightarrow>
                        if \<not> net_ip_range_is_single_ipv4 value then (-1, [])
                        else (1, fst (lib_str_lcpy [] value out_size)))))"

section \<open>Writing\<close>

definition app_env_save_host_user_send_from_ip ::
  "disk_env \<Rightarrow> disk \<Rightarrow> string \<Rightarrow> string \<Rightarrow> string \<Rightarrow> bool \<times> disk" where
  "app_env_save_host_user_send_from_ip env k host user ip =
     (if host = [] \<or> \<not> app_env_user_token_valid user \<or> \<not> net_ip_range_is_single_ipv4 ip then (False, k)
      else case app_env_ensure_host_config_dir env k host of
        (False, k1) \<Rightarrow> (False, k1)
      | (True, k1) \<Rightarrow>
          (case app_env_build_host_user_config_filename PATH_MAX user of
             None \<Rightarrow> (False, k1)
           | Some filename \<Rightarrow>
               (case app_env_build_host_config_path env PATH_MAX host (Some filename) of
                  None \<Rightarrow> (False, k1)
                | Some config_path \<Rightarrow>
                    (case fwrite_file env k1 config_path (''send_from_ip = '' @ ip @ [nl]) of
                       (None, k2) \<Rightarrow> (False, k2)
                     | (Some (printed, closed), k2) \<Rightarrow> (printed \<and> closed, k2)))))"

definition app_env_clear_host_user_send_from_ip ::
  "disk_env \<Rightarrow> disk \<Rightarrow> string \<Rightarrow> string \<Rightarrow> bool \<times> disk" where
  "app_env_clear_host_user_send_from_ip env k host user =
     (if host = [] \<or> \<not> app_env_user_token_valid user then (False, k)
      else case app_env_build_host_user_config_filename PATH_MAX user of
        None \<Rightarrow> (False, k)
      | Some filename \<Rightarrow>
          (case app_env_build_host_config_path env PATH_MAX host (Some filename) of
             None \<Rightarrow> (False, k)
           | Some config_path \<Rightarrow>
               (case unlink_file env k config_path of
                  (True, k1) \<Rightarrow> (True, k1)
                | (False, k1) \<Rightarrow> (\<not> file_exists k config_path, k1))))"

definition print_output_mode_name :: "nat \<Rightarrow> string" where
  "print_output_mode_name mode =
     (if mode = SL_OUTPUT_MODE_UNICODE then ''unicode'' else if mode = SL_OUTPUT_MODE_ASCII then ''ascii''
      else ''unknown'')"

definition app_env_save_output_mode_default :: "disk_env \<Rightarrow> disk \<Rightarrow> string \<Rightarrow> bool \<times> disk" where
  "app_env_save_output_mode_default env k mode_value =
     (let mode = print_output_parse_mode mode_value; mode_name = print_output_mode_name mode
      in if mode = 0 \<or> mode_name = ''unknown'' then (False, k)
         else case ensure_client_config_dir_exists env k of
           (False, k1) \<Rightarrow> (False, k1)
         | (True, k1) \<Rightarrow>
             (case build_client_config_file_path env PATH_MAX of
                None \<Rightarrow> (False, k1)
              | Some config_path \<Rightarrow>
                  (case fwrite_file env k1 config_path
                      (''# Siglatch knocker client defaults'' @ [nl] @ ''output_mode='' @ mode_name @ [nl]) of
                     (None, k2) \<Rightarrow> (False, k2)
                   | (Some (printed, closed), k2) \<Rightarrow> (closed, k2))))"


text \<open>
  The address saved for a user of a host is the one that is loaded.
\<close>

text \<open>What is written is stored and can be read.\<close>

definition disk_keeps :: "disk_env \<Rightarrow> bool" where
  "disk_keeps env \<longleftrightarrow> (\<forall>path text. de_readable env path \<and> fst (de_write env path text) = text)"

lemma trim_ws_trim: "trim_ws s = lib_str_trim s"
  by (simp add: trim_ws_def lib_str_trim_def)

lemma trim_ws_ends:
  assumes "t \<noteq> []" "\<forall>c \<in> set t. \<not> isspace c" "\<forall>c \<in> set l. isspace c" "\<forall>c \<in> set r. isspace c"
  shows "trim_ws (l @ t @ r) = t"
proof -
  have "dropWhile isspace (l @ t @ r) = t @ r" using assms by (cases t) simp_all
  moreover have "dropWhile isspace (rev (t @ r)) = rev t" 
    using assms by (cases t rule: rev_cases) (simp_all add: dropWhile_append)
  ultimately show ?thesis by (simp add: trim_ws_def)
qed

lemma find_entry_written:
  assumes "t \<noteq> []" "\<forall>c \<in> set t. \<not> isspace c \<and> c \<noteq> nul" "length t < 100"
  shows "find_entry ''send_from_ip'' (''send_from_ip = '' @ t @ [nl]) = Some t"
proof -
  let ?l = "''send_from_ip = '' @ t"
  have sp: "isspace nl" "isspace (CHR '' '')" by (simp_all add: isspace_def)
  have "nl \<notin> set ?l" using assms(2) sp(1) by auto
  then have f: "fgets 256 (?l @ [nl]) = Some (?l @ [nl], [], False)"
    using fgets_line [of ?l 256 "[]"] assms(3) by simp
  have n: "takeWhile (\<lambda>c. c \<noteq> nul) (?l @ [nl]) = ?l @ [nl]"
    using assms(2) by (simp add: takeWhile_append)
  have "trim_ws (?l @ [nl]) = ?l"
  proof -
    obtain t0 c where t: "t = t0 @ [c]" using assms(1) by (cases t rule: rev_cases) auto
    then have "\<not> isspace c" using assms(2) by simp
    moreover have "\<not> isspace (CHR ''s'')" by (simp add: isspace_def)
    ultimately show ?thesis by (simp add: trim_ws_def t sp)
  qed
  moreover have "strchr_split (CHR ''='') ?l = Some (''send_from_ip '', CHR '' '' # t)"
    by (simp add: strchr_split_def)
  moreover have "trim_ws ''send_from_ip '' = ''send_from_ip''" by code_simp
  moreover have "trim_ws (CHR '' '' # t) = t" using trim_ws_ends [OF assms(1), of "'' ''" "[]"] assms(2) sp by simp
  ultimately have "entry_of_line (?l @ [nl]) = Some (''send_from_ip'', t)"
    by (simp add: entry_of_line_def Let_def)
  then show ?thesis using f n by (subst find_entry.simps) simp
qed

lemma dotted_single: "net_ip_range_is_single_ipv4 (dotted a)"
proof -
  have "net_ip_range_trim_copy (dotted a) 64 = Some (dotted a)"
    using dotted_bounds [of a] dotted_chars by (auto intro!: trim_copy_plain)
  then show ?thesis using dotted_chars(2) [of _ a]
    by (auto simp: net_ip_range_is_single_ipv4_def net_ip_range_parse_ipv4_literal_def inet_pton4_dotted)
qed

lemma dotted_no_nul: "nul \<notin> set (dotted a)"
proof -
  have "octet_of k a < 1000" for k using octet_less [of k a] by simp
  then have "nul \<notin> set (decimal (octet_of k a))" for k
    using decimal_digits(1) [of "octet_of k a"] by (auto simp: list_all_iff isdigit_def)
  then show ?thesis by (auto simp: dotted_def)
qed

lemma save_cases:
  assumes "app_env_save_host_user_send_from_ip env k host user ip = (True, k')"
  obtains filename path and k1 :: disk where "host \<noteq> []" "app_env_user_token_valid user"
    "app_env_build_host_user_config_filename PATH_MAX user = Some filename"
    "app_env_build_host_config_path env PATH_MAX host (Some filename) = Some path"
    "dk_files k' = (dk_files k1)(path \<mapsto> fst (de_write env path (''send_from_ip = '' @ ip @ [nl])))"
proof -
  obtain b k1 where e: "app_env_ensure_host_config_dir env k host = (b, k1)" by fastforce
  have c: "host \<noteq> []" "app_env_user_token_valid user"
    using assms by (auto simp: app_env_save_host_user_send_from_ip_def split: if_splits)
  obtain filename where f: "app_env_build_host_user_config_filename PATH_MAX user = Some filename"
    using assms e by (auto simp: app_env_save_host_user_send_from_ip_def split: if_splits bool.splits option.splits)
  obtain path where p: "app_env_build_host_config_path env PATH_MAX host (Some filename) = Some path"
    using assms e f by (auto simp: app_env_save_host_user_send_from_ip_def split: if_splits bool.splits option.splits)
  have "dk_files k' = (dk_files k1)(path \<mapsto> fst (de_write env path (''send_from_ip = '' @ ip @ [nl])))"
    using assms e f p
    by (auto simp: app_env_save_host_user_send_from_ip_def fwrite_file_def split: if_splits bool.splits option.splits prod.splits)
  from that [OF c f p this] show ?thesis .
qed

lemma send_from_saved:
  assumes "disk_keeps env" "app_env_save_host_user_send_from_ip env k host user (dotted a) = (True, k')"
  shows "app_env_load_host_user_send_from_ip env k' host user 64 = (1, dotted a)"
  using assms(2)
proof (rule save_cases)
  fix filename path and k1 :: disk
  assume c: "host \<noteq> []" "app_env_user_token_valid user"
    and p: "app_env_build_host_user_config_filename PATH_MAX user = Some filename"
      "app_env_build_host_config_path env PATH_MAX host (Some filename) = Some path"
    and k: "dk_files k' = (dk_files k1)(path \<mapsto> fst (de_write env path (''send_from_ip = '' @ dotted a @ [nl])))"
  have r: "fopen_read env k' path = Some (''send_from_ip = '' @ dotted a @ [nl])" "file_exists k' path"
    using assms(1) by (simp_all add: fopen_read_def file_exists_def disk_keeps_def k)
  have "find_entry ''send_from_ip'' (''send_from_ip = '' @ dotted a @ [nl]) = Some (dotted a)"
    using dotted_bounds [of a] dotted_chars(1) [of _ a] dotted_no_nul [of a] by (intro find_entry_written) auto
  then show ?thesis using c p r dotted_single [of a] dotted_bounds [of a]
    by (simp add: app_env_load_host_user_send_from_ip_def lib_str_lcpy_def)
qed

lemma send_from_cleared:
  assumes "app_env_clear_host_user_send_from_ip env k host user = (True, k')"
  shows "app_env_load_host_user_send_from_ip env k' host user 64 = (0, [])"
proof -
  obtain filename path where p: "app_env_build_host_user_config_filename PATH_MAX user = Some filename"
      "app_env_build_host_config_path env PATH_MAX host (Some filename) = Some path"
    and c: "host \<noteq> []" "app_env_user_token_valid user"
    using assms by (auto simp: app_env_clear_host_user_send_from_ip_def split: if_splits option.splits)
  have "\<not> file_exists k' path"
    using assms c p
    by (auto simp: app_env_clear_host_user_send_from_ip_def unlink_file_def file_exists_def split: if_splits)
  then show ?thesis using c p by (simp add: app_env_load_host_user_send_from_ip_def)
qed

end
