(* ===== verification/Client_Alias.thy ===== *)
theory Client_Alias
  imports Client_Env Codec_Common
begin

text \<open>
  The aliases of the client: \<open>knock/app/alias/alias.c\<close>, \<open>ops.c\<close> and \<open>command.c\<close>. \<open>realloc_ok\<close> says
  for how many entries the list can be allocated. What the client prints is left out; the operations that
  only show aliases return whether they could.
\<close>

section \<open>Reading and writing a map\<close>

record AliasEntry =
  al_name :: string
  al_host :: string
  al_id :: u32

text \<open>One call of \<open>strtok\<close>: the token and what is left, when there is a token.\<close>

definition strtok_next :: "(char \<Rightarrow> bool) \<Rightarrow> string \<Rightarrow> (string \<times> string) option" where
  "strtok_next delim s =
     (let t = dropWhile delim s
      in if t = [] then None
         else Some (takeWhile (\<lambda>c. \<not> delim c) t, drop 1 (dropWhile (\<lambda>c. \<not> delim c) t)))"

text \<open>\<open>strtoul\<close> of a text that must be used up, without a range error.\<close>

definition strtoul_all :: "string \<Rightarrow> nat option" where
  "strtoul_all s =
     (case scan_integer s of (neg, ds, rest) \<Rightarrow>
        if 2 ^ 64 \<le> digits_value 0 ds \<or> rest \<noteq> [] then None else Some (fst (strtoul10 s)))"

definition alias_of_line :: "string \<Rightarrow> AliasEntry option" where
  "alias_of_line line =
     (case strtok_next (\<lambda>c. c = CHR '','') line of
        None \<Rightarrow> None
      | Some (name, s1) \<Rightarrow>
          (case strtok_next (\<lambda>c. c = CHR '','') s1 of
             None \<Rightarrow> None
           | Some (host, s2) \<Rightarrow>
               (case strtok_next (\<lambda>c. c = CHR '','' \<or> c = nl) s2 of
                  None \<Rightarrow> None
                | Some (id_str, _) \<Rightarrow>
                    (case strtoul_all id_str of
                       None \<Rightarrow> None
                     | Some n \<Rightarrow>
                         if n = 0 \<or> 2 ^ 32 \<le> n then None
                         else Some \<lparr>al_name = take 127 name, al_host = take 255 host, al_id = word_of_nat n\<rparr>))))"

text \<open>The capacity when the entry after \<open>count\<close> entries needs room.\<close>

definition alias_capacity :: "nat \<Rightarrow> nat" where
  "alias_capacity capacity = (if capacity = 0 then 8 else capacity * 2)"

function read_map_loop ::
  "(nat \<Rightarrow> bool) \<Rightarrow> AliasEntry list \<Rightarrow> nat \<Rightarrow> string \<Rightarrow> AliasEntry list option" where
  "read_map_loop realloc_ok list capacity s =
     (case fgets 512 s of
        None \<Rightarrow> Some list
      | Some (buf, rest, eof) \<Rightarrow>
          (case alias_of_line (takeWhile (\<lambda>c. c \<noteq> nul) buf) of
             None \<Rightarrow> read_map_loop realloc_ok list capacity rest
           | Some entry \<Rightarrow>
               if capacity \<le> length list
               then (if realloc_ok (alias_capacity capacity)
                     then read_map_loop realloc_ok (list @ [entry]) (alias_capacity capacity) rest else None)
               else read_map_loop realloc_ok (list @ [entry]) capacity rest))"
  by pat_completeness auto

termination
  by (relation "measure (\<lambda>(m, l, c, s). length s)") (auto dest: fgets_shorter)

declare read_map_loop.simps [simp del]

definition app_alias_read_map ::
  "disk_env \<Rightarrow> (nat \<Rightarrow> bool) \<Rightarrow> disk \<Rightarrow> string \<Rightarrow> AliasEntry list option" where
  "app_alias_read_map env realloc_ok k path =
     (case fopen_read env k path of None \<Rightarrow> None | Some s \<Rightarrow> read_map_loop realloc_ok [] 0 s)"

fun update_first :: "string \<Rightarrow> string \<Rightarrow> u32 \<Rightarrow> AliasEntry list \<Rightarrow> AliasEntry list option" where
  "update_first name host i [] = None"
| "update_first name host i (e # es) =
     (if al_name e = name then Some (e\<lparr>al_id := i, al_host := take 255 host\<rparr> # es)
      else map_option (\<lambda>es'. e # es') (update_first name host i es))"

definition app_alias_update_entry ::
  "(nat \<Rightarrow> bool) \<Rightarrow> AliasEntry list \<Rightarrow> string \<Rightarrow> string \<Rightarrow> u32 \<Rightarrow> AliasEntry list option" where
  "app_alias_update_entry realloc_ok list name host i =
     (case update_first name host i list of
        Some list' \<Rightarrow> Some list'
      | None \<Rightarrow>
          if realloc_ok (length list + 1)
          then Some (list @ [\<lparr>al_name = take 127 name, al_host = take 255 host, al_id = i\<rparr>]) else None)"

definition alias_line :: "AliasEntry \<Rightarrow> string" where
  "alias_line e = al_name e @ '','' @ al_host e @ '','' @ dec_string (unat (al_id e)) @ [nl]"

definition app_alias_write_map :: "disk_env \<Rightarrow> disk \<Rightarrow> string \<Rightarrow> AliasEntry list \<Rightarrow> bool \<times> disk" where
  "app_alias_write_map env k path list =
     (case fwrite_file env k path (concat (map alias_line list)) of
        (None, k1) \<Rightarrow> (False, k1)
      | (Some _, k1) \<Rightarrow> (True, k1))"

section \<open>Resolving\<close>

definition app_alias_user_id_in_range :: "u32 \<Rightarrow> bool" where
  "app_alias_user_id_in_range i \<longleftrightarrow> 1 \<le> i \<and> i \<le> 65535"

definition app_alias_action_id_in_range :: "u32 \<Rightarrow> bool" where
  "app_alias_action_id_in_range i \<longleftrightarrow> 1 \<le> i \<and> i \<le> 255"

text \<open>The loop of both: the first entry of the name with an id in range.\<close>

fun resolve_loop :: "(u32 \<Rightarrow> bool) \<Rightarrow> string \<Rightarrow> AliasEntry list \<Rightarrow> u32" where
  "resolve_loop in_range name [] = 0"
| "resolve_loop in_range name (e # es) =
     (if al_name e = name \<and> in_range (al_id e) then al_id e else resolve_loop in_range name es)"

definition app_alias_resolve_action ::
  "disk_env \<Rightarrow> (nat \<Rightarrow> bool) \<Rightarrow> disk \<Rightarrow> string \<Rightarrow> string \<Rightarrow> u32" where
  "app_alias_resolve_action env realloc_ok k host name =
     (case app_env_build_host_config_path env PATH_MAX host (Some ''action.map'') of
        None \<Rightarrow> 0
      | Some path \<Rightarrow>
          (case app_alias_read_map env realloc_ok k path of
             None \<Rightarrow> 0
           | Some list \<Rightarrow> resolve_loop app_alias_action_id_in_range name list))"

definition app_alias_resolve_user ::
  "disk_env \<Rightarrow> (nat \<Rightarrow> bool) \<Rightarrow> disk \<Rightarrow> string \<Rightarrow> string \<Rightarrow> u32" where
  "app_alias_resolve_user env realloc_ok k host name =
     (case app_env_build_host_config_path env PATH_MAX host (Some ''user.map'') of
        None \<Rightarrow> 0
      | Some path \<Rightarrow>
          (case app_alias_read_map env realloc_ok k path of
             None \<Rightarrow> 0
           | Some list \<Rightarrow> resolve_loop app_alias_user_id_in_range name list))"

section \<open>Operations\<close>

text \<open>\<open>set_user\<close> and \<open>set_action\<close>, for the file that each works on.\<close>

definition alias_set ::
  "disk_env \<Rightarrow> (nat \<Rightarrow> bool) \<Rightarrow> string \<Rightarrow> disk \<Rightarrow> string \<Rightarrow> string \<Rightarrow> u32 \<Rightarrow> bool \<times> disk" where
  "alias_set env realloc_ok map_name k host name i =
     (if host = [] \<or> name = [] \<or> i = 0 then (False, k)
      else case app_env_ensure_host_config_dir env k host of
        (False, k1) \<Rightarrow> (False, k1)
      | (True, k1) \<Rightarrow>
          (case app_env_build_host_config_path env PATH_MAX host (Some map_name) of
             None \<Rightarrow> (False, k1)
           | Some path \<Rightarrow>
               (case (if file_exists k1 path then app_alias_read_map env realloc_ok k1 path else Some []) of
                  None \<Rightarrow> (False, k1)
                | Some aliases \<Rightarrow>
                    (case app_alias_update_entry realloc_ok aliases name host i of
                       None \<Rightarrow> (False, k1)
                     | Some aliases' \<Rightarrow> app_alias_write_map env k1 path aliases'))))"

definition app_alias_ops_set_user ::
  "disk_env \<Rightarrow> (nat \<Rightarrow> bool) \<Rightarrow> disk \<Rightarrow> string \<Rightarrow> string \<Rightarrow> u32 \<Rightarrow> bool \<times> disk" where
  "app_alias_ops_set_user env realloc_ok k host user user_id =
     alias_set env realloc_ok ''user.map'' k host user user_id"

definition app_alias_ops_set_action ::
  "disk_env \<Rightarrow> (nat \<Rightarrow> bool) \<Rightarrow> disk \<Rightarrow> string \<Rightarrow> string \<Rightarrow> u32 \<Rightarrow> bool \<times> disk" where
  "app_alias_ops_set_action env realloc_ok k host action action_id =
     alias_set env realloc_ok ''action.map'' k host action action_id"

text \<open>\<open>delete_user\<close> and \<open>delete_action\<close>.\<close>

definition alias_delete ::
  "disk_env \<Rightarrow> (nat \<Rightarrow> bool) \<Rightarrow> string \<Rightarrow> disk \<Rightarrow> string \<Rightarrow> string \<Rightarrow> bool \<times> disk" where
  "alias_delete env realloc_ok map_name k host name =
     (if host = [] \<or> name = [] then (False, k)
      else case app_env_build_host_config_path env PATH_MAX host (Some map_name) of
        None \<Rightarrow> (False, k)
      | Some path \<Rightarrow>
          if \<not> file_exists k path then (False, k)
          else case app_alias_read_map env realloc_ok k path of
            None \<Rightarrow> (False, k)
          | Some aliases \<Rightarrow>
              if \<not> list_ex (\<lambda>e. al_name e = name) aliases then (False, k)
              else app_alias_write_map env k path (filter (\<lambda>e. al_name e \<noteq> name) aliases))"

definition app_alias_ops_delete_user ::
  "disk_env \<Rightarrow> (nat \<Rightarrow> bool) \<Rightarrow> disk \<Rightarrow> string \<Rightarrow> string \<Rightarrow> bool \<times> disk" where
  "app_alias_ops_delete_user env realloc_ok k host user = alias_delete env realloc_ok ''user.map'' k host user"

definition app_alias_ops_delete_action ::
  "disk_env \<Rightarrow> (nat \<Rightarrow> bool) \<Rightarrow> disk \<Rightarrow> string \<Rightarrow> string \<Rightarrow> bool \<times> disk" where
  "app_alias_ops_delete_action env realloc_ok k host action =
     alias_delete env realloc_ok ''action.map'' k host action"

text \<open>Whether the aliases of a host can be shown.\<close>

definition alias_show :: "disk_env \<Rightarrow> (nat \<Rightarrow> bool) \<Rightarrow> string \<Rightarrow> disk \<Rightarrow> string \<Rightarrow> AliasEntry list option" where
  "alias_show env realloc_ok map_name k host =
     (if host = [] then None
      else case app_env_build_host_config_path env PATH_MAX host (Some map_name) of
        None \<Rightarrow> None
      | Some path \<Rightarrow> if \<not> file_exists k path then None else app_alias_read_map env realloc_ok k path)"

definition app_alias_ops_show_user :: "disk_env \<Rightarrow> (nat \<Rightarrow> bool) \<Rightarrow> disk \<Rightarrow> string \<Rightarrow> bool" where
  "app_alias_ops_show_user env realloc_ok k host \<longleftrightarrow> alias_show env realloc_ok ''user.map'' k host \<noteq> None"

definition app_alias_ops_show_action :: "disk_env \<Rightarrow> (nat \<Rightarrow> bool) \<Rightarrow> disk \<Rightarrow> string \<Rightarrow> bool" where
  "app_alias_ops_show_action env realloc_ok k host \<longleftrightarrow> alias_show env realloc_ok ''action.map'' k host \<noteq> None"

definition app_alias_ops_show_host :: "string \<Rightarrow> bool" where
  "app_alias_ops_show_host host \<longleftrightarrow> host \<noteq> []"

text \<open>
  Showing the aliases of all hosts, or the hosts, fails only when the directory cannot be opened; to list
  hosts, a directory that does not exist is no failure.
\<close>

definition app_alias_ops_show_all :: "disk_env \<Rightarrow> disk \<Rightarrow> bool" where
  "app_alias_ops_show_all env k =
     (case app_env_build_config_root_path env PATH_MAX of
        None \<Rightarrow> False
      | Some base_path \<Rightarrow> base_path \<in> dk_dirs k \<and> de_readable env base_path)"

definition app_alias_ops_show_hosts :: "disk_env \<Rightarrow> disk \<Rightarrow> bool" where
  "app_alias_ops_show_hosts env k =
     (case app_env_build_config_root_path env PATH_MAX of
        None \<Rightarrow> False
      | Some base_path \<Rightarrow>
          if base_path \<notin> dk_dirs k \<and> \<not> file_exists k base_path then True
          else base_path \<in> dk_dirs k \<and> de_readable env base_path)"

definition app_alias_ops_delete_map_file :: "disk_env \<Rightarrow> disk \<Rightarrow> string \<Rightarrow> string \<Rightarrow> bool \<times> disk" where
  "app_alias_ops_delete_map_file env k host filename =
     (if host = [] \<or> filename = [] then (False, k)
      else case app_env_build_host_config_path env PATH_MAX host (Some filename) of
        None \<Rightarrow> (False, k)
      | Some path \<Rightarrow> if \<not> file_exists k path then (False, k) else unlink_file env k path)"

definition app_alias_ops_delete_user_map :: "disk_env \<Rightarrow> disk \<Rightarrow> string \<Rightarrow> bool \<times> disk" where
  "app_alias_ops_delete_user_map env k host = app_alias_ops_delete_map_file env k host ''user.map''"

definition app_alias_ops_delete_action_map :: "disk_env \<Rightarrow> disk \<Rightarrow> string \<Rightarrow> bool \<times> disk" where
  "app_alias_ops_delete_action_map env k host = app_alias_ops_delete_map_file env k host ''action.map''"

definition app_alias_ops_delete_host :: "disk_env \<Rightarrow> disk \<Rightarrow> string \<Rightarrow> bool \<times> disk" where
  "app_alias_ops_delete_host env k host =
     (if host = [] then (False, k)
      else case app_env_build_host_config_path env PATH_MAX host None of
        None \<Rightarrow> (False, k)
      | Some base_path \<Rightarrow>
          (case (snprintf_fit PATH_MAX (base_path @ ''/user.map''), snprintf_fit PATH_MAX (base_path @ ''/action.map'')) of
             (Some user_map_path, Some action_map_path) \<Rightarrow>
               (case (if file_exists k user_map_path then unlink_file env k user_map_path else (True, k)) of
                  (b1, k1) \<Rightarrow>
                    (case (if file_exists k1 action_map_path then unlink_file env k1 action_map_path else (True, k1)) of
                       (b2, k2) \<Rightarrow> (b1 \<and> b2, k2)))
           | _ \<Rightarrow> (False, k)))"

section \<open>Commands\<close>

datatype AppAliasOp =
    APP_ALIAS_OP_INVALID | APP_ALIAS_OP_SET_USER | APP_ALIAS_OP_SET_ACTION | APP_ALIAS_OP_SHOW_USER
  | APP_ALIAS_OP_SHOW_USER_ALL | APP_ALIAS_OP_DELETE_USER | APP_ALIAS_OP_DELETE_USER_MAP
  | APP_ALIAS_OP_SHOW_ACTION | APP_ALIAS_OP_SHOW_ACTION_ALL | APP_ALIAS_OP_DELETE_ACTION
  | APP_ALIAS_OP_DELETE_ACTION_MAP | APP_ALIAS_OP_SHOW_HOST | APP_ALIAS_OP_SHOW_HOSTS | APP_ALIAS_OP_DELETE_HOST

record AppAliasCommand =
  ac_op :: AppAliasOp
  ac_host :: string
  ac_name :: string
  ac_id :: u32
  ac_confirm_yes :: bool
  ac_output_mode :: int

definition app_alias_command_execute ::
  "disk_env \<Rightarrow> (nat \<Rightarrow> bool) \<Rightarrow> AppAliasCommand \<Rightarrow> disk \<Rightarrow> bool \<times> disk" where
  "app_alias_command_execute env realloc_ok cmd k =
     (case ac_op cmd of
        APP_ALIAS_OP_SET_USER \<Rightarrow> app_alias_ops_set_user env realloc_ok k (ac_host cmd) (ac_name cmd) (ac_id cmd)
      | APP_ALIAS_OP_SET_ACTION \<Rightarrow> app_alias_ops_set_action env realloc_ok k (ac_host cmd) (ac_name cmd) (ac_id cmd)
      | APP_ALIAS_OP_SHOW_USER \<Rightarrow> (app_alias_ops_show_user env realloc_ok k (ac_host cmd), k)
      | APP_ALIAS_OP_SHOW_USER_ALL \<Rightarrow> (app_alias_ops_show_all env k, k)
      | APP_ALIAS_OP_DELETE_USER \<Rightarrow> app_alias_ops_delete_user env realloc_ok k (ac_host cmd) (ac_name cmd)
      | APP_ALIAS_OP_DELETE_USER_MAP \<Rightarrow>
          if \<not> ac_confirm_yes cmd then (False, k) else app_alias_ops_delete_user_map env k (ac_host cmd)
      | APP_ALIAS_OP_SHOW_ACTION \<Rightarrow> (app_alias_ops_show_action env realloc_ok k (ac_host cmd), k)
      | APP_ALIAS_OP_SHOW_ACTION_ALL \<Rightarrow> (app_alias_ops_show_all env k, k)
      | APP_ALIAS_OP_DELETE_ACTION \<Rightarrow> app_alias_ops_delete_action env realloc_ok k (ac_host cmd) (ac_name cmd)
      | APP_ALIAS_OP_DELETE_ACTION_MAP \<Rightarrow>
          if \<not> ac_confirm_yes cmd then (False, k) else app_alias_ops_delete_action_map env k (ac_host cmd)
      | APP_ALIAS_OP_SHOW_HOST \<Rightarrow> (app_alias_ops_show_host (ac_host cmd), k)
      | APP_ALIAS_OP_SHOW_HOSTS \<Rightarrow> (app_alias_ops_show_hosts env k, k)
      | APP_ALIAS_OP_DELETE_HOST \<Rightarrow>
          if \<not> ac_confirm_yes cmd then (False, k) else app_alias_ops_delete_host env k (ac_host cmd)
      | APP_ALIAS_OP_INVALID \<Rightarrow> (False, k))"

definition app_alias_execute :: "disk_env \<Rightarrow> (nat \<Rightarrow> bool) \<Rightarrow> AppAliasCommand \<Rightarrow> disk \<Rightarrow> bool \<times> disk" where
  "app_alias_execute env realloc_ok cmd k = app_alias_command_execute env realloc_ok cmd k"

end
