(* ===== verification/Client_Alias_Facts.thy ===== *)
theory Client_Alias_Facts
  imports Client_Alias Client_Env
begin

text \<open>
  An alias map read from a file and written again is the same; setting and deleting aliases is an update
  of a map from names to ids.
\<close>

section \<open>Decimal numbers\<close>

lemma dec_digit_facts:
  assumes "d < 10"
  shows "isdigit (dec_digit d)" "digit_value (dec_digit d) = d" "\<not> isspace (dec_digit d)"
    "dec_digit d \<noteq> CHR '',''" "dec_digit d \<noteq> CHR ''-''" "dec_digit d \<noteq> CHR ''+''" "dec_digit d \<noteq> nul" "dec_digit d \<noteq> nl"
proof -
  have "d = 0 \<or> d = 1 \<or> d = 2 \<or> d = 3 \<or> d = 4 \<or> d = 5 \<or> d = 6 \<or> d = 7 \<or> d = 8 \<or> d = 9" using assms by arith
  then show "isdigit (dec_digit d)" "digit_value (dec_digit d) = d" "\<not> isspace (dec_digit d)"
    "dec_digit d \<noteq> CHR '',''" "dec_digit d \<noteq> CHR ''-''" "dec_digit d \<noteq> CHR ''+''" "dec_digit d \<noteq> nul" "dec_digit d \<noteq> nl"
    by (auto simp: dec_digit_def isdigit_def digit_value_def isspace_def)
qed

lemma digits_value_snoc: "digits_value acc (ds @ [c]) = 10 * digits_value acc ds + digit_value c"
  by (induction ds arbitrary: acc) simp_all

lemma dec_string_digits:
  "digits_value 0 (dec_string n) = n" "list_all isdigit (dec_string n)"
  "c \<in> set (dec_string n) \<Longrightarrow> \<not> isspace c \<and> c \<noteq> CHR '','' \<and> c \<noteq> CHR ''-'' \<and> c \<noteq> CHR ''+'' \<and> c \<noteq> nul \<and> c \<noteq> nl"
proof -
  have "digits_value 0 (dec_string n) = n \<and> list_all isdigit (dec_string n) \<and>
    (\<forall>c \<in> set (dec_string n). \<not> isspace c \<and> c \<noteq> CHR '','' \<and> c \<noteq> CHR ''-'' \<and> c \<noteq> CHR ''+'' \<and> c \<noteq> nul \<and> c \<noteq> nl)"
  proof (induction n rule: dec_string.induct)
    case (1 n)
    then show ?case
      by (cases "n < 10") (subst (1 2 3) dec_string.simps, simp add: digits_value_snoc dec_digit_facts)+
  qed
  then show "digits_value 0 (dec_string n) = n" "list_all isdigit (dec_string n)"
    "c \<in> set (dec_string n) \<Longrightarrow> \<not> isspace c \<and> c \<noteq> CHR '','' \<and> c \<noteq> CHR ''-'' \<and> c \<noteq> CHR ''+'' \<and> c \<noteq> nul \<and> c \<noteq> nl" by blast+
qed

lemma dec_string_scan: "scan_integer (dec_string n) = (False, dec_string n, [])"
proof -
  obtain c cs where c: "dec_string n = c # cs" by (cases "dec_string n") auto
  have "\<not> isspace c" "c \<noteq> CHR ''-''" "c \<noteq> CHR ''+''" using dec_string_digits(3) [of c n] c by auto
  moreover have "takeWhile isdigit (c # cs) = c # cs" "dropWhile isdigit (c # cs) = []"
    using dec_string_digits(2) [of n] c by (simp_all add: list_all_iff)
  ultimately show ?thesis unfolding scan_integer_def Let_def c by simp
qed

lemma strtoul_dec: "n < 2 ^ 64 \<Longrightarrow> strtoul_all (dec_string n) = Some n"
  by (simp add: strtoul_all_def strtoul10_def dec_string_scan dec_string_digits)

section \<open>Lines\<close>

definition plain_token :: "nat \<Rightarrow> string \<Rightarrow> bool" where
  "plain_token n t \<longleftrightarrow> t \<noteq> [] \<and> length t \<le> n \<and> CHR '','' \<notin> set t \<and> nl \<notin> set t \<and> nul \<notin> set t"

definition entry_ok :: "AliasEntry \<Rightarrow> bool" where
  "entry_ok e \<longleftrightarrow> plain_token 127 (al_name e) \<and> plain_token 255 (al_host e) \<and> al_id e \<noteq> 0"


lemma strtok_split:
  assumes "strtok_next delim s = Some (tok, rest)"
  shows "tok \<noteq> []" "c \<in> set tok \<Longrightarrow> \<not> delim c" "set tok \<subseteq> set s" "set rest \<subseteq> set s"
    "rest \<noteq> [] \<Longrightarrow> set tok \<subseteq> set (butlast s)" "rest \<noteq> [] \<Longrightarrow> set (butlast rest) \<subseteq> set (butlast s)"
proof -
  let ?t = "dropWhile delim s"
  let ?u = "dropWhile (\<lambda>c. \<not> delim c) ?t"
  from assms have t: "?t \<noteq> []" "tok = takeWhile (\<lambda>c. \<not> delim c) ?t" "rest = drop 1 ?u"
    by (auto simp: strtok_next_def Let_def split: if_splits)
  have "\<not> delim (hd ?t)" using t(1) by (rule hd_dropWhile)
  then show "tok \<noteq> []" using t(1,2) by (cases ?t) auto
  show "c \<in> set tok \<Longrightarrow> \<not> delim c" unfolding t(2) by (blast dest: set_takeWhileD)
  have s: "s = takeWhile delim s @ tok @ ?u" unfolding t(2) by simp
  then have "set s = set (takeWhile delim s) \<union> set tok \<union> set ?u" by (metis set_append sup_assoc)
  then show "set tok \<subseteq> set s" "set rest \<subseteq> set s" using set_drop_subset [of 1 ?u] t(3) by auto
  have "\<exists>d pre. s = pre @ tok @ d # rest" if "rest \<noteq> []"
    using that s t(3) by (cases ?u) auto
  then show "rest \<noteq> [] \<Longrightarrow> set tok \<subseteq> set (butlast s)" "rest \<noteq> [] \<Longrightarrow> set (butlast rest) \<subseteq> set (butlast s)"
    by (auto simp: butlast_append)
qed

lemma strtok_next_Nil: "strtok_next delim [] = None"
  by (simp add: strtok_next_def)

lemma alias_of_line_ok:
  assumes "alias_of_line line = Some e" "nl \<notin> set (butlast line)" "nul \<notin> set line"
  shows "entry_ok e"
proof -
  obtain name s1 where a: "strtok_next (\<lambda>c. c = CHR '','') line = Some (name, s1)"
    using assms(1) by (auto simp: alias_of_line_def split: option.splits)
  obtain host s2 where b: "strtok_next (\<lambda>c. c = CHR '','') s1 = Some (host, s2)"
    using assms(1) a by (auto simp: alias_of_line_def split: option.splits)
  obtain id_str s3 where c: "strtok_next (\<lambda>c. c = CHR '','' \<or> c = nl) s2 = Some (id_str, s3)"
    using assms(1) a b by (auto simp: alias_of_line_def split: option.splits)
  have e: "al_name e = take 127 name" "al_host e = take 255 host" "al_id e \<noteq> 0"
    using assms(1) a b c
    by (auto simp: alias_of_line_def word_of_nat_eq_0_iff nat_dvd_not_less split: option.splits if_splits)
  have s: "s1 \<noteq> []" "s2 \<noteq> []" using b c strtok_next_Nil by auto
  note n = strtok_split [OF a] and h = strtok_split [OF b]
  have "CHR '','' \<notin> set name" "CHR '','' \<notin> set host" using n(2) h(2) by blast+
  moreover have "nl \<notin> set name" "nl \<notin> set host" using n(5,6) h(5) s assms(2) by blast+
  moreover have "nul \<notin> set name" "nul \<notin> set host" using n(3,4) h(3) assms(3) by blast+
  ultimately show ?thesis using e n(1) h(1)
    by (auto simp: entry_ok_def plain_token_def dest: in_set_takeD)
qed

lemma strtok_plain:
  assumes "plain_token n t" "delim d" "\<forall>c \<in> set t. \<not> delim c"
  shows "strtok_next delim (t @ d # s) = Some (t, s)"
proof -
  have "dropWhile delim (t @ d # s) = t @ d # s"
    using assms(1,3) by (cases t) (auto simp: plain_token_def)
  moreover have "takeWhile (\<lambda>c. \<not> delim c) (t @ d # s) = t" "dropWhile (\<lambda>c. \<not> delim c) (t @ d # s) = d # s"
    using assms(2,3) by simp_all
  ultimately show ?thesis by (simp add: strtok_next_def)
qed

lemma alias_line_read:
  assumes "entry_ok e"
  shows "alias_of_line (alias_line e) = Some e"
proof -
  let ?d = "dec_string (unat (al_id e))"
  have u: "unat (al_id e) < 2 ^ 32" using unsigned_less [of "al_id e", where ?'a = nat] by simp
  have t: "plain_token 127 (al_name e)" "plain_token 255 (al_host e)" "al_id e \<noteq> 0" using assms by (simp_all add: entry_ok_def)
  have d: "\<forall>c \<in> set ?d. \<not> (c = CHR '','' \<or> c = nl)" using dec_string_digits(3) by (auto simp: isspace_def)
  have p: "plain_token (length ?d) ?d"
    using dec_string_digits(3) by (auto simp: plain_token_def isspace_def)
  have "strtok_next (\<lambda>c. c = CHR '','') (alias_line e) = Some (al_name e, al_host e @ '','' @ ?d @ [nl])"
    unfolding alias_line_def using strtok_plain [OF t(1), of "\<lambda>c. c = CHR '',''" "CHR '',''"] t(1)
    by (auto simp: plain_token_def)
  moreover have "strtok_next (\<lambda>c. c = CHR '','') (al_host e @ '','' @ ?d @ [nl]) = Some (al_host e, ?d @ [nl])"
    using strtok_plain [OF t(2), of "\<lambda>c. c = CHR '',''" "CHR '',''"] t(2) by (auto simp: plain_token_def)
  moreover have "strtok_next (\<lambda>c. c = CHR '','' \<or> c = nl) (?d @ [nl]) = Some (?d, [])"
    using strtok_plain [OF p _ d, of nl "[]"] by simp
  moreover have "strtoul_all ?d = Some (unat (al_id e))" using u by (intro strtoul_dec) simp
  moreover have "unat (al_id e) \<noteq> 0" using t(3) by (simp add: unat_eq_0)
  ultimately show ?thesis using u t by (simp add: alias_of_line_def plain_token_def)
qed

lemma alias_line_shape:
  assumes "entry_ok e"
  shows "\<exists>l. alias_line e = l @ [nl] \<and> nl \<notin> set l \<and> nul \<notin> set l \<and> length l < 400"
proof -
  have u: "unat (al_id e) < 10 ^ 10" using unsigned_less [of "al_id e", where ?'a = nat] by simp
  have "length (dec_string (unat (al_id e))) \<le> 10" using u by (intro length_dec_string) simp_all
  then show ?thesis
    using assms dec_string_digits(3) [of _ "unat (al_id e)"]
    by (intro exI [of _ "al_name e @ '','' @ al_host e @ '','' @ dec_string (unat (al_id e))"])
      (auto simp: alias_line_def entry_ok_def plain_token_def isspace_def)
qed

section \<open>Files\<close>

lemma fgets_butlast:
  assumes "fgets sz s = Some (buf, rest, eof)"
  shows "nl \<notin> set (butlast buf)"
proof -
  define line where "line = takeWhile (\<lambda>c. c \<noteq> nl) s"
  define n where "n = (if length line < length s then length line + 1 else length line)"
  have "s \<noteq> []" using assms by (auto simp: fgets_def)
  have "fgets sz s = Some (take (min n (sz - 1)) s, drop (min n (sz - 1)) s,
      nl \<notin> set (take (min n (sz - 1)) s) \<and> min n (sz - 1) < sz - 1)"
    using \<open>s \<noteq> []\<close> by (simp only: fgets_def Let_def n_def line_def if_False)
  then have b: "buf = take (min n (sz - 1)) s" using assms by simp
  have "nl \<notin> set line" using set_takeWhileD by (fastforce simp: line_def)
  have "butlast buf = take (min n (sz - 1) - 1) s" if "min n (sz - 1) \<le> length s"
    using that by (simp add: b butlast_take)
  moreover have "n \<le> length s" using length_takeWhile_le [of "\<lambda>c. c \<noteq> nl" s] by (auto simp: n_def line_def)
  moreover have "take (min n (sz - 1) - 1) s = take (min n (sz - 1) - 1) line"
  proof -
    have "min n (sz - 1) - 1 \<le> length line" by (auto simp: n_def)
    then show ?thesis unfolding line_def by (metis takeWhile_eq_take take_take min.absorb1)
  qed
  ultimately have "butlast buf = take (min n (sz - 1) - 1) line" by (metis min.coboundedI1)
  then show ?thesis using \<open>nl \<notin> set line\<close> by (auto dest: in_set_takeD)
qed

lemma read_map_loop_ok:
  "read_map_loop m list c s = Some list' \<Longrightarrow> list_all entry_ok list \<Longrightarrow> list_all entry_ok list'"
proof (induction m list c s rule: read_map_loop.induct)
  case (1 m list c s)
  show ?case
  proof (cases "fgets 512 s")
    case None
    with 1(4,5) show ?thesis by (simp add: read_map_loop.simps [of m list c s])
  next
    case (Some x)
    obtain buf rest eof where x: "x = (buf, rest, eof)" by (cases x) auto
    let ?line = "takeWhile (\<lambda>c. c \<noteq> nul) buf"
    note run = 1(4) [unfolded read_map_loop.simps [of m list c s] Some x]
    show ?thesis
    proof (cases "alias_of_line ?line")
      case None
      with run 1(1) [OF Some x [symmetric] refl None] 1(5) show ?thesis by simp
    next
      case e: (Some e)
      have "set (butlast ?line) \<subseteq> set (butlast buf)"
      proof -
        obtain r where r: "buf = ?line @ r" using takeWhile_dropWhile_id [of "\<lambda>c. c \<noteq> nul" buf] by metis
        show ?thesis
          by (subst (2) r) (auto simp: butlast_append dest: in_set_butlastD)
      qed
      then have "nl \<notin> set (butlast ?line)" using fgets_butlast [OF Some [unfolded x]] by blast
      moreover have "nul \<notin> set ?line" using set_takeWhileD by fastforce
      ultimately have "entry_ok e" using alias_of_line_ok [OF e] by blast
      then have ok: "list_all entry_ok (list @ [e])" using 1(5) by simp
      show ?thesis
        using run e ok 1(2) [OF Some x [symmetric] refl e] 1(3) [OF Some x [symmetric] refl e] by (auto split: if_splits)
    qed
  qed
qed

lemma read_map_written:
  assumes "list_all entry_ok es" "\<forall>n. m n"
  shows "read_map_loop m list c (concat (map alias_line es)) = Some (list @ es)"
  using assms(1)
proof (induction es arbitrary: list c)
  case Nil
  then show ?case by (simp add: read_map_loop.simps fgets_def)
next
  case (Cons e es)
  then obtain l where l: "alias_line e = l @ [nl]" "nl \<notin> set l" "nul \<notin> set l" "length l < 400"
    using alias_line_shape [of e] by auto
  have f: "fgets 512 (concat (map alias_line (e # es))) = Some (l @ [nl], concat (map alias_line es), False)"
    using fgets_line [of l 512 "concat (map alias_line es)"] l by simp
  have t: "takeWhile (\<lambda>c. c \<noteq> nul) (l @ [nl]) = alias_line e"
    using l(1,3) by (simp add: takeWhile_append)
  have "alias_of_line (takeWhile (\<lambda>c. c \<noteq> nul) (l @ [nl])) = Some e"
    unfolding t using Cons.prems alias_line_read by simp
  moreover have "read_map_loop m (list @ [e]) c' (concat (map alias_line es)) = Some (list @ e # es)" for c'
    using Cons.IH [of "list @ [e]" c'] Cons.prems by simp
  ultimately show ?case
    unfolding read_map_loop.simps [of m list c "concat (map alias_line (e # es))"] f by (simp add: assms(2))
qed

section \<open>Looking up\<close>

definition alias_lookup ::
  "disk_env \<Rightarrow> (nat \<Rightarrow> bool) \<Rightarrow> (u32 \<Rightarrow> bool) \<Rightarrow> string \<Rightarrow> disk \<Rightarrow> string \<Rightarrow> string \<Rightarrow> u32" where
  "alias_lookup env m in_range map_name k host name =
     (case app_env_build_host_config_path env PATH_MAX host (Some map_name) of
        None \<Rightarrow> 0
      | Some path \<Rightarrow>
          (case app_alias_read_map env m k path of None \<Rightarrow> 0 | Some list \<Rightarrow> resolve_loop in_range name list))"

lemma resolve_lookup:
  "app_alias_resolve_user env m = alias_lookup env m app_alias_user_id_in_range ''user.map''"
  "app_alias_resolve_action env m = alias_lookup env m app_alias_action_id_in_range ''action.map''"
  by (intro ext, simp add: app_alias_resolve_user_def app_alias_resolve_action_def alias_lookup_def)+

lemma host_path_inj:
  assumes "app_env_build_host_config_path env n host (Some f) = Some path"
    "app_env_build_host_config_path env n host' (Some f) = Some path" "f \<noteq> []"
  shows "host = host'"
  using assms by (auto simp: app_env_build_host_config_path_def snprintf_fit_def split: if_splits option.splits)

lemma resolve_update:
  assumes "update_first name host i es = Some es'" "in_range i"
  shows "resolve_loop in_range name es' = i" "n \<noteq> name \<Longrightarrow> resolve_loop in_range n es' = resolve_loop in_range n es"
  using assms by (induction es arbitrary: es') (auto split: if_splits)

lemma resolve_append:
  "resolve_loop in_range n (es @ es') = (if \<exists>e \<in> set es. al_name e = n \<and> in_range (al_id e)
     then resolve_loop in_range n es else resolve_loop in_range n es')"
  by (induction es) auto

lemma update_first_None: "update_first name host i es = None \<longleftrightarrow> name \<notin> al_name ` set es"
  by (induction es) auto

lemma update_first_ok:
  "update_first name host i es = Some es' \<Longrightarrow> list_all entry_ok es \<Longrightarrow> plain_token 255 host \<Longrightarrow> i \<noteq> 0 \<Longrightarrow> list_all entry_ok es'"
  by (induction es arbitrary: es') (auto simp: entry_ok_def plain_token_def split: if_splits)

lemma resolve_none: "\<forall>e \<in> set es. al_name e \<noteq> n \<or> \<not> in_range (al_id e) \<Longrightarrow> resolve_loop in_range n es = 0"
  by (induction es) auto

lemma update_entry_facts:
  assumes "app_alias_update_entry m list name host i = Some list'" "list_all entry_ok list"
    "plain_token 127 name" "plain_token 255 host" "i \<noteq> 0" "in_range i"
  shows "list_all entry_ok list'" "resolve_loop in_range name list' = i"
    "n \<noteq> name \<Longrightarrow> resolve_loop in_range n list' = resolve_loop in_range n list"
proof -
  have "list_all entry_ok list' \<and> resolve_loop in_range name list' = i \<and>
    (n \<noteq> name \<longrightarrow> resolve_loop in_range n list' = resolve_loop in_range n list)"
  proof (cases "update_first name host i list")
    case (Some es)
    with assms show ?thesis
      using update_first_ok [OF Some] resolve_update [OF Some, of in_range] by (simp add: app_alias_update_entry_def)
  next
    case None
    let ?e = "\<lparr>al_name = name, al_host = host, al_id = i\<rparr>"
    have l: "list' = list @ [?e]"
      using assms None by (auto simp: app_alias_update_entry_def plain_token_def split: if_splits)
    have "name \<notin> al_name ` set list" using None update_first_None by metis
    then have "resolve_loop in_range name list' = i" using assms(6) by (auto simp: l resolve_append)
    moreover have "resolve_loop in_range n list' = resolve_loop in_range n list" if "n \<noteq> name"
      using that resolve_none [of list n in_range] by (auto simp: l resolve_append)
    moreover have "list_all entry_ok list'" using assms by (simp add: l entry_ok_def)
    ultimately show ?thesis by blast
  qed
  then show "list_all entry_ok list'" "resolve_loop in_range name list' = i"
    "n \<noteq> name \<Longrightarrow> resolve_loop in_range n list' = resolve_loop in_range n list" by blast+
qed

lemma read_after_write:
  assumes "disk_keeps env" "\<forall>n. m n" "list_all entry_ok es" "app_alias_write_map env k path es = (True, k')"
  shows "app_alias_read_map env m k' path = Some es" "path' \<noteq> path \<Longrightarrow> app_alias_read_map env m k' path' = app_alias_read_map env m k path'"
proof -
  obtain st pr cl where w: "de_write env path (concat (map alias_line es)) = (st, pr, cl)" using prod_cases3 by blast
  then have st: "st = concat (map alias_line es)" using assms(1) by (metis disk_keeps_def fst_conv)
  from assms(4) w have k: "k' = k\<lparr>dk_files := (dk_files k)(path \<mapsto> st)\<rparr>"
    by (auto simp: app_alias_write_map_def fwrite_file_def split: if_splits)
  show "app_alias_read_map env m k' path = Some es"
    using assms(1-3) read_map_written [of es m "[]" 0]
    by (simp add: app_alias_read_map_def fopen_read_def disk_keeps_def k st)
  show "path' \<noteq> path \<Longrightarrow> app_alias_read_map env m k' path' = app_alias_read_map env m k path'"
    by (simp add: app_alias_read_map_def fopen_read_def k)
qed

lemma read_map_ok: "app_alias_read_map env m k path = Some es \<Longrightarrow> list_all entry_ok es"
  using read_map_loop_ok by (auto simp: app_alias_read_map_def split: option.splits)

lemma write_fails: "app_alias_write_map env k path es = (False, k') \<Longrightarrow> k' = k"
  by (auto simp: app_alias_write_map_def fwrite_file_def split: if_splits prod.splits)

lemma ensure_dir_files: "env_user_ensure_dir env k path = (b, k') \<Longrightarrow> dk_files k' = dk_files k"
  by (auto simp: env_user_ensure_dir_def split: if_splits)

lemma ensure_host_files: "app_env_ensure_host_config_dir env k host = (b, k') \<Longrightarrow> dk_files k' = dk_files k"
  unfolding app_env_ensure_host_config_dir_def ensure_client_config_dir_exists_def env_user_ensure_home_config_dir_def
  by (auto dest!: ensure_dir_files split: prod.splits bool.splits option.splits)

lemma read_map_files: "dk_files k' = dk_files k \<Longrightarrow> app_alias_read_map env m k' path = app_alias_read_map env m k path"
  by (simp add: app_alias_read_map_def fopen_read_def)

lemma lookup_files:
  assumes "dk_files k' = dk_files k"
  shows "alias_lookup env m r f k' = alias_lookup env m r f k"
  by (intro ext) (simp only: alias_lookup_def read_map_files [OF assms])

lemma lookup_missing:
  assumes "app_env_build_host_config_path env PATH_MAX host (Some f) = Some path" "\<not> file_exists k path"
  shows "alias_lookup env m r f k host n = 0"
  using assms by (simp add: alias_lookup_def app_alias_read_map_def fopen_read_def file_exists_def)

lemma alias_set_cases:
  assumes "alias_set env m f k host name i = (b, k')"
  obtains "\<not> b" "dk_files k' = dk_files k"
  | k1 path aliases aliases' where "dk_files k1 = dk_files k" "app_env_build_host_config_path env PATH_MAX host (Some f) = Some path"
      "(if file_exists k1 path then app_alias_read_map env m k1 path else Some []) = Some aliases"
      "app_alias_update_entry m aliases name host i = Some aliases'" "app_alias_write_map env k1 path aliases' = (b, k')"
proof (cases "host = [] \<or> name = [] \<or> i = 0")
  case True
  then show ?thesis using assms that(1) by (simp add: alias_set_def)
next
  case ne: False
  obtain b1 k1 where e: "app_env_ensure_host_config_dir env k host = (b1, k1)" by (cases "app_env_ensure_host_config_dir env k host")
  note files = ensure_host_files [OF e] and run = assms [unfolded alias_set_def if_not_P [OF ne] e prod.case]
  show ?thesis
  proof (cases b1)
    case False
    then show ?thesis using run files that(1) by simp
  next
    case True
    note run = run [unfolded eqTrueI [OF True] bool.case prod.case]
    show ?thesis
    proof (cases "app_env_build_host_config_path env PATH_MAX host (Some f)")
      case None
      then show ?thesis using run files that(1) by simp
    next
      case p: (Some path)
      show ?thesis
      proof (cases "if file_exists k1 path then app_alias_read_map env m k1 path else Some []")
        case None
        show ?thesis using run [unfolded p option.case None] files that(1) by simp
      next
        case r: (Some aliases)
        show ?thesis
        proof (cases "app_alias_update_entry m aliases name host i")
          case None
          show ?thesis using run [unfolded p option.case r None] files that(1) by simp
        next
          case (Some aliases')
          show ?thesis using that(2) [OF files p r Some] run [unfolded p option.case r Some] by simp
        qed
      qed
    qed
  qed
qed

text \<open>After a write to the file of a host, only the names of that host can be looked up differently.\<close>

lemma lookup_after_write:
  assumes env: "disk_keeps env" "\<forall>n. m n" and f: "f \<noteq> []"
    and path: "app_env_build_host_config_path env PATH_MAX host (Some f) = Some path"
    and ok: "list_all entry_ok es" and wr: "app_alias_write_map env k path es = (True, k')"
  shows "alias_lookup env m r f k' host n = resolve_loop r n es"
    "host' \<noteq> host \<Longrightarrow> alias_lookup env m r f k' host' n = alias_lookup env m r f k host' n"
proof -
  note w = read_after_write [OF env ok wr]
  show "alias_lookup env m r f k' host n = resolve_loop r n es" by (simp add: alias_lookup_def path w(1))
  assume h: "host' \<noteq> host"
  show "alias_lookup env m r f k' host' n = alias_lookup env m r f k host' n"
  proof (cases "app_env_build_host_config_path env PATH_MAX host' (Some f)")
    case None
    then show ?thesis by (simp add: alias_lookup_def)
  next
    case (Some p)
    then have "p \<noteq> path" using path h host_path_inj [OF _ _ f] by blast
    then have "app_alias_read_map env m k' p = app_alias_read_map env m k p" by (rule w(2))
    then show ?thesis by (simp only: alias_lookup_def Some option.case)
  qed
qed

lemma set_facts:
  assumes env: "disk_keeps env" "\<forall>n. m n" and f: "f \<noteq> []"
    and run: "alias_set env m f k host name i = (b, k')"
    and ok: "plain_token 127 name" "plain_token 255 host" "i \<noteq> 0" "in_range i"
  shows "(\<not> b \<longrightarrow> dk_files k' = dk_files k) \<and> (b \<longrightarrow> alias_lookup env m in_range f k' host name = i \<and>
    ((host', n) \<noteq> (host, name) \<longrightarrow> alias_lookup env m in_range f k' host' n = alias_lookup env m in_range f k host' n))"
  using run
proof (cases rule: alias_set_cases)
  case 1
  then show ?thesis by simp
next
  case (2 k1 path aliases aliases')
  have al: "list_all entry_ok aliases" using 2(3) read_map_ok by (auto split: if_splits)
  note u = update_entry_facts [where in_range = in_range, OF 2(4) al ok]
  have old: "alias_lookup env m in_range f k1 host n' = resolve_loop in_range n' aliases" for n'
    using 2(2,3) lookup_missing [OF 2(2), of k1 m in_range n']
    by (cases "file_exists k1 path") (simp_all add: alias_lookup_def)
  have k1: "alias_lookup env m in_range f k1 = alias_lookup env m in_range f k" by (rule lookup_files [OF 2(1)])
  show ?thesis
  proof (cases b)
    case False
    then have "k' = k1" using 2(5) write_fails by metis
    with False 2(1) show ?thesis by simp
  next
    case True
    note w = lookup_after_write [OF env f 2(2) u(1) 2(5) [unfolded eqTrueI [OF True]], where r = in_range]
    have "alias_lookup env m in_range f k' host' n = alias_lookup env m in_range f k1 host' n" if "(host', n) \<noteq> (host, name)"
      using that w u(3) [of n] old by (cases "host' = host") simp_all
    with True w(1) [of name] u(2) k1 show ?thesis by simp
  qed
qed

lemma resolve_filter:
  "resolve_loop in_range name (filter (\<lambda>e. al_name e \<noteq> name) es) = 0"
  "n \<noteq> name \<Longrightarrow> resolve_loop in_range n (filter (\<lambda>e. al_name e \<noteq> name) es) = resolve_loop in_range n es"
  by (induction es) auto

lemma alias_delete_cases:
  assumes "alias_delete env m f k host name = (b, k')"
  obtains "\<not> b" "k' = k"
  | path aliases where "app_env_build_host_config_path env PATH_MAX host (Some f) = Some path"
      "app_alias_read_map env m k path = Some aliases"
      "app_alias_write_map env k path (filter (\<lambda>e. al_name e \<noteq> name) aliases) = (b, k')"
proof (cases "host = [] \<or> name = []")
  case True
  then show ?thesis using assms that(1) by (simp add: alias_delete_def)
next
  case ne: False
  note run = assms [unfolded alias_delete_def if_not_P [OF ne]]
  show ?thesis
  proof (cases "app_env_build_host_config_path env PATH_MAX host (Some f)")
    case None
    then show ?thesis using run that(1) by simp
  next
    case p: (Some path)
    show ?thesis
    proof (cases "app_alias_read_map env m k path")
      case None
      then show ?thesis using run [unfolded p option.case] that(1) by (cases "file_exists k path") simp_all
    next
      case r: (Some aliases)
      note run = run [unfolded p option.case r]
      show ?thesis
      proof (cases "\<not> file_exists k path \<or> \<not> list_ex (\<lambda>e. al_name e = name) aliases")
        case True
        then show ?thesis using run that(1) by (auto split: if_splits)
      next
        case False
        then show ?thesis using run that(2) [OF p r] by simp
      qed
    qed
  qed
qed

lemma delete_facts:
  assumes env: "disk_keeps env" "\<forall>n. m n" and f: "f \<noteq> []"
    and run: "alias_delete env m f k host name = (b, k')"
  shows "(\<not> b \<longrightarrow> dk_files k' = dk_files k) \<and> (b \<longrightarrow> alias_lookup env m in_range f k' host name = 0 \<and>
    ((host', n) \<noteq> (host, name) \<longrightarrow> alias_lookup env m in_range f k' host' n = alias_lookup env m in_range f k host' n))"
  using run
proof (cases rule: alias_delete_cases)
  case 1
  then show ?thesis by simp
next
  case (2 path aliases)
  have ok: "list_all entry_ok (filter (\<lambda>e. al_name e \<noteq> name) aliases)"
    using read_map_ok [OF 2(2)] by (simp add: list_all_iff)
  show ?thesis
  proof (cases b)
    case False
    then have "k' = k" using 2(3) write_fails by metis
    with False show ?thesis by simp
  next
    case True
    note w = lookup_after_write [OF env f 2(1) ok 2(3) [unfolded eqTrueI [OF True]], where r = in_range]
    have "alias_lookup env m in_range f k' host' n = alias_lookup env m in_range f k host' n" if "(host', n) \<noteq> (host, name)"
      using that w resolve_filter(2) [of n name in_range aliases] 2(1,2) by (cases "host' = host") (simp_all add: alias_lookup_def)
    with True w(1) [of name] resolve_filter(1) show ?thesis by simp
  qed
qed


text \<open>
  What the commands on aliases mean for a map from hosts and names to ids: the contract of a store of
  aliases, met by the user aliases and by the action aliases.
\<close>

section \<open>The contract\<close>

text \<open>The ids by host and name; 0 is no alias.\<close>

type_synonym alias_ids = "string \<Rightarrow> string \<Rightarrow> u32"

datatype alias_op = Set_alias string string u32 | Delete_alias string string | Delete_map string

definition set_id :: "string \<Rightarrow> string \<Rightarrow> u32 \<Rightarrow> alias_ids \<Rightarrow> alias_ids" where
  "set_id h n i ids = ids(h := (ids h)(n := i))"

fun alias_effect :: "alias_op \<Rightarrow> bool \<Rightarrow> alias_ids \<Rightarrow> alias_ids" where
  "alias_effect a False ids = ids"
| "alias_effect (Set_alias h n i) True ids = set_id h n i ids"
| "alias_effect (Delete_alias h n) True ids = set_id h n 0 ids"
| "alias_effect (Delete_map h) True ids = ids(h := (\<lambda>_. 0))"

locale alias_store =
  fixes valid :: "'s \<Rightarrow> bool"
    and set_alias :: "'s \<Rightarrow> string \<Rightarrow> string \<Rightarrow> u32 \<Rightarrow> bool \<times> 's"
    and delete_alias :: "'s \<Rightarrow> string \<Rightarrow> string \<Rightarrow> bool \<times> 's"
    and delete_map :: "'s \<Rightarrow> string \<Rightarrow> bool \<times> 's"
    and lookup :: "'s \<Rightarrow> alias_ids"
    and may_set :: "string \<Rightarrow> string \<Rightarrow> u32 \<Rightarrow> bool"
  assumes set_law: "valid s \<Longrightarrow> may_set h n i \<Longrightarrow> set_alias s h n i = (b, s') \<Longrightarrow>
      valid s' \<and> lookup s' = (if b then set_id h n i (lookup s) else lookup s)"
    and delete_law: "valid s \<Longrightarrow> delete_alias s h n = (b, s') \<Longrightarrow>
      valid s' \<and> lookup s' = (if b then set_id h n 0 (lookup s) else lookup s)"
    and delete_map_law: "valid s \<Longrightarrow> delete_map s h = (b, s') \<Longrightarrow>
      valid s' \<and> lookup s' = (if b then (lookup s)(h := (\<lambda>_. 0)) else lookup s)"
begin

fun do_op :: "alias_op \<Rightarrow> 's \<Rightarrow> bool \<times> 's" where
  "do_op (Set_alias h n i) s = set_alias s h n i"
| "do_op (Delete_alias h n) s = delete_alias s h n"
| "do_op (Delete_map h) s = delete_map s h"

fun op_ok :: "alias_op \<Rightarrow> bool" where
  "op_ok (Set_alias h n i) = may_set h n i"
| "op_ok a = True"

lemma op_refines: "valid s \<Longrightarrow> op_ok a \<Longrightarrow> do_op a s = (b, s') \<Longrightarrow> valid s' \<and> lookup s' = alias_effect a b (lookup s)"
  using set_law [of s _ _ _ b s'] delete_law [of s _ _ b s'] delete_map_law [of s _ b s']
  by (cases a; cases b) fastforce+

end

section \<open>Both stores\<close>

text \<open>The state of a store: the operating system, the allocator and the disk.\<close>

type_synonym alias_files = "disk_env \<times> (nat \<Rightarrow> bool) \<times> disk"

fun files_ok :: "alias_files \<Rightarrow> bool" where
  "files_ok (env, m, k) \<longleftrightarrow> disk_keeps env \<and> (\<forall>n. m n)"

definition may_set :: "(u32 \<Rightarrow> bool) \<Rightarrow> string \<Rightarrow> string \<Rightarrow> u32 \<Rightarrow> bool" where
  "may_set in_range h n i \<longleftrightarrow> plain_token 255 h \<and> plain_token 127 n \<and> in_range i"

definition with_env :: "alias_files \<Rightarrow> bool \<times> disk \<Rightarrow> bool \<times> alias_files" where
  "with_env s r = (case s of (env, m, k) \<Rightarrow> (fst r, env, m, snd r))"

fun user_set where "user_set (env, m, k) h n i = with_env (env, m, k) (app_alias_ops_set_user env m k h n i)"
fun user_delete where "user_delete (env, m, k) h n = with_env (env, m, k) (app_alias_ops_delete_user env m k h n)"
fun user_delete_map where "user_delete_map (env, m, k) h = with_env (env, m, k) (app_alias_ops_delete_user_map env k h)"
fun user_ids :: "alias_files \<Rightarrow> alias_ids" where "user_ids (env, m, k) = app_alias_resolve_user env m k"

fun action_set where "action_set (env, m, k) h n i = with_env (env, m, k) (app_alias_ops_set_action env m k h n i)"
fun action_delete where "action_delete (env, m, k) h n = with_env (env, m, k) (app_alias_ops_delete_action env m k h n)"
fun action_delete_map where "action_delete_map (env, m, k) h = with_env (env, m, k) (app_alias_ops_delete_action_map env k h)"
fun action_ids :: "alias_files \<Rightarrow> alias_ids" where "action_ids (env, m, k) = app_alias_resolve_action env m k"

lemma lookup_Nil_host: "alias_lookup env m r f k [] n = 0"
  by (simp add: alias_lookup_def app_env_build_host_config_path_def)

lemma unlink_cases:
  assumes "unlink_file env k path = (b, k')"
  shows "(\<not> b \<longrightarrow> k' = k) \<and> (b \<longrightarrow> dk_files k' = (dk_files k)(path := None))"
  using assms by (auto simp: unlink_file_def split: if_splits)

lemma lookup_without:
  assumes "app_env_build_host_config_path env PATH_MAX host (Some f) = Some path" "f \<noteq> []"
    "dk_files k' = (dk_files k)(path := None)"
  shows "alias_lookup env m r f k' = (alias_lookup env m r f k)(host := (\<lambda>_. 0))"
proof (intro ext)
  fix h n
  show "alias_lookup env m r f k' h n = ((alias_lookup env m r f k)(host := (\<lambda>_. 0))) h n"
  proof (cases "h = host")
    case True
    then show ?thesis using lookup_missing [OF assms(1), of k'] assms(3) by (simp add: file_exists_def)
  next
    case False
    then have "p \<noteq> path" if "app_env_build_host_config_path env PATH_MAX h (Some f) = Some p" for p
      using that assms(1) host_path_inj [OF _ _ assms(2)] by blast
    then have "app_alias_read_map env m k' p = app_alias_read_map env m k p"
      if "app_env_build_host_config_path env PATH_MAX h (Some f) = Some p" for p
      using that by (simp add: app_alias_read_map_def fopen_read_def assms(3))
    with False show ?thesis by (simp add: alias_lookup_def split: option.split)
  qed
qed

lemma delete_map_facts:
  assumes "app_alias_ops_delete_map_file env k host f = (b, k')" "f \<noteq> []"
  shows "alias_lookup env m r f k' = (if b then (alias_lookup env m r f k)(host := (\<lambda>_. 0)) else alias_lookup env m r f k)"
proof (cases "app_env_build_host_config_path env PATH_MAX host (Some f)")
  case None
  with assms(1) show ?thesis by (auto simp: app_alias_ops_delete_map_file_def split: if_splits)
next
  case (Some path)
  have "\<not> b \<and> k' = k \<or> unlink_file env k path = (b, k')"
    using assms(1) by (auto simp: app_alias_ops_delete_map_file_def Some split: if_splits)
  then show ?thesis using unlink_cases [of env k path b k'] lookup_without [OF Some assms(2), of k' k m r] by auto
qed

lemma set_law:
  assumes "disk_keeps env" "\<forall>n. m n" "f \<noteq> []" "may_set r h n i" "\<not> r 0" "alias_set env m f k h n i = (b, k')"
  shows "alias_lookup env m r f k' = (if b then set_id h n i (alias_lookup env m r f k) else alias_lookup env m r f k)"
proof -
  have ok: "plain_token 127 n" "plain_token 255 h" "i \<noteq> 0" "r i" using assms(4,5) by (auto simp: may_set_def)
  note sf = set_facts [where m = m and in_range = r, OF assms(1-3,6) ok]
  show ?thesis
  proof (cases b)
    case True
    have "alias_lookup env m r f k' h' n' = set_id h n i (alias_lookup env m r f k) h' n'"
      for h' n'
    proof (cases "(h', n') = (h, n)")
      case c: True
      with True sf [of h' n'] show ?thesis by (simp add: set_id_def)
    next
      case False
      with True sf [of h' n'] have "alias_lookup env m r f k' h' n' = alias_lookup env m r f k h' n'" by blast
      with False show ?thesis by (auto simp: set_id_def)
    qed
    then have "alias_lookup env m r f k' = set_id h n i (alias_lookup env m r f k)" by (intro ext)
    with True show ?thesis by simp
  next
    case False
    with sf have "dk_files k' = dk_files k" by blast
    with False lookup_files [OF this] show ?thesis by simp
  qed
qed

lemma delete_law:
  assumes "disk_keeps env" "\<forall>n. m n" "f \<noteq> []" "alias_delete env m f k h n = (b, k')"
  shows "alias_lookup env m r f k' = (if b then set_id h n 0 (alias_lookup env m r f k) else alias_lookup env m r f k)"
proof -
  note df = delete_facts [where m = m and in_range = r, OF assms]
  show ?thesis
  proof (cases b)
    case True
    have "alias_lookup env m r f k' h' n' = set_id h n 0 (alias_lookup env m r f k) h' n'"
      for h' n'
    proof (cases "(h', n') = (h, n)")
      case c: True
      with True df [of h' n'] show ?thesis by (simp add: set_id_def)
    next
      case False
      with True df [of h' n'] have "alias_lookup env m r f k' h' n' = alias_lookup env m r f k h' n'" by blast
      with False show ?thesis by (auto simp: set_id_def)
    qed
    then have "alias_lookup env m r f k' = set_id h n 0 (alias_lookup env m r f k)" by (intro ext)
    with True show ?thesis by simp
  next
    case False
    with df have "dk_files k' = dk_files k" by blast
    with False lookup_files [OF this] show ?thesis by simp
  qed
qed

lemma range_0: "\<not> app_alias_user_id_in_range 0" "\<not> app_alias_action_id_in_range 0"
  by (simp_all add: app_alias_user_id_in_range_def app_alias_action_id_in_range_def)

lemma with_env_eq: "with_env (env, m, k) r = (b, s') \<longleftrightarrow> (\<exists>k'. r = (b, k') \<and> s' = (env, m, k'))"
  by (cases r) (auto simp: with_env_def)

fun file_ids :: "(u32 \<Rightarrow> bool) \<Rightarrow> string \<Rightarrow> alias_files \<Rightarrow> alias_ids" where
  "file_ids r f (env, m, k) = alias_lookup env m r f k"

lemma store_laws:
  assumes "files_ok (env, m, k)" "f \<noteq> []"
  shows "may_set r h n i \<Longrightarrow> \<not> r 0 \<Longrightarrow> with_env (env, m, k) (alias_set env m f k h n i) = (b, s') \<Longrightarrow>
      files_ok s' \<and> file_ids r f s' = (if b then set_id h n i (alias_lookup env m r f k) else alias_lookup env m r f k)"
    "with_env (env, m, k) (alias_delete env m f k h n) = (b, s') \<Longrightarrow>
      files_ok s' \<and> file_ids r f s' = (if b then set_id h n 0 (alias_lookup env m r f k) else alias_lookup env m r f k)"
    "with_env (env, m, k) (app_alias_ops_delete_map_file env k h f) = (b, s') \<Longrightarrow>
      files_ok s' \<and> file_ids r f s' =
        (if b then (alias_lookup env m r f k)(h := (\<lambda>_. 0)) else alias_lookup env m r f k)"
proof -
  have e: "disk_keeps env" "\<forall>n. m n" using assms(1) by simp_all
  show "may_set r h n i \<Longrightarrow> \<not> r 0 \<Longrightarrow> with_env (env, m, k) (alias_set env m f k h n i) = (b, s') \<Longrightarrow>
      files_ok s' \<and> file_ids r f s' = (if b then set_id h n i (alias_lookup env m r f k) else alias_lookup env m r f k)"
    using set_law [where m = m and r = r, OF e assms(2)] assms(1) unfolding with_env_eq by fastforce
  show "with_env (env, m, k) (alias_delete env m f k h n) = (b, s') \<Longrightarrow>
      files_ok s' \<and> file_ids r f s' = (if b then set_id h n 0 (alias_lookup env m r f k) else alias_lookup env m r f k)"
    using delete_law [where m = m and r = r, OF e assms(2)] assms(1) unfolding with_env_eq by fastforce
  show "with_env (env, m, k) (app_alias_ops_delete_map_file env k h f) = (b, s') \<Longrightarrow>
      files_ok s' \<and> file_ids r f s' =
        (if b then (alias_lookup env m r f k)(h := (\<lambda>_. 0)) else alias_lookup env m r f k)"
    using delete_map_facts [where m = m and r = r, OF _ assms(2)] assms(1) unfolding with_env_eq by fastforce
qed

lemma ids_file_ids:
  "user_ids s = file_ids app_alias_user_id_in_range ''user.map'' s"
  "action_ids s = file_ids app_alias_action_id_in_range ''action.map'' s"
  by (cases s; simp add: resolve_lookup)+

interpretation user_aliases: alias_store files_ok user_set user_delete user_delete_map user_ids
    "may_set app_alias_user_id_in_range"
proof (unfold_locales, goal_cases)
  case (1 s h n i b s')
  obtain env m k where "s = (env, m, k)" by (cases s)
  with 1 store_laws(1) [of env m k "''user.map''" app_alias_user_id_in_range h n i b s'] range_0(1)
  show ?case by (simp add: ids_file_ids app_alias_ops_set_user_def del: files_ok.simps)
next
  case (2 s h n b s')
  obtain env m k where "s = (env, m, k)" by (cases s)
  with 2 store_laws(2) [of env m k "''user.map''" h n b s' app_alias_user_id_in_range]
  show ?case by (simp add: ids_file_ids app_alias_ops_delete_user_def del: files_ok.simps)
next
  case (3 s h b s')
  obtain env m k where "s = (env, m, k)" by (cases s)
  with 3 store_laws(3) [of env m k "''user.map''" h b s' app_alias_user_id_in_range]
  show ?case by (simp add: ids_file_ids app_alias_ops_delete_user_map_def del: files_ok.simps)
qed

interpretation action_aliases: alias_store files_ok action_set action_delete action_delete_map action_ids
    "may_set app_alias_action_id_in_range"
proof (unfold_locales, goal_cases)
  case (1 s h n i b s')
  obtain env m k where "s = (env, m, k)" by (cases s)
  with 1 store_laws(1) [of env m k "''action.map''" app_alias_action_id_in_range h n i b s'] range_0(2)
  show ?case by (simp add: ids_file_ids app_alias_ops_set_action_def del: files_ok.simps)
next
  case (2 s h n b s')
  obtain env m k where "s = (env, m, k)" by (cases s)
  with 2 store_laws(2) [of env m k "''action.map''" h n b s' app_alias_action_id_in_range]
  show ?case by (simp add: ids_file_ids app_alias_ops_delete_action_def del: files_ok.simps)
next
  case (3 s h b s')
  obtain env m k where "s = (env, m, k)" by (cases s)
  with 3 store_laws(3) [of env m k "''action.map''" h b s' app_alias_action_id_in_range]
  show ?case by (simp add: ids_file_ids app_alias_ops_delete_action_map_def del: files_ok.simps)
qed

section \<open>One map does not touch the other\<close>

definition map_names :: "string set" where
  "map_names = {''user.map'', ''action.map''}"

lemma host_path_other:
  assumes "app_env_build_host_config_path env n host (Some f) = Some p"
    "app_env_build_host_config_path env n host' (Some g) = Some p'" "f \<in> map_names" "g \<in> map_names" "f \<noteq> g"
  shows "p \<noteq> p'"
proof
  assume "p = p'"
  with assms(1,2) obtain x y where "x @ f = y @ g"
    using assms(3,4) by (auto simp: app_env_build_host_config_path_def snprintf_fit_def map_names_def split: if_splits option.splits)
  then have "rev f @ rev x = rev g @ rev y" by (metis rev_append)
  then show False using assms(3-5) by (auto simp: map_names_def)
qed

lemma lookup_other:
  assumes "app_env_build_host_config_path env PATH_MAX host (Some f) = Some path" "f \<in> map_names" "g \<in> map_names" "f \<noteq> g"
    "\<And>p. p \<noteq> path \<Longrightarrow> dk_files k' p = dk_files k p"
  shows "alias_lookup env m r g k' = alias_lookup env m r g k"
proof (intro ext)
  fix h n
  show "alias_lookup env m r g k' h n = alias_lookup env m r g k h n"
  proof (cases "app_env_build_host_config_path env PATH_MAX h (Some g)")
    case None
    then show ?thesis by (simp add: alias_lookup_def)
  next
    case (Some p)
    then have "p \<noteq> path" using host_path_other [OF assms(1) Some assms(2,3,4)] by simp
    then have "app_alias_read_map env m k' p = app_alias_read_map env m k p"
      using assms(5) [of p] by (simp add: app_alias_read_map_def fopen_read_def)
    then show ?thesis by (simp only: alias_lookup_def Some option.case)
  qed
qed

lemma write_elsewhere: "app_alias_write_map env k path es = (b, k') \<Longrightarrow> p \<noteq> path \<Longrightarrow> dk_files k' p = dk_files k p"
  by (auto simp: app_alias_write_map_def fwrite_file_def split: if_splits prod.splits option.splits)

lemma unlink_elsewhere: "unlink_file env k path = (b, k') \<Longrightarrow> p \<noteq> path \<Longrightarrow> dk_files k' p = dk_files k p"
  by (auto simp: unlink_file_def split: if_splits)

lemma set_other_map:
  assumes "alias_set env m f k h n i = (b, k')" "f \<in> map_names" "g \<in> map_names" "f \<noteq> g"
  shows "alias_lookup env m r g k' = alias_lookup env m r g k"
  using assms(1)
proof (cases rule: alias_set_cases)
  case 1
  then show ?thesis using lookup_files by metis
next
  case (2 k1 path aliases aliases')
  have "alias_lookup env m r g k' = alias_lookup env m r g k1"
    by (rule lookup_other [OF 2(2) assms(2-4) write_elsewhere [OF 2(5)]])
  then show ?thesis using lookup_files [OF 2(1)] by simp
qed

lemma delete_other_map:
  assumes "alias_delete env m f k h n = (b, k')" "f \<in> map_names" "g \<in> map_names" "f \<noteq> g"
  shows "alias_lookup env m r g k' = alias_lookup env m r g k"
  using assms(1)
proof (cases rule: alias_delete_cases)
  case 1
  then show ?thesis by simp
next
  case (2 path aliases)
  show ?thesis by (rule lookup_other [OF 2(1) assms(2-4) write_elsewhere [OF 2(3)]])
qed

lemma delete_map_other:
  assumes "app_alias_ops_delete_map_file env k host f = (b, k')" "f \<in> map_names" "g \<in> map_names" "f \<noteq> g"
  shows "alias_lookup env m r g k' = alias_lookup env m r g k"
proof (cases "app_env_build_host_config_path env PATH_MAX host (Some f)")
  case None
  with assms(1) show ?thesis by (auto simp: app_alias_ops_delete_map_file_def split: if_splits)
next
  case (Some path)
  have "k' = k \<or> unlink_file env k path = (b, k')"
    using assms(1) by (auto simp: app_alias_ops_delete_map_file_def Some split: if_splits)
  then show ?thesis using lookup_other [OF Some assms(2-4), of k' k m r] unlink_elsewhere [of env k path b k'] by blast
qed

section \<open>Commands\<close>

type_synonym both_ids = "alias_ids \<times> alias_ids"

text \<open>
  What a command with its outcome may do to both maps. Deleting a host can fail with one of its files gone.
\<close>

fun command_step :: "AppAliasCommand \<Rightarrow> bool \<Rightarrow> both_ids \<Rightarrow> both_ids \<Rightarrow> bool" where
  "command_step cmd b (u, a) (u', a') \<longleftrightarrow>
     (let h = ac_host cmd; n = ac_name cmd; i = ac_id cmd
      in case ac_op cmd of
           APP_ALIAS_OP_SET_USER \<Rightarrow> u' = alias_effect (Set_alias h n i) b u \<and> a' = a
         | APP_ALIAS_OP_SET_ACTION \<Rightarrow> u' = u \<and> a' = alias_effect (Set_alias h n i) b a
         | APP_ALIAS_OP_DELETE_USER \<Rightarrow> u' = alias_effect (Delete_alias h n) b u \<and> a' = a
         | APP_ALIAS_OP_DELETE_ACTION \<Rightarrow> u' = u \<and> a' = alias_effect (Delete_alias h n) b a
         | APP_ALIAS_OP_DELETE_USER_MAP \<Rightarrow>
             (b \<longrightarrow> ac_confirm_yes cmd) \<and> u' = alias_effect (Delete_map h) b u \<and> a' = a
         | APP_ALIAS_OP_DELETE_ACTION_MAP \<Rightarrow>
             (b \<longrightarrow> ac_confirm_yes cmd) \<and> u' = u \<and> a' = alias_effect (Delete_map h) b a
         | APP_ALIAS_OP_DELETE_HOST \<Rightarrow>
             (if ac_confirm_yes cmd
              then (\<exists>b1 b2. (b \<longleftrightarrow> b1 \<and> b2) \<and> u' = alias_effect (Delete_map h) b1 u \<and> a' = alias_effect (Delete_map h) b2 a)
              else \<not> b \<and> u' = u \<and> a' = a)
         | _ \<Rightarrow> u' = u \<and> a' = a)"

fun command_may_set :: "AppAliasCommand \<Rightarrow> bool" where
  "command_may_set cmd \<longleftrightarrow>
     (case ac_op cmd of
        APP_ALIAS_OP_SET_USER \<Rightarrow> may_set app_alias_user_id_in_range (ac_host cmd) (ac_name cmd) (ac_id cmd)
      | APP_ALIAS_OP_SET_ACTION \<Rightarrow> may_set app_alias_action_id_in_range (ac_host cmd) (ac_name cmd) (ac_id cmd)
      | _ \<Rightarrow> True)"

lemma map_names_in [simp]: "''user.map'' \<in> map_names" "''action.map'' \<in> map_names"
  by (simp_all add: map_names_def)

text \<open>Removing the file of a host, if there is one.\<close>

lemma remove_file:
  assumes "app_env_build_host_config_path env PATH_MAX host (Some f) = Some path" "f \<in> map_names" "g \<in> map_names" "f \<noteq> g"
    "(if file_exists k path then unlink_file env k path else (True, k)) = (b, k')"
  shows "alias_lookup env m r f k' = alias_effect (Delete_map host) b (alias_lookup env m r f k)"
    "alias_lookup env m r' g k' = alias_lookup env m r' g k"
proof -
  have f: "f \<noteq> []" using assms(2) by (auto simp: map_names_def)
  show "alias_lookup env m r f k' = alias_effect (Delete_map host) b (alias_lookup env m r f k)"
  proof (cases "file_exists k path")
    case True
    with assms(5) have u: "unlink_file env k path = (b, k')" by simp
    show ?thesis
      using unlink_cases [OF u] lookup_without [OF assms(1) f, of k' k m r] by (cases b) simp_all
  next
    case False
    with assms(5) have k: "b" "k' = k" by simp_all
    have "dk_files k = (dk_files k)(path := None)" using False by (auto simp: file_exists_def)
    then show ?thesis using lookup_without [OF assms(1) f, of k k m r] k by simp
  qed
  have "dk_files k' p = dk_files k p" if "p \<noteq> path" for p
    using assms(5) that unlink_elsewhere by (auto split: if_splits)
  then show "alias_lookup env m r' g k' = alias_lookup env m r' g k"
    by (rule lookup_other [OF assms(1-4)])
qed

lemma delete_host_step:
  assumes "app_alias_ops_delete_host env k host = (b, k')"
  shows "\<exists>b1 b2. (b \<longleftrightarrow> b1 \<and> b2) \<and>
    user_ids (env, m, k') = alias_effect (Delete_map host) b1 (user_ids (env, m, k)) \<and>
    action_ids (env, m, k') = alias_effect (Delete_map host) b2 (action_ids (env, m, k))"
proof (cases "host = [] \<or> app_env_build_host_config_path env PATH_MAX host None = None")
  case True
  with assms have "\<not> b" "k' = k" by (auto simp: app_alias_ops_delete_host_def split: if_splits)
  then show ?thesis by (intro exI [of _ False]) simp
next
  case False
  then obtain base where h: "host \<noteq> []" and base: "app_env_build_host_config_path env PATH_MAX host None = Some base" by auto
  have fit: "app_env_build_host_config_path env PATH_MAX host (Some f) = snprintf_fit PATH_MAX (base @ ''/'' @ f)" if "f \<noteq> []" for f
    using base that by (auto simp: app_env_build_host_config_path_def snprintf_fit_def split: if_splits option.splits)
  note run = assms [unfolded app_alias_ops_delete_host_def if_not_P [OF h] base option.case]
  show ?thesis
  proof (cases "snprintf_fit PATH_MAX (base @ ''/user.map'')")
    case None
    with run have "\<not> b" "k' = k" by simp_all
    then show ?thesis by (intro exI [of _ False]) simp
  next
    case u: (Some up)
    show ?thesis
    proof (cases "snprintf_fit PATH_MAX (base @ ''/action.map'')")
      case None
      with run u have "\<not> b" "k' = k" by simp_all
      then show ?thesis by (intro exI [of _ False]) simp
    next
      case a: (Some ap)
      obtain b1 k1 where s1: "(if file_exists k up then unlink_file env k up else (True, k)) = (b1, k1)" by fastforce
      obtain b2 k2 where s2: "(if file_exists k1 ap then unlink_file env k1 ap else (True, k1)) = (b2, k2)" by fastforce
      have bk: "b = (b1 \<and> b2)" "k' = k2" using run [unfolded u a prod.case option.case s1 s2] by simp_all
      have pu: "app_env_build_host_config_path env PATH_MAX host (Some ''user.map'') = Some up"
        and pa: "app_env_build_host_config_path env PATH_MAX host (Some ''action.map'') = Some ap"
        using fit [of "''user.map''"] fit [of "''action.map''"] u a by simp_all
      note r1 = remove_file [OF pu _ _ _ s1, of "''action.map''"] and r2 = remove_file [OF pa _ _ _ s2, of "''user.map''"]
      have "user_ids (env, m, k') = alias_effect (Delete_map host) b1 (user_ids (env, m, k))"
        "action_ids (env, m, k') = alias_effect (Delete_map host) b2 (action_ids (env, m, k))"
        using r1 r2 by (simp_all add: ids_file_ids bk)
      then show ?thesis using bk by blast
    qed
  qed
qed


text \<open>
  The commands on aliases against the ids that names resolve to: the operations that set and delete an alias
  and that delete a map, for users and for actions.
\<close>

lemma set_alias_refines:
  assumes "disk_keeps env" "\<forall>n. m n" "command_may_set cmd" "app_alias_execute env m cmd k = (b, k')"
    and op: "ac_op cmd = APP_ALIAS_OP_SET_USER \<or> ac_op cmd = APP_ALIAS_OP_SET_ACTION"
  shows "command_step cmd b (app_alias_resolve_user env m k, app_alias_resolve_action env m k)
    (app_alias_resolve_user env m k', app_alias_resolve_action env m k')"
proof -
  have ok: "files_ok (env, m, k)" using assms(1,2) by simp
  let ?h = "ac_host cmd" and ?n = "ac_name cmd" and ?i = "ac_id cmd"
  note u = user_aliases.op_refines [OF ok, of _ b "(env, m, k')"] and a = action_aliases.op_refines [OF ok, of _ b "(env, m, k')"]
  note run = assms(4) [unfolded app_alias_execute_def app_alias_command_execute_def]
  from op show ?thesis
  proof (elim disjE)
    assume osetuser: "ac_op cmd = APP_ALIAS_OP_SET_USER"
    with run have r: "alias_set env m ''user.map'' k ?h ?n ?i = (b, k')" by (simp add: app_alias_ops_set_user_def)
    with u [of "Set_alias ?h ?n ?i"] set_other_map [OF r, of "''action.map''"] assms(3) osetuser show ?thesis
      by (simp add: with_env_def app_alias_ops_set_user_def resolve_lookup Let_def)
  next
    assume osetaction: "ac_op cmd = APP_ALIAS_OP_SET_ACTION"
    with run have r: "alias_set env m ''action.map'' k ?h ?n ?i = (b, k')" by (simp add: app_alias_ops_set_action_def)
    with a [of "Set_alias ?h ?n ?i"] set_other_map [OF r, of "''user.map''"] assms(3) osetaction show ?thesis
      by (simp add: with_env_def app_alias_ops_set_action_def resolve_lookup Let_def)
  qed
qed

lemma delete_alias_refines:
  assumes "disk_keeps env" "\<forall>n. m n" "command_may_set cmd" "app_alias_execute env m cmd k = (b, k')"
    and op: "ac_op cmd = APP_ALIAS_OP_DELETE_USER \<or> ac_op cmd = APP_ALIAS_OP_DELETE_ACTION"
  shows "command_step cmd b (app_alias_resolve_user env m k, app_alias_resolve_action env m k)
    (app_alias_resolve_user env m k', app_alias_resolve_action env m k')"
proof -
  have ok: "files_ok (env, m, k)" using assms(1,2) by simp
  let ?h = "ac_host cmd" and ?n = "ac_name cmd" and ?i = "ac_id cmd"
  note u = user_aliases.op_refines [OF ok, of _ b "(env, m, k')"] and a = action_aliases.op_refines [OF ok, of _ b "(env, m, k')"]
  note run = assms(4) [unfolded app_alias_execute_def app_alias_command_execute_def]
  from op show ?thesis
  proof (elim disjE)
    assume odeleteuser: "ac_op cmd = APP_ALIAS_OP_DELETE_USER"
    with run have r: "alias_delete env m ''user.map'' k ?h ?n = (b, k')" by (simp add: app_alias_ops_delete_user_def)
    with u [of "Delete_alias ?h ?n"] delete_other_map [OF r, of "''action.map''"] odeleteuser show ?thesis
      by (simp add: with_env_def app_alias_ops_delete_user_def resolve_lookup Let_def)
  next
    assume odeleteaction: "ac_op cmd = APP_ALIAS_OP_DELETE_ACTION"
    with run have r: "alias_delete env m ''action.map'' k ?h ?n = (b, k')" by (simp add: app_alias_ops_delete_action_def)
    with a [of "Delete_alias ?h ?n"] delete_other_map [OF r, of "''user.map''"] odeleteaction show ?thesis
      by (simp add: with_env_def app_alias_ops_delete_action_def resolve_lookup Let_def)
  qed
qed

lemma delete_map_refines:
  assumes "disk_keeps env" "\<forall>n. m n" "command_may_set cmd" "app_alias_execute env m cmd k = (b, k')"
    and op: "ac_op cmd = APP_ALIAS_OP_DELETE_USER_MAP \<or> ac_op cmd = APP_ALIAS_OP_DELETE_ACTION_MAP"
  shows "command_step cmd b (app_alias_resolve_user env m k, app_alias_resolve_action env m k)
    (app_alias_resolve_user env m k', app_alias_resolve_action env m k')"
proof -
  have ok: "files_ok (env, m, k)" using assms(1,2) by simp
  let ?h = "ac_host cmd" and ?n = "ac_name cmd" and ?i = "ac_id cmd"
  note u = user_aliases.op_refines [OF ok, of _ b "(env, m, k')"] and a = action_aliases.op_refines [OF ok, of _ b "(env, m, k')"]
  note run = assms(4) [unfolded app_alias_execute_def app_alias_command_execute_def]
  from op show ?thesis
  proof (elim disjE)
    assume odeleteusermap: "ac_op cmd = APP_ALIAS_OP_DELETE_USER_MAP"
    show ?thesis
    proof (cases "ac_confirm_yes cmd")
      case True
      with run odeleteusermap have r: "app_alias_ops_delete_map_file env k ?h ''user.map'' = (b, k')"
        by (simp add: app_alias_ops_delete_user_map_def)
      with u [of "Delete_map ?h"] delete_map_other [OF r, of "''action.map''"] True odeleteusermap show ?thesis
        by (simp add: with_env_def app_alias_ops_delete_user_map_def resolve_lookup Let_def)
    qed (use run odeleteusermap in \<open>simp add: Let_def\<close>)
  next
    assume odeleteactionmap: "ac_op cmd = APP_ALIAS_OP_DELETE_ACTION_MAP"
    show ?thesis
    proof (cases "ac_confirm_yes cmd")
      case True
      with run odeleteactionmap have r: "app_alias_ops_delete_map_file env k ?h ''action.map'' = (b, k')"
        by (simp add: app_alias_ops_delete_action_map_def)
      with a [of "Delete_map ?h"] delete_map_other [OF r, of "''user.map''"] True odeleteactionmap show ?thesis
        by (simp add: with_env_def app_alias_ops_delete_action_map_def resolve_lookup Let_def)
    qed (use run odeleteactionmap in \<open>simp add: Let_def\<close>)
  qed
qed

section \<open>What resolves\<close>

lemma resolve_loop_range:
  assumes "list_all entry_ok es" "resolve_loop in_range name es \<noteq> 0"
  shows "in_range (resolve_loop in_range name es) \<and> plain_token 127 name"
  using assms by (induction es) (auto simp: entry_ok_def split: if_splits)

lemma alias_lookup_range:
  assumes "alias_lookup env m in_range file k host name \<noteq> 0"
  shows "in_range (alias_lookup env m in_range file k host name)" "plain_token 127 name"
proof -
  obtain path es where r: "app_alias_read_map env m k path = Some es"
      "alias_lookup env m in_range file k host name = resolve_loop in_range name es"
    using assms by (auto simp: alias_lookup_def split: if_splits option.splits)
  have "list_all entry_ok es" using read_map_ok [OF r(1)] .
  from resolve_loop_range [OF this] assms r(2)
  show "in_range (alias_lookup env m in_range file k host name)" "plain_token 127 name" by auto
qed

end
