(* ===== verification/Client_Opts.thy ===== *)
theory Client_Opts
  imports Opts Client_Alias Config_Load
begin

text \<open>
  The command line of the client: \<open>knock/app/opts/opts.c\<close>, \<open>opts/alias.c\<close>, \<open>opts/transmit.c\<close> and
  \<open>error/argv.c\<close>. A function that fills the command returns it with its C result. The union of the
  command is a field per type of command; \<open>error\<close> is what is left of the message in 256 bytes. The dumps
  of \<open>--opts-dump\<close> only print and are left out.
\<close>

section \<open>Data\<close>

datatype HmacMode = HMAC_MODE_NONE | HMAC_MODE_NORMAL | HMAC_MODE_DUMMY
datatype KnockProtocol = KNOCK_PROTOCOL_V1 | KNOCK_PROTOCOL_V2 | KNOCK_PROTOCOL_V3 | KNOCK_PROTOCOL_V4

text \<open>
  The options of a transmission, without the log level and the response type, which nothing but the dump
  reads. \<open>protocol\<close> and \<open>encrypt\<close> are set before they are checked, so the checks for an unset value are
  left out.
\<close>

record Opts =
  to_hmac_key_path :: string
  to_server_pubkey_path :: string
  to_client_privkey_path :: string
  to_log_file :: string
  to_host :: string
  to_user_selector :: string
  to_send_from_ip :: string
  to_port :: u16
  to_hmac_mode :: HmacMode
  to_protocol :: KnockProtocol
  to_encrypt :: bool
  to_dead_drop :: bool
  to_output_mode :: int
  to_stdin_requested :: bool
  to_user_id :: u32
  to_action_id :: u32
  to_fragment_index :: u32
  to_fragment_count :: u32
  to_payload :: "u8 list"
  to_verbose :: int

datatype AppCommandType =
    APP_CMD_HELP | APP_CMD_TRANSMIT | APP_CMD_ALIAS | APP_CMD_OUTPUT_MODE_DEFAULT | APP_CMD_SEND_FROM_DEFAULT
  | APP_CMD_ERROR

record AppSendFromDefaultCommand =
  sf_clear :: bool
  sf_host :: string
  sf_user :: string
  sf_ip :: string

record AppCommand =
  ak_type :: AppCommandType
  ak_ok :: bool
  ak_exit_code :: int
  ak_dump_requested :: bool
  ak_error :: string
  ak_transmit :: Opts
  ak_alias :: AppAliasCommand
  ak_outdef :: int
  ak_send_from_default :: AppSendFromDefaultCommand

definition MAX_PAYLOAD_SIZE :: nat where "MAX_PAYLOAD_SIZE = 513"

text \<open>The options that \<open>app_opts_transmit_parse\<close> starts with.\<close>

definition transmit_defaults :: Opts where
  "transmit_defaults =
     \<lparr>to_hmac_key_path = [], to_server_pubkey_path = [], to_client_privkey_path = [], to_log_file = [], to_host = [],
      to_user_selector = [], to_send_from_ip = [], to_port = 0, to_hmac_mode = HMAC_MODE_NORMAL,
      to_protocol = KNOCK_PROTOCOL_V1, to_encrypt = True, to_dead_drop = False, to_output_mode = 0,
      to_stdin_requested = False, to_user_id = 0, to_action_id = 0, to_fragment_index = 0, to_fragment_count = 1,
      to_payload = [], to_verbose = 3\<rparr>"

definition zero_alias_command :: AppAliasCommand where
  "zero_alias_command = \<lparr>ac_op = APP_ALIAS_OP_INVALID, ac_host = [], ac_name = [], ac_id = 0, ac_confirm_yes = False,
     ac_output_mode = 0\<rparr>"

definition zero_send_from :: AppSendFromDefaultCommand where
  "zero_send_from = \<lparr>sf_clear = False, sf_host = [], sf_user = [], sf_ip = []\<rparr>"

section \<open>Errors\<close>

text \<open>The message and whether it is whole.\<close>

definition snprintf_all :: "nat \<Rightarrow> string \<Rightarrow> bool \<times> string" where
  "snprintf_all out_size text = (length text < out_size, take (out_size - 1) text)"

definition app_error_argv_shape_typed :: "ArgvParsedOption \<Rightarrow> ArgvError \<Rightarrow> nat \<Rightarrow> bool \<times> string" where
  "app_error_argv_shape_typed opt err out_size =
     (if out_size = 0 then (False, [])
      else let option_name = (if ao_name (po_spec opt) \<noteq> [] then ao_name (po_spec opt) else ''(unknown)'');
               value = null_text (argv_option_value (Some opt) 0)
           in snprintf_all out_size
                (case ae_code err of
                   ARGV_ERR_BAD_INTEGER \<Rightarrow> ''Invalid numeric value for '' @ option_name @ '': '' @ value
                 | ARGV_ERR_INTEGER_OUT_OF_RANGE \<Rightarrow> ''Out-of-range value for '' @ option_name @ '': '' @ value
                 | ARGV_ERR_BAD_ENUM \<Rightarrow> ''Invalid value for '' @ option_name @ '': '' @ value
                 | _ \<Rightarrow> ''Invalid option value for '' @ option_name))"

definition app_error_argv_shape :: "ArgvParsed \<Rightarrow> nat \<Rightarrow> bool \<times> string" where
  "app_error_argv_shape parsed out_size =
     (if out_size = 0 then (False, [])
      else let err = ap_error parsed
           in snprintf_all out_size
                (case ae_code err of
                   ARGV_ERR_UNKNOWN_OPTION \<Rightarrow> ''Unknown option: '' @ null_text (ae_arg_value err)
                 | ARGV_ERR_NOT_ENOUGH_OPTION_ARGS \<Rightarrow>
                     ''Not enough arguments for option: '' @
                       (case ae_arg_value err of Some v \<Rightarrow> v | None \<Rightarrow> null_text (ae_option_name err))
                 | ARGV_ERR_TOO_MANY_OPTIONS \<Rightarrow> ''Too many options (max '' @ dec_string ARGV_MAX_OPTIONS @ '')''
                 | ARGV_ERR_TOO_MANY_POSITIONALS \<Rightarrow>
                     ''Too many positional arguments (max '' @ dec_string ARGV_MAX_POSITIONALS @ '')''
                 | ARGV_ERR_DUPLICATE_OPTION \<Rightarrow> ''Duplicate option not allowed: '' @ null_text (ae_option_name err)
                 | ARGV_ERR_EQUALS_FORM_NOT_ALLOWED \<Rightarrow>
                     ''Option does not accept --key=value form: '' @ null_text (ae_option_name err)
                 | _ \<Rightarrow> (case argv_format_error err 256 of
                         (True, detail) \<Rightarrow> ''Argument parse error: '' @ detail
                       | (False, _) \<Rightarrow> ''Argument parse error'')))"

definition command_set_error :: "AppCommand \<Rightarrow> int \<Rightarrow> string \<Rightarrow> bool \<times> AppCommand" where
  "command_set_error out exit_code message =
     (False, out\<lparr>ak_type := APP_CMD_ERROR, ak_ok := False, ak_exit_code := exit_code, ak_error := snprintf256 message\<rparr>)"

text \<open>The functions of the same name in the two other files are copies.\<close>

definition app_opts_alias_set_error :: "AppCommand \<Rightarrow> int \<Rightarrow> string \<Rightarrow> bool \<times> AppCommand" where
  "app_opts_alias_set_error = command_set_error"

definition app_opts_transmit_set_error :: "AppCommand \<Rightarrow> int \<Rightarrow> string \<Rightarrow> bool \<times> AppCommand" where
  "app_opts_transmit_set_error = command_set_error"

definition command_set_argv_error :: "AppCommand \<Rightarrow> ArgvParsed \<Rightarrow> bool \<times> AppCommand" where
  "command_set_argv_error out parsed =
     (case app_error_argv_shape parsed 256 of
        (True, message) \<Rightarrow> command_set_error out 2 message
      | (False, _) \<Rightarrow> command_set_error out 2 ''Argument parse error'')"

definition command_set_typed_error :: "AppCommand \<Rightarrow> ArgvParsedOption \<Rightarrow> ArgvError \<Rightarrow> bool \<times> AppCommand" where
  "command_set_typed_error out opt err =
     (case app_error_argv_shape_typed opt err 256 of
        (True, message) \<Rightarrow> command_set_error out 2 message
      | (False, _) \<Rightarrow> command_set_error out 2 ''Invalid option value'')"

definition app_opts_transmit_set_typed_error :: "AppCommand \<Rightarrow> ArgvParsedOption \<Rightarrow> ArgvError \<Rightarrow> bool \<times> AppCommand" where
  "app_opts_transmit_set_typed_error out opt err =
     (case app_error_argv_shape_typed opt err 256 of
        (True, message) \<Rightarrow> app_opts_transmit_set_error out 2 message
      | (False, _) \<Rightarrow> app_opts_transmit_set_error out 2 ''Invalid option value'')"

text \<open>Running one check after another, until one fails.\<close>

definition and_then :: "(AppCommand \<Rightarrow> bool \<times> AppCommand) \<Rightarrow> (AppCommand \<Rightarrow> bool \<times> AppCommand) \<Rightarrow> AppCommand \<Rightarrow> bool \<times> AppCommand" where
  "and_then f g out = (case f out of (False, out1) \<Rightarrow> (False, out1) | (True, out1) \<Rightarrow> g out1)"

section \<open>opts/alias.c\<close>

definition ALIAS_OPT_ID_DUMP :: int where "ALIAS_OPT_ID_DUMP = 1"
definition ALIAS_OPT_ID_OUTPUT_MODE :: int where "ALIAS_OPT_ID_OUTPUT_MODE = 2"

definition app_opts_alias_spec :: "ArgvOptionSpec list" where
  "app_opts_alias_spec =
     [option_spec ''--opts-dump'' ALIAS_OPT_ID_DUMP 0 ARGV_OPT_FLAG False False True,
      option_spec ''--output-mode'' ALIAS_OPT_ID_OUTPUT_MODE 1 ARGV_OPT_KEYED False False True]"

definition app_opts_alias_parse_id :: "string \<Rightarrow> nat \<Rightarrow> nat \<Rightarrow> u32 option" where
  "app_opts_alias_parse_id value min_value max_value =
     (if value = [] \<or> max_value < min_value then None
      else case strtoul_all value of
        None \<Rightarrow> None
      | Some parsed \<Rightarrow> if parsed < min_value \<or> max_value < parsed then None else Some (word_of_nat parsed))"

definition app_opts_alias_expect_positionals ::
  "ArgvParsed \<Rightarrow> nat \<Rightarrow> nat \<Rightarrow> string \<Rightarrow> string \<Rightarrow> AppCommand \<Rightarrow> bool \<times> AppCommand" where
  "app_opts_alias_expect_positionals parsed min_count max_count missing_message command_name out =
     (let count = length (ap_positionals parsed)
      in if count < min_count
         then app_opts_alias_set_error out 2
                (if missing_message \<noteq> [] then missing_message else ''Not enough arguments for alias command'')
         else if max_count < count
         then app_opts_alias_set_error out 2 (snprintf256 (''Too many arguments for '' @
                (if command_name \<noteq> [] then command_name else ''alias command'')))
         else (True, out))"

fun alias_apply_options :: "ArgvParsedOption list \<Rightarrow> AppCommand \<Rightarrow> bool \<times> AppCommand" where
  "alias_apply_options [] out = (True, out)"
| "alias_apply_options (opt # opts) out =
     (if ao_id (po_spec opt) = ALIAS_OPT_ID_DUMP then alias_apply_options opts (out\<lparr>ak_dump_requested := True\<rparr>)
      else if ao_id (po_spec opt) = ALIAS_OPT_ID_OUTPUT_MODE
      then (case argv_get_enum (Some opt) 0 output_mode_map of
              Inl _ \<Rightarrow> app_opts_alias_set_error out 2 (snprintf256 (''Invalid output mode: '' @
                         null_text (argv_option_value (Some opt) 0) @ '' (expected 'unicode' or 'ascii')''))
            | Inr mode \<Rightarrow> alias_apply_options opts (out\<lparr>ak_alias := (ak_alias out)\<lparr>ac_output_mode := mode\<rparr>\<rparr>))
      else alias_apply_options opts out)"

definition app_opts_alias_apply_options :: "ArgvParsed \<Rightarrow> AppCommand \<Rightarrow> bool \<times> AppCommand" where
  "app_opts_alias_apply_options parsed out = alias_apply_options (ap_options parsed) out"

text \<open>The token that is copied, or the message.\<close>

definition app_opts_alias_copy_token ::
  "nat \<Rightarrow> string \<Rightarrow> string \<Rightarrow> (string \<Rightarrow> AppCommand \<Rightarrow> AppCommand) \<Rightarrow> AppCommand \<Rightarrow> bool \<times> AppCommand" where
  "app_opts_alias_copy_token dst_size src label store out =
     (if dst_size = 0 \<or> src = []
      then app_opts_alias_set_error out 2 (snprintf256 (''Missing '' @ label @ '' for alias command''))
      else let out1 = store (take (dst_size - 1) src) out
           in if dst_size \<le> length src
              then app_opts_alias_set_error out1 2 (snprintf256 (''Alias '' @ label @ '' is too long''))
              else (True, out1))"

definition alias_host_arg :: "ArgvParsed \<Rightarrow> nat \<Rightarrow> AppCommand \<Rightarrow> bool \<times> AppCommand" where
  "alias_host_arg parsed n = app_opts_alias_copy_token 256 (ap_positionals parsed ! n) ''host''
     (\<lambda>s out. out\<lparr>ak_alias := (ak_alias out)\<lparr>ac_host := s\<rparr>\<rparr>)"

definition alias_name_arg :: "ArgvParsed \<Rightarrow> nat \<Rightarrow> AppCommand \<Rightarrow> bool \<times> AppCommand" where
  "alias_name_arg parsed n = app_opts_alias_copy_token 128 (ap_positionals parsed ! n) ''name''
     (\<lambda>s out. out\<lparr>ak_alias := (ak_alias out)\<lparr>ac_name := s\<rparr>\<rparr>)"

definition alias_op_set :: "AppAliasOp \<Rightarrow> AppCommand \<Rightarrow> bool \<times> AppCommand" where
  "alias_op_set op out = (True, out\<lparr>ak_alias := (ak_alias out)\<lparr>ac_op := op\<rparr>\<rparr>)"

definition alias_id_arg :: "ArgvParsed \<Rightarrow> nat \<Rightarrow> nat \<Rightarrow> string \<Rightarrow> AppCommand \<Rightarrow> bool \<times> AppCommand" where
  "alias_id_arg parsed n max_value message out =
     (case app_opts_alias_parse_id (ap_positionals parsed ! n) 1 max_value of
        None \<Rightarrow> app_opts_alias_set_error out 2 message
      | Some i \<Rightarrow> (True, out\<lparr>ak_alias := (ak_alias out)\<lparr>ac_id := i\<rparr>\<rparr>))"

definition alias_confirm :: "ArgvParsed \<Rightarrow> nat \<Rightarrow> string \<Rightarrow> AppCommand \<Rightarrow> bool \<times> AppCommand" where
  "alias_confirm parsed n message out =
     (if ap_positionals parsed ! n \<noteq> ''YES'' then app_opts_alias_set_error out 2 message
      else (True, out\<lparr>ak_alias := (ak_alias out)\<lparr>ac_confirm_yes := True\<rparr>\<rparr>))"

text \<open>The chain of comparisons of \<open>app_opts_alias_parse\<close>; in the deletions YES is compared before the operation is set.\<close>

definition alias_dispatch :: "string \<Rightarrow> ArgvParsed \<Rightarrow> AppCommand \<Rightarrow> bool \<times> AppCommand" where
  "alias_dispatch mode parsed =
     (let expect = app_opts_alias_expect_positionals parsed;
          wipe = ''You must confirm destructive alias wipe by typing YES'';
          gone = ''You must confirm map deletion by typing YES''
      in if mode = ''--alias-user''
         then and_then (expect 3 3 ''Not enough arguments for --alias-user'' ''--alias-user'')
                (and_then (alias_op_set APP_ALIAS_OP_SET_USER) (and_then (alias_host_arg parsed 0) (and_then (alias_name_arg parsed 1)
                  (alias_id_arg parsed 2 65535 ''Invalid user ID for --alias-user (expected range 1-65535)''))))
         else if mode = ''--alias-action''
         then and_then (expect 3 3 ''Not enough arguments for --alias-action'' ''--alias-action'')
                (and_then (alias_op_set APP_ALIAS_OP_SET_ACTION) (and_then (alias_host_arg parsed 0) (and_then (alias_name_arg parsed 1)
                  (alias_id_arg parsed 2 255 ''Invalid action ID for --alias-action (expected range 1-255)''))))
         else if mode = ''--alias-user-show''
         then and_then (expect 0 1 [] ''--alias-user-show'')
                (if ap_positionals parsed = [] then alias_op_set APP_ALIAS_OP_SHOW_USER_ALL
                 else and_then (alias_op_set APP_ALIAS_OP_SHOW_USER) (alias_host_arg parsed 0))
         else if mode = ''--alias-action-show''
         then and_then (expect 0 1 [] ''--alias-action-show'')
                (if ap_positionals parsed = [] then alias_op_set APP_ALIAS_OP_SHOW_ACTION_ALL
                 else and_then (alias_op_set APP_ALIAS_OP_SHOW_ACTION) (alias_host_arg parsed 0))
         else if mode = ''--alias-user-delete''
         then and_then (expect 2 2 ''Not enough arguments for --alias-user-delete'' ''--alias-user-delete'')
                (and_then (alias_op_set APP_ALIAS_OP_DELETE_USER) (and_then (alias_host_arg parsed 0) (alias_name_arg parsed 1)))
         else if mode = ''--alias-action-delete''
         then and_then (expect 2 2 ''Not enough arguments for --alias-action-delete'' ''--alias-action-delete'')
                (and_then (alias_op_set APP_ALIAS_OP_DELETE_ACTION) (and_then (alias_host_arg parsed 0) (alias_name_arg parsed 1)))
         else if mode = ''--alias-show''
         then and_then (expect 1 1 ''Not enough arguments for --alias-show'' ''--alias-show'')
                (and_then (alias_op_set APP_ALIAS_OP_SHOW_HOST) (alias_host_arg parsed 0))
         else if mode = ''--alias-show-hosts''
         then and_then (expect 0 0 [] ''--alias-show-hosts'') (alias_op_set APP_ALIAS_OP_SHOW_HOSTS)
         else if mode = ''--alias-delete''
         then and_then (expect 2 2 wipe ''--alias-delete'')
                (and_then (alias_confirm parsed 1 wipe) (and_then (alias_op_set APP_ALIAS_OP_DELETE_HOST) (alias_host_arg parsed 0)))
         else if mode = ''--alias-user-delete-map''
         then and_then (expect 2 2 gone ''--alias-user-delete-map'')
                (and_then (alias_confirm parsed 1 gone) (and_then (alias_op_set APP_ALIAS_OP_DELETE_USER_MAP) (alias_host_arg parsed 0)))
         else if mode = ''--alias-action-delete-map''
         then and_then (expect 2 2 gone ''--alias-action-delete-map'')
                (and_then (alias_confirm parsed 1 gone)
                  (and_then (alias_op_set APP_ALIAS_OP_DELETE_ACTION_MAP) (alias_host_arg parsed 0)))
         else (\<lambda>out. app_opts_alias_set_error out 2 (snprintf256 (''Unknown alias command: '' @ mode))))"

definition app_opts_alias_parse :: "string option \<Rightarrow> ArgvParsed \<Rightarrow> AppCommand \<Rightarrow> bool \<times> AppCommand" where
  "app_opts_alias_parse mode_selector parsed out =
     (case mode_selector of
        None \<Rightarrow> app_opts_alias_set_error out 2 ''Missing alias command''
      | Some mode \<Rightarrow>
          if mode = [] then app_opts_alias_set_error out 2 ''Missing alias command''
          else and_then (app_opts_alias_apply_options parsed)
                 (and_then (alias_dispatch mode parsed) (\<lambda>out. (True, out\<lparr>ak_ok := True, ak_exit_code := 0\<rparr>)))
                 (out\<lparr>ak_type := APP_CMD_ALIAS, ak_ok := False, ak_exit_code := 2, ak_dump_requested := False,
                      ak_alias := zero_alias_command\<rparr>))"

end
