(* ===== verification/Client_Parse.thy ===== *)
theory Client_Parse
  imports Client_Opts Client_Alias_Facts
begin

text \<open>
  Parsing a whole command line of the client: \<open>knock/app/opts/transmit.c\<close> and \<open>opts/opts.c\<close>. The aliases
  are looked up on the disk.
\<close>

section \<open>opts/transmit.c\<close>

definition OPT_ID_NONE :: int where "OPT_ID_NONE = 0"
definition OPT_ID_HMAC_KEY :: int where "OPT_ID_HMAC_KEY = 1"
definition OPT_ID_PROTOCOL :: int where "OPT_ID_PROTOCOL = 2"
definition OPT_ID_PORT :: int where "OPT_ID_PORT = 3"
definition OPT_ID_SERVER_KEY :: int where "OPT_ID_SERVER_KEY = 4"
definition OPT_ID_CLIENT_KEY :: int where "OPT_ID_CLIENT_KEY = 5"
definition OPT_ID_NO_HMAC :: int where "OPT_ID_NO_HMAC = 6"
definition OPT_ID_DUMMY_HMAC :: int where "OPT_ID_DUMMY_HMAC = 7"
definition OPT_ID_NO_ENCRYPT :: int where "OPT_ID_NO_ENCRYPT = 8"
definition OPT_ID_DEAD_DROP :: int where "OPT_ID_DEAD_DROP = 9"
definition OPT_ID_FRAGMENT :: int where "OPT_ID_FRAGMENT = 10"
definition OPT_ID_SEND_FROM :: int where "OPT_ID_SEND_FROM = 11"
definition OPT_ID_VERBOSE :: int where "OPT_ID_VERBOSE = 12"
definition OPT_ID_LOG :: int where "OPT_ID_LOG = 13"
definition OPT_ID_STDIN :: int where "OPT_ID_STDIN = 14"
definition CLIENT_OPT_ID_OUTPUT_MODE :: int where "CLIENT_OPT_ID_OUTPUT_MODE = 15"

lemmas client_opt_ids = OPT_ID_NONE_def OPT_ID_HMAC_KEY_def OPT_ID_PROTOCOL_def OPT_ID_PORT_def OPT_ID_SERVER_KEY_def
  OPT_ID_CLIENT_KEY_def OPT_ID_NO_HMAC_def OPT_ID_DUMMY_HMAC_def OPT_ID_NO_ENCRYPT_def OPT_ID_DEAD_DROP_def
  OPT_ID_FRAGMENT_def OPT_ID_SEND_FROM_def OPT_ID_VERBOSE_def OPT_ID_LOG_def OPT_ID_STDIN_def CLIENT_OPT_ID_OUTPUT_MODE_def

definition app_opts_transmit_spec :: "ArgvOptionSpec list" where
  "app_opts_transmit_spec =
     [option_spec ''--port'' OPT_ID_PORT 1 ARGV_OPT_KEYED False False True,
      option_spec ''--hmac-key'' OPT_ID_HMAC_KEY 1 ARGV_OPT_KEYED False False True,
      option_spec ''--protocol'' OPT_ID_PROTOCOL 1 ARGV_OPT_KEYED False False True,
      option_spec ''--server-key'' OPT_ID_SERVER_KEY 1 ARGV_OPT_KEYED False False True,
      option_spec ''--client-key'' OPT_ID_CLIENT_KEY 1 ARGV_OPT_KEYED False False True,
      option_spec ''--no-hmac'' OPT_ID_NO_HMAC 0 ARGV_OPT_FLAG False False True,
      option_spec ''--stdin'' OPT_ID_STDIN 0 ARGV_OPT_FLAG False False True,
      option_spec ''--opts-dump'' OPT_ID_NONE 0 ARGV_OPT_FLAG False False True,
      option_spec ''--dummy-hmac'' OPT_ID_DUMMY_HMAC 0 ARGV_OPT_FLAG False False True,
      option_spec ''--no-encrypt'' OPT_ID_NO_ENCRYPT 0 ARGV_OPT_FLAG False False True,
      option_spec ''--dead-drop'' OPT_ID_DEAD_DROP 0 ARGV_OPT_FLAG False False True,
      option_spec ''--fragment'' OPT_ID_FRAGMENT 1 ARGV_OPT_KEYED False False True,
      option_spec ''--send-from'' OPT_ID_SEND_FROM 1 ARGV_OPT_KEYED False False True,
      option_spec ''--verbose'' OPT_ID_VERBOSE 1 ARGV_OPT_KEYED False False True,
      option_spec ''--log'' OPT_ID_LOG 1 ARGV_OPT_KEYED False False True,
      option_spec ''--output-mode'' CLIENT_OPT_ID_OUTPUT_MODE 1 ARGV_OPT_KEYED False False True]"

definition app_opts_transmit_parse_numeric_id :: "string \<Rightarrow> nat \<Rightarrow> nat \<Rightarrow> u32 option" where
  "app_opts_transmit_parse_numeric_id value min_value max_value =
     (if value = [] \<or> max_value < min_value then None
      else case strtoul_all value of
        None \<Rightarrow> None
      | Some parsed \<Rightarrow> if parsed < min_value \<or> max_value < parsed then None else Some (word_of_nat parsed))"

definition app_opts_transmit_parse_fragment :: "ArgvParsedOption \<Rightarrow> AppCommand \<Rightarrow> bool \<times> AppCommand" where
  "app_opts_transmit_parse_fragment opt cmd =
     (case app_opts_transmit_parse_numeric_id (po_args opt ! 1) 1 (2 ^ 32 - 1) of
        None \<Rightarrow> app_opts_transmit_set_error cmd 2 ''Invalid --fragment count (expected positive integer)''
      | Some fragment_count \<Rightarrow>
          (True, cmd\<lparr>ak_transmit := (ak_transmit cmd)\<lparr>to_fragment_index := 0, to_fragment_count := fragment_count\<rparr>\<rparr>))"

definition protocol_map :: "(string \<times> int) list" where
  "protocol_map = [(''v1'', 1), (''v2'', 2), (''v3'', 3), (''v4'', 4)]"

definition protocol_of_int :: "int \<Rightarrow> KnockProtocol" where
  "protocol_of_int p = (if p = 1 then KNOCK_PROTOCOL_V1 else if p = 2 then KNOCK_PROTOCOL_V2
     else if p = 3 then KNOCK_PROTOCOL_V3 else KNOCK_PROTOCOL_V4)"

abbreviation upd_transmit :: "(Opts \<Rightarrow> Opts) \<Rightarrow> AppCommand \<Rightarrow> AppCommand" where
  "upd_transmit f cmd \<equiv> cmd\<lparr>ak_transmit := f (ak_transmit cmd)\<rparr>"

text \<open>The loop over the options in \<open>app_opts_transmit_apply_parsed\<close>: one option.\<close>

definition apply_transmit_option :: "ArgvParsedOption \<Rightarrow> AppCommand \<Rightarrow> bool \<times> AppCommand" where
  "apply_transmit_option opt cmd =
     (let i = ao_id (po_spec opt); v = po_args opt ! 1
      in if i = OPT_ID_NONE then (True, cmd)
         else if i = OPT_ID_PORT
         then (case argv_get_u16 (Some opt) 0 of
                 Inl parse_err \<Rightarrow> app_opts_transmit_set_typed_error cmd opt parse_err
               | Inr parsed_port \<Rightarrow> (True, upd_transmit (\<lambda>t. t\<lparr>to_port := parsed_port\<rparr>) cmd))
         else if i = OPT_ID_HMAC_KEY then (True, upd_transmit (\<lambda>t. t\<lparr>to_hmac_key_path := take (PATH_MAX - 1) v\<rparr>) cmd)
         else if i = OPT_ID_PROTOCOL
         then (case argv_get_enum (Some opt) 0 protocol_map of
                 Inl _ \<Rightarrow> app_opts_transmit_set_error cmd 2 (snprintf256 (''Invalid protocol: '' @
                   null_text (argv_option_value (Some opt) 0) @ '' (expected 'v1', 'v2', 'v3', or 'v4')''))
               | Inr protocol \<Rightarrow> (True, upd_transmit (\<lambda>t. t\<lparr>to_protocol := protocol_of_int protocol\<rparr>) cmd))
         else if i = OPT_ID_SERVER_KEY then (True, upd_transmit (\<lambda>t. t\<lparr>to_server_pubkey_path := take (PATH_MAX - 1) v\<rparr>) cmd)
         else if i = OPT_ID_CLIENT_KEY then (True, upd_transmit (\<lambda>t. t\<lparr>to_client_privkey_path := take (PATH_MAX - 1) v\<rparr>) cmd)
         else if i = OPT_ID_NO_HMAC then (True, upd_transmit (\<lambda>t. t\<lparr>to_hmac_mode := HMAC_MODE_NONE\<rparr>) cmd)
         else if i = OPT_ID_DUMMY_HMAC then (True, upd_transmit (\<lambda>t. t\<lparr>to_hmac_mode := HMAC_MODE_DUMMY\<rparr>) cmd)
         else if i = OPT_ID_NO_ENCRYPT then (True, upd_transmit (\<lambda>t. t\<lparr>to_encrypt := False\<rparr>) cmd)
         else if i = OPT_ID_DEAD_DROP then (True, upd_transmit (\<lambda>t. t\<lparr>to_dead_drop := True\<rparr>) cmd)
         else if i = OPT_ID_FRAGMENT then app_opts_transmit_parse_fragment opt cmd
         else if i = OPT_ID_SEND_FROM then (True, upd_transmit (\<lambda>t. t\<lparr>to_send_from_ip := take 63 v\<rparr>) cmd)
         else if i = OPT_ID_VERBOSE
         then (case argv_get_i32 (Some opt) 0 0 5 of
                 Inl parse_err \<Rightarrow> app_opts_transmit_set_typed_error cmd opt parse_err
               | Inr parsed_verbose \<Rightarrow> (True, upd_transmit (\<lambda>t. t\<lparr>to_verbose := parsed_verbose\<rparr>) cmd))
         else if i = OPT_ID_LOG then (True, upd_transmit (\<lambda>t. t\<lparr>to_log_file := take (PATH_MAX - 1) v\<rparr>) cmd)
         else if i = OPT_ID_STDIN then (True, upd_transmit (\<lambda>t. t\<lparr>to_stdin_requested := True\<rparr>) cmd)
         else if i = CLIENT_OPT_ID_OUTPUT_MODE
         then (case argv_get_enum (Some opt) 0 output_mode_map of
                 Inl _ \<Rightarrow> app_opts_transmit_set_error cmd 2 (snprintf256 (''Invalid output mode: '' @
                   null_text (argv_option_value (Some opt) 0) @ '' (expected 'unicode' or 'ascii')''))
               | Inr mode \<Rightarrow> (True, upd_transmit (\<lambda>t. t\<lparr>to_output_mode := mode\<rparr>) cmd))
         else (True, cmd))"

fun apply_transmit_options :: "ArgvParsedOption list \<Rightarrow> AppCommand \<Rightarrow> bool \<times> AppCommand" where
  "apply_transmit_options [] cmd = (True, cmd)"
| "apply_transmit_options (opt # opts) cmd = and_then (apply_transmit_option opt) (apply_transmit_options opts) cmd"

text \<open>The user or the action: an alias, or else a number.\<close>

definition resolve_id :: "u32 \<Rightarrow> string \<Rightarrow> nat \<Rightarrow> u32 option" where
  "resolve_id alias_id text max_value =
     (if alias_id \<noteq> 0 then Some alias_id else app_opts_transmit_parse_numeric_id text 1 max_value)"

definition apply_transmit_positionals ::
  "disk_env \<Rightarrow> (nat \<Rightarrow> bool) \<Rightarrow> disk \<Rightarrow> string list \<Rightarrow> AppCommand \<Rightarrow> bool \<times> AppCommand" where
  "apply_transmit_positionals env m k positionals cmd =
     (if length positionals < 3
      then app_opts_transmit_set_error cmd 2 ''Missing required positional arguments: host, user, action''
      else let host = positionals ! 0; user = positionals ! 1; action = positionals ! 2;
               cmd1 = upd_transmit (\<lambda>t. t\<lparr>to_host := take 255 host, to_user_selector := take 127 user\<rparr>) cmd
      in case resolve_id (app_alias_resolve_user env m k host user) user 65535 of
           None \<Rightarrow> app_opts_transmit_set_error cmd1 2 (snprintf256 (''Unknown user alias or invalid user ID: '' @ user @
             '' (expected alias or numeric range 1-65535)''))
         | Some user_id \<Rightarrow>
      (let cmd2 = upd_transmit (\<lambda>t. t\<lparr>to_user_id := user_id\<rparr>) cmd1
       in case resolve_id (app_alias_resolve_action env m k host action) action 255 of
            None \<Rightarrow> app_opts_transmit_set_error cmd2 2 (snprintf256 (''Unknown action alias or invalid action ID: '' @ action @
              '' (expected alias or numeric range 1-255)''))
          | Some action_id \<Rightarrow>
              (let cmd3 = upd_transmit (\<lambda>t. t\<lparr>to_action_id := action_id\<rparr>) cmd2
               in (True, if to_payload (ak_transmit cmd3) = [] \<and> 4 \<le> length positionals
                         then upd_transmit (\<lambda>t. t\<lparr>to_payload := bytes_of (take (MAX_PAYLOAD_SIZE - 1) (positionals ! 3))\<rparr>) cmd3
                         else cmd3))))"

definition app_opts_transmit_apply_parsed ::
  "disk_env \<Rightarrow> (nat \<Rightarrow> bool) \<Rightarrow> disk \<Rightarrow> ArgvParsed \<Rightarrow> AppCommand \<Rightarrow> bool \<times> AppCommand" where
  "app_opts_transmit_apply_parsed env m k parsed cmd =
     and_then (apply_transmit_options (ap_options parsed)) (apply_transmit_positionals env m k (ap_positionals parsed)) cmd"

text \<open>
  A check of \<open>app_opts_transmit_validate\<close>: every check is made, the last message stays. A path that is not
  built leaves the option empty in the model; the command is then refused.
\<close>

definition reject_if :: "bool \<Rightarrow> string \<Rightarrow> bool \<times> AppCommand \<Rightarrow> bool \<times> AppCommand" where
  "reject_if bad message vc = (if bad then app_opts_transmit_set_error (snd vc) 2 message else vc)"

definition validate_ids :: "bool \<times> AppCommand \<Rightarrow> bool \<times> AppCommand" where
  "validate_ids vc =
     (let t = ak_transmit (snd vc)
      in reject_if (255 < to_action_id t) ''Resolved action ID exceeds packet range (max 255)''
           (reject_if (to_action_id t = 0) ''Invalid or missing action ID''
             (reject_if (65535 < to_user_id t) ''Resolved user ID exceeds packet range (max 65535)''
               (reject_if (to_user_id t = 0) ''Invalid or missing user ID''
                 (reject_if (to_host t = []) ''Host not specified!'' vc)))))"

definition validate_path ::
  "disk_env \<Rightarrow> (Opts \<Rightarrow> string) \<Rightarrow> (string \<Rightarrow> Opts \<Rightarrow> Opts) \<Rightarrow> string \<Rightarrow> string \<Rightarrow> bool \<times> AppCommand \<Rightarrow> bool \<times> AppCommand" where
  "validate_path env get put file kind vc =
     (let t = ak_transmit (snd vc)
      in if to_host t \<noteq> [] \<and> get t = []
         then case app_env_build_host_config_path env PATH_MAX (to_host t) (Some file) of
                Some path \<Rightarrow> (fst vc, upd_transmit (put path) (snd vc))
              | None \<Rightarrow> app_opts_transmit_set_error (snd vc) 2
                          (snprintf256 (''Failed to resolve '' @ kind @ '' path for host: '' @ to_host t))
         else vc)"

definition validate_send_from :: "disk_env \<Rightarrow> disk \<Rightarrow> bool \<times> AppCommand \<Rightarrow> bool \<times> AppCommand" where
  "validate_send_from env k vc =
     (let t = ak_transmit (snd vc);
          vc1 = (if to_host t \<noteq> [] \<and> to_user_selector t \<noteq> [] \<and> to_send_from_ip t = []
                 then case app_env_load_host_user_send_from_ip env k (to_host t) (to_user_selector t) 64 of
                   (rv, ip) \<Rightarrow>
                     if rv < 0
                     then app_opts_transmit_set_error (upd_transmit (\<lambda>t. t\<lparr>to_send_from_ip := ip\<rparr>) (snd vc)) 2
                            (snprintf256 (''Invalid host user send_from_ip config for '' @ to_host t @ ''/'' @ to_user_selector t))
                     else (fst vc, upd_transmit (\<lambda>t. t\<lparr>to_send_from_ip := ip\<rparr>) (snd vc))
                 else vc);
          t1 = ak_transmit (snd vc1)
      in reject_if (to_send_from_ip t1 \<noteq> [] \<and> \<not> net_ip_range_is_single_ipv4 (to_send_from_ip t1))
           ''Invalid --send-from IPv4 address'' vc1)"

definition validate_modes :: "bool \<times> AppCommand \<Rightarrow> bool \<times> AppCommand" where
  "validate_modes vc =
     (let vc1 = (fst vc, upd_transmit (\<lambda>t. t
              \<lparr>to_port := (if to_port t = 0 then 50000 else to_port t),
               to_verbose := (if to_verbose t < 0 \<or> 5 < to_verbose t then 3 else to_verbose t),
               to_hmac_mode := (if to_dead_drop t then HMAC_MODE_NONE else to_hmac_mode t)\<rparr>) (snd vc));
          t = ak_transmit (snd vc1);
          v34 = (to_protocol t = KNOCK_PROTOCOL_V3 \<or> to_protocol t = KNOCK_PROTOCOL_V4)
      in reject_if (v34 \<and> to_dead_drop t) ''Protocol v3/v4 does not support dead-drop mode''
           (reject_if (v34 \<and> to_hmac_mode t \<noteq> HMAC_MODE_NORMAL) ''Protocol v3/v4 requires normal HMAC signing''
             (reject_if (v34 \<and> \<not> to_encrypt t) ''Protocol v3/v4 requires encryption''
               (reject_if (to_fragment_count t = 0) ''Invalid fragment count'' vc1))))"

definition app_opts_transmit_validate :: "disk_env \<Rightarrow> disk \<Rightarrow> AppCommand \<Rightarrow> bool \<times> AppCommand" where
  "app_opts_transmit_validate env k cmd =
     validate_modes (validate_send_from env k
       (validate_path env to_client_privkey_path (\<lambda>p t. t\<lparr>to_client_privkey_path := p\<rparr>) ''user.pri.pem'' ''client key''
         (validate_path env to_server_pubkey_path (\<lambda>p t. t\<lparr>to_server_pubkey_path := p\<rparr>) ''server.pub.pem'' ''server key''
           (validate_path env to_hmac_key_path (\<lambda>p t. t\<lparr>to_hmac_key_path := p\<rparr>) ''hmac.key'' ''hmac key''
             (validate_ids (True, cmd))))))"

definition app_opts_transmit_parse ::
  "disk_env \<Rightarrow> (nat \<Rightarrow> bool) \<Rightarrow> disk \<Rightarrow> ArgvParsed \<Rightarrow> AppCommand \<Rightarrow> bool \<times> AppCommand" where
  "app_opts_transmit_parse env m k parsed out =
     and_then (app_opts_transmit_apply_parsed env m k parsed)
       (and_then (app_opts_transmit_validate env k) (\<lambda>out. (True, out\<lparr>ak_ok := True, ak_exit_code := 0\<rparr>)))
       (out\<lparr>ak_type := APP_CMD_TRANSMIT, ak_ok := False, ak_exit_code := 2,
            ak_dump_requested := argv_has parsed ''--opts-dump'', ak_transmit := transmit_defaults\<rparr>)"

section \<open>opts/opts.c\<close>

datatype AppOptsParseMode =
    APP_OPTS_PARSE_MODE_HELP | APP_OPTS_PARSE_MODE_OUTPUT_MODE_DEFAULT | APP_OPTS_PARSE_MODE_SEND_FROM_DEFAULT
  | APP_OPTS_PARSE_MODE_ALIAS | APP_OPTS_PARSE_MODE_TRANSMIT

definition OPT_ID_OUTPUT_MODE_DEFAULT :: int where "OPT_ID_OUTPUT_MODE_DEFAULT = 1"
definition OPT_ID_OUTPUT_MODE_DEFAULT_DUMP :: int where "OPT_ID_OUTPUT_MODE_DEFAULT_DUMP = 2"
definition OPT_ID_SEND_FROM_DEFAULT :: int where "OPT_ID_SEND_FROM_DEFAULT = 3"
definition OPT_ID_SEND_FROM_DEFAULT_CLEAR :: int where "OPT_ID_SEND_FROM_DEFAULT_CLEAR = 4"
definition OPT_ID_SEND_FROM_DEFAULT_DUMP :: int where "OPT_ID_SEND_FROM_DEFAULT_DUMP = 5"

definition output_mode_default_specs :: "ArgvOptionSpec list" where
  "output_mode_default_specs =
     [option_spec ''--output-mode-default'' OPT_ID_OUTPUT_MODE_DEFAULT 1 ARGV_OPT_KEYED True False True,
      option_spec ''--opts-dump'' OPT_ID_OUTPUT_MODE_DEFAULT_DUMP 0 ARGV_OPT_FLAG False False True]"

definition send_from_default_specs :: "ArgvOptionSpec list" where
  "send_from_default_specs =
     [option_spec ''--send-from-default'' OPT_ID_SEND_FROM_DEFAULT 3 ARGV_OPT_KEYED False False False,
      option_spec ''--send-from-default-clear'' OPT_ID_SEND_FROM_DEFAULT_CLEAR 2 ARGV_OPT_KEYED False False False,
      option_spec ''--opts-dump'' OPT_ID_SEND_FROM_DEFAULT_DUMP 0 ARGV_OPT_FLAG False False True]"

definition app_opts_get_parse_mode :: "string list \<Rightarrow> AppOptsParseMode" where
  "app_opts_get_parse_mode argv =
     (if length argv < 2 then APP_OPTS_PARSE_MODE_HELP
      else let a = argv ! 1
           in if a = ''--output-mode-default'' then APP_OPTS_PARSE_MODE_OUTPUT_MODE_DEFAULT
              else if a = ''--send-from-default'' \<or> a = ''--send-from-default-clear''
              then APP_OPTS_PARSE_MODE_SEND_FROM_DEFAULT
              else if a = ''--help'' then APP_OPTS_PARSE_MODE_HELP
              else if take 7 a = ''--alias'' then APP_OPTS_PARSE_MODE_ALIAS
              else APP_OPTS_PARSE_MODE_TRANSMIT)"

definition app_opts_parse_output_mode_default :: "ArgvParsed \<Rightarrow> AppCommand \<Rightarrow> bool \<times> AppCommand" where
  "app_opts_parse_output_mode_default parsed out =
     (case argv_find_first_by_id parsed OPT_ID_OUTPUT_MODE_DEFAULT of
        None \<Rightarrow> command_set_error out 2 ''Missing --output-mode-default parse payload''
      | Some mode_opt \<Rightarrow>
          if ap_positionals parsed \<noteq> []
          then command_set_error out 2 ''Too many positional arguments for --output-mode-default''
          else case argv_get_enum (Some mode_opt) 0 output_mode_map of
            Inl parse_err \<Rightarrow> command_set_typed_error out mode_opt parse_err
          | Inr mode \<Rightarrow>
              (True, out\<lparr>ak_type := APP_CMD_OUTPUT_MODE_DEFAULT, ak_ok := True, ak_exit_code := 0,
                        ak_dump_requested := argv_has parsed ''--opts-dump'', ak_outdef := mode\<rparr>))"

definition app_opts_parse_send_from_default :: "ArgvParsed \<Rightarrow> AppCommand \<Rightarrow> bool \<times> AppCommand" where
  "app_opts_parse_send_from_default parsed out =
     (let expected = ''Expected exactly one of --send-from-default or --send-from-default-clear'';
          out1 = out\<lparr>ak_type := APP_CMD_SEND_FROM_DEFAULT, ak_ok := True, ak_exit_code := 0,
                     ak_dump_requested := argv_has parsed ''--opts-dump'', ak_send_from_default := zero_send_from\<rparr>;
          many = ''Too many positional arguments for send-from-default command''
      in case (argv_find_first_by_id parsed OPT_ID_SEND_FROM_DEFAULT,
               argv_find_first_by_id parsed OPT_ID_SEND_FROM_DEFAULT_CLEAR) of
           (Some set_opt, None) \<Rightarrow>
             if ap_positionals parsed \<noteq> [] then command_set_error out 2 many
             else let c = \<lparr>sf_clear = False, sf_host = take 255 (po_args set_opt ! 1), sf_user = take 127 (po_args set_opt ! 2),
                           sf_ip = take 63 (po_args set_opt ! 3)\<rparr>;
                      out2 = out1\<lparr>ak_send_from_default := c\<rparr>
                  in if \<not> net_ip_range_is_single_ipv4 (sf_ip c)
                     then command_set_error out2 2 ''Invalid IPv4 for --send-from-default'' else (True, out2)
         | (None, Some clear_opt) \<Rightarrow>
             if ap_positionals parsed \<noteq> [] then command_set_error out 2 many
             else (True, out1\<lparr>ak_send_from_default := \<lparr>sf_clear = True, sf_host = take 255 (po_args clear_opt ! 1),
                                sf_user = take 127 (po_args clear_opt ! 2), sf_ip = []\<rparr>\<rparr>)
         | _ \<Rightarrow> command_set_error out 2 expected)"

text \<open>How many words are skipped and the table of options of a mode, and its parser.\<close>

definition app_opts_get_mode_parser :: "AppOptsParseMode \<Rightarrow> (nat \<times> ArgvOptionSpec list) option" where
  "app_opts_get_mode_parser mode =
     (case mode of
        APP_OPTS_PARSE_MODE_OUTPUT_MODE_DEFAULT \<Rightarrow> Some (0, output_mode_default_specs)
      | APP_OPTS_PARSE_MODE_SEND_FROM_DEFAULT \<Rightarrow> Some (0, send_from_default_specs)
      | APP_OPTS_PARSE_MODE_ALIAS \<Rightarrow> Some (1, app_opts_alias_spec)
      | APP_OPTS_PARSE_MODE_TRANSMIT \<Rightarrow> Some (0, app_opts_transmit_spec)
      | APP_OPTS_PARSE_MODE_HELP \<Rightarrow> None)"

definition run_mode_parser ::
  "disk_env \<Rightarrow> (nat \<Rightarrow> bool) \<Rightarrow> disk \<Rightarrow> AppOptsParseMode \<Rightarrow> string option \<Rightarrow> ArgvParsed \<Rightarrow> AppCommand \<Rightarrow> bool \<times> AppCommand" where
  "run_mode_parser env m k mode mode_selector parsed out =
     (case mode of
        APP_OPTS_PARSE_MODE_OUTPUT_MODE_DEFAULT \<Rightarrow> app_opts_parse_output_mode_default parsed out
      | APP_OPTS_PARSE_MODE_SEND_FROM_DEFAULT \<Rightarrow> app_opts_parse_send_from_default parsed out
      | APP_OPTS_PARSE_MODE_ALIAS \<Rightarrow> app_opts_alias_parse mode_selector parsed out
      | _ \<Rightarrow> app_opts_transmit_parse env m k parsed out)"

definition zero_command :: AppCommand where
  "zero_command = \<lparr>ak_type = APP_CMD_HELP, ak_ok = False, ak_exit_code = 0, ak_dump_requested = False, ak_error = [],
     ak_transmit = transmit_defaults\<lparr>to_fragment_count := 0, to_hmac_mode := HMAC_MODE_NONE, to_encrypt := False, to_verbose := 0\<rparr>,
     ak_alias = zero_alias_command, ak_outdef = 0, ak_send_from_default = zero_send_from\<rparr>"

definition app_opts_parse_command :: "disk_env \<Rightarrow> (nat \<Rightarrow> bool) \<Rightarrow> disk \<Rightarrow> string list \<Rightarrow> bool \<times> AppCommand" where
  "app_opts_parse_command env m k argv =
     (let out = zero_command\<lparr>ak_type := APP_CMD_ERROR, ak_ok := False, ak_exit_code := 2\<rparr>;
          parse_mode = app_opts_get_parse_mode argv;
          mode_selector = (if 1 < length argv then Some (argv ! 1) else None)
      in if parse_mode = APP_OPTS_PARSE_MODE_HELP
         then (True, out\<lparr>ak_type := APP_CMD_HELP, ak_ok := True, ak_exit_code := 0\<rparr>)
         else case app_opts_get_mode_parser parse_mode of
           None \<Rightarrow> command_set_error out 2 ''Parser mode wiring is incomplete''
         | Some (argv_offset, spec) \<Rightarrow>
             if length argv - argv_offset < 1 then command_set_error out 2 ''Invalid parser argv state''
             else case argv_parse True (drop argv_offset argv) spec of
               (False, parsed) \<Rightarrow> command_set_argv_error out parsed
             | (True, parsed) \<Rightarrow>
                 (case run_mode_parser env m k parse_mode mode_selector parsed out of
                    (True, out1) \<Rightarrow> (True, out1)
                  | (False, out1) \<Rightarrow>
                      if ak_error out1 = [] then command_set_error out1 2 ''Invalid command arguments'' else (False, out1)))"


text \<open>
  What a command line that is accepted guarantees: the ids fit the packet, the modes fit the protocol.
\<close>

section \<open>Validation\<close>

lemma reject_if_True: "reject_if bad message vc = (True, cmd) \<longleftrightarrow> \<not> bad \<and> vc = (True, cmd)"
  by (simp add: reject_if_def app_opts_transmit_set_error_def command_set_error_def)

lemma reject_if_False: "fst (reject_if bad message vc) \<longleftrightarrow> \<not> bad \<and> fst vc"
  by (simp add: reject_if_def app_opts_transmit_set_error_def command_set_error_def)

definition ids_ok :: "Opts \<Rightarrow> bool" where
  "ids_ok t \<longleftrightarrow> to_host t \<noteq> [] \<and> to_user_id t \<noteq> 0 \<and> to_user_id t \<le> 65535 \<and> to_action_id t \<noteq> 0 \<and> to_action_id t \<le> 255"

definition modes_ok :: "Opts \<Rightarrow> bool" where
  "modes_ok t \<longleftrightarrow> to_port t \<noteq> 0 \<and> 0 \<le> to_verbose t \<and> to_verbose t \<le> 5 \<and> to_fragment_count t \<noteq> 0 \<and>
     (if to_dead_drop t then to_hmac_mode t = HMAC_MODE_NONE else True) \<and>
     (if to_protocol t = KNOCK_PROTOCOL_V3 \<or> to_protocol t = KNOCK_PROTOCOL_V4
      then to_encrypt t \<and> to_hmac_mode t = HMAC_MODE_NORMAL \<and> \<not> to_dead_drop t else True)"

text \<open>What the later checks leave alone.\<close>

definition same_ids :: "Opts \<Rightarrow> Opts \<Rightarrow> bool" where
  "same_ids t t' \<longleftrightarrow> to_host t' = to_host t \<and> to_user_id t' = to_user_id t \<and> to_action_id t' = to_action_id t \<and>
     to_payload t' = to_payload t"

lemma same_ids_refl [simp]: "same_ids t t"
  by (simp add: same_ids_def)

lemma same_ids_trans: "same_ids t u \<Longrightarrow> same_ids u v \<Longrightarrow> same_ids t v"
  by (simp add: same_ids_def)

lemma validate_ids_ok: "validate_ids vc = (True, cmd) \<Longrightarrow> vc = (True, cmd) \<and> ids_ok (ak_transmit cmd)"
  unfolding validate_ids_def Let_def reject_if_True by (auto simp: ids_ok_def not_less)

lemma validate_path_ok:
  assumes "validate_path env get put file kind vc = (True, cmd)" "\<And>p t. same_ids t (put p t)"
    "\<And>p t. to_send_from_ip (put p t) = to_send_from_ip t"
  shows "fst vc \<and> same_ids (ak_transmit (snd vc)) (ak_transmit cmd) \<and>
    to_send_from_ip (ak_transmit cmd) = to_send_from_ip (ak_transmit (snd vc)) \<and> ak_type cmd = ak_type (snd vc)"
proof -
  obtain b c where vc: "vc = (b, c)" by (cases vc)
  show ?thesis
    using assms
    by (auto simp: validate_path_def Let_def vc app_opts_transmit_set_error_def command_set_error_def split: if_splits option.splits)
qed

lemma validate_send_from_ok:
  assumes "validate_send_from env k vc = (True, cmd)"
  shows "fst vc \<and> same_ids (ak_transmit (snd vc)) (ak_transmit cmd) \<and>
    (to_send_from_ip (ak_transmit cmd) = [] \<or> net_ip_range_is_single_ipv4 (to_send_from_ip (ak_transmit cmd))) \<and>
    ak_type cmd = ak_type (snd vc)"
proof -
  obtain b c where vc: "vc = (b, c)" by (cases vc)
  obtain rv ip where l: "app_env_load_host_user_send_from_ip env k (to_host (ak_transmit c)) (to_user_selector (ak_transmit c)) 64 = (rv, ip)"
    by fastforce
  show ?thesis
    using assms unfolding validate_send_from_def Let_def reject_if_True vc l snd_conv fst_conv prod.case
    by (auto simp: same_ids_def app_opts_transmit_set_error_def command_set_error_def split: if_splits)
qed

lemma validate_modes_ok:
  assumes "validate_modes vc = (True, cmd)"
  shows "fst vc \<and> same_ids (ak_transmit (snd vc)) (ak_transmit cmd) \<and> modes_ok (ak_transmit cmd) \<and>
    to_send_from_ip (ak_transmit cmd) = to_send_from_ip (ak_transmit (snd vc)) \<and> ak_type cmd = ak_type (snd vc)"
proof -
  obtain b c where vc: "vc = (b, c)" by (cases vc)
  let ?t = "ak_transmit c"
  define u where "u = ?t\<lparr>to_port := (if to_port ?t = 0 then 50000 else to_port ?t),
      to_verbose := (if to_verbose ?t < 0 \<or> 5 < to_verbose ?t then 3 else to_verbose ?t),
      to_hmac_mode := (if to_dead_drop ?t then HMAC_MODE_NONE else to_hmac_mode ?t)\<rparr>"
  have u: "to_port u \<noteq> 0" "0 \<le> to_verbose u" "to_verbose u \<le> 5" "to_dead_drop u \<Longrightarrow> to_hmac_mode u = HMAC_MODE_NONE"
    "same_ids ?t u" "to_send_from_ip u = to_send_from_ip ?t"
    by (simp_all add: u_def same_ids_def)
  have split: "validate_modes vc = reject_if ((to_protocol u = KNOCK_PROTOCOL_V3 \<or> to_protocol u = KNOCK_PROTOCOL_V4) \<and> to_dead_drop u)
        ''Protocol v3/v4 does not support dead-drop mode''
      (reject_if ((to_protocol u = KNOCK_PROTOCOL_V3 \<or> to_protocol u = KNOCK_PROTOCOL_V4) \<and> to_hmac_mode u \<noteq> HMAC_MODE_NORMAL)
        ''Protocol v3/v4 requires normal HMAC signing''
      (reject_if ((to_protocol u = KNOCK_PROTOCOL_V3 \<or> to_protocol u = KNOCK_PROTOCOL_V4) \<and> \<not> to_encrypt u)
        ''Protocol v3/v4 requires encryption''
      (reject_if (to_fragment_count u = 0) ''Invalid fragment count'' (b, c\<lparr>ak_transmit := u\<rparr>))))"
    unfolding validate_modes_def Let_def vc fst_conv snd_conv u_def [symmetric] by simp
  have "b" "cmd = c\<lparr>ak_transmit := u\<rparr>" "modes_ok u"
    using assms [unfolded split reject_if_True] u unfolding modes_ok_def by auto
  then show ?thesis using u by (simp add: vc)
qed

lemma validate_ok:
  assumes "app_opts_transmit_validate env k cmd = (True, out)"
  shows "ids_ok (ak_transmit out)" "modes_ok (ak_transmit out)" "to_payload (ak_transmit out) = to_payload (ak_transmit cmd)"
    "to_send_from_ip (ak_transmit out) = [] \<or> net_ip_range_is_single_ipv4 (to_send_from_ip (ak_transmit out))"
    "ak_type out = ak_type cmd"
proof -
  define v1 where "v1 = validate_ids (True, cmd)"
  define v2 where "v2 = validate_path env to_hmac_key_path (\<lambda>p t. t\<lparr>to_hmac_key_path := p\<rparr>) ''hmac.key'' ''hmac key'' v1"
  define v3 where "v3 = validate_path env to_server_pubkey_path (\<lambda>p t. t\<lparr>to_server_pubkey_path := p\<rparr>) ''server.pub.pem'' ''server key'' v2"
  define v4 where "v4 = validate_path env to_client_privkey_path (\<lambda>p t. t\<lparr>to_client_privkey_path := p\<rparr>) ''user.pri.pem'' ''client key'' v3"
  define v5 where "v5 = validate_send_from env k v4"
  note run = assms [unfolded app_opts_transmit_validate_def, folded v1_def, folded v2_def, folded v3_def,
      folded v4_def, folded v5_def]
  note m = validate_modes_ok [OF run]
  obtain c5 where c5: "v5 = (True, c5)" using m by (cases v5) simp
  note s = validate_send_from_ok [OF c5 [unfolded v5_def]]
  obtain c4 where c4: "v4 = (True, c4)" using s by (cases v4) simp
  note p4 = validate_path_ok [OF c4 [unfolded v4_def]]
  obtain c3 where c3: "v3 = (True, c3)" using p4 by (cases v3) (simp add: same_ids_def)
  note p3 = validate_path_ok [OF c3 [unfolded v3_def]]
  obtain c2 where c2: "v2 = (True, c2)" using p3 by (cases v2) (simp add: same_ids_def)
  note p2 = validate_path_ok [OF c2 [unfolded v2_def]]
  obtain c1 where c1: "v1 = (True, c1)" using p2 by (cases v1) (simp add: same_ids_def)
  note i = validate_ids_ok [OF c1 [unfolded v1_def]]
  have same: "same_ids (ak_transmit cmd) (ak_transmit out)"
    using m s p4 p3 p2 i c5 c4 c3 c2 c1 by (simp add: same_ids_def)
  show "ids_ok (ak_transmit out)" using same i by (simp add: ids_ok_def same_ids_def)
  show "to_payload (ak_transmit out) = to_payload (ak_transmit cmd)" using same by (simp add: same_ids_def)
  show "modes_ok (ak_transmit out)" using m by simp
  show "to_send_from_ip (ak_transmit out) = [] \<or> net_ip_range_is_single_ipv4 (to_send_from_ip (ak_transmit out))"
    using m s c5 by simp
  show "ak_type out = ak_type cmd" using m s p4 p3 p2 i c5 c4 c3 c2 c1 by (simp add: same_ids_def)
qed

section \<open>The payload\<close>

lemma and_then_True: "and_then f g out = (True, out') \<longleftrightarrow> (\<exists>out1. f out = (True, out1) \<and> g out1 = (True, out'))"
  by (auto simp: and_then_def split: prod.splits bool.splits)

lemma set_error_payload [simp]:
  "ak_transmit (snd (app_opts_transmit_set_error cmd n msg)) = ak_transmit cmd"
  "ak_transmit (snd (app_opts_transmit_set_typed_error cmd opt err)) = ak_transmit cmd"
  by (simp_all add: app_opts_transmit_set_typed_error_def app_opts_transmit_set_error_def command_set_error_def
      split: prod.split bool.split)

lemma parse_fragment_payload [simp]:
  "to_payload (ak_transmit (snd (app_opts_transmit_parse_fragment opt cmd))) = to_payload (ak_transmit cmd)"
  by (simp add: app_opts_transmit_parse_fragment_def split: option.split)

lemma apply_option_payload:
  "to_payload (ak_transmit (snd (apply_transmit_option opt cmd))) = to_payload (ak_transmit cmd)"
  unfolding apply_transmit_option_def Let_def
  by (split if_split, intro conjI impI, simp split: sum.split)+ (simp split: sum.split)

lemma set_error_fails [simp]:
  "\<not> fst (app_opts_transmit_set_error cmd n msg)" "\<not> fst (app_opts_transmit_set_typed_error cmd opt err)"
  by (simp_all add: app_opts_transmit_set_typed_error_def app_opts_transmit_set_error_def command_set_error_def
      split: prod.split bool.split)

lemma parse_fragment_type:
  "fst (app_opts_transmit_parse_fragment opt cmd) \<Longrightarrow> ak_type (snd (app_opts_transmit_parse_fragment opt cmd)) = ak_type cmd"
  by (auto simp: app_opts_transmit_parse_fragment_def split: option.splits)

lemma apply_option_type:
  "fst (apply_transmit_option opt cmd) \<Longrightarrow> ak_type (snd (apply_transmit_option opt cmd)) = ak_type cmd"
  unfolding apply_transmit_option_def Let_def
  by (split if_split_asm, simp add: parse_fragment_type split: sum.split sum.split_asm)+
    (simp_all split: sum.split_asm sum.split)

lemma apply_options_payload:
  "apply_transmit_options opts cmd = (True, cmd') \<Longrightarrow>
     to_payload (ak_transmit cmd') = to_payload (ak_transmit cmd) \<and> ak_type cmd' = ak_type cmd"
proof (induction opts arbitrary: cmd)
  case (Cons opt opts)
  then obtain c1 where c: "apply_transmit_option opt cmd = (True, c1)" "apply_transmit_options opts c1 = (True, cmd')"
    by (auto simp: and_then_True)
  then show ?case using Cons.IH [OF c(2)] apply_option_payload [of opt cmd] apply_option_type [of opt cmd] by simp
qed simp

lemma apply_positionals_payload:
  assumes "apply_transmit_positionals env m k ps cmd = (True, cmd')" "to_payload (ak_transmit cmd) = []"
  shows "length (to_payload (ak_transmit cmd')) \<le> 512 \<and> ak_type cmd' = ak_type cmd"
  using assms
  by (auto simp: apply_transmit_positionals_def Let_def app_opts_transmit_set_error_def command_set_error_def bytes_of_def
      MAX_PAYLOAD_SIZE_def split: if_splits option.splits)

lemma transmit_parse_ok:
  assumes "app_opts_transmit_parse env m k parsed out = (True, cmd)"
  shows "ids_ok (ak_transmit cmd)" "modes_ok (ak_transmit cmd)" "length (to_payload (ak_transmit cmd)) \<le> 512"
    "to_send_from_ip (ak_transmit cmd) = [] \<or> net_ip_range_is_single_ipv4 (to_send_from_ip (ak_transmit cmd))"
    "ak_type cmd = APP_CMD_TRANSMIT"
proof -
  obtain c1 c2 where c: "apply_transmit_options (ap_options parsed) (out\<lparr>ak_type := APP_CMD_TRANSMIT, ak_ok := False,
        ak_exit_code := 2, ak_dump_requested := argv_has parsed ''--opts-dump'', ak_transmit := transmit_defaults\<rparr>) = (True, c1)"
      "apply_transmit_positionals env m k (ap_positionals parsed) c1 = (True, c2)"
    and v: "\<exists>c3. app_opts_transmit_validate env k c2 = (True, c3) \<and> cmd = c3\<lparr>ak_ok := True, ak_exit_code := 0\<rparr>"
    using assms by (auto simp: app_opts_transmit_parse_def app_opts_transmit_apply_parsed_def and_then_True)
  obtain c3 where c3: "app_opts_transmit_validate env k c2 = (True, c3)" "cmd = c3\<lparr>ak_ok := True, ak_exit_code := 0\<rparr>" using v by blast
  have c1: "to_payload (ak_transmit c1) = []" "ak_type c1 = APP_CMD_TRANSMIT" using apply_options_payload [OF c(1)] by (simp_all add: transmit_defaults_def)
  have "length (to_payload (ak_transmit c2)) \<le> 512" "ak_type c2 = APP_CMD_TRANSMIT"
    using apply_positionals_payload [OF c(2) c1(1)] c1(2) by simp_all
  then show "ids_ok (ak_transmit cmd)" "modes_ok (ak_transmit cmd)" "length (to_payload (ak_transmit cmd)) \<le> 512"
    "to_send_from_ip (ak_transmit cmd) = [] \<or> net_ip_range_is_single_ipv4 (to_send_from_ip (ak_transmit cmd))"
    "ak_type cmd = APP_CMD_TRANSMIT"
    using validate_ok [OF c3(1)] by (simp_all add: c3(2))
qed

section \<open>Alias commands\<close>

lemma expect_True: "app_opts_alias_expect_positionals parsed lo hi missing cname out = (True, out') \<longleftrightarrow>
    lo \<le> length (ap_positionals parsed) \<and> length (ap_positionals parsed) \<le> hi \<and> out' = out"
  by (auto simp: app_opts_alias_expect_positionals_def Let_def app_opts_alias_set_error_def command_set_error_def)

lemma host_True: "alias_host_arg parsed n out = (True, out') \<longleftrightarrow> ap_positionals parsed ! n \<noteq> [] \<and>
    length (ap_positionals parsed ! n) < 256 \<and> out' = out\<lparr>ak_alias := (ak_alias out)\<lparr>ac_host := ap_positionals parsed ! n\<rparr>\<rparr>"
  by (auto simp: alias_host_arg_def app_opts_alias_copy_token_def Let_def app_opts_alias_set_error_def command_set_error_def)

lemma name_True: "alias_name_arg parsed n out = (True, out') \<longleftrightarrow> ap_positionals parsed ! n \<noteq> [] \<and>
    length (ap_positionals parsed ! n) < 128 \<and> out' = out\<lparr>ak_alias := (ak_alias out)\<lparr>ac_name := ap_positionals parsed ! n\<rparr>\<rparr>"
  by (auto simp: alias_name_arg_def app_opts_alias_copy_token_def Let_def app_opts_alias_set_error_def command_set_error_def)

lemma op_True: "alias_op_set op out = (True, out') \<longleftrightarrow> out' = out\<lparr>ak_alias := (ak_alias out)\<lparr>ac_op := op\<rparr>\<rparr>"
  by (auto simp: alias_op_set_def)

lemma confirm_True: "alias_confirm parsed n message out = (True, out') \<longleftrightarrow> ap_positionals parsed ! n = ''YES'' \<and>
    out' = out\<lparr>ak_alias := (ak_alias out)\<lparr>ac_confirm_yes := True\<rparr>\<rparr>"
  by (auto simp: alias_confirm_def app_opts_alias_set_error_def command_set_error_def)

lemma id_True: "alias_id_arg parsed n hi message out = (True, out') \<longleftrightarrow>
    (\<exists>i. app_opts_alias_parse_id (ap_positionals parsed ! n) 1 hi = Some i \<and>
       out' = out\<lparr>ak_alias := (ak_alias out)\<lparr>ac_id := i\<rparr>\<rparr>)"
  by (auto simp: alias_id_arg_def app_opts_alias_set_error_def command_set_error_def split: option.splits)

lemma parse_id_range:
  assumes "app_opts_alias_parse_id value 1 hi = Some i" "hi < 2 ^ 32"
  shows "i \<noteq> 0" "unat i \<le> hi"
proof -
  obtain n where n: "strtoul_all value = Some n" "1 \<le> n" "n \<le> hi" "i = word_of_nat n"
    using assms(1) by (auto simp: app_opts_alias_parse_id_def split: if_splits option.splits)
  then have "unat i = n" using assms(2) by (simp add: unsigned_of_nat take_bit_nat_eq_self)
  then show "i \<noteq> 0" "unat i \<le> hi" using n by auto
qed

text \<open>What an accepted command on aliases says.\<close>

definition alias_command_ok :: "AppAliasCommand \<Rightarrow> bool" where
  "alias_command_ok c \<longleftrightarrow>
     (let host = (ac_host c \<noteq> [] \<and> length (ac_host c) < 256); name = (ac_name c \<noteq> [] \<and> length (ac_name c) < 128)
      in case ac_op c of
           APP_ALIAS_OP_INVALID \<Rightarrow> False
         | APP_ALIAS_OP_SET_USER \<Rightarrow> host \<and> name \<and> app_alias_user_id_in_range (ac_id c)
         | APP_ALIAS_OP_SET_ACTION \<Rightarrow> host \<and> name \<and> app_alias_action_id_in_range (ac_id c)
         | APP_ALIAS_OP_DELETE_USER \<Rightarrow> host \<and> name
         | APP_ALIAS_OP_DELETE_ACTION \<Rightarrow> host \<and> name
         | APP_ALIAS_OP_DELETE_USER_MAP \<Rightarrow> host \<and> ac_confirm_yes c
         | APP_ALIAS_OP_DELETE_ACTION_MAP \<Rightarrow> host \<and> ac_confirm_yes c
         | APP_ALIAS_OP_DELETE_HOST \<Rightarrow> host \<and> ac_confirm_yes c
         | APP_ALIAS_OP_SHOW_USER \<Rightarrow> host
         | APP_ALIAS_OP_SHOW_ACTION \<Rightarrow> host
         | APP_ALIAS_OP_SHOW_HOST \<Rightarrow> host
         | _ \<Rightarrow> True)"

lemmas alias_steps = and_then_True expect_True host_True name_True op_True confirm_True id_True

lemma in_range_nat:
  "app_alias_user_id_in_range i \<longleftrightarrow> i \<noteq> 0 \<and> unat i \<le> 65535" "app_alias_action_id_in_range i \<longleftrightarrow> i \<noteq> 0 \<and> unat i \<le> 255"
  by (auto simp: app_alias_user_id_in_range_def app_alias_action_id_in_range_def word_le_nat_alt unat_eq_0
      dest: unat_gt_0 [THEN iffD2] intro: Suc_leI)

lemma alias_apply_options_keeps:
  "alias_apply_options opts out = (True, out') \<Longrightarrow> ak_type out' = ak_type out"
  by (induction opts arbitrary: out)
    (auto simp: app_opts_alias_set_error_def command_set_error_def split: if_splits sum.splits)

definition yields_ok :: "(AppCommand \<Rightarrow> bool \<times> AppCommand) \<Rightarrow> bool" where
  "yields_ok f \<longleftrightarrow> (\<forall>out out'. f out = (True, out') \<longrightarrow> ak_type out' = ak_type out \<and> alias_command_ok (ak_alias out'))"

lemma yields_ok_if: "yields_ok f \<Longrightarrow> yields_ok g \<Longrightarrow> yields_ok (if c then f else g)"
  by simp

lemma id_arg_range:
  "app_opts_alias_parse_id v (Suc 0) 65535 = Some i \<Longrightarrow> app_alias_user_id_in_range i"
  "app_opts_alias_parse_id v (Suc 0) 255 = Some i \<Longrightarrow> app_alias_action_id_in_range i"
  using parse_id_range [of v _ i] by (simp_all add: in_range_nat)

lemma alias_dispatch_ok: "yields_ok (alias_dispatch mode parsed)"
  unfolding alias_dispatch_def Let_def
  by (intro yields_ok_if)
    (auto simp: yields_ok_def alias_steps alias_command_ok_def id_arg_range app_opts_alias_set_error_def command_set_error_def
      split: if_splits)

lemma alias_parse_ok:
  assumes "app_opts_alias_parse mode_selector parsed out = (True, out')"
  shows "ak_type out' = APP_CMD_ALIAS" "alias_command_ok (ak_alias out')"
proof -
  obtain mode c1 c2 where c: "alias_apply_options (ap_options parsed) (out\<lparr>ak_type := APP_CMD_ALIAS, ak_ok := False,
        ak_exit_code := 2, ak_dump_requested := False, ak_alias := zero_alias_command\<rparr>) = (True, c1)"
      "alias_dispatch mode parsed c1 = (True, c2)" "out' = c2\<lparr>ak_ok := True, ak_exit_code := 0\<rparr>"
    using assms
    by (auto simp: app_opts_alias_parse_def app_opts_alias_apply_options_def app_opts_alias_set_error_def
        command_set_error_def and_then_True split: option.splits if_splits)
  have t: "ak_type c1 = APP_CMD_ALIAS" using alias_apply_options_keeps [OF c(1)] by simp
  have "ak_type c2 = ak_type c1 \<and> alias_command_ok (ak_alias c2)"
    using alias_dispatch_ok [of mode parsed] c(2) unfolding yields_ok_def by blast
  with t show "ak_type out' = APP_CMD_ALIAS" "alias_command_ok (ak_alias out')" by (simp_all add: c(3))
qed

section \<open>Every command\<close>

definition transmit_ok :: "Opts \<Rightarrow> bool" where
  "transmit_ok t \<longleftrightarrow> ids_ok t \<and> modes_ok t \<and> length (to_payload t) \<le> 512 \<and>
     (to_send_from_ip t = [] \<or> net_ip_range_is_single_ipv4 (to_send_from_ip t))"

definition command_ok :: "AppCommand \<Rightarrow> bool" where
  "command_ok c \<longleftrightarrow>
     (case ak_type c of
        APP_CMD_HELP \<Rightarrow> True
      | APP_CMD_TRANSMIT \<Rightarrow> transmit_ok (ak_transmit c)
      | APP_CMD_ALIAS \<Rightarrow> alias_command_ok (ak_alias c)
      | APP_CMD_OUTPUT_MODE_DEFAULT \<Rightarrow> ak_outdef c = 1 \<or> ak_outdef c = 2
      | APP_CMD_SEND_FROM_DEFAULT \<Rightarrow>
          sf_clear (ak_send_from_default c) \<or> net_ip_range_is_single_ipv4 (sf_ip (ak_send_from_default c))
      | APP_CMD_ERROR \<Rightarrow> False)"

lemma enum_mode: "argv_get_enum opt n output_mode_map = Inr mode \<Longrightarrow> mode = 1 \<or> mode = 2"
  by (auto simp: argv_get_enum_def output_mode_map_def Let_def SL_OUTPUT_MODE_UNICODE_def SL_OUTPUT_MODE_ASCII_def
      split: if_splits option.splits)

lemma output_mode_default_ok:
  "app_opts_parse_output_mode_default parsed out = (True, c) \<Longrightarrow> command_ok c"
  using enum_mode
  by (fastforce simp: app_opts_parse_output_mode_default_def command_set_error_def command_set_typed_error_def command_ok_def
      split: option.splits if_splits sum.splits prod.splits bool.splits)

lemma send_from_default_ok:
  "app_opts_parse_send_from_default parsed out = (True, c) \<Longrightarrow> command_ok c"
  by (auto simp: app_opts_parse_send_from_default_def command_set_error_def command_ok_def Let_def
      split: option.splits if_splits)

lemma parse_command_ok:
  assumes "app_opts_parse_command env m k argv = (True, c)"
  shows "command_ok c"
proof (cases "app_opts_get_parse_mode argv = APP_OPTS_PARSE_MODE_HELP")
  case True
  with assms show ?thesis by (auto simp: app_opts_parse_command_def Let_def command_ok_def)
next
  case False
  let ?out = "zero_command\<lparr>ak_type := APP_CMD_ERROR, ak_ok := False, ak_exit_code := 2\<rparr>"
  obtain parsed sel where r: "run_mode_parser env m k (app_opts_get_parse_mode argv) sel parsed ?out = (True, c)"
    using assms False
    by (auto simp: app_opts_parse_command_def Let_def command_set_error_def command_set_argv_error_def
        split: option.splits if_splits prod.splits bool.splits)
  show ?thesis
  proof (cases "app_opts_get_parse_mode argv")
    case APP_OPTS_PARSE_MODE_TRANSMIT
    with r transmit_parse_ok [of env m k parsed ?out c] show ?thesis
      by (simp add: run_mode_parser_def command_ok_def transmit_ok_def)
  next
    case APP_OPTS_PARSE_MODE_ALIAS
    with r alias_parse_ok [of sel parsed ?out c] show ?thesis by (simp add: run_mode_parser_def command_ok_def)
  qed (use r False output_mode_default_ok send_from_default_ok in \<open>simp_all add: run_mode_parser_def\<close>)
qed

end
