(* ===== verification/Client_Reply.thy ===== *)
theory Client_Reply
  imports Client_Parse Daemon Codec_V1 Codec_V2 Codec_V3 Codec_V4
begin

unbundle bit_operations_syntax

text \<open>
  What the client does with a reply: the first half of \<open>knock/app/transmit/transmit.c\<close>. A reply is a
  packet of the mux and the user data drained with it. What the client prints is a list of lines.
\<close>

section \<open>The packet that a reply stands for\<close>

definition app_transmit_m7mux_rehydrate_v1 :: "M7MuxRecvPacket \<Rightarrow> M7MuxUserRecvData \<Rightarrow> KnockPacket" where
  "app_transmit_m7mux_rehydrate_v1 reply user =
     \<lparr>kp_version = ucast (rp_wire_version reply), kp_timestamp = rp_timestamp reply, kp_user_id = ud_user_id user,
      kp_action_id = ud_action_id user, kp_challenge = ud_challenge user, kp_hmac = ud_hmac user,
      kp_payload_len = word_of_nat (length (ud_payload user)), kp_payload = payload_array KNOCK_PAYLOAD_SIZE (ud_payload user)\<rparr>"

text \<open>
  The payload is copied into 191 bytes without a test of its length: the second component says whether the
  copy writes past the end of the packet.
\<close>

definition app_transmit_m7mux_rehydrate_v2 ::
  "M7MuxRecvPacket \<Rightarrow> M7MuxUserRecvData \<Rightarrow> SharedKnockCodecV2Form1Packet \<times> bool" where
  "app_transmit_m7mux_rehydrate_v2 reply user =
     (\<lparr>p2_outer = \<lparr>px_magic = SHARED_KNOCK_PREFIX_MAGIC, px_version = rp_wire_version reply, px_form = rp_wire_form reply\<rparr>,
       p2_inner = \<lparr>i2_timestamp = rp_timestamp reply, i2_user_id = ud_user_id user, i2_action_id = ud_action_id user,
         i2_challenge = ud_challenge user, i2_hmac = ud_hmac user, i2_payload_len = word_of_nat (length (ud_payload user))\<rparr>,
       p2_payload = payload_array SHARED_KNOCK_CODEC_V2_FORM1_PAYLOAD_MAX (ud_payload user)\<rparr>,
      SHARED_KNOCK_CODEC_V2_FORM1_PAYLOAD_MAX < length (ud_payload user))"

definition app_transmit_m7mux_rehydrate_v3 :: "M7MuxRecvPacket \<Rightarrow> M7MuxUserRecvData \<Rightarrow> SharedKnockNormalizedUnit" where
  "app_transmit_m7mux_rehydrate_v3 reply user =
     \<lparr>nu_complete = rp_complete reply, nu_wire_version = rp_wire_version reply, nu_wire_form = rp_wire_form reply,
      nu_session_id = rp_session_id reply, nu_message_id = rp_message_id reply, nu_stream_id = rp_stream_id reply,
      nu_fragment_index = rp_fragment_index reply, nu_fragment_count = rp_fragment_count reply,
      nu_timestamp = rp_timestamp reply, nu_user_id = ud_user_id user, nu_action_id = ud_action_id user,
      nu_challenge = ud_challenge user, nu_hmac = ud_hmac user, nu_ip = rp_ip reply, nu_client_port = rp_client_port reply,
      nu_encrypted = rp_encrypted reply, nu_wire_decode = rp_wire_decode reply, nu_wire_auth = rp_wire_auth reply,
      nu_payload = ud_payload user\<rparr>"

section \<open>Signatures\<close>

text \<open>The four functions differ in the digest only; \<open>digest\<close> is what the version's generator makes of the packet.\<close>

definition dummy_hmac :: "u8 list" where
  "dummy_hmac = replicate 32 0x42"

definition response_signature_ok ::
  "evp \<Rightarrow> HmacMode \<Rightarrow> SiglatchOpenSSLSession \<Rightarrow> u8 list option \<Rightarrow> u8 list \<Rightarrow> bool" where
  "response_signature_ok E mode session digest hmac =
     (case mode of
        HMAC_MODE_NORMAL \<Rightarrow>
          (case digest of None \<Rightarrow> False | Some d \<Rightarrow> shared_knock_digest_validate E (ss_hmac_key session) d hmac)
      | HMAC_MODE_DUMMY \<Rightarrow> hmac = dummy_hmac
      | HMAC_MODE_NONE \<Rightarrow> True)"

definition app_transmit_response_validate_signature ::
  "evp \<Rightarrow> bool \<Rightarrow> Opts \<Rightarrow> SiglatchOpenSSLSession \<Rightarrow> KnockPacket \<Rightarrow> bool" where
  "app_transmit_response_validate_signature E has_openssl opts session pkt =
     response_signature_ok E (to_hmac_mode opts) session (shared_knock_digest_generate E has_openssl pkt) (kp_hmac pkt)"

definition app_transmit_v2_response_validate_signature ::
  "evp \<Rightarrow> Opts \<Rightarrow> SiglatchOpenSSLSession \<Rightarrow> SharedKnockCodecV2Form1Packet \<Rightarrow> bool" where
  "app_transmit_v2_response_validate_signature E opts session pkt =
     response_signature_ok E (to_hmac_mode opts) session (shared_knock_digest_generate_v2_form1 E pkt) (i2_hmac (p2_inner pkt))"

definition app_transmit_v3_response_validate_signature ::
  "evp \<Rightarrow> bool \<Rightarrow> Opts \<Rightarrow> SiglatchOpenSSLSession \<Rightarrow> SharedKnockNormalizedUnit \<Rightarrow> bool" where
  "app_transmit_v3_response_validate_signature E has_openssl opts session normal =
     response_signature_ok E (to_hmac_mode opts) session (shared_knock_digest_generate_v3_form1 E has_openssl normal) (nu_hmac normal)"

definition app_transmit_v4_response_validate_signature ::
  "evp \<Rightarrow> bool \<Rightarrow> Opts \<Rightarrow> SiglatchOpenSSLSession \<Rightarrow> SharedKnockNormalizedUnit \<Rightarrow> bool" where
  "app_transmit_v4_response_validate_signature E has_openssl opts session normal =
     response_signature_ok E (to_hmac_mode opts) session (shared_knock_digest_generate_v4_form1 E has_openssl normal) (nu_hmac normal)"

section \<open>Printing\<close>

definition SHARED_KNOCK_CODEC_PACKET_MAX_SIZE :: nat where
  "SHARED_KNOCK_CODEC_PACKET_MAX_SIZE =
     max (max SHARED_KNOCK_CODEC_V1_PACKET_SIZE SHARED_KNOCK_CODEC_V2_FORM1_PACKET_SIZE)
       (max SHARED_KNOCK_CODEC_V3_FORM1_PACKET_MAX_SIZE SHARED_KNOCK_CODEC_V4_FORM1_PACKET_MAX_SIZE)"

text \<open>\<open>isprint\<close> of the C locale.\<close>

definition isprint :: "char \<Rightarrow> bool" where
  "isprint c \<longleftrightarrow> (32::nat) \<le> of_char c \<and> of_char c \<le> (126::nat)"

definition response_char :: "u8 \<Rightarrow> char" where
  "response_char b =
     (let ch = char_of (unat b)
      in if b = 0x0D \<or> b = 0x0A \<or> b = 0x09 then CHR '' '' else if isprint ch then ch else CHR ''?'')"

definition app_transmit_response_copy_text :: "nat \<Rightarrow> u8 list \<Rightarrow> string" where
  "app_transmit_response_copy_text out_size input = map response_char (take (out_size - 1) input)"

text \<open>The status of the client and the line it prints, from a text buffer of \<open>KNOCKER_RESPONSE_BUFFER_SIZE\<close> bytes.\<close>

definition app_transmit_response_print_payload :: "u8 list \<Rightarrow> (int \<times> string) option" where
  "app_transmit_response_print_payload payload =
     (if length payload < SL_KNOCK_RESPONSE_PAYLOAD_HEADER_SIZE then None
      else if payload ! 0 \<noteq> SL_KNOCK_RESPONSE_STATUS_OK \<and> payload ! 0 \<noteq> SL_KNOCK_RESPONSE_STATUS_ERROR then None
      else let okay = (payload ! 0 = SL_KNOCK_RESPONSE_STATUS_OK);
               status_name = (if okay then ''OK'' else ''ERROR'');
               text = app_transmit_response_copy_text SHARED_KNOCK_CODEC_PACKET_MAX_SIZE
                        (drop SL_KNOCK_RESPONSE_PAYLOAD_HEADER_SIZE payload);
               flag = payload ! 2 AND SL_KNOCK_RESPONSE_FLAG_TRUNCATED \<noteq> 0
           in Some (if okay then 0 else 2,
                status_name @ (if text \<noteq> [] then '' '' @ text else []) @ (if flag then '' [truncated]'' else []) @ [nl]))"

definition app_transmit_dead_drop_print_raw_response :: "M7MuxRecvPacket \<Rightarrow> string" where
  "app_transmit_dead_drop_print_raw_response reply =
     (let text = map (\<lambda>b. char_of (unat b)) (rp_raw_bytes reply)
      in if text = [] then [] else if last text \<noteq> nl then text @ [nl] else text)"

section \<open>app_transmit_process_mux_response\<close>

text \<open>
  The checks that the four branches make in this order; \<open>sig_ok\<close> is the version's signature check. The
  result is the status and the line, or nothing.
\<close>

definition check_response ::
  "M7MuxUserSendData \<Rightarrow> u8 \<Rightarrow> u16 \<Rightarrow> u32 \<Rightarrow> u8 list \<Rightarrow> bool \<Rightarrow> (int \<times> string) option" where
  "check_response send_user action_id user_id challenge payload sig_ok =
     (if action_id \<noteq> SL_KNOCK_RESPONSE_ACTION_ID then None
      else if user_id \<noteq> us_user_id send_user then None
      else if challenge \<noteq> us_challenge send_user then None
      else if length payload < SL_KNOCK_RESPONSE_PAYLOAD_HEADER_SIZE then None
      else if payload ! 1 \<noteq> us_action_id send_user then None
      else if \<not> sig_ok then None
      else app_transmit_response_print_payload payload)"

text \<open>The second component is whether memory was overrun.\<close>

definition app_transmit_process_mux_response ::
  "evp \<Rightarrow> bool \<Rightarrow> Opts \<Rightarrow> SiglatchOpenSSLSession \<Rightarrow> M7MuxRecvPacket \<Rightarrow> M7MuxUserSendData \<Rightarrow> M7MuxUserRecvData option \<Rightarrow>
   (int \<times> string) option \<times> bool" where
  "app_transmit_process_mux_response E has_openssl effective session reply send_user reply_user =
     (if to_dead_drop effective
      then (if rp_wire_version reply \<noteq> 0 then None else Some (0, app_transmit_dead_drop_print_raw_response reply), False)
      else case reply_user of
        None \<Rightarrow> (None, False)
      | Some user \<Rightarrow>
          (case to_protocol effective of
             KNOCK_PROTOCOL_V1 \<Rightarrow>
               (let pkt = app_transmit_m7mux_rehydrate_v1 reply user
                in (check_response send_user (kp_action_id pkt) (kp_user_id pkt) (kp_challenge pkt)
                      (take (unat (kp_payload_len pkt)) (kp_payload pkt))
                      (app_transmit_response_validate_signature E has_openssl effective session pkt), False))
           | KNOCK_PROTOCOL_V2 \<Rightarrow>
               (case app_transmit_m7mux_rehydrate_v2 reply user of
                  (pkt, overrun) \<Rightarrow>
                    (check_response send_user (i2_action_id (p2_inner pkt)) (i2_user_id (p2_inner pkt))
                       (i2_challenge (p2_inner pkt)) (take (unat (i2_payload_len (p2_inner pkt))) (p2_payload pkt))
                       (app_transmit_v2_response_validate_signature E effective session pkt), overrun))
           | KNOCK_PROTOCOL_V3 \<Rightarrow>
               (let normal = app_transmit_m7mux_rehydrate_v3 reply user
                in (check_response send_user (nu_action_id normal) (nu_user_id normal) (nu_challenge normal) (nu_payload normal)
                      (app_transmit_v3_response_validate_signature E has_openssl effective session normal), False))
           | KNOCK_PROTOCOL_V4 \<Rightarrow>
               (let normal = app_transmit_m7mux_rehydrate_v3 reply user
                in (check_response send_user (nu_action_id normal) (nu_user_id normal) (nu_challenge normal) (nu_payload normal)
                      (app_transmit_v4_response_validate_signature E has_openssl effective session normal), False))))"


text \<open>
  What a reply must be for the client to accept it, and what it then prints.
\<close>

section \<open>Accepted replies\<close>

lemma check_response_Some:
  assumes "check_response su action_id user_id challenge payload sig_ok = Some r"
  shows "action_id = SL_KNOCK_RESPONSE_ACTION_ID" "user_id = us_user_id su" "challenge = us_challenge su"
    "payload ! 1 = us_action_id su" "SL_KNOCK_RESPONSE_PAYLOAD_HEADER_SIZE \<le> length payload" "sig_ok"
    "app_transmit_response_print_payload payload = Some r"
  using assms by (simp_all add: check_response_def not_less split: if_splits)

text \<open>The digest that the signature of a reply must fit, by the protocol of the request.\<close>

definition reply_digest :: "evp \<Rightarrow> bool \<Rightarrow> KnockProtocol \<Rightarrow> M7MuxRecvPacket \<Rightarrow> M7MuxUserRecvData \<Rightarrow> u8 list option" where
  "reply_digest E has_openssl protocol reply user =
     (case protocol of
        KNOCK_PROTOCOL_V1 \<Rightarrow> shared_knock_digest_generate E has_openssl (app_transmit_m7mux_rehydrate_v1 reply user)
      | KNOCK_PROTOCOL_V2 \<Rightarrow> shared_knock_digest_generate_v2_form1 E (fst (app_transmit_m7mux_rehydrate_v2 reply user))
      | KNOCK_PROTOCOL_V3 \<Rightarrow> shared_knock_digest_generate_v3_form1 E has_openssl (app_transmit_m7mux_rehydrate_v3 reply user)
      | KNOCK_PROTOCOL_V4 \<Rightarrow> shared_knock_digest_generate_v4_form1 E has_openssl (app_transmit_m7mux_rehydrate_v3 reply user))"

definition reply_signed :: "evp \<Rightarrow> bool \<Rightarrow> Opts \<Rightarrow> SiglatchOpenSSLSession \<Rightarrow> M7MuxRecvPacket \<Rightarrow> M7MuxUserRecvData \<Rightarrow> bool" where
  "reply_signed E has_openssl opts session reply user \<longleftrightarrow>
     response_signature_ok E (to_hmac_mode opts) session (reply_digest E has_openssl (to_protocol opts) reply user) (ud_hmac user)"

text \<open>The payload as the checks see it: cut to the packet of the protocol.\<close>

definition seen_payload :: "KnockProtocol \<Rightarrow> M7MuxUserRecvData \<Rightarrow> u8 list" where
  "seen_payload protocol user =
     (case protocol of
        KNOCK_PROTOCOL_V1 \<Rightarrow> take (unat (word_of_nat (length (ud_payload user)) :: u16)) (payload_array KNOCK_PAYLOAD_SIZE (ud_payload user))
      | KNOCK_PROTOCOL_V2 \<Rightarrow> take (unat (word_of_nat (length (ud_payload user)) :: u16))
                               (payload_array SHARED_KNOCK_CODEC_V2_FORM1_PAYLOAD_MAX (ud_payload user))
      | _ \<Rightarrow> ud_payload user)"

lemma process_structured:
  assumes "\<not> to_dead_drop opts"
  shows "fst (app_transmit_process_mux_response E h opts session reply su (Some user)) =
    check_response su (ud_action_id user) (ud_user_id user) (ud_challenge user) (seen_payload (to_protocol opts) user)
      (reply_signed E h opts session reply user)"
  using assms
  by (cases "to_protocol opts")
    (simp_all add: app_transmit_process_mux_response_def Let_def reply_signed_def reply_digest_def seen_payload_def
      app_transmit_response_validate_signature_def app_transmit_v2_response_validate_signature_def
      app_transmit_v3_response_validate_signature_def app_transmit_v4_response_validate_signature_def
      app_transmit_m7mux_rehydrate_v1_def app_transmit_m7mux_rehydrate_v2_def app_transmit_m7mux_rehydrate_v3_def)

text \<open>What an accepted reply to a structured request is.\<close>

definition answers :: "M7MuxUserSendData \<Rightarrow> KnockProtocol \<Rightarrow> M7MuxUserRecvData \<Rightarrow> bool" where
  "answers su protocol user \<longleftrightarrow> ud_action_id user = SL_KNOCK_RESPONSE_ACTION_ID \<and> ud_user_id user = us_user_id su \<and>
     ud_challenge user = us_challenge su \<and> seen_payload protocol user ! 1 = us_action_id su \<and>
     SL_KNOCK_RESPONSE_PAYLOAD_HEADER_SIZE \<le> length (seen_payload protocol user)"

lemma accepted_structured:
  assumes "\<not> to_dead_drop opts" "app_transmit_process_mux_response E h opts session reply su data = (Some r, overrun)"
  shows "\<exists>user. data = Some user \<and> answers su (to_protocol opts) user \<and> reply_signed E h opts session reply user \<and>
    app_transmit_response_print_payload (seen_payload (to_protocol opts) user) = Some r"
proof (cases data)
  case None
  then show ?thesis using assms by (simp add: app_transmit_process_mux_response_def)
next
  case (Some user)
  then have "check_response su (ud_action_id user) (ud_user_id user) (ud_challenge user) (seen_payload (to_protocol opts) user)
      (reply_signed E h opts session reply user) = Some r"
    using process_structured [OF assms(1), of E h session reply su user] assms(2) by simp
  from check_response_Some [OF this] Some show ?thesis by (simp add: answers_def)
qed

section \<open>Printing\<close>

lemma response_char_printable: "isprint (response_char b)"
  by (simp add: response_char_def Let_def isprint_def)

lemma copy_text_printable: "list_all isprint (app_transmit_response_copy_text n input)"
  by (simp add: app_transmit_response_copy_text_def list_all_iff response_char_printable)

text \<open>One line, of printable characters, and a status that says whether the daemon said OK.\<close>

lemma print_payload_line:
  assumes "app_transmit_response_print_payload payload = Some (status, line)"
  shows "\<exists>text. line = text @ [nl] \<and> list_all isprint text" "status = 0 \<or> status = 2"
    "status = 0 \<longleftrightarrow> payload ! 0 = SL_KNOCK_RESPONSE_STATUS_OK"
  using assms copy_text_printable [of SHARED_KNOCK_CODEC_PACKET_MAX_SIZE "drop SL_KNOCK_RESPONSE_PAYLOAD_HEADER_SIZE payload"]
  by (auto simp: app_transmit_response_print_payload_def Let_def isprint_def split: if_splits)

section \<open>Overruns\<close>

lemma overrun_cases:
  "snd (app_transmit_process_mux_response E h opts session reply su data) \<longleftrightarrow>
    \<not> to_dead_drop opts \<and> to_protocol opts = KNOCK_PROTOCOL_V2 \<and>
    (\<exists>user. data = Some user \<and> SHARED_KNOCK_CODEC_V2_FORM1_PAYLOAD_MAX < length (ud_payload user))"
  by (auto simp: app_transmit_process_mux_response_def Let_def app_transmit_m7mux_rehydrate_v2_def
      split: option.split KnockProtocol.split)

end
