(* ===== verification/Client_Transmit.thy ===== *)
theory Client_Transmit
  imports Client_Reply Startup
begin

text \<open>
  Sending a packet and waiting for replies: the second half of \<open>knock/app/transmit/transmit.c\<close> with
  \<open>transmit/helper.c\<close>, the session's key files (\<open>stdlib/openssl/session/session.c\<close>), the input of
  \<open>stdlib/stdin.c\<close>, and what \<open>stdlib/net\<close> does for a client.
\<close>

section \<open>State and environment\<close>

text \<open>
  \<open>xe_read\<close> is what one \<open>read\<close> of a number of bytes from standard input gives, nothing at the end or for
  an error; \<open>xe_stdin\<close> is the text that \<open>fgets\<close> reads. \<open>xe_lookup\<close> is \<open>getaddrinfo\<close> for a family, with
  the text that \<open>inet_ntop\<close> makes of the address; \<open>xe_pton6\<close> says whether \<open>inet_pton\<close> takes a text for an
  IPv6 address. The rest of the environment is shared with the daemon.
\<close>

record transmit_env =
  xe_startup :: startup_env
  xe_terminal :: bool
  xe_read :: "nat \<Rightarrow> u8 list"
  xe_stdin :: string
  xe_lookup :: "address_family \<Rightarrow> string \<Rightarrow> string option option"
  xe_pton6 :: "string \<Rightarrow> bool"
  xe_ntop :: "sockaddr \<Rightarrow> string option"
  xe_calloc :: bool
  xe_stage_calloc :: bool
  xe_unix_ts :: u32
  xe_received_ms :: u64
  xe_challenge :: u32
  xe_start_ms :: u64

text \<open>What one pump meets; \<open>pt_now\<close> is the clock that the waiting loop reads before it, \<open>pt_time\<close> the codecs' \<open>time\<close>.\<close>

record pump_turn =
  pt_now :: u64
  pt_time :: int
  pt_env :: pump_env
  pt_now1 :: u64
  pt_now2 :: u64
  pt_sends :: "bool list"

text \<open>
  The client: the OpenSSL session with whether its \<open>parent_ctx\<close> is set, the references to keys, the
  sockets, the codec context and its users, the mux, and what was sent and printed.
\<close>

record client =
  kc_session :: SiglatchOpenSSLSession
  kc_parent_ctx :: bool
  kc_refs :: key_refs
  kc_socks :: sock_table
  kc_codec :: "SharedKnockCodecContext option"
  kc_registry :: "SharedKnockCodecState registry"
  kc_ctx :: M7MuxContext
  kc_mux :: "M7MuxState option"
  kc_users :: user_heap
  kc_rng :: rng
  kc_sent :: "datagram list"
  kc_out :: string
  kc_overrun :: bool

section \<open>stdlib/stdin.c\<close>

definition stdin_has_piped_input :: "transmit_env \<Rightarrow> bool" where
  "stdin_has_piped_input env \<longleftrightarrow> \<not> xe_terminal env"

definition stdin_attach_if_piped :: "transmit_env \<Rightarrow> nat \<Rightarrow> u8 list option" where
  "stdin_attach_if_piped env dst_size =
     (if dst_size = 0 \<or> xe_terminal env then None
      else let got = take dst_size (xe_read env dst_size) in if got = [] then None else Some got)"

text \<open>\<open>fgets\<close> into 256 bytes; \<open>strlen\<close> stops at a zero character.\<close>

function read_lines :: "nat \<Rightarrow> u8 list \<Rightarrow> string \<Rightarrow> u8 list option" where
  "read_lines dst_size got s =
     (case fgets 256 s of
        None \<Rightarrow> Some got
      | Some (buffer, rest, eof) \<Rightarrow>
          (let line = bytes_of (takeWhile (\<lambda>c. c \<noteq> nul) buffer)
           in if dst_size \<le> length got + length line then None else read_lines dst_size (got @ line) rest))"
  by pat_completeness auto

termination
  by (relation "measure (\<lambda>(n, got, s). length s)") (auto dest: fgets_shorter)

declare read_lines.simps [simp del]

definition stdin_read_multiline :: "transmit_env \<Rightarrow> nat \<Rightarrow> u8 list option" where
  "stdin_read_multiline env dst_size =
     (if dst_size = 0 then None
      else case read_lines dst_size [] (xe_stdin env) of None \<Rightarrow> None | Some got \<Rightarrow> if got = [] then None else Some got)"

definition app_transmit_resolve_payload :: "transmit_env \<Rightarrow> Opts \<Rightarrow> Opts option" where
  "app_transmit_resolve_payload env opts =
     (case (if to_stdin_requested opts
            then map_option (\<lambda>p. opts\<lparr>to_payload := p\<rparr>) (stdin_read_multiline env MAX_PAYLOAD_SIZE)
            else if to_payload opts = [] \<and> stdin_has_piped_input env
            then map_option (\<lambda>p. opts\<lparr>to_payload := p\<rparr>) (stdin_attach_if_piped env MAX_PAYLOAD_SIZE)
            else Some opts) of
        None \<Rightarrow> None
      | Some opts1 \<Rightarrow> if to_dead_drop opts1 \<and> to_payload opts1 = [] then None else Some opts1)"

section \<open>stdlib/openssl/session/session.c\<close>

definition tx_world :: "transmit_env \<Rightarrow> world" where
  "tx_world env = re_world (se_runtime (xe_startup env))"

definition session_init :: "transmit_env \<Rightarrow> client \<Rightarrow> bool \<times> client" where
  "session_init env k =
     (if siglatch_openssl_session_init (re_openssl_ready (se_runtime (xe_startup env)))
      then (True, k\<lparr>kc_parent_ctx := True\<rparr>) else (False, k))"

text \<open>The key fills the first 32 bytes of its field.\<close>

definition siglatch_openssl_session_readHMAC :: "transmit_env \<Rightarrow> string \<Rightarrow> client \<Rightarrow> bool \<times> client" where
  "siglatch_openssl_session_readHMAC env filename k =
     (if \<not> kc_parent_ctx k then (False, k)
      else case w_bytes (tx_world env) filename of
        None \<Rightarrow> (False, k)
      | Some bytes \<Rightarrow>
          if bytes = [] then (False, k)
          else case hmac_key_normalize (take 128 bytes) of
            None \<Rightarrow> (False, k)
          | Some key \<Rightarrow>
              (True, k\<lparr>kc_session := (kc_session k)\<lparr>ss_hmac_key := key @ drop (length key) (ss_hmac_key (kc_session k)),
                        ss_hmac_key_len := 32\<rparr>\<rparr>))"

definition siglatch_openssl_session_readPrivateKey :: "transmit_env \<Rightarrow> string \<Rightarrow> client \<Rightarrow> bool \<times> client" where
  "siglatch_openssl_session_readPrivateKey env filename k =
     (if \<not> kc_parent_ctx k then (False, k)
      else case w_private (tx_world env) filename of
        None \<Rightarrow> (False, k)
      | Some key \<Rightarrow>
          (True, k\<lparr>kc_refs := free_key (ss_private_key (kc_session k)) (add_mset key (kc_refs k)),
                   kc_session := (kc_session k)\<lparr>ss_private_key := Some key\<rparr>\<rparr>))"

definition siglatch_openssl_session_readPublicKey :: "transmit_env \<Rightarrow> string \<Rightarrow> client \<Rightarrow> bool \<times> client" where
  "siglatch_openssl_session_readPublicKey env filename k =
     (if \<not> kc_parent_ctx k then (False, k)
      else case w_public (tx_world env) filename of
        None \<Rightarrow> (False, k)
      | Some (key, rsa) \<Rightarrow>
          (True, k\<lparr>kc_refs := free_key (ss_public_key (kc_session k)) (add_mset key (kc_refs k)),
                   kc_session := (kc_session k)\<lparr>ss_public_key := Some key\<rparr>\<rparr>))"

definition siglatch_openssl_session_free :: "client \<Rightarrow> client" where
  "siglatch_openssl_session_free k =
     k\<lparr>kc_refs := free_key (ss_private_key (kc_session k)) (free_key (ss_public_key (kc_session k)) (kc_refs k)),
       kc_session := zero_session, kc_parent_ctx := True\<rparr>"

section \<open>helper.c\<close>

definition init_user_openssl_session :: "transmit_env \<Rightarrow> Opts \<Rightarrow> client \<Rightarrow> bool \<times> client" where
  "init_user_openssl_session env opts k =
     (let need_hmac = (to_hmac_mode opts = HMAC_MODE_NORMAL); need_public_key = to_encrypt opts
      in if \<not> need_hmac \<and> \<not> need_public_key then (True, k)
         else case session_init env k of
           (False, k1) \<Rightarrow> (False, k1)
         | (True, k1) \<Rightarrow>
             (case (if need_hmac then siglatch_openssl_session_readHMAC env (to_hmac_key_path opts) k1 else (True, k1)) of
                (False, k2) \<Rightarrow> (False, k2)
              | (True, k2) \<Rightarrow>
                  if need_public_key then siglatch_openssl_session_readPublicKey env (to_server_pubkey_path opts) k2
                  else (True, k2)))"

definition encryptWrapper :: "transmit_env \<Rightarrow> Opts \<Rightarrow> u8 list \<Rightarrow> client \<Rightarrow> u8 list option \<times> client" where
  "encryptWrapper env opts input k =
     (if to_encrypt opts
      then case siglatch_openssl_session_encrypt (se_evp (xe_startup env)) (kc_session k) input (kc_rng k) of
        (out, r) \<Rightarrow> (out, k\<lparr>kc_rng := r\<rparr>)
      else (Some input, k))"

section \<open>Addresses and sockets\<close>

text \<open>The C result and the text left in the buffer.\<close>

definition net_resolve_host :: "transmit_env \<Rightarrow> address_family \<Rightarrow> string \<Rightarrow> int \<times> string" where
  "net_resolve_host env family hostname =
     (case xe_lookup env family hostname of
        None \<Rightarrow> (-1, ''unresolved'')
      | Some None \<Rightarrow> (0, ''conversion_failed'')
      | Some (Some ip) \<Rightarrow> (1, ip))"

definition net_resolve_host_to_ip :: "transmit_env \<Rightarrow> string \<Rightarrow> int \<times> string" where
  "net_resolve_host_to_ip env hostname =
     (case net_resolve_host env AF_INET hostname of
        (rv, out) \<Rightarrow> if rv = 1 then (1, out) else net_resolve_host env AF_INET6 hostname)"

definition addr_is_ipv6 :: "transmit_env \<Rightarrow> string \<Rightarrow> bool" where
  "addr_is_ipv6 env ip \<longleftrightarrow> xe_pton6 env ip"

definition tx_net :: "transmit_env \<Rightarrow> net_os" where
  "tx_net env = re_net (se_runtime (xe_startup env))"

definition udp_open_auto :: "transmit_env \<Rightarrow> string \<Rightarrow> sock_table \<Rightarrow> int \<times> sock_table" where
  "udp_open_auto env hint socks =
     (if addr_is_ipv4 hint then udp_open (tx_net env) AF_INET socks
      else if addr_is_ipv6 env hint then udp_open (tx_net env) AF_INET6 socks
      else (-1, socks))"

definition udp_open_bound_auto :: "transmit_env \<Rightarrow> string \<Rightarrow> string \<Rightarrow> u16 \<Rightarrow> sock_table \<Rightarrow> int \<times> sock_table" where
  "udp_open_bound_auto env hint bind_ip bind_port socks =
     (if addr_is_ipv4 hint
      then case udp_open_bound_ipv4 (tx_net env) bind_ip bind_port socks of ((fd, port), socks1) \<Rightarrow> (fd, socks1)
      else if addr_is_ipv6 env hint
      then (if bind_ip \<noteq> [] \<or> bind_port \<noteq> 0 then (-1, socks) else udp_open (tx_net env) AF_INET6 socks)
      else (-1, socks))"

section \<open>The runtime of the codecs\<close>

definition app_transmit_ensure_response_private_key :: "transmit_env \<Rightarrow> Opts \<Rightarrow> client \<Rightarrow> bool \<times> client" where
  "app_transmit_ensure_response_private_key env opts k =
     (if \<not> to_encrypt opts then (True, k)
      else if ss_private_key (kc_session k) \<noteq> None then (True, k)
      else if to_client_privkey_path opts = [] then (False, k)
      else case (if kc_parent_ctx k then (True, k) else session_init env k) of
        (False, k1) \<Rightarrow> (False, k1)
      | (True, k1) \<Rightarrow> siglatch_openssl_session_readPrivateKey env (to_client_privkey_path opts) k1)"

definition app_transmit_protocol_wire_version :: "KnockProtocol \<Rightarrow> u32" where
  "app_transmit_protocol_wire_version protocol =
     (case protocol of
        KNOCK_PROTOCOL_V1 \<Rightarrow> SHARED_KNOCK_CODEC_V1_VERSION
      | KNOCK_PROTOCOL_V2 \<Rightarrow> SHARED_KNOCK_CODEC_V2_WIRE_VERSION
      | KNOCK_PROTOCOL_V3 \<Rightarrow> SHARED_KNOCK_CODEC_V3_WIRE_VERSION
      | KNOCK_PROTOCOL_V4 \<Rightarrow> SHARED_KNOCK_CODEC_V4_WIRE_VERSION)"

definition app_transmit_protocol_wire_form :: "KnockProtocol \<Rightarrow> u8" where
  "app_transmit_protocol_wire_form protocol =
     (case protocol of KNOCK_PROTOCOL_V1 \<Rightarrow> 0 | _ \<Rightarrow> SHARED_KNOCK_CODEC_FORM1_ID)"

text \<open>The adapter of a protocol at a time; the codecs look into the codec context of the client.\<close>

definition app_transmit_protocol_adapter ::
  "transmit_env \<Rightarrow> int \<Rightarrow> SharedKnockCodecContext option \<Rightarrow> KnockProtocol \<Rightarrow> SharedKnockCodecState adapter" where
  "app_transmit_protocol_adapter env now context protocol =
     codec_module (xe_startup env) now context
       (case protocol of KNOCK_PROTOCOL_V1 \<Rightarrow> 1 | KNOCK_PROTOCOL_V2 \<Rightarrow> 2 | KNOCK_PROTOCOL_V3 \<Rightarrow> 3 | KNOCK_PROTOCOL_V4 \<Rightarrow> 4)"

fun register_adapters :: "SharedKnockCodecState adapter list \<Rightarrow> SharedKnockCodecState registry \<Rightarrow> bool \<times> SharedKnockCodecState registry" where
  "register_adapters [] reg = (True, reg)"
| "register_adapters (a # as) reg =
     (case m7mux_normalize_adapter_register reg a of
        (True, reg1) \<Rightarrow> register_adapters as reg1
      | (False, reg1) \<Rightarrow> (False, reg1))"

definition app_transmit_register_m7mux_adapters :: "transmit_env \<Rightarrow> client \<Rightarrow> bool \<times> client" where
  "app_transmit_register_m7mux_adapters env k =
     (if m7mux_normalize_adapter_count (kc_registry k) > 0 then (True, k)
      else case register_adapters
                  (map (app_transmit_protocol_adapter env (se_time (xe_startup env)) (kc_codec k))
                     [KNOCK_PROTOCOL_V1, KNOCK_PROTOCOL_V2, KNOCK_PROTOCOL_V3, KNOCK_PROTOCOL_V4]) (kc_registry k) of
        (ok, reg) \<Rightarrow> (ok, k\<lparr>kc_registry := reg\<rparr>))"

text \<open>The registered codecs as they work at a time.\<close>

definition registry_at :: "transmit_env \<Rightarrow> int \<Rightarrow> client \<Rightarrow> SharedKnockCodecState registry" where
  "registry_at env now k =
     map (\<lambda>a. (codec_module (xe_startup env) now (kc_codec k) (codec_number a))\<lparr>ad_state := ad_state a\<rparr>) (kc_registry k)"

text \<open>The server key that the codecs decrypt replies with is the client's own.\<close>

definition set_client_key :: "transmit_env \<Rightarrow> SharedKnockCodecContext \<Rightarrow> client \<Rightarrow> bool \<times> SharedKnockCodecContext \<times> key_refs" where
  "set_client_key env c k =
     (let s = kc_session k
      in if ss_private_key s = None then (True, c, kc_refs k)
         else shared_knock_codec_context_set_server_key (re_codec_ready (se_runtime (xe_startup env)))
                (w_malloc (tx_world env)) (re_up_ref (se_runtime (xe_startup env))) c
                (zero_server_key\<lparr>sk_name := Some ''client'', sk_public_key := ss_public_key s,
                   sk_private_key := ss_private_key s, sk_hmac_key := Some (ss_hmac_key s), sk_hmac_key_len := ss_hmac_key_len s\<rparr>)
                (kc_refs k))"

text \<open>A context that is given up: its server key is cleared when it has one, the session taken out, the rest freed.\<close>

definition drop_context :: "SharedKnockCodecContext \<Rightarrow> client \<Rightarrow> client" where
  "drop_context c k =
     (case (if cx_has_server_key c then shared_knock_codec_context_clear_server_key c (kc_refs k) else (c, kc_refs k)) of
        (c1, r1) \<Rightarrow>
          k\<lparr>kc_refs := shared_knock_codec_context_destroy (shared_knock_codec_context_clear_openssl_session c1) r1\<rparr>)"

definition app_transmit_m7mux_prepare_runtime :: "transmit_env \<Rightarrow> Opts \<Rightarrow> client \<Rightarrow> bool \<times> client" where
  "app_transmit_m7mux_prepare_runtime env opts k =
     (let ready = re_codec_ready (se_runtime (xe_startup env))
      in case shared_knock_codec_context_create ready (re_codec_calloc (se_runtime (xe_startup env))) of
           None \<Rightarrow> (False, k)
         | Some c0 \<Rightarrow>
      (case shared_knock_codec_context_set_openssl_session ready c0 (kc_session k) of
         (False, c1) \<Rightarrow> (False, drop_context c1 k)
       | (True, c1) \<Rightarrow>
      (let c2 = c1\<lparr>cx_server_secure := to_encrypt opts\<rparr>
       in case (if to_encrypt opts then app_transmit_ensure_response_private_key env opts k else (True, k)) of
            (False, k1) \<Rightarrow> (False, drop_context c2 k1)
          | (True, k1) \<Rightarrow>
      (case (if to_encrypt opts then set_client_key env c2 k1 else (True, c2, kc_refs k1)) of
         (False, c3, r3) \<Rightarrow> (False, drop_context c3 (k1\<lparr>kc_refs := r3\<rparr>))
       | (True, c3, r3) \<Rightarrow>
      (let k2 = k1\<lparr>kc_refs := r3\<rparr>
       in if \<not> list_all (codec_init (xe_startup env)) [1, 2, 3, 4] then (False, drop_context c3 k2)
          else case m7mux_set_context (wire_policy_context c3 True False) of
            (False, g) \<Rightarrow> (False, drop_context c3 (k2\<lparr>kc_ctx := g\<rparr>))
          | (True, g) \<Rightarrow>
              (True, k2\<lparr>kc_ctx := g, kc_codec := Some (c3\<lparr>cx_openssl_session := Some (kc_session k2)\<rparr>)\<rparr>))))))"

definition app_transmit_m7mux_release_runtime :: "client \<Rightarrow> client" where
  "app_transmit_m7mux_release_runtime k =
     (case kc_codec k of
        None \<Rightarrow> k
      | Some c \<Rightarrow>
          (case shared_knock_codec_context_clear_server_key c (kc_refs k) of
             (c1, r1) \<Rightarrow>
               k\<lparr>kc_codec := None,
                 kc_refs := shared_knock_codec_context_destroy (shared_knock_codec_context_clear_openssl_session c1) r1\<rparr>))"

section \<open>The packet\<close>

definition app_transmit_build_m7mux_send_packet ::
  "transmit_env \<Rightarrow> Opts \<Rightarrow> string \<Rightarrow> M7MuxSendPacket \<times> M7MuxUserSendData" where
  "app_transmit_build_m7mux_send_packet env opts target_ip =
     (let v4 = (to_protocol opts = KNOCK_PROTOCOL_V4);
          user = \<lparr>us_user_id = ucast (to_user_id opts), us_action_id = ucast (to_action_id opts),
                  us_challenge = xe_challenge env,
                  us_hmac = (if to_hmac_mode opts = HMAC_MODE_DUMMY then dummy_hmac else replicate 32 0),
                  us_payload = take M7MUX_USER_DATA_PAYLOAD_MAX (to_payload opts)\<rparr>
      in (\<lparr>sp_trace_id = 0, sp_label = ''knocker'', sp_wire_version = app_transmit_protocol_wire_version (to_protocol opts),
           sp_wire_form = app_transmit_protocol_wire_form (to_protocol opts), sp_received_ms = xe_received_ms env,
           sp_session_id = (if v4 then 1 else 0), sp_message_id = (if v4 then 1 else 0), sp_stream_id = (if v4 then 1 else 0),
           sp_fragment_index = 0, sp_fragment_count = to_fragment_count opts, sp_timestamp = xe_unix_ts env,
           sp_ip = target_ip, sp_client_port = to_port opts, sp_encrypted = to_encrypt opts,
           sp_wire_auth = (to_hmac_mode opts = HMAC_MODE_NORMAL), sp_user = Some user\<rparr>, user))"


text \<open>
  \<open>app_transmit_single_packet_m7mux\<close> of \<open>knock/app/transmit/transmit.c\<close>: from the options to the exit
  status. The body of the \<open>do\<close> loop is a chain of steps, each of which may break out of it. The turns of
  the waiting loop are a list of environments; when the list ends the client is still waiting, and the
  result is \<open>None\<close>.
\<close>

definition KNOCKER_RESPONSE_TIMEOUT_MS :: u64 where "KNOCKER_RESPONSE_TIMEOUT_MS = 1500"

section \<open>Pumping\<close>

definition pump_client :: "transmit_env \<Rightarrow> u64 \<Rightarrow> pump_turn \<Rightarrow> client \<Rightarrow> M7MuxState \<Rightarrow> int \<times> client" where
  "pump_client env timeout_ms t k mux =
     (case m7mux_pump (kc_ctx k) (registry_at env (pt_time t) k) (xe_ntop env) mux timeout_ms (pt_env t)
             (pt_now1 t) (pt_now2 t) (pt_sends t) (kc_users k) of
        (rc, mux1, users1, sent) \<Rightarrow>
          (rc, k\<lparr>kc_mux := Some mux1, kc_users := users1, kc_sent := kc_sent k @ sent\<rparr>))"

section \<open>Sending\<close>

definition attach_mux :: "transmit_env \<Rightarrow> int \<Rightarrow> client \<Rightarrow> M7MuxState option \<times> client" where
  "attach_mux env udp_fd k =
     (case m7mux_connect_socket (kc_ctx k) (xe_calloc env) udp_fd of
        None \<Rightarrow> (None, k)
      | Some mux \<Rightarrow> (Some mux, k\<lparr>kc_mux := Some mux\<rparr>))"

text \<open>The two branches of the sending half; the first component is \<open>False\<close> when a step breaks.\<close>

definition send_dead_drop :: "transmit_env \<Rightarrow> pump_turn \<Rightarrow> Opts \<Rightarrow> string \<Rightarrow> int \<Rightarrow> client \<Rightarrow> bool \<times> client" where
  "send_dead_drop env t opts ip udp_fd k =
     (case encryptWrapper env opts (to_payload opts) k of
        (None, k1) \<Rightarrow> (False, k1)
      | (Some raw_out, k1) \<Rightarrow>
          (case attach_mux env udp_fd k1 of
             (None, k2) \<Rightarrow> (False, k2)
           | (Some mux, k2) \<Rightarrow>
               (case m7mux_outbox_stage_bytes mux
                       \<lparr>sb_trace_id = 0, sb_label = ''knocker'', sb_ip = ip, sb_client_port = to_port opts,
                        sb_received_ms = xe_received_ms env, sb_bytes = Some raw_out, sb_bytes_len = length raw_out\<rparr> of
                  (False, mux1) \<Rightarrow> (False, k2\<lparr>kc_mux := Some mux1\<rparr>)
                | (True, mux1) \<Rightarrow>
                    (case pump_client env 0 t k2 mux1 of (rc, k3) \<Rightarrow> (0 \<le> rc, k3)))))"

definition send_structured ::
  "transmit_env \<Rightarrow> pump_turn \<Rightarrow> Opts \<Rightarrow> string \<Rightarrow> int \<Rightarrow> client \<Rightarrow> M7MuxUserSendData option \<times> client" where
  "send_structured env t opts ip udp_fd k =
     (case app_transmit_m7mux_prepare_runtime env opts k of
        (False, k1) \<Rightarrow> (None, k1)
      | (True, k1) \<Rightarrow>
          (case app_transmit_register_m7mux_adapters env k1 of
             (False, k2) \<Rightarrow> (None, k2)
           | (True, k2) \<Rightarrow>
               (case attach_mux env udp_fd k2 of
                  (None, k3) \<Rightarrow> (None, k3)
                | (Some mux, k3) \<Rightarrow>
                    (case app_transmit_build_m7mux_send_packet env opts ip of
                       (send, send_user) \<Rightarrow>
                         (case (if 1 < to_fragment_count opts
                                then m7mux_outbox_stage_fragments (registry_at env (pt_time t) k3) (xe_stage_calloc env) mux send
                                       (unat (to_fragment_count opts)) (kc_rng k3)
                                else m7mux_outbox_stage (registry_at env (pt_time t) k3) (xe_stage_calloc env) mux send (kc_rng k3)) of
                            (False, mux1, r1) \<Rightarrow> (None, k3\<lparr>kc_mux := Some mux1, kc_rng := r1\<rparr>)
                          | (True, mux1, r1) \<Rightarrow>
                              (case pump_client env 0 t (k3\<lparr>kc_rng := r1\<rparr>) mux1 of
                                 (rc, k4) \<Rightarrow> (if 0 \<le> rc then Some send_user else None, k4)))))))"

section \<open>Waiting\<close>

text \<open>\<open>wr_count\<close> is \<open>response_count\<close>, \<open>wr_status\<close> the exit status so far.\<close>

record waiting =
  wr_client :: client
  wr_status :: int
  wr_count :: nat

text \<open>The packets that a pump has made ready; a break leaves this loop only.\<close>

function (sequential) drain_replies ::
  "transmit_env \<Rightarrow> int \<Rightarrow> Opts \<Rightarrow> M7MuxUserSendData \<Rightarrow> M7MuxState \<Rightarrow> waiting \<Rightarrow> waiting" where
  "drain_replies env now opts send_user mux w =
     (if \<not> m7mux_inbox_has_pending mux then w
      else let k = wr_client w
      in case m7mux_inbox_drain (registry_at env now k) (\<not> to_dead_drop opts) mux (kc_users k) of
        (None, mux1, users1) \<Rightarrow> w\<lparr>wr_client := k\<lparr>kc_mux := Some mux1, kc_users := users1\<rparr>\<rparr>
      | (Some (reply, data), mux1, users1) \<Rightarrow>
          (let k1 = k\<lparr>kc_mux := Some mux1, kc_users := users1\<rparr>;
               reply_user = (if to_dead_drop opts then None else case data of Some d \<Rightarrow> Some d | None \<Rightarrow> Some zero_user)
           in case app_transmit_process_mux_response (se_evp (xe_startup env)) (se_digest (xe_startup env)) opts
                     (kc_session k1) reply send_user reply_user of
             (None, overrun) \<Rightarrow>
               w\<lparr>wr_client := k1\<lparr>kc_overrun := kc_overrun k1 \<or> overrun\<rparr>, wr_count := wr_count w + 1\<rparr>
           | (Some (status, line), overrun) \<Rightarrow>
               drain_replies env now opts send_user mux1
                 (w\<lparr>wr_client := k1\<lparr>kc_out := kc_out k1 @ line, kc_overrun := kc_overrun k1 \<or> overrun\<rparr>,
                    wr_status := status, wr_count := wr_count w + 1\<rparr>)))"
  by pat_completeness auto
termination
  by (relation "measure (\<lambda>(_, _, _, _, mux, _). sm_ready_count (mu_stream mux))")
    (auto simp: m7mux_inbox_drain_def m7mux_inbox_has_pending_def m7mux_stream_has_pending_def Let_def
      split: prod.splits dest: stream_drain_count)

declare drain_replies.simps [simp del]

text \<open>
  \<open>FAIL_SINGLE_PACKET\<close> after a failed pump breaks out of the waiting loop only, so the code after it still runs.
\<close>

fun wait_replies ::
  "transmit_env \<Rightarrow> u64 \<Rightarrow> Opts \<Rightarrow> M7MuxUserSendData \<Rightarrow> pump_turn list \<Rightarrow> waiting \<Rightarrow> waiting option" where
  "wait_replies env deadline opts send_user [] w = None"
| "wait_replies env deadline opts send_user (t # ts) w =
     (if deadline \<le> pt_now t then Some w
      else case kc_mux (wr_client w) of
        None \<Rightarrow> Some w
      | Some mux \<Rightarrow>
          (case pump_client env (deadline - pt_now t) t (wr_client w) mux of
             (rc, k1) \<Rightarrow>
               if rc < 0 then Some (w\<lparr>wr_client := k1\<rparr>)
               else wait_replies env deadline opts send_user ts
                      (case kc_mux k1 of
                         None \<Rightarrow> w\<lparr>wr_client := k1\<rparr>
                       | Some mux1 \<Rightarrow> drain_replies env (pt_time t) opts send_user mux1 (w\<lparr>wr_client := k1\<rparr>))))"

definition no_response :: string where
  "no_response = ''No response from host'' @ [nl]"

text \<open>The block after the sending: the deadline, the loop, and the case without a response.\<close>

definition receive_replies ::
  "transmit_env \<Rightarrow> pump_turn list \<Rightarrow> Opts \<Rightarrow> M7MuxUserSendData \<Rightarrow> client \<Rightarrow> (int \<times> client) option" where
  "receive_replies env ts opts send_user k =
     (case wait_replies env (xe_start_ms env + KNOCKER_RESPONSE_TIMEOUT_MS) opts send_user ts
             \<lparr>wr_client = k, wr_status = 1, wr_count = 0\<rparr> of
        None \<Rightarrow> None
      | Some w \<Rightarrow>
          if wr_count w = 0 then Some (0, (wr_client w)\<lparr>kc_out := kc_out (wr_client w) @ no_response\<rparr>)
          else Some (wr_status w, wr_client w))"

section \<open>app_transmit_single_packet\<close>

text \<open>Disconnecting, closing, and releasing the codecs and the session.\<close>

definition transmit_cleanup :: "transmit_env \<Rightarrow> int \<Rightarrow> client \<Rightarrow> client" where
  "transmit_cleanup env udp_fd k =
     (let k1 = (case kc_mux k of
                  None \<Rightarrow> k
                | Some mux \<Rightarrow> k\<lparr>kc_mux := None, kc_users := snd (m7mux_connect_disconnect (kc_ctx k)
                                  (registry_at env (se_time (xe_startup env)) k) mux (kc_users k))\<rparr>);
          k2 = (if 0 \<le> udp_fd then k1\<lparr>kc_socks := udp_close udp_fd (kc_socks k1)\<rparr> else k1)
      in siglatch_openssl_session_free (app_transmit_m7mux_release_runtime k2))"

text \<open>
  Opening the socket. The \<open>break\<close> for a host that cannot be resolved leaves the \<open>switch\<close> only: the code goes
  on with the text that the resolver left in the buffer.
\<close>

definition transmit_open :: "transmit_env \<Rightarrow> Opts \<Rightarrow> string \<Rightarrow> client \<Rightarrow> int \<times> client" where
  "transmit_open env opts ip k =
     (if to_send_from_ip opts \<noteq> [] \<and> addr_is_ipv6 env ip then (-1, k)
      else case (if to_send_from_ip opts \<noteq> [] then udp_open_bound_auto env ip (to_send_from_ip opts) 0 (kc_socks k)
                 else udp_open_auto env ip (kc_socks k)) of
        (fd, socks) \<Rightarrow> (fd, k\<lparr>kc_socks := socks\<rparr>))"

text \<open>What follows once the payload is known and the session is ready; the zeroed user data of a dead drop is not looked at.\<close>

definition zero_send_user :: M7MuxUserSendData where
  "zero_send_user = \<lparr>us_user_id = 0, us_action_id = 0, us_challenge = 0, us_hmac = replicate 32 0, us_payload = []\<rparr>"

definition transmit_exchange :: "transmit_env \<Rightarrow> pump_turn \<Rightarrow> pump_turn list \<Rightarrow> Opts \<Rightarrow> client \<Rightarrow> (int \<times> client) option" where
  "transmit_exchange env t0 ts opts k =
     (let ip = snd (net_resolve_host_to_ip env (to_host opts))
      in case transmit_open env opts ip k of
           (fd, k1) \<Rightarrow>
             if fd < 0 then Some (1, transmit_cleanup env fd k1)
             else case (if to_dead_drop opts
                        then (case send_dead_drop env t0 opts ip fd k1 of (ok, k2) \<Rightarrow> (if ok then Some zero_send_user else None, k2))
                        else send_structured env t0 opts ip fd k1) of
               (None, k2) \<Rightarrow> Some (1, transmit_cleanup env fd k2)
             | (Some send_user, k2) \<Rightarrow>
                 (case receive_replies env ts opts send_user k2 of
                    None \<Rightarrow> None
                  | Some (status, k3) \<Rightarrow> Some (status, transmit_cleanup env fd k3)))"

definition app_transmit_single_packet_m7mux ::
  "transmit_env \<Rightarrow> pump_turn \<Rightarrow> pump_turn list \<Rightarrow> Opts \<Rightarrow> client \<Rightarrow> (int \<times> client) option" where
  "app_transmit_single_packet_m7mux env t0 ts opts k =
     (case app_transmit_resolve_payload env opts of
        None \<Rightarrow> Some (1, transmit_cleanup env (-1) k)
      | Some effective \<Rightarrow>
          (case init_user_openssl_session env effective k of
             (False, k1) \<Rightarrow> Some (1, transmit_cleanup env (-1) k1)
           | (True, k1) \<Rightarrow> transmit_exchange env t0 ts effective k1))"

definition app_transmit_single_packet ::
  "transmit_env \<Rightarrow> pump_turn \<Rightarrow> pump_turn list \<Rightarrow> Opts \<Rightarrow> client \<Rightarrow> (int \<times> client) option" where
  "app_transmit_single_packet env t0 ts opts k = app_transmit_single_packet_m7mux env t0 ts opts k"

end
