(* ===== verification/Client_Send_Facts.thy ===== *)
theory Client_Send_Facts
  imports Client_Transmit Startup_Facts Client_Reply
begin

text \<open>
  What the client holds while it transmits: the references to keys, the sockets, the codec context, the mux
  and the blocks of user data. Every step keeps account of them, and the cleanup gives them all back.
\<close>

section \<open>The invariant\<close>

definition session_refs :: "SiglatchOpenSSLSession \<Rightarrow> key_refs" where
  "session_refs s = key_mset (ss_private_key s) + key_mset (ss_public_key s)"

definition users_ok :: "transmit_env \<Rightarrow> client \<Rightarrow> bool" where
  "users_ok env k \<longleftrightarrow> (case kc_mux k of
      None \<Rightarrow> (\<exists>oom. kc_users k = empty_heap oom)
    | Some mux \<Rightarrow> mx_internal (kc_ctx k) \<and> (\<forall>t. mux_ok (registry_at env t k) mux (kc_users k)))"

text \<open>\<open>S\<close> are the open descriptors, \<open>other\<close> the references held elsewhere.\<close>

definition client_ok :: "transmit_env \<Rightarrow> int set \<Rightarrow> key_refs \<Rightarrow> client \<Rightarrow> bool" where
  "client_ok env S other k \<longleftrightarrow> so_open (kc_socks k) = S \<and>
     kc_refs k = other + session_refs (kc_session k) + codec_refs (kc_codec k) \<and>
     (\<forall>c. kc_codec k = Some c \<longrightarrow> context_ok c) \<and> users_ok env k"

text \<open>What the steps before the mux is attached leave alone.\<close>

definition same_channel :: "client \<Rightarrow> client \<Rightarrow> bool" where
  "same_channel k k1 \<longleftrightarrow> kc_socks k1 = kc_socks k \<and> kc_codec k1 = kc_codec k \<and> kc_registry k1 = kc_registry k \<and>
     kc_ctx k1 = kc_ctx k \<and> kc_mux k1 = kc_mux k \<and> kc_users k1 = kc_users k"

lemma same_channel_refl [simp]: "same_channel k k"
  by (simp add: same_channel_def)

lemma same_channel_trans: "same_channel k u \<Longrightarrow> same_channel u v \<Longrightarrow> same_channel k v"
  by (simp add: same_channel_def)

lemma registry_at_ok: "adapters_ok (registry_at env t k)"
  using codec_module_ok by (auto simp: adapters_ok_def registry_at_def)

lemma registry_at_codecs: "codecs_ok (\<lambda>t. registry_at env t k)"
proof -
  have "ad_wire_version ` set (registry_at env t k) =
      (\<lambda>a. ad_wire_version (codec_module (xe_startup env) 0 None (codec_number a))) ` set (kc_registry k)" for t
    by (simp add: registry_at_def image_image codec_module_version)
  then show ?thesis using registry_at_ok by (auto simp: codecs_ok_def lookup_wire_None)
qed

lemma mux_ok_at: "mux_ok (registry_at env t k) mux h \<Longrightarrow> mux_ok (registry_at env t' k) mux h"
  using mux_ok_reg [OF registry_at_codecs, where d = t and d' = t'] by simp

lemma same_channel_users: "same_channel k k1 \<Longrightarrow> users_ok env k1 = users_ok env k"
  by (simp add: same_channel_def users_ok_def registry_at_def cong: option.case_cong)

lemma printing_ok [simp]:
  "client_ok env S other (k\<lparr>kc_overrun := x\<rparr>) = client_ok env S other k"
  "client_ok env S other (k\<lparr>kc_out := y\<rparr>) = client_ok env S other k"
  by (simp_all add: client_ok_def users_ok_def registry_at_def cong: option.case_cong)

section \<open>The session\<close>

lemma session_step_ok:
  assumes "client_ok env S other k" "same_channel k k1"
    "kc_refs k = other + session_refs (kc_session k) + codec_refs (kc_codec k) \<Longrightarrow>
       kc_refs k1 = other + session_refs (kc_session k1) + codec_refs (kc_codec k)"
  shows "client_ok env S other k1"
  using assms same_channel_users [OF assms(2)] by (simp add: client_ok_def same_channel_def)

lemma session_init_ok:
  assumes "client_ok env S other k" "session_init env k = (b, k1)"
  shows "client_ok env S other k1 \<and> same_channel k k1 \<and> kc_session k1 = kc_session k"
proof -
  have c: "same_channel k k1" "kc_session k1 = kc_session k" "kc_refs k1 = kc_refs k"
    using assms(2) by (auto simp: session_init_def same_channel_def split: if_splits)
  then show ?thesis using session_step_ok [OF assms(1) c(1)] by simp
qed

lemma replaced_key:
  "refs = other + key_mset old + rest \<Longrightarrow> free_key old (add_mset key refs) = other + {#key#} + rest"
  by (cases old) (simp_all add: free_key_def)

lemma read_hmac_ok:
  assumes "client_ok env S other k" "siglatch_openssl_session_readHMAC env f k = (b, k1)"
  shows "client_ok env S other k1 \<and> same_channel k k1"
proof -
  have c: "same_channel k k1" "session_refs (kc_session k1) = session_refs (kc_session k)" "kc_refs k1 = kc_refs k"
    using assms(2)
    by (auto simp: siglatch_openssl_session_readHMAC_def same_channel_def session_refs_def split: if_splits option.splits)
  then show ?thesis using session_step_ok [OF assms(1) c(1)] by simp
qed

lemma read_private_ok:
  assumes "client_ok env S other k" "siglatch_openssl_session_readPrivateKey env f k = (b, k1)"
  shows "client_ok env S other k1 \<and> same_channel k k1"
proof -
  have c: "same_channel k k1"
    using assms(2) by (auto simp: siglatch_openssl_session_readPrivateKey_def same_channel_def split: if_splits option.splits)
  have "kc_refs k1 = other + session_refs (kc_session k1) + codec_refs (kc_codec k)"
    if "kc_refs k = other + session_refs (kc_session k) + codec_refs (kc_codec k)"
    using assms(2) that
      replaced_key [of "kc_refs k" other "ss_private_key (kc_session k)" "key_mset (ss_public_key (kc_session k)) + codec_refs (kc_codec k)"]
    by (auto simp: siglatch_openssl_session_readPrivateKey_def session_refs_def ac_simps split: if_splits option.splits)
  then show ?thesis using session_step_ok [OF assms(1) c] c by simp
qed

lemma read_public_ok:
  assumes "client_ok env S other k" "siglatch_openssl_session_readPublicKey env f k = (b, k1)"
  shows "client_ok env S other k1 \<and> same_channel k k1"
proof -
  have c: "same_channel k k1"
    using assms(2) by (auto simp: siglatch_openssl_session_readPublicKey_def same_channel_def split: if_splits option.splits)
  have "kc_refs k1 = other + session_refs (kc_session k1) + codec_refs (kc_codec k)"
    if "kc_refs k = other + session_refs (kc_session k) + codec_refs (kc_codec k)"
    using assms(2) that
      replaced_key [of "kc_refs k" other "ss_public_key (kc_session k)" "key_mset (ss_private_key (kc_session k)) + codec_refs (kc_codec k)"]
    by (auto simp: siglatch_openssl_session_readPublicKey_def session_refs_def ac_simps split: if_splits option.splits)
  then show ?thesis using session_step_ok [OF assms(1) c] c by simp
qed

lemma init_user_ok:
  assumes "client_ok env S other k" "init_user_openssl_session env opts k = (b, k1)"
  shows "client_ok env S other k1 \<and> same_channel k k1"
proof (cases "to_hmac_mode opts \<noteq> HMAC_MODE_NORMAL \<and> \<not> to_encrypt opts")
  case True
  then show ?thesis using assms by (simp add: init_user_openssl_session_def Let_def)
next
  case False
  obtain b1 k2 where i: "session_init env k = (b1, k2)" by fastforce
  note i1 = session_init_ok [OF assms(1) i]
  obtain b2 k3 where h: "(if to_hmac_mode opts = HMAC_MODE_NORMAL
      then siglatch_openssl_session_readHMAC env (to_hmac_key_path opts) k2 else (True, k2)) = (b2, k3)" by fastforce
  have h1: "client_ok env S other k3 \<and> same_channel k k3"
    using h i1 read_hmac_ok [of env S other k2 "to_hmac_key_path opts" b2 k3] same_channel_trans
    by (auto split: if_splits)
  note run = assms(2) [unfolded init_user_openssl_session_def Let_def, simplified False if_False i prod.case h]
  show ?thesis
  proof (cases "b1 \<and> b2 \<and> to_encrypt opts")
    case True
    then have "siglatch_openssl_session_readPublicKey env (to_server_pubkey_path opts) k3 = (b, k1)" using run False h by simp
    then show ?thesis using read_public_ok h1 same_channel_trans by blast
  next
    case False
    then have "k1 = k2 \<or> k1 = k3" using run h by (auto split: bool.splits if_splits)
    then show ?thesis using i1 h1 by blast
  qed
qed

section \<open>The codec context\<close>

lemma context_frame [simp]:
  "context_ok (c\<lparr>cx_openssl_session := s\<rparr>) = context_ok c" "context_refs (c\<lparr>cx_openssl_session := s\<rparr>) = context_refs c"
  "context_ok (c\<lparr>cx_server_secure := b\<rparr>) = context_ok c" "context_refs (c\<lparr>cx_server_secure := b\<rparr>) = context_refs c"
  "context_ok (shared_knock_codec_context_clear_openssl_session c) = context_ok c"
  "context_refs (shared_knock_codec_context_clear_openssl_session c) = context_refs c"
  by (simp_all add: context_ok_def context_refs_def entries_in_use_def shared_knock_codec_context_clear_openssl_session_def)

lemma give_up_context:
  assumes "context_ok c"
  shows "(case shared_knock_codec_context_clear_server_key c (held + context_refs c) of
      (c1, r1) \<Rightarrow> shared_knock_codec_context_destroy (shared_knock_codec_context_clear_openssl_session c1) r1) = held"
proof -
  obtain c1 r1 where c: "shared_knock_codec_context_clear_server_key c (held + context_refs c) = (c1, r1)" by fastforce
  have "r1 = held + context_refs (shared_knock_codec_context_clear_openssl_session c1)"
    using clear_server_key_facts(2) [OF assms c] by simp
  then show ?thesis using c destroy_refs [of "shared_knock_codec_context_clear_openssl_session c1" held] by simp
qed

lemma drop_context_refs:
  assumes "context_ok c" "kc_refs k = held + context_refs c"
  shows "drop_context c k = k\<lparr>kc_refs := held\<rparr>"
proof (cases "cx_has_server_key c")
  case True
  then show ?thesis using give_up_context [OF assms(1), of held] assms(2)
    by (simp add: drop_context_def split: prod.splits)
next
  case False
  have "shared_knock_codec_context_destroy (shared_knock_codec_context_clear_openssl_session c) (kc_refs k) = held"
    using destroy_refs [of "shared_knock_codec_context_clear_openssl_session c" held] assms(2) by simp
  then show ?thesis using False by (simp add: drop_context_def)
qed

lemma ensure_private_ok:
  assumes "client_ok env S other k" "app_transmit_ensure_response_private_key env opts k = (b, k1)"
  shows "client_ok env S other k1 \<and> same_channel k k1"
proof (cases "\<not> to_encrypt opts \<or> ss_private_key (kc_session k) \<noteq> None \<or> to_client_privkey_path opts = []")
  case True
  then have "k1 = k" using assms(2) by (auto simp: app_transmit_ensure_response_private_key_def split: if_splits)
  then show ?thesis using assms(1) by simp
next
  case False
  obtain b1 k2 where i: "(if kc_parent_ctx k then (True, k) else session_init env k) = (b1, k2)" by fastforce
  have i1: "client_ok env S other k2 \<and> same_channel k k2"
    using i assms(1) session_init_ok [OF assms(1), of b1 k2] by (auto split: if_splits)
  have "k1 = k2 \<or> siglatch_openssl_session_readPrivateKey env (to_client_privkey_path opts) k2 = (b, k1)"
    using assms(2) i False by (auto simp: app_transmit_ensure_response_private_key_def split: bool.splits)
  then show ?thesis using i1 read_private_ok [of env S other k2 _ b k1] same_channel_trans by blast
qed

lemma set_client_key_refs:
  assumes "context_ok c" "kc_refs k = held + context_refs c" "set_client_key env c k = (b, c1, r)"
  shows "context_ok c1" "r = held + context_refs c1"
  using assms set_server_key_facts(1,2) [OF assms(1), where other = held]
  by (auto simp: set_client_key_def Let_def split: if_splits)

lemma client_ok_drop:
  assumes "client_ok env S other k" "kc_codec k = None" "context_ok c"
    "r = other + session_refs (kc_session k) + context_refs c"
  shows "client_ok env S other (drop_context c (k\<lparr>kc_refs := r\<rparr>))" "kc_mux (drop_context c (k\<lparr>kc_refs := r\<rparr>)) = kc_mux k"
  using assms(1,2) drop_context_refs [OF assms(3), of "k\<lparr>kc_refs := r\<rparr>" "other + session_refs (kc_session k)"] assms(4)
  by (simp_all add: client_ok_def users_ok_def registry_at_def cong: option.case_cong)

text \<open>The second half of the preparation, from the server key on.\<close>

lemma prepare_tail_ok:
  assumes k: "client_ok env S other k" "kc_codec k = None" "kc_mux k = None"
    and c: "context_ok c" "context_refs c = {#}"
    and run: "(case (if e then set_client_key env c k else (True, c, kc_refs k)) of
         (False, c3, r3) \<Rightarrow> (False, drop_context c3 (k\<lparr>kc_refs := r3\<rparr>))
       | (True, c3, r3) \<Rightarrow>
      (let k2 = k\<lparr>kc_refs := r3\<rparr>
       in if \<not> list_all (codec_init (xe_startup env)) [1, 2, 3, 4] then (False, drop_context c3 k2)
          else case m7mux_set_context (wire_policy_context c3 True False) of
            (False, g) \<Rightarrow> (False, drop_context c3 (k2\<lparr>kc_ctx := g\<rparr>))
          | (True, g) \<Rightarrow>
              (True, k2\<lparr>kc_ctx := g, kc_codec := Some (c3\<lparr>cx_openssl_session := Some (kc_session k2)\<rparr>)\<rparr>))) = (b, k1)"
  shows "client_ok env S other k1 \<and> kc_mux k1 = None"
proof -
  obtain b3 c3 r3 where s: "(if e then set_client_key env c k else (True, c, kc_refs k)) = (b3, c3, r3)" using prod_cases3 by blast
  have refs: "kc_refs k = other + session_refs (kc_session k)" using k(1,2) by (simp add: client_ok_def)
  have c3: "context_ok c3" "r3 = other + session_refs (kc_session k) + context_refs c3"
    using s set_client_key_refs [OF c(1), of k "other + session_refs (kc_session k)"] c refs by (auto split: if_splits)
  obtain ok g where g: "m7mux_set_context (wire_policy_context c3 True False) = (ok, g)" by fastforce
  have kg: "client_ok env S other (k\<lparr>kc_ctx := g\<rparr>)" using k(1,3) by (simp add: client_ok_def users_ok_def)
  have swap: "k\<lparr>kc_refs := r3, kc_ctx := g\<rparr> = k\<lparr>kc_ctx := g, kc_refs := r3\<rparr>" by simp
  have "k1 = drop_context c3 (k\<lparr>kc_refs := r3\<rparr>) \<or> k1 = drop_context c3 (k\<lparr>kc_ctx := g, kc_refs := r3\<rparr>) \<or>
      k1 = k\<lparr>kc_refs := r3, kc_ctx := g, kc_codec := Some (c3\<lparr>cx_openssl_session := Some (kc_session k)\<rparr>)\<rparr>"
    using run unfolding s prod.case Let_def g swap [symmetric] by (auto split: bool.splits if_splits)
  then show ?thesis
  proof (elim disjE)
    assume "k1 = drop_context c3 (k\<lparr>kc_refs := r3\<rparr>)"
    then show ?thesis using client_ok_drop [OF k(1,2) c3] k(3) by simp
  next
    assume "k1 = drop_context c3 (k\<lparr>kc_ctx := g, kc_refs := r3\<rparr>)"
    then show ?thesis using client_ok_drop [OF kg _ c3(1), of r3] k(2,3) c3(2) by simp
  next
    assume "k1 = k\<lparr>kc_refs := r3, kc_ctx := g, kc_codec := Some (c3\<lparr>cx_openssl_session := Some (kc_session k)\<rparr>)\<rparr>"
    then show ?thesis using k(1,3) c3 by (simp add: client_ok_def users_ok_def)
  qed
qed

lemma prepare_ok:
  assumes k: "client_ok env S other k" "kc_codec k = None" "kc_mux k = None"
    and run: "app_transmit_m7mux_prepare_runtime env opts k = (b, k1)"
  shows "client_ok env S other k1 \<and> kc_mux k1 = None"
proof -
  let ?se = "xe_startup env"
  let ?ready = "re_codec_ready (se_runtime ?se)"
  have refs: "kc_refs k = other + session_refs (kc_session k)" using k(1,2) by (simp add: client_ok_def)
  have drop: "client_ok env S other (drop_context c u) \<and> kc_mux (drop_context c u) = None"
    if "client_ok env S other u" "kc_codec u = None" "kc_mux u = None" "context_ok c" "context_refs c = {#}" for c u
  proof -
    have r: "kc_refs u = other + session_refs (kc_session u) + context_refs c" and u: "u\<lparr>kc_refs := kc_refs u\<rparr> = u"
      using that(1,2,5) by (simp_all add: client_ok_def)
    show ?thesis using client_ok_drop [OF that(1,2,4) r, unfolded u] that(3) by simp
  qed
  obtain b1 k2 where p: "(if to_encrypt opts then app_transmit_ensure_response_private_key env opts k else (True, k)) = (b1, k2)"
    by fastforce
  have k2: "client_ok env S other k2" "kc_codec k2 = None" "kc_mux k2 = None"
    using p k ensure_private_ok [OF k(1), of opts b1 k2] by (auto simp: same_channel_def split: if_splits)
  define c1 where "c1 = zero_codec_context\<lparr>cx_openssl_session := Some (kc_session k)\<rparr>"
  define c2 where "c2 = c1\<lparr>cx_server_secure := to_encrypt opts\<rparr>"
  have c: "context_ok c1" "context_refs c1 = {#}" "context_ok c2" "context_refs c2 = {#}"
    using zero_context_ok by (simp_all add: c1_def c2_def)
  show ?thesis
  proof (cases "?ready \<and> re_codec_calloc (se_runtime ?se)")
    case False
    then have "shared_knock_codec_context_create ?ready (re_codec_calloc (se_runtime ?se)) = None"
      by (auto simp: shared_knock_codec_context_create_def)
    then have "k1 = k" using run [unfolded app_transmit_m7mux_prepare_runtime_def Let_def [of ?ready]] by simp
    then show ?thesis using k by simp
  next
    case True
    then have create: "shared_knock_codec_context_create ?ready (re_codec_calloc (se_runtime ?se)) = Some zero_codec_context"
      and set: "shared_knock_codec_context_set_openssl_session ?ready zero_codec_context (kc_session k) = (True, c1)"
      by (simp_all add: shared_knock_codec_context_create_def shared_knock_codec_context_set_openssl_session_def c1_def)
    note run1 = run [unfolded app_transmit_m7mux_prepare_runtime_def Let_def [of ?ready] create option.case set prod.case bool.case
        Let_def [of "c1\<lparr>cx_server_secure := to_encrypt opts\<rparr>"], folded c2_def, unfolded p prod.case]
    show ?thesis
    proof (cases b1)
      case True
      then show ?thesis using prepare_tail_ok [OF k2 c(3,4)] run1 by simp
    next
      case False
      then show ?thesis using drop [OF k2 c(3,4)] run1 by auto
    qed
  qed
qed

section \<open>The mux\<close>

text \<open>From here on only the mux, the blocks of user data and what is sent and printed change.\<close>

definition same_setup :: "client \<Rightarrow> client \<Rightarrow> bool" where
  "same_setup k k1 \<longleftrightarrow> kc_socks k1 = kc_socks k \<and> kc_codec k1 = kc_codec k \<and> kc_registry k1 = kc_registry k \<and>
     kc_ctx k1 = kc_ctx k \<and> kc_session k1 = kc_session k \<and> kc_refs k1 = kc_refs k"

lemma same_setup_refl [simp]: "same_setup k k"
  by (simp add: same_setup_def)

lemma same_setup_trans: "same_setup k u \<Longrightarrow> same_setup u v \<Longrightarrow> same_setup k v"
  by (simp add: same_setup_def)

lemma same_setup_registry: "same_setup k k1 \<Longrightarrow> registry_at env t k1 = registry_at env t k"
  by (simp add: same_setup_def registry_at_def)

lemma mux_step_client:
  assumes "client_ok env S other k" "same_setup k k1" "kc_mux k1 = Some mux1" "mx_internal (kc_ctx k)"
    "mux_ok (registry_at env t k) mux1 (kc_users k1)"
  shows "client_ok env S other k1"
proof -
  have "mux_ok (registry_at env t' k1) mux1 (kc_users k1)" for t'
    using mux_ok_at [OF assms(5)] same_setup_registry [OF assms(2)] by simp
  then show ?thesis using assms(1-4) by (simp add: client_ok_def same_setup_def users_ok_def)
qed

lemma client_mux:
  assumes "client_ok env S other k" "kc_mux k = Some mux"
  shows "mx_internal (kc_ctx k)" "mux_ok (registry_at env t k) mux (kc_users k)"
  using assms by (simp_all add: client_ok_def users_ok_def)

lemma attach_ok:
  assumes "client_ok env S other k" "kc_mux k = None" "attach_mux env fd k = (m, k1)"
  shows "client_ok env S other k1" "kc_mux k1 = m"
proof -
  have "client_ok env S other k1 \<and> kc_mux k1 = m"
  proof (cases "m7mux_connect_socket (kc_ctx k) (xe_calloc env) fd")
    case None
    then show ?thesis using assms by (simp add: attach_mux_def)
  next
    case (Some mux)
    obtain oom where "kc_users k = empty_heap oom" using assms(1,2) by (auto simp: client_ok_def users_ok_def)
    then have "mux_ok (registry_at env 0 k) mux (kc_users k)" "mx_internal (kc_ctx k)"
      using connect_socket_ok(1) [OF Some, of _ oom] connect_socket_ok(2) [OF Some] by simp_all
    moreover have "k1 = k\<lparr>kc_mux := Some mux\<rparr>" "m = Some mux" using Some assms(3) by (auto simp: attach_mux_def)
    ultimately show ?thesis using mux_step_client [OF assms(1), of k1 mux 0] by (simp add: same_setup_def)
  qed
  then show "client_ok env S other k1" "kc_mux k1 = m" by simp_all
qed

lemma staged_ok:
  assumes "client_ok env S other k" "kc_mux k = Some mux" "same_setup k k1" "kc_mux k1 = Some mux1" "kc_users k1 = kc_users k"
    "\<And>h. mux_ok (registry_at env t k) mux h \<Longrightarrow> mux_ok (registry_at env t k) mux1 h"
  shows "client_ok env S other k1"
  using mux_step_client [OF assms(1,3,4) client_mux(1) [OF assms(1,2)], of t] assms(5,6) client_mux(2) [OF assms(1,2)] by simp

lemma pump_client_ok:
  assumes "client_ok env S other k" "kc_mux k \<noteq> None" "mux_ok (registry_at env t k) mux (kc_users k)"
    "pump_client env timeout_ms tu k mux = (rc, k1)"
  shows "client_ok env S other k1" "kc_mux k1 \<noteq> None" "same_setup k k1"
proof -
  obtain r mux1 users1 sent where p: "m7mux_pump (kc_ctx k) (registry_at env (pt_time tu) k) (xe_ntop env) mux timeout_ms (pt_env tu)
      (pt_now1 tu) (pt_now2 tu) (pt_sends tu) (kc_users k) = (r, mux1, users1, sent)" using prod_cases4 by blast
  have k1: "same_setup k k1" "kc_mux k1 = Some mux1" "kc_users k1 = users1"
    using assms(4) p by (auto simp: pump_client_def same_setup_def)
  have "mux_ok (registry_at env (pt_time tu) k) mux1 users1"
    using mux_pump_ok [OF registry_at_ok mux_ok_at [OF assms(3)] p] .
  moreover have "mx_internal (kc_ctx k)" using assms(1,2) client_mux(1) by blast
  ultimately show "client_ok env S other k1" "kc_mux k1 \<noteq> None" "same_setup k k1"
    using mux_step_client [OF assms(1) k1(1,2)] k1 by simp_all
qed

section \<open>Sending and waiting\<close>

lemma dead_drop_ok:
  assumes "client_ok env S other k" "kc_mux k = None" "send_dead_drop env t opts ip fd k = (b, k1)"
  shows "client_ok env S other k1" "b \<Longrightarrow> kc_mux k1 \<noteq> None"
proof -
  obtain raw k2 where e: "encryptWrapper env opts (to_payload opts) k = (raw, k2)" by fastforce
  have k2: "same_channel k k2" "kc_session k2 = kc_session k" "kc_refs k2 = kc_refs k"
    using e by (auto simp: encryptWrapper_def same_channel_def split: if_splits prod.splits)
  then have ok2: "client_ok env S other k2" "kc_mux k2 = None"
    using session_step_ok [OF assms(1)] assms(2) by (simp_all add: same_channel_def)
  obtain m k3 where a: "attach_mux env fd k2 = (m, k3)" by fastforce
  note ok3 = attach_ok [OF ok2 a]
  have "client_ok env S other k1 \<and> (b \<longrightarrow> kc_mux k1 \<noteq> None)"
  proof (cases raw)
    case None
    then show ?thesis using assms(3) e ok2 by (auto simp: send_dead_drop_def)
  next
    case (Some out)
    note run = assms(3) [unfolded send_dead_drop_def e prod.case Some option.case a]
    show ?thesis
    proof (cases m)
      case None
      then show ?thesis using run ok3 by auto
    next
      case m: (Some mux)
      define sb where "sb = \<lparr>sb_trace_id = 0, sb_label = ''knocker'', sb_ip = ip, sb_client_port = to_port opts,
                        sb_received_ms = xe_received_ms env, sb_bytes = Some out, sb_bytes_len = length out\<rparr>"
      obtain st mux1 where s: "m7mux_outbox_stage_bytes mux sb = (st, mux1)" by fastforce
      note run1 = run [unfolded m option.case, folded sb_def, unfolded s prod.case]
      have mux1: "mux_ok (registry_at env 0 k3) mux1 h" if "mux_ok (registry_at env 0 k3) mux h" for h
        using stage_bytes_ok [OF _ s] mux_ok_egress [OF that] that by (simp add: mux_ok_def)
      show ?thesis
      proof (cases st)
        case False
        then have "k1 = k3\<lparr>kc_mux := Some mux1\<rparr>" "\<not> b" using run1 by auto
        then show ?thesis using staged_ok [OF ok3(1) ok3(2) [unfolded m], of k1 mux1 0] mux1
          by (simp add: same_setup_def)
      next
        case True
        obtain rc k4 where p: "pump_client env 0 t k3 mux1 = (rc, k4)" by fastforce
        have "mux_ok (registry_at env 0 k3) mux1 (kc_users k3)"
          using mux1 client_mux(2) [OF ok3(1) ok3(2) [unfolded m]] .
        moreover have "kc_mux k3 \<noteq> None" "k1 = k4" using ok3(2) m run1 True p by auto
        ultimately show ?thesis using pump_client_ok(1,2) [OF ok3(1) _ _ p, of 0] by simp
      qed
    qed
  qed
  then show "client_ok env S other k1" "b \<Longrightarrow> kc_mux k1 \<noteq> None" by blast+
qed

lemma structured_ok:
  assumes "client_ok env S other k" "kc_codec k = None" "kc_mux k = None" "send_structured env t opts ip fd k = (u, k1)"
  shows "client_ok env S other k1" "u \<noteq> None \<Longrightarrow> kc_mux k1 \<noteq> None"
proof -
  obtain b2 k2 where p: "app_transmit_m7mux_prepare_runtime env opts k = (b2, k2)" by fastforce
  note ok2 = prepare_ok [OF assms(1-3) p]
  obtain b3 k3 where r: "app_transmit_register_m7mux_adapters env k2 = (b3, k3)" by fastforce
  have k3: "kc_mux k3 = None" "kc_users k3 = kc_users k2" "kc_socks k3 = kc_socks k2" "kc_refs k3 = kc_refs k2"
    "kc_session k3 = kc_session k2" "kc_codec k3 = kc_codec k2"
    using r ok2 by (auto simp: app_transmit_register_m7mux_adapters_def split: if_splits prod.splits)
  have "\<exists>oom. kc_users k2 = empty_heap oom" using ok2 by (auto simp: client_ok_def users_ok_def)
  then have ok3: "client_ok env S other k3" using ok2 k3 by (simp add: client_ok_def users_ok_def)
  obtain m k4 where a: "attach_mux env fd k3 = (m, k4)" by fastforce
  note ok4 = attach_ok [OF ok3 k3(1) a]
  obtain send su where bp: "app_transmit_build_m7mux_send_packet env opts ip = (send, su)" by fastforce
  note run = assms(4) [unfolded send_structured_def p prod.case r a bp]
  have "client_ok env S other k1 \<and> (u \<noteq> None \<longrightarrow> kc_mux k1 \<noteq> None)"
  proof (cases "b2 \<and> b3")
    case False
    then show ?thesis using run ok2 ok3 by (auto split: bool.splits)
  next
    case b: True
    show ?thesis
    proof (cases m)
      case None
      then show ?thesis using run b ok4 by auto
    next
      case m: (Some mux)
      note mux = client_mux [OF ok4(1) ok4(2) [unfolded m]]
      let ?reg = "registry_at env (pt_time t) k4"
      obtain st mux1 r1 where s: "(if 1 < to_fragment_count opts
          then m7mux_outbox_stage_fragments ?reg (xe_stage_calloc env) mux send (unat (to_fragment_count opts)) (kc_rng k4)
          else m7mux_outbox_stage ?reg (xe_stage_calloc env) mux send (kc_rng k4)) = (st, mux1, r1)" using prod_cases3 by blast
      have mux1: "mux_ok ?reg mux1 h" if "mux_ok ?reg mux h" for h
        using stage_ok(1,2) [OF registry_at_ok that] s by (auto split: if_splits)
      note run1 = run [unfolded m option.case s prod.case] 
      define k5 where "k5 = k4\<lparr>kc_mux := Some mux1, kc_rng := r1\<rparr>"
      have k5: "client_ok env S other k5" "kc_mux k5 = Some mux1"
        using staged_ok [OF ok4(1) ok4(2) [unfolded m], of k5 mux1 "pt_time t"] mux1
        by (simp_all add: same_setup_def k5_def)
      show ?thesis
      proof (cases st)
        case False
        then show ?thesis using run1 b k5 by (auto simp: k5_def)
      next
        case True
        obtain rc k6 where pc: "pump_client env 0 t (k4\<lparr>kc_rng := r1\<rparr>) mux1 = (rc, k6)" by fastforce
        have "client_ok env S other (k4\<lparr>kc_rng := r1\<rparr>)"
          using mux_step_client [OF ok4(1), of "k4\<lparr>kc_rng := r1\<rparr>" mux] mux m ok4(2) by (simp add: same_setup_def)
        moreover have "registry_at env (pt_time t) (k4\<lparr>kc_rng := r1\<rparr>) = ?reg" by (simp add: registry_at_def)
        ultimately show ?thesis using pump_client_ok [OF _ _ _ pc, of S other "pt_time t"] mux1 [OF mux(2)] ok4(2) m run1 True pc b
          by (auto split: if_splits)
      qed
    qed
  qed
  then show "client_ok env S other k1" "u \<noteq> None \<Longrightarrow> kc_mux k1 \<noteq> None" by blast+
qed

text \<open>Draining replies and waiting for them leave the session, the keys and the codecs alone.\<close>

lemma drain_replies_ok:
  assumes "client_ok env S other (wr_client w)" "kc_mux (wr_client w) = Some mux"
  shows "client_ok env S other (wr_client (drain_replies env now opts su mux w)) \<and>
    kc_mux (wr_client (drain_replies env now opts su mux w)) \<noteq> None \<and>
    same_setup (wr_client w) (wr_client (drain_replies env now opts su mux w))"
  using assms
proof (induction env now opts su mux w rule: drain_replies.induct)
  case (1 env now opts su mux w)
  let ?k = "wr_client w"
  show ?case
  proof (cases "m7mux_inbox_has_pending mux")
    case False
    then show ?thesis using 1(2,3) by (subst (1 2 3) drain_replies.simps) simp
  next
    case True
    obtain p mux1 users1 where d: "m7mux_inbox_drain (registry_at env now ?k) (\<not> to_dead_drop opts) mux (kc_users ?k) = (p, mux1, users1)"
      using prod_cases3 by blast
    define k1 where "k1 = ?k\<lparr>kc_mux := Some mux1, kc_users := users1\<rparr>"
    have same: "same_setup ?k k1" "kc_out k1 = kc_out ?k" "kc_mux k1 = Some mux1" by (simp_all add: same_setup_def k1_def)
    have ok1: "client_ok env S other k1"
      using mux_step_client [OF 1(2) same(1,3) client_mux(1) [OF 1(2,3)], of now]
        inbox_drain_ok [OF registry_at_ok client_mux(2) [OF 1(2,3)] d] by (simp add: k1_def)
    show ?thesis
    proof (cases p)
      case None
      then have e: "drain_replies env now opts su mux w = w\<lparr>wr_client := k1\<rparr>"
        using True d by (subst drain_replies.simps) (simp add: k1_def Let_def)
      show ?thesis unfolding e using ok1 same by simp
    next
      case (Some rd)
      obtain reply data where rd: "rd = (reply, data)" by fastforce
      let ?ru = "if to_dead_drop opts then None else case data of Some d \<Rightarrow> Some d | None \<Rightarrow> Some zero_user"
      obtain res ov where q: "app_transmit_process_mux_response (se_evp (xe_startup env)) (se_digest (xe_startup env)) opts
          (kc_session k1) reply su ?ru = (res, ov)" by fastforce
      note step = drain_replies.simps [of env now opts su mux w, unfolded Let_def d Some rd option.case prod.case, folded k1_def,
          unfolded q prod.case]
      show ?thesis
      proof (cases res)
        case None
        define w1 where "w1 = w\<lparr>wr_client := k1\<lparr>kc_overrun := kc_overrun k1 \<or> ov\<rparr>, wr_count := wr_count w + 1\<rparr>"
        have e: "drain_replies env now opts su mux w = w1" using step None True by (simp add: w1_def)
        have "client_ok env S other (wr_client w1)" using ok1 by (simp add: w1_def)
        then show ?thesis unfolding e using same by (simp add: w1_def same_setup_def)
      next
        case r: (Some sl)
        obtain status line where sl: "sl = (status, line)" by fastforce
        define w1 where "w1 = w\<lparr>wr_client := k1\<lparr>kc_out := kc_out k1 @ line, kc_overrun := kc_overrun k1 \<or> ov\<rparr>,
            wr_status := status, wr_count := wr_count w + 1\<rparr>"
        have e: "drain_replies env now opts su mux w = drain_replies env now opts su mux1 w1" using step r sl True by (simp add: w1_def)
        have ok: "client_ok env S other (wr_client w1)" "kc_mux (wr_client w1) = Some mux1"
          using ok1 same(3) by (simp_all add: w1_def)
        have ws: "same_setup ?k (wr_client w1)" using same by (simp add: w1_def same_setup_def)
        have IH: "client_ok env S other (wr_client (drain_replies env now opts su mux1 w1)) \<and>
            kc_mux (wr_client (drain_replies env now opts su mux1 w1)) \<noteq> None \<and>
            same_setup (wr_client w1) (wr_client (drain_replies env now opts su mux1 w1))"
          using 1(1) True d Some rd q r sl ok unfolding w1_def k1_def by simp
        then show ?thesis unfolding e using same_setup_trans [OF ws] by simp
      qed
    qed
  qed
qed

lemma wait_replies_ok:
  assumes "client_ok env S other (wr_client w)" "kc_mux (wr_client w) \<noteq> None"
    "wait_replies env deadline opts su ts w = Some w1"
  shows "client_ok env S other (wr_client w1)" "same_setup (wr_client w) (wr_client w1)"
proof -
  have "client_ok env S other (wr_client w1) \<and> same_setup (wr_client w) (wr_client w1)"
    using assms
  proof (induction ts arbitrary: w)
    case (Cons t ts)
    let ?k = "wr_client w"
    obtain mux where mux: "kc_mux ?k = Some mux" using Cons.prems(2) by blast
    obtain rc k1 where p: "pump_client env (deadline - pt_now t) t ?k mux = (rc, k1)" by fastforce
    note pk = pump_client_ok [OF Cons.prems(1,2) client_mux(2) [OF Cons.prems(1) mux] p]
    let ?w1 = "w\<lparr>wr_client := k1\<rparr>"
    obtain mux1 where mux1: "kc_mux k1 = Some mux1" using pk(2) by blast
    let ?w2 = "drain_replies env (pt_time t) opts su mux1 ?w1"
    have d: "client_ok env S other (wr_client ?w2)" "kc_mux (wr_client ?w2) \<noteq> None" "same_setup k1 (wr_client ?w2)"
      using drain_replies_ok [of env S other ?w1 mux1] pk(1) mux1 by simp_all
    note run = Cons.prems(3) [unfolded wait_replies.simps mux option.case p prod.case mux1]
    show ?case
    proof (cases "deadline \<le> pt_now t")
      case True
      then show ?thesis using run Cons.prems(1) same_setup_refl by auto
    next
      case False
      show ?thesis
      proof (cases "rc < 0")
        case True
        then have "w1 = ?w1" using run False by simp
        then show ?thesis using pk(1,3) by simp
      next
        case rc: False
        then have "wait_replies env deadline opts su ts ?w2 = Some w1" using run False by simp
        from Cons.IH [OF d(1,2) this] same_setup_trans [OF pk(3) same_setup_trans [OF d(3)]] show ?thesis by blast
      qed
    qed
  qed simp
  then show "client_ok env S other (wr_client w1)" "same_setup (wr_client w) (wr_client w1)" by blast+
qed

lemma receive_replies_ok:
  assumes "client_ok env S other k" "kc_mux k \<noteq> None" "receive_replies env ts opts su k = Some (status, k1)"
  shows "client_ok env S other k1" "same_setup k k1"
proof -
  let ?w = "\<lparr>wr_client = k, wr_status = 1, wr_count = 0\<rparr>"
  obtain w where w: "wait_replies env (xe_start_ms env + KNOCKER_RESPONSE_TIMEOUT_MS) opts su ts ?w = Some w"
    using assms(3) by (auto simp: receive_replies_def split: option.splits)
  have "client_ok env S other (wr_client w)" "same_setup k (wr_client w)"
    using wait_replies_ok [OF _ _ w, of S other] assms(1,2) by simp_all
  then show "client_ok env S other k1" "same_setup k k1"
    using assms(3) w by (auto simp: receive_replies_def same_setup_def split: if_splits)
qed

section \<open>Opening and releasing\<close>

lemma udp_open_facts:
  assumes "kernel_ok (tx_net env)"
  shows "udp_open_auto env h socks = (fd, socks1) \<Longrightarrow>
      so_open socks1 = (if fd < 0 then so_open socks else insert fd (so_open socks)) \<and> (fd < 0 \<or> fd \<notin> so_open socks)"
    "udp_open_bound_auto env h ip p socks = (fd, socks1) \<Longrightarrow>
      so_open socks1 = (if fd < 0 then so_open socks else insert fd (so_open socks)) \<and> (fd < 0 \<or> fd \<notin> so_open socks)"
proof -
  have fresh: "os_socket (tx_net env) n (so_open socks) < 0 \<or> os_socket (tx_net env) n (so_open socks) \<notin> so_open socks" for n
    using assms by (simp add: kernel_ok_def)
  show "udp_open_auto env h socks = (fd, socks1) \<Longrightarrow>
      so_open socks1 = (if fd < 0 then so_open socks else insert fd (so_open socks)) \<and> (fd < 0 \<or> fd \<notin> so_open socks)"
    using fresh [of "so_calls socks"] by (auto simp: udp_open_auto_def udp_open_def open_socket_def Let_def split: if_splits)
  show "udp_open_bound_auto env h ip p socks = (fd, socks1) \<Longrightarrow>
      so_open socks1 = (if fd < 0 then so_open socks else insert fd (so_open socks)) \<and> (fd < 0 \<or> fd \<notin> so_open socks)"
    using fresh [of "so_calls socks"]
    by (auto simp: udp_open_bound_auto_def udp_open_bound_ipv4_def udp_open_bound_def udp_open_def open_socket_def udp_close_def
        close_socket_def Let_def split: if_splits option.splits)
qed

lemma transmit_open_ok:
  assumes "kernel_ok (tx_net env)" "client_ok env S other k" "transmit_open env opts ip k = (fd, k1)"
  shows "client_ok env (if fd < 0 then S else insert fd S) other k1" "fd < 0 \<or> fd \<notin> S"
    "kc_codec k1 = kc_codec k" "kc_mux k1 = kc_mux k"
proof -
  have S: "S = so_open (kc_socks k)" using assms(2) by (simp add: client_ok_def)
  have "\<exists>socks. k1 = k\<lparr>kc_socks := socks\<rparr> \<and> so_open socks = (if fd < 0 then S else insert fd S) \<and> (fd < 0 \<or> fd \<notin> S)"
  proof (cases "to_send_from_ip opts \<noteq> [] \<and> addr_is_ipv6 env ip")
    case True
    then have "k1 = k\<lparr>kc_socks := kc_socks k\<rparr> \<and> fd = -1" using assms(3) by (simp add: transmit_open_def)
    then show ?thesis using S by (intro exI [of _ "kc_socks k"]) simp
  next
    case False
    obtain f socks where o: "(if to_send_from_ip opts \<noteq> [] then udp_open_bound_auto env ip (to_send_from_ip opts) 0 (kc_socks k)
        else udp_open_auto env ip (kc_socks k)) = (f, socks)" by fastforce
    have "so_open socks = (if f < 0 then S else insert f S) \<and> (f < 0 \<or> f \<notin> S)"
      using udp_open_facts(1) [OF assms(1), of ip "kc_socks k" f socks]
        udp_open_facts(2) [OF assms(1), of ip "to_send_from_ip opts" 0 "kc_socks k" f socks] o
      unfolding S by (cases "to_send_from_ip opts = []") simp_all
    then show ?thesis using assms(3) [unfolded transmit_open_def if_not_P [OF False] o prod.case] by blast
  qed
  then obtain socks where k1: "k1 = k\<lparr>kc_socks := socks\<rparr>" "so_open socks = (if fd < 0 then S else insert fd S)" "fd < 0 \<or> fd \<notin> S"
    by blast
  show "client_ok env (if fd < 0 then S else insert fd S) other k1"
    using assms(2) k1(1,2) by (simp add: client_ok_def users_ok_def registry_at_def cong: option.case_cong)
  show "fd < 0 \<or> fd \<notin> S" "kc_codec k1 = kc_codec k" "kc_mux k1 = kc_mux k" using k1 by simp_all
qed

lemma cleanup_ok:
  assumes "client_ok env (if fd < 0 then S else insert fd S) other k" "fd < 0 \<or> fd \<notin> S"
  shows "let k1 = transmit_cleanup env fd k in so_open (kc_socks k1) = S \<and> kc_refs k1 = other \<and> kc_codec k1 = None \<and>
    kc_mux k1 = None \<and> heap_ok (kc_users k1) \<and> live (kc_users k1) = {} \<and> kc_session k1 = zero_session"
proof -
  let ?reg = "registry_at env (se_time (xe_startup env)) k"
  define u1 where "u1 = (case kc_mux k of None \<Rightarrow> kc_users k
      | Some mux \<Rightarrow> snd (m7mux_connect_disconnect (kc_ctx k) ?reg mux (kc_users k)))"
  have u1: "heap_ok u1 \<and> live u1 = {}"
  proof (cases "kc_mux k")
    case None
    then have "\<exists>oom. kc_users k = empty_heap oom" using assms(1) by (simp add: client_ok_def users_ok_def)
    then show ?thesis using heap_ok_empty None by (auto simp: u1_def)
  next
    case (Some mux)
    note m = client_mux [OF assms(1) Some]
    show ?thesis using disconnect_frees_all [OF registry_at_ok m(2,1) prod.collapse [symmetric]] Some by (simp add: u1_def)
  qed
  define s1 where "s1 = (if 0 \<le> fd then udp_close fd (kc_socks k) else kc_socks k)"
  have s1: "so_open s1 = S" using assms by (auto simp: s1_def udp_close_def close_socket_def client_ok_def)
  define k2 where "k2 = k\<lparr>kc_mux := None, kc_users := u1, kc_socks := s1\<rparr>"
  have mid: "transmit_cleanup env fd k = siglatch_openssl_session_free (app_transmit_m7mux_release_runtime k2)"
    by (cases "kc_mux k"; cases k) (simp_all add: transmit_cleanup_def Let_def k2_def u1_def s1_def)
  have refs: "kc_refs k2 = (other + session_refs (kc_session k2)) + codec_refs (kc_codec k2)"
    "kc_codec k2 = Some c \<Longrightarrow> context_ok c" for c using assms(1) by (simp_all add: client_ok_def k2_def)
  have rel: "app_transmit_m7mux_release_runtime k2 = k2\<lparr>kc_codec := None, kc_refs := other + session_refs (kc_session k2)\<rparr>"
  proof (cases "kc_codec k2")
    case None
    then show ?thesis using refs(1) by (simp add: app_transmit_m7mux_release_runtime_def)
  next
    case (Some c)
    then show ?thesis using give_up_context [OF refs(2) [OF Some], of "other + session_refs (kc_session k2)"] refs(1)
      by (simp add: app_transmit_m7mux_release_runtime_def split: prod.splits)
  qed
  have "free_key (ss_private_key s) (free_key (ss_public_key s) (other + session_refs s)) = other" for s
    by (simp add: free_key_def session_refs_def)
  then show ?thesis unfolding mid rel Let_def siglatch_openssl_session_free_def using u1 s1 by (simp add: k2_def)
qed

lemma exchange_ok:
  assumes kernel: "kernel_ok (tx_net env)" and k: "client_ok env S other k" "kc_codec k = None" "kc_mux k = None"
    and run: "transmit_exchange env t0 ts opts k = Some (status, k')"
  shows "\<exists>fd u. client_ok env (if fd < 0 then S else insert fd S) other u \<and> (fd < 0 \<or> fd \<notin> S) \<and> k' = transmit_cleanup env fd u"
proof -
  let ?ip = "snd (net_resolve_host_to_ip env (to_host opts))"
  obtain fd k1 where o: "transmit_open env opts ?ip k = (fd, k1)" by fastforce
  note k1 = transmit_open_ok [OF kernel k(1) o]
  obtain su k2 where s: "(if to_dead_drop opts
      then (case send_dead_drop env t0 opts ?ip fd k1 of (ok, k2) \<Rightarrow> (if ok then Some zero_send_user else None, k2))
      else send_structured env t0 opts ?ip fd k1) = (su, k2)" by fastforce
  have k2: "client_ok env (if fd < 0 then S else insert fd S) other k2" "su \<noteq> None \<Longrightarrow> kc_mux k2 \<noteq> None"
    using s k1 k dead_drop_ok [OF k1(1), of t0 opts ?ip fd] structured_ok [OF k1(1), of t0 opts ?ip fd su k2]
    by (auto split: if_splits prod.splits)
  note run1 = run [unfolded transmit_exchange_def Let_def o prod.case s]
  consider "fd < 0" "k' = transmit_cleanup env fd k1" | "\<not> fd < 0" "su = None" "k' = transmit_cleanup env fd k2"
    | send_user k3 where "\<not> fd < 0" "su = Some send_user" "receive_replies env ts opts send_user k2 = Some (status, k3)"
        "k' = transmit_cleanup env fd k3"
    using run1 by (cases "fd < 0"; cases su) (auto split: option.splits)
  then show ?thesis
  proof cases
    case 1
    then show ?thesis using k1 by blast
  next
    case 2
    then show ?thesis using k2 k1 by blast
  next
    case 3
    have "client_ok env (if fd < 0 then S else insert fd S) other k3"
      using receive_replies_ok(1) [OF k2(1) _ 3(3)] k2(2) 3(2) by simp
    then show ?thesis using 3(4) k1(2) by blast
  qed
qed

lemma single_packet_ok:
  assumes kernel: "kernel_ok (tx_net env)" and k: "client_ok env S other k" "kc_codec k = None" "kc_mux k = None"
    and run: "app_transmit_single_packet env t0 ts opts k = Some (status, k')"
  shows "\<exists>fd u. client_ok env (if fd < 0 then S else insert fd S) other u \<and> (fd < 0 \<or> fd \<notin> S) \<and> k' = transmit_cleanup env fd u"
proof (cases "app_transmit_resolve_payload env opts")
  case None
  then have "k' = transmit_cleanup env (-1) k" using run by (simp add: app_transmit_single_packet_def app_transmit_single_packet_m7mux_def)
  then show ?thesis using k(1) by (intro exI [of _ "-1"] exI [of _ k]) simp
next
  case (Some eff)
  obtain b k1 where i: "init_user_openssl_session env eff k = (b, k1)" by fastforce
  note i1 = init_user_ok [OF k(1) i]
  note run1 = run [unfolded app_transmit_single_packet_def app_transmit_single_packet_m7mux_def Some option.case i prod.case]
  show ?thesis
  proof (cases b)
    case True
    then have e: "transmit_exchange env t0 ts eff k1 = Some (status, k')" using run1 by simp
    show ?thesis by (rule exchange_ok [OF kernel _ _ _ e]) (use i1 k in \<open>simp_all add: same_channel_def\<close>)
  next
    case False
    then have "k' = transmit_cleanup env (-1) k1" using run1 by simp
    then show ?thesis using i1 by (intro exI [of _ "-1"] exI [of _ k1]) simp
  qed
qed

section \<open>The waiting ends\<close>

lemma wait_replies_ends:
  "\<exists>t \<in> set ts. deadline \<le> pt_now t \<Longrightarrow> wait_replies env deadline opts su ts w \<noteq> None"
proof (induction ts arbitrary: w)
  case (Cons t ts)
  show ?case
  proof (cases "deadline \<le> pt_now t \<or> kc_mux (wr_client w) = None")
    case True
    then show ?thesis by auto
  next
    case False
    then have "wait_replies env deadline opts su ts u \<noteq> None" for u using Cons by auto
    then show ?thesis using False by (auto split: prod.splits)
  qed
qed simp

lemma single_packet_ends:
  assumes "\<exists>t \<in> set ts. xe_start_ms env + KNOCKER_RESPONSE_TIMEOUT_MS \<le> pt_now t"
  shows "app_transmit_single_packet env t0 ts opts k \<noteq> None"
proof -
  have r: "receive_replies env ts o1 su k1 \<noteq> None" for o1 su k1
    using wait_replies_ends [OF assms] by (auto simp: receive_replies_def split: option.split)
  have "\<exists>su u. receive_replies env ts o1 su u = None" if "transmit_exchange env t0 ts o1 k1 = None" for o1 k1
    using that by (auto simp: transmit_exchange_def Let_def split: prod.splits option.splits if_splits)
  then have "transmit_exchange env t0 ts o1 k1 \<noteq> None" for o1 k1 using r by blast
  then show ?thesis
    by (auto simp: app_transmit_single_packet_def app_transmit_single_packet_m7mux_def split: option.split prod.split bool.split)
qed

section \<open>A failed pump\<close>

lemma failed_first_pump:
  assumes "pt_now t < xe_start_ms env + KNOCKER_RESPONSE_TIMEOUT_MS" "kc_mux k = Some mux"
    "pump_client env (xe_start_ms env + KNOCKER_RESPONSE_TIMEOUT_MS - pt_now t) t k mux = (rc, k1)" "rc < 0"
  shows "receive_replies env (t # ts) opts su k = Some (0, k1\<lparr>kc_out := kc_out k1 @ no_response\<rparr>)"
  using assms by (simp add: receive_replies_def linorder_not_le)

section \<open>Overruns stay\<close>

lemma overrun_stays: "kc_overrun (wr_client w) \<Longrightarrow> kc_overrun (wr_client (drain_replies env now opts su mux w))"
proof (induction env now opts su mux w rule: drain_replies.induct)
  case (1 env now opts su mux w)
  show ?case
    by (subst drain_replies.simps)
      (use 1 in \<open>auto simp: Let_def split: option.split prod.split\<close>)
qed


text \<open>
  What arrives while the client waits for replies to a structured request, and what the client makes of it:
  the packets that the mux hands out, turn by turn, and the line that each of them is worth.
\<close>

section \<open>What arrives\<close>

type_synonym arrival = "M7MuxRecvPacket \<times> M7MuxUserRecvData option"

text \<open>What the mux hands out until a packet is refused or nothing is ready.\<close>

function (sequential) drained ::
  "'c registry \<Rightarrow> (arrival \<Rightarrow> bool) \<Rightarrow> M7MuxState \<Rightarrow> user_heap \<Rightarrow> arrival list" where
  "drained reg accept mux users =
     (if \<not> m7mux_inbox_has_pending mux then []
      else case m7mux_inbox_drain reg True mux users of
        (None, mux1, users1) \<Rightarrow> []
      | (Some p, mux1, users1) \<Rightarrow> p # (if accept p then drained reg accept mux1 users1 else []))"
  by pat_completeness auto
termination
  by (relation "measure (\<lambda>(_, _, mux, _). sm_ready_count (mu_stream mux))")
    (auto simp: m7mux_inbox_drain_def m7mux_inbox_has_pending_def m7mux_stream_has_pending_def Let_def
      split: prod.splits dest: stream_drain_count)

declare drained.simps [simp del]

text \<open>
  The line and the status that a packet is worth: it answers the request, with a signature of the kind that
  the request asks for, and carries a status that the client knows.
\<close>

definition reply_line ::
  "transmit_env \<Rightarrow> Opts \<Rightarrow> SiglatchOpenSSLSession \<Rightarrow> M7MuxUserSendData \<Rightarrow> arrival \<Rightarrow> (int \<times> string) option" where
  "reply_line env opts session su p =
     (let user = (case snd p of Some d \<Rightarrow> d | None \<Rightarrow> zero_user)
      in if answers su (to_protocol opts) user \<and>
            reply_signed (se_evp (xe_startup env)) (se_digest (xe_startup env)) opts session (fst p) user
         then app_transmit_response_print_payload (seen_payload (to_protocol opts) user) else None)"

text \<open>What arrives in the turns before the deadline.\<close>

fun replies_arrived ::
  "transmit_env \<Rightarrow> u64 \<Rightarrow> Opts \<Rightarrow> M7MuxUserSendData \<Rightarrow> pump_turn list \<Rightarrow> waiting \<Rightarrow> arrival list" where
  "replies_arrived env deadline opts su [] w = []"
| "replies_arrived env deadline opts su (t # ts) w =
     (if deadline \<le> pt_now t then []
      else case kc_mux (wr_client w) of
        None \<Rightarrow> []
      | Some mux \<Rightarrow>
          (case pump_client env (deadline - pt_now t) t (wr_client w) mux of
             (rc, k1) \<Rightarrow>
               if rc < 0 then []
               else case kc_mux k1 of
                 None \<Rightarrow> []
               | Some mux1 \<Rightarrow>
                   drained (registry_at env (pt_time t) k1) (\<lambda>p. reply_line env opts (kc_session k1) su p \<noteq> None) mux1 (kc_users k1) @
                   replies_arrived env deadline opts su ts (drain_replies env (pt_time t) opts su mux1 (w\<lparr>wr_client := k1\<rparr>))))"

section \<open>What is printed\<close>

lemma process_reply_line:
  assumes "\<not> to_dead_drop opts"
  shows "fst (app_transmit_process_mux_response (se_evp (xe_startup env)) (se_digest (xe_startup env)) opts session (fst p) su
    (Some (case snd p of Some d \<Rightarrow> d | None \<Rightarrow> zero_user))) = reply_line env opts session su p"
  unfolding process_structured [OF assms]
  by (auto simp: reply_line_def Let_def answers_def check_response_def not_less)

text \<open>One step of waiting, in which the packets \<open>ps\<close> arrive.\<close>

definition lines_of :: "transmit_env \<Rightarrow> Opts \<Rightarrow> SiglatchOpenSSLSession \<Rightarrow> M7MuxUserSendData \<Rightarrow> arrival list \<Rightarrow> (int \<times> string) list" where
  "lines_of env opts session su ps = List.map_filter (reply_line env opts session su) ps"

definition takes :: "transmit_env \<Rightarrow> Opts \<Rightarrow> M7MuxUserSendData \<Rightarrow> arrival list \<Rightarrow> waiting \<Rightarrow> waiting \<Rightarrow> bool" where
  "takes env opts su ps w w1 \<longleftrightarrow>
     (let rs = lines_of env opts (kc_session (wr_client w)) su ps
      in same_setup (wr_client w) (wr_client w1) \<and> kc_out (wr_client w1) = kc_out (wr_client w) @ concat (map snd rs) \<and>
         wr_status w1 = last (wr_status w # map fst rs) \<and> wr_count w1 = wr_count w + length ps)"

lemma lines_of_simps [simp]:
  "lines_of env opts s su [] = []"
  "lines_of env opts s su (p # ps) = (case reply_line env opts s su p of None \<Rightarrow> [] | Some r \<Rightarrow> [r]) @ lines_of env opts s su ps"
  "lines_of env opts s su (ps @ qs) = lines_of env opts s su ps @ lines_of env opts s su qs"
  by (simp_all add: lines_of_def List.map_filter_def split: option.split)

lemma takes_refl: "takes env opts su [] w w"
  by (simp add: takes_def)

lemma takes_trans: "takes env opts su ps w w1 \<Longrightarrow> takes env opts su qs w1 w2 \<Longrightarrow> takes env opts su (ps @ qs) w w2"
  by (cases "lines_of env opts (kc_session (wr_client w)) su qs") (auto simp: takes_def Let_def same_setup_def)

lemma drain_takes:
  assumes "\<not> to_dead_drop opts"
  shows "takes env opts su (drained (registry_at env now (wr_client w)) (\<lambda>p. reply_line env opts (kc_session (wr_client w)) su p \<noteq> None)
    mux (kc_users (wr_client w))) w (drain_replies env now opts su mux w)"
  using assms
proof (induction env now opts su mux w rule: drain_replies.induct)
  case (1 env now opts su mux w)
  let ?k = "wr_client w"
  let ?reg = "registry_at env now ?k"
  let ?a = "\<lambda>p. reply_line env opts (kc_session ?k) su p \<noteq> None"
  show ?case
  proof (cases "m7mux_inbox_has_pending mux")
    case False
    then show ?thesis by (simp add: drained.simps [of ?reg] drain_replies.simps [of env now opts su mux w] takes_refl)
  next
    case True
    obtain q mux1 users1 where d: "m7mux_inbox_drain ?reg (\<not> to_dead_drop opts) mux (kc_users ?k) = (q, mux1, users1)"
      using prod_cases3 by blast
    have d1: "m7mux_inbox_drain ?reg True mux (kc_users ?k) = (q, mux1, users1)" using d 1(2) by simp
    note drs = drained.simps [of ?reg ?a mux "kc_users ?k", unfolded d1 prod.case]
    define k1 where "k1 = ?k\<lparr>kc_mux := Some mux1, kc_users := users1\<rparr>"
    have k1: "same_setup ?k k1" "kc_out k1 = kc_out ?k" "kc_users k1 = users1" "kc_session k1 = kc_session ?k"
      by (simp_all add: same_setup_def k1_def)
    show ?thesis
    proof (cases q)
      case None
      then have "drain_replies env now opts su mux w = w\<lparr>wr_client := k1\<rparr>"
        using True d by (subst drain_replies.simps) (simp add: k1_def Let_def)
      then show ?thesis using None True drs k1 by (simp add: takes_def)
    next
      case (Some p)
      obtain reply data where rd: "p = (reply, data)" by fastforce
      let ?ru = "if to_dead_drop opts then None else case data of Some d \<Rightarrow> Some d | None \<Rightarrow> Some zero_user"
      obtain res ov where r: "app_transmit_process_mux_response (se_evp (xe_startup env)) (se_digest (xe_startup env)) opts
          (kc_session k1) reply su ?ru = (res, ov)" by fastforce
      have "?ru = Some (case data of Some d \<Rightarrow> d | None \<Rightarrow> zero_user)" using 1(2) by (simp split: option.split)
      then have line: "reply_line env opts (kc_session ?k) su p = res"
        using process_reply_line [OF 1(2), of env "kc_session k1" p su] r k1(4) rd by simp
      note step = drain_replies.simps [of env now opts su mux w, unfolded Let_def d Some rd option.case prod.case,
          folded k1_def, unfolded r prod.case]
      show ?thesis
      proof (cases res)
        case None
        define w1 where "w1 = w\<lparr>wr_client := k1\<lparr>kc_overrun := kc_overrun k1 \<or> ov\<rparr>, wr_count := wr_count w + 1\<rparr>"
        have "drain_replies env now opts su mux w = w1" using step None True by (simp add: w1_def)
        moreover have "takes env opts su [p] w w1" using k1 line None by (simp add: takes_def w1_def same_setup_def)
        ultimately show ?thesis using drs True Some line None by simp
      next
        case sl: (Some sl)
        define w1 where "w1 = w\<lparr>wr_client := k1\<lparr>kc_out := kc_out k1 @ snd sl, kc_overrun := kc_overrun k1 \<or> ov\<rparr>,
            wr_status := fst sl, wr_count := wr_count w + 1\<rparr>"
        have e: "drain_replies env now opts su mux w = drain_replies env now opts su mux1 w1"
          using step sl True by (simp add: w1_def split_beta)
        have one: "takes env opts su [p] w w1" using k1 line sl by (simp add: takes_def w1_def same_setup_def)
        have w1: "registry_at env now (wr_client w1) = ?reg" "kc_session (wr_client w1) = kc_session ?k" "kc_users (wr_client w1) = users1"
          using k1 by (simp_all add: w1_def registry_at_def same_setup_def)
        have "takes env opts su (drained ?reg ?a mux1 users1) w1 (drain_replies env now opts su mux1 w1)"
          using 1(1) [of ?k] True d 1(2) Some rd r sl w1 unfolding k1_def w1_def by (cases sl) simp
        then show ?thesis using takes_trans [OF one] e drs True Some line sl by simp
      qed
    qed
  qed
qed

lemma wait_takes:
  assumes "\<not> to_dead_drop opts" "wait_replies env deadline opts su ts w = Some w1"
  shows "takes env opts su (replies_arrived env deadline opts su ts w) w w1"
  using assms(2)
proof (induction ts arbitrary: w)
  case (Cons t ts)
  let ?k = "wr_client w"
  show ?case
  proof (cases "deadline \<le> pt_now t \<or> kc_mux ?k = None")
    case True
    then show ?thesis using Cons.prems by (auto simp: takes_refl split: if_splits)
  next
    case False
    then obtain mux where mux: "kc_mux ?k = Some mux" by blast
    obtain rc k1 where p: "pump_client env (deadline - pt_now t) t ?k mux = (rc, k1)" by fastforce
    have k1: "same_setup ?k k1" "kc_out k1 = kc_out ?k" "kc_mux k1 \<noteq> None"
      using p by (auto simp: pump_client_def same_setup_def split: prod.splits)
    then obtain mux1 where mux1: "kc_mux k1 = Some mux1" by blast
    have quiet: "takes env opts su [] w (w\<lparr>wr_client := k1\<rparr>)" using k1 by (simp add: takes_def)
    show ?thesis
    proof (cases "rc < 0")
      case True
      then show ?thesis using Cons.prems False mux p quiet by simp
    next
      case rc: False
      let ?w2 = "drain_replies env (pt_time t) opts su mux1 (w\<lparr>wr_client := k1\<rparr>)"
      have "wait_replies env deadline opts su ts ?w2 = Some w1" using Cons.prems False mux p rc mux1 by simp
      note rest = Cons.IH [OF this]
      have "takes env opts su (drained (registry_at env (pt_time t) k1) (\<lambda>p. reply_line env opts (kc_session k1) su p \<noteq> None)
          mux1 (kc_users k1)) (w\<lparr>wr_client := k1\<rparr>) ?w2"
        using drain_takes [OF assms(1), where env = env and now = "pt_time t" and w = "w\<lparr>wr_client := k1\<rparr>" and su = su and mux = mux1] by simp
      from takes_trans [OF quiet takes_trans [OF this rest]] show ?thesis using False mux p rc mux1 by simp
    qed
  qed
qed simp

text \<open>Waiting as a whole: nothing arrived, or the lines of what arrived are printed.\<close>

lemma receive_takes:
  assumes "\<not> to_dead_drop opts" "receive_replies env ts opts su k = Some (status, k1)"
    "ps = replies_arrived env (xe_start_ms env + KNOCKER_RESPONSE_TIMEOUT_MS) opts su ts \<lparr>wr_client = k, wr_status = 1, wr_count = 0\<rparr>"
    "rs = lines_of env opts (kc_session k) su ps"
  shows "if ps = [] then kc_out k1 = kc_out k @ no_response \<and> status = 0
    else kc_out k1 = kc_out k @ concat (map snd rs) \<and> status = last (1 # map fst rs)"
proof -
  let ?w = "\<lparr>wr_client = k, wr_status = 1, wr_count = 0\<rparr>"
  obtain w where w: "wait_replies env (xe_start_ms env + KNOCKER_RESPONSE_TIMEOUT_MS) opts su ts ?w = Some w"
    using assms(2) by (auto simp: receive_replies_def split: option.splits)
  have t: "takes env opts su ps ?w w" using wait_takes [OF assms(1) w] assms(3) by simp
  note run = assms(2) [unfolded receive_replies_def w option.case]
  show ?thesis
  proof (cases "ps = []")
    case True
    then show ?thesis using run t by (auto simp: takes_def)
  next
    case False
    then show ?thesis using run t assms(4) by (auto simp: takes_def Let_def)
  qed
qed

text \<open>Each line is one line of printable characters, and each status says whether the daemon said OK.\<close>

lemma line_shape:
  assumes "(status, line) \<in> set (lines_of env opts session su ps)"
  shows "(status = 0 \<or> status = 2) \<and> (\<exists>text. line = text @ [nl] \<and> list_all isprint text)"
proof -
  obtain p where "reply_line env opts session su p = Some (status, line)"
    using assms by (auto simp: lines_of_def List.map_filter_def)
  then have "app_transmit_response_print_payload
      (seen_payload (to_protocol opts) (case snd p of None \<Rightarrow> zero_user | Some d \<Rightarrow> d)) = Some (status, line)"
    by (auto simp: reply_line_def Let_def split: if_splits)
  from print_payload_line [OF this] show ?thesis by blast
qed

end
