(* ===== verification/Client_Main.thy ===== *)
theory Client_Main
  imports Client_Transmit Client_Send_Facts
begin

text \<open>
  The client as a whole: \<open>knock/main.c\<close>, \<open>knock/lib.c\<close>, \<open>knock/app/app.c\<close> and \<open>app/output_mode/output_mode.c\<close>.
  Modules are names, as in the lifecycle of the daemon. Logging, the help and what a dump prints are left out.
\<close>

section \<open>Modules\<close>

definition knock_lib_init_order :: "(string \<times> bool) list" where
  "knock_lib_init_order =
     [(''lib.time'', False), (''lib.net'', False), (''lib.m7mux'', True), (''lib.str'', False), (''lib.unicode'', False),
      (''lib.print'', False), (''lib.stdin'', False), (''lib.log'', False), (''lib.random'', False), (''lib.env'', True),
      (''lib.file'', False), (''lib.nonce'', True), (''lib.signal'', True), (''lib.openssl'', True), (''lib.hmac'', False),
      (''lib.utils'', False), (''lib.argv'', False), (''lib.parse'', True)]"

definition knock_lib_fail_order :: "string list" where
  "knock_lib_fail_order =
     [''lib.parse'', ''lib.argv'', ''lib.utils'', ''lib.hmac'', ''lib.openssl'', ''lib.file'', ''lib.nonce'', ''lib.signal'',
      ''lib.env'', ''lib.random'', ''lib.log'', ''lib.stdin'', ''lib.print'', ''lib.unicode'', ''lib.str'', ''lib.m7mux'',
      ''lib.net'', ''lib.time'']"

definition knock_init_lib :: "(string \<Rightarrow> bool) \<Rightarrow> lifecycle \<Rightarrow> bool \<times> lifecycle" where
  "knock_init_lib starts lc =
     (case init_modules starts knock_lib_init_order (lc_up lc) of
        (True, up1) \<Rightarrow> (True, lc\<lparr>lc_up := up1\<rparr>)
      | (False, up1) \<Rightarrow> (False, lc\<lparr>lc_up := shutdown_modules knock_lib_fail_order up1\<rparr>))"

definition knock_shutdown_lib :: "lifecycle \<Rightarrow> lifecycle" where
  "knock_shutdown_lib lc =
     lc\<lparr>lc_up := shutdown_modules
       [''lib.parse'', ''lib.argv'', ''lib.utils'', ''lib.stdin'', ''lib.print'', ''lib.unicode'', ''lib.openssl'', ''lib.file'',
        ''lib.env'', ''lib.signal'', ''lib.nonce'', ''lib.hmac'', ''lib.random'', ''lib.log'', ''lib.str'', ''lib.m7mux'',
        ''lib.net'', ''lib.time''] (lc_up lc)\<rparr>"

definition knock_app_init_order :: "(string \<times> bool) list" where
  "knock_app_init_order =
     [(''app.opts'', True), (''app.env'', True), (''app.alias'', True), (''app.output_mode'', True), (''app.help'', True),
      (''app.error_argv'', True), (''app.transmit'', True)]"

definition knock_app_shutdown_order :: "string list" where
  "knock_app_shutdown_order =
     [''app.transmit'', ''app.error_argv'', ''app.help'', ''app.output_mode'', ''app.alias'', ''app.env'', ''app.opts'']"

definition knock_init_app :: "(string \<Rightarrow> bool) \<Rightarrow> lifecycle \<Rightarrow> bool \<times> lifecycle" where
  "knock_init_app starts lc =
     (case init_modules starts knock_app_init_order (lc_up lc) of
        (True, up1) \<Rightarrow> (True, lc\<lparr>lc_up := up1\<rparr>)
      | (False, up1) \<Rightarrow> (False, lc\<lparr>lc_up := shutdown_modules knock_app_shutdown_order up1\<rparr>))"

definition knock_shutdown_app :: "lifecycle \<Rightarrow> lifecycle" where
  "knock_shutdown_app lc = lc\<lparr>lc_up := shutdown_modules knock_app_shutdown_order (lc_up lc)\<rparr>"

section \<open>The output mode\<close>

definition client_output_set_mode :: "int \<Rightarrow> int \<Rightarrow> int" where
  "client_output_set_mode mode current =
     (if mode = int SL_OUTPUT_MODE_UNICODE \<or> mode = int SL_OUTPUT_MODE_ASCII then mode else current)"

definition app_output_mode_set_from_config :: "disk_env \<Rightarrow> disk \<Rightarrow> int \<Rightarrow> int" where
  "app_output_mode_set_from_config env k current =
     (let config_output_mode = app_env_load_output_mode_default env k
      in if config_output_mode \<noteq> 0 then client_output_set_mode (int config_output_mode) current else current)"

definition app_output_mode_set_from_env :: "disk_env \<Rightarrow> int \<Rightarrow> int" where
  "app_output_mode_set_from_env env current =
     (let env_output_mode = (case de_getenv env ''SIGLATCH_OUTPUT_MODE'' of None \<Rightarrow> 0 | Some v \<Rightarrow> print_output_parse_mode v)
      in if env_output_mode \<noteq> 0 then client_output_set_mode (int env_output_mode) current else current)"

definition app_output_mode_set_from_opts :: "Opts \<Rightarrow> int \<Rightarrow> int" where
  "app_output_mode_set_from_opts opts current =
     (if to_output_mode opts \<noteq> 0 then client_output_set_mode (to_output_mode opts) current else current)"

section \<open>main\<close>

text \<open>
  \<open>ki_realloc\<close> is the allocator of the alias lists, \<open>ki_turn\<close> and \<open>ki_turns\<close> what the sending pump and the
  waiting loop meet.
\<close>

record knock_env =
  ki_starts :: "string \<Rightarrow> bool"
  ki_disk :: disk_env
  ki_realloc :: "nat \<Rightarrow> bool"
  ki_transmit :: transmit_env
  ki_turn :: pump_turn
  ki_turns :: "pump_turn list"

record knock_process =
  kp_lifecycle :: lifecycle
  kp_disk :: disk
  kp_client :: client
  kp_output_mode :: int

text \<open>The \<open>switch\<close> over the type of the command; \<open>None\<close> while a transmission waits.\<close>

definition run_command :: "knock_env \<Rightarrow> AppCommand \<Rightarrow> knock_process \<Rightarrow> (int \<times> knock_process) option" where
  "run_command env cmd p =
     (case ak_type cmd of
        APP_CMD_HELP \<Rightarrow> Some (0, p)
      | APP_CMD_OUTPUT_MODE_DEFAULT \<Rightarrow>
          (let mode_name = print_output_mode_name (nat (ak_outdef cmd))
           in if mode_name = ''unknown'' then Some (2, p)
              else case app_env_save_output_mode_default (ki_disk env) (kp_disk p) mode_name of
                (ok, k1) \<Rightarrow> Some (if ok then 0 else 2, p\<lparr>kp_disk := k1\<rparr>))
      | APP_CMD_SEND_FROM_DEFAULT \<Rightarrow>
          (let c = ak_send_from_default cmd
           in case (if sf_clear c
                    then app_env_clear_host_user_send_from_ip (ki_disk env) (kp_disk p) (sf_host c) (sf_user c)
                    else app_env_save_host_user_send_from_ip (ki_disk env) (kp_disk p) (sf_host c) (sf_user c) (sf_ip c)) of
                (ok, k1) \<Rightarrow> Some (if ok then 0 else 2, p\<lparr>kp_disk := k1\<rparr>))
      | APP_CMD_ALIAS \<Rightarrow>
          (case app_alias_execute (ki_disk env) (ki_realloc env) (ak_alias cmd) (kp_disk p) of
             (ok, k1) \<Rightarrow> Some (if ok then 0 else 2, p\<lparr>kp_disk := k1\<rparr>))
      | APP_CMD_TRANSMIT \<Rightarrow>
          (case app_transmit_single_packet (ki_transmit env) (ki_turn env) (ki_turns env) (ak_transmit cmd) (kp_client p) of
             None \<Rightarrow> None
           | Some (status, c) \<Rightarrow> Some (status, p\<lparr>kp_client := c\<rparr>))
      | APP_CMD_ERROR \<Rightarrow> Some (if ak_exit_code cmd \<noteq> 0 then ak_exit_code cmd else 2, p))"

text \<open>From the parsed command line to the label \<open>cleanup\<close>.\<close>

definition knock_run :: "knock_env \<Rightarrow> string list \<Rightarrow> knock_process \<Rightarrow> (int \<times> knock_process) option" where
  "knock_run env argv p =
     (let mode1 = app_output_mode_set_from_config (ki_disk env) (kp_disk p) (kp_output_mode p);
          mode2 = app_output_mode_set_from_env (ki_disk env) mode1
      in case app_opts_parse_command (ki_disk env) (ki_realloc env) (kp_disk p) argv of
           (False, cmd) \<Rightarrow> Some (if ak_exit_code cmd \<noteq> 0 then ak_exit_code cmd else 2, p\<lparr>kp_output_mode := mode2\<rparr>)
         | (True, cmd) \<Rightarrow>
             (let mode3 = (if ak_type cmd = APP_CMD_TRANSMIT then app_output_mode_set_from_opts (ak_transmit cmd) mode2
                           else if ak_type cmd = APP_CMD_ALIAS \<and> ac_output_mode (ak_alias cmd) \<noteq> 0
                           then client_output_set_mode (ac_output_mode (ak_alias cmd)) mode2 else mode2);
                  p1 = p\<lparr>kp_output_mode := mode3\<rparr>
              in if ak_dump_requested cmd then Some (0, p1) else run_command env cmd p1))"

abbreviation kp_upd_lifecycle :: "(lifecycle \<Rightarrow> lifecycle) \<Rightarrow> knock_process \<Rightarrow> knock_process" where
  "kp_upd_lifecycle f p \<equiv> p\<lparr>kp_lifecycle := f (kp_lifecycle p)\<rparr>"

definition knock_main :: "knock_env \<Rightarrow> string list \<Rightarrow> knock_process \<Rightarrow> (int \<times> knock_process) option" where
  "knock_main env argv p =
     (case knock_init_lib (ki_starts env) (kp_lifecycle p) of
        (False, lc1) \<Rightarrow> Some (1, p\<lparr>kp_lifecycle := lc1\<rparr>)
      | (True, lc1) \<Rightarrow>
          (case init_shared (ki_starts env) lc1 of
             (False, lc2) \<Rightarrow> Some (1, p\<lparr>kp_lifecycle := knock_shutdown_lib lc2\<rparr>)
           | (True, lc2) \<Rightarrow>
               (case knock_init_app (ki_starts env) lc2 of
                  (False, lc3) \<Rightarrow> Some (1, p\<lparr>kp_lifecycle := knock_shutdown_lib (shutdown_shared lc3)\<rparr>)
                | (True, lc3) \<Rightarrow>
                    map_option (\<lambda>(status, p1). (status, kp_upd_lifecycle
                        (\<lambda>lc. knock_shutdown_lib (shutdown_shared (knock_shutdown_app lc))) p1))
                      (knock_run env argv (p\<lparr>kp_lifecycle := lc3\<rparr>)))))"


text \<open>
  What the client has up and holds when its \<open>main\<close> returns: no module, and of what it opened and took nothing.
\<close>

section \<open>Modules\<close>

definition knock_lib_modules :: "string set" where "knock_lib_modules = set (map fst knock_lib_init_order)"
definition knock_app_modules :: "string set" where "knock_app_modules = set (map fst knock_app_init_order)"

lemma knock_modules_disjoint: "knock_lib_modules \<inter> shared_modules = {}" "knock_lib_modules \<inter> knock_app_modules = {}"
  "shared_modules \<inter> knock_app_modules = {}"
  by code_simp+

lemma knock_orders: "set knock_lib_fail_order = knock_lib_modules" "set knock_app_shutdown_order = knock_app_modules"
  by code_simp+

lemma knock_init_lib_result:
  assumes "knock_init_lib starts lc = (ok, lc')" "lc_up lc = {}"
  shows "lc' = (if ok then lc\<lparr>lc_up := knock_lib_modules\<rparr> else lc)"
proof -
  obtain ok1 up1 where i: "init_modules starts knock_lib_init_order (lc_up lc) = (ok1, up1)" by fastforce
  show ?thesis
    using assms i init_modules_up [OF i] knock_orders(1)
    by (cases lc) (auto simp: knock_init_lib_def shutdown_modules_set knock_lib_modules_def split: bool.splits)
qed

lemma knock_init_app_result:
  assumes "knock_init_app starts lc = (ok, lc')" "lc_up lc \<inter> knock_app_modules = {}"
  shows "lc' = (if ok then lc\<lparr>lc_up := lc_up lc \<union> knock_app_modules\<rparr> else lc)"
proof -
  obtain ok1 up1 where i: "init_modules starts knock_app_init_order (lc_up lc) = (ok1, up1)" by fastforce
  have "up1 - knock_app_modules = lc_up lc"
    using init_modules_up [OF i] assms(2) by (auto simp: knock_app_modules_def)
  then show ?thesis
    using assms i init_modules_up(3) [OF i] knock_orders(2)
    by (cases lc) (auto simp: knock_init_app_def shutdown_modules_set knock_app_modules_def split: bool.splits)
qed

lemma init_shared_result:
  assumes "init_shared starts lc = (ok, lc')" "\<not> lc_g_shared_initialized lc" "lc_up lc \<inter> shared_modules = {}"
  shows "lc' = (if ok then lc\<lparr>lc_up := lc_up lc \<union> shared_modules, lc_g_shared_initialized := True\<rparr> else lc)"
proof -
  let ?a = "''shared.debug''" and ?b = "''shared.detect''" and ?c = "''shared.digest''"
  have sm: "shared_modules = {?a, ?b, ?c}" unfolding shared_modules_def by (simp only: set_simps)
  have n: "?a \<notin> lc_up lc" "?b \<notin> lc_up lc" using assms(3) unfolding sm by blast+
  have e: "insert ?a (lc_up lc) - {?a} = lc_up lc" "insert ?b (insert ?a (lc_up lc)) - {?b, ?a} = lc_up lc"
    "insert ?c (insert ?b (insert ?a (lc_up lc))) = lc_up lc \<union> shared_modules"
    using n unfolding sm by blast+
  have u: "lc\<lparr>lc_up := lc_up lc\<rparr> = lc" by simp
  obtain x y z where s: "starts ?a = x" "starts ?b = y" "starts ?c = z" by blast
  have g: "lc_g_shared_initialized lc = False" using assms(2) by simp
  note run = assms(1) [unfolded init_shared_def Let_def shutdown_modules_set set_simps e u s g]
  show ?thesis
    by (cases x; cases y; cases z) (use run in \<open>simp_all only: if_True if_False not_True_eq_False not_False_eq_True prod.inject\<close>)
qed

lemma knock_shutdown_lib_result: "knock_shutdown_lib (lc\<lparr>lc_up := knock_lib_modules\<rparr>) = lc\<lparr>lc_up := {}\<rparr>"
proof -
  have "knock_lib_modules - set [''lib.parse'', ''lib.argv'', ''lib.utils'', ''lib.stdin'', ''lib.print'', ''lib.unicode'', ''lib.openssl'',
      ''lib.file'', ''lib.env'', ''lib.signal'', ''lib.nonce'', ''lib.hmac'', ''lib.random'', ''lib.log'', ''lib.str'', ''lib.m7mux'',
      ''lib.net'', ''lib.time''] = {}"
    by code_simp
  then show ?thesis unfolding knock_shutdown_lib_def shutdown_modules_set by simp
qed

lemma knock_shutdown_app_result:
  assumes "up \<inter> knock_app_modules = {}"
  shows "knock_shutdown_app (lc\<lparr>lc_up := up \<union> knock_app_modules\<rparr>) = lc\<lparr>lc_up := up\<rparr>"
proof -
  have "up - knock_app_modules = up" using assms by blast
  then show ?thesis by (simp add: knock_shutdown_app_def shutdown_modules_set knock_orders Un_Diff)
qed

lemma shutdown_shared_result:
  assumes "up \<inter> shared_modules = {}"
  shows "shutdown_shared (lc\<lparr>lc_up := up \<union> shared_modules, lc_g_shared_initialized := True\<rparr>) =
    lc\<lparr>lc_up := up, lc_g_shared_initialized := False\<rparr>"
proof -
  have "up - shared_modules = up" using assms by blast
  moreover have "set [''shared.digest'', ''shared.detect'', ''shared.debug''] = shared_modules" by (auto simp: shared_modules_def)
  ultimately show ?thesis by (simp add: shutdown_shared_def shutdown_modules_set Un_Diff del: set_simps)
qed

section \<open>main\<close>

lemma knock_run_lifecycle: "knock_run env argv p = Some (status, p') \<Longrightarrow> kp_lifecycle p' = kp_lifecycle p"
  by (auto simp: knock_run_def run_command_def Let_def split: prod.splits bool.splits if_splits AppCommandType.splits option.splits)

text \<open>Only a transmission touches the client.\<close>

lemma knock_run_client:
  "(\<exists>status p'. knock_run env argv p = Some (status, p') \<and> kp_client p' = kp_client p) \<or>
   (\<exists>opts q. kp_client q = kp_client p \<and> knock_run env argv p =
      map_option (\<lambda>(status, c). (status, q\<lparr>kp_client := c\<rparr>))
        (app_transmit_single_packet (ki_transmit env) (ki_turn env) (ki_turns env) opts (kp_client p)))"
proof -
  have cmd: "(\<exists>status p'. run_command env cmd q = Some (status, p') \<and> kp_client p' = kp_client q) \<or>
      run_command env cmd q = map_option (\<lambda>(status, c). (status, q\<lparr>kp_client := c\<rparr>))
        (app_transmit_single_packet (ki_transmit env) (ki_turn env) (ki_turns env) (ak_transmit cmd) (kp_client q))" for cmd q
    by (cases "ak_type cmd") (auto simp: run_command_def Let_def split: prod.split option.split)
  obtain b cmd where c: "app_opts_parse_command (ki_disk env) (ki_realloc env) (kp_disk p) argv = (b, cmd)" by fastforce
  show ?thesis
  proof (cases "b \<and> \<not> ak_dump_requested cmd")
    case False
    then show ?thesis using c by (auto simp: knock_run_def Let_def split: bool.split)
  next
    case True
    then obtain mode where "knock_run env argv p = run_command env cmd (p\<lparr>kp_output_mode := mode\<rparr>)"
      using c by (auto simp: knock_run_def Let_def)
    note run = this
    have q: "kp_client (p\<lparr>kp_output_mode := mode\<rparr>) = kp_client p" by simp
    show ?thesis unfolding run using cmd [of cmd "p\<lparr>kp_output_mode := mode\<rparr>", unfolded q] q by blast
  qed
qed

text \<open>
  When \<open>main\<close> starts with no module up, it either returns 1 at once with the rest of the process untouched, or runs
  the command with its modules up; in both cases none is up in the end.
\<close>

lemma knock_main_cases:
  assumes "kp_lifecycle p = lifecycle_initial"
  shows "knock_main env argv p = Some (1, p) \<or>
    (\<exists>lc. knock_main env argv p = map_option (\<lambda>(status, p1). (status, p1\<lparr>kp_lifecycle := lifecycle_initial\<rparr>))
       (knock_run env argv (p\<lparr>kp_lifecycle := lc\<rparr>)))"
proof -
  let ?s = "ki_starts env"
  let ?l1 = "lifecycle_initial\<lparr>lc_up := knock_lib_modules\<rparr>"
  let ?l2 = "?l1\<lparr>lc_up := knock_lib_modules \<union> shared_modules, lc_g_shared_initialized := True\<rparr>"
  let ?l3 = "?l2\<lparr>lc_up := (knock_lib_modules \<union> shared_modules) \<union> knock_app_modules\<rparr>"
  have dis: "(knock_lib_modules \<union> shared_modules) \<inter> knock_app_modules = {}" using knock_modules_disjoint by blast
  obtain b1 l1 where i1: "knock_init_lib ?s lifecycle_initial = (b1, l1)" by fastforce
  have l1: "l1 = (if b1 then ?l1 else lifecycle_initial)" using knock_init_lib_result [OF i1] by (simp add: lifecycle_initial_def)
  obtain b2 l2 where i2: "init_shared ?s ?l1 = (b2, l2)" by fastforce
  have l2: "l2 = (if b2 then ?l2 else ?l1)"
    using init_shared_result [OF i2] knock_modules_disjoint(1) by (simp add: lifecycle_initial_def)
  obtain b3 l3 where i3: "knock_init_app ?s ?l2 = (b3, l3)" by fastforce
  have l3: "l3 = (if b3 then ?l3 else ?l2)" using knock_init_app_result [OF i3] dis by simp
  have d1: "knock_shutdown_lib ?l1 = lifecycle_initial"
    using knock_shutdown_lib_result [of lifecycle_initial] by (simp add: lifecycle_initial_def)
  have d2: "shutdown_shared ?l2 = ?l1"
    using shutdown_shared_result [OF knock_modules_disjoint(1), of ?l1] by (simp add: lifecycle_initial_def)
  have d3: "knock_shutdown_app ?l3 = ?l2" using knock_shutdown_app_result [OF dis, of ?l2] by simp
  have p: "p\<lparr>kp_lifecycle := lifecycle_initial\<rparr> = p" using assms by (metis knock_process.surjective knock_process.update_convs(1))
  note m = knock_main_def [of env argv p, unfolded assms i1 prod.case]
  consider "\<not> b1" | "b1" "\<not> b2" | "b1" "b2" "\<not> b3" | "b1" "b2" "b3" by blast
  then show ?thesis
  proof cases
    case 4
    have "map_option (\<lambda>(status, p1). (status, kp_upd_lifecycle (\<lambda>lc. knock_shutdown_lib (shutdown_shared (knock_shutdown_app lc))) p1))
        (knock_run env argv (p\<lparr>kp_lifecycle := ?l3\<rparr>)) =
      map_option (\<lambda>(status, p1). (status, p1\<lparr>kp_lifecycle := lifecycle_initial\<rparr>)) (knock_run env argv (p\<lparr>kp_lifecycle := ?l3\<rparr>))"
      by (rule option.map_cong [OF refl]) (use knock_run_lifecycle d1 d2 d3 in \<open>fastforce\<close>)
    with m 4 l1 i2 l2 i3 l3 show ?thesis by auto
  qed (use m l1 i2 l2 i3 l3 d1 d2 p in auto)
qed

end
