(* ===== verification/Client_Samples.thy ===== *)
theory Client_Samples
  imports Client_Alias_Facts Client_Env Client_Parse Client_Reply Client_Send_Facts Client_Main Samples Reload_Properties
begin

text \<open>
  Concrete inputs of the client for the witnesses of its properties: an environment that keeps what is written,
  an accepted command line, a client and its environment, and a reply that waits in the mux.
\<close>

section \<open>Files\<close>

text \<open>The environment of the witnesses: everything can be read and written, and is kept.\<close>

definition home_env :: disk_env where
  "home_env = \<lparr>de_getenv = (\<lambda>v. if v = ''HOME'' then Some ''/h'' else None), de_readable = (\<lambda>_. True),
     de_writable = (\<lambda>_. True), de_write = (\<lambda>_ t. (t, True, True)), de_unlink = (\<lambda>_. True), de_mkdir = (\<lambda>_. True)\<rparr>"

definition set_bob :: AppAliasCommand where
  "set_bob = \<lparr>ac_op = APP_ALIAS_OP_SET_USER, ac_host = ''h1'', ac_name = ''bob'', ac_id = 7, ac_confirm_yes = False,
     ac_output_mode = 0\<rparr>"

definition empty_disk :: disk where
  "empty_disk = \<lparr>dk_files = (\<lambda>_. None), dk_dirs = {}\<rparr>"

section \<open>Command lines\<close>

definition sample_words :: "string list" where
  "sample_words = [''knocker'', ''h1'', ''7'', ''9'', ''hi'']"

definition sample_parsed :: ArgvParsed where
  "sample_parsed = snd (argv_parse True sample_words app_opts_transmit_spec)"

lemma sample_parsed:
  "argv_parse True sample_words app_opts_transmit_spec = (True, sample_parsed)"
  "ap_options sample_parsed = []" "ap_positionals sample_parsed = [''h1'', ''7'', ''9'', ''hi'']"
proof -
  have "fst (argv_parse True sample_words app_opts_transmit_spec)" by code_simp
  then show "argv_parse True sample_words app_opts_transmit_spec = (True, sample_parsed)"
    by (simp add: sample_parsed_def prod_eq_iff)
  show "ap_options sample_parsed = []" "ap_positionals sample_parsed = [''h1'', ''7'', ''9'', ''hi'']"
    unfolding sample_parsed_def by code_simp+
qed

lemma sample_names:
  "app_alias_resolve_user home_env (\<lambda>_. True) empty_disk ''h1'' ''7'' = 0"
  "app_alias_resolve_action home_env (\<lambda>_. True) empty_disk ''h1'' ''9'' = 0"
  "app_opts_transmit_parse_numeric_id ''7'' 1 65535 = Some 7" "app_opts_transmit_parse_numeric_id ''9'' 1 255 = Some 9"
  "app_opts_transmit_parse_numeric_id ''7'' (Suc 0) 65535 = Some 7" "app_opts_transmit_parse_numeric_id ''9'' (Suc 0) 255 = Some 9"
  by code_simp+

lemma sample_files:
  "app_env_build_host_config_path home_env PATH_MAX ''h1'' (Some ''hmac.key'') = Some ''/h/.config/siglatch/h1/hmac.key''"
  "app_env_build_host_config_path home_env PATH_MAX ''h1'' (Some ''server.pub.pem'') = Some ''/h/.config/siglatch/h1/server.pub.pem''"
  "app_env_build_host_config_path home_env PATH_MAX ''h1'' (Some ''user.pri.pem'') = Some ''/h/.config/siglatch/h1/user.pri.pem''"
  "app_env_load_host_user_send_from_ip home_env empty_disk ''h1'' ''7'' 64 = (0, [])"
  by code_simp+

lemma sample_mode:
  "app_opts_get_parse_mode sample_words = APP_OPTS_PARSE_MODE_TRANSMIT" "length sample_words = 5"
  by code_simp+

definition sample_opts :: Opts where
  "sample_opts = transmit_defaults\<lparr>to_host := ''h1'', to_user_selector := ''7'', to_user_id := 7, to_action_id := 9,
     to_payload := [104, 105]\<rparr>"

lemma sample_positionals:
  assumes "ak_transmit cmd = transmit_defaults"
  shows "apply_transmit_positionals home_env (\<lambda>_. True) empty_disk [''h1'', ''7'', ''9'', ''hi''] cmd =
    (True, cmd\<lparr>ak_transmit := sample_opts\<rparr>)"
  using assms
  by (simp add: apply_transmit_positionals_def resolve_id_def sample_names sample_opts_def Let_def transmit_defaults_def
      MAX_PAYLOAD_SIZE_def bytes_of_def)

lemma sample_opts_simps [simp]:
  "to_host sample_opts = ''h1''" "to_user_selector sample_opts = ''7''" "to_user_id sample_opts = 7" "to_action_id sample_opts = 9"
  "to_hmac_key_path sample_opts = []" "to_server_pubkey_path sample_opts = []" "to_client_privkey_path sample_opts = []"
  "to_send_from_ip sample_opts = []" "to_dead_drop sample_opts = False" "to_fragment_count sample_opts = 1"
  "to_protocol sample_opts = KNOCK_PROTOCOL_V1" "to_hmac_mode sample_opts = HMAC_MODE_NORMAL" "to_encrypt sample_opts"
  "to_stdin_requested sample_opts = False" "to_payload sample_opts = [104, 105]" "to_verbose sample_opts = 3" "to_port sample_opts = 0"
  by (simp_all add: sample_opts_def transmit_defaults_def)

lemma sample_valid:
  assumes "ak_transmit cmd = sample_opts"
  shows "fst (app_opts_transmit_validate home_env empty_disk cmd)"
proof -
  have i: "validate_ids (True, cmd) = (True, cmd)" by (simp add: validate_ids_def reject_if_def assms Let_def)
  have p: "fst (validate_modes (validate_send_from home_env empty_disk (True, c)))"
    if "ak_transmit c = sample_opts\<lparr>to_hmac_key_path := p1, to_server_pubkey_path := p2, to_client_privkey_path := p3\<rparr>" for c p1 p2 p3
    using that by (simp add: validate_send_from_def validate_modes_def reject_if_def sample_files Let_def)
  show ?thesis
    unfolding app_opts_transmit_validate_def i
    by (simp add: validate_path_def Let_def assms sample_files p)
qed

lemma and_then_fst: "fst (and_then f g out) \<longleftrightarrow> fst (f out) \<and> fst (g (snd (f out)))"
  by (simp add: and_then_def split: prod.split bool.split)

lemma and_then_snd: "fst (f out) \<Longrightarrow> snd (and_then f g out) = snd (g (snd (f out)))"
  by (cases "f out") (simp add: and_then_def)

lemma sample_accepted: "fst (app_opts_parse_command home_env (\<lambda>_. True) empty_disk sample_words)"
proof -
  have "fst (app_opts_transmit_parse home_env (\<lambda>_. True) empty_disk sample_parsed out)" for out
    using sample_valid
    by (simp add: app_opts_transmit_parse_def app_opts_transmit_apply_parsed_def and_then_fst sample_parsed
        and_then_snd sample_positionals)
  then obtain c where "app_opts_transmit_parse home_env (\<lambda>_. True) empty_disk sample_parsed
      (zero_command\<lparr>ak_type := APP_CMD_ERROR, ak_ok := False, ak_exit_code := 2\<rparr>) = (True, c)"
    by (metis prod.collapse)
  then show ?thesis
    unfolding app_opts_parse_command_def Let_def sample_mode
    by (simp add: app_opts_get_mode_parser_def sample_parsed run_mode_parser_def sample_mode)
qed

section \<open>A client\<close>

definition sample_client_env :: transmit_env where
  "sample_client_env = \<lparr>xe_startup = \<lparr>se_runtime = sample_env, se_getenv = (\<lambda>_. None), se_can_set = (\<lambda>_. True), se_nonce = True,
       se_helpers = True, se_calloc = (\<lambda>_. True), se_alloc = (\<lambda>_. True), se_evp = sample_evp, se_digest = True, se_time = 5\<rparr>,
     xe_terminal = True, xe_read = (\<lambda>_. []), xe_stdin = [], xe_lookup = (\<lambda>_ _. Some (Some ''10.0.0.2'')),
     xe_pton6 = (\<lambda>_. False), xe_ntop = (\<lambda>_. None), xe_calloc = True, xe_stage_calloc = True, xe_unix_ts = 1700,
     xe_received_ms = 1, xe_challenge = 77, xe_start_ms = 1000\<rparr>"

definition sample_client :: client where
  "sample_client = \<lparr>kc_session = Runtime.zero_session, kc_parent_ctx = False, kc_refs = {#}, kc_socks = \<lparr>so_calls = 0, so_open = {0, 1, 2}\<rparr>,
     kc_codec = None, kc_registry = [], kc_ctx = sample_mux_context, kc_mux = None, kc_users = empty_heap (\<lambda>_. False), kc_rng = 0,
     kc_sent = [], kc_out = [], kc_overrun = False\<rparr>"

definition late_turn :: pump_turn where
  "late_turn = \<lparr>pt_now = 5000, pt_time = 5, pt_env = \<lparr>pe_now = 5000, pe_session_now = (\<lambda>_. 5000), pe_end_now = 5000,
     pe_script = \<lparr>ss_wait = (\<lambda>_. 0), ss_events = []\<rparr>\<rparr>, pt_now1 = 5000, pt_now2 = 5000, pt_sends = []\<rparr>"

section \<open>A reply that waits to be drained\<close>

definition reply_data :: "u8 list \<Rightarrow> M7MuxUserRecvData" where
  "reply_data payload = zero_user\<lparr>ud_user_id := 7, ud_action_id := SL_KNOCK_RESPONSE_ACTION_ID, ud_challenge := 77,
     ud_hmac := replicate 32 1, ud_payload := payload\<rparr>"

definition reply_packet :: M7MuxRecvPacket where
  "reply_packet = zero_recv\<lparr>rp_complete := True, rp_wire_version := SHARED_KNOCK_CODEC_V1_VERSION, rp_received_ms := 5000,
     rp_session_id := 3, rp_message_id := 1, rp_stream_id := 1, rp_fragment_count := 1, rp_user := Some 0\<rparr>"

definition reply_mux :: M7MuxState where
  "reply_mux = zero_mux\<lparr>mu_connect := zero_connect\<lparr>co_socket_fd := 3, co_connected := True\<rparr>,
     mu_stream := m7mux_stream_state_init\<lparr>sm_adapter_lib := True, sm_ready_queue := reply_packet # replicate 63 zero_recv,
       sm_ready_count := 1,
       sm_session_trackers := zero_session_tracker\<lparr>tr_session_id := 3, tr_active := True\<rparr> # replicate 63 zero_session_tracker\<rparr>\<rparr>"

definition reply_heap :: "u8 list \<Rightarrow> user_heap" where
  "reply_heap payload = \<lparr>uh_cell = [0 \<mapsto> reply_data payload], uh_next = 1, uh_oom = (\<lambda>_. False), uh_fault = False\<rparr>"

definition reply_client :: "u8 list \<Rightarrow> client" where
  "reply_client payload = sample_client\<lparr>kc_registry := [codec_module (xe_startup sample_client_env) 5 None 1],
     kc_mux := Some reply_mux, kc_users := reply_heap payload\<rparr>"

lemma reply_registry: "registry_at sample_client_env t (reply_client p) =
    [(shared_knock_codec_v1_adapter sample_evp True None t True True)\<lparr>ad_state := ad_state (codec_module (xe_startup sample_client_env) 5 None 1)\<rparr>]"
  by (simp add: registry_at_def reply_client_def sample_client_def codec_module_def codec_number_def sample_client_env_def
      shared_knock_codec_v1_adapter_def Let_def)

lemma reply_lookup: "\<exists>a. m7mux_normalize_adapter_lookup_wire_version (registry_at sample_client_env t (reply_client p))
    SHARED_KNOCK_CODEC_V1_VERSION = Some a \<and> ad_copy_user_recv_data a = Some"
  by (simp add: reply_registry m7mux_normalize_adapter_lookup_wire_version_def shared_knock_codec_v1_adapter_def
      shared_knock_codec_v1_copy_user_recv_data_def fun_eq_iff)

lemma reply_drained:
  assumes "mu_stream mux = mu_stream reply_mux"
  shows "\<exists>mux1 users1. m7mux_inbox_drain (registry_at sample_client_env t (reply_client p)) True mux (reply_heap p) =
     (Some (reply_packet\<lparr>rp_user := None\<rparr>, Some (reply_data p)), mux1, users1) \<and> \<not> m7mux_inbox_has_pending mux1 \<and>
     m7mux_inbox_has_pending mux"
proof -
  obtain a where a: "m7mux_normalize_adapter_lookup_wire_version (registry_at sample_client_env t (reply_client p))
      SHARED_KNOCK_CODEC_V1_VERSION = Some a" "ad_copy_user_recv_data a = Some" using reply_lookup by blast
  show ?thesis using a
    by (simp add: m7mux_inbox_drain_def assms m7mux_stream_drain_def reply_mux_def reply_packet_def m7mux_stream_packet_is_deliverable_def
        m7mux_stream_find_session_tracker_def m7mux_stream_copy_user_def reply_heap_def m7mux_inbox_has_pending_def
        m7mux_stream_has_pending_def stream_clear_slot_def stream_advance_tracker_def Let_def zero_recv_def)
qed

lemma reply_client_ok: "client_ok sample_client_env {0, 1, 2} {#} (reply_client p)"
proof -
  have "mux_ok (registry_at sample_client_env t (reply_client p)) reply_mux (reply_heap p)" for t
  proof -
    have s: "mu_ingress reply_mux = mu_ingress zero_mux" "mu_egress reply_mux = mu_egress zero_mux" by (simp_all add: reply_mux_def)
    have "ingress_ok (mu_ingress zero_mux)" "egress_ok (mu_egress zero_mux)"
      using ingress_ok_init(1) by (simp_all add: zero_mux_def ingress_ok_def)
    moreover have "users_distinct (reply_packet # replicate 63 zero_recv)"
      by (auto simp: users_distinct_def nth_Cons split: nat.splits)
    ultimately show ?thesis using reply_lookup [of t p] s
      by (auto simp: mux_ok_def stream_ok_def queue_ok_def releasable_def reply_mux_def slot_users_def packet_users_def live_def
          heap_ok_def reply_heap_def reply_packet_def count_if_replicate
          M7MUX_STREAM_READY_QUEUE_CAPACITY_def)
  qed
  then show ?thesis
    by (simp add: client_ok_def users_ok_def reply_client_def sample_client_def session_refs_def Runtime.zero_session_def
       sample_mux_context_def)
qed

definition early_turn :: pump_turn where
  "early_turn = late_turn\<lparr>pt_now := 2000\<rparr>"

lemma expire_nothing:
  "\<forall>i \<in> set is. \<not> m7mux_stream_is_expired (sm_ready_queue st ! i) now \<Longrightarrow> stream_expire_loop reg now is n st h = (n, st, h)"
  by (induction "is") auto

lemma reply_not_expired: "m7mux_stream_expire reg (mu_stream reply_mux) 5000 h = (0, mu_stream reply_mux, h)"
proof -
  have "\<not> m7mux_stream_is_expired (sm_ready_queue (mu_stream reply_mux) ! i) 5000" if "i < 64" for i
    using that by (cases i) (simp_all add: reply_mux_def m7mux_stream_is_expired_def reply_packet_def zero_recv_def M7MUX_STREAM_EXPIRE_AFTER_MS_def)
  then show ?thesis unfolding m7mux_stream_expire_def
    by (intro expire_nothing) (auto simp: M7MUX_STREAM_READY_QUEUE_CAPACITY_def)
qed

lemma reply_pump:
  "\<exists>rc mux1. pump_client sample_client_env d early_turn (reply_client p) reply_mux = (rc, (reply_client p)\<lparr>kc_mux := Some mux1\<rparr>) \<and>
     0 \<le> rc \<and> mu_stream mux1 = mu_stream reply_mux"
proof -
  let ?reg = "registry_at sample_client_env 5 (reply_client p)"
  have ing: "m7mux_ingress_drain (mu_ingress reply_mux\<lparr>is_socket_fd := 3\<rparr>) = (None, mu_ingress reply_mux\<lparr>is_socket_fd := 3\<rparr>)"
    by (simp add: reply_mux_def zero_mux_def m7mux_ingress_drain_def m7mux_ingress_queue_pop_def m7mux_ingress_state_init_def)
  obtain n se where se: "m7mux_session_expire (mu_session reply_mux) 5000 = (n, se)" by fastforce
  define st where "st = reply_mux\<lparr>mu_session := se, mu_ingress := (mu_ingress reply_mux)\<lparr>is_socket_fd := 3\<rparr>\<rparr>"
  have s: "mu_stream st = mu_stream reply_mux" "mu_egress st = mu_egress reply_mux" by (simp_all add: st_def)
  have out: "\<not> m7mux_outbox_has_pending mux" if "mu_egress mux = mu_egress reply_mux" for mux
    using that by (simp add: m7mux_outbox_has_pending_def reply_mux_def zero_mux_def m7mux_egress_state_init_def egress_ready_def)
  have flush: "m7mux_flush_outbox g mux now w t sends = (w, t, mux, sends, [])" if "mu_egress mux = mu_egress reply_mux" for g mux now w t sends
    using out [OF that] by (simp add: m7mux_flush_outbox_def)
  have drain: "inbox_drain_loop g ?reg c 0 w st zero_control (reply_heap p) = (True, w, st, zero_control, reply_heap p)" for g c w
    using ing by (subst inbox_drain_loop.simps) (simp add: st_def)
  have co: "co_connected (mu_connect reply_mux)" "co_socket_fd (mu_connect reply_mux) = 3" "is_queue_count (mu_ingress reply_mux) = 0"
    by (simp_all add: reply_mux_def zero_mux_def m7mux_ingress_state_init_def)
  have ib: "m7mux_inbox_pump sample_mux_context ?reg ntop reply_mux t (pt_env early_turn) (reply_heap p) =
      (of_bool (0 < n), st, reply_heap p, [])" for ntop t
    using drain se reply_not_expired [of ?reg "reply_heap p"] s co
    by (simp add: m7mux_inbox_pump_def m7mux_ingress_pump_def early_turn_def late_turn_def sample_mux_context_def Let_def st_def)
  have pump: "m7mux_pump sample_mux_context ?reg ntop reply_mux t (pt_env early_turn) a b c (reply_heap p) =
      (of_bool (0 < n), st, reply_heap p, [])" for ntop t a b c
    using ib flush s co by (simp add: m7mux_pump_def)
  have "pump_client sample_client_env d early_turn (reply_client p) reply_mux =
      (of_bool (0 < n), (reply_client p)\<lparr>kc_mux := Some st\<rparr>)"
    using pump by (simp add: pump_client_def early_turn_def late_turn_def reply_client_def sample_client_def)
  then show ?thesis using s by auto
qed

definition sample_request :: M7MuxUserSendData where
  "sample_request = snd (app_transmit_build_m7mux_send_packet sample_client_env sample_opts ''10.0.0.2'')"

definition okay_payload :: "u8 list" where
  "okay_payload = [SL_KNOCK_RESPONSE_STATUS_OK, 9, 0, 104, 105]"

lemma sample_request_simps:
  "us_user_id sample_request = 7" "us_action_id sample_request = 9" "us_challenge sample_request = 77"
  by (simp_all add: sample_request_def app_transmit_build_m7mux_send_packet_def Let_def sample_client_env_def)

lemma okay_text: "app_transmit_response_copy_text SHARED_KNOCK_CODEC_PACKET_MAX_SIZE [104, 105] = ''hi''"
  by code_simp

lemma okay_accepted:
  "app_transmit_process_mux_response sample_evp True sample_opts session (reply_packet\<lparr>rp_user := None\<rparr>) sample_request
     (Some (reply_data okay_payload)) = (Some (0, ''OK hi'' @ [nl]), False)"
proof -
  have "\<exists>d. siglatch_openssl_digest_array sample_evp items = Some d" if "items \<noteq> []" for items
    using that by (simp add: siglatch_openssl_digest_array_def sample_evp_def)
  then have "\<exists>d. shared_knock_digest_generate sample_evp True pkt = Some d" if "kp_payload_len pkt = 5" for pkt
    using that by (simp add: shared_knock_digest_generate_def KNOCK_PAYLOAD_SIZE_def knock_items_def)
  then have "response_signature_ok sample_evp HMAC_MODE_NORMAL session (shared_knock_digest_generate sample_evp True pkt) (replicate 32 1)"
    if "kp_payload_len pkt = 5" for pkt
    using that by (fastforce simp: response_signature_ok_def shared_knock_digest_validate_def sample_evp_def)
  then show ?thesis
    by (simp add: app_transmit_process_mux_response_def Let_def app_transmit_m7mux_rehydrate_v1_def reply_data_def
        app_transmit_response_validate_signature_def check_response_def sample_request_simps okay_payload_def payload_array_def
        app_transmit_response_print_payload_def SL_KNOCK_RESPONSE_PAYLOAD_HEADER_SIZE_def SL_KNOCK_RESPONSE_ACTION_ID_def
        SL_KNOCK_RESPONSE_STATUS_OK_def okay_text zero_user_def)
qed

text \<open>The reply is drained by the first turn and printed; the second turn is past the deadline.\<close>

lemma okay_received:
  "\<exists>k'. receive_replies sample_client_env [early_turn, late_turn] sample_opts sample_request (reply_client okay_payload) = Some (0, k') \<and>
     kc_out k' = ''OK hi'' @ [nl]"
proof -
  let ?k = "reply_client okay_payload"
  obtain rc mux1 where p: "pump_client sample_client_env 500 early_turn ?k reply_mux = (rc, ?k\<lparr>kc_mux := Some mux1\<rparr>)"
      "0 \<le> rc" "mu_stream mux1 = mu_stream reply_mux" using reply_pump by blast
  have reg: "registry_at sample_client_env t (?k\<lparr>kc_mux := m\<rparr>) = registry_at sample_client_env t ?k" for t m
    by (simp add: registry_at_def)
  obtain mux2 users2 where d: "m7mux_inbox_drain (registry_at sample_client_env 5 ?k) True mux1 (reply_heap okay_payload) =
      (Some (reply_packet\<lparr>rp_user := None\<rparr>, Some (reply_data okay_payload)), mux2, users2)"
      "\<not> m7mux_inbox_has_pending mux2" "m7mux_inbox_has_pending mux1" using reply_drained [OF p(3)] by blast
  let ?w = "\<lparr>wr_client = ?k\<lparr>kc_mux := Some mux1\<rparr>, wr_status = 1, wr_count = 0\<rparr>"
  have k: "kc_users ?k = reply_heap okay_payload" "kc_mux ?k = Some reply_mux" "kc_out ?k = []" "kc_overrun ?k = False"
    by (simp_all add: reply_client_def sample_client_def)
  have ev: "se_evp (xe_startup sample_client_env) = sample_evp" "se_digest (xe_startup sample_client_env)" "xe_start_ms sample_client_env = 1000"
    by (simp_all add: sample_client_env_def)
  have one: "drain_replies sample_client_env 5 sample_opts sample_request mux1 ?w =
      drain_replies sample_client_env 5 sample_opts sample_request mux2
        \<lparr>wr_client = ?k\<lparr>kc_mux := Some mux2, kc_users := users2, kc_out := ''OK hi'' @ [nl], kc_overrun := False\<rparr>,
         wr_status = 0, wr_count = 1\<rparr>"
    using d k ev okay_accepted by (subst drain_replies.simps) (simp add: reg Let_def)
  then have two: "drain_replies sample_client_env 5 sample_opts sample_request mux1 ?w =
        \<lparr>wr_client = ?k\<lparr>kc_mux := Some mux2, kc_users := users2, kc_out := ''OK hi'' @ [nl], kc_overrun := False\<rparr>,
         wr_status = 0, wr_count = 1\<rparr>"
    using d(2) by (subst (asm) (2) drain_replies.simps) simp
  have t: "pt_now early_turn = 2000" "pt_time early_turn = 5" "pt_now late_turn = 5000" by (simp_all add: early_turn_def late_turn_def)
  have w: "wait_replies sample_client_env 2500 sample_opts sample_request [early_turn, late_turn] \<lparr>wr_client = ?k, wr_status = 1, wr_count = 0\<rparr> =
      Some (drain_replies sample_client_env 5 sample_opts sample_request mux1 ?w)"
    using p(1,2) k(2) t two by simp
  show ?thesis
    unfolding receive_replies_def ev using w two by (simp add: KNOCKER_RESPONSE_TIMEOUT_MS_def)
qed

end
