(* ===== verification/Client_Properties.thy ===== *)
theory Client_Properties
  imports Client_Samples Client_Send_Facts Client_Main
begin

text \<open>
  The properties of the client, with their witnesses.
\<close>

section \<open>Aliases\<close>



text \<open>Whatever the files of a host hold, a name resolves to 0, which stands for no
  alias, or to an id that fits the packet, 1 to 65535 for a user and 1 to 255 for an action; and a name with a
  comma, a line feed or a zero character, or of more than 127 characters, never resolves, although the client
  accepts it for an alias and reports that the alias is set.\<close>

theorem resolved_aliases_in_range:
  "(app_alias_resolve_user env m k host name = 0 \<or>
      app_alias_user_id_in_range (app_alias_resolve_user env m k host name) \<and> plain_token 127 name) \<and>
   (app_alias_resolve_action env m k host name = 0 \<or>
      app_alias_action_id_in_range (app_alias_resolve_action env m k host name) \<and> plain_token 127 name)"
  using alias_lookup_range [of env m _ _ k host name] unfolding resolve_lookup by metis

section \<open>The address to send from\<close>

text \<open>The source address that is saved for a user at a host is the one that is loaded when
  the client sends as that user to that host, and once it is cleared there is none. What is written is kept.\<close>

theorem send_from_roundtrip:
  assumes "disk_keeps env" "app_env_save_host_user_send_from_ip env k host user (dotted a) = (True, k1)"
    "app_env_clear_host_user_send_from_ip env k1 host user = (True, k2)"
  shows "app_env_load_host_user_send_from_ip env k1 host user 64 = (1, dotted a) \<and>
    app_env_load_host_user_send_from_ip env k2 host user 64 = (0, [])"
  using send_from_saved [OF assms(1,2)] send_from_cleared [OF assms(3)] by (rule conjI)

definition saved_disk :: disk where
  "saved_disk = snd (app_env_save_host_user_send_from_ip home_env empty_disk ''h1'' ''bob'' (dotted 0x0A000102))"

lemma send_from_roundtrip_witness:
  "fst (app_env_save_host_user_send_from_ip home_env empty_disk ''h1'' ''bob'' (dotted 0x0A000102)) \<and>
   app_env_load_host_user_send_from_ip home_env saved_disk ''h1'' ''bob'' 64 = (1, dotted 0x0A000102)"
proof -
  have "disk_keeps home_env" by (simp add: disk_keeps_def home_env_def)
  moreover have s: "fst (app_env_save_host_user_send_from_ip home_env empty_disk ''h1'' ''bob'' (dotted 0x0A000102))" by code_simp
  moreover have "fst (app_env_clear_host_user_send_from_ip home_env saved_disk ''h1'' ''bob'')"
    unfolding saved_disk_def by code_simp
  ultimately show ?thesis
    using send_from_roundtrip [of home_env empty_disk "''h1''" "''bob''" "0x0A000102" saved_disk
        "snd (app_env_clear_host_user_send_from_ip home_env saved_disk ''h1'' ''bob'')"]
    by (simp add: saved_disk_def prod_eq_iff)
qed

section \<open>Command lines\<close>

lemma ids_not_cut:
  "x \<le> 65535 \<Longrightarrow> unat (ucast (x :: u32) :: u16) = unat x" "x \<le> 255 \<Longrightarrow> unat (ucast (x :: u32) :: u8) = unat x"
  by (simp_all add: unsigned_ucast_eq word_le_nat_alt take_bit_nat_eq_self)

text \<open>C39: a command line that the client accepts is within the bounds of what it asks for:
  a transmission names a host, a user from 1 to 65535 and an action from 1 to 255, its payload fits, V3 and V4 are
  encrypted and signed and not used for a dead drop, the address to send from is one IPv4 address, and the ids are
  not cut when they are put into the packet; the other commands have their fields.\<close>

theorem client_commands_checked:
  assumes "app_opts_parse_command env m k argv = (True, c)"
    "app_transmit_build_m7mux_send_packet xenv (ak_transmit c) ip = (send, user)"
  shows "command_ok c \<and> (if ak_type c = APP_CMD_TRANSMIT then unat (us_user_id user) = unat (to_user_id (ak_transmit c)) \<and>
    unat (us_action_id user) = unat (to_action_id (ak_transmit c)) \<and> sp_user send = Some user else True)"
proof -
  have ok: "command_ok c" by (rule parse_command_ok [OF assms(1)])
  have u: "us_user_id user = ucast (to_user_id (ak_transmit c))" "us_action_id user = ucast (to_action_id (ak_transmit c))"
    "sp_user send = Some user"
    using assms(2) by (auto simp: app_transmit_build_m7mux_send_packet_def Let_def)
  have "unat (us_user_id user) = unat (to_user_id (ak_transmit c)) \<and> unat (us_action_id user) = unat (to_action_id (ak_transmit c))"
    if "ak_type c = APP_CMD_TRANSMIT"
    using ok that u by (simp add: command_ok_def transmit_ok_def ids_ok_def ids_not_cut)
  then show ?thesis using ok u by simp
qed

lemma client_commands_checked_witness:
  "command_ok (snd (app_opts_parse_command home_env (\<lambda>_. True) empty_disk sample_words))"
proof -
  let ?r = "app_opts_parse_command home_env (\<lambda>_. True) empty_disk sample_words"
  have "?r = (True, snd ?r)" using sample_accepted by (simp add: prod_eq_iff)
  from client_commands_checked [OF this, of sample_client_env "''10.0.0.2''", OF prod.collapse [symmetric]] show ?thesis
    by (rule conjunct1)
qed

section \<open>Transmitting\<close>

text \<open>A client before it transmits, with \<open>S\<close> the open descriptors and \<open>other\<close> the references held elsewhere.\<close>

definition client_starts :: "int set \<Rightarrow> key_refs \<Rightarrow> client \<Rightarrow> bool" where
  "client_starts S other k \<longleftrightarrow> so_open (kc_socks k) = S \<and> kc_refs k = other \<and> session_refs (kc_session k) = {#} \<and>
     kc_codec k = None \<and> kc_mux k = None \<and> (\<exists>oom. kc_users k = empty_heap oom)"

text \<open>A client that has given everything back.\<close>

definition client_released :: "int set \<Rightarrow> key_refs \<Rightarrow> client \<Rightarrow> bool" where
  "client_released S other k \<longleftrightarrow> so_open (kc_socks k) = S \<and> kc_refs k = other \<and> live (kc_users k) = {} \<and>
     kc_codec k = None \<and> kc_mux k = None \<and> session_refs (kc_session k) = {#}"

lemma transmit_releases:
  assumes "kernel_ok (tx_net env)" "client_starts S other k"
    "\<exists>t \<in> set ts. xe_start_ms env + KNOCKER_RESPONSE_TIMEOUT_MS \<le> pt_now t"
  shows "\<exists>status k'. app_transmit_single_packet env t0 ts opts k = Some (status, k') \<and> client_released S other k'"
proof -
  obtain status k' where run: "app_transmit_single_packet env t0 ts opts k = Some (status, k')"
    using single_packet_ends [OF assms(3)] by fastforce
  have "client_ok env S other k" using assms(2) by (auto simp: client_starts_def client_ok_def users_ok_def)
  then obtain fd u where u: "client_ok env (if fd < 0 then S else insert fd S) other u" "fd < 0 \<or> fd \<notin> S"
      "k' = transmit_cleanup env fd u"
    using single_packet_ok [OF assms(1) _ _ _ run] assms(2) unfolding client_starts_def by blast
  have "session_refs (kc_session k') = {#}" using cleanup_ok [OF u(1,2)] u(3) by (simp add: Let_def session_refs_def Runtime.zero_session_def)
  with run cleanup_ok [OF u(1,2)] u(3) show ?thesis by (auto simp: client_released_def Let_def)
qed

text \<open>C38: a process of the client that starts with no module up returns, whatever its command
  line and its files say and whichever modules start, provided the clock reaches the deadline of a transmission;
  however the payload, the keys, the name service, the sockets, the allocator, the codecs, the network and the
  replies behave, no module is up in the end, and every descriptor, every reference to a key and every block of
  user data is given back, with the codec context, the mux and the keys of the session gone. The kernel hands out
  descriptors that are not in use.\<close>

theorem client_releases_everything:
  assumes "kernel_ok (tx_net (ki_transmit env))" "client_starts S other (kp_client p)" "kp_lifecycle p = lifecycle_initial"
    "\<exists>t \<in> set (ki_turns env). xe_start_ms (ki_transmit env) + KNOCKER_RESPONSE_TIMEOUT_MS \<le> pt_now t"
  shows "\<exists>status p'. knock_main env argv p = Some (status, p') \<and> kp_lifecycle p' = lifecycle_initial \<and>
    client_released S other (kp_client p')"
proof -
  have idle: "client_released S other (kp_client p)"
    using assms(2) by (auto simp: client_starts_def client_released_def empty_heap_def live_def)
  have run: "\<exists>status q'. knock_run env argv q = Some (status, q') \<and> client_released S other (kp_client q')"
    if q: "kp_client q = kp_client p" for q
    using knock_run_client [of env argv q] unfolding q
  proof (elim disjE exE conjE)
    fix status q' assume "knock_run env argv q = Some (status, q')" "kp_client q' = kp_client p"
    then show ?thesis using idle by simp
  next
    fix opts u assume "knock_run env argv q = map_option (\<lambda>(status, c). (status, u\<lparr>kp_client := c\<rparr>))
      (app_transmit_single_packet (ki_transmit env) (ki_turn env) (ki_turns env) opts (kp_client p))"
    then show ?thesis using transmit_releases [OF assms(1,2,4), of "ki_turn env" opts] by auto
  qed
  from knock_main_cases [OF assms(3), of env argv] show ?thesis
  proof
    assume "knock_main env argv p = Some (1, p)"
    then show ?thesis using idle assms(3) by blast
  next
    assume "\<exists>lc. knock_main env argv p = map_option (\<lambda>(status, p1). (status, p1\<lparr>kp_lifecycle := lifecycle_initial\<rparr>))
       (knock_run env argv (p\<lparr>kp_lifecycle := lc\<rparr>))"
    then obtain lc where m: "knock_main env argv p = map_option (\<lambda>(status, p1). (status, p1\<lparr>kp_lifecycle := lifecycle_initial\<rparr>))
       (knock_run env argv (p\<lparr>kp_lifecycle := lc\<rparr>))" by blast
    obtain status q where "knock_run env argv (p\<lparr>kp_lifecycle := lc\<rparr>) = Some (status, q)" "client_released S other (kp_client q)"
      using run [of "p\<lparr>kp_lifecycle := lc\<rparr>"] by auto
    with m show ?thesis by auto
  qed
qed

lemma sample_client_starts: "client_starts {0, 1, 2} {#} sample_client"
  by (auto simp: client_starts_def sample_client_def session_refs_def Runtime.zero_session_def)

lemma sample_client_kernel: "kernel_ok (tx_net sample_client_env)"
  using sample_kernel by (simp add: tx_net_def sample_client_env_def sample_env_def)

definition sample_knock :: knock_env where
  "sample_knock = \<lparr>ki_starts = (\<lambda>_. True), ki_disk = home_env, ki_realloc = (\<lambda>_. True), ki_transmit = sample_client_env,
     ki_turn = late_turn, ki_turns = [late_turn]\<rparr>"

definition sample_knocker :: knock_process where
  "sample_knocker = \<lparr>kp_lifecycle = lifecycle_initial, kp_disk = empty_disk, kp_client = sample_client, kp_output_mode = 0\<rparr>"

lemma client_releases_everything_witness:
  "case knock_main sample_knock sample_words sample_knocker of
     None \<Rightarrow> False
   | Some (status, p') \<Rightarrow> kp_lifecycle p' = lifecycle_initial \<and> client_released {0, 1, 2} {#} (kp_client p')"
proof -
  have "\<exists>t \<in> set (ki_turns sample_knock). xe_start_ms (ki_transmit sample_knock) + KNOCKER_RESPONSE_TIMEOUT_MS \<le> pt_now t"
    by (simp add: sample_knock_def late_turn_def sample_client_env_def KNOCKER_RESPONSE_TIMEOUT_MS_def)
  moreover have "ki_transmit sample_knock = sample_client_env" "kp_client sample_knocker = sample_client"
      "kp_lifecycle sample_knocker = lifecycle_initial" by (simp_all add: sample_knock_def sample_knocker_def)
  ultimately have "\<exists>status p'. knock_main sample_knock sample_words sample_knocker = Some (status, p') \<and>
      kp_lifecycle p' = lifecycle_initial \<and> client_released {0, 1, 2} {#} (kp_client p')"
    using client_releases_everything [of sample_knock "{0, 1, 2}" "{#}" sample_knocker] sample_client_kernel sample_client_starts
    by metis
  then show ?thesis by auto
qed

section \<open>Replies\<close>




section \<open>The payload of a V2 reply\<close>

text \<open>A reply of more than 191 bytes, which the codecs of the other versions deliver, is written past the end of the
  packet of V2 when the request was sent with V2, before any of its fields is looked at.\<close>

theorem v2_reply_overruns:
  assumes "\<not> to_dead_drop opts" "to_protocol opts = KNOCK_PROTOCOL_V2" "m7mux_inbox_has_pending mux"
    "m7mux_inbox_drain (registry_at env now (wr_client w)) True mux (kc_users (wr_client w)) = (Some (reply, Some data), mux1, users1)"
    "SHARED_KNOCK_CODEC_V2_FORM1_PAYLOAD_MAX < length (ud_payload data)"
  shows "kc_overrun (wr_client (drain_replies env now opts su mux w))"
proof -
  obtain res ov where p: "app_transmit_process_mux_response (se_evp (xe_startup env)) (se_digest (xe_startup env)) opts
      (kc_session (wr_client w)) reply su (Some data) = (res, ov)" by fastforce
  have ov: "ov" using overrun_cases [of "se_evp (xe_startup env)" "se_digest (xe_startup env)" opts "kc_session (wr_client w)" reply su "Some data"]
      assms(1,2,5) p by simp
  show ?thesis
    by (subst drain_replies.simps)
      (use assms(1,3,4) p ov overrun_stays in \<open>auto simp: Let_def split: option.split\<close>)
qed

end
