(* ===== verification/Spec2Isabelle.thy ===== *)
theory Spec2Isabelle
  imports Mux_Properties Codec_Properties Legacy_Properties Config_Properties Job_Properties Reload_Properties Daemon_Properties Startup_Properties Client_Properties
begin

text \<open>
  siglatch is a daemon that takes signed and encrypted "knock" packets over UDP, and a client,
  \<open>knocker\<close>, that sends them. This library models the code that moves a packet from the client's
  request to the daemon's handlers and back, and proves what it does.

  How the program is put together. A packet to send is serialized by a codec
  (\<open>src/shared/knock/codec\<close>), in one datagram or in fragments, staged in the egress queue of a
  connection (\<open>m7mux/outbox\<close>, \<open>m7mux/egress\<close>) and flushed to the socket. On the other side one turn
  of the mux (\<open>m7mux/m7mux.c\<close>) expires old sessions and packets, reads datagrams into the ingress
  queue, normalizes each through the registry of codecs, registers its session and ingests it into
  the stream, which orders the fragments of a message; the caller then drains packets one by one.
  The daemon turns each into a job, finds its user and action in the configuration, checks its
  signature and the policy, performs the action (a builtin, an object or a program) and stages the
  reply; a builtin may replace the configuration, the listener and the keys while the daemon runs.
  Directories named \<open>m7mux\<close> are under \<open>src/stdlib/protocol/udp\<close>.

  The theories, in the order of their imports:
  \<^item> \<open>Prelude\<close>: word types, big-endian readers and writers, buffers, first-match searches.
  \<^item> \<open>Ring_Queue\<close>: ring arithmetic and the locale \<open>bounded_fifo\<close>, the contract of the circular
    queues; \<open>Ingress\<close> (\<open>m7mux/ingress\<close>) and \<open>Egress\<close> (\<open>m7mux/egress\<close>) interpret it.
  \<^item> \<open>Wire_Types\<close>: the packet structs and the heap of decoded user blocks, in which a double free or
    a use after free sets \<open>uh_fault\<close>.
  \<^item> \<open>Session\<close> (\<open>m7mux/session\<close>): the table of 64 sessions.
  \<^item> \<open>Adapter\<close> (\<open>m7mux/normalize/adapter\<close>): the codec registry and the locale \<open>codec_adapter\<close>, what
    the mux relies on in a codec; \<open>Normalize\<close> (\<open>m7mux/normalize\<close>).
  \<^item> \<open>Stream\<close> (\<open>m7mux/stream\<close>): the ready queue and its trackers; \<open>Stream_Order\<close>, \<open>Stream_Limits\<close>
    and \<open>Stream_Reassembly\<close> prove order, starvation and reassembly.
  \<^item> \<open>Outbox\<close>, \<open>Mux\<close> (\<open>m7mux/outbox\<close>, \<open>m7mux/inbox\<close>, \<open>m7mux/connect\<close>, \<open>m7mux/m7mux.c\<close>): staging, one
    turn of the mux and the life of a connection; its ownership invariant holds over
    every run.
  \<^item> \<open>Nonce\<close> (\<open>src/stdlib/nonce.c\<close>): the replay cache, with the locale \<open>replay_cache\<close>; \<open>Crypto\<close>
    (\<open>src/stdlib/openssl\<close>) and \<open>Digest\<close> (\<open>src/shared/knock/digest.c\<close>): the OpenSSL wrappers and the
    packet digest, over the record \<open>evp\<close> that stands for OpenSSL.
  \<^item> \<open>Codec_Common\<close>, \<open>Codec_V4\<close> (\<open>src/shared/knock/codec/v4\<close>) and \<open>Codec_V4_Facts\<close>: the V4 codec,
    which interprets \<open>codec_adapter\<close>; \<open>Codec_V3\<close>, \<open>Codec_V2\<close>, \<open>Codec_V1\<close> (\<open>codec/v3\<close>, \<open>v2\<close>, \<open>v1\<close>) and
    the theories \<open>Codec_V3_Facts\<close>, \<open>Codec_V2_Facts\<close>: the older codecs, each an
    interpretation of \<open>codec_adapter\<close>, with their round trips. V1 and V2 check the age of a packet,
    so their adapters take the clock. \<open>Detect\<close> (\<open>src/shared/knock/detect.c\<close>): the router that names
    a datagram's codec without keys.
  \<^item> \<open>Delivery\<close>: a message from the client's outbox to the server's stream.
  \<^item> \<open>Cstring\<close> (\<open>src/stdlib/str.c\<close> and the libc functions used), \<open>Ini\<close> (\<open>src/stdlib/parse/ini.c\<close>, with
    the round trip), \<open>Net_Range\<close> (\<open>src/stdlib/net/ip/range\<close>, with the meaning of CIDR ranges).
  \<^item> \<open>Config\<close>, \<open>Config_Load\<close> (\<open>src/siglatch/app/config\<close>, \<open>app/keys\<close>): the server configuration from an
    INI document to its keys; \<open>Config_Facts\<close>: what a loaded configuration guarantees; \<open>Policy\<close>
    (\<open>app/server\<close>, \<open>app/policy\<close>): what it permits.
  \<^item> \<open>Buf_Heap\<close>, \<open>Job\<close>, \<open>Job_Facts\<close>, \<open>Job_Queue\<close> (\<open>app/daemon/job.c\<close>): the queue of decoded
    requests, the ownership of its heap buffers, and its instance of \<open>bounded_fifo\<close>.
  \<^item> \<open>Codec_Context\<close> (\<open>src/shared/knock/codec/context.c\<close>): the keys shared with the configuration.
  \<^item> \<open>Digest_Legacy\<close>: the digests of V1 and V2; \<open>Payload_Text\<close> (\<open>src/stdlib/base64.c\<close>, \<open>app/payload/reply.c\<close>):
    base64, with its inverse, and replies; \<open>Inbound\<close> (\<open>app/inbound/crypto\<close>, \<open>app/daemon/auth.c\<close>,
    \<open>request.c\<close>, \<open>policy.c\<close>): who signed a job and whether it is permitted.
  \<^item> \<open>Listener\<close> (\<open>app/udp/udp.c\<close>): the socket of the daemon over a model of the kernel's descriptors;
    \<open>Runtime\<close> (\<open>app/runtime/runtime.c\<close>): replacing the configuration; \<open>Runtime_Facts\<close>: the
    ways a reload can end and the invariant of the daemon.
  \<^item> \<open>Builtins\<close> (\<open>app/builtin\<close>) and \<open>Builtin_Facts\<close>: the actions that the daemon performs itself;
    \<open>Handlers\<close> (\<open>app/payload\<close>, \<open>app/object\<close>): programs, objects and dead drops.
  \<^item> \<open>Daemon\<close> (\<open>app/daemon/payload.c\<close>), \<open>Daemon_Facts\<close>: one job; \<open>Runner\<close> (\<open>app/daemon/runner.c\<close>,
    \<open>helper.c\<close>, \<open>tick.c\<close>), \<open>Runner_Facts\<close>: the turns of the daemon from its set-up to its clean-up.
  \<^item> \<open>Argv\<close> (\<open>src/stdlib/argv.c\<close>) and \<open>Argv_Facts\<close>: the command-line parser, its round trip and what it
    accepts; \<open>Opts\<close> (\<open>siglatch/app/opts/opts.c\<close>): the options of the daemon; \<open>Signals\<close>
    (\<open>src/stdlib/signal.c\<close>, \<open>app/signal/signal.c\<close>): the signal handler and its installation.
  \<^item> \<open>Lifecycle\<close> (\<open>siglatch/lib.c\<close>, \<open>lifecycle.c\<close>, \<open>app/app.c\<close>, \<open>shared/shared.c\<close>): which modules are up;
    \<open>Startup\<close> (\<open>app/startup/startup.c\<close>, \<open>app/workspace/workspace.c\<close>, \<open>siglatch/main.c\<close>) and \<open>Startup_Facts\<close>:
    the process from its command line to its exit, around the loop of \<open>Runner\<close>.
  \<^item> \<open>Client_Env\<close> (\<open>src/knock/app/env/env.c\<close>, \<open>src/stdlib/env.c\<close>): the files of the client
    over a model of the disk, and what is saved is loaded; \<open>Client_Alias\<close> (\<open>knock/app/alias\<close>): the alias maps and the commands on them.
    \<open>Client_Alias_Facts\<close> has the round trip of a map, the locale \<open>alias_store\<close> with its interpretations for
    users and for actions, and what a whole command does.
  \<^item> \<open>Client_Opts\<close>, \<open>Client_Parse\<close> (\<open>knock/app/opts\<close>, \<open>knock/app/error\<close>): from the command line to a checked
    command, and what its checks guarantee.
  \<^item> \<open>Client_Reply\<close>, \<open>Client_Transmit\<close> (\<open>knock/app/transmit\<close>): the checks on a reply; the set-up of keys, sockets and
    codecs and a whole transmission. \<open>Client_Send_Facts\<close>: what a transmission gives back and what is printed of
    the packets that arrive. \<open>Client_Main\<close> (\<open>knock/main.c\<close>, \<open>lib.c\<close>, \<open>app/app.c\<close>): the client from its
    command line to its exit.
  \<^item> \<open>Samples\<close>, \<open>Client_Samples\<close>: concrete inputs for witnesses; \<open>Mux_Properties\<close>, \<open>Codec_Properties\<close>,
    \<open>Config_Properties\<close>, \<open>Legacy_Properties\<close> (the older codecs), \<open>Job_Properties\<close>, \<open>Reload_Properties\<close>,
    \<open>Daemon_Properties\<close>, \<open>Startup_Properties\<close>, \<open>Client_Properties\<close> and this theory: the properties.

  Conventions. A C buffer with its length is a byte list, a \<open>char[64]\<close> a string cut to 63
  characters, a pointer into a table an index, an \<open>int\<close> flag a \<open>bool\<close>; ids, counters and times keep
  their width. What the code reads from outside is an argument: clocks, the results of \<open>poll\<close>,
  \<open>recvfrom\<close> and \<open>sendto\<close> (scripts of events), whether an allocation succeeds, the bytes that
  \<open>RAND_bytes\<close> returns. Module-level contexts are arguments. Loops are recursive functions that
  terminate, so no fuel is used; the one loop that may not end, the doubling of a buffer's capacity, is
  a \<open>partial_function\<close>, proved to return from a positive capacity. The loop of the daemon runs over the list of its
  turns, which the signal that stops it ends; each turn has its clock, at which the codecs work.
  The waiting loop of the client runs over the list of what its pumps meet in the same way; it is proved to
  return once the clock reaches the deadline.

  Laws of OpenSSL that the codec properties use are named: \<open>gcm_lengths\<close>, \<open>gcm_inverts\<close>, \<open>rsa_pair\<close>,
  \<open>rsa_lengths\<close> (a ciphertext has the size of the key), \<open>rand_lengths\<close>; \<open>Samples\<close> gives an instance that has them all.

  Not modelled: logging and debug output, the key files and OpenSSL itself, the socket calls, and
  the parts listed with their reasons in the manifest.
\<close>

section \<open>A message from end to end\<close>

text \<open>
  C1: a client stages a packet in \<open>n\<close> fragments through the V4 codec and flushes
  them; the network delivers the datagrams to a new server connection in any order; the inbox of the
  server takes all of them, and draining \<open>n\<close> times gives the fragments in order, whose payloads
  make up the payload that was staged.
\<close>

theorem v4_message_delivered:
  assumes "v4_pair E client server" "shared_knock_codec_v4_copy_send_packet send = Some normal"
    and "length (nu_hmac normal) = 32" "length (nu_payload normal) \<le> M7MUX_USER_DATA_PAYLOAD_MAX"
    and "nu_session_id normal \<noteq> 0" "nu_stream_id normal \<noteq> 0" "nu_message_id normal \<noteq> 0"
    and "1 < n" "n \<le> M7MUX_STREAM_READY_QUEUE_CAPACITY"
    and "egress_ok (mu_egress cm)" "egress_items (mu_egress cm) = []"
    and "m7mux_outbox_stage_fragments (v4_registry E has client cst) c cm send n r = (True, cm1, r1)"
    and "flush_egress g_c (mu_egress cm1) sock now (replicate n True) = (k, eg, rest, sent)" "0 \<le> sock" "mx_udp g_c"
    and "ingress_ok ig" "mset (map in_buffer (ingress_items ig)) = mset (map (\<lambda>(ip, port, bytes). bytes) sent)"
  shows "\<exists>did sm control h rs st' h'.
    inbox_drain_loop g_s (v4_registry E has' server sst) clock 0 False (listening ig) zero_control (empty_heap (\<lambda>_. False)) =
      (True, did, sm, control, h) \<and>
    stream_drains (v4_registry E has' server sst) n (mu_stream sm) h = (rs, st', h') \<and> length rs = n \<and>
    concat (map (\<lambda>(p, u). case u of None \<Rightarrow> [] | Some d \<Rightarrow> ud_payload d) rs) = nu_payload normal"
  by (rule message_delivery [OF assms])

theorem v4_message_delivered_witness:
  "\<exists>cm1 k eg rest sent ig did sm control h rs st' h'.
    m7mux_outbox_stage_fragments (v4_registry sample_evp True client_context zero_codec_state) True
      zero_mux sample_send 2 0 = (True, cm1, 6) \<and>
    flush_egress sample_mux_context (mu_egress cm1) 3 0 (replicate 2 True) = (k, eg, rest, sent) \<and>
    map in_buffer (ingress_items ig) = rev (map (\<lambda>(ip, port, bytes). bytes) sent) \<and>
    inbox_drain_loop sample_mux_context (v4_registry sample_evp True server_context zero_codec_state) (\<lambda>_. 0) 0 False
      (listening ig) zero_control (empty_heap (\<lambda>_. False)) = (True, did, sm, control, h) \<and>
    stream_drains (v4_registry sample_evp True server_context zero_codec_state) 2 (mu_stream sm) h = (rs, st', h') \<and>
    concat (map (\<lambda>(p, u). case u of None \<Rightarrow> [] | Some d \<Rightarrow> ud_payload d) rs) = [1, 2, 3]"
proof -
  obtain cm1 where st: "m7mux_outbox_stage_fragments (v4_registry sample_evp True client_context zero_codec_state) True
    zero_mux sample_send 2 0 = (True, cm1, 6)" by (rule sample_stage)
  obtain k eg rest sent where fl: "flush_egress sample_mux_context (mu_egress cm1) 3 0 (replicate 2 True) = (k, eg, rest, sent)"
    by (metis prod_cases4)
  have "length sent \<le> 64" by (rule sample_sent_length [OF st fl])
  then obtain ig where ig: "ingress_ok ig"
    "ingress_items ig = map (\<lambda>(ip, port, bytes). zero_ingress\<lparr>in_buffer := bytes\<rparr>) (rev sent)"
    using ingress_of_list [of "map (\<lambda>(ip, port, bytes). zero_ingress\<lparr>in_buffer := bytes\<rparr>) (rev sent)"]
    by (auto simp: M7MUX_INGRESS_QUEUE_CAPACITY_def)
  obtain normal where n: "shared_knock_codec_v4_copy_send_packet sample_send = Some normal"
    "nu_hmac normal = replicate 32 0" "nu_payload normal = [1, 2, 3]" "nu_session_id normal = 11"
    "nu_stream_id normal = 1" "nu_message_id normal = 5"
    by (simp add: shared_knock_codec_v4_copy_send_packet_def sample_send_def buffer_sizes)
  have bytes: "map in_buffer (ingress_items ig) = rev (map (\<lambda>(ip, port, bytes). bytes) sent)"
    by (simp add: ig(2) rev_map split_def comp_def)
  have "\<exists>did sm control h rs st' h'.
    inbox_drain_loop sample_mux_context (v4_registry sample_evp True server_context zero_codec_state) (\<lambda>_. 0) 0 False
      (listening ig) zero_control (empty_heap (\<lambda>_. False)) = (True, did, sm, control, h) \<and>
    stream_drains (v4_registry sample_evp True server_context zero_codec_state) 2 (mu_stream sm) h = (rs, st', h') \<and>
    length rs = 2 \<and> concat (map (\<lambda>(p, u). case u of None \<Rightarrow> [] | Some d \<Rightarrow> ud_payload d) rs) = nu_payload normal"
    by (rule v4_message_delivered [OF sample_pair n(1) _ _ _ _ _ _ _ zero_mux_egress(1,2) st fl _ _ ig(1)])
      (simp_all add: n buffer_sizes M7MUX_STREAM_READY_QUEUE_CAPACITY_def sample_mux_context_def bytes)
  with st fl bytes show ?thesis unfolding n(3) by blast
qed

end
